(* ===== verification/Prelude.thy ===== *)
theory Prelude
  imports Main "HOL-Library.Sublist"
begin

text \<open>
  Shared automation of the development: the named fact collections the component
  theories add to, and generic lemmas on lists, options and association lists that more
  than one component uses. A JavaScript object is an association list in insertion
  order (\<open>obj_get\<close>, \<open>obj_set\<close>), because \<open>Object.entries\<close> and the spread operator
  depend on that order; a \<open>Map\<close> is the same list, a \<open>Set\<close> a list without repetitions.
\<close>

named_theorems js_defs \<open>definitions of JavaScript library functions, for unfolding\<close>
named_theorems js_intro \<open>introduction rules shared by the component proofs\<close>

type_synonym ('k, 'v) obj = "('k \<times> 'v) list"

subsection \<open>Objects and maps in insertion order\<close>

definition obj_get :: "('k, 'v) obj \<Rightarrow> 'k \<Rightarrow> 'v option" where
  "obj_get ob k = map_of ob k"

text \<open>Assigning a key keeps its position when it exists and appends it otherwise.\<close>

fun obj_set :: "'k \<Rightarrow> 'v \<Rightarrow> ('k, 'v) obj \<Rightarrow> ('k, 'v) obj" where
  "obj_set k v [] = [(k, v)]"
| "obj_set k v ((k', v') # ob) = (if k' = k then (k, v) # ob else (k', v') # obj_set k v ob)"

text \<open>\<open>{...a, ...b}\<close> and \<open>Object.fromEntries\<close> assign entry after entry.\<close>

definition obj_spread :: "('k, 'v) obj \<Rightarrow> ('k, 'v) obj \<Rightarrow> ('k, 'v) obj" where
  "obj_spread a b = fold (\<lambda>(k, v). obj_set k v) b a"

definition from_entries :: "('k \<times> 'v) list \<Rightarrow> ('k, 'v) obj" where
  "from_entries es = obj_spread [] es"

definition obj_delete :: "'k \<Rightarrow> ('k, 'v) obj \<Rightarrow> ('k, 'v) obj" where
  "obj_delete k ob = filter (\<lambda>(k', _). k' \<noteq> k) ob"

lemma obj_get_Nil [simp]: "obj_get [] k = None"
  by (simp add: obj_get_def)

lemma obj_get_set [simp]: "obj_get (obj_set k v ob) k' = (if k' = k then Some v else obj_get ob k')"
  by (induction k v ob rule: obj_set.induct) (auto simp: obj_get_def)

lemma obj_get_delete [simp]:
  "obj_get (obj_delete k ob) k' = (if k' = k then None else obj_get ob k')"
  by (induction ob) (auto simp: obj_get_def obj_delete_def)

lemma keys_obj_set: "set (map fst (obj_set k v ob)) = insert k (set (map fst ob))"
  by (induction k v ob rule: obj_set.induct) auto

lemma distinct_obj_set [js_intro]: "distinct (map fst ob) \<Longrightarrow> distinct (map fst (obj_set k v ob))"
proof (induction k v ob rule: obj_set.induct)
  case (2 k v k' v' ob)
  then show ?case using keys_obj_set [of k v ob] by auto
qed simp

lemma obj_get_spread:
  "obj_get (obj_spread a b) k = (case map_of (rev b) k of None \<Rightarrow> obj_get a k | Some v \<Rightarrow> Some v)"
proof (induction b arbitrary: a)
  case Nil
  then show ?case by (simp add: obj_spread_def)
next
  case (Cons e b)
  obtain k' v' where e: "e = (k', v')" by (cases e)
  have "obj_spread a (e # b) = obj_spread (obj_set k' v' a) b"
    by (simp add: obj_spread_def e)
  then show ?case
    by (auto simp: Cons.IH e map_add_def split: option.splits)
qed

lemma distinct_obj_spread [js_intro]:
  "distinct (map fst a) \<Longrightarrow> distinct (map fst (obj_spread a b))"
proof (induction b arbitrary: a)
  case (Cons e b)
  obtain k v where e: "e = (k, v)" by (cases e)
  from Cons.prems have "distinct (map fst (obj_set k v a))" by (rule distinct_obj_set)
  from Cons.IH [OF this] show ?case by (simp add: obj_spread_def e)
qed (simp add: obj_spread_def)

lemma obj_set_fresh: "k \<notin> fst ` set ob \<Longrightarrow> obj_set k v ob = ob @ [(k, v)]"
  by (induction k v ob rule: obj_set.induct) auto

lemma obj_spread_fresh:
  "distinct (map fst (a @ b)) \<Longrightarrow> obj_spread a b = a @ b"
proof (induction b arbitrary: a)
  case (Cons e b)
  obtain k v where e: "e = (k, v)" by (cases e)
  from Cons.prems have "k \<notin> fst ` set a" by (force simp: e)
  then have "obj_set k v a = a @ [e]" by (simp add: obj_set_fresh e)
  with Cons.IH [of "a @ [e]"] Cons.prems show ?case
    by (simp add: obj_spread_def e)
qed (simp add: obj_spread_def)

lemma from_entries_distinct [simp]: "distinct (map fst es) \<Longrightarrow> from_entries es = es"
  using obj_spread_fresh [of "[]" es] by (simp add: from_entries_def)

lemma distinct_from_entries: "distinct (map fst (from_entries es))"
  by (simp add: from_entries_def distinct_obj_spread)

subsection \<open>Sets as lists in insertion order\<close>

text \<open>\<open>Array.from(new Set(xs))\<close>: the first occurrence of every element, in order.\<close>

definition set_insert :: "'a \<Rightarrow> 'a list \<Rightarrow> 'a list" where
  "set_insert x xs = (if x \<in> set xs then xs else xs @ [x])"

definition uniq :: "'a list \<Rightarrow> 'a list" where
  "uniq xs = fold set_insert xs []"

lemma set_fold_set_insert: "set (fold set_insert xs ys) = set ys \<union> set xs"
  by (induction xs arbitrary: ys) (auto simp: set_insert_def)

lemma distinct_fold_set_insert: "distinct ys \<Longrightarrow> distinct (fold set_insert xs ys)"
  by (induction xs arbitrary: ys) (auto simp: set_insert_def)

lemma set_uniq [simp]: "set (uniq xs) = set xs"
  by (simp add: uniq_def set_fold_set_insert)

lemma distinct_uniq [simp]: "distinct (uniq xs)"
  by (simp add: uniq_def distinct_fold_set_insert)

lemma uniq_distinct_aux: "distinct (ys @ xs) \<Longrightarrow> fold set_insert xs ys = ys @ xs"
  by (induction xs arbitrary: ys) (auto simp: set_insert_def)

lemma uniq_distinct: "distinct xs \<Longrightarrow> uniq xs = xs"
  using uniq_distinct_aux [of "[]" xs] by (simp add: uniq_def)

lemma length_uniq_le: "length (uniq xs) \<le> length xs"
proof -
  have "length (uniq xs) = card (set xs)"
    using distinct_card [of "uniq xs"] by simp
  then show ?thesis by (simp add: card_length)
qed

subsection \<open>Lists\<close>

lemma sum_list_filter_partition:
  "length (filter P xs) + length (filter (\<lambda>x. \<not> P x) xs) = length xs"
  by (rule sum_length_filter_compl)

lemma find_Some_set: "find P xs = Some x \<Longrightarrow> x \<in> set xs \<and> P x"
  by (induction xs) (auto split: if_splits)

end
