(* ===== verification/JsNumber.thy ===== *)
theory JsNumber
  imports Complex_Main Prelude
begin

text \<open>
  JavaScript numbers. A finite double is represented by the rational it denotes; every
  arithmetic operation of the code is the exact rational operation followed by \<open>fl\<close>,
  the rounding to the nearest value with a 53-bit significand, ties to even (IEEE 754
  binary64). The exponent range is not bounded: the code never works near 2^1024 or
  2^-1022. \<open>-0\<close> is identified with \<open>0\<close>. \<open>Math.floor\<close>, \<open>Math.ceil\<close>, \<open>Math.round\<close>,
  \<open>toFixed\<close> and the conversion of a number to a string follow ECMA-262. The lemmas show
  that \<open>fl\<close> is monotone, odd and exact on the integers up to 2^53, which is all the
  components need.
\<close>

subsection \<open>The binary exponent of a positive rational\<close>

function ilog2 :: "int \<Rightarrow> nat" where
  "ilog2 n = (if n < 2 then 0 else Suc (ilog2 (n div 2)))"
  by pat_completeness auto
termination
  by (relation "measure nat") auto

declare ilog2.simps [simp del]

lemma ilog2_bounds: "0 < n \<Longrightarrow> 2 ^ ilog2 n \<le> n \<and> n < 2 ^ Suc (ilog2 n)"
proof (induction n rule: ilog2.induct)
  case (1 n)
  show ?case
  proof (cases "n < 2")
    case True
    with "1.prems" show ?thesis by (simp add: ilog2.simps [of n])
  next
    case False
    then have "0 < n div 2" by simp
    from "1.IH" [OF False this] have "2 ^ ilog2 (n div 2) \<le> n div 2"
      and "n div 2 < 2 ^ Suc (ilog2 (n div 2))" by simp_all
    then have "2 * 2 ^ ilog2 (n div 2) \<le> n" and "n < 2 * 2 ^ Suc (ilog2 (n div 2))" by linarith+
    with False show ?thesis by (simp add: ilog2.simps [of n])
  qed
qed

definition expo :: "rat \<Rightarrow> int" where
  "expo x = (let (a, b) = quotient_of x;
                 k = int (ilog2 a) - int (ilog2 b)
             in if 2 powi k \<le> x then k else k - 1)"

lemma powi_nat_diff: "(2::rat) powi (int m - int n) = 2 ^ m / 2 ^ n"
  by (simp add: power_int_diff)

lemma expo_bounds:
  assumes "0 < x"
  shows "2 powi expo x \<le> x" and "x < 2 powi (expo x + 1)"
proof -
  obtain a b where q: "quotient_of x = (a, b)" by (cases "quotient_of x")
  have b: "0 < b" using quotient_of_denom_pos [OF q] .
  have x: "x = of_int a / of_int b" using quotient_of_div [OF q] .
  with assms b have a: "0 < a" by (simp add: zero_less_divide_iff)
  define m n where "m = ilog2 a" and "n = ilog2 b"
  define k where "k = int m - int n"
  have ai: "(2::int) ^ m \<le> a" "a < 2 ^ Suc m" "(2::int) ^ n \<le> b" "b < 2 ^ Suc n"
    using ilog2_bounds [OF a] ilog2_bounds [OF b] by (auto simp: m_def n_def)
  have r: "(2::rat) ^ m \<le> of_int a" "of_int a < (2::rat) ^ Suc m"
    "(2::rat) ^ n \<le> of_int b" "of_int b < (2::rat) ^ Suc n"
    using ai by (metis of_int_le_iff of_int_less_iff of_int_numeral of_int_power)+
  have bp: "(0::rat) < of_int b" using b by simp
  have lo: "2 powi (k - 1) \<le> x"
  proof -
    have "2 powi (k - 1) = (2::rat) ^ m / 2 ^ Suc n"
      using powi_nat_diff [of m "Suc n"] by (simp add: k_def algebra_simps)
    also have "\<dots> \<le> of_int a / of_int b"
      by (rule frac_le) (use r bp a in auto)
    finally show ?thesis by (simp add: x)
  qed
  have hi: "x < 2 powi (k + 1)"
  proof -
    have "x < 2 ^ Suc m / 2 ^ n"
      unfolding x by (rule frac_less) (use r a in auto)
    also have "\<dots> = 2 powi (k + 1)"
      using powi_nat_diff [of "Suc m" n] by (simp add: k_def algebra_simps)
    finally show ?thesis .
  qed
  have e: "expo x = (if 2 powi k \<le> x then k else k - 1)"
    by (simp add: expo_def q k_def m_def n_def Let_def)
  show "2 powi expo x \<le> x" and "x < 2 powi (expo x + 1)"
    using lo hi by (auto simp: e)
qed

lemma expo_mono:
  assumes "0 < x" and "x \<le> y"
  shows "expo x \<le> expo y"
proof (rule ccontr)
  assume "\<not> expo x \<le> expo y"
  then have "(2::rat) powi (expo y + 1) \<le> 2 powi expo x"
    by (intro power_int_increasing) auto
  moreover have "2 powi expo x \<le> x" "y < 2 powi (expo y + 1)"
    using expo_bounds [of x] expo_bounds [of y] assms by auto
  ultimately show False using assms by linarith
qed

subsection \<open>Rounding to an integer, ties to even\<close>

definition round_even :: "rat \<Rightarrow> int" where
  "round_even x = (let f = \<lfloor>x\<rfloor>; d = x - of_int f
                   in if d < 1/2 then f else if d > 1/2 then f + 1
                      else if even f then f else f + 1)"

lemma round_even_of_int [simp]: "round_even (of_int n) = n"
  by (simp add: round_even_def)

lemma round_even_bounds: "\<lfloor>x\<rfloor> \<le> round_even x" "round_even x \<le> \<lfloor>x\<rfloor> + 1"
  by (auto simp: round_even_def Let_def)

lemma round_even_mono:
  assumes "x \<le> y"
  shows "round_even x \<le> round_even y"
proof (cases "\<lfloor>x\<rfloor> = \<lfloor>y\<rfloor>")
  case True
  then show ?thesis using assms by (auto simp: round_even_def Let_def)
next
  case False
  then have "\<lfloor>x\<rfloor> + 1 \<le> \<lfloor>y\<rfloor>" using floor_mono [OF assms] by linarith
  then show ?thesis
    using round_even_bounds(2) [of x] round_even_bounds(1) [of y] by linarith
qed

lemma round_even_minus: "round_even (- x) = - round_even x"
proof (cases "x = of_int \<lfloor>x\<rfloor>")
  case True
  then show ?thesis by (metis of_int_minus round_even_of_int)
next
  case False
  then have "\<lfloor>- x\<rfloor> = - \<lfloor>x\<rfloor> - 1"
    using of_int_floor_le [of x] floor_correct [of x]
    by (intro floor_unique) (auto simp: less_le)
  then show ?thesis by (auto simp: round_even_def Let_def)
qed

subsection \<open>Rounding to the nearest double\<close>

definition fl :: "rat \<Rightarrow> rat" where
  "fl x = (if x = 0 then 0
           else let u = 2 powi (expo \<bar>x\<bar> - 52) in of_int (round_even (x / u)) * u)"

lemma fl_0 [simp]: "fl 0 = 0"
  by (simp add: fl_def)

lemma fl_minus [simp]: "fl (- x) = - fl x"
  by (simp add: fl_def Let_def round_even_minus)

lemma fl_pos_bounds:
  assumes "0 < x"
  shows "2 powi expo x \<le> fl x" and "fl x \<le> 2 powi (expo x + 1)"
proof -
  define u where "u = (2::rat) powi (expo x - 52)"
  have u: "0 < u" by (simp add: u_def)
  have e: "(2::rat) powi expo x = of_int (2 ^ 52) * u" "(2::rat) powi (expo x + 1) = of_int (2 ^ 53) * u"
    by (simp_all add: u_def power_int_diff power_int_add)
  have f: "fl x = of_int (round_even (x / u)) * u"
    using assms by (simp add: fl_def u_def Let_def)
  have "round_even (of_int (2 ^ 52)) \<le> round_even (x / u)"
    by (rule round_even_mono) (use expo_bounds(1) [OF assms] e u in \<open>simp add: field_simps\<close>)
  moreover have "round_even (x / u) \<le> round_even (of_int (2 ^ 53))"
    by (rule round_even_mono) (use expo_bounds(2) [OF assms] e u in \<open>simp add: field_simps\<close>)
  ultimately have k: "2 ^ 52 \<le> round_even (x / u)" "round_even (x / u) \<le> 2 ^ 53"
    unfolding round_even_of_int by simp_all
  have "of_int (2 ^ 52) \<le> (of_int (round_even (x / u)) :: rat)"
    and "(of_int (round_even (x / u)) :: rat) \<le> of_int (2 ^ 53)"
    using k by (metis of_int_le_iff)+
  then show "2 powi expo x \<le> fl x" and "fl x \<le> 2 powi (expo x + 1)"
    unfolding e f using u by (simp_all add: mult_right_mono)
qed

lemma fl_pos: "0 < x \<Longrightarrow> 0 < fl x"
  using fl_pos_bounds(1) [of x] by (smt (verit) zero_less_power_int zero_less_numeral order_less_le_trans)

lemma fl_mono_pos:
  assumes "0 < x" and "x \<le> y"
  shows "fl x \<le> fl y"
proof (cases "expo x = expo y")
  case True
  have "x / 2 powi (expo y - 52) \<le> y / 2 powi (expo y - 52)"
    using assms by (simp add: divide_right_mono)
  then have "round_even (x / 2 powi (expo y - 52)) \<le> round_even (y / 2 powi (expo y - 52))"
    by (rule round_even_mono)
  then show ?thesis using assms True by (simp add: fl_def Let_def)
next
  case False
  with expo_mono [OF assms] have "(2::rat) powi (expo x + 1) \<le> 2 powi expo y"
    by (intro power_int_increasing) auto
  then show ?thesis
    using fl_pos_bounds(2) [OF assms(1)] fl_pos_bounds(1) [of y] assms by simp
qed

lemma fl_mono: "x \<le> y \<Longrightarrow> fl x \<le> fl y"
proof -
  assume le: "x \<le> y"
  consider "0 < x" | "x \<le> 0" "0 \<le> y" | "y < 0" by linarith
  then show ?thesis
  proof cases
    case 1
    then show ?thesis using le by (rule fl_mono_pos)
  next
    case 2
    have "fl x \<le> 0" using 2(1) fl_pos [of "- x"] by (cases "x = 0") auto
    moreover have "0 \<le> fl y" using 2(2) fl_pos [of y] by (cases "y = 0") auto
    ultimately show ?thesis by simp
  next
    case 3
    then show ?thesis using fl_mono_pos [of "- y" "- x"] le by simp
  qed
qed

lemma fl_of_nat_aux:
  assumes "0 < n" and "n \<le> 2 ^ 53"
  shows "fl (of_int n) = of_int n"
proof (cases "n = 2 ^ 53")
  case True
  define e where "e = expo (of_int n)"
  have b: "(2::rat) powi e \<le> 2 powi 53" "(2::rat) powi 53 < 2 powi (e + 1)"
    using expo_bounds [of "of_int n"] by (auto simp: e_def True power_int_def)
  have "e = 53"
  proof (rule antisym)
    show "e \<le> 53"
    proof (rule ccontr)
      assume "\<not> e \<le> 53"
      then have "(2::rat) powi 53 < 2 powi e" by (intro power_int_strict_increasing) auto
      with b(1) show False by simp
    qed
    show "53 \<le> e"
    proof (rule ccontr)
      assume "\<not> 53 \<le> e"
      then have "(2::rat) powi (e + 1) \<le> 2 powi 53" by (intro power_int_increasing) auto
      with b(2) show False by simp
    qed
  qed
  moreover have "(of_int n :: rat) / 2 powi 1 = of_int (2 ^ 52)" by (simp add: True)
  ultimately show ?thesis
    using round_even_of_int [of "2 ^ 52"] by (simp add: fl_def Let_def True e_def)
next
  case False
  with assms have lt: "n < 2 ^ 53" by simp
  define e where "e = expo (of_int n)"
  have b: "2 powi e \<le> (of_int n :: rat)" "(of_int n :: rat) < 2 powi (e + 1)"
    using expo_bounds [of "of_int n"] assms by (auto simp: e_def)
  have "e < 53"
  proof (rule ccontr)
    assume "\<not> e < 53"
    then have "(2::rat) powi 53 \<le> 2 powi e" by (intro power_int_increasing) auto
    with b have "(2::rat) ^ 53 \<le> of_int n" by (simp add: power_int_def)
    then have "(2::int) ^ 53 \<le> n" by (metis of_int_le_iff of_int_numeral of_int_power)
    with lt show False by simp
  qed
  then have "e - 52 = - int (nat (52 - e))" by simp
  then have u: "(2::rat) powi (e - 52) = inverse (2 ^ nat (52 - e))"
    by (simp only: power_int_minus power_int_of_nat)
  have "of_int n / (2::rat) powi (e - 52) = of_int (n * 2 ^ nat (52 - e))"
    by (simp only: u divide_inverse inverse_inverse_eq of_int_mult of_int_power of_int_numeral)
  then have "round_even (of_int n / 2 powi (e - 52)) = n * 2 ^ nat (52 - e)"
    by (metis round_even_of_int)
  then have "fl (of_int n) = of_int (n * 2 ^ nat (52 - e)) * 2 powi (e - 52)"
    using assms by (simp add: fl_def e_def Let_def)
  then show ?thesis by (simp add: u)
qed

lemma fl_of_int [simp]: "\<bar>n\<bar> \<le> 2 ^ 53 \<Longrightarrow> fl (of_int n) = of_int n"
proof -
  assume "\<bar>n\<bar> \<le> 2 ^ 53"
  then consider "n = 0" | "0 < n" "n \<le> 2 ^ 53" | "0 < - n" "- n \<le> 2 ^ 53" by linarith
  then show ?thesis
  proof cases
    case 3
    then show ?thesis using fl_of_nat_aux [of "- n"] by simp
  qed (simp_all add: fl_of_nat_aux)
qed

lemma fl_of_nat [simp]: "n \<le> 2 ^ 53 \<Longrightarrow> fl (of_nat n) = of_nat n"
  using fl_of_int [of "int n"] by simp

lemma fl_numeral [simp]: "numeral n \<le> (2 ^ 53 :: int) \<Longrightarrow> fl (numeral n) = numeral n"
  using fl_of_int [of "numeral n"] by simp

lemma fl_1 [simp]: "fl 1 = 1"
  using fl_of_int [of 1] by simp

lemma fl_nonneg [simp]: "0 \<le> x \<Longrightarrow> 0 \<le> fl x"
  using fl_mono [of 0 x] by simp

lemma fl_le_int: "x \<le> of_int n \<Longrightarrow> \<bar>n\<bar> \<le> 2 ^ 53 \<Longrightarrow> fl x \<le> of_int n"
  using fl_mono [of x "of_int n"] by simp

lemma fl_ge_int: "of_int n \<le> x \<Longrightarrow> \<bar>n\<bar> \<le> 2 ^ 53 \<Longrightarrow> of_int n \<le> fl x"
  using fl_mono [of "of_int n" x] by simp

lemma fl_eq_0_iff [simp]: "fl x = 0 \<longleftrightarrow> x = 0"
  using fl_pos [of x] fl_pos [of "- x"] by (cases x "0 :: rat" rule: linorder_cases) auto

subsection \<open>Arithmetic of the language\<close>

definition js_add :: "rat \<Rightarrow> rat \<Rightarrow> rat" where "js_add x y = fl (x + y)"
definition js_sub :: "rat \<Rightarrow> rat \<Rightarrow> rat" where "js_sub x y = fl (x - y)"
definition js_mul :: "rat \<Rightarrow> rat \<Rightarrow> rat" where "js_mul x y = fl (x * y)"

text \<open>Only for a divisor that is not zero: callers write the zero case out.\<close>

definition js_div :: "rat \<Rightarrow> rat \<Rightarrow> rat" where "js_div x y = fl (x / y)"

lemmas js_arith [js_defs] = js_add_def js_sub_def js_mul_def js_div_def

lemma js_add_int: "\<bar>a + b\<bar> \<le> 2 ^ 53 \<Longrightarrow> js_add (of_int a) (of_int b) = of_int (a + b)"
  unfolding js_add_def of_int_add [symmetric] by (rule fl_of_int)

lemma js_mul_int: "\<bar>a * b\<bar> \<le> 2 ^ 53 \<Longrightarrow> js_mul (of_int a) (of_int b) = of_int (a * b)"
  unfolding js_mul_def of_int_mult [symmetric] by (rule fl_of_int)

text \<open>
  \<open>Math.floor\<close>, \<open>Math.ceil\<close> and \<open>Math.round\<close> are exact; \<open>Math.round\<close> rounds ties towards
  plus infinity.
\<close>

definition js_floor :: "rat \<Rightarrow> int" where "js_floor x = \<lfloor>x\<rfloor>"
definition js_ceil :: "rat \<Rightarrow> int" where "js_ceil x = \<lceil>x\<rceil>"
definition js_round :: "rat \<Rightarrow> int" where "js_round x = \<lfloor>x + 1 / 2\<rfloor>"

lemma js_round_of_int [simp]: "js_round (of_int n) = n"
  by (simp add: js_round_def floor_unique)

lemma js_round_mono: "x \<le> y \<Longrightarrow> js_round x \<le> js_round y"
  by (simp add: js_round_def floor_mono)

lemma js_round_bounds: "of_int a \<le> x \<Longrightarrow> x \<le> of_int b \<Longrightarrow> a \<le> js_round x \<and> js_round x \<le> b"
  using js_round_mono [of "of_int a" x] js_round_mono [of x "of_int b"] by simp

text \<open>A percentage: dividing, scaling by 100 and rounding stays within 0 and 100.\<close>

lemma js_percent_bounds:
  assumes "0 \<le> a" "a \<le> b" "0 < b"
  shows "0 \<le> js_mul (js_div a b) 100" "js_mul (js_div a b) 100 \<le> 100"
proof -
  have "0 \<le> a / b" "a / b \<le> of_int 1" using assms by simp_all
  then have d: "0 \<le> js_div a b" "js_div a b \<le> 1"
    using fl_le_int [of "a / b" 1] by (simp_all add: js_div_def)
  then show "0 \<le> js_mul (js_div a b) 100" by (simp add: js_mul_def)
  have "js_div a b * 100 \<le> of_int 100" using d by simp
  then show "js_mul (js_div a b) 100 \<le> 100"
    using fl_le_int [of "js_div a b * 100" 100] by (simp add: js_mul_def)
qed

subsection \<open>Numbers as strings\<close>

definition digit_char :: "nat \<Rightarrow> char" where
  "digit_char d = ''0123456789abcdefghijklmnopqrstuvwxyz'' ! d"

text \<open>The digits of a non-negative integer in a base, most significant first.\<close>

function digits_of :: "int \<Rightarrow> int \<Rightarrow> int list" where
  "digits_of b n = (if b < 2 \<or> n < b then [n] else digits_of b (n div b) @ [n mod b])"
  by pat_completeness auto
termination
proof (relation "measure (\<lambda>(b, n). nat n)")
  fix b n :: int
  assume "\<not> (b < 2 \<or> n < b)"
  then have "n div b < n" by (intro int_div_less_self) auto
  with \<open>\<not> (b < 2 \<or> n < b)\<close> show "((b, n div b), b, n) \<in> measure (\<lambda>(b, n). nat n)" by simp
qed simp

declare digits_of.simps [simp del]

definition base_str :: "int \<Rightarrow> int \<Rightarrow> string" where
  "base_str b n = map (\<lambda>d. digit_char (nat d)) (digits_of b n)"

definition int_str :: "int \<Rightarrow> string" where
  "int_str i = (if i < 0 then ''-'' @ base_str 10 (- i) else base_str 10 i)"

lemma digits_of_nonempty [simp]: "digits_of b n \<noteq> []"
  by (subst digits_of.simps) simp

lemma digits_of_bound: "2 \<le> b \<Longrightarrow> 0 \<le> n \<Longrightarrow> d \<in> set (digits_of b n) \<Longrightarrow> 0 \<le> d \<and> d < b"
proof (induction b n rule: digits_of.induct)
  case (1 b n)
  show ?case
  proof (cases "n < b")
    case True
    with "1.prems" show ?thesis by (simp add: digits_of.simps [of b n])
  next
    case False
    with "1.prems" have "d \<in> set (digits_of b (n div b)) \<or> d = n mod b"
      by (auto simp: digits_of.simps [of b n])
    moreover have "0 \<le> n div b" using "1.prems" by (simp add: pos_imp_zdiv_nonneg_iff)
    ultimately show ?thesis using "1.IH" "1.prems" False by auto
  qed
qed

text \<open>Reading the digits back: the value of a digit list in its base.\<close>

definition digits_val :: "int \<Rightarrow> int list \<Rightarrow> int" where
  "digits_val b ds = foldl (\<lambda>acc d. acc * b + d) 0 ds"

lemma digits_val_of: "2 \<le> b \<Longrightarrow> digits_val b (digits_of b n) = n"
proof (induction b n rule: digits_of.induct)
  case (1 b n)
  show ?case
  proof (cases "n < b")
    case True
    then show ?thesis by (simp add: digits_of.simps [of b n] digits_val_def)
  next
    case False
    with "1.IH" "1.prems" have "digits_val b (digits_of b (n div b)) = n div b" by simp
    with False "1.prems" show ?thesis
      by (simp add: digits_of.simps [of b n] digits_val_def)
  qed
qed

text \<open>
  \<open>x.toFixed(f)\<close>: the integer \<open>n\<close> for which \<open>n / 10^f\<close> is closest to \<open>x\<close>, the larger one
  in a tie, printed with \<open>f\<close> decimals. The sign is printed separately, so the tie rule
  applies to the absolute value.
\<close>

definition to_fixed :: "nat \<Rightarrow> rat \<Rightarrow> string" where
  "to_fixed f x =
     (let n = \<lfloor>\<bar>x\<bar> * 10 ^ f + 1 / 2\<rfloor>;
          ds = base_str 10 n;
          pad = replicate (f + 1 - length ds) (CHR ''0'') @ ds;
          k = length pad - f
      in (if x < 0 then ''-'' else []) @
         (if f = 0 then ds else take k pad @ ''.'' @ drop k pad))"

text \<open>
  \<open>String(x)\<close> for a finite double: the shortest decimal significand that reads back as
  \<open>x\<close>, laid out by the exponent. \<open>short_digits\<close> tries 1 to 17 significant digits, which is
  enough for every double; a rational that is no double has no text in JavaScript.
\<close>

fun pow10_exp :: "nat \<Rightarrow> rat \<Rightarrow> int \<Rightarrow> int" where
  "pow10_exp 0 x e = e"
| "pow10_exp (Suc fuel) x e =
     (if x < 10 powi (e - 1) then pow10_exp fuel x (e - 1)
      else if 10 powi e \<le> x then pow10_exp fuel x (e + 1) else e)"

definition dec_exp :: "rat \<Rightarrow> int" where
  "dec_exp x = pow10_exp 400 x (expo x * 30103 div 100000 + 1)"

fun short_digits :: "nat list \<Rightarrow> rat \<Rightarrow> int \<Rightarrow> (int \<times> int) option" where
  "short_digits [] x e = None"
| "short_digits (k # ks) x e =
     (let s = round_even (x / 10 powi (e - int k))
      in if fl (of_int s * 10 powi (e - int k)) = x
         then Some (if s = 10 ^ k then (10 ^ (k - 1), e + 1) else (s, e))
         else short_digits ks x e)"

definition num_str_pos :: "rat \<Rightarrow> string" where
  "num_str_pos x =
     (case short_digits [1..<18] x (dec_exp x) of
        None \<Rightarrow> ''NaN''
      | Some (s, n) \<Rightarrow>
          let ds = base_str 10 s; k = int (length ds) in
          if k \<le> n \<and> n \<le> 21 then ds @ replicate (nat (n - k)) (CHR ''0'')
          else if 0 < n \<and> n \<le> 21 then take (nat n) ds @ ''.'' @ drop (nat n) ds
          else if - 6 < n \<and> n \<le> 0 then ''0.'' @ replicate (nat (- n)) (CHR ''0'') @ ds
          else take 1 ds @ (if k = 1 then [] else ''.'' @ drop 1 ds) @ ''e'' @
               (if 0 \<le> n - 1 then ''+'' else ''-'') @ base_str 10 \<bar>n - 1\<bar>)"

definition num_str :: "rat \<Rightarrow> string" where
  "num_str x = (if of_int \<lfloor>x\<rfloor> = x \<and> \<bar>x\<bar> \<le> 2 ^ 53 then int_str \<lfloor>x\<rfloor>
                else if x < 0 then ''-'' @ num_str_pos (- x) else num_str_pos x)"

lemma num_str_of_int [simp]: "\<bar>n\<bar> \<le> 2 ^ 53 \<Longrightarrow> num_str (of_int n) = int_str n"
proof -
  assume n: "\<bar>n\<bar> \<le> 2 ^ 53"
  then have "\<bar>of_int n :: rat\<bar> \<le> 2 ^ 53"
    by (metis of_int_abs of_int_le_iff of_int_numeral of_int_power)
  then show ?thesis by (simp add: num_str_def)
qed

lemma num_str_nonempty [simp]: "num_str x \<noteq> []"
  by (auto simp: num_str_def num_str_pos_def int_str_def base_str_def Let_def split: option.splits)

subsection \<open>Rounding errors\<close>

lemma round_even_error: "\<bar>of_int (round_even x) - x\<bar> \<le> 1/2"
proof -
  have "of_int \<lfloor>x\<rfloor> \<le> x" "x < of_int \<lfloor>x\<rfloor> + 1" by linarith+
  then have "0 \<le> x - of_int \<lfloor>x\<rfloor>" "x - of_int \<lfloor>x\<rfloor> < 1" by linarith+
  then show ?thesis
    using of_int_floor_le [of x] by (simp add: round_even_def Let_def abs_if) linarith
qed

lemma fl_error_pos:
  assumes "0 < x"
  shows "\<bar>fl x - x\<bar> \<le> x / 2 ^ 53"
proof -
  define u where "u = (2::rat) powi (expo x - 52)"
  have u: "0 < u" by (simp add: u_def)
  have "fl x - x = (of_int (round_even (x / u)) - x / u) * u"
    using assms u by (simp add: fl_def u_def Let_def algebra_simps)
  then have "\<bar>fl x - x\<bar> = \<bar>of_int (round_even (x / u)) - x / u\<bar> * u"
    using u by (simp add: abs_mult)
  also have "\<dots> \<le> 1/2 * u" by (rule mult_right_mono [OF round_even_error]) (use u in simp)
  also have "u = 2 powi expo x / 2 ^ 52" by (simp add: u_def power_int_diff)
  also have "1/2 * (2 powi expo x / 2 ^ 52) = 2 powi expo x / (2::rat) ^ 53" by simp
  also have "\<dots> \<le> x / 2 ^ 53" using expo_bounds(1) [OF assms] by (simp add: divide_right_mono)
  finally show ?thesis .
qed

lemma fl_error: "\<bar>fl x - x\<bar> \<le> \<bar>x\<bar> / 2 ^ 53"
  using fl_error_pos [of x] fl_error_pos [of "- x"]
  by (cases x "0 :: rat" rule: linorder_cases) (simp_all add: abs_minus_commute)

lemma js_round_near: "\<bar>x - of_int k\<bar> < 1/2 \<Longrightarrow> js_round x = k"
  unfolding js_round_def by (rule floor_unique) (auto simp: abs_if split: if_splits)

text \<open>\<open>Math.floor(a / b)\<close> of whole numbers is the integer quotient, rounding notwithstanding.\<close>

lemma js_div_floor:
  assumes "0 \<le> n" "n < 2 ^ 53" "0 < k"
  shows "js_floor (js_div (of_int n) (of_int k)) = n div k"
proof -
  define x where "x = (of_int n / of_int k :: rat)"
  have q: "0 \<le> n div k" "n div k \<le> n"
    using assms zdiv_mono2 [of n 1 k] by (simp_all add: pos_imp_zdiv_nonneg_iff)
  have kpos: "(0 :: rat) < of_int k" using assms by simp
  have x0: "0 \<le> x" using assms by (simp add: x_def)
  have "k * (n div k) \<le> n" using assms by (simp add: mult.commute minus_mod_eq_mult_div [symmetric])
  then have "of_int k * of_int (n div k) \<le> (of_int n :: rat)"
    by (metis of_int_le_iff of_int_mult)
  then have "of_int (n div k) \<le> x" using kpos by (simp add: x_def le_divide_eq mult.commute)
  then have lo: "of_int (n div k) \<le> fl x" using q assms by (intro fl_ge_int) auto
  have "n < k * (n div k + 1)" using assms by (simp add: distrib_left) (metis add.commute add_strict_left_mono div_mod_decomp_int pos_mod_bound mult.commute)
  then have "n + 1 \<le> k * (n div k + 1)" by simp
  then have le: "of_int n + 1 \<le> of_int k * (of_int (n div k) + (1 :: rat))"
    by (metis of_int_1 of_int_add of_int_le_iff of_int_mult)
  have err: "fl x \<le> x + x / 2 ^ 53"
    using fl_error [of x] unfolding abs_le_iff abs_of_nonneg [OF x0] by linarith
  have small: "(of_int n :: rat) / 2 ^ 53 < 1"
  proof -
    have "(of_int n :: rat) < of_int (2 ^ 53)" using assms by (simp only: of_int_less_iff)
    then show ?thesis by simp
  qed
  have "fl x * of_int k \<le> (x + x / 2 ^ 53) * of_int k"
    using err kpos by (intro mult_right_mono) auto
  also have "\<dots> = of_int n + of_int n / 2 ^ 53" using kpos by (simp add: x_def field_simps)
  also have "\<dots> < of_int n + 1" using small by simp
  also have "\<dots> \<le> (of_int (n div k) + 1) * of_int k" using le by (simp only: mult.commute)
  finally have "fl x < of_int (n div k) + 1" using kpos by (simp only: mult_less_cancel_right_pos)
  with lo show ?thesis by (simp add: js_floor_def js_div_def x_def floor_unique)
qed

lemma js_div_exact: "\<bar>n\<bar> \<le> 2 ^ 53 \<Longrightarrow> k \<noteq> 0 \<Longrightarrow> js_div (of_int (n * k)) (of_int k) = of_int n"
  by (simp add: js_div_def)
subsection \<open>Evaluating a rounding\<close>

lemma rat_floor_numeral [simp]:
  "\<lfloor>numeral a / (numeral b :: rat)\<rfloor> = numeral a div numeral b"
  using floor_divide_of_int_eq [of "numeral a" "numeral b", where 'a = rat] by simp

lemma expo_unique:
  assumes "2 powi k \<le> x" and "x < 2 powi (k + 1)"
  shows "expo x = k"
proof -
  have x: "0 < x" using assms(1) by (smt (verit) zero_less_power_int zero_less_numeral order_less_le_trans)
  have "(2::rat) powi expo x < 2 powi (k + 1)" "(2::rat) powi k < 2 powi (expo x + 1)"
    using expo_bounds [OF x] assms by auto
  then have "expo x < k + 1" "k < expo x + 1"
    using power_int_increasing [of "k + 1" "expo x" "2 :: rat"] power_int_increasing [of "expo x + 1" k "2 :: rat"]
    by (force simp: not_less [symmetric])+
  then show ?thesis by simp
qed

text \<open>For a concrete number the exponent is given and the rest computes.\<close>

lemma fl_eval:
  assumes "2 powi k \<le> x" and "x < 2 powi (k + 1)"
  shows "fl x = of_int (round_even (x / 2 powi (k - 52))) * 2 powi (k - 52)"
proof -
  have "0 < x" using assms(1) by (smt (verit) zero_less_power_int zero_less_numeral order_less_le_trans)
  then show ?thesis using expo_unique [OF assms] by (simp add: fl_def Let_def)
qed

text \<open>Halves of small integers are exact.\<close>

lemma fl_half:
  assumes "\<bar>n\<bar> \<le> 2 ^ 52"
  shows "fl (of_int n / 2) = of_int n / 2"
proof -
  have pos: "fl (of_int n / 2) = of_int n / 2" if "0 < n" "n \<le> 2 ^ 52" for n
  proof -
    have n: "0 < (of_int n :: rat)" using that by simp
    have e: "expo (of_int n / 2) = expo (of_int n) - 1"
      using expo_bounds [OF n] by (intro expo_unique) (simp_all add: power_int_diff power_int_add field_simps)
    have "fl (of_int n) = of_int n" using that by simp
    then show ?thesis using n
      by (simp add: fl_def Let_def e power_int_diff)
  qed
  show ?thesis
    using pos [of n] pos [of "- n"] assms fl_minus [of "of_int n / 2"]
    by (cases n "0 :: int" rule: linorder_cases) auto
qed

end
