(* ===== verification/JsString.thy ===== *)
theory JsString
  imports JsNumber
begin

text \<open>
  JavaScript strings as lists of characters: the library functions the code calls
  (\<open>trim\<close>, \<open>split\<close>, \<open>startsWith\<close>, \<open>includes\<close>, \<open>slice\<close>, \<open>join\<close>, \<open>padStart\<close>, case
  conversion), and the URL encoders \<open>encodeURIComponent\<close> and \<open>URLSearchParams\<close>.
  A character is one code unit below 256; case conversion and the escapes are those of
  ASCII text. The main lemmas are that percent-encoding can be undone and leaves no
  character that means anything in a URL.
\<close>

subsection \<open>Character classes\<close>

definition code :: "char \<Rightarrow> nat" where "code c = of_char c"

definition is_digit :: "char \<Rightarrow> bool" where "is_digit c \<longleftrightarrow> 48 \<le> code c \<and> code c \<le> 57"
definition is_upper :: "char \<Rightarrow> bool" where "is_upper c \<longleftrightarrow> 65 \<le> code c \<and> code c \<le> 90"
definition is_lower :: "char \<Rightarrow> bool" where "is_lower c \<longleftrightarrow> 97 \<le> code c \<and> code c \<le> 122"
definition is_alpha :: "char \<Rightarrow> bool" where "is_alpha c \<longleftrightarrow> is_upper c \<or> is_lower c"
definition is_alnum :: "char \<Rightarrow> bool" where "is_alnum c \<longleftrightarrow> is_alpha c \<or> is_digit c"
definition is_hex :: "char \<Rightarrow> bool" where
  "is_hex c \<longleftrightarrow> is_digit c \<or> (65 \<le> code c \<and> code c \<le> 70) \<or> (97 \<le> code c \<and> code c \<le> 102)"

text \<open>\<open>\\w\<close> and \<open>\\s\<close> (white space and line terminators) on one code unit.\<close>

definition is_word :: "char \<Rightarrow> bool" where "is_word c \<longleftrightarrow> is_alnum c \<or> c = CHR ''_''"
definition is_space :: "char \<Rightarrow> bool" where
  "is_space c \<longleftrightarrow> (9 \<le> code c \<and> code c \<le> 13) \<or> code c = 32 \<or> code c = 160"

lemmas char_classes [js_defs] = is_digit_def is_upper_def is_lower_def is_alpha_def
  is_alnum_def is_hex_def is_word_def is_space_def code_def

definition to_upper :: "char \<Rightarrow> char" where
  "to_upper c = (if is_lower c then char_of (code c - 32) else c)"
definition to_lower :: "char \<Rightarrow> char" where
  "to_lower c = (if is_upper c then char_of (code c + 32) else c)"

definition toLowerCase :: "string \<Rightarrow> string" where "toLowerCase = map to_lower"
definition toUpperCase :: "string \<Rightarrow> string" where "toUpperCase = map to_upper"

lemma code_char_of [simp]: "n < 256 \<Longrightarrow> code (char_of n) = n"
  by (simp add: code_def)

lemma code_lt_256 [simp]: "code c < 256"
  by (simp add: code_def)

lemma code_eq_iff: "code c = code d \<longleftrightarrow> c = d"
  by (simp add: code_def)

lemma to_lower_idem [simp]: "to_lower (to_lower c) = to_lower c"
  by (auto simp: to_lower_def is_upper_def)

lemma is_upper_to_lower [simp]: "\<not> is_upper (to_lower c)"
  by (auto simp: to_lower_def is_upper_def)

lemma is_lower_to_upper [simp]: "\<not> is_lower (to_upper c)"
  by (auto simp: to_upper_def is_lower_def)

lemma toLowerCase_idem [simp]: "toLowerCase (toLowerCase s) = toLowerCase s"
  by (simp add: toLowerCase_def comp_def)

lemma toLowerCase_append [simp]: "toLowerCase (s @ t) = toLowerCase s @ toLowerCase t"
  by (simp add: toLowerCase_def)

lemma length_toLowerCase [simp]: "length (toLowerCase s) = length s"
  by (simp add: toLowerCase_def)

subsection \<open>Searching and slicing\<close>

definition starts_with :: "string \<Rightarrow> string \<Rightarrow> bool" where
  "starts_with s p \<longleftrightarrow> take (length p) s = p"
definition ends_with :: "string \<Rightarrow> string \<Rightarrow> bool" where
  "ends_with s p \<longleftrightarrow> starts_with (rev s) (rev p)"

fun str_includes :: "string \<Rightarrow> string \<Rightarrow> bool" where
  "str_includes [] p \<longleftrightarrow> p = []"
| "str_includes (c # s) p \<longleftrightarrow> starts_with (c # s) p \<or> str_includes s p"

lemma starts_with_iff: "starts_with s p \<longleftrightarrow> (\<exists>t. s = p @ t)"
  by (auto simp: starts_with_def) (metis append_take_drop_id)

lemma starts_with_Nil [simp]: "starts_with s []"
  by (simp add: starts_with_def)

lemma includes_iff: "str_includes s p \<longleftrightarrow> (\<exists>a b. s = a @ p @ b)"
proof (induction s)
  case (Cons c s)
  show ?case
  proof
    assume "str_includes (c # s) p"
    then show "\<exists>a b. c # s = a @ p @ b"
    proof (cases "starts_with (c # s) p")
      case True
      then show ?thesis by (metis append_Nil starts_with_iff)
    next
      case False
      with \<open>str_includes (c # s) p\<close> Cons.IH obtain a b where "s = a @ p @ b" by auto
      then have "c # s = (c # a) @ p @ b" by simp
      then show ?thesis by blast
    qed
  next
    assume "\<exists>a b. c # s = a @ p @ b"
    then obtain a b where ab: "c # s = a @ p @ b" by blast
    show "str_includes (c # s) p"
    proof (cases a)
      case Nil
      with ab have "starts_with (c # s) p" by (auto simp: starts_with_iff)
      then show ?thesis by simp
    next
      case (Cons d a')
      with ab have "s = a' @ p @ b" by simp
      with Cons.IH show ?thesis by auto
    qed
  qed
qed auto

text \<open>\<open>Array.prototype.slice\<close> and \<open>String.prototype.slice\<close> with integer bounds.\<close>

definition clamp_index :: "int \<Rightarrow> nat \<Rightarrow> nat" where
  "clamp_index i n = (if i < 0 then nat (max 0 (int n + i)) else min (nat i) n)"

definition slice :: "int \<Rightarrow> int \<Rightarrow> 'a list \<Rightarrow> 'a list" where
  "slice i j xs = (let a = clamp_index i (length xs); b = clamp_index j (length xs)
                   in take (b - a) (drop a xs))"

definition trim :: "string \<Rightarrow> string" where
  "trim s = rev (dropWhile is_space (rev (dropWhile is_space s)))"

lemma dropWhile_rev_hd: "xs = [] \<or> \<not> P (hd xs) \<Longrightarrow>
    rev (dropWhile P (rev xs)) = [] \<or> \<not> P (hd (rev (dropWhile P (rev xs))))"
proof -
  assume h: "xs = [] \<or> \<not> P (hd xs)"
  have "xs = rev (dropWhile P (rev xs)) @ rev (takeWhile P (rev xs))"
    by (metis rev_append rev_rev_ident takeWhile_dropWhile_id)
  then have "rev (dropWhile P (rev xs)) \<noteq> [] \<Longrightarrow> hd xs = hd (rev (dropWhile P (rev xs)))"
    by (metis hd_append2)
  then show ?thesis using h by (metis append_is_Nil_conv rev_is_Nil_conv dropWhile.simps(1) rev.simps(1))
qed

lemma dropWhile_id: "xs = [] \<or> \<not> P (hd xs) \<Longrightarrow> dropWhile P xs = xs"
  by (cases xs) auto

lemma trim_idem [simp]: "trim (trim s) = trim s"
proof -
  define u where "u = dropWhile is_space s"
  have u: "u = [] \<or> \<not> is_space (hd u)"
    unfolding u_def by (metis hd_dropWhile)
  have t: "trim s = rev (dropWhile is_space (rev u))" by (simp add: trim_def u_def)
  have "dropWhile is_space (trim s) = trim s"
    unfolding t by (rule dropWhile_id [where P = is_space]) (rule dropWhile_rev_hd [where P = is_space and xs = u, OF u])
  moreover have "dropWhile is_space (rev (trim s)) = rev (trim s)"
    unfolding t by (metis dropWhile_idem rev_rev_ident)
  ultimately show ?thesis by (simp add: trim_def [of "trim s"])
qed

lemma trim_none: "list_all (\<lambda>c. \<not> is_space c) w \<Longrightarrow> trim w = w"
proof -
  assume a: "list_all (\<lambda>c. \<not> is_space c) w"
  then have "dropWhile is_space w = w" "dropWhile is_space (rev w) = rev w"
    by (intro dropWhile_id; cases w; auto simp: list_all_iff)
       (intro dropWhile_id; metis a hd_in_set list_all_iff set_rev)
  then show ?thesis by (simp add: trim_def)
qed

text \<open>\<open>s.split(c)\<close> for a one-character separator, and \<open>xs.join(sep)\<close>.\<close>

fun split_char :: "char \<Rightarrow> string \<Rightarrow> string list" where
  "split_char d [] = [[]]"
| "split_char d (c # s) =
     (if c = d then [] # split_char d s
      else case split_char d s of [] \<Rightarrow> [[c]] | w # ws \<Rightarrow> (c # w) # ws)"

fun join :: "string \<Rightarrow> string list \<Rightarrow> string" where
  "join sep [] = []"
| "join sep [w] = w"
| "join sep (w # ws) = w @ sep @ join sep ws"

lemma split_char_nonempty [simp]: "split_char d s \<noteq> []"
  by (induction d s rule: split_char.induct) (auto split: list.splits)

lemma join_split_char [simp]: "join [d] (split_char d s) = s"
proof (induction d s rule: split_char.induct)
  case (2 d c s)
  show ?case
  proof (cases "c = d")
    case True
    then show ?thesis using 2 by (cases "split_char d s") auto
  next
    case False
    obtain w ws where ws: "split_char d s = w # ws" by (cases "split_char d s") auto
    with 2 False have "join [d] (w # ws) = s" by simp
    with ws False show ?thesis by (cases ws) auto
  qed
qed simp

lemma split_char_no_sep: "d \<notin> set w \<Longrightarrow> split_char d w = [w]"
  by (induction w) auto

lemma split_char_append: "d \<notin> set w \<Longrightarrow> split_char d (w @ d # s) = w # split_char d s"
  by (induction w) auto

lemma split_char_join:
  "ws \<noteq> [] \<Longrightarrow> \<forall>w \<in> set ws. d \<notin> set w \<Longrightarrow> split_char d (join [d] ws) = ws"
  by (induction "[d]" ws rule: join.induct) (auto simp: split_char_no_sep split_char_append)

definition pad_start :: "nat \<Rightarrow> char \<Rightarrow> string \<Rightarrow> string" where
  "pad_start n c s = replicate (n - length s) c @ s"

subsection \<open>Percent-encoding\<close>

definition hex_digit :: "nat \<Rightarrow> char" where "hex_digit d = ''0123456789ABCDEF'' ! d"

definition percent :: "nat \<Rightarrow> string" where
  "percent n = [CHR ''%'', hex_digit (n div 16), hex_digit (n mod 16)]"

text \<open>
  \<open>encodeURIComponent\<close> keeps \<open>A-Z a-z 0-9 - _ . ! ~ * ' ( )\<close> and writes every other
  ASCII character as one escape; a code unit from 128 to 255 is two UTF-8 bytes.
\<close>

definition uri_unreserved :: "char \<Rightarrow> bool" where
  "uri_unreserved c \<longleftrightarrow> is_alnum c \<or> c \<in> set ''-_.!~*()'' \<or> code c = 39"

definition utf8 :: "nat \<Rightarrow> nat list" where
  "utf8 n = (if n < 128 then [n] else [192 + n div 64, 128 + n mod 64])"

definition encodeURIComponent :: "string \<Rightarrow> string" where
  "encodeURIComponent s =
     concat (map (\<lambda>c. if uri_unreserved c then [c]
                      else concat (map percent (utf8 (code c)))) s)"

text \<open>The receiver's side: \<open>decodeURIComponent\<close> restricted to the same code units.\<close>

definition hex_val :: "char \<Rightarrow> nat" where
  "hex_val c = (if is_digit c then code c - 48 else if is_upper c then code c - 55 else code c - 87)"

fun decodeURIComponent :: "string \<Rightarrow> string" where
  "decodeURIComponent (p # a # b # s) =
     (if p = CHR ''%'' then
        let n = hex_val a * 16 + hex_val b in
        if n < 128 then char_of n # decodeURIComponent s
        else case s of
          _ # c # d # t \<Rightarrow>
            char_of ((n - 192) * 64 + (hex_val c * 16 + hex_val d - 128)) # decodeURIComponent t
        | _ \<Rightarrow> []
      else p # decodeURIComponent (a # b # s))"
| "decodeURIComponent (p # s) = p # decodeURIComponent s"
| "decodeURIComponent [] = []"

text \<open>The inputs it accepts: every escape is complete, and an escape above 127 starts a
  two-byte sequence. On any other input the function throws a \<open>URIError\<close>.\<close>

definition hex_byte :: "char \<Rightarrow> char \<Rightarrow> nat" where "hex_byte a b = hex_val a * 16 + hex_val b"

fun uri_ok :: "string \<Rightarrow> bool" where
  "uri_ok (p # a # b # s) =
     (if p = CHR ''%'' then
        is_hex a \<and> is_hex b \<and>
        (if hex_byte a b < 128 then uri_ok s
         else 194 \<le> hex_byte a b \<and> hex_byte a b \<le> 195 \<and>
              (case s of q # c # d # t \<Rightarrow> q = CHR ''%'' \<and> is_hex c \<and> is_hex d \<and>
                   128 \<le> hex_byte c d \<and> hex_byte c d < 192 \<and> uri_ok t
               | _ \<Rightarrow> False))
      else uri_ok (a # b # s))"
| "uri_ok s = (CHR ''%'' \<notin> set s)"

lemma nat_cases16: "n < 16 \<Longrightarrow> (n::nat) \<in> {0,1,2,3,4,5,6,7,8,9,10,11,12,13,14,15}"
  by (simp add: numeral_eq_Suc less_Suc_eq)

lemma digit_char_hex: "m < 16 \<Longrightarrow> is_hex (digit_char m) \<and> hex_val (digit_char m) = m"
proof -
  assume "m < 16"
  have "list_all (\<lambda>m. is_hex (digit_char m) \<and> hex_val (digit_char m) = m) [0..<16]" by code_simp
  with \<open>m < 16\<close> show ?thesis by (simp add: list_all_iff)
qed

lemma hex_val_digit [simp]: "n < 16 \<Longrightarrow> hex_val (hex_digit n) = n"
  by (drule nat_cases16) (auto simp: hex_digit_def hex_val_def char_classes)

lemma hex_digit_alnum: "n < 16 \<Longrightarrow> is_alnum (hex_digit n)"
  by (drule nat_cases16) (auto simp: hex_digit_def char_classes)

lemma decode_plain:
  "p \<noteq> CHR ''%'' \<Longrightarrow> decodeURIComponent (p # s) = p # decodeURIComponent s"
  by (cases s rule: list.exhaust, simp, rename_tac b t, case_tac t, auto)

lemma decode_escape1:
  "n < 128 \<Longrightarrow> decodeURIComponent (percent n @ s) = char_of n # decodeURIComponent s"
  by (simp add: percent_def div_less_dividend less_mult_imp_div_less)

lemma decode_escape2:
  assumes "128 \<le> n" "n < 256"
  shows "decodeURIComponent (percent (192 + n div 64) @ percent (128 + n mod 64) @ s)
       = char_of n # decodeURIComponent s"
proof -
  define a b where "a = 192 + n div 64" and "b = 128 + n mod 64"
  have ab: "128 \<le> a" "a < 256" "b < 256"
    using assms by (simp_all add: a_def b_def)
  have v: "hex_val (hex_digit (m div 16)) * 16 + hex_val (hex_digit (m mod 16)) = m" if "m < 256" for m
    using that by (simp add: less_mult_imp_div_less)
  have "(a - 192) * 64 + (b - 128) = n" by (simp add: a_def b_def)
  with v [of a] v [of b] ab show ?thesis
    unfolding a_def [symmetric] b_def [symmetric] by (simp add: percent_def Let_def)
qed

lemma unreserved_not_percent: "uri_unreserved c \<Longrightarrow> c \<noteq> CHR ''%''"
  by (auto simp: uri_unreserved_def char_classes)

text \<open>Encoding can be undone.\<close>

lemma decode_encode: "decodeURIComponent (encodeURIComponent s) = s"
proof (induction s)
  case (Cons c s)
  have cs: "encodeURIComponent (c # s) =
      (if uri_unreserved c then [c] else concat (map percent (utf8 (code c)))) @ encodeURIComponent s"
    by (simp add: encodeURIComponent_def)
  have k: "char_of (code c) = c" by (simp add: code_def)
  consider "uri_unreserved c" | "\<not> uri_unreserved c" "code c < 128" | "\<not> uri_unreserved c" "128 \<le> code c"
    by linarith
  then show ?case
  proof cases
    case 1
    then show ?thesis using Cons by (simp add: cs decode_plain unreserved_not_percent)
  next
    case 2
    then show ?thesis using Cons by (simp add: cs utf8_def decode_escape1 k)
  next
    case 3
    then show ?thesis
      using Cons decode_escape2 [of "code c" "encodeURIComponent s"] by (simp add: cs utf8_def k)
  qed
qed (simp add: encodeURIComponent_def)

text \<open>What an encoded component may contain: unreserved characters and the escape sign.\<close>

lemma percent_chars: "n < 256 \<Longrightarrow> c \<in> set (percent n) \<Longrightarrow> is_alnum c \<or> c = CHR ''%''"
  using hex_digit_alnum [of "n div 16"] hex_digit_alnum [of "n mod 16"]
  by (auto simp: percent_def less_mult_imp_div_less)

lemma utf8_bytes: "n < 256 \<Longrightarrow> b \<in> set (utf8 n) \<Longrightarrow> b < 256"
proof -
  assume n: "n < 256" and b: "b \<in> set (utf8 n)"
  have "n div 64 < 4" using n by (simp add: less_mult_imp_div_less)
  moreover have "n mod 64 < 64" by simp
  ultimately show ?thesis using n b by (auto simp: utf8_def split: if_splits)
qed

lemma encode_chars:
  assumes "c \<in> set (encodeURIComponent s)"
  shows "uri_unreserved c \<or> c = CHR ''%''"
proof -
  from assms obtain d
    where c: "c \<in> set (if uri_unreserved d then [d] else concat (map percent (utf8 (code d))))"
    unfolding encodeURIComponent_def set_concat set_map by blast
  show ?thesis
  proof (cases "uri_unreserved d")
    case False
    with c obtain b where "b \<in> set (utf8 (code d))" "c \<in> set (percent b)" by auto
    then have "is_alnum c \<or> c = CHR ''%''" by (meson percent_chars utf8_bytes code_lt_256)
    then show ?thesis by (auto simp: uri_unreserved_def)
  qed (use c in auto)
qed

lemma encode_no_delim:
  "c \<in> set (encodeURIComponent s) \<Longrightarrow> c \<notin> set ''/?#&=+''"
  using encode_chars [of c s] by (auto simp: uri_unreserved_def char_classes)

lemma inj_encode: "encodeURIComponent s = encodeURIComponent t \<Longrightarrow> s = t"
  by (metis decode_encode)

subsection \<open>Query strings\<close>

text \<open>
  \<open>URLSearchParams.toString\<close>: \<open>application/x-www-form-urlencoded\<close> keeps
  \<open>A-Z a-z 0-9 * - . _\<close>, turns a space into \<open>+\<close> and escapes the rest.
\<close>

definition form_unreserved :: "char \<Rightarrow> bool" where
  "form_unreserved c \<longleftrightarrow> is_alnum c \<or> c \<in> set ''*-._''"

definition form_encode :: "string \<Rightarrow> string" where
  "form_encode s =
     concat (map (\<lambda>c. if c = CHR '' '' then ''+'' else if form_unreserved c then [c]
                      else concat (map percent (utf8 (code c)))) s)"

definition search_params :: "(string \<times> string) list \<Rightarrow> string" where
  "search_params ps = join ''&'' (map (\<lambda>(k, v). form_encode k @ ''='' @ form_encode v) ps)"

lemma form_encode_chars:
  assumes "c \<in> set (form_encode s)"
  shows "form_unreserved c \<or> c \<in> set ''%+''"
proof -
  from assms obtain d where c: "c \<in> set (if d = CHR '' '' then ''+'' else if form_unreserved d then [d]
      else concat (map percent (utf8 (code d))))"
    unfolding form_encode_def set_concat set_map by blast
  show ?thesis
  proof (cases "d = CHR '' '' \<or> form_unreserved d")
    case False
    with c obtain b where "b \<in> set (utf8 (code d))" "c \<in> set (percent b)" by auto
    then have "is_alnum c \<or> c = CHR ''%''" by (meson percent_chars utf8_bytes code_lt_256)
    then show ?thesis by (auto simp: form_unreserved_def)
  qed (use c in \<open>auto split: if_splits\<close>)
qed

lemma form_encode_no_delim: "c \<in> set (form_encode s) \<Longrightarrow> c \<notin> set ''/?#&=''"
  using form_encode_chars [of c s] by (auto simp: form_unreserved_def char_classes)

lemma form_encode_amp [simp]: "CHR ''&'' \<notin> set (form_encode s)" "CHR ''='' \<notin> set (form_encode s)"
  using form_encode_no_delim by fastforce+

text \<open>Splitting a query string at its ampersands gives back exactly the pairs sent.\<close>

lemma search_params_pairs:
  "ps \<noteq> [] \<Longrightarrow> split_char (CHR ''&'') (search_params ps)
     = map (\<lambda>(k, v). form_encode k @ ''='' @ form_encode v) ps"
  unfolding search_params_def by (rule split_char_join) auto

text \<open>Reading a query string back, as \<open>new URLSearchParams(s)\<close> and the server do.\<close>

lemma form_decode_percent:
  "n < 256 \<Longrightarrow> map (\<lambda>c. if c = CHR ''+'' then CHR '' '' else c) (percent n) = percent n"
  by (rule map_idI) (auto dest!: percent_chars simp: char_classes)

definition form_decode :: "string \<Rightarrow> string" where
  "form_decode s = decodeURIComponent (map (\<lambda>c. if c = CHR ''+'' then CHR '' '' else c) s)"

lemma form_decode_plain: "c \<noteq> CHR ''%'' \<Longrightarrow> c \<noteq> CHR ''+'' \<Longrightarrow> form_decode (c # s) = c # form_decode s"
  by (simp add: form_decode_def decode_plain)

lemma form_decode_encode: "form_decode (form_encode s) = s"
proof (induction s)
  case (Cons c s)
  let ?unplus = "map (\<lambda>c. if c = CHR ''+'' then CHR '' '' else c)"
  have k: "char_of (code c) = c" by (simp add: code_def)
  have div: "128 \<le> n \<Longrightarrow> n < 256 \<Longrightarrow> 192 + n div 64 < (256::nat)" "128 + n mod 64 < (256::nat)" for n
    by (simp_all add: less_mult_imp_div_less)
  consider "c = CHR '' ''" | "form_unreserved c" "c \<noteq> CHR '' ''"
    | "\<not> form_unreserved c" "c \<noteq> CHR '' ''" "code c < 128" | "\<not> form_unreserved c" "c \<noteq> CHR '' ''" "128 \<le> code c"
    by linarith
  then show ?case
  proof cases
    case 1
    then show ?thesis using Cons by (simp add: form_encode_def form_decode_def decode_plain)
  next
    case 2
    moreover have "c \<noteq> CHR ''%''" "c \<noteq> CHR ''+''"
      using 2 by (auto simp: form_unreserved_def char_classes)
    ultimately show ?thesis using Cons by (simp add: form_encode_def form_decode_plain)
  next
    case 3
    then show ?thesis using Cons
      by (simp add: form_encode_def form_decode_def utf8_def form_decode_percent decode_escape1 k)
  next
    case 4
    then show ?thesis using Cons
      by (simp add: form_encode_def form_decode_def utf8_def form_decode_percent div decode_escape2 k)
  qed
qed (simp add: form_encode_def form_decode_def)

fun split_pair :: "string \<Rightarrow> string \<times> string" where
  "split_pair [] = ([], [])"
| "split_pair (c # s) = (if c = CHR ''='' then ([], s) else (c # fst (split_pair s), snd (split_pair s)))"

definition parse_params :: "string \<Rightarrow> (string \<times> string) list" where
  "parse_params s = map (\<lambda>w. (form_decode (fst (split_pair w)), form_decode (snd (split_pair w))))
     (filter (\<lambda>w. w \<noteq> []) (split_char (CHR ''&'') s))"

lemma split_pair_append: "CHR ''='' \<notin> set k \<Longrightarrow> split_pair (k @ CHR ''='' # v) = (k, v)"
  by (induction k) auto

lemma parse_search_params: "parse_params (search_params ps) = ps"
proof (cases ps)
  case (Cons p ps')
  then have "ps \<noteq> []" by simp
  then show ?thesis
    by (simp add: parse_params_def search_params_pairs split_pair_append form_decode_encode
        filter_map comp_def case_prod_beta)
qed (simp add: parse_params_def search_params_def)

end
