(* ===== verification/JsRegex.thy ===== *)
theory JsRegex
  imports JsString
begin

text \<open>
  Regular expressions as the code uses them: an abstract syntax for the constructs that
  occur in its patterns and the backtracking matcher of ECMA-262 over it. A matcher
  state is the previous character (for \<open>\\b\<close> and \<open>^\<close>), the rest of the input and the
  captures; \<open>rx_m\<close> lists the states a match may end in, the preferred one first, so that
  the first is what the engine picks. \<open>rx_lang\<close> is the language of a pattern without its
  assertions; \<open>rx_m_sound\<close> and \<open>rx_m_complete\<close> relate the two, and
  \<open>rx_test_full\<close> turns an anchored \<open>test\<close> into membership.
\<close>

datatype rx =
    RSet "char \<Rightarrow> bool"
  | REps
  | RSeq rx rx
  | RAlt rx rx
  | RStar rx
  | RGrp nat rx
  | RBegin
  | REnd
  | RWordB
  | RNotAhead "char \<Rightarrow> bool"
  | RNotBehind "char \<Rightarrow> bool"

type_synonym rx_st = "char option \<times> string \<times> (nat \<times> string) list"

abbreviation st_rest :: "rx_st \<Rightarrow> string" where "st_rest st \<equiv> fst (snd st)"

definition word_at :: "char option \<Rightarrow> bool" where
  "word_at p = (case p of None \<Rightarrow> False | Some c \<Rightarrow> is_word c)"

text \<open>Greedy iteration; an iteration that consumes nothing is rejected.\<close>

function rx_iter :: "(rx_st \<Rightarrow> rx_st list) \<Rightarrow> rx_st \<Rightarrow> rx_st list" where
  "rx_iter f st =
     concat (map (\<lambda>st'. if length (st_rest st') < length (st_rest st) then rx_iter f st' else [])
                 (f st)) @ [st]"
  by pat_completeness auto
termination
  by (relation "measure (\<lambda>(f, st). length (st_rest st))") auto

declare rx_iter.simps [simp del]

primrec rx_m :: "rx \<Rightarrow> rx_st \<Rightarrow> rx_st list" where
  "rx_m (RSet P) = (\<lambda>(p, s, cs). case s of [] \<Rightarrow> [] | c # t \<Rightarrow> if P c then [(Some c, t, cs)] else [])"
| "rx_m REps = (\<lambda>st. [st])"
| "rx_m (RSeq r1 r2) = (\<lambda>st. concat (map (rx_m r2) (rx_m r1 st)))"
| "rx_m (RAlt r1 r2) = (\<lambda>st. rx_m r1 st @ rx_m r2 st)"
| "rx_m (RStar r) = rx_iter (rx_m r)"
| "rx_m (RGrp n r) = (\<lambda>st. map (\<lambda>(p', s', cs').
      (p', s', (n, take (length (st_rest st) - length s') (st_rest st)) # cs')) (rx_m r st))"
| "rx_m RBegin = (\<lambda>(p, s, cs). if p = None then [(p, s, cs)] else [])"
| "rx_m REnd = (\<lambda>(p, s, cs). if s = [] then [(p, s, cs)] else [])"
| "rx_m RWordB = (\<lambda>(p, s, cs).
      if word_at p \<noteq> word_at (case s of [] \<Rightarrow> None | c # _ \<Rightarrow> Some c) then [(p, s, cs)] else [])"
| "rx_m (RNotAhead P) = (\<lambda>(p, s, cs). case s of [] \<Rightarrow> [(p, s, cs)]
      | c # _ \<Rightarrow> if P c then [] else [(p, s, cs)])"
| "rx_m (RNotBehind P) = (\<lambda>(p, s, cs). case p of None \<Rightarrow> [(p, s, cs)]
      | Some c \<Rightarrow> if P c then [] else [(p, s, cs)])"

subsection \<open>Derived forms\<close>

fun rx_str :: "string \<Rightarrow> rx" where
  "rx_str [] = REps"
| "rx_str (c # s) = RSeq (RSet (\<lambda>d. d = c)) (rx_str s)"

text \<open>A literal under the flag \<open>i\<close>.\<close>

fun rx_stri :: "string \<Rightarrow> rx" where
  "rx_stri [] = REps"
| "rx_stri (c # s) = RSeq (RSet (\<lambda>d. to_upper d = to_upper c)) (rx_stri s)"

abbreviation rx_opt :: "rx \<Rightarrow> rx" where "rx_opt r \<equiv> RAlt r REps"
abbreviation rx_plus :: "rx \<Rightarrow> rx" where "rx_plus r \<equiv> RSeq r (RStar r)"

fun rx_times :: "nat \<Rightarrow> rx \<Rightarrow> rx" where
  "rx_times 0 r = REps"
| "rx_times (Suc n) r = RSeq r (rx_times n r)"

fun rx_upto :: "nat \<Rightarrow> rx \<Rightarrow> rx" where
  "rx_upto 0 r = REps"
| "rx_upto (Suc n) r = RAlt (RSeq r (rx_upto n r)) REps"

text \<open>\<open>r{m,n}\<close> and \<open>^r$\<close>.\<close>

definition rx_range :: "nat \<Rightarrow> nat \<Rightarrow> rx \<Rightarrow> rx" where
  "rx_range m n r = RSeq (rx_times m r) (rx_upto (n - m) r)"

definition rx_full :: "rx \<Rightarrow> rx" where "rx_full r = RSeq RBegin (RSeq r REnd)"

subsection \<open>Searching, matching and replacing\<close>

text \<open>
  The leftmost match: the text before it, the match, its captures, and the state after.
\<close>

fun rx_search :: "rx \<Rightarrow> char option \<Rightarrow> string \<Rightarrow> (string \<times> string \<times> rx_st) option" where
  "rx_search r p [] = (case rx_m r (p, [], []) of [] \<Rightarrow> None | st # _ \<Rightarrow> Some ([], [], st))"
| "rx_search r p (c # s) =
     (case rx_m r (p, c # s, []) of
        st # _ \<Rightarrow> Some ([], take (Suc (length s) - length (st_rest st)) (c # s), st)
      | [] \<Rightarrow> map_option (\<lambda>(b, m, st). (c # b, m, st)) (rx_search r (Some c) s))"

text \<open>\<open>re.test(s)\<close>.\<close>

definition rx_test :: "rx \<Rightarrow> string \<Rightarrow> bool" where
  "rx_test r s \<longleftrightarrow> rx_search r None s \<noteq> None"

text \<open>
  The scans with flag \<open>g\<close> cut the input into the characters between the matches
  (\<open>Inl\<close>) and the matches with their captures (\<open>Inr\<close>). After an empty match the next
  character is passed over.
\<close>

function rx_tokens :: "rx \<Rightarrow> char option \<Rightarrow> string \<Rightarrow> (char + string \<times> (nat \<times> string) list) list" where
  "rx_tokens r p s =
     (case rx_m r (p, s, []) of
        (p', s', cs) # _ \<Rightarrow>
          if length s' < length s
          then Inr (take (length s - length s') s, cs) # rx_tokens r p' s'
          else Inr ([], cs) # (case s of [] \<Rightarrow> [] | c # t \<Rightarrow> Inl c # rx_tokens r (Some c) t)
      | [] \<Rightarrow> (case s of [] \<Rightarrow> [] | c # t \<Rightarrow> Inl c # rx_tokens r (Some c) t))"
  by pat_completeness auto
termination
  by (relation "measure (\<lambda>(r, p, s). length s)") auto

declare rx_tokens.simps [simp del]

text \<open>\<open>s.match(re)\<close> with flag \<open>g\<close> (\<open>null\<close> is the empty list), \<open>s.replace(re, f)\<close>
  with and without it, \<open>s.split(re)\<close> for a pattern that never matches nothing.\<close>

definition rx_match_all :: "rx \<Rightarrow> string \<Rightarrow> string list" where
  "rx_match_all r s =
     concat (map (\<lambda>t. case t of Inl c \<Rightarrow> [] | Inr (m, cs) \<Rightarrow> [m]) (rx_tokens r None s))"

definition rx_replace_all :: "rx \<Rightarrow> (string \<Rightarrow> (nat \<times> string) list \<Rightarrow> string) \<Rightarrow> string \<Rightarrow> string" where
  "rx_replace_all r f s =
     concat (map (\<lambda>t. case t of Inl c \<Rightarrow> [c] | Inr (m, cs) \<Rightarrow> f m cs) (rx_tokens r None s))"

fun rx_pieces :: "(char + string \<times> (nat \<times> string) list) list \<Rightarrow> string list" where
  "rx_pieces [] = [[]]"
| "rx_pieces (Inl c # ts) = (case rx_pieces ts of [] \<Rightarrow> [[c]] | w # ws \<Rightarrow> (c # w) # ws)"
| "rx_pieces (Inr m # ts) = [] # rx_pieces ts"

definition rx_split :: "rx \<Rightarrow> string \<Rightarrow> string list" where
  "rx_split r s = rx_pieces (rx_tokens r None s)"

definition rx_replace :: "rx \<Rightarrow> (string \<Rightarrow> (nat \<times> string) list \<Rightarrow> string) \<Rightarrow> string \<Rightarrow> string" where
  "rx_replace r f s =
     (case rx_search r None s of None \<Rightarrow> s | Some (b, m, (p, s', cs)) \<Rightarrow> b @ f m cs @ s')"

definition cap :: "nat \<Rightarrow> (nat \<times> string) list \<Rightarrow> string" where
  "cap n cs = (case map_of cs n of None \<Rightarrow> [] | Some s \<Rightarrow> s)"

subsection \<open>The language of a pattern\<close>

primrec rx_lang :: "rx \<Rightarrow> string set" where
  "rx_lang (RSet P) = {[c] | c. P c}"
| "rx_lang REps = {[]}"
| "rx_lang (RSeq r1 r2) = {u @ v | u v. u \<in> rx_lang r1 \<and> v \<in> rx_lang r2}"
| "rx_lang (RAlt r1 r2) = rx_lang r1 \<union> rx_lang r2"
| "rx_lang (RStar r) = {concat ws | ws. set ws \<subseteq> rx_lang r}"
| "rx_lang (RGrp n r) = rx_lang r"
| "rx_lang RBegin = {[]}"
| "rx_lang REnd = {[]}"
| "rx_lang RWordB = {[]}"
| "rx_lang (RNotAhead P) = {[]}"
| "rx_lang (RNotBehind P) = {[]}"

text \<open>Patterns without assertions.\<close>

primrec rx_plain :: "rx \<Rightarrow> bool" where
  "rx_plain (RSet P) = True"
| "rx_plain REps = True"
| "rx_plain (RSeq r1 r2) = (rx_plain r1 \<and> rx_plain r2)"
| "rx_plain (RAlt r1 r2) = (rx_plain r1 \<and> rx_plain r2)"
| "rx_plain (RStar r) = rx_plain r"
| "rx_plain (RGrp n r) = rx_plain r"
| "rx_plain RBegin = False"
| "rx_plain REnd = False"
| "rx_plain RWordB = False"
| "rx_plain (RNotAhead P) = False"
| "rx_plain (RNotBehind P) = False"

text \<open>The previous character after consuming \<open>w\<close>.\<close>

definition after :: "char option \<Rightarrow> string \<Rightarrow> char option" where
  "after p w = (if w = [] then p else Some (last w))"

lemma after_Nil [simp]: "after p [] = p"
  by (simp add: after_def)

lemma after_single [simp]: "after p [c] = Some c"
  by (simp add: after_def)

lemma after_append [simp]: "after (after p u) v = after p (u @ v)"
  by (simp add: after_def)

definition rx_ok :: "(rx_st \<Rightarrow> rx_st list) \<Rightarrow> string set \<Rightarrow> bool" where
  "rx_ok f L \<longleftrightarrow> (\<forall>p s cs p' s' cs'. (p', s', cs') \<in> set (f (p, s, cs)) \<longrightarrow>
     (\<exists>w \<in> L. s = w @ s' \<and> p' = after p w))"

lemma rx_okI: "(\<And>p s cs p' s' cs'. (p', s', cs') \<in> set (f (p, s, cs)) \<Longrightarrow>
     \<exists>w \<in> L. s = w @ s' \<and> p' = after p w) \<Longrightarrow> rx_ok f L"
  by (simp add: rx_ok_def)

lemma rx_okD: "rx_ok f L \<Longrightarrow> (p', s', cs') \<in> set (f (p, s, cs)) \<Longrightarrow>
     \<exists>w \<in> L. s = w @ s' \<and> p' = after p w"
  unfolding rx_ok_def by blast

lemma rx_iter_sound:
  "rx_ok f L \<Longrightarrow> (p', s', cs') \<in> set (rx_iter f (p, s, cs)) \<Longrightarrow>
     \<exists>ws. set ws \<subseteq> L \<and> s = concat ws @ s' \<and> p' = after p (concat ws)"
proof (induction "length s" arbitrary: p s cs rule: less_induct)
  case less
  from less.prems(2) consider "(p', s', cs') = (p, s, cs)"
    | p1 s1 cs1 where "(p1, s1, cs1) \<in> set (f (p, s, cs))" "length s1 < length s"
        "(p', s', cs') \<in> set (rx_iter f (p1, s1, cs1))"
    by (subst (asm) rx_iter.simps) (auto split: if_splits)
  then show ?case
  proof cases
    case 1
    then show ?thesis by (intro exI [of _ "[]"]) simp
  next
    case 2
    from rx_okD [OF less.prems(1) 2(1)] obtain w where
      w: "w \<in> L" "s = w @ s1" "p1 = after p w" by blast
    from less.hyps [OF 2(2) less.prems(1) 2(3)] obtain ws where
      "set ws \<subseteq> L" "s1 = concat ws @ s'" "p' = after p1 (concat ws)" by blast
    with w show ?thesis by (intro exI [of _ "w # ws"]) simp
  qed
qed

theorem rx_m_sound: "rx_ok (rx_m r) (rx_lang r)"
proof (induction r)
  case (RSeq r1 r2)
  show ?case
  proof (rule rx_okI)
    fix p s cs p' s' cs'
    assume "(p', s', cs') \<in> set (rx_m (RSeq r1 r2) (p, s, cs))"
    then obtain p1 s1 cs1 where a: "(p1, s1, cs1) \<in> set (rx_m r1 (p, s, cs))"
      and b: "(p', s', cs') \<in> set (rx_m r2 (p1, s1, cs1))" by auto
    from rx_okD [OF RSeq(1) a] rx_okD [OF RSeq(2) b] obtain u v where
      "u \<in> rx_lang r1" "s = u @ s1" "p1 = after p u" "v \<in> rx_lang r2" "s1 = v @ s'" "p' = after p1 v"
      by blast
    then have "u @ v \<in> rx_lang (RSeq r1 r2) \<and> s = (u @ v) @ s' \<and> p' = after p (u @ v)" by auto
    then show "\<exists>w \<in> rx_lang (RSeq r1 r2). s = w @ s' \<and> p' = after p w" by blast
  qed
next
  case (RAlt r1 r2)
  then show ?case unfolding rx_ok_def by fastforce
next
  case (RStar r)
  show ?case
    by (rule rx_okI) (use rx_iter_sound [OF RStar] in fastforce)
next
  case (RGrp n r)
  then show ?case unfolding rx_ok_def by fastforce
qed (auto simp: rx_ok_def split: list.splits option.splits if_splits)

lemma rx_iter_complete:
  assumes f: "\<And>p s cs w. w \<in> L \<Longrightarrow> \<exists>cs'. (after p w, s, cs') \<in> set (f (p, w @ s, cs))"
  shows "set ws \<subseteq> L \<Longrightarrow> \<exists>cs'. (after p (concat ws), s, cs') \<in> set (rx_iter f (p, concat ws @ s, cs))"
proof (induction ws arbitrary: p cs)
  case Nil
  show ?case by (subst rx_iter.simps) auto
next
  case (Cons w ws)
  show ?case
  proof (cases "w = []")
    case True
    with Cons show ?thesis by simp
  next
    case False
    from f [of w p "concat ws @ s" cs] Cons.prems obtain cs1 where
      a: "(after p w, concat ws @ s, cs1) \<in> set (f (p, w @ concat ws @ s, cs))" by auto
    from Cons.IH [of "after p w" cs1] Cons.prems obtain cs2 where
      b: "(after p (concat (w # ws)), s, cs2) \<in> set (rx_iter f (after p w, concat ws @ s, cs1))" by auto
    have "length (concat ws @ s) < length (w @ concat ws @ s)" using False by simp
    with a b have "(after p (concat (w # ws)), s, cs2) \<in> set (rx_iter f (p, w @ concat ws @ s, cs))"
      by (subst rx_iter.simps) (auto intro!: bexI [of _ "(after p w, concat ws @ s, cs1)"])
    then show ?thesis by auto
  qed
qed

theorem rx_m_complete:
  "rx_plain r \<Longrightarrow> w \<in> rx_lang r \<Longrightarrow> \<exists>cs'. (after p w, s, cs') \<in> set (rx_m r (p, w @ s, cs))"
proof (induction r arbitrary: w p s cs)
  case (RSeq r1 r2)
  then obtain u v where w: "w = u @ v" "u \<in> rx_lang r1" "v \<in> rx_lang r2" by auto
  from RSeq.IH(1) [OF _ w(2), of p "v @ s" cs] RSeq.prems(1) obtain cs1 where
    a: "(after p u, v @ s, cs1) \<in> set (rx_m r1 (p, u @ v @ s, cs))" by auto
  from RSeq.IH(2) [OF _ w(3), of "after p u" s cs1] RSeq.prems(1) obtain cs2 where
    b: "(after p w, s, cs2) \<in> set (rx_m r2 (after p u, v @ s, cs1))" by (auto simp: w)
  from a b show ?case by (auto simp: w intro!: bexI)
next
  case (RAlt r1 r2)
  then show ?case by fastforce
next
  case (RStar r)
  then obtain ws where w: "w = concat ws" "set ws \<subseteq> rx_lang r" by auto
  show ?case unfolding w rx_m.simps
    by (rule rx_iter_complete [OF _ w(2)]) (use RStar in auto)
next
  case (RGrp n r)
  from RGrp.IH [of w p s cs] RGrp.prems obtain cs' where
    "(after p w, s, cs') \<in> set (rx_m r (p, w @ s, cs))" by auto
  then show ?case by force
qed auto

subsection \<open>Consequences for searches\<close>

lemma rx_search_parts:
  "rx_search r p s = Some (b, m, (p', s', cs)) \<Longrightarrow> s = b @ m @ s' \<and> m \<in> rx_lang r"
proof (induction r p s arbitrary: b rule: rx_search.induct)
  case (1 r p)
  then obtain l where l: "rx_m r (p, [], []) = (p', s', cs) # l" "b = []" "m = []"
    by (auto split: list.splits)
  have "(p', s', cs) \<in> set (rx_m r (p, [], []))" by (simp add: l)
  from rx_okD [OF rx_m_sound this] l show ?case by auto
next
  case (2 r p c s)
  show ?case
  proof (cases "rx_m r (p, c # s, [])")
    case Nil
    with 2 show ?thesis by (auto split: option.splits)
  next
    case (Cons st l)
    with "2.prems" have e: "st = (p', s', cs)" "b = []"
      "m = take (Suc (length s) - length s') (c # s)" by auto
    have "(p', s', cs) \<in> set (rx_m r (p, c # s, []))" by (simp add: Cons e)
    from rx_okD [OF rx_m_sound this] obtain w where w: "w \<in> rx_lang r" "c # s = w @ s'" by blast
    have "Suc (length s) - length s' = length w" using arg_cong [OF w(2), of length] by simp
    then have "m = w" using e(3) w(2) by simp
    with w e show ?thesis by simp
  qed
qed

lemma rx_head_match:
  assumes "rx_m r (p, s, []) = (p', s', cs) # l"
  obtains w where "w \<in> rx_lang r" "s = w @ s'" "p' = after p w" "take (length s - length s') s = w"
proof -
  have "(p', s', cs) \<in> set (rx_m r (p, s, []))" by (simp add: assms)
  from rx_okD [OF rx_m_sound this] obtain w where
    "w \<in> rx_lang r" "s = w @ s'" "p' = after p w" by blast
  then show ?thesis by (intro that) auto
qed

text \<open>One step of the scan, by the kind of match at the current position.\<close>

lemma rx_tokens_none: "rx_m r (p, s, []) = [] \<Longrightarrow>
    rx_tokens r p s = (case s of [] \<Rightarrow> [] | c # t \<Rightarrow> Inl c # rx_tokens r (Some c) t)"
  by (simp add: rx_tokens.simps [of r p s])

lemma rx_tokens_match: "rx_m r (p, s, []) = (p', s', cs) # l \<Longrightarrow> length s' < length s \<Longrightarrow>
    rx_tokens r p s = Inr (take (length s - length s') s, cs) # rx_tokens r p' s'"
  by (simp add: rx_tokens.simps [of r p s])

lemma rx_tokens_empty: "rx_m r (p, s, []) = (p', s', cs) # l \<Longrightarrow> \<not> length s' < length s \<Longrightarrow>
    rx_tokens r p s = Inr ([], cs) # (case s of [] \<Rightarrow> [] | c # t \<Rightarrow> Inl c # rx_tokens r (Some c) t)"
  by (simp add: rx_tokens.simps [of r p s])

lemma rx_tokens_induct [case_names none match empty]:
  assumes none: "\<And>p s. rx_m r (p, s, []) = [] \<Longrightarrow>
      (\<And>c t. s = c # t \<Longrightarrow> P (Some c) t) \<Longrightarrow> P p s"
    and match: "\<And>p s w s' cs l. rx_m r (p, s, []) = (after p w, s', cs) # l \<Longrightarrow> w \<in> rx_lang r \<Longrightarrow>
      s = w @ s' \<Longrightarrow> w \<noteq> [] \<Longrightarrow> rx_tokens r p s = Inr (w, cs) # rx_tokens r (after p w) s' \<Longrightarrow>
      P (after p w) s' \<Longrightarrow> P p s"
    and empty: "\<And>p s cs l. rx_m r (p, s, []) = (p, s, cs) # l \<Longrightarrow> [] \<in> rx_lang r \<Longrightarrow>
      (\<And>c t. s = c # t \<Longrightarrow> P (Some c) t) \<Longrightarrow> P p s"
  shows "P p s"
proof (induction "length s" arbitrary: p s rule: less_induct)
  case less
  have tl: "P (Some c) t" if "s = c # t" for c t using less that by simp
  show ?case
  proof (cases "rx_m r (p, s, [])")
    case Nil
    then show ?thesis using tl by (rule none)
  next
    case (Cons st l)
    obtain p' s' cs where st: "st = (p', s', cs)" by (cases st)
    note m = Cons [unfolded st]
    from rx_head_match [OF m] obtain w where
      w: "w \<in> rx_lang r" "s = w @ s'" "p' = after p w" "take (length s - length s') s = w" by blast
    show ?thesis
    proof (cases "w = []")
      case True
      then show ?thesis using empty [of p s cs l] m w tl by simp
    next
      case False
      then have lt: "length s' < length s" using w by simp
      have "P (after p w) s'" using less [OF lt] .
      then show ?thesis
        using match [of p s w s' cs l] m w False rx_tokens_match [OF m lt] by simp
    qed
  qed
qed

text \<open>Every match reported is a word of the pattern, and the tokens are the input.\<close>

lemma rx_tokens_lang: "Inr (m, cs) \<in> set (rx_tokens r p s) \<Longrightarrow> m \<in> rx_lang r"
proof (induction p s rule: rx_tokens_induct [of r])
  case (none p s)
  then show ?case by (auto simp: rx_tokens_none split: list.splits)
next
  case (match p s w s' cs' l)
  from match.prems match.hyps(2,5) match.IH show ?case by auto
next
  case (empty p s cs' l)
  then show ?case by (auto simp: rx_tokens_empty split: list.splits)
qed

definition token_text :: "char + string \<times> (nat \<times> string) list \<Rightarrow> string" where
  "token_text t = (case t of Inl c \<Rightarrow> [c] | Inr (m, cs) \<Rightarrow> m)"

lemma rx_tokens_text: "concat (map token_text (rx_tokens r p s)) = s"
proof (induction p s rule: rx_tokens_induct [of r])
  case (none p s)
  then show ?case by (auto simp: rx_tokens_none token_text_def split: list.splits)
next
  case (match p s w s' cs l)
  have "concat (map token_text (rx_tokens r p s)) = w @ s'"
    using match.hyps(5) match.IH by (simp add: token_text_def [of "Inr (w, cs)"])
  then show ?case using match.hyps(3) by simp
next
  case (empty p s cs l)
  then show ?case by (auto simp: rx_tokens_empty token_text_def split: list.splits)
qed

lemma rx_match_all_lang: "w \<in> set (rx_match_all r s) \<Longrightarrow> w \<in> rx_lang r"
  by (auto simp: rx_match_all_def split: sum.splits dest: rx_tokens_lang)

lemma rx_full_start:
  "rx_plain r \<Longrightarrow> rx_m (rx_full r) (None, s, []) \<noteq> [] \<longleftrightarrow> s \<in> rx_lang r"
proof -
  assume pl: "rx_plain r"
  have "concat (map (rx_m REnd) l) = filter (\<lambda>(p, s, cs). s = []) l" for l
    by (induction l) auto
  then have eq: "rx_m (rx_full r) (None, s, []) = filter (\<lambda>(p, s, cs). s = []) (rx_m r (None, s, []))"
    by (simp add: rx_full_def)
  show ?thesis
  proof
    assume "rx_m (rx_full r) (None, s, []) \<noteq> []"
    then obtain p' cs' where "(p', [], cs') \<in> set (rx_m r (None, s, []))"
      by (auto simp: eq filter_empty_conv)
    from rx_okD [OF rx_m_sound this] show "s \<in> rx_lang r" by auto
  next
    assume "s \<in> rx_lang r"
    from rx_m_complete [OF pl this, of None "[]" "[]"] obtain cs' where
      "(after None s, [], cs') \<in> set (rx_m r (None, s, []))" by auto
    then show "rx_m (rx_full r) (None, s, []) \<noteq> []" by (auto simp: eq filter_empty_conv)
  qed
qed

lemma rx_full_later: "p \<noteq> None \<Longrightarrow> rx_search (rx_full r) p s = None"
  by (induction "rx_full r" p s rule: rx_search.induct) (auto simp: rx_full_def)

text \<open>\<open>/^r$/.test(s)\<close> decides membership in the language of \<open>r\<close>.\<close>

theorem rx_test_full: "rx_plain r \<Longrightarrow> rx_test (rx_full r) s \<longleftrightarrow> s \<in> rx_lang r"
proof -
  assume pl: "rx_plain r"
  have "rx_search (rx_full r) None s \<noteq> None \<longleftrightarrow> rx_m (rx_full r) (None, s, []) \<noteq> []"
    by (cases s) (auto simp: rx_full_later split: list.splits)
  then show ?thesis by (simp add: rx_test_def rx_full_start [OF pl])
qed

subsection \<open>Languages of the derived forms\<close>

lemma rx_plain_times [simp]: "rx_plain r \<Longrightarrow> rx_plain (rx_times n r)"
  by (induction n) auto

lemma rx_plain_upto [simp]: "rx_plain r \<Longrightarrow> rx_plain (rx_upto n r)"
  by (induction n) auto

lemma rx_plain_range [simp]: "rx_plain r \<Longrightarrow> rx_plain (rx_range m n r)"
  by (simp add: rx_range_def)

lemma rx_plain_str [simp]: "rx_plain (rx_str s)"
  by (induction s) auto

lemma rx_plain_stri [simp]: "rx_plain (rx_stri s)"
  by (induction s) auto

lemma rx_lang_cons: "rx_lang (RSeq (RSet P) r) = {c # v | c v. P c \<and> v \<in> rx_lang r}"
proof (intro set_eqI iffI)
  fix w assume "w \<in> rx_lang (RSeq (RSet P) r)"
  then show "w \<in> {c # v | c v. P c \<and> v \<in> rx_lang r}" by auto
next
  fix w assume "w \<in> {c # v | c v. P c \<and> v \<in> rx_lang r}"
  then obtain c v where "w = [c] @ v" "[c] \<in> rx_lang (RSet P)" "v \<in> rx_lang r" by auto
  then show "w \<in> rx_lang (RSeq (RSet P) r)" unfolding rx_lang.simps(3) by blast
qed

lemma rx_lang_str [simp]: "rx_lang (rx_str s) = {s}"
  by (induction s) (simp_all add: rx_lang_cons del: rx_lang.simps(3))

lemma rx_lang_stri: "w \<in> rx_lang (rx_stri s) \<longleftrightarrow> toUpperCase w = toUpperCase s"
proof (induction s arbitrary: w)
  case (Cons c s)
  then show ?case unfolding rx_stri.simps rx_lang_cons by (cases w) (auto simp: toUpperCase_def)
qed (auto simp: toUpperCase_def)

lemma rx_lang_times_set: "rx_lang (rx_times n (RSet P)) = {w. length w = n \<and> list_all P w}"
proof (induction n)
  case (Suc n)
  show ?case unfolding rx_times.simps rx_lang_cons Suc
    by (auto simp: length_Suc_conv)
qed auto

lemma rx_lang_upto_set: "rx_lang (rx_upto n (RSet P)) = {w. length w \<le> n \<and> list_all P w}"
proof (induction n)
  case (Suc n)
  have "rx_lang (rx_upto (Suc n) (RSet P)) = {c # v | c v. P c \<and> length v \<le> n \<and> list_all P v} \<union> {[]}"
    unfolding rx_upto.simps rx_lang.simps(4) rx_lang_cons Suc by auto
  also have "\<dots> = {w. length w \<le> Suc n \<and> list_all P w}"
  proof (intro set_eqI)
    fix w
    show "w \<in> {c # v | c v. P c \<and> length v \<le> n \<and> list_all P v} \<union> {[]} \<longleftrightarrow> w \<in> {w. length w \<le> Suc n \<and> list_all P w}"
      by (cases w) auto
  qed
  finally show ?case .
qed auto

lemma rx_lang_range_set:
  "m \<le> n \<Longrightarrow> rx_lang (rx_range m n (RSet P)) = {w. m \<le> length w \<and> length w \<le> n \<and> list_all P w}"
proof (intro set_eqI iffI)
  fix w assume "m \<le> n" "w \<in> rx_lang (rx_range m n (RSet P))"
  then show "w \<in> {w. m \<le> length w \<and> length w \<le> n \<and> list_all P w}"
    by (auto simp: rx_range_def rx_lang_times_set rx_lang_upto_set)
next
  fix w assume h: "m \<le> n" "w \<in> {w. m \<le> length w \<and> length w \<le> n \<and> list_all P w}"
  then have "take m w \<in> rx_lang (rx_times m (RSet P))" "drop m w \<in> rx_lang (rx_upto (n - m) (RSet P))"
    by (auto simp: rx_lang_times_set rx_lang_upto_set list_all_iff dest: in_set_takeD in_set_dropD)
  moreover have "w = take m w @ drop m w" by simp
  ultimately show "w \<in> rx_lang (rx_range m n (RSet P))"
    unfolding rx_range_def rx_lang.simps by blast
qed

lemma rx_lang_star_set: "rx_lang (RStar (RSet P)) = {w. list_all P w}"
proof (intro set_eqI iffI)
  fix w assume "w \<in> rx_lang (RStar (RSet P))"
  then obtain ws where "w = concat ws" "set ws \<subseteq> {[c] | c. P c}" by auto
  moreover have "set ws \<subseteq> {[c] | c. P c} \<Longrightarrow> list_all P (concat ws)" by (induction ws) auto
  ultimately show "w \<in> {w. list_all P w}" by simp
next
  fix w assume h: "w \<in> {w. list_all P w}"
  have "concat (map (\<lambda>c. [c]) w) = w" by (induction w) auto
  moreover have "set (map (\<lambda>c. [c]) w) \<subseteq> rx_lang (RSet P)" using h by (auto simp: list_all_iff)
  ultimately have "\<exists>ws. w = concat ws \<and> set ws \<subseteq> rx_lang (RSet P)" by metis
  then show "w \<in> rx_lang (RStar (RSet P))" by simp
qed

subsection \<open>Evaluating iterations of a character set\<close>

lemma rx_star_Nil: "rx_m (RStar (RSet P)) (p, [], cs) = [(p, [], cs)]"
  by (simp add: rx_iter.simps)

lemma rx_star_Cons: "rx_m (RStar (RSet P)) (p, c # s, cs) =
    (if P c then rx_m (RStar (RSet P)) (Some c, s, cs) @ [(p, c # s, cs)] else [(p, c # s, cs)])"
  by (subst rx_m.simps, subst rx_iter.simps) simp

lemmas rx_star_run = rx_star_Nil rx_star_Cons

subsection \<open>Evaluating literals and fixed repetitions\<close>

lemma rx_m_str [simp]: "rx_m (rx_str w) (p, s, cs) =
    (if starts_with s w then [(after p w, drop (length w) s, cs)] else [])"
proof (induction w arbitrary: p s)
  case Nil
  show ?case by (simp add: after_def)
next
  case (Cons c w)
  show ?case using Cons by (cases s) (auto simp: starts_with_def after_def)
qed

lemma rx_m_stri [simp]: "rx_m (rx_stri w) (p, s, cs) =
    (if toUpperCase (take (length w) s) = toUpperCase w then [(after p (take (length w) s), drop (length w) s, cs)] else [])"
proof (induction w arbitrary: p s)
  case Nil
  show ?case by (simp add: after_def toUpperCase_def)
next
  case (Cons c w)
  show ?case using Cons by (cases s) (auto simp: toUpperCase_def after_def)
qed

lemma rx_m_times [simp]: "rx_m (rx_times n (RSet P)) (p, s, cs) =
    (if n \<le> length s \<and> list_all P (take n s) then [(after p (take n s), drop n s, cs)] else [])"
proof (induction n arbitrary: p s)
  case 0
  show ?case by simp
next
  case (Suc n)
  show ?case using Suc by (cases s) (auto simp: after_def)
qed

subsection \<open>Patterns that do not occur\<close>

lemma rx_tokens_absent:
  "(\<And>u t q. s = u @ t \<Longrightarrow> rx_m r (q, t, []) = []) \<Longrightarrow> rx_tokens r p s = map Inl s"
proof (induction s arbitrary: p)
  case Nil
  then show ?case using rx_tokens_none [of r p "[]"] by simp
next
  case (Cons c s)
  have "rx_m r (p, c # s, []) = []" using Cons.prems [of "[]" "c # s"] by simp
  moreover have "rx_tokens r (Some c) s = map Inl s"
    by (rule Cons.IH) (use Cons.prems [of "c # u" for u] in auto)
  ultimately show ?case by (simp add: rx_tokens_none)
qed

lemma rx_m_absent:
  assumes "\<And>w. w \<in> rx_lang r \<Longrightarrow> \<not> starts_with s w"
  shows "rx_m r (p, s, []) = []"
proof (cases "rx_m r (p, s, [])")
  case (Cons st l)
  obtain p' s' cs where "st = (p', s', cs)" by (cases st)
  with Cons have "(p', s', cs) \<in> set (rx_m r (p, s, []))" by simp
  from rx_okD [OF rx_m_sound this] assms show ?thesis by (auto simp: starts_with_iff)
qed simp

lemma rx_tokens_no_word:
  "(\<And>w. w \<in> rx_lang r \<Longrightarrow> \<not> str_includes s w) \<Longrightarrow> rx_tokens r p s = map Inl s"
  by (rule rx_tokens_absent, rule rx_m_absent) (fastforce simp: includes_iff starts_with_iff)

lemma rx_tokens_no_char:
  assumes "\<And>w. w \<in> rx_lang r \<Longrightarrow> c \<in> set w" and "c \<notin> set s"
  shows "rx_tokens r p s = map Inl s"
proof (rule rx_tokens_no_word)
  fix w assume "w \<in> rx_lang r"
  then have "c \<in> set w" by (rule assms(1))
  with assms(2) show "\<not> str_includes s w" by (auto simp: includes_iff)
qed

lemma rx_replace_none: "rx_tokens r None s = map Inl s \<Longrightarrow> rx_replace_all r f s = s"
  by (simp add: rx_replace_all_def o_def)

lemma rx_match_none: "rx_tokens r None s = map Inl s \<Longrightarrow> rx_match_all r s = []"
  by (simp add: rx_match_all_def o_def)

subsection \<open>Runs of a character set\<close>

lemma rx_star_first: "\<exists>l. rx_m (RStar (RSet P)) (p, s, cs) = (after p (takeWhile P s), dropWhile P s, cs) # l"
proof (induction s arbitrary: p)
  case Nil
  show ?case by (simp only: rx_star_Nil) simp
next
  case (Cons c s)
  from Cons [of "Some c"] obtain l where
    l: "rx_m (RStar (RSet P)) (Some c, s, cs) = (after (Some c) (takeWhile P s), dropWhile P s, cs) # l" by blast
  show ?case
  proof (cases "P c")
    case True
    then show ?thesis unfolding rx_star_Cons l by (simp add: after_def)
  next
    case False
    then show ?thesis unfolding rx_star_Cons by simp
  qed
qed

lemma rx_plus_first: "P c \<Longrightarrow> \<exists>l. rx_m (rx_plus (RSet P)) (p, c # s, cs) =
    (Some (last (c # takeWhile P s)), dropWhile P s, cs) # l"
  using rx_star_first [of P "Some c" s cs] by (auto simp: after_def)

lemma rx_plus_none: "(case s of [] \<Rightarrow> True | c # t \<Rightarrow> \<not> P c) \<Longrightarrow> rx_m (rx_plus (RSet P)) (p, s, cs) = []"
  by (cases s) auto

lemma rx_star_end: "rx_m (RSeq (RStar (RSet P)) REnd) (p, s, cs) \<noteq> [] \<longleftrightarrow> list_all P s"
proof
  assume "rx_m (RSeq (RStar (RSet P)) REnd) (p, s, cs) \<noteq> []"
  then obtain p' s' cs' where "(p', s', cs') \<in> set (rx_m (RSeq (RStar (RSet P)) REnd) (p, s, cs))"
    by (metis list.set_sel(1) prod_cases3)
  then have "(p', s', cs') \<in> set (rx_m (RStar (RSet P)) (p, s, cs))" "s' = []" by (auto split: if_splits)
  from rx_okD [OF rx_m_sound this(1)] this(2) show "list_all P s"
    using rx_lang_star_set [of P] by (auto simp del: rx_lang.simps)
next
  assume "list_all P s"
  then have "s \<in> rx_lang (RStar (RSet P))" unfolding rx_lang_star_set by simp
  from rx_m_complete [OF _ this, of p "[]" cs] obtain cs' where
    "(after p s, [], cs') \<in> set (rx_m (RStar (RSet P)) (p, s, cs))" by auto
  then show "rx_m (RSeq (RStar (RSet P)) REnd) (p, s, cs) \<noteq> []" by (force simp del: rx_m.simps(5))
qed

lemma rx_seq_end: "(p', s', cs') \<in> set (rx_m (RSeq r REnd) st) \<Longrightarrow> s' = []"
  by (auto split: if_splits)

lemma rx_pieces_chars: "w \<in> set (rx_pieces ts) \<Longrightarrow> c \<in> set w \<Longrightarrow> Inl c \<in> set ts"
proof (induction ts arbitrary: w rule: rx_pieces.induct)
  case (2 c' ts)
  show ?case
  proof (cases "rx_pieces ts")
    case Nil
    with 2 show ?thesis by auto
  next
    case (Cons v vs)
    with 2 have "c = c' \<or> (\<exists>u \<in> set (rx_pieces ts). c \<in> set u)" by auto
    then show ?thesis using "2.IH" by auto
  qed
qed auto

lemma rx_plus_between: "Inl c \<in> set (rx_tokens (rx_plus (RSet P)) p s) \<Longrightarrow> \<not> P c"
proof (induction p s rule: rx_tokens_induct [of "rx_plus (RSet P)"])
  case (none p s)
  show ?case
  proof (cases s)
    case Nil
    with none show ?thesis by (simp add: rx_tokens_none)
  next
    case (Cons d t)
    with none.hyps(1) rx_plus_first [of P d p t "[]"] have "\<not> P d" by auto
    with none Cons show ?thesis by (auto simp: rx_tokens_none)
  qed
next
  case (match p s w s' cs l)
  from match.prems match.hyps(5) have "Inl c \<in> set (rx_tokens (rx_plus (RSet P)) (after p w) s')" by simp
  then show ?case by (rule match.IH)
next
  case (empty p s cs l)
  from empty.hyps(2) show ?case by auto
qed

text \<open>\<open>s.split(/[P]+/)\<close> cuts at the runs: no piece holds a separator.\<close>

lemma rx_split_plus: "w \<in> set (rx_split (rx_plus (RSet P)) s) \<Longrightarrow> list_all (\<lambda>c. \<not> P c) w"
  unfolding rx_split_def list_all_iff by (blast dest: rx_pieces_chars rx_plus_between)

end
