(* ===== verification/Json.thy ===== *)
theory Json
  imports JsRegex
begin

text \<open>
  The values that cross the network: JSON data, with \<open>JUndef\<close> for \<open>undefined\<close>, which an
  object literal may hold and \<open>JSON.stringify\<close> drops. \<open>json_send\<close> is the value the
  receiver reads back after \<open>JSON.stringify\<close> (objects without their undefined members,
  undefined array elements as null); \<open>json_text\<close> is the text itself. The second part is
  the structural typing TypeScript gives such values: \<open>ts\<close> are the types that occur in
  the client, \<open>conforms\<close> says when a value has one.
\<close>

datatype json =
    JUndef
  | JNull
  | JBool bool
  | JNum rat
  | JStr string
  | JArr "json list"
  | JObj "(string \<times> json) list"

text \<open>Property access \<open>v.k\<close> on a value that is not null or undefined.\<close>

fun json_get :: "string \<Rightarrow> json \<Rightarrow> json" where
  "json_get k (JObj ms) = (case obj_get ms k of None \<Rightarrow> JUndef | Some v \<Rightarrow> v)"
| "json_get k v = JUndef"

text \<open>\<open>a ?? b\<close> and truthiness.\<close>

fun nullish :: "json \<Rightarrow> json \<Rightarrow> json" where
  "nullish JUndef b = b"
| "nullish JNull b = b"
| "nullish a b = a"

fun truthy :: "json \<Rightarrow> bool" where
  "truthy JUndef = False"
| "truthy JNull = False"
| "truthy (JBool b) = b"
| "truthy (JNum x) = (x \<noteq> 0)"
| "truthy (JStr s) = (s \<noteq> [])"
| "truthy (JArr vs) = True"
| "truthy (JObj ms) = True"

subsection \<open>JSON.stringify\<close>

fun json_send :: "json \<Rightarrow> json" where
  "json_send (JArr vs) = JArr (map (\<lambda>v. if v = JUndef then JNull else json_send v) vs)"
| "json_send (JObj ms) =
     JObj (map (\<lambda>(k, v). (k, json_send v)) (filter (\<lambda>(k, v). v \<noteq> JUndef) ms))"
| "json_send v = v"

text \<open>Quoting: the escapes of ECMA-262 for the characters below 256.\<close>

definition json_esc :: "char \<Rightarrow> string" where
  "json_esc c =
     (if code c = 34 then [char_of (92::nat), c]
      else if code c = 92 then [c, c]
      else if code c = 8 then [char_of (92::nat), CHR ''b'']
      else if code c = 9 then [char_of (92::nat), CHR ''t'']
      else if code c = 10 then [char_of (92::nat), CHR ''n'']
      else if code c = 12 then [char_of (92::nat), CHR ''f'']
      else if code c = 13 then [char_of (92::nat), CHR ''r'']
      else if code c < 32 then
        [char_of (92::nat), CHR ''u'', CHR ''0'', CHR ''0'', digit_char (code c div 16), digit_char (code c mod 16)]
      else [c])"

definition json_quote :: "string \<Rightarrow> string" where
  "json_quote s = [char_of (34::nat)] @ concat (map json_esc s) @ [char_of (34::nat)]"

fun json_text :: "json \<Rightarrow> string" where
  "json_text JUndef = ''undefined''"
| "json_text JNull = ''null''"
| "json_text (JBool b) = (if b then ''true'' else ''false'')"
| "json_text (JNum x) = num_str x"
| "json_text (JStr s) = json_quote s"
| "json_text (JArr vs) = ''['' @ join '','' (map (\<lambda>v. if v = JUndef then ''null'' else json_text v) vs) @ '']''"
| "json_text (JObj ms) =
     ''{'' @ join '','' (map (\<lambda>(k, v). json_quote k @ '':'' @ json_text v)
                         (filter (\<lambda>(k, v). v \<noteq> JUndef) ms)) @ ''}''"

text \<open>Values without undefined parts are what arrives unchanged.\<close>

fun defined :: "json \<Rightarrow> bool" where
  "defined JUndef = False"
| "defined (JArr vs) = list_all defined vs"
| "defined (JObj ms) = list_all (\<lambda>(k, v). defined v) ms"
| "defined v = True"

lemma defined_JUndef: "defined v \<Longrightarrow> v \<noteq> JUndef"
  by auto

lemma json_send_defined: "defined v \<Longrightarrow> json_send v = v"
proof (induction v rule: json_send.induct)
  case (1 vs)
  have "(if v = JUndef then JNull else json_send v) = v" if "v \<in> set vs" for v
    using 1 that by (simp add: list_all_iff) (metis defined_JUndef)
  then show ?case by (simp add: map_idI)
next
  case (2 ms)
  have "(case m of (k, v) \<Rightarrow> v \<noteq> JUndef)" "(case m of (k, v) \<Rightarrow> (k, json_send v)) = m"
    if "m \<in> set ms" for m
    using 2 that by (cases m; force simp: list_all_iff)+
  then have "filter (\<lambda>(k, v). v \<noteq> JUndef) ms = ms" "map (\<lambda>(k, v). (k, json_send v)) ms = ms"
    by (simp_all add: filter_id_conv map_idI)
  then show ?case by simp
qed auto

lemma defined_json_send: "v \<noteq> JUndef \<Longrightarrow> defined (json_send v)"
proof (induction v rule: json_send.induct)
  case (1 vs)
  have "defined (json_send v)" if "v \<in> set vs" "v \<noteq> JUndef" for v
    using 1 that by simp
  then show ?case by (auto simp: list_all_iff)
next
  case (2 ms)
  have "defined (json_send v)" if "(k, v) \<in> set ms" "v \<noteq> JUndef" for k v
    using 2 that by auto
  then show ?case by (auto simp: list_all_iff)
qed auto

lemma json_send_idem: "json_send (json_send v) = json_send v"
  by (cases "v = JUndef") (simp_all add: json_send_defined defined_json_send)

subsection \<open>TypeScript types of JSON values\<close>

datatype ts =
    TString
  | TNumber
  | TBool
  | TNull
  | TUnknown
  | TVoid
  | TLit string
  | TArray ts
  | TRecord ts
  | TUnion "ts list"
  | TObj "(string \<times> bool \<times> ts) list"

text \<open>
  A field of an object type is its name, whether it is optional (\<open>f?:\<close>), and its type.
\<close>

abbreviation req :: "string \<Rightarrow> ts \<Rightarrow> string \<times> bool \<times> ts" where "req k t \<equiv> (k, False, t)"
abbreviation opt :: "string \<Rightarrow> ts \<Rightarrow> string \<times> bool \<times> ts" where "opt k t \<equiv> (k, True, t)"
abbreviation or_null :: "ts \<Rightarrow> ts" where "or_null t \<equiv> TUnion [t, TNull]"
abbreviation lits :: "string list \<Rightarrow> ts" where "lits ss \<equiv> TUnion (map TLit ss)"

text \<open>\<open>interface B extends A\<close>.\<close>

fun extends :: "ts \<Rightarrow> (string \<times> bool \<times> ts) list \<Rightarrow> ts" where
  "extends (TObj fs) gs = TObj (fs @ gs)"
| "extends t gs = t"

function conforms :: "ts \<Rightarrow> json \<Rightarrow> bool" where
  "conforms TString v = (case v of JStr _ \<Rightarrow> True | _ \<Rightarrow> False)"
| "conforms TNumber v = (case v of JNum _ \<Rightarrow> True | _ \<Rightarrow> False)"
| "conforms TBool v = (case v of JBool _ \<Rightarrow> True | _ \<Rightarrow> False)"
| "conforms TNull v = (v = JNull)"
| "conforms TUnknown v = True"
| "conforms TVoid v = (v = JUndef)"
| "conforms (TLit s) v = (v = JStr s)"
| "conforms (TArray t) v = (case v of JArr vs \<Rightarrow> list_all (conforms t) vs | _ \<Rightarrow> False)"
| "conforms (TRecord t) v = (case v of JObj ms \<Rightarrow> list_all (\<lambda>m. conforms t (snd m)) ms | _ \<Rightarrow> False)"
| "conforms (TUnion ts) v = list_ex (\<lambda>t. conforms t v) ts"
| "conforms (TObj fs) v =
     (case v of
        JObj ms \<Rightarrow> list_all (\<lambda>f. let w = json_get (fst f) v in
                       (fst (snd f) \<and> w = JUndef) \<or> conforms (snd (snd f)) w) fs
      | _ \<Rightarrow> False)"
  by pat_completeness auto
termination
proof (relation "measure (\<lambda>(t, v). size t)")
  fix fs :: "(string \<times> bool \<times> ts) list" and v :: json and f w x
  assume "f \<in> set fs"
  then have "size (snd (snd f)) < Suc (size_list (size_prod (\<lambda>_. 0) (size_prod (\<lambda>_. 0) size)) fs)"
    by (induction fs) (auto simp: less_Suc_eq_le size_prod_def split: prod.splits)
  then show "((snd (snd f), w), TObj fs, v) \<in> measure (\<lambda>(t, v). size t)"
    by simp
qed (auto simp: less_Suc_eq_le size_list_estimation')

text \<open>Every field name that occurs in a type.\<close>

fun ts_fields :: "ts \<Rightarrow> string list" where
  "ts_fields (TArray t) = ts_fields t"
| "ts_fields (TRecord t) = ts_fields t"
| "ts_fields (TUnion ts) = concat (map ts_fields ts)"
| "ts_fields (TObj fs) = concat (map (\<lambda>(k, b, t). k # ts_fields t) fs)"
| "ts_fields t = []"

end
