(* ===== verification/ApiCore.thy ===== *)
theory ApiCore
  imports Json
begin

text \<open>
  The core of \<open>frontend/lib/api.ts\<close>: the base URL, the snake\_case to camelCase mapping of
  responses (\<open>sc2cc\<close>, \<open>toCamel\<close>), the request every call sends and the treatment of its
  answer (\<open>api\<close>), the error message extracted from a failed answer, and the stream
  ticket. \<open>fetch\<close> itself is a parameter: it maps a request to a \<open>fetch_result\<close>, which is a
  network failure or a status with the body as parsed by \<open>res.json()\<close> (\<open>None\<close> when the
  body is not JSON). Keys that look like array indices keep their place here; the engine
  would move them to the front, which no response of the API depends on.
\<close>

subsection \<open>Base URL and storage\<close>

record browser =
  br_protocol :: string
  br_hostname :: string

text \<open>\<open>None\<close> is rendering on the server, where there is no \<open>window\<close>.\<close>

definition BASE :: "string option \<Rightarrow> browser option \<Rightarrow> string" where
  "BASE public_api_url win =
     (case public_api_url of
        Some u \<Rightarrow> if u \<noteq> [] then u
                  else (case win of Some w \<Rightarrow> br_protocol w @ ''//'' @ br_hostname w @ '':8002''
                                  | None \<Rightarrow> ''http://localhost:8002'')
      | None \<Rightarrow> (case win of Some w \<Rightarrow> br_protocol w @ ''//'' @ br_hostname w @ '':8002''
                            | None \<Rightarrow> ''http://localhost:8002''))"

definition TOKEN_KEY :: string where "TOKEN_KEY = ''to_token''"
definition USER_KEY :: string where "USER_KEY = ''to_user''"

lemma key_names [simp]: "TOKEN_KEY \<noteq> USER_KEY" "USER_KEY \<noteq> TOKEN_KEY"
  by (simp_all add: TOKEN_KEY_def USER_KEY_def)

text \<open>\<open>localStorage\<close>: an association list of strings.\<close>

type_synonym storage = "(string, string) obj"

subsection \<open>snake\_case to camelCase\<close>

definition sc2cc_re :: rx where
  "sc2cc_re = RSeq (RSet (\<lambda>c. c = CHR ''_'')) (RGrp 1 (RSet is_lower))"

definition sc2cc_repl :: "string \<Rightarrow> (nat \<times> string) list \<Rightarrow> string" where
  "sc2cc_repl m cs = toUpperCase (cap 1 cs)"

definition sc2cc :: "string \<Rightarrow> string" where
  "sc2cc s = rx_replace_all sc2cc_re sc2cc_repl s"

fun toCamel :: "json \<Rightarrow> json" where
  "toCamel (JArr vs) = JArr (map toCamel vs)"
| "toCamel (JObj ms) = JObj (from_entries (map (\<lambda>(k, v). (sc2cc k, toCamel v)) ms))"
| "toCamel v = v"

subsection \<open>Calls, requests and answers\<close>

text \<open>
  A call \<open>api<T>(path, opts)\<close>: the path, the method and body of \<open>opts\<close>, and \<open>T\<close>. No
  call of the client passes headers of its own.
\<close>

record call =
  c_path :: string
  c_method :: string
  c_body :: "json option"
  c_resp :: ts

record request =
  r_url :: string
  r_method :: string
  r_headers :: "(string \<times> string) list"
  r_body :: "json option"

datatype fetch_result =
    FetchFail
  | Resp int "json option"

datatype exn =
    ApiError string int
  | NetworkError
  | ParseError
  | TypeErr
  | JsError string

text \<open>The message a page shows for an error it catches; those of the browser's own errors are
  the parameter \<open>eng\<close>.\<close>

definition err_message :: "(exn \<Rightarrow> string) \<Rightarrow> exn \<Rightarrow> string" where
  "err_message eng e = (case e of ApiError m st \<Rightarrow> m | JsError m \<Rightarrow> m | _ \<Rightarrow> eng e)"

text \<open>The request, with the body as the receiver parses it.\<close>

definition api_request :: "string \<Rightarrow> string option \<Rightarrow> call \<Rightarrow> request" where
  "api_request base tok c =
     \<lparr>r_url = base @ c_path c,
      r_method = c_method c,
      r_headers = [(''Content-Type'', ''application/json'')] @
        (case tok of None \<Rightarrow> []
                   | Some t \<Rightarrow> if t \<noteq> [] then [(''Authorization'', ''Bearer '' @ t)] else []),
      r_body = map_option json_send (c_body c)\<rparr>"

definition resp_ok :: "int \<Rightarrow> bool" where
  "resp_ok st \<longleftrightarrow> 200 \<le> st \<and> st \<le> 299"

text \<open>\<open>String(v)\<close> for the values of an error body.\<close>

fun js_string :: "json \<Rightarrow> string" where
  "js_string (JStr s) = s"
| "js_string (JArr vs) = join '','' (map (\<lambda>v. if v = JUndef \<or> v = JNull then [] else js_string v) vs)"
| "js_string (JObj ms) = ''[object Object]''"
| "js_string v = json_text v"

text \<open>One element of a FastAPI validation error, \<open>{loc, msg}\<close>.\<close>

definition error_field :: "json \<Rightarrow> json" where
  "error_field e = (case json_get ''loc'' e of
     JArr vs \<Rightarrow> if vs = [] then JUndef else last vs
   | _ \<Rightarrow> JUndef)"

definition error_item :: "json \<Rightarrow> string" where
  "error_item e =
     (if truthy (error_field e)
      then js_string (error_field e) @ '': '' @ js_string (nullish (json_get ''msg'' e) (JStr ''invalid''))
      else js_string (nullish (json_get ''msg'' e) (JStr (json_text e))))"

definition http_msg :: "int \<Rightarrow> string" where
  "http_msg st = ''HTTP '' @ int_str st"

definition error_text :: "int \<Rightarrow> json \<Rightarrow> string" where
  "error_text st d =
     (case d of
        JArr es \<Rightarrow> (let m = join ''; '' (map error_item es) in if m \<noteq> [] then m else http_msg st)
      | JStr s \<Rightarrow> if s \<noteq> [] then s else http_msg st
      | _ \<Rightarrow> if truthy d then json_text d else http_msg st)"

definition error_message :: "int \<Rightarrow> json option \<Rightarrow> string" where
  "error_message st body =
     (case body of
        None \<Rightarrow> http_msg st
      | Some j \<Rightarrow> if j = JNull then http_msg st
                  else error_text st (nullish (json_get ''detail'' j) (json_get ''error'' j)))"

definition api_answer :: "fetch_result \<Rightarrow> exn + json" where
  "api_answer r =
     (case r of
        FetchFail \<Rightarrow> Inl NetworkError
      | Resp st body \<Rightarrow>
          if \<not> resp_ok st then Inl (ApiError (error_message st body) st)
          else if st = 204 then Inr JUndef
          else (case body of None \<Rightarrow> Inl ParseError | Some j \<Rightarrow> Inr (toCamel j)))"

definition api :: "(request \<Rightarrow> fetch_result) \<Rightarrow> string \<Rightarrow> string option \<Rightarrow> call \<Rightarrow> exn + json" where
  "api fetch base tok c = api_answer (fetch (api_request base tok c))"

text \<open>
  The URL of the event stream: a fresh ticket is minted with the ordinary header and only
  the ticket goes into the URL. Every failure is \<open>null\<close>.
\<close>

definition ticket_call :: "string \<Rightarrow> string \<Rightarrow> request" where
  "ticket_call base tok =
     \<lparr>r_url = base @ ''/stream/ticket'', r_method = ''POST'',
      r_headers = [(''Authorization'', ''Bearer '' @ tok)], r_body = None\<rparr>"

definition fetchStreamUrl ::
  "(request \<Rightarrow> fetch_result) \<Rightarrow> string \<Rightarrow> bool \<Rightarrow> storage \<Rightarrow> string option" where
  "fetchStreamUrl fetch base in_browser ls =
     (if \<not> in_browser then None
      else case obj_get ls TOKEN_KEY of
        None \<Rightarrow> None
      | Some tok \<Rightarrow>
          if tok = [] then None
          else case fetch (ticket_call base tok) of
            FetchFail \<Rightarrow> None
          | Resp st body \<Rightarrow>
              if \<not> resp_ok st then None
              else case body of
                None \<Rightarrow> None
              | Some j \<Rightarrow>
                  let ticket = json_get ''ticket'' j in
                  if j \<noteq> JNull \<and> truthy ticket
                  then Some (base @ ''/stream?ticket='' @ encodeURIComponent (js_string ticket))
                  else None)"

text \<open>Every failed answer carries a message.\<close>

lemma error_text_nonempty: "error_text st d \<noteq> []"
  by (cases d) (auto simp: error_text_def http_msg_def Let_def)

lemma error_message_nonempty: "error_message st body \<noteq> []"
  by (simp add: error_message_def error_text_nonempty http_msg_def split: option.split)

subsection \<open>The case mapping: a reference definition\<close>

fun camel :: "string \<Rightarrow> string" where
  "camel (a # b # s) = (if a = CHR ''_'' \<and> is_lower b then to_upper b # camel s else a # camel (b # s))"
| "camel s = s"

text \<open>No underscore is followed by a lower-case letter.\<close>

fun camel_stable :: "string \<Rightarrow> bool" where
  "camel_stable (a # b # s) \<longleftrightarrow> \<not> (a = CHR ''_'' \<and> is_lower b) \<and> camel_stable (b # s)"
| "camel_stable s \<longleftrightarrow> True"

lemma underscore_not_lower [simp]: "\<not> is_lower (CHR ''_'')"
  by (simp add: char_classes)

lemma sc2cc_m: "rx_m sc2cc_re (p, s, []) =
   (case s of a # b # t \<Rightarrow> if a = CHR ''_'' \<and> is_lower b then [(Some b, t, [(1, [b])])] else [] | _ \<Rightarrow> [])"
  by (auto simp: sc2cc_re_def Suc_diff_le split: list.splits)

lemma sc2cc_repl_group: "sc2cc_repl m [(Suc 0, [b])] = [to_upper b]"
  by (simp add: sc2cc_repl_def cap_def toUpperCase_def)

lemma sc2cc_tokens:
  "concat (map (\<lambda>t. case t of Inl c \<Rightarrow> [c] | Inr (m, cs) \<Rightarrow> sc2cc_repl m cs)
     (rx_tokens sc2cc_re p s)) = camel s"
proof (induction s arbitrary: p rule: camel.induct)
  case (1 a b s)
  show ?case
  proof (cases "a = CHR ''_'' \<and> is_lower b")
    case True
    then have "rx_m sc2cc_re (p, a # b # s, []) = [(Some b, s, [(1, [b])])]" by (simp only: sc2cc_m) simp
    from rx_tokens_match [OF this] True 1(1) [OF True] show ?thesis
      by (simp add: sc2cc_repl_group)
  next
    case False
    then have "rx_m sc2cc_re (p, a # b # s, []) = []" by (simp only: sc2cc_m) simp
    from rx_tokens_none [OF this] False 1(2) [OF False] show ?thesis by auto
  qed
qed (simp_all add: rx_tokens_none sc2cc_m)

lemma sc2cc_eq_camel: "sc2cc s = camel s"
  unfolding sc2cc_def rx_replace_all_def by (rule sc2cc_tokens)

lemma camel_stable_id: "camel_stable s \<Longrightarrow> camel s = s"
  by (induction s rule: camel.induct) auto

lemma camel_hd: "s \<noteq> [] \<Longrightarrow> hd (camel s) = hd s \<or> \<not> is_lower (hd (camel s))"
  by (induction s rule: camel.induct) auto

lemma camel_nonempty [simp]: "camel s = [] \<longleftrightarrow> s = []"
  by (induction s rule: camel.induct) auto

lemma camel_stable_Cons:
  "camel_stable (a # s) \<longleftrightarrow> (s = [] \<or> \<not> (a = CHR ''_'' \<and> is_lower (hd s))) \<and> camel_stable s"
  by (cases s) auto

lemma camel_stable_camel: "camel_stable (camel s)"
proof (induction s rule: camel.induct)
  case (1 a b s)
  show ?case
  proof (cases "a = CHR ''_'' \<and> is_lower b")
    case True
    have "to_upper b \<noteq> CHR ''_''"
      using True by (auto simp: to_upper_def is_lower_def code_def dest!: arg_cong [of _ _ code])
    with 1 True show ?thesis by (simp add: camel_stable_Cons)
  next
    case False
    with 1 camel_hd [of "b # s"] show ?thesis by (auto simp: camel_stable_Cons)
  qed
qed auto

lemma camel_idem: "camel (camel s) = camel s"
  by (simp add: camel_stable_id camel_stable_camel)

subsection \<open>What a caller can read from an answer\<close>

lemma from_entries_set: "e \<in> set (from_entries es) \<Longrightarrow> e \<in> set es"
proof -
  have "e \<in> set (obj_spread a es) \<Longrightarrow> e \<in> set a \<union> set es" for a
  proof (induction es arbitrary: a)
    case (Cons x es)
    obtain k v where x: "x = (k, v)" by (cases x)
    have set_sub: "set (obj_set k v a) \<subseteq> insert (k, v) (set a)"
      by (induction k v a rule: obj_set.induct) auto
    from Cons.prems have "e \<in> set (obj_spread (obj_set k v a) es)" by (simp add: obj_spread_def x)
    from Cons.IH [OF this] set_sub show ?case by (auto simp: x)
  qed (simp add: obj_spread_def)
  from this [of "[]"] show "e \<in> set (from_entries es) \<Longrightarrow> e \<in> set es"
    by (simp add: from_entries_def)
qed

fun keys_stable :: "json \<Rightarrow> bool" where
  "keys_stable (JArr vs) = list_all keys_stable vs"
| "keys_stable (JObj ms) = list_all (\<lambda>(k, v). camel_stable k \<and> keys_stable v) ms"
| "keys_stable v = True"

lemma keys_stable_toCamel: "keys_stable (toCamel v)"
proof (induction v rule: toCamel.induct)
  case (2 ms)
  then show ?case
    by (auto simp: list_all_iff sc2cc_eq_camel camel_stable_camel dest!: from_entries_set)
qed (auto simp: list_all_iff)

lemma json_get_stable: "keys_stable v \<Longrightarrow> \<not> camel_stable k \<Longrightarrow> json_get k v = JUndef"
  by (cases v) (auto simp: obj_get_def list_all_iff dest!: map_of_SomeD split: option.splits)

lemma toCamel_idem: "toCamel (toCamel v) = toCamel v"
proof (induction v rule: toCamel.induct)
  case (2 ms)
  let ?es = "map (\<lambda>(k, v). (sc2cc k, toCamel v)) ms"
  have "(case e of (k, v) \<Rightarrow> (sc2cc k, toCamel v)) = e" if "e \<in> set (from_entries ?es)" for e
  proof -
    from from_entries_set [OF that] obtain k u where u: "(k, u) \<in> set ms" "e = (sc2cc k, toCamel u)" by auto
    with 2 have "toCamel (toCamel u) = toCamel u" by blast
    with u show ?thesis by (simp add: sc2cc_eq_camel camel_idem)
  qed
  then have "map (\<lambda>(k, v). (sc2cc k, toCamel v)) (from_entries ?es) = from_entries ?es"
    by (rule map_idI)
  then have "toCamel (JObj (from_entries ?es)) = JObj (from_entries (from_entries ?es))"
    by (simp only: toCamel.simps)
  then show ?case by (simp only: toCamel.simps from_entries_distinct [OF distinct_from_entries])
qed auto

end
