(* ===== verification/ApiTypes.thy ===== *)
theory ApiTypes
  imports ApiCore
begin

text \<open>
  The data types of \<open>frontend/lib/api.ts\<close>: one definition per exported interface or type,
  field by field, with \<open>?\<close> as \<open>opt\<close>, unions of string literals as \<open>lits\<close> and
  \<open>T | null\<close> as \<open>or_null\<close>. They type the JSON that arrives; the compiler cannot check
  that it does (\<open>api\<close> casts). An index signature (\<open>LogAnalysisResult\<close>) constrains
  nothing and is left out. \<open>client_types\<close> lists all of them.
\<close>

fun inter :: "ts \<Rightarrow> ts \<Rightarrow> ts" where
  "inter (TObj fs) (TObj gs) = TObj (fs @ gs)"
| "inter t u = t"

definition MyPermissions :: ts where
  "MyPermissions =
     TObj [req ''role'' TString, req ''permissions'' (TArray TString),
    req ''capabilities'' (TRecord TBool)]"

definition UserRole :: ts where
  "UserRole =
     lits [''admin'', ''manager'', ''analyst'', ''viewer'']"

definition User :: ts where
  "User =
     TObj [req ''id'' TString, req ''email'' TString, req ''name'' TString, req ''role'' UserRole,
    req ''status'' TString, opt ''mfaEnabled'' TNumber,
    req ''lastLogin'' (or_null TString), req ''createdAt'' TString]"

definition OverviewKpis :: ts where
  "OverviewKpis =
     TObj [req ''threats'' TNumber, req ''iocs'' TNumber, req ''sources'' TNumber,
    req ''score'' TNumber, req ''assetsAssessed'' TNumber]"

definition ThreatVector :: ts where
  "ThreatVector =
     TObj [req ''label'' TString, req ''pct'' TNumber, req ''color'' TString]"

definition OverviewAlert :: ts where
  "OverviewAlert =
     TObj [req ''id'' TString, req ''title'' TString, req ''severity'' TString,
    req ''time'' TString, req ''src'' TString]"

definition Incident :: ts where
  "Incident =
     TObj [req ''id'' TString, req ''title'' TString, req ''severity'' TString,
    req ''status'' TString, req ''category'' TString, req ''assigned'' TString,
    req ''age'' TString]"

definition TopActor :: ts where
  "TopActor =
     TObj [req ''name'' TString, req ''origin'' TString, req ''score'' TNumber,
    req ''attacks'' TNumber, req ''threatLevel'' TString]"

definition LiveFeedItem :: ts where
  "LiveFeedItem =
     TObj [req ''id'' TString, req ''type'' TString, req ''severity'' TString, req ''ip'' TString,
    req ''detail'' TString, req ''region'' TString]"

definition SiemAlert :: ts where
  "SiemAlert =
     TObj [req ''id'' TString, req ''ts'' TString, req ''title'' TString,
    req ''severity'' (lits [''critical'', ''high'', ''medium'', ''low'', ''info'']),
    req ''status'' (lits [''new'', ''assigned'', ''in-progress'', ''pending'', ''resolved'',
        ''closed'']),
    req ''disposition'' (lits [''undetermined'', ''true-positive'', ''false-positive'',
        ''benign'', ''duplicate'']),
    req ''owner'' (or_null TString), req ''riskScore'' TNumber, req ''ruleId'' TString,
    req ''ruleName'' TString, req ''mitreTactic'' TString, req ''mitreTacticId'' TString,
    req ''mitreTech'' TString, req ''mitreTechId'' TString, req ''srcIp'' TString,
    req ''srcCountry'' TString, req ''srcPort'' TNumber, req ''srcHostname'' TString,
    req ''srcAsn'' TString, req ''destIp'' TString, req ''destPort'' TNumber,
    req ''destService'' TString, req ''username'' (or_null TString),
    req ''hostname'' (or_null TString),
    req ''hostCriticality'' (lits [''critical'', ''high'', ''medium'', ''low'']),
    req ''processName'' (or_null TString), req ''cmdLine'' (or_null TString),
    req ''description'' TString, req ''rawLog'' TString, req ''eventCount'' TNumber,
    req ''tiHits'' TNumber, req ''tiValue'' (or_null TString), req ''bytesOut'' TNumber]"

definition SiemKpis :: ts where
  "SiemKpis =
     TObj [req ''totalAlerts'' TNumber, req ''critical'' TNumber, req ''high'' TNumber,
    req ''medium'' TNumber, req ''mttd'' TNumber, req ''mttr'' TNumber,
    req ''mtta'' TNumber, req ''fpRate'' TNumber, req ''automationRate'' TNumber,
    req ''totalEps'' TNumber, req ''daysData'' TNumber]"

definition Rule :: ts where
  "Rule =
     TObj [req ''id'' TString, req ''name'' TString, req ''source'' TString,
    req ''category'' TString, req ''mitreTactic'' TString, req ''mitreTechId'' TString,
    req ''severity'' TString, req ''enabled'' TBool, req ''hits24h'' TNumber,
    req ''lastFired'' (or_null TString), req ''fpRate'' TNumber,
    req ''description'' TString, req ''status'' TString, opt ''noise'' (or_null TString)]"

definition Correlation :: ts where
  "Correlation =
     TObj [req ''pivot'' (lits [''src_ip'', ''hostname'', ''username'']), req ''value'' TString,
    req ''alertCount'' TNumber,
    req ''severity'' (lits [''critical'', ''high'', ''medium'', ''low'', ''info'']),
    req ''alerts'' (TArray (TObj [req ''id'' TString, req ''title'' TString,
        req ''severity'' TString, req ''ts'' TString]))]"

definition LogSource :: ts where
  "LogSource =
     TObj [req ''id'' TString, req ''name'' TString, req ''type'' TString, req ''epsAvg'' TNumber,
    req ''status'' TString, req ''lastEvent'' (or_null TString), req ''events7d'' TNumber]"

definition Case :: ts where
  "Case =
     TObj [req ''id'' TString, req ''title'' TString, req ''type'' TString,
    req ''severity'' TString, req ''status'' TString, req ''owner'' (or_null TString),
    req ''playbookId'' (or_null TString), req ''slaHours'' TNumber,
    req ''created'' TString, req ''updated'' TString, req ''alertCount'' TNumber,
    req ''description'' TString,
    req ''entities'' (TArray (TObj [req ''type'' TString, req ''value'' TString])),
    req ''warRoom'' (TArray (TObj [req ''ts'' TString, req ''actor'' TString,
        req ''type'' TString, req ''content'' TString])),
    req ''tasks'' (TArray (TObj [req ''id'' TString, req ''phase'' TString,
        req ''name'' TString, req ''status'' TString,
      req ''assignee'' (or_null TString), req ''notes'' TString])),
    req ''evidence'' (TArray (TObj [req ''name'' TString, req ''type'' TString,
        req ''added'' TString, req ''by'' TString])),
    opt ''tier'' TNumber, opt ''tierName'' TString, opt ''outcome'' (or_null TString),
    opt ''conclusion'' (or_null TString), opt ''closedAt'' (or_null TString)]"

definition EscalationEvent :: ts where
  "EscalationEvent =
     TObj [req ''id'' TString, req ''fromTier'' (or_null TNumber), req ''toTier'' TNumber,
    req ''fromTierName'' (or_null TString), req ''toTierName'' TString,
    req ''fromOwner'' (or_null TString), req ''toOwner'' (or_null TString),
    req ''note'' (or_null TString), req ''actor'' TString, req ''ts'' TString]"

definition TierQueue :: ts where
  "TierQueue =
     TObj [req ''tier'' TNumber, req ''name'' TString, req ''slaHours'' TNumber,
    req ''open'' TNumber, req ''unassigned'' TNumber]"

definition Playbook :: ts where
  "Playbook =
     TObj [req ''id'' TString, req ''name'' TString, req ''category'' TString,
    req ''trigger'' TString, req ''triggerType'' (lits [''auto'', ''manual'']),
    req ''triggerMatch'' (TRecord TUnknown), req ''description'' TString,
    req ''runs'' TNumber, req ''successRate'' TNumber, req ''avgTime'' TNumber,
    req ''lastRun'' (or_null TString), req ''lastRunStatus'' TString,
    req ''status'' TString, req ''enabled'' TNumber,
    req ''steps'' (TArray (TObj [opt ''kind'' TString, req ''name'' TString, req ''type'' TString,
      req ''status'' TString, req ''duration'' TNumber, opt ''params'' (TRecord TUnknown)]))]"

definition Integration :: ts where
  "Integration =
     TObj [req ''id'' TString, req ''name'' TString, req ''type'' TString, req ''status'' TString,
    req ''url'' (or_null TString), req ''lastSync'' (or_null TString),
    req ''description'' TString]"

definition SoarMetrics :: ts where
  "SoarMetrics =
     TObj [req ''openCases'' TNumber, req ''criticalOpen'' TNumber, req ''slaBreached'' TNumber,
    req ''mttr'' TNumber, req ''mttrTrendPct'' (or_null TNumber),
    req ''automationRate'' TNumber, req ''automationTrendPp'' (or_null TNumber),
    req ''timeSavedMonth'' TNumber, req ''runsMonth'' TNumber, req ''totalRuns'' TNumber,
    req ''playbooksToday'' TNumber, req ''avgPlaybookTime'' TNumber,
    req ''casesClosedWeek'' TNumber]"

definition Actor :: ts where
  "Actor =
     TObj [req ''id'' TString, req ''name'' TString, req ''aliases'' (TArray TString),
    req ''origin'' TString, req ''type'' TString, req ''motivations'' (TArray TString),
    req ''active'' (TUnion [TBool, TNumber]), req ''firstSeen'' TString,
    req ''lastSeen'' TString, req ''sophistication'' TNumber,
    req ''sectors'' (TArray TString), req ''ttps'' (TArray TString),
    opt ''malware'' (TArray TString), req ''iocCount'' TNumber,
    opt ''campaignCount'' TNumber, opt ''recentActivity'' (or_null TString),
    req ''campaigns'' (TArray TString), req ''description'' TString,
    req ''threatLevel'' TString, opt ''flag'' TString]"

definition ActorMalware :: ts where
  "ActorMalware =
     TObj [req ''family'' TString, req ''label'' TString, req ''role'' TString,
    req ''commodity'' TBool, req ''indicators'' TNumber, opt ''reportedAs'' TString]"

definition AttackProfile :: ts where
  "AttackProfile =
     TObj [req ''tracked'' TBool, opt ''id'' TString, opt ''name'' TString, opt ''url'' TString,
    opt ''kind'' TString, opt ''description'' TString, opt ''techniqueCount'' TNumber,
    opt ''byTactic'' (TArray (TObj [req ''shortname'' TString, req ''name'' TString,
      req ''techniques'' (TArray (TObj [req ''id'' TString, req ''name'' TString,
        req ''url'' (or_null TString),
        req ''isSubtechnique'' TBool]))])),
    opt ''techniques'' (TArray (TObj [req ''id'' TString, req ''name'' TString,
        req ''url'' (or_null TString),
      req ''tactics'' (TArray TString), req ''isSubtechnique'' TBool])),
    opt ''groups'' (TArray (TObj [req ''id'' TString, req ''name'' TString,
        req ''url'' (or_null TString)])),
    opt ''families'' (TArray TString),
    opt ''campaigns'' (TArray (TObj [req ''id'' TString, req ''name'' TString,
        req ''url'' (or_null TString),
      req ''description'' TString, req ''firstSeen'' TString, req ''lastSeen'' TString,
      req ''aliases'' (TArray TString), req ''citations'' (TArray TString),
      req ''families'' (TArray TString)])),
    opt ''aliases'' (TArray TString)]"

definition AttackRelease :: ts where
  "AttackRelease =
     TObj [req ''version'' TString, req ''url'' TString, req ''fetchedAt'' TString]"

definition ActorDetail :: ts where
  "ActorDetail =
     extends Actor [req ''operatedMalware'' (TArray ActorMalware),
    req ''reportedMalware'' (TArray ActorMalware), opt ''attack'' AttackProfile,
    opt ''attackRelease'' (or_null AttackRelease)]"

definition ScoreComponent :: ts where
  "ScoreComponent =
     TObj [req ''label'' TString, req ''delta'' TNumber, req ''why'' TString]"

definition ScoreBand :: ts where
  "ScoreBand =
     lits [''high'', ''moderate'', ''low'', ''weak'']"

definition Ioc :: ts where
  "Ioc =
     TObj [opt ''sourceCount'' TNumber, opt ''sources'' (TArray TString),
    opt ''intelScore'' TNumber, opt ''scoreBand'' ScoreBand, req ''id'' TString,
    req ''type'' TString, req ''value'' TString, req ''severity'' TString,
    req ''actor'' TString, opt ''malwareFamily'' (or_null TString),
    opt ''familyBrief'' (or_null (TObj [req ''id'' TString, req ''name'' TString,
        req ''url'' (or_null TString),
      req ''kind'' TString, req ''techniqueCount'' TNumber,
      req ''tactics'' (TArray (TObj [req ''shortname'' TString, req ''name'' TString,
        req ''techniques'' TNumber]))])),
    req ''source'' TString, req ''firstSeen'' TString, req ''lastSeen'' TString,
    req ''threatType'' TString, req ''confidence'' TNumber,
    req ''tags'' (TArray TString),
    req ''status'' (lits [''active'', ''expired'', ''known-good'']),
    req ''sightings'' TNumber, req ''effectiveConfidence'' TNumber,
    opt ''report'' (TObj [req ''id'' TString, req ''title'' TString, req ''tlp'' TString,
      req ''source'' (or_null TString)]),
    opt ''reportId'' (or_null TString)]"

definition IocLifecycle :: ts where
  "IocLifecycle =
     TObj [req ''effectiveConfidence'' TNumber, req ''assertedConfidence'' TNumber,
    req ''ageDays'' TNumber, req ''halfLifeDays'' TNumber, req ''sightings'' TNumber,
    req ''status'' (lits [''active'', ''expired'', ''known-good'']),
    req ''expiresInDays'' (or_null TNumber), opt ''revokeScore'' TNumber,
    opt ''rule'' (TObj [req ''id'' TString, req ''name'' TString]),
    opt ''validUntil'' (or_null TString),
    opt ''nextReaction'' (or_null (TObj [req ''score'' TNumber, req ''inDays'' TNumber]))]"

definition IocVerdict :: ts where
  "IocVerdict =
     TObj [req ''id'' TString,
    req ''verdict'' (lits [''confirmed'', ''false-positive'', ''benign-here'']),
    req ''reason'' (or_null TString), req ''analyst'' TString, req ''ts'' TString]"

definition VerdictSummary :: ts where
  "VerdictSummary =
     TObj [req ''counts'' (TRecord TNumber), req ''shift'' TNumber,
    req ''latest'' (or_null (TObj [req ''verdict'' TString, req ''analyst'' TString,
        req ''reason'' (or_null TString),
      req ''ts'' TString])),
    req ''total'' TNumber]"

definition IocDetail :: ts where
  "IocDetail =
     extends Ioc [req ''lifecycle'' IocLifecycle,
    req ''sightingsHistory'' (TArray (TObj [req ''id'' TString, req ''ts'' TString,
        req ''source'' (or_null TString),
      req ''context'' (or_null TString)])),
    opt ''scoreComponents'' (TArray ScoreComponent), opt ''reliability'' TString,
    opt ''verdicts'' (TArray IocVerdict), opt ''verdictSummary'' VerdictSummary]"

definition RelatedGroup :: ts where
  "RelatedGroup =
     TObj [req ''key'' (lits [''report'', ''actor'', ''host'', ''sibling'', ''network'',
        ''resolution'', ''subnet'', ''malware'']),
    req ''label'' TString, req ''why'' TString, req ''total'' TNumber,
    req ''items'' (TArray (TObj [req ''id'' TString, req ''type'' TString, req ''value'' TString,
      req ''severity'' TString, req ''intelScore'' TNumber,
      req ''threatType'' (or_null TString), req ''status'' TString])),
    req ''pivot'' (TObj [req ''kind'' TString, req ''value'' TString])]"

definition IocTimelineEvent :: ts where
  "IocTimelineEvent =
     TObj [req ''ts'' (or_null TString),
    req ''kind'' (lits [''asserted'', ''reasserted'', ''sighting'', ''verdict'', ''action'',
        ''alert'']),
    req ''actor'' (or_null TString), req ''title'' TString,
    opt ''detail'' (or_null TString), opt ''severity'' (or_null TString),
    opt ''ref'' (or_null TString)]"

definition DecayRule :: ts where
  "DecayRule =
     TObj [req ''id'' TString, req ''name'' TString, req ''appliesTo'' (TArray TString),
    req ''halfLifeDays'' TNumber, req ''revokeScore'' TNumber,
    req ''maxAgeHalfLives'' TNumber, req ''reactionPoints'' (TArray TNumber),
    req ''enabled'' TBool, req ''builtin'' TBool]"

definition StoreSummary :: ts where
  "StoreSummary =
     TObj [req ''total'' TNumber,
    req ''bands'' (TObj [req ''high'' TNumber, req ''moderate'' TNumber, req ''low'' TNumber,
        req ''weak'' TNumber]),
    req ''corroboration'' (TObj [req ''1'' TNumber, req ''2'' TNumber, req ''3+'' TNumber]),
    req ''corroboratedShare'' TNumber,
    req ''activities'' (TArray (TObj [req ''activity'' TString, req ''count'' TNumber])),
    req ''sources'' (TArray (TObj [req ''source'' TString, req ''values'' TNumber])),
    req ''expiringWithin7Days'' TNumber, req ''verdicts'' (TRecord TNumber),
    req ''sourcesContributing'' TNumber, req ''sourcesConfigured'' TNumber,
    req ''sourcesTotal'' TNumber, req ''seenLocally'' TNumber,
    req ''localObservations'' TNumber,
    req ''families'' (TArray (TObj [req ''family'' TString, req ''count'' TNumber])),
    req ''attributedToFamily'' TNumber, req ''attributedShare'' TNumber,
    opt ''profiledByAttack'' TNumber, opt ''profiledShare'' TNumber,
    opt ''profiledFamilies'' TNumber]"

definition MalwareFamily :: ts where
  "MalwareFamily =
     TObj [req ''name'' TString, req ''label'' TString, req ''role'' TString,
    req ''aliases'' (TArray TString), req ''description'' TString,
    req ''operator'' (or_null TString), req ''operatorAliases'' (TArray TString),
    req ''operatorReason'' TString, req ''commodity'' TBool, req ''since'' TString,
    req ''indicators'' TNumber, req ''isDefault'' TBool, opt ''uncatalogued'' TBool,
    opt ''editedBy'' (or_null TString)]"

definition FamilyAttack :: ts where
  "FamilyAttack =
     AttackProfile"

definition MalwareFamilyDetail :: ts where
  "MalwareFamilyDetail =
     extends MalwareFamily [opt ''attack'' AttackProfile,
        opt ''attackRelease'' (or_null AttackRelease),
    req ''operatorActorId'' (or_null TString), req ''byType'' (TRecord TNumber),
    req ''bySeverity'' (TRecord TNumber),
    req ''sources'' (TArray (TObj [req ''source'' TString, req ''values'' TNumber])),
    req ''seenLocally'' TNumber,
    req ''topIndicators'' (TArray (TObj [req ''id'' TString, req ''type'' TString,
        req ''value'' TString,
      req ''severity'' TString, req ''confidence'' TNumber, req ''intelScore'' TNumber,
      req ''source'' TString, req ''firstSeen'' TString, req ''lastSeen'' TString,
      req ''status'' TString, req ''sightings'' TNumber]))]"

definition IntelSource :: ts where
  "IntelSource =
     TObj [req ''id'' TString, req ''name'' TString, req ''kind'' (or_null TString),
    req ''reliability'' TString, req ''weight'' TNumber,
    req ''reason'' (or_null TString), req ''gradedBy'' TString, req ''isDefault'' TBool,
    req ''status'' (or_null (lits [''ok'', ''unchanged'', ''mirrored'', ''failed''])),
    req ''statusDetail'' (or_null TString), req ''lastOk'' (or_null TString),
    req ''servedVia'' (or_null TString), req ''firstSeen'' (or_null TString),
    req ''lastSeen'' (or_null TString), req ''values'' TNumber]"

definition IntelSourceScale :: ts where
  "IntelSourceScale =
     TObj [req ''grade'' TString, req ''weight'' TNumber, req ''label'' TString]"

definition IocType :: ts where
  "IocType =
     TObj [req ''label'' TString, req ''count'' TNumber]"

definition CtiSummary :: ts where
  "CtiSummary =
     TObj [req ''trackedActors'' TNumber, req ''activeActors'' TNumber,
    req ''activeCampaigns'' TNumber, req ''nationState'' TNumber,
    req ''cybercrime'' TNumber, req ''hacktivist'' TNumber, req ''totalIocs'' TNumber,
    req ''activeIocs'' TNumber, req ''expiredIocs'' TNumber,
    req ''knownGoodIocs'' TNumber, req ''attributedToFamily'' TNumber,
    req ''topFamilies'' (TArray (TObj [req ''family'' TString, req ''count'' TNumber]))]"

definition IocLookup :: ts where
  "IocLookup =
     TObj [req ''value'' TString, req ''found'' TBool, opt ''id'' TString,
    opt ''sourceCount'' TNumber, opt ''sources'' (TArray TString),
    req ''verdict'' (lits [''malicious'', ''suspicious'', ''clean'', ''benign'', ''expired'',
        ''unverified'']),
    req ''confidence'' TNumber, req ''severity'' (or_null TString),
    req ''threatType'' (or_null TString), req ''actor'' (or_null TString),
    req ''source'' (or_null TString), req ''firstSeen'' (or_null TString),
    req ''lastSeen'' (or_null TString), req ''tags'' (TArray TString),
    opt ''status'' TString, opt ''effectiveConfidence'' TNumber,
    opt ''sightings'' TNumber, opt ''knownGood'' TBool, opt ''intelScore'' TNumber,
    opt ''scoreBand'' ScoreBand, opt ''scoreComponents'' (TArray ScoreComponent),
    opt ''reliability'' TString]"

definition SavedHunt :: ts where
  "SavedHunt =
     TObj [req ''id'' TString, req ''name'' TString, req ''hypothesis'' TString,
    req ''status'' TString, req ''artifacts'' TNumber, req ''analyst'' TString,
    req ''progress'' TNumber, req ''created'' TString, req ''lastRun'' (or_null TString),
    req ''domain'' TString]"

definition CtiGraphNode :: ts where
  "CtiGraphNode =
     TObj [req ''id'' TString, req ''label'' TString, req ''group'' TString,
        opt ''level'' TString,
    req ''size'' TNumber, opt ''iocType'' TString]"

definition CtiGraph :: ts where
  "CtiGraph =
     TObj [req ''nodes'' (TArray CtiGraphNode),
    req ''links'' (TArray (TObj [req ''source'' TString, req ''target'' TString,
        req ''kind'' TString])),
    opt ''focus'' (or_null TString), opt ''counts'' (TRecord TNumber)]"

definition GraphPath :: ts where
  "GraphPath =
     TObj [req ''found'' TBool, opt ''reason'' TString, opt ''hops'' TNumber,
    req ''path'' (TArray CtiGraphNode),
    req ''links'' (TArray (TObj [req ''source'' TString, req ''target'' TString,
        req ''kind'' TString]))]"

definition Asset :: ts where
  "Asset =
     TObj [req ''id'' TString, req ''name'' TString, req ''type'' TString, req ''value'' TString,
    req ''criticality'' TString, req ''status'' TString, req ''riskScore'' TNumber,
    req ''lastScan'' (or_null TString), req ''alerts'' TNumber,
    req ''cves'' (TObj [req ''critical'' TNumber, req ''high'' TNumber, req ''medium'' TNumber,
      req ''low'' TNumber]),
    req ''openPorts'' (TArray TNumber), req ''os'' (or_null TString),
    req ''owner'' (or_null TString), req ''patchAge'' TNumber,
    req ''tags'' (TArray TString), req ''uptime'' TNumber]"

definition RiskComponent :: ts where
  "RiskComponent =
     TObj [req ''axis'' (lits [''vulnerability'', ''exposure'', ''patch'', ''alerts'']),
    req ''value'' TNumber, req ''weight'' TNumber, req ''contribution'' TNumber]"

definition RiskBreakdown :: ts where
  "RiskBreakdown =
     TObj [req ''score'' TNumber, req ''band'' TString, req ''criticalityMultiplier'' TNumber,
    req ''components'' (TArray RiskComponent)]"

definition AssetDetail :: ts where
  "AssetDetail =
     extends Asset [req ''riskBreakdown'' RiskBreakdown]"

definition RiskDistribution :: ts where
  "RiskDistribution =
     TObj [req ''total'' TNumber,
    req ''bands'' (TObj [req ''critical'' TNumber, req ''at-risk'' TNumber,
        req ''clean'' TNumber]),
    req ''axisContribution'' (TArray (TObj [req ''axis'' (lits [''vulnerability'',
        ''exposure'', ''patch'', ''alerts'']),
      req ''avgContribution'' TNumber])),
    req ''topDriver'' (or_null (lits [''vulnerability'', ''exposure'', ''patch'', ''alerts''])),
    req ''meanScore'' TNumber, req ''maxScore'' TNumber]"

definition AssetSummary :: ts where
  "AssetSummary =
     TObj [req ''totalAssets'' TNumber, req ''criticalAssets'' TNumber, req ''atRisk'' TNumber,
    req ''avgRiskScore'' TNumber, req ''openAlerts'' TNumber,
    req ''cves'' (TObj [req ''critical'' TNumber, req ''high'' TNumber, req ''medium'' TNumber,
      req ''low'' TNumber])]"

definition Feed :: ts where
  "Feed =
     TObj [req ''id'' TString, req ''name'' TString, req ''type'' TString,
    req ''url'' (or_null TString), req ''status'' TString, req ''enabled'' TBool,
    req ''indicators'' TNumber, req ''lastSync'' (or_null TString),
    req ''description'' TString, req ''provider'' (or_null TString),
    req ''format'' (or_null TString), req ''reliability'' (or_null TString),
    req ''syncInterval'' TNumber]"

definition FeedsSummary :: ts where
  "FeedsSummary =
     TObj [req ''totalFeeds'' TNumber, req ''active'' TNumber, req ''errored'' TNumber,
    req ''totalIndicators'' TNumber, req ''newToday'' TNumber,
    req ''byType'' (TRecord TNumber)]"

definition ApiKey :: ts where
  "ApiKey =
     TObj [req ''id'' TString, req ''name'' TString, req ''prefix'' TString,
        req ''scope'' TString,
    req ''lastUsed'' (or_null TString), req ''createdAt'' TString,
    req ''createdBy'' TString, req ''revoked'' TBool, opt ''orgId'' TString,
    opt ''requestsToday'' TNumber, opt ''requestsTotal'' TNumber]"

definition AuditEntry :: ts where
  "AuditEntry =
     TObj [req ''id'' TNumber, req ''ts'' TString, req ''actor'' (or_null TString),
    req ''action'' TString, req ''target'' (or_null TString),
    req ''detail'' (or_null TString)]"

definition OrgMode :: ts where
  "OrgMode =
     TObj [req ''mode'' (lits [''simple'', ''power'']), req ''features'' (TArray TString),
    req ''explicit'' TBool]"

definition Org :: ts where
  "Org =
     TObj [req ''id'' TString, req ''name'' TString, req ''slug'' TString, req ''plan'' TString,
    req ''status'' TString, opt ''users'' TNumber, opt ''isolationEnforced'' TBool]"

definition SessionInfo :: ts where
  "SessionInfo =
     TObj [req ''id'' TString, req ''createdAt'' TString, req ''lastSeen'' TString,
    req ''userAgent'' (or_null TString), req ''ip'' (or_null TString),
    req ''current'' TBool]"

definition AlertVolumeDay :: ts where
  "AlertVolumeDay =
     TObj [req ''day'' TString, req ''date'' TString, req ''critical'' TNumber,
    req ''high'' TNumber, req ''medium'' TNumber, req ''low'' TNumber,
    req ''info'' TNumber]"

definition DispositionStat :: ts where
  "DispositionStat =
     TObj [req ''key'' TString, req ''label'' TString, req ''count'' TNumber]"

definition AlertAnalytics :: ts where
  "AlertAnalytics =
     TObj [req ''volume'' (TArray AlertVolumeDay), req ''disposition'' (TArray DispositionStat)]"

definition GeoCountry :: ts where
  "GeoCountry =
     TObj [req ''country'' TString, req ''iso2'' (or_null TString), req ''observed'' TNumber,
    req ''critical'' TNumber, req ''high'' TNumber, req ''lastSeen'' (or_null TString)]"

definition FpEvidence :: ts where
  "FpEvidence =
     TObj [req ''signal'' TString, req ''weight'' TNumber, req ''detail'' TString]"

definition FpAssessment :: ts where
  "FpAssessment =
     TObj [req ''score'' TNumber,
    req ''band'' (lits [''likely-fp'', ''uncertain'', ''likely-real'']),
    req ''evidence'' (TArray FpEvidence)]"

definition FpTriageAlert :: ts where
  "FpTriageAlert =
     extends SiemAlert [req ''fpScore'' TNumber,
    req ''fpBand'' (lits [''likely-fp'', ''uncertain'', ''likely-real''])]"

definition SlaBreach :: ts where
  "SlaBreach =
     TObj [req ''id'' TString, req ''title'' TString,
    req ''severity'' (lits [''critical'', ''high'', ''medium'', ''low'', ''info'']),
    req ''status'' TString, req ''owner'' (or_null TString), req ''ageMinutes'' TNumber,
    req ''riskScore'' TNumber, req ''mitreTactic'' TString, req ''mitreTechId'' TString,
    req ''srcIp'' TString, req ''hostname'' (or_null TString), req ''ruleName'' TString,
    req ''slaType'' (lits [''ack'', ''resolve'']), req ''thresholdMinutes'' TNumber]"

definition SocTriage :: ts where
  "SocTriage =
     TObj [req ''open'' (TObj [req ''total'' TNumber, req ''critical'' TNumber,
        req ''high'' TNumber,
      req ''medium'' TNumber, req ''low'' TNumber, req ''info'' TNumber,
      req ''unassigned'' TNumber]),
    req ''byStatus'' (TRecord TNumber), req ''oldestOpenMinutes'' TNumber,
    req ''sla'' (TObj [req ''breachCount'' TNumber, req ''breaches'' (TArray SlaBreach),
      req ''ackThresholds'' (TRecord TNumber), req ''resolveThresholds'' (TRecord TNumber)])]"

definition SigmaPackImportResult :: ts where
  "SigmaPackImportResult =
     TObj [req ''created'' (TArray (TObj [req ''id'' TString, req ''name'' TString,
        req ''importNotes'' (TArray TString)])),
    req ''failed'' (TArray (TObj [req ''index'' TNumber, req ''error'' TString])),
    req ''createdCount'' TNumber, req ''failedCount'' TNumber]"

definition Suppression :: ts where
  "Suppression =
     TObj [req ''id'' TString, req ''ruleId'' TString,
    req ''field'' (lits [''src_ip'', ''username'', ''hostname'']), req ''value'' TString,
    req ''mode'' (lits [''suppress'', ''allow'']), req ''reason'' (or_null TString),
    req ''hits'' TNumber, req ''createdAt'' TString, req ''createdBy'' (or_null TString),
    req ''expiresAt'' (or_null TString), req ''windowStart'' (or_null TString),
    req ''windowEnd'' (or_null TString), req ''active'' TBool]"

definition RuleCondition :: ts where
  "RuleCondition =
     TObj [req ''field'' TString, req ''op'' TString, req ''value'' TString]"

definition RuleDefinition :: ts where
  "RuleDefinition =
     TObj [req ''conditions'' (TArray RuleCondition), req ''logic'' (lits [''and'', ''or'']),
    opt ''aggregation'' (TObj [req ''groupBy'' TString, req ''threshold'' TNumber,
        req ''windowMinutes'' TNumber]),
    opt ''throttleMinutes'' TNumber]"

definition RuleSchema :: ts where
  "RuleSchema =
     TObj [req ''fields'' (TArray TString), req ''operators'' (TArray TString),
    req ''eventTypes'' (TArray TString), req ''groupByFields'' (TArray TString)]"

definition AttackTechnique :: ts where
  "AttackTechnique =
     TObj [req ''technique'' TString, req ''name'' TString, req ''rules'' TNumber,
    req ''alerts'' TNumber, req ''covered'' TBool, opt ''coveredBy'' (or_null TString),
    opt ''families'' (TArray (TObj [req ''key'' TString, req ''label'' TString])),
    opt ''familyCount'' TNumber, opt ''indicators'' TNumber, opt ''threatGap'' TBool]"

definition AttackCoverage :: ts where
  "AttackCoverage =
     TObj [req ''tactics'' (TArray (TObj [req ''tactic'' TString, opt ''shortname'' TString,
      req ''techniques'' (TArray AttackTechnique)])),
    req ''summary'' (TObj [req ''techniques'' TNumber, req ''covered'' TNumber,
        req ''gaps'' TNumber,
      req ''coveragePct'' TNumber, opt ''threatTechniques'' TNumber,
      opt ''threatGaps'' TNumber, opt ''attackLoaded'' TBool])]"

definition RiskEntity :: ts where
  "RiskEntity =
     TObj [req ''value'' TString, req ''type'' (lits [''user'', ''host'', ''ip'']),
    req ''risk'' TNumber, req ''alerts'' TNumber,
    req ''band'' (lits [''critical'', ''high'', ''elevated'', ''normal'']),
    req ''open'' TNumber, req ''techniques'' (TArray TString),
    req ''techniqueCount'' TNumber, req ''lastSeen'' (or_null TString),
    req ''bySeverity'' (TRecord TNumber)]"

definition EntityDetail :: ts where
  "EntityDetail =
     TObj [req ''value'' TString, req ''type'' TString, req ''risk'' TNumber,
    req ''alertCount'' TNumber,
    req ''timeline'' (TArray (TObj [req ''day'' TString, req ''count'' TNumber])),
    req ''topTechniques'' (TArray (TObj [req ''technique'' TString, req ''count'' TNumber])),
    req ''baseline'' (TObj [req ''mean'' TNumber, req ''stdDev'' TNumber, req ''current'' TNumber,
      req ''zScore'' TNumber, req ''deviating'' TBool, req ''confidence'' TString]),
    req ''alerts'' (TArray (TObj [req ''id'' TString, req ''title'' TString,
        req ''severity'' TString, req ''ts'' TString,
      req ''status'' TString, req ''ruleName'' TString, req ''mitreTechId'' TString]))]"

definition Notification :: ts where
  "Notification =
     TObj [req ''id'' TString, req ''ts'' TString, req ''type'' TString,
    req ''severity'' (or_null TString), req ''title'' TString,
    req ''detail'' (or_null TString), req ''link'' (or_null TString),
    req ''read'' TNumber, opt ''groupKey'' (or_null TString), opt ''rollupCount'' TNumber]"

definition SearchResult :: ts where
  "SearchResult =
     TObj [req ''kind'' TString, req ''label'' TString, req ''sub'' (or_null TString),
    req ''severity'' (or_null TString), req ''link'' TString]"

definition ReportSchedule :: ts where
  "ReportSchedule =
     TObj [req ''id'' TString, req ''kind'' TString, req ''period'' TString,
    req ''cadence'' TString, req ''webhookUrl'' (or_null TString),
    req ''enabled'' TNumber, req ''lastRun'' (or_null TString),
    req ''createdBy'' (or_null TString)]"

definition SlackRouting :: ts where
  "SlackRouting =
     TObj [req ''configured'' TBool, req ''webhookUrl'' (or_null TString),
    req ''minSeverity'' TString]"

definition SavedView :: ts where
  "SavedView =
     TObj [req ''id'' TString, req ''section'' TString, req ''name'' TString,
    req ''filters'' (TRecord TString), req ''createdAt'' TString]"

definition HuntQueryRow :: ts where
  "HuntQueryRow =
     TObj [req ''alertId'' TString, req ''ts'' TString, req ''srcIp'' (or_null TString),
    req ''destIp'' (or_null TString), req ''destPort'' (or_null TNumber),
    req ''protocol'' TString, req ''bytes'' TNumber, req ''interval'' TNumber,
    req ''host'' TString, req ''title'' TString, req ''severity'' TString,
    req ''technique'' (or_null TString), req ''riskScore'' (or_null TNumber)]"

definition HuntQueryResult :: ts where
  "HuntQueryResult =
     TObj [req ''scanned'' TNumber, req ''hits'' TNumber, req ''elapsedMs'' TNumber,
    req ''tokens'' (TObj [req ''techniques'' (TArray TString), req ''ips'' (TArray TString),
      req ''severities'' (TArray TString), req ''keywords'' (TArray TString)]),
    req ''results'' (TArray HuntQueryRow)]"

definition EventSearchRow :: ts where
  "EventSearchRow =
     TObj [req ''id'' TString, req ''ts'' (or_null TString), req ''category'' (or_null TString),
    req ''eventType'' (or_null TString), req ''srcIp'' (or_null TString),
    req ''destIp'' (or_null TString), req ''destPort'' (or_null TNumber),
    req ''username'' (or_null TString), req ''hostname'' (or_null TString),
    req ''processName'' (or_null TString), req ''action'' (or_null TString),
    req ''bytesOut'' (or_null TNumber), req ''mitreTechId'' (or_null TString),
    req ''raw'' (or_null TString)]"

definition EventSearchResult :: ts where
  "EventSearchResult =
     TObj [req ''scanned'' TNumber, req ''hits'' TNumber, req ''elapsedMs'' TNumber,
    opt ''groupCount'' TNumber,
    req ''interpreted'' (TObj [req ''conditions'' (TArray (TObj [req ''field'' TString,
        req ''op'' TString, req ''value'' TString])),
      req ''freetext'' (TArray TString),
      req ''stats'' (or_null (TObj [req ''by'' TString]))]),
    req ''stats'' (or_null (TObj [req ''by'' TString,
      req ''groups'' (TArray (TObj [req ''value'' TString, req ''count'' TNumber]))])),
    req ''results'' (TArray EventSearchRow)]"

definition HuntRunOutcome :: ts where
  "HuntRunOutcome =
     TObj [req ''hunt'' SavedHunt,
    req ''run'' (TObj [req ''scanned'' TNumber, req ''hits'' TNumber,
        req ''elapsedMs'' TNumber])]"

definition LogListenerStatus :: ts where
  "LogListenerStatus =
     TObj [req ''syslogPort'' (or_null TNumber), req ''syslogEnabled'' TBool,
    opt ''syslogTlsPort'' (or_null TNumber), opt ''syslogTlsEnabled'' TBool,
    opt ''syslogTlsMtls'' TBool, req ''watchDir'' (or_null TString),
    req ''watchEnabled'' TBool, req ''watchIntervalSeconds'' TNumber]"

definition SiemTrendDay :: ts where
  "SiemTrendDay =
     TObj [req ''day'' TString, req ''alerts'' TNumber, req ''severe'' TNumber,
    req ''mttd'' TNumber, req ''mttr'' TNumber, req ''fpRate'' TNumber]"

definition PlaybookRunStep :: ts where
  "PlaybookRunStep =
     TObj [req ''idx'' TNumber, req ''kind'' (or_null TString), req ''name'' TString,
    req ''status'' (lits [''success'', ''skipped'', ''failed'', ''pending-approval'']),
    req ''detail'' TString, req ''ts'' TString]"

definition PlaybookRun :: ts where
  "PlaybookRun =
     TObj [req ''id'' TString, req ''playbookId'' TString, req ''playbookName'' (or_null TString),
    req ''ts'' TString, req ''finished'' (or_null TString),
    req ''status'' (lits [''success'', ''failed'', ''awaiting-approval'', ''rejected'']),
    req ''trigger'' (lits [''manual'', ''auto'']), req ''actor'' (or_null TString),
    req ''alertId'' (or_null TString), req ''currentStep'' TNumber,
    req ''context'' (TObj [opt ''alert'' (or_null (TRecord TUnknown)),
      opt ''entity'' (or_null (TObj [req ''type'' TString, req ''value'' TString])),
      opt ''caseId'' (or_null TString)]),
    req ''steps'' (TArray PlaybookRunStep)]"

definition BuilderStep :: ts where
  "BuilderStep =
     TObj [req ''kind'' TString, req ''name'' TString, opt ''params'' (TRecord TUnknown)]"

definition StepKind :: ts where
  "StepKind =
     TObj [req ''kind'' TString, req ''type'' TString, req ''label'' TString,
    req ''params'' (TArray TString)]"

definition PlaybookVersion :: ts where
  "PlaybookVersion =
     TObj [req ''id'' TString, req ''version'' TNumber, req ''steps'' (TArray BuilderStep),
    req ''triggerMatch'' (TRecord TUnknown), req ''author'' (or_null TString),
    req ''note'' (or_null TString), req ''createdAt'' TString]"

definition SignedEvidenceBundle :: ts where
  "SignedEvidenceBundle =
     TObj [req ''bundle'' (TRecord TUnknown),
    req ''signature'' (TObj [req ''alg'' TString, req ''value'' TString,
        req ''contentSha256'' TString])]"

definition IntegrationActionResult :: ts where
  "IntegrationActionResult =
     TObj [req ''id'' TString, req ''action'' TString, req ''target'' TString,
    req ''category'' TString,
    req ''status'' (lits [''success'', ''failed'', ''simulated'', ''not-configured'']),
    req ''mode'' (lits [''live'', ''simulated'']), req ''detail'' TString,
    req ''ts'' TString]"

definition IntegrationAction :: ts where
  "IntegrationAction =
     TObj [req ''id'' TString, req ''action'' TString, req ''target'' (or_null TString),
    req ''status'' TString, req ''mode'' TString, req ''detail'' (or_null TString),
    req ''actor'' (or_null TString), req ''ts'' TString]"

definition AnalystStat :: ts where
  "AnalystStat =
     TObj [req ''name'' TString, req ''handled'' TNumber, req ''closed'' TNumber,
    req ''open'' TNumber, req ''critical'' TNumber,
    req ''avgResolveMins'' (or_null TNumber)]"

definition EnrichmentProvider_cti :: ts where
  "EnrichmentProvider_cti =
     TObj [req ''provider'' TString, req ''available'' TBool, req ''verdict'' TString,
    req ''summary'' TString, req ''data'' (TRecord TUnknown), opt ''cached'' TBool,
    opt ''reason'' TString]"

definition EnrichmentProvider_config :: ts where
  "EnrichmentProvider_config =
     TObj [req ''provider'' TString, req ''label'' TString, req ''configured'' TBool,
    req ''source'' (lits [''ui'', ''env'', ''none'']), req ''envVar'' TString]"

text \<open>Both interfaces of this name are one type: TypeScript merges the declarations.\<close>

definition EnrichmentProvider :: ts where
  "EnrichmentProvider =
     inter EnrichmentProvider_cti EnrichmentProvider_config"

definition EnrichmentResult :: ts where
  "EnrichmentResult =
     TObj [req ''value'' TString, req ''type'' TString, req ''verdict'' TString,
    req ''providers'' (TArray EnrichmentProvider), req ''ts'' TString]"

definition IntelReport :: ts where
  "IntelReport =
     TObj [req ''id'' TString, req ''title'' TString, req ''tlp'' TString,
    req ''status'' (lits [''draft'', ''published'']), req ''summary'' (or_null TString),
    req ''body'' (or_null TString), req ''actors'' (TArray TString),
    req ''iocs'' (TArray TString), req ''tags'' (TArray TString),
    req ''author'' (or_null TString), req ''createdAt'' TString, req ''updatedAt'' TString]"

definition AttributionCandidate :: ts where
  "AttributionCandidate =
     TObj [req ''actor'' TString, req ''type'' TString, req ''origin'' (or_null TString),
    req ''threatLevel'' (or_null TString), req ''score'' TNumber, req ''raw'' TNumber,
    req ''confidence'' (lits [''high'', ''medium'', ''low'']),
    req ''evidence'' (TArray (TObj [req ''type'' TString, req ''weight'' TNumber,
        req ''detail'' TString]))]"

definition BulkLookupRow :: ts where
  "BulkLookupRow =
     extends IocLookup [opt ''matched'' TString]"

definition EnrichProvider :: ts where
  "EnrichProvider =
     TObj [req ''provider'' TString, req ''available'' TBool, opt ''verdict'' (or_null TString),
    opt ''summary'' (or_null TString), opt ''data'' (TRecord TUnknown),
    opt ''cached'' TBool, opt ''ts'' TString, opt ''reason'' TString]"

definition ScanEnrichResult :: ts where
  "ScanEnrichResult =
     TObj [req ''value'' TString, req ''type'' TString, req ''verdict'' TString,
    req ''providers'' (TArray EnrichProvider), req ''ts'' TString]"

definition EnricherStatus :: ts where
  "EnricherStatus =
     TObj [req ''provider'' TString, req ''kind'' TString, req ''available'' TBool,
    opt ''envVar'' TString]"

definition ScanContextAlert :: ts where
  "ScanContextAlert =
     TObj [req ''id'' TString, req ''ts'' TString, req ''title'' TString,
        req ''severity'' TString,
    req ''status'' TString, req ''srcIp'' (or_null TString),
    req ''destIp'' (or_null TString), req ''hostname'' (or_null TString),
    req ''username'' (or_null TString)]"

definition ScanContextIoc :: ts where
  "ScanContextIoc =
     TObj [req ''id'' TString, req ''value'' TString, req ''type'' TString,
    req ''severity'' TString, req ''confidence'' TNumber, req ''actor'' (or_null TString)]"

definition ScanContext :: ts where
  "ScanContext =
     TObj [req ''value'' TString, req ''host'' (or_null TString),
    req ''indicator'' (or_null (extends (TRecord TUnknown) [req ''id'' TString,
        req ''value'' TString])),
    req ''relatedIocs'' (TArray ScanContextIoc),
    req ''alerts'' (TObj [req ''total'' TNumber, req ''items'' (TArray ScanContextAlert)]),
    req ''cases'' (TArray (TObj [req ''id'' TString, req ''title'' TString,
        req ''severity'' TString,
      req ''status'' TString, req ''owner'' (or_null TString), req ''created'' TString])),
    req ''darkWeb'' (TObj [req ''total'' TNumber,
      req ''items'' (TArray (TObj [req ''id'' TString, req ''ts'' TString,
        req ''category'' TString,
        req ''severity'' TString, req ''source'' (or_null TString),
        req ''title'' TString, req ''entity'' (or_null TString)]))]),
    req ''assets'' (TArray (TObj [req ''id'' TString, req ''name'' TString,
        req ''type'' TString, req ''value'' TString,
      req ''criticality'' TString, req ''status'' TString, req ''riskScore'' TNumber])),
    req ''events'' (TObj [req ''count'' TNumber, req ''capped'' TBool]),
    req ''relatedEntities'' (TObj [req ''ips'' (TArray TString),
        req ''hostnames'' (TArray TString),
      req ''usernames'' (TArray TString), req ''emails'' (TArray TString)]),
    req ''analystActivity'' (TObj [req ''scans'' TNumber, req ''byVerdict'' (TRecord TNumber),
      req ''lastScan'' (or_null TString)]),
    req ''graph'' (or_null (TArray (TObj [req ''id'' TString, req ''label'' TString,
        req ''group'' TString, req ''kind'' TString])))]"

definition ImportResult :: ts where
  "ImportResult =
     TObj [req ''imported'' TNumber, req ''duplicates'' TNumber, req ''skipped'' TNumber,
    req ''total'' TNumber]"

definition ImportHistoryRow :: ts where
  "ImportHistoryRow =
     TObj [req ''id'' TString, req ''source'' TString, req ''method'' TString,
    req ''imported'' TNumber, req ''duplicates'' TNumber, req ''skipped'' TNumber,
    req ''status'' (lits [''completed'', ''partial'', ''failed'']),
    req ''actor'' (or_null TString), req ''ts'' TString, opt ''durationMs'' TNumber,
    opt ''ratePerSec'' (or_null TNumber)]"

definition ScanEntry :: ts where
  "ScanEntry =
     TObj [req ''id'' TString, req ''ts'' TString, req ''target'' TString, req ''type'' TString,
    req ''verdict'' (lits [''malicious'', ''suspicious'', ''clean'', ''unverified'']),
    req ''score'' TNumber, req ''engines'' (or_null TString),
    req ''actor'' (or_null TString)]"

definition VulnSummary :: ts where
  "VulnSummary =
     TObj [req ''totalFindings'' TNumber, req ''distinctCves'' TNumber,
    req ''bySeverity'' (TObj [req ''critical'' TNumber, req ''high'' TNumber,
        req ''medium'' TNumber,
      req ''low'' TNumber]),
    req ''criticalAndHigh'' TNumber, req ''activelyExploited'' TNumber,
    req ''avgPatchAge'' TNumber, req ''exposureScore'' TNumber,
    req ''internetFacing'' TNumber]"

definition FleetVulnFinding :: ts where
  "FleetVulnFinding =
     TObj [req ''cve'' TString, req ''cvss'' TNumber, req ''severity'' TString,
    req ''summary'' TString, req ''fixedIn'' (or_null TString), req ''kev'' TBool,
    req ''exploit'' TBool, req ''products'' (TArray TString),
    req ''affectedAssets'' (TArray TString), req ''owners'' (TArray TString),
    req ''firstFound'' TString, req ''reference'' TString]"

definition VulnFinding :: ts where
  "VulnFinding =
     TObj [req ''id'' TString, req ''assetId'' TString, req ''cve'' TString,
    req ''product'' TString, req ''version'' TString, req ''severity'' TString,
    req ''cvss'' TNumber, req ''fixedIn'' (or_null TString), req ''summary'' TString,
    req ''status'' TString, req ''foundAt'' TString]"

definition ScanResult :: ts where
  "ScanResult =
     TObj [req ''assetId'' TString, req ''scanned'' TNumber,
    req ''findings'' (TArray (TObj [req ''cve'' TString, req ''product'' TString,
        req ''version'' TString,
      req ''severity'' TString, req ''cvss'' TNumber, req ''fixedIn'' (or_null TString),
      req ''summary'' TString])),
    req ''counts'' (TRecord TNumber)]"

definition ExposureItem :: ts where
  "ExposureItem =
     TObj [req ''id'' TString, req ''name'' TString, req ''type'' TString, req ''value'' TString,
    req ''criticality'' TString, req ''riskScore'' TNumber, req ''score'' TNumber,
    req ''band'' TString, req ''internetFacing'' TBool,
    req ''factors'' (TArray (TObj [req ''factor'' TString, req ''weight'' TNumber]))]"

definition DiscoveredAsset :: ts where
  "DiscoveredAsset =
     TObj [req ''hostname'' TString, req ''events'' TNumber, req ''alerts'' TNumber,
    req ''firstSeen'' (or_null TString), req ''lastSeen'' (or_null TString),
    req ''sample'' TString]"

definition AssetActivity :: ts where
  "AssetActivity =
     TObj [req ''assetId'' TString, req ''name'' TString,
    req ''alerts'' (TArray (TObj [req ''id'' TString, req ''ts'' TString,
        req ''title'' TString, req ''severity'' TString,
      req ''status'' TString, req ''ruleName'' (or_null TString),
      req ''mitreTechId'' (or_null TString), req ''srcIp'' (or_null TString)])),
    req ''cases'' (TArray (TObj [req ''id'' TString, req ''title'' TString,
        req ''severity'' TString,
      req ''status'' TString, req ''created'' TString, req ''playbook'' (or_null TString)])),
    req ''events'' (TArray (TObj [req ''id'' TString, req ''ts'' TString,
        req ''eventType'' (or_null TString),
      req ''srcIp'' (or_null TString), req ''destIp'' (or_null TString),
      req ''raw'' (or_null TString)])),
    req ''vulnFindings'' (TArray (TObj [req ''cve'' TString, req ''severity'' TString,
        req ''cvss'' TNumber,
      req ''product'' TString, req ''version'' TString, req ''status'' TString])),
    req ''playbookRuns'' (TArray (TObj [req ''id'' TString,
        req ''playbookName'' (or_null TString), req ''ts'' TString,
      req ''status'' TString, req ''trigger'' TString])),
    req ''summary'' (TObj [req ''alerts'' TNumber, req ''openAlerts'' TNumber,
        req ''cases'' TNumber,
      req ''events'' TNumber, req ''openVulns'' TNumber, req ''responses'' TNumber])]"

definition Webhook :: ts where
  "Webhook =
     TObj [req ''id'' TString, req ''url'' TString, req ''events'' (TArray TString),
    req ''status'' (lits [''active'', ''paused'', ''failing'']),
    req ''lastDelivery'' (or_null TString), req ''createdAt'' TString,
    req ''createdBy'' (or_null TString), opt ''secret'' TString]"

definition JobEntry :: ts where
  "JobEntry =
     TObj [req ''id'' TString, req ''kind'' TString, req ''status'' TString,
    req ''progress'' TNumber, req ''createdAt'' TString, req ''updatedAt'' TString,
    req ''meta'' (TRecord TUnknown)]"

definition ReportFinding :: ts where
  "ReportFinding =
     TObj [req ''title'' TString, req ''severity'' TString, opt ''score'' TNumber,
    opt ''ts'' (or_null TString), opt ''entity'' TString,
    opt ''technique'' (or_null TString), opt ''tactic'' (or_null TString),
    opt ''rule'' (or_null TString), opt ''status'' TString, opt ''detail'' TString]"

definition ReportData :: ts where
  "ReportData =
     TObj [req ''meta'' (TObj [req ''kind'' TString, req ''title'' TString,
        req ''period'' TString,
      req ''from'' TString, req ''to'' TString, req ''generatedAt'' TString,
      opt ''audience'' TString]),
    req ''summary'' (TObj [req ''headline'' (TArray (TObj [req ''label'' TString,
        req ''value'' (TUnion [TNumber, TString]), opt ''color'' TString])),
      req ''narrative'' TString]),
    req ''breakdowns'' (TArray (TObj [req ''heading'' TString,
        req ''type'' (lits [''severity'', ''bars'']),
      req ''data'' (TArray (TObj [opt ''label'' TString, opt ''severity'' TString,
        req ''count'' TNumber,
        opt ''color'' TString]))])),
    req ''findings'' (TArray ReportFinding), req ''recommendations'' (TArray TString),
    opt ''sections'' (TArray TString),
    opt ''compliance'' (TArray (TObj [req ''control'' TString, req ''framework'' TString])),
    opt ''plainNarrative'' (TArray TString)]"

definition ReportAudience :: ts where
  "ReportAudience =
     lits [''technical'', ''executive'', ''compliance'']"

definition ReportFormat :: ts where
  "ReportFormat =
     lits [''json'', ''csv'', ''markdown'', ''html'']"

definition CaseRelated :: ts where
  "CaseRelated =
     TObj [req ''caseId'' TString,
    req ''alerts'' (TArray (TObj [req ''id'' TString, req ''ts'' TString,
        req ''title'' TString, req ''severity'' TString,
      req ''status'' TString, req ''srcIp'' (or_null TString),
      req ''hostname'' (or_null TString), req ''username'' (or_null TString),
      req ''mitreTechId'' (or_null TString), req ''mitreTactic'' (or_null TString),
      req ''ruleName'' (or_null TString), req ''riskScore'' TNumber])),
    req ''iocs'' (TArray (TObj [req ''id'' TString, req ''type'' TString, req ''value'' TString,
      req ''severity'' TString, req ''confidence'' TNumber,
      req ''threatType'' (or_null TString), req ''source'' (or_null TString)])),
    req ''runs'' (TArray (TObj [req ''id'' TString, req ''playbookName'' (or_null TString),
        req ''ts'' TString,
      req ''status'' TString, req ''trigger'' TString, req ''actor'' (or_null TString),
      req ''alertId'' (or_null TString)])),
    req ''timeline'' (TArray (TObj [req ''ts'' (or_null TString), req ''type'' TString,
        req ''actor'' (or_null TString),
      req ''title'' (or_null TString), req ''severity'' (or_null TString),
      req ''technique'' (or_null TString)])),
    req ''techniques'' (TArray (TObj [req ''technique'' TString, req ''count'' TNumber]))]"

definition DarkWebFinding :: ts where
  "DarkWebFinding =
     TObj [req ''id'' TString, req ''ts'' TString,
    req ''category'' (lits [''credential-leak'', ''data-for-sale'', ''brand-mention'',
        ''actor-chatter'', ''infrastructure'']),
    req ''severity'' (lits [''critical'', ''high'', ''medium'', ''low'']),
    req ''source'' TString, req ''title'' TString, req ''entity'' TString,
    req ''actor'' TString, req ''detail'' TString, req ''url'' TString,
    req ''status'' (lits [''new'', ''investigating'', ''takedown-requested'', ''mitigated'',
        ''dismissed'']),
    opt ''matchedUser'' (or_null TString)]"

definition DarkWebSummary :: ts where
  "DarkWebSummary =
     TObj [req ''total'' TNumber, req ''critical'' TNumber, req ''credentialLeaks'' TNumber,
    req ''workforceMatches'' TNumber, req ''takedownsRequested'' TNumber,
    req ''open'' TNumber, req ''byCategory'' (TRecord TNumber), req ''last24h'' TNumber]"

definition LicenseStatus :: ts where
  "LicenseStatus =
     TObj [req ''plan'' TString, req ''label'' TString, req ''org'' (or_null TString),
    req ''expires'' (or_null TString), req ''builtin'' TBool,
    opt ''warning'' (or_null TString),
    req ''limits'' (TObj [req ''seats'' (or_null TNumber), req ''connectors'' (or_null TNumber)]),
    req ''usage'' (TObj [req ''seats'' TNumber, req ''connectors'' TNumber])]"

definition BillingStatus :: ts where
  "BillingStatus =
     TObj [req ''configured'' TBool,
    req ''plans'' (TArray (TObj [req ''plan'' TString, req ''label'' TString,
        req ''seats'' (or_null TNumber),
      req ''connectors'' (or_null TNumber)])),
    req ''currentPlan'' (or_null TString), req ''currentPlanBuiltin'' TBool,
    req ''hasSubscription'' TBool, req ''portalAvailable'' TBool]"

definition DatabaseInfo :: ts where
  "DatabaseInfo =
     TObj [req ''backend'' TString, req ''configured'' TBool, req ''driverReady'' TBool,
    req ''note'' TString]"

definition EmailStatus :: ts where
  "EmailStatus =
     TObj [req ''configured'' TBool, req ''host'' (or_null TString), req ''port'' TNumber,
    req ''from'' (or_null TString)]"

definition OnboardingStatus :: ts where
  "OnboardingStatus =
     TObj [req ''steps'' (TArray (TObj [req ''id'' TString, req ''label'' TString,
        req ''done'' TBool, req ''link'' TString])),
    req ''done'' TNumber, req ''total'' TNumber, req ''pct'' TNumber,
    req ''complete'' TBool, req ''dismissed'' TBool]"

definition EngineQueue :: ts where
  "EngineQueue =
     TObj [req ''depth'' TNumber, req ''inFlight'' TNumber, req ''lagSeconds'' TNumber,
    req ''maxBacklog'' TNumber, req ''shedding'' TBool]"

definition EngineStatus :: ts where
  "EngineStatus =
     TObj [req ''mode'' TString, req ''running'' TBool, req ''enabled'' TBool,
    req ''tickSeconds'' TNumber, req ''alertsProduced'' TNumber,
    req ''totalAlerts'' TNumber, req ''darkWebFindings'' TNumber,
    opt ''queue'' EngineQueue, opt ''syntheticAllowed'' TBool]"

definition HealthStatus :: ts where
  "HealthStatus =
     lits [''ok'', ''degraded'', ''down'', ''unknown'']"

definition SelfHealth :: ts where
  "SelfHealth =
     TObj [req ''status'' HealthStatus, req ''generatedAt'' TString,
    req ''checks'' (TObj [req ''database'' (TObj [req ''status'' HealthStatus,
        opt ''latencyMs'' TNumber, opt ''error'' TString]),
      req ''schema'' (TObj [req ''status'' HealthStatus, opt ''code'' TNumber,
        opt ''db'' (or_null TNumber),
        opt ''detail'' TString]),
      req ''queue'' (TObj [req ''status'' HealthStatus, opt ''depth'' TNumber,
        opt ''inFlight'' TNumber,
        opt ''lagSeconds'' TNumber, opt ''detail'' TString]),
      req ''leader'' (TObj [req ''status'' HealthStatus, opt ''isLeader'' TBool,
        opt ''holder'' (or_null TString),
        opt ''electionEnabled'' TBool, opt ''expiresInSeconds'' TNumber]),
      req ''process'' (TObj [req ''status'' HealthStatus, opt ''uptimeSeconds'' TNumber,
        opt ''errors'' TNumber,
        opt ''engineTicks'' TNumber, opt ''engineTickFailures'' TNumber,
        opt ''ingestedEvents'' TNumber])])]"

definition AboutInfo :: ts where
  "AboutInfo =
     TObj [req ''productVersion'' TString, req ''gitSha'' (or_null TString),
    req ''apiVersion'' TString, req ''schemaVersion'' TNumber, req ''dbBackend'' TString,
    req ''dataMode'' TString, req ''engine'' TString, req ''multiTenant'' TBool]"

definition Connector :: ts where
  "Connector =
     TObj [req ''id'' TString, req ''name'' TString, req ''kind'' TString,
    req ''url'' (or_null TString), req ''authHeader'' (or_null TString),
    req ''enabled'' TNumber, req ''intervalMinutes'' TNumber,
    req ''intervalSeconds'' TNumber, req ''fieldMap'' (TRecord TString),
    req ''status'' TString, req ''lastRun'' (or_null TString),
    req ''lastError'' (or_null TString), req ''indicatorCount'' TNumber,
    req ''builtin'' TNumber, opt ''hasKey'' TNumber, req ''createdAt'' TString,
    req ''createdBy'' (or_null TString), opt ''nextAllowedAt'' (or_null TString)]"

definition ConnectorKind :: ts where
  "ConnectorKind =
     TObj [req ''kind'' TString, req ''label'' TString, req ''description'' TString,
    req ''needsKey'' TBool, req ''needsUrl'' TBool, req ''defaultUrl'' TString,
    req ''defaultInterval'' TNumber, opt ''minInterval'' TNumber, opt ''rateNote'' TString]"

definition ConnectorRunResult :: ts where
  "ConnectorRunResult =
     TObj [req ''result'' (TObj [opt ''imported'' TNumber, opt ''duplicates'' TNumber,
        opt ''skipped'' TNumber,
      opt ''total'' TNumber, opt ''error'' TString]),
    req ''connector'' Connector]"

definition ConnectorWork :: ts where
  "ConnectorWork =
     TObj [req ''id'' TString, req ''connectorId'' (or_null TString), req ''connector'' TString,
    req ''status'' (lits [''running'', ''completed'', ''failed'']),
    req ''expected'' TNumber, req ''processed'' TNumber, req ''imported'' TNumber,
    req ''duplicates'' TNumber, req ''skipped'' TNumber,
    req ''message'' (or_null TString), req ''startedAt'' TString,
    req ''updatedAt'' TString, req ''percent'' TNumber,
    req ''ratePerSec'' (or_null TNumber), opt ''noop'' TBool, opt ''collapsed'' TNumber,
    opt ''collapsedSince'' TString]"

definition ServiceState :: ts where
  "ServiceState =
     TObj [req ''url'' TString, req ''available'' TBool, req ''health'' TUnknown]"

definition ServicesStatus :: ts where
  "ServicesStatus =
     TObj [req ''threatApi'' ServiceState, req ''logApi'' ServiceState,
        req ''keyConfigured'' TBool]"

definition SourceHealthEntry :: ts where
  "SourceHealthEntry =
     TObj [req ''source'' TString, req ''status'' TString, opt ''lastSuccess'' (or_null TString),
    opt ''lastError'' (or_null TString), opt ''consecutiveFailures'' TNumber]"

definition LogAnalysisResult :: ts where
  "LogAnalysisResult =
     TObj [opt ''resultId'' TString, opt ''status'' TString, opt ''jobId'' TString,
    opt ''summary'' (TRecord TUnknown), opt ''findings'' (TArray (TRecord TUnknown)),
    opt ''anomalies'' (TArray (TRecord TUnknown))]"

definition RoleDef :: ts where
  "RoleDef =
     TObj [req ''id'' TString, req ''name'' TString, req ''description'' (or_null TString),
    req ''builtIn'' TBool, req ''capabilities'' (TArray TString)]"

definition RolesResponse :: ts where
  "RolesResponse =
     TObj [req ''roles'' (TArray RoleDef), req ''capabilities'' (TRecord TString)]"

definition AssistantNav :: ts where
  "AssistantNav =
     TObj [req ''label'' TString, req ''path'' TString]"

definition AssistantReply :: ts where
  "AssistantReply =
     TObj [req ''reply'' TString, req ''toolsUsed'' (TArray TString),
    req ''navigations'' (TArray AssistantNav),
    req ''mode'' (lits [''ai'', ''basic'', ''empty''])]"

definition AssistantStatus :: ts where
  "AssistantStatus =
     TObj [req ''configured'' TBool, req ''mode'' (lits [''ai'', ''basic'']),
    req ''capabilities'' (TArray TString)]"

definition client_types :: "(string \<times> ts) list" where
  "client_types =
    [(''MyPermissions'', MyPermissions), (''UserRole'', UserRole), (''User'', User),
     (''OverviewKpis'', OverviewKpis), (''ThreatVector'', ThreatVector), (''OverviewAlert'',
     OverviewAlert), (''Incident'', Incident), (''TopActor'', TopActor), (''LiveFeedItem'',
     LiveFeedItem), (''SiemAlert'', SiemAlert), (''SiemKpis'', SiemKpis), (''Rule'', Rule),
     (''Correlation'', Correlation), (''LogSource'', LogSource), (''Case'', Case),
     (''EscalationEvent'', EscalationEvent), (''TierQueue'', TierQueue), (''Playbook'',
     Playbook), (''Integration'', Integration), (''SoarMetrics'', SoarMetrics), (''Actor'',
     Actor), (''ActorMalware'', ActorMalware), (''AttackProfile'', AttackProfile),
     (''AttackRelease'', AttackRelease), (''ActorDetail'', ActorDetail), (''ScoreComponent'',
     ScoreComponent), (''ScoreBand'', ScoreBand), (''Ioc'', Ioc), (''IocLifecycle'',
     IocLifecycle), (''IocVerdict'', IocVerdict), (''VerdictSummary'', VerdictSummary),
     (''IocDetail'', IocDetail), (''RelatedGroup'', RelatedGroup), (''IocTimelineEvent'',
     IocTimelineEvent), (''DecayRule'', DecayRule), (''StoreSummary'', StoreSummary),
     (''MalwareFamily'', MalwareFamily), (''FamilyAttack'', FamilyAttack),
     (''MalwareFamilyDetail'', MalwareFamilyDetail), (''IntelSource'', IntelSource),
     (''IntelSourceScale'', IntelSourceScale), (''IocType'', IocType), (''CtiSummary'',
     CtiSummary), (''IocLookup'', IocLookup), (''SavedHunt'', SavedHunt), (''CtiGraphNode'',
     CtiGraphNode), (''CtiGraph'', CtiGraph), (''GraphPath'', GraphPath), (''Asset'', Asset),
     (''RiskComponent'', RiskComponent), (''RiskBreakdown'', RiskBreakdown),
     (''AssetDetail'', AssetDetail), (''RiskDistribution'', RiskDistribution),
     (''AssetSummary'', AssetSummary), (''Feed'', Feed), (''FeedsSummary'', FeedsSummary),
     (''ApiKey'', ApiKey), (''AuditEntry'', AuditEntry), (''OrgMode'', OrgMode), (''Org'',
     Org), (''SessionInfo'', SessionInfo), (''AlertVolumeDay'', AlertVolumeDay),
     (''DispositionStat'', DispositionStat), (''AlertAnalytics'', AlertAnalytics),
     (''GeoCountry'', GeoCountry), (''FpEvidence'', FpEvidence), (''FpAssessment'',
     FpAssessment), (''FpTriageAlert'', FpTriageAlert), (''SlaBreach'', SlaBreach),
     (''SocTriage'', SocTriage), (''SigmaPackImportResult'', SigmaPackImportResult),
     (''Suppression'', Suppression), (''RuleCondition'', RuleCondition), (''RuleDefinition'',
     RuleDefinition), (''RuleSchema'', RuleSchema), (''AttackTechnique'', AttackTechnique),
     (''AttackCoverage'', AttackCoverage), (''RiskEntity'', RiskEntity), (''EntityDetail'',
     EntityDetail), (''Notification'', Notification), (''SearchResult'', SearchResult),
     (''ReportSchedule'', ReportSchedule), (''SlackRouting'', SlackRouting), (''SavedView'',
     SavedView), (''HuntQueryRow'', HuntQueryRow), (''HuntQueryResult'', HuntQueryResult),
     (''EventSearchRow'', EventSearchRow), (''EventSearchResult'', EventSearchResult),
     (''HuntRunOutcome'', HuntRunOutcome), (''LogListenerStatus'', LogListenerStatus),
     (''SiemTrendDay'', SiemTrendDay), (''PlaybookRunStep'', PlaybookRunStep),
     (''PlaybookRun'', PlaybookRun), (''BuilderStep'', BuilderStep), (''StepKind'',
     StepKind), (''PlaybookVersion'', PlaybookVersion), (''SignedEvidenceBundle'',
     SignedEvidenceBundle), (''IntegrationActionResult'', IntegrationActionResult),
     (''IntegrationAction'', IntegrationAction), (''AnalystStat'', AnalystStat),
     (''EnrichmentProvider_cti'', EnrichmentProvider_cti), (''EnrichmentProvider_config'',
     EnrichmentProvider_config), (''EnrichmentProvider'', EnrichmentProvider),
     (''EnrichmentResult'', EnrichmentResult), (''IntelReport'', IntelReport),
     (''AttributionCandidate'', AttributionCandidate), (''BulkLookupRow'', BulkLookupRow),
     (''EnrichProvider'', EnrichProvider), (''ScanEnrichResult'', ScanEnrichResult),
     (''EnricherStatus'', EnricherStatus), (''ScanContextAlert'', ScanContextAlert),
     (''ScanContextIoc'', ScanContextIoc), (''ScanContext'', ScanContext), (''ImportResult'',
     ImportResult), (''ImportHistoryRow'', ImportHistoryRow), (''ScanEntry'', ScanEntry),
     (''VulnSummary'', VulnSummary), (''FleetVulnFinding'', FleetVulnFinding),
     (''VulnFinding'', VulnFinding), (''ScanResult'', ScanResult), (''ExposureItem'',
     ExposureItem), (''DiscoveredAsset'', DiscoveredAsset), (''AssetActivity'',
     AssetActivity), (''Webhook'', Webhook), (''JobEntry'', JobEntry), (''ReportFinding'',
     ReportFinding), (''ReportData'', ReportData), (''ReportAudience'', ReportAudience),
     (''ReportFormat'', ReportFormat), (''CaseRelated'', CaseRelated), (''DarkWebFinding'',
     DarkWebFinding), (''DarkWebSummary'', DarkWebSummary), (''LicenseStatus'',
     LicenseStatus), (''BillingStatus'', BillingStatus), (''DatabaseInfo'', DatabaseInfo),
     (''EmailStatus'', EmailStatus), (''OnboardingStatus'', OnboardingStatus),
     (''EngineQueue'', EngineQueue), (''EngineStatus'', EngineStatus), (''HealthStatus'',
     HealthStatus), (''SelfHealth'', SelfHealth), (''AboutInfo'', AboutInfo), (''Connector'',
     Connector), (''ConnectorKind'', ConnectorKind), (''ConnectorRunResult'',
     ConnectorRunResult), (''ConnectorWork'', ConnectorWork), (''ServiceState'',
     ServiceState), (''ServicesStatus'', ServicesStatus), (''SourceHealthEntry'',
     SourceHealthEntry), (''LogAnalysisResult'', LogAnalysisResult), (''RoleDef'', RoleDef),
     (''RolesResponse'', RolesResponse), (''AssistantNav'', AssistantNav),
     (''AssistantReply'', AssistantReply), (''AssistantStatus'', AssistantStatus)]"

lemmas client_type_defs =
  MyPermissions_def UserRole_def User_def OverviewKpis_def ThreatVector_def
  OverviewAlert_def Incident_def TopActor_def LiveFeedItem_def SiemAlert_def SiemKpis_def
  Rule_def Correlation_def LogSource_def Case_def EscalationEvent_def TierQueue_def
  Playbook_def Integration_def SoarMetrics_def Actor_def ActorMalware_def AttackProfile_def
  AttackRelease_def ActorDetail_def ScoreComponent_def ScoreBand_def Ioc_def
  IocLifecycle_def IocVerdict_def VerdictSummary_def IocDetail_def RelatedGroup_def
  IocTimelineEvent_def DecayRule_def StoreSummary_def MalwareFamily_def FamilyAttack_def
  MalwareFamilyDetail_def IntelSource_def IntelSourceScale_def IocType_def CtiSummary_def
  IocLookup_def SavedHunt_def CtiGraphNode_def CtiGraph_def GraphPath_def Asset_def
  RiskComponent_def RiskBreakdown_def AssetDetail_def RiskDistribution_def AssetSummary_def
  Feed_def FeedsSummary_def ApiKey_def AuditEntry_def OrgMode_def Org_def SessionInfo_def
  AlertVolumeDay_def DispositionStat_def AlertAnalytics_def GeoCountry_def FpEvidence_def
  FpAssessment_def FpTriageAlert_def SlaBreach_def SocTriage_def SigmaPackImportResult_def
  Suppression_def RuleCondition_def RuleDefinition_def RuleSchema_def AttackTechnique_def
  AttackCoverage_def RiskEntity_def EntityDetail_def Notification_def SearchResult_def
  ReportSchedule_def SlackRouting_def SavedView_def HuntQueryRow_def HuntQueryResult_def
  EventSearchRow_def EventSearchResult_def HuntRunOutcome_def LogListenerStatus_def
  SiemTrendDay_def PlaybookRunStep_def PlaybookRun_def BuilderStep_def StepKind_def
  PlaybookVersion_def SignedEvidenceBundle_def IntegrationActionResult_def
  IntegrationAction_def AnalystStat_def EnrichmentProvider_cti_def
  EnrichmentProvider_config_def EnrichmentProvider_def EnrichmentResult_def IntelReport_def
  AttributionCandidate_def BulkLookupRow_def EnrichProvider_def ScanEnrichResult_def
  EnricherStatus_def ScanContextAlert_def ScanContextIoc_def ScanContext_def
  ImportResult_def ImportHistoryRow_def ScanEntry_def VulnSummary_def FleetVulnFinding_def
  VulnFinding_def ScanResult_def ExposureItem_def DiscoveredAsset_def AssetActivity_def
  Webhook_def JobEntry_def ReportFinding_def ReportData_def ReportAudience_def
  ReportFormat_def CaseRelated_def DarkWebFinding_def DarkWebSummary_def LicenseStatus_def
  BillingStatus_def DatabaseInfo_def EmailStatus_def OnboardingStatus_def EngineQueue_def
  EngineStatus_def HealthStatus_def SelfHealth_def AboutInfo_def Connector_def
  ConnectorKind_def ConnectorRunResult_def ConnectorWork_def ServiceState_def
  ServicesStatus_def SourceHealthEntry_def LogAnalysisResult_def RoleDef_def
  RolesResponse_def AssistantNav_def AssistantReply_def AssistantStatus_def

end
