(* ===== verification/ApiEndpoints.thy ===== *)
theory ApiEndpoints
  imports ApiTypes
begin

text \<open>
  The endpoint functions of \<open>frontend/lib/api.ts\<close>, in the order of the file: each is the
  call \<open>api<T>(path, opts)\<close> it makes, with the path template, the method, the body as
  the code builds it (member by member, optional members included only under the code's
  condition) and the type \<open>T\<close>. A parameter with a default is an option resolved by
  \<open>default\<close>; a body object the code passes on unchanged is a JSON value.
\<close>

definition default :: "'a \<Rightarrow> 'a option \<Rightarrow> 'a" where
  "default d x = (case x of None \<Rightarrow> d | Some v \<Rightarrow> v)"

text \<open>Truthiness of an optional string, and its text inside a template.\<close>

definition given :: "string option \<Rightarrow> bool" where
  "given x \<longleftrightarrow> x \<noteq> None \<and> x \<noteq> Some []"

definition str_of :: "string option \<Rightarrow> string" where
  "str_of x = (case x of None \<Rightarrow> ''undefined'' | Some s \<Rightarrow> s)"

definition jopt :: "('a \<Rightarrow> json) \<Rightarrow> 'a option \<Rightarrow> json" where
  "jopt f x = (case x of None \<Rightarrow> JUndef | Some v \<Rightarrow> f v)"

definition jnull :: "string option \<Rightarrow> json" where
  "jnull x = (case x of None \<Rightarrow> JNull | Some s \<Rightarrow> JStr s)"

definition jrec :: "(string \<times> string) list \<Rightarrow> json" where
  "jrec ps = JObj (map (\<lambda>(k, v). (k, JStr v)) ps)"

text \<open>\<open>params ? '?' + new URLSearchParams(params).toString() : ''\<close>.\<close>

definition query_of :: "(string \<times> string) list option \<Rightarrow> string" where
  "query_of params = (case params of None \<Rightarrow> [] | Some ps \<Rightarrow> ''?'' @ search_params ps)"

definition escalateCase :: "string \<Rightarrow> rat \<Rightarrow> string option \<Rightarrow> string option \<Rightarrow> call" where
  "escalateCase ident toTier toOwner note =
     \<lparr>c_path = ''/soar/cases/'' @ ident @ ''/escalate'',
      c_method = ''POST'', c_body = Some (JObj [(''to_tier'', JNum toTier),
        (''to_owner'', jopt JStr toOwner), (''note'', jopt JStr note)]),
      c_resp = (TObj [req ''event'' EscalationEvent, req ''case'' Case,
    req ''history'' (TArray EscalationEvent)])\<rparr>"

definition fetchCaseEscalations :: "string \<Rightarrow> call" where
  "fetchCaseEscalations ident =
     \<lparr>c_path = ''/soar/cases/'' @ ident @ ''/escalations'',
      c_method = ''GET'', c_body = None,
      c_resp = (TObj [req ''tier'' TNumber, req ''tierName'' TString,
    req ''history'' (TArray EscalationEvent),
    req ''tiers'' (TArray (TObj [req ''tier'' TNumber, req ''name'' TString,
        req ''slaHours'' TNumber]))])\<rparr>"

definition fetchTierQueues :: "call" where
  "fetchTierQueues =
     \<lparr>c_path = ''/soar/queues'',
      c_method = ''GET'', c_body = None,
      c_resp = (TArray TierQueue)\<rparr>"

definition concludeCase :: "string \<Rightarrow> string \<Rightarrow> string \<Rightarrow> bool option \<Rightarrow> call" where
  "concludeCase ident outcome conclusion close =
     (let close = default True close
     in \<lparr>c_path = ''/soar/cases/'' @ ident @ ''/conclude'',
      c_method = ''POST'', c_body = Some (JObj [(''outcome'', JStr outcome),
        (''conclusion'', JStr conclusion), (''close'', JBool close)]),
      c_resp = Case\<rparr>)"

definition recordIocVerdict :: "string \<Rightarrow> string \<Rightarrow> string option \<Rightarrow> call" where
  "recordIocVerdict ident verdict reason =
     \<lparr>c_path = ''/cti/iocs/'' @ ident @ ''/verdict'',
      c_method = ''POST'', c_body = Some (JObj [(''verdict'', JStr verdict),
        (''reason'', jopt JStr reason)]),
      c_resp = (TObj [req ''verdict'' IocVerdict, req ''summary'' VerdictSummary,
        req ''intelScore'' TNumber,
    req ''scoreBand'' ScoreBand, req ''scoreComponents'' (TArray ScoreComponent)])\<rparr>"

definition fetchIocRelated :: "string \<Rightarrow> rat option \<Rightarrow> call" where
  "fetchIocRelated ident limit =
     (let limit = default 8 limit
     in \<lparr>c_path = ''/cti/iocs/'' @ ident @ ''/related?limit='' @ num_str limit,
      c_method = ''GET'', c_body = None,
      c_resp = (TObj [req ''groups'' (TArray RelatedGroup), req ''total'' TNumber])\<rparr>)"

definition fetchIocTimeline :: "string \<Rightarrow> rat option \<Rightarrow> call" where
  "fetchIocTimeline ident limit =
     (let limit = default 80 limit
     in \<lparr>c_path = ''/cti/iocs/'' @ ident @ ''/timeline?limit='' @ num_str limit,
      c_method = ''GET'', c_body = None,
      c_resp = (TObj [req ''value'' TString, req ''total'' TNumber,
        req ''items'' (TArray IocTimelineEvent)])\<rparr>)"

definition fetchStoreSummary :: "call" where
  "fetchStoreSummary =
     \<lparr>c_path = ''/cti/store-summary'',
      c_method = ''GET'', c_body = None,
      c_resp = StoreSummary\<rparr>"

definition fetchMalwareFamilies :: "call" where
  "fetchMalwareFamilies =
     \<lparr>c_path = ''/cti/malware'',
      c_method = ''GET'', c_body = None,
      c_resp = (TArray MalwareFamily)\<rparr>"

definition fetchMalwareFamily :: "string \<Rightarrow> call" where
  "fetchMalwareFamily name =
     \<lparr>c_path = ''/cti/malware/'' @ encodeURIComponent name,
      c_method = ''GET'', c_body = None,
      c_resp = MalwareFamilyDetail\<rparr>"

definition updateMalwareFamily :: "string \<Rightarrow> json \<Rightarrow> call" where
  "updateMalwareFamily name body =
     \<lparr>c_path = ''/cti/malware/'' @ encodeURIComponent name,
      c_method = ''PATCH'', c_body = Some body,
      c_resp = MalwareFamily\<rparr>"

definition fetchIntelSources :: "call" where
  "fetchIntelSources =
     \<lparr>c_path = ''/cti/sources'',
      c_method = ''GET'', c_body = None,
      c_resp = (TObj [req ''items'' (TArray IntelSource),
        req ''scale'' (TArray IntelSourceScale)])\<rparr>"

definition gradeIntelSource :: "string \<Rightarrow> string \<Rightarrow> string option \<Rightarrow> call" where
  "gradeIntelSource ident reliability reason =
     \<lparr>c_path = ''/cti/sources/'' @ encodeURIComponent ident,
      c_method = ''PATCH'', c_body = Some (JObj [(''reliability'', JStr reliability),
        (''reason'', jopt JStr reason)]),
      c_resp = IntelSource\<rparr>"

definition fetchDecayRules :: "call" where
  "fetchDecayRules =
     \<lparr>c_path = ''/cti/decay-rules'',
      c_method = ''GET'', c_body = None,
      c_resp = (TArray DecayRule)\<rparr>"

definition updateDecayRule :: "string \<Rightarrow> json \<Rightarrow> call" where
  "updateDecayRule ident body =
     \<lparr>c_path = ''/cti/decay-rules/'' @ ident,
      c_method = ''PATCH'', c_body = Some body,
      c_resp = DecayRule\<rparr>"

definition authLogin :: "string \<Rightarrow> string \<Rightarrow> string option \<Rightarrow> call" where
  "authLogin email password cod =
     \<lparr>c_path = ''/auth/login'',
      c_method = ''POST'', c_body = Some (JObj ([(''email'', JStr email),
        (''password'', JStr password)] @ (if given cod then [(''code'',
        jopt JStr cod)] else []))),
      c_resp = (TObj [req ''token'' TString, req ''user'' User])\<rparr>"

definition fetchMfaStatus :: "call" where
  "fetchMfaStatus =
     \<lparr>c_path = ''/auth/mfa'',
      c_method = ''GET'', c_body = None,
      c_resp = (TObj [req ''enabled'' TBool, req ''pending'' TBool,
        req ''recoveryCodesRemaining'' TNumber])\<rparr>"

definition mfaEnroll :: "call" where
  "mfaEnroll =
     \<lparr>c_path = ''/auth/mfa/enroll'',
      c_method = ''POST'', c_body = None,
      c_resp = (TObj [req ''secret'' TString, req ''otpauthUri'' TString])\<rparr>"

definition mfaVerify :: "string \<Rightarrow> call" where
  "mfaVerify cod =
     \<lparr>c_path = ''/auth/mfa/verify'',
      c_method = ''POST'', c_body = Some (JObj [(''code'', JStr cod)]),
      c_resp = (TObj [req ''enabled'' TBool, opt ''recoveryCodes'' (TArray TString)])\<rparr>"

definition mfaDisable :: "string \<Rightarrow> call" where
  "mfaDisable cod =
     \<lparr>c_path = ''/auth/mfa/disable'',
      c_method = ''POST'', c_body = Some (JObj [(''code'', JStr cod)]),
      c_resp = (TObj [req ''enabled'' TBool])\<rparr>"

definition mfaRegenerateRecoveryCodes :: "string \<Rightarrow> call" where
  "mfaRegenerateRecoveryCodes cod =
     \<lparr>c_path = ''/auth/mfa/recovery-codes'',
      c_method = ''POST'', c_body = Some (JObj [(''code'', JStr cod)]),
      c_resp = (TObj [req ''recoveryCodes'' (TArray TString)])\<rparr>"

definition authRegister :: "json \<Rightarrow> call" where
  "authRegister body =
     \<lparr>c_path = ''/auth/register'',
      c_method = ''POST'', c_body = Some body,
      c_resp = (TObj [opt ''token'' TString, opt ''user'' User, opt ''pending'' TBool,
        opt ''email'' TString,
    opt ''message'' TString])\<rparr>"

definition verifyEmail :: "string \<Rightarrow> call" where
  "verifyEmail token =
     \<lparr>c_path = ''/auth/verify'',
      c_method = ''POST'', c_body = Some (JObj [(''token'', JStr token)]),
      c_resp = (TObj [req ''verified'' TBool, req ''email'' TString])\<rparr>"

definition resendVerification :: "string \<Rightarrow> call" where
  "resendVerification email =
     \<lparr>c_path = ''/auth/resend-verification'',
      c_method = ''POST'', c_body = Some (JObj [(''email'', JStr email)]),
      c_resp = (TObj [req ''ok'' TBool, req ''message'' TString])\<rparr>"

definition authMe :: "call" where
  "authMe =
     \<lparr>c_path = ''/auth/me'',
      c_method = ''GET'', c_body = None,
      c_resp = User\<rparr>"

definition fetchMyPermissions :: "call" where
  "fetchMyPermissions =
     \<lparr>c_path = ''/auth/permissions'',
      c_method = ''GET'', c_body = None,
      c_resp = MyPermissions\<rparr>"

definition fetchOrgMode :: "call" where
  "fetchOrgMode =
     \<lparr>c_path = ''/config/mode'',
      c_method = ''GET'', c_body = None,
      c_resp = OrgMode\<rparr>"

definition setOrgMode :: "string \<Rightarrow> call" where
  "setOrgMode mode =
     \<lparr>c_path = ''/config/mode'',
      c_method = ''PUT'', c_body = Some (JObj [(''mode'', JStr mode)]),
      c_resp = OrgMode\<rparr>"

definition fetchSsoStatus :: "call" where
  "fetchSsoStatus =
     \<lparr>c_path = ''/auth/sso/status'',
      c_method = ''GET'', c_body = None,
      c_resp = (TObj [req ''configured'' TBool, req ''loginPath'' TString])\<rparr>"

definition fetchSamlStatus :: "call" where
  "fetchSamlStatus =
     \<lparr>c_path = ''/auth/saml/status'',
      c_method = ''GET'', c_body = None,
      c_resp = (TObj [req ''configured'' TBool, req ''loginPath'' TString])\<rparr>"

definition fetchCurrentOrg :: "call" where
  "fetchCurrentOrg =
     \<lparr>c_path = ''/orgs/current'',
      c_method = ''GET'', c_body = None,
      c_resp = Org\<rparr>"

definition fetchOrgs :: "call" where
  "fetchOrgs =
     \<lparr>c_path = ''/orgs'',
      c_method = ''GET'', c_body = None,
      c_resp = (TArray Org)\<rparr>"

definition createOrg :: "json \<Rightarrow> call" where
  "createOrg body =
     \<lparr>c_path = ''/orgs'',
      c_method = ''POST'', c_body = Some body,
      c_resp = Org\<rparr>"

definition authRevokeAllSessions :: "call" where
  "authRevokeAllSessions =
     \<lparr>c_path = ''/auth/sessions/revoke-all'',
      c_method = ''POST'', c_body = None,
      c_resp = (TObj [req ''ok'' TBool, req ''revokedAt'' TNumber])\<rparr>"

definition fetchSessions :: "call" where
  "fetchSessions =
     \<lparr>c_path = ''/auth/sessions'',
      c_method = ''GET'', c_body = None,
      c_resp = (TArray SessionInfo)\<rparr>"

definition revokeSession :: "string \<Rightarrow> call" where
  "revokeSession ident =
     \<lparr>c_path = ''/auth/sessions/'' @ ident @ ''/revoke'',
      c_method = ''POST'', c_body = None,
      c_resp = (TObj [req ''ok'' TBool])\<rparr>"

definition fetchKpis :: "call" where
  "fetchKpis =
     \<lparr>c_path = ''/overview/kpis'',
      c_method = ''GET'', c_body = None,
      c_resp = OverviewKpis\<rparr>"

definition fetchVectors :: "call" where
  "fetchVectors =
     \<lparr>c_path = ''/overview/threat-vectors'',
      c_method = ''GET'', c_body = None,
      c_resp = (TArray ThreatVector)\<rparr>"

definition fetchHourly :: "call" where
  "fetchHourly =
     \<lparr>c_path = ''/overview/hourly-volume'',
      c_method = ''GET'', c_body = None,
      c_resp = (TArray TNumber)\<rparr>"

definition fetchAlertAnalytics :: "call" where
  "fetchAlertAnalytics =
     \<lparr>c_path = ''/overview/alert-analytics'',
      c_method = ''GET'', c_body = None,
      c_resp = AlertAnalytics\<rparr>"

definition fetchGeo :: "rat option \<Rightarrow> call" where
  "fetchGeo limit =
     (let limit = default 20 limit
     in \<lparr>c_path = ''/overview/geo?limit='' @ num_str limit,
      c_method = ''GET'', c_body = None,
      c_resp = (TObj [req ''countries'' (TArray GeoCountry),
        req ''totalGeolocated'' TNumber])\<rparr>)"

definition fetchHeatmap :: "call" where
  "fetchHeatmap =
     \<lparr>c_path = ''/overview/mitre-heatmap'',
      c_method = ''GET'', c_body = None,
      c_resp = (TArray (TObj [req ''label'' TString, req ''vals'' (TArray TNumber)]))\<rparr>"

definition fetchRecentAlerts :: "rat option \<Rightarrow> call" where
  "fetchRecentAlerts limit =
     (let limit = default 8 limit
     in \<lparr>c_path = ''/overview/recent-alerts?limit='' @ num_str limit,
      c_method = ''GET'', c_body = None,
      c_resp = (TArray OverviewAlert)\<rparr>)"

definition fetchRecentIncidents :: "rat option \<Rightarrow> call" where
  "fetchRecentIncidents limit =
     (let limit = default 6 limit
     in \<lparr>c_path = ''/overview/recent-incidents?limit='' @ num_str limit,
      c_method = ''GET'', c_body = None,
      c_resp = (TArray Incident)\<rparr>)"

definition fetchTopActors :: "rat option \<Rightarrow> call" where
  "fetchTopActors limit =
     (let limit = default 5 limit
     in \<lparr>c_path = ''/overview/top-actors?limit='' @ num_str limit,
      c_method = ''GET'', c_body = None,
      c_resp = (TArray TopActor)\<rparr>)"

definition fetchLiveFeed :: "rat option \<Rightarrow> call" where
  "fetchLiveFeed limit =
     (let limit = default 20 limit
     in \<lparr>c_path = ''/overview/live-feed?limit='' @ num_str limit,
      c_method = ''GET'', c_body = None,
      c_resp = (TArray LiveFeedItem)\<rparr>)"

definition fetchSiemAlerts :: "((string \<times> string) list) option \<Rightarrow> call" where
  "fetchSiemAlerts params =
     \<lparr>c_path = ''/siem/alerts'' @ query_of params,
      c_method = ''GET'', c_body = None,
      c_resp = (TObj [req ''total'' TNumber, req ''items'' (TArray SiemAlert)])\<rparr>"

definition patchAlert :: "string \<Rightarrow> json \<Rightarrow> call" where
  "patchAlert ident body =
     \<lparr>c_path = ''/siem/alerts/'' @ ident,
      c_method = ''PATCH'', c_body = Some body,
      c_resp = SiemAlert\<rparr>"

definition fetchAlertFpAssessment :: "string \<Rightarrow> call" where
  "fetchAlertFpAssessment ident =
     \<lparr>c_path = ''/siem/alerts/'' @ ident @ ''/fp-assessment'',
      c_method = ''GET'', c_body = None,
      c_resp = FpAssessment\<rparr>"

definition bulkDismissAlerts :: "string list \<Rightarrow> call" where
  "bulkDismissAlerts ids =
     \<lparr>c_path = ''/siem/alerts/bulk-dismiss'',
      c_method = ''POST'', c_body = Some (JObj [(''ids'', (JArr (map JStr ids)))]),
      c_resp = (TObj [req ''dismissed'' TNumber, req ''notFound'' (TArray TString)])\<rparr>"

definition createAlert :: "json \<Rightarrow> call" where
  "createAlert body =
     \<lparr>c_path = ''/siem/alerts'',
      c_method = ''POST'', c_body = Some (JObj ([(''title'', json_get ''title'' body),
        (''severity'', json_get ''severity'' body),
        (''description'', json_get ''description'' body),
        (''src_ip'', json_get ''srcIp'' body),
        (''src_country'', json_get ''srcCountry'' body),
        (''mitreTechId'', json_get ''mitreTechId'' body),
        (''mitre_tactic'',
        json_get ''mitreTactic'' body)] @ (if truthy (json_get ''ruleName'' body) then [(''rule_name'', json_get ''ruleName'' body)] else []) @ [(''hostname'', json_get ''hostname'' body), (''username'', json_get ''username'' body)] @ (if json_get ''tiHits'' body \<noteq> JUndef then [(''ti_hits'', json_get ''tiHits'' body)] else []))),
      c_resp = SiemAlert\<rparr>"

definition fetchSiemKpis :: "call" where
  "fetchSiemKpis =
     \<lparr>c_path = ''/siem/kpis'',
      c_method = ''GET'', c_body = None,
      c_resp = SiemKpis\<rparr>"

definition fetchTriage :: "call" where
  "fetchTriage =
     \<lparr>c_path = ''/siem/triage'',
      c_method = ''GET'', c_body = None,
      c_resp = SocTriage\<rparr>"

definition fetchRules :: "call" where
  "fetchRules =
     \<lparr>c_path = ''/siem/rules'',
      c_method = ''GET'', c_body = None,
      c_resp = (TArray Rule)\<rparr>"

definition patchRule :: "string \<Rightarrow> json \<Rightarrow> call" where
  "patchRule ident body =
     \<lparr>c_path = ''/siem/rules/'' @ ident,
      c_method = ''PATCH'', c_body = Some (JObj [(''status'', json_get ''status'' body),
        (''severity_override'', json_get ''severityOverride'' body),
        (''suppression_window'', json_get ''suppressionWindow'' body)]),
      c_resp = Rule\<rparr>"

definition deleteRule :: "string \<Rightarrow> call" where
  "deleteRule ident =
     \<lparr>c_path = ''/siem/rules/'' @ ident,
      c_method = ''DELETE'', c_body = None,
      c_resp = TVoid\<rparr>"

definition importSigmaRule :: "string \<Rightarrow> call" where
  "importSigmaRule yamlText =
     \<lparr>c_path = ''/siem/rules/import-sigma'',
      c_method = ''POST'', c_body = Some (JObj [(''yaml'', JStr yamlText)]),
      c_resp = (extends Rule [req ''importNotes'' (TArray TString)])\<rparr>"

definition importSigmaPack :: "string \<Rightarrow> call" where
  "importSigmaPack yamlText =
     \<lparr>c_path = ''/siem/rules/import-sigma-pack'',
      c_method = ''POST'', c_body = Some (JObj [(''yaml'', JStr yamlText)]),
      c_resp = SigmaPackImportResult\<rparr>"

definition exportSigmaRule :: "string \<Rightarrow> call" where
  "exportSigmaRule ident =
     \<lparr>c_path = ''/siem/rules/'' @ ident @ ''/sigma'',
      c_method = ''GET'', c_body = None,
      c_resp = (TObj [req ''yaml'' TString, req ''source'' (lits [''original'',
        ''generated''])])\<rparr>"

definition loadDetectionPack :: "call" where
  "loadDetectionPack =
     \<lparr>c_path = ''/siem/rules/load-pack'',
      c_method = ''POST'', c_body = None,
      c_resp = (TObj [req ''created'' (TArray TString),
        req ''skipped'' (TArray TString)])\<rparr>"

definition fetchSuppressions :: "call" where
  "fetchSuppressions =
     \<lparr>c_path = ''/siem/suppressions'',
      c_method = ''GET'', c_body = None,
      c_resp = (TArray Suppression)\<rparr>"

definition createSuppression :: "json \<Rightarrow> call" where
  "createSuppression body =
     \<lparr>c_path = ''/siem/suppressions'',
      c_method = ''POST'', c_body = Some (JObj [(''value'', json_get ''value'' body),
        (''field'', json_get ''field'' body), (''rule_id'', json_get ''ruleId'' body),
        (''mode'', json_get ''mode'' body), (''reason'', json_get ''reason'' body),
        (''expires_hours'', json_get ''expiresHours'' body),
        (''window_start'', json_get ''windowStart'' body),
        (''window_end'', json_get ''windowEnd'' body)]),
      c_resp = Suppression\<rparr>"

definition deleteSuppression :: "string \<Rightarrow> call" where
  "deleteSuppression ident =
     \<lparr>c_path = ''/siem/suppressions/'' @ ident,
      c_method = ''DELETE'', c_body = None,
      c_resp = TVoid\<rparr>"

definition fetchRuleSchema :: "call" where
  "fetchRuleSchema =
     \<lparr>c_path = ''/siem/rule-schema'',
      c_method = ''GET'', c_body = None,
      c_resp = RuleSchema\<rparr>"

definition testRule :: "json \<Rightarrow> call" where
  "testRule definition =
     \<lparr>c_path = ''/siem/rules/test'',
      c_method = ''POST'', c_body = Some (JObj [(''definition'', definition)]),
      c_resp = (TObj [req ''matched'' TNumber, req ''scanned'' TNumber,
    req ''sample'' (TArray (TObj [req ''entity'' TString, req ''count'' TNumber,
        req ''ts'' TString, req ''raw'' TString]))])\<rparr>"

definition createDetectionRule :: "json \<Rightarrow> call" where
  "createDetectionRule body =
     \<lparr>c_path = ''/siem/rules'',
      c_method = ''POST'', c_body = Some (JObj [(''name'', json_get ''name'' body),
        (''category'', json_get ''category'' body),
        (''severity'', json_get ''severity'' body),
        (''mitre_tactic'', json_get ''mitreTactic'' body),
        (''mitre_tech_id'', json_get ''mitreTechId'' body),
        (''mitre_tech'', json_get ''mitreTech'' body),
        (''description'', json_get ''description'' body),
        (''definition'', json_get ''definition'' body)]),
      c_resp = Rule\<rparr>"

definition updateRuleDefinition :: "string \<Rightarrow> json \<Rightarrow> call" where
  "updateRuleDefinition ident definition =
     \<lparr>c_path = ''/siem/rules/'' @ ident,
      c_method = ''PATCH'', c_body = Some (JObj [(''definition'', definition)]),
      c_resp = Rule\<rparr>"

definition ingestLogs :: "string list \<Rightarrow> string option \<Rightarrow> string option \<Rightarrow> call" where
  "ingestLogs lns fmt source =
     (let fmt = default ''auto'' fmt;
          source = default ''collector'' source
     in \<lparr>c_path = ''/siem/ingest'',
      c_method = ''POST'', c_body = Some (JObj [(''lines'', (JArr (map JStr lns))),
        (''format'', JStr fmt), (''source'', JStr source)]),
      c_resp = (TObj [req ''ingested'' TNumber, req ''parsed'' TNumber, req ''alerts'' TNumber,
    req ''tiMatches'' TNumber, req ''source'' TString])\<rparr>)"

definition fetchAttackCoverage :: "call" where
  "fetchAttackCoverage =
     \<lparr>c_path = ''/siem/attack-coverage'',
      c_method = ''GET'', c_body = None,
      c_resp = AttackCoverage\<rparr>"

definition fetchEntities :: "string option \<Rightarrow> rat option \<Rightarrow> call" where
  "fetchEntities typ limit =
     (let typ = default ''all'' typ;
          limit = default 25 limit
     in \<lparr>c_path = ''/siem/entities?type='' @ typ @ ''&limit='' @ num_str limit,
      c_method = ''GET'', c_body = None,
      c_resp = (TObj [req ''entities'' (TArray RiskEntity),
    req ''summary'' (TObj [req ''tracked'' TNumber, req ''highRisk'' TNumber])])\<rparr>)"

definition fetchEntityDetail :: "string \<Rightarrow> string \<Rightarrow> call" where
  "fetchEntityDetail typ value =
     \<lparr>c_path = ''/siem/entities/detail?type='' @ typ @ ''&value='' @ encodeURIComponent value,
      c_method = ''GET'', c_body = None,
      c_resp = EntityDetail\<rparr>"

definition fetchNotifications :: "bool option \<Rightarrow> call" where
  "fetchNotifications unreadOnly =
     (let unreadOnly = default False unreadOnly
     in \<lparr>c_path = ''/notifications'' @ (if unreadOnly then ''?unread_only=true'' else []),
      c_method = ''GET'', c_body = None,
      c_resp = (TObj [req ''items'' (TArray Notification), req ''unread'' TNumber])\<rparr>)"

definition markNotificationRead :: "string option \<Rightarrow> call" where
  "markNotificationRead ident =
     \<lparr>c_path = ''/notifications/read'',
      c_method = ''POST'', c_body = Some (if given ident then (JObj [(''id'',
        jopt JStr ident)]) else (JObj [])),
      c_resp = (TObj [req ''ok'' TBool])\<rparr>"

definition globalSearch :: "string \<Rightarrow> call" where
  "globalSearch q =
     \<lparr>c_path = ''/search?q='' @ encodeURIComponent q,
      c_method = ''GET'', c_body = None,
      c_resp = (TObj [req ''query'' TString, req ''results'' (TArray SearchResult)])\<rparr>"

definition fetchReportSchedules :: "call" where
  "fetchReportSchedules =
     \<lparr>c_path = ''/report-schedules'',
      c_method = ''GET'', c_body = None,
      c_resp = (TArray ReportSchedule)\<rparr>"

definition createReportSchedule :: "json \<Rightarrow> call" where
  "createReportSchedule body =
     \<lparr>c_path = ''/report-schedules'',
      c_method = ''POST'', c_body = Some body,
      c_resp = ReportSchedule\<rparr>"

definition runReportSchedule :: "string \<Rightarrow> call" where
  "runReportSchedule ident =
     \<lparr>c_path = ''/report-schedules/'' @ ident @ ''/run'',
      c_method = ''POST'', c_body = None,
      c_resp = (TObj [req ''generated'' TBool, req ''delivered'' TBool,
        req ''title'' TString])\<rparr>"

definition deleteReportSchedule :: "string \<Rightarrow> call" where
  "deleteReportSchedule ident =
     \<lparr>c_path = ''/report-schedules/'' @ ident,
      c_method = ''DELETE'', c_body = None,
      c_resp = TVoid\<rparr>"

definition fetchMySlackRouting :: "call" where
  "fetchMySlackRouting =
     \<lparr>c_path = ''/auth/me/slack'',
      c_method = ''GET'', c_body = None,
      c_resp = SlackRouting\<rparr>"

definition setMySlackRouting :: "string option \<Rightarrow> string \<Rightarrow> call" where
  "setMySlackRouting webhook_url min_severity =
     \<lparr>c_path = ''/auth/me/slack'',
      c_method = ''PUT'', c_body = Some (JObj [(''webhook_url'', (jnull webhook_url)),
        (''min_severity'', JStr min_severity)]),
      c_resp = SlackRouting\<rparr>"

definition testMySlackRouting :: "call" where
  "testMySlackRouting =
     \<lparr>c_path = ''/auth/me/slack/test'',
      c_method = ''POST'', c_body = None,
      c_resp = (TObj [req ''delivered'' TBool])\<rparr>"

definition fetchSavedViews :: "string \<Rightarrow> call" where
  "fetchSavedViews section =
     \<lparr>c_path = ''/saved-views?section='' @ section,
      c_method = ''GET'', c_body = None,
      c_resp = (TArray SavedView)\<rparr>"

definition createSavedView :: "string \<Rightarrow> string \<Rightarrow> (string \<times> string) list \<Rightarrow> call" where
  "createSavedView section name filters =
     \<lparr>c_path = ''/saved-views'',
      c_method = ''POST'', c_body = Some (JObj [(''section'', JStr section),
        (''name'', JStr name), (''filters'', (jrec filters))]),
      c_resp = SavedView\<rparr>"

definition deleteSavedView :: "string \<Rightarrow> call" where
  "deleteSavedView ident =
     \<lparr>c_path = ''/saved-views/'' @ ident,
      c_method = ''DELETE'', c_body = None,
      c_resp = TVoid\<rparr>"

definition enforceRetention :: "call" where
  "enforceRetention =
     \<lparr>c_path = ''/config/retention/enforce'',
      c_method = ''POST'', c_body = None,
      c_resp = (TObj [req ''retentionDays'' TNumber, opt ''perTableDays'' (TRecord TNumber),
    req ''purged'' (TRecord TNumber),
    opt ''archived'' (TRecord (TUnion [TNumber, TString])), opt ''archiveDir'' TString])\<rparr>"

definition fetchSiemSources :: "call" where
  "fetchSiemSources =
     \<lparr>c_path = ''/siem/sources'',
      c_method = ''GET'', c_body = None,
      c_resp = (TArray LogSource)\<rparr>"

definition createLogSource :: "json \<Rightarrow> call" where
  "createLogSource body =
     \<lparr>c_path = ''/siem/sources'',
      c_method = ''POST'', c_body = Some body,
      c_resp = LogSource\<rparr>"

definition createRule :: "json \<Rightarrow> call" where
  "createRule body =
     \<lparr>c_path = ''/siem/rules'',
      c_method = ''POST'', c_body = Some (JObj [(''name'', json_get ''name'' body),
        (''category'', json_get ''category'' body),
        (''severity'', json_get ''severity'' body),
        (''mitre_tactic'', json_get ''mitreTactic'' body),
        (''mitre_tech_id'', json_get ''mitreTechId'' body),
        (''mitre_tech'', json_get ''mitreTech'' body),
        (''description'', json_get ''description'' body), (''kql'', json_get ''kql'' body),
        (''tags'', json_get ''tags'' body)]),
      c_resp = Rule\<rparr>"

definition fetchSiemHunts :: "call" where
  "fetchSiemHunts =
     \<lparr>c_path = ''/siem/hunts'',
      c_method = ''GET'', c_body = None,
      c_resp = (TArray SavedHunt)\<rparr>"

definition runHuntQuery :: "string \<Rightarrow> string \<Rightarrow> call" where
  "runHuntQuery query timeRange =
     \<lparr>c_path = ''/siem/hunt-query'',
      c_method = ''POST'', c_body = Some (JObj [(''query'', JStr query),
        (''time_range'', JStr timeRange)]),
      c_resp = HuntQueryResult\<rparr>"

definition eventSearch :: "string \<Rightarrow> string option \<Rightarrow> call" where
  "eventSearch query timeRange =
     (let timeRange = default ''24h'' timeRange
     in \<lparr>c_path = ''/siem/search'',
      c_method = ''POST'', c_body = Some (JObj [(''query'', JStr query),
        (''time_range'', JStr timeRange)]),
      c_resp = EventSearchResult\<rparr>)"

definition createSiemHunt :: "json \<Rightarrow> call" where
  "createSiemHunt body =
     \<lparr>c_path = ''/siem/hunts'',
      c_method = ''POST'', c_body = Some body,
      c_resp = SavedHunt\<rparr>"

definition runSiemHunt :: "string \<Rightarrow> call" where
  "runSiemHunt ident =
     \<lparr>c_path = ''/siem/hunts/'' @ ident @ ''/run'',
      c_method = ''POST'', c_body = None,
      c_resp = HuntRunOutcome\<rparr>"

definition scheduleHunt :: "string \<Rightarrow> rat \<Rightarrow> bool option \<Rightarrow> call" where
  "scheduleHunt ident scheduleMinutes autoAlert =
     (let autoAlert = default True autoAlert
     in \<lparr>c_path = ''/siem/hunts/'' @ ident @ ''/schedule'',
      c_method = ''POST'', c_body = Some (JObj [(''schedule_minutes'', JNum scheduleMinutes),
        (''auto_alert'', JBool autoAlert)]),
      c_resp = (TObj [req ''id'' TString, req ''name'' TString, req ''scheduleMinutes'' TNumber,
    req ''status'' TString])\<rparr>)"

definition runScheduledHunts :: "call" where
  "runScheduledHunts =
     \<lparr>c_path = ''/siem/hunts/run-scheduled'',
      c_method = ''POST'', c_body = None,
      c_resp = (TObj [req ''ran'' TNumber, req ''alerts'' TNumber])\<rparr>"

definition fetchLogListeners :: "call" where
  "fetchLogListeners =
     \<lparr>c_path = ''/siem/log-listeners'',
      c_method = ''GET'', c_body = None,
      c_resp = LogListenerStatus\<rparr>"

definition fetchCorrelations :: "rat option \<Rightarrow> call" where
  "fetchCorrelations minAlerts =
     (let minAlerts = default 2 minAlerts
     in \<lparr>c_path = ''/siem/correlations?min_alerts='' @ num_str minAlerts,
      c_method = ''GET'', c_body = None,
      c_resp = (TArray Correlation)\<rparr>)"

definition fetchMitreDistribution :: "call" where
  "fetchMitreDistribution =
     \<lparr>c_path = ''/siem/mitre-distribution'',
      c_method = ''GET'', c_body = None,
      c_resp = (TArray (TObj [req ''tactic'' TString, req ''count'' TNumber,
        req ''color'' TString]))\<rparr>"

definition fetchSiemTrends :: "rat option \<Rightarrow> call" where
  "fetchSiemTrends days =
     (let days = default 7 days
     in \<lparr>c_path = ''/siem/analytics/trends?days='' @ num_str days,
      c_method = ''GET'', c_body = None,
      c_resp = (TObj [req ''days'' (TArray SiemTrendDay)])\<rparr>)"

definition fetchCases :: "((string \<times> string) list) option \<Rightarrow> call" where
  "fetchCases params =
     \<lparr>c_path = ''/soar/cases'' @ query_of params,
      c_method = ''GET'', c_body = None,
      c_resp = (TArray Case)\<rparr>"

definition patchCase :: "string \<Rightarrow> json \<Rightarrow> call" where
  "patchCase ident body =
     \<lparr>c_path = ''/soar/cases/'' @ ident,
      c_method = ''PATCH'', c_body = Some body,
      c_resp = Case\<rparr>"

definition createCase :: "json \<Rightarrow> call" where
  "createCase body =
     \<lparr>c_path = ''/soar/cases'',
      c_method = ''POST'', c_body = Some (JObj ([(''title'', json_get ''title'' body),
        (''severity'', json_get ''severity'' body), (''type'', json_get ''type'' body),
        (''description'', json_get ''description'' body),
        (''owner'', json_get ''owner'' body)] @ (if json_get ''slaHours'' body \<noteq> JUndef then [(''sla_hours'', json_get ''slaHours'' body)] else []) @ (if json_get ''alertCount'' body \<noteq> JUndef then [(''alert_count'', json_get ''alertCount'' body)] else []) @ [(''entities'', json_get ''entities'' body)])),
      c_resp = Case\<rparr>"

definition addCaseNote :: "string \<Rightarrow> string \<Rightarrow> string option \<Rightarrow> call" where
  "addCaseNote ident content typ =
     (let typ = default ''manual'' typ
     in \<lparr>c_path = ''/soar/cases/'' @ ident @ ''/notes'',
      c_method = ''POST'', c_body = Some (JObj [(''content'', JStr content),
        (''type'', JStr typ)]),
      c_resp = Case\<rparr>)"

definition patchCaseTask :: "string \<Rightarrow> string \<Rightarrow> json \<Rightarrow> call" where
  "patchCaseTask caseId taskId body =
     \<lparr>c_path = ''/soar/cases/'' @ caseId @ ''/tasks/'' @ taskId,
      c_method = ''PATCH'', c_body = Some body,
      c_resp = Case\<rparr>"

definition dryRunPlaybook :: "string \<Rightarrow> string option \<Rightarrow> call" where
  "dryRunPlaybook ident alertId =
     \<lparr>c_path = ''/soar/playbooks/'' @ ident @ ''/run'',
      c_method = ''POST'', c_body = Some (JObj ([(''dry_run'',
        JBool True)] @ (if given alertId then [(''alert_id'', jopt JStr alertId)] else []))),
      c_resp = (TObj [req ''dryRun'' TBool, req ''run'' PlaybookRun])\<rparr>"

definition fetchPlaybookRuns :: "string \<Rightarrow> rat option \<Rightarrow> call" where
  "fetchPlaybookRuns playbookId limit =
     (let limit = default 20 limit
     in \<lparr>c_path = ''/soar/playbooks/'' @ playbookId @ ''/runs?limit='' @ num_str limit,
      c_method = ''GET'', c_body = None,
      c_resp = (TArray PlaybookRun)\<rparr>)"

definition fetchSoarRuns :: "string option \<Rightarrow> rat option \<Rightarrow> call" where
  "fetchSoarRuns status limit =
     (let limit = default 30 limit
     in \<lparr>c_path = ''/soar/runs?limit='' @ num_str limit @ (if given status then ''&status='' @ str_of status else []),
      c_method = ''GET'', c_body = None,
      c_resp = (TObj [req ''items'' (TArray PlaybookRun),
        req ''awaitingApproval'' TNumber])\<rparr>)"

definition approvePlaybookRun :: "string \<Rightarrow> call" where
  "approvePlaybookRun runId =
     \<lparr>c_path = ''/soar/runs/'' @ runId @ ''/approve'',
      c_method = ''POST'', c_body = None,
      c_resp = PlaybookRun\<rparr>"

definition rejectPlaybookRun :: "string \<Rightarrow> call" where
  "rejectPlaybookRun runId =
     \<lparr>c_path = ''/soar/runs/'' @ runId @ ''/reject'',
      c_method = ''POST'', c_body = None,
      c_resp = PlaybookRun\<rparr>"

definition updatePlaybook :: "string \<Rightarrow> json \<Rightarrow> call" where
  "updatePlaybook ident body =
     \<lparr>c_path = ''/soar/playbooks/'' @ ident,
      c_method = ''PATCH'', c_body = Some (JObj [(''enabled'', json_get ''enabled'' body),
        (''steps'', json_get ''steps'' body),
        (''trigger_match'', json_get ''triggerMatch'' body),
        (''trigger_type'', json_get ''triggerType'' body),
        (''description'', json_get ''description'' body)]),
      c_resp = Playbook\<rparr>"

definition fetchStepKinds :: "call" where
  "fetchStepKinds =
     \<lparr>c_path = ''/soar/step-kinds'',
      c_method = ''GET'', c_body = None,
      c_resp = (TArray StepKind)\<rparr>"

definition createPlaybook :: "json \<Rightarrow> call" where
  "createPlaybook body =
     \<lparr>c_path = ''/soar/playbooks'',
      c_method = ''POST'', c_body = Some (JObj [(''name'', json_get ''name'' body),
        (''category'', json_get ''category'' body), (''trigger'', json_get ''trigger'' body),
        (''trigger_type'', json_get ''triggerType'' body),
        (''description'', json_get ''description'' body),
        (''steps'', json_get ''steps'' body), (''trigger_match'',
        (nullish (json_get ''triggerMatch'' body) (JObj [])))]),
      c_resp = Playbook\<rparr>"

definition fetchPlaybookVersions :: "string \<Rightarrow> call" where
  "fetchPlaybookVersions ident =
     \<lparr>c_path = ''/soar/playbooks/'' @ ident @ ''/versions'',
      c_method = ''GET'', c_body = None,
      c_resp = (TArray PlaybookVersion)\<rparr>"

definition revertPlaybook :: "string \<Rightarrow> rat \<Rightarrow> call" where
  "revertPlaybook ident version =
     \<lparr>c_path = ''/soar/playbooks/'' @ ident @ ''/revert/'' @ num_str version,
      c_method = ''POST'', c_body = None,
      c_resp = (extends Playbook [req ''revertedTo'' TNumber,
        req ''newVersion'' TNumber])\<rparr>"

definition addCaseEvidence :: "string \<Rightarrow> json \<Rightarrow> call" where
  "addCaseEvidence caseId body =
     \<lparr>c_path = ''/soar/cases/'' @ caseId @ ''/evidence'',
      c_method = ''POST'', c_body = Some body,
      c_resp = Case\<rparr>"

definition exportEvidenceBundle :: "string \<Rightarrow> call" where
  "exportEvidenceBundle caseId =
     \<lparr>c_path = ''/soar/cases/'' @ caseId @ ''/evidence-bundle'',
      c_method = ''GET'', c_body = None,
      c_resp = SignedEvidenceBundle\<rparr>"

definition verifyEvidenceBundle :: "json \<Rightarrow> call" where
  "verifyEvidenceBundle signed =
     \<lparr>c_path = ''/soar/evidence/verify'',
      c_method = ''POST'', c_body = Some signed,
      c_resp = (TObj [req ''valid'' TBool])\<rparr>"

definition linkCase :: "string \<Rightarrow> string \<Rightarrow> string option \<Rightarrow> call" where
  "linkCase caseId otherId relation =
     (let relation = default ''related'' relation
     in \<lparr>c_path = ''/soar/cases/'' @ caseId @ ''/link'',
      c_method = ''POST'', c_body = Some (JObj [(''case_id'', JStr otherId),
        (''relation'', JStr relation)]),
      c_resp = Case\<rparr>)"

definition mergeCase :: "string \<Rightarrow> string \<Rightarrow> call" where
  "mergeCase caseId sourceId =
     \<lparr>c_path = ''/soar/cases/'' @ caseId @ ''/merge'',
      c_method = ''POST'', c_body = Some (JObj [(''source_id'', JStr sourceId)]),
      c_resp = Case\<rparr>"

definition splitCase :: "string \<Rightarrow> string \<Rightarrow> json option \<Rightarrow> call" where
  "splitCase caseId title entities =
     (let entities = default (JArr []) entities
     in \<lparr>c_path = ''/soar/cases/'' @ caseId @ ''/split'',
      c_method = ''POST'', c_body = Some (JObj [(''title'', JStr title),
        (''entities'', entities)]),
      c_resp = Case\<rparr>)"

definition fetchSoarIntegrations :: "call" where
  "fetchSoarIntegrations =
     \<lparr>c_path = ''/soar/integrations'',
      c_method = ''GET'', c_body = None,
      c_resp = (TArray Integration)\<rparr>"

definition createIntegration :: "json \<Rightarrow> call" where
  "createIntegration body =
     \<lparr>c_path = ''/soar/integrations'',
      c_method = ''POST'', c_body = Some body,
      c_resp = (extends Integration [req ''credentialed'' TBool])\<rparr>"

definition testIntegration :: "string \<Rightarrow> call" where
  "testIntegration ident =
     \<lparr>c_path = ''/soar/integrations/'' @ ident @ ''/test'',
      c_method = ''POST'', c_body = None,
      c_resp = Integration\<rparr>"

definition updateIntegration :: "string \<Rightarrow> json \<Rightarrow> call" where
  "updateIntegration ident body =
     \<lparr>c_path = ''/soar/integrations/'' @ ident,
      c_method = ''PATCH'', c_body = Some (JObj [(''base_url'', json_get ''baseUrl'' body),
        (''api_key'', json_get ''apiKey'' body), (''enabled'', json_get ''enabled'' body)]),
      c_resp = (extends Integration [req ''credentialed'' TBool,
        req ''enabled'' TNumber])\<rparr>"

definition runIntegrationAction :: "string \<Rightarrow> string \<Rightarrow> json option \<Rightarrow> call" where
  "runIntegrationAction ident act params =
     \<lparr>c_path = ''/soar/integrations/'' @ ident @ ''/actions/run'',
      c_method = ''POST'', c_body = Some (JObj [(''action'', JStr act), (''params'',
        (nullish (jopt (\<lambda>x. x) params) (JObj [])))]),
      c_resp = (extends Integration [req ''actionsRun'' TNumber,
        req ''result'' IntegrationActionResult])\<rparr>"

definition fetchIntegrationActions :: "string \<Rightarrow> call" where
  "fetchIntegrationActions ident =
     \<lparr>c_path = ''/soar/integrations/'' @ ident @ ''/actions'',
      c_method = ''GET'', c_body = None,
      c_resp = (TArray IntegrationAction)\<rparr>"

definition fetchSoarMetrics :: "call" where
  "fetchSoarMetrics =
     \<lparr>c_path = ''/soar/metrics'',
      c_method = ''GET'', c_body = None,
      c_resp = SoarMetrics\<rparr>"

definition fetchSoarAnalysts :: "call" where
  "fetchSoarAnalysts =
     \<lparr>c_path = ''/soar/analysts'',
      c_method = ''GET'', c_body = None,
      c_resp = (TArray AnalystStat)\<rparr>"

definition fetchActors :: "call" where
  "fetchActors =
     \<lparr>c_path = ''/cti/actors'',
      c_method = ''GET'', c_body = None,
      c_resp = (TArray Actor)\<rparr>"

definition fetchActor :: "string \<Rightarrow> call" where
  "fetchActor ident =
     \<lparr>c_path = ''/cti/actors/'' @ ident,
      c_method = ''GET'', c_body = None,
      c_resp = ActorDetail\<rparr>"

definition fetchIocs :: "((string \<times> string) list) option \<Rightarrow> call" where
  "fetchIocs params =
     \<lparr>c_path = ''/cti/iocs'' @ query_of params,
      c_method = ''GET'', c_body = None,
      c_resp = (TObj [req ''total'' TNumber, req ''items'' (TArray Ioc)])\<rparr>"

definition fetchIocTypes :: "call" where
  "fetchIocTypes =
     \<lparr>c_path = ''/cti/ioc-types'',
      c_method = ''GET'', c_body = None,
      c_resp = (TArray IocType)\<rparr>"

definition fetchCtiSummary :: "call" where
  "fetchCtiSummary =
     \<lparr>c_path = ''/cti/summary'',
      c_method = ''GET'', c_body = None,
      c_resp = CtiSummary\<rparr>"

definition fetchIoc :: "string \<Rightarrow> call" where
  "fetchIoc ident =
     \<lparr>c_path = ''/cti/iocs/'' @ ident,
      c_method = ''GET'', c_body = None,
      c_resp = IocDetail\<rparr>"

definition addIocSighting :: "string \<Rightarrow> string option \<Rightarrow> string option \<Rightarrow> call" where
  "addIocSighting ident source ctx =
     (let source = default ''manual'' source
     in \<lparr>c_path = ''/cti/iocs/'' @ ident @ ''/sighting'',
      c_method = ''POST'', c_body = Some (JObj [(''source'', JStr source),
        (''context'', jopt JStr ctx)]),
      c_resp = IocDetail\<rparr>)"

definition setIocKnownGood :: "string \<Rightarrow> call" where
  "setIocKnownGood ident =
     \<lparr>c_path = ''/cti/iocs/'' @ ident @ ''/known-good'',
      c_method = ''POST'', c_body = None,
      c_resp = (extends Ioc [req ''lifecycle'' IocLifecycle])\<rparr>"

definition removeIocKnownGood :: "string \<Rightarrow> call" where
  "removeIocKnownGood ident =
     \<lparr>c_path = ''/cti/iocs/'' @ ident @ ''/known-good'',
      c_method = ''DELETE'', c_body = None,
      c_resp = (extends Ioc [req ''lifecycle'' IocLifecycle])\<rparr>"

definition runIocDecay :: "call" where
  "runIocDecay =
     \<lparr>c_path = ''/cti/iocs/decay'',
      c_method = ''POST'', c_body = None,
      c_resp = (TObj [req ''scanned'' TNumber, req ''expired'' TNumber,
        req ''reactivated'' TNumber])\<rparr>"

definition enrichIoc :: "string \<Rightarrow> bool option \<Rightarrow> call" where
  "enrichIoc ident refresh =
     (let refresh = default False refresh
     in \<lparr>c_path = ''/cti/iocs/'' @ ident @ ''/enrich'' @ (if refresh then ''?refresh=true'' else []),
      c_method = ''POST'', c_body = None,
      c_resp = EnrichmentResult\<rparr>)"

definition fetchIocFpAssessment :: "string \<Rightarrow> call" where
  "fetchIocFpAssessment ident =
     \<lparr>c_path = ''/cti/iocs/'' @ ident @ ''/fp-assessment'',
      c_method = ''GET'', c_body = None,
      c_resp = FpAssessment\<rparr>"

definition fetchIntelReports :: "string option \<Rightarrow> call" where
  "fetchIntelReports status =
     \<lparr>c_path = ''/cti/reports'' @ (if given status then ''?status='' @ str_of status else []),
      c_method = ''GET'', c_body = None,
      c_resp = (TArray IntelReport)\<rparr>"

definition createIntelReport :: "json \<Rightarrow> call" where
  "createIntelReport body =
     \<lparr>c_path = ''/cti/reports'',
      c_method = ''POST'', c_body = Some body,
      c_resp = IntelReport\<rparr>"

definition updateIntelReport :: "string \<Rightarrow> json \<Rightarrow> call" where
  "updateIntelReport ident body =
     \<lparr>c_path = ''/cti/reports/'' @ ident,
      c_method = ''PATCH'', c_body = Some body,
      c_resp = IntelReport\<rparr>"

definition deleteIntelReport :: "string \<Rightarrow> call" where
  "deleteIntelReport ident =
     \<lparr>c_path = ''/cti/reports/'' @ ident,
      c_method = ''DELETE'', c_body = None,
      c_resp = TVoid\<rparr>"

definition exportIntelReportMisp :: "string \<Rightarrow> call" where
  "exportIntelReportMisp ident =
     \<lparr>c_path = ''/cti/reports/'' @ ident @ ''/misp'',
      c_method = ''GET'', c_body = None,
      c_resp = (TObj [req ''Event'' (TRecord TUnknown)])\<rparr>"

definition exportMispEvent :: "string option \<Rightarrow> call" where
  "exportMispEvent severity =
     \<lparr>c_path = ''/cti/misp/export'' @ (if given severity then ''?severity='' @ str_of severity else []),
      c_method = ''GET'', c_body = None,
      c_resp = (TObj [req ''Event'' (TRecord TUnknown)])\<rparr>"

definition importMispEvent :: "json \<Rightarrow> call" where
  "importMispEvent event =
     \<lparr>c_path = ''/cti/misp/import'',
      c_method = ''POST'', c_body = Some (JObj [(''event'', event)]),
      c_resp = (TObj [req ''imported'' TNumber, req ''duplicates'' TNumber,
        req ''skipped'' TNumber,
    req ''total'' TNumber, req ''tlp'' TString])\<rparr>"

definition attributeActivity :: "json \<Rightarrow> call" where
  "attributeActivity body =
     \<lparr>c_path = ''/cti/attribution'',
      c_method = ''POST'', c_body = Some body,
      c_resp = (TObj [req ''candidates'' (TArray AttributionCandidate)])\<rparr>"

definition attributeCase :: "string \<Rightarrow> call" where
  "attributeCase caseId =
     \<lparr>c_path = ''/cti/attribution/case/'' @ caseId,
      c_method = ''GET'', c_body = None,
      c_resp = (TObj [req ''caseId'' TString,
    req ''observed'' (TObj [req ''techniques'' (TArray TString),
        req ''indicators'' (TArray TString)]),
    req ''candidates'' (TArray AttributionCandidate)])\<rparr>"

definition fetchStixBundle :: "string option \<Rightarrow> call" where
  "fetchStixBundle typ =
     \<lparr>c_path = ''/cti/stix/bundle'' @ (if given typ then ''?type='' @ str_of typ else []),
      c_method = ''GET'', c_body = None,
      c_resp = (TObj [req ''type'' TString, req ''id'' TString,
        req ''objects'' (TArray (TRecord TUnknown))])\<rparr>"

definition lookupIoc :: "string \<Rightarrow> call" where
  "lookupIoc value =
     \<lparr>c_path = ''/cti/lookup?value='' @ encodeURIComponent value,
      c_method = ''GET'', c_body = None,
      c_resp = IocLookup\<rparr>"

definition lookupIocsBulk :: "string list \<Rightarrow> call" where
  "lookupIocsBulk vals =
     \<lparr>c_path = ''/cti/lookup/bulk'',
      c_method = ''POST'', c_body = Some (JObj [(''values'', (JArr (map JStr vals)))]),
      c_resp = (TObj [req ''total'' TNumber, req ''found'' TNumber,
        req ''results'' (TArray BulkLookupRow)])\<rparr>"

definition fetchEnrichers :: "call" where
  "fetchEnrichers =
     \<lparr>c_path = ''/cti/enrichers'',
      c_method = ''GET'', c_body = None,
      c_resp = (TArray EnricherStatus)\<rparr>"

definition fetchScanEnrich :: "string \<Rightarrow> string option \<Rightarrow> bool option \<Rightarrow> call" where
  "fetchScanEnrich value typ refresh =
     (let typ = default '''' typ;
          refresh = default False refresh
     in \<lparr>c_path = ''/cti/scan/enrich?value='' @ encodeURIComponent value @ ''&type='' @ encodeURIComponent typ @ (if refresh then ''&refresh=true'' else []),
      c_method = ''GET'', c_body = None,
      c_resp = ScanEnrichResult\<rparr>)"

definition fetchScanContext :: "string \<Rightarrow> call" where
  "fetchScanContext value =
     \<lparr>c_path = ''/cti/scan/context?value='' @ encodeURIComponent value,
      c_method = ''GET'', c_body = None,
      c_resp = ScanContext\<rparr>"

definition fetchImportHistory :: "call" where
  "fetchImportHistory =
     \<lparr>c_path = ''/cti/import-history'',
      c_method = ''GET'', c_body = None,
      c_resp = (TArray ImportHistoryRow)\<rparr>"

definition importIocs :: "json \<Rightarrow> call" where
  "importIocs body =
     \<lparr>c_path = ''/cti/iocs/import'',
      c_method = ''POST'', c_body = Some body,
      c_resp = ImportResult\<rparr>"

definition recordScan :: "json \<Rightarrow> call" where
  "recordScan body =
     \<lparr>c_path = ''/cti/scans'',
      c_method = ''POST'', c_body = Some body,
      c_resp = ScanEntry\<rparr>"

definition fetchScans :: "rat option \<Rightarrow> call" where
  "fetchScans limit =
     (let limit = default 20 limit
     in \<lparr>c_path = ''/cti/scans?limit='' @ num_str limit,
      c_method = ''GET'', c_body = None,
      c_resp = (TObj [req ''items'' (TArray ScanEntry), req ''scansToday'' TNumber,
        req ''malicious'' TNumber])\<rparr>)"

definition fetchCtiHunts :: "call" where
  "fetchCtiHunts =
     \<lparr>c_path = ''/cti/hunts'',
      c_method = ''GET'', c_body = None,
      c_resp = (TArray SavedHunt)\<rparr>"

definition createCtiHunt :: "json \<Rightarrow> call" where
  "createCtiHunt body =
     \<lparr>c_path = ''/cti/hunts'',
      c_method = ''POST'', c_body = Some body,
      c_resp = SavedHunt\<rparr>"

definition runCtiHunt :: "string \<Rightarrow> call" where
  "runCtiHunt ident =
     \<lparr>c_path = ''/cti/hunts/'' @ ident @ ''/run'',
      c_method = ''POST'', c_body = None,
      c_resp = HuntRunOutcome\<rparr>"

definition fetchCtiGraph :: "string option \<Rightarrow> rat option \<Rightarrow> call" where
  "fetchCtiGraph focus depth =
     (let depth = default 2 depth
     in \<lparr>c_path = ''/cti/graph'' @ (if given focus then ''?focus='' @ encodeURIComponent (str_of focus) @ ''&depth='' @ num_str depth else []),
      c_method = ''GET'', c_body = None,
      c_resp = CtiGraph\<rparr>)"

definition expandGraphNode :: "string \<Rightarrow> call" where
  "expandGraphNode node =
     \<lparr>c_path = ''/cti/graph/expand?node='' @ encodeURIComponent node,
      c_method = ''GET'', c_body = None,
      c_resp = (TObj [req ''node'' (or_null CtiGraphNode),
    req ''neighbours'' (TArray (extends CtiGraphNode [req ''kind'' TString]))])\<rparr>"

definition findGraphPath :: "string \<Rightarrow> string \<Rightarrow> call" where
  "findGraphPath frm dest =
     \<lparr>c_path = ''/cti/graph/path?from='' @ encodeURIComponent frm @ ''&to='' @ encodeURIComponent dest,
      c_method = ''GET'', c_body = None,
      c_resp = GraphPath\<rparr>"

definition fetchAssets :: "((string \<times> string) list) option \<Rightarrow> call" where
  "fetchAssets params =
     \<lparr>c_path = ''/assets'' @ query_of params,
      c_method = ''GET'', c_body = None,
      c_resp = (TObj [req ''total'' TNumber, req ''items'' (TArray Asset)])\<rparr>"

definition fetchAsset :: "string \<Rightarrow> call" where
  "fetchAsset ident =
     \<lparr>c_path = ''/assets/'' @ ident,
      c_method = ''GET'', c_body = None,
      c_resp = AssetDetail\<rparr>"

definition createAsset :: "json \<Rightarrow> call" where
  "createAsset body =
     \<lparr>c_path = ''/assets'',
      c_method = ''POST'', c_body = Some body,
      c_resp = Asset\<rparr>"

definition deleteAsset :: "string \<Rightarrow> call" where
  "deleteAsset ident =
     \<lparr>c_path = ''/assets/'' @ ident,
      c_method = ''DELETE'', c_body = None,
      c_resp = TVoid\<rparr>"

definition fetchRiskDistribution :: "call" where
  "fetchRiskDistribution =
     \<lparr>c_path = ''/assets/risk-distribution'',
      c_method = ''GET'', c_body = None,
      c_resp = RiskDistribution\<rparr>"

definition fetchAssetsSummary :: "call" where
  "fetchAssetsSummary =
     \<lparr>c_path = ''/assets/summary'',
      c_method = ''GET'', c_body = None,
      c_resp = AssetSummary\<rparr>"

definition fetchVulns :: "call" where
  "fetchVulns =
     \<lparr>c_path = ''/assets/vulns'',
      c_method = ''GET'', c_body = None,
      c_resp = (TArray Asset)\<rparr>"

definition fetchVulnSummary :: "call" where
  "fetchVulnSummary =
     \<lparr>c_path = ''/assets/vulns/summary'',
      c_method = ''GET'', c_body = None,
      c_resp = VulnSummary\<rparr>"

definition fetchFleetVulnFindings :: "call" where
  "fetchFleetVulnFindings =
     \<lparr>c_path = ''/assets/vuln-findings'',
      c_method = ''GET'', c_body = None,
      c_resp = (TArray FleetVulnFinding)\<rparr>"

definition recomputeAssetRisk :: "call" where
  "recomputeAssetRisk =
     \<lparr>c_path = ''/assets/recompute-risk'',
      c_method = ''POST'', c_body = None,
      c_resp = (TObj [req ''updated'' TNumber])\<rparr>"

definition scanAssetVulns :: "string \<Rightarrow> call" where
  "scanAssetVulns ident =
     \<lparr>c_path = ''/assets/'' @ ident @ ''/scan'',
      c_method = ''POST'', c_body = None,
      c_resp = ScanResult\<rparr>"

definition scanAllVulns :: "call" where
  "scanAllVulns =
     \<lparr>c_path = ''/assets/scan-all'',
      c_method = ''POST'', c_body = None,
      c_resp = (TObj [req ''assets'' TNumber, req ''findings'' TNumber])\<rparr>"

definition fetchAssetVulns :: "string \<Rightarrow> call" where
  "fetchAssetVulns ident =
     \<lparr>c_path = ''/assets/'' @ ident @ ''/vulns'',
      c_method = ''GET'', c_body = None,
      c_resp = (TArray VulnFinding)\<rparr>"

definition fetchExposure :: "call" where
  "fetchExposure =
     \<lparr>c_path = ''/assets/exposure'',
      c_method = ''GET'', c_body = None,
      c_resp = (TObj [req ''items'' (TArray ExposureItem),
    req ''summary'' (TObj [req ''assets'' TNumber, req ''internetFacing'' TNumber,
      req ''criticalExposure'' TNumber, req ''avgExposure'' TNumber,
      req ''topFactor'' (or_null TString)])])\<rparr>"

definition fetchDiscoveredAssets :: "rat option \<Rightarrow> call" where
  "fetchDiscoveredAssets limit =
     (let limit = default 50 limit
     in \<lparr>c_path = ''/assets/discovered?limit='' @ num_str limit,
      c_method = ''GET'', c_body = None,
      c_resp = (TObj [req ''items'' (TArray DiscoveredAsset)])\<rparr>)"

definition promoteDiscoveredAsset :: "string \<Rightarrow> string option \<Rightarrow> string option \<Rightarrow> call" where
  "promoteDiscoveredAsset hostname criticality typ =
     (let criticality = default ''medium'' criticality;
          typ = default ''endpoint'' typ
     in \<lparr>c_path = ''/assets/discovered/promote'',
      c_method = ''POST'', c_body = Some (JObj [(''hostname'', JStr hostname),
        (''criticality'', JStr criticality), (''type'', JStr typ)]),
      c_resp = Asset\<rparr>)"

definition fetchAssetActivity :: "string \<Rightarrow> call" where
  "fetchAssetActivity ident =
     \<lparr>c_path = ''/assets/'' @ ident @ ''/activity'',
      c_method = ''GET'', c_body = None,
      c_resp = AssetActivity\<rparr>"

definition fetchFeeds :: "call" where
  "fetchFeeds =
     \<lparr>c_path = ''/feeds'',
      c_method = ''GET'', c_body = None,
      c_resp = (TArray Feed)\<rparr>"

definition createFeed :: "json \<Rightarrow> call" where
  "createFeed body =
     \<lparr>c_path = ''/feeds'',
      c_method = ''POST'', c_body = Some (JObj ([(''name'', json_get ''name'' body),
        (''provider'', json_get ''provider'' body), (''type'', json_get ''type'' body),
        (''url'', json_get ''url'' body), (''format'', json_get ''format'' body),
        (''reliability'',
        json_get ''reliability'' body)] @ (if json_get ''syncInterval'' body \<noteq> JUndef then [(''sync_interval'', json_get ''syncInterval'' body)] else []))),
      c_resp = Feed\<rparr>"

definition fetchFeedsSummary :: "call" where
  "fetchFeedsSummary =
     \<lparr>c_path = ''/feeds/summary'',
      c_method = ''GET'', c_body = None,
      c_resp = FeedsSummary\<rparr>"

definition toggleFeed :: "string \<Rightarrow> bool \<Rightarrow> call" where
  "toggleFeed ident enabled =
     \<lparr>c_path = ''/feeds/'' @ ident,
      c_method = ''PATCH'', c_body = Some (JObj [(''enabled'', JBool enabled)]),
      c_resp = Feed\<rparr>"

definition fetchSettings :: "call" where
  "fetchSettings =
     \<lparr>c_path = ''/config/settings'',
      c_method = ''GET'', c_body = None,
      c_resp = (TRecord TString)\<rparr>"

definition updateSettings :: "(string \<times> string) list \<Rightarrow> call" where
  "updateSettings vals =
     \<lparr>c_path = ''/config/settings'',
      c_method = ''PUT'', c_body = Some (JObj [(''values'', (jrec vals))]),
      c_resp = (TRecord TString)\<rparr>"

definition fetchApiKeys :: "call" where
  "fetchApiKeys =
     \<lparr>c_path = ''/config/api-keys'',
      c_method = ''GET'', c_body = None,
      c_resp = (TArray ApiKey)\<rparr>"

definition createApiKey :: "string \<Rightarrow> string option \<Rightarrow> string option \<Rightarrow> call" where
  "createApiKey name scope orgId =
     (let scope = default ''read'' scope
     in \<lparr>c_path = ''/config/api-keys'',
      c_method = ''POST'', c_body = Some (JObj ([(''name'', JStr name),
        (''scope'', JStr scope)] @ (if given orgId then [(''orgId'', jopt JStr orgId)] else []))),
      c_resp = (extends ApiKey [req ''secret'' TString])\<rparr>)"

definition revokeApiKey :: "string \<Rightarrow> call" where
  "revokeApiKey ident =
     \<lparr>c_path = ''/config/api-keys/'' @ ident,
      c_method = ''DELETE'', c_body = None,
      c_resp = TVoid\<rparr>"

definition fetchEnrichmentProviders :: "call" where
  "fetchEnrichmentProviders =
     \<lparr>c_path = ''/config/enrichment'',
      c_method = ''GET'', c_body = None,
      c_resp = (TArray EnrichmentProvider)\<rparr>"

definition setEnrichmentProviderKey :: "string \<Rightarrow> string \<Rightarrow> call" where
  "setEnrichmentProviderKey provider apiKey =
     \<lparr>c_path = ''/config/enrichment/'' @ provider,
      c_method = ''PUT'', c_body = Some (JObj [(''api_key'', JStr apiKey)]),
      c_resp = (TObj [req ''provider'' TString, req ''configured'' TBool,
        req ''source'' TString])\<rparr>"

definition fetchWebhooks :: "call" where
  "fetchWebhooks =
     \<lparr>c_path = ''/config/webhooks'',
      c_method = ''GET'', c_body = None,
      c_resp = (TArray Webhook)\<rparr>"

definition createWebhook :: "string \<Rightarrow> string list \<Rightarrow> call" where
  "createWebhook url events =
     \<lparr>c_path = ''/config/webhooks'',
      c_method = ''POST'', c_body = Some (JObj [(''url'', JStr url), (''events'',
        (JArr (map JStr events)))]),
      c_resp = Webhook\<rparr>"

definition patchWebhook :: "string \<Rightarrow> json \<Rightarrow> call" where
  "patchWebhook ident body =
     \<lparr>c_path = ''/config/webhooks/'' @ ident,
      c_method = ''PATCH'', c_body = Some body,
      c_resp = Webhook\<rparr>"

definition rotateWebhookSecret :: "string \<Rightarrow> call" where
  "rotateWebhookSecret ident =
     \<lparr>c_path = ''/config/webhooks/'' @ ident @ ''/rotate-secret'',
      c_method = ''POST'', c_body = None,
      c_resp = (TObj [req ''id'' TString, req ''secret'' TString])\<rparr>"

definition deleteWebhook :: "string \<Rightarrow> call" where
  "deleteWebhook ident =
     \<lparr>c_path = ''/config/webhooks/'' @ ident,
      c_method = ''DELETE'', c_body = None,
      c_resp = TVoid\<rparr>"

definition testWebhook :: "string \<Rightarrow> call" where
  "testWebhook ident =
     \<lparr>c_path = ''/config/webhooks/'' @ ident @ ''/test'',
      c_method = ''POST'', c_body = None,
      c_resp = (TObj [req ''ok'' TBool, req ''status'' TString,
        req ''lastDelivery'' (or_null TString)])\<rparr>"

definition fetchJobs :: "rat option \<Rightarrow> call" where
  "fetchJobs limit =
     (let limit = default 25 limit
     in \<lparr>c_path = ''/config/jobs?limit='' @ num_str limit,
      c_method = ''GET'', c_body = None,
      c_resp = (TArray JobEntry)\<rparr>)"

definition fetchReportKinds :: "call" where
  "fetchReportKinds =
     \<lparr>c_path = ''/reports/kinds'',
      c_method = ''GET'', c_body = None,
      c_resp = (TArray (TObj [req ''kind'' TString, req ''label'' TString]))\<rparr>"

definition fetchIncidentReport :: "string \<Rightarrow> string option \<Rightarrow> call" where
  "fetchIncidentReport caseId audience =
     (let audience = default ''technical'' audience
     in \<lparr>c_path = ''/reports/incident?case_id='' @ encodeURIComponent caseId @ ''&audience='' @ audience,
      c_method = ''GET'', c_body = None,
      c_resp = ReportData\<rparr>)"

definition fetchCaseRelated :: "string \<Rightarrow> call" where
  "fetchCaseRelated caseId =
     \<lparr>c_path = ''/soar/cases/'' @ caseId @ ''/related'',
      c_method = ''GET'', c_body = None,
      c_resp = CaseRelated\<rparr>"

definition fetchDarkWebFindings :: "((string \<times> string) list) option \<Rightarrow> call" where
  "fetchDarkWebFindings params =
     \<lparr>c_path = ''/darkweb/findings'' @ query_of params,
      c_method = ''GET'', c_body = None,
      c_resp = (TObj [req ''total'' TNumber, req ''items'' (TArray DarkWebFinding)])\<rparr>"

definition fetchDarkWebSummary :: "call" where
  "fetchDarkWebSummary =
     \<lparr>c_path = ''/darkweb/summary'',
      c_method = ''GET'', c_body = None,
      c_resp = DarkWebSummary\<rparr>"

definition updateDarkWebFinding :: "string \<Rightarrow> string \<Rightarrow> call" where
  "updateDarkWebFinding ident status =
     \<lparr>c_path = ''/darkweb/findings/'' @ ident,
      c_method = ''PATCH'', c_body = Some (JObj [(''status'', JStr status)]),
      c_resp = DarkWebFinding\<rparr>"

definition requestTakedown :: "string \<Rightarrow> call" where
  "requestTakedown ident =
     \<lparr>c_path = ''/darkweb/findings/'' @ ident @ ''/takedown'',
      c_method = ''POST'', c_body = None,
      c_resp = DarkWebFinding\<rparr>"

definition matchCredentialLeaks :: "call" where
  "matchCredentialLeaks =
     \<lparr>c_path = ''/darkweb/match-credentials'',
      c_method = ''POST'', c_body = None,
      c_resp = (TObj [req ''scanned'' TNumber, req ''matched'' TNumber])\<rparr>"

definition fetchLicense :: "call" where
  "fetchLicense =
     \<lparr>c_path = ''/config/license'',
      c_method = ''GET'', c_body = None,
      c_resp = LicenseStatus\<rparr>"

definition activateLicense :: "string \<Rightarrow> call" where
  "activateLicense key =
     \<lparr>c_path = ''/config/license/activate'',
      c_method = ''POST'', c_body = Some (JObj [(''key'', JStr key)]),
      c_resp = (TObj [req ''activated'' TBool, req ''plan'' TString])\<rparr>"

definition clearLicense :: "call" where
  "clearLicense =
     \<lparr>c_path = ''/config/license'',
      c_method = ''DELETE'', c_body = None,
      c_resp = TVoid\<rparr>"

definition fetchBillingStatus :: "call" where
  "fetchBillingStatus =
     \<lparr>c_path = ''/billing/status'',
      c_method = ''GET'', c_body = None,
      c_resp = BillingStatus\<rparr>"

definition startCheckout :: "string \<Rightarrow> call" where
  "startCheckout plan =
     \<lparr>c_path = ''/billing/checkout'',
      c_method = ''POST'', c_body = Some (JObj [(''plan'', JStr plan)]),
      c_resp = (TObj [req ''url'' TString])\<rparr>"

definition openBillingPortal :: "call" where
  "openBillingPortal =
     \<lparr>c_path = ''/billing/portal'',
      c_method = ''POST'', c_body = None,
      c_resp = (TObj [req ''url'' TString])\<rparr>"

definition fetchDatabaseInfo :: "call" where
  "fetchDatabaseInfo =
     \<lparr>c_path = ''/config/database'',
      c_method = ''GET'', c_body = None,
      c_resp = DatabaseInfo\<rparr>"

definition fetchEmailStatus :: "call" where
  "fetchEmailStatus =
     \<lparr>c_path = ''/config/email'',
      c_method = ''GET'', c_body = None,
      c_resp = EmailStatus\<rparr>"

definition sendTestEmail :: "string \<Rightarrow> call" where
  "sendTestEmail dest =
     \<lparr>c_path = ''/config/email/test'',
      c_method = ''POST'', c_body = Some (JObj [(''to'', JStr dest)]),
      c_resp = (TObj [req ''sent'' TBool, opt ''reason'' TString,
        opt ''recipients'' (TArray TString)])\<rparr>"

definition fetchOnboarding :: "call" where
  "fetchOnboarding =
     \<lparr>c_path = ''/config/onboarding'',
      c_method = ''GET'', c_body = None,
      c_resp = OnboardingStatus\<rparr>"

definition dismissOnboarding :: "call" where
  "dismissOnboarding =
     \<lparr>c_path = ''/config/onboarding/dismiss'',
      c_method = ''POST'', c_body = None,
      c_resp = (TObj [req ''dismissed'' TBool])\<rparr>"

definition fetchEngineStatus :: "call" where
  "fetchEngineStatus =
     \<lparr>c_path = ''/config/engine'',
      c_method = ''GET'', c_body = None,
      c_resp = EngineStatus\<rparr>"

definition fetchSelfHealth :: "call" where
  "fetchSelfHealth =
     \<lparr>c_path = ''/self-health'',
      c_method = ''GET'', c_body = None,
      c_resp = SelfHealth\<rparr>"

definition fetchAbout :: "call" where
  "fetchAbout =
     \<lparr>c_path = ''/about'',
      c_method = ''GET'', c_body = None,
      c_resp = AboutInfo\<rparr>"

definition controlEngine :: "json \<Rightarrow> call" where
  "controlEngine body =
     \<lparr>c_path = ''/config/engine'',
      c_method = ''POST'', c_body = Some body,
      c_resp = (TObj [opt ''enabled'' TBool, opt ''generated'' (TRecord TNumber)])\<rparr>"

definition fetchConnectors :: "call" where
  "fetchConnectors =
     \<lparr>c_path = ''/connectors'',
      c_method = ''GET'', c_body = None,
      c_resp = (TArray Connector)\<rparr>"

definition fetchConnectorKinds :: "call" where
  "fetchConnectorKinds =
     \<lparr>c_path = ''/connectors/kinds'',
      c_method = ''GET'', c_body = None,
      c_resp = (TArray ConnectorKind)\<rparr>"

definition createConnector :: "json \<Rightarrow> call" where
  "createConnector body =
     \<lparr>c_path = ''/connectors'',
      c_method = ''POST'', c_body = Some body,
      c_resp = Connector\<rparr>"

definition patchConnector :: "string \<Rightarrow> json \<Rightarrow> call" where
  "patchConnector ident body =
     \<lparr>c_path = ''/connectors/'' @ ident,
      c_method = ''PATCH'', c_body = Some body,
      c_resp = Connector\<rparr>"

definition deleteConnector :: "string \<Rightarrow> call" where
  "deleteConnector ident =
     \<lparr>c_path = ''/connectors/'' @ ident,
      c_method = ''DELETE'', c_body = None,
      c_resp = TVoid\<rparr>"

definition runConnector :: "string \<Rightarrow> call" where
  "runConnector ident =
     \<lparr>c_path = ''/connectors/'' @ ident @ ''/run'',
      c_method = ''POST'', c_body = None,
      c_resp = ConnectorRunResult\<rparr>"

definition resetConnectorState :: "string \<Rightarrow> call" where
  "resetConnectorState ident =
     \<lparr>c_path = ''/connectors/'' @ ident @ ''/reset-state'',
      c_method = ''POST'', c_body = None,
      c_resp = (TObj [req ''cleared'' TNumber, req ''connector'' Connector])\<rparr>"

definition fetchConnectorWorks :: "rat option \<Rightarrow> call" where
  "fetchConnectorWorks limit =
     (let limit = default 20 limit
     in \<lparr>c_path = ''/connectors/works?limit='' @ num_str limit,
      c_method = ''GET'', c_body = None,
      c_resp = (TArray ConnectorWork)\<rparr>)"

definition fetchServicesStatus :: "call" where
  "fetchServicesStatus =
     \<lparr>c_path = ''/services/status'',
      c_method = ''GET'', c_body = None,
      c_resp = ServicesStatus\<rparr>"

definition fetchThreatSourceHealth :: "call" where
  "fetchThreatSourceHealth =
     \<lparr>c_path = ''/services/threat/source-health'',
      c_method = ''GET'', c_body = None,
      c_resp = (TObj [req ''available'' TBool,
    req ''sources'' (TUnion [(TArray SourceHealthEntry), (TRecord TUnknown)])])\<rparr>"

definition triggerThreatFetch :: "call" where
  "triggerThreatFetch =
     \<lparr>c_path = ''/services/threat/fetch'',
      c_method = ''POST'', c_body = None,
      c_resp = (TObj [opt ''jobId'' TString, opt ''job_id'' TString,
        opt ''status'' TString])\<rparr>"

definition syncThreatIocs :: "call" where
  "syncThreatIocs =
     \<lparr>c_path = ''/services/threat/sync-iocs'',
      c_method = ''POST'', c_body = None,
      c_resp = ImportResult\<rparr>"

definition fetchOpenCtiStatus :: "call" where
  "fetchOpenCtiStatus =
     \<lparr>c_path = ''/services/threat/opencti-status'',
      c_method = ''GET'', c_body = None,
      c_resp = (TObj [req ''available'' TBool, opt ''connected'' TBool])\<rparr>"

definition fetchUsers :: "call" where
  "fetchUsers =
     \<lparr>c_path = ''/users'',
      c_method = ''GET'', c_body = None,
      c_resp = (TArray User)\<rparr>"

definition createUser :: "json \<Rightarrow> call" where
  "createUser body =
     \<lparr>c_path = ''/users'',
      c_method = ''POST'', c_body = Some body,
      c_resp = User\<rparr>"

definition patchUser :: "string \<Rightarrow> json \<Rightarrow> call" where
  "patchUser ident body =
     \<lparr>c_path = ''/users/'' @ ident,
      c_method = ''PATCH'', c_body = Some (JObj ([(''name'', json_get ''name'' body),
        (''role'', json_get ''role'' body),
        (''status'', json_get ''status'' body)] @ (if json_get ''mfaEnabled'' body \<noteq> JUndef then [(''mfa_enabled'', json_get ''mfaEnabled'' body)] else []))),
      c_resp = User\<rparr>"

definition deleteUser :: "string \<Rightarrow> call" where
  "deleteUser ident =
     \<lparr>c_path = ''/users/'' @ ident,
      c_method = ''DELETE'', c_body = None,
      c_resp = TVoid\<rparr>"

definition fetchRoles :: "call" where
  "fetchRoles =
     \<lparr>c_path = ''/roles'',
      c_method = ''GET'', c_body = None,
      c_resp = RolesResponse\<rparr>"

definition createRole :: "json \<Rightarrow> call" where
  "createRole body =
     \<lparr>c_path = ''/roles'',
      c_method = ''POST'', c_body = Some body,
      c_resp = RoleDef\<rparr>"

definition updateRole :: "string \<Rightarrow> json \<Rightarrow> call" where
  "updateRole ident body =
     \<lparr>c_path = ''/roles/'' @ ident,
      c_method = ''PATCH'', c_body = Some body,
      c_resp = RoleDef\<rparr>"

definition deleteRole :: "string \<Rightarrow> call" where
  "deleteRole ident =
     \<lparr>c_path = ''/roles/'' @ ident,
      c_method = ''DELETE'', c_body = None,
      c_resp = TVoid\<rparr>"

definition resetUserPassword :: "string \<Rightarrow> string option \<Rightarrow> call" where
  "resetUserPassword ident newPassword =
     \<lparr>c_path = ''/users/'' @ ident @ ''/reset-password'',
      c_method = ''POST'', c_body = Some (if given newPassword then (JObj [(''new_password'',
        jopt JStr newPassword)]) else (JObj [])),
      c_resp = (TObj [req ''ok'' TBool, req ''temporary_password'' (or_null TString)])\<rparr>"

definition fetchAssistantStatus :: "call" where
  "fetchAssistantStatus =
     \<lparr>c_path = ''/assistant/status'',
      c_method = ''GET'', c_body = None,
      c_resp = AssistantStatus\<rparr>"

definition sendAssistantChat :: "string \<Rightarrow> json \<Rightarrow> call" where
  "sendAssistantChat message history =
     \<lparr>c_path = ''/assistant/chat'',
      c_method = ''POST'', c_body = Some (JObj [(''message'', JStr message),
        (''history'', history)]),
      c_resp = AssistantReply\<rparr>"

end
