(* ===== verification/ApiClient.thy ===== *)
theory ApiClient
  imports ApiEndpoints
begin

text \<open>
  The rest of \<open>frontend/lib/api.ts\<close>: the endpoint functions that do more than one call
  (a stored token, a converted field, a query built step by step, a download, an upload),
  and what the client as a whole promises: which property names a caller can read from an
  answer, that every failure carries a message, that the token is sent exactly when there
  is one, and that a query string reads back as the parameters it was made from.
\<close>

subsection \<open>Login links\<close>

definition ssoLoginUrl :: "string \<Rightarrow> string" where
  "ssoLoginUrl base = base @ ''/auth/sso/login''"

definition samlLoginUrl :: "string \<Rightarrow> string" where
  "samlLoginUrl base = base @ ''/auth/saml/login''"

subsection \<open>Changing the password keeps the session\<close>

definition authChangePassword_call :: "string \<Rightarrow> string \<Rightarrow> call" where
  "authChangePassword_call currentPassword newPassword =
     \<lparr>c_path = ''/auth/change-password'', c_method = ''POST'',
      c_body = Some (JObj [(''current_password'', JStr currentPassword),
                           (''new_password'', JStr newPassword)]),
      c_resp = TObj [req ''ok'' TBool, opt ''token'' TString]\<rparr>"

text \<open>The \<open>then\<close> of the call: a fresh token replaces the stored one. Reading a property of
  \<open>undefined\<close> or \<open>null\<close> throws.\<close>

definition authChangePassword_then :: "json \<Rightarrow> storage \<Rightarrow> (exn + json) \<times> storage" where
  "authChangePassword_then r ls =
     (if r = JUndef \<or> r = JNull then (Inl TypeErr, ls)
      else (Inr r, if truthy (json_get ''token'' r)
                   then obj_set TOKEN_KEY (js_string (json_get ''token'' r)) ls else ls))"

definition authChangePassword ::
  "(request \<Rightarrow> fetch_result) \<Rightarrow> string \<Rightarrow> string \<Rightarrow> string \<Rightarrow> storage \<Rightarrow> (exn + json) \<times> storage" where
  "authChangePassword fetch base currentPassword newPassword ls =
     (case api fetch base (obj_get ls TOKEN_KEY) (authChangePassword_call currentPassword newPassword) of
        Inl e \<Rightarrow> (Inl e, ls)
      | Inr r \<Rightarrow> authChangePassword_then r ls)"

subsection \<open>Queries\<close>

text \<open>\<open>String(v)\<close> of the values a filter object holds; undefined entries are left out.\<close>

definition params_query :: "(string \<times> json) list option \<Rightarrow> string" where
  "params_query params =
     (case params of None \<Rightarrow> []
      | Some ps \<Rightarrow> ''?'' @ search_params
          (map (\<lambda>(k, v). (k, js_string v)) (filter (\<lambda>(k, v). v \<noteq> JUndef) ps)))"

definition fetchFpTriage :: "(string \<times> json) list option \<Rightarrow> call" where
  "fetchFpTriage params =
     \<lparr>c_path = ''/siem/alerts/fp-triage'' @ params_query params, c_method = ''GET'', c_body = None,
      c_resp = TObj [req ''total'' TNumber, req ''workingSetSize'' TNumber,
                     req ''items'' (TArray FpTriageAlert)]\<rparr>"

definition audit_params :: "rat option \<Rightarrow> string option \<Rightarrow> (string \<times> string) list" where
  "audit_params limit act =
     [(''limit'', num_str (default 100 limit))] @
     (if given act then [(''action'', str_of act)] else [])"

definition fetchAuditLog :: "rat option \<Rightarrow> string option \<Rightarrow> call" where
  "fetchAuditLog limit act =
     \<lparr>c_path = ''/config/audit-log?'' @ search_params (audit_params limit act),
      c_method = ''GET'', c_body = None, c_resp = TArray AuditEntry\<rparr>"

text \<open>\<open>q.set(k, v)\<close> on a query without the key appends it.\<close>

definition set_given :: "string \<Rightarrow> string option \<Rightarrow> (string, string) obj \<Rightarrow> (string, string) obj" where
  "set_given k v q = (if given v then obj_set k (str_of v) q else q)"

definition report_params ::
  "string \<Rightarrow> string option \<Rightarrow> string option \<Rightarrow> string option \<Rightarrow> (string, string) obj" where
  "report_params period frm to audience =
     set_given ''to'' to (set_given ''from'' frm
       [(''period'', period), (''audience'', default ''technical'' audience)])"

definition fetchReport ::
  "string \<Rightarrow> string \<Rightarrow> string option \<Rightarrow> string option \<Rightarrow> string option \<Rightarrow> call" where
  "fetchReport kind period frm to audience =
     \<lparr>c_path = ''/reports/'' @ kind @ ''?'' @ search_params (report_params period frm to audience),
      c_method = ''GET'', c_body = None, c_resp = ReportData\<rparr>"

subsection \<open>Playbooks\<close>

text \<open>The fraction of the API, a number or null, becomes a percentage with one decimal.\<close>

definition percent1 :: "rat \<Rightarrow> rat" where
  "percent1 x = js_div (of_int (js_round (js_mul x 1000))) 10"

definition playbook_percent :: "(string, json) obj \<Rightarrow> json" where
  "playbook_percent p = JObj (obj_set ''successRate''
     (JNum (percent1 (case nullish (json_get ''successRate'' (JObj p)) (JNum 0) of JNum x \<Rightarrow> x | _ \<Rightarrow> 0))) p)"

definition fetchPlaybooks_call :: call where
  "fetchPlaybooks_call = \<lparr>c_path = ''/soar/playbooks'', c_method = ''GET'', c_body = None,
     c_resp = TArray Playbook\<rparr>"

definition fetchPlaybooks :: "(string, json) obj list \<Rightarrow> json list" where
  "fetchPlaybooks rows = map playbook_percent rows"

definition runPlaybook :: "string \<Rightarrow> string option option \<Rightarrow> call" where
  "runPlaybook ident opts =
     (let alertId = (case opts of None \<Rightarrow> None | Some a \<Rightarrow> a) in
      \<lparr>c_path = ''/soar/playbooks/'' @ ident @ ''/run'', c_method = ''POST'',
       c_body = (if given alertId then Some (JObj [(''alert_id'', JStr (str_of alertId))]) else None),
       c_resp = inter Playbook (TObj [req ''run'' PlaybookRun])\<rparr>)"

subsection \<open>Downloads and uploads\<close>

record report_opts =
  ro_format :: string
  ro_period :: "string option"
  ro_audience :: "string option"
  ro_from :: "string option"
  ro_to :: "string option"
  ro_caseId :: "string option"

definition auth_header :: "string option \<Rightarrow> (string \<times> string) list" where
  "auth_header tok = (if given tok then [(''Authorization'', ''Bearer '' @ str_of tok)] else [])"

definition download_params :: "report_opts \<Rightarrow> (string, string) obj" where
  "download_params ro =
     set_given ''to'' (ro_to ro) (set_given ''from'' (ro_from ro)
       (let q = [(''format'', ro_format ro), (''audience'', default ''technical'' (ro_audience ro))] in
        if given (ro_caseId ro) then obj_set ''case_id'' (str_of (ro_caseId ro)) q
        else obj_set ''period'' (default ''weekly'' (ro_period ro)) q))"

definition download_path :: "string \<Rightarrow> report_opts \<Rightarrow> string" where
  "download_path kind ro = (if given (ro_caseId ro) then ''incident'' else kind)"

definition download_request :: "string \<Rightarrow> string option \<Rightarrow> string \<Rightarrow> report_opts \<Rightarrow> request" where
  "download_request base tok kind ro =
     \<lparr>r_url = base @ ''/reports/'' @ download_path kind ro @ ''?'' @ search_params (download_params ro),
      r_method = ''GET'', r_headers = auth_header tok, r_body = None\<rparr>"

definition download_name :: "string \<Rightarrow> report_opts \<Rightarrow> string" where
  "download_name kind ro =
     ''threatorbit-'' @ download_path kind ro @ ''-'' @ default ''technical'' (ro_audience ro) @ ''-'' @
     default ''report'' (ro_period ro) @ ''.'' @
     (if ro_format ro = ''markdown'' then ''md'' else ro_format ro)"

text \<open>The name the browser saves the file under; on the server nothing happens.\<close>

definition downloadReport ::
  "(request \<Rightarrow> fetch_result) \<Rightarrow> string \<Rightarrow> bool \<Rightarrow> storage \<Rightarrow> string \<Rightarrow> report_opts \<Rightarrow> exn + string option" where
  "downloadReport fetch base in_browser ls kind ro =
     (if \<not> in_browser then Inr None
      else case fetch (download_request base (obj_get ls TOKEN_KEY) kind ro) of
        FetchFail \<Rightarrow> Inl NetworkError
      | Resp st body \<Rightarrow>
          if \<not> resp_ok st then Inl (JsError (''report download failed: '' @ int_str st))
          else Inr (Some (download_name kind ro)))"

text \<open>The log upload sends a form, so the request has no JSON body of its own.\<close>

record upload =
  u_url :: string
  u_headers :: "(string \<times> string) list"
  u_form :: "(string \<times> string) list"

definition analyse_upload :: "string \<Rightarrow> string option \<Rightarrow> string \<Rightarrow> string option \<Rightarrow> upload" where
  "analyse_upload base tok file logFormat =
     \<lparr>u_url = base @ ''/services/logs/analyse'', u_headers = auth_header tok,
      u_form = [(''file'', file), (''log_format'', default ''generic'' logFormat)]\<rparr>"

definition analyse_error :: "int \<Rightarrow> json option \<Rightarrow> string" where
  "analyse_error st body =
     (case body of
        None \<Rightarrow> http_msg st
      | Some JNull \<Rightarrow> http_msg st
      | Some j \<Rightarrow> js_string (nullish (json_get ''detail'' j)
                               (nullish (json_get ''error'' j) (JStr (http_msg st)))))"

definition analyseLogFile ::
  "(upload \<Rightarrow> fetch_result) \<Rightarrow> string \<Rightarrow> string option \<Rightarrow> string \<Rightarrow> string option \<Rightarrow> exn + json" where
  "analyseLogFile send base tok file logFormat =
     (case send (analyse_upload base tok file logFormat) of
        FetchFail \<Rightarrow> Inl NetworkError
      | Resp st body \<Rightarrow>
          if \<not> resp_ok st then Inl (JsError (analyse_error st body))
          else case body of None \<Rightarrow> Inl ParseError | Some j \<Rightarrow> Inr (toCamel j))"

subsection \<open>What an answer can contain\<close>

text \<open>The exact outcome of a call, by the answer of the server.\<close>

lemma api_cases:
  "api fetch base tok c =
     (case fetch (api_request base tok c) of
        FetchFail \<Rightarrow> Inl NetworkError
      | Resp st body \<Rightarrow>
          if \<not> resp_ok st then Inl (ApiError (error_message st body) st)
          else if st = 204 then Inr JUndef
          else (case body of None \<Rightarrow> Inl ParseError | Some j \<Rightarrow> Inr (toCamel j)))"
  by (simp add: api_def api_answer_def)

lemma api_keys_stable: "api fetch base tok c = Inr v \<Longrightarrow> keys_stable v"
  by (auto simp: api_cases keys_stable_toCamel split: fetch_result.splits if_splits option.splits)

lemma unstable_unreadable:
  assumes "api fetch base tok c = Inr v" and "\<not> camel_stable k"
  shows "json_get k v = JUndef"
  using json_get_stable [OF api_keys_stable [OF assms(1)] assms(2)] .

text \<open>C1: a call of the client answers with data only for a 2xx status; every other status
  is an \<open>ApiError\<close> with that status and a message that is not empty, whatever the body of
  the answer is, and a failure of the network is never taken for a refusal.\<close>

theorem api_outcome:
  "case api fetch base tok c of
     Inr v \<Rightarrow> \<exists>st body. fetch (api_request base tok c) = Resp st body \<and> resp_ok st \<and>
               (if st = 204 then v = JUndef else \<exists>j. body = Some j \<and> v = toCamel j)
   | Inl (ApiError m st) \<Rightarrow> m \<noteq> [] \<and> \<not> resp_ok st \<and>
               (\<exists>body. fetch (api_request base tok c) = Resp st body)
   | Inl NetworkError \<Rightarrow> fetch (api_request base tok c) = FetchFail
   | Inl ParseError \<Rightarrow> \<exists>st. fetch (api_request base tok c) = Resp st None \<and> resp_ok st
   | Inl e \<Rightarrow> False"
  by (auto simp: api_cases error_message_nonempty split: fetch_result.split option.split)

text \<open>No name the data types of the client declare is one the case mapping destroys; whether the server
  sends a name the mapping turns into it is another matter (it sends \<open>hits_24h\<close>).\<close>

lemma client_fields_stable: "list_all (\<lambda>(n, t). list_all (\<lambda>k. sc2cc k = k) (ts_fields t)) client_types"
proof -
  have "list_all (\<lambda>(n, t). list_all camel_stable (ts_fields t)) client_types" by code_simp
  then show ?thesis by (auto simp: list_all_iff sc2cc_eq_camel camel_stable_id)
qed

text \<open>C13: what a caller reads under a name in the answer to a call: the value the server sent last under a
  name that becomes it when each underscore before a lower-case letter is dropped and that letter
  raised (\<open>camel\<close>), with the names inside it mapped too; nothing when there is no such name.
  At no depth of the answer is a name left with an underscore before a lower-case letter, so a
  field declared with one is never there.\<close>

theorem answer_fields_read:
  assumes "api fetch base tok c = Inr v"
  shows "keys_stable v
    \<and> (\<forall>st ms. fetch (api_request base tok c) = Resp st (Some (JObj ms)) \<and> st \<noteq> 204 \<longrightarrow>
         json_get k v = (case find (\<lambda>(n, u). camel n = k) (rev ms) of Some (n, u) \<Rightarrow> toCamel u | None \<Rightarrow> JUndef))
    \<and> (\<not> camel_stable k \<longrightarrow> json_get k v = JUndef)"
proof -
  have "json_get k v = (case find (\<lambda>(n, u). camel n = k) (rev ms) of Some (n, u) \<Rightarrow> toCamel u | None \<Rightarrow> JUndef)"
    if "fetch (api_request base tok c) = Resp st (Some (JObj ms))" "st \<noteq> 204" for st ms
  proof -
    have v: "v = toCamel (JObj ms)" using assms that by (auto simp: api_cases split: if_splits)
    have look: "map_of (map (\<lambda>(n, u). (camel n, toCamel u)) ns) k
        = map_option (\<lambda>(n, u). toCamel u) (find (\<lambda>(n, u). camel n = k) ns)" for ns
      by (induction ns) auto
    have "obj_get (from_entries (map (\<lambda>(n, u). (camel n, toCamel u)) ms)) k = map_option (\<lambda>(n, u). toCamel u) (find (\<lambda>(n, u). camel n = k) (rev ms))"
      unfolding from_entries_def obj_get_spread rev_map look by (simp add: obj_get_def split: option.split)
    then show ?thesis by (auto simp: v sc2cc_eq_camel split: option.split)
  qed
  with api_keys_stable [OF assms] unstable_unreadable [OF assms, of k] show ?thesis by blast
qed

theorem answer_fields_read_witness:
  "let j = JObj [(''risk_score'', JNum 7), (''hits_24h'', JNum 3)]
   in api (\<lambda>_. Resp 200 (Some j)) [] None fetchStoreSummary = Inr (toCamel j)
      \<and> json_get ''riskScore'' (toCamel j) = JNum 7 \<and> json_get ''hits24h'' (toCamel j) = JUndef"
proof -
  let ?j = "JObj [(''risk_score'', JNum 7), (''hits_24h'', JNum 3)]"
  let ?f = "\<lambda>_ :: request. Resp 200 (Some ?j)"
  have run: "api ?f [] None fetchStoreSummary = Inr (toCamel ?j)" by (simp add: api_cases resp_ok_def)
  have c: "camel ''risk_score'' = ''riskScore''" "camel ''hits_24h'' = ''hits_24h''" by code_simp+
  from answer_fields_read [OF run, of "''riskScore''"] have "json_get ''riskScore'' (toCamel ?j) = JNum 7" by (simp add: c del: toCamel.simps(1,2) camel.simps)
  moreover from answer_fields_read [OF run, of "''hits24h''"] have "json_get ''hits24h'' (toCamel ?j) = JUndef" by (simp add: c del: toCamel.simps(1,2) camel.simps)
  ultimately show ?thesis using run by (simp add: Let_def del: toCamel.simps)
qed

text \<open>The temporary password of \<open>resetUserPassword\<close> is typed in snake case, a name no
  answer of \<open>api\<close> can have: the caller reads \<open>undefined\<close> and no answer has the declared
  type.\<close>

theorem reset_password_unreadable:
  assumes "api fetch base tok (resetUserPassword ident pw) = Inr v"
  shows "json_get ''temporary_password'' v = JUndef \<and> \<not> conforms (c_resp (resetUserPassword ident pw)) v"
proof -
  have "\<not> camel_stable ''temporary_password''" by code_simp
  then have "json_get ''temporary_password'' v = JUndef" by (rule unstable_unreadable [OF assms])
  then show ?thesis by (cases v) (auto simp: resetUserPassword_def)
qed

theorem reset_password_unreadable_witness:
  "let v = JObj [(''ok'', JBool True), (''temporaryPassword'', JStr ''s3cret'')] in
   api (\<lambda>_. Resp 200 (Some (JObj [(''ok'', JBool True), (''temporary_password'', JStr ''s3cret'')])))
       ''b'' None (resetUserPassword ''u1'' None) = Inr v \<and> json_get ''temporary_password'' v = JUndef"
proof -
  let ?f = "\<lambda>_. Resp 200 (Some (JObj [(''ok'', JBool True), (''temporary_password'', JStr ''s3cret'')]))"
  have "camel ''ok'' = ''ok''" "camel ''temporary_password'' = ''temporaryPassword''" by code_simp+
  then have "api ?f ''b'' None (resetUserPassword ''u1'' None)
      = Inr (JObj [(''ok'', JBool True), (''temporaryPassword'', JStr ''s3cret'')])"
    by (simp add: api_cases resp_ok_def sc2cc_eq_camel from_entries_def obj_spread_def)
  from this reset_password_unreadable [OF this] show ?thesis by simp
qed

subsection \<open>The token\<close>

lemma auth_header_api:
  "map_of (r_headers (api_request base tok c)) ''Authorization''
     = (if given tok then Some (''Bearer '' @ str_of tok) else None)"
  by (simp add: api_request_def given_def str_of_def split: option.splits)

text \<open>After a change of password that answers with a fresh token, the next request of
  the client authenticates with that token, and nothing else in the storage changed.\<close>

theorem change_password_keeps_session:
  assumes "authChangePassword fetch base p q ls = (Inr v, ls')"
    and "json_get ''token'' v = JStr t" and "t \<noteq> []"
  shows "map_of (r_headers (api_request base (obj_get ls' TOKEN_KEY) c)) ''Authorization''
           = Some (''Bearer '' @ t)
         \<and> (k = TOKEN_KEY \<or> obj_get ls' k = obj_get ls k)"
  using assms by (auto simp: authChangePassword_def authChangePassword_then_def auth_header_api given_def str_of_def
      split: sum.splits if_splits)

theorem change_password_keeps_session_witness:
  "let ls' = snd (authChangePassword (\<lambda>_. Resp 200 (Some (JObj [(''ok'', JBool True), (''token'', JStr ''new'')])))
                    ''b'' ''old'' ''pw'' [(TOKEN_KEY, ''tok''), (USER_KEY, ''u'')]) in
   map_of (r_headers (api_request ''b'' (obj_get ls' TOKEN_KEY) fetchStoreSummary)) ''Authorization''
     = Some ''Bearer new''"
proof -
  let ?v = "JObj [(''ok'', JBool True), (''token'', JStr ''new'')]"
  let ?ls = "[(TOKEN_KEY, ''tok''), (USER_KEY, ''u'')]"
  have camel: "toCamel ?v = ?v"
    by (simp add: sc2cc_eq_camel from_entries_def obj_spread_def)
  have run: "authChangePassword (\<lambda>_. Resp 200 (Some ?v)) ''b'' ''old'' ''pw'' ?ls
      = (Inr ?v, [(TOKEN_KEY, ''new''), (USER_KEY, ''u'')])"
    by (simp add: authChangePassword_def authChangePassword_then_def api_cases resp_ok_def camel obj_get_def
        del: toCamel.simps)
  have "json_get ''token'' ?v = JStr ''new''" by (simp add: obj_get_def)
  from change_password_keeps_session [OF run this, of fetchStoreSummary TOKEN_KEY] show ?thesis
    by (simp add: run)
qed

subsection \<open>Playbooks: fractions and percentages\<close>

lemma percent1_exact:
  assumes "0 \<le> k" "k \<le> 1000"
  shows "percent1 (fl (of_int k / 1000)) = fl (of_int k / 10)"
proof -
  define x where "x = fl (of_int k / 1000 :: rat)"
  have k: "0 \<le> (of_int k :: rat)" "(of_int k :: rat) \<le> 1000" using assms by auto
  have 1: "\<bar>x - of_int k / 1000\<bar> \<le> 1 / 2 ^ 53"
    using fl_error [of "of_int k / 1000"] k by (simp add: x_def)
  then have x: "\<bar>x\<bar> \<le> 2" using k by (simp add: abs_if split: if_splits)
  have 2: "\<bar>fl (x * 1000) - x * 1000\<bar> \<le> 2000 / 2 ^ 53"
    using fl_error [of "x * 1000"] x by (simp add: abs_mult)
  have "\<bar>fl (x * 1000) - of_int k\<bar> < 1/2"
    using 1 2 by (simp add: abs_if split: if_splits)
  then have "js_round (js_mul x 1000) = k" by (simp add: js_mul_def js_round_near)
  then show ?thesis by (simp add: percent1_def js_div_def x_def [symmetric])
qed

lemma percent1_bounds:
  assumes "0 \<le> x" "x \<le> 1"
  shows "0 \<le> percent1 x \<and> percent1 x \<le> 100"
proof -
  have "0 \<le> js_mul x 1000" "js_mul x 1000 \<le> 1000"
    using assms fl_nonneg [of "x * 1000"] fl_le_int [of "x * 1000" 1000] by (simp_all add: js_mul_def)
  then have "0 \<le> js_round (js_mul x 1000) \<and> js_round (js_mul x 1000) \<le> 1000"
    using js_round_bounds [of 0 _ 1000] by simp
  then have "0 \<le> rat_of_int (js_round (js_mul x 1000)) / 10" "rat_of_int (js_round (js_mul x 1000)) / 10 \<le> 100"
    by (simp_all add: divide_le_eq)
  then show ?thesis
    unfolding percent1_def js_div_def
    using fl_nonneg fl_le_int [of "rat_of_int (js_round (js_mul x 1000)) / 10" 100] by simp
qed

text \<open>The success rate of a playbook, a fraction with three decimals in the API, is shown
  as exactly the percentage it stands for, whatever the rounding of the two floating point
  operations, and every other field of the playbook is unchanged.\<close>

theorem playbook_percent_exact:
  assumes "obj_get p ''successRate'' = Some (JNum (fl (of_int k / 1000)))" and "0 \<le> k" "k \<le> 1000"
  shows "fetchPlaybooks [p] = [JObj (obj_set ''successRate'' (JNum (fl (of_int k / 10))) p)]
         \<and> 0 \<le> fl (rat_of_int k / 10) \<and> fl (rat_of_int k / 10) \<le> 100"
  using assms percent1_exact [of k] fl_nonneg [of "rat_of_int k / 10"] fl_le_int [of "rat_of_int k / 10" 100]
  by (simp add: fetchPlaybooks_def playbook_percent_def divide_le_eq)

theorem playbook_percent_exact_witness:
  "fetchPlaybooks [[(''id'', JStr ''p1''), (''successRate'', JNum (fl (936 / 1000)))]]
     = [JObj [(''id'', JStr ''p1''), (''successRate'', JNum (fl (936 / 10)))]]"
  using playbook_percent_exact [of "[(''id'', JStr ''p1''), (''successRate'', JNum (fl (936 / 1000)))]" 936]
  by (simp add: obj_get_def)

subsection \<open>Queries read back\<close>

lemma obj_set_append: "obj_get q k = None \<Longrightarrow> obj_set k v q = q @ [(k, v)]"
  by (induction k v q rule: obj_set.induct) (auto simp: obj_get_def split: if_splits)

lemma report_params_eq:
  "report_params period frm to audience =
     [(''period'', period), (''audience'', default ''technical'' audience)] @
     (if given frm then [(''from'', str_of frm)] else []) @
     (if given to then [(''to'', str_of to)] else [])"
  by (simp add: report_params_def set_given_def)

text \<open>The query of a report request and of the audit log read back as exactly the
  parameters the caller chose, in order: no value, whatever characters it contains, can add,
  drop or change a parameter, and an empty date or action leaves its parameter out.\<close>

theorem report_query_roundtrip:
  "parse_params (drop (length ''/reports/'' + length kind + 1)
       (c_path (fetchReport kind period frm to audience)))
     = [(''period'', period), (''audience'', default ''technical'' audience)] @
       (if given frm then [(''from'', str_of frm)] else []) @
       (if given to then [(''to'', str_of to)] else [])
   \<and> parse_params (drop (length ''/config/audit-log?'') (c_path (fetchAuditLog limit act)))
     = (''limit'', num_str (default 100 limit)) # (if given act then [(''action'', str_of act)] else [])"
proof -
  have "drop (length ''/reports/'' + length kind + 1) (c_path (fetchReport kind period frm to audience))
      = search_params (report_params period frm to audience)"
    by (simp add: fetchReport_def)
  moreover have "drop (length ''/config/audit-log?'') (c_path (fetchAuditLog limit act))
      = search_params (audit_params limit act)"
    by (simp add: fetchAuditLog_def)
  ultimately show ?thesis
    by (simp only: parse_search_params report_params_eq audit_params_def) simp
qed

end
