(* ===== verification/Preferences.thy ===== *)
theory Preferences
  imports Json
begin

text \<open>
  The preferences of the dashboard that live in the browser: \<open>lib/useDashboardTheme.ts\<close>
  (theme and customization knobs) and the local half of \<open>lib/useExperienceMode.ts\<close>. A
  hook keeps its value in every mounted component, in \<open>localStorage\<close>, and in step with
  the other components of the page (a custom event) and with other tabs (the storage
  event). \<open>tab\<close> is one page: what its \<open>localStorage\<close> key holds and the value of every
  mounted instance. The contract a hook has to meet for all of them to agree is the
  locale \<open>synced_preference\<close>; the three hooks interpret it.
\<close>

subsection \<open>Themes\<close>

record theme_def =
  th_id :: string
  th_label :: string
  th_desc :: string
  th_swatch :: "string list"

definition dot :: string where "dot = [CHR 0x20, CHR 0xB7, CHR 0x20]"

definition THEMES :: "theme_def list" where
  "THEMES =
    [\<lparr>th_id = ''plasma'', th_label = ''Plasma Noir'', th_desc = ''Magenta'' @ dot @ ''violet'' @ dot @ ''amber'',
      th_swatch = [''#0A0612'', ''#FF2E97'', ''#7A3CFF'', ''#FFB23E'']\<rparr>,
     \<lparr>th_id = ''mono'', th_label = ''Monochrome'', th_desc = ''Black & white graphite'',
      th_swatch = [''#0A0A0B'', ''#FAFAFA'', ''#B8B8C0'', ''#71717A'']\<rparr>,
     \<lparr>th_id = ''arctic'', th_label = ''Arctic'', th_desc = ''Sky'' @ dot @ ''indigo'' @ dot @ ''cyan'',
      th_swatch = [''#060B12'', ''#38BDF8'', ''#6366F1'', ''#22D3EE'']\<rparr>,
     \<lparr>th_id = ''matrix'', th_label = ''Matrix'', th_desc = ''Terminal green'',
      th_swatch = [''#050A05'', ''#34D058'', ''#16A34A'', ''#A3E635'']\<rparr>,
     \<lparr>th_id = ''solar'', th_label = ''Solar Flare'', th_desc = ''Amber'' @ dot @ ''orange warmth'',
      th_swatch = [''#120B05'', ''#FB923C'', ''#F59E0B'', ''#FBBF24'']\<rparr>,
     \<lparr>th_id = ''crimson'', th_label = ''Crimson'', th_desc = ''Rose'' @ dot @ ''red threat tone'',
      th_swatch = [''#0F0608'', ''#F43F5E'', ''#DC2626'', ''#FB7185'']\<rparr>,
     \<lparr>th_id = ''nebula'', th_label = ''Nebula'', th_desc = ''Violet'' @ dot @ ''fuchsia'' @ dot @ ''cyan'',
      th_swatch = [''#0B0818'', ''#C084FC'', ''#818CF8'', ''#22D3EE'']\<rparr>,
     \<lparr>th_id = ''oceanic'', th_label = ''Oceanic'', th_desc = ''Cyan'' @ dot @ ''aqua on deep teal'',
      th_swatch = [''#050E14'', ''#22D3EE'', ''#38BDF8'', ''#5EEAD4'']\<rparr>,
     \<lparr>th_id = ''cyber'', th_label = ''Cyberpunk'', th_desc = ''Neon cyan'' @ dot @ ''magenta'' @ dot @ ''lime'',
      th_swatch = [''#06060A'', ''#00F5D4'', ''#FF0099'', ''#BEF264'']\<rparr>,
     \<lparr>th_id = ''slate'', th_label = ''Slate'', th_desc = ''Cool professional blue-grey'',
      th_swatch = [''#090C12'', ''#60A5FA'', ''#818CF8'', ''#94A3B8'']\<rparr>,
     \<lparr>th_id = ''ember'', th_label = ''Ember'', th_desc = ''Warm rose'' @ dot @ ''gold on charcoal'',
      th_swatch = [''#0E0A09'', ''#FB923C'', ''#F472B6'', ''#FACC15'']\<rparr>]"

definition ACCENT_PRESETS :: "string list" where
  "ACCENT_PRESETS =
    [''#FF2E97'', ''#7A3CFF'', ''#FB923C'', ''#34D058'', ''#38BDF8'', ''#22D3EE'',
     ''#F43F5E'', ''#FACC15'', ''#C084FC'', ''#FF0099'', ''#00F5D4'', ''#60A5FA'']"

definition VALID :: "string list" where "VALID = map th_id THEMES"

definition isTheme :: "string \<Rightarrow> bool" where "isTheme v \<longleftrightarrow> v \<in> set VALID"

subsection \<open>Customization knobs\<close>

datatype motion = FullMotion | ReducedMotion
datatype density = Comfortable | Compact

record dashboard_prefs =
  dp_accent :: "string option"
  dp_scale :: rat
  dp_motion :: motion
  dp_density :: density

definition DEFAULT_PREFS :: dashboard_prefs where
  "DEFAULT_PREFS = \<lparr>dp_accent = None, dp_scale = 1, dp_motion = FullMotion, dp_density = Comfortable\<rparr>"

definition clamp :: "rat \<Rightarrow> rat \<Rightarrow> rat \<Rightarrow> rat" where
  "clamp n lo hi = min hi (max lo n)"

definition hex6_re :: rx where
  "hex6_re = RSeq (rx_str ''#'') (rx_times 6 (RSet is_hex))"

definition sanitizePrefs :: "json \<Rightarrow> dashboard_prefs" where
  "sanitizePrefs raw =
     \<lparr>dp_accent = (case json_get ''accent'' raw of
                     JStr s \<Rightarrow> if rx_test (rx_full hex6_re) s then Some s else None
                   | _ \<Rightarrow> None),
      dp_scale = (case json_get ''scale'' raw of JNum x \<Rightarrow> clamp x (fl (9 / 10)) 2 | _ \<Rightarrow> 1),
      dp_motion = (if json_get ''motion'' raw = JStr ''reduced'' then ReducedMotion else FullMotion),
      dp_density = (if json_get ''density'' raw = JStr ''compact'' then Compact else Comfortable)\<rparr>"

text \<open>The preferences as the object the code spreads, stores and dispatches.\<close>

definition prefs_obj :: "dashboard_prefs \<Rightarrow> (string, json) obj" where
  "prefs_obj p =
     [(''accent'', case dp_accent p of None \<Rightarrow> JNull | Some s \<Rightarrow> JStr s),
      (''scale'', JNum (dp_scale p)),
      (''motion'', JStr (case dp_motion p of FullMotion \<Rightarrow> ''full'' | ReducedMotion \<Rightarrow> ''reduced'')),
      (''density'', JStr (case dp_density p of Comfortable \<Rightarrow> ''comfortable'' | Compact \<Rightarrow> ''compact''))]"

subsection \<open>Hex colours\<close>

text \<open>\<open>parseInt(m, 16)\<close> as the 32-bit integer the shifts work on.\<close>

definition parse_hex :: "string \<Rightarrow> int" where
  "parse_hex s = digits_val 16 (map (\<lambda>c. int (hex_val c)) s)"

definition hexToRgbTriplet :: "string \<Rightarrow> string option" where
  "hexToRgbTriplet hex =
     (if rx_test (rx_full hex6_re) hex
      then (let n = parse_hex (tl hex) in
            Some (int_str (drop_bit 16 n mod 256) @ '' '' @ int_str (drop_bit 8 n mod 256) @ '' '' @
                  int_str (n mod 256)))
      else None)"

subsection \<open>A hook, its mounted instances and the storage\<close>

record ('s, 'v) tab =
  tab_store :: "'s option"
  tab_insts :: "'v list"

datatype ('p, 's) pref_op =
    Mount
  | Unmount nat
  | Put bool nat 'p
  | Elsewhere "'s option"

text \<open>
  The effect on mount applies the stored value; a setter updates its own instance, writes
  the storage (unless that throws) and dispatches the event every instance listens to; a
  write in another tab arrives as the storage event. The boolean of \<open>Put\<close> says whether
  the storage accepts the write, the number is the instance whose setter is called.
\<close>

fun pref_step :: "('s option \<Rightarrow> 'v) \<Rightarrow> ('v \<Rightarrow> 'v \<Rightarrow> 'v) \<Rightarrow> ('v \<Rightarrow> 's option \<Rightarrow> 'v) \<Rightarrow> ('v \<Rightarrow> 's) \<Rightarrow>
    ('v \<Rightarrow> 'p \<Rightarrow> 'v) \<Rightarrow> ('p, 's) pref_op \<Rightarrow> ('s, 'v) tab \<Rightarrow> ('s, 'v) tab" where
  "pref_step hydrate on_custom on_storage stored upd Mount t =
     t\<lparr>tab_insts := tab_insts t @ [hydrate (tab_store t)]\<rparr>"
| "pref_step hydrate on_custom on_storage stored upd (Unmount i) t =
     t\<lparr>tab_insts := take i (tab_insts t) @ drop (Suc i) (tab_insts t)\<rparr>"
| "pref_step hydrate on_custom on_storage stored upd (Put writable i p) t =
     (if i < length (tab_insts t) then
        let v = upd (tab_insts t ! i) p in
        \<lparr>tab_store = (if writable then Some (stored v) else tab_store t),
         tab_insts = map (\<lambda>c. on_custom c v) ((tab_insts t)[i := v])\<rparr>
      else t)"
| "pref_step hydrate on_custom on_storage stored upd (Elsewhere s) t =
     \<lparr>tab_store = s, tab_insts = map (\<lambda>c. on_storage c s) (tab_insts t)\<rparr>"

definition theme_hydrate :: "string option \<Rightarrow> string" where
  "theme_hydrate st = (case st of None \<Rightarrow> ''plasma'' | Some s \<Rightarrow> if isTheme s then s else ''plasma'')"

definition theme_onCustom :: "string \<Rightarrow> string \<Rightarrow> string" where
  "theme_onCustom cur d = (if isTheme d then d else cur)"

definition theme_onStorage :: "string \<Rightarrow> string option \<Rightarrow> string" where
  "theme_onStorage cur new = (case new of None \<Rightarrow> cur | Some s \<Rightarrow> if isTheme s then s else cur)"

definition theme_step :: "(string, string) pref_op \<Rightarrow> (string, string) tab \<Rightarrow> (string, string) tab" where
  "theme_step = pref_step theme_hydrate theme_onCustom theme_onStorage (\<lambda>v. v) (\<lambda>prev t. t)"

text \<open>The stored text of the knobs is represented by what \<open>JSON.parse\<close> makes of it, \<open>None\<close>
  inside when it throws.\<close>

definition prefs_hydrate :: "json option option \<Rightarrow> dashboard_prefs" where
  "prefs_hydrate st = (case st of Some (Some j) \<Rightarrow> sanitizePrefs j | _ \<Rightarrow> DEFAULT_PREFS)"

definition prefs_onCustom :: "dashboard_prefs \<Rightarrow> dashboard_prefs \<Rightarrow> dashboard_prefs" where
  "prefs_onCustom cur d = sanitizePrefs (JObj (prefs_obj d))"

definition prefs_onStorage :: "dashboard_prefs \<Rightarrow> json option option \<Rightarrow> dashboard_prefs" where
  "prefs_onStorage cur new = (case new of Some (Some j) \<Rightarrow> sanitizePrefs j | _ \<Rightarrow> cur)"

definition prefs_update :: "dashboard_prefs \<Rightarrow> (string, json) obj \<Rightarrow> dashboard_prefs" where
  "prefs_update prev patch = sanitizePrefs (JObj (obj_spread (prefs_obj prev) patch))"

definition prefs_step :: "((string, json) obj, json option) pref_op \<Rightarrow>
    (json option, dashboard_prefs) tab \<Rightarrow> (json option, dashboard_prefs) tab" where
  "prefs_step = pref_step prefs_hydrate prefs_onCustom prefs_onStorage
     (\<lambda>v. Some (JObj (prefs_obj v))) prefs_update"

datatype experience_mode = Normal | Power

fun mode_text :: "experience_mode \<Rightarrow> string" where
  "mode_text Normal = ''normal''"
| "mode_text Power = ''power''"

definition mode_parse :: "string \<Rightarrow> experience_mode option" where
  "mode_parse s = (if s = ''power'' then Some Power else if s = ''normal'' then Some Normal else None)"

definition mode_hydrate :: "string option \<Rightarrow> experience_mode" where
  "mode_hydrate st = (case Option.bind st mode_parse of None \<Rightarrow> Normal | Some m \<Rightarrow> m)"

definition mode_onStorage :: "experience_mode \<Rightarrow> string option \<Rightarrow> experience_mode" where
  "mode_onStorage cur new = (case Option.bind new mode_parse of None \<Rightarrow> cur | Some m \<Rightarrow> m)"

definition mode_step :: "(experience_mode, string) pref_op \<Rightarrow>
    (string, experience_mode) tab \<Rightarrow> (string, experience_mode) tab" where
  "mode_step = pref_step mode_hydrate (\<lambda>cur d. d) mode_onStorage mode_text (\<lambda>prev m. m)"

subsection \<open>The contract of a synchronised preference\<close>

definition coherent :: "('s option \<Rightarrow> 'v) \<Rightarrow> ('s, 'v) tab \<Rightarrow> bool" where
  "coherent hydrate t \<longleftrightarrow> (\<forall>v \<in> set (tab_insts t). v = hydrate (tab_store t))"

locale synced_preference =
  fixes hydrate :: "'s option \<Rightarrow> 'v" and on_custom :: "'v \<Rightarrow> 'v \<Rightarrow> 'v"
    and on_storage :: "'v \<Rightarrow> 's option \<Rightarrow> 'v" and stored :: "'v \<Rightarrow> 's"
    and upd :: "'v \<Rightarrow> 'p \<Rightarrow> 'v" and sane :: "'v \<Rightarrow> bool" and legal :: "'p \<Rightarrow> bool"
  assumes hydrate_sane: "sane (hydrate s)"
    and upd_sane: "sane v \<Longrightarrow> legal p \<Longrightarrow> sane (upd v p)"
    and hydrate_stored: "sane v \<Longrightarrow> hydrate (Some (stored v)) = v"
    and custom_sent: "sane v \<Longrightarrow> on_custom c v = v"
    and storage_stored: "sane v \<Longrightarrow> on_storage c (Some (stored v)) = v"
    and storage_sane: "sane c \<Longrightarrow> sane (on_storage c s)"
begin

abbreviation step :: "('p, 's) pref_op \<Rightarrow> ('s, 'v) tab \<Rightarrow> ('s, 'v) tab" where
  "step \<equiv> pref_step hydrate on_custom on_storage stored upd"

definition sane_op :: "('p, 's) pref_op \<Rightarrow> bool" where
  "sane_op x \<longleftrightarrow> (case x of Put w i p \<Rightarrow> legal p | _ \<Rightarrow> True)"

definition sync_op :: "('p, 's) pref_op \<Rightarrow> bool" where
  "sync_op x \<longleftrightarrow> (case x of Put w i p \<Rightarrow> w \<and> legal p
                    | Elsewhere s \<Rightarrow> (\<exists>v. sane v \<and> s = Some (stored v)) | _ \<Rightarrow> True)"

lemma step_sane:
  "sane_op x \<Longrightarrow> list_all sane (tab_insts t) \<Longrightarrow> list_all sane (tab_insts (step x t))"
  by (cases x) (auto simp: sane_op_def hydrate_sane upd_sane custom_sent storage_sane Let_def list_all_iff
      dest: in_set_takeD in_set_dropD)

lemma run_sane:
  "list_all sane_op xs \<Longrightarrow> list_all sane (tab_insts t) \<Longrightarrow> list_all sane (tab_insts (fold step xs t))"
  by (induction xs arbitrary: t) (auto simp: step_sane)

lemma step_coherent:
  "sync_op x \<Longrightarrow> list_all sane (tab_insts t) \<Longrightarrow> coherent hydrate t \<Longrightarrow> coherent hydrate (step x t)"
  by (cases x) (auto simp: sync_op_def coherent_def hydrate_stored custom_sent storage_stored upd_sane
      Let_def list_all_iff dest: in_set_takeD in_set_dropD)

lemma run_coherent:
  "list_all sync_op xs \<Longrightarrow> list_all sane (tab_insts t) \<Longrightarrow> coherent hydrate t
    \<Longrightarrow> coherent hydrate (fold step xs t)"
proof (induction xs arbitrary: t)
  case (Cons x xs)
  then have "sane_op x" by (auto simp: sync_op_def sane_op_def split: pref_op.splits)
  with Cons show ?case by (simp add: step_sane step_coherent)
qed simp

text \<open>Setting a value in one instance sets it in all of them, and in the storage.\<close>

lemma put_everywhere:
  "sane (tab_insts t ! i) \<Longrightarrow> legal p \<Longrightarrow> i < length (tab_insts t) \<Longrightarrow>
    set (tab_insts (step (Put w i p) t)) = {upd (tab_insts t ! i) p}"
  by (auto simp: Let_def upd_sane custom_sent image_iff in_set_conv_nth intro!: exI [of _ i])

end

lemma isTheme_plasma [simp]: "isTheme ''plasma''"
  by (simp add: isTheme_def VALID_def THEMES_def)

interpretation theme: synced_preference theme_hydrate theme_onCustom theme_onStorage "\<lambda>v. v"
    "\<lambda>prev t. t" isTheme isTheme
  by unfold_locales (auto simp: theme_hydrate_def theme_onCustom_def theme_onStorage_def split: option.split)

interpretation mode: synced_preference mode_hydrate "\<lambda>cur d. d" mode_onStorage mode_text
    "\<lambda>prev m. m" "\<lambda>_. True" "\<lambda>_. True"
proof unfold_locales
  fix v c :: experience_mode
  show "mode_hydrate (Some (mode_text v)) = v" "mode_onStorage c (Some (mode_text v)) = v"
    by (cases v; simp add: mode_hydrate_def mode_onStorage_def mode_parse_def)+
qed simp_all

subsection \<open>Knobs: sanitizing\<close>

definition sane_prefs :: "dashboard_prefs \<Rightarrow> bool" where
  "sane_prefs p \<longleftrightarrow>
     (case dp_accent p of None \<Rightarrow> True | Some s \<Rightarrow> length s = 7 \<and> hd s = CHR ''#'' \<and> list_all is_hex (tl s)) \<and>
     fl (9 / 10) \<le> dp_scale p \<and> dp_scale p \<le> 2"

lemma hex6_test: "rx_test (rx_full hex6_re) s \<longleftrightarrow> length s = 7 \<and> hd s = CHR ''#'' \<and> list_all is_hex (tl s)"
proof -
  have "rx_plain hex6_re" by (simp add: hex6_re_def)
  then have "rx_test (rx_full hex6_re) s \<longleftrightarrow> s \<in> rx_lang hex6_re" by (rule rx_test_full)
  also have "rx_lang hex6_re = {''#'' @ v | v. length v = 6 \<and> list_all is_hex v}"
    by (simp add: hex6_re_def rx_lang_times_set del: rx_str.simps)
  also have "s \<in> {''#'' @ v | v. length v = 6 \<and> list_all is_hex v}
      \<longleftrightarrow> length s = 7 \<and> hd s = CHR ''#'' \<and> list_all is_hex (tl s)"
    by (cases s) auto
  finally show ?thesis .
qed

lemma min_scale: "fl (9 / 10) \<le> 1" "fl (9 / 10) \<le> 2"
  using fl_le_int [of "9 / 10" 1] by simp_all

lemma sanitize_sane: "sane_prefs (sanitizePrefs j)"
  using min_scale
  by (auto simp: sane_prefs_def sanitizePrefs_def clamp_def hex6_test split: json.split option.split)

lemma sanitize_prefs_obj: "sane_prefs p \<Longrightarrow> sanitizePrefs (JObj (prefs_obj p)) = p"
  by (cases p) (auto simp: sane_prefs_def sanitizePrefs_def prefs_obj_def obj_get_def clamp_def hex6_test
      split: option.splits motion.splits density.splits)

lemma default_sane: "sane_prefs DEFAULT_PREFS"
  using min_scale by (simp add: sane_prefs_def DEFAULT_PREFS_def)

interpretation prefs: synced_preference prefs_hydrate prefs_onCustom prefs_onStorage
    "\<lambda>v. Some (JObj (prefs_obj v))" prefs_update sane_prefs "\<lambda>_. True"
  by unfold_locales
    (auto simp: prefs_hydrate_def prefs_onCustom_def prefs_onStorage_def prefs_update_def
      sanitize_sane sanitize_prefs_obj default_sane split: option.splits)

text \<open>Whatever components mount, whatever patch a setter is given, and whatever text
  another tab or a corrupted storage contains, every mounted component holds knobs that are
  in range: a scale between 0.9 and 2 and an accent that is absent or \<open>#rrggbb\<close>.\<close>

theorem prefs_always_sane:
  "list_all sane_prefs (tab_insts (fold prefs_step xs \<lparr>tab_store = st, tab_insts = []\<rparr>))"
  unfolding prefs_step_def
  by (rule prefs.run_sane) (auto simp: list_all_iff prefs.sane_op_def split: pref_op.splits)

text \<open>A theme chosen in any component is at once the theme of every component of the
  page and the one a component mounted later, or a reload, starts with.\<close>

theorem theme_set_everywhere:
  assumes "isTheme v" and "i < length (tab_insts t)" and "list_all isTheme (tab_insts t)"
  shows "set (tab_insts (theme_step Mount (theme_step (Put True i v) t))) = {v}"
proof -
  have "isTheme (tab_insts t ! i)" using assms by (simp add: list_all_length)
  from theme.put_everywhere [OF this assms(1,2), of True]
  have "set (tab_insts (theme_step (Put True i v) t)) = {v}" by (simp add: theme_step_def)
  moreover have "theme_hydrate (tab_store (theme_step (Put True i v) t)) = v"
    using assms by (simp add: theme_step_def theme_hydrate_def)
  ultimately show ?thesis by (simp add: theme_step_def)
qed

theorem theme_set_everywhere_witness:
  "set (tab_insts (theme_step Mount (theme_step (Put True 1 ''matrix'')
      \<lparr>tab_store = None, tab_insts = [''plasma'', ''plasma'']\<rparr>))) = {''matrix''}"
  by (rule theme_set_everywhere) (simp_all add: isTheme_def VALID_def THEMES_def)

text \<open>C10: all components that show the experience mode, the theme or the knobs agree with
  each other and with the storage after any sequence of mounts, unmounts, accepted writes and
  writes of valid values in other tabs.\<close>

theorem preferences_coherent:
  "list_all mode.sync_op ms \<Longrightarrow> list_all theme.sync_op ts \<Longrightarrow> list_all prefs.sync_op ps \<Longrightarrow>
   coherent mode_hydrate (fold mode_step ms \<lparr>tab_store = m, tab_insts = []\<rparr>) \<and>
   coherent theme_hydrate (fold theme_step ts \<lparr>tab_store = t, tab_insts = []\<rparr>) \<and>
   coherent prefs_hydrate (fold prefs_step ps \<lparr>tab_store = p, tab_insts = []\<rparr>)"
  unfolding mode_step_def theme_step_def prefs_step_def
  by (intro conjI mode.run_coherent theme.run_coherent prefs.run_coherent) (simp_all add: coherent_def)

theorem preferences_coherent_witness:
  "coherent mode_hydrate (fold mode_step [Mount, Mount, Put True 0 Power]
     \<lparr>tab_store = None, tab_insts = []\<rparr>)"
  using preferences_coherent [of "[Mount, Mount, Put True 0 Power]" "[]" "[]" None]
  by (simp add: mode.sync_op_def)

subsection \<open>Hex colours: the reference\<close>

lemma parse_hex_append: "parse_hex (s @ [a, b]) = parse_hex s * 256 + int (hex_val a) * 16 + int (hex_val b)"
  by (simp add: parse_hex_def digits_val_def)

lemma hex_val_lt: "is_hex c \<Longrightarrow> hex_val c < 16"
  by (auto simp: hex_val_def char_classes)

lemma bytes_of:
  "0 \<le> (z :: int) \<Longrightarrow> z < 256 \<Longrightarrow> (q * 256 + z) div 256 = q \<and> (q * 256 + z) mod 256 = z"
  by simp

text \<open>The colour triplet is exactly the three bytes of the hexadecimal digits, and a
  string that is not \<open>#\<close> and six hexadecimal digits has none.\<close>

theorem hexToRgbTriplet_spec:
  "hexToRgbTriplet hex =
     (case hex of
        [h, a, b, c, d, e, f] \<Rightarrow>
          if h = CHR ''#'' \<and> list_all is_hex [a, b, c, d, e, f]
          then Some (int_str (int (hex_val a) * 16 + int (hex_val b)) @ '' '' @
                     int_str (int (hex_val c) * 16 + int (hex_val d)) @ '' '' @
                     int_str (int (hex_val e) * 16 + int (hex_val f)))
          else None
      | _ \<Rightarrow> None)"
proof (cases "rx_test (rx_full hex6_re) hex")
  case False
  then show ?thesis
    by (auto simp: hexToRgbTriplet_def hex6_test split: list.splits)
next
  case True
  then have t: "length hex = 7" "hd hex = CHR ''#''" "list_all is_hex (tl hex)" by (simp_all add: hex6_test)
  then obtain a b c d e f where h: "hex = [CHR ''#'', a, b, c, d, e, f]"
    by (auto simp: length_Suc_conv numeral_eq_Suc)
  define x where "x = int (hex_val a) * 16 + int (hex_val b)"
  define y where "y = int (hex_val c) * 16 + int (hex_val d)"
  define z where "z = int (hex_val e) * 16 + int (hex_val f)"
  have b: "0 \<le> x" "x < 256" "0 \<le> y" "y < 256" "0 \<le> z" "z < 256"
    using t(3) hex_val_lt [of a] hex_val_lt [of b] hex_val_lt [of c] hex_val_lt [of d] hex_val_lt [of e]
      hex_val_lt [of f] by (simp_all add: h x_def y_def z_def)
  have n: "parse_hex [a, b, c, d, e, f] = (x * 256 + y) * 256 + z"
    by (simp add: parse_hex_def digits_val_def x_def y_def z_def)
  have r: "drop_bit 16 (parse_hex (tl hex)) mod 256 = x" "drop_bit 8 (parse_hex (tl hex)) mod 256 = y"
      "parse_hex (tl hex) mod 256 = z"
    using bytes_of [of z "x * 256 + y"] bytes_of [of y x] b
    by (simp_all add: h n drop_bit_eq_div div_mult2_eq [of _ 256 256, simplified])
  show ?thesis using True t
    by (simp only: hexToRgbTriplet_def r if_True Let_def) (simp add: h x_def y_def z_def)
qed

end
