(* ===== verification/ExperienceMode.thy ===== *)
theory ExperienceMode
  imports Preferences
begin

text \<open>
  The backend half of \<open>lib/useExperienceMode.ts\<close>: the one-time fetch of the mode of the
  organisation, the toggle that is stored at the backend, and the list of feature areas the
  navigation shows. The module variables and the storage are one record; where the storage
  accepts the writes the mounted components agree (\<open>preferences_coherent\<close>), so one mode
  stands for all of them.
  Requests under way are a list: their answers may arrive in any order, and any of them may
  fail.
\<close>

datatype em_request = GetMode | PutMode string

datatype em_answer = Answer string "string list option" bool | Failed

record em_state =
  em_store :: "string option"
  em_mode :: experience_mode
  em_features :: "string list option"
  em_synced :: bool
  em_flight :: "em_request list"

definition em_init :: "string option \<Rightarrow> em_state" where
  "em_init store = \<lparr>em_store = store, em_mode = Normal, em_features = None, em_synced = False, em_flight = []\<rparr>"

definition toWire :: "experience_mode \<Rightarrow> string" where
  "toWire m = (if m = Normal then ''simple'' else ''power'')"

definition fromWire :: "string \<Rightarrow> experience_mode" where
  "fromWire w = (if w = ''simple'' then Normal else Power)"

definition broadcastFeatures :: "string list option \<Rightarrow> em_state \<Rightarrow> em_state" where
  "broadcastFeatures fs s = s\<lparr>em_features := fs\<rparr>"

text \<open>Mounting a component applies the stored mode and starts the shared fetch once.\<close>

definition em_mount :: "em_state \<Rightarrow> em_state" where
  "em_mount s =
     (let s = (case Option.bind (em_store s) mode_parse of None \<Rightarrow> s | Some m \<Rightarrow> s\<lparr>em_mode := m\<rparr>) in
      if em_synced s then s else s\<lparr>em_synced := True, em_flight := em_flight s @ [GetMode]\<rparr>)"

definition setMode :: "bool \<Rightarrow> experience_mode \<Rightarrow> em_state \<Rightarrow> em_state" where
  "setMode writable m s =
     (let s = s\<lparr>em_mode := m, em_store := (if writable then Some (mode_text m) else em_store s)\<rparr>;
          s = (if m = Power then broadcastFeatures None s else s)
      in s\<lparr>em_flight := em_flight s @ [PutMode (toWire m)]\<rparr>)"

text \<open>The answer of one request: the fetch adopts a mode only when it was set explicitly.\<close>

definition em_resolve :: "bool \<Rightarrow> em_request \<Rightarrow> em_answer \<Rightarrow> em_state \<Rightarrow> em_state" where
  "em_resolve writable rq ans s =
     (case ans of
        Failed \<Rightarrow> s
      | Answer w fs explicit \<Rightarrow>
          (case rq of
             PutMode _ \<Rightarrow> broadcastFeatures fs s
           | GetMode \<Rightarrow> broadcastFeatures fs
               (if explicit
                then s\<lparr>em_store := (if writable then Some (mode_text (fromWire w)) else em_store s),
                       em_mode := fromWire w\<rparr>
                else s)))"

datatype em_op = EmMount | EmSet bool experience_mode | EmAnswer bool nat em_answer

fun em_step :: "em_op \<Rightarrow> em_state \<Rightarrow> em_state" where
  "em_step EmMount s = em_mount s"
| "em_step (EmSet w m) s = setMode w m s"
| "em_step (EmAnswer w i ans) s =
     (if i < length (em_flight s)
      then em_resolve w (em_flight s ! i) ans
             (s\<lparr>em_flight := take i (em_flight s) @ drop (Suc i) (em_flight s)\<rparr>)
      else s)"

definition em_run :: "em_op list \<Rightarrow> em_state \<Rightarrow> em_state" where
  "em_run xs s = fold em_step xs s"

lemma wire_roundtrip [simp]: "fromWire (toWire m) = m"
  by (cases m) (simp_all add: fromWire_def toWire_def)

lemma mode_parse_text [simp]: "mode_parse (mode_text m) = Some m"
  by (cases m) (simp_all add: mode_parse_def)

subsection \<open>Failing open\<close>

definition unanswered :: "em_op \<Rightarrow> bool" where
  "unanswered x \<longleftrightarrow> (case x of EmAnswer w i ans \<Rightarrow> ans = Failed | _ \<Rightarrow> True)"

lemma em_step_features: "unanswered x \<Longrightarrow> em_features s = None \<Longrightarrow> em_features (em_step x s) = None"
  by (cases x) (auto simp: unanswered_def em_mount_def setMode_def broadcastFeatures_def em_resolve_def
      Let_def split: option.split)

text \<open>As long as the backend answers nothing, no feature area is hidden, whatever the
  operator toggles.\<close>

theorem features_fail_open:
  "list_all unanswered xs \<Longrightarrow> em_features (em_run xs (em_init store)) = None"
proof -
  have "list_all unanswered xs \<Longrightarrow> em_features s = None \<Longrightarrow> em_features (fold em_step xs s) = None" for s
    by (induction xs arbitrary: s) (auto simp: em_step_features)
  from this [of "em_init store"] show "list_all unanswered xs \<Longrightarrow> em_features (em_run xs (em_init store)) = None"
    by (simp add: em_run_def em_init_def)
qed

theorem features_fail_open_witness:
  "em_features (em_run [EmMount, EmSet True Normal, EmAnswer True 0 Failed] (em_init None)) = None"
  by (rule features_fail_open) (simp add: unanswered_def)

subsection \<open>The last choice\<close>

text \<open>The mode chosen last, when there is one.\<close>

fun last_choice :: "em_op list \<Rightarrow> experience_mode \<Rightarrow> experience_mode" where
  "last_choice [] m = m"
| "last_choice (EmSet w n # xs) m = last_choice xs n"
| "last_choice (_ # xs) m = last_choice xs m"

text \<open>The shared fetch is over and the storage holds the mode.\<close>

definition settled :: "em_state \<Rightarrow> bool" where
  "settled s \<longleftrightarrow> em_synced s \<and> GetMode \<notin> set (em_flight s) \<and> em_store s = Some (mode_text (em_mode s))"

definition writes :: "em_op \<Rightarrow> bool" where
  "writes x \<longleftrightarrow> (case x of EmSet w m \<Rightarrow> w | _ \<Rightarrow> True)"

lemma settled_step:
  assumes "settled s" and "writes x"
  shows "settled (em_step x s) \<and> em_mode (em_step x s) = last_choice [x] (em_mode s)"
proof (cases x)
  case (EmAnswer w i ans)
  have "em_flight s ! i \<noteq> GetMode" if "i < length (em_flight s)"
    using assms(1) that nth_mem by (force simp: settled_def)
  then show ?thesis using assms EmAnswer
    by (auto simp: settled_def em_resolve_def broadcastFeatures_def split: em_answer.split em_request.split
        dest: in_set_takeD in_set_dropD)
qed (use assms in \<open>auto simp: settled_def em_mount_def setMode_def broadcastFeatures_def Let_def writes_def\<close>)

lemma last_choice_Cons: "last_choice (x # xs) m = last_choice xs (last_choice [x] m)"
  by (cases x) auto

text \<open>C21: once the fetch at page load is over, and as long as the storage can be written, the mode is always the one the operator chose
  last: no answer of the backend, in whatever order the answers arrive, changes it.\<close>

theorem mode_is_last_choice:
  assumes "settled s" and "list_all writes xs"
  shows "em_mode (em_run xs s) = last_choice xs (em_mode s)"
proof -
  have "settled s \<Longrightarrow> list_all writes xs \<Longrightarrow> em_mode (fold em_step xs s) = last_choice xs (em_mode s)" for s
  proof (induction xs arbitrary: s)
    case (Cons x xs)
    then show ?case using settled_step [of s x] last_choice_Cons [of x xs "em_mode s"] by simp
  qed simp
  with assms show ?thesis by (simp add: em_run_def)
qed

theorem mode_is_last_choice_witness:
  "em_mode (em_run [EmSet True Normal, EmSet True Power, EmAnswer True 0 (Answer ''simple'' (Some []) True)]
     \<lparr>em_store = Some ''normal'', em_mode = Normal, em_features = None, em_synced = True, em_flight = []\<rparr>) = Power"
  using mode_is_last_choice [of "\<lparr>em_store = Some ''normal'', em_mode = Normal, em_features = None,
      em_synced = True, em_flight = []\<rparr>" "[EmSet True Normal, EmSet True Power,
      EmAnswer True 0 (Answer ''simple'' (Some []) True)]"]
  by (simp add: settled_def writes_def)

text \<open>The list of feature areas does not follow the choice: when the operator switches to
  normal and back to power and the first answer arrives last, the navigation of the power
  mode, which means to show everything, stays cut down to the areas of the normal mode.\<close>

theorem late_answer_hides_features:
  "let s = em_run [EmSet True Normal, EmSet True Power, EmAnswer True 1 (Answer ''power'' None True),
                   EmAnswer True 0 (Answer ''simple'' (Some [''siem'']) True)] (em_init None)
   in em_mode s = Power \<and> em_features s = Some [''siem''] \<and> em_flight s = []"
  by (simp add: em_run_def em_init_def setMode_def em_resolve_def broadcastFeatures_def toWire_def Let_def)

end
