(* ===== verification/Session.thy ===== *)
theory Session
  imports ApiCore
begin

text \<open>
  The session of the operator: \<open>AuthProvider\<close> of \<open>lib/auth-context.tsx\<close> as a state
  machine, with the change of the password (\<open>authChangePassword\<close> of \<open>lib/api.ts\<close>), which
  writes the stored token beside the provider, and \<open>components/dashboard/AuthGuard.tsx\<close>. Its
  state is the React state as the values that are set (\<open>null\<close> at first), the two keys of
  \<open>localStorage\<close> with the text that is stored, and the calls under way; a call is answered by
  an \<open>AuthReply\<close> at any later time, so that calls may overlap. Another tab that writes the
  storage is outside the model. \<open>auth_reach\<close> are the states reachable that way, \<open>auth_seq\<close>
  those of a session that starts no operation while another is under way; in both the
  sessions the server answers carry a token that is a text and not empty, as
  \<open>authLogin\<close> and \<open>authRegister\<close> declare.
\<close>

datatype auth_call = BootMe | LoginCall | RegisterCall | SsoMe string | ChangePw

text \<open>The cached user is represented by what \<open>JSON.parse\<close> makes of the text, \<open>Some None\<close>
  being a text it refuses.\<close>

record auth =
  au_user :: json
  au_token :: json
  au_loading :: bool
  ls_token :: "string option"
  ls_user :: "json option option"
  au_flight :: "auth_call list"

definition auth_init :: "string option \<Rightarrow> json option option \<Rightarrow> auth" where
  "auth_init tok usr = \<lparr>au_user = JNull, au_token = JNull, au_loading = True,
     ls_token = tok, ls_user = usr, au_flight = []\<rparr>"

text \<open>The effect of the provider: without a token there is nothing to load.\<close>

definition auth_mount :: "auth \<Rightarrow> auth" where
  "auth_mount a =
     (case ls_token a of
        None \<Rightarrow> a\<lparr>au_loading := False\<rparr>
      | Some t \<Rightarrow> if t = [] then a\<lparr>au_loading := False\<rparr>
                  else a\<lparr>au_token := JStr t, au_flight := au_flight a @ [BootMe]\<rparr>)"

text \<open>\<open>localStorage.setItem\<close> stores the text of the value; \<open>JSON.stringify\<close> of
  \<open>undefined\<close> is stored as a text that does not parse.\<close>

definition stored_user :: "json \<Rightarrow> json option" where
  "stored_user u = (if u = JUndef then None else Some (json_send u))"

definition storeSession :: "json \<Rightarrow> json \<Rightarrow> auth \<Rightarrow> auth" where
  "storeSession tok u a = a\<lparr>ls_token := Some (js_string tok), ls_user := Some (stored_user u),
     au_token := tok, au_user := u\<rparr>"

definition logout :: "auth \<Rightarrow> auth" where
  "logout a = a\<lparr>ls_token := None, ls_user := None, au_token := JNull, au_user := JNull\<rparr>"

definition rejected :: "exn \<Rightarrow> bool" where
  "rejected e \<longleftrightarrow> (case e of ApiError m st \<Rightarrow> st = 401 \<or> st = 403 | _ \<Rightarrow> False)"

definition boot_ok :: "json \<Rightarrow> auth \<Rightarrow> auth" where
  "boot_ok u a = a\<lparr>au_user := u, ls_user := Some (stored_user u), au_loading := False\<rparr>"

definition boot_failed :: "exn \<Rightarrow> auth \<Rightarrow> auth" where
  "boot_failed e a =
     (if rejected e then a\<lparr>ls_token := None, ls_user := None, au_token := JNull, au_loading := False\<rparr>
      else case ls_user a of
        Some (Some j) \<Rightarrow> a\<lparr>au_user := j, au_loading := False\<rparr>
      | _ \<Rightarrow> a\<lparr>au_loading := False\<rparr>)"

text \<open>The continuation of a call. A failed login, registration or sign-on is an exception for
  its caller and leaves the session as it is.\<close>

definition fresh_token :: "json \<Rightarrow> auth \<Rightarrow> auth" where
  "fresh_token j a = (if truthy (json_get ''token'' j) then a\<lparr>ls_token := Some (js_string (json_get ''token'' j))\<rparr> else a)"

definition auth_reply :: "auth_call \<Rightarrow> exn + json \<Rightarrow> auth \<Rightarrow> auth" where
  "auth_reply c r a =
     (case c of
        BootMe \<Rightarrow> (case r of Inl e \<Rightarrow> boot_failed e a | Inr u \<Rightarrow> boot_ok u a)
      | LoginCall \<Rightarrow> (case r of Inl e \<Rightarrow> a
                      | Inr j \<Rightarrow> if j = JUndef \<or> j = JNull then a
                                 else storeSession (json_get ''token'' j) (json_get ''user'' j) a)
      | RegisterCall \<Rightarrow> (case r of Inl e \<Rightarrow> a
                      | Inr j \<Rightarrow> if truthy (json_get ''token'' j) \<and> truthy (json_get ''user'' j)
                                 then storeSession (json_get ''token'' j) (json_get ''user'' j) a
                                 else a)
      | SsoMe tok \<Rightarrow> (case r of Inl e \<Rightarrow> a | Inr u \<Rightarrow> storeSession (JStr tok) u a)
      | ChangePw \<Rightarrow> (case r of Inl e \<Rightarrow> a | Inr j \<Rightarrow> fresh_token j a))"

text \<open>What \<open>register\<close> returns to the page.\<close>

definition register_result :: "json \<Rightarrow> bool \<times> json \<times> json" where
  "register_result res = (truthy (json_get ''pending'' res), json_get ''email'' res, json_get ''message'' res)"

datatype auth_op = AuthLogin | AuthRegister | AuthSso string | AuthLogout | AuthChangePw | AuthReply nat "exn + json"

fun auth_step :: "auth_op \<Rightarrow> auth \<Rightarrow> auth" where
  "auth_step AuthLogin a = a\<lparr>au_flight := au_flight a @ [LoginCall]\<rparr>"
| "auth_step AuthRegister a = a\<lparr>au_flight := au_flight a @ [RegisterCall]\<rparr>"
| "auth_step (AuthSso tok) a =
     a\<lparr>ls_token := Some tok, au_token := JStr tok, au_flight := au_flight a @ [SsoMe tok]\<rparr>"
| "auth_step AuthLogout a = logout a"
| "auth_step AuthChangePw a = a\<lparr>au_flight := au_flight a @ [ChangePw]\<rparr>"
| "auth_step (AuthReply i r) a =
     (if i < length (au_flight a)
      then auth_reply (au_flight a ! i) r
             (a\<lparr>au_flight := take i (au_flight a) @ drop (Suc i) (au_flight a)\<rparr>)
      else a)"

text \<open>Whether an answer to a call writes a session, and what a session's token is like.\<close>

definition brings_session :: "auth_call \<Rightarrow> exn + json \<Rightarrow> bool" where
  "brings_session c r \<longleftrightarrow> (case r of Inl e \<Rightarrow> False
     | Inr j \<Rightarrow> (c = LoginCall \<and> j \<noteq> JUndef \<and> j \<noteq> JNull)
         \<or> (c = RegisterCall \<and> truthy (json_get ''token'' j) \<and> truthy (json_get ''user'' j)))"

fun is_text :: "json \<Rightarrow> bool" where
  "is_text (JStr s) = (s \<noteq> [])"
| "is_text v = False"

definition text_tokens :: "auth_op \<Rightarrow> auth \<Rightarrow> bool" where
  "text_tokens x a \<longleftrightarrow> (case x of
       AuthReply i (Inr j) \<Rightarrow> i < length (au_flight a) \<and> brings_session (au_flight a ! i) (Inr j) \<longrightarrow> is_text (json_get ''token'' j)
     | AuthSso tok \<Rightarrow> tok \<noteq> []
     | _ \<Rightarrow> True)"

text \<open>The token a password change has issued since the session was last written or removed.\<close>

definition issued_by :: "auth_call \<Rightarrow> exn + json \<Rightarrow> string option \<Rightarrow> string option" where
  "issued_by c r f =
     (case c of
        ChangePw \<Rightarrow> (case r of Inr j \<Rightarrow> if truthy (json_get ''token'' j) then Some (js_string (json_get ''token'' j)) else f | Inl e \<Rightarrow> f)
      | BootMe \<Rightarrow> (case r of Inl e \<Rightarrow> if rejected e then None else f | Inr u \<Rightarrow> f)
      | SsoMe tok \<Rightarrow> (case r of Inl e \<Rightarrow> f | Inr u \<Rightarrow> None)
      | _ \<Rightarrow> if brings_session c r then None else f)"

definition issued :: "auth_op \<Rightarrow> auth \<Rightarrow> string option \<Rightarrow> string option" where
  "issued x a f = (case x of
       AuthSso tok \<Rightarrow> None
     | AuthLogout \<Rightarrow> None
     | AuthReply i r \<Rightarrow> if i < length (au_flight a) then issued_by (au_flight a ! i) r f else f
     | _ \<Rightarrow> f)"

inductive auth_reach :: "auth \<Rightarrow> string option \<Rightarrow> bool" where
  start: "auth_reach (auth_mount (auth_init tok usr)) None"
| step: "auth_reach a f \<Longrightarrow> text_tokens x a \<Longrightarrow> auth_reach (auth_step x a) (issued x a f)"

definition is_reply :: "auth_op \<Rightarrow> bool" where
  "is_reply x \<longleftrightarrow> (case x of AuthReply i r \<Rightarrow> True | _ \<Rightarrow> False)"

inductive auth_seq :: "auth \<Rightarrow> bool" where
  seq_start: "auth_seq (auth_mount (auth_init tok usr))"
| seq_step: "auth_seq a \<Longrightarrow> text_tokens x a \<Longrightarrow> au_flight a = [] \<or> is_reply x \<Longrightarrow> auth_seq (auth_step x a)"

subsection \<open>The guard of the dashboard\<close>

datatype guard_view = Spinner | Nothing | Children

definition guard_render :: "auth \<Rightarrow> guard_view" where
  "guard_render a = (if au_loading a then Spinner else if \<not> truthy (au_user a) then Nothing else Children)"

definition guard_redirect :: "auth \<Rightarrow> string option" where
  "guard_redirect a = (if \<not> au_loading a \<and> \<not> truthy (au_user a) then Some ''/login'' else None)"

subsection \<open>The token of the page and the token of the storage\<close>

lemmas auth_defs = auth_init_def auth_mount_def storeSession_def logout_def rejected_def boot_ok_def
  boot_failed_def fresh_token_def auth_reply_def is_reply_def

text \<open>The page and the storage hold the same token; the empty text in the storage counts as none.\<close>

fun same_token :: "json \<Rightarrow> string option \<Rightarrow> bool" where
  "same_token (JStr t) s = (s = Some t)"
| "same_token JNull s = (s = None \<or> s = Some [])"
| "same_token v s = False"

text \<open>Which token the storage holds: that of the page, or the one a password change has issued.\<close>

definition token_known :: "auth \<Rightarrow> string option \<Rightarrow> bool" where
  "token_known a f \<longleftrightarrow> (case f of None \<Rightarrow> same_token (au_token a) (ls_token a) | Some t \<Rightarrow> ls_token a = Some t)"

lemma same_token_text: "is_text v \<Longrightarrow> same_token v (Some (js_string v))"
  by (cases v) auto

lemma token_known_reply:
  assumes "token_known a f" and typed: "\<And>j. r = Inr j \<Longrightarrow> brings_session c r \<Longrightarrow> is_text (json_get ''token'' j)"
  shows "token_known (auth_reply c r a) (issued_by c r f)"
proof (cases "brings_session c r")
  case True
  then obtain j where j: "r = Inr j" by (cases r) (auto simp: brings_session_def)
  from typed [OF j True] have "same_token (json_get ''token'' j) (Some (js_string (json_get ''token'' j)))"
    by (rule same_token_text)
  with True j show ?thesis
    by (auto simp: brings_session_def token_known_def auth_defs issued_by_def)
next
  case False
  with assms(1) show ?thesis
    by (cases c; cases r) (auto simp: brings_session_def token_known_def auth_defs issued_by_def split: option.splits exn.splits)
qed

lemma token_known_step:
  assumes "token_known a f" "text_tokens x a"
  shows "token_known (auth_step x a) (issued x a f)"
proof (cases x)
  case (AuthReply i r)
  let ?b = "a\<lparr>au_flight := take i (au_flight a) @ drop (Suc i) (au_flight a)\<rparr>"
  have "token_known ?b f" using assms(1) by (cases f) (simp_all add: token_known_def)
  then have "i < length (au_flight a) \<Longrightarrow> token_known (auth_reply (au_flight a ! i) r ?b) (issued_by (au_flight a ! i) r f)"
    using assms(2) AuthReply by (intro token_known_reply) (auto simp: text_tokens_def)
  then show ?thesis using assms(1) AuthReply by (simp add: issued_def)
qed (use assms(1) in \<open>auto simp: token_known_def issued_def auth_defs split: option.splits\<close>)

text \<open>C2: as long as the tokens that are answered are non-empty texts, as their types say: at every
  moment, however the calls overlap, the token the next request will send is the token of
  the page, or, when a password change was answered since the session was last written, the
  one that answer has issued.\<close>

theorem auth_token_in_step: "auth_reach a f \<Longrightarrow> token_known a f"
proof (induction rule: auth_reach.induct)
  case (start tok usr)
  show ?case by (auto simp: token_known_def auth_defs split: option.split)
qed (rule token_known_step)

theorem auth_token_in_step_witness:
  "let a = fold auth_step [AuthReply 0 (Inr (JStr ''u'')), AuthChangePw, AuthReply 0 (Inr (JObj [(''token'', JStr ''new'')]))]
       (auth_mount (auth_init (Some ''old'') None))
   in token_known a (Some ''new'') \<and> au_token a = JStr ''old'' \<and> ls_token a = Some ''new''"
proof -
  let ?s = "auth_mount (auth_init (Some ''old'') None)"
  let ?u = "AuthReply 0 (Inr (JStr ''u''))" and ?p = "AuthReply 0 (Inr (JObj [(''token'', JStr ''new'')]))"
  have "auth_reach (auth_step ?p (auth_step AuthChangePw (auth_step ?u ?s)))
      (issued ?p (auth_step AuthChangePw (auth_step ?u ?s)) (issued AuthChangePw (auth_step ?u ?s) (issued ?u ?s None)))"
    by (intro auth_reach.intros) (auto simp: text_tokens_def brings_session_def auth_defs)
  from auth_token_in_step [OF this] show ?thesis
    by (simp add: issued_def issued_by_def auth_defs obj_get_def)
qed

subsection \<open>Signed in with a user means signed in with a token\<close>

text \<open>In a session without overlap a user is shown only with a token; a boot check under way
  is the only call, so nobody can have logged out meanwhile.\<close>

definition has_token :: "auth \<Rightarrow> bool" where
  "has_token a \<longleftrightarrow> is_text (au_token a) \<and> ls_token a \<noteq> None"

definition seq_inv :: "auth \<Rightarrow> bool" where
  "seq_inv a \<longleftrightarrow> length (au_flight a) \<le> 1
     \<and> (truthy (au_user a) \<longrightarrow> has_token a)
     \<and> (au_flight a = [BootMe] \<longrightarrow> au_user a = JNull \<and> has_token a)
     \<and> (\<forall>tok. au_flight a = [SsoMe tok] \<longrightarrow> tok \<noteq> [] \<and> has_token a)"

lemma seq_inv_step:
  assumes inv: "seq_inv a" and typed: "text_tokens x a" and alone: "au_flight a = [] \<or> is_reply x"
  shows "seq_inv (auth_step x a)"
proof (cases x)
  case (AuthReply i r)
  show ?thesis
  proof (cases "au_flight a")
    case Nil
    then show ?thesis using inv AuthReply by simp
  next
    case (Cons c l)
    with inv have "l = []" by (simp add: seq_inv_def)
    with Cons inv typed AuthReply show ?thesis
      by (cases c; cases r; cases i)
        (auto simp: seq_inv_def has_token_def text_tokens_def brings_session_def auth_defs split: option.split)
  qed
qed (use assms in \<open>auto simp: seq_inv_def has_token_def text_tokens_def auth_defs\<close>)

lemma auth_seq_inv: "auth_seq a \<Longrightarrow> seq_inv a"
proof (induction rule: auth_seq.induct)
  case (seq_start tok usr)
  show ?case by (auto simp: seq_inv_def has_token_def auth_defs split: option.split)
qed (rule seq_inv_step)

text \<open>C3: when operations do not overlap and the tokens answered are non-empty texts, the dashboard renders its pages only for a user
  with a token, in the page and in the storage, and once loading is over it either renders them
  or sends the visitor to the login page.\<close>

theorem guard_sound:
  assumes "auth_seq a"
  shows "(guard_render a = Children \<longrightarrow> truthy (au_token a) \<and> ls_token a \<noteq> None \<and> truthy (au_user a))
         \<and> (\<not> au_loading a \<longrightarrow> (guard_render a = Children) \<noteq> (guard_redirect a = Some ''/login''))"
proof -
  have "is_text v \<Longrightarrow> truthy v" for v by (cases v) auto
  with auth_seq_inv [OF assms] show ?thesis
    by (auto simp: seq_inv_def has_token_def guard_render_def guard_redirect_def)
qed

theorem guard_sound_witness:
  "guard_render (auth_step (AuthReply 0 (Inr (JStr ''u''))) (auth_mount (auth_init (Some ''t'') None))) = Children
   \<and> truthy (au_token (auth_step (AuthReply 0 (Inr (JStr ''u''))) (auth_mount (auth_init (Some ''t'') None))))"
proof -
  have "auth_seq (auth_step (AuthReply 0 (Inr (JStr ''u''))) (auth_mount (auth_init (Some ''t'') None)))"
    by (rule auth_seq.seq_step, rule auth_seq.seq_start)
      (auto simp: is_reply_def text_tokens_def brings_session_def auth_defs)
  from guard_sound [OF this] show ?thesis by (simp add: auth_defs guard_render_def)
qed

text \<open>A failure of the boot check that is no refusal of the credentials (a network error,
  a 5xx, an answer that is not JSON) never logs the operator out: the token stays in the page
  and in the storage and the cached user is shown; a 401 or 403 removes both keys.\<close>

theorem boot_failure:
  "boot_failed e a =
     (if \<exists>m. e = ApiError m 401 \<or> e = ApiError m 403
      then a\<lparr>ls_token := None, ls_user := None, au_token := JNull, au_loading := False\<rparr>
      else a\<lparr>au_user := (case ls_user a of Some (Some j) \<Rightarrow> j | _ \<Rightarrow> au_user a), au_loading := False\<rparr>)"
  by (cases e) (auto simp: boot_failed_def rejected_def split: option.split)

subsection \<open>Where overlapping calls go wrong\<close>

text \<open>A login that completes while the boot check of an expired token is under way is
  undone by the answer to that check: the fresh token is removed from page and storage,
  while the user stays shown. A logout during the boot check is undone as well: the answer
  shows the user again, without a token.\<close>

theorem overlapping_boot:
  "(let a = fold auth_step
       [AuthLogin, AuthReply 1 (Inr (JObj [(''token'', JStr ''new''), (''user'', JStr ''u'')])),
        AuthReply 0 (Inl (ApiError ''expired'' 401))] (auth_mount (auth_init (Some ''old'') None))
    in au_user a = JStr ''u'' \<and> au_token a = JNull \<and> ls_token a = None)
   \<and> (let b = fold auth_step [AuthLogout, AuthReply 0 (Inr (JStr ''u''))] (auth_mount (auth_init (Some ''t'') None))
      in guard_render b = Children \<and> au_token b = JNull \<and> ls_user b \<noteq> None)"
  by (simp add: auth_defs guard_render_def obj_get_def)

text \<open>A single sign-on whose user cannot be loaded fails for the page, and still leaves
  its token in the storage.\<close>

theorem failed_sso_keeps_token:
  "let a = fold auth_step [AuthSso tok, AuthReply 0 (Inl e)] (auth_mount (auth_init None None))
   in ls_token a = Some tok \<and> au_token a = JStr tok \<and> au_user a = JNull"
  by (simp add: auth_defs)

text \<open>A password change answered after a logout puts a token back into the storage that nobody has removed
  when the page says signed out.\<close>

theorem password_change_after_logout:
  "let a = fold auth_step [AuthReply 0 (Inr u), AuthChangePw, AuthLogout, AuthReply 0 (Inr (JObj [(''token'', JStr ''new'')]))]
       (auth_mount (auth_init (Some ''old'') None))
   in guard_render a = Nothing \<and> ls_token a = Some ''new''"
  by (simp add: auth_defs guard_render_def obj_get_def)

end
