(* ===== verification/AuthPages.thy ===== *)
theory AuthPages
  imports Session JsRegex
begin

text \<open>
  The pages that start a session: the login form with its second factor and the single
  sign-on callback (\<open>app/login/page.tsx\<close>), the registration form (\<open>app/signup/page.tsx\<close>)
  and the confirmation of an address (\<open>app/verify/page.tsx\<close>). The messages of errors the
  browser itself raises are a parameter \<open>eng\<close>.
\<close>

subsection \<open>Email addresses\<close>

definition mail_char :: "char \<Rightarrow> bool" where
  "mail_char c \<longleftrightarrow> c \<noteq> CHR ''@'' \<and> \<not> is_space c"

definition email_re :: rx where
  "email_re = RSeq (rx_plus (RSet mail_char)) (RSeq (rx_str ''@'') (RSeq (rx_plus (RSet mail_char))
     (RSeq (rx_str ''.'') (rx_plus (RSet mail_char)))))"

definition emailValid :: "string \<Rightarrow> bool" where
  "emailValid s \<longleftrightarrow> rx_test (rx_full email_re) s"

subsection \<open>Login\<close>

record login_page =
  lp_email :: string
  lp_password :: string
  lp_submitting :: bool
  lp_error :: "string option"
  lp_mfa :: bool
  lp_code :: string

definition login_can_submit :: "login_page \<Rightarrow> bool" where
  "login_can_submit p \<longleftrightarrow> emailValid (lp_email p) \<and> 0 < length (lp_password p) \<and> (\<not> lp_mfa p \<or> 6 \<le> length (lp_code p))"

text \<open>The credentials sent, and the state while the call is under way.\<close>

definition login_submit :: "login_page \<Rightarrow> login_page \<times> (string \<times> string \<times> string option) option" where
  "login_submit p =
     (if \<not> login_can_submit p then (p, None)
      else (p\<lparr>lp_submitting := True, lp_error := None\<rparr>,
            Some (lp_email p, lp_password p, if lp_mfa p then Some (lp_code p) else None)))"

definition login_done :: "(exn \<Rightarrow> string) \<Rightarrow> exn + unit \<Rightarrow> login_page \<Rightarrow> login_page \<times> string option" where
  "login_done eng r p =
     (case r of
        Inr _ \<Rightarrow> (p\<lparr>lp_submitting := False\<rparr>, Some ''/dashboard'')
      | Inl e \<Rightarrow>
          let msg = err_message eng e in
          if msg = ''MFA code required''
          then (p\<lparr>lp_mfa := True, lp_error := None, lp_submitting := False\<rparr>, None)
          else (p\<lparr>lp_error := Some msg, lp_code := (if str_includes msg ''MFA'' then [] else lp_code p),
                  lp_submitting := False\<rparr>, None))"

text \<open>The fragment the identity provider returns to: \<open>URLSearchParams\<close> has decoded the error
  already when the page decodes it again.\<close>

datatype sso_outcome = SsoToken string | SsoError string | SsoCrash | SsoNone

definition sso_fragment :: "string \<Rightarrow> sso_outcome" where
  "sso_fragment hash =
     (let ps = parse_params (if starts_with hash ''#'' then tl hash else hash);
          tok = map_of ps ''sso_token''; err = map_of ps ''sso_error''
      in if tok \<noteq> None \<and> tok \<noteq> Some [] then SsoToken (the tok)
         else if err \<noteq> None \<and> err \<noteq> Some [] then
           (if uri_ok (the err) then SsoError (decodeURIComponent (the err)) else SsoCrash)
         else SsoNone)"

subsection \<open>Registration\<close>

record strength_result =
  sr_score :: nat
  sr_label :: string
  sr_color :: string

definition strength_score :: "string \<Rightarrow> nat" where
  "strength_score pw =
     (if 8 \<le> length pw then 1 else 0) +
     (if rx_test (RSet is_upper) pw \<and> rx_test (RSet is_lower) pw then 1 else 0) +
     (if rx_test (RSet is_digit) pw then 1 else 0) +
     (if rx_test (RSet (\<lambda>c. \<not> is_alnum c)) pw then 1 else 0)"

definition strength_map :: "(string \<times> string) list" where
  "strength_map = [(''Too short'', ''#FF4D6D''), (''Weak'', ''#FF4D6D''), (''Fair'', ''#FFB23E''),
     (''Good'', ''#7A3CFF''), (''Strong'', ''#34F5C5'')]"

definition strength :: "string \<Rightarrow> strength_result" where
  "strength pw = (let s = strength_score pw in
     \<lparr>sr_score = s, sr_label = fst (strength_map ! s), sr_color = snd (strength_map ! s)\<rparr>)"

record signup_form =
  sf_name :: string
  sf_email :: string
  sf_company :: string
  sf_password :: string

record signup_page =
  su_form :: signup_form
  su_agree :: bool
  su_submitting :: bool
  su_error :: "string option"
  su_pending :: "string option"

definition signup_can_submit :: "signup_page \<Rightarrow> bool" where
  "signup_can_submit p \<longleftrightarrow> trim (sf_name (su_form p)) \<noteq> [] \<and> emailValid (sf_email (su_form p))
     \<and> 8 \<le> length (sf_password (su_form p)) \<and> su_agree p"

definition signup_body :: "signup_form \<Rightarrow> json" where
  "signup_body f = JObj [(''name'', JStr (trim (sf_name f))), (''email'', JStr (trim (sf_email f))),
     (''password'', JStr (sf_password f)),
     (''company'', if trim (sf_company f) \<noteq> [] then JStr (trim (sf_company f)) else JUndef)]"

definition signup_submit :: "signup_page \<Rightarrow> signup_page \<times> json option" where
  "signup_submit p =
     (if \<not> signup_can_submit p \<or> su_submitting p then (p, None)
      else (p\<lparr>su_submitting := True, su_error := None\<rparr>, Some (signup_body (su_form p))))"

definition signup_error :: "string \<Rightarrow> string" where
  "signup_error msg =
     (if str_includes msg ''already exists'' then ''An account with that email already exists. Try signing in instead.''
      else if starts_with msg ''HTTP'' \<or> str_includes msg ''fetch''
      then ''Could not reach the ThreatOrbit API. Make sure the dashboard service is running, then try again.''
      else if msg \<noteq> [] then msg
      else ''Something went wrong creating your account. Please try again.'')"

text \<open>The answer of \<open>register\<close> as \<open>register_result\<close> gives it.\<close>

definition signup_done ::
  "(exn \<Rightarrow> string) \<Rightarrow> exn + (bool \<times> json \<times> json) \<Rightarrow> signup_page \<Rightarrow> signup_page \<times> string option" where
  "signup_done eng r p =
     (case r of
        Inr (pending, email, message) \<Rightarrow>
          if pending
          then (p\<lparr>su_pending := Some (js_string (nullish email (JStr (trim (sf_email (su_form p)))))),
                  su_submitting := False\<rparr>, None)
          else (p, Some ''/dashboard'')
      | Inl e \<Rightarrow> (p\<lparr>su_error := Some (signup_error (err_message eng e)), su_submitting := False\<rparr>, None))"

text \<open>The price shown beside the form, in the currency sign given.\<close>

definition signup_price :: "string \<Rightarrow> rat option \<Rightarrow> bool \<Rightarrow> string" where
  "signup_price pound price annual =
     (case price of
        None \<Rightarrow> ''Custom pricing''
      | Some x \<Rightarrow>
          if x = 0 then ''Free forever''
          else pound @ num_str (if annual then of_int (js_round (js_mul x (fl (8 / 10)))) else x) @ ''/mo'' @
               (if annual then [CHR '' '', CHR 0xB7, CHR '' ''] @ ''billed annually'' else []))"

subsection \<open>Confirming an address\<close>

datatype verify_state = VLoading | VSuccess json | VError string | VNoToken

definition verify_start :: "string \<Rightarrow> verify_state \<times> string option" where
  "verify_start search =
     (case map_of (parse_params (if starts_with search ''?'' then tl search else search)) ''token'' of
        None \<Rightarrow> (VNoToken, None)
      | Some t \<Rightarrow> if t = [] then (VNoToken, None) else (VLoading, Some t))"

definition verify_done :: "(exn \<Rightarrow> string) \<Rightarrow> exn + json \<Rightarrow> verify_state" where
  "verify_done eng r =
     (case r of
        Inr j \<Rightarrow> if j = JUndef \<or> j = JNull then VError (eng TypeErr) else VSuccess (json_get ''email'' j)
      | Inl e \<Rightarrow> VError (err_message eng e))"

subsection \<open>Addresses: the language of the pattern\<close>

lemma rx_lang_plus_set: "rx_lang (rx_plus (RSet P)) = {w. w \<noteq> [] \<and> list_all P w}"
proof (intro set_eqI)
  fix w
  show "w \<in> rx_lang (rx_plus (RSet P)) \<longleftrightarrow> w \<in> {w. w \<noteq> [] \<and> list_all P w}"
    unfolding rx_lang_cons by (cases w) (auto simp: rx_lang_star_set simp del: rx_lang.simps)
qed

text \<open>An accepted address is a local part, an at sign and a domain with a dot in it, all
  parts without blanks or further at signs, so that the address sent to the API, trimmed,
  is the one that was typed.\<close>

theorem emailValid_iff:
  "(emailValid s \<longleftrightarrow> (\<exists>u v w. s = u @ ''@'' @ v @ ''.'' @ w \<and> u \<noteq> [] \<and> v \<noteq> [] \<and> w \<noteq> []
       \<and> list_all mail_char (u @ v @ w)))
   \<and> (signup_can_submit p \<longrightarrow> json_get ''email'' (signup_body (su_form p)) = JStr (sf_email (su_form p)))"
proof -
  have iff: "emailValid s \<longleftrightarrow> (\<exists>u v w. s = u @ ''@'' @ v @ ''.'' @ w \<and> u \<noteq> [] \<and> v \<noteq> [] \<and> w \<noteq> []
       \<and> list_all mail_char (u @ v @ w))" for s
  proof -
    have "rx_plain email_re" by (simp add: email_re_def)
    then have "emailValid s \<longleftrightarrow> s \<in> rx_lang email_re" by (simp add: emailValid_def rx_test_full)
    also have "rx_lang email_re = {u @ ''@'' @ v @ ''.'' @ w | u v w. u \<noteq> [] \<and> v \<noteq> [] \<and> w \<noteq> []
       \<and> list_all mail_char (u @ v @ w)}"
      unfolding email_re_def
        rx_lang.simps(3) [of "rx_plus _"] rx_lang.simps(3) [of "rx_str _"] rx_lang_plus_set rx_lang_str
      by (simp add: list_all_append) blast
    finally show ?thesis by auto
  qed
  have "trim s = s" if "emailValid s" for s
  proof -
    from that obtain u v w where s: "s = u @ ''@'' @ v @ ''.'' @ w" "u \<noteq> []" "w \<noteq> []"
      "list_all mail_char (u @ v @ w)" by (auto simp: iff)
    then have "\<not> is_space (hd s)" "\<not> is_space (last s)" "s \<noteq> []"
      by (auto simp: hd_append list_all_iff mail_char_def hd_in_set last_in_set)
    then show ?thesis by (simp add: trim_def dropWhile_id hd_rev)
  qed
  with iff show ?thesis by (simp add: signup_can_submit_def signup_body_def obj_get_def)
qed

theorem emailValid_iff_witness:
  "json_get ''email'' (signup_body \<lparr>sf_name = ''A'', sf_email = ''a@b.c'', sf_company = [], sf_password = ''12345678''\<rparr>)
     = JStr ''a@b.c''"
proof -
  define p where "p = \<lparr>su_form = \<lparr>sf_name = ''A'', sf_email = ''a@b.c'', sf_company = [], sf_password = ''12345678''\<rparr>,
     su_agree = True, su_submitting = False, su_error = None, su_pending = None\<rparr>"
  have parts: "''a@b.c'' = ''a'' @ ''@'' @ ''b'' @ ''.'' @ ''c'' \<and> ''a'' \<noteq> [] \<and> ''b'' \<noteq> [] \<and> ''c'' \<noteq> []
       \<and> list_all mail_char (''a'' @ ''b'' @ ''c'')" by (simp add: mail_char_def char_classes)
  have "emailValid ''a@b.c''"
    using emailValid_iff [THEN conjunct1, of "''a@b.c''"] parts by blast
  then have "signup_can_submit p" by (simp add: signup_can_submit_def p_def trim_def char_classes)
  then show ?thesis using emailValid_iff [THEN conjunct2, of p] by (simp add: p_def)
qed

subsection \<open>Password strength\<close>

lemma rx_test_set: "rx_test (RSet P) s \<longleftrightarrow> (\<exists>c \<in> set s. P c)"
proof -
  have "rx_search (RSet P) p s = None \<longleftrightarrow> (\<forall>c \<in> set s. \<not> P c)" for p
    by (induction s arbitrary: p) auto
  then show ?thesis by (simp add: rx_test_def del: not_None_eq)
qed

text \<open>The strength of a password is looked up inside the table; it is \<open>Strong\<close> exactly
  for eight characters with both cases, a digit and a symbol, and adding characters to a
  password never lowers its score.\<close>

theorem strength_spec:
  "sr_score (strength pw) \<le> 4
   \<and> (sr_label (strength pw) = ''Strong'' \<longleftrightarrow>
        8 \<le> length pw \<and> (\<exists>c \<in> set pw. is_upper c) \<and> (\<exists>c \<in> set pw. is_lower c) \<and>
        (\<exists>c \<in> set pw. is_digit c) \<and> (\<exists>c \<in> set pw. \<not> is_alnum c))
   \<and> sr_score (strength pw) \<le> sr_score (strength (u @ pw @ v))"
proof -
  have mono: "strength_score pw \<le> strength_score (u @ pw @ v)"
    by (auto simp: strength_score_def rx_test_set)
  show ?thesis using mono
    by (auto simp: strength_def strength_map_def strength_score_def rx_test_set Let_def)
qed

text \<open>The meter and the form disagree about length: a password of two characters is rated
  above \<open>Too short\<close>, and one of four can be rated \<open>Good\<close>, though the form needs eight.\<close>

theorem strength_ignores_length:
  "sr_label (strength ''aA'') = ''Weak'' \<and> sr_label (strength ''aA1!'') = ''Good''
   \<and> \<not> signup_can_submit (p\<lparr>su_form := f\<lparr>sf_password := ''aA1!''\<rparr>\<rparr>)"
  by (simp add: strength_def strength_map_def strength_score_def rx_test_set char_classes signup_can_submit_def)

subsection \<open>The second factor\<close>

text \<open>An account with a second factor is asked for its code before anything else happens:
  the first attempt sends no code, the refusal shows no error and only asks for the code,
  the form cannot be sent again until there are six characters, and then it sends them.\<close>

theorem login_second_factor:
  assumes "login_submit p = (p1, Some cred)" and "\<not> lp_mfa p" and "err_message eng e = ''MFA code required''"
    and "login_done eng (Inl e) p1 = (p2, nav)"
  shows "snd (snd cred) = None \<and> nav = None \<and> lp_error p2 = None \<and> \<not> lp_submitting p2
    \<and> snd (login_submit (p2\<lparr>lp_code := otp\<rparr>)) =
        (if 6 \<le> length otp then Some (lp_email p, lp_password p, Some otp) else None)"
  using assms by (auto simp: login_submit_def login_done_def login_can_submit_def split: if_splits)

theorem login_second_factor_witness:
  "\<exists>p1 cred p2. login_submit \<lparr>lp_email = ''a@b.c'', lp_password = ''x'', lp_submitting = False, lp_error = None,
       lp_mfa = False, lp_code = []\<rparr> = (p1, Some cred)
     \<and> login_done (\<lambda>_. []) (Inl (ApiError ''MFA code required'' 401)) p1 = (p2, None)
     \<and> snd (login_submit (p2\<lparr>lp_code := ''123456''\<rparr>)) = Some (''a@b.c'', ''x'', Some ''123456'')"
proof -
  let ?p = "\<lparr>lp_email = ''a@b.c'', lp_password = ''x'', lp_submitting = False, lp_error = None,
       lp_mfa = False, lp_code = []\<rparr>"
  have parts: "''a@b.c'' = ''a'' @ ''@'' @ ''b'' @ ''.'' @ ''c'' \<and> ''a'' \<noteq> [] \<and> ''b'' \<noteq> [] \<and> ''c'' \<noteq> []
       \<and> list_all mail_char (''a'' @ ''b'' @ ''c'')" by (simp add: mail_char_def char_classes)
  have "rx_test (rx_full email_re) ''a@b.c''" by code_simp
  then have e: "emailValid ''a@b.c''" by (simp add: emailValid_def)
  define p1 where "p1 = fst (login_submit ?p)"
  define cred where "cred = the (snd (login_submit ?p))"
  have s: "login_submit ?p = (p1, Some cred)"
    by (simp add: p1_def cred_def login_submit_def login_can_submit_def e)
  have d: "login_done (\<lambda>_. []) (Inl (ApiError ''MFA code required'' 401)) p1 =
      (p1\<lparr>lp_mfa := True, lp_error := None, lp_submitting := False\<rparr>, None)"
    by (simp add: login_done_def err_message_def)
  from login_second_factor [OF s _ _ d, of "''123456''"] s d show ?thesis
    by (cases cred) (auto simp: err_message_def)
qed

subsection \<open>The error of a single sign-on\<close>

text \<open>The error text the identity provider hands back is decoded twice: a text without a
  percent sign is shown as it is, and a text whose percent sign starts no escape makes the
  page throw instead of showing the error.\<close>

theorem sso_error_decoded_twice:
  assumes "err \<noteq> []"
  shows "sso_fragment (''#sso_error='' @ form_encode err) =
           (if uri_ok err then SsoError (decodeURIComponent err) else SsoCrash)
       \<and> sso_fragment (''#sso_error='' @ form_encode ''100% denied'') = SsoCrash"
proof -
  have key: "''sso_error='' @ form_encode w = search_params [(''sso_error'', w)]" for w
    by (simp add: search_params_def form_encode_def form_unreserved_def char_classes)
  have "sso_fragment (''#sso_error='' @ form_encode w) =
      (if w = [] then SsoNone else if uri_ok w then SsoError (decodeURIComponent w) else SsoCrash)" for w
  proof -
    have "sso_fragment (''#sso_error='' @ form_encode w) = sso_fragment (''#'' @ search_params [(''sso_error'', w)])"
      by (simp only: key [symmetric]) simp
    also have "\<dots> = (if w = [] then SsoNone else if uri_ok w then SsoError (decodeURIComponent w) else SsoCrash)"
      by (simp add: sso_fragment_def starts_with_def parse_search_params)
    finally show ?thesis .
  qed
  from this [of err] this [of "''100% denied''"] assms show ?thesis
    by (simp add: char_classes)
qed

theorem sso_error_decoded_twice_witness:
  "sso_fragment (''#sso_error='' @ form_encode ''no'') = SsoError ''no''"
  using sso_error_decoded_twice [of "''no''"] by simp

end
