(* ===== verification/SharedCache.thy ===== *)
theory SharedCache
  imports ApiCore
begin

text \<open>
  The two places that share one call between components through module variables: the
  permissions of the caller (\<open>lib/usePermissions.ts\<close>) and the indicator cards
  (\<open>components/dashboard/EntityHoverCard.tsx\<close>). Calls under way are explicit, so that the
  answer may come at any time. What both promise is the locale \<open>shared_fetch\<close>: a ioc that
  is held is not asked for again, so that the number of calls is bounded by the failures.
\<close>

subsection \<open>Permissions\<close>

record my_permissions =
  mp_role :: string
  mp_permissions :: "string list"
  mp_capabilities :: "(string, bool) obj"

datatype promise = Pending | Resolved my_permissions | Rejected

text \<open>A mounted component: what it shows, the promise it waits for, and whether it is still
  there. \<open>pm_promises\<close> are all calls made so far, \<open>pm_inflight\<close> the shared one.\<close>

record perm_hook =
  ph_perms :: "my_permissions option"
  ph_waits :: "nat option"
  ph_active :: bool

record perm_mod =
  pm_cache :: "my_permissions option"
  pm_inflight :: "nat option"
  pm_promises :: "promise list"
  pm_hooks :: "perm_hook list"

definition perm_init :: perm_mod where
  "perm_init = \<lparr>pm_cache = None, pm_inflight = None, pm_promises = [], pm_hooks = []\<rparr>"

text \<open>Waiting for a promise that has settled already shows its value at once.\<close>

definition promise_value :: "perm_mod \<Rightarrow> nat \<Rightarrow> my_permissions option" where
  "promise_value s i = (case pm_promises s ! i of Resolved p \<Rightarrow> Some p | _ \<Rightarrow> None)"

definition perm_mount :: "perm_mod \<Rightarrow> perm_mod" where
  "perm_mount s =
     (case pm_cache s of
        Some p \<Rightarrow> s\<lparr>pm_hooks := pm_hooks s @ [\<lparr>ph_perms = Some p, ph_waits = None, ph_active = True\<rparr>]\<rparr>
      | None \<Rightarrow>
          let s1 = (case pm_inflight s of
                      Some i \<Rightarrow> s
                    | None \<Rightarrow> s\<lparr>pm_inflight := Some (length (pm_promises s)),
                                pm_promises := pm_promises s @ [Pending]\<rparr>);
              i = the (pm_inflight s1)
          in s1\<lparr>pm_hooks := pm_hooks s1 @
               [\<lparr>ph_perms = promise_value s1 i, ph_waits = Some i, ph_active = True\<rparr>]\<rparr>)"

definition perm_unmount :: "nat \<Rightarrow> perm_mod \<Rightarrow> perm_mod" where
  "perm_unmount j s = (if j < length (pm_hooks s)
     then s\<lparr>pm_hooks := (pm_hooks s)[j := (pm_hooks s ! j)\<lparr>ph_active := False\<rparr>]\<rparr> else s)"

definition hook_resolve :: "nat \<Rightarrow> my_permissions \<Rightarrow> perm_hook \<Rightarrow> perm_hook" where
  "hook_resolve i p h = (if ph_waits h = Some i \<and> ph_active h then h\<lparr>ph_perms := Some p\<rparr> else h)"

definition perm_reply :: "nat \<Rightarrow> exn + my_permissions \<Rightarrow> perm_mod \<Rightarrow> perm_mod" where
  "perm_reply i r s =
     (if i < length (pm_promises s) \<and> pm_promises s ! i = Pending then
        (case r of
           Inr p \<Rightarrow> s\<lparr>pm_cache := Some p, pm_promises := (pm_promises s)[i := Resolved p],
                      pm_hooks := map (hook_resolve i p) (pm_hooks s)\<rparr>
         | Inl e \<Rightarrow> s\<lparr>pm_promises := (pm_promises s)[i := Rejected]\<rparr>)
      else s)"

definition resetPermissions :: "perm_mod \<Rightarrow> perm_mod" where
  "resetPermissions s = s\<lparr>pm_cache := None, pm_inflight := None\<rparr>"

text \<open>What a component reads from the hook.\<close>

definition perm_can :: "perm_hook \<Rightarrow> string \<Rightarrow> bool" where
  "perm_can h perm = (case ph_perms h of None \<Rightarrow> False
     | Some p \<Rightarrow> obj_get (mp_capabilities p) perm = Some True)"

definition perm_loaded :: "perm_hook \<Rightarrow> bool" where "perm_loaded h \<longleftrightarrow> ph_perms h \<noteq> None"

definition perm_role :: "perm_hook \<Rightarrow> string option" where
  "perm_role h = map_option mp_role (ph_perms h)"

definition perm_list :: "perm_hook \<Rightarrow> string list" where
  "perm_list h = (case ph_perms h of None \<Rightarrow> [] | Some p \<Rightarrow> mp_permissions p)"

subsection \<open>Indicator cards\<close>

text \<open>The module's two maps; \<open>hc_calls\<close> is the log of the calls sent.\<close>

record card_mod =
  hc_cache :: "(string, json) obj"
  hc_inflight :: "string list"
  hc_calls :: "string list"

definition card_init :: card_mod where
  "card_init = \<lparr>hc_cache = [], hc_inflight = [], hc_calls = []\<rparr>"

text \<open>The cached answer counts when it is truthy, so \<open>null\<close> and \<open>undefined\<close> are asked again.\<close>

definition card_hit :: "card_mod \<Rightarrow> string \<Rightarrow> json" where
  "card_hit s ioc = (case obj_get (hc_cache s) ioc of Some j \<Rightarrow> j | None \<Rightarrow> JUndef)"

definition card_load :: "string \<Rightarrow> card_mod \<Rightarrow> card_mod" where
  "card_load ioc s =
     (if truthy (card_hit s ioc) then s
      else if ioc \<in> set (hc_inflight s) then s
      else s\<lparr>hc_inflight := ioc # hc_inflight s, hc_calls := hc_calls s @ [ioc]\<rparr>)"

definition card_reply :: "string \<Rightarrow> exn + json \<Rightarrow> card_mod \<Rightarrow> card_mod" where
  "card_reply ioc r s =
     (if ioc \<in> set (hc_inflight s) then
        (let s1 = (case r of Inr j \<Rightarrow> s\<lparr>hc_cache := obj_set ioc j (hc_cache s)\<rparr> | Inl e \<Rightarrow> s)
         in s1\<lparr>hc_inflight := removeAll ioc (hc_inflight s1)\<rparr>)
      else s)"

text \<open>One card. The timer is the pending opening.\<close>

record card =
  cd_value :: string
  cd_open :: bool
  cd_data :: json
  cd_failed :: bool
  cd_timer :: bool
  cd_alive :: bool

definition OPEN_DELAY_MS :: int where "OPEN_DELAY_MS = 350"

definition card_new :: "string \<Rightarrow> card_mod \<Rightarrow> card" where
  "card_new ioc s = \<lparr>cd_value = ioc, cd_open = False, cd_data = nullish (card_hit s ioc) JNull,
     cd_failed = False, cd_timer = False, cd_alive = True\<rparr>"

definition card_enter :: "card \<Rightarrow> card" where "card_enter c = c\<lparr>cd_timer := True\<rparr>"

definition card_leave :: "card \<Rightarrow> card" where "card_leave c = c\<lparr>cd_timer := False, cd_open := False\<rparr>"

definition card_fire :: "card \<times> card_mod \<Rightarrow> card \<times> card_mod" where
  "card_fire cs = (case cs of (c, s) \<Rightarrow>
     if \<not> cd_timer c then (c, s)
     else if \<not> truthy (card_hit s (cd_value c)) then (c\<lparr>cd_open := True, cd_timer := False\<rparr>, card_load (cd_value c) s)
     else (c\<lparr>cd_open := True, cd_timer := False, cd_data := card_hit s (cd_value c)\<rparr>, s))"

text \<open>The answer the card was waiting for.\<close>

definition card_result :: "exn + json \<Rightarrow> card \<Rightarrow> card" where
  "card_result r c =
     (if cd_alive c then (case r of Inr j \<Rightarrow> c\<lparr>cd_data := j\<rparr> | Inl e \<Rightarrow> c\<lparr>cd_failed := True\<rparr>) else c)"

datatype card_view = CardClosed | CardUnreachable | CardLooking | CardUnknown | CardShows json

definition card_view_of :: "card \<Rightarrow> card_view" where
  "card_view_of c =
     (if \<not> cd_open c then CardClosed
      else if cd_failed c then CardUnreachable
      else if \<not> truthy (cd_data c) then CardLooking
      else if truthy (json_get ''found'' (cd_data c)) then CardShows (cd_data c) else CardUnknown)"

text \<open>How long ago, from the difference in milliseconds; \<open>None\<close> is the dash shown for a
  missing time.\<close>

definition rel_ago :: "int option \<Rightarrow> string option" where
  "rel_ago ms = (case ms of None \<Rightarrow> None
   | Some d \<Rightarrow>
      (let s = max 0 (d div 1000) in
       if s < 60 then Some (int_str s @ ''s ago'')
       else let m = s div 60 in
         if m < 60 then Some (int_str m @ ''m ago'')
         else let h = m div 60 in
           Some (if h < 24 then int_str h @ ''h ago'' else int_str (h div 24) @ ''d ago'')))"

subsection \<open>The contract\<close>

datatype ('k, 'v) fetch_op = Ask 'k | Got 'k "exn + 'v"

text \<open>The answers for a key that leave nothing to hold.\<close>

fun misses :: "(exn + 'v \<Rightarrow> bool) \<Rightarrow> 'k \<Rightarrow> ('k, 'v) fetch_op list \<Rightarrow> nat" where
  "misses lost k [] = 0"
| "misses lost k (Got k' r # xs) = (if k' = k \<and> lost r then 1 else 0) + misses lost k xs"
| "misses lost k (Ask k' # xs) = misses lost k xs"

locale shared_fetch =
  fixes ask :: "'k \<Rightarrow> 's \<Rightarrow> 's" and reply :: "'k \<Rightarrow> exn + 'v \<Rightarrow> 's \<Rightarrow> 's"
    and held :: "'s \<Rightarrow> 'k \<Rightarrow> bool" and sent :: "'s \<Rightarrow> 'k \<Rightarrow> nat" and inv :: "'s \<Rightarrow> bool"
    and lost :: "exn + 'v \<Rightarrow> bool"
  assumes inv_ask: "inv s \<Longrightarrow> inv (ask k s)"
    and inv_reply: "inv s \<Longrightarrow> inv (reply k r s)"
    and ask_held: "inv s \<Longrightarrow> held s k \<Longrightarrow> sent (ask k s) k = sent s k"
    and ask_sent: "inv s \<Longrightarrow> sent (ask k s) k \<le> Suc (sent s k)"
    and ask_other: "inv s \<Longrightarrow> k' \<noteq> k \<Longrightarrow> sent (ask k s) k' = sent s k' \<and> held (ask k s) k' = held s k'"
    and ask_holds: "inv s \<Longrightarrow> held (ask k s) k"
    and reply_sent: "inv s \<Longrightarrow> sent (reply k r s) k' = sent s k'"
    and reply_ok: "inv s \<Longrightarrow> \<not> lost r \<Longrightarrow> held s k' \<Longrightarrow> held (reply k r s) k'"
    and reply_other: "inv s \<Longrightarrow> k' \<noteq> k \<Longrightarrow> held s k' \<Longrightarrow> held (reply k r s) k'"
begin

fun fstep :: "('k, 'v) fetch_op \<Rightarrow> 's \<Rightarrow> 's" where
  "fstep (Ask k) s = ask k s"
| "fstep (Got k r) s = reply k r s"

lemma inv_step: "inv s \<Longrightarrow> inv (fstep x s)"
  by (cases x) (auto simp: inv_ask inv_reply)

text \<open>Calls made for a key, against the failures it saw.\<close>

lemma sent_step:
  assumes "inv s"
  shows "sent (fstep x s) k + (if held s k then 1 else 0)
           \<le> sent s k + misses lost k [x] + (if held (fstep x s) k then 1 else 0)"
proof (cases x)
  case (Ask k')
  then show ?thesis
    using assms ask_held [of s k'] ask_sent [of s k'] ask_other [of s k k'] ask_holds [of s k']
    by (cases "k' = k") auto
next
  case (Got k' r)
  then show ?thesis using assms reply_sent [of s k' r k] reply_other [of s k k' r] reply_ok [of s r k k'] by auto
qed

lemma misses_Cons: "misses l k (x # xs) = misses l k [x] + misses l k xs"
  by (cases x) auto

lemma calls_bounded:
  assumes "inv s"
  shows "sent (fold fstep xs s) k + (if held s k then 1 else 0)
           \<le> sent s k + misses lost k xs + (if held (fold fstep xs s) k then 1 else 0)"
  using assms
proof (induction xs arbitrary: s)
  case (Cons x xs)
  then show ?case
    using sent_step [OF Cons.prems, of x k] Cons.IH [OF inv_step [OF Cons.prems], of x]
      misses_Cons [of lost k x xs] by simp
qed simp

end

subsection \<open>Both caches meet it\<close>

definition perm_ask :: "unit \<Rightarrow> perm_mod \<Rightarrow> perm_mod" where "perm_ask k s = perm_mount s"

definition perm_answer :: "unit \<Rightarrow> exn + my_permissions \<Rightarrow> perm_mod \<Rightarrow> perm_mod" where
  "perm_answer k r s = (case pm_inflight s of None \<Rightarrow> s | Some i \<Rightarrow> perm_reply i r s)"

interpretation perms: shared_fetch perm_ask perm_answer
    "\<lambda>s k. pm_cache s \<noteq> None \<or> pm_inflight s \<noteq> None" "\<lambda>s k. length (pm_promises s)" "\<lambda>s. True" isl
  by unfold_locales
    (auto simp: perm_ask_def perm_answer_def perm_mount_def perm_reply_def Let_def split: option.splits sum.splits)

definition card_lost :: "exn + json \<Rightarrow> bool" where
  "card_lost r = (case r of Inl e \<Rightarrow> True | Inr j \<Rightarrow> \<not> truthy j)"

interpretation cards: shared_fetch card_load card_reply
    "\<lambda>s k. truthy (card_hit s k) \<or> k \<in> set (hc_inflight s)"
    "\<lambda>s k. count_list (hc_calls s) k" "\<lambda>s. True" card_lost
  by unfold_locales (auto simp: card_load_def card_reply_def card_hit_def card_lost_def Let_def split: sum.splits)

text \<open>C19: however many cards hover over an indicator, in whatever order answers arrive, the number of
  lookups sent for it is at most one more than the number that failed or answered nothing
  (\<open>null\<close>, an empty body), and none is sent for an indicator the page already holds.\<close>

theorem card_calls_bounded:
  "count_list (hc_calls (fold (\<lambda>x. case x of Ask k \<Rightarrow> card_load k | Got k r \<Rightarrow> card_reply k r) xs card_init)) ioc
     \<le> length [x \<leftarrow> xs. \<exists>r. x = Got ioc r \<and> (\<forall>j. r = Inr j \<longrightarrow> \<not> truthy j)] + 1
   \<and> (truthy (case obj_get (hc_cache s) ioc of Some j \<Rightarrow> j | None \<Rightarrow> JUndef) \<longrightarrow> card_load ioc s = s)"
proof -
  have "cards.fstep = (\<lambda>x. case x of Ask k \<Rightarrow> card_load k | Got k r \<Rightarrow> card_reply k r)"
    by (rule ext, case_tac x) auto
  moreover have "misses card_lost ioc xs = length [x \<leftarrow> xs. \<exists>r. x = Got ioc r \<and> (\<forall>j. r = Inr j \<longrightarrow> \<not> truthy j)]"
    by (induction card_lost ioc xs rule: misses.induct) (auto simp: card_lost_def split: sum.splits)
  ultimately show ?thesis
    using cards.calls_bounded [where s = card_init and xs = xs and k = ioc]
    by (auto simp: card_init_def card_load_def card_hit_def obj_get_def split: if_splits)
qed

theorem card_calls_bounded_witness:
  "card_load ''1.2.3.4'' \<lparr>hc_cache = [(''1.2.3.4'', JObj [(''found'', JBool True)])], hc_inflight = [], hc_calls = [''1.2.3.4'']\<rparr>
     = \<lparr>hc_cache = [(''1.2.3.4'', JObj [(''found'', JBool True)])], hc_inflight = [], hc_calls = [''1.2.3.4'']\<rparr>"
  using card_calls_bounded [of "[]" "''1.2.3.4''"
      "\<lparr>hc_cache = [(''1.2.3.4'', JObj [(''found'', JBool True)])], hc_inflight = [], hc_calls = [''1.2.3.4'']\<rparr>"]
  by (simp add: obj_get_def)

text \<open>An indicator whose lookup answers nothing is looked up again by every hover, and the card says that it
  is looking for ever.\<close>

theorem empty_answer_asked_again:
  assumes "ioc \<in> set (hc_inflight s)" "hc_inflight s = [ioc]"
  shows "hc_calls (card_load ioc (card_reply ioc (Inr JUndef) s)) = hc_calls s @ [ioc]"
  using assms by (simp add: card_load_def card_reply_def card_hit_def)

text \<open>A card that failed once says the store cannot be reached for good: a later lookup of
  the same card that succeeds does not change what it shows.\<close>

theorem failed_card_stays_failed:
  assumes "cd_failed c"
  shows "card_view_of (card_result (Inr j) (fst (card_fire (card_enter c, s)))) = CardUnreachable"
  using assms by (auto simp: card_fire_def card_enter_def card_result_def card_view_of_def split: option.split)

theorem failed_card_stays_failed_witness:
  "card_view_of (card_result (Inr j) (fst (card_fire
     (card_enter (card_result (Inl NetworkError) (card_new ''1.2.3.4'' card_init)), card_init)))) = CardUnreachable"
  by (rule failed_card_stays_failed) (simp add: card_result_def card_new_def)

subsection \<open>Permissions fail closed\<close>

datatype perm_op = PMount | PUnmount nat | PReply nat "exn + my_permissions" | PReset

fun perm_step :: "perm_op \<Rightarrow> perm_mod \<Rightarrow> perm_mod" where
  "perm_step PMount s = perm_mount s"
| "perm_step (PUnmount j) s = perm_unmount j s"
| "perm_step (PReply i r) s = perm_reply i r s"
| "perm_step PReset s = resetPermissions s"

definition answered :: "perm_op list \<Rightarrow> my_permissions set" where
  "answered xs = {p. \<exists>i. PReply i (Inr p) \<in> set xs}"

definition perm_from :: "my_permissions set \<Rightarrow> perm_mod \<Rightarrow> bool" where
  "perm_from A s \<longleftrightarrow> (\<forall>p. pm_cache s = Some p \<longrightarrow> p \<in> A)
     \<and> (\<forall>p. Resolved p \<in> set (pm_promises s) \<longrightarrow> p \<in> A)
     \<and> (\<forall>h \<in> set (pm_hooks s). \<forall>p. ph_perms h = Some p \<longrightarrow> p \<in> A)
     \<and> (\<forall>i. pm_inflight s = Some i \<longrightarrow> i < length (pm_promises s))"

lemma promise_value_in: "promise_value s i = Some p \<Longrightarrow> i < length (pm_promises s) \<Longrightarrow> Resolved p \<in> set (pm_promises s)"
  by (auto simp: promise_value_def split: promise.splits) (metis nth_mem)

lemma perm_from_mount: "perm_from A s \<Longrightarrow> perm_from A (perm_mount s)"
  by (auto simp: perm_from_def perm_mount_def Let_def nth_append promise_value_def
      split: option.splits promise.splits) (metis nth_mem)+

lemma perm_from_reply: "perm_from A s \<Longrightarrow> (\<And>p. r = Inr p \<Longrightarrow> p \<in> A) \<Longrightarrow> perm_from A (perm_reply i r s)"
  by (auto simp: perm_from_def perm_reply_def hook_resolve_def split: sum.split dest!: set_update_subset_insert [THEN subsetD])

lemma perm_from_unmount: "perm_from A s \<Longrightarrow> perm_from A (perm_unmount j s)"
  using nth_mem [of j "pm_hooks s"]
  by (fastforce simp: perm_from_def perm_unmount_def dest!: set_update_subset_insert [THEN subsetD])

lemma perm_from_reset: "perm_from A s \<Longrightarrow> perm_from A (resetPermissions s)"
  by (simp add: perm_from_def resetPermissions_def)

lemma perm_from_step:
  "perm_from A s \<Longrightarrow> (\<And>i p. x = PReply i (Inr p) \<Longrightarrow> p \<in> A) \<Longrightarrow> perm_from A (perm_step x s)"
  by (cases x) (auto simp: perm_from_mount perm_from_unmount perm_from_reset intro: perm_from_reply)

lemma perm_from_run: "perm_from A s \<Longrightarrow> answered xs \<subseteq> A \<Longrightarrow> perm_from A (fold perm_step xs s)"
proof (induction xs arbitrary: s)
  case (Cons x xs)
  from Cons.prems have "perm_from A (perm_step x s)" by (intro perm_from_step) (auto simp: answered_def)
  with Cons show ?case by (force simp: answered_def)
qed simp

text \<open>C18: A control is shown only when the server has confirmed the capability: before any
  answer, and after every failure, \<open>can\<close> is false.\<close>

theorem can_confirmed:
  assumes "h \<in> set (pm_hooks (fold perm_step xs perm_init))" and "perm_can h perm"
  shows "\<exists>i p. PReply i (Inr p) \<in> set xs \<and> obj_get (mp_capabilities p) perm = Some True"
proof -
  have "perm_from (answered xs) (fold perm_step xs perm_init)"
    by (rule perm_from_run) (auto simp: perm_from_def perm_init_def)
  with assms show ?thesis
    by (fastforce simp: perm_from_def perm_can_def answered_def split: option.splits)
qed

theorem can_confirmed_witness:
  "\<exists>i p. PReply i (Inr p) \<in> set [PMount, PReply 0 (Inr \<lparr>mp_role = ''admin'', mp_permissions = [],
      mp_capabilities = [(''siem.write'', True)]\<rparr>)] \<and> obj_get (mp_capabilities p) ''siem.write'' = Some True"
  by (rule can_confirmed [of "\<lparr>ph_perms = Some \<lparr>mp_role = ''admin'', mp_permissions = [],
      mp_capabilities = [(''siem.write'', True)]\<rparr>, ph_waits = Some 0, ph_active = True\<rparr>"])
    (simp_all add: perm_init_def perm_mount_def perm_reply_def hook_resolve_def promise_value_def Let_def
      perm_can_def obj_get_def)

subsection \<open>Permissions outlive the session\<close>

definition no_reset :: "perm_op \<Rightarrow> bool" where
  "no_reset x \<longleftrightarrow> (case x of PReset \<Rightarrow> False | PReply i (Inr p) \<Rightarrow> False | _ \<Rightarrow> True)"

lemma cached_step: "pm_cache s = Some p \<Longrightarrow> no_reset x \<Longrightarrow> pm_cache (perm_step x s) = Some p"
  by (cases x) (auto simp: no_reset_def perm_mount_def perm_unmount_def perm_reply_def split: sum.splits)

lemma cached_run: "pm_cache s = Some p \<Longrightarrow> list_all no_reset xs \<Longrightarrow> pm_cache (fold perm_step xs s) = Some p"
  by (induction xs arbitrary: s) (auto simp: cached_step)

text \<open>Nothing but \<open>resetPermissions\<close> drops the permissions that were loaded, and neither
  \<open>logout\<close> nor a login calls it: every component mounted later, for whichever user, decides
  with the permissions of the first. A failed call is not repeated either: its rejected
  promise stays the shared one.\<close>

theorem permissions_outlive_session:
  assumes "pm_cache s = Some p" and "list_all no_reset xs"
  shows "ph_perms (last (pm_hooks (perm_mount (fold perm_step xs s)))) = Some p
    \<and> (let f = fold perm_step [PMount, PReply 0 (Inl NetworkError), PMount] perm_init
       in pm_promises f = [Rejected] \<and> \<not> perm_loaded (last (pm_hooks f)))"
  using cached_run [OF assms]
  by (simp add: perm_mount_def perm_init_def perm_reply_def promise_value_def perm_loaded_def Let_def)

theorem permissions_outlive_session_witness:
  "let p = \<lparr>mp_role = ''admin'', mp_permissions = [''*''], mp_capabilities = []\<rparr>;
       s = fold perm_step [PMount, PReply 0 (Inr p)] perm_init
   in ph_perms (last (pm_hooks (perm_mount (fold perm_step [PUnmount 0] s)))) = Some p"
proof -
  let ?p = "\<lparr>mp_role = ''admin'', mp_permissions = [''*''], mp_capabilities = []\<rparr>"
  have "pm_cache (fold perm_step [PMount, PReply 0 (Inr ?p)] perm_init) = Some ?p"
    by (simp add: perm_init_def perm_mount_def perm_reply_def Let_def)
  from permissions_outlive_session [OF this, of "[PUnmount 0]"] show ?thesis
    by (simp add: no_reset_def)
qed

end
