(* ===== verification/LiveStream.thy ===== *)
theory LiveStream
  imports ApiCore
begin

text \<open>
  The live event stream, \<open>lib/useLiveStream.ts\<close>: the connection as a step relation, and
  the delivery of one event. Asynchronous parts are counted: timers that will call
  \<open>connect\<close>, tickets being minted, and the event sources created, with the ready state of
  each. The browser's own reconnecting of a source that is not closed changes nothing here.
\<close>

subsection \<open>Delivery of an event\<close>

definition NAMED :: "string list" where
  "NAMED = [''notification'', ''tick'', ''alert.created'', ''case.created'', ''incident.resolved'',
     ''ioc.confirmed'', ''playbook.completed'', ''playbook.action'', ''playbook.failed'',
     ''darkweb.takedown'', ''connector.work'']"

text \<open>The data of the event, as the text and what \<open>JSON.parse\<close> makes of it.\<close>

definition live_data :: "string \<Rightarrow> json option \<Rightarrow> json" where
  "live_data text parsed = (if text = [] then JObj [] else case parsed of None \<Rightarrow> JObj [] | Some j \<Rightarrow> j)"

datatype live_target = Callback | WindowEvent string

text \<open>\<open>handle(type)\<close>: who is told of an event, in order.\<close>

definition live_handle :: "string \<Rightarrow> string \<Rightarrow> json option \<Rightarrow> (live_target \<times> string \<times> json) list" where
  "live_handle ty text parsed =
     (let d = live_data text parsed in
      [(Callback, ty, d), (WindowEvent ''live'', ty, d), (WindowEvent (''live:'' @ ty), ty, d)])"

text \<open>An event without a name reaches \<open>onmessage\<close>, a named one only its own listener.\<close>

definition live_deliver :: "string option \<Rightarrow> string \<Rightarrow> json option \<Rightarrow> (live_target \<times> string \<times> json) list" where
  "live_deliver name text parsed =
     (case name of
        None \<Rightarrow> live_handle ''message'' text parsed
      | Some t \<Rightarrow> if t \<in> set NAMED then live_handle t text parsed
                  else if t = ''message'' then live_handle ''message'' text parsed else [])"

subsection \<open>The connection\<close>

record stream =
  st_closed :: bool
  st_timers :: nat
  st_minting :: nat
  st_sources :: "bool list"

text \<open>A source is true while it is not closed. \<open>es\<close> is the source created last.\<close>

definition es_closed :: "stream \<Rightarrow> bool" where
  "es_closed s \<longleftrightarrow> st_sources s \<noteq> [] \<and> \<not> last (st_sources s)"

definition connect :: "stream \<Rightarrow> stream" where
  "connect s = (if st_closed s then s else s\<lparr>st_minting := Suc (st_minting s)\<rparr>)"

definition stream_mount :: stream where
  "stream_mount = connect \<lparr>st_closed = False, st_timers = 0, st_minting = 0, st_sources = []\<rparr>"

definition minted :: "string option \<Rightarrow> stream \<Rightarrow> stream" where
  "minted url s =
     (let s = s\<lparr>st_minting := st_minting s - 1\<rparr> in
      if url = None \<or> url = Some [] \<or> st_closed s then s
      else s\<lparr>st_sources := st_sources s @ [True]\<rparr>)"

text \<open>The server ended source \<open>k\<close> for good and the browser reports the error.\<close>

definition source_lost :: "nat \<Rightarrow> stream \<Rightarrow> stream" where
  "source_lost k s =
     (let s = s\<lparr>st_sources := (st_sources s)[k := False]\<rparr> in
      if es_closed s \<and> \<not> st_closed s then s\<lparr>st_timers := Suc (st_timers s)\<rparr> else s)"

definition timer_fires :: "stream \<Rightarrow> stream" where
  "timer_fires s = connect (s\<lparr>st_timers := st_timers s - 1\<rparr>)"

definition stream_unmount :: "stream \<Rightarrow> stream" where
  "stream_unmount s = s\<lparr>st_closed := True,
     st_sources := (if st_sources s = [] then [] else butlast (st_sources s) @ [False])\<rparr>"

inductive stream_step :: "stream \<Rightarrow> stream \<Rightarrow> bool" where
  mint: "0 < st_minting s \<Longrightarrow> stream_step s (minted url s)"
| lost: "k < length (st_sources s) \<Longrightarrow> st_sources s ! k \<Longrightarrow> stream_step s (source_lost k s)"
| fire: "0 < st_timers s \<Longrightarrow> stream_step s (timer_fires s)"
| unmount: "\<not> st_closed s \<Longrightarrow> stream_step s (stream_unmount s)"

inductive_cases stream_stepE: "stream_step s t"

inductive stream_reach :: "stream \<Rightarrow> bool" where
  reach_mount: "stream_reach stream_mount"
| reach_step: "stream_reach s \<Longrightarrow> stream_step s t \<Longrightarrow> stream_reach t"

subsection \<open>At most one connection\<close>

text \<open>Only the last source can be open, and it excludes a timer and a ticket under way.\<close>

definition stream_inv :: "stream \<Rightarrow> bool" where
  "stream_inv s \<longleftrightarrow>
     list_all Not (butlast (st_sources s)) \<and>
     st_timers s + st_minting s + (if st_sources s \<noteq> [] \<and> last (st_sources s) then 1 else 0) \<le> 1 \<and>
     (st_closed s \<longrightarrow> list_all Not (st_sources s))"

lemma list_all_butlast_last: "xs \<noteq> [] \<Longrightarrow> list_all P xs \<longleftrightarrow> list_all P (butlast xs) \<and> P (last xs)"
  by (cases xs rule: rev_cases) auto

lemma open_source_last:
  "list_all Not (butlast xs) \<Longrightarrow> k < length xs \<Longrightarrow> xs ! k \<Longrightarrow> k = length xs - 1"
proof (rule ccontr)
  assume h: "list_all Not (butlast xs)" "k < length xs" "xs ! k" "k \<noteq> length xs - 1"
  then have "k < length (butlast xs)" by simp
  moreover have "butlast xs ! k" using h calculation by (simp add: nth_butlast)
  ultimately show False using h(1) by (auto simp: list_all_length)
qed

lemma stream_inv_step: "stream_inv s \<Longrightarrow> stream_step s t \<Longrightarrow> stream_inv t"
proof (erule stream_stepE)
  fix url assume "stream_inv s" "t = minted url s" "0 < st_minting s"
  then show ?thesis
    by (cases "st_sources s = []")
      (auto simp: stream_inv_def minted_def list_all_butlast_last Let_def split: if_splits)
next
  fix k assume h: "stream_inv s" "t = source_lost k s" "k < length (st_sources s)" "st_sources s ! k"
  then have k: "k = length (st_sources s) - 1" and ne: "st_sources s \<noteq> []"
    using open_source_last [of "st_sources s" k] by (auto simp: stream_inv_def)
  then have upd: "(st_sources s)[k := False] = butlast (st_sources s) @ [False]"
    by (metis append_butlast_last_id length_butlast list_update_length)
  have "last (st_sources s)" using h(4) k ne by (simp add: last_conv_nth)
  then show ?thesis using h(1,2) ne
    by (simp add: stream_inv_def source_lost_def upd es_closed_def Let_def list_all_append)
next
  assume "stream_inv s" "t = timer_fires s" "0 < st_timers s"
  then show ?thesis by (auto simp: stream_inv_def timer_fires_def connect_def split: if_splits)
next
  assume "stream_inv s" "t = stream_unmount s" "\<not> st_closed s"
  then show ?thesis by (auto simp: stream_inv_def stream_unmount_def list_all_append split: if_splits)
qed

lemma stream_reach_inv: "stream_reach s \<Longrightarrow> stream_inv s"
proof (induction rule: stream_reach.induct)
  case reach_mount
  show ?case by (simp add: stream_inv_def stream_mount_def connect_def)
qed (rule stream_inv_step)

lemma count_open: "list_all Not (butlast xs) \<Longrightarrow>
    length (filter (\<lambda>x. x) xs) = (if xs \<noteq> [] \<and> last xs then 1 else 0)"
proof (cases xs rule: rev_cases)
  case (snoc ys y)
  assume "list_all Not (butlast xs)"
  with snoc show ?thesis by (simp add: list_all_iff filter_empty_conv)
qed simp

text \<open>C9: at every moment a component that uses the stream has at most one open event source, and while one is open no
  further one is on its way; once the component is unmounted no source is open and none will
  be opened.\<close>

theorem one_connection:
  assumes "stream_reach s"
  shows "length (filter (\<lambda>x. x) (st_sources s)) + st_timers s + st_minting s \<le> 1
    \<and> (st_closed s \<longrightarrow> True \<notin> set (st_sources s) \<and> (\<forall>t. stream_step s t \<longrightarrow> st_sources t = st_sources s \<and> st_closed t))"
proof -
  have inv: "stream_inv s" using assms by (rule stream_reach_inv)
  have "length (filter (\<lambda>x. x) (st_sources s)) + st_timers s + st_minting s \<le> 1"
    using inv count_open [of "st_sources s"] by (simp add: stream_inv_def)
  moreover have "True \<notin> set (st_sources s)" if "st_closed s"
    using inv that by (auto simp: stream_inv_def list_all_iff)
  moreover have "st_sources t = st_sources s \<and> st_closed t" if "st_closed s" "stream_step s t" for t
    using that(2)
  proof (cases rule: stream_step.cases)
    case (lost k)
    then show ?thesis using inv that(1) by (auto simp: stream_inv_def list_all_length)
  qed (use that(1) in \<open>auto simp: minted_def timer_fires_def connect_def Let_def\<close>)
  ultimately show ?thesis by blast
qed

theorem one_connection_witness:
  "True \<notin> set (st_sources (stream_unmount (minted (Some ''u'') stream_mount)))"
proof -
  have m: "stream_step stream_mount (minted (Some ''u'') stream_mount)"
    by (rule mint) (simp add: stream_mount_def connect_def)
  have u: "stream_step (minted (Some ''u'') stream_mount) (stream_unmount (minted (Some ''u'') stream_mount))"
    by (rule unmount) (simp add: stream_mount_def connect_def minted_def)
  have "stream_reach (stream_unmount (minted (Some ''u'') stream_mount))"
    by (rule reach_step [OF reach_step [OF reach_mount m] u])
  moreover have "st_closed (stream_unmount (minted (Some ''u'') stream_mount))" by (simp add: stream_unmount_def)
  ultimately show ?thesis using one_connection by blast
qed

subsection \<open>When reconnecting stops\<close>

definition stream_dead :: "stream \<Rightarrow> bool" where
  "stream_dead s \<longleftrightarrow> True \<notin> set (st_sources s) \<and> st_timers s = 0 \<and> st_minting s = 0"

lemma dead_step: "stream_dead s \<Longrightarrow> stream_step s t \<Longrightarrow> stream_dead t"
  by (erule stream_stepE) (auto simp: stream_dead_def stream_unmount_def dest: nth_mem in_set_butlastD split: if_splits)

text \<open>C23: A lost connection is replaced as long as tickets can be minted, but a single ticket
  that cannot be had, for instance because the API is still restarting three seconds after
  it dropped the stream, ends the stream for good: no sequence of events opens a source
  again while the component stays mounted.\<close>

theorem stream_dies_without_ticket:
  assumes "stream_reach s" and "st_minting s = 1" and "stream_step\<^sup>*\<^sup>* (minted None s) t"
  shows "stream_dead t"
proof -
  have "stream_inv s" using assms(1) by (rule stream_reach_inv)
  then have "length (filter (\<lambda>x. x) (st_sources s)) = 0" "st_timers s = 0"
    using assms(2) count_open [of "st_sources s"] by (auto simp: stream_inv_def split: if_splits)
  then have "stream_dead (minted None s)"
    using assms(2) by (auto simp: stream_dead_def minted_def filter_empty_conv Let_def)
  with assms(3) show ?thesis by (induction rule: rtranclp_induct) (auto intro: dead_step)
qed

theorem stream_dies_without_ticket_witness:
  "stream_dead (minted None (timer_fires (source_lost 0 (minted (Some ''u'') stream_mount))))"
proof -
  have m: "stream_step stream_mount (minted (Some ''u'') stream_mount)"
    by (rule mint) (simp add: stream_mount_def connect_def)
  have l: "stream_step (minted (Some ''u'') stream_mount) (source_lost 0 (minted (Some ''u'') stream_mount))"
    by (rule lost) (simp_all add: stream_mount_def connect_def minted_def)
  have f: "stream_step (source_lost 0 (minted (Some ''u'') stream_mount))
      (timer_fires (source_lost 0 (minted (Some ''u'') stream_mount)))"
    by (rule fire) (simp add: stream_mount_def connect_def minted_def source_lost_def es_closed_def)
  have r: "stream_reach (timer_fires (source_lost 0 (minted (Some ''u'') stream_mount)))"
    by (rule reach_step [OF reach_step [OF reach_step [OF reach_mount m] l] f])
  show ?thesis
    by (rule stream_dies_without_ticket [OF r])
      (simp_all add: stream_mount_def connect_def minted_def source_lost_def es_closed_def timer_fires_def)
qed

text \<open>An event is told to the callback and to both window events exactly when it has no
  name, the name \<open>message\<close>, or one of the names registered; any other named event is lost.\<close>

theorem live_delivery:
  "map fst (live_deliver name text parsed) =
     (if name = None \<or> name = Some ''message'' \<or> the name \<in> set NAMED
      then [Callback, WindowEvent ''live'', WindowEvent (''live:'' @ (case name of None \<Rightarrow> ''message'' | Some t \<Rightarrow> t))]
      else [])"
  by (auto simp: live_deliver_def live_handle_def Let_def split: option.split)

end
