(* ===== verification/Helpers.thy ===== *)
theory Helpers
  imports JsRegex
begin

text \<open>
  The helpers the pages share: number and cadence labels and the provenance of an indicator
  (\<open>lib/utils.ts\<close>), the colours that follow the theme (\<open>lib/colors.ts\<close>), the performance
  signals (\<open>lib/usePerf.ts\<close>), the subscription plans (\<open>lib/plans.ts\<close>) and the rows of a long
  table that are mounted (\<open>lib/useWindowedRows.ts\<close>).
\<close>

subsection \<open>Labels\<close>

definition formatNumber :: "rat \<Rightarrow> string" where
  "formatNumber n =
     (if 1000000 \<le> n then to_fixed 1 (js_div n 1000000) @ ''M''
      else if 1000 \<le> n then to_fixed 0 (js_div n 1000) @ ''K''
      else num_str n)"

text \<open>\<open>x % y\<close> for a positive divisor; the remainder is exact.\<close>

definition js_mod :: "rat \<Rightarrow> rat \<Rightarrow> rat" where
  "js_mod x y = (if x < 0 then - (- x - y * of_int \<lfloor>- x / y\<rfloor>) else x - y * of_int \<lfloor>x / y\<rfloor>)"

definition formatEvery :: "rat \<Rightarrow> string" where
  "formatEvery secs =
     (if secs \<le> 0 then ''-''
      else if secs < 60 then int_str (js_round secs) @ ''s''
      else if secs < 3600 then
        (if js_mod secs 60 \<noteq> 0
         then int_str (js_floor (js_div secs 60)) @ ''m '' @ num_str (js_mod secs 60) @ ''s''
         else num_str (js_div secs 60) @ ''m'')
      else if js_mod secs 3600 \<noteq> 0
      then int_str (js_floor (js_div secs 3600)) @ ''h '' @ int_str (js_round (js_div (js_mod secs 3600) 60)) @ ''m''
      else num_str (js_div secs 3600) @ ''h'')"

definition isSimulatedSource :: "string option \<Rightarrow> bool" where
  "isSimulatedSource source \<longleftrightarrow>
     (case source of None \<Rightarrow> False | Some s \<Rightarrow> s \<noteq> [] \<and> starts_with (toLowerCase s) ''engine:'')"

definition provenanceLabel :: "string option \<Rightarrow> string" where
  "provenanceLabel source = (if isSimulatedSource source then ''Simulated'' else ''Real feed'')"

subsection \<open>Colours\<close>

datatype theme_token = Magenta | Violet | Amber | Teal | Threat | Safe | Ink

fun VAR :: "theme_token \<Rightarrow> string" where
  "VAR Magenta = ''--magenta''"
| "VAR Violet = ''--violet''"
| "VAR Amber = ''--amber''"
| "VAR Teal = ''--teal''"
| "VAR Threat = ''--threat''"
| "VAR Safe = ''--safe''"
| "VAR Ink = ''--ink-400''"

definition tk :: "theme_token \<Rightarrow> string" where
  "tk name = ''rgb(var('' @ VAR name @ ''))''"

definition rgb_var_re :: rx where
  "rgb_var_re = RSeq (rx_str ''rgb('') (RSeq (RStar (RSet is_space))
     (RSeq (RGrp 1 (RSeq (rx_str ''var(--'') (RSeq (rx_plus (RSet (\<lambda>c. is_word c \<or> c = CHR ''-''))) (rx_str '')''))))
     (RSeq (RStar (RSet is_space)) (rx_str '')''))))"

definition hex_run_re :: rx where "hex_run_re = rx_times 6 (RSet is_hex)"

text \<open>\<open>color.replace('#', '')\<close> removes the first hash sign.\<close>

fun drop_hash :: "string \<Rightarrow> string" where
  "drop_hash [] = []"
| "drop_hash (c # s) = (if c = CHR ''#'' then s else c # drop_hash s)"

definition alpha_byte :: "rat \<Rightarrow> int" where
  "alpha_byte a = js_round (js_mul (max 0 (min 1 a)) 255)"

definition withAlpha :: "string \<Rightarrow> rat \<Rightarrow> string" where
  "withAlpha color a =
     (case rx_search (rx_full rgb_var_re) None color of
        Some (b, m, st) \<Rightarrow> ''rgb('' @ cap 1 (snd (snd st)) @ '' / '' @ num_str a @ '')''
      | None \<Rightarrow>
          (let hex = drop_hash color in
           if rx_test (rx_full hex_run_re) hex
           then ''#'' @ hex @ pad_start 2 (CHR ''0'') (base_str 16 (alpha_byte a))
           else color))"

definition SEVERITY_COLORS :: "(string, string) obj" where
  "SEVERITY_COLORS = [(''critical'', tk Magenta), (''high'', tk Threat), (''medium'', tk Amber),
     (''low'', tk Safe), (''info'', tk Violet)]"

definition STATUS_COLORS :: "(string, string) obj" where
  "STATUS_COLORS = [(''open'', tk Threat), (''active'', tk Magenta), (''new'', tk Magenta),
     (''triaged'', tk Amber), (''in-progress'', tk Amber), (''pending'', tk Amber),
     (''resolved'', tk Safe), (''closed'', tk Safe), (''patched'', tk Safe), (''accepted'', tk Violet)]"

definition CHART_PALETTE :: "(string, string) obj" where
  "CHART_PALETTE = [(''magenta'', tk Magenta), (''red'', tk Threat), (''amber'', tk Amber),
     (''orange'', ''#FF9B2E''), (''violet'', tk Violet), (''lavender'', ''#A78BFA''),
     (''teal'', tk Teal), (''mint'', tk Safe)]"

subsection \<open>Performance signals\<close>

definition isLowPower :: "nat option \<Rightarrow> bool \<Rightarrow> int \<Rightarrow> bool" where
  "isLowPower hardwareConcurrency coarse innerWidth \<longleftrightarrow>
     coarse \<or> (case hardwareConcurrency of None \<Rightarrow> 8 | Some n \<Rightarrow> n) \<le> 4 \<or> innerWidth < 768"

definition clampDelta :: "rat \<Rightarrow> rat option \<Rightarrow> rat" where
  "clampDelta dt maxd = (let m = (case maxd of None \<Rightarrow> fl (5 / 100) | Some m \<Rightarrow> m) in if m < dt then m else dt)"

definition viewport_visible :: "rat \<Rightarrow> rat \<Rightarrow> rat \<Rightarrow> int \<Rightarrow> bool" where
  "viewport_visible r_top r_bottom vh marginPx \<longleftrightarrow>
     - of_int marginPx \<le> r_bottom \<and> r_top \<le> js_add vh (of_int marginPx)"

subsection \<open>Plans\<close>

record plan =
  pl_id :: string
  pl_name :: string
  pl_price :: "rat option"
  pl_priceLabel :: string
  pl_cadence :: string
  pl_tagline :: string
  pl_users :: string
  pl_highlight :: bool
  pl_badge :: "string option"
  pl_color :: string
  pl_features :: "string list"

definition PLANS :: "plan list" where
  "PLANS =
    [\<lparr>pl_id = ''free'', pl_name = ''Free'', pl_price = Some 0, pl_priceLabel = CHR 0xA3 # ''0'',
      pl_cadence = ''forever'', pl_tagline = ''Start exploring threat intelligence with zero cost.'',
      pl_users = ''1 user'', pl_highlight = False, pl_badge = None, pl_color = ''#34F5C5'',
      pl_features = [''IntelScope threat scanner'', ''IOC reputation lookups'', ''Community threat feeds'',
        ''Single user seat'']\<rparr>,
     \<lparr>pl_id = ''starter'', pl_name = ''Starter'', pl_price = Some 149, pl_priceLabel = CHR 0xA3 # ''149'',
      pl_cadence = ''/mo starting'', pl_tagline = ''CTI, Feeds & Asset Surface for growing security teams.'',
      pl_users = ''Up to 3 users'', pl_highlight = False, pl_badge = None, pl_color = ''#FFB23E'',
      pl_features = [''Everything in Free'', ''CTI Intelligence module'', ''Real-time threat feeds'',
        ''Asset surface monitoring'', ''Asset vulnerability alerts'']\<rparr>,
     \<lparr>pl_id = ''professional'', pl_name = ''Professional'', pl_price = Some 499, pl_priceLabel = CHR 0xA3 # ''499'',
      pl_cadence = ''/mo starting'', pl_tagline = ''Full-stack security ops. Everything but multi-tenant.'',
      pl_users = ''Up to 10 users'', pl_highlight = True, pl_badge = Some ''Most Popular'', pl_color = ''#FF2E97'',
      pl_features = [''Everything in Starter'', ''SIEM detection & alert queue'', ''SOAR playbooks & automation'',
        ''OpenCTI integration'', ''Dark web monitoring'', ''Full REST API access'', ''48h support SLA'']\<rparr>,
     \<lparr>pl_id = ''enterprise'', pl_name = ''Enterprise'', pl_price = None, pl_priceLabel = ''Custom'',
      pl_cadence = ''contact us'', pl_tagline = ''White-glove onboarding, SLA, multi-tenant & dedicated support.'',
      pl_users = ''Unlimited users'', pl_highlight = False, pl_badge = None, pl_color = ''#7A3CFF'',
      pl_features = [''Everything in Professional'', ''Multi-tenant & white-label'', ''Role-based access control'',
        ''Dedicated success manager'', ''4h support SLA'', ''Custom integrations'']\<rparr>]"

definition planById :: "string \<Rightarrow> plan option" where
  "planById i = obj_get (from_entries (map (\<lambda>p. (pl_id p, p)) PLANS)) i"

subsection \<open>Rows of a long table\<close>

record 'a window =
  wd_visible :: "('a \<times> int) list"
  wd_topPad :: rat
  wd_bottomPad :: rat
  wd_virtualized :: bool

definition win_start :: "rat \<Rightarrow> rat \<Rightarrow> int \<Rightarrow> int" where
  "win_start scrollTop rowHeight overscan = max 0 (js_floor (js_div scrollTop rowHeight) - overscan)"

definition win_end :: "nat \<Rightarrow> rat \<Rightarrow> rat \<Rightarrow> rat \<Rightarrow> int \<Rightarrow> int" where
  "win_end n scrollTop viewport rowHeight overscan =
     min (int n) (js_ceil (js_div (js_add scrollTop viewport) rowHeight) + overscan)"

definition useWindowedRows ::
  "'a list \<Rightarrow> rat \<Rightarrow> int option \<Rightarrow> nat option \<Rightarrow> rat \<Rightarrow> rat \<Rightarrow> 'a window" where
  "useWindowedRows items rowHeight overscan threshold scrollTop viewport =
     (let overscan = (case overscan of None \<Rightarrow> 12 | Some v \<Rightarrow> v);
          threshold = (case threshold of None \<Rightarrow> 150 | Some v \<Rightarrow> v) in
      if \<not> threshold < length items
      then \<lparr>wd_visible = zip items (map int [0..<length items]), wd_topPad = 0, wd_bottomPad = 0,
            wd_virtualized = False\<rparr>
      else
        let start = win_start scrollTop rowHeight overscan;
            end' = win_end (length items) scrollTop viewport rowHeight overscan;
            vs = slice start end' items
        in \<lparr>wd_visible = zip vs (map (\<lambda>i. start + int i) [0..<length vs]),
            wd_topPad = js_mul (of_int start) rowHeight,
            wd_bottomPad = js_mul (of_int (int (length items) - end')) rowHeight,
            wd_virtualized = True\<rparr>)"

text \<open>Scrolling: one update per frame, from the element's position and height.\<close>

record scroll_state =
  sc_top :: rat
  sc_viewport :: rat
  sc_frame :: bool

definition on_scroll :: "scroll_state \<Rightarrow> scroll_state" where
  "on_scroll s = (if sc_frame s then s else s\<lparr>sc_frame := True\<rparr>)"

definition scroll_frame :: "rat \<Rightarrow> rat \<Rightarrow> scroll_state \<Rightarrow> scroll_state" where
  "scroll_frame scrollTop clientHeight s =
     s\<lparr>sc_frame := False, sc_top := scrollTop, sc_viewport := (if clientHeight \<noteq> 0 then clientHeight else 800)\<rparr>"

subsection \<open>Rows: what is mounted\<close>

lemma slice_nth:
  assumes "0 \<le> a" "0 \<le> b" "b \<le> int (length xs)" "a \<le> int i" "int i < b"
  shows "i - nat a < length (slice a b xs) \<and> slice a b xs ! (i - nat a) = xs ! i"
proof -
  obtain a' where a: "a = int a'" using assms(1) by (metis nonneg_eq_int)
  obtain b' where b: "b = int b'" using assms(2) by (metis nonneg_eq_int)
  show ?thesis using assms by (simp add: slice_def clamp_index_def Let_def a b less_diff_conv2)
qed

lemma win_start_le:
  assumes "0 < h" "0 \<le> s" "s < of_int (i + 1) * of_int h" "1 \<le> ov" "0 \<le> i" "i < 2 ^ 53"
  shows "win_start s (of_int h) ov \<le> i"
proof -
  have "s / of_int h \<le> of_int (i + 1)" using assms by (simp add: divide_le_eq)
  then have "js_div s (of_int h) \<le> of_int (i + 1)"
    unfolding js_div_def using assms by (intro fl_le_int) auto
  then have "js_floor (js_div s (of_int h)) \<le> i + 1" by (simp add: js_floor_def floor_le_iff)
  then show ?thesis using assms by (simp add: win_start_def)
qed

lemma win_end_gt:
  assumes "0 < h" "of_int i * of_int h < s + v" "1 \<le> ov" "0 \<le> i" "i < int n" "int n * h \<le> 2 ^ 53"
  shows "i < win_end n s v (of_int h) ov"
proof -
  have le: "i * h \<le> 2 ^ 53" and i: "i \<le> 2 ^ 53"
  proof -
    have "i * h \<le> int n * h" using assms by (intro mult_right_mono) auto
    then show "i * h \<le> 2 ^ 53" using assms(6) by (rule order_trans)
    have "int n \<le> int n * h" using assms by (simp add: mult_le_cancel_left1)
    then show "i \<le> 2 ^ 53" using assms(5,6) by linarith
  qed
  have "of_int (i * h) \<le> fl (s + v)"
    using assms le by (intro fl_ge_int) auto
  then have "of_int i \<le> fl (s + v) / of_int h" using assms by (simp add: le_divide_eq)
  then have "of_int i \<le> js_div (js_add s v) (of_int h)"
    unfolding js_div_def js_add_def using assms i by (intro fl_ge_int) auto
  then have "i \<le> js_ceil (js_div (js_add s v) (of_int h))"
    by (simp add: js_ceil_def le_ceiling_iff)
  then show ?thesis using assms by (simp add: win_end_def)
qed

lemma win_bounds: "0 \<le> win_start s h ov" "win_end n s v h ov \<le> int n"
  by (simp_all add: win_start_def win_end_def)

text \<open>In a table of any length, every row that overlaps the viewport is mounted, under its
  own index, whatever rounding the divisions of the scroll position suffer.\<close>

theorem visible_row_mounted:
  assumes "0 < h" and "0 \<le> s" and "i < length items" and "int (length items) * h \<le> 2 ^ 53"
    and "of_int (int i) * of_int h < s + v" and "s < of_int (int i + 1) * of_int h"
    and "case ov of None \<Rightarrow> True | Some k \<Rightarrow> 1 \<le> k"
  shows "(items ! i, int i) \<in> set (wd_visible (useWindowedRows items (of_int h) ov th s v))"
proof (cases "(case th of None \<Rightarrow> 150 | Some v \<Rightarrow> v) < length items")
  case False
  then show ?thesis using assms(3) by (auto simp: useWindowedRows_def Let_def set_zip intro!: exI [of _ i])
next
  case True
  define o' where "o' = (case ov of None \<Rightarrow> 12 | Some v \<Rightarrow> v)"
  have o': "1 \<le> o'" using assms(7) by (simp add: o'_def split: option.splits)
  define a b where "a = win_start s (of_int h) o'" and "b = win_end (length items) s v (of_int h) o'"
  have "int i < 2 ^ 53"
  proof -
    have "int (length items) \<le> int (length items) * h" using assms(1) by (simp add: mult_le_cancel_left1)
    then show ?thesis using assms(3,4) by linarith
  qed
  then have ab: "a \<le> int i" "int i < b"
    using assms o' by (auto simp: a_def b_def intro: win_start_le win_end_gt)
  have bnd: "0 \<le> a" "b \<le> int (length items)" using win_bounds by (simp_all add: a_def b_def)
  from slice_nth [of a b items i] ab bnd
  have sl: "i - nat a < length (slice a b items)" "slice a b items ! (i - nat a) = items ! i" by auto
  have "wd_visible (useWindowedRows items (of_int h) ov th s v)
      = zip (slice a b items) (map (\<lambda>i. a + int i) [0..<length (slice a b items)])"
    using True by (simp add: useWindowedRows_def o'_def a_def b_def Let_def)
  moreover have "a + int (i - nat a) = int i" using ab(1) bnd(1) by simp
  ultimately show ?thesis using sl by (auto simp: set_zip intro!: exI [of _ "i - nat a"])
qed

theorem visible_row_mounted_witness:
  "(True, 40) \<in> set (wd_visible (useWindowedRows (replicate 500 True) (of_int 56) None None 2000 800))"
  using visible_row_mounted [of 56 2000 40 "replicate 500 True" 800 None None] by simp

text \<open>The scroll position is kept when the list changes: after a filter has shortened a
  list that was scrolled far down, no row is mounted at all although hundreds match, and the
  spacer above stays higher than the whole list, so that nothing scrolls back.\<close>

theorem stale_scroll_blank:
  "let w = useWindowedRows items 56 None None 20000 800 in
   150 < length items \<longrightarrow> length items \<le> 300 \<longrightarrow>
     wd_visible w = [] \<and> of_nat (length items) * 56 < wd_topPad w"
proof -
  have q: "js_div 20000 56 = fl (of_int 20000 / 56)" by (simp add: js_div_def)
  have "of_int 357 \<le> fl (20000 / 56)" "fl (20000 / 56) \<le> of_int 358"
    by (intro fl_ge_int fl_le_int; simp)+
  then have f: "357 \<le> js_floor (js_div 20000 56)" "js_floor (js_div 20000 56) \<le> 358"
    by (simp_all add: js_div_def js_floor_def le_floor_iff floor_le_iff)
  define a where "a = win_start 20000 56 12"
  have a: "345 \<le> a" "a \<le> 346" using f by (simp_all add: a_def win_start_def)
  have e: "win_end (length items) 20000 800 56 12 \<le> int (length items)" by (rule win_bounds)
  have m: "js_mul (of_int a) 56 = of_int (a * 56)"
    using js_mul_int [of a 56] a by simp
  show ?thesis
  proof (cases "150 < length items \<and> length items \<le> 300")
    case True
    have "slice a b items = []" if "b \<le> int (length items)" for b
      using that a True by (auto simp: slice_def clamp_index_def Let_def)
    moreover have "of_nat (length items) * 56 < (of_int (a * 56) :: rat)"
    proof -
      have "int (length items) * 56 < a * 56" using a True by linarith
      then have "rat_of_int (int (length items) * 56) < of_int (a * 56)" by (simp only: of_int_less_iff)
      then show ?thesis by simp
    qed
    ultimately show ?thesis using True e m
      by (simp add: useWindowedRows_def Let_def a_def [symmetric])
  qed auto
qed

theorem stale_scroll_blank_witness:
  "wd_visible (useWindowedRows (replicate 200 True) 56 None None 20000 800) = []"
  using stale_scroll_blank [of "replicate 200 True"] by (simp add: Let_def)

subsection \<open>Cadences\<close>

lemma js_mod_int: "0 \<le> n \<Longrightarrow> 0 < k \<Longrightarrow> js_mod (of_int n) (of_int k) = of_int (n mod k)"
  by (simp add: js_mod_def floor_divide_of_int_eq minus_div_mult_eq_mod [symmetric] algebra_simps)

lemma js_div_whole:
  assumes "0 \<le> n" "n < 2 ^ 53" "0 < k" "n mod k = 0"
  shows "js_div (of_int n) (of_int k) = of_int (n div k)"
proof -
  have "n = (n div k) * k" using assms(4) by (simp add: mod_eq_0_iff_dvd)
  moreover have "\<bar>n div k\<bar> \<le> 2 ^ 53"
    using assms zdiv_mono2 [of n 1 k] by (simp add: pos_imp_zdiv_nonneg_iff)
  ultimately show ?thesis using js_div_exact [of "n div k" k] assms(3) by simp
qed

lemma formatEvery_seconds: "0 < n \<Longrightarrow> n < 60 \<Longrightarrow> formatEvery (of_int n) = int_str n @ ''s''"
  by (simp add: formatEvery_def)

lemma formatEvery_minutes:
  assumes "60 \<le> n" "n < 3600"
  shows "formatEvery (of_int n) =
    (if n mod 60 \<noteq> 0 then int_str (n div 60) @ ''m '' @ int_str (n mod 60) @ ''s'' else int_str (n div 60) @ ''m'')"
proof -
  have r: "\<not> (of_int n :: rat) \<le> 0" "\<not> (of_int n :: rat) < 60" "(of_int n :: rat) < 3600"
    using assms by simp_all
  have m: "js_mod (of_int n) 60 = of_int (n mod 60)" "\<bar>n mod 60\<bar> \<le> 2 ^ 53"
    using js_mod_int [of n 60] assms by (simp_all add: abs_le_iff pos_mod_bound [THEN less_imp_le, THEN order_trans])
  have f: "js_floor (js_div (of_int n) 60) = n div 60" using js_div_floor [of n 60] assms by simp
  have w: "n mod 60 = 0 \<Longrightarrow> num_str (js_div (of_int n) 60) = int_str (n div 60)"
    using js_div_whole [of n 60] assms zdiv_mono2 [of n 1 60] by (simp add: pos_imp_zdiv_nonneg_iff)
  show ?thesis using r m f w by (simp add: formatEvery_def num_str_of_int)
qed

text \<open>Below an hour the label of a whole number of seconds says exactly that number, as
  seconds or as minutes and seconds. From an hour on the remaining minutes are rounded, and
  a cadence just short of the next hour is labelled with sixty minutes.\<close>

theorem formatEvery_exact:
  "(0 < n \<longrightarrow> n < 3600 \<longrightarrow> formatEvery (of_int n) =
     (if n < 60 then int_str n @ ''s''
      else if n mod 60 = 0 then int_str (n div 60) @ ''m''
      else int_str (n div 60) @ ''m '' @ int_str (n mod 60) @ ''s''))
   \<and> formatEvery 7199 = ''1h 60m''"
proof -
  have m: "js_mod 7199 3600 = 3599" using js_mod_int [of 7199 3600] by simp
  have f: "js_floor (js_div 7199 3600) = 1" using js_div_floor [of 7199 3600] by simp
  have "\<bar>fl (3599 / 60) - 3599 / 60\<bar> \<le> 3599 / 60 / 2 ^ 53" using fl_error [of "3599 / 60"] by simp
  then have "js_round (js_div 3599 60) = 60"
    unfolding js_div_def by (intro js_round_near) (simp add: abs_if split: if_splits)
  moreover have "int_str 1 = ''1''" "int_str 60 = ''60''" by code_simp+
  ultimately have "formatEvery 7199 = ''1h 60m''" by (simp add: formatEvery_def m f)
  then show ?thesis using formatEvery_seconds [of n] formatEvery_minutes [of n] by auto
qed

theorem formatEvery_exact_witness: "formatEvery 300 = ''5m''"
proof -
  have "int_str 5 = ''5''" by code_simp
  then show ?thesis using formatEvery_exact [of 300] by simp
qed

subsection \<open>Alpha\<close>

lemma alpha_byte_range: "0 \<le> alpha_byte a \<and> alpha_byte a \<le> 255"
proof -
  have "0 \<le> js_mul (max 0 (min 1 a)) 255" "js_mul (max 0 (min 1 a)) 255 \<le> 255"
    using fl_nonneg [of "max 0 (min 1 a) * 255"] fl_le_int [of "max 0 (min 1 a) * 255" 255]
    by (simp_all add: js_mul_def)
  then show ?thesis using js_round_bounds [of 0 "js_mul (max 0 (min 1 a)) 255" 255] by (simp add: alpha_byte_def)
qed

lemma digits_16: "0 \<le> n \<Longrightarrow> n < 256 \<Longrightarrow> digits_of 16 n = (if n < 16 then [n] else [n div 16, n mod 16])"
  by (subst digits_of.simps, subst digits_of.simps) auto

lemma digit_char_hex_int: "0 \<le> d \<Longrightarrow> d < 16 \<Longrightarrow> is_hex (digit_char (nat d)) \<and> int (hex_val (digit_char (nat d))) = d"
  using digit_char_hex [of "nat d"] by simp

text \<open>On a hexadecimal colour any alpha, also one out of range, gives the same six digits
  followed by exactly two hexadecimal digits that spell the rounded opacity; on a colour of
  the theme it gives the modern form of the same variable.\<close>

theorem withAlpha_spec:
  "(list_all is_hex hex \<and> length hex = 6 \<longrightarrow>
     (\<exists>x y. withAlpha (CHR ''#'' # hex) a = CHR ''#'' # hex @ [x, y] \<and> is_hex x \<and> is_hex y
        \<and> int (hex_val x) * 16 + int (hex_val y) = alpha_byte a))
   \<and> withAlpha (tk t) a = ''rgb(var('' @ VAR t @ '') / '' @ num_str a @ '')''"
proof -
  have theme: "withAlpha (tk t) a = ''rgb(var('' @ VAR t @ '') / '' @ num_str a @ '')''"
  proof -
    have "\<exists>st. rx_search (rx_full rgb_var_re) None (tk t) = Some ([], tk t, st)
        \<and> cap 1 (snd (snd st)) = ''var('' @ VAR t @ '')''"
      by (cases t; simp add: tk_def rx_full_def rgb_var_re_def rx_star_run cap_def char_classes
            del: rx_m.simps(5))
    then show ?thesis by (auto simp: withAlpha_def)
  qed
  have "\<exists>x y. withAlpha (CHR ''#'' # hex) a = CHR ''#'' # hex @ [x, y] \<and> is_hex x \<and> is_hex y
        \<and> int (hex_val x) * 16 + int (hex_val y) = alpha_byte a" if h: "list_all is_hex hex" "length hex = 6"
  proof -
    have "rx_m (rx_full rgb_var_re) (None, CHR ''#'' # hex, []) = []"
      by (simp add: rx_full_def rgb_var_re_def)
    then have "rx_search (rx_full rgb_var_re) None (CHR ''#'' # hex) = None"
      by (simp add: rx_full_later)
    moreover have "rx_test (rx_full hex_run_re) hex"
      using h by (simp add: rx_test_full hex_run_re_def rx_lang_times_set)
    ultimately have w: "withAlpha (CHR ''#'' # hex) a
        = CHR ''#'' # hex @ pad_start 2 (CHR ''0'') (base_str 16 (alpha_byte a))"
      by (simp add: withAlpha_def)
    define n where "n = alpha_byte a"
    have n: "0 \<le> n" "n < 256" using alpha_byte_range [of a] by (simp_all add: n_def)
    have "pad_start 2 (CHR ''0'') (base_str 16 n) = [digit_char (nat (n div 16)), digit_char (nat (n mod 16))]"
      using n by (simp add: base_str_def digits_16 pad_start_def digit_char_def)
    moreover have "0 \<le> n div 16" "n div 16 < 16" "0 \<le> n mod 16" "n mod 16 < 16" using n by auto
    ultimately show ?thesis using w digit_char_hex_int [of "n div 16"] digit_char_hex_int [of "n mod 16"]
      by (simp add: n_def [symmetric])
  qed
  with theme show ?thesis by blast
qed

theorem withAlpha_spec_witness: "\<exists>x y. withAlpha ''#FF2E97'' (1 / 2) = ''#FF2E97'' @ [x, y] \<and> is_hex x \<and> is_hex y"
  using withAlpha_spec [of "''FF2E97''" "1 / 2" Ink] by (auto simp: char_classes)

end
