(* ===== verification/NetworkMap.thy ===== *)
theory NetworkMap
  imports Helpers
begin

text \<open>
  The network map, \<open>app/dashboard/assets/network/page.tsx\<close>: the seed topology, the merge of
  the live asset inventory into it, the visible part of the graph, the breadth-first search
  for an attack path, and the pointer and zoom handlers. The drawing itself (link curves,
  particles, the eased button zoom) is left out. Coordinates are floating point numbers,
  written with the operations of \<open>JsNumber\<close>.
\<close>

subsection \<open>Topology\<close>

datatype zone = Dmz | Internal | Cloud | Ot
datatype risk = Critical | Warning | Healthy
datatype node_type = Internet | Firewall | Server | Workstation | CloudNode | Database | OtNode

record node =
  nd_id :: string
  nd_hostname :: string
  nd_type :: node_type
  nd_zone :: zone
  nd_ip :: string
  nd_risk :: risk
  nd_riskScore :: rat
  nd_ports :: "int list"
  nd_x :: rat
  nd_y :: rat
  nd_live :: bool

record link =
  lk_from :: string
  lk_to :: string

definition VB_W :: rat where "VB_W = 1000"
definition VB_H :: rat where "VB_H = 640"

record zone_rect =
  zr_x :: rat
  zr_y :: rat
  zr_w :: rat
  zr_h :: rat

fun ZONE_RECTS :: "zone \<Rightarrow> zone_rect" where
  "ZONE_RECTS Dmz = \<lparr>zr_x = 215, zr_y = 115, zr_w = 560, zr_h = 195\<rparr>"
| "ZONE_RECTS Ot = \<lparr>zr_x = 30, zr_y = 200, zr_w = 165, zr_h = 240\<rparr>"
| "ZONE_RECTS Internal = \<lparr>zr_x = 130, zr_y = 350, zr_w = 510, zr_h = 250\<rparr>"
| "ZONE_RECTS Cloud = \<lparr>zr_x = 690, zr_y = 320, zr_w = 285, zr_h = 250\<rparr>"

definition seed :: "string \<Rightarrow> node_type \<Rightarrow> zone \<Rightarrow> string \<Rightarrow> risk \<Rightarrow> rat \<Rightarrow> int list \<Rightarrow> rat \<Rightarrow> rat \<Rightarrow> node" where
  "seed name ty z ip r score ports x y = \<lparr>nd_id = name, nd_hostname = name, nd_type = ty, nd_zone = z,
     nd_ip = ip, nd_risk = r, nd_riskScore = score, nd_ports = ports, nd_x = x, nd_y = y, nd_live = False\<rparr>"

definition NODES :: "node list" where
  "NODES =
    [(seed ''inet'' Internet Dmz ''0.0.0.0/0'' Critical 100 [] 495 52)\<lparr>nd_hostname := ''internet''\<rparr>,
     seed ''fw-edge-01'' Firewall Dmz ''203.0.113.1'' Warning 58 [443, 500, 4500] 370 168,
     seed ''fw-edge-02'' Firewall Dmz ''203.0.113.2'' Healthy 22 [443, 500, 4500] 625 168,
     seed ''web-lb-01'' Server Dmz ''10.10.1.10'' Healthy 18 [80, 443] 270 258,
     seed ''wordpress-mkt'' Server Dmz ''10.10.1.22'' Critical 88 [80, 443, 22] 460 262,
     seed ''mail-relay-01'' Server Dmz ''10.10.1.30'' Warning 47 [25, 587, 993] 700 252,
     seed ''PROD-API-04'' Server Internal ''10.0.4.14'' Critical 82 [443, 8443, 9090] 215 415,
     seed ''jenkins-ci-01'' Server Internal ''10.0.4.31'' Warning 61 [8080, 50000, 22] 360 475,
     seed ''dc-prod-01'' Server Internal ''10.0.2.5'' Warning 44 [88, 389, 445, 636] 510 425,
     seed ''DESKTOP-FIN-087'' Workstation Internal ''10.0.8.87'' Healthy 15 [] 255 552,
     seed ''DESKTOP-HR-012'' Workstation Internal ''10.0.8.12'' Healthy 12 [] 420 562,
     seed ''LAPTOP-EXEC-03'' Workstation Internal ''10.0.8.103'' Warning 39 [] 565 548,
     seed ''k8s-prod-node-1'' CloudNode Cloud ''172.31.4.10'' Healthy 24 [6443, 10250] 790 385,
     seed ''k8s-prod-node-2'' CloudNode Cloud ''172.31.4.11'' Healthy 20 [6443, 10250] 905 450,
     seed ''rds-customers'' Database Cloud ''172.31.6.20'' Critical 76 [5432] 775 510,
     seed ''s3-data-lake'' CloudNode Cloud ''s3://data-lake'' Warning 41 [443] 915 358,
     seed ''plc-line-a'' OtNode Ot ''192.168.50.10'' Critical 91 [502, 44818] 112 262,
     seed ''scada-hmi-01'' OtNode Ot ''192.168.50.20'' Warning 53 [502, 102] 100 380]"

definition BASE_LINKS :: "link list" where
  "BASE_LINKS = map (\<lambda>(a, b). \<lparr>lk_from = a, lk_to = b\<rparr>)
    [(''inet'', ''fw-edge-01''), (''inet'', ''fw-edge-02''), (''fw-edge-01'', ''web-lb-01''),
     (''fw-edge-01'', ''wordpress-mkt''), (''fw-edge-02'', ''mail-relay-01''), (''web-lb-01'', ''PROD-API-04''),
     (''wordpress-mkt'', ''PROD-API-04''), (''PROD-API-04'', ''jenkins-ci-01''), (''PROD-API-04'', ''dc-prod-01''),
     (''PROD-API-04'', ''rds-customers''), (''jenkins-ci-01'', ''k8s-prod-node-1''),
     (''dc-prod-01'', ''DESKTOP-FIN-087''), (''dc-prod-01'', ''DESKTOP-HR-012''), (''dc-prod-01'', ''LAPTOP-EXEC-03''),
     (''k8s-prod-node-1'', ''k8s-prod-node-2''), (''k8s-prod-node-1'', ''rds-customers''),
     (''k8s-prod-node-1'', ''s3-data-lake''), (''PROD-API-04'', ''plc-line-a''), (''plc-line-a'', ''scada-hmi-01''),
     (''web-lb-01'', ''plc-line-a'')]"

fun ZONE_HUB :: "zone \<Rightarrow> string" where
  "ZONE_HUB Dmz = ''fw-edge-01''"
| "ZONE_HUB Internal = ''dc-prod-01''"
| "ZONE_HUB Cloud = ''k8s-prod-node-1''"
| "ZONE_HUB Ot = ''scada-hmi-01''"

definition API_TYPE_TO_NODE :: "(string, node_type \<times> zone) obj" where
  "API_TYPE_TO_NODE = [(''domain'', (Server, Dmz)), (''ip'', (Server, Dmz)), (''server'', (Server, Internal)),
     (''endpoint'', (Workstation, Internal)), (''cloud'', (CloudNode, Cloud)), (''database'', (Database, Cloud))]"

definition riskFromScore :: "rat \<Rightarrow> risk" where
  "riskFromScore score = (if 70 \<le> score then Critical else if 40 \<le> score then Warning else Healthy)"

definition placeInZone :: "zone \<Rightarrow> nat \<Rightarrow> rat \<times> rat" where
  "placeInZone z index =
     (let r = ZONE_RECTS z; cols = 3; col = index mod cols; row = index div cols in
      (js_add (js_add (zr_x r) 42) (js_mul (of_nat col) (js_div (js_sub (zr_w r) 84) 2)),
       js_sub (js_sub (js_add (zr_y r) (zr_h r)) 38) (js_mul (of_nat row) 52)))"

subsection \<open>Breadth-first search\<close>

definition adj_get :: "(string, string list) obj \<Rightarrow> string \<Rightarrow> string list" where
  "adj_get adj v = (case obj_get adj v of None \<Rightarrow> [] | Some l \<Rightarrow> l)"

definition adj_add :: "string \<Rightarrow> string \<Rightarrow> (string, string list) obj \<Rightarrow> (string, string list) obj" where
  "adj_add a b adj = obj_set a (adj_get adj a @ [b]) adj"

definition build_adj :: "link list \<Rightarrow> (string, string list) obj" where
  "build_adj links = fold (\<lambda>l adj. adj_add (lk_to l) (lk_from l) (adj_add (lk_from l) (lk_to l) adj)) links []"

text \<open>The loop over the neighbours of \<open>cur\<close>: seen set, predecessors and queue.\<close>

definition visit :: "string \<Rightarrow> string \<Rightarrow> string list \<times> (string, string) obj \<times> string list
    \<Rightarrow> string list \<times> (string, string) obj \<times> string list" where
  "visit cur nxt st = (case st of (seen, prev, queue) \<Rightarrow>
     if nxt \<in> set seen then (seen, prev, queue)
     else (seen @ [nxt], obj_set nxt cur prev, queue @ [nxt]))"

text \<open>The neighbours that loop adds, in order.\<close>

fun fresh :: "string list \<Rightarrow> string list \<Rightarrow> string list" where
  "fresh seen [] = []"
| "fresh seen (n # ns) = (if n \<in> set seen then fresh seen ns else n # fresh (seen @ [n]) ns)"

lemma set_fresh: "set (fresh seen ns) = set ns - set seen"
  by (induction seen ns rule: fresh.induct) auto

lemma distinct_fresh: "distinct (fresh seen ns)"
  by (induction seen ns rule: fresh.induct) (auto simp: set_fresh)

lemma fold_visit:
  "fold (visit cur) ns (seen, prev, queue) =
     (seen @ fresh seen ns, fold (\<lambda>v. obj_set v cur) (fresh seen ns) prev, queue @ fresh seen ns)"
  by (induction ns arbitrary: seen prev queue) (auto simp: visit_def)

definition unseen :: "(string, string list) obj \<Rightarrow> string list \<Rightarrow> nat" where
  "unseen adj seen = card (\<Union> (set ` snd ` set adj) - set seen)"

lemma adj_get_subset: "set (adj_get adj v) \<subseteq> \<Union> (set ` snd ` set adj)"
proof (cases "obj_get adj v")
  case (Some l)
  then have "(v, l) \<in> set adj" by (auto simp: obj_get_def dest: map_of_SomeD)
  with Some show ?thesis by (force simp: adj_get_def)
qed (simp add: adj_get_def)

lemma unseen_less:
  "2 * unseen adj (seen @ fresh seen (adj_get adj cur)) + (length queue + length (fresh seen (adj_get adj cur)))
     < 2 * unseen adj seen + length (cur # queue)"
proof -
  let ?V = "\<Union> (set ` snd ` set adj)" and ?new = "fresh seen (adj_get adj cur)"
  have new: "set ?new \<subseteq> ?V - set seen" using adj_get_subset by (auto simp: set_fresh)
  have "card (set ?new) = length ?new" by (rule distinct_card [OF distinct_fresh])
  moreover have "card (?V - set seen - set ?new) = card (?V - set seen) - card (set ?new)"
    using new by (intro card_Diff_subset) auto
  moreover have "card (set ?new) \<le> card (?V - set seen)" using new by (intro card_mono) auto
  moreover have "?V - set seen - set ?new = ?V - set (seen @ ?new)" by auto
  ultimately show ?thesis by (simp add: unseen_def)
qed

text \<open>The search loop; the result is the map of predecessors once \<open>to\<close> leaves the queue.\<close>

function bfs :: "(string, string list) obj \<Rightarrow> string \<Rightarrow> string list \<Rightarrow> (string, string) obj \<Rightarrow> string list
    \<Rightarrow> (string, string) obj option" where
  "bfs adj to seen prev [] = None"
| "bfs adj to seen prev (cur # queue) =
     (if cur = to then Some prev
      else case fold (visit cur) (adj_get adj cur) (seen, prev, queue) of
        (seen', prev', queue') \<Rightarrow> bfs adj to seen' prev' queue')"
  by pat_completeness auto
termination
  by (relation "measure (\<lambda>(adj, to, seen, prev, queue). 2 * unseen adj seen + length queue)")
    (simp, use unseen_less in \<open>auto simp: fold_visit\<close>)

declare bfs.simps(2) [simp del]

text \<open>Walking the predecessors back: \<open>None\<close> is a loop that does not come to its end.\<close>

fun unwind :: "nat \<Rightarrow> (string, string) obj \<Rightarrow> string \<Rightarrow> string list \<Rightarrow> string list option" where
  "unwind fuel prev frm [] = None"
| "unwind fuel prev frm (x # path) =
     (if x = frm then Some (x # path)
      else case fuel of 0 \<Rightarrow> None
         | Suc n \<Rightarrow> (case obj_get prev x of None \<Rightarrow> None | Some p \<Rightarrow> unwind n prev frm (p # x # path)))"

datatype path_result = NoPath | Path "string list" | Stuck

definition shortestPath :: "link list \<Rightarrow> string \<Rightarrow> string \<Rightarrow> path_result" where
  "shortestPath links frm to =
     (case bfs (build_adj links) to [frm] [] [frm] of
        None \<Rightarrow> NoPath
      | Some prev \<Rightarrow> (case unwind (length prev) prev frm [to] of None \<Rightarrow> Stuck | Some p \<Rightarrow> Path p))"

subsection \<open>The search finds a shortest path\<close>

definition linked :: "link list \<Rightarrow> string \<Rightarrow> string \<Rightarrow> bool" where
  "linked links u v \<longleftrightarrow>
     (\<exists>l \<in> set links. (lk_from l = u \<and> lk_to l = v) \<or> (lk_from l = v \<and> lk_to l = u))"

lemma adj_get_add: "adj_get (adj_add a b adj) u = (if u = a then adj_get adj a @ [b] else adj_get adj u)"
  by (simp add: adj_get_def adj_add_def)

lemma build_adj_linked: "v \<in> set (adj_get (build_adj links) u) \<longleftrightarrow> linked links u v"
proof -
  have "v \<in> set (adj_get (fold (\<lambda>l adj. adj_add (lk_to l) (lk_from l) (adj_add (lk_from l) (lk_to l) adj)) links adj) u)
      \<longleftrightarrow> v \<in> set (adj_get adj u) \<or> linked links u v" for adj
    by (induction links arbitrary: adj) (auto simp: linked_def adj_get_add)
  from this [of "[]"] show ?thesis by (simp add: build_adj_def adj_get_def)
qed

text \<open>A walk: consecutive vertices are adjacent.\<close>

fun is_walk :: "(string \<Rightarrow> string \<Rightarrow> bool) \<Rightarrow> string list \<Rightarrow> bool" where
  "is_walk E (u # v # p) \<longleftrightarrow> E u v \<and> is_walk E (v # p)"
| "is_walk E [u] \<longleftrightarrow> True"
| "is_walk E [] \<longleftrightarrow> False"

lemma is_walk_snoc: "p \<noteq> [] \<Longrightarrow> is_walk E (p @ [v]) \<longleftrightarrow> is_walk E p \<and> E (last p) v"
  by (induction E p rule: is_walk.induct) auto

abbreviation edge :: "(string, string list) obj \<Rightarrow> string \<Rightarrow> string \<Rightarrow> bool" where
  "edge adj u v \<equiv> v \<in> set (adj_get adj u)"

text \<open>The invariant of the loop: \<open>d\<close> is the depth at which a vertex was found.\<close>

definition tree_inv :: "(string, string list) obj \<Rightarrow> string \<Rightarrow> (string \<Rightarrow> nat) \<Rightarrow> string list \<Rightarrow> (string, string) obj \<Rightarrow> bool" where
  "tree_inv adj frm d seen prev \<longleftrightarrow>
     frm \<in> set seen \<and> d frm = 0 \<and> distinct (map fst prev) \<and> fst ` set prev = set seen - {frm} \<and>
     (\<forall>v \<in> set seen. v \<noteq> frm \<longrightarrow>
        (\<exists>p. obj_get prev v = Some p \<and> p \<in> set seen \<and> edge adj p v \<and> d v = Suc (d p)))"

definition queue_inv :: "(string, string list) obj \<Rightarrow> string \<Rightarrow> (string \<Rightarrow> nat) \<Rightarrow> string list \<Rightarrow> string list \<Rightarrow> bool" where
  "queue_inv adj to d seen queue \<longleftrightarrow>
     set queue \<subseteq> set seen \<and> sorted (map d queue) \<and> (\<forall>v \<in> set queue. d v \<le> Suc (d (hd queue))) \<and>
     (\<forall>u \<in> set seen - set queue. u \<noteq> to \<and> (queue \<noteq> [] \<longrightarrow> d u \<le> d (hd queue)) \<and>
        (\<forall>v. edge adj u v \<longrightarrow> v \<in> set seen \<and> d v \<le> Suc (d u)))"

lemma walk_bound:
  assumes t: "tree_inv adj frm d seen prev" and q: "queue_inv adj to d seen queue"
    and w: "is_walk (edge adj) p" "hd p = frm"
  shows "(last p \<in> set seen \<and> d (last p) < length p) \<or> (queue \<noteq> [] \<and> Suc (d (hd queue)) < length p)"
  using w
proof (induction p rule: rev_induct)
  case (snoc v p)
  show ?case
  proof (cases "p = []")
    case True
    then show ?thesis using snoc.prems t by (simp add: tree_inv_def)
  next
    case False
    with snoc.prems have pw: "is_walk (edge adj) p" "hd p = frm" "edge adj (last p) v"
      by (auto simp: is_walk_snoc)
    from snoc.IH [OF pw(1,2)] show ?thesis
    proof (elim disjE conjE)
      assume u: "last p \<in> set seen" "d (last p) < length p"
      show ?thesis
      proof (cases "last p \<in> set queue")
        case True
        then have "d (hd queue) \<le> d (last p)" using q
          by (cases queue) (auto simp: queue_inv_def)
        then show ?thesis using True u by auto
      next
        case False
        then have "v \<in> set seen" "d v \<le> Suc (d (last p))" using q u pw(3) by (auto simp: queue_inv_def)
        then show ?thesis using u by simp
      qed
    qed auto
  qed
qed simp

lemma tree_inv_grow:
  assumes t: "tree_inv adj frm d seen prev" and cur: "cur \<in> set seen"
    and new: "new = fresh seen (adj_get adj cur)"
    and d': "d' = (\<lambda>v. if v \<in> set new then Suc (d cur) else d v)"
  shows "tree_inv adj frm d' (seen @ new) (fold (\<lambda>v. obj_set v cur) new prev)"
proof -
  have get: "obj_get (fold (\<lambda>v. obj_set v cur) ns pr) v = (if v \<in> set ns then Some cur else obj_get pr v)" for ns pr v
    by (induction ns arbitrary: pr) auto
  have keys: "fst ` set (fold (\<lambda>v. obj_set v cur) ns pr) = set ns \<union> fst ` set pr" for ns pr
    by (induction ns arbitrary: pr) (simp_all add: keys_obj_set [simplified])
  have dist: "distinct (map fst pr) \<Longrightarrow> distinct (map fst (fold (\<lambda>v. obj_set v cur) ns pr))" for ns pr
    by (induction ns arbitrary: pr) (auto intro: distinct_obj_set)
  have disj: "set new \<inter> set seen = {}" "\<And>v. v \<in> set new \<Longrightarrow> edge adj cur v"
    using set_fresh [of seen "adj_get adj cur"] new by auto
  have dcur: "d' v = d v" if "v \<in> set seen" for v using that disj by (auto simp: d')
  show ?thesis
    unfolding tree_inv_def
  proof (intro conjI ballI impI)
    show "frm \<in> set (seen @ new)" "d' frm = 0" using t dcur by (auto simp: tree_inv_def)
    have "distinct (map fst prev)" using t by (simp add: tree_inv_def)
    then show "distinct (map fst (fold (\<lambda>v. obj_set v cur) new prev))" by (rule dist)
    show "fst ` set (fold (\<lambda>v. obj_set v cur) new prev) = set (seen @ new) - {frm}"
      using t disj(1) by (auto simp: keys tree_inv_def)
  next
    fix v assume v: "v \<in> set (seen @ new)" "v \<noteq> frm"
    show "\<exists>p. obj_get (fold (\<lambda>v. obj_set v cur) new prev) v = Some p \<and> p \<in> set (seen @ new) \<and> edge adj p v \<and> d' v = Suc (d' p)"
    proof (cases "v \<in> set new")
      case True
      then show ?thesis using cur disj dcur [OF cur] by (auto simp: get d')
    next
      case False
      with v t obtain p where "obj_get prev v = Some p" "p \<in> set seen" "edge adj p v" "d v = Suc (d p)"
        by (auto simp: tree_inv_def)
      then show ?thesis using False v dcur by (auto simp: get)
    qed
  qed
qed

lemma queue_inv_pop:
  assumes q: "queue_inv adj to d seen (cur # queue)" and ne: "cur \<noteq> to"
    and new: "new = fresh seen (adj_get adj cur)"
    and d': "d' = (\<lambda>v. if v \<in> set new then Suc (d cur) else d v)"
  shows "queue_inv adj to d' (seen @ new) (queue @ new)"
proof -
  have disj: "set new \<inter> set seen = {}" "set new = set (adj_get adj cur) - set seen"
    using set_fresh [of seen "adj_get adj cur"] new by auto
  have ds: "d' v = d v" if "v \<in> set seen" for v using that disj by (auto simp: d')
  have sub: "cur \<in> set seen" "set queue \<subseteq> set seen" using q by (auto simp: queue_inv_def)
  have le: "d cur \<le> d v \<and> d v \<le> Suc (d cur)" if "v \<in> set queue" for v
    using q that by (auto simp: queue_inv_def)
  have map_q: "map d' queue = map d queue" using sub ds by (intro map_cong) auto
  have dn: "d' v = Suc (d cur)" if "v \<in> set new" for v using that by (simp add: d')
  have all: "d cur \<le> d' v \<and> d' v \<le> Suc (d cur)" if "v \<in> set (queue @ new)" for v
    using that le dn ds sub by fastforce
  have dn_old: "u \<noteq> to \<and> d u \<le> d cur \<and> (\<forall>v. edge adj u v \<longrightarrow> v \<in> set seen \<and> d v \<le> Suc (d u))"
    if "u \<in> set seen" "u \<notin> set (cur # queue)" for u
    using q that by (simp add: queue_inv_def)
  have hd: "queue @ new \<noteq> [] \<Longrightarrow> hd (queue @ new) \<in> set (queue @ new)" by (rule hd_in_set)
  show ?thesis
    unfolding queue_inv_def
  proof (intro conjI ballI)
    show "set (queue @ new) \<subseteq> set (seen @ new)" using sub by auto
    have "sorted (map d queue)" using q by (simp add: queue_inv_def)
    moreover have "\<forall>x \<in> set (map d queue). \<forall>y \<in> set (map d' new). x \<le> y" using le dn by auto
    moreover have "sorted (map d' new)" using dn by (simp add: sorted_iff_nth_mono)
    ultimately show "sorted (map d' (queue @ new))" by (simp add: sorted_append map_q)
  next
    fix v assume "v \<in> set (queue @ new)"
    then show "d' v \<le> Suc (d' (hd (queue @ new)))"
      using all [of v] all [of "hd (queue @ new)"] hd by (cases "queue @ new = []") (force, linarith)
  next
    fix u assume u: "u \<in> set (seen @ new) - set (queue @ new)"
    then have us: "u \<in> set seen" "u \<notin> set queue" by auto
    show "u \<noteq> to" using us ne dn_old [of u] by (cases "u = cur") auto
    have "d u \<le> d cur" using us dn_old [of u] by (cases "u = cur") auto
    then show "queue @ new \<noteq> [] \<longrightarrow> d' u \<le> d' (hd (queue @ new))"
      using all [of "hd (queue @ new)"] hd ds us by fastforce
    show "\<forall>v. edge adj u v \<longrightarrow> v \<in> set (seen @ new) \<and> d' v \<le> Suc (d' u)"
    proof (intro allI impI)
      fix v assume e: "edge adj u v"
      show "v \<in> set (seen @ new) \<and> d' v \<le> Suc (d' u)"
      proof (cases "u = cur")
        case False
        then have "v \<in> set seen" "d v \<le> Suc (d u)" using us e dn_old [of u] by auto
        then show ?thesis using ds us by simp
      next
        case True
        show ?thesis
        proof (cases "v \<in> set seen")
          case vs: True
          have "d v \<le> Suc (d cur)"
          proof (cases "v \<in> set (cur # queue)")
            case True then show ?thesis using le by auto
          next
            case False then show ?thesis using vs dn_old [of v] by simp
          qed
          then show ?thesis using vs ds us True by simp
        next
          case False
          then have "v \<in> set new" using e True disj(2) by simp
          then show ?thesis using dn ds us True by simp
        qed
      qed
    qed
  qed
qed

lemma depth_bound:
  assumes t: "tree_inv adj frm d seen prev" and v: "v \<in> set seen"
  shows "d v \<le> length prev"
proof -
  have "v \<in> set seen \<Longrightarrow> d v = n \<Longrightarrow> {0..n} \<subseteq> d ` set seen" for n v
  proof (induction n arbitrary: v)
    case (Suc n)
    then obtain p where "p \<in> set seen" "d p = n" using t by (force simp: tree_inv_def)
    then have "{0..n} \<subseteq> d ` set seen" using Suc.IH [of p] by simp
    moreover have "Suc n \<in> d ` set seen" using Suc.prems by (metis image_eqI)
    ultimately show ?case by (simp add: atLeast0_atMost_Suc)
  qed auto
  then have "{0..d v} \<subseteq> d ` set seen" using v by blast
  then have "card {0..d v} \<le> card (d ` set seen)" by (intro card_mono) auto
  also have "\<dots> \<le> card (set seen)" by (simp add: card_image_le)
  also have "card (set seen) = Suc (card (set seen - {frm}))"
    using t card_Suc_Diff1 [of "set seen" frm] by (simp add: tree_inv_def)
  also have "card (set seen - {frm}) = length prev"
    using t distinct_card [of "map fst prev"] by (simp add: tree_inv_def)
  finally show ?thesis by simp
qed

lemma unwind_walk:
  assumes t: "tree_inv adj frm d seen prev"
  shows "x \<in> set seen \<Longrightarrow> d x \<le> fuel \<Longrightarrow> \<exists>q. unwind fuel prev frm (x # path) = Some (q @ path)
    \<and> is_walk (edge adj) q \<and> hd q = frm \<and> last q = x \<and> length q = Suc (d x)"
proof (induction fuel arbitrary: x path)
  case 0
  then have "x = frm" using t by (force simp: tree_inv_def)
  then show ?case using t by (intro exI [of _ "[x]"]) (simp add: tree_inv_def)
next
  case (Suc n)
  show ?case
  proof (cases "x = frm")
    case True
    then show ?thesis using t by (intro exI [of _ "[x]"]) (simp add: tree_inv_def)
  next
    case False
    with Suc.prems t obtain p where p: "obj_get prev x = Some p" "p \<in> set seen" "edge adj p x" "d x = Suc (d p)"
      by (auto simp: tree_inv_def)
    with Suc.IH [of p "x # path"] Suc.prems obtain q where
      q: "unwind n prev frm (p # x # path) = Some (q @ x # path)" "is_walk (edge adj) q" "hd q = frm"
        "last q = p" "length q = Suc (d p)" by auto
    then have "q \<noteq> []" by auto
    with q p False show ?thesis
      by (intro exI [of _ "q @ [x]"]) (auto simp: is_walk_snoc)
  qed
qed

lemma bfs_correct:
  assumes "tree_inv adj frm d seen prev" and "queue_inv adj to d seen queue"
  shows "case bfs adj to seen prev queue of
      None \<Rightarrow> \<not> (\<exists>p. is_walk (edge adj) p \<and> hd p = frm \<and> last p = to)
    | Some prev' \<Rightarrow> \<exists>q. unwind (length prev') prev' frm [to] = Some q \<and> is_walk (edge adj) q
          \<and> hd q = frm \<and> last q = to
          \<and> (\<forall>p. is_walk (edge adj) p \<and> hd p = frm \<and> last p = to \<longrightarrow> length q \<le> length p)"
  using assms
proof (induction adj to seen prev queue arbitrary: d rule: bfs.induct)
  case (1 adj to seen prev)
  have "last p \<in> set seen" if "is_walk (edge adj) p" "hd p = frm" for p
    using walk_bound [OF 1(1) 1(2) that] by simp
  moreover have "to \<notin> set seen" using 1(2) by (auto simp: queue_inv_def)
  ultimately show ?case by auto
next
  case (2 adj to seen prev cur queue)
  show ?case
  proof (cases "cur = to")
    case True
    have mem: "to \<in> set seen" using 2(3) True by (simp add: queue_inv_def)
    from unwind_walk [OF 2(2) mem depth_bound [OF 2(2) mem], of "[]"] obtain q where
      q: "unwind (length prev) prev frm [to] = Some q" "is_walk (edge adj) q" "hd q = frm" "last q = to"
        "length q = Suc (d to)" by auto
    have "Suc (d to) \<le> length p" if "is_walk (edge adj) p" "hd p = frm" "last p = to" for p
      using walk_bound [OF 2(2,3) that(1,2)] that(3) True by auto
    with q True show ?thesis by (simp add: bfs.simps(2))
  next
    case False
    define new where "new = fresh seen (adj_get adj cur)"
    define d' where "d' = (\<lambda>v. if v \<in> set new then Suc (d cur) else d v)"
    have cur: "cur \<in> set seen" using 2(3) by (simp add: queue_inv_def)
    note t = tree_inv_grow [OF 2(2) cur new_def d'_def]
    note q = queue_inv_pop [OF 2(3) False new_def d'_def]
    have f: "fold (visit cur) (adj_get adj cur) (seen, prev, queue)
        = (seen @ new, fold (\<lambda>v. obj_set v cur) new prev, queue @ new)"
      by (simp add: fold_visit new_def)
    show ?thesis using 2(1) [OF False f [symmetric] refl t q] False
      by (simp add: bfs.simps(2) f)
  qed
qed

text \<open>C5: the attack path is a path of the map from the internet to the host, and no path is
  shorter; when none is found the host cannot be reached over the links that are visible; and
  the walk back through the predecessors always ends.\<close>

theorem shortestPath_correct:
  "case shortestPath links frm to of
     Path p \<Rightarrow> is_walk (linked links) p \<and> hd p = frm \<and> last p = to \<and>
       (\<forall>q. is_walk (linked links) q \<and> hd q = frm \<and> last q = to \<longrightarrow> length p \<le> length q)
   | NoPath \<Rightarrow> \<not> (\<exists>q. is_walk (linked links) q \<and> hd q = frm \<and> last q = to)
   | Stuck \<Rightarrow> False"
proof -
  have E: "edge (build_adj links) = linked links" by (simp add: build_adj_linked fun_eq_iff)
  have t: "tree_inv (build_adj links) frm (\<lambda>_. 0) [frm] []" by (simp add: tree_inv_def)
  have q: "queue_inv (build_adj links) to (\<lambda>_. 0) [frm] [frm]" by (simp add: queue_inv_def)
  show ?thesis
  proof (cases "bfs (build_adj links) to [frm] [] [frm]")
    case None
    then show ?thesis using bfs_correct [OF t q] by (simp add: shortestPath_def E)
  next
    case (Some prev)
    then obtain p where "unwind (length prev) prev frm [to] = Some p" "is_walk (linked links) p" "hd p = frm"
      "last p = to" "\<forall>q. is_walk (linked links) q \<and> hd q = frm \<and> last q = to \<longrightarrow> length p \<le> length q"
      using bfs_correct [OF t q] by (auto simp only: E option.case)
    then show ?thesis using Some by (simp add: shortestPath_def del: unwind.simps)
  qed
qed

theorem shortestPath_correct_witness:
  "\<exists>p. shortestPath [\<lparr>lk_from = ''a'', lk_to = ''b''\<rparr>] ''a'' ''b'' = Path p \<and> length p \<le> length [''a'', ''b'']"
proof (cases "shortestPath [\<lparr>lk_from = ''a'', lk_to = ''b''\<rparr>] ''a'' ''b''")
  case NoPath
  with shortestPath_correct [of "[\<lparr>lk_from = ''a'', lk_to = ''b''\<rparr>]" "''a''" "''b''"]
  have "\<not> (\<exists>q. is_walk (linked [\<lparr>lk_from = ''a'', lk_to = ''b''\<rparr>]) q \<and> hd q = ''a'' \<and> last q = ''b'')" by simp
  moreover have "is_walk (linked [\<lparr>lk_from = ''a'', lk_to = ''b''\<rparr>]) [''a'', ''b'']" by (simp add: linked_def)
  ultimately show ?thesis by fastforce
next
  case (Path p)
  with shortestPath_correct [of "[\<lparr>lk_from = ''a'', lk_to = ''b''\<rparr>]" "''a''" "''b''"]
  have "is_walk (linked [\<lparr>lk_from = ''a'', lk_to = ''b''\<rparr>]) q \<and> hd q = ''a'' \<and> last q = ''b'' \<longrightarrow> length p \<le> length q" for q
    by simp
  from this [of "[''a'', ''b'']"] Path show ?thesis by (simp add: linked_def)
next
  case Stuck
  with shortestPath_correct [of "[\<lparr>lk_from = ''a'', lk_to = ''b''\<rparr>]" "''a''" "''b''"] show ?thesis by simp
qed

subsection \<open>The live inventory\<close>

record asset =
  as_id :: string
  as_name :: string
  as_type :: string
  as_value :: string
  as_riskScore :: "rat option"
  as_openPorts :: "int list option"

definition or_else :: "'a option \<Rightarrow> 'a \<Rightarrow> 'a" where
  "or_else x d = (case x of None \<Rightarrow> d | Some v \<Rightarrow> v)"

definition update_node :: "asset list \<Rightarrow> node \<Rightarrow> node" where
  "update_node items n =
     (case find (\<lambda>a. as_name a = nd_hostname n \<or> as_id a = nd_id n) items of
        None \<Rightarrow> n
      | Some a \<Rightarrow> let score = or_else (as_riskScore a) (nd_riskScore n) in
          n\<lparr>nd_riskScore := score, nd_risk := riskFromScore score, nd_ports := or_else (as_openPorts a) (nd_ports n)\<rparr>)"

type_synonym placed = "(zone \<Rightarrow> nat) \<times> node list \<times> link list"

definition place_asset :: "string list \<Rightarrow> string list \<Rightarrow> asset \<Rightarrow> placed \<Rightarrow> placed" where
  "place_asset known knownNames a st = (case st of (counts, extras, extraLinks) \<Rightarrow>
     if as_id a \<in> set known \<or> toLowerCase (as_name a) \<in> set knownNames then st
     else let (ty, z) = or_else (obj_get API_TYPE_TO_NODE (as_type a)) (Server, Internal) in
       if 4 \<le> counts z then st
       else let (x, y) = placeInZone z (counts z) in
         (counts(z := Suc (counts z)),
          extras @ [\<lparr>nd_id = as_id a, nd_hostname = as_name a, nd_type = ty, nd_zone = z, nd_ip = as_value a,
            nd_risk = riskFromScore (or_else (as_riskScore a) 0), nd_riskScore = or_else (as_riskScore a) 0,
            nd_ports = or_else (as_openPorts a) [], nd_x = x, nd_y = y, nd_live = True\<rparr>],
          extraLinks @ [\<lparr>lk_from = ZONE_HUB z, lk_to = as_id a\<rparr>]))"

definition place_all :: "asset list \<Rightarrow> node list \<Rightarrow> placed" where
  "place_all items prev =
     fold (place_asset (map nd_id prev) (map (\<lambda>n. toLowerCase (nd_hostname n)) prev)) items (\<lambda>_. 0, [], [])"

text \<open>The new nodes and links of the page.\<close>

definition merge_assets :: "asset list \<Rightarrow> node list \<times> link list \<Rightarrow> node list \<times> link list" where
  "merge_assets items st = (case st of (nodes, links) \<Rightarrow>
     if items = [] then (nodes, links)
     else case place_all items nodes of (counts, extras, extraLinks) \<Rightarrow>
       (map (update_node items) nodes @ extras, if extras \<noteq> [] then BASE_LINKS @ extraLinks else links))"

subsection \<open>The visible part and what is derived from it\<close>

record view_box =
  vb_x :: rat
  vb_y :: rat
  vb_w :: rat
  vb_h :: rat

datatype drag_kind = NodeDrag string | PanDrag view_box

record drag =
  dg_kind :: drag_kind
  dg_clientX :: rat
  dg_clientY :: rat
  dg_moved :: bool

record map_page =
  mp_nodes :: "node list"
  mp_links :: "link list"
  mp_selected :: "string option"
  mp_hover :: "string option"
  mp_zones :: "zone \<Rightarrow> bool"
  mp_search :: string
  mp_trace :: bool
  mp_vb :: view_box
  mp_drag :: "drag option"

definition map_init :: map_page where
  "map_init = \<lparr>mp_nodes = NODES, mp_links = BASE_LINKS, mp_selected = None, mp_hover = None, mp_zones = (\<lambda>_. True),
     mp_search = [], mp_trace = False, mp_vb = \<lparr>vb_x = 0, vb_y = 0, vb_w = VB_W, vb_h = VB_H\<rparr>, mp_drag = None\<rparr>"

definition visibleNodes :: "map_page \<Rightarrow> node list" where
  "visibleNodes p = filter (\<lambda>n. nd_id n = ''inet'' \<or> mp_zones p (nd_zone n)) (mp_nodes p)"

definition visibleLinks :: "map_page \<Rightarrow> link list" where
  "visibleLinks p = (let ids = map nd_id (visibleNodes p) in
     filter (\<lambda>l. lk_from l \<in> set ids \<and> lk_to l \<in> set ids) (mp_links p))"

text \<open>\<open>nodeMap\<close>: the last node of an id wins.\<close>

definition node_by_id :: "map_page \<Rightarrow> string \<Rightarrow> node option" where
  "node_by_id p i = find (\<lambda>n. nd_id n = i) (rev (mp_nodes p))"

definition selected_node :: "map_page \<Rightarrow> node option" where
  "selected_node p = Option.bind (mp_selected p) (node_by_id p)"

definition neighborhood :: "map_page \<Rightarrow> string list option" where
  "neighborhood p =
     (case (case mp_hover p of None \<Rightarrow> mp_selected p | Some h \<Rightarrow> Some h) of
        None \<Rightarrow> None
      | Some f \<Rightarrow> if f = [] then None else
          Some (fold (\<lambda>l s. let s = (if lk_from l = f then set_insert (lk_to l) s else s)
                            in if lk_to l = f then set_insert (lk_from l) s else s) (mp_links p) [f]))"

definition attackPath :: "map_page \<Rightarrow> path_result" where
  "attackPath p =
     (case selected_node p of
        None \<Rightarrow> NoPath
      | Some n \<Rightarrow> if \<not> mp_trace p \<or> nd_id n = ''inet'' then NoPath
                  else shortestPath (visibleLinks p) ''inet'' (nd_id n))"

text \<open>The highlighted edges, in both directions.\<close>

fun path_edges :: "string list \<Rightarrow> (string \<times> string) list" where
  "path_edges (u # v # p) = (u, v) # (v, u) # path_edges (v # p)"
| "path_edges p = []"

definition searchMatch :: "map_page \<Rightarrow> node option" where
  "searchMatch p = (let q = toLowerCase (trim (mp_search p)) in
     if q = [] then None
     else find (\<lambda>n. str_includes (toLowerCase (nd_hostname n)) q \<or> str_includes (nd_ip n) q) (visibleNodes p))"

definition map_kpis :: "map_page \<Rightarrow> (string \<times> string) list" where
  "map_kpis p = (let real = filter (\<lambda>n. nd_id n \<noteq> ''inet'') (visibleNodes p) in
     [(''Nodes'', int_str (int (length real))),
      (''Connections'', int_str (int (length (visibleLinks p)))),
      (''Exposed Services'', int_str (int (sum_list (map (\<lambda>n. length (nd_ports n)) real)))),
      (''Critical Assets'', int_str (int (length (filter (\<lambda>n. nd_risk n = Critical) real))))])"

definition shows_banner :: "map_page \<Rightarrow> bool" where
  "shows_banner p \<longleftrightarrow> (\<exists>n \<in> set (mp_nodes p). \<not> nd_live n \<and> nd_type n \<noteq> Internet)"

subsection \<open>Pointer and zoom\<close>

text \<open>The bounding rectangle of the drawing, whose width and height are not zero.\<close>

record rect =
  rc_left :: rat
  rc_top :: rat
  rc_width :: rat
  rc_height :: rat

definition toSvg :: "rect \<Rightarrow> view_box \<Rightarrow> rat \<Rightarrow> rat \<Rightarrow> rat \<times> rat" where
  "toSvg r vb cx cy =
     (js_add (vb_x vb) (js_mul (js_div (js_sub cx (rc_left r)) (rc_width r)) (vb_w vb)),
      js_add (vb_y vb) (js_mul (js_div (js_sub cy (rc_top r)) (rc_height r)) (vb_h vb)))"

definition node_down :: "string \<Rightarrow> rat \<Rightarrow> rat \<Rightarrow> map_page \<Rightarrow> map_page" where
  "node_down i cx cy p = p\<lparr>mp_drag := Some \<lparr>dg_kind = NodeDrag i, dg_clientX = cx, dg_clientY = cy, dg_moved = False\<rparr>\<rparr>"

definition canvas_down :: "rat \<Rightarrow> rat \<Rightarrow> map_page \<Rightarrow> map_page" where
  "canvas_down cx cy p =
     p\<lparr>mp_drag := Some \<lparr>dg_kind = PanDrag (mp_vb p), dg_clientX = cx, dg_clientY = cy, dg_moved = False\<rparr>\<rparr>"

definition clamp_to :: "rat \<Rightarrow> rat \<Rightarrow> rat" where
  "clamp_to limit v = max 20 (min (js_sub limit 20) v)"

definition pointer_move :: "rect \<Rightarrow> rat \<Rightarrow> rat \<Rightarrow> map_page \<Rightarrow> map_page" where
  "pointer_move r cx cy p =
     (case mp_drag p of
        None \<Rightarrow> p
      | Some dg \<Rightarrow>
          (case dg_kind dg of
             NodeDrag i \<Rightarrow>
               if i = [] then p else
               let (x, y) = toSvg r (mp_vb p) cx cy in
               p\<lparr>mp_drag := Some (dg\<lparr>dg_moved := True\<rparr>),
                 mp_nodes := map (\<lambda>n. if nd_id n = i then n\<lparr>nd_x := clamp_to VB_W x, nd_y := clamp_to VB_H y\<rparr> else n)
                               (mp_nodes p)\<rparr>
           | PanDrag vb \<Rightarrow>
               let dx = js_mul (js_div (js_sub cx (dg_clientX dg)) (rc_width r)) (vb_w vb);
                   dy = js_mul (js_div (js_sub cy (dg_clientY dg)) (rc_height r)) (vb_h vb)
               in p\<lparr>mp_drag := Some (dg\<lparr>dg_moved := True\<rparr>),
                    mp_vb := vb\<lparr>vb_x := js_sub (vb_x vb) dx, vb_y := js_sub (vb_y vb) dy\<rparr>\<rparr>))"

definition pointer_up :: "string option \<Rightarrow> map_page \<Rightarrow> map_page" where
  "pointer_up i p =
     (case mp_drag p of
        None \<Rightarrow> p
      | Some dg \<Rightarrow>
          let p = p\<lparr>mp_drag := None\<rparr> in
          if dg_moved dg then p
          else case dg_kind dg of
            NodeDrag _ \<Rightarrow> (case i of
               None \<Rightarrow> p
             | Some v \<Rightarrow> if v = [] then p else
                 p\<lparr>mp_selected := (if mp_selected p = Some v then None else Some v), mp_trace := False\<rparr>)
          | PanDrag _ \<Rightarrow> p\<lparr>mp_selected := None, mp_trace := False\<rparr>)"

definition escape_key :: "map_page \<Rightarrow> map_page" where
  "escape_key p = p\<lparr>mp_selected := None, mp_trace := False\<rparr>"

definition toggleZone :: "zone \<Rightarrow> map_page \<Rightarrow> map_page" where
  "toggleZone z p = p\<lparr>mp_zones := (mp_zones p)(z := \<not> mp_zones p z)\<rparr>"

definition search_enter :: "map_page \<Rightarrow> map_page" where
  "search_enter p = (case searchMatch p of None \<Rightarrow> p
     | Some n \<Rightarrow> p\<lparr>mp_selected := Some (nd_id n), mp_search := []\<rparr>)"

definition round2 :: "rat \<Rightarrow> rat" where
  "round2 n = js_div (of_int (js_round (js_mul n 100))) 100"

definition zoomBy :: "rat \<Rightarrow> rat \<Rightarrow> rat \<Rightarrow> view_box \<Rightarrow> view_box" where
  "zoomBy factor fx fy prev =
     (let w = max 280 (min (js_mul VB_W (fl (14 / 10))) (js_mul (vb_w prev) factor));
          h = js_mul w (js_div VB_H VB_W);
          ax = js_add (vb_x prev) (js_mul fx (vb_w prev));
          ay = js_add (vb_y prev) (js_mul fy (vb_h prev))
      in \<lparr>vb_x = round2 (js_sub ax (js_mul fx w)), vb_y = round2 (js_sub ay (js_mul fy h)),
          vb_w = round2 w, vb_h = round2 h\<rparr>)"

definition wheel :: "bool \<Rightarrow> rect \<Rightarrow> rat \<Rightarrow> rat \<Rightarrow> rat \<Rightarrow> map_page \<Rightarrow> map_page" where
  "wheel ctrl r cx cy deltaY p =
     (if \<not> ctrl then p
      else p\<lparr>mp_vb := zoomBy (if 0 < deltaY then fl (108 / 100) else fl (92 / 100))
               (js_div (js_sub cx (rc_left r)) (rc_width r)) (js_div (js_sub cy (rc_top r)) (rc_height r)) (mp_vb p)\<rparr>)"

datatype map_op =
    Inventory "asset list"
  | NodeDown string rat rat
  | CanvasDown rat rat
  | PointerMove rect rat rat
  | PointerUp "string option"
  | Escape
  | ToggleZone zone
  | SetSearch string
  | SearchEnter
  | Hover "string option"
  | SetTrace bool
  | Wheel bool rect rat rat rat
  | ResetView

fun map_step :: "map_op \<Rightarrow> map_page \<Rightarrow> map_page" where
  "map_step (Inventory items) p =
     (case merge_assets items (mp_nodes p, mp_links p) of (ns, ls) \<Rightarrow> p\<lparr>mp_nodes := ns, mp_links := ls\<rparr>)"
| "map_step (NodeDown i cx cy) p = node_down i cx cy p"
| "map_step (CanvasDown cx cy) p = canvas_down cx cy p"
| "map_step (PointerMove r cx cy) p = pointer_move r cx cy p"
| "map_step (PointerUp i) p = pointer_up i p"
| "map_step Escape p = escape_key p"
| "map_step (ToggleZone z) p = toggleZone z p"
| "map_step (SetSearch s) p = p\<lparr>mp_search := s\<rparr>"
| "map_step SearchEnter p = search_enter p"
| "map_step (Hover h) p = p\<lparr>mp_hover := h\<rparr>"
| "map_step (SetTrace t) p = p\<lparr>mp_trace := t\<rparr>"
| "map_step (Wheel c r cx cy dy) p = wheel c r cx cy dy p"
| "map_step ResetView p = p\<lparr>mp_vb := \<lparr>vb_x = 0, vb_y = 0, vb_w = VB_W, vb_h = VB_H\<rparr>\<rparr>"

subsection \<open>The invariant of the page\<close>

definition on_canvas :: "node \<Rightarrow> bool" where
  "on_canvas n \<longleftrightarrow> 20 \<le> nd_x n \<and> nd_x n \<le> 980 \<and> 20 \<le> nd_y n \<and> nd_y n \<le> 620"

definition graph_inv :: "node list \<Rightarrow> link list \<Rightarrow> bool" where
  "graph_inv ns ls \<longleftrightarrow>
     list_all on_canvas ns \<and> distinct (map nd_id ns) \<and> nd_id ` set NODES \<subseteq> nd_id ` set ns \<and>
     (\<forall>l \<in> set ls. lk_from l \<in> nd_id ` set ns \<and> lk_to l \<in> nd_id ` set ns)"

lemma fl_half_numeral [simp]: "numeral n \<le> (2 ^ 52 :: int) \<Longrightarrow> fl (numeral n / 2) = numeral n / 2"
  using fl_half [of "numeral n"] by simp

lemma placeInZone_canvas:
  assumes "k < 4" and "placeInZone z k = (x, y)"
  shows "20 \<le> x \<and> x \<le> 980 \<and> 20 \<le> y \<and> y \<le> 620"
proof -
  have "k = 0 \<or> k = 1 \<or> k = 2 \<or> k = 3" using assms(1) by linarith
  then show ?thesis using assms(2)
    by (cases z) (elim disjE; simp add: placeInZone_def js_arith; linarith)+
qed

lemma seed_ids: "distinct (map nd_id NODES)"
  by (simp add: NODES_def seed_def)

lemma seed_canvas: "list_all on_canvas NODES"
  by (simp add: NODES_def seed_def on_canvas_def)

lemma base_links_ok: "\<forall>l \<in> set BASE_LINKS. lk_from l \<in> nd_id ` set NODES \<and> lk_to l \<in> nd_id ` set NODES"
  by (simp add: BASE_LINKS_def NODES_def seed_def)

lemma hub_ok: "ZONE_HUB z \<in> nd_id ` set NODES"
  by (cases z) (simp_all add: NODES_def seed_def)

text \<open>What the placement of unknown assets keeps.\<close>

definition placed_inv :: "string list \<Rightarrow> string set \<Rightarrow> placed \<Rightarrow> bool" where
  "placed_inv known A st \<longleftrightarrow> (case st of (counts, extras, els) \<Rightarrow>
     (\<forall>z. counts z = length (filter (\<lambda>n. nd_zone n = z) extras)) \<and> (\<forall>z. counts z \<le> 4) \<and>
     list_all on_canvas extras \<and> list_all nd_live extras \<and> distinct (map nd_id extras) \<and>
     nd_id ` set extras \<subseteq> A - set known \<and>
     (\<forall>l \<in> set els. (\<exists>z. lk_from l = ZONE_HUB z) \<and> lk_to l \<in> nd_id ` set extras))"

lemma placed_inv_mono: "placed_inv known A st \<Longrightarrow> A \<subseteq> B \<Longrightarrow> placed_inv known B st"
  by (cases st) (auto simp: placed_inv_def)

lemma place_asset_inv:
  assumes inv: "placed_inv known A st" and a: "as_id a \<notin> A"
  shows "placed_inv known (insert (as_id a) A) (place_asset known names a st)"
proof -
  obtain counts extras els where st: "st = (counts, extras, els)" by (cases st)
  obtain ty z where m: "or_else (obj_get API_TYPE_TO_NODE (as_type a)) (Server, Internal) = (ty, z)" by fastforce
  obtain x y where p: "placeInZone z (counts z) = (x, y)" by fastforce
  show ?thesis
  proof (cases "as_id a \<in> set known \<or> toLowerCase (as_name a) \<in> set names \<or> 4 \<le> counts z")
    case True
    then have "place_asset known names a st = st" by (auto simp: place_asset_def st m)
    with placed_inv_mono [OF inv, of "insert (as_id a) A"] show ?thesis by auto
  next
    case False
    then have c: "counts z < 4" by simp
    define n where "n = \<lparr>nd_id = as_id a, nd_hostname = as_name a, nd_type = ty, nd_zone = z, nd_ip = as_value a,
      nd_risk = riskFromScore (or_else (as_riskScore a) 0), nd_riskScore = or_else (as_riskScore a) 0,
      nd_ports = or_else (as_openPorts a) [], nd_x = x, nd_y = y, nd_live = True\<rparr>"
    have n: "nd_id n = as_id a" "nd_zone n = z" "nd_live n" "on_canvas n"
      using placeInZone_canvas [OF c p] by (simp_all add: n_def on_canvas_def)
    have eq: "place_asset known names a st
        = (counts(z := Suc (counts z)), extras @ [n], els @ [\<lparr>lk_from = ZONE_HUB z, lk_to = as_id a\<rparr>])"
      using False by (simp add: place_asset_def st m p n_def)
    have i: "\<forall>z. counts z = length (filter (\<lambda>n. nd_zone n = z) extras)" "\<forall>z. counts z \<le> 4"
      "list_all on_canvas extras" "list_all nd_live extras" "distinct (map nd_id extras)"
      "nd_id ` set extras \<subseteq> A - set known"
      "\<forall>l \<in> set els. (\<exists>z. lk_from l = ZONE_HUB z) \<and> lk_to l \<in> nd_id ` set extras"
      using inv unfolding placed_inv_def st prod.case by blast+
    have fresh_id: "as_id a \<notin> nd_id ` set extras" using i(6) a by auto
    have "\<forall>z'. (counts(z := Suc (counts z))) z' = length (filter (\<lambda>n. nd_zone n = z') (extras @ [n]))"
      using i(1) n(2) by simp
    moreover have "\<forall>z'. (counts(z := Suc (counts z))) z' \<le> 4" using i(2) c by simp
    moreover have "nd_id ` set (extras @ [n]) \<subseteq> insert (as_id a) A - set known" using i(6) n(1) False by auto
    moreover have "\<forall>l \<in> set (els @ [\<lparr>lk_from = ZONE_HUB z, lk_to = as_id a\<rparr>]).
        (\<exists>z. lk_from l = ZONE_HUB z) \<and> lk_to l \<in> nd_id ` set (extras @ [n])"
      using i(7) n(1) by auto
    ultimately show ?thesis
      unfolding placed_inv_def eq prod.case using i(3-5) n fresh_id by (intro conjI) simp_all
  qed
qed

lemma place_fold_inv:
  "placed_inv known A st \<Longrightarrow> distinct (map as_id items) \<Longrightarrow> A \<inter> as_id ` set items = {} \<Longrightarrow>
    placed_inv known (A \<union> as_id ` set items) (fold (place_asset known names) items st)"
proof (induction items arbitrary: A st)
  case (Cons a items)
  then have "placed_inv known (insert (as_id a) A) (place_asset known names a st)"
    by (intro place_asset_inv) auto
  with Cons.IH [OF this] Cons.prems show ?case by auto
qed simp

lemma place_all_inv:
  "distinct (map as_id items) \<Longrightarrow> placed_inv (map nd_id prev) (as_id ` set items) (place_all items prev)"
  using place_fold_inv [of "map nd_id prev" "{}" "(\<lambda>_. 0, [], [])" items]
  by (simp add: place_all_def placed_inv_def)

lemma update_node_same [simp]:
  "nd_id (update_node items n) = nd_id n" "nd_x (update_node items n) = nd_x n" "nd_y (update_node items n) = nd_y n"
  "nd_zone (update_node items n) = nd_zone n" "nd_hostname (update_node items n) = nd_hostname n"
  "nd_live (update_node items n) = nd_live n" "nd_type (update_node items n) = nd_type n"
  by (simp_all add: update_node_def Let_def split: option.split)

lemma merge_inv:
  assumes g: "graph_inv ns ls" and d: "distinct (map as_id items)" and m: "merge_assets items (ns, ls) = (ns', ls')"
  shows "graph_inv ns' ls'"
proof (cases "items = []")
  case False
  obtain counts extras els where p: "place_all items ns = (counts, extras, els)" by (cases "place_all items ns")
  from place_all_inv [OF d, of ns] have pi: "list_all on_canvas extras" "distinct (map nd_id extras)"
    "nd_id ` set extras \<inter> nd_id ` set ns = {}"
    "\<forall>l \<in> set els. (\<exists>z. lk_from l = ZONE_HUB z) \<and> lk_to l \<in> nd_id ` set extras"
    by (auto simp: placed_inv_def p)
  have ns': "ns' = map (update_node items) ns @ extras" "ls' = (if extras \<noteq> [] then BASE_LINKS @ els else ls)"
    using m False by (simp_all add: merge_assets_def p)
  have ids: "nd_id ` set ns' = nd_id ` set ns \<union> nd_id ` set extras" by (simp add: ns' image_Un image_comp)
  have sub: "nd_id ` set NODES \<subseteq> nd_id ` set ns" using g by (simp add: graph_inv_def)
  have links: "lk_from l \<in> nd_id ` set ns' \<and> lk_to l \<in> nd_id ` set ns'" if "l \<in> set ls'" for l
    using that g pi(4) sub base_links_ok hub_ok unfolding ids
    by (fastforce simp: ns' graph_inv_def split: if_splits)
  show ?thesis
    using g pi sub links ids
    by (auto simp: graph_inv_def ns' list_all_iff on_canvas_def comp_def)
qed (use g m in \<open>simp add: merge_assets_def\<close>)

lemma clamp_canvas: "20 \<le> clamp_to VB_W x \<and> clamp_to VB_W x \<le> 980" "20 \<le> clamp_to VB_H x \<and> clamp_to VB_H x \<le> 620"
  by (simp_all add: clamp_to_def VB_W_def VB_H_def js_sub_def)

definition legal_op :: "map_op \<Rightarrow> bool" where
  "legal_op x \<longleftrightarrow> (case x of Inventory items \<Rightarrow> distinct (map as_id items) | _ \<Rightarrow> True)"

lemma graph_inv_move:
  assumes "graph_inv ns ls"
    and "\<And>n. n \<in> set ns \<Longrightarrow> nd_id (f n) = nd_id n \<and> on_canvas (f n)"
  shows "graph_inv (map f ns) ls"
proof -
  have "map nd_id (map f ns) = map nd_id ns" using assms(2) by simp
  then have "nd_id ` set (map f ns) = nd_id ` set ns" "distinct (map nd_id (map f ns))"
    using assms(1) by (simp_all only: graph_inv_def set_map [symmetric])
  with assms show ?thesis
    by (simp add: graph_inv_def list_all_iff del: map_map)
qed

lemma map_step_inv:
  assumes "graph_inv (mp_nodes p) (mp_links p)" and "legal_op x"
  shows "graph_inv (mp_nodes (map_step x p)) (mp_links (map_step x p))"
proof (cases x)
  case (Inventory items)
  then show ?thesis using assms merge_inv [of "mp_nodes p" "mp_links p" items]
    by (auto simp: legal_op_def split: prod.split)
next
  case (PointerMove r cx cy)
  have "graph_inv (map (\<lambda>n. if nd_id n = i then n\<lparr>nd_x := clamp_to VB_W a, nd_y := clamp_to VB_H b\<rparr> else n)
      (mp_nodes p)) (mp_links p)" for i a b
    using assms(1) clamp_canvas
    by (intro graph_inv_move) (auto simp: graph_inv_def list_all_iff on_canvas_def)
  then show ?thesis using assms(1) PointerMove
    by (auto simp: pointer_move_def Let_def split: option.split drag_kind.split prod.split)
qed (use assms(1) in \<open>auto simp: node_down_def canvas_down_def pointer_up_def escape_key_def toggleZone_def
    search_enter_def wheel_def Let_def split: option.split drag_kind.split\<close>)

text \<open>C6: whatever the inventory brings, as long as its ids are distinct, and whatever the operator does, every node stays inside the
  canvas, ids stay unique, the seed topology stays present and every link joins two nodes of
  the map.\<close>

theorem map_invariant:
  "list_all legal_op xs \<Longrightarrow>
   graph_inv (mp_nodes (fold map_step xs map_init)) (mp_links (fold map_step xs map_init))"
proof -
  have "list_all legal_op xs \<Longrightarrow> graph_inv (mp_nodes p) (mp_links p) \<Longrightarrow>
      graph_inv (mp_nodes (fold map_step xs p)) (mp_links (fold map_step xs p))" for p
    by (induction xs arbitrary: p) (auto simp: map_step_inv)
  moreover have "graph_inv (mp_nodes map_init) (mp_links map_init)"
    using seed_ids seed_canvas base_links_ok by (simp add: map_init_def graph_inv_def)
  ultimately show "list_all legal_op xs \<Longrightarrow> ?thesis" by blast
qed

theorem map_invariant_witness:
  "graph_inv (mp_nodes (fold map_step [NodeDown ''inet'' 5 5, PointerMove \<lparr>rc_left = 0, rc_top = 0, rc_width = 10,
      rc_height = 10\<rparr> 0 0] map_init))
     (mp_links (fold map_step [NodeDown ''inet'' 5 5, PointerMove \<lparr>rc_left = 0, rc_top = 0, rc_width = 10,
      rc_height = 10\<rparr> 0 0] map_init))"
  by (rule map_invariant) (simp add: legal_op_def)

text \<open>Of the assets that are not part of the seed topology at most four per zone are drawn,
  each as a live node linked to the hub of its zone; an asset that matches a seed node
  updates its risk, but the node is never marked live, so the banner keeps calling a
  discovered host an example.\<close>

theorem merge_places_live_assets:
  assumes "distinct (map as_id items)" and "merge_assets items (ns, ls) = (ns', ls')"
  shows "\<exists>extras. ns' = map (update_node items) ns @ extras \<and> list_all nd_live extras
      \<and> length (filter (\<lambda>n. nd_zone n = z) extras) \<le> 4
      \<and> map nd_live (map (update_node items) ns) = map nd_live ns"
proof (cases "items = []")
  case True
  then have "map (update_node items) ns = ns" by (intro map_idI) (simp add: update_node_def)
  with True show ?thesis using assms by (intro exI [of _ "[]"]) (simp add: merge_assets_def)
next
  case False
  obtain counts extras els where p: "place_all items ns = (counts, extras, els)" by (cases "place_all items ns")
  with False assms have "ns' = map (update_node items) ns @ extras" by (simp add: merge_assets_def)
  moreover have "list_all nd_live extras \<and> length (filter (\<lambda>n. nd_zone n = z) extras) \<le> 4"
    using place_all_inv [OF assms(1), of ns] by (simp add: placed_inv_def p) metis
  ultimately show ?thesis by (intro exI [of _ extras]) simp
qed

theorem merge_places_live_assets_witness:
  "\<exists>extras. fst (merge_assets [\<lparr>as_id = ''a1'', as_name = ''db'', as_type = ''database'', as_value = ''10.0.0.9'',
      as_riskScore = Some 80, as_openPorts = None\<rparr>] (NODES, BASE_LINKS)) = map (update_node
        [\<lparr>as_id = ''a1'', as_name = ''db'', as_type = ''database'', as_value = ''10.0.0.9'',
      as_riskScore = Some 80, as_openPorts = None\<rparr>]) NODES @ extras \<and> list_all nd_live extras"
proof -
  let ?items = "[\<lparr>as_id = ''a1'', as_name = ''db'', as_type = ''database'', as_value = ''10.0.0.9'',
      as_riskScore = Some 80, as_openPorts = None\<rparr>]"
  obtain ns' ls' where m: "merge_assets ?items (NODES, BASE_LINKS) = (ns', ls')" by fastforce
  show ?thesis unfolding m using merge_places_live_assets [OF _ m] by auto
qed

text \<open>An asset whose name differs from a seed host only in its case is lost: it is too
  known to be placed, and not equal enough to update the host.\<close>

theorem case_variant_dropped:
  assumes "n \<in> set NODES" and "toLowerCase (as_name a) = toLowerCase (nd_hostname n)"
    and "as_name a \<notin> nd_hostname ` set NODES" and "as_id a \<notin> nd_id ` set NODES"
  shows "merge_assets [a] (NODES, BASE_LINKS) = (NODES, BASE_LINKS)"
proof -
  have "map (update_node [a]) NODES = NODES"
    using assms(3,4) by (intro map_idI) (auto simp: update_node_def)
  moreover have "place_all [a] NODES = (\<lambda>_. 0, [], [])"
    using assms(1,2) by (auto simp: place_all_def place_asset_def)
  ultimately show ?thesis by (simp add: merge_assets_def)
qed

theorem case_variant_dropped_witness:
  "merge_assets [\<lparr>as_id = ''a7'', as_name = ''desktop-fin-087'', as_type = ''endpoint'', as_value = ''10.0.8.87'',
     as_riskScore = Some 95, as_openPorts = None\<rparr>] (NODES, BASE_LINKS) = (NODES, BASE_LINKS)"
proof -
  have "toLowerCase ''desktop-fin-087'' = toLowerCase ''DESKTOP-FIN-087''" by code_simp
  then show ?thesis
    by (intro case_variant_dropped [of "seed ''DESKTOP-FIN-087'' Workstation Internal ''10.0.8.87'' Healthy 15 [] 255 552"])
      (simp_all add: NODES_def seed_def)
qed

lemma round2_bounds:
  assumes "of_int a \<le> x" "x \<le> of_int b" "\<bar>a * 100\<bar> \<le> 2 ^ 53" "\<bar>b * 100\<bar> \<le> 2 ^ 53"
  shows "of_int a \<le> round2 x \<and> round2 x \<le> of_int b"
proof -
  have "of_int (a * 100) \<le> js_mul x 100" "js_mul x 100 \<le> of_int (b * 100)"
    unfolding js_mul_def using assms by (intro fl_ge_int fl_le_int; simp)+
  then have r: "a * 100 \<le> js_round (js_mul x 100)" "js_round (js_mul x 100) \<le> b * 100"
    using js_round_bounds by blast+
  then have "of_int a \<le> (of_int (js_round (js_mul x 100)) / 100 :: rat)"
      "(of_int (js_round (js_mul x 100)) / 100 :: rat) \<le> of_int b"
    by (simp_all add: le_divide_eq divide_le_eq)
  moreover have "\<bar>a\<bar> \<le> 2 ^ 53" "\<bar>b\<bar> \<le> 2 ^ 53" using assms(3,4) by auto
  ultimately show ?thesis unfolding round2_def js_div_def
    using fl_ge_int [of a] fl_le_int [of _ b] by blast
qed

lemma max_width: "js_mul VB_W (fl (14 / 10)) = 1400"
proof -
  have "fl (7 / 5) = 3152519739159347 / 2251799813685248"
    by (subst fl_eval [of 0]) (simp_all add: round_even_def Let_def power_int_minus power_int_numeral)
  moreover have "fl (394064967394918375 / 281474976710656) = 1400"
    by (subst fl_eval [of 10]) (simp_all add: round_even_def Let_def power_int_minus power_int_numeral)
  moreover have "1000 * (3152519739159347 / 2251799813685248) = (394064967394918375 / 281474976710656 :: rat)"
    by simp
  ultimately have "fl (1000 * fl (7 / 5)) = 1400" by (simp only:)
  then show ?thesis by (simp add: js_mul_def VB_W_def)
qed

text \<open>However often and wherever the operator zooms, the width of the view stays between
  280 and 1400.\<close>

theorem zoom_width_bounds:
  "280 \<le> vb_w (zoomBy factor fx fy vb) \<and> vb_w (zoomBy factor fx fy vb) \<le> 1400"
  using round2_bounds [of 280 "max 280 (min 1400 (js_mul (vb_w vb) factor))" 1400]
  by (simp add: zoomBy_def max_width [simplified] Let_def)

end
