(* ===== verification/IocImport.thy ===== *)
theory IocImport
  imports ApiEndpoints JsRegex
begin

text \<open>
  The bulk import of indicators (\<open>app/dashboard/feeds/import/page.tsx\<close>): the patterns that
  find addresses, domains, hashes, URLs and CVEs in pasted text, the repair of defanged
  text, and the page with its tags, file name, import call and toast. The host name of a
  URL, which the browser's own URL parser finds (\<open>None\<close> where it throws), is the parameter
  \<open>host\<close>. The lemmas describe what the parser reports, and that repairing a defanged report
  gives the indicators of the original.
\<close>

subsection \<open>Patterns\<close>

abbreviation rx_any :: "string \<Rightarrow> rx" where "rx_any s \<equiv> RSet (\<lambda>c. c \<in> set s)"

definition octet_re :: rx where
  "octet_re = RAlt (RSeq (rx_str ''25'') (rx_any ''012345''))
     (RAlt (RSeq (rx_str ''2'') (RSeq (rx_any ''01234'') (RSet is_digit)))
           (RSeq (rx_opt (rx_str ''1'')) (RSeq (rx_opt (RSet is_digit)) (RSet is_digit))))"

definition RE_IPV4 :: rx where
  "RE_IPV4 = RSeq RWordB (RSeq (rx_times 3 (RSeq octet_re (rx_str ''.''))) (RSeq octet_re RWordB))"

definition RE_HEX :: "nat \<Rightarrow> rx" where
  "RE_HEX n = RSeq RWordB (RSeq (rx_times n (RSet is_hex)) RWordB)"

definition RE_SHA256 :: rx where "RE_SHA256 = RE_HEX 64"
definition RE_SHA1 :: rx where "RE_SHA1 = RE_HEX 40"
definition RE_MD5 :: rx where "RE_MD5 = RE_HEX 32"

definition url_char :: "char \<Rightarrow> bool" where
  "url_char c \<longleftrightarrow> \<not> is_space c \<and> c \<notin> set ''<>)'' \<and> code c \<noteq> 34 \<and> code c \<noteq> 39"

definition RE_URL :: rx where
  "RE_URL = RSeq RWordB (RSeq (RAlt (RSeq (rx_stri ''http'') (rx_opt (rx_stri ''s''))) (rx_stri ''ftp''))
     (RSeq (rx_str ''://'') (rx_plus (RSet url_char))))"

definition RE_CVE :: rx where
  "RE_CVE = RSeq RWordB (RSeq (rx_stri ''CVE-'') (RSeq (rx_times 4 (RSet is_digit)) (RSeq (rx_str ''-'')
     (RSeq (rx_range 4 7 (RSet is_digit)) RWordB))))"

definition label_char :: "char \<Rightarrow> bool" where "label_char c \<longleftrightarrow> is_alnum c \<or> c = CHR ''-''"

definition RE_DOMAIN :: rx where
  "RE_DOMAIN = RSeq RWordB (RSeq
     (rx_plus (RSeq (RSet is_alnum) (RSeq (rx_opt (RSeq (rx_upto 61 (RSet label_char)) (RSet is_alnum))) (rx_str ''.''))))
     (RSeq (rx_range 2 24 (RSet is_alpha)) RWordB))"

subsection \<open>Repairing defanged text\<close>

definition hxxp_repl :: "string \<Rightarrow> (nat \<times> string) list \<Rightarrow> string" where
  "hxxp_repl m cs = ''http'' @ cap 1 cs @ ''://''"

definition hxxp_re :: rx where
  "hxxp_re = RSeq RWordB (RSeq (rx_stri ''hxxp'') (RSeq (RGrp 1 (rx_opt (rx_stri ''s''))) (rx_str ''://'')))"

definition hxxp_colon_re :: rx where
  "hxxp_colon_re = RSeq RWordB (RSeq (rx_stri ''hxxp'') (RSeq (RGrp 1 (rx_opt (rx_stri ''s''))) (rx_str ''[:]//'')))"

definition refang :: "string \<Rightarrow> string" where
  "refang t =
     (let t = rx_replace_all (rx_str ''[.]'') (\<lambda>_ _. ''.'') t;
          t = rx_replace_all (rx_str ''(.)'') (\<lambda>_ _. ''.'') t;
          t = rx_replace_all (rx_str ''{.}'') (\<lambda>_ _. ''.'') t;
          t = rx_replace_all (rx_stri ''[dot]'') (\<lambda>_ _. ''.'') t;
          t = rx_replace_all hxxp_re hxxp_repl t;
          t = rx_replace_all hxxp_colon_re hxxp_repl t;
          t = rx_replace_all (rx_str ''[:]'') (\<lambda>_ _. '':'') t;
          t = rx_replace_all (rx_str ''[@]'') (\<lambda>_ _. ''@'') t
      in rx_replace_all (rx_stri ''[at]'') (\<lambda>_ _. ''@'') t)"

subsection \<open>The parser\<close>

definition uniqMatches :: "string \<Rightarrow> rx \<Rightarrow> string list" where
  "uniqMatches t re = uniq (map toLowerCase (rx_match_all re t))"

record parsed_iocs =
  pi_ips :: "string list"
  pi_domains :: "string list"
  pi_hashes :: "string list"
  pi_urls :: "string list"
  pi_cves :: "string list"

definition url_host_blob :: "(string \<Rightarrow> string option) \<Rightarrow> string list \<Rightarrow> string" where
  "url_host_blob host urls =
     concat (map (\<lambda>u. case host u of None \<Rightarrow> [] | Some h \<Rightarrow> '' '' @ toLowerCase h) urls)"

definition parseIocs :: "(string \<Rightarrow> string option) \<Rightarrow> string \<Rightarrow> bool \<Rightarrow> parsed_iocs" where
  "parseIocs host rawText doRefang =
     (let t = if doRefang then refang rawText else rawText;
          urls = uniqMatches t RE_URL;
          ips = uniqMatches t RE_IPV4;
          cves = uniqMatches t RE_CVE;
          hashes = uniq (uniqMatches t RE_SHA256 @ uniqMatches t RE_SHA1 @ uniqMatches t RE_MD5);
          urlHosts = uniqMatches (url_host_blob host urls) RE_DOMAIN;
          domains = filter (\<lambda>d. d \<notin> set ips \<and> d \<notin> set urlHosts) (uniqMatches t RE_DOMAIN)
      in \<lparr>pi_ips = ips, pi_domains = domains, pi_hashes = hashes, pi_urls = urls, pi_cves = cves\<rparr>)"

subsection \<open>The page\<close>

datatype confidence_level = LowConf | MediumConf | HighConf | ConfirmedConf

fun CONFIDENCE_SCORE :: "confidence_level \<Rightarrow> rat" where
  "CONFIDENCE_SCORE LowConf = 25"
| "CONFIDENCE_SCORE MediumConf = 50"
| "CONFIDENCE_SCORE HighConf = 75"
| "CONFIDENCE_SCORE ConfirmedConf = 95"

fun CONFIDENCE_SEVERITY :: "confidence_level \<Rightarrow> string" where
  "CONFIDENCE_SEVERITY LowConf = ''low''"
| "CONFIDENCE_SEVERITY MediumConf = ''medium''"
| "CONFIDENCE_SEVERITY HighConf = ''high''"
| "CONFIDENCE_SEVERITY ConfirmedConf = ''critical''"

datatype import_mode = Paste | UploadFile

record import_result =
  ir_imported :: nat
  ir_duplicates :: nat
  ir_skipped :: nat
  ir_total :: nat

text \<open>\<open>im_flight\<close> is the count the call under way was started with (the closure of the
  handler), \<open>im_toasts\<close> the number of timers that will hide the toast.\<close>

record import_page =
  im_mode :: import_mode
  im_text :: string
  im_refang :: bool
  im_tags :: "string list"
  im_draft :: string
  im_tlp :: string
  im_confidence :: confidence_level
  im_dragging :: bool
  im_file :: "string option"
  im_toast :: bool
  im_importing :: bool
  im_result :: "import_result option"
  im_flight :: "nat option"
  im_toasts :: nat
  im_loads :: nat

definition import_init :: import_page where
  "import_init = \<lparr>im_mode = Paste, im_text = [], im_refang = True, im_tags = [''triage''], im_draft = [],
     im_tlp = ''TLP:AMBER'', im_confidence = MediumConf, im_dragging = False, im_file = None, im_toast = False,
     im_importing = False, im_result = None, im_flight = None, im_toasts = 0, im_loads = 1\<rparr>"

definition im_parsed :: "(string \<Rightarrow> string option) \<Rightarrow> import_page \<Rightarrow> parsed_iocs" where
  "im_parsed host p = parseIocs host (im_text p) (im_refang p)"

definition totalCount :: "parsed_iocs \<Rightarrow> nat" where
  "totalCount q = length (pi_ips q) + length (pi_domains q) + length (pi_hashes q) + length (pi_urls q) +
     length (pi_cves q)"

definition import_counts :: "parsed_iocs \<Rightarrow> (string \<times> nat) list" where
  "import_counts q = [(''IPs'', length (pi_ips q)), (''Domains'', length (pi_domains q)),
     (''Hashes'', length (pi_hashes q)), (''URLs'', length (pi_urls q)), (''CVEs'', length (pi_cves q))]"

definition addTag :: "import_page \<Rightarrow> import_page" where
  "addTag p = (let t = toLowerCase (trim (im_draft p)) in
     p\<lparr>im_tags := (if t \<noteq> [] \<and> t \<notin> set (im_tags p) then im_tags p @ [t] else im_tags p), im_draft := []\<rparr>)"

definition removeTag :: "string \<Rightarrow> import_page \<Rightarrow> import_page" where
  "removeTag t p = p\<lparr>im_tags := filter (\<lambda>x. x \<noteq> t) (im_tags p)\<rparr>"

definition indicators :: "parsed_iocs \<Rightarrow> (string \<times> string) list" where
  "indicators q = map (\<lambda>v. (''ip'', v)) (pi_ips q) @ map (\<lambda>v. (''domain'', v)) (pi_domains q) @
     map (\<lambda>v. (''hash'', v)) (pi_hashes q) @ map (\<lambda>v. (''url'', v)) (pi_urls q) @
     map (\<lambda>v. (''cve'', v)) (pi_cves q)"

definition import_body :: "import_page \<Rightarrow> parsed_iocs \<Rightarrow> json" where
  "import_body p q = JObj
     [(''indicators'', JArr (map (\<lambda>(ty, v). JObj [(''type'', JStr ty), (''value'', JStr v)]) (indicators q))),
      (''confidence'', JNum (CONFIDENCE_SCORE (im_confidence p))),
      (''severity'', JStr (CONFIDENCE_SEVERITY (im_confidence p))),
      (''source'', JStr (case im_file p of
         Some f \<Rightarrow> if f = [] then ''Pasted import ('' @ im_tlp p @ '')'' else f @ '' ('' @ im_tlp p @ '')''
       | None \<Rightarrow> ''Pasted import ('' @ im_tlp p @ '')'')),
      (''tags'', JArr (map JStr (im_tags p)))]"

definition triggerImport :: "(string \<Rightarrow> string option) \<Rightarrow> import_page \<Rightarrow> import_page \<times> call option" where
  "triggerImport host p =
     (let q = im_parsed host p in
      if totalCount q = 0 \<or> im_importing p then (p, None)
      else (p\<lparr>im_importing := True, im_flight := Some (totalCount q)\<rparr>, Some (importIocs (import_body p q))))"

definition import_done :: "'e + import_result \<Rightarrow> import_page \<Rightarrow> import_page" where
  "import_done r p =
     (case im_flight p of
        None \<Rightarrow> p
      | Some n \<Rightarrow>
          let p = (case r of
             Inr res \<Rightarrow> p\<lparr>im_result := Some res, im_loads := Suc (im_loads p)\<rparr>
           | Inl _ \<Rightarrow> p\<lparr>im_result := Some \<lparr>ir_imported = n, ir_duplicates = 0, ir_skipped = 0,
                                            ir_total = n\<rparr>\<rparr>)
          in p\<lparr>im_importing := False, im_flight := None, im_toast := True, im_toasts := Suc (im_toasts p)\<rparr>)"

definition toast_timeout :: "import_page \<Rightarrow> import_page" where
  "toast_timeout p = (if im_toasts p = 0 then p else p\<lparr>im_toast := False, im_toasts := im_toasts p - 1\<rparr>)"

definition import_drop :: "string option \<Rightarrow> import_page \<Rightarrow> import_page" where
  "import_drop f p = p\<lparr>im_dragging := False, im_file := (case f of Some n \<Rightarrow> Some n | None \<Rightarrow> im_file p)\<rparr>"

definition canImport :: "(string \<Rightarrow> string option) \<Rightarrow> import_page \<Rightarrow> bool" where
  "canImport host p =
     (if im_mode p = Paste then 0 < totalCount (im_parsed host p) else im_file p \<noteq> None)"

text \<open>The button: whether it is enabled, and its label, \<open>None\<close> while a call is under way; and
  the toast over the page.\<close>

definition import_button :: "(string \<Rightarrow> string option) \<Rightarrow> import_page \<Rightarrow> bool \<times> string option" where
  "import_button host p =
     (canImport host p \<and> \<not> im_importing p,
      if im_importing p then None
      else Some (''Import '' @ (if im_mode p = Paste then int_str (int (totalCount (im_parsed host p)))
                         else case im_file p of
                           Some f \<Rightarrow> if f = [] then ''0'' else [] | None \<Rightarrow> ''0'') @ '' indicators''))"

definition import_toast :: "(string \<Rightarrow> string option) \<Rightarrow> import_page \<Rightarrow> string option" where
  "import_toast host p =
     (if \<not> im_toast p then None
      else Some (case im_result p of
        Some r \<Rightarrow> int_str (int (ir_imported r)) @ '' indicators imported''
      | None \<Rightarrow> ''Import queued''))"

datatype import_op = IoMode import_mode | IoText string | IoRefang | IoDraft string | IoAddTag | IoRemoveTag string
  | IoTlp string | IoConfidence confidence_level | IoDragging bool | IoDrop "string option" | IoFile "string option"
  | IoClearFile | IoImport | IoDone "exn + import_result" | IoTimeout

fun import_step :: "(string \<Rightarrow> string option) \<Rightarrow> import_op \<Rightarrow> import_page \<Rightarrow> import_page" where
  "import_step host (IoMode m) p = p\<lparr>im_mode := m\<rparr>"
| "import_step host (IoText t) p = p\<lparr>im_text := t\<rparr>"
| "import_step host IoRefang p = p\<lparr>im_refang := \<not> im_refang p\<rparr>"
| "import_step host (IoDraft t) p = p\<lparr>im_draft := t\<rparr>"
| "import_step host IoAddTag p = addTag p"
| "import_step host (IoRemoveTag t) p = removeTag t p"
| "import_step host (IoTlp t) p = p\<lparr>im_tlp := t\<rparr>"
| "import_step host (IoConfidence c) p = p\<lparr>im_confidence := c\<rparr>"
| "import_step host (IoDragging b) p = p\<lparr>im_dragging := b\<rparr>"
| "import_step host (IoDrop f) p = import_drop f p"
| "import_step host (IoFile f) p = p\<lparr>im_file := (case f of Some n \<Rightarrow> Some n | None \<Rightarrow> im_file p)\<rparr>"
| "import_step host IoClearFile p = p\<lparr>im_file := None\<rparr>"
| "import_step host IoImport p = fst (triggerImport host p)"
| "import_step host (IoDone r) p = import_done r p"
| "import_step host IoTimeout p = toast_timeout p"

subsection \<open>The language of the patterns\<close>

definition dec_val :: "string \<Rightarrow> nat" where
  "dec_val w = foldl (\<lambda>n c. n * 10 + (code c - 48)) 0 w"

definition octet :: "string \<Rightarrow> bool" where
  "octet w \<longleftrightarrow> w \<noteq> [] \<and> length w \<le> 3 \<and> list_all is_digit w \<and> dec_val w \<le> 255"

definition dotted_quad :: "string \<Rightarrow> bool" where
  "dotted_quad s \<longleftrightarrow> (\<exists>a b c d. s = a @ ''.'' @ b @ ''.'' @ c @ ''.'' @ d \<and> octet a \<and> octet b \<and> octet c \<and> octet d)"

lemma octet_digits: "octet w \<Longrightarrow> c \<in> set w \<Longrightarrow> \<not> is_upper c"
  by (auto simp: octet_def list_all_iff char_classes)

lemma lower_id: "(\<And>c. c \<in> set w \<Longrightarrow> \<not> is_upper c) \<Longrightarrow> toLowerCase w = w"
  unfolding toLowerCase_def by (rule map_idI) (simp add: to_lower_def)

lemma rx_lang_octet: "w \<in> rx_lang octet_re \<Longrightarrow> octet w"
proof -
  assume "w \<in> rx_lang octet_re"
  then consider c where "w = ''25'' @ [c]" "c \<in> set ''012345''"
    | c d where "w = ''2'' @ [c, d]" "c \<in> set ''01234''" "is_digit d"
    | d where "w = [d]" "is_digit d" | c d where "w = [c, d]" "is_digit c" "is_digit d"
    | d where "w = ''1'' @ [d]" "is_digit d"
    | c d where "w = ''1'' @ [c, d]" "is_digit c" "is_digit d"
    unfolding octet_re_def by (auto simp: rx_lang_str simp del: rx_str.simps)
  then show "octet w"
    by cases (auto simp: octet_def dec_val_def is_digit_def code_def)
qed

lemma rx_lang_ipv4: "w \<in> rx_lang RE_IPV4 \<Longrightarrow> dotted_quad w"
proof -
  assume "w \<in> rx_lang RE_IPV4"
  then obtain a b c d where "w = (a @ ''.'') @ (b @ ''.'') @ (c @ ''.'') @ d"
    "a \<in> rx_lang octet_re" "b \<in> rx_lang octet_re" "c \<in> rx_lang octet_re" "d \<in> rx_lang octet_re"
    unfolding RE_IPV4_def numeral_3_eq_3 by (auto simp: rx_lang_str simp del: rx_str.simps)
  then show ?thesis unfolding dotted_quad_def by (simp, blast dest: rx_lang_octet)
qed

lemma rx_lang_hex: "rx_lang (RE_HEX n) = {w. length w = n \<and> list_all is_hex w}"
  unfolding RE_HEX_def rx_lang.simps rx_lang_times_set by auto

lemma is_hex_lower: "is_hex c \<Longrightarrow> is_hex (to_lower c)"
  by (auto simp: to_lower_def char_classes)

lemma uniqMatches_props: "distinct (uniqMatches t re) \<and> (\<forall>v \<in> set (uniqMatches t re). toLowerCase v = v)
    \<and> (\<forall>v \<in> set (uniqMatches t re). \<exists>w \<in> rx_lang re. v = toLowerCase w)"
  by (auto simp: uniqMatches_def dest: rx_match_all_lang)

lemma hash_props:
  assumes "v \<in> set (uniqMatches t (RE_HEX n))"
  shows "length v = n \<and> list_all is_hex v"
proof -
  from assms uniqMatches_props [of t "RE_HEX n"] obtain w where "w \<in> rx_lang (RE_HEX n)" "v = toLowerCase w" by blast
  then show ?thesis by (auto simp: rx_lang_hex toLowerCase_def list_all_iff is_hex_lower)
qed

lemma quad_lower: "dotted_quad w \<Longrightarrow> toLowerCase w = w"
proof -
  assume "dotted_quad w"
  then obtain a b c d where w: "w = a @ ''.'' @ b @ ''.'' @ c @ ''.'' @ d" and o: "octet a" "octet b" "octet c" "octet d"
    unfolding dotted_quad_def by blast
  have dot: "\<not> is_upper (CHR ''.'')" by (simp add: char_classes)
  show ?thesis unfolding w by (rule lower_id) (use o dot in \<open>auto simp: octet_digits\<close>)
qed

lemma quad_props: "v \<in> set (uniqMatches t RE_IPV4) \<Longrightarrow> dotted_quad v"
  using uniqMatches_props [of t RE_IPV4] by (metis rx_lang_ipv4 quad_lower)

subsection \<open>The host of a URL is found again\<close>

text \<open>A language is closed under a change of characters that every character set respects.\<close>

primrec rx_closed :: "(char \<Rightarrow> char) \<Rightarrow> rx \<Rightarrow> bool" where
  "rx_closed f (RSet P) = (\<forall>c. P c \<longrightarrow> P (f c))"
| "rx_closed f REps = True"
| "rx_closed f (RSeq r1 r2) = (rx_closed f r1 \<and> rx_closed f r2)"
| "rx_closed f (RAlt r1 r2) = (rx_closed f r1 \<and> rx_closed f r2)"
| "rx_closed f (RStar r) = rx_closed f r"
| "rx_closed f (RGrp n r) = rx_closed f r"
| "rx_closed f RBegin = True"
| "rx_closed f REnd = True"
| "rx_closed f RWordB = True"
| "rx_closed f (RNotAhead P) = True"
| "rx_closed f (RNotBehind P) = True"

lemma rx_closed_times [simp]: "rx_closed f r \<Longrightarrow> rx_closed f (rx_times n r)"
  by (induction n) auto

lemma rx_closed_upto [simp]: "rx_closed f r \<Longrightarrow> rx_closed f (rx_upto n r)"
  by (induction n) auto

lemma rx_lang_closed: "rx_closed f r \<Longrightarrow> w \<in> rx_lang r \<Longrightarrow> map f w \<in> rx_lang r"
proof (induction r arbitrary: w)
  case (RSeq r1 r2)
  then obtain u v where "w = u @ v" "u \<in> rx_lang r1" "v \<in> rx_lang r2" by auto
  with RSeq show ?case by auto
next
  case (RStar r)
  then obtain ws where w: "w = concat ws" "set ws \<subseteq> rx_lang r" by auto
  then have "map f w = concat (map (map f) ws)" "set (map (map f) ws) \<subseteq> rx_lang r" using RStar by (auto simp: map_concat)
  then show ?case unfolding rx_lang.simps by blast
qed auto

text \<open>A separator that no match holds cuts the scan.\<close>

lemma rx_tokens_cut:
  assumes no_sep: "\<And>w. w \<in> rx_lang r \<Longrightarrow> w \<noteq> [] \<and> c \<notin> set w"
  shows "s = x @ c # y \<Longrightarrow> \<exists>ts. rx_tokens r p s = ts @ Inl c # rx_tokens r (Some c) y"
proof (induction p s arbitrary: x rule: rx_tokens_induct [of r])
  case (none p s)
  show ?case
  proof (cases x)
    case Nil
    with none.hyps none.prems have "rx_tokens r p s = [] @ Inl c # rx_tokens r (Some c) y" by (simp add: rx_tokens_none)
    then show ?thesis ..
  next
    case (Cons d x')
    with none.IH [of d "x' @ c # y" x'] none.prems obtain ts where
      "rx_tokens r (Some d) (x' @ c # y) = ts @ Inl c # rx_tokens r (Some c) y" by auto
    with none.hyps none.prems Cons have "rx_tokens r p s = (Inl d # ts) @ Inl c # rx_tokens r (Some c) y" by (simp add: rx_tokens_none)
    then show ?thesis ..
  qed
next
  case (match p s w s' cs l)
  have w: "c \<notin> set w" using no_sep match.hyps by blast
  from match.prems match.hyps have "w @ s' = x @ c # y" by simp
  then obtain x' where "x = w @ x'" "s' = x' @ c # y"
    using w by (auto simp: append_eq_append_conv2 append_eq_Cons_conv)
  with match.IH obtain ts where "rx_tokens r (after p w) s' = ts @ Inl c # rx_tokens r (Some c) y" by blast
  with match.hyps have "rx_tokens r p s = (Inr (w, cs) # ts) @ Inl c # rx_tokens r (Some c) y" by simp
  then show ?case ..
next
  case (empty p s cs l)
  have "[] \<in> rx_lang r" using empty.hyps rx_m_sound [of r] by (fastforce dest: rx_okD)
  then show ?case using no_sep by blast
qed

text \<open>The first match of a greedy run of a character set, and of a sequence.\<close>

lemma rx_seq_first:
  assumes "rx_m r1 st = x # l" "rx_m r2 x = y # l'"
  shows "\<exists>l''. rx_m (RSeq r1 r2) st = y # l''"
  using assms by simp

lemma rx_upto_first:
  assumes "list_all P x" "length x \<le> n" "case s of [] \<Rightarrow> True | c # _ \<Rightarrow> \<not> P c"
  shows "\<exists>l. rx_m (rx_upto n (RSet P)) (p, x @ s, cs) = (after p x, s, cs) # l"
  using assms
proof (induction n arbitrary: p x)
  case 0
  then show ?case by simp
next
  case (Suc n)
  show ?case
  proof (cases x)
    case Nil
    then show ?thesis using Suc.prems by (cases s) auto
  next
    case (Cons c x')
    with Suc.prems obtain l where "rx_m (rx_upto n (RSet P)) (Some c, x' @ s, cs) = (after (Some c) x', s, cs) # l"
      using Suc.IH [of x' "Some c"] by auto
    then show ?thesis using Cons Suc.prems by (auto simp: after_def)
  qed
qed

definition label_re :: rx where
  "label_re = RSeq (RSet is_alnum) (RSeq (rx_opt (RSeq (rx_upto 61 (RSet label_char)) (RSet is_alnum))) (rx_str ''.''))"

lemma label_lang: "w \<in> rx_lang label_re \<Longrightarrow> \<exists>c v. w = c # v @ ''.'' \<and> is_alnum c \<and> list_all label_char v"
  unfolding label_re_def rx_lang_cons rx_lang.simps rx_lang_str rx_lang_upto_set by (auto simp: label_char_def)

lemma label_plain: "rx_plain label_re"
  by (simp add: label_re_def)

lemma dot_no_label [simp]: "\<not> label_char (CHR ''.'')" "\<not> is_alnum (CHR ''.'')" "\<not> is_alpha (CHR ''.'')" "\<not> is_space (CHR ''.'')"
  by (simp_all add: label_char_def char_classes)

lemma label_of_alnum: "is_alnum c \<Longrightarrow> label_char c"
  by (simp add: label_char_def)

lemma label_cut:
  assumes "list_all label_char u" "list_all label_char v" "u @ ''.'' @ s = v @ ''.'' @ t"
  shows "s = t"
  using assms by (induction u arbitrary: v) (case_tac v; auto)+

lemma label_match:
  assumes "w \<in> rx_lang label_re"
  shows "\<exists>cs' l. rx_m label_re (p, w @ s, cs) = (after p w, s, cs') # l"
proof -
  have all: "st_rest st = s \<and> fst st = after p w" if "st \<in> set (rx_m label_re (p, w @ s, cs))" for st
  proof -
    obtain p' s' cs' where st: "st = (p', s', cs')" by (cases st)
    from rx_okD [OF rx_m_sound that [unfolded st]] obtain u where
      u: "u \<in> rx_lang label_re" "w @ s = u @ s'" "p' = after p u" by blast
    obtain c v where w: "w = (c # v) @ ''.''" "list_all label_char (c # v)" using label_lang [OF assms] label_of_alnum by fastforce
    obtain d x where x: "u = (d # x) @ ''.''" "list_all label_char (d # x)" using label_lang [OF u(1)] label_of_alnum by fastforce
    have "(c # v) @ ''.'' @ s = (d # x) @ ''.'' @ s'" using u(2) w(1) x(1) by simp
    then have "s = s'" by (rule label_cut [OF w(2) x(2)])
    with u st show ?thesis by auto
  qed
  from rx_m_complete [OF label_plain assms, of p s cs] obtain cs' where
    "(after p w, s, cs') \<in> set (rx_m label_re (p, w @ s, cs))" by blast
  then obtain st l where "rx_m label_re (p, w @ s, cs) = st # l" by (cases "rx_m label_re (p, w @ s, cs)") auto
  with all [of st] show ?thesis by (cases st) auto
qed

lemma label_miss:
  assumes "list_all is_alpha x" "case s of [] \<Rightarrow> True | c # _ \<Rightarrow> is_space c"
  shows "rx_m label_re (p, x @ s, cs) = []"
proof (rule ccontr)
  assume "rx_m label_re (p, x @ s, cs) \<noteq> []"
  then obtain p' s' cs' where "(p', s', cs') \<in> set (rx_m label_re (p, x @ s, cs))"
    by (metis list.set_sel(1) prod_cases3)
  from rx_okD [OF rx_m_sound this] obtain u where u: "u \<in> rx_lang label_re" "x @ s = u @ s'" by blast
  from label_lang [OF u(1)] label_of_alnum obtain v where v: "u = v @ ''.''" "list_all label_char v" by fastforce
  have sp: "\<not> label_char c" if "is_space c" for c using that by (auto simp: label_char_def char_classes)
  have "list_all is_alpha x \<Longrightarrow> x @ s = v @ CHR ''.'' # s' \<Longrightarrow> False" using v(2)
  proof (induction v arbitrary: x)
    case Nil
    then show ?case using assms(2) by (cases x; cases s) auto
  next
    case (Cons c v)
    then show ?case using assms(2) sp by (cases x; cases s) auto
  qed
  with assms(1) u(2) v(1) show False by simp
qed

lemma labels_first:
  assumes "set ws \<subseteq> rx_lang label_re" "list_all is_alpha x" "case s of [] \<Rightarrow> True | c # _ \<Rightarrow> is_space c"
  shows "\<exists>cs' l. rx_m (RStar label_re) (p, concat ws @ x @ s, cs) = (after p (concat ws), x @ s, cs') # l"
  using assms(1)
proof (induction ws arbitrary: p cs)
  case Nil
  have "rx_m label_re (p, x @ s, cs) = []" using assms(2,3) by (rule label_miss)
  then show ?case by (simp add: rx_iter.simps)
next
  case (Cons w ws)
  from label_match [of w p "concat ws @ x @ s" cs] Cons.prems obtain cs1 l1 where
    m: "rx_m label_re (p, w @ concat ws @ x @ s, cs) = (after p w, concat ws @ x @ s, cs1) # l1" by auto
  from Cons.IH [of "after p w" cs1] Cons.prems obtain cs2 l2 where
    n: "rx_iter (rx_m label_re) (after p w, concat ws @ x @ s, cs1) = (after (after p w) (concat ws), x @ s, cs2) # l2" by auto
  have "w \<noteq> []" using label_lang Cons.prems by fastforce
  then show ?case using m n by (simp add: rx_iter.simps [of _ "(p, w @ concat ws @ x @ s, cs)"])
qed

text \<open>A word of the pattern that stands between spaces is matched as a whole.\<close>

lemma domain_parts:
  assumes "d \<in> rx_lang RE_DOMAIN"
  obtains ws x where "d = concat ws @ x" "ws \<noteq> []" "set ws \<subseteq> rx_lang label_re" "list_all is_alpha x" "2 \<le> length x" "length x \<le> 24"
proof -
  have seq: "\<exists>u v. w = u @ v \<and> u \<in> rx_lang r1 \<and> v \<in> rx_lang r2" if "w \<in> rx_lang (RSeq r1 r2)" for w r1 r2
    using that by simp
  from seq [OF assms [unfolded RE_DOMAIN_def label_re_def [symmetric]]] obtain d' where
    "d = d'" "d' \<in> rx_lang (RSeq (rx_plus label_re) (RSeq (rx_range 2 24 (RSet is_alpha)) RWordB))" by auto
  from seq [OF this(2)] obtain y z where y: "d = y @ z" "y \<in> rx_lang (rx_plus label_re)"
    and z: "z \<in> rx_lang (RSeq (rx_range 2 24 (RSet is_alpha)) RWordB)" using \<open>d = d'\<close> by blast
  from seq [OF y(2)] obtain w v where w: "w \<in> rx_lang label_re" and v: "v \<in> rx_lang (RStar label_re)" and wv: "y = w @ v" by blast
  from seq [OF z] obtain x where x: "x \<in> rx_lang (rx_range 2 24 (RSet is_alpha))" and "z = x" by auto
  with y wv have d: "d = (w @ v) @ x" by simp
  from v obtain ws where "v = concat ws" "set ws \<subseteq> rx_lang label_re" by auto
  with d w have "d = concat (w # ws) @ x" "w # ws \<noteq> []" "set (w # ws) \<subseteq> rx_lang label_re" by auto
  moreover have "list_all is_alpha x" "2 \<le> length x" "length x \<le> 24" using x by (auto simp: rx_lang_range_set)
  ultimately show ?thesis by (rule that)
qed

lemma domain_whole:
  assumes "d \<in> rx_lang RE_DOMAIN" "case s of [] \<Rightarrow> True | c # _ \<Rightarrow> is_space c" "\<not> word_at p"
  shows "\<exists>cs l. rx_m RE_DOMAIN (p, d @ s, []) = (after p d, s, cs) # l"
proof -
  obtain ws x where d: "d = concat ws @ x" and ws: "ws \<noteq> []" "set ws \<subseteq> rx_lang label_re"
    and x: "list_all is_alpha x" "2 \<le> length x" "length x \<le> 24" by (rule domain_parts [OF assms(1)])
  obtain w vs where w: "ws = w # vs" using ws(1) by (cases ws) auto
  obtain c v where c: "w = c # v" "is_alnum c" using label_lang [of w] ws(2) w by fastforce
  have start: "rx_m RWordB (p, d @ s, []) = [(p, d @ s, [])]"
    using assms(3) c by (simp add: d w word_at_def is_word_def)
  from label_match [of w p "concat vs @ x @ s" "[]"] ws(2) w obtain cs1 l1 where
    m1: "rx_m label_re (p, d @ s, []) = (after p w, concat vs @ x @ s, cs1) # l1" by (auto simp: d)
  from labels_first [of vs x s "after p w" cs1] ws(2) w x(1) assms(2) obtain cs2 l2 where
    m2: "rx_m (RStar label_re) (after p w, concat vs @ x @ s, cs1) = (after (after p w) (concat vs), x @ s, cs2) # l2" by auto
  let ?q = "after (after p w) (concat vs)"
  have s: "case s of [] \<Rightarrow> True | c # _ \<Rightarrow> \<not> is_alpha c" using assms(2) by (auto simp: char_classes split: list.splits)
  have y: "list_all is_alpha (drop 2 x)" "length (drop 2 x) \<le> 24 - 2"
    using x by (auto simp: list_all_iff dest: in_set_dropD)
  have m3: "\<exists>l. rx_m (rx_range 2 24 (RSet is_alpha)) (?q, x @ s, cs2) = (after ?q x, s, cs2) # l"
  proof -
    have two: "rx_m (rx_times 2 (RSet is_alpha)) (?q, x @ s, cs2) = (after ?q (take 2 x), drop 2 x @ s, cs2) # []"
      using x by (auto simp: list_all_iff dest: in_set_takeD)
    obtain l where more: "rx_m (rx_upto (24 - 2) (RSet is_alpha)) (after ?q (take 2 x), drop 2 x @ s, cs2) =
        (after (after ?q (take 2 x)) (drop 2 x), s, cs2) # l"
      using rx_upto_first [of is_alpha "drop 2 x" "24 - 2" s "after ?q (take 2 x)" cs2, OF y(1,2) s] by blast
    have "after (after ?q (take 2 x)) (drop 2 x) = after ?q x" by (simp only: after_append append_assoc append_take_drop_id)
    with rx_seq_first [OF two more] show ?thesis unfolding rx_range_def by metis
  qed
  have q: "after ?q x = after p d" by (simp add: d w)
  have "x \<noteq> []" using x(2) by auto
  then have "is_alpha (last x)" "last d = last x" using x(1) by (auto simp: list_all_iff d)
  then have "word_at (after p d)" using \<open>x \<noteq> []\<close> by (simp add: after_def d word_at_def is_word_def is_alnum_def)
  moreover have "\<not> word_at (case s of [] \<Rightarrow> None | c # _ \<Rightarrow> Some c)"
    using assms(2) by (auto simp: word_at_def char_classes split: list.splits)
  ultimately have stop: "rx_m RWordB (after p d, s, cs2) = [(after p d, s, cs2)]" by simp
  obtain l3 where "rx_m (rx_range 2 24 (RSet is_alpha)) (?q, x @ s, cs2) = (after p d, s, cs2) # l3" using m3 unfolding q ..
  from rx_seq_first [OF this stop] obtain l4 where
    m4: "rx_m (RSeq (rx_range 2 24 (RSet is_alpha)) RWordB) (?q, x @ s, cs2) = (after p d, s, cs2) # l4" ..
  from rx_seq_first [OF m1 m2] obtain l5 where m5: "rx_m (rx_plus label_re) (p, d @ s, []) = (?q, x @ s, cs2) # l5" ..
  from rx_seq_first [OF m5 m4] obtain l6 where
    "rx_m (RSeq (rx_plus label_re) (RSeq (rx_range 2 24 (RSet is_alpha)) RWordB)) (p, d @ s, []) = (after p d, s, cs2) # l6" ..
  from rx_seq_first [OF start this] show ?thesis unfolding RE_DOMAIN_def label_re_def [symmetric] by blast
qed

lemma domain_text_chars: "d \<in> rx_lang RE_DOMAIN \<Longrightarrow> d \<noteq> [] \<and> CHR '' '' \<notin> set d"
proof -
  assume "d \<in> rx_lang RE_DOMAIN"
  then obtain ws x where d: "d = concat ws @ x" and ws: "set ws \<subseteq> rx_lang label_re" and x: "list_all is_alpha x" "2 \<le> length x"
    by (rule domain_parts)
  have sp: "\<not> is_alpha (CHR '' '')" "\<not> is_alnum (CHR '' '')" "\<not> label_char (CHR '' '')" by (simp_all add: char_classes label_char_def)
  then have "CHR '' '' \<notin> set w" if "w \<in> rx_lang label_re" for w
    using label_lang [OF that] by (auto simp: list_all_iff)
  moreover have "CHR '' '' \<notin> set x" using x(1) sp by (auto simp: list_all_iff)
  ultimately show ?thesis using d ws x(2) by auto
qed

lemma domain_lower: "d \<in> rx_lang RE_DOMAIN \<Longrightarrow> toLowerCase d \<in> rx_lang RE_DOMAIN"
proof -
  have "is_alpha c \<Longrightarrow> is_alpha (to_lower c)" "is_digit c \<Longrightarrow> to_lower c = c" "to_lower (CHR ''-'') = CHR ''-''"
    "to_lower (CHR ''.'') = CHR ''.''" for c
    by (auto simp: to_lower_def char_classes)
  then have "rx_closed to_lower RE_DOMAIN"
    unfolding RE_DOMAIN_def by (auto simp: rx_range_def is_alnum_def label_char_def)
  then show "d \<in> rx_lang RE_DOMAIN \<Longrightarrow> toLowerCase d \<in> rx_lang RE_DOMAIN"
    unfolding toLowerCase_def by (rule rx_lang_closed)
qed

lemma host_found:
  assumes "d \<in> rx_lang RE_DOMAIN" "toLowerCase d = d" "u \<in> set urls" "host u = Some h" "toLowerCase h = d"
  shows "d \<in> set (uniqMatches (url_host_blob host urls) RE_DOMAIN)"
proof -
  let ?f = "\<lambda>u. case host u of None \<Rightarrow> [] | Some h \<Rightarrow> '' '' @ toLowerCase h"
  obtain us vs where urls: "urls = us @ u # vs" using split_list [OF assms(3)] by blast
  let ?a = "concat (map ?f us)" and ?b = "concat (map ?f vs)"
  have blob: "url_host_blob host urls = ?a @ CHR '' '' # d @ ?b"
    using assms(4,5) by (simp add: url_host_blob_def urls)
  have b: "case ?b of [] \<Rightarrow> True | c # _ \<Rightarrow> is_space c"
  proof (induction vs)
    case (Cons v vs)
    then show ?case by (cases "host v") (auto simp: char_classes)
  qed simp
  have "\<not> word_at (Some (CHR '' ''))" by (simp add: word_at_def char_classes)
  from domain_whole [OF assms(1) b this] obtain cs l where
    m: "rx_m RE_DOMAIN (Some (CHR '' ''), d @ ?b, []) = (after (Some (CHR '' '')) d, ?b, cs) # l" by blast
  have "length ?b < length (d @ ?b)" using domain_text_chars [OF assms(1)] by simp
  from rx_tokens_match [OF m this] have
    "Inr (d, cs) \<in> set (rx_tokens RE_DOMAIN (Some (CHR '' '')) (d @ ?b))" by simp
  moreover from rx_tokens_cut [of RE_DOMAIN "CHR '' ''", OF domain_text_chars blob, of None] obtain ts where
    "rx_tokens RE_DOMAIN None (url_host_blob host urls) = ts @ Inl (CHR '' '') # rx_tokens RE_DOMAIN (Some (CHR '' '')) (d @ ?b)" by blast
  ultimately have "d \<in> set (rx_match_all RE_DOMAIN (url_host_blob host urls))"
    by (force simp: rx_match_all_def)
  then show ?thesis using assms(2) by (force simp: uniqMatches_def)
qed

text \<open>C14: what the parser reports for any text: lists without repetition in lower case; addresses
  of four octets up to 255; hashes of the length of an MD5, SHA-1 or SHA-256; and no
  domain that is an address or the host of a reported URL.\<close>

theorem parseIocs_sound:
  "case parseIocs host t b of q \<Rightarrow>
     list_all (\<lambda>vs. distinct vs \<and> list_all (\<lambda>v. toLowerCase v = v) vs)
       [pi_ips q, pi_domains q, pi_hashes q, pi_urls q, pi_cves q]
   \<and> list_all dotted_quad (pi_ips q)
   \<and> list_all (\<lambda>v. length v \<in> {32, 40, 64} \<and> list_all is_hex v) (pi_hashes q)
   \<and> set (pi_domains q) \<inter> (set (pi_ips q) \<union> {toLowerCase h | u h. u \<in> set (pi_urls q) \<and> host u = Some h}) = {}"
proof -
  have d: "distinct (uniqMatches t re)" for t re using uniqMatches_props by blast
  have l: "v \<in> set (uniqMatches t re) \<Longrightarrow> toLowerCase v = v" for v t re using uniqMatches_props by blast
  have h: "length v \<in> {32, 40, 64} \<and> list_all is_hex v"
    if "v \<in> set (uniqMatches t RE_SHA256) \<or> v \<in> set (uniqMatches t RE_SHA1) \<or> v \<in> set (uniqMatches t RE_MD5)" for v t
    using that hash_props [of v t 64] hash_props [of v t 40] hash_props [of v t 32]
    unfolding RE_SHA256_def RE_SHA1_def RE_MD5_def by auto
  have hs: "list_all (\<lambda>v. length v \<in> {32, 40, 64} \<and> list_all is_hex v)
      (uniq (uniqMatches t RE_SHA256 @ uniqMatches t RE_SHA1 @ uniqMatches t RE_MD5))" for t
    unfolding list_all_iff [of _ "uniq _"] using h by auto
  have q: "list_all dotted_quad (uniqMatches t RE_IPV4)" for t by (auto simp: list_all_iff dest: quad_props)
  have u: "list_all (\<lambda>v. toLowerCase v = v) (uniqMatches t re)" for t re by (auto simp: list_all_iff dest: l)
  have uu: "list_all (\<lambda>v. toLowerCase v = v)
      (uniq (uniqMatches t RE_SHA256 @ uniqMatches t RE_SHA1 @ uniqMatches t RE_MD5))" for t
    by (auto simp: list_all_iff dest: l)
  have uf: "list_all (\<lambda>v. toLowerCase v = v) (filter P (uniqMatches t re))" for t re P
    by (auto simp: list_all_iff dest: l)
  have "toLowerCase h \<in> set (uniqMatches (url_host_blob host us) RE_DOMAIN)"
    if "toLowerCase h \<in> set (uniqMatches t RE_DOMAIN)" "u \<in> set us" "host u = Some h" for h u us t
  proof -
    from that(1) uniqMatches_props [of t RE_DOMAIN] obtain w where "w \<in> rx_lang RE_DOMAIN" "toLowerCase h = toLowerCase w" by blast
    then have "toLowerCase h \<in> rx_lang RE_DOMAIN" using domain_lower by simp
    then show ?thesis by (rule host_found [of _ u us host h]) (use that in simp_all)
  qed
  then show ?thesis
    unfolding parseIocs_def Let_def using d hs q u uu uf by auto
qed

subsection \<open>Defanged reports\<close>

declare rx_str.simps [simp del] rx_stri.simps [simp del]

text \<open>The usual way to write a host that must not be clicked, and the texts without brackets
  or a defanged scheme of their own.\<close>

definition defang :: "string \<Rightarrow> string" where
  "defang s = concat (map (\<lambda>c. if c = CHR ''.'' then ''[.]'' else [c]) s)"

definition no_brackets :: "string \<Rightarrow> bool" where
  "no_brackets s \<longleftrightarrow> CHR ''['' \<notin> set s \<and> CHR ''('' \<notin> set s \<and> CHR ''{'' \<notin> set s"

definition clean_text :: "string \<Rightarrow> bool" where
  "clean_text s \<longleftrightarrow> no_brackets s \<and> \<not> str_includes (toUpperCase s) ''HXXP''"

lemma undot: "CHR ''['' \<notin> set s \<Longrightarrow> concat (map (\<lambda>t. case t of Inl c \<Rightarrow> [c] | Inr (m, cs) \<Rightarrow> ''.'')
    (rx_tokens (rx_str ''[.]'') p (defang s))) = s"
proof (induction s arbitrary: p)
  case Nil
  show ?case by (simp add: defang_def rx_tokens_none starts_with_def)
next
  case (Cons c s)
  show ?case
  proof (cases "c = CHR ''.''")
    case True
    then have d: "defang (c # s) = ''[.]'' @ defang s" by (simp add: defang_def)
    have "rx_tokens (rx_str ''[.]'') p (''[.]'' @ defang s) =
        Inr (''[.]'', []) # rx_tokens (rx_str ''[.]'') (Some (CHR '']'')) (defang s)"
    proof -
      have m: "rx_m (rx_str ''[.]'') (p, ''[.]'' @ defang s, []) = [(Some (CHR '']''), defang s, [])]"
        by (simp add: starts_with_def after_def)
      have "take (length (''[.]'' @ defang s) - length (defang s)) (''[.]'' @ defang s) = ''[.]''" by (simp add: Suc_diff_le)
      then show ?thesis using rx_tokens_match [OF m] by auto
    qed
    then show ?thesis using Cons True unfolding d by simp
  next
    case False
    then have d: "defang (c # s) = c # defang s" by (simp add: defang_def)
    have "rx_tokens (rx_str ''[.]'') p (c # defang s) = Inl c # rx_tokens (rx_str ''[.]'') (Some c) (defang s)"
      using Cons.prems by (subst rx_tokens_none) (auto simp: starts_with_def)
    then show ?thesis using Cons unfolding d by simp
  qed
qed

lemma stri_first: "\<not> is_alpha c \<Longrightarrow> w \<in> rx_lang (rx_stri (c # s)) \<Longrightarrow> c \<in> set w"
proof -
  assume n: "\<not> is_alpha c" and "w \<in> rx_lang (rx_stri (c # s))"
  then have "toUpperCase w = toUpperCase (c # s)" by (simp add: rx_lang_stri)
  then obtain d t where w: "w = d # t" and u: "to_upper d = to_upper c" by (cases w) (auto simp: toUpperCase_def)
  have c: "to_upper c = c" using n by (simp add: to_upper_def is_alpha_def)
  have "\<not> is_lower d"
  proof
    assume l: "is_lower d"
    then have "code (to_upper d) = code d - 32" using l
      by (simp add: to_upper_def code_char_of [OF less_imp_diff_less [OF code_lt_256]])
    then have "is_upper (to_upper d)" using l by (auto simp: is_lower_def is_upper_def)
    with u c n show False by (simp add: is_alpha_def)
  qed
  then have "d = c" using u c by (simp add: to_upper_def)
  with w show "c \<in> set w" by simp
qed

lemma no_bracket_str: "CHR ''['' \<notin> set s \<Longrightarrow> rx_replace_all (rx_str (CHR ''['' # w)) f s = s"
  by (rule rx_replace_none, rule rx_tokens_no_char [where c = "CHR ''[''"]) auto

lemma no_char_str: "c \<notin> set s \<Longrightarrow> rx_replace_all (rx_str (c # w)) f s = s"
  by (rule rx_replace_none, rule rx_tokens_no_char [where c = c]) auto

lemma no_bracket_stri: "CHR ''['' \<notin> set s \<Longrightarrow> rx_replace_all (rx_stri (CHR ''['' # w)) f s = s"
  by (rule rx_replace_none, rule rx_tokens_no_char [where c = "CHR ''[''"])
    (auto dest!: stri_first [rotated] simp: char_classes)

lemma hxxp_lang: "w \<in> rx_lang hxxp_re \<Longrightarrow> starts_with (toUpperCase w) ''HXXP''"
proof -
  assume "w \<in> rx_lang hxxp_re"
  then obtain u v where w: "w = u @ v" "u \<in> rx_lang (rx_stri ''hxxp'')"
    unfolding hxxp_re_def by (auto)
  moreover have "toUpperCase ''hxxp'' = ''HXXP''" by code_simp
  ultimately have "toUpperCase u = ''HXXP''" by (simp add: rx_lang_stri)
  then show ?thesis by (auto simp: w starts_with_iff toUpperCase_def)
qed

lemma hxxp_colon_lang: "w \<in> rx_lang hxxp_colon_re \<Longrightarrow> CHR ''['' \<in> set w"
  unfolding hxxp_colon_re_def by (auto)

lemma no_hxxp_tokens: "\<not> str_includes (toUpperCase s) ''HXXP'' \<Longrightarrow> rx_tokens hxxp_re p s = map Inl s"
proof (rule rx_tokens_no_word)
  fix w assume a: "\<not> str_includes (toUpperCase s) ''HXXP''" and "w \<in> rx_lang hxxp_re"
  then obtain v where v: "toUpperCase w = ''HXXP'' @ v" using hxxp_lang by (auto simp: starts_with_iff)
  show "\<not> str_includes s w"
  proof
    assume "str_includes s w"
    then obtain x y where "s = x @ w @ y" by (auto simp: includes_iff)
    then have "toUpperCase s = toUpperCase x @ ''HXXP'' @ (v @ toUpperCase y)"
      using v by (simp add: toUpperCase_def)
    with a show False unfolding includes_iff by blast
  qed
qed

lemma refang_tail:
  assumes "no_brackets s"
  shows "rx_replace_all (rx_stri ''[at]'') f5 (rx_replace_all (rx_str ''[@]'') f4 (rx_replace_all (rx_str ''[:]'') f3
           (rx_replace_all hxxp_colon_re f2 s))) = s"
proof -
  have b: "CHR ''['' \<notin> set s" using assms by (simp add: no_brackets_def)
  have "rx_replace_all hxxp_colon_re f2 s = s"
    by (rule rx_replace_none, rule rx_tokens_no_char [OF hxxp_colon_lang b])
  then show ?thesis using no_bracket_str [OF b] no_bracket_stri [OF b] by simp
qed

lemma refang_clean:
  assumes "rx_replace_all (rx_str ''[.]'') (\<lambda>_ _. ''.'') t = u" "no_brackets u" "rx_replace_all hxxp_re hxxp_repl u = v"
    and "no_brackets v"
  shows "refang t = v"
proof -
  have b: "CHR ''['' \<notin> set u" "CHR ''('' \<notin> set u" "CHR ''{'' \<notin> set u" using assms(2) by (simp_all add: no_brackets_def)
  have "rx_replace_all (rx_str ''(.)'') f u = u" "rx_replace_all (rx_str ''{.}'') f u = u" for f
    by (rule no_char_str [OF b(2)], rule no_char_str [OF b(3)])
  then show ?thesis unfolding refang_def assms(1) Let_def
    by (simp only: no_bracket_stri [OF b(1)] assms(3) refang_tail [OF assms(4)])
qed

lemma undefang: "no_brackets s \<Longrightarrow> rx_replace_all (rx_str ''[.]'') (\<lambda>_ _. ''.'') (defang s) = s"
  unfolding rx_replace_all_def by (rule undot) (simp add: no_brackets_def)

lemma refang_defang: "clean_text s \<Longrightarrow> refang (defang s) = s"
  by (rule refang_clean [OF undefang _ rx_replace_none [OF no_hxxp_tokens]]) (auto simp: clean_text_def)

lemma refang_id: "clean_text s \<Longrightarrow> refang s = s"
  by (rule refang_clean [OF no_bracket_str _ rx_replace_none [OF no_hxxp_tokens]]) (auto simp: clean_text_def no_brackets_def)

text \<open>C15: A report whose hosts were defanged with \<open>[.]\<close> gives, with the repair switched on, the
  indicators of the original report, and the repair changes nothing in a clean report. A
  defanged link gets its scheme back.\<close>

theorem parse_defanged:
  assumes "clean_text t"
  shows "parseIocs host (defang t) True = parseIocs host t False \<and> parseIocs host t True = parseIocs host t False
    \<and> refang (''hxxp://'' @ defang t) = ''http://'' @ t \<and> refang (''hXXps://'' @ defang t) = ''https://'' @ t"
proof -
  have nb: "no_brackets t" and nh: "\<not> str_includes (toUpperCase t) ''HXXP''" using assms by (simp_all add: clean_text_def)
  have link: "refang (h @ ''://'' @ defang t) = ''http'' @ x @ ''://'' @ t"
    if hx: "no_brackets h" "defang (h @ ''://'') = h @ ''://''"
      and m: "rx_m hxxp_re (None, h @ ''://'' @ t, []) = [(Some (CHR ''/''), t, [(1, x)])]"
      and x: "no_brackets x" for h x
  proof (rule refang_clean)
    have d: "h @ ''://'' @ defang t = defang (h @ ''://'' @ t)" using hx(2) by (simp add: defang_def)
    show nb': "no_brackets (h @ ''://'' @ t)" using nb hx by (simp add: no_brackets_def)
    show "rx_replace_all (rx_str ''[.]'') (\<lambda>_ _. ''.'') (h @ ''://'' @ defang t) = h @ ''://'' @ t"
      unfolding d by (rule undefang [OF nb'])
    show "no_brackets (''http'' @ x @ ''://'' @ t)" using nb x by (simp add: no_brackets_def)
    have "rx_tokens hxxp_re None (h @ ''://'' @ t) = Inr (h @ ''://'', [(1, x)]) # rx_tokens hxxp_re (Some (CHR ''/'')) t"
      using rx_tokens_match [OF m] by simp
    then show "rx_replace_all hxxp_re hxxp_repl (h @ ''://'' @ t) = ''http'' @ x @ ''://'' @ t"
      by (simp add: rx_replace_all_def no_hxxp_tokens [OF nh] hxxp_repl_def cap_def o_def)
  qed
  note ev = hxxp_re_def starts_with_def after_def toUpperCase_def to_upper_def is_lower_def code_def word_at_def char_classes
  have S: "(char_of (83::nat) :: char) = CHR ''S''" "(char_of (88::nat) :: char) = CHR ''X''" by code_simp+
  have "refang (''hxxp'' @ ''://'' @ defang t) = ''http'' @ [] @ ''://'' @ t"
    by (rule link) (simp_all add: no_brackets_def defang_def ev S)
  moreover have "refang (''hXXps'' @ ''://'' @ defang t) = ''http'' @ ''s'' @ ''://'' @ t"
    by (rule link) (simp_all add: no_brackets_def defang_def ev S)
  ultimately show ?thesis using refang_defang [OF assms] refang_id [OF assms] by (simp add: parseIocs_def)
qed

theorem parse_defanged_witness:
  "parseIocs (\<lambda>_. None) ''evil-c2[.]net'' True = parseIocs (\<lambda>_. None) ''evil-c2.net'' False"
proof -
  have c: "clean_text ''evil-c2.net''" by code_simp
  have d: "defang ''evil-c2.net'' = ''evil-c2[.]net''" by code_simp
  show ?thesis using parse_defanged [OF c, of "\<lambda>_. None"] unfolding d by blast
qed

subsection \<open>The page keeps its word, and where it does not\<close>

definition import_ok :: "import_page \<Rightarrow> bool" where
  "import_ok p \<longleftrightarrow> distinct (im_tags p) \<and> list_all (\<lambda>t. t \<noteq> [] \<and> toLowerCase t = t) (im_tags p)
     \<and> (im_importing p \<longleftrightarrow> im_flight p \<noteq> None) \<and> im_flight p \<noteq> Some 0 \<and> (im_toast p \<longrightarrow> 0 < im_toasts p)
     \<and> (im_toast p \<longrightarrow> im_result p \<noteq> None)"

lemma import_step_ok: "import_ok p \<Longrightarrow> import_ok (import_step host x p)"
  by (cases x) (auto simp: import_ok_def addTag_def removeTag_def triggerImport_def import_done_def toast_timeout_def
      import_drop_def Let_def list_all_iff split: option.splits sum.splits if_splits)

text \<open>Whatever the operator types, drops and sends, the batch tags stay distinct, non-empty and
  lower-case, at most one import is under way and never an empty one, and the toast is only
  shown after an import, with a timer that will hide it.\<close>

theorem import_page_invariant: "import_ok (fold (import_step host) xs import_init)"
proof -
  have "import_ok p \<Longrightarrow> import_ok (fold (import_step host) xs p)" for p
    by (induction xs arbitrary: p) (auto simp: import_step_ok)
  moreover have "import_ok import_init" by (simp add: import_ok_def import_init_def toLowerCase_def to_lower_def char_classes)
  ultimately show ?thesis by blast
qed

lemma no_matches_Nil: "[] \<notin> rx_lang re \<Longrightarrow> uniqMatches [] re = []"
proof -
  assume n: "[] \<notin> rx_lang re"
  have "rx_match_all re [] = []"
    by (rule rx_match_none, rule rx_tokens_no_word) (use n in \<open>auto simp: includes_iff\<close>)
  then show ?thesis by (simp add: uniqMatches_def uniq_def)
qed

lemma nothing_pasted: "totalCount (parseIocs host [] b) = 0"
proof -
  have "refang [] = []" by (rule refang_id) (simp add: clean_text_def no_brackets_def toUpperCase_def)
  moreover have "[] \<notin> rx_lang RE_IPV4" using rx_lang_ipv4 [of "[]"] by (auto simp: dotted_quad_def)
  moreover have "[] \<notin> rx_lang RE_URL" by (simp add: RE_URL_def)
  moreover have "[] \<notin> rx_lang RE_CVE" by (simp add: RE_CVE_def)
  moreover have "[] \<notin> rx_lang RE_DOMAIN" by (auto simp: RE_DOMAIN_def)
  moreover have "[] \<notin> rx_lang RE_SHA256" "[] \<notin> rx_lang RE_SHA1" "[] \<notin> rx_lang RE_MD5"
    by (simp_all add: RE_SHA256_def RE_SHA1_def RE_MD5_def rx_lang_hex)
  ultimately show ?thesis by (simp add: totalCount_def parseIocs_def no_matches_Nil uniq_def)
qed

text \<open>An import whose call fails is announced as a success: the toast gives the full count
  as imported. And a file that was dropped enables the button, but with nothing pasted the
  button does nothing.\<close>

theorem failed_import_announced:
  "triggerImport host p = (p', Some c) \<Longrightarrow>
     import_toast host (import_done (Inl e) p') =
       Some (int_str (int (totalCount (im_parsed host p))) @ '' indicators imported'')
   \<and> fst (import_button host (p\<lparr>im_mode := UploadFile, im_file := Some f, im_text := [], im_importing := False\<rparr>))
   \<and> triggerImport host (p\<lparr>im_mode := UploadFile, im_file := Some f, im_text := [], im_importing := False\<rparr>)
       = (p\<lparr>im_mode := UploadFile, im_file := Some f, im_text := [], im_importing := False\<rparr>, None)"
  by (simp add: triggerImport_def import_done_def import_toast_def import_button_def canImport_def im_parsed_def
      nothing_pasted Let_def split: if_splits) auto

theorem failed_import_announced_witness:
  "\<exists>p' c. triggerImport (\<lambda>_. None) (import_init\<lparr>im_text := ''8.8.8.8''\<rparr>) = (p', Some c)
     \<and> import_toast (\<lambda>_. None) (import_done (Inl NetworkError) p') = Some (''1 indicators imported'')"
proof -
  define p where "p = import_init\<lparr>im_text := ''8.8.8.8''\<rparr>"
  have n: "totalCount (im_parsed (\<lambda>_. None) p) = 1" unfolding p_def by code_simp
  have i: "int_str 1 = ''1''" by code_simp
  have "\<not> im_importing p" by (simp add: p_def import_init_def)
  with n have t: "triggerImport (\<lambda>_. None) p = (p\<lparr>im_importing := True, im_flight := Some 1\<rparr>,
      Some (importIocs (import_body p (im_parsed (\<lambda>_. None) p))))"
    by (simp add: triggerImport_def Let_def)
  from failed_import_announced [OF t, of NetworkError] t show ?thesis
    unfolding p_def [symmetric] by (simp add: n i)
qed

end
