(* ===== verification/Csv.thy ===== *)
theory Csv
  imports JsRegex
begin

text \<open>
  CSV files as the pages export them: every cell quoted, with quotes doubled (\<open>csv_esc\<close>), cells
  joined by commas and lines by line feeds, under a plain header. \<open>csv_rows\<close> is a parser of
  CSV with line feeds as line ends, as these files have them (not the CR LF of the standard);
  \<open>csv_file_read\<close> says that it reads every such file back.
\<close>

subsection \<open>Writing\<close>

abbreviation quote :: char where "quote \<equiv> CHR 0x22"
abbreviation newline :: char where "newline \<equiv> CHR 0x0A"

definition csv_esc :: "string \<Rightarrow> string" where
  "csv_esc v = quote # rx_replace_all (rx_str [quote]) (\<lambda>_ _. [quote, quote]) v @ [quote]"

subsection \<open>Reading a CSV file\<close>

text \<open>A cell is quoted, with quotes doubled, or runs to the next comma or line end.\<close>

fun csv_quoted :: "string \<Rightarrow> (string \<times> string) option" where
  "csv_quoted [] = None"
| "csv_quoted [c] = (if c = quote then Some ([], []) else None)"
| "csv_quoted (c # d # s) =
     (if c = quote then
        (if d = quote then map_option (\<lambda>(v, r). (quote # v, r)) (csv_quoted s) else Some ([], d # s))
      else map_option (\<lambda>(v, r). (c # v, r)) (csv_quoted (d # s)))"

definition bare :: "char \<Rightarrow> bool" where "bare c \<longleftrightarrow> c \<noteq> CHR '','' \<and> c \<noteq> newline"

definition csv_cell :: "string \<Rightarrow> (string \<times> string) option" where
  "csv_cell s = (case s of
     c # t \<Rightarrow> if c = quote then csv_quoted t else Some (takeWhile bare s, dropWhile bare s)
   | [] \<Rightarrow> Some ([], []))"

lemma csv_quoted_length: "csv_quoted s = Some (v, r) \<Longrightarrow> length r \<le> length s"
  by (induction s arbitrary: v rule: csv_quoted.induct) (fastforce split: if_splits)+

lemma csv_cell_length: "csv_cell s = Some (v, r) \<Longrightarrow> length r \<le> length s"
  by (auto simp: csv_cell_def length_dropWhile_le intro: le_SucI dest: csv_quoted_length split: list.splits if_splits)

function csv_rows :: "string list \<Rightarrow> string \<Rightarrow> string list list option" where
  "csv_rows row s =
     (case csv_cell s of
        None \<Rightarrow> None
      | Some (v, []) \<Rightarrow> Some [row @ [v]]
      | Some (v, c # t) \<Rightarrow>
          if c = CHR '','' then csv_rows (row @ [v]) t
          else if c = newline then map_option (\<lambda>rs. (row @ [v]) # rs) (csv_rows [] t)
          else None)"
  by pat_completeness auto
termination
  by (relation "measure (\<lambda>(row, s). length s)") (auto dest: csv_cell_length)

declare csv_rows.simps [simp del]

subsection \<open>The export is read back\<close>

lemma double_quotes_Cons:
  "rx_replace_all (rx_str [quote]) (\<lambda>_ _. [quote, quote]) v = concat (map (\<lambda>c. if c = quote then [quote, quote] else [c]) v)"
proof -
  have "concat (map (\<lambda>t. case t of Inl c \<Rightarrow> [c] | Inr (m, cs) \<Rightarrow> [quote, quote]) (rx_tokens (rx_str [quote]) p v))
      = concat (map (\<lambda>c. if c = quote then [quote, quote] else [c]) v)" for p
  proof (induction v arbitrary: p)
    case Nil
    show ?case by (simp add: rx_tokens_none)
  next
    case (Cons c v)
    have m: "rx_m (rx_str [quote]) (p, c # v, []) = (if c = quote then [(Some c, v, [])] else [])" by simp
    show ?case
    proof (cases "c = quote")
      case True
      then show ?thesis using Cons [of "Some c"] rx_tokens_match [of "rx_str [quote]" p "c # v" "Some c" v "[]" "[]"] m
        by (simp del: rx_str.simps)
    next
      case False
      then show ?thesis using Cons [of "Some c"] rx_tokens_none [of "rx_str [quote]" p "c # v"] m
        by (simp del: rx_str.simps)
    qed
  qed
  then show ?thesis unfolding rx_replace_all_def .
qed

lemma csv_quoted_esc:
  "(case r of [] \<Rightarrow> True | c # _ \<Rightarrow> c \<noteq> quote) \<Longrightarrow>
     csv_quoted (concat (map (\<lambda>c. if c = quote then [quote, quote] else [c]) v) @ quote # r) = Some (v, r)"
proof (induction v)
  case Nil
  then show ?case by (cases r) auto
next
  case (Cons c v)
  then show ?case
    by (cases "concat (map (\<lambda>c. if c = quote then [quote, quote] else [c]) v) @ quote # r") auto
qed

lemma csv_cell_esc: "(case r of [] \<Rightarrow> True | c # _ \<Rightarrow> c \<noteq> quote) \<Longrightarrow> csv_cell (csv_esc v @ r) = Some (v, r)"
  using csv_quoted_esc [of r v] by (simp add: csv_cell_def csv_esc_def double_quotes_Cons del: rx_str.simps)

lemma csv_cell_bare: "w \<noteq> [] \<Longrightarrow> hd w \<noteq> quote \<Longrightarrow> list_all bare w \<Longrightarrow>
    (case r of [] \<Rightarrow> True | c # _ \<Rightarrow> \<not> bare c) \<Longrightarrow> csv_cell (w @ r) = Some (w, r)"
proof -
  assume a: "w \<noteq> []" "hd w \<noteq> quote" "list_all bare w" "case r of [] \<Rightarrow> True | c # _ \<Rightarrow> \<not> bare c"
  have "takeWhile bare (w @ r) = w @ takeWhile bare r" "dropWhile bare (w @ r) = dropWhile bare r"
    using a(3) by (auto simp: list_all_iff takeWhile_append2 dropWhile_append2)
  moreover have "takeWhile bare r = []" "dropWhile bare r = r" using a(4) by (cases r; simp)+
  ultimately show ?thesis using a(1,2) by (cases w) (auto simp: csv_cell_def)
qed

text \<open>Cells written one after the other: a writer \<open>f\<close> that \<open>csv_cell\<close> inverts before a
  separator or the end.\<close>

definition cell_ok :: "(string \<Rightarrow> string) \<Rightarrow> string list \<Rightarrow> bool" where
  "cell_ok f vs \<longleftrightarrow> (\<forall>v \<in> set vs. \<forall>r. (case r of [] \<Rightarrow> True | c # _ \<Rightarrow> c = CHR '','' \<or> c = newline) \<longrightarrow>
     csv_cell (f v @ r) = Some (v, r))"

lemma cell_okI: "(\<And>v r. v \<in> set vs \<Longrightarrow> (case r of [] \<Rightarrow> True | c # _ \<Rightarrow> c = CHR '','' \<or> c = newline) \<Longrightarrow>
    csv_cell (f v @ r) = Some (v, r)) \<Longrightarrow> cell_ok f vs"
  unfolding cell_ok_def by blast

lemma cell_okD: "cell_ok f vs \<Longrightarrow> v \<in> set vs \<Longrightarrow> (case r of [] \<Rightarrow> True | c # _ \<Rightarrow> c = CHR '','' \<or> c = newline) \<Longrightarrow>
    csv_cell (f v @ r) = Some (v, r)"
  unfolding cell_ok_def by blast

lemma csv_rows_cells:
  assumes "cell_ok f (v # vs)"
  shows "csv_rows row (join '','' (map f (v # vs)) @ r) =
     (case r of [] \<Rightarrow> Some [row @ v # vs] | c # t \<Rightarrow>
        if c = newline then map_option (\<lambda>rs. (row @ v # vs) # rs) (csv_rows [] t)
        else csv_rows row (join '','' (map f (v # vs)) @ r))"
  using assms
proof (induction vs arbitrary: v row)
  case Nil
  show ?case
  proof (cases r)
    case Nil
    have "csv_cell (f v) = Some (v, [])" using cell_okD [OF \<open>cell_ok f [v]\<close>, of v "[]"] by simp
    then show ?thesis using Nil by (simp add: csv_rows.simps)
  next
    case (Cons c t)
    show ?thesis
    proof (cases "c = newline")
      case True
      have "csv_cell (f v @ newline # t) = Some (v, newline # t)" by (rule cell_okD [OF \<open>cell_ok f [v]\<close>]) simp_all
      then show ?thesis using Cons True csv_rows.simps [of row "f v @ newline # t"] by simp
    qed (simp add: Cons)
  qed
next
  case (Cons w vs)
  let ?t = "join '','' (map f (w # vs)) @ r"
  have "csv_cell (f v @ CHR '','' # ?t) = Some (v, CHR '','' # ?t)"
    by (rule cell_okD [OF Cons.prems]) simp_all
  then have step: "csv_rows row (join '','' (map f (v # w # vs)) @ r) = csv_rows (row @ [v]) ?t"
    using csv_rows.simps [of row "f v @ CHR '','' # ?t"] by simp
  have "cell_ok f (w # vs)" using Cons.prems by (simp add: cell_ok_def)
  from Cons.IH [OF this, of "row @ [v]"] show ?case unfolding step by (simp split: list.splits)
qed

lemma csv_line:
  assumes "cell_ok f (v # vs)"
  shows "csv_rows [] (join '','' (map f (v # vs))) = Some [v # vs]"
    and "csv_rows [] (join '','' (map f (v # vs)) @ newline # t) = map_option (\<lambda>rs. (v # vs) # rs) (csv_rows [] t)"
  using csv_rows_cells [OF assms, of "[]" "[]"] csv_rows_cells [OF assms, of "[]" "newline # t"] by simp_all

lemma cell_ok_esc: "cell_ok csv_esc vs"
  by (rule cell_okI, rule csv_cell_esc) (auto split: list.splits)

definition header_ok :: "string list \<Rightarrow> bool" where
  "header_ok hdr \<longleftrightarrow> hdr \<noteq> [] \<and> list_all (\<lambda>w. w \<noteq> [] \<and> hd w \<noteq> quote \<and> list_all bare w) hdr"

lemma cell_ok_header: "header_ok hdr \<Longrightarrow> cell_ok (\<lambda>x. x) hdr"
  by (intro cell_okI csv_cell_bare) (auto simp: bare_def header_ok_def list_all_iff split: list.splits)

definition csv_line_of :: "string list \<Rightarrow> string" where
  "csv_line_of r = join '','' (map csv_esc r)"

lemma csv_body:
  "rs \<noteq> [] \<Longrightarrow> list_all (\<lambda>r. r \<noteq> []) rs \<Longrightarrow> csv_rows [] (join [newline] (map csv_line_of rs)) = Some rs"
proof (induction rs)
  case (Cons r rs)
  then obtain v vs where c: "r = v # vs" by (cases r) auto
  note line = csv_line [OF cell_ok_esc, of v vs, folded c csv_line_of_def]
  show ?case
  proof (cases rs)
    case Nil
    then show ?thesis using line(1) by simp
  next
    case Cons2: (Cons r2 rs2)
    then show ?thesis using line(2) Cons by simp
  qed
qed simp

lemma csv_file_read:
  assumes "header_ok hdr" "list_all (\<lambda>r. r \<noteq> []) rows"
  shows "csv_rows [] (join [newline] (join '','' hdr # map csv_line_of rows)) = Some (hdr # rows)"
proof -
  obtain v vs where h: "hdr = v # vs" using assms(1) by (cases hdr) (auto simp: header_ok_def)
  note line = csv_line [OF cell_ok_header [OF assms(1), unfolded h], folded h]
  show ?thesis
  proof (cases rows)
    case Nil
    then show ?thesis using line(1) by simp
  next
    case (Cons r rs)
    then show ?thesis using line(2) csv_body [of rows] assms(2) by simp
  qed
qed

end
