(* ===== verification/BulkCheck.thy ===== *)
theory BulkCheck
  imports ApiEndpoints Helpers Csv
begin

text \<open>
  The bulk check of indicators against the intel store
  (\<open>app/dashboard/scanner/bulk/page.tsx\<close>): cutting a paste into candidate values, the
  check with its limit, the summary and the filter of its rows, and the CSV export. The
  lemmas describe the candidates for every paste and read the exported file back
  (\<open>Csv\<close>).
\<close>

subsection \<open>Candidates\<close>

definition value_sep :: "char \<Rightarrow> bool" where
  "value_sep c \<longleftrightarrow> is_space c \<or> c = CHR '','' \<or> c = CHR '';''"

definition lead_char :: "char \<Rightarrow> bool" where
  "lead_char c \<longleftrightarrow> code c = 34 \<or> code c = 39 \<or> c = CHR ''<'' \<or> c = CHR ''(''"

definition trail_char :: "char \<Rightarrow> bool" where
  "trail_char c \<longleftrightarrow> code c = 34 \<or> code c = 39 \<or> c \<in> set ''>),.''"

definition quote_re :: rx where
  "quote_re = RAlt (RSeq RBegin (rx_plus (RSet lead_char))) (RSeq (rx_plus (RSet trail_char)) REnd)"

definition unquote :: "string \<Rightarrow> string" where
  "unquote piece = rx_replace_all quote_re (\<lambda>_ _. []) (trim piece)"

definition parse_step :: "string \<Rightarrow> string list \<Rightarrow> string list" where
  "parse_step piece out = (let v = unquote piece in if v \<noteq> [] \<and> v \<notin> set out then out @ [v] else out)"

definition parseValues :: "string \<Rightarrow> string list" where
  "parseValues raw = fold parse_step (rx_split (rx_plus (RSet value_sep)) raw) []"

subsection \<open>Rows\<close>

record bulk_row =
  br_value :: string
  br_found :: bool
  br_verdict :: string
  br_matched :: "string option"
  br_intelScore :: "rat option"
  br_scoreBand :: "string option"
  br_sourceCount :: "rat option"
  br_sources :: "string list option"
  br_severity :: "string option"
  br_confidence :: rat
  br_threatType :: "string option"
  br_actor :: "string option"
  br_source :: "string option"
  br_lastSeen :: "string option"

definition BULK_LOOKUP_MAX :: nat where "BULK_LOOKUP_MAX = 1000"

definition VERDICT :: "(string, string \<times> string) obj" where
  "VERDICT =
     [(''malicious'', ''Malicious'', ''text-threat border-threat/30 bg-threat/10''),
      (''suspicious'', ''Suspicious'', ''text-amber border-amber/30 bg-amber/10''),
      (''clean'', ''Low'', ''text-ink-300 border-white/10 bg-white/5''),
      (''benign'', ''Known good'', ''text-safe border-safe/30 bg-safe/10''),
      (''expired'', ''Expired'', ''text-ink-400 border-white/10 bg-white/5''),
      (''unverified'', ''Not in intel'', ''text-ink-500 border-white/8 bg-white/2'')]"

definition verdict_view :: "bulk_row \<Rightarrow> string \<times> string" where
  "verdict_view r = (case obj_get VERDICT (br_verdict r) of Some v \<Rightarrow> v
     | None \<Rightarrow> (''Not in intel'', ''text-ink-500 border-white/8 bg-white/2''))"

definition HITS :: "string list" where "HITS = [''malicious'', ''suspicious'']"

definition BAND_COLOR :: "(string, string) obj" where
  "BAND_COLOR = [(''high'', tk Magenta), (''moderate'', tk Amber), (''low'', tk Violet), (''weak'', ''#665B7D'')]"

text \<open>Colour, background and border of the score badge; \<open>undefined\<close> is printed as such.\<close>

definition score_style :: "bulk_row \<Rightarrow> (string option \<times> string \<times> string) option" where
  "score_style r =
     (if br_found r \<and> br_intelScore r \<noteq> None then
        let c = obj_get BAND_COLOR (case br_scoreBand r of Some b \<Rightarrow> b | None \<Rightarrow> ''weak'');
            t = (case c of Some s \<Rightarrow> s | None \<Rightarrow> ''undefined'')
        in Some (c, t @ ''14'', t @ ''40'')
      else None)"

record bulk_summary =
  bs_total :: nat
  bs_malicious :: nat
  bs_suspicious :: nat
  bs_known :: nat
  bs_unknown :: nat

definition summary_step :: "bulk_row \<Rightarrow> bulk_summary \<Rightarrow> bulk_summary" where
  "summary_step r s =
     (let s = s\<lparr>bs_total := Suc (bs_total s)\<rparr>;
          s = (if br_verdict r = ''malicious'' then s\<lparr>bs_malicious := Suc (bs_malicious s)\<rparr>
               else if br_verdict r = ''suspicious'' then s\<lparr>bs_suspicious := Suc (bs_suspicious s)\<rparr> else s)
      in if br_found r then s\<lparr>bs_known := Suc (bs_known s)\<rparr> else s\<lparr>bs_unknown := Suc (bs_unknown s)\<rparr>)"

definition summary :: "bulk_row list option \<Rightarrow> bulk_summary" where
  "summary rows = fold summary_step (case rows of Some rs \<Rightarrow> rs | None \<Rightarrow> [])
     \<lparr>bs_total = 0, bs_malicious = 0, bs_suspicious = 0, bs_known = 0, bs_unknown = 0\<rparr>"

subsection \<open>The page\<close>

text \<open>\<open>bk_flight\<close> are the lists the calls under way were made with, \<open>bk_calls\<close> all lists sent.\<close>

record bulk_page =
  bk_text :: string
  bk_rows :: "bulk_row list option"
  bk_busy :: bool
  bk_error :: "string option"
  bk_hitsOnly :: bool
  bk_elapsed :: "int option"
  bk_flight :: "string list list"
  bk_calls :: "string list list"

definition bulk_init :: bulk_page where
  "bulk_init = \<lparr>bk_text = [], bk_rows = None, bk_busy = False, bk_error = None, bk_hitsOnly = False,
     bk_elapsed = None, bk_flight = [], bk_calls = []\<rparr>"

definition overLimit :: "bulk_page \<Rightarrow> bool" where
  "overLimit p \<longleftrightarrow> BULK_LOOKUP_MAX < length (parseValues (bk_text p))"

definition bulk_run :: "bulk_page \<Rightarrow> bulk_page" where
  "bulk_run p =
     (let parsed = parseValues (bk_text p) in
      if parsed = [] \<or> bk_busy p \<or> overLimit p then p
      else p\<lparr>bk_busy := True, bk_error := None, bk_flight := bk_flight p @ [parsed], bk_calls := bk_calls p @ [parsed]\<rparr>)"

text \<open>The answer to call number \<open>i\<close> of those under way, \<open>ms\<close> milliseconds by \<open>performance.now\<close> after it.\<close>

definition bulk_done :: "(exn \<Rightarrow> string) \<Rightarrow> nat \<Rightarrow> exn + bulk_row list \<Rightarrow> rat \<Rightarrow> bulk_page \<Rightarrow> bulk_page" where
  "bulk_done eng i r ms p =
     (if length (bk_flight p) \<le> i then p else
      let p = (case r of
          Inr rs \<Rightarrow> p\<lparr>bk_rows := Some rs, bk_elapsed := Some (js_round ms)\<rparr>
        | Inl e \<Rightarrow> p\<lparr>bk_error := Some (if err_message eng e \<noteq> [] then err_message eng e else ''Bulk check failed.''),
                     bk_rows := None\<rparr>)
      in p\<lparr>bk_busy := False, bk_flight := take i (bk_flight p) @ drop (Suc i) (bk_flight p)\<rparr>)"

definition bulk_clear :: "bulk_page \<Rightarrow> bulk_page" where
  "bulk_clear p = p\<lparr>bk_text := [], bk_rows := None, bk_error := None, bk_elapsed := None\<rparr>"

definition shown :: "bulk_page \<Rightarrow> bulk_row list" where
  "shown p = filter (\<lambda>r. \<not> bk_hitsOnly p \<or> br_verdict r \<in> set HITS) (case bk_rows p of Some rs \<Rightarrow> rs | None \<Rightarrow> [])"

datatype bulk_op = BText string | BRun | BDone nat "exn + bulk_row list" rat | BClear | BHits

fun bulk_step :: "(exn \<Rightarrow> string) \<Rightarrow> bulk_op \<Rightarrow> bulk_page \<Rightarrow> bulk_page" where
  "bulk_step eng (BText t) p = p\<lparr>bk_text := t\<rparr>"
| "bulk_step eng BRun p = bulk_run p"
| "bulk_step eng (BDone i r ms) p = bulk_done eng i r ms p"
| "bulk_step eng BClear p = bulk_clear p"
| "bulk_step eng BHits p = p\<lparr>bk_hitsOnly := \<not> bk_hitsOnly p\<rparr>"

subsection \<open>The export\<close>

definition or_empty :: "string option \<Rightarrow> string" where
  "or_empty v = (case v of Some s \<Rightarrow> s | None \<Rightarrow> [])"

definition csv_cells :: "bulk_row \<Rightarrow> string list" where
  "csv_cells r =
     [br_value r, br_verdict r, or_empty (br_matched r),
      if br_found r then (case br_intelScore r of Some x \<Rightarrow> num_str x | None \<Rightarrow> []) else [],
      if br_found r then or_empty (br_scoreBand r) else [],
      if br_found r then num_str (case br_sourceCount r of Some n \<Rightarrow> n | None \<Rightarrow> 1) else num_str 0,
      join ''; '' (case br_sources r of Some xs \<Rightarrow> xs | None \<Rightarrow> []), or_empty (br_severity r),
      num_str (br_confidence r), or_empty (br_threatType r), or_empty (br_actor r), or_empty (br_source r),
      or_empty (br_lastSeen r)]"

definition csv_header :: string where
  "csv_header = ''value,verdict,matched_indicator,intel_score,score_band,source_count,sources,'' @
     ''severity,confidence,threat_type,actor,source,last_seen''"

definition bulk_csv :: "bulk_row list option \<Rightarrow> string" where
  "bulk_csv rows = join [newline]
     (csv_header # map (\<lambda>r. join '','' (map csv_esc (csv_cells r))) (case rows of Some rs \<Rightarrow> rs | None \<Rightarrow> []))"

text \<open>The file's name, from the ISO text of the current time.\<close>

definition bulk_csv_name :: "string \<Rightarrow> string" where
  "bulk_csv_name now = ''threatorbit-bulk-check-'' @ slice 0 10 now @ ''.csv''"

subsection \<open>The export is read back\<close>

definition header_cells :: "string list" where
  "header_cells = [''value'', ''verdict'', ''matched_indicator'', ''intel_score'', ''score_band'', ''source_count'',
     ''sources'', ''severity'', ''confidence'', ''threat_type'', ''actor'', ''source'', ''last_seen'']"

lemma bulk_csv_file:
  "bulk_csv rows = join [newline] (join '','' header_cells # map csv_line_of (map csv_cells (case rows of Some rs \<Rightarrow> rs | None \<Rightarrow> [])))"
  by (simp add: bulk_csv_def csv_header_def header_cells_def csv_line_of_def comp_def)

text \<open>C7: the exported file, read as CSV with line feeds, has exactly the rows of the table under the header,
  whatever commas, quotes and line breaks the values hold.\<close>

theorem bulk_csv_roundtrip:
  "csv_rows [] (bulk_csv rows) = Some (header_cells # map csv_cells (case rows of Some rs \<Rightarrow> rs | None \<Rightarrow> []))"
proof -
  have "header_ok header_cells" by code_simp
  then show ?thesis unfolding bulk_csv_file
    by (rule csv_file_read) (simp add: list_all_iff csv_cells_def)
qed

subsection \<open>The candidates of a paste\<close>

definition strip_quotes :: "string \<Rightarrow> string" where
  "strip_quotes s = rev (dropWhile trail_char (rev (dropWhile lead_char s)))"

lemma trail_snoc: "rev (dropWhile P (rev (c # s))) = (if list_all P (c # s) then [] else c # rev (dropWhile P (rev s)))"
proof (cases "list_all P s")
  case True
  then have "dropWhile P (rev s) = []" by (simp add: list_all_iff)
  moreover have "dropWhile P (rev s @ [c]) = dropWhile P [c]" using True by (intro dropWhile_append2) (simp add: list_all_iff)
  ultimately show ?thesis using True by simp
next
  case False
  then obtain x where "x \<in> set (rev s)" "\<not> P x" by (auto simp: list_all_iff)
  then have "dropWhile P (rev s @ [c]) = dropWhile P (rev s) @ [c]" by (rule dropWhile_append1)
  with False show ?thesis by (auto simp: list_all_iff)
qed

abbreviation erase :: "(char + string \<times> (nat \<times> string) list) list \<Rightarrow> string" where
  "erase ts \<equiv> concat (map (\<lambda>t. case t of Inl c \<Rightarrow> [c] | Inr (m, cs) \<Rightarrow> []) ts)"

lemma trail_match: "rx_m (RSeq (rx_plus (RSet P)) REnd) (p, s, cs) \<noteq> [] \<longleftrightarrow> s \<noteq> [] \<and> list_all P s"
proof (cases s)
  case (Cons c t)
  have "rx_m (RSeq (rx_plus (RSet P)) REnd) (p, c # t, cs) =
      (if P c then rx_m (RSeq (RStar (RSet P)) REnd) (Some c, t, cs) else [])" by simp
  then show ?thesis using rx_star_end [of P "Some c" t cs] Cons by (simp del: rx_m.simps)
qed simp

lemma quote_tail: "p \<noteq> None \<or> (case s of [] \<Rightarrow> True | c # t \<Rightarrow> \<not> lead_char c) \<Longrightarrow> erase (rx_tokens quote_re p s) = rev (dropWhile trail_char (rev s))"
proof (induction s arbitrary: p)
  case Nil
  have "rx_m quote_re (p, [], []) = []" by (simp add: quote_re_def)
  then show ?case by (simp add: rx_tokens_none)
next
  case (Cons c s)
  let ?m = "rx_m (RSeq (rx_plus (RSet trail_char)) REnd) (p, c # s, [])"
  have q: "rx_m quote_re (p, c # s, []) = ?m"
    using Cons.prems rx_plus_none [where s = "c # s" and P = lead_char and p = p and cs = "[]"]
    unfolding quote_re_def rx_m.simps(4) rx_m.simps(3) [of RBegin] rx_m.simps(7) by (cases p) auto
  show ?case
  proof (cases ?m)
    case Nil
    then have "\<not> list_all trail_char (c # s)" using trail_match [of trail_char p "c # s" "[]"] by simp
    then show ?thesis using Cons.IH [of "Some c"] q Nil trail_snoc [of trail_char c s] by (simp add: rx_tokens_none)
  next
    case (Cons st l)
    obtain p' s' cs' where st: "st = (p', s', cs')" by (cases st)
    have "s' = []" using Cons st rx_seq_end [of p' s' cs' "rx_plus (RSet trail_char)" "(p, c # s, [])"] by (metis list.set_intros(1))
    then have "rx_tokens quote_re p (c # s) = Inr (c # s, cs') # rx_tokens quote_re p' []"
      using rx_tokens_match [of quote_re p "c # s" p' "[]" cs' l] q Cons st by simp
    moreover have "rx_m quote_re (p', [], []) = []" by (simp add: quote_re_def)
    moreover have "list_all trail_char (c # s)" by (metis Cons list.distinct(1) trail_match)
    ultimately show ?thesis using trail_snoc [of trail_char c s] by (simp add: rx_tokens_none)
  qed
qed

lemma quote_start: "erase (rx_tokens quote_re None s) = strip_quotes s"
proof (cases "case s of [] \<Rightarrow> False | c # t \<Rightarrow> lead_char c")
  case True
  then obtain c t where s: "s = c # t" "lead_char c" by (auto split: list.splits)
  from rx_plus_first [of lead_char c None t "[]"] s(2) obtain l where
    "rx_m (rx_plus (RSet lead_char)) (None, c # t, []) = (Some (last (c # takeWhile lead_char t)), dropWhile lead_char t, []) # l"
    by blast
  then have "\<exists>l. rx_m quote_re (None, s, []) = (Some (last (c # takeWhile lead_char t)), dropWhile lead_char t, []) # l"
    unfolding quote_re_def rx_m.simps(4) rx_m.simps(3) [of RBegin] rx_m.simps(7) s(1) by simp
  then obtain l where m: "rx_m quote_re (None, s, []) = (Some (last (c # takeWhile lead_char t)), dropWhile lead_char t, []) # l" ..
  have "length (dropWhile lead_char t) < length s" using length_dropWhile_le [of lead_char t] s(1) by simp
  from rx_tokens_match [OF m this] show ?thesis using s by (simp add: quote_tail strip_quotes_def)
next
  case False
  then have "dropWhile lead_char s = s" by (cases s) auto
  then show ?thesis using False quote_tail [of None s] by (simp add: strip_quotes_def split: list.splits)
qed

lemma unquote_eq: "list_all (\<lambda>c. \<not> value_sep c) w \<Longrightarrow> unquote w = strip_quotes w"
proof -
  assume "list_all (\<lambda>c. \<not> value_sep c) w"
  then have "trim w = w" by (intro trim_none) (auto simp: list_all_iff value_sep_def)
  then show ?thesis using quote_start [of w] by (simp add: unquote_def rx_replace_all_def)
qed

lemma strip_quotes_parts: "\<exists>a b. s = a @ strip_quotes s @ b"
proof -
  have "s = takeWhile lead_char s @ dropWhile lead_char s" by simp
  moreover have "dropWhile lead_char s = strip_quotes s @ rev (takeWhile trail_char (rev (dropWhile lead_char s)))"
    unfolding strip_quotes_def by (metis rev_append rev_rev_ident takeWhile_dropWhile_id)
  ultimately show ?thesis by metis
qed

lemma strip_quotes_ends:
  assumes "strip_quotes s \<noteq> []"
  shows "\<not> lead_char (hd (strip_quotes s)) \<and> \<not> trail_char (last (strip_quotes s))"
proof -
  define u where "u = dropWhile lead_char s"
  have "u \<noteq> [] \<Longrightarrow> \<not> lead_char (hd u)" unfolding u_def by (rule hd_dropWhile)
  moreover obtain b where b: "u = strip_quotes s @ b"
    unfolding strip_quotes_def u_def by (metis rev_append rev_rev_ident takeWhile_dropWhile_id)
  ultimately have "\<not> lead_char (hd (strip_quotes s))" using assms by simp
  moreover have "\<not> trail_char (last (strip_quotes s))"
    using assms hd_dropWhile [of trail_char "rev u"] by (auto simp: strip_quotes_def u_def last_rev)
  ultimately show ?thesis by blast
qed

lemma parse_fold: "fold parse_step ws out = fold set_insert (filter (\<lambda>v. v \<noteq> []) (map unquote ws)) out"
  by (induction ws arbitrary: out) (simp_all add: parse_step_def set_insert_def Let_def)

lemma parseValues_eq: "parseValues raw =
    uniq (filter (\<lambda>v. v \<noteq> []) (map strip_quotes (rx_split (rx_plus (RSet value_sep)) raw)))"
proof -
  have "map unquote (rx_split (rx_plus (RSet value_sep)) raw) = map strip_quotes (rx_split (rx_plus (RSet value_sep)) raw)"
    by (rule map_cong [OF refl]) (blast intro: unquote_eq rx_split_plus)
  then show ?thesis by (simp only: parseValues_def parse_fold uniq_def)
qed

text \<open>A clean value: no separator, no quotation mark or bracket around it.\<close>

definition clean_value :: "string \<Rightarrow> bool" where
  "clean_value v \<longleftrightarrow> v \<noteq> [] \<and> list_all (\<lambda>c. \<not> value_sep c) v \<and> \<not> lead_char (hd v) \<and> \<not> trail_char (last v)"

lemma parseValues_clean: "v \<in> set (parseValues raw) \<Longrightarrow> clean_value v"
proof -
  assume "v \<in> set (parseValues raw)"
  then obtain w where w: "w \<in> set (rx_split (rx_plus (RSet value_sep)) raw)" "v = strip_quotes w" "v \<noteq> []"
    by (auto simp: parseValues_eq)
  from strip_quotes_parts [of w] w(2) obtain a b where "w = a @ v @ b" by blast
  with rx_split_plus [OF w(1)] have "list_all (\<lambda>c. \<not> value_sep c) v" by simp
  with w strip_quotes_ends [of w] show ?thesis by (simp add: clean_value_def)
qed

lemma strip_clean: "clean_value v \<Longrightarrow> strip_quotes v = v"
proof -
  assume c: "clean_value v"
  then have "dropWhile lead_char v = v" by (cases v) (auto simp: clean_value_def)
  moreover have "dropWhile trail_char (rev v) = rev v"
    by (rule dropWhile_id) (use c in \<open>auto simp: clean_value_def hd_rev\<close>)
  ultimately show ?thesis by (simp add: strip_quotes_def)
qed

lemma tokens_word: "list_all (\<lambda>c. \<not> P c) w \<Longrightarrow>
    rx_tokens (rx_plus (RSet P)) p (w @ s) = map Inl w @ rx_tokens (rx_plus (RSet P)) (after p w) s"
proof (induction w arbitrary: p)
  case (Cons c w)
  then have "rx_m (rx_plus (RSet P)) (p, c # w @ s, []) = []" by (intro rx_plus_none) simp
  then have "rx_tokens (rx_plus (RSet P)) p (c # w @ s) = Inl c # rx_tokens (rx_plus (RSet P)) (Some c) (w @ s)"
    using rx_tokens_none by fastforce
  moreover have "after (Some c) w = after p (c # w)" by (simp add: after_def)
  ultimately show ?case using Cons by simp
qed simp

lemma tokens_sep: "P d \<Longrightarrow> (case s of [] \<Rightarrow> True | c # _ \<Rightarrow> \<not> P c) \<Longrightarrow>
    rx_tokens (rx_plus (RSet P)) p (d # s) = Inr ([d], []) # rx_tokens (rx_plus (RSet P)) (Some d) s"
proof -
  assume d: "P d" "case s of [] \<Rightarrow> True | c # _ \<Rightarrow> \<not> P c"
  then have "takeWhile P s = [] \<and> dropWhile P s = s" by (cases s) auto
  with rx_plus_first [of P d p s "[]"] d(1) obtain l where
    "rx_m (rx_plus (RSet P)) (p, d # s, []) = (Some d, s, []) # l" by auto
  from rx_tokens_match [OF this] show ?thesis by simp
qed

lemma pieces_word: "rx_pieces (map Inl w @ Inr m # ts) = w # rx_pieces ts" "rx_pieces (map Inl w) = [w]"
  by (induction w) simp_all

lemma split_join:
  "vs \<noteq> [] \<Longrightarrow> P d \<Longrightarrow> list_all (\<lambda>v. v \<noteq> [] \<and> list_all (\<lambda>c. \<not> P c) v) vs \<Longrightarrow>
     rx_pieces (rx_tokens (rx_plus (RSet P)) p (join [d] vs)) = vs"
proof (induction "[d]" vs arbitrary: p rule: join.induct)
  case (2 w)
  then show ?case using tokens_word [of P w p "[]"] by (simp add: rx_tokens_none rx_plus_none pieces_word)
next
  case (3 w w2 ws)
  have "case join [d] (w2 # ws) of [] \<Rightarrow> True | c # _ \<Rightarrow> \<not> P c"
    using "3.prems"(3) by (cases ws; cases w2) auto
  then have "rx_tokens (rx_plus (RSet P)) p (join [d] (w # w2 # ws)) =
      map Inl w @ Inr ([d], []) # rx_tokens (rx_plus (RSet P)) (Some d) (join [d] (w2 # ws))"
    using tokens_word [of P w p "d # join [d] (w2 # ws)"] tokens_sep [of P d] "3.prems" by simp
  then show ?case using "3.hyps" [of "Some d"] "3.prems" by (simp add: pieces_word)
qed simp

text \<open>Every paste gives distinct clean values, and a list of distinct clean values pasted one
  per line, or separated by commas or semicolons, is checked exactly as it is.\<close>

theorem parseValues_spec:
  "distinct (parseValues raw) \<and> list_all clean_value (parseValues raw)
   \<and> (distinct vs \<longrightarrow> list_all clean_value vs \<longrightarrow> value_sep d \<longrightarrow> parseValues (join [d] vs) = vs)"
proof (intro conjI impI)
  show "distinct (parseValues raw)" by (simp add: parseValues_eq)
  show "list_all clean_value (parseValues raw)" by (simp add: list_all_iff parseValues_clean)
  assume a: "distinct vs" "list_all clean_value vs" "value_sep d"
  have id: "filter (\<lambda>v. v \<noteq> []) (map strip_quotes vs) = vs"
    using a(2) by (induction vs) (auto simp: strip_clean clean_value_def)
  show "parseValues (join [d] vs) = vs"
  proof (cases "vs = []")
    case True
    have "rx_split (rx_plus (RSet value_sep)) [] = [[]]"
      unfolding rx_split_def by (subst rx_tokens_none) (simp_all add: rx_plus_none)
    then show ?thesis by (simp add: True parseValues_eq uniq_def strip_quotes_def)
  next
    case False
    have "list_all (\<lambda>v. v \<noteq> [] \<and> list_all (\<lambda>c. \<not> value_sep c) v) vs"
      using a(2) by (auto simp: list_all_iff clean_value_def)
    from split_join [OF False a(3) this, of None] show ?thesis
      by (simp add: parseValues_eq rx_split_def id uniq_distinct a(1))
  qed
qed

theorem parseValues_spec_witness: "parseValues ''8.8.8.8,evil.example'' = [''8.8.8.8'', ''evil.example'']"
proof -
  have "list_all clean_value [''8.8.8.8'', ''evil.example'']" "value_sep (CHR '','')" by code_simp+
  then show ?thesis using parseValues_spec [of "[]" "[''8.8.8.8'', ''evil.example'']" "CHR '',''"] by simp
qed

subsection \<open>The check\<close>

definition bulk_ok :: "bulk_page \<Rightarrow> bool" where
  "bulk_ok p \<longleftrightarrow> list_all (\<lambda>vs. vs \<noteq> [] \<and> length vs \<le> BULK_LOOKUP_MAX \<and> distinct vs \<and> list_all clean_value vs) (bk_calls p)
     \<and> length (bk_flight p) \<le> 1 \<and> (bk_busy p \<longleftrightarrow> bk_flight p \<noteq> [])
     \<and> (bk_error p \<noteq> None \<longrightarrow> bk_rows p = None \<and> bk_flight p = []) \<and> bk_error p \<noteq> Some []"

lemma bulk_run_ok: "bulk_ok p \<Longrightarrow> bulk_ok (bulk_run p)"
  using parseValues_spec [of "bk_text p" "[]"] by (auto simp: bulk_ok_def bulk_run_def Let_def overLimit_def)

lemma bulk_step_ok: "bulk_ok p \<Longrightarrow> bulk_ok (bulk_step eng x p)"
  by (cases x) (auto simp: bulk_run_ok, auto simp: bulk_ok_def bulk_done_def bulk_clear_def Let_def le_Suc_eq split: sum.splits)

text \<open>The answers among the steps, and the calls they leave room for.\<close>

definition answers :: "bulk_op list \<Rightarrow> nat" where
  "answers xs = length [x \<leftarrow> xs. case x of BDone i r ms \<Rightarrow> True | _ \<Rightarrow> False]"

lemma bulk_calls_answered:
  "length (bk_calls (fold (bulk_step eng) xs bulk_init)) \<le> answers xs + length (bk_flight (fold (bulk_step eng) xs bulk_init))"
proof (induction xs rule: rev_induct)
  case Nil
  show ?case by (simp add: bulk_init_def)
next
  case (snoc x xs)
  then show ?case by (cases x) (auto simp: answers_def bulk_run_def bulk_done_def bulk_clear_def Let_def split: sum.splits)
qed

lemma summary_fold: "fold summary_step rs s = s\<lparr>bs_total := bs_total s + length rs,
    bs_malicious := bs_malicious s + length (filter (\<lambda>r. br_verdict r = ''malicious'') rs),
    bs_suspicious := bs_suspicious s + length (filter (\<lambda>r. br_verdict r = ''suspicious'') rs),
    bs_known := bs_known s + length (filter br_found rs),
    bs_unknown := bs_unknown s + length (filter (\<lambda>r. \<not> br_found r) rs)\<rparr>"
  by (induction rs arbitrary: s) (auto simp: summary_step_def Let_def)

text \<open>C22: whatever the operator does and in whatever order answers come, every call of the bulk check
  carries between one and a thousand distinct values without separators or outer quotes, at
  most one call is under way, the button is held exactly as long, at most one more call was made
  than answered, and an error is never shown beside rows.\<close>

theorem bulk_check_bounded:
  "case fold (bulk_step eng) xs bulk_init of p \<Rightarrow>
     list_all (\<lambda>vs. vs \<noteq> [] \<and> length vs \<le> 1000 \<and> distinct vs \<and> list_all clean_value vs) (bk_calls p)
   \<and> length (bk_flight p) \<le> 1 \<and> bk_busy p = (bk_flight p \<noteq> [])
   \<and> length (bk_calls p) \<le> answers xs + 1
   \<and> (bk_error p = None \<or> bk_rows p = None)"
proof -
  have run: "bulk_ok p \<Longrightarrow> bulk_ok (fold (bulk_step eng) xs p)" for p
    by (induction xs arbitrary: p) (auto simp: bulk_step_ok)
  have "bulk_ok bulk_init" by (simp add: bulk_ok_def bulk_init_def)
  from run [OF this] bulk_calls_answered [of eng xs] show ?thesis
    by (auto simp: bulk_ok_def BULK_LOOKUP_MAX_def)
qed

text \<open>The summary counts the rows: found and not found make up all of them, and the hits are exactly the
  rows the filter leaves.\<close>

lemma summary_counts:
  "bs_known (summary (bk_rows p)) + bs_unknown (summary (bk_rows p)) = bs_total (summary (bk_rows p))"
  "bs_malicious (summary (bk_rows p)) + bs_suspicious (summary (bk_rows p)) = length (shown (p\<lparr>bk_hitsOnly := True\<rparr>))"
proof -
  have "length (filter br_found rs) + length (filter (\<lambda>r. \<not> br_found r) rs) = length rs" for rs
    by (rule sum_list_filter_partition)
  moreover have "length (filter (\<lambda>r. br_verdict r = ''malicious'') rs) + length (filter (\<lambda>r. br_verdict r = ''suspicious'') rs)
      = length (filter (\<lambda>r. br_verdict r \<in> set HITS) rs)" for rs
    by (induction rs) (auto simp: HITS_def)
  ultimately show "bs_known (summary (bk_rows p)) + bs_unknown (summary (bk_rows p)) = bs_total (summary (bk_rows p))"
    "bs_malicious (summary (bk_rows p)) + bs_suspicious (summary (bk_rows p)) = length (shown (p\<lparr>bk_hitsOnly := True\<rparr>))"
    unfolding summary_def summary_fold by (auto simp: shown_def split: option.splits)
qed

text \<open>Clearing the page while a check is under way does not stop it: its rows appear under
  the emptied paste. And the badge of a theme-coloured band gets a background that is no
  colour: the alpha digits follow a closed \<open>rgb(...)\<close>, where \<open>withAlpha\<close> would have
  put them inside.\<close>

theorem cleared_check_returns:
  assumes "bk_flight (bulk_run p) \<noteq> []"
  shows "shown (bulk_done eng 0 (Inr rows) ms (bulk_clear (bulk_run p))\<lparr>bk_hitsOnly := False\<rparr>) = rows
    \<and> bk_text (bulk_done eng 0 (Inr rows) ms (bulk_clear (bulk_run p))) = []
    \<and> (br_found r \<and> br_intelScore r = Some x \<and> br_scoreBand r = Some ''high'' \<longrightarrow>
         score_style r = Some (Some ''rgb(var(--magenta))'', ''rgb(var(--magenta))14'', ''rgb(var(--magenta))40''))"
proof -
  obtain vs ws where v: "bk_flight (bulk_run p) = vs # ws" using assms by (cases "bk_flight (bulk_run p)") auto
  then have "bk_flight (bulk_clear (bulk_run p)) = vs # ws" by (simp add: bulk_clear_def)
  then show ?thesis
    by (simp add: bulk_done_def shown_def score_style_def BAND_COLOR_def tk_def obj_get_def Let_def)
      (simp_all add: bulk_clear_def v)
qed

theorem cleared_check_returns_witness:
  "\<forall>r. let p = bulk_init\<lparr>bk_text := ''8.8.8.8''\<rparr>;
       q = bulk_done (\<lambda>_. []) 0 (Inr [r]) 12 (bulk_clear (bulk_run p)) in bk_text q = [] \<and> shown (q\<lparr>bk_hitsOnly := False\<rparr>) = [r]"
proof -
  define p where "p = bulk_init\<lparr>bk_text := ''8.8.8.8''\<rparr>"
  have "list_all clean_value [''8.8.8.8'']" "value_sep (CHR '','')" by code_simp+
  then have "parseValues ''8.8.8.8'' = [''8.8.8.8'']" using parseValues_spec [of "[]" "[''8.8.8.8'']" "CHR '',''"] by simp
  then have "bk_flight (bulk_run p) \<noteq> []"
    by (simp add: p_def bulk_run_def bulk_init_def overLimit_def BULK_LOOKUP_MAX_def Let_def)
  from cleared_check_returns [OF this, of "\<lambda>_. []" "[r]" 12 for r] show ?thesis
    unfolding p_def [symmetric] by (simp add: Let_def)
qed

end
