(* ===== verification/Scanner.thy ===== *)
theory Scanner
  imports ApiEndpoints Helpers
begin

text \<open>
  The single-value scanner (\<open>app/dashboard/scanner/page.tsx\<close>): the check that a value fits the
  chosen type, the scan with its three calls, overlapping scans, the delayed display, the
  file scan and saving an indicator. The browser's SHA-256 and the clock are parameters.
  The lemmas say which values are accepted, that a value fits at most one kind, where every
  verdict comes from, and which displays the page cannot keep apart.
\<close>

subsection \<open>Validation\<close>

abbreviation rx_any :: "string \<Rightarrow> rx" where "rx_any s \<equiv> RSet (\<lambda>c. c \<in> set s)"

definition scan_octet :: rx where
  "scan_octet = RAlt (RSeq (rx_str ''25'') (rx_any ''012345''))
     (RAlt (RSeq (rx_str ''2'') (RSeq (rx_any ''01234'') (RSet is_digit)))
           (RSeq (rx_opt (rx_str ''1'')) (RSeq (rx_opt (RSet is_digit)) (RSet is_digit))))"

definition scan_ipv4 :: rx where
  "scan_ipv4 = RSeq scan_octet (rx_times 3 (RSeq (rx_str ''.'') scan_octet))"

definition scan_ipv6 :: rx where
  "scan_ipv6 = RAlt (RSeq (rx_range 2 7 (RSeq (rx_range 1 4 (RSet is_hex)) (rx_str '':''))) (rx_range 0 4 (RSet is_hex)))
     (RAlt (rx_str ''::1'') (rx_str ''::''))"

definition scan_hash :: rx where
  "scan_hash = RAlt (rx_times 32 (RSet is_hex)) (RAlt (rx_times 40 (RSet is_hex)) (rx_times 64 (RSet is_hex)))"

definition host_char :: "char \<Rightarrow> bool" where "host_char c \<longleftrightarrow> is_alnum c \<or> c = CHR ''-''"

definition scan_domain :: rx where
  "scan_domain = RSeq (RNotAhead (\<lambda>c. c = CHR ''-'')) (RSeq (rx_range 1 63 (RSet host_char))
     (RSeq (RNotBehind (\<lambda>c. c = CHR ''-'')) (rx_plus (RSeq (rx_str ''.'') (rx_range 1 63 (RSet host_char))))))"

definition scheme_re :: rx where
  "scheme_re = RSeq RBegin (RSeq (rx_plus (RSet is_alpha)) (rx_str ''://''))"

definition http_re :: rx where
  "http_re = RSeq RBegin (RSeq (rx_stri ''http'') (RSeq (rx_opt (rx_stri ''s'')) (rx_str ''://'')))"

definition path_char :: "char \<Rightarrow> bool" where "path_char c \<longleftrightarrow> c = CHR ''/'' \<or> c = CHR ''?'' \<or> c = CHR ''#''"

definition is_ip :: "string \<Rightarrow> bool" where
  "is_ip v \<longleftrightarrow> rx_test (rx_full scan_ipv4) v \<or> rx_test (rx_full scan_ipv6) v"

definition is_hash :: "string \<Rightarrow> bool" where "is_hash v \<longleftrightarrow> rx_test (rx_full scan_hash) v"
definition is_domain :: "string \<Rightarrow> bool" where "is_domain v \<longleftrightarrow> rx_test (rx_full scan_domain) v"

text \<open>The messages, named by what they ask for.\<close>

datatype scan_hint = SwitchToHash | SwitchToUrl | SwitchToIp | NeedIp | NeedHash | NeedUrl | NeedDomain

definition url_authority :: "string \<Rightarrow> string" where
  "url_authority v = (case rx_split (RSet path_char) (rx_replace scheme_re (\<lambda>_ _. []) v) of [] \<Rightarrow> [] | w # _ \<Rightarrow> w)"

definition validateScanInput :: "string \<Rightarrow> string \<Rightarrow> scan_hint option" where
  "validateScanInput ty raw =
     (let v = trim raw in
      if v = [] then None
      else if ty = ''ip'' then
        (if is_ip v then None
         else if is_hash v then Some SwitchToHash
         else if is_domain v \<or> rx_test http_re v then Some SwitchToUrl
         else Some NeedIp)
      else if ty = ''hash'' then (if is_hash v then None else Some NeedHash)
      else if ty = ''url'' then
        (if is_ip v then Some SwitchToIp
         else if is_hash v then Some SwitchToHash
         else if is_domain (url_authority v) then None
         else Some NeedUrl)
      else if ty = ''domain'' then
        (if is_ip v then Some SwitchToIp
         else if is_hash v then Some SwitchToHash
         else if rx_test scheme_re v \<or> rx_test (RSet path_char) v then Some SwitchToUrl
         else if is_domain v then None
         else Some NeedDomain)
      else None)"

subsection \<open>Helpers\<close>

definition SCAN_TYPES :: "string list" where
  "SCAN_TYPES = [''url'', ''domain'', ''ip'', ''hash'', ''file'']"

definition fmtBytes :: "nat \<Rightarrow> string" where
  "fmtBytes n =
     (if n < 1024 then int_str (int n) @ '' B''
      else if n < 1024 * 1024 then to_fixed 1 (js_div (of_nat n) 1024) @ '' KB''
      else to_fixed 1 (js_div (of_nat n) (1024 * 1024)) @ '' MB'')"

text \<open>The hexadecimal text of a digest.\<close>

definition hex_digest :: "nat list \<Rightarrow> string" where
  "hex_digest bs = concat (map (\<lambda>b. pad_start 2 (CHR ''0'') (base_str 16 (int b))) bs)"

text \<open>How long ago, with the time of day and the parsed time in milliseconds; a text that is no
  time is shown as it is.\<close>

definition relativeTime :: "int \<Rightarrow> int option \<Rightarrow> string \<Rightarrow> string" where
  "relativeTime now t0 txt =
     (case t0 of
        None \<Rightarrow> txt
      | Some past \<Rightarrow>
          let secs = max 0 ((now - past) div 1000) in
          if secs < 60 then int_str secs @ ''s ago''
          else if secs div 60 < 60 then int_str (secs div 60) @ ''m ago''
          else if secs div 60 div 60 < 24 then int_str (secs div 60 div 60) @ ''h ago''
          else int_str (secs div 60 div 60 div 24) @ ''d ago'')"

definition gauge_color :: "string \<Rightarrow> string" where
  "gauge_color verdict =
     (if verdict = ''malicious'' then tk Magenta
      else if verdict = ''suspicious'' then tk Amber
      else if verdict = ''unverified'' \<or> verdict = ''expired'' then tk Violet
      else tk Safe)"

definition gauge_text :: "rat \<Rightarrow> int" where "gauge_text score = js_round (js_mul score 100)"

definition PROVIDER_LABEL :: "(string, string) obj" where
  "PROVIDER_LABEL =
     [(''internal'', ''Internal telemetry''), (''indicator'', ''Indicator heuristics''),
      (''rdap'', ''RDAP registry''), (''otx'', ''AlienVault OTX''), (''virustotal'', ''VirusTotal''),
      (''greynoise'', ''GreyNoise''), (''shodan'', ''Shodan''), (''whois'', ''WHOIS'')]"

text \<open>The label of a source, \<open>None\<close> when there is none.\<close>

datatype provenance = EngineDerived | NvdOfficial | AnalystImport | ExternalFeed

definition provClass :: "string option \<Rightarrow> provenance option" where
  "provClass source =
     (case source of
        None \<Rightarrow> None
      | Some s0 \<Rightarrow> if s0 = [] then None
          else let s = toLowerCase s0 in
            if starts_with s ''engine:'' then Some EngineDerived
            else if s = ''nvd'' \<or> str_includes s ''nvd'' then Some NvdOfficial
            else if s = ''manual'' \<or> starts_with s ''import'' then Some AnalystImport
            else Some ExternalFeed)"

definition SCORE_BAND :: "(string, string \<times> string) obj" where
  "SCORE_BAND = [(''high'', tk Magenta, ''high''), (''moderate'', tk Amber, ''moderate''), (''low'', tk Violet, ''low''),
     (''weak'', ''#665B7D'', ''weak'')]"

subsection \<open>Scans\<close>

record enrich_provider =
  ep_provider :: string
  ep_available :: bool
  ep_verdict :: "string option"
  ep_summary :: "string option"
  ep_data :: json

record ioc_lookup =
  lu_value :: string
  lu_found :: bool
  lu_verdict :: string
  lu_confidence :: rat
  lu_threatType :: "string option"
  lu_actor :: "string option"
  lu_tags :: "string list"
  lu_source :: "string option"
  lu_firstSeen :: "string option"
  lu_lastSeen :: "string option"

text \<open>The answer of the enrichment: its verdict and its providers.\<close>

type_synonym enrichment = "string \<times> enrich_provider list"

record scan_result =
  sc_target :: string
  sc_type :: string
  sc_verdict :: string
  sc_detectionRatio :: string
  sc_score :: rat
  sc_firstSeen :: string
  sc_lastSeen :: string
  sc_categories :: "string list"
  sc_iocs :: "string list"
  sc_source :: "string option"
  sc_providers :: "enrich_provider list"
  sc_lookup :: "ioc_lookup option"
  sc_context :: "json option"
  sc_file :: "(string \<times> string \<times> string \<times> string) option"

definition consulted :: "enrich_provider list \<Rightarrow> enrich_provider list" where
  "consulted ps = filter ep_available ps"

definition flagged :: "enrich_provider list \<Rightarrow> enrich_provider list" where
  "flagged ps = filter (\<lambda>p. ep_verdict p = Some ''malicious'' \<or> ep_verdict p = Some ''suspicious'') (consulted ps)"

definition detection_ratio :: "enrich_provider list \<Rightarrow> string" where
  "detection_ratio ps = int_str (int (length (flagged ps))) @ ''/'' @ int_str (int (length (consulted ps)) + 1)"

definition scan_verdict :: "ioc_lookup option \<Rightarrow> enrichment option \<Rightarrow> string" where
  "scan_verdict hit enr =
     (case hit of
        Some h \<Rightarrow> if lu_found h then lu_verdict h
                  else (case enr of Some (v, _) \<Rightarrow> if v \<noteq> ''unknown'' then v else ''unverified'' | None \<Rightarrow> ''unverified'')
      | None \<Rightarrow> (case enr of Some (v, _) \<Rightarrow> if v \<noteq> ''unknown'' then v else ''unverified'' | None \<Rightarrow> ''unverified''))"

definition non_empty :: "string option \<Rightarrow> string list" where
  "non_empty v = (case v of Some s \<Rightarrow> if s \<noteq> [] then [s] else [] | None \<Rightarrow> [])"

definition scan_categories :: "ioc_lookup option \<Rightarrow> string list" where
  "scan_categories hit =
     (case hit of
        Some h \<Rightarrow> if lu_found h
          then non_empty (lu_threatType h) @ map (\<lambda>a. ''Attributed: '' @ a) (non_empty (lu_actor h)) @
               filter (\<lambda>t. t \<noteq> []) (lu_tags h)
          else []
      | None \<Rightarrow> [])"

definition dash_or :: "string option \<Rightarrow> string" where
  "dash_or v = (case v of Some s \<Rightarrow> s | None \<Rightarrow> ''-'')"

definition scan_fill :: "ioc_lookup option \<Rightarrow> enrichment option \<Rightarrow> json option \<Rightarrow> scan_result \<Rightarrow> scan_result" where
  "scan_fill hit enr cx base =
     (let ps = (case enr of Some (_, ps) \<Rightarrow> ps | None \<Rightarrow> []);
          found = (case hit of Some h \<Rightarrow> lu_found h | None \<Rightarrow> False) in
      base\<lparr>sc_verdict := scan_verdict hit enr,
           sc_score := (if found then js_div (lu_confidence (the hit)) 100 else 0),
           sc_detectionRatio := detection_ratio ps,
           sc_firstSeen := dash_or (case hit of Some h \<Rightarrow> lu_firstSeen h | None \<Rightarrow> None),
           sc_lastSeen := dash_or (case hit of Some h \<Rightarrow> lu_lastSeen h | None \<Rightarrow> None),
           sc_categories := scan_categories hit,
           sc_source := (if found then lu_source (the hit) else None),
           sc_providers := ps, sc_lookup := hit, sc_context := cx\<rparr>)"

definition scan_blank :: "string \<Rightarrow> string \<Rightarrow> scan_result" where
  "scan_blank target ty = \<lparr>sc_target = target, sc_type = ty, sc_verdict = ''unverified'', sc_detectionRatio = ''0/1'',
     sc_score = 0, sc_firstSeen = ''-'', sc_lastSeen = ''-'', sc_categories = [], sc_iocs = [], sc_source = None,
     sc_providers = [], sc_lookup = None, sc_context = None, sc_file = None\<rparr>"

text \<open>The result of a value scan whose lookup answered.\<close>

definition scan_outcome :: "string \<Rightarrow> string \<Rightarrow> ioc_lookup \<Rightarrow> enrichment option \<Rightarrow> json option \<Rightarrow> scan_result" where
  "scan_outcome target ty hit enr cx =
     scan_fill (Some hit) enr cx (scan_blank (if lu_found hit then lu_value hit else target) ty)"

subsection \<open>The page\<close>

text \<open>\<open>sp_flight\<close> are the scans whose calls have not settled, \<open>sp_shows\<close> the results waiting for
  their timer, \<open>sp_recorded\<close> the scans reported to the backend.\<close>

record scan_page =
  sp_type :: string
  sp_query :: string
  sp_scanning :: bool
  sp_result :: "scan_result option"
  sp_lookupFailed :: bool
  sp_saved :: bool
  sp_saving :: bool
  sp_flight :: "(string \<times> string) list"
  sp_shows :: "scan_result list"
  sp_files :: "(string \<times> nat \<times> string \<times> string) list"
  sp_recorded :: "scan_result list"

definition scan_init :: scan_page where
  "scan_init = \<lparr>sp_type = ''url'', sp_query = [], sp_scanning = False, sp_result = None, sp_lookupFailed = False,
     sp_saved = False, sp_saving = False, sp_flight = [], sp_shows = [], sp_files = [], sp_recorded = []\<rparr>"

definition handleScan :: "string option \<Rightarrow> string option \<Rightarrow> scan_page \<Rightarrow> scan_page" where
  "handleScan pivotValue pivotType p =
     (let pivot = (case pivotValue of Some v \<Rightarrow> v \<noteq> [] | None \<Rightarrow> False);
          target = trim (case pivotValue of Some v \<Rightarrow> v | None \<Rightarrow> sp_query p);
          typ = (case pivotType of Some t \<Rightarrow> t | None \<Rightarrow> sp_type p);
          q = (if pivot then
                 p\<lparr>sp_query := the pivotValue,
                   sp_type := (case pivotType of Some t \<Rightarrow> if t \<in> set SCAN_TYPES then t else sp_type p | None \<Rightarrow> sp_type p)\<rparr>
               else p)
      in if target = [] \<and> typ \<noteq> ''file'' then q
         else if \<not> pivot \<and> validateScanInput typ target \<noteq> None then q
         else let s = q\<lparr>sp_scanning := True, sp_result := None, sp_lookupFailed := False, sp_saved := False\<rparr> in
           if target = [] then s\<lparr>sp_scanning := False\<rparr>
           else s\<lparr>sp_flight := sp_flight s @ [(target, typ)]\<rparr>)"

text \<open>The three calls of scan number \<open>i\<close> have settled; \<open>None\<close> stands for a rejected one.\<close>

definition scan_settled :: "nat \<Rightarrow> ioc_lookup option \<Rightarrow> enrichment option \<Rightarrow> json option \<Rightarrow> scan_page \<Rightarrow> scan_page" where
  "scan_settled i lu en cx p =
     (if length (sp_flight p) \<le> i then p
      else let (target, typ) = sp_flight p ! i;
               p = p\<lparr>sp_flight := take i (sp_flight p) @ drop (Suc i) (sp_flight p)\<rparr>
           in case lu of
                None \<Rightarrow> p\<lparr>sp_lookupFailed := True, sp_scanning := False\<rparr>
              | Some hit \<Rightarrow> p\<lparr>sp_shows := sp_shows p @ [scan_outcome target typ hit en cx]\<rparr>)"

text \<open>The timer of the oldest waiting result.\<close>

definition scan_show :: "scan_page \<Rightarrow> scan_page" where
  "scan_show p = (case sp_shows p of
     [] \<Rightarrow> p
   | r # rs \<Rightarrow> p\<lparr>sp_result := Some r, sp_scanning := False, sp_shows := rs, sp_recorded := sp_recorded p @ [r]\<rparr>)"

definition handleFileScan :: "string \<times> nat \<times> string \<Rightarrow> string \<Rightarrow> scan_page \<Rightarrow> scan_page" where
  "handleFileScan file sha p =
     (case file of (name, bytes, mime) \<Rightarrow>
        if sp_scanning p then p
        else if 32 * 1024 * 1024 < bytes then p
        else p\<lparr>sp_scanning := True, sp_result := None, sp_saved := False, sp_files := sp_files p @ [(name, bytes, mime, sha)]\<rparr>)"

definition file_result :: "string \<times> nat \<times> string \<times> string \<Rightarrow> ioc_lookup option \<Rightarrow> enrichment option \<Rightarrow> json option \<Rightarrow> scan_result" where
  "file_result file hit enr cx =
     (case file of (name, bytes, mime, sha) \<Rightarrow>
        scan_fill hit enr cx ((scan_blank sha ''file'')\<lparr>sc_iocs := [sha],
          sc_file := Some (name, fmtBytes bytes, if mime = [] then ''unknown'' else mime, take 16 sha)\<rparr>))"

definition file_settled :: "ioc_lookup option \<Rightarrow> enrichment option \<Rightarrow> json option \<Rightarrow> scan_page \<Rightarrow> scan_page" where
  "file_settled hit enr cx p =
     (case sp_files p of
        [] \<Rightarrow> p
      | f # fs \<Rightarrow> let r = file_result f hit enr cx in
          p\<lparr>sp_result := Some r, sp_scanning := False, sp_files := fs, sp_recorded := sp_recorded p @ [r]\<rparr>)"

text \<open>The digest of the file cannot be computed: the exception ends the scan without a result.\<close>

definition file_failed :: "scan_page \<Rightarrow> scan_page" where
  "file_failed p = (case sp_files p of [] \<Rightarrow> p | f # fs \<Rightarrow> p\<lparr>sp_scanning := False, sp_files := fs\<rparr>)"

definition handleSaveIoc :: "scan_page \<Rightarrow> scan_page \<times> json option" where
  "handleSaveIoc p =
     (case sp_result p of
        None \<Rightarrow> (p, None)
      | Some r \<Rightarrow>
          if sp_saved p \<or> sp_saving p then (p, None)
          else (p\<lparr>sp_saving := True\<rparr>, Some (JObj
            [(''indicators'', JArr [JObj [(''type'', JStr (if sc_type r = ''file'' then ''hash'' else sc_type r)),
                                          (''value'', JStr (sc_target r))]]),
             (''severity'', JStr (if sc_verdict r = ''malicious'' then ''high''
                else if sc_verdict r = ''suspicious'' then ''medium'' else ''low'')),
             (''confidence'', JNum (of_int (js_round (js_mul (sc_score r) 100)))),
             (''source'', JStr ''intelscope-scanner''),
             (''threat_type'', JStr (case sc_categories r of c # _ \<Rightarrow> c | [] \<Rightarrow> ''Scanned indicator'')),
             (''tags'', JArr [JStr ''intelscope''])])))"

definition save_done :: "bool \<Rightarrow> scan_page \<Rightarrow> scan_page" where
  "save_done ok p = (if sp_saving p then p\<lparr>sp_saved := (ok \<or> sp_saved p), sp_saving := False\<rparr> else p)"

definition pick_type :: "string \<Rightarrow> scan_page \<Rightarrow> scan_page" where
  "pick_type k p = p\<lparr>sp_type := k, sp_query := [], sp_result := None\<rparr>"

definition retry :: "scan_page \<Rightarrow> scan_page" where
  "retry p = handleScan None None (p\<lparr>sp_lookupFailed := False\<rparr>)"

text \<open>The deep link \<open>?value=...&type=...&run=1\<close> on mount.\<close>

definition deep_link :: "string \<Rightarrow> scan_page \<Rightarrow> scan_page" where
  "deep_link search p =
     (let params = parse_params (if starts_with search ''?'' then tl search else search);
          v = trim (case map_of params ''value'' of Some v \<Rightarrow> v | None \<Rightarrow> []);
          t = toLowerCase (trim (case map_of params ''type'' of Some t \<Rightarrow> t | None \<Rightarrow> []))
      in if v = [] then p
         else let p = p\<lparr>sp_query := v, sp_type := (if t \<in> set SCAN_TYPES then t else sp_type p)\<rparr> in
           if map_of params ''run'' = Some ''1'' then handleScan (Some v) (if t = [] then None else Some t) p else p)"

datatype scan_op = SType string | SQuery string | SExample string string | SScan | SPivot string string
  | SSettled nat "ioc_lookup option" "enrichment option" "json option" | SShow
  | SFile "string \<times> nat \<times> string" string | SFileDone "ioc_lookup option" "enrichment option" "json option"
  | SFileFailed | SSave | SSaved bool | SRetry

fun scan_step :: "scan_op \<Rightarrow> scan_page \<Rightarrow> scan_page" where
  "scan_step (SType k) p = pick_type k p"
| "scan_step (SQuery q) p = p\<lparr>sp_query := q\<rparr>"
| "scan_step (SExample t q) p = p\<lparr>sp_type := t, sp_query := q\<rparr>"
| "scan_step SScan p = handleScan None None p"
| "scan_step (SPivot v t) p = handleScan (Some v) (Some t) p"
| "scan_step (SSettled i lu en cx) p = scan_settled i lu en cx p"
| "scan_step SShow p = scan_show p"
| "scan_step (SFile f sha) p = handleFileScan f sha p"
| "scan_step (SFileDone hit en cx) p = file_settled hit en cx p"
| "scan_step SFileFailed p = file_failed p"
| "scan_step SSave p = fst (handleSaveIoc p)"
| "scan_step (SSaved ok) p = save_done ok p"
| "scan_step SRetry p = retry p"

text \<open>What is shown: the banner of a failed lookup, and the note under an unverified result.\<close>

definition shows_unavailable :: "scan_page \<Rightarrow> bool" where
  "shows_unavailable p \<longleftrightarrow> sp_lookupFailed p \<and> \<not> sp_scanning p"

definition shows_not_present :: "scan_page \<Rightarrow> bool" where
  "shows_not_present p \<longleftrightarrow> (case sp_result p of Some r \<Rightarrow> sc_verdict r = ''unverified'' | None \<Rightarrow> False)"

definition scan_enabled :: "scan_page \<Rightarrow> bool" where
  "scan_enabled p \<longleftrightarrow> trim (sp_query p) \<noteq> [] \<and> \<not> sp_scanning p \<and> validateScanInput (sp_type p) (sp_query p) = None"

subsection \<open>What the validation accepts\<close>

lemma rx_full_sound: "rx_test (rx_full r) s \<Longrightarrow> s \<in> rx_lang r"
proof -
  assume "rx_test (rx_full r) s"
  then have "rx_search (rx_full r) None s \<noteq> None" by (simp add: rx_test_def)
  then have "rx_m (rx_full r) (None, s, []) \<noteq> []" by (cases s) (auto simp: rx_full_later split: list.splits)
  then obtain p' s' cs' where m: "(p', s', cs') \<in> set (rx_m (rx_full r) (None, s, []))"
    by (metis list.set_sel(1) prod_cases3)
  then have "(p', s', cs') \<in> set (rx_m r (None, s, []))" "s' = []" by (auto simp: rx_full_def split: if_splits)
  from rx_okD [OF rx_m_sound this(1)] this(2) show ?thesis by auto
qed

lemma hash_hex: "is_hash v \<Longrightarrow> list_all is_hex v \<and> length v \<in> {32, 40, 64}"
  unfolding is_hash_def using rx_full_sound [of scan_hash v] by (auto simp: scan_hash_def rx_lang_times_set)

lemma octet_last: "w \<in> rx_lang scan_octet \<Longrightarrow> w \<noteq> []"
  by (auto simp: scan_octet_def)

lemma ipv4_dot: "v \<in> rx_lang scan_ipv4 \<Longrightarrow> CHR ''.'' \<in> set v"
  unfolding scan_ipv4_def numeral_3_eq_3 by auto

lemma ipv6_colon: "v \<in> rx_lang scan_ipv6 \<Longrightarrow> CHR '':'' \<in> set v"
  unfolding scan_ipv6_def rx_range_def numeral_2_eq_2 by auto

lemma ip_not_hash: "is_ip v \<Longrightarrow> \<not> is_hash v"
proof
  assume "is_ip v" "is_hash v"
  then have "CHR ''.'' \<in> set v \<or> CHR '':'' \<in> set v" "list_all is_hex v"
    using rx_full_sound ipv4_dot ipv6_colon hash_hex unfolding is_ip_def by blast+
  then show False by (auto simp: list_all_iff char_classes)
qed

lemma domain_chars: "v \<in> rx_lang scan_domain \<Longrightarrow> c \<in> set v \<Longrightarrow> host_char c \<or> c = CHR ''.''"
proof -
  assume "v \<in> rx_lang scan_domain" and c: "c \<in> set v"
  then obtain a b ws where v: "v = a @ b @ concat ws" "a \<in> rx_lang (rx_range 1 63 (RSet host_char))"
    and b: "b \<in> rx_lang (RSeq (rx_str ''.'') (rx_range 1 63 (RSet host_char)))"
    and ws: "set ws \<subseteq> rx_lang (RSeq (rx_str ''.'') (rx_range 1 63 (RSet host_char)))"
    unfolding scan_domain_def by (auto simp del: rx_str.simps)
  have seg: "w \<in> rx_lang (RSeq (rx_str ''.'') (rx_range 1 63 (RSet host_char))) \<Longrightarrow> d \<in> set w \<Longrightarrow> host_char d \<or> d = CHR ''.''" for w d
    using rx_lang_range_set [of 1 63 host_char] by (auto simp: list_all_iff)
  have "d \<in> set a \<Longrightarrow> host_char d" for d using v(2) rx_lang_range_set [of 1 63 host_char] by (auto simp: list_all_iff)
  moreover have "x \<in> set ws \<Longrightarrow> d \<in> set x \<Longrightarrow> host_char d \<or> d = CHR ''.''" for x d using seg ws by blast
  ultimately show ?thesis using c seg [OF b] unfolding v(1) by (auto simp del: rx_lang.simps)
qed

lemma path_cut: "list_all (\<lambda>c. \<not> P c) w \<Longrightarrow> (case s of [] \<Rightarrow> True | c # _ \<Rightarrow> P c) \<Longrightarrow> (\<exists>ws. rx_split (RSet P) (w @ s) = w # ws)"
proof -
  assume w: "list_all (\<lambda>c. \<not> P c) w" and s: "case s of [] \<Rightarrow> True | c # _ \<Rightarrow> P c"
  have step: "list_all (\<lambda>c. \<not> P c) u \<Longrightarrow> rx_tokens (RSet P) p (u @ s) = map Inl u @ rx_tokens (RSet P) (after p u) s" for u p
  proof (induction u arbitrary: p)
    case (Cons c u)
    then have "rx_tokens (RSet P) p (c # u @ s) = Inl c # rx_tokens (RSet P) (Some c) (u @ s)"
      by (subst rx_tokens_none) simp_all
    moreover have "after (Some c) u = after p (c # u)" by (simp add: after_def)
    ultimately show ?case using Cons by simp
  qed simp
  have "\<exists>ws. rx_pieces (map Inl w @ ts) = w # ws" if "ts = [] \<or> (\<exists>m r. ts = Inr m # r)" for ts
  proof -
    from that have "\<exists>ws. rx_pieces ts = [] # ws" by auto
    then obtain ws where ws: "rx_pieces ts = [] # ws" ..
    have "rx_pieces (map Inl u @ ts) = u # ws" for u by (induction u) (simp_all add: ws)
    then show ?thesis by blast
  qed
  moreover have "rx_tokens (RSet P) (after None w) s = [] \<or> (\<exists>m r. rx_tokens (RSet P) (after None w) s = Inr m # r)"
    using s by (cases s) (auto simp: rx_tokens_none rx_tokens_match)
  ultimately show ?thesis unfolding rx_split_def step [OF w] by blast
qed

text \<open>A value fits at most one of the kinds with a fixed form: an address is refused as a hash,
  a URL and a domain, and a hash as an address, a URL and a domain, each with the hint to
  the right type.\<close>

theorem scan_types_exclusive:
  "(is_ip (trim v) \<longrightarrow> validateScanInput ''ip'' v = None \<and> validateScanInput ''hash'' v = Some NeedHash
       \<and> validateScanInput ''url'' v = Some SwitchToIp \<and> validateScanInput ''domain'' v = Some SwitchToIp)
   \<and> (is_hash (trim v) \<longrightarrow> validateScanInput ''hash'' v = None \<and> validateScanInput ''ip'' v = Some SwitchToHash
       \<and> validateScanInput ''url'' v = Some SwitchToHash \<and> validateScanInput ''domain'' v = Some SwitchToHash)"
proof -
  have n: "\<not> is_ip []" "\<not> is_hash []"
    using rx_full_sound ipv4_dot ipv6_colon hash_hex [of "[]"] unfolding is_ip_def by fastforce+
  then show ?thesis using ip_not_hash [of "trim v"] by (auto simp: validateScanInput_def Let_def)
qed

theorem scan_types_exclusive_witness:
  "validateScanInput ''url'' ''8.8.8.8'' = Some SwitchToIp"
proof -
  have "is_ip (trim ''8.8.8.8'')" by code_simp
  then show ?thesis using scan_types_exclusive [of "''8.8.8.8''"] by blast
qed

lemma http_stripped: "rx_replace scheme_re (\<lambda>_ _. []) (''http://'' @ t) = t"
proof -
  have "rx_m scheme_re (None, ''http://'' @ t, []) = [(Some (CHR ''/''), t, [])]"
    unfolding scheme_re_def
    by (simp add: rx_star_run char_classes starts_with_def after_def del: rx_m.simps(5) rx_str.simps)
  then show ?thesis by (simp add: rx_replace_def)
qed

text \<open>Two kinds of good input are refused: every URL that names a port, because the colon stays
  in what is tested as a domain, and compressed IPv6 addresses.\<close>

theorem good_input_refused:
  assumes "list_all (\<lambda>c. \<not> is_space c) (h @ port @ path)" and "list_all (\<lambda>c. \<not> path_char c) (h @ port)"
    and "case path of [] \<Rightarrow> True | c # _ \<Rightarrow> path_char c"
  shows "validateScanInput ''url'' (''http://'' @ h @ '':'' @ port @ path) \<noteq> None
    \<and> validateScanInput ''ip'' ''2001:db8::1'' = Some NeedIp"
proof -
  define v where "v = ''http://'' @ h @ '':'' @ port @ path"
  have ne: "v \<noteq> []" by (simp add: v_def)
  have v: "trim v = v" using assms(1) unfolding v_def by (intro trim_none) (simp add: char_classes)
  have "list_all (\<lambda>c. \<not> path_char c) (h @ '':'' @ port)" using assms(2) by (simp add: path_char_def)
  from path_cut [OF this assms(3)] have "url_authority v = h @ '':'' @ port"
    unfolding v_def url_authority_def http_stripped by auto
  moreover have "\<not> is_domain (h @ '':'' @ port)"
  proof
    assume "is_domain (h @ '':'' @ port)"
    then have "h @ '':'' @ port \<in> rx_lang scan_domain" unfolding is_domain_def by (rule rx_full_sound)
    from domain_chars [OF this, of "CHR '':''"] show False by (simp add: host_char_def char_classes)
  qed
  ultimately have "validateScanInput ''url'' v \<noteq> None" by (simp add: validateScanInput_def v ne Let_def)
  moreover have "validateScanInput ''ip'' ''2001:db8::1'' = Some NeedIp" by code_simp
  ultimately show ?thesis unfolding v_def by blast
qed

theorem good_input_refused_witness: "validateScanInput ''url'' ''http://example.com:8080/x'' \<noteq> None"
  using good_input_refused [of "''example.com''" "''8080''" "''/x''"] by (simp add: char_classes path_char_def)

subsection \<open>The digest of a file\<close>

lemma byte_hex: "b < 256 \<Longrightarrow> length (pad_start 2 (CHR ''0'') (base_str 16 (int b))) = 2
    \<and> list_all is_hex (pad_start 2 (CHR ''0'') (base_str 16 (int b)))"
proof -
  assume b: "b < 256"
  have d: "int b div 16 < 16" using b by presburger
  have "length (digits_of 16 (int b)) \<le> 2"
    using b d by (simp add: digits_of.simps [of 16 "int b"] digits_of.simps [of 16 "int b div 16"])
  moreover have "list_all is_hex (base_str 16 (int b))"
    using digits_of_bound [of 16 "int b"] by (auto simp: base_str_def list_all_iff nat_less_iff intro!: digit_char_hex [THEN conjunct1])
  ultimately show ?thesis by (auto simp: pad_start_def base_str_def list_all_iff char_classes)
qed

text \<open>The fingerprint of every file is a value the scanner accepts as a hash.\<close>

theorem file_digest_is_hash:
  assumes "length bs = 32" and "list_all (\<lambda>b. b < 256) bs"
  shows "validateScanInput ''hash'' (hex_digest bs) = None"
proof -
  have "length (hex_digest bs) = 2 * length bs \<and> list_all is_hex (hex_digest bs)" using assms(2)
    by (induction bs) (auto simp: hex_digest_def byte_hex)
  then have "hex_digest bs \<in> rx_lang scan_hash" "rx_plain scan_hash"
    by (simp_all add: scan_hash_def rx_lang_times_set assms(1))
  then have "is_hash (hex_digest bs)" by (simp add: is_hash_def rx_test_full)
  moreover from this have "list_all (\<lambda>c. \<not> is_space c) (hex_digest bs)"
    using hash_hex by (fastforce simp: list_all_iff char_classes)
  ultimately show ?thesis by (simp add: validateScanInput_def trim_none Let_def)
qed

theorem file_digest_is_hash_witness: "validateScanInput ''hash'' (hex_digest (replicate 32 171)) = None"
  by (rule file_digest_is_hash) (simp_all add: list_all_iff)

subsection \<open>Scores\<close>

lemma gauge_exact: "0 \<le> c \<Longrightarrow> c \<le> 100 \<Longrightarrow> gauge_text (js_div (of_int c) 100) = c"
proof -
  assume c: "0 \<le> c" "c \<le> 100"
  define x where "x = fl (of_int c / 100)"
  have x0: "0 \<le> x" using c by (simp add: x_def)
  have "of_int c / 100 \<le> (of_int 1 :: rat)" using c by (simp add: of_int_le_iff [symmetric])
  then have x1: "x \<le> 1" unfolding x_def using fl_le_int [of "of_int c / 100" 1] by simp
  have "\<bar>x - of_int c / 100\<bar> \<le> \<bar>of_int c / 100\<bar> / 2 ^ 53" unfolding x_def by (rule fl_error)
  moreover have "\<bar>of_int c / 100 :: rat\<bar> \<le> 1" using c by (simp add: of_int_le_iff [symmetric])
  ultimately have "\<bar>x - of_int c / 100\<bar> \<le> 1 / 1000" by (simp add: field_simps)
  then have a: "\<bar>x * 100 - of_int c\<bar> \<le> 1 / 10" by (simp add: abs_le_iff field_simps)
  have "\<bar>fl (x * 100) - x * 100\<bar> \<le> \<bar>x * 100\<bar> / 2 ^ 53" by (rule fl_error)
  moreover have "\<bar>x * 100\<bar> \<le> 100" using x0 x1 by simp
  ultimately have "\<bar>fl (x * 100) - x * 100\<bar> \<le> 1 / 10" by (simp add: field_simps)
  with a have "\<bar>fl (x * 100) - of_int c\<bar> < 1 / 2" by linarith
  then show ?thesis unfolding gauge_text_def js_mul_def js_div_def x_def by (rule js_round_near)
qed

text \<open>The gauge shows, and saving the indicator sends, exactly the confidence the store gave.\<close>
theorem scan_score_exact:
  assumes "lu_found hit" and "lu_confidence hit = of_int c" and "0 \<le> c" "c \<le> 100"
    and "sp_result p = Some (scan_outcome target ty hit en cx)" and "\<not> sp_saved p" "\<not> sp_saving p"
  shows "gauge_text (sc_score (scan_outcome target ty hit en cx)) = c
    \<and> json_get ''confidence'' (the (snd (handleSaveIoc p))) = JNum (of_int c)"
proof -
  have "sc_score (scan_outcome target ty hit en cx) = js_div (of_int c) 100"
    using assms(1,2) by (simp add: scan_outcome_def scan_fill_def Let_def)
  moreover have "gauge_text (js_div (of_int c) 100) = c" using assms(3,4) by (rule gauge_exact)
  ultimately show ?thesis using assms(5,6,7)
    by (simp add: handleSaveIoc_def obj_get_def gauge_text_def)
qed

theorem scan_score_exact_witness:
  "json_get ''confidence'' (the (snd (handleSaveIoc (scan_init\<lparr>sp_result := Some (scan_outcome ''8.8.8.8'' ''ip''
      \<lparr>lu_value = ''8.8.8.8'', lu_found = True, lu_verdict = ''malicious'', lu_confidence = 29, lu_threatType = None,
       lu_actor = None, lu_tags = [], lu_source = None, lu_firstSeen = None, lu_lastSeen = None\<rparr> None None)\<rparr>)))) = JNum 29"
  using scan_score_exact [of "\<lparr>lu_value = ''8.8.8.8'', lu_found = True, lu_verdict = ''malicious'', lu_confidence = 29,
       lu_threatType = None, lu_actor = None, lu_tags = [], lu_source = None, lu_firstSeen = None, lu_lastSeen = None\<rparr>" 29
      "scan_init\<lparr>sp_result := Some (scan_outcome ''8.8.8.8'' ''ip''
      \<lparr>lu_value = ''8.8.8.8'', lu_found = True, lu_verdict = ''malicious'', lu_confidence = 29, lu_threatType = None,
       lu_actor = None, lu_tags = [], lu_source = None, lu_firstSeen = None, lu_lastSeen = None\<rparr> None None)\<rparr>" "''8.8.8.8''" "''ip''" None None]
  by (simp add: scan_init_def)

subsection \<open>Where a verdict comes from\<close>

text \<open>The result agrees with the answers of the three calls: the store decides when it knows the value, then
  the enrichment when it has an opinion; the score is the confidence of the store; the ratio
  counts the providers that were available, and the store itself.\<close>

definition agrees :: "ioc_lookup option \<Rightarrow> enrichment option \<Rightarrow> scan_result \<Rightarrow> bool" where
  "agrees hit en r \<longleftrightarrow>
     (\<forall>h. hit = Some h \<and> lu_found h \<longrightarrow> sc_verdict r = lu_verdict h \<and> sc_score r = js_div (lu_confidence h) 100)
     \<and> ((\<forall>h. hit = Some h \<longrightarrow> \<not> lu_found h) \<longrightarrow> sc_score r = 0
          \<and> (\<forall>v ps. en = Some (v, ps) \<and> v \<noteq> ''unknown'' \<longrightarrow> sc_verdict r = v)
          \<and> ((\<forall>v ps. en = Some (v, ps) \<longrightarrow> v = ''unknown'') \<longrightarrow> sc_verdict r = ''unverified''))
     \<and> (en = None \<longrightarrow> sc_providers r = [] \<and> sc_detectionRatio r = ''0/1'')
     \<and> (\<forall>v ps. en = Some (v, ps) \<longrightarrow> sc_providers r = ps
          \<and> sc_detectionRatio r = int_str (int (length [p \<leftarrow> ps. ep_available p \<and> ep_verdict p \<in> {Some ''malicious'', Some ''suspicious''}]))
              @ ''/'' @ int_str (int (length [p \<leftarrow> ps. ep_available p]) + 1))"

definition from_answer :: "scan_op set \<Rightarrow> scan_result \<Rightarrow> bool" where
  "from_answer A r \<longleftrightarrow> (\<exists>hit en cx. ((\<exists>i. hit \<noteq> None \<and> SSettled i hit en cx \<in> A) \<or> SFileDone hit en cx \<in> A)
     \<and> sc_lookup r = hit \<and> sc_context r = cx \<and> agrees hit en r)"

lemma ratio_parts: "detection_ratio ps = int_str (int (length [p \<leftarrow> ps. ep_available p \<and> ep_verdict p \<in> {Some ''malicious'', Some ''suspicious''}]))
     @ ''/'' @ int_str (int (length [p \<leftarrow> ps. ep_available p]) + 1)"
proof -
  have "flagged ps = [p \<leftarrow> ps. ep_available p \<and> ep_verdict p \<in> {Some ''malicious'', Some ''suspicious''}]"
    unfolding flagged_def consulted_def filter_filter by (rule filter_cong) auto
  then show ?thesis by (simp add: detection_ratio_def consulted_def)
qed

lemma ratio_none: "int_str 0 @ CHR ''/'' # int_str 1 = ''0/1''"
  by code_simp

lemma fill_agrees: "agrees hit en (scan_fill hit en cx b)"
  by (auto simp: agrees_def scan_fill_def scan_verdict_def ratio_parts ratio_none Let_def split: option.splits prod.splits)

lemma fill_answers: "sc_lookup (scan_fill hit en cx b) = hit" "sc_context (scan_fill hit en cx b) = cx"
  by (simp_all add: scan_fill_def Let_def)

definition sourced :: "scan_op set \<Rightarrow> scan_page \<Rightarrow> bool" where
  "sourced A p \<longleftrightarrow> (\<forall>r. sp_result p = Some r \<or> r \<in> set (sp_shows p) \<or> r \<in> set (sp_recorded p) \<longrightarrow> from_answer A r)"

lemma from_answer_mono: "A \<subseteq> B \<Longrightarrow> from_answer A r \<Longrightarrow> from_answer B r"
  unfolding from_answer_def by blast

lemma sourced_mono: "A \<subseteq> B \<Longrightarrow> sourced A p \<Longrightarrow> sourced B p"
  unfolding sourced_def using from_answer_mono by blast

lemma from_answer_fill:
  assumes "(\<exists>i. hit \<noteq> None \<and> SSettled i hit en cx \<in> A) \<or> SFileDone hit en cx \<in> A"
  shows "from_answer A (scan_fill hit en cx b)"
  unfolding from_answer_def
  by (rule exI [of _ hit], rule exI [of _ en], rule exI [of _ cx], intro conjI) (rule assms fill_answers fill_agrees)+

lemma outcome_from: "SSettled i (Some hit) en cx \<in> A \<Longrightarrow> from_answer A (scan_outcome t ty hit en cx)"
  unfolding scan_outcome_def by (rule from_answer_fill) auto

lemma file_from: "SFileDone hit en cx \<in> A \<Longrightarrow> from_answer A (file_result f hit en cx)"
  unfolding file_result_def by (cases f, simp only: prod.case) (rule from_answer_fill, blast)

lemma sourced_handle: "sourced A p \<Longrightarrow> sourced A (handleScan v t p)"
  by (auto simp: sourced_def handleScan_def Let_def)

lemma sourced_step: "sourced A p \<Longrightarrow> x \<in> A \<Longrightarrow> sourced A (scan_step x p)"
proof (cases x)
  case (SSettled i lu en cx)
  assume "sourced A p" "x \<in> A"
  then show ?thesis using SSettled outcome_from [of i _ en cx A]
    by (auto simp: sourced_def scan_settled_def Let_def split: prod.splits option.splits)
next
  case (SFileDone hit en cx)
  assume "sourced A p" "x \<in> A"
  then show ?thesis using SFileDone file_from [of hit en cx A]
    by (auto simp: sourced_def file_settled_def Let_def split: list.splits)
next
  case SFileFailed
  assume "sourced A p" "x \<in> A"
  then show ?thesis using SFileFailed by (auto simp: sourced_def file_failed_def split: list.splits)
next
  case SShow
  assume "sourced A p" "x \<in> A"
  then show ?thesis using SShow by (auto simp: sourced_def scan_show_def split: list.splits)
next
  case (SFile f sha)
  assume "sourced A p" "x \<in> A"
  then show ?thesis using SFile by (auto simp: sourced_def handleFileScan_def split: prod.splits)
next
  case SRetry
  assume "sourced A p" "x \<in> A"
  then show ?thesis using SRetry sourced_handle [of A "p\<lparr>sp_lookupFailed := False\<rparr>" None None]
    by (simp add: retry_def sourced_def)
next
  case (SPivot v t)
  assume "sourced A p" "x \<in> A"
  then show ?thesis using SPivot by (simp add: sourced_handle)
next
  case SScan
  assume "sourced A p" "x \<in> A"
  then show ?thesis using SScan by (simp add: sourced_handle)
qed (auto simp: sourced_def pick_type_def handleSaveIoc_def save_done_def
       split: option.splits)

text \<open>C8: no verdict is invented: every result shown and every scan recorded belongs to an answer of
  this session, a failed lookup of a value gives none; its verdict and score are the store's when
  the store knows the value, else the verdict is what the enrichment said, else unverified, with
  the score 0; its ratio counts the available providers of that answer and those among them that
  flag the value.\<close>

theorem scan_verdicts_sourced:
  assumes "sp_result (fold scan_step xs scan_init) = Some r \<or> r \<in> set (sp_recorded (fold scan_step xs scan_init))"
  shows "\<exists>hit en cx. ((\<exists>i. hit \<noteq> None \<and> SSettled i hit en cx \<in> set xs) \<or> SFileDone hit en cx \<in> set xs)
     \<and> sc_lookup r = hit \<and> sc_context r = cx \<and> agrees hit en r"
proof -
  have "sourced (set xs) (fold scan_step ys p)" if "set ys \<subseteq> set xs" "sourced (set xs) p" for ys p
    using that by (induction ys arbitrary: p) (auto simp: sourced_step)
  moreover have "sourced (set xs) scan_init" by (simp add: sourced_def scan_init_def)
  ultimately have "sourced (set xs) (fold scan_step xs scan_init)" by blast
  then have "from_answer (set xs) r" using assms unfolding sourced_def by blast
  then show ?thesis unfolding from_answer_def .
qed

theorem scan_verdicts_sourced_witness:
  "let xs = [SQuery ''evil.example'', SScan, SSettled 0 (Some \<lparr>lu_value = ''evil.example'', lu_found = False,
       lu_verdict = ''unverified'', lu_confidence = 0, lu_threatType = None, lu_actor = None, lu_tags = [],
       lu_source = None, lu_firstSeen = None, lu_lastSeen = None\<rparr>) None None, SShow]
   in \<exists>r. sp_result (fold scan_step xs scan_init) = Some r \<and> sc_verdict r = ''unverified''"
proof -
  define xs where "xs = [SQuery ''evil.example'', SScan, SSettled 0 (Some \<lparr>lu_value = ''evil.example'', lu_found = False,
       lu_verdict = ''unverified'', lu_confidence = 0, lu_threatType = None, lu_actor = None, lu_tags = [],
       lu_source = None, lu_firstSeen = None, lu_lastSeen = None\<rparr>) None None, SShow]"
  have "validateScanInput ''url'' ''evil.example'' = None" "trim ''evil.example'' = ''evil.example''" by code_simp+
  then obtain r where r: "sp_result (fold scan_step xs scan_init) = Some r"
    unfolding xs_def by (auto simp: handleScan_def scan_init_def scan_settled_def scan_show_def Let_def)
  from scan_verdicts_sourced [of xs r] r obtain hit cx where
    "\<exists>en. ((\<exists>i. hit \<noteq> None \<and> SSettled i hit en cx \<in> set xs) \<or> SFileDone hit en cx \<in> set xs) \<and> agrees hit en r" by blast
  then have "sc_verdict r = ''unverified''" by (auto simp: xs_def agrees_def)
  with r show ?thesis unfolding xs_def [symmetric] Let_def by blast
qed

subsection \<open>Displays that are not kept apart\<close>

text \<open>A file scanned while the backend is out of reach is reported, and recorded, as not present
  in a store nobody asked; a value in the same situation gets the banner instead. And the
  banner of an earlier failure stays on beside the result of a file scanned later.\<close>

theorem offline_file_unverified:
  assumes "sp_files p = f # fs"
  shows "shows_not_present (file_settled None None None p)
    \<and> (\<exists>r. sp_recorded (file_settled None None None p) = sp_recorded p @ [r] \<and> sc_verdict r = ''unverified'' \<and> sc_lookup r = None)
    \<and> shows_unavailable (file_settled hit enr cx p) = sp_lookupFailed p
    \<and> (i < length (sp_flight q) \<longrightarrow> shows_unavailable (scan_settled i None enr cx q)
          \<and> sp_recorded (scan_settled i None enr cx q) = sp_recorded q)"
  using assms by (auto simp: file_settled_def file_result_def scan_fill_def scan_verdict_def shows_not_present_def
      shows_unavailable_def scan_settled_def Let_def split: prod.splits)

theorem offline_file_unverified_witness:
  "shows_not_present (file_settled None None None (handleFileScan (''a.exe'', 10, []) (replicate 64 (CHR ''a'')) scan_init))"
  using offline_file_unverified [of "handleFileScan (''a.exe'', 10, []) (replicate 64 (CHR ''a'')) scan_init"
      "(''a.exe'', 10, [], replicate 64 (CHR ''a''))" "[]"]
  by (simp add: handleFileScan_def scan_init_def)

text \<open>Nothing ties an answer to the question: Enter starts a second scan while the first is under
  way, and when the first answers last its result replaces that of the value in the field.
  And the retry of a CVE opened by a link is refused as no URL, so that it only removes the
  banner.\<close>

theorem stale_scan_shown:
  "let p = fold scan_step [SQuery ''a.example'', SScan, SQuery ''b.example'', SScan,
       SSettled 1 (Some (h\<lparr>lu_found := False\<rparr>)) None None, SSettled 0 (Some (h\<lparr>lu_found := False\<rparr>)) None None, SShow, SShow] scan_init
   in sp_query p = ''b.example'' \<and> map_option sc_target (sp_result p) = Some ''a.example''
      \<and> (let q = retry (scan_settled 0 None None None (deep_link ''?value=CVE-2024-3094&run=1'' scan_init))
         in sp_flight q = [] \<and> sp_result q = None \<and> \<not> shows_unavailable q)"
proof -
  have v: "validateScanInput ''url'' ''a.example'' = None" "trim ''a.example'' = ''a.example''"
    "validateScanInput ''url'' ''b.example'' = None" "trim ''b.example'' = ''b.example''" by code_simp+
  have "sp_flight (retry (scan_settled 0 None None None (deep_link ''?value=CVE-2024-3094&run=1'' scan_init))) = []"
    "sp_result (retry (scan_settled 0 None None None (deep_link ''?value=CVE-2024-3094&run=1'' scan_init))) = None"
    "\<not> shows_unavailable (retry (scan_settled 0 None None None (deep_link ''?value=CVE-2024-3094&run=1'' scan_init)))"
    by code_simp+
  with v show ?thesis
    by (simp add: handleScan_def scan_init_def scan_settled_def scan_show_def scan_outcome_def scan_fill_def scan_blank_def Let_def)
qed

end
