(* ===== verification/SiemData.thy ===== *)
theory SiemData
  imports Helpers
begin

text \<open>
  The tables the SIEM page is built on (\<open>app/dashboard/siem/page.tsx\<close>): severities, states and
  dispositions of an alert with their styles, the built-in correlation rules, the data sources,
  the demo metrics, and the ATT&CK matrix with the coverage the page derives from the rules.
\<close>

subsection \<open>Alerts\<close>

datatype severity = Critical | High | Medium | Low | Info
datatype alert_status = New | Assigned | InProgress | PendingSt | ResolvedSt | Closed
datatype disposition = Undetermined | TruePositive | FalsePositive | Benign | Duplicate

text \<open>The order of the severities, most severe last, as a class instance so that sorting and
  maxima by severity come from the library.\<close>

instantiation severity :: linorder
begin

fun sev_rank :: "severity \<Rightarrow> nat" where
  "sev_rank Critical = 4" | "sev_rank High = 3" | "sev_rank Medium = 2" | "sev_rank Low = 1" | "sev_rank Info = 0"

definition less_eq_severity :: "severity \<Rightarrow> severity \<Rightarrow> bool" where "a \<le> b \<longleftrightarrow> sev_rank a \<le> sev_rank b"
definition less_severity :: "severity \<Rightarrow> severity \<Rightarrow> bool" where "a < b \<longleftrightarrow> sev_rank a < sev_rank b"

instance
proof
  fix a b :: severity
  show "a \<le> b \<Longrightarrow> b \<le> a \<Longrightarrow> a = b" by (cases a; cases b) (simp_all add: less_eq_severity_def)
qed (auto simp: less_eq_severity_def less_severity_def)

end

fun sev_text :: "severity \<Rightarrow> string" where
  "sev_text Critical = ''critical''"
| "sev_text High = ''high''"
| "sev_text Medium = ''medium''"
| "sev_text Low = ''low''"
| "sev_text Info = ''info''"

fun status_text :: "alert_status \<Rightarrow> string" where
  "status_text New = ''new''"
| "status_text Assigned = ''assigned''"
| "status_text InProgress = ''in-progress''"
| "status_text PendingSt = ''pending''"
| "status_text ResolvedSt = ''resolved''"
| "status_text Closed = ''closed''"

fun disposition_text :: "disposition \<Rightarrow> string" where
  "disposition_text Undetermined = ''undetermined''"
| "disposition_text TruePositive = ''true-positive''"
| "disposition_text FalsePositive = ''false-positive''"
| "disposition_text Benign = ''benign''"
| "disposition_text Duplicate = ''duplicate''"

record siem_alert =
  sa_id :: string
  sa_ts :: string
  sa_title :: string
  sa_severity :: severity
  sa_status :: alert_status
  sa_disposition :: disposition
  sa_owner :: "string option"
  sa_riskScore :: int
  sa_ruleId :: string
  sa_ruleName :: string
  sa_mitreTactic :: string
  sa_mitreTacticId :: string
  sa_mitreTech :: string
  sa_mitreTechId :: string
  sa_srcIp :: string
  sa_srcCountry :: string
  sa_srcPort :: int
  sa_srcHostname :: string
  sa_srcAsn :: string
  sa_destIp :: string
  sa_destPort :: int
  sa_destService :: string
  sa_username :: "string option"
  sa_hostname :: "string option"
  sa_hostCriticality :: string
  sa_processName :: "string option"
  sa_cmdLine :: "string option"
  sa_description :: string
  sa_rawLog :: string
  sa_eventCount :: int
  sa_tiHits :: int
  sa_tiValue :: "string option"
  sa_bytesOut :: nat

subsection \<open>Styles\<close>

text \<open>Background, text, border and dot of a severity.\<close>

fun SEV :: "severity \<Rightarrow> string \<times> string \<times> string \<times> string" where
  "SEV Critical = (''bg-magenta/15'', ''text-magenta'', ''border-magenta/30'', tk Magenta)"
| "SEV High = (''bg-threat/15'', ''text-threat'', ''border-threat/30'', tk Threat)"
| "SEV Medium = (''bg-amber/15'', ''text-amber'', ''border-amber/30'', tk Amber)"
| "SEV Low = (''bg-safe/15'', ''text-safe'', ''border-safe/30'', tk Safe)"
| "SEV Info = (''bg-violet/15'', ''text-violet'', ''border-violet/30'', tk Violet)"

fun STATUS_LABEL :: "alert_status \<Rightarrow> string \<times> string" where
  "STATUS_LABEL New = (''New'', ''text-magenta'')"
| "STATUS_LABEL Assigned = (''Assigned'', ''text-amber'')"
| "STATUS_LABEL InProgress = (''In Progress'', ''text-violet'')"
| "STATUS_LABEL PendingSt = (''Pending'', ''text-ink-400'')"
| "STATUS_LABEL ResolvedSt = (''Resolved'', ''text-safe'')"
| "STATUS_LABEL Closed = (''Closed'', ''text-ink-600'')"

definition FP_BAND_STYLE :: "(string, string \<times> string) obj" where
  "FP_BAND_STYLE = [(''likely-fp'', tk Safe, ''Likely false positive''), (''uncertain'', tk Amber, ''Uncertain''),
     (''likely-real'', tk Magenta, ''Likely real'')]"

subsection \<open>Correlation rules\<close>

record correlation_rule =
  cr_id :: string
  cr_name :: string
  cr_source :: string
  cr_mitreTactic :: string
  cr_mitreTechId :: string
  cr_severity :: severity
  cr_enabled :: bool
  cr_firedLast7d :: nat
  cr_lastFired :: string
  cr_fpRate :: nat
  cr_description :: string

abbreviation rule_row :: "string \<Rightarrow> string \<Rightarrow> string \<Rightarrow> string \<Rightarrow> string \<Rightarrow> severity \<Rightarrow> bool \<Rightarrow> nat \<Rightarrow> string \<Rightarrow> nat \<Rightarrow> string
    \<Rightarrow> correlation_rule" where
  "rule_row i n s ta te sv e f l fp d \<equiv> \<lparr>cr_id = i, cr_name = n, cr_source = s, cr_mitreTactic = ta, cr_mitreTechId = te,
     cr_severity = sv, cr_enabled = e, cr_firedLast7d = f, cr_lastFired = l, cr_fpRate = fp, cr_description = d\<rparr>"

definition RULES :: "correlation_rule list" where
  "RULES =
     [
      rule_row ''EDR-9001'' ''Ransomware File Encryption Indicator'' ''EDR'' ''Impact'' ''T1486'' Critical
        True 2 ''2h ago'' 5
        ''Detects mass file renaming/encryption consistent with ransomware activity (>500 renames/60s).'',
      rule_row ''SIEM-1042'' ''External SSH Root Login'' ''Auth'' ''Initial Access'' ''T1133'' Critical
        True 8 ''4h ago'' 8
        ''Successful root/admin SSH authentication from external (non-RFC1918) IP addresses.'',
      rule_row ''EDR-4421'' ''PowerShell AMSI Bypass Detected'' ''EDR'' ''Defense Evasion'' ''T1562.001'' Critical
        True 14 ''6h ago'' 12
        ''Memory scan detects AMSI bypass string followed by encoded PowerShell execution.'',
      rule_row ''AWS-3421'' ''IAM Policy Escalation to Admin'' ''Cloud'' ''Privilege Escalation'' ''T1078.004'' High
        True 3 ''8h ago'' 20
        ''CloudTrail event: AttachPolicy or CreatePolicy granting AdministratorAccess detected.'',
      rule_row ''DB-8801'' ''Bulk Database Exfiltration Pattern'' ''Database'' ''Exfiltration'' ''T1048'' Critical
        True 1 ''10h ago'' 3
        ''Database query returning >100K rows from customer/PII tables followed by outbound transfer.'',
      rule_row ''AUTH-6621'' ''MFA Push Fatigue Detection'' ''Auth'' ''Credential Access'' ''T1621'' High
        True 22 ''12h ago'' 15
        ''>10 MFA push requests to same user within 5 minutes from external IP.'',
      rule_row ''DNS-2201'' ''DNS C2 Beacon Domain Match'' ''DNS'' ''Command & Control'' ''T1071.004'' High
        True 44 ''1h ago'' 7
        ''DNS query matches known C2 infrastructure from Recorded Future, CrowdStrike, or MISP TI feeds.'',
      rule_row ''AD-5510'' ''Privileged Account Created After Hours'' ''AD/LDAP'' ''Persistence'' ''T1136.002'' High
        True 5 ''1d ago'' 42
        ''Domain admin or group admin account created between 20:00-06:00 UTC local time.'',
      rule_row ''FW-9821'' ''SSH Brute Force from Multiple Sources'' ''Firewall'' ''Credential Access'' ''T1110.003'' Medium
        True 182 ''30m ago'' 5
        ''>3 distinct source IPs attacking same destination port 22 within 5-minute window.'',
      rule_row ''WAF-2231'' ''SQL Injection Attack Pattern'' ''WAF'' ''Initial Access'' ''T1190'' High
        True 2847 ''15m ago'' 2
        ''WAF ModSecurity rule set: SQL injection payloads in POST body or query parameters.'',
      rule_row ''NET-3312'' ''Large Outbound Data Transfer'' ''Network'' ''Exfiltration'' ''T1537'' Medium
        True 28 ''2h ago'' 35
        ''Single host transfers >2 GB to external IP outside known cloud backup windows.'',
      rule_row ''VPN-0012'' ''Impossible Travel - VPN Authentication'' ''VPN'' ''Initial Access'' ''T1078'' Medium
        True 11 ''3h ago'' 28
        ''Same user authenticates from geographically impossible locations within 90 minutes.'',
      rule_row ''MAIL-8812'' ''Phishing Attachment Delivered'' ''Email'' ''Initial Access'' ''T1566.001'' High
        True 67 ''4h ago'' 10
        ''Email gateway delivered attachment matching malicious file hash or suspicious macro signature.'',
      rule_row ''NET-4401'' ''Internal Network Reconnaissance'' ''IDS'' ''Discovery'' ''T1046'' Medium
        True 9 ''6h ago'' 22
        ''Nmap or similar tool detected conducting service/OS discovery of internal subnets.'',
      rule_row ''PATCH-0040'' ''Critical Patch Application Failure'' ''WSUS'' ''Initial Access'' ''T1190'' Low
        False 0 ''3d ago'' 60
        ''Critical or high CVSS patch fails to deploy within 72 hours of release. Disabled: too noisy.''
     ]"

text \<open>The rule table: search by name or id.\<close>

definition filteredRules :: "string \<Rightarrow> correlation_rule list" where
  "filteredRules ruleSearch =
     filter (\<lambda>r. ruleSearch = [] \<or> str_includes (toLowerCase (cr_name r)) (toLowerCase ruleSearch)
                 \<or> str_includes (toLowerCase (cr_id r)) (toLowerCase ruleSearch)) RULES"

subsection \<open>Data sources\<close>

record data_source =
  ds_name :: string
  ds_type :: string
  ds_eps :: nat
  ds_status :: string
  ds_lastEvent :: string
  ds_events7d :: string

abbreviation source_row :: "string \<Rightarrow> string \<Rightarrow> nat \<Rightarrow> string \<Rightarrow> string \<Rightarrow> string \<Rightarrow> data_source" where
  "source_row n t e s l ev \<equiv> \<lparr>ds_name = n, ds_type = t, ds_eps = e, ds_status = s, ds_lastEvent = l, ds_events7d = ev\<rparr>"

definition DATA_SOURCES :: "data_source list" where
  "DATA_SOURCES =
     [
      source_row ''Windows EDR'' ''EDR'' 4821 ''healthy'' ''< 1s'' ''41.2M'',
      source_row ''AWS CloudTrail'' ''Cloud'' 843 ''healthy'' ''< 1s'' ''7.2M'',
      source_row ''Palo Alto FW'' ''Firewall'' 2241 ''healthy'' ''< 1s'' ''19.4M'',
      source_row ''Okta Identity'' ''Auth'' 124 ''healthy'' ''2s'' ''1.07M'',
      source_row ''Exchange Online'' ''Email'' 312 ''healthy'' ''1s'' ''2.7M'',
      source_row ''Cisco FTD IDS'' ''IDS/IPS'' 1847 ''healthy'' ''< 1s'' ''15.9M'',
      source_row ''Zscaler Proxy'' ''Proxy'' 3241 ''healthy'' ''< 1s'' ''28.1M'',
      source_row ''Splunk HEC'' ''SIEM'' 892 ''degraded'' ''14s'' ''5.2M'',
      source_row ''MySQL DB Audit'' ''Database'' 221 ''healthy'' ''3s'' ''1.9M'',
      source_row ''CrowdStrike TI'' ''TI Feed'' 42 ''healthy'' ''22s'' ''362K'',
      source_row ''Windows WSUS'' ''Patch'' 8 ''offline'' ''4m'' ''68K'',
      source_row ''Azure Sentinel'' ''SIEM'' 1102 ''healthy'' ''< 1s'' ''9.5M''
     ]"

subsection \<open>The ATT&CK matrix\<close>

text \<open>Tactic id, tactic, colour, and the techniques by id and name.\<close>

definition MITRE_MATRIX :: "(string \<times> string \<times> string \<times> (string \<times> string) list) list" where
  "MITRE_MATRIX =
     [
      (''TA0001'', ''Initial Access'', (tk Magenta),
        [(''T1190'', ''Exploit Public-Facing Application''),
         (''T1133'', ''External Remote Services''),
         (''T1566.001'', ''Spearphishing Attachment''),
         (''T1078'', ''Valid Accounts''),
         (''T1566.002'', ''Spearphishing via Service''),
         (''T1195'', ''Supply Chain Compromise'')]),
      (''TA0002'', ''Execution'', (tk Threat),
        [(''T1059.001'', ''PowerShell''),
         (''T1059.003'', ''Windows Command Shell''),
         (''T1204'', ''User Execution''),
         (''T1047'', ''WMI''),
         (''T1053.005'', ''Scheduled Task/Job''),
         (''T1059.007'', ''JavaScript'')]),
      (''TA0003'', ''Persistence'', ''#A78BFA'',
        [(''T1136.002'', ''Create Domain Account''),
         (''T1098'', ''Account Manipulation''),
         (''T1547'', ''Boot Autostart Execution''),
         (''T1505'', ''Server Software Component''),
         (''T1053.005'', ''Scheduled Task/Job'')]),
      (''TA0004'', ''Privilege Escalation'', ''#FF9B2E'',
        [(''T1078.004'', ''Valid Accounts: Cloud''),
         (''T1068'', ''Exploit for PrivEsc''),
         (''T1055'', ''Process Injection''),
         (''T1548'', ''Abuse Elevation Control''),
         (''T1134'', ''Access Token Manipulation'')]),
      (''TA0005'', ''Defense Evasion'', (tk Violet),
        [(''T1562.001'', ''Impair Defenses: AMSI Bypass''),
         (''T1070'', ''Indicator Removal''),
         (''T1036'', ''Masquerading''),
         (''T1027'', ''Obfuscated Files / Info''),
         (''T1218'', ''System Binary Proxy Exec.''),
         (''T1140'', ''Deobfuscate / Decode'')]),
      (''TA0006'', ''Credential Access'', (tk Threat),
        [(''T1621'', ''MFA Request Generation''),
         (''T1110.003'', ''Brute Force: Password Spray''),
         (''T1003.001'', ''LSASS Memory''),
         (''T1555'', ''Credentials from Stores''),
         (''T1552'', ''Unsecured Credentials''),
         (''T1056'', ''Input Capture'')]),
      (''TA0007'', ''Discovery'', (tk Teal),
        [(''T1046'', ''Network Service Discovery''),
         (''T1083'', ''File & Directory Discovery''),
         (''T1082'', ''System Info Discovery''),
         (''T1087'', ''Account Discovery''),
         (''T1069'', ''Permission Groups Discovery'')]),
      (''TA0008'', ''Lateral Movement'', (tk Safe),
        [(''T1021'', ''Remote Services''),
         (''T1550'', ''Use Alt. Auth Material''),
         (''T1534'', ''Internal Spearphishing''),
         (''T1570'', ''Lateral Tool Transfer'')]),
      (''TA0010'', ''Exfiltration'', (tk Amber),
        [(''T1048'', ''Exfil Over Alt Protocol''),
         (''T1537'', ''Transfer to Cloud Account''),
         (''T1567'', ''Exfil Over Web Service''),
         (''T1020'', ''Automated Exfiltration''),
         (''T1041'', ''Exfil Over C2 Channel'')]),
      (''TA0011'', ''Command & Control'', (tk Safe),
        [(''T1071.004'', ''App Layer Protocol: DNS''),
         (''T1071.001'', ''App Layer Protocol: HTTP''),
         (''T1573'', ''Encrypted Channel''),
         (''T1090'', ''Proxy''),
         (''T1095'', ''Non-App Layer Protocol'')]),
      (''TA0040'', ''Impact'', (tk Magenta),
        [(''T1486'', ''Data Encrypted for Impact''),
         (''T1485'', ''Data Destruction''),
         (''T1490'', ''Inhibit System Recovery''),
         (''T1499'', ''Endpoint Denial of Service''),
         (''T1496'', ''Resource Hijacking'')])
     ]"

definition COVERED_TECH_IDS :: "string list" where
  "COVERED_TECH_IDS = uniq (map cr_mitreTechId RULES)"

definition allTechs :: "(string \<times> string) list" where
  "allTechs = concat (map (\<lambda>(i, t, c, techs). techs) MITRE_MATRIX)"

definition totalCovered :: nat where
  "totalCovered = length (filter (\<lambda>(i, n). i \<in> set COVERED_TECH_IDS) allTechs)"

definition coverage_pct :: int where
  "coverage_pct = js_round (js_mul (js_div (of_nat totalCovered) (of_nat (length allTechs))) 100)"

definition rowCovered :: "(string \<times> string) list \<Rightarrow> nat" where
  "rowCovered techs = length (filter (\<lambda>(i, n). i \<in> set COVERED_TECH_IDS) techs)"

text \<open>The rule named in the tooltip of a covered technique.\<close>

definition tooltip_rule :: "string \<Rightarrow> correlation_rule option" where
  "tooltip_rule tech =
     (if tech \<in> set COVERED_TECH_IDS then find (\<lambda>r. cr_mitreTechId r = tech) RULES else None)"

text \<open>The cells lit while the pointer is over one.\<close>

definition cell_hovered :: "string option \<Rightarrow> string \<Rightarrow> bool" where
  "cell_hovered hovered tech \<longleftrightarrow> hovered = Some tech"

subsection \<open>Coverage\<close>

text \<open>The matrix claims no more than the rules give: a technique is marked as detected exactly
  when some rule names it, the rule shown for it is one that is enabled, every rule is counted,
  and the figures of the rows add up to the total. The headline is 14 of 58 techniques, 24 per
  cent.\<close>

theorem coverage_matrix_sound:
  "(tooltip_rule tech \<noteq> None) = (tech \<in> set (map cr_mitreTechId RULES))
   \<and> list_all (\<lambda>(i, n). case tooltip_rule i of Some r \<Rightarrow> cr_enabled r \<and> cr_mitreTechId r = i | None \<Rightarrow> True) allTechs
   \<and> list_all (\<lambda>r. cr_mitreTechId r \<in> set (map fst allTechs)) RULES
   \<and> sum_list (map (\<lambda>(i, t, c, techs). rowCovered techs) MITRE_MATRIX) = totalCovered
   \<and> totalCovered = 14 \<and> length allTechs = 58 \<and> coverage_pct = 24"
proof -
  have "(tooltip_rule tech \<noteq> None) = (tech \<in> set (map cr_mitreTechId RULES))"
  proof (cases "tech \<in> set COVERED_TECH_IDS")
    case True
    hence "find (\<lambda>r. cr_mitreTechId r = tech) RULES \<noteq> None"
      by (auto simp: COVERED_TECH_IDS_def find_None_iff)
    with True show ?thesis by (simp add: tooltip_rule_def) (simp add: COVERED_TECH_IDS_def)
  qed (simp add: tooltip_rule_def COVERED_TECH_IDS_def)
  moreover have "list_all (\<lambda>(i, n). case tooltip_rule i of Some r \<Rightarrow> cr_enabled r \<and> cr_mitreTechId r = i | None \<Rightarrow> True) allTechs"
    by code_simp
  moreover have "list_all (\<lambda>r. cr_mitreTechId r \<in> set (map fst allTechs)) RULES" by code_simp
  moreover have "sum_list (map (\<lambda>(i, t, c, techs). rowCovered techs) MITRE_MATRIX) = totalCovered" by code_simp
  moreover have "totalCovered = 14" "length allTechs = 58" by code_simp+
  moreover have "coverage_pct = 24" by code_simp
  ultimately show ?thesis by blast
qed

end
