(* ===== verification/JsArray.thy ===== *)
theory JsArray
  imports JsNumber "HOL-Library.Multiset"
begin

text \<open>
  What the pages use of JavaScript's arrays beyond HOL's lists: \<open>sort\<close> with a comparator, and sums
  and maxima of numbers. \<open>Array.prototype.sort\<close> is stable, so for a consistent comparator its
  result is determined and is the one of the insertion sort below; the lemmas reduce the
  comparators of the pages to the library's \<open>sort_key\<close>.
\<close>

subsection \<open>Sorting with a comparator\<close>

text \<open>A comparator answers with a number; NaN counts as 0.\<close>

fun insort_cmp :: "('a \<Rightarrow> 'a \<Rightarrow> rat) \<Rightarrow> 'a \<Rightarrow> 'a list \<Rightarrow> 'a list" where
  "insort_cmp cmp x [] = [x]"
| "insort_cmp cmp x (y # ys) = (if cmp x y \<le> 0 then x # y # ys else y # insort_cmp cmp x ys)"

definition js_sort :: "('a \<Rightarrow> 'a \<Rightarrow> rat) \<Rightarrow> 'a list \<Rightarrow> 'a list" where
  "js_sort cmp xs = foldr (insort_cmp cmp) xs []"

lemma mset_insort_cmp [simp]: "mset (insort_cmp cmp x ys) = add_mset x (mset ys)"
  by (induction ys) auto

lemma mset_js_sort [simp]: "mset (js_sort cmp xs) = mset xs"
  by (induction xs) (auto simp: js_sort_def)

lemma set_js_sort [simp]: "set (js_sort cmp xs) = set xs"
  by (metis mset_js_sort set_mset_mset)

lemma length_js_sort [simp]: "length (js_sort cmp xs) = length xs"
  by (metis mset_js_sort size_mset)

lemma distinct_js_sort [simp]: "distinct (map f (js_sort cmp xs)) = distinct (map f xs)"
  by (metis mset_js_sort mset_eq_imp_distinct_iff mset_map)

lemma insort_cmp_key:
  assumes "\<And>y. y \<in> set ys \<Longrightarrow> (cmp x y \<le> 0) = (k x \<le> k y)"
  shows "insort_cmp cmp x ys = insort_key k x ys"
  using assms by (induction ys) auto

text \<open>A comparator that agrees with the order of a key on the elements at hand sorts by that key.\<close>

lemma js_sort_key:
  assumes "\<And>x y. x \<in> set xs \<Longrightarrow> y \<in> set xs \<Longrightarrow> (cmp x y \<le> 0) = (k x \<le> (k y :: 'b::linorder))"
  shows "js_sort cmp xs = sort_key k xs"
  using assms
proof (induction xs)
  case Nil
  then show ?case by (simp add: js_sort_def)
next
  case (Cons x xs)
  have "js_sort cmp (x # xs) = insort_cmp cmp x (js_sort cmp xs)" by (simp add: js_sort_def)
  also have "\<dots> = insort_cmp cmp x (sort_key k xs)" using Cons by auto
  also have "\<dots> = insort_key k x (sort_key k xs)" using Cons.prems by (intro insort_cmp_key) auto
  also have "\<dots> = sort_key k (x # xs)" by (simp add: sort_key_def)
  finally show ?case .
qed

text \<open>The two shapes the pages write: ascending and descending by a number.\<close>

lemma js_sort_asc: "js_sort (\<lambda>a b. f a - f b) xs = sort_key f xs"
  by (rule js_sort_key) simp

lemma js_sort_desc: "js_sort (\<lambda>a b. f b - f a) xs = sort_key (\<lambda>a. - f a) xs"
  by (rule js_sort_key) simp

lemma js_sort_int_desc: "js_sort (\<lambda>a b. of_int (f b - f a)) xs = sort_key (\<lambda>a. - (f a :: int)) xs"
  by (rule js_sort_key) simp

text \<open>Texts with \<open><\<close>, as \<open>sort\<close> without a comparator does: lexicographic by code unit.\<close>

fun text_less :: "string \<Rightarrow> string \<Rightarrow> bool" where
  "text_less _ [] = False"
| "text_less [] (_ # _) = True"
| "text_less (a # as) (b # bs) =
     ((of_char a :: nat) < of_char b \<or> a = b \<and> text_less as bs)"

definition text_cmp :: "string \<Rightarrow> string \<Rightarrow> rat" where
  "text_cmp a b = (if text_less a b then -1 else if a = b then 0 else 1)"

subsection \<open>Sums and maxima\<close>

text \<open>\<open>xs.reduce((s, v) => s + v, 0)\<close> on doubles, and on integers, where it is exact.\<close>

definition js_sum :: "rat list \<Rightarrow> rat" where
  "js_sum xs = foldl js_add 0 xs"

text \<open>\<open>Math.max(d, ...xs)\<close>.\<close>

definition max_of :: "'a::linorder \<Rightarrow> 'a list \<Rightarrow> 'a" where
  "max_of d xs = fold max xs d"

lemma max_of_ge: "d \<le> max_of d xs" "x \<in> set xs \<Longrightarrow> x \<le> max_of d xs"
proof -
  have "max_of d xs = Max (insert d (set xs))" for d
    by (simp add: max_of_def Max.set_eq_fold [symmetric] flip: list.set)
  then show "d \<le> max_of d xs" "x \<in> set xs \<Longrightarrow> x \<le> max_of d xs" by simp_all
qed

lemma max_of_mem: "max_of d xs = d \<or> max_of d xs \<in> set xs"
proof -
  have "max_of d xs = Max (insert d (set xs))" by (simp add: max_of_def Max.set_eq_fold [symmetric] flip: list.set)
  then show ?thesis using Max_in [of "insert d (set xs)"] by auto
qed

definition count_of :: "('a \<Rightarrow> bool) \<Rightarrow> 'a list \<Rightarrow> nat" where
  "count_of P xs = length (filter P xs)"

lemma count_of_le: "count_of P xs \<le> length xs"
  by (simp add: count_of_def)

lemma count_of_mono: "(\<And>x. x \<in> set xs \<Longrightarrow> P x \<Longrightarrow> Q x) \<Longrightarrow> count_of P xs \<le> count_of Q xs"
  unfolding count_of_def by (induction xs) (auto simp: le_Suc_eq)

end
