(* ===== verification/JsDate.thy ===== *)
theory JsDate
  imports JsNumber JsString
begin

text \<open>
  What the pages use of JavaScript's \<open>Date\<close>: \<open>Date.parse\<close> of ISO 8601 texts, which is how the
  backend writes every time stamp, and the ages shown for them. A time is an integer of
  milliseconds since 1970; the current time and the zone of the browser are arguments. A text of
  another shape is NaN (\<^term>\<open>None\<close>).
\<close>

definition days_from_civil :: "int \<Rightarrow> int \<Rightarrow> int \<Rightarrow> int" where
  "days_from_civil y m d =
     (let y' = if m \<le> 2 then y - 1 else y;
          era = y' div 400;
          yoe = y' - era * 400;
          doy = (153 * (if m > 2 then m - 3 else m + 9) + 2) div 5 + d - 1;
          doe = yoe * 365 + yoe div 4 - yoe div 100 + doy
      in era * 146097 + doe - 719468)"

definition digits_num :: "string \<Rightarrow> int option" where
  "digits_num s = (if s \<noteq> [] \<and> list_all is_digit s
     then Some (foldl (\<lambda>n c. 10 * n + (int (code c) - 48)) 0 s) else None)"

text \<open>The zone: \<open>Z\<close>, or a signed offset in hours and minutes; the result is in minutes.\<close>

definition zone_minutes :: "string \<Rightarrow> int option" where
  "zone_minutes s =
     (if s = ''Z'' then Some 0
      else if length s = 6 \<and> s ! 3 = CHR '':'' \<and> (s ! 0 = CHR ''+'' \<or> s ! 0 = CHR ''-'')
      then (case (digits_num (take 2 (drop 1 s)), digits_num (drop 4 s)) of
              (Some h, Some m) \<Rightarrow>
                if h \<le> 23 \<and> m \<le> 59 then Some ((if s ! 0 = CHR ''-'' then - 1 else 1) * (60 * h + m)) else None
            | _ \<Rightarrow> None)
      else None)"

text \<open>The time of day after the \<open>T\<close>: hours, minutes, and optionally seconds with a fraction, of
  which three digits count. The result is in milliseconds.\<close>

definition clock_ms :: "string \<Rightarrow> int option" where
  "clock_ms s =
     (if length s < 5 \<or> s ! 2 \<noteq> CHR '':'' then None
      else case (digits_num (take 2 s), digits_num (take 2 (drop 3 s))) of
        (Some h, Some m) \<Rightarrow>
          (let rest = drop 5 s;
               sec = (if rest = [] then Some 0
                      else if hd rest = CHR '':'' \<and> length rest = 3 then map_option ((*) 1000) (digits_num (tl rest))
                      else if hd rest = CHR '':'' \<and> length rest > 4 \<and> rest ! 3 = CHR ''.'' \<and> list_all is_digit (drop 4 rest)
                      then (case (digits_num (take 2 (tl rest)), digits_num (take 3 (drop 4 rest @ ''00''))) of
                              (Some x, Some f) \<Rightarrow> Some (1000 * x + f) | _ \<Rightarrow> None)
                      else None)
           in case sec of
                Some x \<Rightarrow> if (h \<le> 23 \<and> m \<le> 59 \<and> x < 60000) \<or> (h = 24 \<and> m = 0 \<and> x = 0)
                          then Some (3600000 * h + 60000 * m + x) else None
              | None \<Rightarrow> None)
      | _ \<Rightarrow> None)"

definition is_zone_start :: "char \<Rightarrow> bool" where
  "is_zone_start c \<longleftrightarrow> c = CHR ''Z'' \<or> c = CHR ''+'' \<or> c = CHR ''-''"

text \<open>\<open>Date.parse\<close>: a date alone is taken in UTC, a date with a time and no zone in the zone of
  the browser, \<open>tz\<close> minutes east of Greenwich.\<close>

definition date_parse :: "int \<Rightarrow> string \<Rightarrow> int option" where
  "date_parse tz s =
     (if length s < 10 \<or> s ! 4 \<noteq> CHR ''-'' \<or> s ! 7 \<noteq> CHR ''-'' then None
      else case (digits_num (take 4 s), digits_num (take 2 (drop 5 s)), digits_num (take 2 (drop 8 s))) of
        (Some y, Some m, Some d) \<Rightarrow>
          (if m < 1 \<or> 12 < m \<or> d < 1 \<or> 31 < d then None
           else let day = 86400000 * days_from_civil y m d; rest = drop 10 s in
             if rest = [] then Some day
             else if hd rest \<noteq> CHR ''T'' then None
             else let clock = takeWhile (\<lambda>c. \<not> is_zone_start c) (tl rest);
                      zone = dropWhile (\<lambda>c. \<not> is_zone_start c) (tl rest)
                  in case (clock_ms clock, if zone = [] then Some tz else zone_minutes zone) of
                       (Some t, Some z) \<Rightarrow> Some (day + t - 60000 * z) | _ \<Rightarrow> None)
      | _ \<Rightarrow> None)"

text \<open>A difference of two times is the number NaN when one is not a time; every comparison with it
  is false.\<close>

definition ms_diff :: "int option \<Rightarrow> int option \<Rightarrow> int option" where
  "ms_diff a b = (case (a, b) of (Some x, Some y) \<Rightarrow> Some (x - y) | _ \<Rightarrow> None)"

lemma ms_diff_simps [simp]:
  "ms_diff (Some x) (Some y) = Some (x - y)" "ms_diff None b = None" "ms_diff a None = None"
  by (simp_all add: ms_diff_def split: option.splits)

subsection \<open>Calendar and clock fields\<close>

text \<open>Year, month and day of a day number, in the proleptic Gregorian calendar.\<close>

definition civil_from_days :: "int \<Rightarrow> int \<times> int \<times> int" where
  "civil_from_days z0 =
     (let z = z0 + 719468; era = z div 146097; doe = z - era * 146097;
          yoe = (doe - doe div 1460 + doe div 36524 - doe div 146096) div 365;
          doy = doe - (365 * yoe + yoe div 4 - yoe div 100);
          mp = (5 * doy + 2) div 153;
          d = doy - (153 * mp + 2) div 5 + 1;
          m = (if mp < 10 then mp + 3 else mp - 9);
          y = yoe + era * 400
      in (if m \<le> 2 then y + 1 else y, m, d))"

text \<open>The getters for the zone of the browser: \<open>getHours\<close>, \<open>getMinutes\<close>, \<open>getSeconds\<close>, and the
  date.\<close>

definition local_ms :: "int \<Rightarrow> int \<Rightarrow> int" where "local_ms tz t = t + 60000 * tz"
definition getHours :: "int \<Rightarrow> int \<Rightarrow> int" where "getHours tz t = local_ms tz t div 3600000 mod 24"
definition getMinutes :: "int \<Rightarrow> int \<Rightarrow> int" where "getMinutes tz t = local_ms tz t div 60000 mod 60"
definition getSeconds :: "int \<Rightarrow> int \<Rightarrow> int" where "getSeconds tz t = local_ms tz t div 1000 mod 60"
definition local_date :: "int \<Rightarrow> int \<Rightarrow> int \<times> int \<times> int" where
  "local_date tz t = civil_from_days (local_ms tz t div 86400000)"

definition two_digits :: "int \<Rightarrow> string" where "two_digits n = pad_start 2 (CHR ''0'') (int_str n)"

text \<open>\<open>toISOString\<close> for the years 0 to 9999.\<close>

definition toISOString :: "int \<Rightarrow> string" where
  "toISOString t = (case local_date 0 t of (y, m, d) \<Rightarrow>
     pad_start 4 (CHR ''0'') (int_str y) @ ''-'' @ two_digits m @ ''-'' @ two_digits d @ ''T''
     @ two_digits (getHours 0 t) @ '':'' @ two_digits (getMinutes 0 t) @ '':'' @ two_digits (getSeconds 0 t)
     @ ''.'' @ pad_start 3 (CHR ''0'') (int_str (t mod 1000)) @ ''Z'')"

lemma toISOString_witness: "toISOString 1709209805250 = ''2024-02-29T12:30:05.250Z''"
  by code_simp

lemma clock_ranges:
  "0 \<le> getHours tz t \<and> getHours tz t < 24" "0 \<le> getMinutes tz t \<and> getMinutes tz t < 60"
  "0 \<le> getSeconds tz t \<and> getSeconds tz t < 60"
  by (simp_all add: getHours_def getMinutes_def getSeconds_def)

lemma date_parse_witness:
  "date_parse 120 ''2024-02-29T12:30:05.250Z'' = Some 1709209805250"
  "date_parse 120 ''2024-02-29T12:30'' = Some 1709202600000"
  "date_parse 120 ''2024-02-29T12:30:05.123456+00:00'' = Some 1709209805123"
  "date_parse 120 ''1970-01-01'' = Some 0" "date_parse 0 ''yesterday'' = None"
  by code_simp+

end
