(* ===== verification/SiemQueue.thy ===== *)
theory SiemQueue
  imports SiemData JsArray JsDate
begin

text \<open>
  The queue of the SIEM page (\<open>app/dashboard/siem/page.tsx\<close>): what it holds between answers of the
  backend, the filters, searches and deep links that choose the rows, the order of the rows, the
  triage board of the Normal mode, the figures of the header and the analytics tab, and the bulk
  triage of probable false positives. Answers of the backend are steps that may come at any time
  and in any order. The pages of rows themselves (windowing) are in \<open>Helpers\<close>.
\<close>

subsection \<open>Durations, ages and sizes\<close>

definition fmtMins :: "rat \<Rightarrow> string" where
  "fmtMins minutes =
     (let totalSecs = js_round (js_mul minutes 60);
          m = js_floor (js_div (of_int totalSecs) 60);
          s = sgn totalSecs * (\<bar>totalSecs\<bar> mod 60)
      in int_str m @ ''m '' @ pad_start 2 (CHR ''0'') (int_str s) @ ''s'')"

text \<open>A time stamp that does not parse gives NaN, for which the last line is taken.\<close>

definition timeAgo :: "int \<Rightarrow> int \<Rightarrow> string \<Rightarrow> string" where
  "timeAgo now tz ts =
     (case ms_diff (Some now) (date_parse tz ts) of
        None \<Rightarrow> ''NaNh ago''
      | Some ms \<Rightarrow>
          let diff = js_div (of_int ms) 1000 in
          if diff < 60 then int_str (js_floor diff) @ ''s ago''
          else if diff < 3600 then int_str (js_floor (js_div diff 60)) @ ''m ago''
          else int_str (js_floor (js_div diff 3600)) @ ''h ago'')"

definition fmtBytes_siem :: "nat \<Rightarrow> string" where
  "fmtBytes_siem b =
     (if b = 0 then ''-''
      else if b < 1024 then int_str (int b) @ '' B''
      else if b < 1048576 then to_fixed 0 (js_div (of_nat b) 1024) @ '' KB''
      else if b < 1073741824 then to_fixed 1 (js_div (of_nat b) 1048576) @ '' MB''
      else to_fixed 2 (js_div (of_nat b) 1073741824) @ '' GB'')"

subsection \<open>State of the page\<close>

text \<open>A partial alert, as an action sends it; an owner may be set to null.\<close>

record alert_patch =
  ap_status :: "alert_status option"
  ap_owner :: "string option option"
  ap_disposition :: "disposition option"

definition apply_patch :: "alert_patch \<Rightarrow> siem_alert \<Rightarrow> siem_alert" where
  "apply_patch p a = a\<lparr>sa_status := (case ap_status p of Some x \<Rightarrow> x | None \<Rightarrow> sa_status a),
     sa_owner := (case ap_owner p of Some x \<Rightarrow> x | None \<Rightarrow> sa_owner a),
     sa_disposition := (case ap_disposition p of Some x \<Rightarrow> x | None \<Rightarrow> sa_disposition a)\<rparr>"

datatype siem_tab = Queue | Analytics | RulesTab | Sources | Hunt | FpTriage
datatype sort_col = ByTs | ByRisk

record siem_kpis =
  kp_totalAlerts :: nat
  kp_critical :: nat
  kp_high :: nat
  kp_medium :: nat
  kp_mttd :: rat
  kp_mttr :: rat
  kp_mtta :: rat
  kp_fpRate :: rat
  kp_automationRate :: rat
  kp_totalEps :: nat
  kp_daysData :: nat

record trend_day =
  td_day :: string
  td_alerts :: nat
  td_severe :: nat
  td_mttd :: rat
  td_mttr :: rat
  td_fpRate :: rat

record fp_item =
  fi_id :: string
  fi_score :: int
  fi_band :: string

record siem_page =
  sp_tab :: siem_tab
  sp_alerts :: "siem_alert list"
  sp_failed :: bool
  sp_total :: nat
  sp_loaded :: bool
  sp_pending :: bool
  sp_selected :: "string option"
  sp_flash :: "string option"
  sp_kpis :: "siem_kpis option"
  sp_trends :: "trend_day list option"
  sp_trendsLoaded :: bool
  sp_fpItems :: "fp_item list"
  sp_fpLoading :: bool
  sp_fpBand :: string
  sp_fpSelected :: "string list"
  sp_fpDismissing :: bool
  sp_search :: string
  sp_sev :: "severity option"
  sp_status :: "alert_status option"
  sp_tactic :: string
  sp_sort :: "sort_col \<times> bool"
  sp_linked :: bool
  sp_patches :: "(string \<times> alert_patch) list"
  sp_dismissed :: "string list list"

text \<open>\<^const>\<open>None\<close> in a filter stands for \<open>'all'\<close>; the flag of the order is true for ascending.
  The last two fields record what was sent to the backend.\<close>

definition sev_of :: "string \<Rightarrow> severity option" where
  "sev_of s = find (\<lambda>v. sev_text v = s) [Critical, High, Medium, Low, Info]"

text \<open>Mounting reads \<open>?q=\<close> and \<open>?severity=\<close> of the address.\<close>

definition query_param :: "string \<Rightarrow> string \<Rightarrow> string option" where
  "query_param k query = obj_get (parse_params query) k"

definition siem_mount :: "string \<Rightarrow> siem_page" where
  "siem_mount query =
     \<lparr>sp_tab = Queue, sp_alerts = [], sp_failed = False, sp_total = 0, sp_loaded = False,
      sp_pending = True, sp_selected = None, sp_flash = None, sp_kpis = None, sp_trends = None,
      sp_trendsLoaded = False, sp_fpItems = [], sp_fpLoading = False, sp_fpBand = ''all'',
      sp_fpSelected = [], sp_fpDismissing = False,
      sp_search = (case query_param ''q'' query of Some q \<Rightarrow> q | None \<Rightarrow> []),
      sp_sev = (case query_param ''severity'' query of Some s \<Rightarrow> sev_of s | None \<Rightarrow> None),
      sp_status = None, sp_tactic = ''All'', sp_sort = (ByTs, False), sp_linked = False,
      sp_patches = [], sp_dismissed = []\<rparr>"

subsection \<open>Loading, deep links and edits\<close>

text \<open>The effect that opens \<open>?alert=<id>\<close> once the first alerts are there.\<close>

definition follow_link :: "string \<Rightarrow> siem_page \<Rightarrow> siem_page" where
  "follow_link query s =
     (if sp_linked s \<or> sp_alerts s = [] then s
      else let s = s\<lparr>sp_linked := True\<rparr> in
        case query_param ''alert'' query of
          None \<Rightarrow> s
        | Some i \<Rightarrow>
            if i = [] then s
            else if \<exists>a \<in> set (sp_alerts s). sa_id a = i then s\<lparr>sp_selected := Some i, sp_flash := Some i\<rparr>
            else s\<lparr>sp_search := i\<rparr>)"

definition alerts_answered :: "string \<Rightarrow> siem_alert list \<Rightarrow> nat \<Rightarrow> siem_page \<Rightarrow> siem_page" where
  "alerts_answered query items n s =
     follow_link query (s\<lparr>sp_alerts := items, sp_total := n, sp_loaded := True, sp_pending := False\<rparr>)"

definition alerts_refused :: "siem_page \<Rightarrow> siem_page" where
  "alerts_refused s = s\<lparr>sp_failed := sp_failed s \<or> \<not> sp_loaded s, sp_pending := False\<rparr>"

text \<open>The demonstration figures, shown when the first answer for the trends is a failure.\<close>

definition SPARKLINE_DATA :: "nat list \<times> rat list \<times> rat list \<times> rat list" where
  "SPARKLINE_DATA = ([2241, 3108, 1987, 2854, 3344, 2102, 2847],
     map fl [72/10, 68/10, 51/10, 64/10, 48/10, 59/10, 42/10],
     map fl [284/10, 312/10, 228/10, 275/10, 241/10, 193/10, 237/10],
     [28, 31, 25, 27, 24, 21, 22])"

definition demo_trends :: "trend_day list" where
  "demo_trends = (case SPARKLINE_DATA of (vol, mttd, mttr, fp) \<Rightarrow>
     map (\<lambda>i. \<lparr>td_day = [], td_alerts = vol ! i, td_severe = 0, td_mttd = mttd ! i, td_mttr = mttr ! i,
       td_fpRate = fp ! i\<rparr>) [0..<length vol])"

definition trends_answered :: "trend_day list \<Rightarrow> siem_page \<Rightarrow> siem_page" where
  "trends_answered days s = s\<lparr>sp_trends := Some days, sp_trendsLoaded := True\<rparr>"

definition trends_refused :: "siem_page \<Rightarrow> siem_page" where
  "trends_refused s = (if sp_trendsLoaded s then s else s\<lparr>sp_trends := Some demo_trends\<rparr>)"

definition updateAlert :: "string \<Rightarrow> alert_patch \<Rightarrow> siem_page \<Rightarrow> siem_page" where
  "updateAlert i p s =
     s\<lparr>sp_alerts := map (\<lambda>a. if sa_id a = i then apply_patch p a else a) (sp_alerts s),
       sp_patches := sp_patches s @ [(i, p)]\<rparr>"

definition toggleSort :: "sort_col \<Rightarrow> siem_page \<Rightarrow> siem_page" where
  "toggleSort c s = s\<lparr>sp_sort := (if fst (sp_sort s) = c then (c, \<not> snd (sp_sort s)) else (c, False))\<rparr>"

text \<open>A click on a row opens its alert, a second one closes it.\<close>

definition click_row :: "string \<Rightarrow> siem_page \<Rightarrow> siem_page" where
  "click_row i s = s\<lparr>sp_selected := (if sp_selected s = Some i then None else Some i)\<rparr>"

definition selectedAlert :: "siem_page \<Rightarrow> siem_alert option" where
  "selectedAlert s = (case sp_selected s of None \<Rightarrow> None | Some i \<Rightarrow> find (\<lambda>a. sa_id a = i) (sp_alerts s))"

subsection \<open>Bulk triage of false positives\<close>

definition loadFpTriage :: "siem_page \<Rightarrow> siem_page" where
  "loadFpTriage s = s\<lparr>sp_fpLoading := True\<rparr>"

definition fp_answered :: "fp_item list \<Rightarrow> siem_page \<Rightarrow> siem_page" where
  "fp_answered items s = s\<lparr>sp_fpItems := items, sp_fpSelected := [], sp_fpLoading := False\<rparr>"

definition fp_refused :: "siem_page \<Rightarrow> siem_page" where
  "fp_refused s = s\<lparr>sp_fpItems := [], sp_fpLoading := False\<rparr>"

definition toggleFpSelected :: "string \<Rightarrow> siem_page \<Rightarrow> siem_page" where
  "toggleFpSelected i s = s\<lparr>sp_fpSelected :=
     (if i \<in> set (sp_fpSelected s) then filter (\<lambda>j. j \<noteq> i) (sp_fpSelected s) else sp_fpSelected s @ [i])\<rparr>"

definition select_all_fp :: "siem_page \<Rightarrow> siem_page" where
  "select_all_fp s = s\<lparr>sp_fpSelected :=
     (if length (sp_fpSelected s) = length (sp_fpItems s) then [] else uniq (map fi_id (sp_fpItems s)))\<rparr>"

definition pick_band :: "string \<Rightarrow> siem_page \<Rightarrow> siem_page" where
  "pick_band b s = loadFpTriage (s\<lparr>sp_fpBand := b\<rparr>)"

definition open_tab :: "bool \<Rightarrow> siem_tab \<Rightarrow> siem_page \<Rightarrow> siem_page" where
  "open_tab isNormal t s =
     (let t = (if isNormal then Queue else t); s' = s\<lparr>sp_tab := t\<rparr> in
      if t = FpTriage \<and> sp_tab s \<noteq> FpTriage then loadFpTriage s' else s')"

definition dismissSelectedFp :: "siem_page \<Rightarrow> siem_page" where
  "dismissSelectedFp s =
     (if sp_fpSelected s = [] \<or> sp_fpDismissing s then s
      else s\<lparr>sp_fpDismissing := True, sp_dismissed := sp_dismissed s @ [sp_fpSelected s]\<rparr>)"

text \<open>The answer to a dismissal reloads both lists when it is a success.\<close>

definition dismiss_answered :: "bool \<Rightarrow> siem_page \<Rightarrow> siem_page" where
  "dismiss_answered ok s = (if ok then loadFpTriage s else s)\<lparr>sp_fpDismissing := False\<rparr>"

subsection \<open>The rows of the queue\<close>

definition is_open :: "siem_alert \<Rightarrow> bool" where
  "is_open a \<longleftrightarrow> sa_status a \<in> set [New, Assigned, InProgress]"

text \<open>The texts a search looks through; null and empty ones are left out.\<close>

definition pivot_fields :: "siem_alert \<Rightarrow> string list" where
  "pivot_fields a =
     [sa_title a, sa_ruleId a, sa_ruleName a, sa_srcIp a, sa_destIp a, sa_srcHostname a]
     @ map (case_option [] id) [sa_hostname a, sa_username a]
     @ [sa_mitreTech a, sa_mitreTechId a, sa_mitreTactic a]"

definition haystack :: "siem_alert \<Rightarrow> string" where
  "haystack a = toLowerCase (join '' '' (filter (\<lambda>f. f \<noteq> []) (pivot_fields a)))"

definition row_shown :: "bool \<Rightarrow> siem_page \<Rightarrow> siem_alert \<Rightarrow> bool" where
  "row_shown isNormal s a \<longleftrightarrow>
     (let pinned = (Some (sa_id a) = sp_selected s \<or> Some (sa_id a) = sp_flash s) in
      (if isNormal \<and> sp_search s = [] \<and> \<not> pinned
       then is_open a \<and> sa_severity a \<in> set [Critical, High] else True)
      \<and> (case sp_sev s of None \<Rightarrow> True | Some v \<Rightarrow> sa_severity a = v)
      \<and> (case sp_status s of None \<Rightarrow> True | Some v \<Rightarrow> sa_status a = v)
      \<and> (sp_tactic s = ''All'' \<or> sa_mitreTactic a = sp_tactic s)
      \<and> (sp_search s = [] \<or> str_includes (haystack a) (toLowerCase (sp_search s))))"

text \<open>The comparator; a difference with a time that does not parse is NaN.\<close>

definition row_cmp :: "int \<Rightarrow> sort_col \<times> bool \<Rightarrow> siem_alert \<Rightarrow> siem_alert \<Rightarrow> rat" where
  "row_cmp tz st a b =
     (let dir = (if snd st then 1 else - 1) in
      case fst st of
        ByRisk \<Rightarrow> of_int ((sa_riskScore a - sa_riskScore b) * dir)
      | ByTs \<Rightarrow> (case ms_diff (date_parse tz (sa_ts a)) (date_parse tz (sa_ts b)) of
                  Some d \<Rightarrow> of_int (d * dir) | None \<Rightarrow> 0))"

definition filteredAlerts :: "int \<Rightarrow> bool \<Rightarrow> siem_page \<Rightarrow> siem_alert list" where
  "filteredAlerts tz isNormal s = js_sort (row_cmp tz (sp_sort s)) (filter (row_shown isNormal s) (sp_alerts s))"

definition openCount :: "siem_page \<Rightarrow> nat" where "openCount s = count_of is_open (sp_alerts s)"

definition criticalOpen :: "siem_page \<Rightarrow> nat" where
  "criticalOpen s = count_of (\<lambda>a. sa_severity a = Critical \<and> is_open a) (sp_alerts s)"

text \<open>What stands in the place of the rows when there are none.\<close>

datatype queue_body = Rows | Skeletons | Unavailable | NoMatch

definition queue_shows :: "int \<Rightarrow> siem_page \<Rightarrow> queue_body" where
  "queue_shows tz s =
     (if filteredAlerts tz False s \<noteq> [] then Rows
      else if sp_pending s then Skeletons else if sp_failed s then Unavailable else NoMatch)"

text \<open>The options of the tactic filter, and whether the list is marked as a sample.\<close>

definition tactic_options :: "siem_page \<Rightarrow> string list" where
  "tactic_options s = ''All'' # uniq (filter (\<lambda>t. t \<noteq> []) (map sa_mitreTactic (sp_alerts s)))"

definition is_sample :: "siem_page \<Rightarrow> bool" where
  "is_sample s \<longleftrightarrow> length (sp_alerts s) < sp_total s"

definition sample_text :: "siem_page \<Rightarrow> string" where
  "sample_text s = (if is_sample s
     then ''Most recent '' @ int_str (int (length (sp_alerts s))) @ '' of '' @ int_str (int (sp_total s)) @ '' alerts''
     else ''All '' @ int_str (int (length (sp_alerts s))) @ '' alerts'')"

text \<open>What names the alert's entity in a row, and the class of its risk.\<close>

definition row_entity :: "siem_alert \<Rightarrow> string" where
  "row_entity a = (case sa_username a of Some u \<Rightarrow> u
     | None \<Rightarrow> (case sa_hostname a of Some h \<Rightarrow> h | None \<Rightarrow> sa_srcIp a))"

definition risk_class :: "int \<Rightarrow> string" where
  "risk_class r = (if r \<ge> 90 then ''text-magenta'' else if r \<ge> 70 then ''text-threat''
     else if r \<ge> 50 then ''text-amber'' else ''text-safe'')"

subsection \<open>The triage board of the Normal mode\<close>

definition board_open :: "siem_page \<Rightarrow> siem_alert list" where
  "board_open s = filter (\<lambda>a. sa_status a = New) (sp_alerts s)"

definition COLS :: "(severity \<times> string \<times> string) list" where
  "COLS = [(Critical, ''Critical'', tk Magenta), (High, ''High'', tk Threat), (Medium, ''Medium'', tk Amber)]"

definition board :: "siem_page \<Rightarrow> (string \<times> siem_alert list) list" where
  "board s = map (\<lambda>(v, l, c). (l, filter (\<lambda>a. sa_severity a = v) (board_open s))) COLS"

text \<open>What the page shows: the board in the Normal mode, else the rows of the queue or another tab.\<close>

datatype siem_view = TriageBoard "(string \<times> siem_alert list) list" | QueueRows "siem_alert list" | TabBody siem_tab

definition siem_content :: "int \<Rightarrow> bool \<Rightarrow> siem_page \<Rightarrow> siem_view" where
  "siem_content tz isNormal s = (if isNormal then TriageBoard (board s)
     else if sp_tab s = Queue then QueueRows (filteredAlerts tz isNormal s) else TabBody (sp_tab s))"

definition acknowledge :: "string \<Rightarrow> siem_page \<Rightarrow> siem_page" where
  "acknowledge i = updateAlert i \<lparr>ap_status = Some Assigned, ap_owner = Some (Some ''analyst''), ap_disposition = None\<rparr>"

definition dismiss :: "string \<Rightarrow> siem_page \<Rightarrow> siem_page" where
  "dismiss i = updateAlert i \<lparr>ap_status = Some Closed, ap_owner = None, ap_disposition = Some FalsePositive\<rparr>"

subsection \<open>Figures\<close>

definition alertsDeltaPct :: "trend_day list \<Rightarrow> int option" where
  "alertsDeltaPct t =
     (if length t \<ge> 2 \<and> td_alerts (t ! (length t - 2)) > 0
      then let today = int (td_alerts (last t)); yday = int (td_alerts (t ! (length t - 2))) in
        Some (js_round (js_mul (js_div (of_int (today - yday)) (of_int yday)) 100))
      else None)"

definition avgOf :: "(trend_day \<Rightarrow> rat) \<Rightarrow> trend_day list \<Rightarrow> rat option" where
  "avgOf sel t =
     (let vals = filter (\<lambda>v. v > 0) (map sel t) in
      if vals = [] then None else Some (js_div (js_sum vals) (of_nat (length vals))))"

definition fpAvg :: "trend_day list \<Rightarrow> rat option" where
  "fpAvg t =
     (let volume = sum_list (map td_alerts t) in
      if volume > 0 then
        Some (js_div (js_sum (map (\<lambda>d. js_mul (td_fpRate d) (of_nat (td_alerts d))) t)) (of_nat volume))
      else None)"

definition severeLastHour :: "int \<Rightarrow> int \<Rightarrow> siem_alert list \<Rightarrow> nat" where
  "severeLastHour now tz xs = count_of (\<lambda>a. sa_severity a \<in> {Critical, High} \<and>
     (case date_parse tz (sa_ts a) of Some t \<Rightarrow> t \<ge> now - 3600000 | None \<Rightarrow> False)) xs"

text \<open>The annotations under the header figures: text, and whether it is marked as a rise.\<close>

definition delta_note :: "trend_day list \<Rightarrow> string \<times> bool" where
  "delta_note t = (case alertsDeltaPct t of
      Some d \<Rightarrow> ((if d > 0 then ''+'' else []) @ int_str d @ ''% vs yesterday'', d > 0)
    | None \<Rightarrow> (''-'', False))"

definition avg_note :: "(trend_day \<Rightarrow> rat) \<Rightarrow> rat option \<Rightarrow> trend_day list \<Rightarrow> string \<times> bool" where
  "avg_note sel now t = (case avgOf sel t of
      Some a \<Rightarrow> (''7d avg '' @ fmtMins a, case now of Some v \<Rightarrow> v > a | None \<Rightarrow> False)
    | None \<Rightarrow> (''-'', False))"

text \<open>The funnel counts alerts of the loaded page; the width of a bar is a share of the first
  stage and NaN when that is empty.\<close>

definition funnel :: "siem_alert list \<Rightarrow> (string \<times> nat) list" where
  "funnel xs =
     [(''Alerts in view'', length xs),
      (''Acknowledged'', count_of (\<lambda>a. sa_status a \<noteq> New) xs),
      (''Investigated'', count_of (\<lambda>a. sa_status a \<in> set [InProgress, ResolvedSt, Closed]) xs),
      (''Escalated'', count_of (\<lambda>a. sa_status a \<in> set [ResolvedSt, Closed]) xs),
      (''True Positives'', count_of (\<lambda>a. sa_disposition a = TruePositive) xs)]"

definition funnel_width :: "siem_alert list \<Rightarrow> nat \<Rightarrow> rat option" where
  "funnel_width xs c = (if xs = [] then None else Some (js_mul (js_div (of_nat c) (of_nat (length xs))) 100))"

definition severity_counts :: "siem_alert list \<Rightarrow> nat list" where
  "severity_counts xs = map (\<lambda>v. count_of (\<lambda>a. sa_severity a = v) xs) [Critical, High, Medium, Low, Info]"

definition severity_width :: "siem_alert list \<Rightarrow> nat \<Rightarrow> rat" where
  "severity_width xs c = js_mul (js_div (of_nat c) (of_nat (max_of 1 (severity_counts xs)))) 100"

text \<open>The summary table: figure, target and whether it is met, of the live figures where there are
  some.\<close>

definition escalation_pct :: "siem_alert list \<Rightarrow> int" where
  "escalation_pct xs = (if xs = [] then 0 else
     js_round (js_mul (js_div (of_nat (count_of (\<lambda>a. sa_status a \<in> set [ResolvedSt, Closed]) xs)) (of_nat (length xs))) 100))"

definition kpi_status :: "siem_kpis option \<Rightarrow> (string \<times> string \<times> bool) list" where
  "kpi_status k =
     (let live = (\<lambda>d P. case k of Some k \<Rightarrow> P k | None \<Rightarrow> d) in
      [(''Mean Time to Detect (MTTD)'', ''< 10m'', live True (\<lambda>k. kp_mttd k < 10)),
       (''Mean Time to Acknowledge (MTTA)'', ''< 15m'', live True (\<lambda>k. kp_mtta k < 15)),
       (''Mean Time to Respond (MTTR)'', ''< 30m'', live True (\<lambda>k. kp_mttr k < 30)),
       (''False Positive Rate'', ''< 20%'', live False (\<lambda>k. kp_fpRate k < 20)),
       (''Alert-to-Incident Escalation'', ''1-10%'', True),
       (''Automation Rate (SOAR)'', ''> 60%'', live True (\<lambda>k. kp_automationRate k > 60))])"

text \<open>The points of a sparkline in a box of 80 by 28.\<close>

definition sparkline :: "rat list \<Rightarrow> (rat \<times> rat) list" where
  "sparkline d =
     (let mx = max_of (hd d) d; mn = fold min d (hd d);
          range = (if js_sub mx mn = 0 then 1 else js_sub mx mn) in
      map (\<lambda>(i, v). (js_mul (js_div (of_nat i) (of_nat (length d - 1))) 80,
                     js_sub 28 (js_mul (js_div (js_sub v mn) range) 28)))
        (enumerate 0 d))"

subsection \<open>Steps\<close>

datatype siem_op =
    AlertsAnswer "siem_alert list" nat | AlertsFail | KpisAnswer siem_kpis | TrendsAnswer "trend_day list" | TrendsFail
  | Update string alert_patch | ClickRow string | Escape | FlashOver | Search string | PickSev "severity option"
  | PickStatus "alert_status option" | PickTactic string | Sort sort_col
  | OpenTab siem_tab | PickBand string | FpAnswer "fp_item list" | FpFail | FpToggle string | FpAll | FpDismiss | FpDismissed bool

fun siem_step :: "string \<Rightarrow> bool \<Rightarrow> siem_op \<Rightarrow> siem_page \<Rightarrow> siem_page" where
  "siem_step q n (AlertsAnswer xs t) s = alerts_answered q xs t s"
| "siem_step q n AlertsFail s = alerts_refused s"
| "siem_step q n (KpisAnswer k) s = s\<lparr>sp_kpis := Some k\<rparr>"
| "siem_step q n (TrendsAnswer d) s = trends_answered d s"
| "siem_step q n TrendsFail s = trends_refused s"
| "siem_step q n (Update i p) s = updateAlert i p s"
| "siem_step q n (ClickRow i) s = click_row i s"
| "siem_step q n Escape s = s\<lparr>sp_selected := None\<rparr>"
| "siem_step q n FlashOver s = s\<lparr>sp_flash := None\<rparr>"
| "siem_step q n (Search t) s = s\<lparr>sp_search := t\<rparr>"
| "siem_step q n (PickSev v) s = s\<lparr>sp_sev := v\<rparr>"
| "siem_step q n (PickStatus v) s = s\<lparr>sp_status := v\<rparr>"
| "siem_step q n (PickTactic t) s = s\<lparr>sp_tactic := t\<rparr>"
| "siem_step q n (Sort c) s = toggleSort c s"
| "siem_step q n (OpenTab t) s = open_tab n t s"
| "siem_step q n (PickBand b) s = pick_band b s"
| "siem_step q n (FpAnswer xs) s = fp_answered xs s"
| "siem_step q n FpFail s = fp_refused s"
| "siem_step q n (FpToggle i) s = toggleFpSelected i s"
| "siem_step q n FpAll s = select_all_fp s"
| "siem_step q n FpDismiss s = dismissSelectedFp s"
| "siem_step q n (FpDismissed ok) s = dismiss_answered ok s"

definition siem_run :: "string \<Rightarrow> bool \<Rightarrow> siem_op list \<Rightarrow> siem_page" where
  "siem_run q n ops = fold (siem_step q n) ops (siem_mount q)"

subsection \<open>The order of the rows\<close>

definition row_key :: "int \<Rightarrow> sort_col \<times> bool \<Rightarrow> siem_alert \<Rightarrow> int" where
  "row_key tz st a = (if snd st then 1 else - 1) *
     (case fst st of ByRisk \<Rightarrow> sa_riskScore a | ByTs \<Rightarrow> the (date_parse tz (sa_ts a)))"

lemma row_cmp_key:
  assumes "date_parse tz (sa_ts a) \<noteq> None" "date_parse tz (sa_ts b) \<noteq> None"
  shows "(row_cmp tz st a b \<le> 0) = (row_key tz st a \<le> row_key tz st b)"
  using assms by (cases st; cases "fst st") (auto simp: row_cmp_def row_key_def Let_def)

text \<open>C4: in the Power mode the queue shows exactly the loaded alerts that pass the filters of severity, status
  and tactic and hold the searched text, each as often as it is loaded, in the stable order of
  the chosen column and direction; time stamps are taken to parse.\<close>

theorem siem_queue_exact:
  assumes "\<forall>a \<in> set (sp_alerts s). date_parse tz (sa_ts a) \<noteq> None"
  shows "filteredAlerts tz False s =
    sort_key (\<lambda>a. (if snd (sp_sort s) then 1 else - 1) * (case fst (sp_sort s) of ByRisk \<Rightarrow> sa_riskScore a | ByTs \<Rightarrow> the (date_parse tz (sa_ts a))))
      [a \<leftarrow> sp_alerts s. sp_sev s \<in> {None, Some (sa_severity a)} \<and> sp_status s \<in> {None, Some (sa_status a)}
         \<and> sp_tactic s \<in> {''All'', sa_mitreTactic a}
         \<and> (sp_search s = [] \<or> (\<exists>u v. toLowerCase (join '' '' (filter (\<lambda>f. f \<noteq> [])
               [sa_title a, sa_ruleId a, sa_ruleName a, sa_srcIp a, sa_destIp a, sa_srcHostname a, case_option [] id (sa_hostname a),
                case_option [] id (sa_username a), sa_mitreTech a, sa_mitreTechId a, sa_mitreTactic a])) = u @ toLowerCase (sp_search s) @ v))]"
proof -
  have fields: "pivot_fields a = [sa_title a, sa_ruleId a, sa_ruleName a, sa_srcIp a, sa_destIp a, sa_srcHostname a, case_option [] id (sa_hostname a),
      case_option [] id (sa_username a), sa_mitreTech a, sa_mitreTechId a, sa_mitreTactic a]" for a
    by (simp add: pivot_fields_def)
  have "filteredAlerts tz False s = sort_key (row_key tz (sp_sort s)) (filter (row_shown False s) (sp_alerts s))"
    unfolding filteredAlerts_def using assms by (intro js_sort_key row_cmp_key) auto
  also have "filter (row_shown False s) (sp_alerts s) =
      [a \<leftarrow> sp_alerts s. sp_sev s \<in> {None, Some (sa_severity a)} \<and> sp_status s \<in> {None, Some (sa_status a)}
         \<and> sp_tactic s \<in> {''All'', sa_mitreTactic a}
         \<and> (sp_search s = [] \<or> (\<exists>u v. haystack a = u @ toLowerCase (sp_search s) @ v))]"
    by (intro filter_cong) (auto simp: row_shown_def includes_iff split: option.split)
  finally show ?thesis unfolding haystack_def fields row_key_def .
qed

definition sample_alert :: siem_alert where
  "sample_alert = \<lparr>sa_id = ''A-1'', sa_ts = ''2024-02-29T12:30:05Z'', sa_title = ''Port scan'', sa_severity = Medium,
     sa_status = New, sa_disposition = Undetermined, sa_owner = None, sa_riskScore = 40, sa_ruleId = ''NET-4401'',
     sa_ruleName = ''Internal Network Reconnaissance'', sa_mitreTactic = ''Discovery'', sa_mitreTacticId = ''TA0007'',
     sa_mitreTech = ''Network Service Discovery'', sa_mitreTechId = ''T1046'', sa_srcIp = ''10.0.0.7'', sa_srcCountry = ''GB'',
     sa_srcPort = 50000, sa_srcHostname = ''ws-7'', sa_srcAsn = ''AS1'', sa_destIp = ''10.0.0.9'', sa_destPort = 22,
     sa_destService = ''ssh'', sa_username = None, sa_hostname = Some ''ws-7'', sa_hostCriticality = ''low'',
     sa_processName = None, sa_cmdLine = None, sa_description = [], sa_rawLog = [], sa_eventCount = 1, sa_tiHits = 0,
     sa_tiValue = None, sa_bytesOut = 0\<rparr>"

lemma sample_time: "date_parse 0 (sa_ts sample_alert) = Some 1709209805000"
  by code_simp

theorem siem_queue_exact_witness:
  "filteredAlerts 0 False ((siem_mount [])\<lparr>sp_alerts := [sample_alert, sample_alert\<lparr>sa_id := ''A-2'', sa_riskScore := 90\<rparr>],
     sp_sort := (ByRisk, False)\<rparr>) =
   [sample_alert\<lparr>sa_id := ''A-2'', sa_riskScore := 90\<rparr>, sample_alert]"
  (is "filteredAlerts 0 False ?s = _")
proof -
  have "\<forall>a \<in> set (sp_alerts ?s). date_parse 0 (sa_ts a) \<noteq> None" using sample_time by simp
  from siem_queue_exact [OF this] show ?thesis
    by (simp add: sample_alert_def siem_mount_def query_param_def parse_params_def obj_get_def)
qed

subsection \<open>Searches and deep links\<close>

lemma includes_trans: "str_includes s t \<Longrightarrow> str_includes t u \<Longrightarrow> str_includes s u"
  unfolding includes_iff by (metis append_assoc)

lemma join_includes: "f \<in> set fs \<Longrightarrow> str_includes (join d fs) f"
proof (induction d fs rule: join.induct)
  case (3 d x y ys)
  show ?case
  proof (cases "f = x")
    case True
    then have "join d (x # y # ys) = [] @ f @ (d @ join d (y # ys))" by simp
    then show ?thesis unfolding includes_iff by blast
  next
    case False
    with 3 have "str_includes (join d (y # ys)) f" by simp
    moreover have "join d (x # y # ys) = (x @ d) @ join d (y # ys) @ []" by simp
    then have "str_includes (join d (x # y # ys)) (join d (y # ys))" unfolding includes_iff by blast
    ultimately show ?thesis by (rule includes_trans [rotated])
  qed
qed (auto simp: includes_iff intro: exI [of _ "[]"])

lemma includes_lower: "str_includes s t \<Longrightarrow> str_includes (toLowerCase s) (toLowerCase t)"
  by (force simp: includes_iff)

lemma lower_nil [simp]: "toLowerCase [] = []"
  by (simp add: toLowerCase_def)

lemma lower_eq_nil [simp]: "toLowerCase s = [] \<longleftrightarrow> s = []"
  by (simp add: toLowerCase_def)

lemma lower_join: "toLowerCase (join d fs) = join (toLowerCase d) (map toLowerCase fs)"
  by (induction d fs rule: join.induct) simp_all

lemma haystack_includes:
  assumes "f \<in> set (pivot_fields a)" "q \<noteq> []" "str_includes (toLowerCase f) (toLowerCase q)"
  shows "str_includes (haystack a) (toLowerCase q)"
proof -
  have "f \<noteq> []" using assms(2,3) by (auto simp: includes_iff)
  with assms(1) have "str_includes (haystack a) (toLowerCase f)"
    unfolding haystack_def lower_join by (intro join_includes) auto
  then show ?thesis using assms(3) by (rule includes_trans)
qed

lemma pivot_shown:
  assumes "sp_search s \<noteq> []" "sp_sev s = None" "sp_status s = None" "sp_tactic s = ''All''"
    and "a \<in> set (sp_alerts s)" "f \<in> set (pivot_fields a)" "str_includes (toLowerCase f) (toLowerCase (sp_search s))"
  shows "a \<in> set (filteredAlerts tz n s)"
  using assms haystack_includes [OF assms(6,1,7)] by (simp add: filteredAlerts_def row_shown_def)

text \<open>C20: a search pivots over every text of an alert: in the Power mode, with the other filters open, every
  loaded alert that has the searched text, in whatever case, in its title, rule, addresses,
  hosts, user, technique or tactic is among the rows, however severe it is and whatever its
  state; and only alerts are whose texts, put one after another, hold the searched one.\<close>

theorem siem_pivot_found:
  assumes "sp_search s \<noteq> []" "sp_sev s = None" "sp_status s = None" "sp_tactic s = ''All''"
    and "ts = [sa_title a, sa_ruleId a, sa_ruleName a, sa_srcIp a, sa_destIp a, sa_srcHostname a, case_option [] id (sa_hostname a),
      case_option [] id (sa_username a), sa_mitreTech a, sa_mitreTechId a, sa_mitreTactic a]"
  shows "(a \<in> set (sp_alerts s) \<and> (\<exists>f \<in> set ts. str_includes (toLowerCase f) (toLowerCase (sp_search s)))
            \<longrightarrow> a \<in> set (filteredAlerts tz False s))
       \<and> (a \<in> set (filteredAlerts tz False s) \<longrightarrow>
            a \<in> set (sp_alerts s) \<and> str_includes (toLowerCase (join '' '' (filter (\<lambda>t. t \<noteq> []) ts))) (toLowerCase (sp_search s)))"
proof -
  have ts: "ts = pivot_fields a" using assms(5) by (simp add: pivot_fields_def)
  show ?thesis using pivot_shown [OF assms(1-4)] assms(1)
    by (auto simp: ts filteredAlerts_def row_shown_def haystack_def)
qed

theorem siem_pivot_found_witness:
  "sample_alert \<in> set (filteredAlerts 0 False ((siem_mount [])\<lparr>sp_alerts := [sample_alert], sp_search := ''port SCAN''\<rparr>))"
proof -
  let ?s = "(siem_mount [])\<lparr>sp_alerts := [sample_alert], sp_search := ''port SCAN''\<rparr>"
  have "sp_sev ?s = None" "sp_status ?s = None" "sp_tactic ?s = ''All''"
    by (simp_all add: siem_mount_def query_param_def parse_params_def obj_get_def)
  moreover have "str_includes (toLowerCase (sa_title sample_alert)) (toLowerCase ''port SCAN'')" by code_simp
  ultimately show ?thesis using siem_pivot_found [of ?s, OF _ _ _ _ refl, of sample_alert 0] by simp
qed

text \<open>In the Normal mode a pivot changes nothing on the page: the board knows no search.\<close>

theorem normal_ignores_pivot:
  "siem_content tz True (s\<lparr>sp_search := q\<rparr>) = siem_content tz True s"
  "siem_content tz True s = TriageBoard (board s)"
  by (simp_all add: siem_content_def board_def board_open_def)

text \<open>A link to an alert outside the loaded window finds nothing: the page searches for the
  id, and the id is none of the searched texts, so the alert stays out of the rows even when a
  later poll brings it, unless one of its searched texts happens to contain its id.\<close>

theorem siem_link_outside_window:
  assumes "query_param ''alert'' q = Some i" "i \<noteq> []" "xs \<noteq> []" "\<forall>a \<in> set xs. sa_id a \<noteq> i"
    and "s = siem_run q n [AlertsAnswer xs k, AlertsAnswer ys l]"
  shows "sp_alerts s = ys \<and> selectedAlert s = None
       \<and> (\<forall>a \<in> set (filteredAlerts tz n s). str_includes (haystack a) (toLowerCase i))"
proof -
  have "s = (siem_mount q)\<lparr>sp_alerts := ys, sp_total := l, sp_loaded := True, sp_pending := False, sp_linked := True, sp_search := i\<rparr>"
    using assms by (auto simp: siem_run_def alerts_answered_def follow_link_def siem_mount_def Let_def)
  then show ?thesis using assms(2)
    by (auto simp: selectedAlert_def siem_mount_def filteredAlerts_def row_shown_def)
qed

lemma only_candidate_out: "set xs \<subseteq> {b} \<Longrightarrow> \<not> P b \<Longrightarrow> \<forall>a \<in> set xs. P a \<Longrightarrow> xs = []"
  by (cases xs) auto

theorem siem_link_outside_window_witness:
  "filteredAlerts 0 False (siem_run ''alert=A-9'' False
     [AlertsAnswer [sample_alert] 1, AlertsAnswer [sample_alert\<lparr>sa_id := ''A-9''\<rparr>] 2]) = []"
  (is "filteredAlerts 0 False ?s = []")
proof -
  have "query_param ''alert'' ''alert=A-9'' = Some ''A-9''" by code_simp
  moreover have "\<forall>a \<in> set [sample_alert]. sa_id a \<noteq> ''A-9''" by (simp add: sample_alert_def)
  ultimately have "sp_alerts ?s = [sample_alert\<lparr>sa_id := ''A-9''\<rparr>] \<and> selectedAlert ?s = None \<and>
      (\<forall>a \<in> set (filteredAlerts 0 False ?s). str_includes (haystack a) (toLowerCase ''A-9''))"
    by (intro siem_link_outside_window [OF _ _ _ _ refl]) simp_all
  hence al: "sp_alerts ?s = [sample_alert\<lparr>sa_id := ''A-9''\<rparr>]"
    and hay: "\<forall>a \<in> set (filteredAlerts 0 False ?s). str_includes (haystack a) (toLowerCase ''A-9'')"
    by (blast, blast)
  have "set (filteredAlerts 0 False ?s) \<subseteq> {sample_alert\<lparr>sa_id := ''A-9''\<rparr>}"
    using al by (auto simp: filteredAlerts_def)
  moreover have "\<not> str_includes (haystack (sample_alert\<lparr>sa_id := ''A-9''\<rparr>)) (toLowerCase ''A-9'')" by code_simp
  ultimately show ?thesis using hay by (rule only_candidate_out)
qed

subsection \<open>The triage board\<close>

lemma updateAlert_alerts: "sp_alerts (updateAlert i p s) = map (\<lambda>a. if sa_id a = i then apply_patch p a else a) (sp_alerts s)"
  by (simp add: updateAlert_def)

lemma board_open_update:
  assumes "ap_status p = Some st" "st \<noteq> New"
  shows "board_open (updateAlert i p s) = filter (\<lambda>a. sa_id a \<noteq> i) (board_open s)"
proof -
  have "filter (\<lambda>a. sa_status a = New) (map (\<lambda>a. if sa_id a = i then apply_patch p a else a) xs)
      = filter (\<lambda>a. sa_id a \<noteq> i) (filter (\<lambda>a. sa_status a = New) xs)" for xs
    using assms by (induction xs) (auto simp: apply_patch_def)
  then show ?thesis by (simp add: board_open_def updateAlert_alerts)
qed

lemma board_counts:
  "length (filter (\<lambda>a. sa_severity a = Critical) xs) + length (filter (\<lambda>a. sa_severity a = High) xs)
   + length (filter (\<lambda>a. sa_severity a = Medium) xs) + length (filter (\<lambda>a. sa_severity a \<in> {Low, Info}) xs) = length xs"
proof (induction xs)
  case (Cons a xs)
  then show ?case by (cases "sa_severity a") auto
qed simp

text \<open>On the triage board of the Normal mode, acknowledging and dismissing an alert take exactly
  its card off the board and leave the others as they are; every untriaged alert has a card
  except those of severity low and info, which the headline counts all the same.\<close>

theorem siem_triage_board:
  "board (acknowledge i s) = map (\<lambda>(l, xs). (l, filter (\<lambda>a. sa_id a \<noteq> i) xs)) (board s)
   \<and> board (dismiss i s) = board (acknowledge i s)
   \<and> sum_list (map (\<lambda>(l, xs). length xs) (board s)) + length (filter (\<lambda>a. sa_severity a \<in> {Low, Info}) (board_open s))
     = length (board_open s)"
proof -
  have f: "filter (\<lambda>a. sa_severity a = v) (filter (\<lambda>a. sa_id a \<noteq> i) xs) =
    filter (\<lambda>a. sa_id a \<noteq> i) (filter (\<lambda>a. sa_severity a = v) xs)" for v and xs :: "siem_alert list"
    by (induction xs) auto
  have "board_open (acknowledge i s) = filter (\<lambda>a. sa_id a \<noteq> i) (board_open s)"
    "board_open (dismiss i s) = filter (\<lambda>a. sa_id a \<noteq> i) (board_open s)"
    by (simp_all add: acknowledge_def dismiss_def board_open_update)
  then show ?thesis using board_counts [of "board_open s"] by (simp only: board_def COLS_def list.map case_prod_conv f sum_list.Cons sum_list.Nil) (simp only: f add.assoc, simp)
qed

subsection \<open>What holds whatever happens\<close>

definition siem_inv :: "bool \<Rightarrow> siem_page \<Rightarrow> bool" where
  "siem_inv n s \<longleftrightarrow> distinct (sp_fpSelected s) \<and> (\<forall>ids \<in> set (sp_dismissed s). ids \<noteq> [] \<and> distinct ids)
     \<and> (n \<longrightarrow> sp_tab s = Queue) \<and> (sp_loaded s \<longrightarrow> \<not> sp_pending s) \<and> (\<not> sp_loaded s \<longrightarrow> sp_alerts s = [])
     \<and> (sp_alerts s \<noteq> [] \<longrightarrow> sp_linked s)"

lemma siem_inv_mount: "siem_inv n (siem_mount q)"
  by (simp add: siem_inv_def siem_mount_def)

lemma follow_link_fields [simp]:
  "sp_alerts (follow_link q s) = sp_alerts s" "sp_fpSelected (follow_link q s) = sp_fpSelected s"
  "sp_dismissed (follow_link q s) = sp_dismissed s" "sp_tab (follow_link q s) = sp_tab s"
  "sp_loaded (follow_link q s) = sp_loaded s" "sp_pending (follow_link q s) = sp_pending s"
  "sp_failed (follow_link q s) = sp_failed s" "sp_trends (follow_link q s) = sp_trends s"
  "sp_linked (follow_link q s) = (sp_linked s \<or> sp_alerts s \<noteq> [])"
  by (auto simp: follow_link_def Let_def split: option.splits)

lemma siem_inv_step: "siem_inv n s \<Longrightarrow> siem_inv n (siem_step q n op s)"
  by (cases op) (auto simp: siem_inv_def alerts_answered_def alerts_refused_def trends_answered_def trends_refused_def
    updateAlert_def click_row_def toggleSort_def open_tab_def pick_band_def loadFpTriage_def fp_answered_def fp_refused_def
    toggleFpSelected_def select_all_fp_def dismissSelectedFp_def dismiss_answered_def Let_def)

text \<open>Whatever is answered and clicked in whatever order: no id is dismissed twice in one
  request and no empty request is sent; nothing but the queue is open in the Normal mode; once an
  answer has come the skeletons are gone for good, before it no alert is shown. The notice that
  the backend is unreachable outlives the failure: one refusal before the first answer and it
  comes back whenever the filters match nothing.\<close>

theorem siem_page_invariant:
  "siem_inv n (siem_run q n ops)
   \<and> (queue_shows tz (siem_run q n (AlertsFail # ops)) \<in> {Rows, Unavailable})
   \<and> (sp_failed (siem_run q n ops) \<longrightarrow> sp_failed (siem_run q n (ops @ ops')))"
proof -
  have fold_inv: "siem_inv n s \<Longrightarrow> siem_inv n (fold (siem_step q n) os s)" for os s
    by (induction os arbitrary: s) (auto intro: siem_inv_step)
  have step: "sp_failed s \<longrightarrow> sp_failed (siem_step q n op s)" "\<not> sp_pending s \<longrightarrow> \<not> sp_pending (siem_step q n op s)" for op s
    by (cases op; simp add: alerts_answered_def alerts_refused_def trends_answered_def trends_refused_def
      updateAlert_def click_row_def toggleSort_def open_tab_def pick_band_def loadFpTriage_def fp_answered_def fp_refused_def
      toggleFpSelected_def select_all_fp_def dismissSelectedFp_def dismiss_answered_def Let_def)+
  have run: "sp_failed s \<longrightarrow> sp_failed (fold (siem_step q n) os s)" "\<not> sp_pending s \<longrightarrow> \<not> sp_pending (fold (siem_step q n) os s)" for os s
  proof (induction os arbitrary: s)
    case (Cons op os)
    case 1
    show ?case using Cons.IH(1) [of "siem_step q n op s"] step(1) [of s op] by simp
    case 2
    show ?case using Cons.IH(2) [of "siem_step q n op s"] step(2) [of s op] by simp
  qed simp_all
  show ?thesis
  proof (intro conjI)
    show "siem_inv n (siem_run q n ops)" by (simp add: siem_run_def fold_inv siem_inv_mount)
    have "sp_failed (alerts_refused (siem_mount q))" "\<not> sp_pending (alerts_refused (siem_mount q))"
      by (simp_all add: alerts_refused_def siem_mount_def)
    then show "queue_shows tz (siem_run q n (AlertsFail # ops)) \<in> {Rows, Unavailable}"
      using run by (auto simp: siem_run_def queue_shows_def)
    show "sp_failed (siem_run q n ops) \<longrightarrow> sp_failed (siem_run q n (ops @ ops'))"
      using run by (simp add: siem_run_def)
  qed
qed

subsection \<open>The figures\<close>

lemma share_bounds:
  assumes "c \<le> m" "0 < m"
  shows "0 \<le> js_mul (js_div (of_nat c) (of_nat m)) 100" "js_mul (js_div (of_nat c) (of_nat m)) 100 \<le> 100"
  using js_percent_bounds [of "of_nat c" "of_nat m"] assms by simp_all

lemma severity_counts_sum: "sum_list (severity_counts xs) = length xs"
proof (induction xs)
  case (Cons a xs)
  then show ?case by (cases "sa_severity a") (auto simp: severity_counts_def count_of_def)
qed (simp add: severity_counts_def count_of_def)

text \<open>The figures of the analytics tab fit each other: the stages of the funnel shrink, the counts
  by severity add up to the alerts loaded, no bar is wider than its track, and the escalation
  rate is a percentage; the table nevertheless calls it good whatever it is.\<close>

theorem siem_figures:
  assumes "xs \<noteq> []"
  shows "sorted_wrt (\<ge>) (map snd (take 4 (funnel xs)))
       \<and> sum_list (severity_counts xs) = length xs
       \<and> list_all (\<lambda>(l, c). case funnel_width xs c of Some w \<Rightarrow> 0 \<le> w \<and> w \<le> 100 | None \<Rightarrow> False) (funnel xs)
       \<and> list_all (\<lambda>c. 0 \<le> severity_width xs c \<and> severity_width xs c \<le> 100) (severity_counts xs)
       \<and> 0 \<le> escalation_pct xs \<and> escalation_pct xs \<le> 100
       \<and> (''Alert-to-Incident Escalation'', ''1-10%'', True) \<in> set (kpi_status k)"
proof -
  have "list_all (\<lambda>(l, c). c \<le> length xs) (funnel xs)" by (simp add: funnel_def count_of_le)
  then have fw: "list_all (\<lambda>(l, c). case funnel_width xs c of Some w \<Rightarrow> 0 \<le> w \<and> w \<le> 100 | None \<Rightarrow> False) (funnel xs)"
    using assms by (auto simp: list_all_iff funnel_width_def intro: share_bounds)
  have sw: "list_all (\<lambda>c. 0 \<le> severity_width xs c \<and> severity_width xs c \<le> 100) (severity_counts xs)"
    using max_of_ge(1) [of "1::nat" "severity_counts xs"] max_of_ge(2) [of _ "severity_counts xs" 1]
    by (auto simp: list_all_iff severity_width_def intro!: share_bounds)
  have "0 < length xs" using assms by simp
  note b = share_bounds [OF count_of_le this]
  have ep: "0 \<le> escalation_pct xs \<and> escalation_pct xs \<le> 100"
    using js_round_bounds [of 0 _ 100] b by (simp add: escalation_pct_def assms)
  have "sorted_wrt (\<ge>) (map snd (take 4 (funnel xs)))"
    by (auto simp: funnel_def count_of_le intro: count_of_mono)
  with fw sw ep show ?thesis by (simp add: severity_counts_sum kpi_status_def Let_def)
qed

theorem siem_figures_witness: "escalation_pct [sample_alert] \<le> 100 \<and> sum_list (severity_counts [sample_alert]) = 1"
  using siem_figures [of "[sample_alert]" None] by simp

lemma fmtMins_seconds:
  assumes "js_round (js_mul m 60) = n" "0 \<le> n" "n < 2 ^ 53"
  shows "fmtMins m = int_str (n div 60) @ ''m '' @ pad_start 2 (CHR ''0'') (int_str (n mod 60)) @ ''s''"
  using assms js_div_floor [of n 60] by (cases "n = 0") (simp_all add: fmtMins_def Let_def)

end
