(* ===== verification/SiemDetail.thy ===== *)
theory SiemDetail
  imports SiemQueue ApiClient
begin

text \<open>
  The drawer with one alert (\<open>AlertDetail\<close> of \<open>app/dashboard/siem/page.tsx\<close>): the actions, the
  requests they send through the API client, the toasts with their timers and the undo they offer.
  A timer only ever clears the toast, so it is its deadline; the clock is in milliseconds.
\<close>

subsection \<open>Toasts\<close>

record toast =
  to_text :: string
  to_href :: "string option"
  to_undo :: "(string \<times> alert_patch) option"

record alert_detail =
  ad_toast :: "toast option"
  ad_due :: "int list"
  ad_calls :: "call list"
  ad_fp :: "fp_item option"
  ad_checking :: bool

definition detail_init :: alert_detail where
  "detail_init = \<lparr>ad_toast = None, ad_due = [], ad_calls = [], ad_fp = None, ad_checking = False\<rparr>"

text \<open>The clock reaches \<open>t\<close>: every timer that is due clears the toast.\<close>

definition reach :: "int \<Rightarrow> alert_detail \<Rightarrow> alert_detail" where
  "reach t d = d\<lparr>ad_toast := (if \<exists>x \<in> set (ad_due d). x \<le> t then None else ad_toast d),
                 ad_due := filter (\<lambda>x. t < x) (ad_due d)\<rparr>"

definition show_toast :: "int \<Rightarrow> int \<Rightarrow> toast \<Rightarrow> alert_detail \<Rightarrow> alert_detail" where
  "show_toast now ms t d = d\<lparr>ad_toast := Some t, ad_due := ad_due d @ [now + ms]\<rparr>"

definition flash :: "int \<Rightarrow> string \<Rightarrow> string option \<Rightarrow> alert_detail \<Rightarrow> alert_detail" where
  "flash now txt href = show_toast now (if href = None then 2200 else 10000) \<lparr>to_text = txt, to_href = href, to_undo = None\<rparr>"

definition flashUndo :: "int \<Rightarrow> string \<Rightarrow> string \<times> alert_patch \<Rightarrow> alert_detail \<Rightarrow> alert_detail" where
  "flashUndo now txt u = show_toast now 8000 \<lparr>to_text = txt, to_href = None, to_undo = Some u\<rparr>"

definition send :: "call \<Rightarrow> alert_detail \<Rightarrow> alert_detail" where
  "send c d = d\<lparr>ad_calls := ad_calls d @ [c]\<rparr>"

subsection \<open>Edits with an undo\<close>

text \<open>The arrow of the toasts is outside the characters of the model and written \<open>to\<close>. The body of
  the request for a partial alert; undefined fields are left out.\<close>

definition patch_json :: "alert_patch \<Rightarrow> json" where
  "patch_json p = JObj (
     (case ap_owner p of None \<Rightarrow> [] | Some None \<Rightarrow> [(''owner'', JNull)] | Some (Some x) \<Rightarrow> [(''owner'', JStr x)])
     @ (case ap_status p of None \<Rightarrow> [] | Some v \<Rightarrow> [(''status'', JStr (status_text v))])
     @ (case ap_disposition p of None \<Rightarrow> [] | Some v \<Rightarrow> [(''disposition'', JStr (disposition_text v))]))"

type_synonym siem_world = "siem_page \<times> alert_detail"

definition edit :: "string \<Rightarrow> alert_patch \<Rightarrow> siem_world \<Rightarrow> siem_world" where
  "edit i p w = (updateAlert i p (fst w), send (patchAlert i (patch_json p)) (snd w))"

abbreviation only_status :: "alert_status \<Rightarrow> alert_patch" where
  "only_status v \<equiv> \<lparr>ap_status = Some v, ap_owner = None, ap_disposition = None\<rparr>"
abbreviation only_disposition :: "disposition \<Rightarrow> alert_patch" where
  "only_disposition v \<equiv> \<lparr>ap_status = None, ap_owner = None, ap_disposition = Some v\<rparr>"

definition assign_to_me :: "int \<Rightarrow> siem_alert \<Rightarrow> siem_world \<Rightarrow> siem_world" where
  "assign_to_me now a w =
     (let prev = \<lparr>ap_status = Some (sa_status a), ap_owner = Some (sa_owner a), ap_disposition = None\<rparr>;
          w = edit (sa_id a) \<lparr>ap_status = Some (if sa_status a = New then Assigned else sa_status a),
                ap_owner = Some (Some ''you''), ap_disposition = None\<rparr> w
      in (fst w, flashUndo now ''Assigned to you'' (sa_id a, prev) (snd w)))"

definition escalate :: "int \<Rightarrow> siem_alert \<Rightarrow> siem_world \<Rightarrow> siem_world" where
  "escalate now a w =
     (let w = edit (sa_id a) (only_status InProgress) w
      in (fst w, flashUndo now ''Escalated - status set to In Progress'' (sa_id a, only_status (sa_status a)) (snd w)))"

definition set_status :: "int \<Rightarrow> alert_status \<Rightarrow> siem_alert \<Rightarrow> siem_world \<Rightarrow> siem_world" where
  "set_status now v a w =
     (if v = sa_status a then w
      else let w = edit (sa_id a) (only_status v) w
      in (fst w, flashUndo now (''Status to '' @ fst (STATUS_LABEL v)) (sa_id a, only_status (sa_status a)) (snd w)))"

definition first_dash_blank :: "string \<Rightarrow> string" where
  "first_dash_blank t = takeWhile (\<lambda>c. c \<noteq> CHR ''-'') t
     @ (case dropWhile (\<lambda>c. c \<noteq> CHR ''-'') t of [] \<Rightarrow> [] | _ # r \<Rightarrow> CHR '' '' # r)"

definition set_disposition :: "int \<Rightarrow> disposition \<Rightarrow> siem_alert \<Rightarrow> siem_world \<Rightarrow> siem_world" where
  "set_disposition now v a w =
     (if v = sa_disposition a then w
      else let w = edit (sa_id a) (only_disposition v) w
      in (fst w, flashUndo now (''Disposition to '' @ first_dash_blank (disposition_text v))
            (sa_id a, only_disposition (sa_disposition a)) (snd w)))"

text \<open>The undo button of the toast on screen.\<close>

definition click_undo :: "int \<Rightarrow> siem_world \<Rightarrow> siem_world" where
  "click_undo now w =
     (case ad_toast (snd w) of
        Some t \<Rightarrow> (case to_undo t of
            Some (i, p) \<Rightarrow> (let w = edit i p w in
              (fst w, show_toast now 1600 \<lparr>to_text = ''Reverted'', to_href = None, to_undo = None\<rparr> (snd w)))
          | None \<Rightarrow> w)
      | None \<Rightarrow> w)"

datatype reversible = Assign | Escalate | SetStatus alert_status | SetDisposition disposition

fun do_action :: "reversible \<Rightarrow> int \<Rightarrow> siem_alert \<Rightarrow> siem_world \<Rightarrow> siem_world" where
  "do_action Assign now a = assign_to_me now a"
| "do_action Escalate now a = escalate now a"
| "do_action (SetStatus v) now a = set_status now v a"
| "do_action (SetDisposition v) now a = set_disposition now v a"

subsection \<open>Cases, suppressions and playbooks\<close>

definition entity_json :: "string \<Rightarrow> string \<Rightarrow> json" where
  "entity_json t v = JObj [(''type'', JStr t), (''value'', JStr v)]"

definition non_blank :: "string option \<Rightarrow> string list" where
  "non_blank x = (case x of Some v \<Rightarrow> if v = [] then [] else [v] | None \<Rightarrow> [])"

definition case_entities :: "siem_alert \<Rightarrow> (string \<times> string) list" where
  "case_entities a =
     map (Pair ''ip'') (non_blank (Some (sa_srcIp a)))
     @ map (Pair ''host'') (non_blank (sa_hostname a))
     @ map (Pair ''user'') (non_blank (sa_username a))"

definition case_body :: "siem_alert \<Rightarrow> json" where
  "case_body a = JObj
     [(''title'', JStr (sa_title a)),
      (''severity'', JStr (if sa_severity a \<in> set [Critical, High, Medium, Low] then sev_text (sa_severity a) else ''medium'')),
      (''type'', JStr ''Investigation''),
      (''description'', JStr (''Escalated from SIEM alert '' @ sa_id a @ '' ('' @ sa_ruleName a @ ''). '' @ sa_description a)),
      (''alertCount'', JNum 1),
      (''entities'', JArr (map (\<lambda>(t, v). entity_json t v) (case_entities a)))]"

definition create_case :: "siem_alert \<Rightarrow> siem_world \<Rightarrow> siem_world" where
  "create_case a w = (fst w, send (createCase (case_body a)) (snd w))"

definition case_answered :: "int \<Rightarrow> string option \<Rightarrow> alert_detail \<Rightarrow> alert_detail" where
  "case_answered now r d =
     (case r of
        Some c \<Rightarrow> flash now (''SOAR case '' @ c @ '' created from this alert'')
                    (Some (''/dashboard/soar?case='' @ encodeURIComponent c)) d
      | None \<Rightarrow> flash now ''Could not create case - is the dashboard API running?'' None d)"

text \<open>The entity a suppression is for: the source address, else the host, else the user.\<close>

definition suppress_entity :: "siem_alert \<Rightarrow> (string \<times> string) option" where
  "suppress_entity a =
     (if sa_srcIp a \<noteq> [] then Some (''src_ip'', sa_srcIp a)
      else case non_blank (sa_hostname a) of
        h # _ \<Rightarrow> Some (''hostname'', h)
      | [] \<Rightarrow> (case non_blank (sa_username a) of u # _ \<Rightarrow> Some (''username'', u) | [] \<Rightarrow> None))"

definition suppression_body :: "siem_alert \<Rightarrow> string \<times> string \<Rightarrow> json" where
  "suppression_body a e = JObj [(''value'', JStr (snd e)), (''field'', JStr (fst e)),
     (''reason'', JStr (''From alert '' @ sa_id a @ '' '' @ [CHR 0xB7] @ '' '' @ sa_ruleName a))]"

definition suppress :: "int \<Rightarrow> siem_alert \<Rightarrow> siem_world \<Rightarrow> siem_world" where
  "suppress now a w =
     (let w = edit (sa_id a) \<lparr>ap_status = Some Closed, ap_owner = None, ap_disposition = Some FalsePositive\<rparr> w in
      case suppress_entity a of
        None \<Rightarrow> (fst w, flash now ''Alert closed as false-positive'' None (snd w))
      | Some e \<Rightarrow> (fst w, send (createSuppression (suppression_body a e)) (snd w)))"

definition suppress_answered :: "int \<Rightarrow> siem_alert \<Rightarrow> bool \<Rightarrow> alert_detail \<Rightarrow> alert_detail" where
  "suppress_answered now a ok d =
     (case suppress_entity a of
        None \<Rightarrow> d
      | Some e \<Rightarrow>
          if ok then flash now (''Suppression added for '' @ fst e @ ''='' @ snd e @ '' - future matches dropped'')
                       (Some ''/dashboard/siem/rules#suppressions'') d
          else flash now ''Could not create suppression - is the dashboard API running?'' None d)"

record playbook_row =
  pr_id :: string
  pr_name :: string
  pr_trigger :: "string option"
  pr_enabled :: bool

definition trigger_words :: "playbook_row \<Rightarrow> string list" where
  "trigger_words p = rx_split (rx_plus (RSet is_space)) (toLowerCase (case pr_trigger p of Some t \<Rightarrow> t | None \<Rightarrow> []))"

definition trigger_fits :: "siem_alert \<Rightarrow> playbook_row \<Rightarrow> bool" where
  "trigger_fits a p \<longleftrightarrow>
     (let needle = toLowerCase (sa_mitreTactic a @ '' '' @ sa_title a) in
      \<exists>w \<in> set (trigger_words p). 4 < length w \<and> str_includes needle w)"

definition choose_playbook :: "siem_alert \<Rightarrow> playbook_row list \<Rightarrow> playbook_row option" where
  "choose_playbook a pbs =
     (case find (trigger_fits a) pbs of
        Some p \<Rightarrow> Some p
      | None \<Rightarrow> (case pbs of p # _ \<Rightarrow> Some p | [] \<Rightarrow> None))"

text \<open>The alert is set to in progress before the playbooks are even listed.\<close>

definition run_playbook :: "siem_alert \<Rightarrow> siem_world \<Rightarrow> siem_world" where
  "run_playbook a w =
     (let w = edit (sa_id a) (only_status InProgress) w in (fst w, send fetchPlaybooks_call (snd w)))"

definition playbooks_answered :: "int \<Rightarrow> siem_alert \<Rightarrow> playbook_row list option \<Rightarrow> alert_detail \<Rightarrow> alert_detail" where
  "playbooks_answered now a r d =
     (case (case r of Some pbs \<Rightarrow> choose_playbook a pbs | None \<Rightarrow> None) of
        Some p \<Rightarrow> send (runPlaybook (pr_id p) None) d
      | None \<Rightarrow> flash now ''Could not run a playbook - is the dashboard API running?'' None d)"

subsection \<open>The advisory score\<close>

definition checkFp :: "siem_alert \<Rightarrow> alert_detail \<Rightarrow> alert_detail" where
  "checkFp a d = (if ad_checking d then d else send (fetchAlertFpAssessment (sa_id a)) (d\<lparr>ad_checking := True\<rparr>))"

definition fp_checked :: "int \<Rightarrow> fp_item option \<Rightarrow> alert_detail \<Rightarrow> alert_detail" where
  "fp_checked now r d =
     (case r of
        Some x \<Rightarrow> d\<lparr>ad_fp := Some x, ad_checking := False\<rparr>
      | None \<Rightarrow> (flash now ''Could not fetch FP assessment'' None d)\<lparr>ad_checking := False\<rparr>)"

text \<open>The tabs, and the links to the scanner from the network tab.\<close>

definition detail_tabs :: "bool \<Rightarrow> string list" where
  "detail_tabs simplified =
     (if simplified then [''overview''] else [''overview'', ''network'', ''identity'', ''host'', ''raw''])"

definition ip_pivot :: "string \<Rightarrow> string option" where
  "ip_pivot v = (if v \<noteq> [] \<and> v \<noteq> ''-''
     then Some (''/dashboard/scanner?value='' @ encodeURIComponent v @ ''&type=ip&run=1'') else None)"

subsection \<open>Undo\<close>

lemma apply_patch_id [simp]: "sa_id (apply_patch p a) = sa_id a"
  by (simp add: apply_patch_def)

lemma edit_and_back:
  assumes "distinct (map sa_id xs)" "a \<in> set xs" "apply_patch q (apply_patch p a) = a"
  shows "map (\<lambda>x. if sa_id x = sa_id a then apply_patch q x else x)
           (map (\<lambda>x. if sa_id x = sa_id a then apply_patch p x else x) xs) = xs"
proof -
  have "x = a" if "x \<in> set xs" "sa_id x = sa_id a" for x
    using assms(1,2) that by (metis distinct_map inj_onD)
  then show ?thesis using assms(3) by (intro nth_equalityI) (auto, metis nth_mem)
qed

lemma action_shape:
  "do_action act now a w = w \<or>
   (\<exists>p q msg. do_action act now a w =
      (fst (edit (sa_id a) p w), flashUndo now msg (sa_id a, q) (snd (edit (sa_id a) p w)))
      \<and> apply_patch q (apply_patch p a) = a)"
proof (cases act)
  case Assign
  then show ?thesis
    by (auto simp: assign_to_me_def Let_def apply_patch_def intro!: exI)
next
  case Escalate
  then show ?thesis by (auto simp: escalate_def Let_def apply_patch_def intro!: exI)
next
  case (SetStatus v)
  then show ?thesis by (auto simp: set_status_def Let_def apply_patch_def intro!: exI)
next
  case (SetDisposition v)
  then show ?thesis by (auto simp: set_disposition_def Let_def apply_patch_def intro!: exI)
qed

text \<open>C11: undo: while no other timer is running, every reversible action on an alert can be taken
  back for eight seconds; the queue is then exactly as before and the backend has been sent two
  edits of that alert. A timer left over from an earlier toast takes the undo away when it fires.\<close>

theorem siem_undo:
  assumes "distinct (map sa_id (sp_alerts s))" "a \<in> set (sp_alerts s)"
    and "do_action act now a (s, d) = (s1, d1)" "(s1, d1) \<noteq> (s, d)"
  shows "(now \<le> t \<longrightarrow> t < now + 8000 \<longrightarrow> ad_due d = [] \<longrightarrow>
           (\<exists>s2 d2 p q. click_undo t (s1, reach t d1) = (s2, d2) \<and> sp_alerts s2 = sp_alerts s
              \<and> ad_calls d2 = ad_calls d @ [patchAlert (sa_id a) p, patchAlert (sa_id a) q]))
       \<and> (x \<in> set (ad_due d) \<longrightarrow> x \<le> t \<longrightarrow> click_undo t (s1, reach t d1) = (s1, reach t d1))"
proof -
  from action_shape [of act now a "(s, d)"] assms obtain p q msg where
    e: "s1 = updateAlert (sa_id a) p s" "d1 = flashUndo now msg (sa_id a, q) (send (patchAlert (sa_id a) (patch_json p)) d)"
    and pq: "apply_patch q (apply_patch p a) = a" by (auto simp: edit_def)
  have "sp_alerts (updateAlert (sa_id a) q s1) = sp_alerts s"
    unfolding e(1) updateAlert_alerts by (rule edit_and_back [OF assms(1,2) pq])
  then show ?thesis
    by (auto simp: e(2) click_undo_def reach_def flashUndo_def show_toast_def send_def edit_def Let_def)
qed

theorem siem_undo_witness:
  "\<exists>s2 d2. click_undo 5000 (let w = do_action Escalate 0 sample_alert ((siem_mount [])\<lparr>sp_alerts := [sample_alert]\<rparr>, detail_init)
       in (fst w, reach 5000 (snd w))) = (s2, d2) \<and> sp_alerts s2 = [sample_alert]"
proof -
  let ?s = "(siem_mount [])\<lparr>sp_alerts := [sample_alert]\<rparr>"
  obtain s1 d1 where e: "do_action Escalate 0 sample_alert (?s, detail_init) = (s1, d1)" by fastforce
  have "d1 \<noteq> detail_init" using e by (auto simp: escalate_def edit_def flashUndo_def show_toast_def send_def detail_init_def Let_def)
  then have "\<exists>s2 d2 p q. click_undo 5000 (s1, reach 5000 d1) = (s2, d2) \<and> sp_alerts s2 = sp_alerts ?s
      \<and> ad_calls d2 = ad_calls detail_init @ [patchAlert (sa_id sample_alert) p, patchAlert (sa_id sample_alert) q]"
    using siem_undo [OF _ _ e, of 5000] by (simp add: detail_init_def)
  then show ?thesis unfolding e Let_def fst_conv snd_conv by auto
qed

subsection \<open>Requests\<close>

text \<open>Suppressing closes exactly this alert as a false positive and asks the backend to drop
  what matches the first of its source address, host and user that is not blank; without one
  nothing is asked. A case carries one of the four severities the backend knows and every entity
  of the alert that is not blank.\<close>

theorem siem_suppress_and_case:
  "fst (suppress now a w) = updateAlert (sa_id a) \<lparr>ap_status = Some Closed, ap_owner = None, ap_disposition = Some FalsePositive\<rparr> (fst w)
   \<and> suppress_entity a = (let xs = map (Pair ''src_ip'') (non_blank (Some (sa_srcIp a))) @ map (Pair ''hostname'') (non_blank (sa_hostname a))
        @ map (Pair ''username'') (non_blank (sa_username a)) in if xs = [] then None else Some (hd xs))
   \<and> length (filter (\<lambda>c. c_path c = ''/siem/suppressions'') (ad_calls (snd (suppress now a w))))
     = length (filter (\<lambda>c. c_path c = ''/siem/suppressions'') (ad_calls (snd w))) + (if suppress_entity a = None then 0 else 1)
   \<and> json_get ''severity'' (case_body a) \<in> JStr ` {''critical'', ''high'', ''medium'', ''low''}
   \<and> (\<forall>v. (''ip'', v) \<in> set (case_entities a) \<longleftrightarrow> v = sa_srcIp a \<and> v \<noteq> [])"
proof (intro conjI)
  show "fst (suppress now a w) = updateAlert (sa_id a) \<lparr>ap_status = Some Closed, ap_owner = None, ap_disposition = Some FalsePositive\<rparr> (fst w)"
    by (simp add: suppress_def edit_def Let_def split: option.split)
  show "suppress_entity a = (let xs = map (Pair ''src_ip'') (non_blank (Some (sa_srcIp a))) @ map (Pair ''hostname'') (non_blank (sa_hostname a))
        @ map (Pair ''username'') (non_blank (sa_username a)) in if xs = [] then None else Some (hd xs))"
    by (auto simp: suppress_entity_def non_blank_def Let_def split: option.splits)
  show "length (filter (\<lambda>c. c_path c = ''/siem/suppressions'') (ad_calls (snd (suppress now a w))))
     = length (filter (\<lambda>c. c_path c = ''/siem/suppressions'') (ad_calls (snd w))) + (if suppress_entity a = None then 0 else 1)"
    by (auto simp: suppress_def edit_def send_def flash_def show_toast_def Let_def patchAlert_def createSuppression_def split: option.split)
  show "json_get ''severity'' (case_body a) \<in> JStr ` {''critical'', ''high'', ''medium'', ''low''}"
    by (cases "sa_severity a") (simp_all add: case_body_def obj_get_def)
  show "\<forall>v. (''ip'', v) \<in> set (case_entities a) \<longleftrightarrow> v = sa_srcIp a \<and> v \<noteq> []"
    by (auto simp: case_entities_def non_blank_def split: option.splits)
qed

text \<open>The playbook run for an alert is one of those listed, the first whose trigger shares a long
  word with the alert's tactic or title and otherwise the first of all; whether it is enabled
  plays no part, and when none can be run the alert stays in progress.\<close>

theorem siem_playbook_choice:
  "(choose_playbook a pbs = None \<longleftrightarrow> pbs = [])
   \<and> (\<forall>p. choose_playbook a pbs = Some p \<longrightarrow> p \<in> set pbs \<and> (trigger_fits a p \<or> p = hd pbs \<and> \<not> (\<exists>x \<in> set pbs. trigger_fits a x)))
   \<and> choose_playbook a (map (\<lambda>p. p\<lparr>pr_enabled := False\<rparr>) pbs) = map_option (\<lambda>p. p\<lparr>pr_enabled := False\<rparr>) (choose_playbook a pbs)"
proof -
  have fits: "trigger_fits a (p\<lparr>pr_enabled := False\<rparr>) = trigger_fits a p" for p
    by (simp add: trigger_fits_def trigger_words_def)
  have find: "find (trigger_fits a) (map (\<lambda>p. p\<lparr>pr_enabled := False\<rparr>) pbs) = map_option (\<lambda>p. p\<lparr>pr_enabled := False\<rparr>) (find (trigger_fits a) pbs)"
    by (induction pbs) (auto simp: fits)
  have some: "p \<in> set pbs \<and> trigger_fits a p" if "find (trigger_fits a) pbs = Some p" for p
    using that by (auto simp: find_Some_iff)
  have "p \<in> set pbs \<and> (trigger_fits a p \<or> p = hd pbs \<and> \<not> (\<exists>x \<in> set pbs. trigger_fits a x))"
    if "choose_playbook a pbs = Some p" for p
    using that some by (auto simp: choose_playbook_def find_None_iff split: option.splits list.splits)
  moreover have "choose_playbook a pbs = None \<longleftrightarrow> pbs = []"
    by (auto simp: choose_playbook_def split: option.splits list.splits)
  ultimately show ?thesis
    by (auto simp: choose_playbook_def find split: option.splits list.splits)
qed

theorem siem_playbook_choice_witness:
  "\<exists>p \<in> {\<lparr>pr_id = ''pb-1'', pr_name = ''Isolate'', pr_trigger = None, pr_enabled = False\<rparr>}.
     choose_playbook sample_alert [\<lparr>pr_id = ''pb-1'', pr_name = ''Isolate'', pr_trigger = None, pr_enabled = False\<rparr>] = Some p"
  using siem_playbook_choice [of sample_alert "[\<lparr>pr_id = ''pb-1'', pr_name = ''Isolate'', pr_trigger = None, pr_enabled = False\<rparr>]"]
  by (cases "choose_playbook sample_alert [\<lparr>pr_id = ''pb-1'', pr_name = ''Isolate'', pr_trigger = None, pr_enabled = False\<rparr>]") auto

end
