(* ===== verification/SoarCases.thy ===== *)
theory SoarCases
  imports SiemData ApiEndpoints JsArray JsDate
begin

text \<open>
  The cases of the SOAR page (\<open>app/dashboard/soar/page.tsx\<close>): times and service levels, the drawer of
  one case with its tasks, notes, evidence, hand-offs and conclusion, the board of the Normal
  mode, the new-case dialog and the list of cases the page keeps. Requests go through the API
  client; their answers are steps that may come in any order.
\<close>

subsection \<open>Durations and times\<close>

definition fmtMinsShort :: "rat \<Rightarrow> string" where
  "fmtMinsShort minutes =
     (let m = js_round minutes in
      if m < 60 then int_str m @ ''m''
      else int_str (js_floor (js_div (of_int m) 60)) @ ''h '' @ two_digits (m mod 60) @ ''m'')"

definition fmtSecsShort :: "rat \<Rightarrow> string" where
  "fmtSecsShort secs =
     (let s = js_round secs in
      if s < 60 then int_str s @ ''s''
      else int_str (js_floor (js_div (of_int s) 60)) @ ''m '' @ two_digits (s mod 60) @ ''s'')"

text \<open>Times in the zone of the browser; a text that is no time is shown as it is.\<close>

definition fmtWarRoomTs :: "int \<Rightarrow> string \<Rightarrow> string" where
  "fmtWarRoomTs tz ts =
     (case date_parse tz ts of
        None \<Rightarrow> ts
      | Some t \<Rightarrow> two_digits (getHours tz t) @ '':'' @ two_digits (getMinutes tz t) @ '':'' @ two_digits (getSeconds tz t))"

text \<open>The dash for a missing time is outside the characters of the model and is \<^term>\<open>None\<close>.\<close>

definition fmtTimelineTs :: "int \<Rightarrow> string option \<Rightarrow> string option" where
  "fmtTimelineTs tz ts =
     (case ts of
        None \<Rightarrow> None
      | Some s \<Rightarrow>
          if s = [] then None
          else case date_parse tz s of
            None \<Rightarrow> Some s
          | Some t \<Rightarrow> (case local_date tz t of (y, m, d) \<Rightarrow>
              Some (two_digits m @ ''-'' @ two_digits d @ '' '' @ two_digits (getHours tz t) @ '':'' @ two_digits (getMinutes tz t))))"

subsection \<open>Styles and links\<close>

definition SEV_STYLE :: "(string, string) obj" where
  "SEV_STYLE = [(''critical'', ''text-magenta border-magenta/30 bg-magenta/10''),
     (''high'', ''text-threat  border-threat/30  bg-threat/10''),
     (''medium'', ''text-amber   border-amber/30   bg-amber/10''),
     (''low'', ''text-safe    border-safe/30    bg-safe/10'')]"

fun STATUS_STYLE :: "alert_status \<Rightarrow> string \<times> string" where
  "STATUS_STYLE New = (''New'', ''text-magenta'')"
| "STATUS_STYLE Assigned = (''Assigned'', ''text-amber'')"
| "STATUS_STYLE InProgress = (''In Progress'', ''text-violet'')"
| "STATUS_STYLE PendingSt = (''Pending'', ''text-ink-400'')"
| "STATUS_STYLE ResolvedSt = (''Resolved'', ''text-safe'')"
| "STATUS_STYLE Closed = (''Closed'', ''text-ink-600'')"

datatype step_type = CheckStep | ActionStep | DecisionStep | NotifyStep | HumanStep | SubPlaybook

fun STEP_COLOR :: "step_type \<Rightarrow> string" where
  "STEP_COLOR CheckStep = tk Teal"
| "STEP_COLOR ActionStep = tk Violet"
| "STEP_COLOR DecisionStep = tk Amber"
| "STEP_COLOR NotifyStep = tk Safe"
| "STEP_COLOR HumanStep = tk Threat"
| "STEP_COLOR SubPlaybook = tk Magenta"

definition TIMELINE_STYLE :: "(string, string \<times> string) obj" where
  "TIMELINE_STYLE = [(''alert'', tk Threat, ''alert''), (''playbook'', tk Safe, ''playbook''),
     (''system'', tk Violet, ''system''), (''auto'', tk Safe, ''automated''),
     (''manual'', tk Amber, ''analyst''), (''note'', tk Amber, ''note'')]"

definition timeline_style :: "string \<Rightarrow> string \<times> string" where
  "timeline_style ty = (case obj_get TIMELINE_STYLE ty of Some x \<Rightarrow> x | None \<Rightarrow> (tk Violet, ty))"

definition entityHref :: "string \<Rightarrow> string \<Rightarrow> string" where
  "entityHref ty value =
     (let t = toLowerCase ty; v = encodeURIComponent value in
      if t = ''host'' \<or> t = ''hostname'' then ''/dashboard/siem/entities?type=host&value='' @ v
      else if t = ''user'' \<or> t = ''username'' then ''/dashboard/siem/entities?type=user&value='' @ v
      else if t = ''ip'' then ''/dashboard/scanner?value='' @ v @ ''&type=ip&run=1''
      else if t \<in> set [''domain'', ''url'', ''hash'', ''cve'', ''email''] then ''/dashboard/scanner?value='' @ v @ ''&run=1''
      else ''/dashboard/siem?q='' @ v)"

subsection \<open>Service levels\<close>

text \<open>The time both functions measure against, \<open>Date.parse('2024-11-12T16:00:00Z')\<close>.\<close>

definition sla_now :: int where "sla_now = the (date_parse 0 ''2024-11-12T16:00:00Z'')"

text \<open>\<open>Math.min(100, Math.max(0, elapsed / total * 100))\<close>, which is NaN for a creation time that
  does not parse and for 0/0.\<close>

definition slaPercent :: "int \<Rightarrow> string \<Rightarrow> int \<Rightarrow> rat option" where
  "slaPercent tz created slaHours =
     (case date_parse tz created of
        None \<Rightarrow> None
      | Some start \<Rightarrow>
          let deadline = start + slaHours * 3600 * 1000; elapsed = sla_now - start; total = deadline - start in
          if total = 0 then (if elapsed = 0 then None else Some (if elapsed > 0 then 100 else 0))
          else Some (min 100 (max 0 (js_mul (js_div (of_int elapsed) (of_int total)) 100))))"

definition slaLabel :: "int \<Rightarrow> string \<Rightarrow> int \<Rightarrow> string" where
  "slaLabel tz created slaHours =
     (case date_parse tz created of
        None \<Rightarrow> ''NaNm left''
      | Some start \<Rightarrow>
          let left = start + slaHours * 3600 * 1000 - sla_now in
          if left \<le> 0 then ''SLA BREACHED''
          else let h = left div 3600000; m = left mod 3600000 div 60000 in
            if h > 0 then int_str h @ ''h '' @ int_str m @ ''m left'' else int_str m @ ''m left'')"

definition sla_color :: "rat option \<Rightarrow> string" where
  "sla_color pct = (case pct of
      Some p \<Rightarrow> if p > 80 then tk Magenta else if p > 60 then tk Amber else tk Safe
    | None \<Rightarrow> tk Safe)"

text \<open>The age of a case in its row, in minutes before the same time.\<close>

definition row_age :: "int \<Rightarrow> string \<Rightarrow> string" where
  "row_age tz created = (case date_parse tz created of
      None \<Rightarrow> ''NaNm ago'' | Some t \<Rightarrow> int_str ((sla_now - t) div 60000) @ ''m ago'')"

subsection \<open>Cases\<close>

datatype task_status = TaskPending | TaskInProgress | TaskDone | TaskSkipped

fun task_text :: "task_status \<Rightarrow> string" where
  "task_text TaskPending = ''pending''" | "task_text TaskInProgress = ''in-progress''"
| "task_text TaskDone = ''done''" | "task_text TaskSkipped = ''skipped''"

record case_task =
  ct_id :: string
  ct_phase :: string
  ct_name :: string
  ct_status :: task_status
  ct_assignee :: "string option"
  ct_notes :: string

record war_entry =
  we_ts :: string
  we_actor :: string
  we_type :: string
  we_content :: string

record evidence_item =
  ei_name :: string
  ei_type :: string
  ei_sha256 :: "string option"

record case_record =
  cr_case_id :: string
  cr_title :: string
  cr_case_type :: string
  cr_case_severity :: string
  cr_status :: alert_status
  cr_owner :: "string option"
  cr_playbook :: string
  cr_slaHours :: int
  cr_created :: string
  cr_alertCount :: nat
  cr_case_description :: string
  cr_entities :: "(string \<times> string) list"
  cr_warRoom :: "war_entry list"
  cr_tasks :: "case_task list"
  cr_evidence :: "evidence_item list"
  cr_tier :: "nat option"
  cr_tierName :: "string option"
  cr_outcome :: "string option"
  cr_conclusion :: "string option"

definition CASE_OUTCOMES :: "string list" where
  "CASE_OUTCOMES = [''true-positive'', ''false-positive'', ''benign'', ''inconclusive'']"

definition DEFAULT_TIERS :: "(nat \<times> string \<times> nat) list" where
  "DEFAULT_TIERS = [(1, ''L1 '' @ [CHR 0xB7] @ '' Triage'', 4), (2, ''L2 '' @ [CHR 0xB7] @ '' Investigation'', 24),
     (3, ''L3 '' @ [CHR 0xB7] @ '' Threat research'', 72)]"

subsection \<open>The drawer of a case\<close>

record case_detail =
  cd_case :: case_record
  cd_tab :: string
  cd_tasks :: "case_task list"
  cd_warRoom :: "war_entry list"
  cd_evidence :: "evidence_item list"
  cd_note :: string
  cd_tierState :: "(nat \<times> (nat \<times> string \<times> nat) list) option"
  cd_escalating :: bool
  cd_concluding :: bool
  cd_reloaded :: bool
  cd_calls :: "call list"

definition open_case :: "case_record \<Rightarrow> case_detail" where
  "open_case c = \<lparr>cd_case = c, cd_tab = ''overview'', cd_tasks = cr_tasks c, cd_warRoom = cr_warRoom c,
     cd_evidence = cr_evidence c, cd_note = [], cd_tierState = None, cd_escalating = False,
     cd_concluding = False, cd_reloaded = False, cd_calls = []\<rparr>"

definition send_case :: "call \<Rightarrow> case_detail \<Rightarrow> case_detail" where
  "send_case k d = d\<lparr>cd_calls := cd_calls d @ [k]\<rparr>"

text \<open>The result of \<open>window.prompt\<close> is an argument; \<^term>\<open>None\<close> is a cancelled dialog.\<close>

definition conclude :: "string \<Rightarrow> string option \<Rightarrow> case_detail \<Rightarrow> case_detail" where
  "conclude outcome answer d =
     (if cd_concluding d then d
      else case answer of
        None \<Rightarrow> d
      | Some t \<Rightarrow> if trim t = [] then d
          else send_case (concludeCase (cr_case_id (cd_case d)) outcome (trim t) None) (d\<lparr>cd_concluding := True\<rparr>))"

definition concluded :: "bool \<Rightarrow> case_detail \<Rightarrow> case_detail" where
  "concluded ok d = d\<lparr>cd_concluding := False, cd_reloaded := cd_reloaded d \<or> ok\<rparr>"

definition blank_to_none :: "string option \<Rightarrow> string option" where
  "blank_to_none x = (if x = Some [] then None else x)"

definition handOff :: "nat \<Rightarrow> string option \<Rightarrow> string option \<Rightarrow> case_detail \<Rightarrow> case_detail" where
  "handOff toTier note owner d =
     (if cd_escalating d then d
      else send_case (escalateCase (cr_case_id (cd_case d)) (of_nat toTier) (blank_to_none owner) (blank_to_none note))
             (d\<lparr>cd_escalating := True\<rparr>))"

text \<open>After the hand-off the tiers are fetched again; the button is locked until that is answered.\<close>

definition handed_off :: "(nat \<times> (nat \<times> string \<times> nat) list) option \<Rightarrow> case_detail \<Rightarrow> case_detail" where
  "handed_off r d = d\<lparr>cd_escalating := False, cd_tierState := (case r of Some t \<Rightarrow> Some t | None \<Rightarrow> cd_tierState d)\<rparr>"

definition tier_buttons :: "case_detail \<Rightarrow> (string \<times> bool) list" where
  "tier_buttons d =
     (let tiers = (case cd_tierState d of Some (_, ts) \<Rightarrow> ts | None \<Rightarrow> DEFAULT_TIERS);
          now = (case cd_tierState d of Some (t, _) \<Rightarrow> t
                 | None \<Rightarrow> (case cr_tier (cd_case d) of Some t \<Rightarrow> t | None \<Rightarrow> 1))
      in map (\<lambda>(t, n, h). (n, \<not> (now = t \<or> cd_escalating d))) tiers)"

text \<open>A task advances on a click; the edit is shown at once and taken back when it is refused.\<close>

definition next_status :: "task_status \<Rightarrow> task_status" where
  "next_status s = (if s = TaskDone then TaskPending else if s = TaskInProgress then TaskDone else TaskInProgress)"

definition put_status :: "string \<Rightarrow> task_status \<Rightarrow> case_task list \<Rightarrow> case_task list" where
  "put_status i v ts = map (\<lambda>t. if ct_id t = i then t\<lparr>ct_status := v\<rparr> else t) ts"

definition find_task :: "string \<Rightarrow> case_task list \<Rightarrow> case_task option" where
  "find_task i ts = find (\<lambda>t. ct_id t = i) ts"

definition cycleTask :: "string \<Rightarrow> case_detail \<Rightarrow> case_detail" where
  "cycleTask i d =
     (case find_task i (cd_tasks d) of
        None \<Rightarrow> d
      | Some t \<Rightarrow>
          let nxt = next_status (ct_status t) in
          send_case (patchCaseTask (cr_case_id (cd_case d)) i (JObj [(''status'', JStr (task_text nxt))]))
            (d\<lparr>cd_tasks := put_status i nxt (cd_tasks d)\<rparr>))"

definition task_refused :: "string \<Rightarrow> task_status \<Rightarrow> case_detail \<Rightarrow> case_detail" where
  "task_refused i old d = d\<lparr>cd_tasks := put_status i old (cd_tasks d)\<rparr>"

definition addNote :: "int \<Rightarrow> case_detail \<Rightarrow> case_detail" where
  "addNote now d =
     (let t = trim (cd_note d) in
      if t = [] then d
      else send_case (addCaseNote (cr_case_id (cd_case d)) t None)
        (d\<lparr>cd_warRoom := cd_warRoom d @ [\<lparr>we_ts = toISOString now, we_actor = ''you'', we_type = ''manual'', we_content = t\<rparr>],
           cd_note := []\<rparr>))"

definition note_answered :: "war_entry list option \<Rightarrow> case_detail \<Rightarrow> case_detail" where
  "note_answered r d = (case r of Some w \<Rightarrow> d\<lparr>cd_warRoom := w\<rparr> | None \<Rightarrow> d)"

definition add_evidence :: "string option \<Rightarrow> string option \<Rightarrow> case_detail \<Rightarrow> case_detail" where
  "add_evidence name content d =
     (case name of
        None \<Rightarrow> d
      | Some n \<Rightarrow> if trim n = [] then d
          else send_case (addCaseEvidence (cr_case_id (cd_case d)) (JObj [(''name'', JStr (trim n)), (''type'', JStr ''file''),
            (''content'', JStr (case content of Some c \<Rightarrow> c | None \<Rightarrow> []))])) d)"

definition evidence_answered :: "evidence_item list option \<Rightarrow> case_detail \<Rightarrow> case_detail" where
  "evidence_answered r d = (case r of Some e \<Rightarrow> d\<lparr>cd_evidence := e\<rparr> | None \<Rightarrow> d)"

definition detailTabs :: "bool \<Rightarrow> string list" where
  "detailTabs simplified = (if simplified then [''overview'', ''tasks''] else [''overview'', ''warroom'', ''tasks'', ''evidence''])"

text \<open>The labels of the tabs count the tasks and the evidence of the case the drawer was opened
  with; the progress line counts the tasks on screen.\<close>

definition tab_counts :: "case_detail \<Rightarrow> nat \<times> nat" where
  "tab_counts d = (count_of (\<lambda>t. ct_status t \<noteq> TaskDone) (cr_tasks (cd_case d)), length (cr_evidence (cd_case d)))"

definition doneCount :: "case_detail \<Rightarrow> nat" where
  "doneCount d = count_of (\<lambda>t. ct_status t = TaskDone) (cd_tasks d)"

text \<open>Tasks grouped by phase, in the order in which the phases first occur.\<close>

definition by_phase :: "case_task list \<Rightarrow> (string \<times> case_task list) list" where
  "by_phase ts = map (\<lambda>p. (p, filter (\<lambda>t. ct_phase t = p) ts)) (uniq (map ct_phase ts))"

subsection \<open>Affected systems\<close>

text \<open>Counts per value, most frequent first. Object keys that look like array indices would be
  enumerated before the others; host names, addresses and users do not.\<close>

definition tally :: "string list \<Rightarrow> (string \<times> nat) list" where
  "tally vs = map (\<lambda>v. (v, count_of ((=) v) vs)) (uniq vs)"

definition rank_counts :: "(string \<times> nat) list \<Rightarrow> (string \<times> nat) list" where
  "rank_counts m = js_sort (\<lambda>x y. of_int (int (snd y) - int (snd x))) m"

definition affected :: "string option list \<Rightarrow> (string \<times> nat) list" where
  "affected vs = rank_counts (tally (filter (\<lambda>v. v \<noteq> []) (map (case_option [] id) vs)))"

subsection \<open>The board of the Normal mode\<close>

definition SOAR_COLS :: "(string \<times> alert_status list) list" where
  "SOAR_COLS = [(''New'', [New]), (''In Progress'', [Assigned, InProgress, PendingSt]), (''Resolved'', [ResolvedSt, Closed])]"

definition case_board :: "case_record list \<Rightarrow> (string \<times> case_record list) list" where
  "case_board cs = map (\<lambda>(l, sts). (l, filter (\<lambda>c. cr_status c \<in> set sts) cs)) SOAR_COLS"

subsection \<open>The new-case dialog\<close>

record new_case =
  nc_title :: string
  nc_severity :: string
  nc_type :: string
  nc_description :: string
  nc_submitting :: bool
  nc_failed :: bool
  nc_open :: bool

definition new_case_init :: new_case where
  "new_case_init = \<lparr>nc_title = [], nc_severity = ''medium'', nc_type = ''Investigation'', nc_description = [],
     nc_submitting = False, nc_failed = False, nc_open = True\<rparr>"

definition new_case_body :: "new_case \<Rightarrow> json" where
  "new_case_body f = JObj [(''title'', JStr (trim (nc_title f))), (''severity'', JStr (nc_severity f)),
     (''type'', JStr (nc_type f)), (''description'', JStr (trim (nc_description f)))]"

definition submit_case :: "new_case \<Rightarrow> new_case \<times> call option" where
  "submit_case f =
     (if trim (nc_title f) = [] \<or> nc_submitting f then (f, None)
      else (f\<lparr>nc_submitting := True, nc_failed := False\<rparr>, Some (createCase (new_case_body f))))"

definition case_created :: "bool \<Rightarrow> new_case \<Rightarrow> new_case" where
  "case_created ok f = (if ok then f\<lparr>nc_open := False\<rparr> else f\<lparr>nc_failed := True, nc_submitting := False\<rparr>)"

subsection \<open>Service levels stand still\<close>

lemma sla_now_eq: "sla_now = 1731427200000"
  by code_simp

lemma js_mul_nonpos: "x \<le> 0 \<Longrightarrow> 0 \<le> y \<Longrightarrow> js_mul x y \<le> 0"
  using fl_mono [of "x * y" 0] by (simp add: js_mul_def mult_nonpos_nonneg)

lemma js_div_nonpos: "x \<le> 0 \<Longrightarrow> 0 \<le> y \<Longrightarrow> js_div x y \<le> 0"
  using fl_mono [of "x / y" 0] by (simp add: js_div_def divide_nonpos_nonneg)

lemma left_not_breached: "xs @ ''m left'' \<noteq> ''SLA BREACHED''"
proof
  assume "xs @ ''m left'' = ''SLA BREACHED''"
  then have "last (xs @ ''m left'') = last ''SLA BREACHED''" by (rule arg_cong)
  then show False by simp
qed

text \<open>The service level is measured against a fixed day of November 2024: no case opened since
  is ever shown as breached, its bar stays empty and safe, and its age is shown as zero or
  negative, however long it has been open. Cases from before are breached by their hours.\<close>

theorem sla_clock_frozen:
  assumes "date_parse tz created = Some t" "0 < h"
  shows "(sla_now \<le> t \<longrightarrow> slaPercent tz created h = Some 0 \<and> slaLabel tz created h \<noteq> ''SLA BREACHED''
           \<and> (\<exists>n \<le> 0. row_age tz created = int_str n @ ''m ago''))
       \<and> (t + h * 3600000 \<le> sla_now \<longrightarrow> slaLabel tz created h = ''SLA BREACHED'')"
proof -
  have "js_mul (js_div (of_int (sla_now - t)) (of_int (h * 3600000))) 100 \<le> 0" if "sla_now \<le> t"
    using that assms(2) by (intro js_mul_nonpos js_div_nonpos) auto
  then have "sla_now \<le> t \<longrightarrow> slaPercent tz created h = Some 0"
    using assms by (auto simp: slaPercent_def Let_def mult.commute)
  moreover have "sla_now \<le> t \<longrightarrow> slaLabel tz created h \<noteq> ''SLA BREACHED''"
    using assms left_not_breached by (auto simp: slaLabel_def Let_def)
  moreover have "sla_now \<le> t \<longrightarrow> (\<exists>n \<le> 0. row_age tz created = int_str n @ ''m ago'')"
    using assms by (auto simp: row_age_def intro!: exI [of _ "(sla_now - t) div 60000"])
  ultimately show ?thesis using assms by (auto simp: slaLabel_def Let_def)
qed

theorem sla_clock_frozen_witness:
  "slaPercent 0 ''2026-01-01T00:00:00Z'' 4 = Some 0 \<and> slaLabel 0 ''2024-11-01T00:00:00Z'' 4 = ''SLA BREACHED''"
proof -
  have "date_parse 0 ''2026-01-01T00:00:00Z'' = Some 1767225600000" "date_parse 0 ''2024-11-01T00:00:00Z'' = Some 1730419200000"
    by code_simp+
  with sla_clock_frozen [of 0 "''2026-01-01T00:00:00Z''" 1767225600000 4]
    sla_clock_frozen [of 0 "''2024-11-01T00:00:00Z''" 1730419200000 4]
  show ?thesis by (simp add: sla_now_eq)
qed

subsection \<open>Tasks\<close>

lemma put_status_put [simp]: "put_status i v (put_status i w ts) = put_status i v ts"
  by (simp add: put_status_def)

lemma put_status_same:
  "distinct (map ct_id ts) \<Longrightarrow> find_task i ts = Some t \<Longrightarrow> put_status i (ct_status t) ts = ts"
  unfolding find_task_def put_status_def find_Some_iff
  by (intro map_idI) (auto, metis case_task.surjective case_task.update_convs(4) distinct_map inj_onD nth_mem)

lemma find_task_put: "find_task i ts = Some t \<Longrightarrow> find_task i (put_status i v ts) = Some (t\<lparr>ct_status := v\<rparr>)"
  unfolding find_task_def put_status_def by (induction ts) (auto split: if_splits)

text \<open>A refused click on a task is taken back exactly. But the state it goes back to is the one
  of that click: when the task has been clicked again meanwhile, the later edit disappears from
  the screen although the backend was sent it last and may have accepted it.\<close>

theorem task_rollback:
  assumes "distinct (map ct_id (cd_tasks d))" "find_task i (cd_tasks d) = Some t"
  shows "cd_tasks (task_refused i (ct_status t) (cycleTask i d)) = cd_tasks d
       \<and> cd_tasks (task_refused i (ct_status t) (cycleTask i (cycleTask i d))) = cd_tasks d
       \<and> last (cd_calls (cycleTask i (cycleTask i d))) =
           patchCaseTask (cr_case_id (cd_case d)) i (JObj [(''status'', JStr (task_text (next_status (next_status (ct_status t)))))])"
  using assms put_status_same [OF assms]
  by (simp add: cycleTask_def task_refused_def send_case_def Let_def find_task_put)

definition sample_case :: case_record where
  "sample_case = \<lparr>cr_case_id = ''CASE-1'', cr_title = ''Phish'', cr_case_type = ''Phishing'', cr_case_severity = ''high'',
     cr_status = New, cr_owner = None, cr_playbook = ''none'', cr_slaHours = 4, cr_created = ''2026-01-01'', cr_alertCount = 1,
     cr_case_description = [], cr_entities = [], cr_warRoom = [],
     cr_tasks = [\<lparr>ct_id = ''t1'', ct_phase = ''Triage'', ct_name = ''Call user'', ct_status = TaskPending, ct_assignee = None, ct_notes = []\<rparr>],
     cr_evidence = [], cr_tier = None, cr_tierName = None, cr_outcome = None, cr_conclusion = None\<rparr>"

theorem task_rollback_witness:
  "map ct_status (cd_tasks (task_refused ''t1'' TaskPending (cycleTask ''t1'' (cycleTask ''t1'' (open_case sample_case))))) = [TaskPending]"
  using task_rollback [of "open_case sample_case" "''t1''"] by (simp add: open_case_def sample_case_def find_task_def)

subsection \<open>Requests of the drawer\<close>

datatype case_op = Conclude string "string option" | Concluded bool | HandOff nat "string option" "string option"
  | HandedOff "(nat \<times> (nat \<times> string \<times> nat) list) option" | CycleTask string | TaskRefused string task_status
  | TypeNote string | AddNote int | NoteAnswered "war_entry list option" | AddEvidence "string option" "string option"
  | EvidenceAnswered "evidence_item list option"

fun case_step :: "case_op \<Rightarrow> case_detail \<Rightarrow> case_detail" where
  "case_step (Conclude o' a) d = conclude o' a d"
| "case_step (Concluded ok) d = concluded ok d"
| "case_step (HandOff n a b) d = handOff n a b d"
| "case_step (HandedOff r) d = handed_off r d"
| "case_step (CycleTask i) d = cycleTask i d"
| "case_step (TaskRefused i v) d = task_refused i v d"
| "case_step (TypeNote t) d = d\<lparr>cd_note := t\<rparr>"
| "case_step (AddNote now) d = addNote now d"
| "case_step (NoteAnswered r) d = note_answered r d"
| "case_step (AddEvidence n c) d = add_evidence n c d"
| "case_step (EvidenceAnswered r) d = evidence_answered r d"

definition case_run :: "case_op list \<Rightarrow> case_record \<Rightarrow> case_detail" where
  "case_run ops c = fold case_step ops (open_case c)"

text \<open>A conclusion request carries a finding, and a note its text.\<close>

definition call_ok :: "call \<Rightarrow> bool" where
  "call_ok k \<longleftrightarrow> (case c_body k of Some b \<Rightarrow>
      (case json_get ''conclusion'' b of JStr t \<Rightarrow> trim t \<noteq> [] | _ \<Rightarrow> True)
      \<and> (json_get ''outcome'' b \<noteq> JUndef \<longrightarrow> (\<exists>t. json_get ''conclusion'' b = JStr t))
    | None \<Rightarrow> True)"

definition conclusions :: "case_detail \<Rightarrow> nat" where
  "conclusions d = count_of (\<lambda>k. case c_body k of Some b \<Rightarrow> json_get ''outcome'' b \<noteq> JUndef | None \<Rightarrow> False) (cd_calls d)"

lemma case_bodies:
  "c_body (concludeCase i o' t None) = Some (JObj [(''outcome'', JStr o'), (''conclusion'', JStr t), (''close'', JBool True)])"
  "c_body (escalateCase i n a b) = Some (JObj [(''to_tier'', JNum n), (''to_owner'', jopt JStr a), (''note'', jopt JStr b)])"
  "c_body (patchCaseTask i j b') = Some b'"
  "c_body (addCaseNote i t None) = Some (JObj [(''content'', JStr t), (''type'', JStr ''manual'')])"
  "c_body (addCaseEvidence i b') = Some b'"
  by (simp_all add: concludeCase_def escalateCase_def patchCaseTask_def addCaseNote_def addCaseEvidence_def default_def Let_def)

definition answers :: "case_op list \<Rightarrow> nat" where
  "answers ops = count_of (\<lambda>op. case op of Concluded _ \<Rightarrow> True | _ \<Rightarrow> False) ops"

lemma case_step_inv:
  assumes "\<forall>k \<in> set (cd_calls d). call_ok k" "conclusions d \<le> n + (if cd_concluding d then 1 else 0)"
  shows "(\<forall>k \<in> set (cd_calls (case_step op d)). call_ok k)
    \<and> conclusions (case_step op d) \<le> n + answers [op] + (if cd_concluding (case_step op d) then 1 else 0)"
  using assms
  by (cases op) (auto simp: conclude_def concluded_def handOff_def handed_off_def cycleTask_def task_refused_def addNote_def
    note_answered_def add_evidence_def evidence_answered_def send_case_def call_ok_def conclusions_def answers_def count_of_def
    case_bodies obj_get_def Let_def split: option.splits json.splits if_splits)

text \<open>C12: A case is never concluded without a finding, and the conclusion is not sent a second time
  before the first was answered: whatever is clicked and answered, every request that sets an
  outcome carries a text that is not blank, and there are at most one more of them than answers.\<close>

theorem conclusion_has_finding:
  "(\<forall>k \<in> set (cd_calls (case_run ops c)). call_ok k) \<and> conclusions (case_run ops c) \<le> answers ops + 1"
proof -
  have "(\<forall>k \<in> set (cd_calls (fold case_step ops d)). call_ok k)
    \<and> conclusions (fold case_step ops d) \<le> n + answers ops + (if cd_concluding (fold case_step ops d) then 1 else 0)"
    if "\<forall>k \<in> set (cd_calls d). call_ok k" "conclusions d \<le> n + (if cd_concluding d then 1 else 0)" for d n
    using that
  proof (induction ops arbitrary: d n)
    case (Cons op ops)
    note s = case_step_inv [OF Cons.prems, of op]
    have "answers (op # ops) = answers [op] + answers ops" by (simp add: answers_def count_of_def)
    then show ?case using Cons.IH [OF s [THEN conjunct1] s [THEN conjunct2]] by (simp add: add.assoc)
  qed (simp add: answers_def count_of_def)
  from this [of "open_case c" 0] show ?thesis
    by (auto simp: case_run_def open_case_def conclusions_def count_of_def split: if_splits)
qed

theorem conclusion_has_finding_witness:
  "conclusions (case_run [Conclude ''benign'' (Some ''test mail''), Conclude ''benign'' (Some ''again'')] sample_case) \<le> 1
   \<and> \<not> call_ok (concludeCase ''CASE-1'' ''benign'' '' '' None)"
proof
  show "conclusions (case_run [Conclude ''benign'' (Some ''test mail''), Conclude ''benign'' (Some ''again'')] sample_case) \<le> 1"
    using conclusion_has_finding [of "[Conclude ''benign'' (Some ''test mail''), Conclude ''benign'' (Some ''again'')]" sample_case]
    by (simp add: answers_def count_of_def)
  have "trim '' '' = []" by code_simp
  then show "\<not> call_ok (concludeCase ''CASE-1'' ''benign'' '' '' None)" by (simp add: call_ok_def case_bodies obj_get_def)
qed

subsection \<open>Board and ranking\<close>

lemma filter_sum: "(\<Sum>v\<leftarrow>uniq xs. count_of ((=) v) xs) = length xs"
proof -
  have "(\<Sum>v\<leftarrow>uniq xs. count_of ((=) v) xs) = (\<Sum>v \<in> set xs. count_of ((=) v) xs)"
    by (simp add: sum_list_distinct_conv_sum_set)
  also have "\<dots> = length xs" by (simp add: count_of_def sum_count_set [of xs "set xs"] flip: count_list_eq_length_filter)
  finally show ?thesis .
qed

text \<open>The board loses no case and shows none twice: every case is on exactly one column, by its
  state. The affected systems are ranked by alerts, each distinct value once, with exactly the
  number of alerts that name it, and every alert that names one is counted.\<close>

theorem case_board_and_ranking:
  "mset (concat (map snd (case_board cs))) = mset cs
   \<and> (let vs = filter (\<lambda>v. v \<noteq> []) (map (case_option [] id) xs); r = affected xs in
      distinct (map fst r) \<and> sorted_wrt (\<ge>) (map snd r) \<and> set r = {(v, count_list vs v) |v. v \<in> set vs}
      \<and> sum_list (map snd r) = length vs)"
proof -
  have "mset (concat (map snd (case_board cs))) = mset cs"
  proof (induction cs)
    case (Cons c cs)
    then show ?case by (cases "cr_status c") (auto simp: case_board_def SOAR_COLS_def)
  qed (simp add: case_board_def SOAR_COLS_def)
  moreover define vs where "vs = filter (\<lambda>v. v \<noteq> []) (map (case_option [] id) xs)"
  have r: "affected xs = sort_key (\<lambda>p. - int (snd p)) (tally vs)"
    unfolding affected_def rank_counts_def vs_def [symmetric] by (rule js_sort_int_desc)
  have "sorted (map (\<lambda>p. - int (snd p)) (affected xs))" by (simp add: r)
  then have "sorted_wrt (\<ge>) (map snd (affected xs))" by (simp add: sorted_wrt_map)
  moreover have "distinct (map fst (affected xs))"
    by (simp add: affected_def rank_counts_def tally_def comp_def)
  moreover have "set (affected xs) = {(v, count_list vs v) |v. v \<in> set vs}"
    by (auto simp: r tally_def count_of_def count_list_eq_length_filter)
  moreover have "sum_list (map snd (affected xs)) = length vs"
  proof -
    have "mset (map snd (affected xs)) = mset (map snd (tally vs))" by (simp add: r)
    then have "sum_list (map snd (affected xs)) = sum_list (map snd (tally vs))" by (metis sum_mset_sum_list)
    then show ?thesis by (simp add: tally_def comp_def filter_sum)
  qed
  ultimately show ?thesis by (simp add: vs_def Let_def)
qed

end
