(* ===== verification/SoarPage.thy ===== *)
theory SoarPage
  imports SoarCases ApiClient
begin

text \<open>
  The SOAR page itself (\<open>SOARPage\<close> of \<open>app/dashboard/soar/page.tsx\<close>): the lists of cases and playbooks
  it keeps between answers, the link to one case, the execution of a playbook and what its steps
  show, and the figures of the header and the metrics tab.
\<close>

subsection \<open>Playbooks\<close>

datatype step_status = StepIdle | StepRunning | StepCompleted | StepFailed | StepSkipped
datatype pb_status = PbIdle | PbRunning | PbCompleted | PbFailed

record pb_step =
  bs_name :: string
  bs_type :: step_type
  bs_status :: step_status
  bs_duration :: "string option"

record playbook_card =
  pc_id :: string
  pc_name :: string
  pc_trigger :: string
  pc_runs :: nat
  pc_successRate :: rat
  pc_status :: pb_status
  pc_steps :: "pb_step list"

text \<open>The run record of the backend: its status and the status of each step that has one.\<close>

record run_record =
  rr_status :: string
  rr_steps :: "(nat \<times> string) list"

definition mapStatus :: "string option \<Rightarrow> step_status" where
  "mapStatus s =
     (if s = Some ''success'' then StepCompleted
      else if s = Some ''failed'' then StepFailed
      else if s = Some ''skipped'' then StepSkipped
      else if s = Some ''pending-approval'' then StepRunning
      else StepCompleted)"

definition step_record :: "run_record option \<Rightarrow> nat \<Rightarrow> string option" where
  "step_record run j = (case run of None \<Rightarrow> None | Some r \<Rightarrow> map_option snd (find (\<lambda>x. fst x = j) (rr_steps r)))"

definition set_steps :: "step_status \<Rightarrow> pb_step list \<Rightarrow> pb_step list" where
  "set_steps v ss = map (\<lambda>s. s\<lparr>bs_status := v\<rparr>) ss"

definition start_run :: "playbook_card \<Rightarrow> playbook_card" where
  "start_run p = p\<lparr>pc_status := PbRunning,
     pc_steps := map (\<lambda>s. s\<lparr>bs_status := StepRunning, bs_duration := None\<rparr>) (pc_steps p)\<rparr>"

definition finish_run :: "nat option \<Rightarrow> run_record option \<Rightarrow> playbook_card \<Rightarrow> playbook_card" where
  "finish_run runs run p = p\<lparr>pc_runs := (case runs of Some n \<Rightarrow> n | None \<Rightarrow> pc_runs p),
     pc_status := (if map_option rr_status run = Some ''awaiting-approval'' then PbRunning else PbCompleted),
     pc_steps := map (\<lambda>(j, s). s\<lparr>bs_status := mapStatus (step_record run j)\<rparr>) (enumerate 0 (pc_steps p))\<rparr>"

definition fail_run :: "playbook_card \<Rightarrow> playbook_card" where
  "fail_run p = p\<lparr>pc_status := PbFailed, pc_steps := set_steps StepFailed (pc_steps p)\<rparr>"

text \<open>What the card says: the word of the status, and the completed steps of a running one.\<close>

definition card_word :: "playbook_card \<Rightarrow> string" where
  "card_word p = (case pc_status p of PbRunning \<Rightarrow> ''Running'' | PbIdle \<Rightarrow> ''idle''
     | PbCompleted \<Rightarrow> ''completed'' | PbFailed \<Rightarrow> ''failed'')"

definition completedSteps :: "playbook_card \<Rightarrow> nat" where
  "completedSteps p = count_of (\<lambda>s. bs_status s = StepCompleted) (pc_steps p)"

subsection \<open>The page\<close>

record soar_metrics =
  sm_openCases :: nat
  sm_criticalOpen :: nat
  sm_mttr :: rat
  sm_mttrTrendPct :: "rat option"
  sm_automationRate :: rat
  sm_automationTrendPp :: "rat option"
  sm_timeSavedMonth :: rat
  sm_runsMonth :: nat
  sm_playbooksToday :: nat
  sm_avgPlaybookTime :: rat
  sm_casesClosedWeek :: nat
  sm_slaBreached :: "nat option"

record soar_page =
  so_tab :: string
  so_cases :: "case_record list"
  so_casesFailed :: bool
  so_casesPending :: bool
  so_selectedCase :: "case_record option"
  so_selectedPB :: "string option"
  so_playbooks :: "playbook_card list"
  so_loadedCases :: bool
  so_loadedPlaybooks :: bool
  so_playbooksFailed :: bool
  so_metrics :: "soar_metrics option"
  so_linked :: bool
  so_runs :: "string list"

definition soar_init :: soar_page where
  "soar_init = \<lparr>so_tab = ''cases'', so_cases = [], so_casesFailed = False, so_casesPending = True,
     so_selectedCase = None, so_selectedPB = None, so_playbooks = [], so_loadedCases = False,
     so_loadedPlaybooks = False, so_playbooksFailed = False, so_metrics = None, so_linked = False, so_runs = []\<rparr>"

definition case_link :: "string \<Rightarrow> soar_page \<Rightarrow> soar_page" where
  "case_link query s =
     (if so_linked s \<or> so_cases s = [] then s
      else let s = s\<lparr>so_linked := True\<rparr> in
        case obj_get (parse_params query) ''case'' of
          None \<Rightarrow> s
        | Some i \<Rightarrow> if i = [] then s
            else (case find (\<lambda>c. cr_case_id c = i) (so_cases s) of
                    Some c \<Rightarrow> s\<lparr>so_selectedCase := Some c\<rparr> | None \<Rightarrow> s))"

definition cases_answered :: "string \<Rightarrow> case_record list option \<Rightarrow> soar_page \<Rightarrow> soar_page" where
  "cases_answered query r s =
     (case r of
        Some cs \<Rightarrow> case_link query (s\<lparr>so_cases := cs, so_loadedCases := True, so_casesPending := False\<rparr>)
      | None \<Rightarrow> s\<lparr>so_casesFailed := so_casesFailed s \<or> \<not> so_loadedCases s, so_casesPending := False\<rparr>)"

definition playbooks_loaded :: "playbook_card list option \<Rightarrow> soar_page \<Rightarrow> soar_page" where
  "playbooks_loaded r s =
     (case r of
        Some ps \<Rightarrow> s\<lparr>so_playbooks := ps, so_loadedPlaybooks := True\<rparr>
      | None \<Rightarrow> s\<lparr>so_playbooksFailed := so_playbooksFailed s \<or> \<not> so_loadedPlaybooks s\<rparr>)"

definition handleCreateCase :: "string \<Rightarrow> case_record \<Rightarrow> soar_page \<Rightarrow> soar_page" where
  "handleCreateCase query created s = case_link query (s\<lparr>so_cases := created # so_cases s\<rparr>)"

definition click_case :: "case_record \<Rightarrow> soar_page \<Rightarrow> soar_page" where
  "click_case c s = s\<lparr>so_selectedCase :=
     (if map_option cr_case_id (so_selectedCase s) = Some (cr_case_id c) then None else Some c)\<rparr>"

definition click_playbook :: "string \<Rightarrow> soar_page \<Rightarrow> soar_page" where
  "click_playbook i s = s\<lparr>so_selectedPB := (if so_selectedPB s = Some i then None else Some i)\<rparr>"

definition on_playbook :: "string \<Rightarrow> (playbook_card \<Rightarrow> playbook_card) \<Rightarrow> soar_page \<Rightarrow> soar_page" where
  "on_playbook i f s = s\<lparr>so_playbooks := map (\<lambda>p. if pc_id p \<noteq> i then p else f p) (so_playbooks s)\<rparr>"

text \<open>\<open>so_runs\<close> records the executions asked of the backend.\<close>

definition simulateRun :: "string \<Rightarrow> soar_page \<Rightarrow> soar_page" where
  "simulateRun i s =
     (case find (\<lambda>p. pc_id p = i) (so_playbooks s) of
        None \<Rightarrow> s
      | Some p \<Rightarrow> if pc_status p = PbRunning then s
          else on_playbook i start_run (s\<lparr>so_selectedPB := Some i, so_runs := so_runs s @ [i]\<rparr>))"

definition run_answered :: "string \<Rightarrow> (nat option \<times> run_record option) option \<Rightarrow> soar_page \<Rightarrow> soar_page" where
  "run_answered i r s =
     (case r of Some (runs, run) \<Rightarrow> on_playbook i (finish_run runs run) s | None \<Rightarrow> on_playbook i fail_run s)"

datatype soar_op = CasesAnswer "case_record list option" | PlaybooksAnswer "playbook_card list option"
  | MetricsAnswer soar_metrics | Created case_record | ClickCase case_record | ClickPlaybook string
  | Run string | RunAnswer string "(nat option \<times> run_record option) option" | OpenSoarTab string

fun soar_step :: "string \<Rightarrow> bool \<Rightarrow> soar_op \<Rightarrow> soar_page \<Rightarrow> soar_page" where
  "soar_step q n (CasesAnswer r) s = cases_answered q r s"
| "soar_step q n (PlaybooksAnswer r) s = playbooks_loaded r s"
| "soar_step q n (MetricsAnswer m) s = s\<lparr>so_metrics := Some m\<rparr>"
| "soar_step q n (Created c) s = handleCreateCase q c s"
| "soar_step q n (ClickCase c) s = click_case c s"
| "soar_step q n (ClickPlaybook i) s = click_playbook i s"
| "soar_step q n (Run i) s = simulateRun i s"
| "soar_step q n (RunAnswer i r) s = run_answered i r s"
| "soar_step q n (OpenSoarTab t) s = s\<lparr>so_tab := (if n then ''cases'' else t)\<rparr>"

subsection \<open>Figures\<close>

definition trend_note :: "string \<Rightarrow> rat option \<Rightarrow> string" where
  "trend_note unit v = (case v of
      Some x \<Rightarrow> (if x > 0 then ''+'' else []) @ num_str x @ unit @ '' vs prior week''
    | None \<Rightarrow> ''no prior-week baseline'')"

definition mttr_trend :: "rat option \<Rightarrow> string option" where
  "mttr_trend v = (case v of None \<Rightarrow> None | Some x \<Rightarrow> Some (if x < 0 then ''down'' else ''up''))"

definition automation_trend :: "rat option \<Rightarrow> string option" where
  "automation_trend v = (case v of None \<Rightarrow> None | Some x \<Rightarrow> Some (if x > 0 then ''up'' else ''down''))"

text \<open>The case types of the last thirty days; a creation time that does not parse is never older
  than the limit.\<close>

definition type_label :: "string \<Rightarrow> string" where
  "type_label t = (if trim t = [] then ''Uncategorised'' else trim t)"

definition recent_case :: "int \<Rightarrow> int \<Rightarrow> case_record \<Rightarrow> bool" where
  "recent_case now tz c = (case date_parse tz (cr_created c) of
      Some t \<Rightarrow> \<not> t < now - 30 * 24 * 3600 * 1000 | None \<Rightarrow> True)"

definition cases_by_type :: "int \<Rightarrow> int \<Rightarrow> case_record list \<Rightarrow> (string \<times> nat) list" where
  "cases_by_type now tz cs =
     take 7 (rank_counts (tally (map (type_label \<circ> cr_case_type) (filter (recent_case now tz) cs))))"

definition type_width :: "(string \<times> nat) list \<Rightarrow> nat \<Rightarrow> rat" where
  "type_width rows c = js_mul (js_div (of_nat c) (of_nat (case rows of [] \<Rightarrow> 1 | r # _ \<Rightarrow> snd r))) 100"

definition sla_compliance :: "soar_metrics option \<Rightarrow> int option" where
  "sla_compliance m =
     (case m of
        None \<Rightarrow> None
      | Some m \<Rightarrow> if sm_openCases m > 0
          then Some (js_round (js_mul (js_sub 1 (js_div (of_nat (case sm_slaBreached m of Some b \<Rightarrow> b | None \<Rightarrow> 0)) (of_nat (sm_openCases m)))) 100))
          else Some 100)"

text \<open>The success rates arrive as percentages; rates up to 1 are taken for fractions once more.\<close>

definition rate_percent :: "rat \<Rightarrow> rat" where
  "rate_percent r = (if r \<le> 1 then js_mul r 100 else r)"

definition pbSuccess :: "playbook_card list \<Rightarrow> int option" where
  "pbSuccess ps = (if ps = [] then None
     else Some (js_round (js_div (js_sum (map (rate_percent \<circ> pc_successRate) ps)) (of_nat (length ps)))))"

definition fmtMin :: "rat option \<Rightarrow> string" where
  "fmtMin m =
     (case m of
        None \<Rightarrow> ''-''
      | Some m \<Rightarrow> if m \<ge> 60 then int_str (js_floor (js_div m 60)) @ ''h '' @ two_digits (js_round (js_mod m 60)) @ ''m''
          else to_fixed 1 m @ ''m'')"

definition soar_kpis :: "soar_page \<Rightarrow> (string \<times> string \<times> bool) list" where
  "soar_kpis s =
     (let m = so_metrics s; sla = sla_compliance m; pb = pbSuccess (so_playbooks s) in
      [(''Mean Time to Respond (MTTR)'', fmtMin (map_option sm_mttr m), case m of Some m \<Rightarrow> sm_mttr m < 240 | None \<Rightarrow> False),
       (''Cases Created'', int_str (int (length (so_cases s))), True),
       (''Cases Resolved'', int_str (int (count_of (\<lambda>c. cr_status c \<in> set [ResolvedSt, Closed]) (so_cases s))), True),
       (''SLA Compliance'', case sla of Some v \<Rightarrow> int_str v @ ''%'' | None \<Rightarrow> ''-'', case sla of Some v \<Rightarrow> v \<ge> 95 | None \<Rightarrow> False),
       (''Automation Rate'', case m of Some m \<Rightarrow> int_str (js_round (sm_automationRate m)) @ ''%'' | None \<Rightarrow> ''-'',
          case m of Some m \<Rightarrow> sm_automationRate m > 60 | None \<Rightarrow> False),
       (''Playbook Success Rate'', case pb of Some v \<Rightarrow> int_str v @ ''%'' | None \<Rightarrow> ''-'', case pb of Some v \<Rightarrow> v \<ge> 90 | None \<Rightarrow> False),
       (''Avg Playbook Execution Time'', case m of Some m \<Rightarrow> num_str (sm_avgPlaybookTime m) @ ''s'' | None \<Rightarrow> ''-'', True)])"

subsection \<open>Runs\<close>

lemma find_on_playbook:
  assumes "\<And>p. pc_id (f p) = pc_id p"
  shows "find (\<lambda>p. pc_id p = k) (so_playbooks (on_playbook i f s)) =
    (if k = i then map_option f (find (\<lambda>p. pc_id p = i) (so_playbooks s)) else find (\<lambda>p. pc_id p = k) (so_playbooks s))"
proof -
  have "find (\<lambda>p. pc_id p = k) (map (\<lambda>p. if pc_id p \<noteq> i then p else f p) ps) =
    (if k = i then map_option f (find (\<lambda>p. pc_id p = i) ps) else find (\<lambda>p. pc_id p = k) ps)" for ps
    using assms by (induction ps) auto
  then show ?thesis by (simp add: on_playbook_def)
qed

lemma run_ids [simp]: "pc_id (start_run p) = pc_id p" "pc_id (finish_run a b p) = pc_id p" "pc_id (fail_run p) = pc_id p"
  by (simp_all add: start_run_def finish_run_def fail_run_def)

lemma nth_finish: "j < length (pc_steps p) \<Longrightarrow>
    bs_status (pc_steps (finish_run runs run p) ! j) = mapStatus (step_record run j)"
  by (simp add: finish_run_def nth_enumerate_eq)

text \<open>The steps of an executed playbook show the status the run record has for them. A step
  without a record is shown as completed: a run that waits for an approval has none for the steps
  after it, so the steps that have not been executed are shown as done. The card itself says
  completed for a run that failed.\<close>

theorem unrun_steps_completed:
  assumes "find (\<lambda>p. pc_id p = i) (so_playbooks s) = Some p" "j < length (pc_steps p)"
    and "find (\<lambda>p. pc_id p = i) (so_playbooks (run_answered i (Some (n, Some r)) s)) = Some p'"
  shows "(\<forall>st. (j, st) \<in> set (rr_steps r) \<longrightarrow> distinct (map fst (rr_steps r)) \<longrightarrow> bs_status (pc_steps p' ! j) = mapStatus (Some st))
       \<and> (j \<notin> fst ` set (rr_steps r) \<longrightarrow> bs_status (pc_steps p' ! j) = StepCompleted)
       \<and> (rr_status r = ''failed'' \<longrightarrow> card_word p' = ''completed'')"
proof -
  have p': "p' = finish_run n (Some r) p"
    using assms by (simp add: run_answered_def find_on_playbook)
  have "step_record (Some r) j = None" if "j \<notin> fst ` set (rr_steps r)"
    using that by (force simp: step_record_def find_None_iff)
  moreover have "step_record (Some r) j = Some st" if "(j, st) \<in> set (rr_steps r)" "distinct (map fst (rr_steps r))" for st
  proof -
    have "find (\<lambda>x. fst x = j) xs = Some (j, st)" if "(j, st) \<in> set xs" "distinct (map fst xs)" for xs
      using that by (induction xs) (auto simp: image_iff)
    then show ?thesis using that by (simp add: step_record_def)
  qed
  ultimately show ?thesis using assms(2)
    by (auto simp: p' nth_finish mapStatus_def) (simp_all add: card_word_def finish_run_def)
qed

definition sample_playbook :: playbook_card where
  "sample_playbook = \<lparr>pc_id = ''pb'', pc_name = ''Isolate host'', pc_trigger = [], pc_runs = 0, pc_successRate = 80, pc_status = PbIdle,
     pc_steps = [\<lparr>bs_name = ''Approve'', bs_type = HumanStep, bs_status = StepIdle, bs_duration = None\<rparr>,
                 \<lparr>bs_name = ''Isolate'', bs_type = ActionStep, bs_status = StepIdle, bs_duration = None\<rparr>]\<rparr>"

theorem unrun_steps_completed_witness:
  "bs_status (pc_steps (hd (so_playbooks (run_answered ''pb'' (Some (None, Some \<lparr>rr_status = ''awaiting-approval'', rr_steps = [(0, ''pending-approval'')]\<rparr>))
     (soar_init\<lparr>so_playbooks := [sample_playbook]\<rparr>)))) ! 1) = StepCompleted"
  (is "bs_status (pc_steps (hd (so_playbooks ?s)) ! 1) = _")
proof -
  have "find (\<lambda>p. pc_id p = ''pb'') (so_playbooks ?s) = Some (hd (so_playbooks ?s))"
    by (simp add: run_answered_def on_playbook_def finish_run_def sample_playbook_def)
  from unrun_steps_completed [OF _ _ this, of sample_playbook 1] show ?thesis
    by (simp add: sample_playbook_def)
qed

definition run_requests :: "string \<Rightarrow> soar_page \<Rightarrow> nat" where
  "run_requests i s = count_of ((=) i) (so_runs s)"

definition reopens :: "string \<Rightarrow> soar_op \<Rightarrow> bool" where
  "reopens i op = (case op of RunAnswer j _ \<Rightarrow> j = i | PlaybooksAnswer (Some _) \<Rightarrow> True | _ \<Rightarrow> False)"

definition is_running :: "string \<Rightarrow> soar_page \<Rightarrow> bool" where
  "is_running i s = (\<exists>p. find (\<lambda>p. pc_id p = i) (so_playbooks s) = Some p \<and> pc_status p = PbRunning)"

lemma run_step:
  assumes "\<not> reopens i op"
  shows "(is_running i s \<longrightarrow> is_running i (soar_step q n op s) \<and> run_requests i (soar_step q n op s) = run_requests i s)
    \<and> (run_requests i (soar_step q n op s) = run_requests i s
       \<or> run_requests i (soar_step q n op s) = run_requests i s + 1 \<and> is_running i (soar_step q n op s))"
proof -
  have link: "so_playbooks (case_link q s) = so_playbooks s" "so_runs (case_link q s) = so_runs s" for s
    by (simp_all add: case_link_def Let_def split: option.splits)
  have same: "so_runs (on_playbook j f s) = so_runs s" for j f s by (simp add: on_playbook_def)
  show ?thesis
  proof (cases op)
    case (CasesAnswer r)
    then show ?thesis by (auto simp: cases_answered_def link is_running_def run_requests_def split: option.splits)
  next
    case (PlaybooksAnswer r)
    then show ?thesis using assms
      by (auto simp: playbooks_loaded_def reopens_def is_running_def run_requests_def split: option.splits)
  next
    case (Run j)
    show ?thesis
    proof (cases "find (\<lambda>p. pc_id p = j) (so_playbooks s)")
      case (Some p)
      then show ?thesis using Run
        by (cases "pc_status p = PbRunning"; cases "i = j")
          (auto simp: simulateRun_def is_running_def run_requests_def find_on_playbook same start_run_def count_of_def)
    qed (simp add: Run simulateRun_def)
  next
    case (RunAnswer j r)
    then show ?thesis using assms
      by (auto simp: run_answered_def reopens_def is_running_def run_requests_def find_on_playbook same split: option.splits)
  qed (auto simp: is_running_def run_requests_def handleCreateCase_def link click_case_def click_playbook_def)
qed

text \<open>A playbook is not started again while it runs: as long as neither an answer for it nor a
  new list has come, at most one execution of it is asked for, however often it is clicked, and
  none when it was running already.\<close>

theorem playbook_not_run_twice:
  assumes "\<forall>op \<in> set ops. \<not> reopens i op"
  shows "run_requests i (fold (soar_step q n) ops s) \<le> run_requests i s + 1
       \<and> (is_running i s \<longrightarrow> run_requests i (fold (soar_step q n) ops s) = run_requests i s)"
  using assms
proof (induction ops arbitrary: s)
  case (Cons op ops)
  then have "\<not> reopens i op" by simp
  from run_step [OF this, of s q n] Cons.IH [of "soar_step q n op s"] Cons.prems show ?case by auto
qed simp

theorem playbook_not_run_twice_witness:
  "run_requests ''pb'' (fold (soar_step [] False) [Run ''pb'', ClickPlaybook ''pb'', Run ''pb'', Run ''pb''] (soar_init\<lparr>so_playbooks := [sample_playbook]\<rparr>)) \<le> 1"
  using playbook_not_run_twice [of "[Run ''pb'', ClickPlaybook ''pb'', Run ''pb'', Run ''pb'']" "''pb''" "[]" False
    "soar_init\<lparr>so_playbooks := [sample_playbook]\<rparr>"]
  by (simp add: reopens_def run_requests_def soar_init_def count_of_def)

text \<open>The metrics: a success rate of one per cent or less counts a hundredfold, the compliance
  is a percentage, the case types are at most seven rows in falling order with bars within their
  track, and an average of minutes just below two hours is written as one hour and 60 minutes.\<close>

theorem soar_figures:
  "(0 < r \<longrightarrow> r \<le> 1 \<longrightarrow> pbSuccess [sample_playbook\<lparr>pc_successRate := r\<rparr>] = Some (js_round (js_div (js_add 0 (js_mul r 100)) 1)))
   \<and> pbSuccess [sample_playbook\<lparr>pc_successRate := 1\<rparr>] = Some 100
   \<and> (let rows = cases_by_type now tz cs in length rows \<le> 7 \<and> sorted_wrt (\<ge>) (map snd rows)
        \<and> (\<forall>(t, c) \<in> set rows. 0 \<le> type_width rows c \<and> type_width rows c \<le> 100))
   \<and> fmtMin (Some (fl (1197 / 10))) = ''1h 60m''"
proof -
  let ?all = "rank_counts (tally (map (type_label \<circ> cr_case_type) (filter (recent_case now tz) cs)))"
  have "sorted (map (\<lambda>p. - int (snd p)) ?all)" unfolding rank_counts_def js_sort_int_desc by (rule sorted_sort_key)
  then have sa: "sorted_wrt (\<ge>) (map snd ?all)" by (simp add: sorted_wrt_map)
  then have s7: "sorted_wrt (\<ge>) (map snd (take 7 ?all))" by (metis sorted_wrt_take take_map)
  have pos: "0 < c" if "(t, c) \<in> set ?all" for t c
    using that by (auto simp: rank_counts_def tally_def count_of_def filter_empty_conv)
  have top: "c \<le> snd (hd rows)" if "sorted_wrt (\<ge>) (map snd rows)" "(t, c) \<in> set rows" for rows :: "(string \<times> nat) list" and t c
    using that by (cases rows) auto
  have "0 \<le> type_width rows c \<and> type_width rows c \<le> 100" if r: "rows = take 7 ?all" "(t, c) \<in> set rows" for rows t c
  proof -
    have le: "c \<le> snd (hd rows)" using top [OF s7] r by blast
    have "0 < c" using r pos by (meson in_set_takeD)
    moreover have "rows \<noteq> []" using r(2) by auto
    ultimately show ?thesis using le js_percent_bounds [of "of_nat c" "of_nat (snd (hd rows))"]
      by (cases rows) (auto simp: type_width_def)
  qed
  then have "\<forall>(t, c) \<in> set (cases_by_type now tz cs). 0 \<le> type_width (cases_by_type now tz cs) c \<and> type_width (cases_by_type now tz cs) c \<le> 100"
    by (auto simp: cases_by_type_def)
  moreover have "fmtMin (Some (fl (1197 / 10))) = ''1h 60m''" by code_simp
  moreover have "pbSuccess [sample_playbook\<lparr>pc_successRate := 1\<rparr>] = Some 100" by code_simp
  ultimately show ?thesis using s7 by (auto simp: cases_by_type_def pbSuccess_def rate_percent_def js_sum_def Let_def)
qed

theorem soar_figures_witness: "length (cases_by_type 0 0 [sample_case]) \<le> 7"
  using soar_figures [of 1 0 0 "[sample_case]"] by (simp add: Let_def)

end
