(* ===== verification/Overview.thy ===== *)
theory Overview
  imports SiemQueue "HOL-Library.Product_Lexorder"
begin

text \<open>
  The overview of the dashboard (\<open>app/dashboard/page.tsx\<close>): the security posture and its pillars, the
  ranked vulnerabilities and alerts, the live feed with its pause button, and the figures and
  colours of the panels.
\<close>

subsection \<open>Security posture\<close>

record overview_kpis =
  ok_threats :: nat
  ok_iocs :: nat
  ok_sources :: nat
  ok_score :: rat
  ok_assetsAssessed :: nat

record incident =
  in_id :: string
  in_title :: string
  in_severity :: string
  in_status :: string

text \<open>Of the SOAR metrics the page uses the open cases, the breached ones and the rate.\<close>

record soar_summary =
  ss_openCases :: nat
  ss_slaBreached :: "nat option"
  ss_automationRate :: rat

definition clamp100 :: "rat \<Rightarrow> int" where "clamp100 n = max 0 (min 100 (js_round n))"

definition open_incidents :: "incident list \<Rightarrow> incident list" where
  "open_incidents is = filter (\<lambda>i. in_status i \<notin> set [''resolved'', ''closed'']) is"

definition breaches :: "soar_summary option \<Rightarrow> nat" where
  "breaches soar = (case soar of Some s \<Rightarrow> (case ss_slaBreached s of Some n \<Rightarrow> n | None \<Rightarrow> 0) | None \<Rightarrow> 0)"

definition posture_score :: "overview_kpis \<Rightarrow> siem_kpis option \<Rightarrow> soar_summary option \<Rightarrow> incident list \<Rightarrow> int" where
  "posture_score k siem soar incs =
     (let openInc = open_incidents incs;
          openCritInc = count_of (\<lambda>i. in_severity i = ''critical'') openInc;
          prevention = js_sub 100 (ok_score k);
          criticalAlerts = (case siem of Some s \<Rightarrow> kp_critical s | None \<Rightarrow> 0);
          threatPen = min 45 (ok_threats k * 5 + criticalAlerts * 4);
          incPen = min 20 (length openInc * 4 + openCritInc * 4);
          slaPen = min 15 (breaches soar * 5)
      in clamp100 (js_sub (js_sub (js_sub prevention (of_nat threatPen)) (of_nat incPen)) (of_nat slaPen)))"

definition posture_band :: "int \<Rightarrow> string" where
  "posture_band score = (if score \<ge> 80 then ''Strong'' else if score \<ge> 60 then ''Good'' else if score \<ge> 40 then ''At risk'' else ''Critical'')"

definition posture_color :: "int \<Rightarrow> string" where
  "posture_color score = (if score \<ge> 60 then ''text-safe'' else if score \<ge> 40 then ''text-amber'' else ''text-threat'')"

definition computePosture :: "overview_kpis \<Rightarrow> siem_kpis option \<Rightarrow> soar_summary option \<Rightarrow> incident list \<Rightarrow> int \<times> string \<times> string" where
  "computePosture k siem soar incs =
     (let score = posture_score k siem soar incs in (score, posture_band score, posture_color score))"

text \<open>The pillars of the Normal mode; \<^term>\<open>None\<close> is "not assessed".\<close>

definition preventionScore :: "overview_kpis \<Rightarrow> int option" where
  "preventionScore k = (if ok_assetsAssessed k > 0 then Some (clamp100 (js_sub 100 (ok_score k))) else None)"

definition pillars :: "overview_kpis \<Rightarrow> siem_kpis option \<Rightarrow> soar_summary option \<Rightarrow> (string \<times> int option) list" where
  "pillars k siem soar =
     [(''Detection'', case siem of Some s \<Rightarrow> Some (clamp100 (js_sub 100 (kp_fpRate s))) | None \<Rightarrow> preventionScore k),
      (''Response'', case soar of
          Some s \<Rightarrow> if ss_openCases s > 0
            then Some (clamp100 (js_mul (js_sub 1 (js_div (of_nat (breaches soar)) (of_nat (ss_openCases s)))) 100))
            else Some 100
        | None \<Rightarrow> preventionScore k),
      (''Prevention'', preventionScore k)]"

definition pillar_color :: "int option \<Rightarrow> string" where
  "pillar_color p = (case p of None \<Rightarrow> ''text-ink-500'' | Some s \<Rightarrow> posture_color s)"

subsection \<open>Ranked lists\<close>

record fleet_vuln =
  fv_cve :: string
  fv_severity :: string
  fv_cvss :: rat
  fv_kev :: bool
  fv_exploit :: bool

text \<open>\<open>a || b || c\<close> on numbers.\<close>

definition or_num :: "rat \<Rightarrow> rat \<Rightarrow> rat" where "or_num a b = (if a = 0 then b else a)"

definition cve_cmp :: "fleet_vuln \<Rightarrow> fleet_vuln \<Rightarrow> rat" where
  "cve_cmp a b = or_num (of_bool (fv_kev b) - of_bool (fv_kev a))
     (or_num (of_bool (fv_exploit b) - of_bool (fv_exploit a)) (fv_cvss b - fv_cvss a))"

definition trending_cves :: "fleet_vuln list \<Rightarrow> fleet_vuln list" where
  "trending_cves rows = take 5 (js_sort cve_cmp rows)"

definition cve_tag :: "fleet_vuln \<Rightarrow> string" where
  "cve_tag v = (if fv_kev v then ''KEV'' else if fv_exploit v then ''Exploit''
     else if fv_severity v \<noteq> [] then fv_severity v else ''CVE'')"

definition cve_color :: "fleet_vuln \<Rightarrow> string" where
  "cve_color v = (if fv_cvss v \<ge> 9 then tk Magenta else if fv_cvss v \<ge> 7 then tk Threat else tk Amber)"

record overview_alert =
  oa_id :: string
  oa_title :: string
  oa_severity :: string
  oa_src :: string
  oa_time :: string

definition sevRank :: "(string, nat) obj" where
  "sevRank = [(''critical'', 4), (''high'', 3), (''medium'', 2), (''low'', 1), (''info'', 0)]"

definition sev_rank_of :: "string \<Rightarrow> nat" where
  "sev_rank_of s = (case obj_get sevRank s of Some r \<Rightarrow> r | None \<Rightarrow> 0)"

definition topAlerts :: "overview_alert list \<Rightarrow> overview_alert list" where
  "topAlerts as = take 5 (js_sort (\<lambda>a b. of_int (int (sev_rank_of (oa_severity b)) - int (sev_rank_of (oa_severity a)))) as)"

text \<open>The card of alerts to review shows the length of that list, or of all when it is empty.\<close>

definition pending_review :: "overview_alert list \<Rightarrow> nat" where
  "pending_review as = (if length (topAlerts as) \<noteq> 0 then length (topAlerts as) else length as)"

definition timeAgo_overview :: "int \<Rightarrow> int \<Rightarrow> string \<Rightarrow> string" where
  "timeAgo_overview now tz ts =
     (case ms_diff (Some now) (date_parse tz ts) of
        None \<Rightarrow> ''NaNd ago''
      | Some ms \<Rightarrow>
          let diff = js_div (of_int ms) 1000 in
          if diff < 60 then int_str (js_floor diff) @ ''s ago''
          else if diff < 3600 then int_str (js_floor (js_div diff 60)) @ ''m ago''
          else if diff < 86400 then int_str (js_floor (js_div diff 3600)) @ ''h ago''
          else int_str (js_floor (js_div diff 86400)) @ ''d ago'')"

definition intel_items :: "int \<Rightarrow> int \<Rightarrow> overview_alert list \<Rightarrow> (string \<times> string \<times> string \<times> string) list" where
  "intel_items now tz as = map (\<lambda>a. (oa_title a, oa_severity a, timeAgo_overview now tz (oa_time a), oa_src a)) (take 4 as)"

subsection \<open>Panels\<close>

definition STATUS_COLOR :: "(string, string) obj" where
  "STATUS_COLOR = [(''active'', tk Magenta), (''triaged'', tk Amber), (''open'', tk Threat), (''in-progress'', tk Amber),
     (''resolved'', tk Safe), (''closed'', tk Safe)]"

definition incidents_open_label :: "incident list \<Rightarrow> nat" where
  "incidents_open_label is = count_of (\<lambda>i. in_status i = ''active'' \<or> in_status i = ''open'') is"

definition share_pct :: "nat \<Rightarrow> nat \<Rightarrow> int" where
  "share_pct c tot = js_round (js_mul (js_div (of_nat c) (of_nat tot)) 100)"

definition severity_bar :: "incident list \<Rightarrow> int list" where
  "severity_bar is =
     (let n = (\<lambda>v. count_of (\<lambda>i. in_severity i = v) is); tot = (if is = [] then 1 else length is);
          c = share_pct (n ''critical'') tot; h = share_pct (n ''high'') tot; m = share_pct (n ''medium'') tot
      in [c, h, m, max 0 (100 - c - h - m)])"

definition RISK_AXIS_META :: "(string, string \<times> string) obj" where
  "RISK_AXIS_META = [(''vulnerability'', ''Vulnerabilities'', tk Magenta), (''exposure'', ''Exposure'', tk Amber),
     (''patch'', ''Patch Hygiene'', tk Violet), (''alerts'', ''Alert Pressure'', tk Threat)]"

definition driver_label :: "string option \<Rightarrow> string" where
  "driver_label d = (case d of Some a \<Rightarrow> (case obj_get RISK_AXIS_META a of Some (l, c) \<Rightarrow> l | None \<Rightarrow> a) | None \<Rightarrow> ''-'')"

definition timeline_data :: "nat list \<Rightarrow> nat list" where
  "timeline_data hourly = (if length hourly = 24 then hourly else replicate 24 0)"

definition timeline_height :: "nat list \<Rightarrow> nat \<Rightarrow> rat" where
  "timeline_height d v = js_mul (js_div (of_nat v) (of_nat (max_of 1 d))) 100"

definition timeline_color :: "nat \<Rightarrow> string" where
  "timeline_color v = (if v > 50 then tk Magenta else if v > 35 then tk Amber else withAlpha (tk Violet) (1 / 2))"

definition heat_cols :: "nat \<Rightarrow> string list" where
  "heat_cols n = map (\<lambda>i. if i = n - 1 then ''Now'' else ''-'' @ int_str (int (n - 1 - i)) @ ''d'') [0..<n]"

definition heatColor :: "nat \<Rightarrow> nat \<Rightarrow> string" where
  "heatColor maxV v =
     (let t = js_div (of_nat v) (of_nat maxV) in
      if t > fl (8 / 10) then tk Magenta else if t > fl (6 / 10) then tk Threat
      else if t > fl (4 / 10) then tk Amber else if t > fl (2 / 10) then tk Violet
      else ''rgba(255,255,255,0.05)'')"

text \<open>New critical and high alerts today and their change since yesterday.\<close>

definition severeFlow :: "trend_day list option \<Rightarrow> (nat \<times> int) option" where
  "severeFlow t =
     (case t of
        None \<Rightarrow> None
      | Some d \<Rightarrow> if length d < 2 then None
          else let today = td_severe (last d); yday = td_severe (d ! (length d - 2)) in Some (today, int today - int yday))"

definition severe_trend :: "(nat \<times> int) option \<Rightarrow> (string \<times> string) option" where
  "severe_trend f =
     (case f of
        Some (t, d) \<Rightarrow> if d = 0 then None
          else Some (if d > 0 then ''up'' else ''down'', (if d > 0 then ''+'' else []) @ int_str d @ '' new critical/high'')
      | None \<Rightarrow> None)"

definition fmtMin_overview :: "rat option \<Rightarrow> string" where
  "fmtMin_overview m =
     (case m of
        None \<Rightarrow> ''-''
      | Some m \<Rightarrow> if m < 1 then int_str (js_round (js_mul m 60)) @ ''s''
          else int_str (js_floor m) @ ''m '' @ two_digits (js_round (js_mul (js_mod m 1) 60)) @ ''s'')"

definition slaComp :: "soar_summary option \<Rightarrow> string" where
  "slaComp soar =
     (case soar of
        Some s \<Rightarrow> if ss_openCases s > 0
          then int_str (js_round (js_mul (js_sub 1 (js_div (of_nat (breaches soar)) (of_nat (ss_openCases s)))) 100)) @ ''%''
          else ''100%''
      | None \<Rightarrow> ''-'')"

subsection \<open>The live feed\<close>

record feed_item =
  lf_id :: string
  lf_region :: string
  lf_severity :: string

record live_feed =
  fd_items :: "feed_item list"
  fd_paused :: bool
  fd_region :: string
  fd_sev :: string

definition REGIONS :: "string list" where
  "REGIONS = [''All'', ''N. America'', ''S. America'', ''Europe'', ''Africa'', ''Asia'', ''Oceania'']"

definition feed_mount :: "feed_item list \<Rightarrow> live_feed" where
  "feed_mount seed = \<lparr>fd_items = seed, fd_paused = False, fd_region = ''All'', fd_sev = ''All''\<rparr>"

text \<open>A new list from the page, which polls every thirty seconds; an answer of the panel's own poll,
  asked for while it was not paused; and the controls.\<close>

datatype feed_op = Seed "feed_item list" | Polled "feed_item list" | TogglePause | PickRegion string | PickFeedSev string

fun feed_step :: "feed_op \<Rightarrow> live_feed \<Rightarrow> live_feed" where
  "feed_step (Seed xs) f = f\<lparr>fd_items := xs\<rparr>"
| "feed_step (Polled xs) f = f\<lparr>fd_items := xs\<rparr>"
| "feed_step TogglePause f = f\<lparr>fd_paused := \<not> fd_paused f\<rparr>"
| "feed_step (PickRegion r) f = f\<lparr>fd_region := r\<rparr>"
| "feed_step (PickFeedSev v) f = f\<lparr>fd_sev := v\<rparr>"

definition feed_polls :: "live_feed \<Rightarrow> bool" where "feed_polls f \<longleftrightarrow> \<not> fd_paused f"

definition feed_filtered :: "live_feed \<Rightarrow> feed_item list" where
  "feed_filtered f = filter (\<lambda>i. (fd_region f = ''All'' \<or> lf_region i = fd_region f) \<and> (fd_sev f = ''All'' \<or> lf_severity i = fd_sev f)) (fd_items f)"

subsection \<open>What the posture says\<close>

lemma clamp100_range: "0 \<le> clamp100 x \<and> clamp100 x \<le> 100"
  by (simp add: clamp100_def)

lemma clamp100_mono: "x \<le> y \<Longrightarrow> clamp100 x \<le> clamp100 y"
  using js_round_mono [of x y] by (simp add: clamp100_def min.coboundedI2 max.coboundedI2)

lemma js_sub_mono: "x \<le> x' \<Longrightarrow> y' \<le> y \<Longrightarrow> js_sub x y \<le> js_sub x' y'"
  unfolding js_sub_def by (intro fl_mono) simp

lemma js_sub_ints: "\<bar>a\<bar> \<le> 1000 \<Longrightarrow> \<bar>b\<bar> \<le> 1000 \<Longrightarrow> js_sub (of_int a) (of_int b) = of_int (a - b)"
  unfolding js_sub_def of_int_diff [symmetric] by (intro fl_of_int) simp

lemma posture_exact:
  assumes "ok_score k = of_int r" "0 \<le> r" "r \<le> 100"
  shows "posture_score k siem soar incs =
        max 0 (100 - r - min 45 (5 * int (ok_threats k) + 4 * int (case siem of Some s \<Rightarrow> kp_critical s | None \<Rightarrow> 0))
          - min 20 (4 * int (length [i \<leftarrow> incs. in_status i \<notin> {''resolved'', ''closed''}])
              + 4 * int (length [i \<leftarrow> incs. in_status i \<notin> {''resolved'', ''closed''} \<and> in_severity i = ''critical'']))
          - min 15 (5 * int (breaches soar)))"
proof -
  define t where "t = min 45 (ok_threats k * 5 + (case siem of Some s \<Rightarrow> kp_critical s | None \<Rightarrow> 0) * 4)"
  define n where "n = min 20 (length (open_incidents incs) * 4 + count_of (\<lambda>i. in_severity i = ''critical'') (open_incidents incs) * 4)"
  define b where "b = min 15 (breaches soar * 5)"
  have sizes: "t \<le> 45" "n \<le> 20" "b \<le> 15" by (simp_all add: t_def n_def b_def)
  have "posture_score k siem soar incs = clamp100 (js_sub (js_sub (js_sub (js_sub 100 (of_int r)) (of_int (int t))) (of_int (int n))) (of_int (int b)))"
    by (simp add: posture_score_def Let_def assms(1) t_def n_def b_def)
  also have "\<dots> = clamp100 (of_int (100 - r - int t - int n - int b))"
    using assms sizes js_sub_ints [of 100 r] by (simp add: js_sub_ints del: of_int_diff of_int_of_nat_eq)
  also have "\<dots> = max 0 (100 - r - int t - int n - int b)"
    using assms sizes by (simp add: clamp100_def del: of_int_diff)
  also have "int t = min 45 (5 * int (ok_threats k) + 4 * int (case siem of Some s \<Rightarrow> kp_critical s | None \<Rightarrow> 0))"
    by (simp add: t_def)
  also have "int n = min 20 (4 * int (length [i \<leftarrow> incs. in_status i \<notin> {''resolved'', ''closed''}])
              + 4 * int (length [i \<leftarrow> incs. in_status i \<notin> {''resolved'', ''closed''} \<and> in_severity i = ''critical'']))"
    by (simp add: n_def open_incidents_def count_of_def conj_commute)
  also have "int b = min 15 (5 * int (breaches soar))" by (simp add: b_def)
  finally show ?thesis .
qed

text \<open>C16: the posture is a percentage, and the words follow the number. For a whole asset risk it is
  exactly what is left of a hundred after the risk, at most 45 points for open threats (five each,
  four more for a critical alert), at most 20 for incidents that are not resolved or closed (four
  each, eight for a critical one) and at most 15 for breaches (five each); for any asset risk no
  rise of one of these raises it. With nothing assessed and nothing known it reads 100 and Strong
  while the prevention pillar says "not assessed".\<close>

theorem posture_sound:
  "(let (s, b, c) = computePosture k siem soar incs in 0 \<le> s \<and> s \<le> 100 \<and> (b = ''Critical'' \<longleftrightarrow> s < 40) \<and> (c = ''text-safe'' \<longleftrightarrow> b \<in> {''Strong'', ''Good''}))
   \<and> (\<forall>r. ok_score k = of_int r \<and> 0 \<le> r \<and> r \<le> 100 \<longrightarrow> fst (computePosture k siem soar incs) =
        max 0 (100 - r - min 45 (5 * int (ok_threats k) + 4 * int (case siem of Some s \<Rightarrow> kp_critical s | None \<Rightarrow> 0))
          - min 20 (4 * int (length [i \<leftarrow> incs. in_status i \<notin> {''resolved'', ''closed''}])
              + 4 * int (length [i \<leftarrow> incs. in_status i \<notin> {''resolved'', ''closed''} \<and> in_severity i = ''critical'']))
          - min 15 (5 * int (breaches soar))))
   \<and> (ok_threats k \<le> ok_threats k' \<and> ok_score k \<le> ok_score k' \<and> breaches soar \<le> breaches soar'
        \<and> (case siem of Some s \<Rightarrow> kp_critical s | None \<Rightarrow> 0) \<le> (case siem' of Some s \<Rightarrow> kp_critical s | None \<Rightarrow> 0)
      \<longrightarrow> posture_score k' siem' soar' (i # incs) \<le> posture_score k siem soar incs)
   \<and> computePosture \<lparr>ok_threats = 0, ok_iocs = 0, ok_sources = 0, ok_score = 0, ok_assetsAssessed = 0\<rparr> None None [] = (100, ''Strong'', ''text-safe'')
   \<and> preventionScore \<lparr>ok_threats = 0, ok_iocs = 0, ok_sources = 0, ok_score = 0, ok_assetsAssessed = 0\<rparr> = None"
proof -
  have a: "let (s, b, c) = computePosture k siem soar incs in 0 \<le> s \<and> s \<le> 100 \<and> (b = ''Critical'' \<longleftrightarrow> s < 40) \<and> (c = ''text-safe'' \<longleftrightarrow> b \<in> {''Strong'', ''Good''})"
    using clamp100_range by (auto simp: computePosture_def posture_score_def posture_band_def posture_color_def Let_def)
  have e: "fst (computePosture k siem soar incs) =
        max 0 (100 - r - min 45 (5 * int (ok_threats k) + 4 * int (case siem of Some s \<Rightarrow> kp_critical s | None \<Rightarrow> 0))
          - min 20 (4 * int (length [i \<leftarrow> incs. in_status i \<notin> {''resolved'', ''closed''}])
              + 4 * int (length [i \<leftarrow> incs. in_status i \<notin> {''resolved'', ''closed''} \<and> in_severity i = ''critical'']))
          - min 15 (5 * int (breaches soar)))"
    if r: "ok_score k = of_int r" "0 \<le> r" "r \<le> 100" for r
    using posture_exact [OF r] by (simp add: computePosture_def Let_def)
  have m: "posture_score k' siem' soar' (i # incs) \<le> posture_score k siem soar incs"
    if "ok_threats k \<le> ok_threats k'" "ok_score k \<le> ok_score k'" "breaches soar \<le> breaches soar'"
      "(case siem of Some s \<Rightarrow> kp_critical s | None \<Rightarrow> 0) \<le> (case siem' of Some s \<Rightarrow> kp_critical s | None \<Rightarrow> 0)"
  proof -
    have n: "of_nat (min c x) \<le> (of_nat (min c y) :: rat)" if "x \<le> y" for c x y :: nat using that by auto
    have "length (open_incidents incs) * 4 + count_of (\<lambda>i. in_severity i = ''critical'') (open_incidents incs) * 4
      \<le> length (open_incidents (i # incs)) * 4 + count_of (\<lambda>i. in_severity i = ''critical'') (open_incidents (i # incs)) * 4"
      by (auto simp: open_incidents_def count_of_def)
    note inc = n [OF this, of 20]
    have thr: "of_nat (min 45 (ok_threats k * 5 + (case siem of Some s \<Rightarrow> kp_critical s | None \<Rightarrow> 0) * 4))
      \<le> (of_nat (min 45 (ok_threats k' * 5 + (case siem' of Some s \<Rightarrow> kp_critical s | None \<Rightarrow> 0) * 4)) :: rat)"
      using that by (intro n add_mono mult_le_mono1)
    have sla: "of_nat (min 15 (breaches soar * 5)) \<le> (of_nat (min 15 (breaches soar' * 5)) :: rat)"
      using that by (intro n mult_le_mono1)
    show ?thesis unfolding posture_score_def Let_def
      by (intro clamp100_mono js_sub_mono thr inc sla order_refl that(2))
  qed
  have "computePosture \<lparr>ok_threats = 0, ok_iocs = 0, ok_sources = 0, ok_score = 0, ok_assetsAssessed = 0\<rparr> None None [] = (100, ''Strong'', ''text-safe'')"
    by code_simp
  with a e m show ?thesis by (simp add: preventionScore_def)
qed

theorem posture_sound_witness:
  "posture_score \<lparr>ok_threats = 2, ok_iocs = 0, ok_sources = 0, ok_score = 10, ok_assetsAssessed = 3\<rparr> None None [\<lparr>in_id = [], in_title = [], in_severity = ''high'', in_status = ''open''\<rparr>]
   \<le> posture_score \<lparr>ok_threats = 1, ok_iocs = 0, ok_sources = 0, ok_score = 10, ok_assetsAssessed = 3\<rparr> None None []
   \<and> fst (computePosture \<lparr>ok_threats = 1, ok_iocs = 0, ok_sources = 0, ok_score = 10, ok_assetsAssessed = 3\<rparr> None None []) = 85"
proof -
  let ?k = "\<lparr>ok_threats = 1, ok_iocs = 0, ok_sources = 0, ok_score = 10, ok_assetsAssessed = 3\<rparr>"
  note p = posture_sound [of ?k None None "[]" "\<lparr>ok_threats = 2, ok_iocs = 0, ok_sources = 0, ok_score = 10, ok_assetsAssessed = 3\<rparr>" None None
      "\<lparr>in_id = [], in_title = [], in_severity = ''high'', in_status = ''open''\<rparr>"]
  then have "fst (computePosture ?k None None []) = 85"
    by (elim conjE, drule_tac x = 10 in spec) (simp add: breaches_def)
  then show ?thesis using p by simp
qed

text \<open>The vulnerabilities shown are the five most pressing: exploited in the wild first, then with
  an exploit, then by score; and the alerts to act on are the five most severe. The number of
  alerts to review is that of this short list, so it never exceeds five.\<close>

theorem overview_ranking:
  "trending_cves rows = take 5 (sort_key (\<lambda>v. (\<not> fv_kev v, \<not> fv_exploit v, - fv_cvss v)) rows)
   \<and> topAlerts as = take 5 (sort_key (\<lambda>a. - int (sev_rank_of (oa_severity a))) as)
   \<and> pending_review as = min 5 (length as)"
proof -
  have "(cve_cmp x y \<le> 0) = ((\<not> fv_kev x, \<not> fv_exploit x, - fv_cvss x) \<le> (\<not> fv_kev y, \<not> fv_exploit y, - fv_cvss y))" for x y
    by (cases "fv_kev x"; cases "fv_kev y"; cases "fv_exploit x"; cases "fv_exploit y") (auto simp: cve_cmp_def or_num_def less_eq_prod_def)
  then have "js_sort cve_cmp rows = sort_key (\<lambda>v. (\<not> fv_kev v, \<not> fv_exploit v, - fv_cvss v)) rows"
    by (intro js_sort_key) simp
  moreover have "topAlerts as = take 5 (sort_key (\<lambda>a. - int (sev_rank_of (oa_severity a))) as)"
    unfolding topAlerts_def js_sort_int_desc by (rule refl)
  moreover have "pending_review as = min 5 (length as)"
    by (auto simp: pending_review_def topAlerts_def)
  ultimately show ?thesis by (simp add: trending_cves_def)
qed

text \<open>Pausing the live feed does not freeze it: the panel asks for nothing while it is paused, but
  every list the page itself polls still replaces the rows, and cuts them to what it asked for.\<close>

theorem paused_feed_changes:
  assumes "fd_paused f"
  shows "\<not> feed_polls f \<and> fd_paused (feed_step (Seed xs) f)
       \<and> feed_filtered (feed_step (Seed xs) f) = filter (\<lambda>i. (fd_region f = ''All'' \<or> lf_region i = fd_region f) \<and> (fd_sev f = ''All'' \<or> lf_severity i = fd_sev f)) xs"
  using assms by (simp add: feed_polls_def feed_filtered_def)

theorem paused_feed_changes_witness:
  "feed_filtered (feed_step (Seed [\<lparr>lf_id = ''n'', lf_region = ''Asia'', lf_severity = ''low''\<rparr>]) (feed_step TogglePause (feed_mount []))) =
   [\<lparr>lf_id = ''n'', lf_region = ''Asia'', lf_severity = ''low''\<rparr>]"
  using paused_feed_changes [of "feed_step TogglePause (feed_mount [])" "[\<lparr>lf_id = ''n'', lf_region = ''Asia'', lf_severity = ''low''\<rparr>]"]
  by (simp add: feed_mount_def)

end
