(* ===== verification/Pricing.thy ===== *)
theory Pricing
  imports JsNumber JsString
begin

text \<open>
  The pricing calculator (\<open>app/pricing/page.tsx\<close>): the modules with their monthly prices, the choice
  of the visitor, the total with the annual discount, the price of each line, and the comparison
  table of the tiers. The animation of the total is presentation and left out.
\<close>

subsection \<open>Modules and tiers\<close>

record module_row =
  md_id :: string
  md_name :: string
  md_price :: int
  md_description :: string
  md_tag :: "string option"
  md_alwaysOn :: bool
  md_color :: string

abbreviation md :: "string \<Rightarrow> string \<Rightarrow> int \<Rightarrow> string \<Rightarrow> string option \<Rightarrow> bool \<Rightarrow> string \<Rightarrow> module_row" where
  "md i n p d t a c \<equiv> \<lparr>md_id = i, md_name = n, md_price = p, md_description = d, md_tag = t, md_alwaysOn = a, md_color = c\<rparr>"

definition MODULES :: "module_row list" where
  "MODULES = [
     md ''intel-scope'' ''IntelScope Scanner'' 0 ''VirusTotal-like threat scanner, IOC lookup, reputation engine'' (Some ''FREE'') True ''#34F5C5'',
     md ''cti'' ''CTI Intelligence'' 149 ''STIX 2.1 threat intel ingestion, actor profiling, threat hunt'' None False ''#FF2E97'',
     md ''threat-feeds'' ''Threat Feeds'' 79 ''Real-time IOC feeds, 200+ sources, MISP integration'' None False ''#7A3CFF'',
     md ''asset-surface'' ''Asset Surface'' 99 ''Asset inventory, CVE tracking, risk scoring'' None False ''#FFB23E'',
     md ''siem'' ''SIEM'' 249 ''Log ingestion, detection rules, alert queue, threat hunt'' None False ''#FF4D6D'',
     md ''soar'' ''SOAR'' 199 ''Case management, playbooks, automation workflows'' None False ''#FF2E97'',
     md ''opencti'' ''OpenCTI Integration'' 89 ''STIX 2.1 push/sync, OpenCTI connector, bi-directional feeds'' None False ''#7A3CFF'',
     md ''asset-alerts'' ''Asset Alerts'' 49 ''Email/Slack/PagerDuty alerts for asset vulnerability changes'' None False ''#FFB23E'',
     md ''dark-web'' ''Dark Web Monitoring'' 129 ''Monitor paste sites, forums, breach data for your assets'' None False ''#FF4D6D'',
     md ''api-access'' ''API Access'' 39 ''REST API + webhook delivery, up to 1M calls/mo'' None False ''#34F5C5'',
     md ''multi-tenant'' ''Multi-tenant'' 199 ''Multiple organizations, role-based access, white-label'' None False ''#7A3CFF''
    ]"

datatype cell = Yes | No | Note string

record tier_feature =
  tf_name :: string
  tf_free :: cell
  tf_starter :: cell
  tf_professional :: cell
  tf_enterprise :: cell

abbreviation tf :: "string \<Rightarrow> cell \<Rightarrow> cell \<Rightarrow> cell \<Rightarrow> cell \<Rightarrow> tier_feature" where
  "tf n a b c d \<equiv> \<lparr>tf_name = n, tf_free = a, tf_starter = b, tf_professional = c, tf_enterprise = d\<rparr>"

definition TIER_FEATURES :: "tier_feature list" where
  "TIER_FEATURES = [
     tf ''IntelScope Scanner'' Yes Yes Yes Yes,
     tf ''CTI Intelligence'' No Yes Yes Yes,
     tf ''Threat Feeds'' No Yes Yes Yes,
     tf ''Asset Surface'' No Yes Yes Yes,
     tf ''SIEM'' No No Yes Yes,
     tf ''SOAR'' No No Yes Yes,
     tf ''OpenCTI Integration'' No No Yes Yes,
     tf ''Asset Alerts'' No Yes Yes Yes,
     tf ''Dark Web Monitoring'' No No Yes Yes,
     tf ''API Access'' No No Yes Yes,
     tf ''Multi-tenant'' No No No Yes,
     tf ''Priority Support'' No No (Note ''48h SLA'') (Note ''4h SLA'')
    ]"

subsection \<open>The calculator\<close>

record calculator =
  ca_selected :: "string list"
  ca_annual :: bool

definition calc_init :: calculator where
  "calc_init = \<lparr>ca_selected = [''intel-scope''], ca_annual = False\<rparr>"

definition toggleModule :: "string \<Rightarrow> calculator \<Rightarrow> calculator" where
  "toggleModule i c = c\<lparr>ca_selected :=
     (if i \<in> set (ca_selected c) then filter (\<lambda>j. j \<noteq> i) (ca_selected c) else ca_selected c @ [i])\<rparr>"

text \<open>A click on the chip of a module; the one that is always on does not react.\<close>

definition click_chip :: "module_row \<Rightarrow> calculator \<Rightarrow> calculator" where
  "click_chip m c = (if md_alwaysOn m then c else toggleModule (md_id m) c)"

definition chosen :: "calculator \<Rightarrow> module_row list" where
  "chosen c = filter (\<lambda>m. md_id m \<in> set (ca_selected c)) MODULES"

definition monthlyTotal :: "calculator \<Rightarrow> int" where
  "monthlyTotal c = sum_list (map md_price (chosen c))"

definition effectiveTotal :: "calculator \<Rightarrow> int" where
  "effectiveTotal c = (if ca_annual c then js_round (js_mul (of_int (monthlyTotal c)) (fl (4 / 5))) else monthlyTotal c)"

definition saving :: "calculator \<Rightarrow> int" where
  "saving c = js_round (js_mul (of_int (monthlyTotal c)) (fl (1 / 5)))"

definition selectedModules :: "calculator \<Rightarrow> module_row list" where
  "selectedModules c = filter (\<lambda>m. md_id m \<in> set (ca_selected c) \<and> md_price m > 0) MODULES"

definition modulePrice :: "bool \<Rightarrow> module_row \<Rightarrow> int" where
  "modulePrice annual m = (if annual then js_round (js_mul (of_int (md_price m)) (fl (4 / 5))) else md_price m)"

text \<open>The lines of the summary, each of which can be removed.\<close>

definition line_prices :: "calculator \<Rightarrow> int list" where
  "line_prices c = map (modulePrice (ca_annual c)) (selectedModules c)"

datatype calc_op = ClickChip module_row | RemoveLine module_row | ToggleAnnual

fun calc_step :: "calc_op \<Rightarrow> calculator \<Rightarrow> calculator" where
  "calc_step (ClickChip m) c = (if m \<in> set MODULES then click_chip m c else c)"
| "calc_step (RemoveLine m) c = (if m \<in> set (selectedModules c) then toggleModule (md_id m) c else c)"
| "calc_step ToggleAnnual c = c\<lparr>ca_annual := \<not> ca_annual c\<rparr>"

subsection \<open>Discounts\<close>

lemma round_tenth: "- 2 \<le> u - 5 * ((2 * u + 5) div 10) \<and> u - 5 * ((2 * u + 5) div 10) \<le> (2 :: int)"
  by presburger

text \<open>A fifth or four fifths of a whole price, in doubles and rounded, is the exact rounding.\<close>

lemma fifths_near:
  assumes "0 \<le> T" "T < 2 ^ 40" "j = 1 \<or> j = 4"
  shows "js_round (js_mul (of_int T) (fl (of_int j / 5))) = (2 * j * T + 5) div 10"
proof -
  define f where "f = fl (of_int j / 5)"
  define e where "e = of_int T * f"
  define k where "k = (2 * j * T + 5) div 10"
  have f: "\<bar>f - of_int j / 5\<bar> \<le> 1 / 2 ^ 53"
  proof -
    have "\<bar>of_int j / 5 :: rat\<bar> \<le> 1" using assms(3) by auto
    then show ?thesis using fl_error [of "of_int j / 5"] unfolding f_def
      by (meson divide_right_mono order_trans zero_le_numeral zero_le_power)
  qed
  have T: "\<bar>of_int T :: rat\<bar> \<le> 2 ^ 40" using assms by (simp flip: of_int_le_iff)
  have d1: "\<bar>e - of_int T * (of_int j / 5)\<bar> \<le> 2 ^ 40 * (1 / 2 ^ 53)"
    unfolding e_def right_diff_distrib [symmetric] abs_mult using T f by (intro mult_mono) auto
  have "\<bar>of_int T * (of_int j / 5) :: rat\<bar> \<le> 2 ^ 40 * 1"
    unfolding abs_mult using T assms(3) by (intro mult_mono) auto
  with d1 have e: "\<bar>e\<bar> \<le> 2 ^ 41" unfolding abs_le_iff by simp
  have "\<bar>fl e - e\<bar> \<le> 2 ^ 41 / 2 ^ 53"
    by (rule order_trans [OF fl_error]) (intro divide_right_mono e, simp)
  moreover have "\<bar>fl e - of_int (j * T) / 5\<bar> \<le> \<bar>fl e - e\<bar> + \<bar>e - of_int T * (of_int j / 5)\<bar>"
    using abs_triangle_ineq [of "fl e - e" "e - of_int T * (of_int j / 5)"] by (simp add: mult.commute)
  ultimately have near: "\<bar>fl e - of_int (j * T) / 5\<bar> < 1 / 10" using d1 by simp
  have "- 2 \<le> j * T - 5 * k" "j * T - 5 * k \<le> 2"
    using round_tenth [of "j * T"] by (simp_all add: k_def mult.assoc)
  then have "- 2 \<le> (of_int (j * T - 5 * k) :: rat)" "(of_int (j * T - 5 * k) :: rat) \<le> 2" by linarith+
  then have "\<bar>of_int (j * T - 5 * k) / 5 :: rat\<bar> \<le> 2 / 5" using abs_le_iff [of "of_int (j * T - 5 * k)" "2 :: rat"] unfolding abs_divide abs_numeral by (intro divide_right_mono) linarith+
  moreover have "fl e - of_int k = (fl e - of_int (j * T) / 5) + of_int (j * T - 5 * k) / 5" by (simp add: diff_divide_distrib)
  ultimately have "\<bar>fl e - of_int k\<bar> < 1 / 2"
    using near abs_triangle_ineq [of "fl e - of_int (j * T) / 5" "of_int (j * T - 5 * k) / 5"] by linarith
  then show ?thesis unfolding js_mul_def f_def [symmetric] e_def [symmetric] k_def [symmetric] by (rule js_round_near)
qed

subsection \<open>Totals\<close>

lemma price_shape: "m \<in> set MODULES \<Longrightarrow> md_price m = 0 \<or> md_price m mod 5 = 4 \<and> 0 < md_price m \<and> md_price m < 250"
proof -
  have "list_all (\<lambda>m. md_price m = 0 \<or> md_price m mod 5 = 4 \<and> 0 < md_price m \<and> md_price m < 250) MODULES"
    by (simp add: MODULES_def)
  then show "m \<in> set MODULES \<Longrightarrow> ?thesis" by (simp add: list_all_iff)
qed

lemma line_discount:
  assumes "m \<in> set MODULES" "md_price m > 0"
  shows "5 * modulePrice True m = 4 * md_price m - 1"
proof -
  have "modulePrice True m = (8 * md_price m + 5) div 10"
    using fifths_near [of "md_price m" 4] price_shape [OF assms(1)] assms(2) by (simp add: modulePrice_def)
  moreover define k where "k = md_price m div 5"
  have "md_price m = 5 * k + 4" using price_shape [OF assms(1)] assms(2) by (simp add: k_def) presburger
  moreover from this have "8 * md_price m + 5 = 7 + (4 * k + 3) * 10" by simp
  then have "(8 * md_price m + 5) div 10 = 4 * k + 3" by simp
  ultimately show ?thesis by simp
qed

lemma shares_add: "((8 :: int) * t + 5) div 10 + (2 * t + 5) div 10 = t"
proof -
  define q r where "q = t div 5" and "r = t mod 5"
  have t: "t = 5 * q + r" by (simp add: q_def r_def)
  have "8 * t + 5 = (8 * r + 5) + (4 * q) * 10" "2 * t + 5 = (2 * r + 5) + q * 10" by (simp_all add: t)
  then have "(8 * t + 5) div 10 = 4 * q + (8 * r + 5) div 10" "(2 * t + 5) div 10 = q + (2 * r + 5) div 10"
    by simp_all
  moreover have "r \<in> {0, 1, 2, 3, 4}" unfolding r_def using pos_mod_bound [of 5 t] pos_mod_sign [of 5 t] by auto
  ultimately show ?thesis by (auto simp: t)
qed

lemma total_above_lines: "5 * l = 4 * t - n \<Longrightarrow> ((8 :: int) * t + 5) div 10 - l = (2 * n + 5) div 10"
proof -
  assume "5 * l = 4 * t - n"
  then have "8 * t + 5 = (2 * n + 5) + l * 10" by simp
  then show ?thesis by simp
qed

lemma modulePrice_monthly [simp]: "modulePrice False = md_price"
  by (rule ext) (simp add: modulePrice_def)

lemma lines_sum:
  assumes "set ms \<subseteq> set MODULES"
  shows "5 * sum_list (map (modulePrice True) (filter (\<lambda>m. md_price m > 0) ms))
    = 4 * sum_list (map md_price ms) - int (length (filter (\<lambda>m. md_price m > 0) ms))"
  using assms
proof (induction ms)
  case (Cons m ms)
  then show ?case using line_discount [of m] price_shape [of m] by auto
qed simp

lemma total_range: "0 \<le> monthlyTotal c \<and> monthlyTotal c \<le> 1280"
proof -
  have "0 \<le> sum_list (map md_price (filter P MODULES)) \<and> sum_list (map md_price (filter P MODULES)) \<le> sum_list (map md_price MODULES)" for P
  proof -
    have "0 \<le> sum_list (map md_price (filter P ms)) \<and> sum_list (map md_price (filter P ms)) \<le> sum_list (map md_price ms)"
      if "\<forall>m \<in> set ms. 0 \<le> md_price m" for ms using that by (induction ms) auto
    then show ?thesis using price_shape by fastforce
  qed
  moreover have "sum_list (map md_price MODULES) = 1280" by (simp add: MODULES_def)
  ultimately show ?thesis unfolding monthlyTotal_def chosen_def by metis
qed

text \<open>C17: whatever is clicked, the free scanner stays chosen; the annual total is the exact rounding
  of four fifths of the monthly one and the total and the advertised saving add up to it. But the
  lines of the summary, rounded one by one, fall short of the total by a fifth of their number:
  three modules already do not add up.\<close>

theorem pricing_totals:
  assumes "c = fold calc_step ops calc_init"
  shows "''intel-scope'' \<in> set (ca_selected c)
       \<and> (\<not> ca_annual c \<longrightarrow> effectiveTotal c = monthlyTotal c \<and> effectiveTotal c = sum_list (line_prices c))
       \<and> (ca_annual c \<longrightarrow> effectiveTotal c = (8 * monthlyTotal c + 5) div 10
            \<and> effectiveTotal c + saving c = monthlyTotal c
            \<and> effectiveTotal c - sum_list (line_prices c) = (2 * int (length (selectedModules c)) + 5) div 10)"
proof -
  have "''intel-scope'' \<in> set (ca_selected (fold calc_step ops c))" if "''intel-scope'' \<in> set (ca_selected c)" for c
    using that
  proof (induction ops arbitrary: c)
    case (Cons op ops)
    have ids: "md_id m = ''intel-scope'' \<longrightarrow> md_alwaysOn m \<and> md_price m = 0" if "m \<in> set MODULES" for m
    proof -
      have "list_all (\<lambda>m. md_id m = ''intel-scope'' \<longrightarrow> md_alwaysOn m \<and> md_price m = 0) MODULES" by (simp add: MODULES_def)
      then show ?thesis using that by (simp add: list_all_iff)
    qed
    have "''intel-scope'' \<in> set (ca_selected (calc_step op c))"
      using Cons.prems ids by (cases op) (auto simp: click_chip_def toggleModule_def selectedModules_def)
    then show ?case using Cons.IH by simp
  qed simp
  then have free: "''intel-scope'' \<in> set (ca_selected c)" using assms by (simp add: calc_init_def)
  have sel: "selectedModules c = filter (\<lambda>m. md_price m > 0) (chosen c)"
    by (simp add: selectedModules_def chosen_def conj_commute)
  have sub: "set (chosen c) \<subseteq> set MODULES" by (auto simp: chosen_def)
  have plain: "sum_list (map md_price (filter (\<lambda>m. md_price m > 0) ms)) = sum_list (map md_price ms)" if "set ms \<subseteq> set MODULES" for ms
    using that price_shape by (induction ms) fastforce+
  have m: "sum_list (line_prices c) = monthlyTotal c" if "\<not> ca_annual c"
    using plain [OF sub] that by (simp add: line_prices_def sel monthlyTotal_def)
  have a: "effectiveTotal c = (8 * monthlyTotal c + 5) div 10" "saving c = (2 * monthlyTotal c + 5) div 10" if "ca_annual c"
    using that fifths_near [of "monthlyTotal c" 4] fifths_near [of "monthlyTotal c" 1] total_range [of c]
    by (simp_all add: effectiveTotal_def saving_def)
  have l: "5 * sum_list (line_prices c) = 4 * monthlyTotal c - int (length (selectedModules c))" if "ca_annual c"
    using lines_sum [OF sub] that by (simp add: line_prices_def sel monthlyTotal_def)
  have "ca_annual c \<longrightarrow> effectiveTotal c + saving c = monthlyTotal c" using a shares_add by simp
  moreover have "ca_annual c \<longrightarrow> effectiveTotal c - sum_list (line_prices c) = (2 * int (length (selectedModules c)) + 5) div 10"
    using a l total_above_lines by simp
  ultimately show ?thesis using free m a by (simp add: effectiveTotal_def)
qed

theorem pricing_totals_witness:
  "\<exists>c. map md_name (selectedModules c) = [''CTI Intelligence'', ''Threat Feeds'', ''Asset Surface''] \<and> effectiveTotal c = 262 \<and> sum_list (line_prices c) = 261"
proof -
  define c where "c = fold calc_step [ToggleAnnual, ClickChip (MODULES ! 1), ClickChip (MODULES ! 2), ClickChip (MODULES ! 3)] calc_init"
  have c: "c = \<lparr>ca_selected = [''intel-scope'', ''cti'', ''threat-feeds'', ''asset-surface''], ca_annual = True\<rparr>"
    by (simp add: c_def MODULES_def click_chip_def toggleModule_def calc_init_def)
  then have "map md_name (selectedModules c) = [''CTI Intelligence'', ''Threat Feeds'', ''Asset Surface'']" "monthlyTotal c = 327"
    by (simp_all add: selectedModules_def monthlyTotal_def chosen_def MODULES_def)
  moreover have "length (selectedModules c) = 3" using calculation(1) by (metis length_map list.size(3,4) One_nat_def numeral_3_eq_3 add.right_neutral add_Suc_right)
  ultimately show ?thesis using pricing_totals [OF c_def] c by (intro exI [of _ c]) simp
qed

end
