(* ===== verification/AssetInventory.thy ===== *)
theory AssetInventory
  imports Helpers JsArray ApiEndpoints
begin

text \<open>
  The asset inventory (\<open>app/dashboard/assets/page.tsx\<close>): the list of assets with its scans, removals
  and additions, all of them shown at once and corrected by the answers of the backend; the filters
  and orders of the table; the open drawer with what is fetched for it; and the figures. The order
  by name uses the browser's \<open>localeCompare\<close>, which is an argument.
\<close>

subsection \<open>Assets\<close>

datatype asset_type = DomainAsset | IpAsset | ServerAsset | CloudAsset | DatabaseAsset | EndpointAsset
datatype scan_status = Clean | Scanning | AtRisk | CriticalStatus | Unscanned

fun asset_type_text :: "asset_type \<Rightarrow> string" where
  "asset_type_text DomainAsset = ''domain''" | "asset_type_text IpAsset = ''ip''"
| "asset_type_text ServerAsset = ''server''" | "asset_type_text CloudAsset = ''cloud''"
| "asset_type_text DatabaseAsset = ''database''" | "asset_type_text EndpointAsset = ''endpoint''"

fun TYPE_META :: "asset_type \<Rightarrow> string \<times> string" where
  "TYPE_META DomainAsset = (''Domain'', tk Violet)" | "TYPE_META IpAsset = (''IP / Host'', tk Teal)"
| "TYPE_META ServerAsset = (''Server'', tk Magenta)" | "TYPE_META CloudAsset = (''Cloud'', tk Amber)"
| "TYPE_META DatabaseAsset = (''Database'', tk Threat)" | "TYPE_META EndpointAsset = (''Endpoint'', tk Safe)"

fun STATUS_META :: "scan_status \<Rightarrow> string \<times> string \<times> string" where
  "STATUS_META Clean = (''Clean'', tk Safe, ''bg-safe/10'')"
| "STATUS_META Scanning = (''Scanning'', tk Violet, ''bg-violet/10'')"
| "STATUS_META AtRisk = (''At Risk'', tk Amber, ''bg-amber/10'')"
| "STATUS_META CriticalStatus = (''Critical'', tk Magenta, ''bg-magenta/10'')"
| "STATUS_META Unscanned = (''Unscanned'', ''#665B7D'', ''bg-white/5'')"

definition CRIT_COLOR :: "(string, string) obj" where
  "CRIT_COLOR = [(''critical'', tk Magenta), (''high'', tk Threat), (''medium'', tk Amber), (''low'', tk Safe)]"

record inventory_asset =
  as_id :: string
  as_name :: string
  as_type :: asset_type
  as_value :: string
  as_criticality :: string
  as_status :: scan_status
  as_riskScore :: int
  as_lastScan :: string
  as_alerts :: nat
  as_cves :: "nat \<times> nat \<times> nat \<times> nat"
  as_openPorts :: "nat list"
  as_os :: "string option"
  as_owner :: "string option"
  as_patchAge :: "nat option"
  as_tags :: "string list"

definition ring_color :: "int \<Rightarrow> string" where
  "ring_color score = (if score \<ge> 70 then ''rgb(var(--magenta))'' else if score \<ge> 40 then ''rgb(var(--amber))'' else ''rgb(var(--safe))'')"

definition cve_badges :: "inventory_asset \<Rightarrow> (string \<times> nat) list" where
  "cve_badges a = (case as_cves a of (c, h, m, l) \<Rightarrow>
     filter (\<lambda>(k, n). n > 0) [(''C'', c), (''H'', h), (''M'', m), (''L'', l)])"

definition shows_no_cves :: "inventory_asset \<Rightarrow> bool" where
  "shows_no_cves a = (case as_cves a of (c, h, m, l) \<Rightarrow> c = 0 \<and> h = 0 \<and> m = 0 \<and> l = 0)"

subsection \<open>The page\<close>

record asset_page =
  ap_assets :: "inventory_asset list"
  ap_total :: nat
  ap_pending :: bool
  ap_failed :: bool
  ap_showAdd :: bool
  ap_search :: string
  ap_type :: "asset_type option"
  ap_crit :: "string option"
  ap_sort :: string
  ap_selected :: "string option"
  ap_breakdown :: "string option"
  ap_recomputing :: bool
  ap_nextId :: nat
  ap_calls :: "call list"

text \<open>Of the risk explanation the drawer shows, the model keeps which asset it was fetched for.\<close>

definition asset_init :: asset_page where
  "asset_init = \<lparr>ap_assets = [], ap_total = 0, ap_pending = True, ap_failed = False, ap_showAdd = False,
     ap_search = [], ap_type = None, ap_crit = None, ap_sort = ''risk'', ap_selected = None,
     ap_breakdown = None, ap_recomputing = False, ap_nextId = 200, ap_calls = []\<rparr>"

definition ask :: "call \<Rightarrow> asset_page \<Rightarrow> asset_page" where
  "ask c s = s\<lparr>ap_calls := ap_calls s @ [c]\<rparr>"

definition assets_answered :: "(inventory_asset list \<times> nat) option \<Rightarrow> asset_page \<Rightarrow> asset_page" where
  "assets_answered r s =
     (case r of
        Some (xs, n) \<Rightarrow> s\<lparr>ap_assets := xs, ap_total := n, ap_pending := False\<rparr>
      | None \<Rightarrow> s\<lparr>ap_failed := True, ap_pending := False\<rparr>)"

definition mark_status :: "string \<Rightarrow> scan_status \<Rightarrow> asset_page \<Rightarrow> asset_page" where
  "mark_status i v s = s\<lparr>ap_assets := map (\<lambda>a. if as_id a = i then a\<lparr>as_status := v\<rparr> else a) (ap_assets s)\<rparr>"

definition scanAsset :: "string \<Rightarrow> asset_page \<Rightarrow> asset_page" where
  "scanAsset i s = ask (scanAssetVulns i) (mark_status i Scanning s)"

text \<open>After a scan the whole list is fetched again; when either request fails the status is reset.\<close>

definition scan_answered :: "string \<Rightarrow> (inventory_asset list \<times> nat) option \<Rightarrow> asset_page \<Rightarrow> asset_page" where
  "scan_answered i r s =
     (case r of
        Some (xs, n) \<Rightarrow> s\<lparr>ap_assets := xs, ap_total := n\<rparr>
      | None \<Rightarrow> mark_status i Unscanned s)"

definition scanAll :: "asset_page \<Rightarrow> (nat \<times> string) list" where
  "scanAll s = map (\<lambda>(i, a). (i * 250, as_id a)) (enumerate 0 (ap_assets s))"

definition removeAsset :: "bool \<Rightarrow> string \<Rightarrow> asset_page \<Rightarrow> asset_page" where
  "removeAsset confirmed i s =
     (if \<not> confirmed then s
      else ask (deleteAsset i) (s\<lparr>ap_assets := filter (\<lambda>a. as_id a \<noteq> i) (ap_assets s),
             ap_selected := (if ap_selected s = Some i then None else ap_selected s)\<rparr>))"

definition remove_refused :: "inventory_asset option \<Rightarrow> asset_page \<Rightarrow> asset_page" where
  "remove_refused a s = (case a of Some a \<Rightarrow> s\<lparr>ap_assets := a # ap_assets s\<rparr> | None \<Rightarrow> s)"

definition local_asset :: "nat \<Rightarrow> string \<Rightarrow> asset_type \<Rightarrow> string \<Rightarrow> string \<Rightarrow> inventory_asset" where
  "local_asset n name ty value crit =
     \<lparr>as_id = CHR ''a'' # int_str (int n), as_name = trim name, as_type = ty, as_value = trim value, as_criticality = crit,
      as_status = Unscanned, as_riskScore = 0, as_lastScan = ''never'', as_alerts = 0, as_cves = (0, 0, 0, 0),
      as_openPorts = [], as_os = None, as_owner = None, as_patchAge = None, as_tags = [''new'']\<rparr>"

definition addAsset :: "string \<Rightarrow> asset_type \<Rightarrow> string \<Rightarrow> string \<Rightarrow> asset_page \<Rightarrow> asset_page" where
  "addAsset name ty value crit s =
     (if trim name = [] \<or> trim value = [] then s
      else ask (createAsset (JObj [(''name'', JStr (trim name)), (''type'', JStr (asset_type_text ty)),
             (''value'', JStr (trim value)), (''criticality'', JStr crit)]))
           (s\<lparr>ap_nextId := ap_nextId s + 1, ap_showAdd := False\<rparr>))"

text \<open>The row that appears: the one of the backend, or on any failure the local one; it is scanned
  shortly after.\<close>

definition add_answered :: "inventory_asset \<Rightarrow> inventory_asset option \<Rightarrow> asset_page \<Rightarrow> asset_page" where
  "add_answered local r s = s\<lparr>ap_assets := (case r of Some a \<Rightarrow> a | None \<Rightarrow> local) # ap_assets s\<rparr>"

definition recomputeRisk :: "asset_page \<Rightarrow> asset_page" where
  "recomputeRisk s = (if ap_recomputing s then s else ask recomputeAssetRisk (s\<lparr>ap_recomputing := True\<rparr>))"

definition recomputed :: "(inventory_asset list \<times> nat) option \<Rightarrow> asset_page \<Rightarrow> asset_page" where
  "recomputed r s =
     (case r of Some (xs, n) \<Rightarrow> s\<lparr>ap_assets := xs, ap_total := n, ap_recomputing := False\<rparr>
      | None \<Rightarrow> s\<lparr>ap_recomputing := False\<rparr>)"

text \<open>Opening an asset asks for its risk explanation; closing the drawer drops it. Answers for an
  asset that is no longer open are ignored.\<close>

definition select_asset :: "string option \<Rightarrow> asset_page \<Rightarrow> asset_page" where
  "select_asset i s =
     (if ap_selected s = i then s
      else case i of
        None \<Rightarrow> s\<lparr>ap_selected := None, ap_breakdown := None\<rparr>
      | Some k \<Rightarrow> ask (fetchAsset k) (s\<lparr>ap_selected := Some k\<rparr>))"

definition breakdown_answered :: "string \<Rightarrow> bool \<Rightarrow> asset_page \<Rightarrow> asset_page" where
  "breakdown_answered i ok s =
     (if ap_selected s = Some i then s\<lparr>ap_breakdown := (if ok then Some i else None)\<rparr> else s)"

definition selectedAsset :: "asset_page \<Rightarrow> inventory_asset option" where
  "selectedAsset s = (case ap_selected s of None \<Rightarrow> None | Some i \<Rightarrow> find (\<lambda>a. as_id a = i) (ap_assets s))"

definition asset_escape :: "asset_page \<Rightarrow> asset_page" where
  "asset_escape s = (if ap_showAdd s then s\<lparr>ap_showAdd := False\<rparr>
     else if ap_selected s \<noteq> None then select_asset None s else s)"

subsection \<open>The table\<close>

definition asset_shown :: "asset_page \<Rightarrow> inventory_asset \<Rightarrow> bool" where
  "asset_shown s a \<longleftrightarrow>
     (case ap_type s of None \<Rightarrow> True | Some t \<Rightarrow> as_type a = t)
     \<and> (case ap_crit s of None \<Rightarrow> True | Some c \<Rightarrow> as_criticality a = c)
     \<and> (ap_search s = [] \<or> str_includes (toLowerCase (as_name a)) (toLowerCase (ap_search s))
        \<or> str_includes (toLowerCase (as_value a)) (toLowerCase (ap_search s)))"

definition cve_weight :: "inventory_asset \<Rightarrow> int" where
  "cve_weight a = (case as_cves a of (c, h, m, l) \<Rightarrow> int c * 10 + int h * 3 + int m)"

definition filtered_assets :: "(string \<Rightarrow> string \<Rightarrow> rat) \<Rightarrow> asset_page \<Rightarrow> inventory_asset list" where
  "filtered_assets lc s =
     (let list = filter (asset_shown s) (ap_assets s) in
      if ap_sort s = ''risk'' then js_sort (\<lambda>a b. of_int (as_riskScore b - as_riskScore a)) list
      else if ap_sort s = ''alerts'' then js_sort (\<lambda>a b. of_int (int (as_alerts b) - int (as_alerts a))) list
      else if ap_sort s = ''name'' then js_sort (\<lambda>a b. lc (as_name a) (as_name b)) list
      else if ap_sort s = ''cves'' then js_sort (\<lambda>a b. of_int (cve_weight b - cve_weight a)) list
      else list)"

subsection \<open>Figures\<close>

definition cve_total :: "inventory_asset \<Rightarrow> nat" where "cve_total a = (case as_cves a of (c, h, m, l) \<Rightarrow> c + h + m + l)"
definition totalCves :: "asset_page \<Rightarrow> nat" where "totalCves s = sum_list (map cve_total (ap_assets s))"
definition criticalCves :: "asset_page \<Rightarrow> nat" where "criticalCves s = sum_list (map (fst \<circ> as_cves) (ap_assets s))"

definition atRisk :: "asset_page \<Rightarrow> nat" where
  "atRisk s = count_of (\<lambda>a. as_status a = CriticalStatus \<or> as_status a = AtRisk) (ap_assets s)"

definition avgRisk :: "asset_page \<Rightarrow> int" where
  "avgRisk s = js_round (js_div (of_int (sum_list (map as_riskScore (ap_assets s))))
     (of_nat (if ap_assets s = [] then 1 else length (ap_assets s))))"

definition total_shown :: "asset_page \<Rightarrow> nat" where
  "total_shown s = (if ap_total s \<noteq> 0 then ap_total s else length (ap_assets s))"

definition patch_age :: "inventory_asset \<Rightarrow> nat" where "patch_age a = (case as_patchAge a of Some n \<Rightarrow> n | None \<Rightarrow> 0)"

definition patch_buckets :: "asset_page \<Rightarrow> nat \<times> nat \<times> nat" where
  "patch_buckets s =
     (count_of (\<lambda>a. patch_age a \<le> 7) (ap_assets s),
      count_of (\<lambda>a. patch_age a > 7 \<and> patch_age a \<le> 30) (ap_assets s),
      count_of (\<lambda>a. patch_age a > 30) (ap_assets s))"

definition top_assets :: "asset_page \<Rightarrow> inventory_asset list" where
  "top_assets s = take 4 (js_sort (\<lambda>a b. of_int (as_riskScore b - as_riskScore a)) (ap_assets s))"

definition ports_text :: "nat \<Rightarrow> inventory_asset \<Rightarrow> string" where
  "ports_text n a = join '', '' (map (int_str \<circ> int) (take n (as_openPorts a)))
     @ (if length (as_openPorts a) > n then '' +'' @ int_str (int (length (as_openPorts a)) - int n) else [])"

subsection \<open>What the page gets right and wrong\<close>

text \<open>The table shows the assets that pass the filters, each once, riskiest, busiest or most
  vulnerable first; equal ones keep the order of the backend.\<close>

theorem asset_table:
  "(ap_sort s = ''risk'' \<longrightarrow> filtered_assets lc s = sort_key (\<lambda>a. - as_riskScore a) (filter (asset_shown s) (ap_assets s)))
   \<and> (ap_sort s = ''alerts'' \<longrightarrow> filtered_assets lc s = sort_key (\<lambda>a. - int (as_alerts a)) (filter (asset_shown s) (ap_assets s)))
   \<and> (ap_sort s = ''cves'' \<longrightarrow> filtered_assets lc s = sort_key (\<lambda>a. - cve_weight a) (filter (asset_shown s) (ap_assets s)))
   \<and> mset (filtered_assets lc s) = filter_mset (asset_shown s) (mset (ap_assets s))"
  unfolding filtered_assets_def Let_def js_sort_int_desc by simp

definition sample_asset :: inventory_asset where
  "sample_asset = (local_asset 1 ''web-1'' ServerAsset ''10.0.0.5'' ''high'')\<lparr>as_status := CriticalStatus, as_riskScore := 90\<rparr>"

theorem asset_table_witness:
  "filtered_assets (\<lambda>_ _. 0) (asset_init\<lparr>ap_assets := [sample_asset\<lparr>as_riskScore := 20\<rparr>, sample_asset]\<rparr>) = [sample_asset, sample_asset\<lparr>as_riskScore := 20\<rparr>]"
  using asset_table [of "asset_init\<lparr>ap_assets := [sample_asset\<lparr>as_riskScore := 20\<rparr>, sample_asset]\<rparr>" "\<lambda>_ _. 0"]
  by (simp add: asset_init_def asset_shown_def sample_asset_def local_asset_def)

text \<open>A scan that fails does not restore the status of the asset, it forgets it: the asset is shown
  as unscanned whatever it was, so a critical one leaves the count of assets at risk.\<close>

theorem scan_failure_forgets_status:
  assumes "a \<in> set (ap_assets s)" "as_status a = CriticalStatus"
  shows "(\<forall>b \<in> set (ap_assets (scan_answered (as_id a) None (scanAsset (as_id a) s))). as_id b = as_id a \<longrightarrow> as_status b = Unscanned)
       \<and> atRisk (scan_answered (as_id a) None (scanAsset (as_id a) s)) < atRisk s"
proof -
  let ?f = "\<lambda>b. if as_id b = as_id a then b\<lparr>as_status := Unscanned\<rparr> else b"
  have e: "ap_assets (scan_answered (as_id a) None (scanAsset (as_id a) s)) = map ?f (ap_assets s)"
    by (simp add: scan_answered_def scanAsset_def ask_def mark_status_def)
  define P where "P = (\<lambda>b :: inventory_asset. as_status b = CriticalStatus \<or> as_status b = AtRisk)"
  have le: "count_of P (map ?f xs) \<le> count_of P xs" for xs
    by (induction xs) (auto simp: count_of_def P_def)
  have "count_of P (map ?f xs) < count_of P xs" if "a \<in> set xs" for xs
    using that
  proof (induction xs)
    case (Cons b xs)
    then show ?case using le [of xs] assms(2) by (cases "b = a") (auto simp: count_of_def P_def)
  qed simp
  with assms(1) show ?thesis by (auto simp: atRisk_def e P_def split: if_splits)
qed

theorem scan_failure_forgets_status_witness:
  "atRisk (scan_answered ''a1'' None (scanAsset ''a1'' (asset_init\<lparr>ap_assets := [sample_asset]\<rparr>))) < 1"
proof -
  have i: "as_id sample_asset = ''a1''" by code_simp
  have "as_status sample_asset = CriticalStatus" by (simp add: sample_asset_def)
  with scan_failure_forgets_status [of sample_asset "asset_init\<lparr>ap_assets := [sample_asset]\<rparr>"] i
  show ?thesis by (simp add: atRisk_def count_of_def)
qed

text \<open>A refused removal brings the asset back, first in the list; a removal that is not confirmed
  does nothing.\<close>

theorem remove_rollback:
  assumes "distinct (map as_id (ap_assets s))" "a \<in> set (ap_assets s)"
  shows "mset (ap_assets (remove_refused (Some a) (removeAsset True (as_id a) s))) = mset (ap_assets s)
       \<and> ap_assets (remove_refused (Some a) (removeAsset True (as_id a) s)) = a # filter (\<lambda>b. as_id b \<noteq> as_id a) (ap_assets s)
       \<and> removeAsset False (as_id a) s = s \<and> ap_selected (removeAsset True (as_id a) s) \<noteq> Some (as_id a)"
proof -
  have "mset (a # filter (\<lambda>b. as_id b \<noteq> as_id a) xs) = mset xs" if "distinct (map as_id xs)" "a \<in> set xs" for xs
    using that
  proof (induction xs)
    case (Cons b xs)
    show ?case
    proof (cases "b = a")
      case True
      then have "\<forall>x \<in> set xs. as_id x \<noteq> as_id a" using Cons.prems(1) by (auto simp: image_iff)
      then have "filter (\<lambda>b. as_id b \<noteq> as_id a) xs = xs" by simp
      then show ?thesis using True by (simp del: mset_filter)
    next
      case False
      with Cons show ?thesis by (auto simp: image_iff)
    qed
  qed simp
  with assms show ?thesis by (simp add: remove_refused_def removeAsset_def ask_def)
qed

theorem remove_rollback_witness:
  "mset (ap_assets (remove_refused (Some sample_asset) (removeAsset True (as_id sample_asset) (asset_init\<lparr>ap_assets := [sample_asset]\<rparr>)))) = {#sample_asset#}"
  using remove_rollback [of "asset_init\<lparr>ap_assets := [sample_asset]\<rparr>" sample_asset] by simp

text \<open>The risk explanation in the drawer may be that of another asset: after a switch from one
  asset to the next it stays until the new one is answered, and answers for assets that are not
  open never replace it. With the drawer closed there is none.\<close>

theorem breakdown_of_other_asset:
  assumes "ap_selected s = Some i" "ap_breakdown s = Some i" "i \<noteq> j"
  shows "ap_selected (select_asset (Some j) s) = Some j \<and> ap_breakdown (select_asset (Some j) s) = Some i
       \<and> ap_breakdown (breakdown_answered i ok (select_asset (Some j) s)) = Some i
       \<and> ap_breakdown (breakdown_answered j True (select_asset (Some j) s)) = Some j
       \<and> ap_breakdown (select_asset None s) = None"
  using assms by (simp add: select_asset_def breakdown_answered_def ask_def)

theorem breakdown_of_other_asset_witness:
  "ap_breakdown (select_asset (Some ''b'') (asset_init\<lparr>ap_selected := Some ''a'', ap_breakdown := Some ''a''\<rparr>)) = Some ''a''"
  using breakdown_of_other_asset [of "asset_init\<lparr>ap_selected := Some ''a'', ap_breakdown := Some ''a''\<rparr>" "''a''" "''b''" True] by simp

text \<open>The patch panel puts every asset in exactly one bucket, and those whose patch age is not
  known count as up to date.\<close>

theorem patch_panel:
  "(case patch_buckets s of (x, y, z) \<Rightarrow> x + y + z = length (ap_assets s))
   \<and> count_of (\<lambda>a. as_patchAge a = None) (ap_assets s) \<le> fst (patch_buckets s)"
proof -
  have "count_of (\<lambda>a. patch_age a \<le> 7) xs + count_of (\<lambda>a. patch_age a > 7 \<and> patch_age a \<le> 30) xs + count_of (\<lambda>a. patch_age a > 30) xs = length xs" for xs
    by (induction xs) (auto simp: count_of_def)
  moreover have "count_of (\<lambda>a. as_patchAge a = None) xs \<le> count_of (\<lambda>a. patch_age a \<le> 7) xs" for xs
    by (rule count_of_mono) (simp add: patch_age_def)
  ultimately show ?thesis by (simp add: patch_buckets_def)
qed

end
