(* ===== verification/JsonParse.thy ===== *)
theory JsonParse
  imports Json
begin

text \<open>
  \<open>JSON.parse\<close>: a recursive descent parser for JSON texts, with \<open>None\<close> for the texts on which it
  throws. Numbers are read as the nearest double; of several members with one name the last
  counts, in the place of the first. Escapes for characters above 255 are outside the model and
  refused. The theorem is that what \<open>JSON.stringify\<close> writes is read back unchanged.
\<close>

subsection \<open>Tokens\<close>

definition json_ws :: "char \<Rightarrow> bool" where
  "json_ws c \<longleftrightarrow> code c \<in> set [9, 10, 13, 32]"

definition skip_ws :: "string \<Rightarrow> string" where "skip_ws = dropWhile json_ws"

text \<open>The rest of a string after the opening quote.\<close>

definition simple_escape :: "char \<Rightarrow> char option" where
  "simple_escape e =
     (if code e \<in> set [34, 47, 92] then Some e
      else if e = CHR ''b'' then Some (char_of (8::nat)) else if e = CHR ''t'' then Some (char_of (9::nat))
      else if e = CHR ''n'' then Some (char_of (10::nat)) else if e = CHR ''f'' then Some (char_of (12::nat))
      else if e = CHR ''r'' then Some (char_of (13::nat)) else None)"

definition hex_escape :: "string \<Rightarrow> char option" where
  "hex_escape h = (if length h = 4 \<and> list_all is_hex h \<and> take 2 h = ''00''
     then Some (char_of (hex_val (h ! 2) * 16 + hex_val (h ! 3))) else None)"

function parse_str :: "string \<Rightarrow> (string \<times> string) option" where
  "parse_str [] = None"
| "parse_str (c # s) =
     (if code c = 34 then Some ([], s)
      else if code c < 32 then None
      else if code c \<noteq> 92 then map_option (\<lambda>(t, r). (c # t, r)) (parse_str s)
      else case s of
        [] \<Rightarrow> None
      | e # s' \<Rightarrow>
          if e = CHR ''u'' then (case hex_escape (take 4 s') of
              Some d \<Rightarrow> map_option (\<lambda>(t, r). (d # t, r)) (parse_str (drop 4 s')) | None \<Rightarrow> None)
          else (case simple_escape e of
              Some d \<Rightarrow> map_option (\<lambda>(t, r). (d # t, r)) (parse_str s') | None \<Rightarrow> None))"
  by pat_completeness auto
termination by (relation "measure length") auto

text \<open>Numbers: sign, whole part without a leading zero, fraction, exponent.\<close>

definition dec_digits :: "string \<Rightarrow> int" where
  "dec_digits s = foldl (\<lambda>n c. 10 * n + (int (code c) - 48)) 0 s"

definition num_char :: "char \<Rightarrow> bool" where
  "num_char c \<longleftrightarrow> is_digit c \<or> c \<in> set ''+-.eE''"

definition split_sign :: "string \<Rightarrow> int \<times> string" where
  "split_sign s = (if s \<noteq> [] \<and> hd s = CHR ''-'' then (- 1, tl s)
     else if s \<noteq> [] \<and> hd s = CHR ''+'' then (1, tl s) else (1, s))"

definition parse_exp :: "string \<Rightarrow> int option" where
  "parse_exp s =
     (if s = [] then Some 0
      else if hd s \<in> set ''eE'' then
        (case split_sign (tl s) of (g, ds) \<Rightarrow> if ds \<noteq> [] \<and> list_all is_digit ds then Some (g * dec_digits ds) else None)
      else None)"

definition num_value :: "string \<Rightarrow> rat option" where
  "num_value s =
     (let neg = (s \<noteq> [] \<and> hd s = CHR ''-''); u = (if neg then tl s else s);
          w = takeWhile is_digit u; r = dropWhile is_digit u;
          frac = (if r \<noteq> [] \<and> hd r = CHR ''.'' then takeWhile is_digit (tl r) else []);
          r' = (if r \<noteq> [] \<and> hd r = CHR ''.'' then dropWhile is_digit (tl r) else r) in
      if w = [] \<or> (hd w = CHR ''0'' \<and> length w > 1) \<or> (r \<noteq> [] \<and> hd r = CHR ''.'' \<and> frac = []) then None
      else case parse_exp r' of
        None \<Rightarrow> None
      | Some e \<Rightarrow> Some ((if neg then - 1 else 1)
            * fl (of_int (dec_digits (w @ frac)) * 10 powi (e - int (length frac)))))"

subsection \<open>Values\<close>

fun parse_value :: "nat \<Rightarrow> string \<Rightarrow> (json \<times> string) option"
  and parse_elems :: "nat \<Rightarrow> string \<Rightarrow> (json list \<times> string) option"
  and parse_members :: "nat \<Rightarrow> string \<Rightarrow> ((string \<times> json) list \<times> string) option" where
  "parse_value 0 s = None"
| "parse_value (Suc n) s =
     (case skip_ws s of
        [] \<Rightarrow> None
      | c # r \<Rightarrow>
          if code c = 34 then map_option (\<lambda>(t, r). (JStr t, r)) (parse_str r)
          else if c = CHR ''['' then
            (if skip_ws r \<noteq> [] \<and> hd (skip_ws r) = CHR '']'' then Some (JArr [], tl (skip_ws r))
             else map_option (\<lambda>(vs, r). (JArr vs, r)) (parse_elems n r))
          else if c = CHR ''{'' then
            (if skip_ws r \<noteq> [] \<and> hd (skip_ws r) = CHR ''}'' then Some (JObj [], tl (skip_ws r))
             else map_option (\<lambda>(ms, r). (JObj (from_entries ms), r)) (parse_members n r))
          else if starts_with (c # r) ''true'' then Some (JBool True, drop 4 (c # r))
          else if starts_with (c # r) ''false'' then Some (JBool False, drop 5 (c # r))
          else if starts_with (c # r) ''null'' then Some (JNull, drop 4 (c # r))
          else map_option (\<lambda>x. (JNum x, dropWhile num_char (c # r))) (num_value (takeWhile num_char (c # r))))"
| "parse_elems 0 s = None"
| "parse_elems (Suc n) s =
     (case parse_value n s of
        None \<Rightarrow> None
      | Some (v, r) \<Rightarrow>
          (case skip_ws r of
             [] \<Rightarrow> None
           | c # r' \<Rightarrow>
               if c = CHR '']'' then Some ([v], r')
               else if c = CHR '','' then map_option (\<lambda>(vs, r). (v # vs, r)) (parse_elems n r')
               else None))"
| "parse_members 0 s = None"
| "parse_members (Suc n) s =
     (case skip_ws s of
        [] \<Rightarrow> None
      | q # s' \<Rightarrow>
        if code q \<noteq> 34 then None
        else case parse_str s' of
          None \<Rightarrow> None
        | Some (k, r) \<Rightarrow>
          (case skip_ws r of
             [] \<Rightarrow> None
           | d # r1 \<Rightarrow>
             if d \<noteq> CHR '':'' then None
             else case parse_value n r1 of
               None \<Rightarrow> None
             | Some (v, r2) \<Rightarrow>
               (case skip_ws r2 of
                  [] \<Rightarrow> None
                | c # r3 \<Rightarrow>
                    if c = CHR ''}'' then Some ([(k, v)], r3)
                    else if c = CHR '','' then map_option (\<lambda>(ms, r). ((k, v) # ms, r)) (parse_members n r3)
                    else None)))"

definition json_parse :: "string \<Rightarrow> json option" where
  "json_parse s =
     (case parse_value (Suc (length s)) s of
        Some (v, r) \<Rightarrow> if skip_ws r = [] then Some v else None
      | None \<Rightarrow> None)"

subsection \<open>Strings and numbers read back\<close>

lemma code_char [simp]: "char_of (code c) = c"
  by (simp add: code_def)

lemma esc_unicode: "code c < 32 \<Longrightarrow> hex_escape [CHR ''0'', CHR ''0'', digit_char (code c div 16), digit_char (code c mod 16)] = Some c"
proof -
  assume "code c < 32"
  then have "code c div 16 < 16" by simp
  moreover have "is_hex (CHR ''0'')" by code_simp
  ultimately show ?thesis
    using digit_char_hex [of "code c div 16"] digit_char_hex [of "code c mod 16"] by (simp add: hex_escape_def)
qed

lemma parse_str_esc: "parse_str (json_esc c @ s) = map_option (\<lambda>(t, r). (c # t, r)) (parse_str s)"
proof -
  have b: "code (char_of (92::nat)) = 92" by simp
  have esc: "parse_str (json_esc c @ s) = map_option (\<lambda>(t, r). (c # t, r)) (parse_str s)"
    if "json_esc c = [char_of (92::nat), e]" "simple_escape e = Some c" "e \<noteq> CHR ''u''" for e
  proof -
    have "json_esc c @ s = char_of (92::nat) # e # s" by (simp add: that(1))
    then show ?thesis using that(2,3) by (simp only: parse_str.simps b) simp
  qed
  have ne: "char_of (34::nat) \<noteq> CHR ''u''" "char_of (92::nat) \<noteq> CHR ''u''" by code_simp+
  have k: "c = char_of n" if "code c = n" for n using that by (metis code_char)
  consider "code c = 34" | "code c = 92" | "code c = 8" | "code c = 9" | "code c = 10" | "code c = 12" | "code c = 13"
    | "code c < 32" "code c \<notin> {8, 9, 10, 12, 13}" | "\<not> code c < 32" "code c \<noteq> 34" "code c \<noteq> 92" by auto
  then show ?thesis
  proof cases
    case 8
    then have e: "json_esc c = [char_of (92::nat), CHR ''u'', CHR ''0'', CHR ''0'', digit_char (code c div 16), digit_char (code c mod 16)]"
      by (simp add: json_esc_def)
    have u: "parse_str (char_of (92::nat) # CHR ''u'' # t) = (case hex_escape (take 4 t) of
        Some d \<Rightarrow> map_option (\<lambda>(x, r). (d # x, r)) (parse_str (drop 4 t)) | None \<Rightarrow> None)" for t
      by (simp only: parse_str.simps b) simp
    define h where "h = [CHR ''0'', CHR ''0'', digit_char (code c div 16), digit_char (code c mod 16)]"
    have "take 4 (h @ s) = h" "drop 4 (h @ s) = s" by (simp_all add: h_def)
    moreover have "hex_escape h = Some c" unfolding h_def by (rule esc_unicode [OF 8(1)])
    moreover have "json_esc c @ s = char_of (92::nat) # CHR ''u'' # (h @ s)" by (simp add: e h_def)
    ultimately show ?thesis using u [of "h @ s"] by simp
  next
    case 9
    then have "code c \<noteq> 8" "code c \<noteq> 9" "code c \<noteq> 10" "code c \<noteq> 12" "code c \<noteq> 13" by linarith+
    with 9 have "json_esc c = [c]" by (simp only: json_esc_def if_False)
    then have "json_esc c @ s = c # s" by (simp only: append_Cons append_Nil)
    moreover have "parse_str (c # s) = map_option (\<lambda>(t, r). (c # t, r)) (parse_str s)"
      by (rule trans [OF parse_str.simps(2)], rule trans [OF if_not_P [OF 9(2)]],
          rule trans [OF if_not_P [OF 9(1)]], rule if_P [OF 9(3)])
    ultimately show ?thesis by (simp only:)
  next
    case 1
    then have c: "c = char_of (34::nat)" by (rule k)
    show ?thesis by (intro esc [of "char_of (34::nat)"]) (simp_all add: c ne json_esc_def simple_escape_def)
  next
    case 2
    then have c: "c = char_of (92::nat)" by (rule k)
    show ?thesis by (intro esc [of "char_of (92::nat)"]) (simp_all add: c ne json_esc_def simple_escape_def)
  next
    case 3
    then have c: "c = char_of (8::nat)" by (rule k)
    show ?thesis by (intro esc [of "CHR ''b''"]) (simp_all add: c ne json_esc_def simple_escape_def code_def)
  next
    case 4
    then have c: "c = char_of (9::nat)" by (rule k)
    show ?thesis by (intro esc [of "CHR ''t''"]) (simp_all add: c ne json_esc_def simple_escape_def code_def)
  next
    case 5
    then have c: "c = char_of (10::nat)" by (rule k)
    show ?thesis by (intro esc [of "CHR ''n''"]) (simp_all add: c ne json_esc_def simple_escape_def code_def)
  next
    case 6
    then have c: "c = char_of (12::nat)" by (rule k)
    show ?thesis by (intro esc [of "CHR ''f''"]) (simp_all add: c ne json_esc_def simple_escape_def code_def)
  next
    case 7
    then have c: "c = char_of (13::nat)" by (rule k)
    show ?thesis by (intro esc [of "CHR ''r''"]) (simp_all add: c ne json_esc_def simple_escape_def code_def)
  qed
qed

lemma parse_str_quoted: "parse_str (concat (map json_esc s) @ char_of (34::nat) # r) = Some (s, r)"
  by (induction s) (simp_all add: parse_str_esc)

lemma digit_chars: "0 \<le> n \<Longrightarrow> list_all is_digit (base_str 10 n)"
proof -
  assume n: "0 \<le> n"
  have "is_digit (digit_char (nat d))" if "d \<in> set (digits_of 10 n)" for d
  proof -
    have "0 \<le> d \<and> d < 10" using digits_of_bound [of 10 n d] n that by simp
    then have "nat d \<in> {0,1,2,3,4,5,6,7,8,9}" by auto
    then show ?thesis by (elim insertE emptyE) (simp_all add: digit_char_def is_digit_def code_def)
  qed
  then show ?thesis by (simp add: base_str_def list_all_iff)
qed

lemma dec_digits_base: "0 \<le> n \<Longrightarrow> dec_digits (base_str 10 n) = n"
proof -
  assume n: "0 \<le> n"
  have "int (code (digit_char (nat d))) - 48 = d" if "0 \<le> d \<and> d < 10" for d
  proof -
    from that have "d \<in> {0,1,2,3,4,5,6,7,8,9}" unfolding insert_iff empty_iff by presburger
    then show ?thesis by (elim insertE emptyE) (simp_all add: digit_char_def code_def)
  qed
  then have "foldl (\<lambda>n c. 10 * n + (int (code c) - 48)) k (map (\<lambda>d. digit_char (nat d)) ds) = foldl (\<lambda>a d. a * 10 + d) k ds"
    if "\<forall>d \<in> set ds. 0 \<le> d \<and> d < 10" for ds k
    using that by (induction ds arbitrary: k) (auto simp: mult.commute)
  then show ?thesis using digits_of_bound [of 10 n] digits_val_of [of 10 n] n
    by (auto simp: dec_digits_def base_str_def digits_val_def)
qed

lemma lead_digit: "0 < n \<Longrightarrow> hd (digits_of 10 n) \<noteq> 0"
proof (induction "10 :: int" n rule: digits_of.induct)
  case (1 n)
  then show ?case by (cases "n < 10") (auto simp: digits_of.simps [of 10 n] hd_append pos_imp_zdiv_pos_iff)
qed

lemma base_str_head: "0 < n \<Longrightarrow> hd (base_str 10 n) \<noteq> CHR ''0''"
proof -
  assume n: "0 < n"
  define d where "d = hd (digits_of 10 n)"
  have "0 \<le> d \<and> d < 10" "d \<noteq> 0" using digits_of_bound [of 10 n d] lead_digit [OF n] n by (simp_all add: d_def)
  then have "d \<in> {1,2,3,4,5,6,7,8,9}" unfolding insert_iff empty_iff by presburger
  then have "digit_char (nat d) \<noteq> CHR ''0''" by (elim insertE emptyE) (simp_all add: digit_char_def)
  then show ?thesis by (simp add: base_str_def d_def hd_map)
qed

lemma num_value_base:
  assumes "0 \<le> n" "n \<le> 2 ^ 53"
  shows "num_value (base_str 10 n) = Some (of_int n)" "num_value (CHR ''-'' # base_str 10 n) = Some (- of_int n)"
proof -
  have ds: "list_all is_digit (base_str 10 n)" "base_str 10 n \<noteq> []" using digit_chars [OF assms(1)] by (simp_all add: base_str_def)
  have t: "takeWhile is_digit (base_str 10 n) = base_str 10 n" "dropWhile is_digit (base_str 10 n) = []"
    using ds by (simp_all add: takeWhile_eq_all_conv dropWhile_eq_Nil_conv list_all_iff)
  have "is_digit (hd (base_str 10 n))" using ds by (metis list_all_iff hd_in_set)
  then have m: "hd (base_str 10 n) \<noteq> CHR ''-''" by (auto simp: is_digit_def code_def)
  have z: "\<not> (hd (base_str 10 n) = CHR ''0'' \<and> length (base_str 10 n) > 1)"
  proof (cases "n = 0")
    case True
    then show ?thesis by (simp add: base_str_def digits_of.simps [of 10 0])
  next
    case False
    then show ?thesis using base_str_head assms(1) by simp
  qed
  have f: "fl (of_int n) = of_int n" using assms by simp
  show "num_value (base_str 10 n) = Some (of_int n)" "num_value (CHR ''-'' # base_str 10 n) = Some (- of_int n)"
    using ds ds(1) [unfolded list_all_iff] m z assms by (simp_all add: num_value_def Let_def t parse_exp_def dec_digits_base f)
qed

lemma num_value_int: "\<bar>n\<bar> \<le> 2 ^ 53 \<Longrightarrow> num_value (int_str n) = Some (of_int n)"
  using num_value_base [of n] num_value_base [of "- n"] by (auto simp: int_str_def)

lemma int_str_chars: "list_all num_char (int_str n)"
proof -
  have "list_all num_char (base_str 10 k)" if "0 \<le> k" for k
    using digit_chars [OF that] by (auto simp: list_all_iff num_char_def)
  then show ?thesis by (auto simp: int_str_def num_char_def)
qed

lemma int_str_nonempty: "int_str n \<noteq> []"
  by (simp add: int_str_def base_str_def)

subsection \<open>Values read back\<close>

text \<open>The values that survive a round trip: defined, numbers that are integers up to 2^53, no
  name twice in an object.\<close>

fun plain :: "json \<Rightarrow> bool" where
  "plain JUndef = False"
| "plain (JNum x) = (of_int \<lfloor>x\<rfloor> = x \<and> \<bar>x\<bar> \<le> 2 ^ 53)"
| "plain (JArr vs) = list_all plain vs"
| "plain (JObj ms) = (distinct (map fst ms) \<and> list_all (\<lambda>(k, v). plain v) ms)"
| "plain v = True"

lemma plain_num: "plain (JNum x) \<Longrightarrow> json_text (JNum x) = int_str \<lfloor>x\<rfloor> \<and> \<bar>\<lfloor>x\<rfloor>\<bar> \<le> 2 ^ 53"
proof -
  assume a: "plain (JNum x)"
  then have "\<bar>of_int \<lfloor>x\<rfloor> :: rat\<bar> \<le> of_int (2 ^ 53)" by (simp only: plain.simps) simp
  then have "\<bar>\<lfloor>x\<rfloor>\<bar> \<le> 2 ^ 53" by (metis of_int_abs of_int_le_iff)
  then show ?thesis using a by (simp add: num_str_def)
qed

definition head_ok :: "string \<Rightarrow> bool" where
  "head_ok s \<longleftrightarrow> s \<noteq> [] \<and> \<not> json_ws (hd s) \<and> hd s \<noteq> CHR '']'' \<and> hd s \<noteq> CHR ''}''"

lemma skip_head [simp]: "head_ok s \<Longrightarrow> skip_ws (s @ r) = s @ r"
  by (cases s) (auto simp: head_ok_def skip_ws_def)

lemma skip_char [simp]: "\<not> json_ws c \<Longrightarrow> skip_ws (c # r) = c # r"
  by (simp add: skip_ws_def)

lemma quote_code [simp]: "code (char_of (34::nat)) = 34" by simp

lemma int_str_head: "\<exists>c s. int_str n = c # s \<and> num_char c \<and> c \<noteq> CHR ''+''"
proof -
  have "\<exists>c s. base_str 10 k = c # s \<and> is_digit c" if "0 \<le> k" for k
    using digit_chars [OF that] by (cases "base_str 10 k") (auto simp: base_str_def)
  moreover have "\<not> is_digit (CHR ''+'')" by code_simp
  ultimately show ?thesis by (cases "n < 0") (auto simp: int_str_def num_char_def, metis nle_le not_less)
qed

lemma num_char_head: "num_char c \<Longrightarrow> \<not> json_ws c \<and> c \<notin> {CHR ''['', CHR '']'', CHR ''{'', CHR ''}'', CHR ''t'', CHR ''f'', CHR ''n'', CHR '',''} \<and> code c \<noteq> 34"
  by (auto simp: num_char_def json_ws_def is_digit_def code_def)

lemma json_text_head: "plain v \<Longrightarrow> head_ok (json_text v)"
proof (cases v)
  case (JNum x)
  assume p: "plain v"
  from int_str_head [of "\<lfloor>x\<rfloor>"] obtain c s where "int_str \<lfloor>x\<rfloor> = c # s" "num_char c" by blast
  with p JNum plain_num [of x] num_char_head [of c] show ?thesis by (auto simp: head_ok_def)
next
  case (JStr t)
  have "char_of (34::nat) \<noteq> CHR '']''" "char_of (34::nat) \<noteq> CHR ''}''" "\<not> json_ws (char_of (34::nat))" by code_simp+
  then show ?thesis using JStr by (simp add: head_ok_def json_quote_def)
qed (auto simp: head_ok_def json_ws_def code_def)

lemma take_num: "list_all num_char s \<Longrightarrow> r = [] \<or> \<not> num_char (hd r) \<Longrightarrow> takeWhile num_char (s @ r) = s \<and> dropWhile num_char (s @ r) = r"
  by (induction s) (cases r; auto)+

lemma parse_value_num:
  assumes "\<bar>n\<bar> \<le> 2 ^ 53" "r = [] \<or> \<not> num_char (hd r)"
  shows "parse_value (Suc k) (int_str n @ r) = Some (JNum (of_int n), r)"
proof -
  from int_str_head [of n] obtain c s where cs: "int_str n = c # s" "num_char c" by blast
  have "skip_ws (int_str n @ r) = c # (s @ r)" using num_char_head [OF cs(2)] by (simp add: cs)
  moreover have "\<not> starts_with (c # s @ r) ''true''" "\<not> starts_with (c # s @ r) ''false''" "\<not> starts_with (c # s @ r) ''null''"
    using num_char_head [OF cs(2)] by (auto simp: starts_with_def)
  ultimately show ?thesis
    using num_char_head [OF cs(2)] take_num [OF int_str_chars [of n] assms(2)] num_value_int [OF assms(1)]
    by (simp add: cs)
qed

definition reads :: "json \<Rightarrow> bool" where
  "reads v \<longleftrightarrow> (\<forall>n r. length (json_text v) \<le> n \<longrightarrow> r = [] \<or> \<not> num_char (hd r) \<longrightarrow>
     parse_value n (json_text v @ r) = Some (v, r))"

lemma readsD: "reads v \<Longrightarrow> length (json_text v) \<le> n \<Longrightarrow> \<not> num_char c \<Longrightarrow> parse_value n (json_text v @ c # r) = Some (v, c # r)"
  by (simp add: reads_def)

lemma sep_chars:
  "\<not> num_char (CHR '','')" "\<not> num_char (CHR '']'')" "\<not> num_char (CHR ''}'')"
  "\<not> json_ws (CHR '','')" "\<not> json_ws (CHR '']'')" "\<not> json_ws (CHR ''}'')" "\<not> json_ws (CHR '':'')"
  by code_simp+

lemma parse_elems_join:
  assumes "vs \<noteq> []" "\<forall>v \<in> set vs. reads v" "length (join '','' (map json_text vs)) < n"
  shows "parse_elems n (join '','' (map json_text vs) @ CHR '']'' # r) = Some (vs, r)"
  using assms
proof (induction vs arbitrary: n)
  case (Cons v vs)
  then obtain m where n: "n = Suc m" by (cases n) auto
  show ?case
  proof (cases vs)
    case Nil
    with Cons.prems n show ?thesis by (simp add: readsD sep_chars)
  next
    case (Cons w ws)
    then have j: "join '','' (map json_text (v # vs)) = json_text v @ CHR '','' # join '','' (map json_text vs)" by simp
    have l: "length (json_text v) \<le> m" "length (join '','' (map json_text vs)) < m"
      using Cons.prems(3) n unfolding j by simp_all
    have "parse_elems m (join '','' (map json_text vs) @ CHR '']'' # r) = Some (vs, r)"
      using Cons.IH [OF _ _ l(2)] Cons.prems Cons by simp
    then show ?thesis using Cons.prems(2) l(1) unfolding j n by (simp add: readsD sep_chars)
  qed
qed simp

definition member_text :: "string \<times> json \<Rightarrow> string" where
  "member_text m = json_quote (fst m) @ '':'' @ json_text (snd m)"

lemma parse_member:
  assumes "reads v" "length (member_text (k, v)) \<le> m" "\<not> num_char c"
  shows "\<exists>q s s'. skip_ws (member_text (k, v) @ c # r) = q # s \<and> code q = 34 \<and> parse_str s = Some (k, CHR '':'' # s')
     \<and> parse_value m s' = Some (v, c # r)"
proof -
  have "\<not> json_ws (char_of (34::nat))" by code_simp
  then have "skip_ws (member_text (k, v) @ c # r) = char_of (34::nat) # (concat (map json_esc k) @ char_of (34::nat) # CHR '':'' # json_text v @ c # r)"
    by (simp add: member_text_def json_quote_def)
  moreover have "parse_value m (json_text v @ c # r) = Some (v, c # r)"
    using assms by (intro readsD) (simp_all add: member_text_def)
  ultimately show ?thesis using parse_str_quoted [of k] by auto
qed

lemma parse_members_join:
  assumes "ms \<noteq> []" "\<forall>(k, v) \<in> set ms. reads v" "length (join '','' (map member_text ms)) < n"
  shows "parse_members n (join '','' (map member_text ms) @ CHR ''}'' # r) = Some (ms, r)"
  using assms
proof (induction ms arbitrary: n)
  case (Cons kv ms)
  then obtain m where n: "n = Suc m" by (cases n) auto
  obtain k v where kv: "kv = (k, v)" by (cases kv)
  with Cons.prems have rv: "reads v" by simp
  show ?case
  proof (cases ms)
    case Nil
    with Cons.prems n kv have "length (member_text (k, v)) \<le> m" by simp
    from parse_member [OF rv this sep_chars(3), of r] show ?thesis using Nil n kv by (auto simp: sep_chars)
  next
    case (Cons w ws)
    then have j: "join '','' (map member_text (kv # ms)) = member_text (k, v) @ CHR '','' # join '','' (map member_text ms)" by (simp add: kv)
    have l: "length (member_text (k, v)) \<le> m" "length (join '','' (map member_text ms)) < m"
      using Cons.prems(3) n unfolding j by simp_all
    have "parse_members m (join '','' (map member_text ms) @ CHR ''}'' # r) = Some (ms, r)"
      using Cons.IH [OF _ _ l(2)] Cons.prems Cons by simp
    with parse_member [OF rv l(1) sep_chars(1), of "join '','' (map member_text ms) @ CHR ''}'' # r"]
    show ?thesis unfolding j n by (auto simp: sep_chars kv)
  qed
qed simp

lemma join_head: "ws \<noteq> [] \<Longrightarrow> head_ok (hd ws) \<Longrightarrow> head_ok (join sep ws)"
  by (cases ws; cases "tl ws") (auto simp: head_ok_def)

lemma quote_chars: "char_of (34::nat) \<noteq> CHR '']''" "char_of (34::nat) \<noteq> CHR ''}''" "\<not> json_ws (char_of (34::nat))"
  by code_simp+

lemma open_chars: "\<not> json_ws (CHR ''['')" "\<not> json_ws (CHR ''{'')" "code (CHR ''['') \<noteq> 34" "code (CHR ''{'') \<noteq> 34"
  by code_simp+

lemma plain_defined: "plain v \<Longrightarrow> v \<noteq> JUndef"
  by auto

lemma plain_reads: "plain v \<Longrightarrow> reads v"
proof (induction v)
  case (JNum x)
  then have x: "of_int \<lfloor>x\<rfloor> = x" by (simp only: plain.simps)
  from plain_num [OF JNum] have "\<bar>\<lfloor>x\<rfloor>\<bar> \<le> 2 ^ 53" "json_text (JNum x) = int_str \<lfloor>x\<rfloor>" by simp_all
  with int_str_nonempty [of "\<lfloor>x\<rfloor>"] parse_value_num [of "\<lfloor>x\<rfloor>"] x show ?case
    unfolding reads_def by (metis Suc_le_D length_greater_0_conv less_eq_Suc_le order_trans One_nat_def)
next
  case (JStr s)
  show ?case unfolding reads_def
  proof (intro allI impI)
    fix n :: nat and r
    assume "length (json_text (JStr s)) \<le> n"
    then obtain k where n: "n = Suc k" by (cases n) (simp_all add: json_quote_def)
    show "parse_value n (json_text (JStr s) @ r) = Some (JStr s, r)"
      by (simp add: n json_quote_def quote_chars parse_str_quoted)
  qed
next
  case (JArr vs)
  show ?case unfolding reads_def
  proof (intro allI impI)
    fix n :: nat and r
    assume a: "length (json_text (JArr vs)) \<le> n"
    have t: "json_text (JArr vs) = CHR ''['' # join '','' (map json_text vs) @ '']''"
    proof -
      have "map (\<lambda>v. if v = JUndef then ''null'' else json_text v) vs = map json_text vs"
        using JArr.prems plain_defined by (fastforce simp: list_all_iff)
      then show ?thesis by (simp only: json_text.simps) simp
    qed
    from a t obtain k where n: "n = Suc k" by (cases n) simp_all
    show "parse_value n (json_text (JArr vs) @ r) = Some (JArr vs, r)"
    proof (cases "vs = []")
      case True
      then show ?thesis by (simp add: t n open_chars sep_chars)
    next
      case False
      with JArr.prems have "head_ok (hd (map json_text vs))" by (cases vs) (simp_all add: json_text_head)
      then have h: "head_ok (join '','' (map json_text vs))" using False by (intro join_head) simp_all
      have "parse_elems k (join '','' (map json_text vs) @ CHR '']'' # r) = Some (vs, r)"
        using False JArr a n t by (intro parse_elems_join) (auto simp: list_all_iff)
      then show ?thesis using h skip_head [OF h] by (simp add: t n open_chars head_ok_def del: json_text.simps skip_head)
    qed
  qed
next
  case (JObj ms)
  show ?case unfolding reads_def
  proof (intro allI impI)
    fix n :: nat and r
    assume a: "length (json_text (JObj ms)) \<le> n"
    have "filter (\<lambda>(k, v). v \<noteq> JUndef) ms = ms"
      using JObj.prems by (intro filter_True) (auto simp: list_all_iff)
    then have t: "json_text (JObj ms) = CHR ''{'' # join '','' (map member_text ms) @ ''}''"
      by (simp add: member_text_def [abs_def] case_prod_beta')
    from a t obtain k where n: "n = Suc k" by (cases n) simp_all
    have d: "from_entries ms = ms" using JObj.prems by simp
    show "parse_value n (json_text (JObj ms) @ r) = Some (JObj ms, r)"
    proof (cases "ms = []")
      case True
      then show ?thesis by (simp add: t n open_chars sep_chars)
    next
      case False
      then have "head_ok (hd (map member_text ms))"
        by (cases ms) (simp_all add: member_text_def json_quote_def head_ok_def quote_chars)
      then have h: "head_ok (join '','' (map member_text ms))" using False by (intro join_head) simp_all
      have "\<forall>(k, v) \<in> set ms. reads v" using JObj by (fastforce simp: list_all_iff)
      then have "parse_members k (join '','' (map member_text ms) @ CHR ''}'' # r) = Some (ms, r)"
        using False a n t by (intro parse_members_join) auto
      then show ?thesis using h skip_head [OF h] by (simp add: t n open_chars head_ok_def d del: json_text.simps skip_head)
    qed
  qed
qed (auto simp: reads_def json_ws_def code_def starts_with_def Suc_le_eq dest!: less_imp_Suc_add)

text \<open>What \<open>JSON.stringify\<close> writes, \<open>JSON.parse\<close> reads.\<close>

lemma json_roundtrip: "plain v \<Longrightarrow> json_parse (json_text v) = Some v"
proof -
  assume "plain v"
  then have "reads v" by (rule plain_reads)
  then have "parse_value (Suc (length (json_text v))) (json_text v @ []) = Some (v, [])"
    unfolding reads_def by (metis le_SucI order_refl)
  then show ?thesis by (simp add: json_parse_def skip_ws_def del: parse_value.simps)
qed

end
