(* ===== verification/Feeds.thy ===== *)
theory Feeds
  imports SiemQueue Csv JsonParse ApiEndpoints
begin

text \<open>
  The threat feeds page (\<open>app/dashboard/feeds/page.tsx\<close>): the kind of a raw indicator, the cards
  the store's indicators become, a card's own state with its timers (escalating to the SIEM, blocking
  behind a second click), the page with its two lists, the undo of a dismissal and the filters, and
  the export that pages through the store.
\<close>

subsection \<open>The kind of an indicator\<close>

definition ip_re :: rx where
  "ip_re = rx_full (RSeq (rx_times 3 (RSeq (rx_range 1 3 (RSet is_digit)) (rx_str ''.'')))
     (RSeq (rx_range 1 3 (RSet is_digit)) (rx_opt (RSeq (rx_str ''/'') (rx_plus (RSet is_digit))))))"

definition cve_re :: rx where
  "cve_re = rx_full (RSeq (rx_stri ''CVE-'') (RSeq (rx_times 4 (RSet is_digit)) (RSeq (rx_str ''-'') (rx_plus (RSet is_digit)))))"

definition hash_re :: rx where
  "hash_re = RAlt (rx_full (rx_times 32 (RSet is_hex))) (RAlt (rx_full (rx_times 40 (RSet is_hex))) (rx_full (rx_times 64 (RSet is_hex))))"

definition domain_char :: "char \<Rightarrow> bool" where
  "domain_char c \<longleftrightarrow> is_alnum c \<or> c = CHR ''.'' \<or> c = CHR ''-''"

definition feed_domain_re :: rx where
  "feed_domain_re = rx_full (RSeq (RSet is_alnum) (RSeq (RStar (RSet domain_char)) (RSeq (rx_str ''.'')
     (RSeq (rx_times 2 (RSet is_alpha)) (RStar (RSet is_alpha))))))"

definition classifyIoc :: "string \<Rightarrow> string option" where
  "classifyIoc v =
     (if rx_test ip_re v then Some ''ip'' else if rx_test cve_re v then Some ''cve''
      else if rx_test hash_re v then Some ''hash'' else if str_includes v ''://'' then Some ''url''
      else if rx_test feed_domain_re v then Some ''domain'' else None)"

subsection \<open>Entries\<close>

text \<open>An indicator of the store, as far as the page reads it; tags that are no array are \<^const>\<open>None\<close>.\<close>

record ioc =
  io_id :: string
  io_type :: string
  io_value :: string
  io_severity :: string
  io_actor :: string
  io_source :: string
  io_firstSeen :: string
  io_lastSeen :: string
  io_threatType :: string
  io_confidence :: rat
  io_tags :: "string list option"

datatype threat_status = Confirmed | Unconfirmed

record threat_entry =
  te_id :: string
  te_ts :: string
  te_cve :: "string option"
  te_title :: string
  te_attackType :: string
  te_source :: string
  te_sourceCountry :: string
  te_actor :: string
  te_severity :: severity
  te_sectors :: "string list"
  te_summary :: string
  te_feedSources :: "string list"
  te_aiConfidence :: rat
  te_iocs :: "string list"
  te_mitre :: "string list"
  te_status :: threat_status
  te_correlated :: nat
  te_tags :: "string list"

text \<open>\<open>a || b\<close> on texts.\<close>

definition or_text :: "string \<Rightarrow> string \<Rightarrow> string" where
  "or_text a b = (if a \<noteq> [] then a else b)"

definition iocToEntry :: "int \<Rightarrow> ioc \<Rightarrow> threat_entry" where
  "iocToEntry now i =
     \<lparr>te_id = io_id i, te_ts = or_text (io_lastSeen i) (or_text (io_firstSeen i) (toISOString now)),
      te_cve = (if io_type i = ''cve'' then Some (io_value i) else None),
      te_title = or_text (io_threatType i) ''Indicator'' @ '' - '' @ io_value i,
      te_attackType = or_text (io_threatType i) (toUpperCase (io_type i)),
      te_source = io_value i, te_sourceCountry = ''-'', te_actor = io_actor i,
      te_severity = (case sev_of (io_severity i) of Some v \<Rightarrow> v | None \<Rightarrow> Medium), te_sectors = [],
      te_summary = toUpperCase (io_type i) @ '' indicator ingested from '' @ io_source i @ ''. Confidence ''
        @ num_str (io_confidence i) @ ''%.'' @ (if io_actor i \<noteq> [] then '' Attributed to '' @ io_actor i @ ''.'' else []),
      te_feedSources = [io_source i], te_aiConfidence = io_confidence i, te_iocs = [io_value i], te_mitre = [],
      te_status = (if io_confidence i \<ge> 70 then Confirmed else Unconfirmed), te_correlated = 0,
      te_tags = (case io_tags i of Some ts \<Rightarrow> ts | None \<Rightarrow> [])\<rparr>"

fun SEV_COLOR :: "severity \<Rightarrow> string" where
  "SEV_COLOR Critical = ''bg-magenta/15 text-magenta border-magenta/20''"
| "SEV_COLOR High = ''bg-threat/15 text-['' @ tk Threat @ ''] border-threat/20''"
| "SEV_COLOR Medium = ''bg-amber/15 text-amber border-amber/20''"
| "SEV_COLOR Low = ''bg-safe/15 text-safe border-safe/20''"
| "SEV_COLOR Info = ''bg-violet/15 text-violet border-violet/20''"

fun SEV_DOT :: "severity \<Rightarrow> string" where
  "SEV_DOT Critical = tk Magenta"
| "SEV_DOT High = tk Threat"
| "SEV_DOT Medium = tk Amber"
| "SEV_DOT Low = tk Safe"
| "SEV_DOT Info = tk Violet"

definition ring_colour :: "rat \<Rightarrow> string" where
  "ring_colour v = (if v \<ge> 85 then ''rgb(var(--magenta))'' else if v \<ge> 65 then ''rgb(var(--amber))'' else ''rgb(var(--safe))'')"

text \<open>The links of a card: the CVE record, the lookup of an indicator, the technique.\<close>

definition nvd_href :: "threat_entry \<Rightarrow> string option" where
  "nvd_href e = (case te_cve e of None \<Rightarrow> None
     | Some c \<Rightarrow> if c = [] then None else Some (''https://nvd.nist.gov/vuln/detail/'' @ encodeURIComponent c))"

definition lookup_href :: "string \<Rightarrow> string" where
  "lookup_href v = ''/dashboard/scanner?value='' @ encodeURIComponent v
     @ (case classifyIoc v of Some t \<Rightarrow> ''&type='' @ t | None \<Rightarrow> []) @ ''&run=1''"

definition mitre_href :: "string \<Rightarrow> string" where
  "mitre_href t = ''https://attack.mitre.org/techniques/'' @ rx_replace (rx_str ''.'') (\<lambda>_ _. ''/'') t @ ''/''"

subsection \<open>A card\<close>

text \<open>What a card says of its last action: a text, and for a result a link to the new record.\<close>

record card_note =
  cn_text :: string
  cn_href :: "string option"
  cn_label :: "string option"

text \<open>Timers are deadlines on the clock \<open>tc_now\<close> (milliseconds): \<open>tc_hide\<close> clears the note,
  \<open>tc_disarm\<close> the armed state. None of them is ever cancelled.\<close>

record threat_card =
  tc_expanded :: bool
  tc_msg :: "card_note option"
  tc_armed :: bool
  tc_blocking :: bool
  tc_now :: nat
  tc_hide :: "nat list"
  tc_disarm :: "nat list"
  tc_calls :: "call list"

definition threat_init :: threat_card where
  "threat_init = \<lparr>tc_expanded = False, tc_msg = None, tc_armed = False, tc_blocking = False, tc_now = 0,
     tc_hide = [], tc_disarm = [], tc_calls = []\<rparr>"

definition say_note :: "string \<Rightarrow> (string \<times> string) option \<Rightarrow> threat_card \<Rightarrow> threat_card" where
  "say_note t link c = c\<lparr>tc_msg := Some \<lparr>cn_text = t, cn_href = map_option fst link, cn_label = map_option snd link\<rparr>,
     tc_hide := tc_hide c @ [tc_now c + (if link = None then 4000 else 12000)]\<rparr>"

definition alert_body :: "threat_entry \<Rightarrow> json" where
  "alert_body e = JObj
     [(''title'', JStr (te_title e)), (''severity'', JStr (sev_text (te_severity e))), (''description'', JStr (te_summary e)),
      (''srcIp'', if classifyIoc (te_source e) = Some ''ip'' then JStr (te_source e) else JUndef),
      (''srcCountry'', if te_sourceCountry e \<noteq> [] \<and> te_sourceCountry e \<noteq> ''-'' then JStr (te_sourceCountry e) else JUndef),
      (''mitreTechId'', case te_mitre e of [] \<Rightarrow> JUndef | m # _ \<Rightarrow> JStr m),
      (''ruleName'', JStr ''Threat Intel Escalation''), (''tiHits'', JNum (of_nat (length (te_feedSources e))))]"

definition sendToSiem :: "threat_entry \<Rightarrow> threat_card \<Rightarrow> threat_card" where
  "sendToSiem e c = c\<lparr>tc_calls := tc_calls c @ [createAlert (alert_body e)]\<rparr>"

text \<open>The answer names the new alert; the ellipsis after its first eight characters is written as
  three full stops.\<close>

definition siem_answered :: "string option \<Rightarrow> threat_card \<Rightarrow> threat_card" where
  "siem_answered r c = (case r of
     Some i \<Rightarrow> say_note (''SIEM alert raised ('' @ take 8 i @ ''...)'')
       (Some (''/dashboard/siem?alert='' @ encodeURIComponent i, ''Open alert'')) c
   | None \<Rightarrow> say_note ''Could not raise alert - is the dashboard API running?'' None c)"

definition card_indicators :: "threat_entry \<Rightarrow> (string \<times> string) list" where
  "card_indicators e = concat (map (\<lambda>v. case classifyIoc v of Some t \<Rightarrow> [(t, v)] | None \<Rightarrow> []) (te_iocs e))"

definition block_body :: "threat_entry \<Rightarrow> json" where
  "block_body e = JObj
     [(''indicators'', JArr (map (\<lambda>(t, v). JObj [(''type'', JStr t), (''value'', JStr v)]) (card_indicators e))),
      (''severity'', JStr (if te_severity e = Info then ''low'' else sev_text (te_severity e))),
      (''confidence'', JNum (te_aiConfidence e)), (''source'', JStr ''feed-blocklist''),
      (''threat_type'', JStr (te_attackType e)),
      (''tags'', JArr (map JStr (''blocklist'' # take 3 (te_tags e))))]"

definition blockIocs :: "threat_entry \<Rightarrow> threat_card \<Rightarrow> threat_card" where
  "blockIocs e c =
     (if tc_blocking c then c
      else if card_indicators e = [] then say_note ''No importable indicators on this entry'' None c
      else if \<not> tc_armed c then c\<lparr>tc_armed := True, tc_disarm := tc_disarm c @ [tc_now c + 4000]\<rparr>
      else c\<lparr>tc_armed := False, tc_blocking := True, tc_calls := tc_calls c @ [importIocs (block_body e)]\<rparr>)"

definition block_text :: "rat \<Rightarrow> rat \<Rightarrow> string" where
  "block_text n d = num_str n @ '' IOC'' @ (if n = 1 then [] else ''s'') @ '' added to blocklist ('' @ num_str d @ '' already known)''"

definition block_answered :: "(rat \<times> rat) option \<Rightarrow> threat_card \<Rightarrow> threat_card" where
  "block_answered r c = (case r of
     Some (n, d) \<Rightarrow> say_note (block_text n d) (Some (''/dashboard/cti'', ''View IOC store'')) c
   | None \<Rightarrow> say_note ''Could not import IOCs - is the dashboard API running?'' None c)\<lparr>tc_blocking := False\<rparr>"

text \<open>Time passes: every timer that is due fires, whatever the state it was set for.\<close>

definition card_wait :: "nat \<Rightarrow> threat_card \<Rightarrow> threat_card" where
  "card_wait ms c = (let t = tc_now c + ms in
     c\<lparr>tc_now := t, tc_msg := (if \<exists>d \<in> set (tc_hide c). d \<le> t then None else tc_msg c),
       tc_armed := (tc_armed c \<and> \<not> (\<exists>d \<in> set (tc_disarm c). d \<le> t)),
       tc_hide := filter (\<lambda>d. t < d) (tc_hide c), tc_disarm := filter (\<lambda>d. t < d) (tc_disarm c)\<rparr>)"

definition block_label :: "threat_card \<Rightarrow> string" where
  "block_label c = (if tc_blocking c then ''Blocking...'' else if tc_armed c then ''Confirm block?'' else ''Block IOCs'')"

text \<open>The answer to a block can only come while one is under way.\<close>

datatype card_op = TcExpand | TcSend | TcSent "string option" | TcBlock | TcBlocked "(rat \<times> rat) option" | TcWait nat

fun card_step :: "threat_entry \<Rightarrow> card_op \<Rightarrow> threat_card \<Rightarrow> threat_card" where
  "card_step e TcExpand c = c\<lparr>tc_expanded := \<not> tc_expanded c\<rparr>"
| "card_step e TcSend c = sendToSiem e c"
| "card_step e (TcSent r) c = siem_answered r c"
| "card_step e TcBlock c = blockIocs e c"
| "card_step e (TcBlocked r) c = (if tc_blocking c then block_answered r c else c)"
| "card_step e (TcWait ms) c = card_wait ms c"

subsection \<open>The page\<close>

record feed_row =
  fw_name :: string
  fw_status :: string
  fw_indicators :: rat

record feeds_page =
  fd_confirmed :: "threat_entry list"
  fd_unconfirmed :: "threat_entry list"
  fd_feeds :: "feed_row list"
  fd_summary :: "rat option"
  fd_sev :: string
  fd_conf :: string
  fd_src :: string
  fd_search :: string
  fd_live :: nat
  fd_dismissed :: "(threat_entry \<times> threat_status) option"
  fd_timer :: "nat option"
  fd_now :: nat
  fd_liveMode :: bool
  fd_failed :: bool
  fd_family :: "string option"
  fd_familyTotal :: nat
  fd_calls :: "call list"

text \<open>The request for the indicators, and those of one load.\<close>

definition iocs_call :: "string option \<Rightarrow> call" where
  "iocs_call f = fetchIocs (Some ([(''limit'', ''60''), (''sort'', if f = None then ''last_seen'' else ''score''),
     (''order'', ''desc'')] @ (case f of None \<Rightarrow> [] | Some x \<Rightarrow> [(''family'', x)])))"

definition load_calls :: "string option \<Rightarrow> call list" where
  "load_calls f = [fetchFeeds, fetchFeedsSummary, iocs_call f]"

text \<open>Mounting runs both effects of the first rendering: the address is read, and the indicators are
  asked for without a family; the family then found asks for them again.\<close>

definition family_of :: "string \<Rightarrow> string option" where
  "family_of query = (case query_param ''family'' query of None \<Rightarrow> None
     | Some f \<Rightarrow> if f = [] then None else Some (toLowerCase f))"

definition feeds_mount :: "string \<Rightarrow> feeds_page" where
  "feeds_mount query =
     \<lparr>fd_confirmed = [], fd_unconfirmed = [], fd_feeds = [], fd_summary = None, fd_sev = ''all'', fd_conf = ''all'',
      fd_src = ''all'', fd_search = [], fd_live = 0, fd_dismissed = None, fd_timer = None, fd_now = 0,
      fd_liveMode = False, fd_failed = False, fd_family = family_of query, fd_familyTotal = 0,
      fd_calls = load_calls None @ (case family_of query of None \<Rightarrow> [] | Some f \<Rightarrow> load_calls (Some f))\<rparr>"

definition iocs_answered :: "int \<Rightarrow> ioc list \<times> nat \<Rightarrow> feeds_page \<Rightarrow> feeds_page" where
  "iocs_answered now r s = (case r of (items, n) \<Rightarrow> let es = map (iocToEntry now) items in
     s\<lparr>fd_familyTotal := n, fd_confirmed := filter (\<lambda>e. te_status e = Confirmed) es,
       fd_unconfirmed := filter (\<lambda>e. te_status e = Unconfirmed) es, fd_live := length items, fd_liveMode := True\<rparr>)"

definition iocs_refused :: "feeds_page \<Rightarrow> feeds_page" where
  "iocs_refused s = s\<lparr>fd_failed := True\<rparr>"

definition list_of :: "threat_status \<Rightarrow> feeds_page \<Rightarrow> threat_entry list" where
  "list_of st s = (if st = Confirmed then fd_confirmed s else fd_unconfirmed s)"

definition set_list :: "threat_status \<Rightarrow> (threat_entry list \<Rightarrow> threat_entry list) \<Rightarrow> feeds_page \<Rightarrow> feeds_page" where
  "set_list st f s = (if st = Confirmed then s\<lparr>fd_confirmed := f (fd_confirmed s)\<rparr> else s\<lparr>fd_unconfirmed := f (fd_unconfirmed s)\<rparr>)"

definition entry_of :: "string \<Rightarrow> threat_entry list \<Rightarrow> threat_entry option" where
  "entry_of i es = find (\<lambda>e. te_id e = i) es"

definition handleConfirm :: "string \<Rightarrow> feeds_page \<Rightarrow> feeds_page" where
  "handleConfirm i s = (case entry_of i (fd_unconfirmed s) of
     None \<Rightarrow> s
   | Some e \<Rightarrow> s\<lparr>fd_unconfirmed := filter (\<lambda>x. te_id x \<noteq> i) (fd_unconfirmed s),
       fd_confirmed := e\<lparr>te_status := Confirmed\<rparr> # fd_confirmed s\<rparr>)"

text \<open>A new dismissal replaces the timer of the last one.\<close>

definition armDismiss :: "threat_entry \<Rightarrow> threat_status \<Rightarrow> feeds_page \<Rightarrow> feeds_page" where
  "armDismiss e st s = s\<lparr>fd_dismissed := Some (e, st), fd_timer := Some (fd_now s + 7000)\<rparr>"

definition drop_entry :: "threat_status \<Rightarrow> string \<Rightarrow> feeds_page \<Rightarrow> feeds_page" where
  "drop_entry st i s =
     (let s' = set_list st (filter (\<lambda>x. te_id x \<noteq> i)) s in
      case entry_of i (list_of st s) of None \<Rightarrow> s' | Some e \<Rightarrow> armDismiss e st s')"

definition handleDismissUnconfirmed :: "string \<Rightarrow> feeds_page \<Rightarrow> feeds_page" where
  "handleDismissUnconfirmed = drop_entry Unconfirmed"

definition handleDismissConfirmed :: "string \<Rightarrow> feeds_page \<Rightarrow> feeds_page" where
  "handleDismissConfirmed = drop_entry Confirmed"

definition restore_entry :: "threat_entry \<Rightarrow> threat_entry list \<Rightarrow> threat_entry list" where
  "restore_entry e prev = (if \<exists>x \<in> set prev. te_id x = te_id e then prev else e # prev)"

definition undoDismiss :: "feeds_page \<Rightarrow> feeds_page" where
  "undoDismiss s = (case fd_dismissed s of
     None \<Rightarrow> s
   | Some (e, st) \<Rightarrow> (set_list st (restore_entry e) s)\<lparr>fd_dismissed := None, fd_timer := None\<rparr>)"

definition feeds_wait :: "nat \<Rightarrow> feeds_page \<Rightarrow> feeds_page" where
  "feeds_wait ms s = (let t = fd_now s + ms; s = s\<lparr>fd_now := t\<rparr> in
     case fd_timer s of None \<Rightarrow> s | Some d \<Rightarrow> if d \<le> t then s\<lparr>fd_dismissed := None, fd_timer := None\<rparr> else s)"

subsection \<open>Filters and what is shown\<close>

definition confBand :: "rat \<Rightarrow> string" where
  "confBand c = (if c \<ge> 85 then ''high'' else if c \<ge> 65 then ''medium'' else ''low'')"

definition allSources :: "feeds_page \<Rightarrow> string list" where
  "allSources s = js_sort text_cmp (uniq (concat (map te_feedSources (fd_confirmed s @ fd_unconfirmed s))))"

definition entry_hay :: "threat_entry \<Rightarrow> string" where
  "entry_hay e = toLowerCase (join '' '' ([te_title e, te_attackType e, te_sourceCountry e, te_actor e]
     @ te_iocs e @ te_feedSources e @ te_mitre e))"

definition matchEntry :: "feeds_page \<Rightarrow> threat_entry \<Rightarrow> bool" where
  "matchEntry s e \<longleftrightarrow>
     (fd_sev s = ''all'' \<or> sev_text (te_severity e) = fd_sev s)
   \<and> (fd_conf s = ''all'' \<or> confBand (te_aiConfidence e) = fd_conf s)
   \<and> (fd_src s = ''all'' \<or> fd_src s \<in> set (te_feedSources e))
   \<and> (fd_search s = [] \<or> str_includes (entry_hay e) (toLowerCase (fd_search s)))"

definition filtered_entries :: "threat_status \<Rightarrow> feeds_page \<Rightarrow> threat_entry list" where
  "filtered_entries st s = filter (matchEntry s) (list_of st s)"

definition filters_set :: "feeds_page \<Rightarrow> bool" where
  "filters_set s \<longleftrightarrow> fd_sev s \<noteq> ''all'' \<or> fd_conf s \<noteq> ''all'' \<or> fd_src s \<noteq> ''all'' \<or> fd_search s \<noteq> []"

definition clear_filters :: "feeds_page \<Rightarrow> feeds_page" where
  "clear_filters s = s\<lparr>fd_sev := ''all'', fd_conf := ''all'', fd_src := ''all'', fd_search := []\<rparr>"

definition saved_filters :: "feeds_page \<Rightarrow> (string, string) obj" where
  "saved_filters s = [(''severity'', fd_sev s), (''confidence'', fd_conf s), (''source'', fd_src s), (''q'', fd_search s)]"

definition apply_view :: "(string, string) obj \<Rightarrow> feeds_page \<Rightarrow> feeds_page" where
  "apply_view f s = (let g = (\<lambda>k d. case obj_get f k of Some v \<Rightarrow> v | None \<Rightarrow> d) in
     s\<lparr>fd_sev := g ''severity'' ''all'', fd_conf := g ''confidence'' ''all'', fd_src := g ''source'' ''all'', fd_search := g ''q'' []\<rparr>)"

text \<open>What a column holds when it has no card to show, the pills of the sources, the tiles, the
  banner of the family and the name in the undo toast (\<open>loc\<close> is \<open>toLocaleString\<close>).\<close>

datatype column_body = Cards "threat_entry list" | Loading | EmptyText string

definition column_shows :: "threat_status \<Rightarrow> feeds_page \<Rightarrow> column_body" where
  "column_shows st s = (let es = filtered_entries st s in
     if es \<noteq> [] then Cards es
     else if \<not> fd_liveMode s \<and> \<not> fd_failed s then Loading
     else EmptyText (if st = Confirmed then ''No confirmed threats match filter'' else ''No unconfirmed threats - feed is quiet''))"

definition source_pills :: "feeds_page \<Rightarrow> (string \<times> bool \<times> string) list" where
  "source_pills s = map (\<lambda>f. (fw_name f, fw_status f = ''active'', num_str (fw_indicators f))) (fd_feeds s)"

definition no_sources_text :: "feeds_page \<Rightarrow> bool" where
  "no_sources_text s \<longleftrightarrow> fd_feeds s = [] \<and> \<not> fd_failed s"

definition feeds_subtitle :: "feeds_page \<Rightarrow> string" where
  "feeds_subtitle s = ''Real-time threat intelligence from '' @ int_str (int (length (fd_feeds s))) @ '' sources, ''
     @ int_str (int (fd_live s)) @ '' new today''"

definition feeds_tiles :: "(rat \<Rightarrow> string) \<Rightarrow> feeds_page \<Rightarrow> (string \<times> string) list" where
  "feeds_tiles loc s =
     [(''Confirmed'', int_str (int (length (fd_confirmed s)))), (''Unconfirmed'', int_str (int (length (fd_unconfirmed s)))),
      (''Critical'', int_str (int (count_of (\<lambda>e. te_severity e = Critical) (fd_confirmed s @ fd_unconfirmed s)))),
      (''Total IOCs'', case fd_summary s of None \<Rightarrow> ''-'' | Some n \<Rightarrow> loc n)]"

definition family_banner :: "(rat \<Rightarrow> string) \<Rightarrow> feeds_page \<Rightarrow> (string \<times> string) option" where
  "family_banner loc s = map_option (\<lambda>f. (f, loc (of_nat (fd_familyTotal s))
     @ (if fd_familyTotal s = 1 then '' indicator'' else '' indicators''))) (fd_family s)"

definition toast_title :: "threat_entry \<Rightarrow> string" where
  "toast_title e = take 42 (te_title e) @ (if length (te_title e) > 42 then ''...'' else [])"

datatype feeds_op =
    FdFeeds "feed_row list option" | FdSummary "rat option" | FdIocs int "(ioc list \<times> nat) option"
  | FdConfirm string | FdDismissC string | FdDismissU string | FdUndo | FdWait nat
  | FdSev string | FdConf string | FdSrc string | FdSearch string | FdClear | FdView "(string, string) obj"

fun feeds_step :: "feeds_op \<Rightarrow> feeds_page \<Rightarrow> feeds_page" where
  "feeds_step (FdFeeds r) s = (case r of Some fs \<Rightarrow> s\<lparr>fd_feeds := fs\<rparr> | None \<Rightarrow> s)"
| "feeds_step (FdSummary r) s = (case r of Some n \<Rightarrow> s\<lparr>fd_summary := Some n\<rparr> | None \<Rightarrow> s)"
| "feeds_step (FdIocs now r) s = (case r of Some x \<Rightarrow> iocs_answered now x s | None \<Rightarrow> iocs_refused s)"
| "feeds_step (FdConfirm i) s = handleConfirm i s"
| "feeds_step (FdDismissC i) s = handleDismissConfirmed i s"
| "feeds_step (FdDismissU i) s = handleDismissUnconfirmed i s"
| "feeds_step FdUndo s = undoDismiss s"
| "feeds_step (FdWait ms) s = feeds_wait ms s"
| "feeds_step (FdSev t) s = s\<lparr>fd_sev := t\<rparr>"
| "feeds_step (FdConf t) s = s\<lparr>fd_conf := t\<rparr>"
| "feeds_step (FdSrc t) s = s\<lparr>fd_src := t\<rparr>"
| "feeds_step (FdSearch t) s = s\<lparr>fd_search := t\<rparr>"
| "feeds_step FdClear s = clear_filters s"
| "feeds_step (FdView f) s = apply_view f s"

subsection \<open>The export\<close>

definition PAGE :: nat where "PAGE = 1000"
definition MAX_ROWS :: nat where "MAX_ROWS = 100000"

definition export_call :: "nat option \<Rightarrow> call" where
  "export_call off = fetchIocs (Some ((''limit'', int_str (int PAGE))
     # (case off of None \<Rightarrow> [] | Some k \<Rightarrow> [(''offset'', int_str (int k))])))"

text \<open>The server is a function of how many requests came before, so that it may change between two of
  them. The loop returns what it holds, and every request it made.\<close>

type_synonym ioc_server = "nat \<Rightarrow> call \<Rightarrow> exn + ioc list \<times> nat"

function export_loop :: "ioc_server \<Rightarrow> nat \<Rightarrow> nat \<Rightarrow> ioc list \<Rightarrow> (exn + ioc list) \<times> call list" where
  "export_loop srv n wanted items =
     (if length items < wanted then
        let c = export_call (Some (length items)) in
        case srv n c of
          Inl e \<Rightarrow> (Inl e, [c])
        | Inr (page, k) \<Rightarrow>
            if page = [] then (Inr items, [c])
            else let (r, cs) = export_loop srv (Suc n) wanted (items @ page) in (r, c # cs)
      else (Inr items, []))"
  by pat_completeness auto
termination
  by (relation "measure (\<lambda>(srv, n, wanted, items). wanted - length items)")
     (auto simp: diff_less_mono2)

declare export_loop.simps [simp del]

definition export_header :: "string list" where
  "export_header = [''type'', ''value'', ''severity'', ''confidence'', ''threat_type'', ''actor'', ''source'', ''first_seen'', ''last_seen'']"

definition ioc_cells :: "ioc \<Rightarrow> string list" where
  "ioc_cells i = [io_type i, io_value i, io_severity i, num_str (io_confidence i), io_threatType i, io_actor i,
     io_source i, io_firstSeen i, io_lastSeen i]"

definition shown_cells :: "feeds_page \<Rightarrow> string list list" where
  "shown_cells s = concat (map (\<lambda>e. map (\<lambda>v. [case classifyIoc v of Some t \<Rightarrow> t | None \<Rightarrow> ''unknown'', v,
     sev_text (te_severity e), num_str (te_aiConfidence e), te_attackType e, [],
     case te_feedSources e of [] \<Rightarrow> [] | f # _ \<Rightarrow> f, [], []]) (te_iocs e)) (fd_confirmed s @ fd_unconfirmed s))"

definition export_file :: "string list list \<Rightarrow> string" where
  "export_file rows = join [newline] (join '','' export_header # map (\<lambda>r. join '','' (map csv_esc r)) rows)"

text \<open>The note under the button: a capped export, a whole one, or the fallback on the cards.\<close>

datatype export_note = Capped nat nat | Whole nat | Unreachable nat

definition note_text :: "(nat \<Rightarrow> string) \<Rightarrow> export_note \<Rightarrow> string" where
  "note_text loc x = (case x of
     Capped k n \<Rightarrow> ''Exported the '' @ loc k @ '' most recent of '' @ loc n @ '' indicators (export is capped).''
   | Whole k \<Rightarrow> ''Exported all '' @ loc k @ '' indicators.''
   | Unreachable k \<Rightarrow> ''API unreachable - exported the '' @ loc k @ '' indicators shown on this page, not the full store.'')"

definition fallback_export :: "feeds_page \<Rightarrow> string \<times> export_note" where
  "fallback_export s = (export_file (shown_cells s), Unreachable (length (shown_cells s)))"

definition exportIocs :: "ioc_server \<Rightarrow> feeds_page \<Rightarrow> (string \<times> export_note) \<times> call list" where
  "exportIocs srv s =
     (case srv 0 (export_call None) of
        Inl e \<Rightarrow> (fallback_export s, [export_call None])
      | Inr (first, n) \<Rightarrow>
          (case export_loop srv 1 (min n MAX_ROWS) first of
             (Inl e, cs) \<Rightarrow> (fallback_export s, export_call None # cs)
           | (Inr items, cs) \<Rightarrow> ((export_file (map ioc_cells items),
               if length items < n then Capped (length items) n else Whole (length items)), export_call None # cs)))"

text \<open>The button: one export at a time, and its note is cleared when one starts.\<close>

record export_button =
  eb_exporting :: bool
  eb_note :: "export_note option"

definition export_click :: "export_button \<Rightarrow> export_button" where
  "export_click b = (if eb_exporting b then b else \<lparr>eb_exporting = True, eb_note = None\<rparr>)"

definition export_done :: "export_note \<Rightarrow> export_button \<Rightarrow> export_button" where
  "export_done x b = b\<lparr>eb_note := Some x, eb_exporting := False\<rparr>"

definition export_name :: "int \<Rightarrow> string" where
  "export_name now = ''threatorbit-iocs-'' @ take 10 (toISOString now) @ ''.csv''"

subsection \<open>The export ends and is complete\<close>

lemma export_loop_calls: "length (snd (export_loop srv n wanted items)) \<le> wanted - length items"
proof (induction srv n wanted items rule: export_loop.induct)
  case (1 srv n wanted items)
  show ?case
  proof (cases "length items < wanted")
    case True
    show ?thesis
    proof (cases "srv n (export_call (Some (length items)))")
      case (Inr a)
      obtain page k where a: "a = (page, k)" by (cases a)
      show ?thesis
      proof (cases "page = []")
        case False
        then have l: "0 < length page" by simp
        note IH = "1.IH" [OF True refl Inr a [symmetric] False]
        have "Suc (wanted - length (items @ page)) \<le> wanted - length items" using True l by (simp del: length_greater_0_conv)
        with IH have "length (snd (export_loop srv (Suc n) wanted (items @ page))) < wanted - length items" by linarith
        then show ?thesis
          using True Inr a False by (subst export_loop.simps) (simp add: Let_def case_prod_beta)
      qed (use True Inr a in \<open>subst export_loop.simps, simp add: Let_def\<close>)
    qed (use True in \<open>subst export_loop.simps, simp add: Let_def\<close>)
  qed (simp add: export_loop.simps)
qed

text \<open>C27: the export ends after at most one request and one more for every row it may write, whatever
  the server answers, between requests that change it, with pages of any size.\<close>

theorem export_stops: "length (snd (exportIocs srv s)) \<le> MAX_ROWS + 1"
proof -
  have "length (snd (export_loop srv 1 (min n MAX_ROWS) first)) \<le> MAX_ROWS" for n first
    using export_loop_calls [of srv 1 "min n MAX_ROWS" first] by simp
  then show ?thesis by (auto simp: exportIocs_def split: sum.splits prod.splits) (metis snd_conv)+
qed

text \<open>A server that answers from a store: it reads the limit and the offset out of the query of the
  request.\<close>

definition url_query :: "string \<Rightarrow> string" where
  "url_query u = tl (dropWhile (\<lambda>x. x \<noteq> CHR ''?'') u)"

definition call_params :: "call \<Rightarrow> (string \<times> string) list" where
  "call_params c = parse_params (url_query (c_path c))"

definition call_num :: "string \<Rightarrow> nat \<Rightarrow> call \<Rightarrow> nat" where
  "call_num k d c = (case obj_get (call_params c) k of Some t \<Rightarrow> nat (dec_digits t) | None \<Rightarrow> d)"

definition store_server :: "ioc list \<Rightarrow> ioc_server" where
  "store_server xs n c = Inr (take (call_num ''limit'' 50 c) (drop (call_num ''offset'' 0 c) xs), length xs)"

lemma call_params_iocs: "call_params (fetchIocs (Some ps)) = ps"
proof -
  have "dropWhile (\<lambda>x. x \<noteq> CHR ''?'') (''/cti/iocs'' @ ''?'' @ search_params ps) = ''?'' @ search_params ps" by simp
  then show ?thesis by (simp add: call_params_def url_query_def fetchIocs_def query_of_def parse_search_params)
qed

lemma dec_digits_nat: "nat (dec_digits (int_str (int k))) = k"
  by (simp add: int_str_def dec_digits_base)

lemma store_page:
  "store_server xs n (export_call (Some k)) = Inr (take PAGE (drop k xs), length xs)"
  "store_server xs n (export_call None) = Inr (take PAGE xs, length xs)"
  by (simp_all add: store_server_def call_num_def export_call_def call_params_iocs obj_get_def dec_digits_nat)

lemma export_loop_store:
  assumes "j \<le> J" "wanted = min (length xs) (PAGE * J)"
  shows "fst (export_loop (store_server xs) n wanted (take (PAGE * j) xs)) = Inr (take wanted xs)"
  using assms(1)
proof (induction "J - j" arbitrary: j n)
  case 0
  then have "\<not> length (take (PAGE * j) xs) < wanted" by (simp add: assms(2))
  moreover have "take (PAGE * j) xs = take wanted xs" using 0 by (simp add: assms(2) take_all_iff min_def)
  ultimately show ?case by (simp add: export_loop.simps)
next
  case (Suc m)
  show ?case
  proof (cases "PAGE * j < length xs")
    case True
    then have k: "length (take (PAGE * j) xs) = PAGE * j" by simp
    have lt: "PAGE * j < wanted" using True Suc by (simp add: assms(2) PAGE_def)
    have page: "take PAGE (drop (PAGE * j) xs) \<noteq> []" using True by (simp add: PAGE_def)
    have "take (PAGE * j) xs @ take PAGE (drop (PAGE * j) xs) = take (PAGE * Suc j) xs"
      by (simp add: take_add [symmetric] add.commute)
    moreover have "fst (export_loop (store_server xs) (Suc n) wanted (take (PAGE * Suc j) xs)) = Inr (take wanted xs)"
      using Suc by (intro Suc.hyps(1)) simp_all
    ultimately show ?thesis
      using lt page by (subst export_loop.simps) (simp add: k store_page Let_def case_prod_beta)
  next
    case False
    then have "length (take (PAGE * j) xs) = length xs" "take (PAGE * j) xs = xs" by simp_all
    moreover have "wanted = length xs" using False Suc by (simp add: assms(2) PAGE_def)
    ultimately show ?thesis by (subst export_loop.simps) simp
  qed
qed

lemma export_header_ok: "header_ok export_header"
  by code_simp

lemma export_file_read: "list_all (\<lambda>r. r \<noteq> []) rows \<Longrightarrow> csv_rows [] (export_file rows) = Some (export_header # rows)"
  using csv_file_read [OF export_header_ok, of rows] by (simp add: export_file_def csv_line_of_def [abs_def])

lemma export_store:
  "\<exists>cs. exportIocs (store_server xs) s = ((export_file (map ioc_cells (take MAX_ROWS xs)),
     if length xs \<le> MAX_ROWS then Whole (length xs) else Capped MAX_ROWS (length xs)), cs)"
proof -
  have m: "MAX_ROWS = PAGE * 100" by (simp add: MAX_ROWS_def PAGE_def)
  have "fst (export_loop (store_server xs) 1 (min (length xs) MAX_ROWS) (take PAGE xs)) = Inr (take (min (length xs) MAX_ROWS) xs)"
    using export_loop_store [of 1 100 "min (length xs) MAX_ROWS" xs 1] by (simp add: m)
  then obtain cs where "export_loop (store_server xs) 1 (min (length xs) MAX_ROWS) (take PAGE xs) = (Inr (take MAX_ROWS xs), cs)"
    by (cases "export_loop (store_server xs) 1 (min (length xs) MAX_ROWS) (take PAGE xs)") (auto simp: min_def)
  then show ?thesis by (auto simp: exportIocs_def store_page)
qed

text \<open>C28: over a store that does not change meanwhile the export is complete: the file, read as CSV, has
  one line for each of the first 100,000 indicators in the order of the store, and the note says
  whether there are more.\<close>

theorem export_complete:
  "csv_rows [] (fst (fst (exportIocs (store_server xs) s))) = Some (export_header # map ioc_cells (take MAX_ROWS xs))
   \<and> snd (fst (exportIocs (store_server xs) s)) = (if length xs \<le> MAX_ROWS then Whole (length xs) else Capped MAX_ROWS (length xs))"
proof -
  obtain cs where e: "exportIocs (store_server xs) s = ((export_file (map ioc_cells (take MAX_ROWS xs)),
     if length xs \<le> MAX_ROWS then Whole (length xs) else Capped MAX_ROWS (length xs)), cs)"
    using export_store by blast
  have "csv_rows [] (export_file (map ioc_cells (take MAX_ROWS xs))) = Some (export_header # map ioc_cells (take MAX_ROWS xs))"
    by (rule export_file_read) (simp add: list_all_iff ioc_cells_def)
  then show ?thesis by (simp add: e)
qed

subsection \<open>Blocking takes two clicks\<close>

definition clicks :: "card_op list \<Rightarrow> nat" where
  "clicks ops = count_of (\<lambda>op. case op of TcBlock \<Rightarrow> True | _ \<Rightarrow> False) ops"

definition block_answers :: "card_op list \<Rightarrow> nat" where
  "block_answers ops = count_of (\<lambda>op. case op of TcBlocked r \<Rightarrow> True | _ \<Rightarrow> False) ops"

definition is_import :: "call \<Rightarrow> bool" where
  "is_import c \<longleftrightarrow> c_path c = ''/cti/iocs/import''"

definition card_imports :: "threat_card \<Rightarrow> nat" where
  "card_imports c = count_of is_import (tc_calls c)"

definition card_inv :: "threat_entry \<Rightarrow> nat \<Rightarrow> nat \<Rightarrow> threat_card \<Rightarrow> bool" where
  "card_inv e k n c \<longleftrightarrow>
     2 * card_imports c + (if tc_armed c then 1 else 0) \<le> k
   \<and> card_imports c \<le> n + (if tc_blocking c then 1 else 0)
   \<and> (tc_armed c \<longrightarrow> (\<exists>d \<in> set (tc_disarm c). d \<le> tc_now c + 4000))
   \<and> list_all (\<lambda>x. is_import x \<longrightarrow> x = importIocs (block_body e)) (tc_calls c)"

lemma is_import_simps: "is_import (importIocs b)" "\<not> is_import (createAlert b)"
  by (simp_all add: is_import_def importIocs_def createAlert_def)

lemma card_inv_step:
  assumes "card_inv e k n c"
  shows "card_inv e (k + clicks [op]) (n + block_answers [op]) (card_step e op c)"
proof (cases op)
  case (TcWait ms)
  show ?thesis
    using assms unfolding TcWait card_inv_def
    by (auto simp: clicks_def block_answers_def count_of_def card_imports_def card_wait_def Let_def)
       (metis add_le_mono1 le_add1 le_trans not_less)
qed (use assms in \<open>auto simp: card_inv_def clicks_def block_answers_def count_of_def card_imports_def is_import_simps
      sendToSiem_def siem_answered_def say_note_def blockIocs_def block_answered_def card_wait_def Let_def
      split: option.splits if_splits\<close>)

lemma card_inv_run: "card_inv e k n c \<Longrightarrow> card_inv e (k + clicks ops) (n + block_answers ops) (fold (card_step e) ops c)"
proof (induction ops arbitrary: k n c)
  case (Cons op ops)
  have "clicks (op # ops) = clicks [op] + clicks ops" "block_answers (op # ops) = block_answers [op] + block_answers ops"
    by (simp_all add: clicks_def block_answers_def count_of_def)
  with Cons.IH [OF card_inv_step [OF Cons.prems, of op]] show ?case by (simp add: add.assoc)
qed (simp add: clicks_def block_answers_def count_of_def)

text \<open>C30: whatever is clicked and answered, at whatever times: indicators are written to the store at most
  once for two clicks, one call at a time, always with the body of this entry; and when nobody
  clicks for four seconds the button is no longer armed.\<close>

theorem block_needs_two_clicks:
  "2 * card_imports (fold (card_step e) ops threat_init) \<le> clicks ops
   \<and> card_imports (fold (card_step e) ops threat_init) \<le> block_answers ops + 1
   \<and> filter is_import (tc_calls (fold (card_step e) ops threat_init))
     = replicate (card_imports (fold (card_step e) ops threat_init)) (importIocs (block_body e))
   \<and> \<not> tc_armed (fold (card_step e) (ops @ [TcWait 4000]) threat_init)"
proof -
  let ?c = "fold (card_step e) ops threat_init"
  have "card_inv e 0 0 threat_init" by (simp add: card_inv_def threat_init_def card_imports_def count_of_def)
  from card_inv_run [OF this, of ops] have i: "card_inv e (clicks ops) (block_answers ops) ?c" by simp
  then have "\<not> tc_armed (card_wait 4000 ?c)" by (auto simp: card_inv_def card_wait_def Let_def)
  moreover have "filter is_import (tc_calls ?c) = replicate (card_imports ?c) (importIocs (block_body e))"
    using i by (intro replicate_eqI) (auto simp: card_inv_def list_all_iff card_imports_def count_of_def)
  ultimately show ?thesis using i by (auto simp: card_inv_def split: if_splits)
qed

text \<open>The timer of a note is not cancelled by the next note: a result that comes while the timer of an
  earlier message runs is cleared with that message, although it has a link and was to stay for
  twelve seconds.\<close>

theorem note_cut_short:
  assumes "ms < 4000"
  shows "tc_msg (fold (card_step e) [TcSent None, TcWait ms, TcSent (Some i)] threat_init) \<noteq> None
    \<and> tc_msg (fold (card_step e) [TcSent None, TcWait ms, TcSent (Some i), TcWait (4000 - ms)] threat_init) = None"
  using assms by (auto simp: siem_answered_def say_note_def card_wait_def threat_init_def Let_def)


theorem note_cut_short_witness:
  "\<forall>e. tc_msg (fold (card_step e) [TcSent None, TcWait 1000, TcSent (Some ''a1''), TcWait 3000] threat_init) = None"
  using note_cut_short [of 1000 _ "''a1''"] by simp

subsection \<open>The lists of the page\<close>

definition feeds_inv :: "feeds_page \<Rightarrow> bool" where
  "feeds_inv s \<longleftrightarrow>
     list_all (\<lambda>e. te_status e = Confirmed) (fd_confirmed s)
   \<and> list_all (\<lambda>e. te_status e = Unconfirmed) (fd_unconfirmed s)
   \<and> (case (fd_dismissed s, fd_timer s) of
        (None, None) \<Rightarrow> True
      | (Some (e, st), Some d) \<Rightarrow> te_status e = st \<and> fd_now s < d \<and> d \<le> fd_now s + 7000
      | _ \<Rightarrow> False)"

lemma entry_of_Some: "entry_of i es = Some e \<Longrightarrow> e \<in> set es \<and> te_id e = i"
  by (auto simp: entry_of_def dest: find_Some_set)

lemma feeds_inv_drop: "feeds_inv s \<Longrightarrow> feeds_inv (drop_entry st i s)"
  by (cases st; cases "entry_of i (list_of st s)")
     (auto simp: feeds_inv_def drop_entry_def set_list_def list_of_def armDismiss_def list_all_iff dest!: entry_of_Some split: option.splits)

lemma feeds_inv_undo:
  assumes "feeds_inv s"
  shows "feeds_inv (undoDismiss s)"
proof (cases "fd_dismissed s")
  case (Some a)
  obtain e st where a: "a = (e, st)" by (cases a)
  then have "te_status e = st" using assms Some by (auto simp: feeds_inv_def split: option.splits)
  then show ?thesis
    using assms by (cases st) (simp_all add: feeds_inv_def undoDismiss_def Some a set_list_def restore_entry_def)
qed (use assms in \<open>simp add: undoDismiss_def\<close>)

lemma feeds_inv_step: "feeds_inv s \<Longrightarrow> feeds_inv (feeds_step op s)"
proof (cases op)
  case (FdIocs now r)
  then show "feeds_inv s \<Longrightarrow> ?thesis"
    by (cases r) (auto simp: feeds_inv_def iocs_answered_def iocs_refused_def Let_def list_all_iff split: option.splits)
next
  case (FdConfirm i)
  then show "feeds_inv s \<Longrightarrow> ?thesis"
    by (cases "entry_of i (fd_unconfirmed s)") (auto simp: feeds_inv_def handleConfirm_def list_all_iff split: option.splits)
next
  case FdUndo
  then show "feeds_inv s \<Longrightarrow> ?thesis" by (simp add: feeds_inv_undo)
next
  case (FdWait ms)
  then show "feeds_inv s \<Longrightarrow> ?thesis"
    by (auto simp: feeds_inv_def feeds_wait_def Let_def split: option.splits)
qed (auto simp: feeds_inv_drop handleDismissConfirmed_def handleDismissUnconfirmed_def, auto simp: feeds_inv_def clear_filters_def apply_view_def Let_def split: option.splits)

text \<open>Whatever answers and clicks come in whatever order: an entry stands in the list of its status,
  a confirmed one included, and the undo toast is there exactly while its one timer runs, for at
  most seven seconds, with the entry and the list it came from.\<close>

theorem feeds_lists: "feeds_inv (fold feeds_step ops (feeds_mount query))"
proof -
  have "feeds_inv s \<Longrightarrow> feeds_inv (fold feeds_step ops s)" for s
    by (induction ops arbitrary: s) (simp_all add: feeds_inv_step)
  moreover have "feeds_inv (feeds_mount query)" by (simp add: feeds_inv_def feeds_mount_def)
  ultimately show ?thesis by blast
qed

text \<open>A dismissal can be undone within seven seconds: the entry is back on top of its own list, which
  otherwise is as it was, and nothing else has changed. After seven seconds it cannot.\<close>

theorem dismiss_undo:
  assumes "entry_of i (list_of st s) = Some e"
  shows "undoDismiss (feeds_wait ms (drop_entry st i s)) =
     (if ms < 7000
      then (set_list st (\<lambda>es. e # filter (\<lambda>x. te_id x \<noteq> i) es) s)\<lparr>fd_now := fd_now s + ms, fd_dismissed := None, fd_timer := None\<rparr>
      else feeds_wait ms (drop_entry st i s))"
  using entry_of_Some [OF assms] assms
  by (auto simp: drop_entry_def armDismiss_def feeds_wait_def undoDismiss_def set_list_def restore_entry_def Let_def)

definition sample_ioc :: ioc where
  "sample_ioc = \<lparr>io_id = ''i1'', io_type = ''ip'', io_value = ''203.0.113.7'', io_severity = ''high'', io_actor = [],
     io_source = ''urlhaus'', io_firstSeen = ''2024-02-28T10:00:00Z'', io_lastSeen = ''2024-02-29T10:00:00Z'',
     io_threatType = ''botnet'', io_confidence = 90, io_tags = None\<rparr>"

theorem dismiss_undo_witness:
  "map te_id (fd_confirmed (undoDismiss (feeds_wait 6999 (drop_entry Confirmed ''i1''
     (iocs_answered 0 ([sample_ioc], 1) (feeds_mount [])))))) = [''i1'']"
proof -
  let ?s = "iocs_answered 0 ([sample_ioc], 1) (feeds_mount [])"
  have "entry_of ''i1'' (list_of Confirmed ?s) = Some (iocToEntry 0 sample_ioc)"
    by (simp add: entry_of_def list_of_def iocs_answered_def Let_def sample_ioc_def iocToEntry_def)
  from dismiss_undo [OF this, of 6999] show ?thesis
    by (simp add: set_list_def iocToEntry_def sample_ioc_def iocs_answered_def)
qed

text \<open>The load that runs before the family of the address is known is not cancelled. When its answer is
  the later one, the page shows the whole store under the banner of the family, with the size of the
  store as the number of indicators that carry it.\<close>

theorem family_overtaken:
  assumes "family_of query = Some f"
  shows "fd_calls (feeds_mount query) = load_calls None @ load_calls (Some f)
   \<and> family_banner loc (fold feeds_step [FdIocs t1 (Some fam), FdIocs t2 (Some (items, n))] (feeds_mount query))
       = Some (f, loc (of_nat n) @ (if n = 1 then '' indicator'' else '' indicators''))
   \<and> fd_confirmed (fold feeds_step [FdIocs t1 (Some fam), FdIocs t2 (Some (items, n))] (feeds_mount query))
       = filter (\<lambda>e. te_status e = Confirmed) (map (iocToEntry t2) items)"
  using assms by (simp add: feeds_mount_def family_banner_def iocs_answered_def Let_def split: prod.splits)

theorem family_overtaken_witness:
  "family_banner (\<lambda>x. num_str x) (fold feeds_step [FdIocs 0 (Some ([], 0)), FdIocs 0 (Some ([sample_ioc], 1))]
     (feeds_mount ''family=Emotet'')) = Some (''emotet'', ''1 indicator'')"
proof -
  have "family_of ''family=Emotet'' = Some ''emotet''" by code_simp
  moreover have "num_str (of_nat 1) = ''1''" by code_simp
  ultimately show ?thesis
    using family_overtaken [of "''family=Emotet''" "''emotet''" num_str 0 "([], 0)" 0 "[sample_ioc]" 1] by simp
qed

text \<open>A store that cannot be reached leaves the columns exactly as a store with no indicator does.\<close>

theorem outage_looks_quiet:
  "column_shows st (feeds_step (FdIocs t None) (feeds_mount query))
   = column_shows st (feeds_step (FdIocs t (Some ([], 0))) (feeds_mount query))"
  by (simp add: column_shows_def filtered_entries_def list_of_def iocs_answered_def iocs_refused_def feeds_mount_def Let_def)

subsection \<open>Links read back\<close>

text \<open>What a page reads out of a query string that another page has written: plain keys and encoded
  values.\<close>

lemma form_decode_uri: "form_decode (encodeURIComponent s) = s"
proof -
  have "map (\<lambda>c. if c = CHR ''+'' then CHR '' '' else c) (encodeURIComponent s) = encodeURIComponent s"
    using encode_no_delim [of _ s] by (intro map_idI) auto
  then show ?thesis by (simp add: form_decode_def decode_encode)
qed

lemma form_decode_alpha: "list_all is_alpha k \<Longrightarrow> form_decode k = k"
proof (induction k)
  case (Cons c k)
  then have "c \<noteq> CHR ''%''" "c \<noteq> CHR ''+''" by (auto simp: is_alpha_def is_upper_def is_lower_def code_def)
  with Cons show ?case by (simp add: form_decode_plain)
qed (simp add: form_decode_def)

lemma query_pairs:
  assumes "list_all (\<lambda>(k, v). list_all is_alpha k) ps" "ps \<noteq> []"
  shows "parse_params (join ''&'' (map (\<lambda>(k, v). k @ ''='' @ encodeURIComponent v) ps)) = ps"
proof -
  have c: "CHR ''='' \<notin> set k \<and> CHR ''&'' \<notin> set k \<and> form_decode k = k" if "(k, v) \<in> set ps" for k v
  proof -
    have k: "list_all is_alpha k" using assms(1) that by (auto simp: list_all_iff)
    then have "c \<in> set k \<Longrightarrow> is_alpha c" for c by (simp add: list_all_iff)
    then have "CHR ''='' \<notin> set k" "CHR ''&'' \<notin> set k" by (force simp: is_alpha_def is_upper_def is_lower_def code_def)+
    then show ?thesis by (simp add: form_decode_alpha k)
  qed
  have "split_char (CHR ''&'') (join ''&'' (map (\<lambda>(k, v). k @ ''='' @ encodeURIComponent v) ps))
      = map (\<lambda>(k, v). k @ ''='' @ encodeURIComponent v) ps"
    using assms(2) c encode_no_delim [of "CHR ''&''"] by (intro split_char_join) auto
  moreover have "filter (\<lambda>w. w \<noteq> []) (map (\<lambda>(k, v). k @ ''='' @ encodeURIComponent v) ps) = map (\<lambda>(k, v). k @ ''='' @ encodeURIComponent v) ps"
    by (auto simp: filter_id_conv)
  moreover have "map (\<lambda>w. (form_decode (fst (split_pair w)), form_decode (snd (split_pair w))))
      (map (\<lambda>(k, v). k @ ''='' @ encodeURIComponent v) ps) = ps"
    unfolding map_map using c by (intro map_idI) (auto simp: split_pair_append form_decode_uri)
  ultimately show ?thesis by (simp only: parse_params_def)
qed

lemma url_query_path: "CHR ''?'' \<notin> set p \<Longrightarrow> url_query (p @ CHR ''?'' # q) = q"
proof -
  assume "CHR ''?'' \<notin> set p"
  then have "dropWhile (\<lambda>x. x \<noteq> CHR ''?'') (p @ CHR ''?'' # q) = CHR ''?'' # q" by (induction p) auto
  then show ?thesis by (simp add: url_query_def)
qed

end
