(* ===== verification/Optimistic.thy ===== *)
theory Optimistic
  imports Prelude
begin

text \<open>
  Deletions shown before the backend has confirmed them. A list on a page loses its entry at the
  click; the handler has kept the list of that moment and puts it back when the call is refused.
  The contract of a page that does so is the locale \<open>optimistic_list\<close>: what the page shows, the
  deletion and the restoration. Its lemmas say when this is right and what it does when two
  deletions overlap; the pages interpret it.
\<close>

locale optimistic_list =
  fixes items :: "'s \<Rightarrow> 'a list"
    and ident :: "'a \<Rightarrow> string"
    and drop_item :: "string \<Rightarrow> 's \<Rightarrow> 's"
    and put_back :: "'a list \<Rightarrow> 's \<Rightarrow> 's"
  assumes items_drop: "items (drop_item i s) = filter (\<lambda>x. ident x \<noteq> i) (items s)"
    and items_put: "items (put_back xs s) = xs"
begin

text \<open>A refusal gives back what was there at the click, in its place.\<close>

lemma refused_restores: "items (put_back (items s) (drop_item i s)) = items s"
  by (simp add: items_put)

text \<open>A deletion that is accepted takes exactly its entry.\<close>

lemma dropped_gone: "x \<in> set (items (drop_item i s)) \<longleftrightarrow> x \<in> set (items s) \<and> ident x \<noteq> i"
  by (simp add: items_drop)

text \<open>Two overlapping deletions: when the first is refused, the second entry is shown again as
  well, whatever the backend did with it; and when the second is refused after the first was, the
  first entry disappears although it is still there.\<close>

lemma overlap_resurrects:
  "items (put_back (items s) (drop_item j (drop_item i s))) = items s"
  by (simp add: items_put)

lemma overlap_hides:
  "items (put_back (items (drop_item i s)) (put_back (items s) (drop_item j (drop_item i s)))) =
     filter (\<lambda>x. ident x \<noteq> i) (items s)"
  by (simp add: items_put items_drop)

end

end
