(* ===== verification/SiemRules.thy ===== *)
theory SiemRules
  imports JsonParse ApiClient Helpers JsArray Optimistic
begin

text \<open>
  The detection rules (\<open>app/dashboard/siem/rules/page.tsx\<close>) and the editor that authors them
  (\<open>components/dashboard/RuleEditor.tsx\<close>): the row a rule of the backend becomes, the list with its
  filters, switches and deletions, the panel of one rule, and the definition the editor builds.
  A change of the list resets the switches, as the effect on it does after every render.
  \<open>Number\<close> of a text knows decimal literals; \<open>Infinity\<close> and the forms with a radix prefix are
  outside the model and count as NaN.
\<close>

subsection \<open>Rows\<close>

record detection_rule =
  dr_id :: string
  dr_name :: string
  dr_category :: string
  dr_severity :: string
  dr_mitreTactic :: string
  dr_mitreTechId :: string
  dr_mitreTech :: string
  dr_hits24h :: rat
  dr_fpRate :: rat
  dr_status :: string
  dr_source :: string
  dr_lastFired :: string
  dr_created :: string
  dr_updatedBy :: string
  dr_description :: string
  dr_kql :: string
  dr_suppressionWindow :: string
  dr_severityOverride :: "json option"
  dr_tags :: "string list"
  dr_noise :: json
  dr_definition :: "json option"

text \<open>\<open>Number(v)\<close>, with \<open>None\<close> for NaN.\<close>

definition text_number :: "string \<Rightarrow> rat option" where
  "text_number s =
     (if trim s = [] then Some 0
      else let (g, u) = split_sign (trim s); w = takeWhile is_digit u; r = dropWhile is_digit u;
               point = (r \<noteq> [] \<and> hd r = CHR ''.'');
               frac = (if point then takeWhile is_digit (tl r) else []);
               r' = (if point then dropWhile is_digit (tl r) else r)
           in if w = [] \<and> frac = [] then None
              else case parse_exp r' of
                None \<Rightarrow> None
              | Some e \<Rightarrow> Some (of_int g * fl (of_int (dec_digits (w @ frac)) * 10 powi (e - int (length frac)))))"

fun js_number :: "json \<Rightarrow> rat option" where
  "js_number JUndef = None"
| "js_number JNull = Some 0"
| "js_number (JBool b) = Some (if b then 1 else 0)"
| "js_number (JNum x) = Some x"
| "js_number (JStr s) = text_number s"
| "js_number v = text_number (js_string v)"

definition rule_num :: "json \<Rightarrow> rat" where
  "rule_num v = (case js_number v of None \<Rightarrow> 0 | Some x \<Rightarrow> x)"

fun rule_str :: "json \<Rightarrow> string \<Rightarrow> string" where
  "rule_str (JStr s) d = (if s \<noteq> [] then s else d)"
| "rule_str v d = d"

fun parseJson :: "json \<Rightarrow> json" where
  "parseJson (JStr s) = (case json_parse s of Some v \<Rightarrow> v | None \<Rightarrow> JNull)"
| "parseJson v = v"

fun rule_tags :: "json \<Rightarrow> string list" where
  "rule_tags (JArr vs) = map js_string vs"
| "rule_tags v = []"

definition every_occurrence :: string where "every_occurrence = ''None (alert every occurrence)''"

fun suppression_text :: "json \<Rightarrow> string" where
  "suppression_text (JNum x) = (if 0 < x then num_str x @ ''m window'' else every_occurrence)"
| "suppression_text v = rule_str v every_occurrence"

definition validCats :: "string list" where
  "validCats = [''Network'', ''Endpoint'', ''Cloud'', ''Identity'', ''Threat Intel'']"

fun is_object :: "json \<Rightarrow> bool" where
  "is_object (JObj ms) = True"
| "is_object (JArr vs) = True"
| "is_object v = False"

definition either_key :: "json \<Rightarrow> string \<Rightarrow> string \<Rightarrow> json" where
  "either_key r k k' = nullish (json_get k r) (json_get k' r)"

definition normalizeRule :: "json \<Rightarrow> detection_rule" where
  "normalizeRule r =
     (let cat = rule_str (json_get ''category'' r) ''Network'';
          sevOverride = either_key r ''severityOverride'' ''severity_override'';
          def = parseJson (json_get ''definition'' r) in
      \<lparr>dr_id = rule_str (json_get ''id'' r) [],
       dr_name = rule_str (json_get ''name'' r) ''Unnamed rule'',
       dr_category = (if cat \<in> set validCats then cat else ''Network''),
       dr_severity = rule_str (json_get ''severity'' r) ''medium'',
       dr_mitreTactic = rule_str (either_key r ''mitreTactic'' ''mitre_tactic'') ''-'',
       dr_mitreTechId = rule_str (either_key r ''mitreTechId'' ''mitre_tech_id'') ''-'',
       dr_mitreTech = rule_str (either_key r ''mitreTech'' ''mitre_tech'') ''-'',
       dr_hits24h = rule_num (either_key r ''hits24h'' ''hits_24h''),
       dr_fpRate = rule_num (either_key r ''fpRate'' ''fp_rate''),
       dr_status = rule_str (json_get ''status'' r) ''enabled'',
       dr_source = rule_str (json_get ''source'' r) ''custom'',
       dr_lastFired = rule_str (either_key r ''lastFired'' ''last_fired'') ''never'',
       dr_created = rule_str (json_get ''created'' r) ''-'',
       dr_updatedBy = rule_str (either_key r ''updatedBy'' ''updated_by'') ''-'',
       dr_description = rule_str (json_get ''description'' r) ''No description provided.'',
       dr_kql = rule_str (json_get ''kql'' r) ''(no detection query stored for this rule)'',
       dr_suppressionWindow = suppression_text (either_key r ''suppressionWindow'' ''suppression_window''),
       dr_severityOverride = (if truthy sevOverride then Some sevOverride else None),
       dr_tags = rule_tags (parseJson (json_get ''tags'' r)),
       dr_noise = nullish (json_get ''noise'' r) JNull,
       dr_definition = (if is_object def then Some def else None)\<rparr>)"

text \<open>The styles of a severity; a severity that is not listed has none, and the page that reads a
  field of it fails.\<close>

definition SEV_CONFIG :: "(string, string \<times> string \<times> string \<times> string \<times> string) obj" where
  "SEV_CONFIG =
     [(''critical'', ''bg-magenta/15'', ''text-magenta'', ''border-magenta/30'', tk Magenta, ''Critical''),
      (''high'', ''bg-threat/15'', ''text-threat'', ''border-threat/30'', tk Threat, ''High''),
      (''medium'', ''bg-amber/15'', ''text-amber'', ''border-amber/30'', tk Amber, ''Medium''),
      (''low'', ''bg-safe/15'', ''text-safe'', ''border-safe/30'', tk Safe, ''Low''),
      (''info'', ''bg-violet/15'', ''text-violet'', ''border-violet/30'', tk Violet, ''Info'')]"

definition CAT_COLOR :: "(string, string) obj" where
  "CAT_COLOR = [(''Network'', tk Violet), (''Endpoint'', tk Threat), (''Cloud'', tk Safe),
     (''Identity'', tk Amber), (''Threat Intel'', tk Magenta)]"

subsection \<open>The page and the panel of one rule\<close>

text \<open>The panel keeps its state as long as it is mounted; \<open>rl_mount\<close> numbers the mounts, so that an
  answer only reaches the panel that asked.\<close>

record rule_panel =
  rl_mount :: nat
  rl_override :: "json option"
  rl_saving :: bool
  rl_saved :: bool
  rl_saveErr :: "string option"
  rl_testing :: bool
  rl_testResult :: "(rat \<times> rat) option"
  rl_testErr :: "string option"

record rules_page =
  ru_rules :: "detection_rule list"
  ru_failed :: bool
  ru_showNew :: bool
  ru_search :: string
  ru_sev :: string
  ru_stat :: string
  ru_cat :: string
  ru_selected :: "string option"
  ru_statuses :: "(string, string) obj"
  ru_pending :: bool
  ru_panel :: "rule_panel option"
  ru_mounts :: nat
  ru_calls :: "call list"

definition rules_init :: rules_page where
  "rules_init = \<lparr>ru_rules = [], ru_failed = False, ru_showNew = False, ru_search = [], ru_sev = ''all'',
     ru_stat = ''all'', ru_cat = ''all'', ru_selected = None, ru_statuses = [], ru_pending = False, ru_panel = None,
     ru_mounts = 0, ru_calls = []\<rparr>"

definition selectedRule :: "rules_page \<Rightarrow> detection_rule option" where
  "selectedRule s = find (\<lambda>r. Some (dr_id r) = ru_selected s) (ru_rules s)"

definition panel_init :: "nat \<Rightarrow> detection_rule \<Rightarrow> rule_panel" where
  "panel_init n r = \<lparr>rl_mount = n, rl_override = dr_severityOverride r, rl_saving = False, rl_saved = False,
     rl_saveErr = None, rl_testing = False, rl_testResult = None, rl_testErr = None\<rparr>"

text \<open>The render after a step: a selected rule mounts the panel unless it is mounted, for
  whichever rule. The exit animation over, a panel without a rule is unmounted.\<close>

definition panel_render :: "rules_page \<Rightarrow> rules_page" where
  "panel_render s =
     (case (selectedRule s, ru_panel s) of
        (Some r, None) \<Rightarrow> s\<lparr>ru_panel := Some (panel_init (ru_mounts s) r), ru_mounts := Suc (ru_mounts s)\<rparr>
      | _ \<Rightarrow> s)"

definition panel_exited :: "rules_page \<Rightarrow> rules_page" where
  "panel_exited s = (if selectedRule s = None then s\<lparr>ru_panel := None\<rparr> else s)"

text \<open>A new list is rendered with the switches as they are; the effect of the change, which resets the
  switches to the list, runs after that render and before anything else happens on the page.\<close>

definition status_entries :: "detection_rule list \<Rightarrow> (string, string) obj" where
  "status_entries rs = from_entries (map (\<lambda>r. (dr_id r, dr_status r)) rs)"

definition put_rules :: "detection_rule list \<Rightarrow> rules_page \<Rightarrow> rules_page" where
  "put_rules rs s = s\<lparr>ru_rules := rs, ru_pending := True\<rparr>"

definition statuses_effect :: "rules_page \<Rightarrow> rules_page" where
  "statuses_effect s = (if ru_pending s then s\<lparr>ru_statuses := status_entries (ru_rules s), ru_pending := False\<rparr> else s)"

definition rules_answered :: "json list \<Rightarrow> rules_page \<Rightarrow> rules_page" where
  "rules_answered rows s = put_rules (map normalizeRule rows) s"

definition rules_refused :: "rules_page \<Rightarrow> rules_page" where
  "rules_refused s = s\<lparr>ru_failed := True\<rparr>"

definition rules_send :: "call \<Rightarrow> rules_page \<Rightarrow> rules_page" where
  "rules_send c s = s\<lparr>ru_calls := ru_calls s @ [c]\<rparr>"

definition prev_status :: "string \<Rightarrow> rules_page \<Rightarrow> string" where
  "prev_status i s = (case obj_get (ru_statuses s) i of None \<Rightarrow> ''enabled'' | Some v \<Rightarrow> v)"

definition toggleRule :: "string \<Rightarrow> rules_page \<Rightarrow> rules_page" where
  "toggleRule i s =
     (let nxt = (if prev_status i s = ''enabled'' then ''disabled'' else ''enabled'') in
      rules_send (patchRule i (JObj [(''status'', JStr nxt)])) (s\<lparr>ru_statuses := obj_set i nxt (ru_statuses s)\<rparr>))"

definition toggle_refused :: "string \<Rightarrow> string \<Rightarrow> rules_page \<Rightarrow> rules_page" where
  "toggle_refused i prev s = s\<lparr>ru_statuses := obj_set i prev (ru_statuses s)\<rparr>"

definition removeRule :: "bool \<Rightarrow> string \<Rightarrow> rules_page \<Rightarrow> rules_page" where
  "removeRule confirmed i s =
     (if \<not> confirmed then s
      else let s = put_rules (filter (\<lambda>r. dr_id r \<noteq> i) (ru_rules s)) s;
               s = (if ru_selected s = Some i then s\<lparr>ru_selected := None\<rparr> else s)
           in rules_send (deleteRule i) s)"

definition click_rule :: "string \<Rightarrow> rules_page \<Rightarrow> rules_page" where
  "click_rule i s = s\<lparr>ru_selected := (if ru_selected s = Some i then None else Some i)\<rparr>"

definition close_panel :: "rules_page \<Rightarrow> rules_page" where
  "close_panel s = s\<lparr>ru_selected := None\<rparr>"

text \<open>The panel shows the rule with its live status. Saving sends the override, an empty text for
  none; a test needs a definition.\<close>

definition live_status :: "rules_page \<Rightarrow> detection_rule \<Rightarrow> string option" where
  "live_status s r = obj_get (ru_statuses s) (dr_id r)"

definition on_panel :: "nat \<Rightarrow> (rule_panel \<Rightarrow> rule_panel) \<Rightarrow> rules_page \<Rightarrow> rules_page" where
  "on_panel m f s = s\<lparr>ru_panel := map_option (\<lambda>p. if rl_mount p = m then f p else p) (ru_panel s)\<rparr>"

definition set_override :: "json option \<Rightarrow> rules_page \<Rightarrow> rules_page" where
  "set_override v s = s\<lparr>ru_panel := map_option (rl_override_update (\<lambda>_. v)) (ru_panel s)\<rparr>"

definition save_enabled :: "rules_page \<Rightarrow> bool" where
  "save_enabled s = (case (ru_panel s, selectedRule s) of
     (Some p, Some r) \<Rightarrow> \<not> rl_saving p \<and> rl_override p \<noteq> dr_severityOverride r | _ \<Rightarrow> False)"

definition handleSave :: "rules_page \<Rightarrow> rules_page" where
  "handleSave s =
     (case (ru_panel s, selectedRule s) of
        (Some p, Some r) \<Rightarrow>
          if rl_saving p then s
          else rules_send (patchRule (dr_id r)
                 (JObj [(''severityOverride'', case rl_override p of None \<Rightarrow> JStr [] | Some v \<Rightarrow> v)]))
               (s\<lparr>ru_panel := Some (p\<lparr>rl_saving := True, rl_saveErr := None\<rparr>)\<rparr>)
      | _ \<Rightarrow> s)"

definition save_answered :: "nat \<Rightarrow> string \<Rightarrow> json option \<Rightarrow> bool \<Rightarrow> rules_page \<Rightarrow> rules_page" where
  "save_answered m i v ok s =
     (if ok then on_panel m (\<lambda>p. p\<lparr>rl_saved := True, rl_saving := False\<rparr>)
        (put_rules (map (\<lambda>r. if dr_id r = i then r\<lparr>dr_severityOverride := v\<rparr> else r) (ru_rules s)) s)
      else on_panel m (\<lambda>p. p\<lparr>rl_saveErr := Some ''Could not save - is the dashboard API running?'', rl_saving := False\<rparr>) s)"

definition saved_shown :: "nat \<Rightarrow> rules_page \<Rightarrow> rules_page" where
  "saved_shown m = on_panel m (\<lambda>p. p\<lparr>rl_saved := False\<rparr>)"

definition handleTest :: "rules_page \<Rightarrow> rules_page" where
  "handleTest s =
     (case (ru_panel s, selectedRule s) of
        (Some p, Some r) \<Rightarrow>
          (case dr_definition r of
             Some d \<Rightarrow> if rl_testing p then s
               else rules_send (testRule d) (s\<lparr>ru_panel := Some (p\<lparr>rl_testing := True, rl_testErr := None, rl_testResult := None\<rparr>)\<rparr>)
           | None \<Rightarrow> s)
      | _ \<Rightarrow> s)"

definition test_answered :: "nat \<Rightarrow> (rat \<times> rat) option \<Rightarrow> rules_page \<Rightarrow> rules_page" where
  "test_answered m r =
     on_panel m (\<lambda>p. case r of
       Some x \<Rightarrow> p\<lparr>rl_testResult := Some x, rl_testing := False\<rparr>
     | None \<Rightarrow> p\<lparr>rl_testErr := Some ''Backtest failed - is the dashboard API running?'', rl_testing := False\<rparr>)"

text \<open>What the panel says of a test; \<open>loc\<close> is \<open>toLocaleString\<close>.\<close>

definition test_text :: "(rat \<Rightarrow> string) \<Rightarrow> rat \<times> rat \<Rightarrow> string" where
  "test_text loc r = (case r of (matched, scanned) \<Rightarrow>
     if 0 < matched
     then ''Backtest: '' @ num_str matched @ '' match'' @ (if matched = 1 then [] else ''es'') @ '' across '' @ loc scanned
            @ '' recent events - no alerts were created.''
     else ''Backtest: no matches across '' @ loc scanned @ '' recent events - no alerts were created.'')"

definition related_query :: "detection_rule \<Rightarrow> string" where
  "related_query r = ''q='' @ encodeURIComponent (dr_name r)"

definition sigma_file :: "detection_rule \<Rightarrow> string" where
  "sigma_file r = toLowerCase (dr_id r) @ ''-sigma.yml''"

subsection \<open>Rows, figures and steps\<close>

definition rule_shown :: "rules_page \<Rightarrow> detection_rule \<Rightarrow> bool" where
  "rule_shown s r \<longleftrightarrow>
     (ru_sev s = ''all'' \<or> dr_severity r = ru_sev s)
   \<and> (ru_cat s = ''all'' \<or> dr_category r = ru_cat s)
   \<and> (ru_stat s = ''all'' \<or> live_status s r = Some (ru_stat s))
   \<and> (ru_search s = [] \<or>
        (let q = toLowerCase (ru_search s) in
         str_includes (toLowerCase (dr_name r)) q \<or> str_includes (toLowerCase (dr_id r)) q
         \<or> str_includes (toLowerCase (dr_mitreTechId r)) q \<or> str_includes (toLowerCase (dr_mitreTech r)) q
         \<or> str_includes (toLowerCase (dr_category r)) q))"

definition rule_rows :: "rules_page \<Rightarrow> detection_rule list" where
  "rule_rows s = filter (rule_shown s) (ru_rules s)"

definition with_status :: "string \<Rightarrow> rules_page \<Rightarrow> nat" where
  "with_status v s = count_of (\<lambda>r. live_status s r = Some v) (ru_rules s)"

definition disabled_count :: "rules_page \<Rightarrow> int" where
  "disabled_count s = int (length (ru_rules s)) - int (with_status ''enabled'' s) - int (with_status ''suppressed'' s)"

text \<open>The figures of the header; the share of active rules is NaN without rules.\<close>

definition active_share :: "rules_page \<Rightarrow> int option" where
  "active_share s = (if ru_rules s = [] then None
     else Some (js_round (js_mul (js_div (of_nat (with_status ''enabled'' s)) (of_nat (length (ru_rules s)))) 100)))"

definition rule_kpis :: "rules_page \<Rightarrow> (string \<times> nat) list" where
  "rule_kpis s = [(''Total Rules'', length (ru_rules s)), (''Active'', with_status ''enabled'' s),
     (''Suppressed'', with_status ''suppressed'' s), (''Custom Rules'', 44)]"

datatype rules_op =
    RulesAnswered "json list" | RulesRefused | Toggle string | ToggleRefused string string
  | RemoveRule bool string | RemoveRefused "detection_rule list" | ClickRule string | ClosePanel | PanelExited
  | SetOverride "json option" | Save | SaveAnswered nat string "json option" bool | SavedShown nat
  | Test | TestAnswered nat "(rat \<times> rat) option"
  | SearchRules string | FilterSev string | FilterStat string | FilterCat string | ShowNew bool | Painted

fun rules_do :: "rules_op \<Rightarrow> rules_page \<Rightarrow> rules_page" where
  "rules_do (RulesAnswered rows) s = panel_render (rules_answered rows s)"
| "rules_do RulesRefused s = rules_refused s"
| "rules_do (Toggle i) s = toggleRule i s"
| "rules_do (ToggleRefused i v) s = toggle_refused i v s"
| "rules_do (RemoveRule c i) s = removeRule c i s"
| "rules_do (RemoveRefused rs) s = panel_render (put_rules rs s)"
| "rules_do (ClickRule i) s = panel_render (click_rule i s)"
| "rules_do ClosePanel s = close_panel s"
| "rules_do PanelExited s = panel_exited s"
| "rules_do (SetOverride v) s = set_override v s"
| "rules_do Save s = handleSave s"
| "rules_do (SaveAnswered m i v ok) s = save_answered m i v ok s"
| "rules_do (SavedShown m) s = saved_shown m s"
| "rules_do Test s = handleTest s"
| "rules_do (TestAnswered m r) s = test_answered m r s"
| "rules_do (SearchRules t) s = s\<lparr>ru_search := t\<rparr>"
| "rules_do (FilterSev v) s = s\<lparr>ru_sev := v\<rparr>"
| "rules_do (FilterStat v) s = s\<lparr>ru_stat := v\<rparr>"
| "rules_do (FilterCat v) s = s\<lparr>ru_cat := v\<rparr>"
| "rules_do (ShowNew b) s = s\<lparr>ru_showNew := b\<rparr>"
| "rules_do Painted s = s"

definition rules_step :: "rules_op \<Rightarrow> rules_page \<Rightarrow> rules_page" where
  "rules_step op s = rules_do op (statuses_effect s)"

subsection \<open>The editor\<close>

type_synonym condition = "string \<times> string \<times> string"

record rule_editor =
  ed_name :: string
  ed_severity :: string
  ed_techId :: string
  ed_all :: bool
  ed_conditions :: "condition list"
  ed_useAgg :: bool
  ed_groupBy :: string
  ed_threshold :: rat
  ed_windowMinutes :: rat
  ed_test :: "json option"
  ed_testing :: bool
  ed_saving :: bool
  ed_error :: "string option"
  ed_open :: bool
  ed_calls :: "call list"

definition editor_init :: rule_editor where
  "editor_init = \<lparr>ed_name = [], ed_severity = ''high'', ed_techId = [], ed_all = True,
     ed_conditions = [(''event_type'', ''equals'', [])], ed_useAgg = False, ed_groupBy = ''src_ip'',
     ed_threshold = 5, ed_windowMinutes = 5, ed_test = None, ed_testing = False, ed_saving = False,
     ed_error = None, ed_open = True, ed_calls = []\<rparr>"

definition condition_json :: "condition \<Rightarrow> json" where
  "condition_json c = (case c of (f, p, v) \<Rightarrow> JObj [(''field'', JStr f), (''op'', JStr p), (''value'', JStr v)])"

definition buildDef :: "rule_editor \<Rightarrow> json" where
  "buildDef e = JObj
     ([(''conditions'', JArr (map condition_json (filter (\<lambda>(f, p, v). f \<noteq> [] \<and> p \<noteq> []) (ed_conditions e)))),
       (''logic'', JStr (if ed_all e then ''and'' else ''or''))]
      @ (if ed_useAgg e then [(''aggregation'', JObj [(''groupBy'', JStr (ed_groupBy e)),
           (''threshold'', JNum (ed_threshold e)), (''windowMinutes'', JNum (ed_windowMinutes e))])] else []))"

definition canRun :: "rule_editor \<Rightarrow> bool" where
  "canRun e \<longleftrightarrow> trim (ed_name e) \<noteq> [] \<and> (\<exists>(f, p, v) \<in> set (ed_conditions e). f \<noteq> [] \<and> v \<noteq> [])"

text \<open>A button that is disabled does nothing.\<close>

definition runTest :: "rule_editor \<Rightarrow> rule_editor" where
  "runTest e = (if \<not> canRun e \<or> ed_testing e then e
     else e\<lparr>ed_testing := True, ed_error := None, ed_calls := ed_calls e @ [testRule (buildDef e)]\<rparr>)"

definition test_done :: "json option \<Rightarrow> rule_editor \<Rightarrow> rule_editor" where
  "test_done r e = (case r of
     Some j \<Rightarrow> e\<lparr>ed_test := Some j, ed_testing := False\<rparr>
   | None \<Rightarrow> e\<lparr>ed_error := Some ''Backtest failed - check your conditions.'', ed_testing := False\<rparr>)"

definition save_rule :: "rule_editor \<Rightarrow> rule_editor" where
  "save_rule e =
     (if \<not> canRun e \<or> ed_saving e then e
      else e\<lparr>ed_saving := True, ed_error := None,
             ed_calls := ed_calls e @ [createDetectionRule (JObj [(''name'', JStr (trim (ed_name e))),
               (''severity'', JStr (ed_severity e)), (''category'', JStr ''Custom''),
               (''mitreTechId'', if ed_techId e \<noteq> [] then JStr (ed_techId e) else JUndef),
               (''definition'', buildDef e)])]\<rparr>)"

definition rule_save_done :: "bool \<Rightarrow> rule_editor \<Rightarrow> rule_editor" where
  "rule_save_done ok e = (if ok then e\<lparr>ed_open := False\<rparr>
     else e\<lparr>ed_error := Some ''Could not save the rule.'', ed_saving := False\<rparr>)"

definition set_condition :: "nat \<Rightarrow> condition \<Rightarrow> rule_editor \<Rightarrow> rule_editor" where
  "set_condition i c e = e\<lparr>ed_conditions := (ed_conditions e)[i := c]\<rparr>"

definition drop_condition :: "nat \<Rightarrow> rule_editor \<Rightarrow> rule_editor" where
  "drop_condition i e = (if length (ed_conditions e) = 1 then e
     else e\<lparr>ed_conditions := take i (ed_conditions e) @ drop (Suc i) (ed_conditions e)\<rparr>)"

definition add_condition :: "rule_editor \<Rightarrow> rule_editor" where
  "add_condition e = e\<lparr>ed_conditions := ed_conditions e @ [(''src_ip'', ''equals'', [])]\<rparr>"

datatype editor_op =
    EdName string | EdSeverity string | EdTech string | EdLogic bool | EdCondition nat condition
  | EdDrop nat | EdAdd | EdAggregate bool | EdGroupBy string | EdThreshold rat | EdWindow rat
  | EdRunTest | EdTested "json option" | EdSave | EdSaved bool

fun editor_step :: "editor_op \<Rightarrow> rule_editor \<Rightarrow> rule_editor" where
  "editor_step (EdName t) e = e\<lparr>ed_name := t\<rparr>"
| "editor_step (EdSeverity t) e = e\<lparr>ed_severity := t\<rparr>"
| "editor_step (EdTech t) e = e\<lparr>ed_techId := t\<rparr>"
| "editor_step (EdLogic b) e = e\<lparr>ed_all := b\<rparr>"
| "editor_step (EdCondition i c) e = set_condition i c e"
| "editor_step (EdDrop i) e = drop_condition i e"
| "editor_step EdAdd e = add_condition e"
| "editor_step (EdAggregate b) e = e\<lparr>ed_useAgg := b\<rparr>"
| "editor_step (EdGroupBy t) e = e\<lparr>ed_groupBy := t\<rparr>"
| "editor_step (EdThreshold x) e = e\<lparr>ed_threshold := x\<rparr>"
| "editor_step (EdWindow x) e = e\<lparr>ed_windowMinutes := x\<rparr>"
| "editor_step EdRunTest e = runTest e"
| "editor_step (EdTested r) e = test_done r e"
| "editor_step EdSave e = save_rule e"
| "editor_step (EdSaved ok) e = rule_save_done ok e"

subsection \<open>Rows are complete\<close>

lemma rule_str_nonempty: "d \<noteq> [] \<Longrightarrow> [] \<noteq> rule_str v d"
  by (cases v) simp_all

lemma suppression_text_nonempty: "[] \<noteq> suppression_text v"
  by (cases v) (simp_all add: every_occurrence_def)

text \<open>Whatever the backend answers, a row has every text the table and the panel print, a category
  that has a colour, an override that is not blank and a definition that is an object. The
  severity is not checked: one that has no style leaves the row without one, and the page reads
  its fields.\<close>

theorem rule_row_complete:
  "[] \<notin> set [dr_name (normalizeRule r), dr_severity (normalizeRule r), dr_mitreTactic (normalizeRule r),
       dr_mitreTechId (normalizeRule r), dr_mitreTech (normalizeRule r), dr_status (normalizeRule r),
       dr_source (normalizeRule r), dr_lastFired (normalizeRule r), dr_created (normalizeRule r),
       dr_updatedBy (normalizeRule r), dr_description (normalizeRule r), dr_kql (normalizeRule r),
       dr_suppressionWindow (normalizeRule r)]
   \<and> obj_get CAT_COLOR (dr_category (normalizeRule r)) \<noteq> None
   \<and> (case dr_severityOverride (normalizeRule r) of None \<Rightarrow> True | Some v \<Rightarrow> truthy v)
   \<and> (case dr_definition (normalizeRule r) of None \<Rightarrow> True | Some d \<Rightarrow> is_object d)
   \<and> obj_get SEV_CONFIG (dr_severity (normalizeRule (JObj [(''severity'', JStr ''urgent'')]))) = None"
  (is "?texts \<and> ?cat \<and> ?rest")
proof -
  have ?texts by (simp add: normalizeRule_def Let_def rule_str_nonempty suppression_text_nonempty)
  moreover have ?cat by (auto simp: normalizeRule_def Let_def CAT_COLOR_def validCats_def obj_get_def)
  moreover have ?rest by (simp add: normalizeRule_def Let_def SEV_CONFIG_def obj_get_def)
  ultimately show ?thesis by blast
qed

subsection \<open>Definitions read back\<close>

text \<open>What the editor builds survives the request and the case mapping of the answer.\<close>

lemma condition_kept: "toCamel (json_send (condition_json c)) = condition_json c"
proof -
  obtain f p v where c: "c = (f, p, v)" by (cases c)
  have "sc2cc ''field'' = ''field''" "sc2cc ''op'' = ''op''" "sc2cc ''value'' = ''value''"
    unfolding sc2cc_eq_camel by code_simp+
  then show ?thesis by (simp add: c condition_json_def)
qed

lemma buildDef_kept: "toCamel (json_send (buildDef e)) = buildDef e"
proof -
  have k: "sc2cc ''conditions'' = ''conditions''" "sc2cc ''logic'' = ''logic''" "sc2cc ''aggregation'' = ''aggregation''"
    "sc2cc ''groupBy'' = ''groupBy''" "sc2cc ''threshold'' = ''threshold''" "sc2cc ''windowMinutes'' = ''windowMinutes''"
    unfolding sc2cc_eq_camel by code_simp+
  have u: "condition_json c \<noteq> JUndef" for c by (cases c) (simp add: condition_json_def)
  show ?thesis by (simp add: buildDef_def k u comp_def condition_kept)
qed

lemma row_definition:
  assumes "distinct (map (\<lambda>(n, u). camel n) ms)" "(''definition'', j) \<in> set ms"
  shows "json_get ''definition'' (toCamel (JObj ms)) = toCamel j"
proof -
  have keys: "map fst (map (\<lambda>(k, v). (sc2cc k, toCamel v)) ms) = map (\<lambda>(n, u). camel n) ms"
    by (simp add: sc2cc_eq_camel comp_def split_def)
  have "camel ''definition'' = ''definition''" by code_simp
  then have "(''definition'', toCamel j) \<in> set (map (\<lambda>(k, v). (sc2cc k, toCamel v)) ms)"
    using assms(2) by (force simp: sc2cc_eq_camel)
  then have "map_of (map (\<lambda>(k, v). (sc2cc k, toCamel v)) ms) ''definition'' = Some (toCamel j)"
    using assms(1) by (intro map_of_is_SomeI) (simp_all only: keys)
  moreover have "from_entries (map (\<lambda>(k, v). (sc2cc k, toCamel v)) ms) = map (\<lambda>(k, v). (sc2cc k, toCamel v)) ms"
    by (rule from_entries_distinct) (simp only: keys assms(1))
  ultimately show ?thesis by (simp add: obj_get_def)
qed

text \<open>C32: a rule saved in the editor comes back as it was drawn: when the backend keeps the definition it
  was sent and answers it in a row whose names the case mapping keeps apart, the page reads from it
  the filled-in conditions in order with their field, operator and value, the logic, and the
  aggregation exactly when it was switched on, and what was sent has the declared type; but the
  rule's category, which is none of the five, is shown as Network.\<close>

theorem definition_roundtrip:
  assumes "canRun e" "\<not> ed_saving e"
  shows "\<exists>body. ed_calls (save_rule e) = ed_calls e @ [createDetectionRule body] \<and> conforms RuleDefinition (json_get ''definition'' body)
    \<and> dr_category (normalizeRule (JObj [(''category'', json_get ''category'' body)])) = ''Network''
    \<and> (\<forall>ms. distinct (map (\<lambda>(n, u). camel n) ms) \<and> (''definition'', json_send (json_get ''definition'' body)) \<in> set ms \<longrightarrow>
        (\<exists>d. dr_definition (normalizeRule (toCamel (JObj ms))) = Some d
           \<and> json_get ''conditions'' d = JArr (map (\<lambda>(f, p, v). JObj [(''field'', JStr f), (''op'', JStr p), (''value'', JStr v)])
                [c \<leftarrow> ed_conditions e. fst c \<noteq> [] \<and> fst (snd c) \<noteq> []])
           \<and> json_get ''logic'' d = JStr (if ed_all e then ''and'' else ''or'')
           \<and> json_get ''aggregation'' d = (if ed_useAgg e then JObj [(''groupBy'', JStr (ed_groupBy e)),
                (''threshold'', JNum (ed_threshold e)), (''windowMinutes'', JNum (ed_windowMinutes e))] else JUndef)))"
proof -
  define body where "body = JObj [(''name'', JStr (trim (ed_name e))), (''severity'', JStr (ed_severity e)), (''category'', JStr ''Custom''),
      (''mitreTechId'', if ed_techId e \<noteq> [] then JStr (ed_techId e) else JUndef), (''definition'', buildDef e)]"
  have d: "json_get ''definition'' body = buildDef e" "json_get ''category'' body = JStr ''Custom''"
    by (simp_all add: body_def obj_get_def)
  have call: "ed_calls (save_rule e) = ed_calls e @ [createDetectionRule body]"
    using assms by (simp add: save_rule_def body_def)
  have typed: "conforms RuleDefinition (buildDef e)"
    by (auto simp: buildDef_def RuleDefinition_def RuleCondition_def condition_json_def client_type_defs obj_get_def list_all_iff)
  have cat: "dr_category (normalizeRule (JObj [(''category'', JStr ''Custom'')])) = ''Network''"
    by (simp add: normalizeRule_def Let_def validCats_def obj_get_def)
  have obj: "parseJson (buildDef e) = buildDef e" "is_object (buildDef e)" by (simp_all add: buildDef_def)
  have ret: "dr_definition (normalizeRule (toCamel (JObj ms))) = Some (buildDef e)"
    if "distinct (map (\<lambda>(n, u). camel n) ms)" "(''definition'', json_send (buildDef e)) \<in> set ms" for ms
    using row_definition [OF that] by (simp add: normalizeRule_def Let_def buildDef_kept obj del: toCamel.simps)
  have parts: "json_get ''conditions'' (buildDef e) = JArr (map (\<lambda>(f, p, v). JObj [(''field'', JStr f), (''op'', JStr p), (''value'', JStr v)])
                [c \<leftarrow> ed_conditions e. fst c \<noteq> [] \<and> fst (snd c) \<noteq> []])"
    "json_get ''logic'' (buildDef e) = JStr (if ed_all e then ''and'' else ''or'')"
    "json_get ''aggregation'' (buildDef e) = (if ed_useAgg e then JObj [(''groupBy'', JStr (ed_groupBy e)),
                (''threshold'', JNum (ed_threshold e)), (''windowMinutes'', JNum (ed_windowMinutes e))] else JUndef)"
    by (simp_all add: buildDef_def obj_get_def condition_json_def [abs_def] split_def)
  show ?thesis by (rule exI [of _ body]) (use call typed cat ret parts d in auto)
qed

theorem definition_roundtrip_witness:
  "let e = editor_init\<lparr>ed_name := ''Beacon'', ed_conditions := [(''dest_ip'', ''equals'', ''203.0.113.7'')]\<rparr>
   in \<exists>d. dr_definition (normalizeRule (toCamel (JObj [(''id'', JStr ''r1''), (''definition'', json_send (buildDef e))]))) = Some d
      \<and> json_get ''logic'' d = JStr ''and'' \<and> json_get ''aggregation'' d = JUndef"
proof -
  let ?e = "editor_init\<lparr>ed_name := ''Beacon'', ed_conditions := [(''dest_ip'', ''equals'', ''203.0.113.7'')]\<rparr>"
  have "trim ''Beacon'' \<noteq> []" by code_simp
  then have run: "canRun ?e" "\<not> ed_saving ?e" by (simp_all add: canRun_def editor_init_def)
  have names: "distinct (map (\<lambda>(n, u). camel n) [(''id'', JStr ''r1''), (''definition'', json_send (buildDef ?e))])"
    by simp
  from definition_roundtrip [OF run] obtain body where
    call: "ed_calls (save_rule ?e) = ed_calls ?e @ [createDetectionRule body]"
    and ret: "\<forall>ms. distinct (map (\<lambda>(n, u). camel n) ms) \<and> (''definition'', json_send (json_get ''definition'' body)) \<in> set ms \<longrightarrow>
        (\<exists>d. dr_definition (normalizeRule (toCamel (JObj ms))) = Some d \<and> json_get ''logic'' d = JStr (if ed_all ?e then ''and'' else ''or'')
           \<and> json_get ''aggregation'' d = (if ed_useAgg ?e then JObj [(''groupBy'', JStr (ed_groupBy ?e)),
                (''threshold'', JNum (ed_threshold ?e)), (''windowMinutes'', JNum (ed_windowMinutes ?e))] else JUndef))" by blast
  from call run have "json_get ''definition'' body = buildDef ?e"
    by (auto simp: save_rule_def createDetectionRule_def obj_get_def)
  with ret names show ?thesis by (force simp: editor_init_def Let_def simp del: toCamel.simps)
qed

subsection \<open>The list and its switches\<close>

interpretation rules: optimistic_list ru_rules dr_id "removeRule True" put_rules
  by unfold_locales (simp_all add: removeRule_def put_rules_def rules_send_def Let_def)

definition sample_rule :: detection_rule where
  "sample_rule = normalizeRule (JObj [(''id'', JStr ''R1''), (''name'', JStr ''Beacon'')])"

lemma status_entries_get: "r \<in> set rs \<Longrightarrow> obj_get (status_entries rs) (dr_id r) \<noteq> None"
proof -
  assume "r \<in> set rs"
  then have "dr_id r \<in> fst ` set (map (\<lambda>r. (dr_id r, dr_status r)) rs)" by force
  then show ?thesis by (simp add: status_entries_def from_entries_def obj_get_spread map_of_eq_None_iff split: option.split)
qed

lemma status_entries_distinct:
  "distinct (map dr_id rs) \<Longrightarrow> r \<in> set rs \<Longrightarrow> obj_get (status_entries rs) (dr_id r) = Some (dr_status r)"
  by (simp add: status_entries_def comp_def obj_get_def)

definition mounted :: "rule_panel option \<Rightarrow> nat \<Rightarrow> bool" where
  "mounted p n = (case p of None \<Rightarrow> True | Some q \<Rightarrow> rl_mount q < n)"

definition rules_inv :: "rules_page \<Rightarrow> bool" where
  "rules_inv s \<longleftrightarrow> (\<not> ru_pending s \<longrightarrow> list_all (\<lambda>r. live_status s r \<noteq> None) (ru_rules s))
     \<and> mounted (ru_panel s) (ru_mounts s)"

lemmas rules_handlers = rules_refused_def rules_send_def toggleRule_def toggle_refused_def click_rule_def close_panel_def
  panel_exited_def set_override_def handleSave_def saved_shown_def handleTest_def live_status_def

lemma inv_put: "rules_inv s \<Longrightarrow> rules_inv (put_rules rs s)"
  by (simp add: rules_inv_def put_rules_def)

lemma inv_effect: "rules_inv s \<Longrightarrow> rules_inv (statuses_effect s)"
  using status_entries_get [of _ "ru_rules s"] by (simp add: rules_inv_def statuses_effect_def live_status_def list_all_iff)

lemma inv_send: "rules_inv (rules_send c s) = rules_inv s"
  by (simp add: rules_inv_def rules_send_def live_status_def)

lemma inv_render: "rules_inv s \<Longrightarrow> rules_inv (panel_render s)"
  by (auto simp: rules_inv_def panel_render_def live_status_def panel_init_def mounted_def split: option.splits)

lemma inv_on_panel: "(\<And>p. rl_mount (f p) = rl_mount p) \<Longrightarrow> rules_inv s \<Longrightarrow> rules_inv (on_panel m f s)"
  by (auto simp: rules_inv_def on_panel_def live_status_def mounted_def split: option.splits)

lemma inv_switch: "rules_inv s \<Longrightarrow> rules_inv (s\<lparr>ru_statuses := obj_set i v (ru_statuses s)\<rparr>)"
  by (simp add: rules_inv_def live_status_def list_all_iff)

lemma inv_select: "rules_inv s \<Longrightarrow> rules_inv (s\<lparr>ru_selected := x\<rparr>)"
  by (simp add: rules_inv_def live_status_def)

lemma inv_remove: "rules_inv s \<Longrightarrow> rules_inv (removeRule c i s)"
  by (simp add: removeRule_def Let_def inv_send inv_put inv_select)

lemma inv_save: "rules_inv s \<Longrightarrow> rules_inv (handleSave s)"
  by (auto simp: handleSave_def inv_send rules_inv_def live_status_def mounted_def rules_send_def split: option.splits)

lemma inv_test: "rules_inv s \<Longrightarrow> rules_inv (handleTest s)"
  by (auto simp: handleTest_def inv_send rules_inv_def live_status_def mounted_def rules_send_def split: option.splits)

lemma rules_inv_do: "rules_inv s \<Longrightarrow> rules_inv (rules_do op s)"
proof (cases op)
  case (SaveAnswered m i v ok)
  then show "rules_inv s \<Longrightarrow> ?thesis" by (simp add: save_answered_def inv_on_panel inv_put)
next
  case (TestAnswered m r)
  then show "rules_inv s \<Longrightarrow> ?thesis" by (simp add: test_answered_def inv_on_panel split: option.split)
next
  case (SavedShown m)
  then show "rules_inv s \<Longrightarrow> ?thesis" by (simp add: saved_shown_def inv_on_panel)
next
  case (SetOverride v)
  then show "rules_inv s \<Longrightarrow> ?thesis"
    by (auto simp: set_override_def rules_inv_def live_status_def mounted_def split: option.splits)
next
  case PanelExited
  then show "rules_inv s \<Longrightarrow> ?thesis" by (auto simp: panel_exited_def rules_inv_def live_status_def mounted_def)
qed (simp_all add: inv_render inv_put inv_remove inv_save inv_test inv_select inv_send inv_switch rules_answered_def
      toggleRule_def toggle_refused_def click_rule_def close_panel_def rules_refused_def Let_def,
     simp_all add: rules_inv_def live_status_def)

lemma rules_inv_step: "rules_inv s \<Longrightarrow> rules_inv (rules_step op s)"
  unfolding rules_step_def by (intro rules_inv_do inv_effect)

lemma rules_inv_run: "rules_inv s \<Longrightarrow> rules_inv (fold rules_step ops s)"
  by (induction ops arbitrary: s) (simp_all add: rules_inv_step)

lemma count_disjoint: "count_of (\<lambda>x. f x = Some a) xs + count_of (\<lambda>x. f x = Some b) xs \<le> length xs" if "a \<noteq> b"
  using that by (induction xs) (auto simp: count_of_def)

text \<open>The three counts under the table add up to the rules and none is negative; the share of active rules is
  a percentage, and only without rules it is none.\<close>

lemma rule_counts:
  "0 \<le> disabled_count s \<and> (case active_share s of None \<Rightarrow> ru_rules s = [] | Some n \<Rightarrow> 0 \<le> n \<and> n \<le> 100)"
proof -
  have "0 \<le> disabled_count s"
    using count_disjoint [of "''enabled''" "''suppressed''" "live_status s" "ru_rules s"] by (simp add: disabled_count_def with_status_def)
  moreover have "case active_share s of None \<Rightarrow> ru_rules s = [] | Some n \<Rightarrow> 0 \<le> n \<and> n \<le> 100"
    using js_percent_bounds [of "of_nat (with_status ''enabled'' s)" "of_nat (length (ru_rules s))"] count_of_le [of _ "ru_rules s"]
    js_round_bounds [of 0 "js_mul (js_div (of_nat (with_status ''enabled'' s)) (of_nat (length (ru_rules s)))) 100" 100]
    by (auto simp: active_share_def with_status_def)
  ultimately show ?thesis by simp
qed

text \<open>C25: whatever is answered, clicked and refused before: once the effect of the last change of the list has
  run, every listed rule has a live status; a click on its switch shows disabled if it was
  enabled and else enabled, sends one request that says exactly this, and leaves the switches of
  all other rules; and when that request is refused, all switches are as they were.\<close>

theorem rules_page_invariant:
  assumes "s = fold rules_step ops rules_init" "\<not> ru_pending s" "r \<in> set (ru_rules s)"
  shows "\<exists>v w. live_status s r = Some v \<and> w = (if v = ''enabled'' then ''disabled'' else ''enabled'')
    \<and> (\<forall>x. live_status (rules_step (Toggle (dr_id r)) s) x = (if dr_id x = dr_id r then Some w else live_status s x))
    \<and> ru_calls (rules_step (Toggle (dr_id r)) s) = ru_calls s @ [patchRule (dr_id r) (JObj [(''status'', JStr w)])]
    \<and> (\<forall>x. live_status (rules_step (ToggleRefused (dr_id r) v) (rules_step (Toggle (dr_id r)) s)) x = live_status s x)"
proof -
  have "rules_inv s" unfolding assms(1) by (rule rules_inv_run) (simp add: rules_inv_def rules_init_def mounted_def)
  then obtain v where v: "live_status s r = Some v" using assms(2,3) by (auto simp: rules_inv_def list_all_iff)
  then show ?thesis using assms(2)
    by (auto simp: rules_step_def statuses_effect_def toggleRule_def toggle_refused_def prev_status_def live_status_def rules_send_def Let_def)
qed

theorem rules_page_invariant_witness:
  "ru_calls (rules_step (Toggle ''R1'') (fold rules_step [RulesAnswered [JObj [(''id'', JStr ''R1'')]], Painted] rules_init))
     = [patchRule ''R1'' (JObj [(''status'', JStr ''disabled'')])]"
proof -
  define s where "s = fold rules_step [RulesAnswered [JObj [(''id'', JStr ''R1'')]], Painted] rules_init"
  define r where "r = normalizeRule (JObj [(''id'', JStr ''R1'')])"
  have i: "dr_id r = ''R1''" "dr_status r = ''enabled''" by (simp_all add: r_def normalizeRule_def obj_get_def Let_def)
  have s: "s = rules_init\<lparr>ru_rules := [r], ru_statuses := [(''R1'', ''enabled'')]\<rparr>"
    by (simp add: s_def rules_step_def statuses_effect_def rules_answered_def put_rules_def panel_render_def selectedRule_def
        rules_init_def status_entries_def r_def [symmetric] i)
  have "\<not> ru_pending s" "r \<in> set (ru_rules s)" by (simp_all add: s rules_init_def)
  from rules_page_invariant [OF s_def this] i show ?thesis unfolding s_def [symmetric]
    by (auto simp: s live_status_def obj_get_def rules_init_def)
qed

text \<open>In the render between a list and its effect a rule has the switch of the list before, or none.\<close>

theorem first_render_without_status:
  "live_status (rules_step (RulesAnswered rows) rules_init) r = None"
  by (simp add: rules_step_def statuses_effect_def rules_init_def rules_answered_def put_rules_def panel_render_def selectedRule_def
      live_status_def obj_get_def split: option.split)

text \<open>A refused switch is taken back exactly. An accepted one is forgotten by the next change of
  the list: the effect resets every switch to what was loaded, so after deleting any other rule a
  rule that was just disabled reads enabled again, although the last request about it disabled
  it.\<close>

theorem switch_forgotten:
  assumes "distinct (map dr_id (ru_rules s))" "r \<in> set (ru_rules s)" "dr_id r \<noteq> j"
    and "live_status s r = Some (dr_status r)" "dr_status r = ''enabled''"
  shows "live_status (toggle_refused (dr_id r) (prev_status (dr_id r) s) (toggleRule (dr_id r) s)) r' = live_status s r'
    \<and> live_status (toggleRule (dr_id r) s) r = Some ''disabled''
    \<and> ru_calls (toggleRule (dr_id r) s) = ru_calls s @ [patchRule (dr_id r) (JObj [(''status'', JStr ''disabled'')])]
    \<and> live_status (statuses_effect (removeRule True j (toggleRule (dr_id r) s))) r = Some ''enabled''"
proof -
  have p: "prev_status (dr_id r) s = ''enabled''" using assms(4,5) by (simp add: prev_status_def live_status_def)
  have "distinct (map dr_id (filter (\<lambda>r. dr_id r \<noteq> j) (ru_rules s)))"
    using assms(1) by (simp add: distinct_map_filter)
  then have e: "obj_get (status_entries (filter (\<lambda>r. dr_id r \<noteq> j) (ru_rules s))) (dr_id r) = Some ''enabled''"
    using assms(2,3,5) status_entries_distinct [of "filter (\<lambda>r. dr_id r \<noteq> j) (ru_rules s)" r] by simp
  show ?thesis
    using assms(4,5) p e
    by (simp add: toggleRule_def toggle_refused_def live_status_def removeRule_def put_rules_def statuses_effect_def rules_send_def Let_def)
qed

theorem switch_forgotten_witness:
  "live_status (statuses_effect (removeRule True ''R2'' (toggleRule ''R1'' (statuses_effect (put_rules [sample_rule, sample_rule\<lparr>dr_id := ''R2''\<rparr>] rules_init))))) sample_rule = Some ''enabled''"
proof -
  have r: "dr_id sample_rule = ''R1''" "dr_status sample_rule = ''enabled''"
    by (simp_all add: sample_rule_def normalizeRule_def obj_get_def Let_def)
  have "obj_get (status_entries [sample_rule, sample_rule\<lparr>dr_id := ''R2''\<rparr>]) (dr_id sample_rule) = Some (dr_status sample_rule)"
    by (rule status_entries_distinct) (simp_all add: r)
  note g = this [unfolded r]
  show ?thesis by (rule switch_forgotten [THEN conjunct2, THEN conjunct2, THEN conjunct2, of _ sample_rule "''R2''", unfolded r])
      (simp_all add: r g put_rules_def statuses_effect_def live_status_def)
qed

text \<open>A refused deletion gives the list back as it was; but of two overlapping deletions a refusal
  of the first brings both rules back, the second one after the backend has deleted it.\<close>

theorem delete_rollback:
  assumes "r \<in> set (ru_rules s)"
  shows "ru_rules (put_rules (ru_rules s) (removeRule True i s)) = ru_rules s
    \<and> removeRule False i s = s
    \<and> r \<in> set (ru_rules (put_rules (ru_rules s) (removeRule True (dr_id r) (removeRule True i s))))
    \<and> r \<notin> set (ru_rules (removeRule True (dr_id r) (removeRule True i s)))"
  using assms rules.refused_restores [of s i] rules.overlap_resurrects [of s "dr_id r" i]
  by (simp add: rules.dropped_gone) (simp add: removeRule_def)

theorem delete_rollback_witness:
  "sample_rule \<in> set (ru_rules (put_rules [sample_rule] (removeRule True ''R1'' (removeRule True ''R0'' (put_rules [sample_rule] rules_init)))))"
  using delete_rollback [of sample_rule "put_rules [sample_rule] rules_init" "''R0''"]
  by (simp add: put_rules_def sample_rule_def normalizeRule_def obj_get_def)

lemma find_by_key: "distinct (map f xs) \<Longrightarrow> x \<in> set xs \<Longrightarrow> find (\<lambda>y. f y = f x) xs = Some x"
  by (induction xs) (auto simp: image_iff)

text \<open>The panel belongs to no rule: going from one rule to another while it is open keeps the
  override of the first, offers to save it, and saving writes it to the second.\<close>

theorem override_leaks:
  assumes "selectedRule s = Some r" "ru_panel s = None" "r' \<in> set (ru_rules s)" "distinct (map dr_id (ru_rules s))"
    and "dr_id r' \<noteq> dr_id r" "dr_severityOverride r = Some v" "dr_severityOverride r' = None"
  shows "let t = rules_step (ClickRule (dr_id r')) (panel_render s) in
     selectedRule t = Some r' \<and> save_enabled t
   \<and> ru_calls (rules_step Save t) = ru_calls s @ [patchRule (dr_id r') (JObj [(''severityOverride'', v)])]"
proof -
  have sel: "ru_selected s = Some (dr_id r)" using assms(1) by (auto simp: selectedRule_def dest: find_Some_set)
  have f: "find (\<lambda>x. Some (dr_id x) = Some (dr_id r')) (ru_rules s) = Some r'"
    using find_by_key [OF assms(4,3)] by simp
  define t where "t = rules_step (ClickRule (dr_id r')) (panel_render s)"
  have "ru_panel t = Some (panel_init (ru_mounts s) r) \<and> selectedRule t = Some r' \<and> ru_calls t = ru_calls s"
    using assms(1,2,5) sel f
    by (auto simp: t_def rules_step_def statuses_effect_def panel_render_def click_rule_def selectedRule_def split: option.splits)
  then show ?thesis
    using assms(6,7) unfolding t_def [symmetric]
    by (simp add: rules_step_def statuses_effect_def selectedRule_def save_enabled_def handleSave_def panel_init_def rules_send_def Let_def)
qed

theorem override_leaks_witness:
  "let r = sample_rule\<lparr>dr_severityOverride := Some (JStr ''low'')\<rparr>; q = sample_rule\<lparr>dr_id := ''R2''\<rparr>;
       s = (put_rules [r, q] rules_init)\<lparr>ru_selected := Some ''R1''\<rparr>
   in ru_calls (rules_step Save (rules_step (ClickRule ''R2'') (panel_render s)))
      = [patchRule ''R2'' (JObj [(''severityOverride'', JStr ''low'')])]"
proof -
  have r: "dr_id sample_rule = ''R1''" "dr_severityOverride sample_rule = None"
    by (simp_all add: sample_rule_def normalizeRule_def obj_get_def either_key_def Let_def)
  let ?r = "sample_rule\<lparr>dr_severityOverride := Some (JStr ''low'')\<rparr>" and ?q = "sample_rule\<lparr>dr_id := ''R2''\<rparr>"
  let ?s = "(put_rules [?r, ?q] rules_init)\<lparr>ru_selected := Some ''R1''\<rparr>"
  have "ru_calls (rules_step Save (rules_step (ClickRule (dr_id ?q)) (panel_render ?s))) =
      ru_calls ?s @ [patchRule (dr_id ?q) (JObj [(''severityOverride'', JStr ''low'')])]"
    by (rule override_leaks [of ?s ?r ?q, unfolded Let_def, THEN conjunct2, THEN conjunct2])
       (simp_all add: r put_rules_def rules_init_def selectedRule_def)
  then show ?thesis by (simp add: put_rules_def rules_init_def Let_def)
qed

end
