(* ===== verification/Suppressions.thy ===== *)
theory Suppressions
  imports SiemRules JsDate
begin

text \<open>
  The tuning panel of the rules page (\<open>components/dashboard/SuppressionsPanel.tsx\<close>): the list of
  suppressions, the form that adds one, and the removal that is shown at once. The list is an
  \<open>optimistic_list\<close>.
\<close>

subsection \<open>Ages\<close>

definition age_text :: "int \<Rightarrow> string" where
  "age_text ms =
     (let s = max 0 (js_floor (js_div (of_int ms) 1000)); m = s div 60; h = m div 60 in
      if s < 60 then int_str s @ ''s ago'' else if m < 60 then int_str m @ ''m ago''
      else if h < 24 then int_str h @ ''h ago'' else int_str (h div 24) @ ''d ago'')"

definition relTime :: "int \<Rightarrow> int \<Rightarrow> string option \<Rightarrow> string" where
  "relTime now tz t =
     (case t of
        None \<Rightarrow> ''-''
      | Some ts \<Rightarrow> if ts = [] then ''-''
          else case ms_diff (Some now) (date_parse tz ts) of None \<Rightarrow> ''NaNd ago'' | Some ms \<Rightarrow> age_text ms)"

subsection \<open>The panel\<close>

record suppression =
  sx_id :: string
  sx_field :: string
  sx_value :: string
  sx_mode :: string
  sx_ruleId :: string
  sx_hits :: int
  sx_active :: bool
  sx_expiresAt :: "string option"
  sx_windowStart :: "string option"
  sx_windowEnd :: "string option"

record suppress_panel =
  sn_items :: "suppression list"
  sn_loading :: bool
  sn_field :: string
  sn_value :: string
  sn_mode :: string
  sn_reason :: string
  sn_expires :: string
  sn_start :: string
  sn_end :: string
  sn_busy :: bool
  sn_error :: "string option"
  sn_calls :: "call list"

definition SUPPRESS_FIELDS :: "(string, string) obj" where
  "SUPPRESS_FIELDS = [(''src_ip'', ''Source IP''), (''username'', ''Username''), (''hostname'', ''Hostname'')]"

definition suppress_init :: suppress_panel where
  "suppress_init = \<lparr>sn_items = [], sn_loading = True, sn_field = ''src_ip'', sn_value = [], sn_mode = ''suppress'',
     sn_reason = [], sn_expires = [], sn_start = [], sn_end = [], sn_busy = False, sn_error = None,
     sn_calls = [fetchSuppressions]\<rparr>"

definition suppress_send :: "call \<Rightarrow> suppress_panel \<Rightarrow> suppress_panel" where
  "suppress_send c s = s\<lparr>sn_calls := sn_calls s @ [c]\<rparr>"

text \<open>A blank optional field is left out of the request.\<close>

definition text_or_undef :: "string \<Rightarrow> json" where
  "text_or_undef t = (if trim t = [] then JUndef else JStr (trim t))"

definition expires_json :: "string \<Rightarrow> json" where
  "expires_json t = (if trim t = [] then JUndef else case text_number t of Some x \<Rightarrow> JNum x | None \<Rightarrow> JNull)"

definition add_suppression :: "suppress_panel \<Rightarrow> suppress_panel" where
  "add_suppression s =
     (if trim (sn_value s) = [] \<or> sn_busy s then s
      else suppress_send (createSuppression (JObj [(''value'', JStr (trim (sn_value s))), (''field'', JStr (sn_field s)),
               (''mode'', JStr (sn_mode s)), (''reason'', text_or_undef (sn_reason s)),
               (''expiresHours'', expires_json (sn_expires s)), (''windowStart'', text_or_undef (sn_start s)),
               (''windowEnd'', text_or_undef (sn_end s))]))
             (s\<lparr>sn_busy := True, sn_error := None\<rparr>))"

definition suppression_added :: "suppress_panel \<Rightarrow> suppress_panel" where
  "suppression_added s = suppress_send fetchSuppressions
     (s\<lparr>sn_value := [], sn_reason := [], sn_expires := [], sn_start := [], sn_end := [], sn_busy := False\<rparr>)"

definition suppression_failed :: "(exn \<Rightarrow> string) \<Rightarrow> exn \<Rightarrow> suppress_panel \<Rightarrow> suppress_panel" where
  "suppression_failed eng e s = s\<lparr>sn_busy := False, sn_error := Some
     (if err_message eng e \<noteq> [] then err_message eng e else ''Could not create suppression'')\<rparr>"

definition put_suppressions :: "suppression list \<Rightarrow> suppress_panel \<Rightarrow> suppress_panel" where
  "put_suppressions xs s = s\<lparr>sn_items := xs\<rparr>"

definition suppressions_loaded :: "suppression list option \<Rightarrow> suppress_panel \<Rightarrow> suppress_panel" where
  "suppressions_loaded r s = (case r of Some xs \<Rightarrow> put_suppressions xs s | None \<Rightarrow> s)\<lparr>sn_loading := False\<rparr>"

definition remove_suppression :: "string \<Rightarrow> suppress_panel \<Rightarrow> suppress_panel" where
  "remove_suppression i s =
     suppress_send (deleteSuppression i) (s\<lparr>sn_items := filter (\<lambda>x. sx_id x \<noteq> i) (sn_items s)\<rparr>)"

text \<open>The expiry field keeps digits only.\<close>

definition type_expires :: "string \<Rightarrow> suppress_panel \<Rightarrow> suppress_panel" where
  "type_expires t s = s\<lparr>sn_expires := filter is_digit t\<rparr>"

definition total_hits :: "suppress_panel \<Rightarrow> int" where
  "total_hits s = sum_list (map sx_hits (sn_items s))"

text \<open>What a row says: its field and value, whether it is limited in time and applies now.\<close>

definition row_label :: "suppression \<Rightarrow> string" where
  "row_label x = (case obj_get SUPPRESS_FIELDS (sx_field x) of Some l \<Rightarrow> l | None \<Rightarrow> sx_field x) @ ''='' @ sx_value x"

definition shows_active :: "suppression \<Rightarrow> string option" where
  "shows_active x =
     (if sx_expiresAt x \<notin> {None, Some []} \<or> sx_windowStart x \<notin> {None, Some []}
      then Some (if sx_active x then ''active'' else ''inactive'') else None)"

datatype suppress_op =
    SxLoaded "suppression list option" | SxField string | SxValue string | SxMode string | SxReason string
  | SxExpires string | SxStart string | SxEnd string | SxAdd | SxAdded | SxFailed exn
  | SxRemove string | SxRemoveRefused "suppression list"

fun suppress_step :: "(exn \<Rightarrow> string) \<Rightarrow> suppress_op \<Rightarrow> suppress_panel \<Rightarrow> suppress_panel" where
  "suppress_step eng (SxLoaded r) s = suppressions_loaded r s"
| "suppress_step eng (SxField t) s = s\<lparr>sn_field := t\<rparr>"
| "suppress_step eng (SxValue t) s = s\<lparr>sn_value := t\<rparr>"
| "suppress_step eng (SxMode t) s = s\<lparr>sn_mode := t\<rparr>"
| "suppress_step eng (SxReason t) s = s\<lparr>sn_reason := t\<rparr>"
| "suppress_step eng (SxExpires t) s = type_expires t s"
| "suppress_step eng (SxStart t) s = s\<lparr>sn_start := t\<rparr>"
| "suppress_step eng (SxEnd t) s = s\<lparr>sn_end := t\<rparr>"
| "suppress_step eng SxAdd s = add_suppression s"
| "suppress_step eng SxAdded s = suppression_added s"
| "suppress_step eng (SxFailed e) s = suppression_failed eng e s"
| "suppress_step eng (SxRemove i) s = remove_suppression i s"
| "suppress_step eng (SxRemoveRefused xs) s = put_suppressions xs s"

subsection \<open>Properties\<close>

interpretation suppressions: optimistic_list sn_items sx_id remove_suppression put_suppressions
  by unfold_locales (simp_all add: remove_suppression_def put_suppressions_def suppress_send_def)

text \<open>A request that creates a suppression names a value that is not blank and an expiry that is a
  whole number of hours or none.\<close>

definition creation_ok :: "call \<Rightarrow> bool" where
  "creation_ok c \<longleftrightarrow> (case c_body c of None \<Rightarrow> True | Some b \<Rightarrow>
     (\<exists>v. json_get ''value'' b = JStr v \<and> trim v \<noteq> [])
   \<and> (json_get ''expires_hours'' b = JUndef \<or> (\<exists>n :: int. 0 \<le> n \<and> json_get ''expires_hours'' b = JNum (fl (of_int n)))))"

definition creations :: "suppress_panel \<Rightarrow> nat" where
  "creations s = count_of (\<lambda>c. c_body c \<noteq> None) (sn_calls s)"

definition settled_adds :: "suppress_op list \<Rightarrow> nat" where
  "settled_adds ops = count_of (\<lambda>op. case op of SxAdded \<Rightarrow> True | SxFailed e \<Rightarrow> True | _ \<Rightarrow> False) ops"

lemma dec_digits_nonneg: "list_all is_digit s \<Longrightarrow> 0 \<le> dec_digits s"
proof -
  have "0 \<le> k \<Longrightarrow> list_all is_digit s \<Longrightarrow> 0 \<le> foldl (\<lambda>n c. 10 * n + (int (code c) - 48)) k s" for k
    by (induction s arbitrary: k) (auto simp: is_digit_def)
  then show "list_all is_digit s \<Longrightarrow> ?thesis" by (simp add: dec_digits_def)
qed

lemma digits_number:
  assumes "list_all is_digit s" "s \<noteq> []"
  shows "text_number s = Some (fl (of_int (dec_digits s)))"
proof -
  have sp: "\<not> is_space c" if "is_digit c" for c using that by (auto simp: is_digit_def is_space_def code_def)
  then have "trim s = s" using assms(1) by (intro trim_none) (auto simp: list_all_iff)
  moreover have "hd s \<noteq> CHR ''-''" "hd s \<noteq> CHR ''+''" using assms by (cases s; auto simp: is_digit_def code_def)+
  moreover have w: "takeWhile is_digit s = s" "dropWhile is_digit s = []"
    using assms(1) by (simp_all add: takeWhile_eq_all_conv dropWhile_eq_Nil_conv list_all_iff)
  ultimately show ?thesis using assms(2) by (simp add: w text_number_def split_sign_def parse_exp_def Let_def)
qed

lemma expires_ok: "list_all is_digit t \<Longrightarrow> expires_json t = JUndef \<or> (\<exists>n :: int. 0 \<le> n \<and> expires_json t = JNum (fl (of_int n)))"
  using digits_number [of t] dec_digits_nonneg [of t] by (cases "t = []") (auto simp: expires_json_def trim_def)

definition suppress_inv :: "nat \<Rightarrow> suppress_panel \<Rightarrow> bool" where
  "suppress_inv n s \<longleftrightarrow> list_all is_digit (sn_expires s) \<and> list_all creation_ok (sn_calls s)
     \<and> creations s \<le> n + (if sn_busy s then 1 else 0)"

lemma creation_body:
  "c_body (createSuppression (JObj [(''value'', a), (''field'', b), (''mode'', c), (''reason'', d),
     (''expiresHours'', e), (''windowStart'', f), (''windowEnd'', g)])) =
   Some (JObj [(''value'', a), (''field'', b), (''rule_id'', JUndef), (''mode'', c), (''reason'', d), (''expires_hours'', e),
     (''window_start'', f), (''window_end'', g)])"
  by (simp add: createSuppression_def obj_get_def)

lemma plain_bodies: "c_body fetchSuppressions = None" "c_body (deleteSuppression i) = None"
  by (simp_all add: fetchSuppressions_def deleteSuppression_def)

lemma suppress_inv_step:
  assumes "suppress_inv n s"
  shows "suppress_inv (n + settled_adds [op]) (suppress_step eng op s)"
proof (cases op)
  case SxAdd
  then show ?thesis
    using assms expires_ok [of "sn_expires s"]
    by (auto simp: suppress_inv_def add_suppression_def suppress_send_def creation_body creation_ok_def creations_def
        count_of_def settled_adds_def obj_get_def)
qed (use assms in \<open>auto simp: suppress_inv_def suppress_send_def creation_ok_def creations_def count_of_def settled_adds_def
    plain_bodies suppressions_loaded_def put_suppressions_def type_expires_def suppression_added_def suppression_failed_def
    remove_suppression_def list_all_iff split: option.splits if_splits\<close>)

lemma suppress_inv_run: "suppress_inv n s \<Longrightarrow> suppress_inv (n + settled_adds ops) (fold (suppress_step eng) ops s)"
proof (induction ops arbitrary: n s)
  case (Cons op ops)
  have "settled_adds (op # ops) = settled_adds [op] + settled_adds ops" by (simp add: settled_adds_def count_of_def)
  with Cons.IH [OF suppress_inv_step [OF Cons.prems]] show ?case by (simp add: add.assoc)
qed (simp add: settled_adds_def count_of_def)

text \<open>C33: whatever is typed, clicked and answered: every suppression asked for names a value that is not
  blank and expires after a whole number of hours or never, and at most one more was asked for
  than was answered.\<close>

theorem suppression_requests_ok:
  "list_all creation_ok (sn_calls (fold (suppress_step eng) ops suppress_init))
   \<and> creations (fold (suppress_step eng) ops suppress_init) \<le> settled_adds ops + 1"
proof -
  have "suppress_inv 0 suppress_init"
    by (simp add: suppress_inv_def suppress_init_def creation_ok_def plain_bodies creations_def count_of_def)
  from suppress_inv_run [OF this, of ops eng] show ?thesis by (auto simp: suppress_inv_def split: if_splits)
qed

text \<open>A refused removal gives the list back; but when it is refused after another removal was
  accepted, that one is shown again although it is gone.\<close>

theorem suppression_rollback:
  assumes "x \<in> set (sn_items s)"
  shows "sn_items (put_suppressions (sn_items s) (remove_suppression i s)) = sn_items s
    \<and> x \<notin> set (sn_items (remove_suppression (sx_id x) (remove_suppression i s)))
    \<and> x \<in> set (sn_items (put_suppressions (sn_items s) (remove_suppression (sx_id x) (remove_suppression i s))))"
  using assms suppressions.refused_restores [of s i] suppressions.overlap_resurrects [of s "sx_id x" i]
  by (simp add: suppressions.dropped_gone)

theorem suppression_rollback_witness:
  "\<exists>x. x \<in> set (sn_items (put_suppressions [x] (remove_suppression ''s1'' (remove_suppression ''s0'' (suppress_init\<lparr>sn_items := [x]\<rparr>)))))
     \<and> sx_id x = ''s1''"
proof -
  let ?x = "\<lparr>sx_id = ''s1'', sx_field = ''src_ip'', sx_value = ''10.0.0.1'', sx_mode = ''allow'', sx_ruleId = ''*'', sx_hits = 0,
     sx_active = True, sx_expiresAt = None, sx_windowStart = None, sx_windowEnd = None\<rparr>"
  show ?thesis
    using suppression_rollback [of ?x "suppress_init\<lparr>sn_items := [?x]\<rparr>" "''s0''"] by (intro exI [of _ ?x]) simp
qed

end
