(* ===== verification/IocLifecycle.thy ===== *)
theory IocLifecycle
  imports Feeds Suppressions
begin

text \<open>
  The indicator database of the CTI page (\<open>components/dashboard/IocLifecyclePanel.tsx\<close>): the
  question the list asks (search, filters, order, page) with its debounced loads, the drawer of an
  indicator with its actions, the pivots to related indicators and the rows. The panel keeps what is
  in flight, so that answers come in any order and find the state there is then.
\<close>

subsection \<open>Indicators\<close>

record life_ioc = ioc +
  li_status :: string
  li_sightings :: rat
  li_effective :: rat
  li_intelScore :: "rat option"
  li_scoreBand :: "string option"
  li_sourceCount :: "rat option"
  li_sources :: "string list option"

record lifecycle =
  lc_effective :: rat
  lc_asserted :: rat
  lc_age :: rat
  lc_halfLife :: rat
  lc_status :: string
  lc_expires :: "rat option"
  lc_revoke :: "rat option"
  lc_rule :: "string option"
  lc_validUntil :: "string option"
  lc_next :: "(rat \<times> rat) option"

text \<open>The detail of an indicator: its life cycle, the parts of its score (label, reason, change), the
  report it came from (title and TLP), and the shift of the team's verdicts.\<close>

record ioc_detail = life_ioc +
  id_lifecycle :: lifecycle
  id_components :: "(string \<times> string \<times> rat) list"
  id_report :: "(string \<times> string) option"
  id_shift :: "rat option"

definition IOC_TYPE_CONTEXT :: "(string, string \<times> string \<times> string) obj" where
  "IOC_TYPE_CONTEXT =
    [(''ip'',
       ''An IP address flagged as malicious - typically attacker infrastructure (command-and-control, scanning, or a compromised host).'',
       ''Traffic to or from this address can indicate C2 beaconing, data exfiltration, or an active intrusion attempt.'',
       ''Hunt your firewall/proxy/flow logs for connections to it, block it at the perimeter if confirmed, and investigate any internal host that communicated with it.''),
     (''domain'',
       ''A domain name linked to malicious activity - phishing, malware delivery, or command-and-control.'',
       ''DNS resolutions or web requests to it can indicate a phished user or a host beaconing to attacker infrastructure.'',
       ''Block/sinkhole it at DNS or the web proxy, hunt DNS logs for resolutions, and investigate any host that queried it.''),
     (''url'',
       ''A specific URL hosting or delivering malicious content - a phishing page, exploit kit, or malware payload.'',
       ''A user who opened this URL may have been phished or served malware.'',
       ''Block it at the email gateway / web proxy and check which users or hosts requested it.''),
     (''hash'',
       ''A cryptographic file hash (MD5/SHA-1/SHA-256) identified as malicious.'',
       ''The presence of this file on an endpoint indicates a likely malware infection.'',
       ''Search EDR/endpoint telemetry for the hash, quarantine matching files, and isolate affected hosts.''),
     (''email'',
       ''An email address used in malicious activity - a phishing sender or an abused/compromised account.'',
       ''Messages from this address may be phishing or business-email-compromise attempts.'',
       ''Block the sender, search the mail gateway for other recipients, and warn any targeted users.''),
     (''cve'',
       ''A published vulnerability identifier (CVE) - not attacker infrastructure, but a weakness that may be exploited.'',
       ''Unpatched assets running the affected software are exposed to exploitation.'',
       ''Scan the fleet for the affected software/versions, prioritise patching by exposure, and add detection for exploitation attempts.'')]"

definition iocContext :: "ioc_detail \<Rightarrow> string \<times> string \<times> string \<times> string" where
  "iocContext d =
     (let base = (case obj_get IOC_TYPE_CONTEXT (io_type d) of Some b \<Rightarrow> b
        | None \<Rightarrow> (''An indicator of type '' @ [quote] @ io_type d @ [quote] @ '' reported as associated with malicious activity.'',
            ''It may point to attacker infrastructure, tooling, or activity relevant to your environment.'',
            ''Pivot into IntelScope and your SIEM to establish whether it appears in your own telemetry.''));
          parts = [''Reported by '' @ or_text (io_source d) ''an intelligence source'']
            @ (if io_actor d \<noteq> [] then [''attributed to '' @ io_actor d] else [])
            @ (if io_threatType d \<noteq> [] then [''classified as '' @ io_threatType d] else [])
            @ [num_str (io_confidence d) @ ''% confidence'', io_severity d @ '' severity'',
               num_str (li_sightings d) @ '' sighting'' @ (if li_sightings d = 1 then [] else ''s'') @ '' recorded''];
          why = join '', '' parts @ ''.'' @ (case io_tags d of None \<Rightarrow> []
            | Some ts \<Rightarrow> if ts = [] then [] else '' Tags: '' @ join '', '' ts @ ''.'')
      in case base of (what, impact, act) \<Rightarrow> (what, why, impact, act))"

definition LIFE_FP_STYLE :: "(string, string \<times> string) obj" where
  "LIFE_FP_STYLE = [(''likely-fp'', tk Safe, ''Likely false positive''), (''uncertain'', tk Amber, ''Uncertain''),
     (''likely-real'', tk Magenta, ''Likely real'')]"

definition VERDICT_COLOR :: "(string, string) obj" where
  "VERDICT_COLOR = [(''malicious'', tk Magenta), (''suspicious'', tk Amber), (''benign'', tk Safe), (''clean'', tk Safe),
     (''unknown'', ''#665B7D'')]"

definition LIFE_SEV_COLOR :: "(string, string) obj" where
  "LIFE_SEV_COLOR = [(''critical'', tk Magenta), (''high'', tk Threat), (''medium'', tk Amber), (''low'', tk Safe), (''info'', tk Violet)]"

definition LIFE_STATUS_STYLE :: "(string, string \<times> string) obj" where
  "LIFE_STATUS_STYLE = [(''active'', tk Safe, ''Active''), (''expired'', ''#665B7D'', ''Expired''), (''known-good'', tk Violet, ''Known-good'')]"

definition LIFE_FILTERS :: "string list" where "LIFE_FILTERS = [''all'', ''active'', ''expired'', ''known-good'']"
definition LIFE_TYPES :: "string list" where "LIFE_TYPES = [''all'', ''ip'', ''domain'', ''url'', ''hash'', ''email'', ''cve'']"
definition LIFE_PAGE :: nat where "LIFE_PAGE = 60"

definition BAND_STYLE :: "(string, string \<times> string) obj" where
  "BAND_STYLE = [(''high'', tk Magenta, ''High''), (''moderate'', tk Amber, ''Moderate''), (''low'', tk Violet, ''Low''),
     (''weak'', ''#665B7D'', ''Weak'')]"

definition SORTS :: "(string \<times> string) list" where
  "SORTS = [(''score'', ''Score''), (''last_seen'', ''Recent''), (''confidence'', ''Confidence'')]"

definition VERDICT_CHOICES :: "(string \<times> string \<times> string) list" where
  "VERDICT_CHOICES = [(''confirmed'', ''Confirmed'', tk Magenta), (''false-positive'', ''False positive'', tk Safe),
     (''benign-here'', ''Expected here'', tk Teal)]"

definition VERDICT_COLOR_BY_KEY :: "(string, string) obj" where
  "VERDICT_COLOR_BY_KEY = [(''confirmed'', tk Magenta), (''false-positive'', tk Safe), (''benign-here'', tk Teal)]"

text \<open>A lookup with a fallback, as the rows style a status or a band.\<close>

definition style_of :: "(string, string \<times> string) obj \<Rightarrow> string \<Rightarrow> string \<Rightarrow> string \<times> string" where
  "style_of table d k = (case obj_get table k of Some v \<Rightarrow> v | None \<Rightarrow> the (obj_get table d))"

definition life_band :: "life_ioc \<Rightarrow> string \<times> string" where
  "life_band i = style_of BAND_STYLE ''weak'' (case li_scoreBand i of Some b \<Rightarrow> b | None \<Rightarrow> ''weak'')"

definition decayed :: "life_ioc \<Rightarrow> bool" where
  "decayed i \<longleftrightarrow> li_effective i < js_sub (io_confidence i) 2"

definition src_count :: "life_ioc \<Rightarrow> rat" where
  "src_count i = (case li_sourceCount i of Some n \<Rightarrow> n | None \<Rightarrow> 1)"

definition row_title :: "life_ioc \<Rightarrow> string" where
  "row_title i = ''Intel score '' @ num_str (case li_intelScore i of Some x \<Rightarrow> x | None \<Rightarrow> 0) @ ''/100 ('' @ snd (life_band i)
     @ '') - '' @ num_str (src_count i) @ '' source'' @ (if src_count i = 1 then [] else ''s'') @ '', ''
     @ num_str (li_effective i) @ ''% aged confidence. Open for the full breakdown.''"

definition row_sources :: "life_ioc \<Rightarrow> string" where
  "row_sources i = (if src_count i > 1 then join '', '' (case li_sources i of Some ss \<Rightarrow> ss | None \<Rightarrow> [])
     else or_text (io_source i) ''unattributed'')"

definition related_band :: "rat \<Rightarrow> string" where
  "related_band x = (if x \<ge> 75 then ''high'' else if x \<ge> 50 then ''moderate'' else if x \<ge> 25 then ''low'' else ''weak'')"

text \<open>The three figures of the life cycle, and the rows of the metadata.\<close>

definition lifecycle_cells :: "lifecycle \<Rightarrow> (string \<times> string) list" where
  "lifecycle_cells lc = [(''age'', num_str (lc_age lc) @ ''d''), (''half-life'', num_str (lc_halfLife lc) @ ''d''),
     (if lc_status lc = ''expired'' then ''expired'' else ''expires in'',
      case lc_expires lc of None \<Rightarrow> ''-'' | Some n \<Rightarrow> num_str n @ ''d'')]"

definition decay_rule_rows :: "lifecycle \<Rightarrow> (string \<times> string) list" where
  "decay_rule_rows lc = (case lc_rule lc of None \<Rightarrow> []
     | Some r \<Rightarrow> [(''Decay rule'', r), (''Stops matching below'', case lc_revoke lc of None \<Rightarrow> [] | Some x \<Rightarrow> num_str x)]
         @ (case lc_validUntil lc of None \<Rightarrow> [] | Some t \<Rightarrow> if t = [] then [] else [(''Revoked on'', take 10 t)])
         @ (case lc_next lc of None \<Rightarrow> [] | Some (x, n) \<Rightarrow> [(''Next review at '' @ num_str x, ''in '' @ num_str n @ ''d'')]))"

definition metadata_rows :: "int \<Rightarrow> int \<Rightarrow> ioc_detail \<Rightarrow> (string \<times> string) list" where
  "metadata_rows now tz d =
     [(''Severity'', io_severity d), (''Threat type'', or_text (io_threatType d) ''-''), (''Actor'', or_text (io_actor d) ''-''),
      (''Source'', if isSimulatedSource (Some (io_source d)) then io_source d @ '' - SIMULATED, not real intel''
         else or_text (io_source d) ''-''),
      (''Reported in'', case id_report d of
         None \<Rightarrow> ''Bulk feed - no campaign context''
       | Some (t, p) \<Rightarrow> if t = [] then ''Bulk feed - no campaign context''
           else t @ (if p = [] then [] else '' (TLP:'' @ p @ '')'')),
      (''First seen'', relTime now tz (Some (io_firstSeen d))), (''Last seen'', relTime now tz (Some (io_lastSeen d)))]"

subsection \<open>Pivots\<close>

record related_group =
  rg_key :: string
  rg_label :: string
  rg_why :: string
  rg_total :: nat
  rg_items :: "(string \<times> string) list"
  rg_pivot :: "string \<times> string"

text \<open>The value up to and including its last dot.\<close>

definition dot_prefix :: "string \<Rightarrow> string" where
  "dot_prefix v = rev (dropWhile (\<lambda>c. c \<noteq> CHR ''.'') (rev v))"

definition pivotHref :: "related_group \<Rightarrow> string option" where
  "pivotHref g = (case rg_pivot g of (k, v) \<Rightarrow>
     if k = ''actor'' then Some (''/dashboard/cti?actor='' @ encodeURIComponent v)
     else if k = ''host'' \<or> k = ''domain'' then Some (''/dashboard/cti?q='' @ encodeURIComponent v)
     else if k = ''subnet'' \<and> ends_with v ''/24'' then Some (''/dashboard/cti?q='' @ encodeURIComponent (dot_prefix v))
     else None)"

text \<open>What stands under a group: nothing, a link to all of it, or how many more there are.\<close>

definition group_more :: "related_group \<Rightarrow> (string + nat) option" where
  "group_more g = (if length (rg_items g) < rg_total g
     then (case pivotHref g of Some h \<Rightarrow> Some (Inl h) | None \<Rightarrow> Some (Inr (rg_total g - length (rg_items g)))) else None)"


subsection \<open>The panel\<close>

text \<open>The question the list asks.\<close>

record ioc_query =
  iq_page :: nat
  iq_query :: string
  iq_type :: string
  iq_filter :: string
  iq_sort :: string
  iq_actor :: string

text \<open>What is in flight, with what its handler has captured: a load and the actions that reload the
  list captured the question of their rendering, the others the indicator.\<close>

datatype pending =
    PLoad ioc_query | PDetail string | PRelated string | PEnrich string | PFp string | PSight ioc_query string
  | PVerdict ioc_query string string | PKnown ioc_query string | PAlert string | PCase string | PDecay ioc_query

datatype reply =
    RRefused | RRows "life_ioc list" nat | RDetail ioc_detail | RGroups "related_group list" nat
  | RVerdict string | RFpBand string | RId string | RDone

record ioc_panel =
  ip_items :: "life_ioc list"
  ip_total :: nat
  ip_q :: ioc_query
  ip_loading :: bool
  ip_detail :: "ioc_detail option"
  ip_busy :: bool
  ip_decaying :: bool
  ip_enrichment :: "string option"
  ip_enriching :: bool
  ip_fp :: "string option"
  ip_fpChecking :: bool
  ip_msg :: "(string \<times> string \<times> string) option"
  ip_related :: "(related_group list \<times> nat) option"
  ip_relating :: bool
  ip_verdicting :: "string option"
  ip_address :: "string option"
  ip_now :: nat
  ip_due :: "nat option"
  ip_flight :: "pending list"
  ip_calls :: "call list"

definition load_params :: "ioc_query \<Rightarrow> (string \<times> string) list" where
  "load_params q = [(''limit'', int_str (int LIFE_PAGE)), (''offset'', int_str (int (iq_page q * LIFE_PAGE))),
     (''sort'', iq_sort q), (''order'', ''desc'')]
     @ (if iq_filter q \<noteq> ''all'' then [(''status'', iq_filter q)] else [])
     @ (if iq_type q \<noteq> ''all'' then [(''type'', iq_type q)] else [])
     @ (if trim (iq_query q) \<noteq> [] then [(''q'', trim (iq_query q))] else [])
     @ (if iq_actor q \<noteq> [] then [(''actor'', iq_actor q)] else [])"

definition iocs_of :: "ioc_query \<Rightarrow> call" where "iocs_of q = fetchIocs (Some (load_params q))"

definition issue :: "pending \<Rightarrow> call \<Rightarrow> ioc_panel \<Rightarrow> ioc_panel" where
  "issue p c s = s\<lparr>ip_flight := ip_flight s @ [p], ip_calls := ip_calls s @ [c]\<rparr>"

definition load_iocs :: "ioc_query \<Rightarrow> ioc_panel \<Rightarrow> ioc_panel" where
  "load_iocs q s = issue (PLoad q) (iocs_of q) (s\<lparr>ip_loading := True\<rparr>)"

text \<open>The first render asks the empty question and sets the timer of its load. An effect of that render
  reads \<open>?q=\<close> and \<open>?actor=\<close>, which the next render shows: \<open>ip_address\<close> is the address until then. The
  next render replaces the timer, unless it has already fired.\<close>

definition delay_of :: "ioc_query \<Rightarrow> nat" where
  "delay_of q = (if iq_query q \<noteq> [] then 300 else 0)"

definition param_text :: "string \<Rightarrow> string \<Rightarrow> string" where
  "param_text k query = (case query_param k query of Some v \<Rightarrow> v | None \<Rightarrow> [])"

definition first_query :: ioc_query where
  "first_query = \<lparr>iq_page = 0, iq_query = [], iq_type = ''all'', iq_filter = ''all'', iq_sort = ''score'', iq_actor = []\<rparr>"

definition ioc_mount :: "string \<Rightarrow> ioc_panel" where
  "ioc_mount query = \<lparr>ip_items = [], ip_total = 0, ip_q = first_query, ip_loading = True, ip_detail = None,
     ip_busy = False, ip_decaying = False, ip_enrichment = None, ip_enriching = False, ip_fp = None,
     ip_fpChecking = False, ip_msg = None, ip_related = None, ip_relating = False, ip_verdicting = None,
     ip_address = Some query, ip_now = 0, ip_due = Some (delay_of first_query), ip_flight = [], ip_calls = []\<rparr>"

text \<open>A changed question replaces the timer of the load; when it is due the list is loaded.\<close>

definition put_query :: "(ioc_query \<Rightarrow> ioc_query) \<Rightarrow> ioc_panel \<Rightarrow> ioc_panel" where
  "put_query f s = (let q = f (ip_q s) in
     if q = ip_q s then s else s\<lparr>ip_q := q, ip_due := Some (ip_now s + delay_of q)\<rparr>)"

definition read_address :: "string \<Rightarrow> ioc_query \<Rightarrow> ioc_query" where
  "read_address query q = (let t = param_text ''q'' query; a = param_text ''actor'' query in
     q\<lparr>iq_query := (if t \<noteq> [] then t else iq_query q), iq_actor := (if a \<noteq> [] then a else iq_actor q)\<rparr>)"

definition second_render :: "ioc_panel \<Rightarrow> ioc_panel" where
  "second_render s = (case ip_address s of None \<Rightarrow> s
     | Some query \<Rightarrow> put_query (read_address query) (s\<lparr>ip_address := None\<rparr>))"

definition panel_wait :: "nat \<Rightarrow> ioc_panel \<Rightarrow> ioc_panel" where
  "panel_wait ms s = (let t = ip_now s + ms; s = s\<lparr>ip_now := t\<rparr> in
     case ip_due s of None \<Rightarrow> s | Some d \<Rightarrow> if d \<le> t then load_iocs (ip_q s) (s\<lparr>ip_due := None\<rparr>) else s)"

definition applyFilter :: "string \<Rightarrow> ioc_panel \<Rightarrow> ioc_panel" where
  "applyFilter f = put_query (\<lambda>q. q\<lparr>iq_filter := f, iq_page := 0\<rparr>)"
definition applyType :: "string \<Rightarrow> ioc_panel \<Rightarrow> ioc_panel" where
  "applyType t = put_query (\<lambda>q. q\<lparr>iq_type := t, iq_page := 0\<rparr>)"
definition applyQuery :: "string \<Rightarrow> ioc_panel \<Rightarrow> ioc_panel" where
  "applyQuery t = put_query (\<lambda>q. q\<lparr>iq_query := t, iq_page := 0\<rparr>)"
definition applySort :: "string \<Rightarrow> ioc_panel \<Rightarrow> ioc_panel" where
  "applySort t = put_query (\<lambda>q. q\<lparr>iq_sort := t, iq_page := 0\<rparr>)"

definition pager_shown :: "ioc_panel \<Rightarrow> bool" where "pager_shown s \<longleftrightarrow> ip_total s > LIFE_PAGE"

definition prev_enabled :: "ioc_panel \<Rightarrow> bool" where
  "prev_enabled s \<longleftrightarrow> pager_shown s \<and> iq_page (ip_q s) \<noteq> 0 \<and> \<not> ip_loading s"

definition next_enabled :: "ioc_panel \<Rightarrow> bool" where
  "next_enabled s \<longleftrightarrow> pager_shown s \<and> (iq_page (ip_q s) + 1) * LIFE_PAGE < ip_total s \<and> \<not> ip_loading s"

definition prev_page :: "ioc_panel \<Rightarrow> ioc_panel" where
  "prev_page s = (if prev_enabled s then put_query (\<lambda>q. q\<lparr>iq_page := iq_page q - 1\<rparr>) s else s)"

definition next_page :: "ioc_panel \<Rightarrow> ioc_panel" where
  "next_page s = (if next_enabled s then put_query (\<lambda>q. q\<lparr>iq_page := iq_page q + 1\<rparr>) s else s)"

text \<open>The drawer. Opening another indicator keeps the shown one until the answer comes.\<close>

definition open_ioc :: "string \<Rightarrow> ioc_panel \<Rightarrow> ioc_panel" where
  "open_ioc i s = issue (PRelated i) (fetchIocRelated i None) (issue (PDetail i) (fetchIoc i)
     (s\<lparr>ip_enrichment := None, ip_fp := None, ip_msg := None, ip_related := None, ip_relating := True\<rparr>))"

definition close_ioc :: "ioc_panel \<Rightarrow> ioc_panel" where "close_ioc s = s\<lparr>ip_detail := None\<rparr>"

definition enrich :: "ioc_panel \<Rightarrow> ioc_panel" where
  "enrich s = (case ip_detail s of None \<Rightarrow> s | Some d \<Rightarrow> if ip_enriching s then s
     else issue (PEnrich (io_id d)) (enrichIoc (io_id d) None) (s\<lparr>ip_enriching := True\<rparr>))"

definition check_fp_ioc :: "ioc_panel \<Rightarrow> ioc_panel" where
  "check_fp_ioc s = (case ip_detail s of None \<Rightarrow> s | Some d \<Rightarrow> if ip_fpChecking s then s
     else issue (PFp (io_id d)) (fetchIocFpAssessment (io_id d)) (s\<lparr>ip_fpChecking := True\<rparr>))"

definition refreshDetail :: "ioc_query \<Rightarrow> string \<Rightarrow> ioc_panel \<Rightarrow> ioc_panel" where
  "refreshDetail q i s = load_iocs q (issue (PDetail i) (fetchIoc i) s)"

definition sight :: "ioc_panel \<Rightarrow> ioc_panel" where
  "sight s = (case ip_detail s of None \<Rightarrow> s | Some d \<Rightarrow> if ip_busy s then s
     else issue (PSight (ip_q s) (io_id d)) (addIocSighting (io_id d) (Some ''analyst'') (Some ''Confirmed from CTI console''))
       (s\<lparr>ip_busy := True\<rparr>))"

text \<open>The reason comes from a prompt; none and a blank one are the same.\<close>

definition submitVerdict :: "string \<Rightarrow> string option \<Rightarrow> ioc_panel \<Rightarrow> ioc_panel" where
  "submitVerdict v reason s = (case ip_detail s of None \<Rightarrow> s | Some d \<Rightarrow> if ip_verdicting s \<noteq> None then s
     else issue (PVerdict (ip_q s) (io_id d) v) (recordIocVerdict (io_id d) v (if reason = Some [] then None else reason))
       (s\<lparr>ip_verdicting := Some v\<rparr>))"

definition toggleKnownGood :: "ioc_panel \<Rightarrow> ioc_panel" where
  "toggleKnownGood s = (case ip_detail s of None \<Rightarrow> s | Some d \<Rightarrow> if ip_busy s then s
     else issue (PKnown (ip_q s) (io_id d)) ((if lc_status (id_lifecycle d) = ''known-good'' then removeIocKnownGood else setIocKnownGood) (io_id d))
       (s\<lparr>ip_busy := True\<rparr>))"

definition ioc_alert_body :: "ioc_detail \<Rightarrow> json" where
  "ioc_alert_body d = JObj
     [(''title'', JStr (''Investigate indicator: '' @ io_value d)), (''severity'', JStr (io_severity d)),
      (''description'', JStr (or_text (io_threatType d) (io_type d) @ '' indicator from '' @ or_text (io_source d) ''CTI''
         @ '' escalated from the IOC console for investigation.'')),
      (''srcIp'', if io_type d = ''ip'' then JStr (io_value d) else JUndef), (''ruleName'', JStr ''IOC escalation'')]"

definition ioc_to_siem :: "ioc_panel \<Rightarrow> ioc_panel" where
  "ioc_to_siem s = (case ip_detail s of None \<Rightarrow> s | Some d \<Rightarrow> if ip_busy s then s
     else issue (PAlert (io_id d)) (createAlert (ioc_alert_body d)) (s\<lparr>ip_busy := True, ip_msg := None\<rparr>))"

definition ioc_case_body :: "ioc_detail \<Rightarrow> json" where
  "ioc_case_body d = JObj
     [(''title'', JStr (''Investigation: '' @ io_value d)), (''severity'', JStr (io_severity d)),
      (''type'', JStr ''investigation''),
      (''description'', JStr (''Case opened from the IOC console for the '' @ io_type d @ '' indicator '' @ io_value d @ '' (''
         @ or_text (io_threatType d) ''unclassified'' @ '', source '' @ or_text (io_source d) ''CTI'' @ '').'')),
      (''entities'', JArr [JObj [(''type'', JStr (io_type d)), (''value'', JStr (io_value d))]])]"

definition createCaseFromIoc :: "ioc_panel \<Rightarrow> ioc_panel" where
  "createCaseFromIoc s = (case ip_detail s of None \<Rightarrow> s | Some d \<Rightarrow> if ip_busy s then s
     else issue (PCase (io_id d)) (createCase (ioc_case_body d)) (s\<lparr>ip_busy := True, ip_msg := None\<rparr>))"

definition decay :: "ioc_panel \<Rightarrow> ioc_panel" where
  "decay s = (if ip_decaying s then s else issue (PDecay (ip_q s)) runIocDecay (s\<lparr>ip_decaying := True\<rparr>))"

text \<open>What each handler does with its answer. An answer of another form than the endpoint's counts as
  a refusal.\<close>

fun settle :: "pending \<Rightarrow> reply \<Rightarrow> ioc_panel \<Rightarrow> ioc_panel" where
  "settle (PLoad q) r s = (case r of RRows xs n \<Rightarrow> s\<lparr>ip_items := xs, ip_total := n\<rparr> | _ \<Rightarrow> s)\<lparr>ip_loading := False\<rparr>"
| "settle (PDetail i) r s = (case r of RDetail d \<Rightarrow> s\<lparr>ip_detail := Some d\<rparr> | _ \<Rightarrow> s)"
| "settle (PRelated i) r s = (case r of RGroups gs n \<Rightarrow> s\<lparr>ip_related := Some (gs, n)\<rparr> | _ \<Rightarrow> s)\<lparr>ip_relating := False\<rparr>"
| "settle (PEnrich i) r s = (case r of RVerdict v \<Rightarrow> s\<lparr>ip_enrichment := Some v\<rparr> | _ \<Rightarrow> s)\<lparr>ip_enriching := False\<rparr>"
| "settle (PFp i) r s = (case r of RFpBand b \<Rightarrow> s\<lparr>ip_fp := Some b\<rparr> | _ \<Rightarrow> s)\<lparr>ip_fpChecking := False\<rparr>"
| "settle (PSight q i) r s = (case r of RDetail d \<Rightarrow> load_iocs q (s\<lparr>ip_detail := Some d\<rparr>) | _ \<Rightarrow> s)\<lparr>ip_busy := False\<rparr>"
| "settle (PVerdict q i v) r s = (case r of RDone \<Rightarrow> refreshDetail q i s
     | _ \<Rightarrow> s\<lparr>ip_msg := Some (''Could not record the verdict (needs cti.write).'', [], [])\<rparr>)\<lparr>ip_verdicting := None\<rparr>"
| "settle (PKnown q i) r s = (case r of RDone \<Rightarrow> refreshDetail q i s | _ \<Rightarrow> s)\<lparr>ip_busy := False\<rparr>"
| "settle (PAlert i) r s = s\<lparr>ip_msg := Some (case r of RId a \<Rightarrow> (''Alert raised in the SIEM.'', ''/dashboard/siem?alert='' @ a, ''Open alert'')
     | _ \<Rightarrow> (''Could not raise the alert (needs siem.write).'', [], [])), ip_busy := False\<rparr>"
| "settle (PCase i) r s = s\<lparr>ip_msg := Some (case r of RId c \<Rightarrow> (''Case created.'', ''/dashboard/soar?case='' @ c, ''Open case'')
     | _ \<Rightarrow> (''Could not create the case (needs soar.write).'', [], [])), ip_busy := False\<rparr>"
| "settle (PDecay q) r s = (case r of RDone \<Rightarrow> load_iocs q s | _ \<Rightarrow> s)\<lparr>ip_decaying := False\<rparr>"

definition answer_nth :: "nat \<Rightarrow> reply \<Rightarrow> ioc_panel \<Rightarrow> ioc_panel" where
  "answer_nth n r s = (if n < length (ip_flight s)
     then settle (ip_flight s ! n) r (s\<lparr>ip_flight := take n (ip_flight s) @ drop (Suc n) (ip_flight s)\<rparr>) else s)"

definition stix_name :: "int \<Rightarrow> string" where
  "stix_name now = ''threatorbit-stix-bundle-'' @ take 10 (toISOString now) @ ''.json''"

datatype ioc_op =
    IpFilter string | IpType string | IpQuery string | IpSort string | IpPrev | IpNext | IpOpen string | IpClose
  | IpEnrich | IpFp | IpSight | IpVerdict string "string option" | IpKnownGood | IpSend | IpCase | IpDecay
  | IpWait nat | IpAnswer nat reply | IpRendered

fun ioc_step :: "ioc_op \<Rightarrow> ioc_panel \<Rightarrow> ioc_panel" where
  "ioc_step (IpFilter f) s = applyFilter f s"
| "ioc_step (IpType t) s = applyType t s"
| "ioc_step (IpQuery t) s = applyQuery t s"
| "ioc_step (IpSort t) s = applySort t s"
| "ioc_step IpPrev s = prev_page s"
| "ioc_step IpNext s = next_page s"
| "ioc_step (IpOpen i) s = open_ioc i s"
| "ioc_step IpClose s = close_ioc s"
| "ioc_step IpEnrich s = enrich s"
| "ioc_step IpFp s = check_fp_ioc s"
| "ioc_step IpSight s = sight s"
| "ioc_step (IpVerdict v r) s = submitVerdict v r s"
| "ioc_step IpKnownGood s = toggleKnownGood s"
| "ioc_step IpSend s = ioc_to_siem s"
| "ioc_step IpCase s = createCaseFromIoc s"
| "ioc_step IpDecay s = decay s"
| "ioc_step (IpWait ms) s = panel_wait ms s"
| "ioc_step (IpAnswer n r) s = answer_nth n r s"
| "ioc_step IpRendered s = second_render s"

definition count_text :: "(nat \<Rightarrow> string) \<Rightarrow> ioc_panel \<Rightarrow> string" where
  "count_text loc s = loc (ip_total s) @ '' indicator'' @ (if ip_total s = 1 then [] else ''s'')
     @ (if iq_query (ip_q s) \<noteq> [] \<or> iq_filter (ip_q s) \<noteq> ''all'' \<or> iq_type (ip_q s) \<noteq> ''all'' then '' matching'' else [])"

definition range_shown :: "ioc_panel \<Rightarrow> nat \<times> nat \<times> nat" where
  "range_shown s = (iq_page (ip_q s) * LIFE_PAGE + 1, min ((iq_page (ip_q s) + 1) * LIFE_PAGE) (ip_total s), ip_total s)"

definition empty_list_text :: "ioc_panel \<Rightarrow> string option" where
  "empty_list_text s = (if \<not> ip_loading s \<and> ip_items s = [] then Some
     (if trim (iq_query (ip_q s)) \<noteq> []
      then ''No indicator matches '' @ trim (iq_query (ip_q s)) @ ''. Absence from this store is not proof the value is safe.''
      else ''No indicators'' @ (if iq_filter (ip_q s) \<noteq> ''all'' then '' ('' @ iq_filter (ip_q s) @ '')'' else []) @ '' yet.'') else None)"


subsection \<open>One action at a time\<close>

fun is_busy :: "pending \<Rightarrow> bool" where
  "is_busy (PSight q i) = True" | "is_busy (PKnown q i) = True" | "is_busy (PAlert i) = True" | "is_busy (PCase i) = True"
| "is_busy _ = False"

fun is_enrich :: "pending \<Rightarrow> bool" where "is_enrich (PEnrich i) = True" | "is_enrich _ = False"
fun is_fp :: "pending \<Rightarrow> bool" where "is_fp (PFp i) = True" | "is_fp _ = False"
fun is_verdict :: "pending \<Rightarrow> bool" where "is_verdict (PVerdict q i v) = True" | "is_verdict _ = False"
fun is_decay :: "pending \<Rightarrow> bool" where "is_decay (PDecay q) = True" | "is_decay _ = False"

definition flag :: "bool \<Rightarrow> nat" where "flag b = (if b then 1 else 0)"

definition actions_inv :: "ioc_panel \<Rightarrow> bool" where
  "actions_inv s \<longleftrightarrow>
     count_of is_busy (ip_flight s) = flag (ip_busy s)
   \<and> count_of is_enrich (ip_flight s) = flag (ip_enriching s)
   \<and> count_of is_fp (ip_flight s) = flag (ip_fpChecking s)
   \<and> count_of is_verdict (ip_flight s) = flag (ip_verdicting s \<noteq> None)
   \<and> count_of is_decay (ip_flight s) = flag (ip_decaying s)"

lemma flag_simps [simp]: "flag True = 1" "flag False = 0"
  by (simp_all add: flag_def)

lemma flag_Suc [simp]: "Suc n = flag b \<longleftrightarrow> n = 0 \<and> b"
  by (auto simp: flag_def)

lemma count_of_simps [simp]: "count_of P [] = 0" "count_of P (x # xs) = flag (P x) + count_of P xs"
    "count_of P (xs @ ys) = count_of P xs + count_of P ys"
  by (simp_all add: count_of_def flag_def)

lemma count_of_remove [simp]:
  "n < length xs \<Longrightarrow> count_of P (take n xs) + count_of P (drop (Suc n) xs) + flag (P (xs ! n)) = count_of P xs"
proof -
  assume "n < length xs"
  then have "xs = take n xs @ xs ! n # drop (Suc n) xs" by (rule id_take_nth_drop)
  then have "count_of P xs = count_of P (take n xs @ xs ! n # drop (Suc n) xs)" by simp
  then show ?thesis by simp
qed

lemmas issue_simps = issue_def load_iocs_def refreshDetail_def

text \<open>Settling a call that has been taken out of the flight clears the flag it was counted by.\<close>

lemma settle_inv:
  assumes "count_of is_busy (ip_flight s) + flag (is_busy p) = flag (ip_busy s)"
    "count_of is_enrich (ip_flight s) + flag (is_enrich p) = flag (ip_enriching s)"
    "count_of is_fp (ip_flight s) + flag (is_fp p) = flag (ip_fpChecking s)"
    "count_of is_verdict (ip_flight s) + flag (is_verdict p) = flag (ip_verdicting s \<noteq> None)"
    "count_of is_decay (ip_flight s) + flag (is_decay p) = flag (ip_decaying s)"
  shows "actions_inv (settle p r s)"
  using assms
  by (cases p; cases r) (simp_all add: actions_inv_def issue_simps)

lemma actions_inv_answer: "actions_inv s \<Longrightarrow> actions_inv (answer_nth n r s)"
proof (cases "n < length (ip_flight s)")
  case True
  assume "actions_inv s"
  with True show ?thesis
    unfolding answer_nth_def
    by (simp only: if_True) (rule settle_inv; simp add: actions_inv_def)
qed (simp add: answer_nth_def)

lemma actions_inv_step: "actions_inv s \<Longrightarrow> actions_inv (ioc_step op s)"
proof (cases op)
  case (IpAnswer n r)
  then show "actions_inv s \<Longrightarrow> ?thesis" by (simp add: actions_inv_answer)
next
  case (IpWait ms)
  then show "actions_inv s \<Longrightarrow> ?thesis"
    by (simp add: panel_wait_def Let_def actions_inv_def issue_simps split: option.splits)
qed (simp_all add: actions_inv_def applyFilter_def applyType_def applyQuery_def applySort_def put_query_def second_render_def prev_page_def
    next_page_def open_ioc_def close_ioc_def enrich_def check_fp_ioc_def sight_def submitVerdict_def toggleKnownGood_def
    ioc_to_siem_def createCaseFromIoc_def decay_def issue_simps Let_def split: option.split)

text \<open>C29: whatever is clicked and in whatever order the answers come: of the actions that share the busy
  flag at most one is in flight, and as many enrichments, assessments, verdicts and decay runs as
  their flags say, so that a spinner stands for a call under way and a double click never
  repeats one.\<close>

theorem ioc_actions_exclusive: "actions_inv (fold ioc_step ops (ioc_mount query))"
proof -
  have "actions_inv s \<Longrightarrow> actions_inv (fold ioc_step ops s)" for s
    by (induction ops arbitrary: s) (simp_all add: actions_inv_step)
  moreover have "actions_inv (ioc_mount query)" by (simp add: actions_inv_def ioc_mount_def count_of_def flag_def)
  ultimately show ?thesis by blast
qed

subsection \<open>The question and its loads\<close>

text \<open>Every change of the search, the filters or the order by the analyst goes to the first page.\<close>

lemma settle_query [simp]: "ip_q (settle p r s) = ip_q s"
  by (cases p; cases r) (simp_all add: issue_simps)

theorem new_question_first_page:
  "op \<noteq> IpRendered \<Longrightarrow> (ip_q (ioc_step op s))\<lparr>iq_page := 0\<rparr> = (ip_q s)\<lparr>iq_page := 0\<rparr> \<or> iq_page (ip_q (ioc_step op s)) = 0"
  by (cases op) (simp_all add: applyFilter_def applyType_def applyQuery_def applySort_def put_query_def prev_page_def
    next_page_def open_ioc_def close_ioc_def enrich_def check_fp_ioc_def sight_def submitVerdict_def toggleKnownGood_def
    ioc_to_siem_def createCaseFromIoc_def decay_def issue_simps Let_def panel_wait_def answer_nth_def split: option.splits)

text \<open>Keys typed into the search, each a change, with the pause after each.\<close>

definition typing :: "(string \<times> nat) list \<Rightarrow> ioc_op list" where
  "typing keys = concat (map (\<lambda>(t, ms). [IpQuery t, IpWait ms]) keys)"

lemma typing_Cons: "typing ((t, ms) # keys) = IpQuery t # IpWait ms # typing keys"
  by (simp add: typing_def)

fun fresh_keys :: "string \<Rightarrow> (string \<times> nat) list \<Rightarrow> bool" where
  "fresh_keys t [] \<longleftrightarrow> True"
| "fresh_keys t ((u, ms) # keys) \<longleftrightarrow> u \<noteq> [] \<and> u \<noteq> t \<and> ms < 300 \<and> fresh_keys u keys"

lemma key_typed:
  assumes "t \<noteq> []" "ms < 300" "t \<noteq> iq_query (ip_q s)"
  shows "panel_wait ms (applyQuery t s) =
    s\<lparr>ip_q := (ip_q s)\<lparr>iq_query := t, iq_page := 0\<rparr>, ip_now := ip_now s + ms, ip_due := Some (ip_now s + 300)\<rparr>"
proof -
  have "(ip_q s)\<lparr>iq_query := t, iq_page := 0\<rparr> \<noteq> ip_q s"
    using assms(3) by (metis ioc_query.select_convs(2) ioc_query.surjective ioc_query.update_convs(1,2))
  then show ?thesis
    using assms(1,2) by (simp add: panel_wait_def applyQuery_def put_query_def delay_of_def Let_def)
qed

lemma keys_typed:
  assumes "fresh_keys (iq_query (ip_q s)) keys" "keys \<noteq> []"
  shows "ip_calls (fold ioc_step (typing keys) s) = ip_calls s
     \<and> ip_q (fold ioc_step (typing keys) s) = (ip_q s)\<lparr>iq_query := fst (last keys), iq_page := 0\<rparr>
     \<and> (\<exists>d. ip_due (fold ioc_step (typing keys) s) = Some d \<and> d \<le> ip_now (fold ioc_step (typing keys) s) + 300)"
  using assms
proof (induction keys arbitrary: s)
  case (Cons k keys)
  obtain t ms where k: "k = (t, ms)" by (cases k)
  have f: "t \<noteq> []" "ms < 300" "t \<noteq> iq_query (ip_q s)" "fresh_keys t keys" using Cons.prems(1) by (auto simp: k)
  note step = key_typed [OF f(1,2,3)]
  show ?case
  proof (cases "keys = []")
    case True
    then show ?thesis by (simp add: k typing_def step)
  next
    case False
    then show ?thesis using Cons.IH [of "panel_wait ms (applyQuery t s)"] f(4) by (simp add: k typing_Cons step)
  qed
qed simp

text \<open>Typing with less than 300 milliseconds between the keys loads nothing; once the typing stops one
  load asks for the last text, from the first page.\<close>

theorem search_debounced:
  assumes "fresh_keys (iq_query (ip_q s)) keys" "keys \<noteq> []"
  shows "ip_calls (fold ioc_step (typing keys @ [IpWait 300]) s) =
    ip_calls s @ [iocs_of ((ip_q s)\<lparr>iq_query := fst (last keys), iq_page := 0\<rparr>)]"
  using keys_typed [OF assms] by (auto simp: panel_wait_def Let_def load_iocs_def issue_def)

theorem search_debounced_witness:
  "length (ip_calls (fold ioc_step (typing [(''e'', 120), (''em'', 299)] @ [IpWait 300]) (ioc_mount []))) = 1"
proof -
  have "iq_query (ip_q (ioc_mount [])) = []" by code_simp
  then show ?thesis
    using search_debounced [of "ioc_mount []" "[(''e'', 120), (''em'', 299)]"] by (simp add: ioc_mount_def)
qed

subsection \<open>Answers that come late\<close>

definition with_detail :: "ioc_detail \<Rightarrow> ioc_panel \<Rightarrow> ioc_panel" where
  "with_detail d s = fold ioc_step [IpOpen (io_id d), IpAnswer 0 (RDetail d), IpAnswer 0 RRefused] s"

text \<open>An enrichment is not tied to the indicator it was asked for: when its answer comes after another
  indicator has been opened, its verdict is shown in the drawer of that one.\<close>

theorem enrichment_leaks:
  assumes "ip_flight s = []" "\<not> ip_enriching s"
  shows "let s' = fold ioc_step [IpEnrich, IpOpen (io_id e), IpAnswer 1 (RDetail e), IpAnswer 0 (RVerdict v)] (with_detail d s)
    in ip_detail s' = Some e \<and> ip_enrichment s' = Some v \<and> enrichIoc (io_id d) None \<in> set (ip_calls s')"
  using assms
  by (simp add: with_detail_def open_ioc_def issue_simps answer_nth_def enrich_def Let_def)

definition sample_detail :: "string \<Rightarrow> ioc_detail" where
  "sample_detail i = \<lparr>io_id = i, io_type = ''ip'', io_value = ''203.0.113.7'', io_severity = ''high'', io_actor = [],
     io_source = ''urlhaus'', io_firstSeen = [], io_lastSeen = [], io_threatType = ''botnet'', io_confidence = 90,
     io_tags = None, li_status = ''active'', li_sightings = 0, li_effective = 80, li_intelScore = None,
     li_scoreBand = None, li_sourceCount = None, li_sources = None,
     id_lifecycle = \<lparr>lc_effective = 80, lc_asserted = 90, lc_age = 3, lc_halfLife = 14, lc_status = ''active'',
       lc_expires = None, lc_revoke = None, lc_rule = None, lc_validUntil = None, lc_next = None\<rparr>,
     id_components = [], id_report = None, id_shift = None\<rparr>"

theorem enrichment_leaks_witness:
  "let s = fold ioc_step [IpEnrich, IpOpen ''b'', IpAnswer 1 (RDetail (sample_detail ''b'')), IpAnswer 0 (RVerdict ''malicious'')]
     (with_detail (sample_detail ''a'') (ioc_mount []))
   in map_option io_id (ip_detail s) = Some ''b'' \<and> ip_enrichment s = Some ''malicious''"
  using enrichment_leaks [of "ioc_mount []" "sample_detail ''b''" "''malicious''" "sample_detail ''a''"]
  by (simp add: ioc_mount_def Let_def sample_detail_def)

text \<open>A shrinking list can leave the panel on a page past its end: when a reload on a later page finds
  at most sixty indicators, the list is empty, says that there are none, and the pager that would
  lead back is not shown.\<close>

theorem page_stranded:
  assumes "ip_flight s = [PLoad q]" "0 < iq_page (ip_q s)" "n \<le> LIFE_PAGE" "trim (iq_query (ip_q s)) = []" "iq_filter (ip_q s) = ''all''"
  shows "let s' = ioc_step (IpAnswer 0 (RRows [] n)) s
    in ip_total s' = n \<and> empty_list_text s' = Some ''No indicators yet.'' \<and> \<not> pager_shown s' \<and> ioc_step IpPrev s' = s'"
  using assms by (simp add: answer_nth_def empty_list_text_def pager_shown_def prev_page_def prev_enabled_def Let_def)

theorem page_stranded_witness:
  "let s = ioc_step (IpAnswer 0 (RRows [] 60)) (fold ioc_step [IpWait 0, IpAnswer 0 (RRows [] 61), IpNext, IpWait 0] (ioc_mount []))
   in empty_list_text s = Some ''No indicators yet.'' \<and> ioc_step IpPrev s = s"
proof -
  let ?s = "fold ioc_step [IpWait 0, IpAnswer 0 (RRows [] 61), IpNext, IpWait 0] (ioc_mount [])"
  have s: "ip_flight ?s = [PLoad (ip_q ?s)]" "iq_page (ip_q ?s) = 1" "trim (iq_query (ip_q ?s)) = []" "iq_filter (ip_q ?s) = ''all''"
    by code_simp+
  show ?thesis
    using page_stranded [OF s(1) _ _ s(3,4), of 60] unfolding s(2) by (simp only: Let_def) (simp add: LIFE_PAGE_def)
qed


subsection \<open>Pivots lead to what they name\<close>

text \<open>The question a group stands for: its actor; or a text to search for, the host or the domain itself,
  or what an address range has before the last dot, with that dot.\<close>

definition stands_for :: "string \<times> string \<Rightarrow> string \<Rightarrow> string \<Rightarrow> bool" where
  "stands_for p t a \<longleftrightarrow> (case p of (k, v) \<Rightarrow>
     if k = ''actor'' then t = [] \<and> a = v
     else if k = ''subnet'' then a = [] \<and> (\<exists>l. v = t @ l \<and> CHR ''.'' \<notin> set l) \<and> (t = [] \<or> last t = CHR ''.'')
     else t = v \<and> a = [])"

text \<open>The request for the first page of a question, with nothing else narrowed.\<close>

definition first_page_of :: "string \<Rightarrow> string \<Rightarrow> call" where
  "first_page_of t a = fetchIocs (Some ([(''limit'', ''60''), (''offset'', ''0''), (''sort'', ''score''), (''order'', ''desc'')]
     @ (if trim t = [] then [] else [(''q'', trim t)]) @ (if a = [] then [] else [(''actor'', a)])))"

lemma dot_prefix_split:
  "(\<exists>l. v = dot_prefix v @ l \<and> CHR ''.'' \<notin> set l) \<and> (dot_prefix v = [] \<or> last (dot_prefix v) = CHR ''.'')"
proof -
  let ?P = "\<lambda>c. c \<noteq> CHR ''.''"
  have "rev v = takeWhile ?P (rev v) @ dropWhile ?P (rev v)" by simp
  then have v: "v = dot_prefix v @ rev (takeWhile ?P (rev v))"
    unfolding dot_prefix_def by (metis rev_append rev_rev_ident)
  have nd: "CHR ''.'' \<notin> set (rev (takeWhile ?P (rev v)))" by (auto dest: set_takeWhileD)
  have "dropWhile ?P (rev v) = [] \<or> hd (dropWhile ?P (rev v)) = CHR ''.''"
    using hd_dropWhile [of ?P "rev v"] by blast
  then have "dot_prefix v = [] \<or> last (dot_prefix v) = CHR ''.''"
    by (auto simp: dot_prefix_def last_rev)
  with v nd show ?thesis by blast
qed

lemma param_pair:
  "param_text ''q'' (''q='' @ encodeURIComponent v) = v" "param_text ''actor'' (''q='' @ encodeURIComponent v) = []"
  "param_text ''actor'' (''actor='' @ encodeURIComponent v) = v" "param_text ''q'' (''actor='' @ encodeURIComponent v) = []"
proof -
  have "parse_params (''q='' @ encodeURIComponent v) = [(''q'', v)]" "parse_params (''actor='' @ encodeURIComponent v) = [(''actor'', v)]"
    using query_pairs [of "[(''q'', v)]"] query_pairs [of "[(''actor'', v)]"] by (simp_all add: is_alpha_def is_lower_def code_def)
  then show "param_text ''q'' (''q='' @ encodeURIComponent v) = v" "param_text ''actor'' (''q='' @ encodeURIComponent v) = []"
    "param_text ''actor'' (''actor='' @ encodeURIComponent v) = v" "param_text ''q'' (''actor='' @ encodeURIComponent v) = []"
    by (simp_all add: param_text_def query_param_def obj_get_def)
qed

text \<open>The link of a group carries the question it stands for.\<close>

lemma href_stands:
  assumes "pivotHref g = Some h"
  shows "stands_for (rg_pivot g) (param_text ''q'' (url_query h)) (param_text ''actor'' (url_query h))"
proof -
  have u: "url_query (''/dashboard/cti?'' @ q) = q" for q using url_query_path [of "''/dashboard/cti''" q] by simp
  obtain k v where p: "rg_pivot g = (k, v)" by (cases "rg_pivot g")
  consider "k = ''actor''" "h = ''/dashboard/cti?'' @ ''actor='' @ encodeURIComponent v"
    | "k \<noteq> ''actor''" "k \<noteq> ''subnet''" "h = ''/dashboard/cti?'' @ ''q='' @ encodeURIComponent v"
    | "k = ''subnet''" "h = ''/dashboard/cti?'' @ ''q='' @ encodeURIComponent (dot_prefix v)"
    using assms by (auto simp: pivotHref_def p split: if_splits)
  then show ?thesis
  proof cases
    case 1
    then show ?thesis by (simp only: u param_pair p) (simp add: stands_for_def)
  next
    case 2
    then show ?thesis by (simp only: u param_pair p) (simp add: stands_for_def)
  next
    case 3
    then show ?thesis using dot_prefix_split [of v] by (simp only: u param_pair p) (simp add: stands_for_def)
  qed
qed

lemma first_page_request:
  "iocs_of (first_query\<lparr>iq_query := t, iq_actor := a\<rparr>) = first_page_of t a"
proof -
  have "int_str 60 = ''60''" "int_str 0 = ''0''" by code_simp+
  then show ?thesis by (simp add: iocs_of_def load_params_def first_page_of_def first_query_def LIFE_PAGE_def)
qed

text \<open>The two orders of the second render and the first timer.\<close>

lemma read_first:
  "read_address query first_query = first_query\<lparr>iq_query := param_text ''q'' query, iq_actor := param_text ''actor'' query\<rparr>"
  by (simp add: read_address_def first_query_def Let_def)

lemma rendered_first:
  "ip_q (ioc_step IpRendered (ioc_mount query)) = read_address query first_query
   \<and> ip_calls (fold ioc_step [IpRendered, IpWait 300] (ioc_mount query)) = [iocs_of (read_address query first_query)]"
  by (simp add: ioc_mount_def second_render_def put_query_def panel_wait_def Let_def delay_of_def load_iocs_def issue_def
      first_query_def)

lemma timer_first:
  "ip_q (fold ioc_step [IpWait 0, IpRendered] (ioc_mount query)) = read_address query first_query
   \<and> ip_calls (fold ioc_step [IpWait 0, IpRendered, IpWait 300] (ioc_mount query))
     = iocs_of first_query # (if read_address query first_query = first_query then [] else [iocs_of (read_address query first_query)])"
  by (simp add: ioc_mount_def second_render_def put_query_def panel_wait_def Let_def delay_of_def load_iocs_def issue_def
      first_query_def)

text \<open>C31: following the link of a group opens the panel on the question the group stands for: its actor, or
  the host, domain or address prefix as a search. Its first page is requested once, and as the only
  request when the second render comes before the timer of the first; when the timer comes first, a
  request without any question goes out before it.\<close>

theorem pivot_lands:
  assumes "pivotHref g = Some h"
  shows "\<exists>t a. stands_for (rg_pivot g) t a
    \<and> ip_q (ioc_step IpRendered (ioc_mount (url_query h))) = first_query\<lparr>iq_query := t, iq_actor := a\<rparr>
    \<and> ip_calls (fold ioc_step [IpRendered, IpWait 300] (ioc_mount (url_query h))) = [first_page_of t a]
    \<and> ip_calls (fold ioc_step [IpWait 0, IpRendered, IpWait 300] (ioc_mount (url_query h)))
      = first_page_of [] [] # (if t = [] \<and> a = [] then [] else [first_page_of t a])"
proof -
  let ?t = "param_text ''q'' (url_query h)" and ?a = "param_text ''actor'' (url_query h)"
  have same: "first_query\<lparr>iq_query := ?t, iq_actor := ?a\<rparr> = first_query \<longleftrightarrow> ?t = [] \<and> ?a = []"
    by (simp add: first_query_def)
  have e: "iocs_of first_query = first_page_of [] []"
    using first_page_request [of "[]" "[]"] by (simp add: first_query_def)
  show ?thesis
    using href_stands [OF assms] rendered_first [of "url_query h"] timer_first [of "url_query h"]
    unfolding read_first first_page_request same e by blast
qed

theorem pivot_lands_witness:
  "pivotHref \<lparr>rg_key = ''subnet'', rg_label = [], rg_why = [], rg_total = 9, rg_items = [], rg_pivot = (''subnet'', ''124.88.113.0/24'')\<rparr>
     = Some ''/dashboard/cti?q=124.88.113.''
   \<and> length (ip_calls (fold ioc_step [IpRendered, IpWait 300] (ioc_mount (url_query ''/dashboard/cti?q=124.88.113.'')))) = 1"
proof -
  let ?g = "\<lparr>rg_key = ''subnet'', rg_label = [], rg_why = [], rg_total = 9, rg_items = [], rg_pivot = (''subnet'', ''124.88.113.0/24'')\<rparr>"
  have h: "pivotHref ?g = Some ''/dashboard/cti?q=124.88.113.''" by code_simp
  show ?thesis using pivot_lands [OF h] by (auto simp: h)
qed

end
