(* ===== verification/ConfigPanels.thy ===== *)
theory ConfigPanels
  imports ApiClient SiemQueue
begin

text \<open>
  The panels of the configuration page that talk to the backend themselves
  (\<open>app/dashboard/config/page.tsx\<close>): two-factor authentication, personal Slack routing, API keys,
  feed switches, sessions, audit trail, license and billing, the engine, self-health and jobs.
\<close>

subsection \<open>Two-factor authentication\<close>

record mfa_status =
  ms_enabled :: bool
  ms_pending :: bool
  ms_left :: int

datatype mfa_action = MfaEnroll | MfaVerify | MfaRegenerate | MfaDisable

text \<open>\<open>mf_flight\<close> are the actions whose answers are still to come.\<close>

record mfa_panel =
  mf_status :: "mfa_status option"
  mf_enrolment :: "(string \<times> string) option"
  mf_codes :: "string list option"
  mf_code :: string
  mf_msg :: "string option"
  mf_busy :: bool
  mf_flight :: "mfa_action list"
  mf_calls :: "call list"

definition mfa_init :: mfa_panel where
  "mfa_init = \<lparr>mf_status = None, mf_enrolment = None, mf_codes = None, mf_code = [], mf_msg = None, mf_busy = False,
     mf_flight = [], mf_calls = [fetchMfaStatus]\<rparr>"

definition mfa_load :: "mfa_panel \<Rightarrow> mfa_panel" where "mfa_load p = p\<lparr>mf_calls := mf_calls p @ [fetchMfaStatus]\<rparr>"

definition mfa_loaded :: "mfa_status option \<Rightarrow> mfa_panel \<Rightarrow> mfa_panel" where
  "mfa_loaded r p = (case r of Some s \<Rightarrow> p\<lparr>mf_status := Some s\<rparr> | None \<Rightarrow> p)"

definition mfa_send :: "mfa_action \<Rightarrow> call \<Rightarrow> mfa_panel \<Rightarrow> mfa_panel" where
  "mfa_send a c p = p\<lparr>mf_busy := True, mf_msg := None, mf_flight := mf_flight p @ [a], mf_calls := mf_calls p @ [c]\<rparr>"

definition mfa_enabled :: "mfa_panel \<Rightarrow> bool" where
  "mfa_enabled p \<longleftrightarrow> (case mf_status p of Some s \<Rightarrow> ms_enabled s | None \<Rightarrow> False)"

text \<open>The buttons: which one is there, and when it can be clicked. The handlers check again, except
  the one that starts the enrolment.\<close>

definition mfa_start :: "mfa_panel \<Rightarrow> mfa_panel" where
  "mfa_start p = (if mfa_enabled p \<or> mf_enrolment p \<noteq> None \<or> mf_busy p then p else mfa_send MfaEnroll mfaEnroll p)"

definition mfa_verify :: "mfa_panel \<Rightarrow> mfa_panel" where
  "mfa_verify p = (if mf_enrolment p = None \<or> length (mf_code p) < 6 \<or> mf_busy p then p
     else mfa_send MfaVerify (mfaVerify (mf_code p)) p)"

definition mfa_regenerate :: "mfa_panel \<Rightarrow> mfa_panel" where
  "mfa_regenerate p = (if \<not> mfa_enabled p \<or> mf_codes p \<noteq> None \<or> length (mf_code p) < 6 \<or> mf_busy p then p
     else mfa_send MfaRegenerate (mfaRegenerateRecoveryCodes (mf_code p)) p)"

definition mfa_disable :: "mfa_panel \<Rightarrow> mfa_panel" where
  "mfa_disable p = (if \<not> mfa_enabled p \<or> mf_enrolment p \<noteq> None \<or> length (mf_code p) < 6 \<or> mf_busy p then p
     else mfa_send MfaDisable (mfaDisable (mf_code p)) p)"

text \<open>The field takes at most six characters and keeps the digits.\<close>

definition mfa_type :: "string \<Rightarrow> mfa_panel \<Rightarrow> mfa_panel" where
  "mfa_type t p = (if length t \<le> 6 then p\<lparr>mf_code := filter is_digit t\<rparr> else p)"

datatype mfa_reply = MrRefused exn | MrEnrolment string string | MrCodes "string list option" | MrOk

text \<open>What each handler does with its answer, before the flag is cleared.\<close>

fun mfa_result :: "(exn \<Rightarrow> string) \<Rightarrow> mfa_action \<Rightarrow> mfa_reply \<Rightarrow> mfa_panel \<Rightarrow> mfa_panel" where
  "mfa_result eng MfaEnroll (MrEnrolment sec uri) p = mfa_load (p\<lparr>mf_enrolment := Some (sec, uri)\<rparr>)"
| "mfa_result eng MfaEnroll (MrRefused e) p = p\<lparr>mf_msg := Some (err_message eng e)\<rparr>"
| "mfa_result eng MfaVerify (MrCodes cs) p = mfa_load (p\<lparr>mf_enrolment := None, mf_code := [], mf_codes := cs,
     mf_msg := Some ''Two-factor authentication is ON - your next login will ask for a code.''\<rparr>)"
| "mfa_result eng MfaVerify (MrRefused e) p = p\<lparr>mf_msg := Some ''That code did not verify - check your authenticator and try again.''\<rparr>"
| "mfa_result eng MfaRegenerate (MrCodes cs) p = mfa_load (p\<lparr>mf_code := [], mf_codes := cs,
     mf_msg := Some ''New recovery codes generated - your old ones no longer work.''\<rparr>)"
| "mfa_result eng MfaRegenerate (MrRefused e) p = p\<lparr>mf_msg := Some ''That code did not verify - codes unchanged.''\<rparr>"
| "mfa_result eng MfaDisable MrOk p = mfa_load (p\<lparr>mf_code := [], mf_msg := Some ''Two-factor authentication is OFF.''\<rparr>)"
| "mfa_result eng MfaDisable (MrRefused e) p = p\<lparr>mf_msg := Some ''That code did not verify - MFA stays on.''\<rparr>"
| "mfa_result eng _ _ p = p"

definition mfa_answered :: "(exn \<Rightarrow> string) \<Rightarrow> mfa_reply \<Rightarrow> mfa_panel \<Rightarrow> mfa_panel" where
  "mfa_answered eng r p = (case mf_flight p of [] \<Rightarrow> p
     | a # as \<Rightarrow> (mfa_result eng a r (p\<lparr>mf_flight := as\<rparr>))\<lparr>mf_busy := False\<rparr>)"

definition mfa_codes_saved :: "mfa_panel \<Rightarrow> mfa_panel" where "mfa_codes_saved p = p\<lparr>mf_codes := None\<rparr>"

definition mfa_badge :: "mfa_panel \<Rightarrow> string option" where
  "mfa_badge p = map_option (\<lambda>s. if ms_enabled s then ''enabled'' else if ms_pending s then ''pending verification'' else ''off'') (mf_status p)"

definition codes_left_text :: "mfa_panel \<Rightarrow> string option" where
  "codes_left_text p = (case mf_status p of Some s \<Rightarrow> if ms_enabled s \<and> mf_codes p = None
     then Some (int_str (ms_left s) @ '' recovery code'' @ (if ms_left s \<noteq> 1 then ''s'' else []) @ '' left'') else None | None \<Rightarrow> None)"

datatype mfa_op = MoLoaded "mfa_status option" | MoType string | MoStart | MoVerify | MoRegenerate | MoDisable
  | MoAnswer mfa_reply | MoSaved

fun mfa_step :: "(exn \<Rightarrow> string) \<Rightarrow> mfa_op \<Rightarrow> mfa_panel \<Rightarrow> mfa_panel" where
  "mfa_step eng (MoLoaded r) p = mfa_loaded r p"
| "mfa_step eng (MoType t) p = mfa_type t p"
| "mfa_step eng MoStart p = mfa_start p"
| "mfa_step eng MoVerify p = mfa_verify p"
| "mfa_step eng MoRegenerate p = mfa_regenerate p"
| "mfa_step eng MoDisable p = mfa_disable p"
| "mfa_step eng (MoAnswer r) p = mfa_answered eng r p"
| "mfa_step eng MoSaved p = mfa_codes_saved p"

subsection \<open>Slack routing\<close>

record slack_panel =
  sk_url :: string
  sk_minSev :: string
  sk_configured :: bool
  sk_msg :: "string option"
  sk_busy :: bool

definition slack_loaded :: "(string option \<times> string \<times> bool) option \<Rightarrow> slack_panel \<Rightarrow> slack_panel" where
  "slack_loaded r p = (case r of None \<Rightarrow> p
     | Some (u, m, c) \<Rightarrow> p\<lparr>sk_url := (case u of Some x \<Rightarrow> x | None \<Rightarrow> []), sk_minSev := m, sk_configured := c\<rparr>)"

definition slack_save :: "slack_panel \<Rightarrow> slack_panel \<times> call option" where
  "slack_save p = (if sk_busy p then (p, None)
     else (p\<lparr>sk_busy := True, sk_msg := None\<rparr>,
       Some (setMySlackRouting (if trim (sk_url p) = [] then None else Some (trim (sk_url p))) (sk_minSev p))))"

definition slack_saved :: "bool option \<Rightarrow> slack_panel \<Rightarrow> slack_panel" where
  "slack_saved r p = (case r of
     Some c \<Rightarrow> p\<lparr>sk_configured := c, sk_msg := Some (if c then ''Saved - notifications will be mirrored to your Slack.''
         else ''Cleared - no Slack routing for your account.'')\<rparr>
   | None \<Rightarrow> p\<lparr>sk_msg := Some ''Could not save (is the URL a valid http(s) webhook?).''\<rparr>)\<lparr>sk_busy := False\<rparr>"

definition slack_test :: "slack_panel \<Rightarrow> slack_panel \<times> call option" where
  "slack_test p = (if sk_busy p \<or> \<not> sk_configured p then (p, None)
     else (p\<lparr>sk_busy := True, sk_msg := None\<rparr>, Some testMySlackRouting))"

definition slack_tested :: "bool option \<Rightarrow> slack_panel \<Rightarrow> slack_panel" where
  "slack_tested r p = p\<lparr>sk_msg := Some (case r of
     Some d \<Rightarrow> if d then ''Test message delivered'' else ''Delivery failed - check the webhook URL.''
   | None \<Rightarrow> ''No webhook configured yet - save one first.''), sk_busy := False\<rparr>"

subsection \<open>API keys\<close>

record api_key =
  ak_id :: string
  ak_name :: string
  ak_scope :: string
  ak_prefix :: string
  ak_revoked :: bool

definition SCOPE_PREFIX :: "(string, string) obj" where
  "SCOPE_PREFIX = [(''admin'', ''to_ak_live_''), (''write'', ''to_sk_live_''), (''read'', ''to_rk_live_'')]"

definition SCOPE_LABEL :: "(string, string) obj" where
  "SCOPE_LABEL = [(''admin'', ''Full Admin''), (''write'', ''Read + Write''), (''read'', ''Read Only'')]"

record key_panel =
  kp_keys :: "api_key list option"
  kp_unavailable :: bool
  kp_name :: string
  kp_scope :: string
  kp_generated :: "string option"
  kp_copied :: bool
  kp_creating :: bool
  kp_calls :: "call list"

definition key_init :: key_panel where
  "key_init = \<lparr>kp_keys = None, kp_unavailable = False, kp_name = [], kp_scope = ''read'', kp_generated = None,
     kp_copied = False, kp_creating = False, kp_calls = [fetchApiKeys]\<rparr>"

definition keys_loaded :: "api_key list option \<Rightarrow> key_panel \<Rightarrow> key_panel" where
  "keys_loaded r p = (case r of Some ks \<Rightarrow> p\<lparr>kp_keys := Some ks\<rparr> | None \<Rightarrow> p\<lparr>kp_unavailable := True\<rparr>)"

definition key_generate :: "key_panel \<Rightarrow> key_panel" where
  "key_generate p = (if trim (kp_name p) = [] \<or> kp_creating p then p
     else p\<lparr>kp_creating := True, kp_calls := kp_calls p @ [createApiKey (trim (kp_name p)) (Some (kp_scope p)) None]\<rparr>)"

definition key_created :: "(api_key \<times> string) option \<Rightarrow> key_panel \<Rightarrow> key_panel" where
  "key_created r p = (case r of
     Some (k, sec) \<Rightarrow> p\<lparr>kp_generated := Some sec, kp_copied := False, kp_name := [],
       kp_keys := Some (k # (case kp_keys p of Some ks \<Rightarrow> ks | None \<Rightarrow> []))\<rparr>
   | None \<Rightarrow> p\<lparr>kp_unavailable := True\<rparr>)\<lparr>kp_creating := False\<rparr>"

definition key_revoke :: "string \<Rightarrow> key_panel \<Rightarrow> key_panel" where
  "key_revoke i p = p\<lparr>kp_calls := kp_calls p @ [revokeApiKey i]\<rparr>"

definition key_revoked :: "string \<Rightarrow> bool \<Rightarrow> key_panel \<Rightarrow> key_panel" where
  "key_revoked i ok p = (if ok then p\<lparr>kp_keys := map_option (map (\<lambda>k. if ak_id k = i then k\<lparr>ak_revoked := True\<rparr> else k)) (kp_keys p)\<rparr> else p)"

definition keys_shown :: "key_panel \<Rightarrow> api_key list" where
  "keys_shown p = (if kp_unavailable p then [] else case kp_keys p of Some ks \<Rightarrow> ks | None \<Rightarrow> [])"

definition key_scope_label :: "api_key \<Rightarrow> string" where
  "key_scope_label k = (case obj_get SCOPE_LABEL (ak_scope k) of Some l \<Rightarrow> l | None \<Rightarrow> ak_scope k)"

text \<open>The masked key; the bullet is a parameter.\<close>

definition key_mask :: "char \<Rightarrow> api_key \<Rightarrow> string" where
  "key_mask bullet k = (case obj_get SCOPE_PREFIX (ak_scope k) of Some q \<Rightarrow> q | None \<Rightarrow> ''to_sk_live_'')
     @ replicate 28 bullet @ ak_prefix k"

datatype key_op = KoLoaded "api_key list option" | KoName string | KoScope string | KoGenerate
  | KoCreated "(api_key \<times> string) option" | KoRevoke string | KoRevoked string bool | KoCopy | KoCopyOver

fun key_step :: "key_op \<Rightarrow> key_panel \<Rightarrow> key_panel" where
  "key_step (KoLoaded r) p = keys_loaded r p"
| "key_step (KoName t) p = p\<lparr>kp_name := t\<rparr>"
| "key_step (KoScope t) p = p\<lparr>kp_scope := t\<rparr>"
| "key_step KoGenerate p = key_generate p"
| "key_step (KoCreated r) p = key_created r p"
| "key_step (KoRevoke i) p = key_revoke i p"
| "key_step (KoRevoked i ok) p = key_revoked i ok p"
| "key_step KoCopy p = p\<lparr>kp_copied := True\<rparr>"
| "key_step KoCopyOver p = p\<lparr>kp_copied := False\<rparr>"

subsection \<open>Feed switches\<close>

record config_feed =
  cg_id :: string
  cg_enabled :: bool

definition put_enabled :: "string \<Rightarrow> bool \<Rightarrow> config_feed list \<Rightarrow> config_feed list" where
  "put_enabled i b fs = map (\<lambda>f. if cg_id f = i then f\<lparr>cg_enabled := b\<rparr> else f) fs"

text \<open>A click flips the switch of the feed as it was rendered, a refusal puts that one's value back.\<close>

definition feed_toggle :: "config_feed \<Rightarrow> config_feed list \<Rightarrow> config_feed list \<times> call" where
  "feed_toggle f fs = (put_enabled (cg_id f) (\<not> cg_enabled f) fs, toggleFeed (cg_id f) (\<not> cg_enabled f))"

definition feed_refused :: "config_feed \<Rightarrow> config_feed list \<Rightarrow> config_feed list" where
  "feed_refused f = put_enabled (cg_id f) (cg_enabled f)"

subsection \<open>Sessions\<close>

record session_info =
  se_id :: string
  se_current :: bool
  se_agent :: "string option"

definition describeAgent :: "string option \<Rightarrow> string" where
  "describeAgent agent = (case agent of None \<Rightarrow> ''Unknown device'' | Some ua \<Rightarrow>
     if ua = [] then ''Unknown device'' else
     let has = str_includes ua;
         os = (if has ''Windows'' then ''Windows'' else if has ''Mac OS X'' \<or> has ''Macintosh'' then ''macOS''
           else if has ''Android'' then ''Android'' else if has ''iPhone'' \<or> has ''iPad'' \<or> has ''iOS'' then ''iOS''
           else if has ''Linux'' then ''Linux'' else []);
         browser = (if has ''Edg/'' then ''Edge'' else if has ''OPR/'' \<or> has ''Opera'' then ''Opera''
           else if has ''Chrome/'' then ''Chrome'' else if has ''Firefox/'' then ''Firefox''
           else if has ''Safari/'' then ''Safari'' else ''Browser'')
     in if os \<noteq> [] then browser @ '' on '' @ os else browser)"

definition session_age :: "int option \<Rightarrow> string" where
  "session_age ms = (case ms of None \<Rightarrow> ''NaNd ago'' | Some d \<Rightarrow>
     let s = max 0 (js_div (of_int d) 1000) in
     if s < 60 then ''just now'' else if s < 3600 then int_str (js_floor (js_div s 60)) @ ''m ago''
     else if s < 86400 then int_str (js_floor (js_div s 3600)) @ ''h ago'' else int_str (js_floor (js_div s 86400)) @ ''d ago'')"

record session_panel =
  ss_sessions :: "session_info list option"
  ss_error :: bool
  ss_busy :: "string option"
  ss_calls :: "call list"

definition sessions_loaded :: "session_info list option \<Rightarrow> session_panel \<Rightarrow> session_panel" where
  "sessions_loaded r p = (case r of Some xs \<Rightarrow> p\<lparr>ss_sessions := Some xs\<rparr> | None \<Rightarrow> p\<lparr>ss_error := True\<rparr>)"

definition other_sessions :: "session_panel \<Rightarrow> session_info list" where
  "other_sessions p = filter (\<lambda>s. \<not> se_current s) (case ss_sessions p of Some xs \<Rightarrow> xs | None \<Rightarrow> [])"

definition session_revoke :: "string \<Rightarrow> session_panel \<Rightarrow> session_panel" where
  "session_revoke i p = p\<lparr>ss_busy := Some i, ss_calls := ss_calls p @ [revokeSession i]\<rparr>"

definition session_revoked :: "string \<Rightarrow> bool \<Rightarrow> session_panel \<Rightarrow> session_panel" where
  "session_revoked i ok p = (if ok then p\<lparr>ss_sessions := map_option (filter (\<lambda>s. se_id s \<noteq> i)) (ss_sessions p)\<rparr> else p)\<lparr>ss_busy := None\<rparr>"

text \<open>Signing out all other devices, after a confirmation; every refusal is swallowed, so the end of
  all calls is the same whatever came of each.\<close>

definition revokeOthers :: "bool \<Rightarrow> session_panel \<Rightarrow> session_panel" where
  "revokeOthers confirmed p = (if other_sessions p = [] \<or> \<not> confirmed then p
     else p\<lparr>ss_busy := Some ''others'', ss_calls := ss_calls p @ map (\<lambda>s. revokeSession (se_id s)) (other_sessions p)\<rparr>)"

definition others_settled :: "session_panel \<Rightarrow> session_panel" where
  "others_settled p = p\<lparr>ss_sessions := map_option (filter se_current) (ss_sessions p), ss_busy := None\<rparr>"

subsection \<open>Audit trail and jobs\<close>

definition ACTION_COLOR :: "(string, string) obj" where
  "ACTION_COLOR = [(''create'', tk Safe), (''update'', tk Amber), (''delete'', tk Threat), (''revoke'', tk Threat),
     (''toggle'', tk Violet), (''run'', tk Magenta)]"

definition actionTint :: "string \<Rightarrow> string" where
  "actionTint a = (let verb = (case split_char (CHR ''.'') a of _ # v # _ \<Rightarrow> v | _ \<Rightarrow> a) in
     case obj_get ACTION_COLOR verb of Some c \<Rightarrow> c | None \<Rightarrow> tk Violet)"

definition retention_text :: "rat list \<Rightarrow> rat \<Rightarrow> string option \<Rightarrow> string" where
  "retention_text purged days dir = ''Purged '' @ num_str (js_sum purged) @ '' records older than '' @ num_str days @ '' days.''
     @ (case dir of None \<Rightarrow> [] | Some d \<Rightarrow> if d = [] then [] else '' Archived to cold storage first ('' @ d @ '').'')"

definition JOB_LABEL :: "(string, string) obj" where
  "JOB_LABEL = [(''threat.sync_iocs'', ''IOC sync from Threat API''), (''logs.analyse'', ''Log anomaly analysis''),
     (''assets.recompute_risk'', ''Asset risk recompute'')]"

text \<open>The middle dot between two parts is written as a comma.\<close>

definition jobSummary :: "string \<Rightarrow> (string \<Rightarrow> json) \<Rightarrow> string" where
  "jobSummary kind m = (let show = (\<lambda>k d. js_string (nullish (m k) (JStr d))) in
     if kind = ''threat.sync_iocs'' then show ''imported'' ''0'' @ '' imported, '' @ show ''duplicates'' ''0'' @ '' known''
     else if kind = ''logs.analyse'' then show ''file'' ''file'' @ '', '' @ show ''findings'' ''0'' @ '' findings''
     else if kind = ''assets.recompute_risk'' then show ''updated'' ''0'' @ '' assets rescored'' else [])"

subsection \<open>License and billing\<close>

definition usage_bar :: "rat \<Rightarrow> rat option \<Rightarrow> rat" where
  "usage_bar used limit = (case limit of None \<Rightarrow> 0 | Some l \<Rightarrow> min 100 (js_mul (js_div used l) 100))"

definition usage_text :: "rat \<Rightarrow> rat option \<Rightarrow> string" where
  "usage_text used limit = num_str used @ (case limit of Some l \<Rightarrow> '' / '' @ num_str l | None \<Rightarrow> '', unlimited'')"

definition usage_full :: "rat \<Rightarrow> rat option \<Rightarrow> bool" where
  "usage_full used limit = (case limit of None \<Rightarrow> False | Some l \<Rightarrow> used \<ge> l)"

record license_panel =
  ll_key :: string
  ll_msg :: "string option"
  ll_calls :: "call list"

definition license_activate :: "license_panel \<Rightarrow> license_panel" where
  "license_activate p = (if trim (ll_key p) = [] then p else p\<lparr>ll_calls := ll_calls p @ [activateLicense (trim (ll_key p))]\<rparr>)"

definition license_activated :: "(exn \<Rightarrow> string) \<Rightarrow> exn + string \<Rightarrow> license_panel \<Rightarrow> license_panel" where
  "license_activated eng r p = (case r of
     Inr plan \<Rightarrow> p\<lparr>ll_msg := Some (''Activated: '' @ plan @ '' plan''), ll_key := [], ll_calls := ll_calls p @ [fetchLicense]\<rparr>
   | Inl e \<Rightarrow> p\<lparr>ll_msg := Some (if err_message eng e \<noteq> [] then err_message eng e else ''Invalid license key'')\<rparr>)"

record billing_panel =
  bp_busy :: "string option"
  bp_msg :: "string option"
  bp_left :: "string option"
  bp_calls :: "call list"

text \<open>\<open>?billing=\<close> of the address the payment page leads back to; \<open>bp_left\<close> is the page left for.\<close>

definition billing_mount :: "string option \<Rightarrow> billing_panel" where
  "billing_mount q = \<lparr>bp_busy = None, bp_msg = (case q of
       Some s \<Rightarrow> if s = ''success'' then Some ''Subscription active - your plan is now updated.''
         else if s = ''cancel'' then Some ''Checkout cancelled - no changes were made.'' else None
     | None \<Rightarrow> None), bp_left = None, bp_calls = [fetchBillingStatus]\<rparr>"

definition billing_upgrade :: "string \<Rightarrow> billing_panel \<Rightarrow> billing_panel" where
  "billing_upgrade plan p = (if bp_busy p \<noteq> None then p
     else p\<lparr>bp_busy := Some plan, bp_msg := None, bp_calls := bp_calls p @ [startCheckout plan]\<rparr>)"

definition billing_manage :: "billing_panel \<Rightarrow> billing_panel" where
  "billing_manage p = (if bp_busy p \<noteq> None then p
     else p\<lparr>bp_busy := Some ''portal'', bp_msg := None, bp_calls := bp_calls p @ [openBillingPortal]\<rparr>)"

definition billing_answered :: "string option \<Rightarrow> billing_panel \<Rightarrow> billing_panel" where
  "billing_answered r p = (case r of Some u \<Rightarrow> p\<lparr>bp_left := Some u\<rparr>
     | None \<Rightarrow> p\<lparr>bp_msg := Some (if bp_busy p = Some ''portal'' then ''Could not open the billing portal.''
         else ''Could not start checkout. Is billing configured on the server?''), bp_busy := None\<rparr>)"

subsection \<open>Engine and health\<close>

record engine_status =
  es_mode :: string
  es_running :: bool
  es_enabled :: bool
  es_synthetic :: "bool option"

record engine_card =
  en_status :: "engine_status option"
  en_busy :: bool
  en_msg :: "string option"
  en_calls :: "call list"

definition engine_polled :: "engine_status option \<Rightarrow> engine_card \<Rightarrow> engine_card" where
  "engine_polled r c = c\<lparr>en_status := r\<rparr>"

text \<open>Without synthetic data, and in another mode than live, there are no controls.\<close>

definition engine_controls :: "engine_card \<Rightarrow> bool" where
  "engine_controls c = (case en_status c of None \<Rightarrow> True | Some s \<Rightarrow> es_mode s = ''live'' \<and> es_synthetic s \<noteq> Some False)"

definition engine_toggle :: "engine_card \<Rightarrow> engine_card" where
  "engine_toggle c = (case en_status c of None \<Rightarrow> c | Some s \<Rightarrow>
     if \<not> engine_controls c \<or> en_busy c then c
     else c\<lparr>en_busy := True, en_calls := en_calls c @ [controlEngine (JObj [(''enabled'', JBool (\<not> es_enabled s))])]\<rparr>)"

definition engine_generate :: "engine_card \<Rightarrow> engine_card" where
  "engine_generate c = (if \<not> engine_controls c \<or> en_busy c then c
     else c\<lparr>en_busy := True, en_msg := None, en_calls := en_calls c @ [controlEngine (JObj [(''generate'', JNum 8)])]\<rparr>)"

definition engine_toggled :: "bool \<Rightarrow> engine_card \<Rightarrow> engine_card" where
  "engine_toggled ok c = (if ok then c\<lparr>en_calls := en_calls c @ [fetchEngineStatus]\<rparr> else c)\<lparr>en_busy := False\<rparr>"

definition engine_generated :: "(rat \<times> rat \<times> rat \<times> rat) option option \<Rightarrow> engine_card \<Rightarrow> engine_card" where
  "engine_generated r c = (case r of
     None \<Rightarrow> c\<lparr>en_msg := Some ''Could not generate - is the dashboard API running in live mode?''\<rparr>
   | Some g \<Rightarrow> c\<lparr>en_msg := Some (case g of None \<Rightarrow> ''Done.''
         | Some (a, i, d, k) \<Rightarrow> ''Generated '' @ num_str a @ '' alerts, '' @ num_str i @ '' IOCs, '' @ num_str d
             @ '' dark-web findings, '' @ num_str k @ '' cases.''), en_calls := en_calls c @ [fetchEngineStatus]\<rparr>)\<lparr>en_busy := False\<rparr>"

datatype health_status = HealthOk | HealthDegraded | HealthDown | HealthUnknown

fun HEALTH_UI :: "health_status \<Rightarrow> string \<times> string \<times> string" where
  "HEALTH_UI HealthOk = (''bg-safe'', ''border-safe/25 bg-safe/10 text-safe'', ''Healthy'')"
| "HEALTH_UI HealthDegraded = (''bg-amber'', ''border-amber/25 bg-amber/10 text-amber'', ''Degraded'')"
| "HEALTH_UI HealthDown = (''bg-threat'', ''border-threat/25 bg-threat/10 text-threat'', ''Down'')"
| "HEALTH_UI HealthUnknown = (''bg-ink-600'', ''border-white/10 bg-white/5 text-ink-400'', ''Unknown'')"

text \<open>The uptime of whole seconds; none and a negative one are a dash.\<close>

definition fmtUptime :: "int option \<Rightarrow> string" where
  "fmtUptime u = (case u of None \<Rightarrow> ''-'' | Some s \<Rightarrow> if s \<le> 0 then ''-'' else
     let d = s div 86400; h = s mod 86400 div 3600; m = s mod 3600 div 60 in
     if d \<noteq> 0 then int_str d @ ''d '' @ int_str h @ ''h'' else if h \<noteq> 0 then int_str h @ ''h '' @ int_str m @ ''m''
     else if m \<noteq> 0 then int_str m @ ''m'' else int_str s @ ''s'')"

definition db_detail :: "health_status \<Rightarrow> rat option \<Rightarrow> string option \<Rightarrow> string" where
  "db_detail st ms err = (if st = HealthDown then (case err of Some e \<Rightarrow> e | None \<Rightarrow> ''unreachable'')
     else case ms of Some x \<Rightarrow> num_str x @ '' ms round-trip'' | None \<Rightarrow> ''-'')"

definition leader_detail :: "bool \<Rightarrow> string option \<Rightarrow> bool \<Rightarrow> string" where
  "leader_detail leads holder election = (if leads then ''this node holds the lease''
     else case holder of Some n \<Rightarrow> if n \<noteq> [] then ''held by '' @ n else if election then ''no active leader'' else ''election disabled''
       | None \<Rightarrow> if election then ''no active leader'' else ''election disabled'')"

record health_card =
  hc_health :: "health_status option"
  hc_error :: bool

definition health_polled :: "health_status option \<Rightarrow> health_card \<Rightarrow> health_card" where
  "health_polled r c = (case r of Some h \<Rightarrow> c\<lparr>hc_health := Some h, hc_error := False\<rparr> | None \<Rightarrow> c\<lparr>hc_error := True\<rparr>)"

definition health_pill :: "health_card \<Rightarrow> string" where
  "health_pill c = (case hc_health c of Some h \<Rightarrow> snd (snd (HEALTH_UI h)) | None \<Rightarrow> ''Checking...'')"


subsection \<open>What the panel for two factors sends\<close>

definition mfa_code_ok :: "string \<Rightarrow> bool" where
  "mfa_code_ok t \<longleftrightarrow> length t = 6 \<and> list_all is_digit t"

text \<open>The calls of the panel: the first two carry nothing, the others a whole code.\<close>

definition mfa_call_ok :: "call \<Rightarrow> bool" where
  "mfa_call_ok c \<longleftrightarrow> c = fetchMfaStatus \<or> c = mfaEnroll
     \<or> (\<exists>t. mfa_code_ok t \<and> (c = mfaVerify t \<or> c = mfaRegenerateRecoveryCodes t \<or> c = mfaDisable t))"

definition mfa_inv :: "mfa_panel \<Rightarrow> bool" where
  "mfa_inv p \<longleftrightarrow> list_all mfa_call_ok (mf_calls p) \<and> length (mf_code p) \<le> 6 \<and> list_all is_digit (mf_code p)
     \<and> length (mf_flight p) = (if mf_busy p then 1 else 0)"

lemma mfa_inv_code: "mfa_inv p \<Longrightarrow> \<not> length (mf_code p) < 6 \<Longrightarrow> mfa_code_ok (mf_code p)"
  by (simp add: mfa_inv_def mfa_code_ok_def)

lemma mfa_inv_send: "mfa_inv p \<Longrightarrow> \<not> mf_busy p \<Longrightarrow> mfa_call_ok c \<Longrightarrow> mfa_inv (mfa_send a c p)"
  by (simp add: mfa_inv_def mfa_send_def)

lemma mfa_calls_known [simp]:
  "mfa_call_ok fetchMfaStatus" "mfa_call_ok mfaEnroll"
  "mfa_code_ok t \<Longrightarrow> mfa_call_ok (mfaVerify t)"
  "mfa_code_ok t \<Longrightarrow> mfa_call_ok (mfaRegenerateRecoveryCodes t)"
  "mfa_code_ok t \<Longrightarrow> mfa_call_ok (mfaDisable t)"
  by (auto simp: mfa_call_ok_def)

text \<open>An answer leaves the code as it is or empties it, and at most asks for the status again.\<close>

lemma mfa_result_frame:
  "mf_flight (mfa_result eng a r p) = mf_flight p \<and> mf_code (mfa_result eng a r p) \<in> {mf_code p, []}
   \<and> mf_calls (mfa_result eng a r p) \<in> {mf_calls p, mf_calls p @ [fetchMfaStatus]}"
  by (cases "(eng, a, r, p)" rule: mfa_result.cases) (simp_all add: mfa_load_def)

lemma mfa_inv_step: "mfa_inv p \<Longrightarrow> mfa_inv (mfa_step eng op p)"
proof (cases op)
  case (MoAnswer r)
  assume inv: "mfa_inv p"
  show ?thesis
  proof (cases "mf_flight p")
    case (Cons a as)
    have "as = []" using inv Cons by (auto simp: mfa_inv_def split: if_splits)
    then show ?thesis using inv Cons MoAnswer mfa_result_frame [of eng a r "p\<lparr>mf_flight := as\<rparr>"]
      by (auto simp: mfa_inv_def mfa_answered_def)
  qed (use inv MoAnswer in \<open>simp add: mfa_answered_def\<close>)
next
  case (MoType t)
  assume "mfa_inv p"
  moreover have "length (filter is_digit t) \<le> length t" by simp
  ultimately show ?thesis using MoType by (auto simp: mfa_inv_def mfa_type_def list_all_iff simp del: length_filter_le)
next
  case (MoLoaded r)
  assume "mfa_inv p"
  then show ?thesis using MoLoaded by (cases r) (auto simp: mfa_inv_def mfa_loaded_def split: if_splits)
next
  case MoSaved
  assume "mfa_inv p"
  then show ?thesis using MoSaved by (auto simp: mfa_inv_def mfa_codes_saved_def split: if_splits)
qed (simp_all add: mfa_start_def mfa_verify_def mfa_regenerate_def mfa_disable_def mfa_inv_send mfa_inv_code)

lemma mfa_inv_run: "mfa_inv p \<Longrightarrow> mfa_inv (fold (mfa_step eng) ops p)"
  by (induction ops arbitrary: p) (simp_all add: mfa_inv_step)

text \<open>C37: whatever is typed, clicked and answered, in whatever order: the panel sends codes of exactly six
  digits only, and never has more than one action under way.\<close>

theorem mfa_sends_whole_codes:
  "list_all mfa_call_ok (mf_calls (fold (mfa_step eng) ops mfa_init))
   \<and> length (mf_flight (fold (mfa_step eng) ops mfa_init)) = (if mf_busy (fold (mfa_step eng) ops mfa_init) then 1 else 0)"
proof -
  have "mfa_inv mfa_init" by (simp add: mfa_inv_def mfa_init_def)
  from mfa_inv_run [OF this, of eng ops] show ?thesis by (simp add: mfa_inv_def)
qed

text \<open>Recovery codes that were not dismissed stay on the screen after the second factor has been
  switched off, when they are worth nothing.\<close>

theorem codes_outlive_mfa:
  assumes "mfa_enabled p" "mf_codes p = Some cs" "mf_enrolment p = None" "\<not> mf_busy p" "mf_flight p = []" "length (mf_code p) = 6"
  shows "mf_calls (mfa_step eng MoDisable p) = mf_calls p @ [mfaDisable (mf_code p)]
    \<and> mf_codes (fold (mfa_step eng) [MoDisable, MoAnswer MrOk, MoLoaded (Some \<lparr>ms_enabled = False, ms_pending = False, ms_left = 0\<rparr>)] p) = Some cs
    \<and> mfa_badge (fold (mfa_step eng) [MoDisable, MoAnswer MrOk, MoLoaded (Some \<lparr>ms_enabled = False, ms_pending = False, ms_left = 0\<rparr>)] p) = Some ''off''"
  using assms by (simp add: mfa_disable_def mfa_send_def mfa_answered_def mfa_load_def mfa_loaded_def mfa_badge_def)

text \<open>The state after an enrolment whose codes are still shown.\<close>

theorem codes_outlive_mfa_witness:
  "mf_codes (fold (mfa_step (\<lambda>e. [])) [MoLoaded (Some \<lparr>ms_enabled = False, ms_pending = False, ms_left = 0\<rparr>), MoStart,
      MoAnswer (MrEnrolment ''S'' ''u''), MoType ''123456'', MoVerify, MoAnswer (MrCodes (Some [''r1''])),
      MoLoaded (Some \<lparr>ms_enabled = True, ms_pending = False, ms_left = 1\<rparr>), MoType ''654321'', MoDisable, MoAnswer MrOk,
      MoLoaded (Some \<lparr>ms_enabled = False, ms_pending = False, ms_left = 0\<rparr>)] mfa_init) = Some [''r1'']"
proof -
  let ?p = "fold (mfa_step (\<lambda>e. [])) [MoLoaded (Some \<lparr>ms_enabled = False, ms_pending = False, ms_left = 0\<rparr>), MoStart,
      MoAnswer (MrEnrolment ''S'' ''u''), MoType ''123456'', MoVerify, MoAnswer (MrCodes (Some [''r1''])),
      MoLoaded (Some \<lparr>ms_enabled = True, ms_pending = False, ms_left = 1\<rparr>), MoType ''654321''] mfa_init"
  have st: "mfa_enabled ?p \<and> mf_codes ?p = Some [''r1''] \<and> mf_enrolment ?p = None \<and> \<not> mf_busy ?p \<and> mf_flight ?p = []
      \<and> length (mf_code ?p) = 6"
    by (simp add: mfa_init_def mfa_loaded_def mfa_start_def mfa_enabled_def mfa_send_def mfa_answered_def mfa_load_def
        mfa_type_def mfa_verify_def char_classes)
  then show ?thesis using codes_outlive_mfa [of ?p "[''r1'']" "\<lambda>e. []"] by simp
qed

subsection \<open>The list of keys\<close>

text \<open>What the server does with the calls that were answered.\<close>

fun key_server :: "key_op \<Rightarrow> api_key list \<Rightarrow> api_key list" where
  "key_server (KoCreated (Some (k, sec))) ks = k # ks"
| "key_server (KoRevoked i True) ks = map (\<lambda>k. if ak_id k = i then k\<lparr>ak_revoked := True\<rparr> else k) ks"
| "key_server _ ks = ks"

lemma keys_gone: "kp_unavailable p \<Longrightarrow> keys_shown (fold key_step ops p) = []"
proof (induction ops arbitrary: p)
  case (Cons op ops)
  have "kp_unavailable (key_step op p)"
    using Cons.prems by (cases op) (auto simp: keys_loaded_def key_generate_def key_created_def key_revoke_def key_revoked_def split: option.splits)
  then show ?case using Cons.IH by simp
qed (simp add: keys_shown_def)

text \<open>C38: once loaded, and until it is loaded again, the list follows the server through creations and revocations, whatever is typed and
  whichever revocations are refused; but after one refused creation no key is shown any more, though
  the server has them all.\<close>

theorem keys_follow_server:
  assumes "\<not> kp_unavailable p" "kp_keys p = Some ks" "\<not> list_ex (\<lambda>op. case op of KoLoaded r \<Rightarrow> True | _ \<Rightarrow> False) ops"
  shows "keys_shown (fold key_step ops p) = (if KoCreated None \<in> set ops then [] else fold key_server ops ks)"
  using assms
proof (induction ops arbitrary: p ks)
  case (Cons op ops)
  show ?case
  proof (cases "op = KoCreated None")
    case True
    then show ?thesis using keys_gone [of "key_step op p" ops] by (simp add: key_created_def)
  next
    case False
    have "\<not> kp_unavailable (key_step op p) \<and> kp_keys (key_step op p) = Some (key_server op ks)"
      using Cons.prems False
      by (cases "(op, ks)" rule: key_server.cases) (auto simp: key_generate_def key_created_def key_revoke_def key_revoked_def)
    with Cons False show ?thesis by simp
  qed
qed (simp add: keys_shown_def)

theorem keys_follow_server_witness:
  "keys_shown (fold key_step [KoName ''b'', KoGenerate, KoCreated (Some (\<lparr>ak_id = ''2'', ak_name = ''b'', ak_scope = ''read'', ak_prefix = ''x'', ak_revoked = False\<rparr>, ''s''))]
      (keys_loaded (Some [\<lparr>ak_id = ''1'', ak_name = ''a'', ak_scope = ''read'', ak_prefix = ''y'', ak_revoked = False\<rparr>]) key_init))
   = [\<lparr>ak_id = ''2'', ak_name = ''b'', ak_scope = ''read'', ak_prefix = ''x'', ak_revoked = False\<rparr>,
      \<lparr>ak_id = ''1'', ak_name = ''a'', ak_scope = ''read'', ak_prefix = ''y'', ak_revoked = False\<rparr>]"
  by (subst keys_follow_server) (simp_all add: keys_loaded_def key_init_def)

subsection \<open>Switches, sessions and the engine\<close>

definition feed_on :: "string \<Rightarrow> config_feed list \<Rightarrow> bool option" where
  "feed_on i fs = map_option cg_enabled (find (\<lambda>f. cg_id f = i) fs)"

lemma feed_on_put: "feed_on i (put_enabled j b fs) = (if i = j then map_option (\<lambda>_. b) (feed_on i fs) else feed_on i fs)"
  by (induction fs) (auto simp: feed_on_def put_enabled_def)

text \<open>A refused switch goes back to what it was; but when the same switch is clicked twice and both
  calls are refused, it ends up as it was after the first click, with nothing of it at the server.\<close>

theorem refused_toggles:
  assumes "feed_on (cg_id f) fs = Some (cg_enabled f)"
  shows "feed_on (cg_id f) (feed_refused f (fst (feed_toggle f fs))) = feed_on (cg_id f) fs
    \<and> feed_on i (put_enabled (cg_id f) b fs) = (if i = cg_id f then Some b else feed_on i fs)
    \<and> (let g = f\<lparr>cg_enabled := \<not> cg_enabled f\<rparr> in
        feed_on (cg_id f) (feed_refused g (feed_refused f (fst (feed_toggle g (fst (feed_toggle f fs)))))) = Some (\<not> cg_enabled f))"
  using assms by (simp add: feed_toggle_def feed_refused_def feed_on_put Let_def)

theorem refused_toggles_witness:
  "feed_on ''a'' (feed_refused \<lparr>cg_id = ''a'', cg_enabled = True\<rparr>
      (fst (feed_toggle \<lparr>cg_id = ''a'', cg_enabled = True\<rparr> [\<lparr>cg_id = ''a'', cg_enabled = True\<rparr>]))) = Some True"
  using refused_toggles [of "\<lparr>cg_id = ''a'', cg_enabled = True\<rparr>" "[\<lparr>cg_id = ''a'', cg_enabled = True\<rparr>]"]
  by (simp add: feed_on_def)

text \<open>A single revocation that is refused keeps the session in the list; signing out the others shows
  this session alone whatever came of the calls, one for each of the others.\<close>

theorem revocations_shown:
  assumes "ss_sessions p = Some xs"
  shows "ss_sessions (session_revoked i ok (session_revoke i p)) = Some (if ok then filter (\<lambda>s. se_id s \<noteq> i) xs else xs)
    \<and> ss_sessions (others_settled (revokeOthers True p)) = Some (filter se_current xs)
    \<and> ss_calls (revokeOthers True p) = ss_calls p @ map (\<lambda>s. revokeSession (se_id s)) (filter (\<lambda>s. \<not> se_current s) xs)
    \<and> revokeOthers False p = p"
  using assms by (simp add: session_revoked_def session_revoke_def others_settled_def revokeOthers_def other_sessions_def)

theorem revocations_shown_witness:
  "map se_id (the (ss_sessions (others_settled (revokeOthers True
      \<lparr>ss_sessions = Some [\<lparr>se_id = ''a'', se_current = True, se_agent = None\<rparr>, \<lparr>se_id = ''b'', se_current = False, se_agent = None\<rparr>],
       ss_error = False, ss_busy = None, ss_calls = []\<rparr>)))) = [''a'']"
  using revocations_shown [of "\<lparr>ss_sessions = Some [\<lparr>se_id = ''a'', se_current = True, se_agent = None\<rparr>, \<lparr>se_id = ''b'', se_current = False, se_agent = None\<rparr>],
       ss_error = False, ss_busy = None, ss_calls = []\<rparr>" "[\<lparr>se_id = ''a'', se_current = True, se_agent = None\<rparr>, \<lparr>se_id = ''b'', se_current = False, se_agent = None\<rparr>]"]
  by simp

text \<open>The agents of Safari on a phone or a tablet say ``like Mac OS X'', and so the phone is never named.\<close>

theorem phones_are_macs:
  "describeAgent (Some ''Mozilla/5.0 (iPhone; CPU iPhone OS 17_4 like Mac OS X) AppleWebKit/605.1.15 (KHTML, like Gecko) Version/17.4 Mobile/15E148 Safari/604.1'')
     = ''Safari on macOS''
   \<and> describeAgent (Some ''Mozilla/5.0 (iPad; CPU OS 16_6 like Mac OS X) AppleWebKit/605.1.15 (KHTML, like Gecko) Version/16.6 Mobile/15E148 Safari/604.1'')
     = ''Safari on macOS''"
  by code_simp

text \<open>In live mode with synthetic data switched off the engine has no controls; but until the first
  answer of the status call, or when it fails, they are there and the generation can be asked for.\<close>

theorem engine_unknown_controls:
  "(case en_status c of Some s \<Rightarrow> \<not> (es_mode s = ''live'' \<and> es_synthetic s \<noteq> Some False) | None \<Rightarrow> False)
     = (engine_toggle (c\<lparr>en_busy := False\<rparr>) = c\<lparr>en_busy := False\<rparr> \<and> engine_generate (c\<lparr>en_busy := False\<rparr>) = c\<lparr>en_busy := False\<rparr>)
   \<and> en_calls (engine_generate (engine_polled None (c\<lparr>en_busy := False\<rparr>))) = en_calls c @ [controlEngine (JObj [(''generate'', JNum 8)])]"
proof -
  have "xs @ [x] \<noteq> xs" for xs and x :: call by simp
  then show ?thesis
    by (auto simp: engine_toggle_def engine_generate_def engine_controls_def engine_polled_def split: option.split
        dest!: arg_cong [of _ _ en_calls])
qed

end
