(* ===== verification/ConfigPage.thy ===== *)
theory ConfigPage
  imports ApiClient Preferences
begin

text \<open>
  The configuration page itself (\<open>app/dashboard/config/page.tsx\<close>): its tabs, the platform settings
  that are loaded and saved as one table, the appearance card whose draft is committed by the same
  button, and the change of the password. The panels with calls of their own are in
  \<open>ConfigPanels\<close>.
\<close>

subsection \<open>Settings\<close>

definition CONFIG_TABS :: "(string, string) obj" where
  "CONFIG_TABS = [(''general'', ''General''), (''api'', ''API Keys''), (''sources'', ''Feed Sources''),
     (''alerts'', ''Notifications''), (''security'', ''Security''), (''integrations'', ''Integrations'')]"

definition DEFAULT_SETTINGS :: "(string, string) obj" where
  "DEFAULT_SETTINGS = [(''platform_name'', ''ThreatOrbit Production''), (''organization'', ''Acme Security Corp''),
     (''timezone'', ''UTC''), (''feed_update_interval'', ''3''), (''data_retention_days'', ''90'')]"

record nav_rail =
  nr_pinned :: bool
  nr_hovered :: bool

definition rail_expanded :: "nav_rail \<Rightarrow> bool" where "rail_expanded n \<longleftrightarrow> nr_pinned n \<or> nr_hovered n"
definition rail_pin :: "nav_rail \<Rightarrow> nav_rail" where "rail_pin n = n\<lparr>nr_pinned := \<not> nr_pinned n\<rparr>"

text \<open>The text settings shown with a fallback, and the Boolean ones, which are stored as texts.\<close>

definition text_setting :: "(string, string) obj \<Rightarrow> string \<Rightarrow> string \<Rightarrow> string" where
  "text_setting st k d = (case obj_get st k of Some v \<Rightarrow> v | None \<Rightarrow> d)"

definition boolSetting :: "(string, string) obj \<Rightarrow> string \<Rightarrow> bool \<Rightarrow> bool" where
  "boolSetting st k d = (case obj_get st k of None \<Rightarrow> d | Some v \<Rightarrow> v = ''true'')"

definition bool_text :: "bool \<Rightarrow> string" where "bool_text b = (if b then ''true'' else ''false'')"

text \<open>The fields of the page with their fallbacks, and the switches.\<close>

definition SETTING_FIELDS :: "(string \<times> string \<times> string) list" where
  "SETTING_FIELDS =
     [(''Platform Name'', ''platform_name'', []), (''Organization'', ''organization'', []), (''Timezone'', ''timezone'', ''UTC''),
      (''Feed Update Interval (seconds)'', ''feed_update_interval'', ''3''),
      (''Data Retention (days)'', ''data_retention_days'', ''90''), (''Alert Email'', ''alert_email'', []),
      (''Slack Webhook URL'', ''slack_webhook_url'', []), (''PagerDuty Integration Key'', ''pagerduty_key'', []),
      (''Authentication Method'', ''auth_method'', ''jwt''), (''Idle Timeout (minutes)'', ''session_timeout_minutes'', ''720''),
      (''Allowed IP Ranges'', ''allowed_ip_ranges'', ''0.0.0.0/0'')]"

definition SETTING_SWITCHES :: "(string \<times> string \<times> bool) list" where
  "SETTING_SWITCHES =
     [(''Critical Severity Alerts'', ''notify_critical'', True), (''High Severity Alerts'', ''notify_high'', True),
      (''Medium Severity Alerts'', ''notify_medium'', False), (''New IOC Matches'', ''notify_ioc_matches'', True),
      (''Feed Source Failures'', ''notify_feed_failures'', True), (''Playbook Failures'', ''notify_playbook_failures'', True),
      (''Audit Logging'', ''audit_logging'', True), (''Rate Limiting'', ''rate_limiting'', True),
      (''Automated Threat Blocking'', ''auto_threat_blocking'', False)]"

subsection \<open>The appearance card\<close>

text \<open>What the rest of the dashboard shows, and the draft of the card, which is mounted with the tab
  General only.\<close>

record theme_card =
  tm_theme :: string
  tm_prefs :: dashboard_prefs
  tm_dirty :: bool

type_synonym live_look = "string \<times> dashboard_prefs"

text \<open>The effects of the card: an untouched draft follows what is live.\<close>

definition follow_live :: "live_look \<Rightarrow> theme_card \<Rightarrow> theme_card" where
  "follow_live l c = (if tm_dirty c then c else c\<lparr>tm_theme := fst l, tm_prefs := snd l\<rparr>)"

definition card_mount :: "live_look \<Rightarrow> theme_card" where
  "card_mount l = \<lparr>tm_theme = fst l, tm_prefs = snd l, tm_dirty = False\<rparr>"

definition editTheme :: "string \<Rightarrow> theme_card \<Rightarrow> theme_card" where
  "editTheme t c = c\<lparr>tm_theme := t, tm_dirty := True\<rparr>"

definition editPrefs :: "(dashboard_prefs \<Rightarrow> dashboard_prefs) \<Rightarrow> theme_card \<Rightarrow> theme_card" where
  "editPrefs f c = c\<lparr>tm_prefs := f (tm_prefs c), tm_dirty := True\<rparr>"

definition revert_draft :: "live_look \<Rightarrow> theme_card \<Rightarrow> theme_card" where
  "revert_draft l c = \<lparr>tm_theme = fst l, tm_prefs = snd l, tm_dirty = False\<rparr>"

text \<open>Committing goes through the setters of the two hooks.\<close>

definition commit_draft :: "theme_card \<Rightarrow> live_look \<Rightarrow> live_look" where
  "commit_draft c l =
     (theme_onCustom (tm_theme c) (tm_theme c),
      (let v = prefs_update (snd l) (prefs_obj (tm_prefs c)) in prefs_onCustom v v))"

definition active_theme :: "theme_card \<Rightarrow> theme_def" where
  "active_theme c = (case find (\<lambda>t. th_id t = tm_theme c) THEMES of Some t \<Rightarrow> t | None \<Rightarrow> hd THEMES)"

definition accentColor :: "theme_card \<Rightarrow> string" where
  "accentColor c = toLowerCase (case dp_accent (tm_prefs c) of Some a \<Rightarrow> a | None \<Rightarrow> th_swatch (active_theme c) ! 1)"

definition isCustomAccent :: "theme_card \<Rightarrow> bool" where
  "isCustomAccent c = (case dp_accent (tm_prefs c) of None \<Rightarrow> False
     | Some a \<Rightarrow> a \<noteq> [] \<and> toLowerCase a \<notin> set (map toLowerCase ACCENT_PRESETS))"

definition scale_text :: "theme_card \<Rightarrow> string" where
  "scale_text c = int_str (js_round (js_mul (dp_scale (tm_prefs c)) 100)) @ ''%''"

subsection \<open>The page\<close>

record config_page =
  cf_tab :: string
  cf_want :: "string option"
  cf_settings :: "(string, string) obj"
  cf_saved :: bool
  cf_hide :: "nat list"
  cf_now :: nat
  cf_live :: live_look
  cf_card :: "theme_card option"
  cf_calls :: "call list"

definition config_mount :: "string option \<Rightarrow> live_look \<Rightarrow> config_page" where
  "config_mount want l =
     \<lparr>cf_tab = ''general'', cf_want = want, cf_settings = DEFAULT_SETTINGS, cf_saved = False, cf_hide = [], cf_now = 0,
       cf_live = l, cf_card = Some (card_mount l), cf_calls = [fetchSettings]\<rparr>"

definition setSetting :: "string \<Rightarrow> string \<Rightarrow> config_page \<Rightarrow> config_page" where
  "setSetting k v s = s\<lparr>cf_settings := obj_set k v (cf_settings s)\<rparr>"

definition setBoolSetting :: "string \<Rightarrow> bool \<Rightarrow> config_page \<Rightarrow> config_page" where
  "setBoolSetting k v = setSetting k (bool_text v)"

text \<open>The answer is spread over what is there; a refusal is ignored.\<close>

definition settings_loaded :: "(string, string) obj option \<Rightarrow> config_page \<Rightarrow> config_page" where
  "settings_loaded r s = (case r of None \<Rightarrow> s | Some remote \<Rightarrow> s\<lparr>cf_settings := obj_spread (cf_settings s) remote\<rparr>)"

text \<open>Saving sends the whole table, commits the draft of the card if it is there, and says Saved for
  two and a half seconds, whatever the call comes to.\<close>

definition config_save :: "config_page \<Rightarrow> config_page" where
  "config_save s = (let s = s\<lparr>cf_calls := cf_calls s @ [updateSettings (cf_settings s)], cf_saved := True,
       cf_hide := cf_hide s @ [cf_now s + 2500]\<rparr> in
     case cf_card s of None \<Rightarrow> s
     | Some c \<Rightarrow> let l = commit_draft c (cf_live s) in
         s\<lparr>cf_live := l, cf_card := Some (follow_live l (c\<lparr>tm_dirty := False\<rparr>))\<rparr>)"

definition config_wait :: "nat \<Rightarrow> config_page \<Rightarrow> config_page" where
  "config_wait ms s = (let t = cf_now s + ms in
     s\<lparr>cf_now := t, cf_saved := (cf_saved s \<and> \<not> (\<exists>d \<in> set (cf_hide s). d \<le> t)), cf_hide := filter (\<lambda>d. t < d) (cf_hide s)\<rparr>)"

text \<open>Leaving the tab General unmounts the card, coming back mounts a new one.\<close>

definition open_config_tab :: "string \<Rightarrow> config_page \<Rightarrow> config_page" where
  "open_config_tab t s = (if t = cf_tab s then s
     else s\<lparr>cf_tab := t, cf_card := (if t = ''general'' then Some (card_mount (cf_live s)) else None)\<rparr>)"

text \<open>The page is first rendered with the tab General; an effect then opens the tab of the address.\<close>

definition address_tab :: "config_page \<Rightarrow> config_page" where
  "address_tab s = (case cf_want s of None \<Rightarrow> s
     | Some w \<Rightarrow> (if w \<in> set (map fst CONFIG_TABS) then open_config_tab w else id) (s\<lparr>cf_want := None\<rparr>))"

definition on_card :: "(theme_card \<Rightarrow> theme_card) \<Rightarrow> config_page \<Rightarrow> config_page" where
  "on_card f s = s\<lparr>cf_card := map_option f (cf_card s)\<rparr>"

text \<open>The look may also be changed elsewhere: by hydration, another card or another tab.\<close>

definition look_changed :: "live_look \<Rightarrow> config_page \<Rightarrow> config_page" where
  "look_changed l s = s\<lparr>cf_live := l, cf_card := map_option (follow_live l) (cf_card s)\<rparr>"

datatype config_op =
    CfAddress | CfTab string | CfText string string | CfSwitch string bool | CfLoaded "(string, string) obj option" | CfSave | CfWait nat
  | CfTheme theme_def | CfPrefs "dashboard_prefs \<Rightarrow> dashboard_prefs" | CfRevert | CfLook live_look

fun config_step :: "config_op \<Rightarrow> config_page \<Rightarrow> config_page" where
  "config_step CfAddress s = address_tab s"
| "config_step (CfTab t) s = open_config_tab t s"
| "config_step (CfText k v) s = setSetting k v s"
| "config_step (CfSwitch k v) s = setBoolSetting k v s"
| "config_step (CfLoaded r) s = settings_loaded r s"
| "config_step CfSave s = config_save s"
| "config_step (CfWait ms) s = config_wait ms s"
| "config_step (CfTheme t) s = on_card (editTheme (th_id t)) s"
| "config_step (CfPrefs f) s = on_card (editPrefs f) s"
| "config_step CfRevert s = on_card (revert_draft (cf_live s)) s"
| "config_step (CfLook l) s = look_changed l s"

subsection \<open>Changing the password\<close>

datatype password_state = PwIdle | PwSaving | PwDone | PwError

record password_form =
  pw_current :: string
  pw_next :: string
  pw_confirm :: string
  pw_state :: password_state
  pw_message :: string

definition pw_canSubmit :: "password_form \<Rightarrow> bool" where
  "pw_canSubmit f \<longleftrightarrow> pw_current f \<noteq> [] \<and> 8 \<le> length (pw_next f) \<and> pw_next f = pw_confirm f"

definition pw_submit :: "password_form \<Rightarrow> password_form \<times> call option" where
  "pw_submit f = (if \<not> pw_canSubmit f \<or> pw_state f = PwSaving then (f, None)
     else (f\<lparr>pw_state := PwSaving\<rparr>, Some (authChangePassword_call (pw_current f) (pw_next f))))"

definition pw_error_text :: "string \<Rightarrow> string" where
  "pw_error_text m = (if m \<noteq> [] \<and> \<not> starts_with m ''HTTP'' then m
     else ''Could not update the password. Is the dashboard API running?'')"

definition pw_answered :: "(exn \<Rightarrow> string) \<Rightarrow> exn + json \<Rightarrow> password_form \<Rightarrow> password_form" where
  "pw_answered eng r f = (case r of
     Inr v \<Rightarrow> f\<lparr>pw_state := PwDone, pw_message := ''Password updated.'', pw_current := [], pw_next := [], pw_confirm := []\<rparr>
   | Inl e \<Rightarrow> f\<lparr>pw_state := PwError, pw_message := pw_error_text (err_message eng e)\<rparr>)"

definition pw_hint :: "password_form \<Rightarrow> string option" where
  "pw_hint f = (if pw_confirm f \<noteq> [] \<and> pw_next f \<noteq> pw_confirm f then Some ''Passwords do not match'' else None)"


subsection \<open>Stored settings never reach the form\<close>

lemma obj_set_map: "obj_set k (g v) (map (\<lambda>(k, v). (k, g v)) ob) = map (\<lambda>(k, v). (k, g v)) (obj_set k v ob)"
  by (induction k v ob rule: obj_set.induct) auto

lemma obj_spread_map:
  "obj_spread (map (\<lambda>(k, v). (k, g v)) a) (map (\<lambda>(k, v). (k, g v)) b) = map (\<lambda>(k, v). (k, g v)) (obj_spread a b)"
proof (induction b arbitrary: a)
  case (Cons e b)
  then show ?case by (cases e) (simp add: obj_spread_def obj_set_map)
qed (simp add: obj_spread_def)

text \<open>A table of texts as the server answers it and as the client passes it on.\<close>

definition text_obj :: "(string, string) obj \<Rightarrow> json" where
  "text_obj ob = JObj (map (\<lambda>(k, v). (k, JStr v)) ob)"

definition client_table :: "(string, string) obj \<Rightarrow> (string, string) obj" where
  "client_table ob = from_entries (map (\<lambda>(k, v). (sc2cc k, v)) ob)"

lemma client_table_answer: "api_answer (Resp 200 (Some (text_obj srv))) = Inr (text_obj (client_table srv))"
proof -
  have "from_entries (map (\<lambda>(k, v). (k, JStr v)) xs) = map (\<lambda>(k, v). (k, JStr v)) (from_entries xs)" for xs
    using obj_spread_map [of JStr "[]" xs] by (simp add: from_entries_def)
  note this [of "map (\<lambda>(k, v). (sc2cc k, v)) srv", symmetric]
  moreover have "map (\<lambda>(k, v). (sc2cc k, toCamel v)) (map (\<lambda>(k, v). (k, JStr v)) srv)
      = map (\<lambda>(k, v). (k, JStr v)) (map (\<lambda>(k, v). (sc2cc k, v)) srv)"
    by auto
  ultimately have "toCamel (text_obj srv) = text_obj (client_table srv)"
    by (simp only: text_obj_def client_table_def toCamel.simps)
  then show ?thesis by (simp add: api_answer_def resp_ok_def)
qed

lemma client_table_keys: "k \<in> fst ` set (client_table srv) \<Longrightarrow> camel_stable k"
proof -
  assume "k \<in> fst ` set (client_table srv)"
  then have "k \<in> fst ` set (map (\<lambda>(k, v). (sc2cc k, v)) srv)"
    unfolding client_table_def using from_entries_set by blast
  then show ?thesis by (auto simp: sc2cc_eq_camel camel_stable_camel)
qed

lemma unstable_kept: "\<not> camel_stable k \<Longrightarrow> obj_get (obj_spread a (client_table srv)) k = obj_get a k"
proof -
  assume "\<not> camel_stable k"
  then have "k \<notin> fst ` set (rev (client_table srv))" using client_table_keys by auto
  then have "map_of (rev (client_table srv)) k = None" by (simp add: map_of_eq_None_iff)
  then show ?thesis by (simp add: obj_get_spread)
qed

text \<open>The keys with an underscore, which no answer of the client has.\<close>

lemma setting_keys:
  "list_all (\<lambda>(l, k, d). \<not> camel_stable k) SETTING_SWITCHES"
  "list_all (\<lambda>(l, k, d). k \<in> {''organization'', ''timezone''} \<or> \<not> camel_stable k) SETTING_FIELDS"
  by (simp_all add: SETTING_SWITCHES_def SETTING_FIELDS_def is_lower_def code_def)

lemma default_switches: "(l, k, d) \<in> set SETTING_SWITCHES \<Longrightarrow> obj_get DEFAULT_SETTINGS k = None"
  by (simp add: SETTING_SWITCHES_def DEFAULT_SETTINGS_def obj_get_def) (elim disjE; simp)

lemma settings_page:
  "cf_settings (settings_loaded (Some t) (config_mount w look)) = obj_spread DEFAULT_SETTINGS t"
  "cf_calls (config_save (settings_loaded (Some t) (config_mount w look)))
     = [fetchSettings, updateSettings (obj_spread DEFAULT_SETTINGS t)]"
  by (simp_all add: settings_loaded_def config_mount_def config_save_def Let_def split: option.split)

text \<open>C35: what the server stores is never seen: after any answer of the settings call every switch and
  every field but the organisation and the time zone still shows its fallback, because the client
  renames the keys on the way; and saving sends the defaults of the page back over what is stored.\<close>

theorem settings_never_loaded:
  "case api_answer (Resp 200 (Some (text_obj srv))) of
     Inr r \<Rightarrow> r = text_obj (client_table srv)
       \<and> list_all (\<lambda>(l, k, d). boolSetting (cf_settings (settings_loaded (Some (client_table srv)) (config_mount w look))) k d = d) SETTING_SWITCHES
       \<and> list_all (\<lambda>(l, k, d). k \<in> {''organization'', ''timezone''}
            \<or> text_setting (cf_settings (settings_loaded (Some (client_table srv)) (config_mount w look))) k d = text_setting DEFAULT_SETTINGS k d) SETTING_FIELDS
       \<and> cf_calls (config_save (settings_loaded (Some (client_table srv)) (config_mount w look)))
         = [fetchSettings, updateSettings (obj_spread DEFAULT_SETTINGS (client_table srv))]
       \<and> obj_get (obj_spread DEFAULT_SETTINGS (client_table srv)) ''data_retention_days'' = Some ''90''
   | Inl e \<Rightarrow> False"
proof -
  have "list_all (\<lambda>(l, k, d). boolSetting (obj_spread DEFAULT_SETTINGS (client_table srv)) k d = d) SETTING_SWITCHES"
    using setting_keys(1) default_switches by (fastforce simp: list_all_iff boolSetting_def unstable_kept)
  moreover have "list_all (\<lambda>(l, k, d). k \<in> {''organization'', ''timezone''}
      \<or> text_setting (obj_spread DEFAULT_SETTINGS (client_table srv)) k d = text_setting DEFAULT_SETTINGS k d) SETTING_FIELDS"
    using setting_keys(2) by (fastforce simp: list_all_iff text_setting_def unstable_kept)
  moreover have "obj_get (obj_spread DEFAULT_SETTINGS (client_table srv)) ''data_retention_days'' = Some ''90''"
    by (subst unstable_kept) (simp_all add: is_lower_def code_def DEFAULT_SETTINGS_def obj_get_def)
  ultimately show ?thesis
    unfolding client_table_answer settings_page sum.case by blast
qed

subsection \<open>The draft of the look\<close>

lemma prefs_spread: "obj_spread (prefs_obj a) (prefs_obj b) = prefs_obj b"
  by (simp add: obj_spread_def prefs_obj_def)

definition sane_look :: "live_look \<Rightarrow> bool" where
  "sane_look l \<longleftrightarrow> isTheme (fst l) \<and> sane_prefs (snd l)"

text \<open>What the controls of the card can do: themes of the list, edits that keep the knobs within their
  bounds; and a look from elsewhere has been checked by the hooks.\<close>

definition config_legal :: "config_op \<Rightarrow> bool" where
  "config_legal op \<longleftrightarrow> (case op of CfTheme t \<Rightarrow> t \<in> set THEMES | CfPrefs f \<Rightarrow> (\<forall>p. sane_prefs p \<longrightarrow> sane_prefs (f p))
     | CfLook l \<Rightarrow> sane_look l | _ \<Rightarrow> True)"

definition card_ok :: "live_look \<Rightarrow> theme_card \<Rightarrow> bool" where
  "card_ok l c \<longleftrightarrow> sane_look (tm_theme c, tm_prefs c) \<and> (tm_dirty c \<or> (tm_theme c, tm_prefs c) = l)"

definition config_inv :: "config_page \<Rightarrow> bool" where
  "config_inv s \<longleftrightarrow> sane_look (cf_live s) \<and> (cf_card s \<noteq> None \<longleftrightarrow> cf_tab s = ''general'')
     \<and> (case cf_card s of None \<Rightarrow> True | Some c \<Rightarrow> card_ok (cf_live s) c)"

lemma commit_exact: "sane_look (tm_theme c, tm_prefs c) \<Longrightarrow> commit_draft c l = (tm_theme c, tm_prefs c)"
  by (simp add: commit_draft_def sane_look_def theme_onCustom_def prefs_update_def prefs_spread sanitize_prefs_obj
      prefs_onCustom_def Let_def)

lemma theme_ids: "t \<in> set THEMES \<Longrightarrow> isTheme (th_id t)"
  by (simp add: isTheme_def VALID_def)

lemma config_inv_step:
  assumes "config_legal op" "config_inv s"
  shows "config_inv (config_step op s)"
proof (cases op)
  case CfAddress
  then show ?thesis using assms(2)
    by (auto simp: config_inv_def address_tab_def open_config_tab_def card_mount_def card_ok_def split: option.split)
next
  case (CfTab t)
  then show ?thesis using assms(2)
    by (auto simp: config_inv_def open_config_tab_def card_mount_def card_ok_def)
next
  case CfSave
  then show ?thesis using assms(2)
    by (cases "cf_card s") (auto simp: config_inv_def config_save_def Let_def card_ok_def commit_exact follow_live_def)
next
  case (CfTheme t)
  then show ?thesis using assms theme_ids [of t]
    by (cases "cf_card s") (simp_all add: config_inv_def config_legal_def on_card_def editTheme_def card_ok_def sane_look_def)
next
  case (CfPrefs f)
  then show ?thesis using assms
    by (cases "cf_card s") (simp_all add: config_inv_def config_legal_def on_card_def editPrefs_def card_ok_def sane_look_def)
next
  case CfRevert
  then show ?thesis using assms(2)
    by (cases "cf_card s") (simp_all add: config_inv_def on_card_def revert_draft_def card_ok_def)
next
  case (CfLook l)
  then show ?thesis using assms
    by (cases "cf_card s") (auto simp: config_inv_def config_legal_def look_changed_def follow_live_def card_ok_def)
qed (use assms(2) in \<open>simp_all add: config_inv_def setSetting_def setBoolSetting_def settings_loaded_def config_wait_def Let_def split: option.splits\<close>)

lemma config_inv_run: "list_all config_legal ops \<Longrightarrow> config_inv s \<Longrightarrow> config_inv (fold config_step ops s)"
  by (induction ops arbitrary: s) (simp_all add: config_inv_step)

text \<open>Who changes the look: Save, and whoever changes it elsewhere.\<close>

definition sets_look :: "config_op \<Rightarrow> bool" where
  "sets_look op \<longleftrightarrow> (case op of CfSave \<Rightarrow> True | CfLook l \<Rightarrow> True | _ \<Rightarrow> False)"

lemma look_kept: "\<not> sets_look op \<Longrightarrow> cf_live (config_step op s) = cf_live s"
  by (cases op) (simp_all add: sets_look_def address_tab_def open_config_tab_def setSetting_def setBoolSetting_def
      settings_loaded_def config_wait_def on_card_def Let_def split: option.split)

text \<open>C36: after any use of the page its look is changed by Save, or from elsewhere, and by nothing
  else. A theme or an edit of the knobs goes to the draft only and marks it; Revert takes the draft
  back to what is live; an unmarked draft is what is live; and Save makes exactly the draft the look
  and unmarks it, while on another tab, where there is no card, it leaves the look.\<close>

theorem draft_commits_on_save:
  fixes w :: "string option"
  assumes "list_all config_legal ops" "sane_look look"
  shows "let s = fold config_step ops (config_mount w look) in
     (\<forall>op. sets_look op \<or> cf_live (config_step op s) = cf_live s)
   \<and> (case cf_card s of
        None \<Rightarrow> cf_tab s \<noteq> ''general'' \<and> cf_live (config_step CfSave s) = cf_live s
      | Some c \<Rightarrow> cf_live (config_step CfSave s) = (tm_theme c, tm_prefs c)
          \<and> cf_card (config_step CfSave s) = Some (c\<lparr>tm_dirty := False\<rparr>)
          \<and> (tm_dirty c \<or> (tm_theme c, tm_prefs c) = cf_live s)
          \<and> cf_card (config_step (CfTheme t) s) = Some \<lparr>tm_theme = th_id t, tm_prefs = tm_prefs c, tm_dirty = True\<rparr>
          \<and> cf_card (config_step (CfPrefs f) s) = Some \<lparr>tm_theme = tm_theme c, tm_prefs = f (tm_prefs c), tm_dirty = True\<rparr>
          \<and> cf_card (config_step CfRevert s)
              = Some \<lparr>tm_theme = fst (cf_live s), tm_prefs = snd (cf_live s), tm_dirty = False\<rparr>)"
proof -
  let ?s = "fold config_step ops (config_mount w look)"
  have "config_inv (config_mount w look)"
    using assms(2) by (simp add: config_inv_def config_mount_def card_mount_def card_ok_def)
  from config_inv_run [OF assms(1) this] have inv: "config_inv ?s" .
  show ?thesis
  proof (cases "cf_card ?s")
    case None
    then show ?thesis using inv look_kept [of _ ?s] by (auto simp: Let_def config_inv_def config_save_def)
  next
    case (Some c)
    then show ?thesis using inv look_kept [of _ ?s]
      by (cases c) (auto simp: Let_def config_inv_def card_ok_def config_save_def commit_exact follow_live_def on_card_def
          editTheme_def editPrefs_def revert_draft_def)
  qed
qed

theorem draft_commits_on_save_witness:
  "let s = config_step (CfTheme (hd THEMES)) (config_mount None (''mono'', DEFAULT_PREFS)) in
   fst (cf_live s) = ''mono'' \<and> fst (cf_live (config_step CfSave s)) = ''plasma''"
proof -
  let ?ops = "[CfTheme (hd THEMES)]"
  let ?c = "editTheme (th_id (hd THEMES)) (card_mount (''mono'', DEFAULT_PREFS))"
  have l: "list_all config_legal ?ops" by (simp add: config_legal_def THEMES_def)
  have m: "sane_look (''mono'', DEFAULT_PREFS)" by (simp add: sane_look_def default_sane isTheme_def VALID_def THEMES_def)
  have c: "cf_card (fold config_step ?ops (config_mount None (''mono'', DEFAULT_PREFS))) = Some ?c"
    by (simp add: config_mount_def on_card_def)
  have "cf_live (fold config_step ?ops (config_mount None (''mono'', DEFAULT_PREFS))) = (''mono'', DEFAULT_PREFS)"
    by (simp add: config_mount_def on_card_def)
  with draft_commits_on_save [OF l m, where w = None] c show ?thesis by (simp add: Let_def editTheme_def THEMES_def)
qed

text \<open>A pending draft does not survive a look at another tab of the page.\<close>

theorem draft_lost_on_tab:
  assumes "cf_tab s = ''general''"
  shows "cf_card (fold config_step [CfTheme t, CfTab ''api'', CfTab ''general''] s) = Some (card_mount (cf_live s))"
  using assms by (simp add: on_card_def open_config_tab_def)

theorem draft_lost_on_tab_witness:
  "cf_card (fold config_step [CfTheme (hd THEMES), CfTab ''api'', CfTab ''general''] (config_mount None (''mono'', DEFAULT_PREFS)))
   = Some (card_mount (''mono'', DEFAULT_PREFS))"
  using draft_lost_on_tab [of "config_mount None (''mono'', DEFAULT_PREFS)" "hd THEMES"] by (simp add: config_mount_def)

subsection \<open>The password form\<close>

text \<open>A password is sent only when both fields agree on at least eight characters and no change is
  under way; a refusal is shown in the words of the server unless it has none; but a failure of the
  network is shown in the words of the browser, not with the hint meant for it.\<close>

theorem password_form_spec:
  "(snd (pw_submit f) = None \<or> snd (pw_submit f) = Some (authChangePassword_call (pw_current f) (pw_next f))
      \<and> pw_current f \<noteq> [] \<and> 8 \<le> length (pw_next f) \<and> pw_next f = pw_confirm f \<and> pw_state f \<noteq> PwSaving)
   \<and> snd (pw_submit (fst (pw_submit f))) = None
   \<and> pw_message (pw_answered eng (Inl (ApiError (http_msg st) st)) f) = ''Could not update the password. Is the dashboard API running?''
   \<and> pw_message (pw_answered eng (Inl NetworkError) f) = pw_error_text (eng NetworkError)
   \<and> pw_error_text ''Failed to fetch'' = ''Failed to fetch''
   \<and> (pw_next (pw_answered eng r f) = [] \<or> pw_answered eng r f = f\<lparr>pw_state := PwError, pw_message := pw_message (pw_answered eng r f)\<rparr>)"
  by (cases r) (auto simp: pw_submit_def pw_canSubmit_def pw_answered_def err_message_def pw_error_text_def http_msg_def starts_with_def)

end
