(* ===== verification/CreateModal.thy ===== *)
theory CreateModal
  imports Prelude JsString
begin

text \<open>
  The dialog with which the pages create a record (\<open>components/dashboard/CreateModal.tsx\<close>): its
  fields, what may be submitted, and its life in a host page that shows it while a flag is set. A
  dialog that was closed and opened again is a new one with a state of its own; the closing that a
  submission ends with is the host's flag, whichever dialog is there by then.
\<close>

datatype field_kind = TextField | AreaField | SelectField

record create_field =
  cl_key :: string
  cl_label :: string
  cl_kind :: field_kind
  cl_options :: "(string \<times> string) list"
  cl_required :: bool
  cl_default :: "string option"

type_synonym field_values = "(string, string) obj"

definition field_start :: "create_field \<Rightarrow> string" where
  "field_start f = (case cl_default f of Some d \<Rightarrow> d
     | None \<Rightarrow> if cl_kind f = SelectField then (case cl_options f of (v, l) # _ \<Rightarrow> v | [] \<Rightarrow> []) else [])"

definition modal_values :: "create_field list \<Rightarrow> field_values" where
  "modal_values fs = from_entries (map (\<lambda>f. (cl_key f, field_start f)) fs)"

definition canSubmit :: "create_field list \<Rightarrow> field_values \<Rightarrow> bool" where
  "canSubmit fs vs = list_all (\<lambda>f. \<not> cl_required f \<or> (case obj_get vs (cl_key f) of Some t \<Rightarrow> trim t \<noteq> [] | None \<Rightarrow> False)) fs"

record modal =
  mo_values :: field_values
  mo_submitting :: bool
  mo_error :: bool

definition modal_init :: "create_field list \<Rightarrow> modal" where
  "modal_init fs = \<lparr>mo_values = modal_values fs, mo_submitting = False, mo_error = False\<rparr>"

text \<open>The host: the dialog shown, numbered; the submissions under way, with the dialog they come from;
  and all that was submitted so far.\<close>

record modal_host =
  mh_open :: "(nat \<times> modal) option"
  mh_next :: nat
  mh_flight :: "nat list"
  mh_sent :: "field_values list"

definition host_init :: modal_host where
  "host_init = \<lparr>mh_open = None, mh_next = 0, mh_flight = [], mh_sent = []\<rparr>"

definition modal_show :: "create_field list \<Rightarrow> modal_host \<Rightarrow> modal_host" where
  "modal_show fs h = (if mh_open h \<noteq> None then h
     else h\<lparr>mh_open := Some (mh_next h, modal_init fs), mh_next := Suc (mh_next h)\<rparr>)"

definition modal_close :: "modal_host \<Rightarrow> modal_host" where "modal_close h = h\<lparr>mh_open := None\<rparr>"

definition modal_type :: "string \<Rightarrow> string \<Rightarrow> modal_host \<Rightarrow> modal_host" where
  "modal_type k t h = h\<lparr>mh_open := map_option (\<lambda>(i, m). (i, m\<lparr>mo_values := obj_set k t (mo_values m)\<rparr>)) (mh_open h)\<rparr>"

definition modal_submit :: "create_field list \<Rightarrow> modal_host \<Rightarrow> modal_host" where
  "modal_submit fs h = (case mh_open h of None \<Rightarrow> h | Some (i, m) \<Rightarrow>
     if \<not> canSubmit fs (mo_values m) \<or> mo_submitting m then h
     else h\<lparr>mh_open := Some (i, m\<lparr>mo_submitting := True, mo_error := False\<rparr>), mh_flight := mh_flight h @ [i],
       mh_sent := mh_sent h @ [mo_values m]\<rparr>)"

text \<open>The answer to the submission of dialog \<open>i\<close>: a success clears the host's flag, a failure is shown
  in the dialog it belongs to, if that is still there.\<close>

definition modal_answered :: "nat \<Rightarrow> bool \<Rightarrow> modal_host \<Rightarrow> modal_host" where
  "modal_answered i ok h = (if i \<notin> set (mh_flight h) then h
     else let h = h\<lparr>mh_flight := remove1 i (mh_flight h)\<rparr> in
       if ok then modal_close h
       else h\<lparr>mh_open := map_option (\<lambda>(j, m). (j, if j = i then m\<lparr>mo_error := True, mo_submitting := False\<rparr> else m)) (mh_open h)\<rparr>)"

datatype modal_op = MdShow | MdClose | MdType string string | MdSubmit | MdAnswer nat bool

fun modal_step :: "create_field list \<Rightarrow> modal_op \<Rightarrow> modal_host \<Rightarrow> modal_host" where
  "modal_step fs MdShow h = modal_show fs h"
| "modal_step fs MdClose h = modal_close h"
| "modal_step fs (MdType k t) h = modal_type k t h"
| "modal_step fs MdSubmit h = modal_submit fs h"
| "modal_step fs (MdAnswer i ok) h = modal_answered i ok h"

subsection \<open>What is submitted\<close>

definition modal_inv :: "create_field list \<Rightarrow> modal_host \<Rightarrow> bool" where
  "modal_inv fs h \<longleftrightarrow> list_all (canSubmit fs) (mh_sent h) \<and> distinct (mh_flight h)
     \<and> list_all (\<lambda>i. i < mh_next h) (mh_flight h)
     \<and> (case mh_open h of None \<Rightarrow> True | Some (i, m) \<Rightarrow> i < mh_next h \<and> (mo_submitting m \<longleftrightarrow> i \<in> set (mh_flight h))
          \<and> \<not> (mo_submitting m \<and> mo_error m))"

lemma modal_inv_step: "modal_inv fs h \<Longrightarrow> modal_inv fs (modal_step fs op h)"
proof (cases op)
  case (MdAnswer i ok)
  assume "modal_inv fs h"
  then show ?thesis using MdAnswer
    by (auto simp: modal_inv_def modal_answered_def modal_close_def Let_def list_all_iff split: option.splits prod.splits dest: notin_set_remove1)
next
  case MdSubmit
  assume "modal_inv fs h"
  then show ?thesis using MdSubmit
    by (auto simp: modal_inv_def modal_submit_def list_all_iff split: option.splits prod.splits)
qed (auto simp: modal_inv_def modal_show_def modal_close_def modal_type_def modal_init_def list_all_iff split: option.splits prod.splits)

lemma modal_inv_run: "modal_inv fs h \<Longrightarrow> modal_inv fs (fold (modal_step fs) ops h)"
  by (induction ops arbitrary: h) (simp_all add: modal_inv_step)

lemma modal_inv_init: "modal_inv fs host_init"
  by (simp add: modal_inv_def host_init_def)

text \<open>Whatever is typed, clicked and answered, every record submitted has a text in each required field,
  a dialog has at most one submission under way and shows no error beside it.\<close>

theorem modal_submits_complete:
  "list_all (canSubmit fs) (mh_sent (fold (modal_step fs) ops host_init))
   \<and> distinct (mh_flight (fold (modal_step fs) ops host_init))
   \<and> (case mh_open (fold (modal_step fs) ops host_init) of None \<Rightarrow> True
      | Some (i, m) \<Rightarrow> (mo_submitting m = (i \<in> set (mh_flight (fold (modal_step fs) ops host_init)))) \<and> \<not> (mo_submitting m \<and> mo_error m))"
  using modal_inv_run [OF modal_inv_init, of fs ops] by (auto simp: modal_inv_def split: option.splits)

text \<open>A dialog that is closed while it submits and opened again is closed by the answer to the first
  one, with whatever has been typed into it since.\<close>

theorem modal_closed_by_other:
  assumes "modal_inv fs h" "mh_open h = Some (i, m)" "canSubmit fs (mo_values m)" "\<not> mo_submitting m"
  shows "mh_open (fold (modal_step fs) [MdSubmit, MdClose, MdShow, MdType k t] h)
      = Some (mh_next h, (modal_init fs)\<lparr>mo_values := obj_set k t (modal_values fs)\<rparr>)
    \<and> mh_open (fold (modal_step fs) [MdSubmit, MdClose, MdShow, MdType k t, MdAnswer i True] h) = None
    \<and> mh_sent (fold (modal_step fs) [MdSubmit, MdClose, MdShow, MdType k t, MdAnswer i True] h) = mh_sent h @ [mo_values m]"
  using assms by (simp add: modal_submit_def modal_close_def modal_show_def modal_type_def modal_answered_def modal_init_def)

theorem modal_closed_by_other_witness:
  "let fs = [\<lparr>cl_key = ''name'', cl_label = ''Name'', cl_kind = TextField, cl_options = [], cl_required = True, cl_default = Some ''n''\<rparr>] in
   mh_open (fold (modal_step fs) [MdShow, MdSubmit, MdClose, MdShow, MdType ''name'' ''x'', MdAnswer 0 True] host_init) = None"
proof -
  let ?fs = "[\<lparr>cl_key = ''name'', cl_label = ''Name'', cl_kind = TextField, cl_options = [], cl_required = True, cl_default = Some ''n''\<rparr>]"
  let ?h = "modal_step ?fs MdShow host_init"
  have o: "mh_open ?h = Some (0, modal_init ?fs)" by (simp add: modal_show_def host_init_def)
  have c: "canSubmit ?fs (mo_values (modal_init ?fs))" "\<not> mo_submitting (modal_init ?fs)" by code_simp+
  show ?thesis
    using modal_closed_by_other [OF modal_inv_step [OF modal_inv_init, of ?fs MdShow] o c, of "''name''" "''x''"] by (simp add: Let_def)
qed

end
