(* ===== verification/EntityGraph.thy ===== *)
theory EntityGraph
  imports JsArray SiemData
begin

text \<open>
  The radial graph of an entity (\<open>components/dashboard/EntityGraph.tsx\<close>): where its nodes are placed
  and which are highlighted. The sine and cosine, which the language leaves to the implementation,
  are parameters.
\<close>

record graph_node =
  gn_id :: string
  gn_label :: string
  gn_meta :: "string option"

record graph_group =
  gg_kind :: string
  gg_color :: string
  gg_nodes :: "graph_node list"

record graph_data =
  gd_label :: string
  gd_sub :: "string option"
  gd_groups :: "graph_group list"

record placed_node =
  pn_node :: graph_node
  pn_kind :: string
  pn_color :: string
  pn_x :: rat
  pn_y :: rat

definition GRAPH_W :: rat where "GRAPH_W = 760"
definition GRAPH_H :: rat where "GRAPH_H = 460"
definition CX :: rat where "CX = js_div GRAPH_W 2"
definition CY :: rat where "CY = js_div GRAPH_H 2"

text \<open>\<open>Math.PI\<close>, the double.\<close>

definition JS_PI :: rat where "JS_PI = 884279719003555 / 281474976710656"

definition sectorCenter :: "nat \<Rightarrow> nat \<Rightarrow> rat" where
  "sectorCenter gi groupCount =
     js_sub (js_mul (js_mul (js_div (of_nat gi) (of_nat groupCount)) JS_PI) 2) (js_div JS_PI 2)"

definition sector_spread :: "nat \<Rightarrow> rat" where
  "sector_spread groupCount = min (js_mul (js_div (js_mul JS_PI 2) (of_nat groupCount)) (fl (41 / 50))) (fl (13 / 10))"

definition node_angle :: "nat \<Rightarrow> nat \<Rightarrow> nat \<Rightarrow> nat \<Rightarrow> rat" where
  "node_angle groupCount gi n ni =
     (let t = (if n = 1 then 0 else js_sub (js_div (of_nat ni) (js_sub (of_nat n) 1)) (1 / 2)) in
      js_add (sectorCenter gi groupCount) (js_mul t (sector_spread groupCount)))"

definition node_radius :: "nat \<Rightarrow> rat" where "node_radius ni = 168 + of_nat (ni mod 2) * 34"

definition place_node :: "(rat \<Rightarrow> rat) \<Rightarrow> (rat \<Rightarrow> rat) \<Rightarrow> nat \<Rightarrow> nat \<Rightarrow> graph_group \<Rightarrow> nat \<Rightarrow> graph_node \<Rightarrow> placed_node" where
  "place_node cs sn groupCount gi g ni node =
     (let a = node_angle groupCount gi (length (gg_nodes g)) ni; r = node_radius ni in
      \<lparr>pn_node = node, pn_kind = gg_kind g, pn_color = gg_color g,
       pn_x = js_add CX (js_mul (cs a) r), pn_y = js_add CY (js_mul (sn a) r)\<rparr>)"

text \<open>The nodes in the order in which they are pushed.\<close>

definition graph_layout :: "(rat \<Rightarrow> rat) \<Rightarrow> (rat \<Rightarrow> rat) \<Rightarrow> graph_data \<Rightarrow> placed_node list" where
  "graph_layout cs sn d = concat (map (\<lambda>(gi, g).
       map (\<lambda>(ni, node). place_node cs sn (length (gd_groups d)) gi g ni node) (enumerate 0 (gg_nodes g)))
     (enumerate 0 (gd_groups d)))"

text \<open>Hovering: every node is active until one is hovered, then the ones with its id.\<close>

definition node_active :: "string option \<Rightarrow> placed_node \<Rightarrow> bool" where
  "node_active hover p \<longleftrightarrow> hover = None \<or> hover = Some (gn_id (pn_node p))"

definition node_label :: "string \<Rightarrow> graph_node \<Rightarrow> string" where
  "node_label dots n = (if length (gn_label n) > 22 then take 21 (gn_label n) @ dots else gn_label n)"

definition graph_legend :: "graph_data \<Rightarrow> (string \<times> string \<times> nat) list" where
  "graph_legend d = map (\<lambda>g. (gg_color g, gg_kind g, length (gg_nodes g))) (gd_groups d)"

subsection \<open>Every node is on the canvas\<close>

lemma layout_nodes: "map pn_node (graph_layout cs sn d) = concat (map gg_nodes (gd_groups d))"
proof -
  have "map pn_node (map (\<lambda>(ni, node). place_node cs sn gc gi g ni node) (enumerate k ns)) = ns" for gc gi g k ns
    by (induction ns arbitrary: k) (simp_all add: place_node_def Let_def)
  then have "map pn_node (concat (map (\<lambda>(gi, g). map (\<lambda>(ni, node). place_node cs sn gc gi g ni node) (enumerate 0 (gg_nodes g)))
      (enumerate k gs))) = concat (map gg_nodes gs)" for gc k gs
    by (induction gs arbitrary: k) simp_all
  then show ?thesis by (simp add: graph_layout_def)
qed

lemma near_centre:
  assumes "\<bar>c\<bar> \<le> 1" "0 \<le> (r :: int)" "r \<le> 202" "0 \<le> m" "m \<le> 380"
  shows "of_int (m - r) \<le> js_add (of_int m) (js_mul c (of_int r))" "js_add (of_int m) (js_mul c (of_int r)) \<le> of_int (m + r)"
proof -
  have "\<bar>c * of_int r\<bar> \<le> of_int r"
    using assms mult_right_mono [of "\<bar>c\<bar>" 1 "of_int r :: rat"] by (simp add: abs_mult)
  then have "- of_int r \<le> js_mul c (of_int r)" "js_mul c (of_int r) \<le> of_int r"
    using fl_le_int [of "c * of_int r" r] fl_ge_int [of "- r" "c * of_int r"] assms(3) by (simp_all add: js_mul_def abs_le_iff)
  then show "of_int (m - r) \<le> js_add (of_int m) (js_mul c (of_int r))" "js_add (of_int m) (js_mul c (of_int r)) \<le> of_int (m + r)"
    unfolding js_add_def by (intro fl_ge_int fl_le_int; use assms in simp)+
qed

text \<open>Each group's nodes are drawn once and in order, inside the canvas with room for their labels,
  whatever angles the sine and cosine are taken of; one hovered id lights up as many nodes as have
  it.\<close>

theorem graph_on_canvas:
  assumes "\<And>a. \<bar>cs a\<bar> \<le> 1" "\<And>a. \<bar>sn a\<bar> \<le> 1"
  shows "map pn_node (graph_layout cs sn d) = concat (map gg_nodes (gd_groups d))
    \<and> list_all (\<lambda>p. 178 \<le> pn_x p \<and> pn_x p \<le> 582 \<and> 28 \<le> pn_y p \<and> pn_y p \<le> 432) (graph_layout cs sn d)
    \<and> count_of (node_active (Some i)) (graph_layout cs sn d) = count_of (\<lambda>n. gn_id n = i) (concat (map gg_nodes (gd_groups d)))"
proof -
  have c: "CX = of_int 380" "CY = of_int 230"
    using js_div_exact [of 380 2] js_div_exact [of 230 2] by (simp_all add: CX_def CY_def GRAPH_W_def GRAPH_H_def)
  have "\<exists>r::int. node_radius ni = of_int r \<and> 0 \<le> r \<and> r \<le> 202" for ni
    by (rule exI [of _ "168 + int (ni mod 2) * 34"]) (simp add: node_radius_def)
  then have place: "178 \<le> pn_x (place_node cs sn gc gi g ni n) \<and> pn_x (place_node cs sn gc gi g ni n) \<le> 582
      \<and> 28 \<le> pn_y (place_node cs sn gc gi g ni n) \<and> pn_y (place_node cs sn gc gi g ni n) \<le> 432" for gc gi g ni n
  proof -
    obtain r where r: "node_radius ni = of_int r" "0 \<le> r" "r \<le> 202"
      using \<open>\<And>ni. \<exists>r::int. node_radius ni = of_int r \<and> 0 \<le> r \<and> r \<le> 202\<close> by blast
    let ?a = "node_angle gc gi (length (gg_nodes g)) ni"
    have "(178 :: rat) \<le> of_int (380 - r)" "of_int (380 + r) \<le> (582 :: rat)" "(28 :: rat) \<le> of_int (230 - r)" "of_int (230 + r) \<le> (432 :: rat)"
      using r(3) by simp_all
    with near_centre [OF assms(1) [of ?a] r(2,3), of 380] near_centre [OF assms(2) [of ?a] r(2,3), of 230]
    show ?thesis by (simp only: place_node_def Let_def placed_node.simps r(1) c) linarith
  qed
  have "count_of (node_active (Some i)) ps = count_of (\<lambda>n. gn_id n = i) (map pn_node ps)" for ps
    by (induction ps) (auto simp: count_of_def node_active_def)
  with layout_nodes show ?thesis using place by (auto simp: list_all_iff graph_layout_def)
qed

theorem graph_on_canvas_witness:
  "count_of (node_active (Some ''b'')) (graph_layout (\<lambda>a. 1) (\<lambda>a. 0)
     \<lparr>gd_label = ''x'', gd_sub = None, gd_groups = [\<lparr>gg_kind = ''k'', gg_color = ''c'',
        gg_nodes = [\<lparr>gn_id = ''a'', gn_label = ''A'', gn_meta = None\<rparr>, \<lparr>gn_id = ''b'', gn_label = ''B'', gn_meta = None\<rparr>]\<rparr>]\<rparr>) = 1"
  using graph_on_canvas [of "\<lambda>a. 1" "\<lambda>a. 0" "\<lparr>gd_label = ''x'', gd_sub = None, gd_groups = [\<lparr>gg_kind = ''k'', gg_color = ''c'',
        gg_nodes = [\<lparr>gn_id = ''a'', gn_label = ''A'', gn_meta = None\<rparr>, \<lparr>gn_id = ''b'', gn_label = ''B'', gn_meta = None\<rparr>]\<rparr>]\<rparr>" "''b''"]
  by (simp add: count_of_def)

end
