(* ===== verification/CtiPage.thy ===== *)
theory CtiPage
  imports SiemRules CreateModal EntityGraph Feeds
begin

text \<open>
  The threat intelligence page (\<open>app/dashboard/cti/page.tsx\<close>): the actor library as mapped from the
  API, the graph of an actor, the heat map, the hunts, the heat of the sectors, the brief of the
  normal mode and the page itself; and the summary of the store
  (\<open>components/dashboard/StoreCompositionPanel.tsx\<close>). The globe that stands for a missing flag is a
  parameter, and \<open>loc\<close> is \<open>toLocaleString\<close>.
\<close>

subsection \<open>Actors\<close>

record cti_actor =
  ca_id :: string
  ca_name :: string
  ca_aliases :: "string list"
  ca_origin :: string
  ca_flag :: string
  ca_type :: string
  ca_motivation :: "string list"
  ca_active :: bool
  ca_firstSeen :: string
  ca_lastSeen :: string
  ca_sophistication :: string
  ca_sectors :: "string list"
  ca_ttps :: "string list"
  ca_iocCount :: rat
  ca_campaigns :: rat
  ca_description :: string

definition SOPHISTICATION_LABEL :: "(rat, string) obj" where
  "SOPHISTICATION_LABEL = [(1, ''Basic''), (2, ''Intermediate''), (3, ''High''), (4, ''Advanced''), (5, ''Expert'')]"

text \<open>The fields of an answer: \<open>v ?? d\<close> as a text or a number, an array or nothing, a date's day.\<close>

definition text_or :: "json \<Rightarrow> string \<Rightarrow> string" where "text_or v d = js_string (nullish v (JStr d))"
definition num_or :: "json \<Rightarrow> rat \<Rightarrow> rat" where "num_or v d = rule_num (nullish v (JNum d))"

fun texts_of :: "json \<Rightarrow> string list" where
  "texts_of (JArr vs) = map js_string vs"
| "texts_of v = []"

definition day_of :: "json \<Rightarrow> string" where
  "day_of v = (if truthy v then take 10 (js_string v) else ''-'')"

definition apiActorToPage :: "string \<Rightarrow> json \<Rightarrow> cti_actor" where
  "apiActorToPage globe a =
     \<lparr>ca_id = js_string (json_get ''id'' a), ca_name = js_string (json_get ''name'' a),
      ca_aliases = texts_of (json_get ''aliases'' a), ca_origin = text_or (json_get ''origin'' a) ''Unknown'',
      ca_flag = (if truthy (json_get ''flag'' a) then js_string (json_get ''flag'' a) else globe),
      ca_type = text_or (json_get ''type'' a) ''Unknown'', ca_motivation = texts_of (json_get ''motivations'' a),
      ca_active = truthy (json_get ''active'' a),
      ca_firstSeen = day_of (json_get ''firstSeen'' a), ca_lastSeen = day_of (json_get ''lastSeen'' a),
      ca_sophistication = (case json_get ''sophistication'' a of
          JNum x \<Rightarrow> (case obj_get SOPHISTICATION_LABEL x of Some l \<Rightarrow> l | None \<Rightarrow> ''Level '' @ num_str x)
        | v \<Rightarrow> text_or v ''Unknown''),
      ca_sectors = texts_of (json_get ''sectors'' a), ca_ttps = texts_of (json_get ''ttps'' a),
      ca_iocCount = num_or (json_get ''iocCount'' a) 0,
      ca_campaigns = num_or (json_get ''campaignCount'' a)
        (case json_get ''campaigns'' a of JArr cs \<Rightarrow> of_nat (length cs) | _ \<Rightarrow> 0),
      ca_description = text_or (json_get ''description'' a) []\<rparr>"

text \<open>The origin line of a card, its figures and its first sectors; the middle dot is a comma.\<close>

definition origin_line :: "string \<Rightarrow> cti_actor \<Rightarrow> string \<times> string" where
  "origin_line globe a = (if trim (ca_flag a) \<noteq> [] then trim (ca_flag a) else globe,
     ca_type a @ '', '' @ (if trim (ca_origin a) \<noteq> [] then trim (ca_origin a) else ''origin not established''))"

definition card_figures :: "(rat \<Rightarrow> string) \<Rightarrow> cti_actor \<Rightarrow> string list" where
  "card_figures loc a = [loc (ca_iocCount a) @ '' IOCs'', num_str (ca_campaigns a) @ '' campaigns'', ca_sophistication a]"

definition card_sectors :: "cti_actor \<Rightarrow> string list" where
  "card_sectors a = take 3 (ca_sectors a)
     @ (if length (ca_sectors a) > 3 then [''+'' @ int_str (int (length (ca_sectors a)) - 3)] else [])"

definition actor_details :: "cti_actor \<Rightarrow> (string \<times> string) list" where
  "actor_details a = [(''Origin'', ca_flag a @ '' '' @ ca_origin a), (''Type'', ca_type a),
     (''Sophistication'', ca_sophistication a), (''First Seen'', ca_firstSeen a), (''Last Seen'', ca_lastSeen a)]"

definition mitre_group_href :: "cti_actor \<Rightarrow> string" where
  "mitre_group_href a = ''https://attack.mitre.org/groups/?search='' @ encodeURIComponent (ca_name a)"

definition ttp_href :: "string \<Rightarrow> string" where
  "ttp_href t = ''/dashboard/siem/attack?technique='' @ encodeURIComponent t"

subsection \<open>The graph of an actor\<close>

definition ACTOR_CAMPAIGNS :: "(string, string list) obj" where
  "ACTOR_CAMPAIGNS =
     [(''apt38'', [''TraderTraitor'', ''AppleJeus'', ''Operation Dream Job'']),
      (''apt29'', [''SolarWinds'', ''Midnight Blizzard'', ''Cozy Bear DNC'']),
      (''volt'', [''Living-off-the-land US grid'', ''Water utility intrusion'']),
      (''scattered'', [''MGM Resorts breach'', ''Caesars extortion'', ''0ktapus'']),
      (''fin7'', [''CARBANAK POS'', ''Bateleur retail'', ''Carbon Spider''])]"

text \<open>The counts of the three buckets: two rounded shares and the rest.\<close>

definition ioc_split :: "rat \<Rightarrow> rat list" where
  "ioc_split n = (let hashK = of_int (js_round (js_mul n (fl (11 / 20)))); domK = of_int (js_round (js_mul n (fl (1 / 4)))) in
     [hashK, domK, js_sub (js_sub n hashK) domK])"

definition graph_iocs :: "(rat \<Rightarrow> string) \<Rightarrow> cti_actor \<Rightarrow> graph_node list" where
  "graph_iocs loc a = map (\<lambda>(i, l, k). \<lparr>gn_id = ''i-'' @ ca_id a @ ''-'' @ int_str (int i), gn_label = l, gn_meta = Some (loc k)\<rparr>)
     (enumerate 0 (filter (\<lambda>(l, k). k > 0) (zip [''File Hashes'', ''Domains'', ''IP Addresses''] (ioc_split (ca_iocCount a)))))"

definition numbered_nodes :: "string \<Rightarrow> cti_actor \<Rightarrow> string list \<Rightarrow> graph_node list" where
  "numbered_nodes p a xs = map (\<lambda>(i, l). \<lparr>gn_id = p @ ca_id a @ ''-'' @ int_str (int i), gn_label = l, gn_meta = None\<rparr>) (enumerate 0 xs)"

definition graph_ttps :: "cti_actor \<Rightarrow> graph_node list" where
  "graph_ttps a = map (\<lambda>t. \<lparr>gn_id = ''t-'' @ ca_id a @ ''-'' @ t, gn_label = t, gn_meta = Some ''MITRE''\<rparr>) (ca_ttps a)"

definition buildGraph :: "(rat \<Rightarrow> string) \<Rightarrow> cti_actor \<Rightarrow> graph_data" where
  "buildGraph loc a =
     (let campaigns = (case obj_get ACTOR_CAMPAIGNS (ca_id a) of Some cs \<Rightarrow> cs | None \<Rightarrow> []) in
      \<lparr>gd_label = ca_name a, gd_sub = Some (ca_flag a @ '' '' @ ca_origin a @ '', '' @ ca_type a),
       gd_groups = filter (\<lambda>g. gg_nodes g \<noteq> [])
         [\<lparr>gg_kind = ''Campaigns'', gg_color = tk Magenta, gg_nodes = numbered_nodes ''c-'' a campaigns\<rparr>,
          \<lparr>gg_kind = ''TTPs'', gg_color = tk Violet, gg_nodes = graph_ttps a\<rparr>,
          \<lparr>gg_kind = ''Aliases'', gg_color = tk Safe, gg_nodes = numbered_nodes ''al-'' a (ca_aliases a)\<rparr>,
          \<lparr>gg_kind = ''IOCs'', gg_color = tk Amber, gg_nodes = graph_iocs loc a\<rparr>,
          \<lparr>gg_kind = ''Target Sectors'', gg_color = tk Teal, gg_nodes = numbered_nodes ''s-'' a (ca_sectors a)\<rparr>]\<rparr>)"

subsection \<open>The heat map\<close>

definition MITRE_TACTICS :: "(string \<times> string \<times> string list) list" where
  "MITRE_TACTICS =
     [(''recon'', ''Recon'', [''T1590'', ''T1591'', ''T1593'']), (''resource'', ''Resource Dev'', [''T1583'', ''T1584'', ''T1585'']),
      (''initial'', ''Initial Access'', [''T1566'', ''T1078'', ''T1195'']), (''exec'', ''Execution'', [''T1059'', ''T1055'', ''T1047'']),
      (''persist'', ''Persistence'', [''T1053'', ''T1547'', ''T1098'']), (''privesc'', ''Priv Esc'', [''T1055'', ''T1068'', ''T1134'']),
      (''evade'', ''Defense Eva'', [''T1027'', ''T1036'', ''T1070'']), (''credential'', ''Credential'', [''T1003'', ''T1558'', ''T1555'']),
      (''discovery'', ''Discovery'', [''T1082'', ''T1016'', ''T1083'']), (''lateral'', ''Lateral Mov'', [''T1021'', ''T1534'', ''T1080'']),
      (''collection'', ''Collection'', [''T1005'', ''T1074'', ''T1113'']), (''c2'', ''C2'', [''T1071'', ''T1095'', ''T1105'']),
      (''exfil'', ''Exfiltration'', [''T1041'', ''T1048'', ''T1052'']), (''impact'', ''Impact'', [''T1486'', ''T1490'', ''T1498''])]"

definition HEAT_LEVELS :: "(string, int) obj" where
  "HEAT_LEVELS = [(''T1566'', 95), (''T1078'', 88), (''T1059'', 91), (''T1055'', 76), (''T1027'', 82), (''T1195'', 71),
     (''T1486'', 84), (''T1490'', 69), (''T1021'', 78), (''T1041'', 65), (''T1082'', 73), (''T1590'', 60), (''T1003'', 77), (''T1071'', 62)]"

definition heatColor_cti :: "int \<Rightarrow> string" where
  "heatColor_cti level = (if level \<ge> 80 then tk Magenta else if level \<ge> 60 then tk Threat else if level \<ge> 40 then tk Amber
     else if level > 0 then tk Violet else ''transparent'')"

definition heat_cell :: "string \<Rightarrow> string \<times> string" where
  "heat_cell tech = (let heat = (case obj_get HEAT_LEVELS tech of Some h \<Rightarrow> h | None \<Rightarrow> 0) in
     (tech @ '', '' @ int_str heat @ ''%'', if heat \<noteq> 0 then heatColor_cti heat else ''rgba(255,255,255,0.04)''))"

subsection \<open>Hunts\<close>

datatype hunt_status = HuntActive | HuntCompleted | HuntPaused

fun HUNT_COLOR :: "hunt_status \<Rightarrow> string" where
  "HUNT_COLOR HuntActive = tk Safe" | "HUNT_COLOR HuntCompleted = tk Violet" | "HUNT_COLOR HuntPaused = tk Amber"

record panel_hunt =
  ph_id :: string
  ph_name :: string
  ph_hypothesis :: string
  ph_status :: hunt_status
  ph_artifacts :: rat
  ph_analyst :: string
  ph_progress :: rat
  ph_created :: string

definition apiHuntToPanel :: "json \<Rightarrow> panel_hunt" where
  "apiHuntToPanel h =
     \<lparr>ph_id = js_string (json_get ''id'' h), ph_name = js_string (json_get ''name'' h), ph_hypothesis = text_or (json_get ''hypothesis'' h) [],
      ph_status = (if json_get ''status'' h = JStr ''complete'' then HuntCompleted
        else if json_get ''status'' h = JStr ''idle'' then HuntPaused else HuntActive),
      ph_artifacts = num_or (json_get ''artifacts'' h) 0, ph_analyst = text_or (json_get ''analyst'' h) ''you'',
      ph_progress = num_or (json_get ''progress'' h) 0, ph_created = text_or (json_get ''created'' h) ''just now''\<rparr>"

definition HUNT_FIELDS :: "create_field list" where
  "HUNT_FIELDS =
     [\<lparr>cl_key = ''name'', cl_label = ''Hunt name'', cl_kind = TextField, cl_options = [], cl_required = True, cl_default = None\<rparr>,
      \<lparr>cl_key = ''hypothesis'', cl_label = ''Hypothesis'', cl_kind = AreaField, cl_options = [], cl_required = False, cl_default = None\<rparr>,
      \<lparr>cl_key = ''technique'', cl_label = ''MITRE technique'', cl_kind = TextField, cl_options = [], cl_required = False, cl_default = None\<rparr>]"

text \<open>The body of a creation: an empty text is left out.\<close>

definition hunt_body :: "field_values \<Rightarrow> json" where
  "hunt_body vs = (let get = (\<lambda>k. case obj_get vs k of Some t \<Rightarrow> t | None \<Rightarrow> []);
       given = (\<lambda>t. if t = [] then JUndef else JStr t) in
     JObj [(''name'', JStr (get ''name'')), (''description'', given (get ''hypothesis'')), (''technique'', given (get ''technique''))])"

record hunt_panel =
  hp_selected :: "string option"
  hp_hunts :: "panel_hunt list"
  hp_failed :: bool
  hp_modal :: modal_host

definition hunt_init :: hunt_panel where
  "hunt_init = \<lparr>hp_selected = None, hp_hunts = [], hp_failed = False, hp_modal = host_init\<rparr>"

datatype hunt_op = HuLoaded "json list option" | HuSelect string | HuDialog modal_op | HuCreated nat json

text \<open>A creation that succeeds puts its hunt first, and then the dialog closes.\<close>

fun hunt_step :: "hunt_op \<Rightarrow> hunt_panel \<Rightarrow> hunt_panel" where
  "hunt_step (HuLoaded r) p = (case r of Some xs \<Rightarrow> p\<lparr>hp_hunts := map apiHuntToPanel xs\<rparr> | None \<Rightarrow> p\<lparr>hp_failed := True\<rparr>)"
| "hunt_step (HuSelect i) p = p\<lparr>hp_selected := (if hp_selected p = Some i then None else Some i)\<rparr>"
| "hunt_step (HuDialog op) p = p\<lparr>hp_modal := modal_step HUNT_FIELDS op (hp_modal p)\<rparr>"
| "hunt_step (HuCreated i j) p = (if i \<notin> set (mh_flight (hp_modal p)) then p
     else p\<lparr>hp_hunts := apiHuntToPanel j # hp_hunts p, hp_modal := modal_answered i True (hp_modal p)\<rparr>)"

definition hunt_requests :: "hunt_panel \<Rightarrow> call list" where
  "hunt_requests p = fetchCtiHunts # map (\<lambda>vs. createCtiHunt (hunt_body vs)) (mh_sent (hp_modal p))"

definition hunts_shown :: "hunt_panel \<Rightarrow> string \<times> string option" where
  "hunts_shown p = (int_str (int (count_of (\<lambda>h. ph_status h = HuntActive) (hp_hunts p))) @ '' active'',
     if hp_hunts p = [] then Some (if hp_failed p then ''unavailable'' else ''No active hunts yet.'') else None)"

subsection \<open>The heat of the sectors\<close>

definition sector_add :: "cti_actor \<Rightarrow> string \<Rightarrow> (string, string list) obj \<Rightarrow> (string, string list) obj" where
  "sector_add a s m = obj_set s (set_insert (ca_name a) (case obj_get m s of Some ns \<Rightarrow> ns | None \<Rightarrow> [])) m"

definition sector_map :: "cti_actor list \<Rightarrow> (string, string list) obj" where
  "sector_map actors = fold (\<lambda>a. fold (sector_add a) (ca_sectors a)) actors []"

definition buildSectorTargeting :: "cti_actor list \<Rightarrow> (string \<times> int \<times> string list) list" where
  "buildSectorTargeting actors =
     (let rows = sector_map actors; m = max_of 1 (map (\<lambda>(s, ns). length ns) rows) in
      map (\<lambda>(s, ns). (s, js_round (js_mul (js_div (of_nat (length ns)) (of_nat m)) 100), ns))
        (take 8 (js_sort (\<lambda>(s, a) (t, b). of_nat (length b) - of_nat (length a)) rows)))"

definition sector_bar :: "int \<Rightarrow> string" where
  "sector_bar score = (if score \<ge> 80 then tk Magenta else if score \<ge> 65 then tk Threat else tk Amber)"

subsection \<open>The brief of the normal mode\<close>

definition sevFor :: "string \<Rightarrow> string" where
  "sevFor s = (if str_includes (toLowerCase s) ''expert'' \<or> str_includes (toLowerCase s) ''advanced'' then ''critical''
     else if str_includes (toLowerCase s) ''high'' then ''high'' else ''medium'')"

definition briefs :: "cti_actor list \<Rightarrow> cti_actor list" where
  "briefs actors = take 4 (js_sort (\<lambda>a b. ca_iocCount b - ca_iocCount a) (filter ca_active actors))"

record cti_summary =
  cs_trackedActors :: rat
  cs_totalIocs :: rat
  cs_activeIocs :: rat
  cs_attributed :: rat
  cs_topFamilies :: "(string \<times> rat) list"

definition brief_tiles :: "(rat \<Rightarrow> string) \<Rightarrow> cti_summary option \<Rightarrow> (string \<times> string) list" where
  "brief_tiles loc r = (let get = (\<lambda>f. loc (case r of Some s \<Rightarrow> f s | None \<Rightarrow> 0)) in
     [(''Tracked Actors'', get cs_trackedActors), (''Total IOCs'', get cs_totalIocs),
      (''Named to a family'', get cs_attributed), (''Active IOCs'', get cs_activeIocs)])"

text \<open>What is said when there is nothing to brief on: nothing imported, or the families instead.\<close>

datatype no_brief = HasBriefs | NoIndicators | NoActors "(string \<times> string) option"

definition family_list :: "(rat \<Rightarrow> string) \<Rightarrow> (string \<times> rat) list \<Rightarrow> string" where
  "family_list loc fs = concat (map (\<lambda>(i, f, n). f @ '' ('' @ loc n @ '')''
     @ (if int i < int (length fs) - 2 then '', '' else if int i = int (length fs) - 2 then '' and '' else ''.'')) (enumerate 0 fs))"

definition brief_family_href :: "string \<Rightarrow> string" where
  "brief_family_href f = ''/dashboard/feeds?family='' @ encodeURIComponent f"

definition brief_empty :: "(rat \<Rightarrow> string) \<Rightarrow> cti_actor list \<Rightarrow> cti_summary option \<Rightarrow> no_brief" where
  "brief_empty loc actors r = (if briefs actors \<noteq> [] then HasBriefs else
     case r of None \<Rightarrow> NoIndicators | Some s \<Rightarrow> if cs_totalIocs s > 0
       then NoActors (if cs_attributed s > 0 then Some (loc (cs_attributed s), family_list loc (cs_topFamilies s)) else None)
       else NoIndicators)"

definition brief_line :: "(rat \<Rightarrow> string) \<Rightarrow> cti_actor \<Rightarrow> string" where
  "brief_line loc a = loc (ca_iocCount a) @ '' tracked IOCs''
     @ (if ca_campaigns a > 0 then '', '' @ num_str (ca_campaigns a) @ '' campaigns'' else [])"

subsection \<open>The page\<close>

definition IOC_DISPLAY :: "(string, string \<times> string) obj" where
  "IOC_DISPLAY = [(''ip'', (''IP Addresses'', tk Magenta)), (''domain'', (''Domains'', tk Violet)), (''hash'', (''File Hashes'', tk Amber)),
     (''url'', (''URLs'', tk Teal)), (''email'', (''Emails'', tk Safe)), (''cve'', (''CVEs'', tk Threat))]"

definition ioc_tiles :: "(string \<times> rat) list \<Rightarrow> (string \<times> rat \<times> string) list" where
  "ioc_tiles rows = map (\<lambda>(l, n). case obj_get IOC_DISPLAY l of Some (t, c) \<Rightarrow> (t, n, c) | None \<Rightarrow> (l, n, tk Violet)) (take 4 rows)"

text \<open>The normal mode is a component of its own with loads of its own.\<close>

record cti_page =
  ct_power :: bool
  ct_actors :: "cti_actor list"
  ct_selected :: "cti_actor option"
  ct_failed :: bool
  ct_loaded :: bool
  ct_iocTypes :: "(string \<times> rat \<times> string) list"
  ct_summary :: "cti_summary option"
  ct_brief :: "(cti_actor list \<times> cti_summary option) option"
  ct_calls :: "call list"

definition brief_calls :: "call list" where "brief_calls = [fetchCtiSummary, fetchActors]"

definition cti_mount :: "bool \<Rightarrow> cti_page" where
  "cti_mount pw = \<lparr>ct_power = pw, ct_actors = [], ct_selected = None, ct_failed = False, ct_loaded = False,
     ct_iocTypes = [], ct_summary = None, ct_brief = (if pw then None else Some ([], None)),
     ct_calls = (if pw then [] else brief_calls) @ [fetchActors, fetchCtiSummary, fetchIocTypes]\<rparr>"

datatype cti_op = CtMode bool | CtActors "json list option" | CtTypes "(string \<times> rat) list option" | CtSummary "cti_summary option"
  | CtBriefActors "json list option" | CtBriefSummary "cti_summary option" | CtSelect string

fun cti_step :: "string \<Rightarrow> cti_op \<Rightarrow> cti_page \<Rightarrow> cti_page" where
  "cti_step globe (CtMode pw) s = (if pw = ct_power s then s
     else if pw then s\<lparr>ct_power := True, ct_brief := None\<rparr>
     else s\<lparr>ct_power := False, ct_brief := Some ([], None), ct_calls := ct_calls s @ brief_calls\<rparr>)"
| "cti_step globe (CtActors r) s = (case r of
     Some xs \<Rightarrow> let as = map (apiActorToPage globe) xs in
       s\<lparr>ct_actors := as, ct_selected := (case as of a # _ \<Rightarrow> Some a | [] \<Rightarrow> None), ct_loaded := True\<rparr>
   | None \<Rightarrow> s\<lparr>ct_failed := True, ct_loaded := True\<rparr>)"
| "cti_step globe (CtTypes r) s = (case r of Some rows \<Rightarrow> s\<lparr>ct_iocTypes := ioc_tiles rows\<rparr> | None \<Rightarrow> s)"
| "cti_step globe (CtSummary r) s = (case r of Some x \<Rightarrow> s\<lparr>ct_summary := Some x\<rparr> | None \<Rightarrow> s)"
| "cti_step globe (CtBriefActors r) s = (case r of
     Some xs \<Rightarrow> s\<lparr>ct_brief := map_option (\<lambda>(as, x). (map (apiActorToPage globe) xs, x)) (ct_brief s)\<rparr> | None \<Rightarrow> s)"
| "cti_step globe (CtBriefSummary r) s = (case r of
     Some x \<Rightarrow> s\<lparr>ct_brief := map_option (\<lambda>(as, y). (as, Some x)) (ct_brief s)\<rparr> | None \<Rightarrow> s)"
| "cti_step globe (CtSelect i) s = (if \<not> ct_power s then s else case find (\<lambda>a. ca_id a = i) (ct_actors s) of None \<Rightarrow> s
     | Some a \<Rightarrow> s\<lparr>ct_selected := (if map_option ca_id (ct_selected s) = Some i then None else Some a)\<rparr>)"

definition actors_shown :: "cti_page \<Rightarrow> string option" where
  "actors_shown s = (if ct_loaded s \<and> ct_actors s = [] then Some (if ct_failed s then ''unavailable''
     else ''No threat actors tracked yet'') else None)"

definition cti_header :: "(rat \<Rightarrow> string) \<Rightarrow> cti_page \<Rightarrow> string" where
  "cti_header loc s = int_str (int (length (ct_actors s))) @ '' tracked actors, ''
     @ loc (case ct_summary s of Some x \<Rightarrow> cs_totalIocs x | None \<Rightarrow> 0) @ '' indicators, ''
     @ loc (js_sum (map ca_iocCount (ct_actors s))) @ '' attributed, '' @ num_str (js_sum (map ca_campaigns (ct_actors s))) @ '' campaigns''"

definition cti_graph :: "(rat \<Rightarrow> string) \<Rightarrow> cti_page \<Rightarrow> graph_data option" where
  "cti_graph loc s = (if ct_power s then map_option (buildGraph loc) (ct_selected s) else None)"

text \<open>The campaigns of the timeline are constants of the page.\<close>

definition RECENT_CAMPAIGNS :: "(string \<times> string \<times> string \<times> string) list" where
  "RECENT_CAMPAIGNS =
     [(''Nov 2024'', ''Operation Midnight Blizzard (Exchange online)'', ''APT29'', ''critical''),
      (''Oct 2024'', ''Ryuk ransomware hospital campaign'', ''Lazarus'', ''critical''),
      (''Oct 2024'', ''Living-off-the-land in US water utilities'', ''Volt Typhoon'', ''high''),
      (''Sep 2024'', ''BEC phishing against hospitality sector'', ''Scattered Spider'', ''high''),
      (''Aug 2024'', ''CARBANAK POS system deployment - retail'', ''FIN7'', ''medium'')]"

definition campaign_dot :: "string \<Rightarrow> string" where
  "campaign_dot sev = (if sev = ''critical'' then tk Magenta else if sev = ''high'' then tk Threat else tk Amber)"


subsection \<open>What is in the store\<close>

record store_summary =
  su_total :: rat
  su_bands :: "(string \<times> rat) list"
  su_two :: rat
  su_three :: rat
  su_corroborated :: rat
  su_contributing :: rat
  su_configured :: rat
  su_sources :: rat
  su_families :: "(string \<times> rat) list"
  su_attributed :: rat

definition STORE_BAND_COLOR :: "(string, string) obj" where
  "STORE_BAND_COLOR = [(''high'', tk Magenta), (''moderate'', tk Amber), (''low'', tk Violet), (''weak'', ''#665B7D'')]"

text \<open>The bar of the bands: the parts that are not empty, with their widths in percent.\<close>

definition store_bar :: "store_summary \<Rightarrow> (string \<times> rat \<times> string) list" where
  "store_bar s = (if su_total s = 0 then [] else
     map (\<lambda>(k, n). (k, js_mul (js_div n (su_total s)) 100, case obj_get STORE_BAND_COLOR k of Some c \<Rightarrow> c | None \<Rightarrow> []))
       (filter (\<lambda>(k, n). n > 0) (su_bands s)))"

definition share_color :: "rat \<Rightarrow> string" where "share_color x = (if x \<ge> 10 then tk Safe else tk Amber)"

definition corroboration_line :: "(rat \<Rightarrow> string) \<Rightarrow> store_summary \<Rightarrow> string" where
  "corroboration_line loc s = loc (js_add (su_two s) (su_three s)) @ '' of '' @ loc (su_total s)
     @ '' values are asserted by two or more independent feeds.''"

definition feeds_line :: "store_summary \<Rightarrow> (string \<times> string) option" where
  "feeds_line s = (if \<not> su_configured s > 0 then None else
     Some (num_str (su_contributing s) @ '' of '' @ num_str (su_configured s) @ '' configured feeds have contributed''
       @ (if su_sources s > su_contributing s then '' ('' @ num_str (su_sources s) @ '' sources in all, counting non-feed intel)'' else []) @ ''.'',
     if su_contributing s < su_configured s then tk Amber else tk Safe))"

definition family_links :: "store_summary \<Rightarrow> (string \<times> string) list" where
  "family_links s = map (\<lambda>(f, n). (f, ''/dashboard/cti/malware/'' @ encodeURIComponent f)) (take 8 (su_families s))"

text \<open>No part of the bar is empty or wider than the bar, when no band is larger than the store.\<close>

theorem store_bar_bounds:
  assumes "list_all (\<lambda>(k, n). n \<le> su_total s) (su_bands s)"
  shows "list_all (\<lambda>(k, w, c). 0 < w \<and> w \<le> 100) (store_bar s)"
proof -
  have "0 < js_mul (js_div n t) 100 \<and> js_mul (js_div n t) 100 \<le> 100" if "0 < n" "n \<le> t" for n t :: rat
  proof -
    have "js_mul (js_div n t) 100 \<noteq> 0" using that by (simp add: js_mul_def js_div_def)
    with js_percent_bounds [of n t] that show ?thesis by linarith
  qed
  with assms show ?thesis by (fastforce simp: store_bar_def list_all_iff)
qed

theorem store_bar_bounds_witness:
  "list_all (\<lambda>(k, w, c). 0 < w \<and> w \<le> 100) (store_bar \<lparr>su_total = 4, su_bands = [(''high'', 1), (''weak'', 3)], su_two = 0, su_three = 0,
     su_corroborated = 0, su_contributing = 0, su_configured = 0, su_sources = 0, su_families = [], su_attributed = 0\<rparr>)"
  by (rule store_bar_bounds) simp

subsection \<open>The graph accounts for every indicator\<close>

lemma share_le:
  assumes "0 \<le> n" "n \<le> 2 ^ 40" "0 \<le> (q :: rat)" "q \<le> 1"
  shows "of_int (js_round (js_mul (of_int n) (fl q))) \<le> of_int n * q + 1 / 2 + 1 / 2 ^ 10"
proof -
  have n: "0 \<le> (of_int n :: rat)" "of_int n \<le> (2 ^ 40 :: rat)"
    using assms(1,2) of_int_le_iff [of n "2 ^ 40", where 'a = rat] by simp_all
  have "fl q - q \<le> q / 2 ^ 53" using fl_error [of q] assms(3) by (simp only: abs_le_iff abs_of_nonneg) 
  also have "\<dots> \<le> 1 / 2 ^ 53" using assms(4) by (simp add: divide_right_mono)
  finally have f: "0 \<le> fl q" "fl q \<le> q + 1 / 2 ^ 53" "fl q \<le> 1"
    using assms(3,4) fl_nonneg [of q] fl_le_int [of q 1] by simp_all
  have "of_int n * fl q \<le> of_int n * (q + 1 / 2 ^ 53)" using f n by (intro mult_left_mono) auto
  also have "\<dots> \<le> of_int n * q + 1 / 2 ^ 12" using n by (simp add: field_simps)
  finally have a: "of_int n * fl q \<le> of_int n * q + 1 / 2 ^ 12" .
  have "of_int n * fl q \<le> 2 ^ 40 * 1" using n f by (intro mult_mono) auto
  then have "of_int n * fl q / 2 ^ 53 \<le> 1 / 2 ^ 12" by simp
  moreover have "0 \<le> of_int n * fl q" using n f by simp
  ultimately have "fl (of_int n * fl q) \<le> of_int n * fl q + 1 / 2 ^ 12"
    using fl_error [of "of_int n * fl q"] by (simp only: abs_le_iff abs_of_nonneg) linarith
  with a show ?thesis
    by (simp add: js_mul_def js_round_def) linarith
qed

lemma share_nonneg: "0 \<le> n \<Longrightarrow> 0 \<le> q \<Longrightarrow> 0 \<le> js_round (js_mul (of_int n) (fl q))"
proof -
  assume "0 \<le> n" "0 \<le> q"
  then have "0 \<le> js_mul (of_int n) (fl q)" by (simp add: js_mul_def)
  then show ?thesis by (simp add: js_round_def)
qed

lemma shares_small:
  "list_all (\<lambda>n. js_round (js_mul (of_int n) (fl (11 / 20))) + js_round (js_mul (of_int n) (fl (1 / 4))) \<le> n) [0, 1, 2, 3, 4, 5]"
  by code_simp

lemma shares_fit:
  assumes "0 \<le> n" "n \<le> 2 ^ 40"
  shows "js_round (js_mul (of_int n) (fl (11 / 20))) + js_round (js_mul (of_int n) (fl (1 / 4))) \<le> n"
proof (cases "n < 6")
  case True
  then have "n \<in> set [0, 1, 2, 3, 4, 5]" using assms(1) by auto
  then show ?thesis using shares_small by (simp only: list_all_iff)
next
  case False
  let ?h = "js_round (js_mul (of_int n) (fl (11 / 20)))" and ?d = "js_round (js_mul (of_int n) (fl (1 / 4)))"
  have "(of_int (?h + ?d) :: rat) < of_int (n + 1)"
    using share_le [OF assms, of "11 / 20"] share_le [OF assms, of "1 / 4"] False by (simp add: field_simps)
  then show ?thesis by (simp only: of_int_less_iff)
qed

lemma ioc_split_counts:
  assumes "0 \<le> n" "n \<le> 2 ^ 40"
  shows "\<exists>h d. ioc_split (of_int n) = [of_int h, of_int d, of_int (n - h - d)] \<and> 0 \<le> h \<and> 0 \<le> d \<and> h + d \<le> n"
proof -
  let ?h = "js_round (js_mul (of_int n) (fl (11 / 20)))" and ?d = "js_round (js_mul (of_int n) (fl (1 / 4)))"
  have b: "0 \<le> ?h" "0 \<le> ?d" "?h + ?d \<le> n"
    using share_nonneg [OF assms(1)] shares_fit [OF assms] by simp_all
  have "fl (of_int (n - ?h)) = of_int (n - ?h)" "fl (of_int (n - ?h - ?d)) = of_int (n - ?h - ?d)"
    using b assms by (intro fl_of_int; simp)+
  then have "js_sub (js_sub (of_int n) (of_int ?h)) (of_int ?d) = of_int (n - ?h - ?d)" by (simp add: js_sub_def)
  with b show ?thesis by (intro exI [of _ ?h] exI [of _ ?d]) (simp add: ioc_split_def Let_def)
qed

text \<open>The ids of the nodes: five kinds with a first letter of their own, numbered but for the techniques.\<close>

lemma int_str_nat_inj: "int_str (int i) = int_str (int j) \<Longrightarrow> i = j"
  by (metis dec_digits_nat)

lemma numbered_distinct: "distinct (map gn_id (numbered_nodes p a xs))"
proof -
  have "map gn_id (map (\<lambda>(i, l). \<lparr>gn_id = p @ ca_id a @ ''-'' @ int_str (int i), gn_label = l, gn_meta = None\<rparr>) (enumerate 0 xs))
      = map (\<lambda>i. p @ ca_id a @ ''-'' @ int_str (int i)) [0..<length xs]"
    by (rule nth_equalityI) (simp_all add: nth_enumerate_eq)
  then show ?thesis by (auto simp: numbered_nodes_def distinct_map inj_on_def dest: int_str_nat_inj)
qed

lemma iocs_distinct: "distinct (map gn_id (graph_iocs loc a))"
proof -
  have "map gn_id (map (\<lambda>(i, l, k). \<lparr>gn_id = ''i-'' @ ca_id a @ ''-'' @ int_str (int i), gn_label = l, gn_meta = Some (loc k)\<rparr>) (enumerate 0 xs))
      = map (\<lambda>i. ''i-'' @ ca_id a @ ''-'' @ int_str (int i)) [0..<length xs]" for xs :: "(string \<times> rat) list"
    by (rule nth_equalityI) (simp_all add: nth_enumerate_eq split: prod.split)
  then show ?thesis by (auto simp: graph_iocs_def distinct_map inj_on_def dest: int_str_nat_inj)
qed

lemma node_heads:
  "x \<in> gn_id ` set (numbered_nodes (c # p) a xs) \<Longrightarrow> hd x = c"
  "x \<in> gn_id ` set (graph_iocs loc a) \<Longrightarrow> hd x = CHR ''i''"
  "x \<in> gn_id ` set (graph_ttps a) \<Longrightarrow> hd x = CHR ''t''"
  by (auto simp: numbered_nodes_def graph_iocs_def graph_ttps_def)

lemma heads_disjoint: "\<forall>x \<in> A. hd x = c \<Longrightarrow> \<forall>x \<in> B. hd x = d \<Longrightarrow> c \<noteq> d \<Longrightarrow> A \<inter> B = {}"
  by auto

lemma concat_filter_nonempty: "concat (map f (filter (\<lambda>g. f g \<noteq> []) gs)) = concat (map f gs)"
  by (induction gs) auto

text \<open>The graph of an actor has no empty group; its node ids are distinct exactly when no technique is
  repeated, so that hovering a node lights up that node alone; and the buckets of its indicators add
  up to their number, none of them negative.\<close>

theorem actor_graph:
  assumes "ca_iocCount a = of_nat n" "n \<le> 2 ^ 40"
  shows "list_all (\<lambda>g. gg_nodes g \<noteq> []) (gd_groups (buildGraph loc a))
    \<and> distinct (map gn_id (concat (map gg_nodes (gd_groups (buildGraph loc a))))) = distinct (ca_ttps a)
    \<and> sum_list (ioc_split (ca_iocCount a)) = of_nat n \<and> list_all (\<lambda>k. 0 \<le> k) (ioc_split (ca_iocCount a))"
proof -
  define cs where "cs = (case obj_get ACTOR_CAMPAIGNS (ca_id a) of Some cs \<Rightarrow> cs | None \<Rightarrow> [])"
  have nodes: "concat (map gg_nodes (gd_groups (buildGraph loc a))) = numbered_nodes ''c-'' a cs @ graph_ttps a
      @ numbered_nodes ''al-'' a (ca_aliases a) @ graph_iocs loc a @ numbered_nodes ''s-'' a (ca_sectors a)"
    by (simp add: buildGraph_def cs_def Let_def concat_filter_nonempty)
  have t: "distinct (map gn_id (graph_ttps a)) = distinct (ca_ttps a)"
    by (simp add: graph_ttps_def distinct_map inj_on_def comp_def)
  define C T A I S where "C = gn_id ` set (numbered_nodes ''c-'' a cs)" and "T = gn_id ` set (graph_ttps a)"
    and "A = gn_id ` set (numbered_nodes ''al-'' a (ca_aliases a))" and "I = gn_id ` set (graph_iocs loc a)"
    and "S = gn_id ` set (numbered_nodes ''s-'' a (ca_sectors a))"
  have h: "\<forall>x \<in> C. hd x = CHR ''c''" "\<forall>x \<in> T. hd x = CHR ''t''" "\<forall>x \<in> A. hd x = CHR ''a''" "\<forall>x \<in> I. hd x = CHR ''i''"
      "\<forall>x \<in> S. hd x = CHR ''s''"
    unfolding C_def T_def A_def I_def S_def by (intro ballI, erule node_heads)+
  have "C \<inter> (T \<union> (A \<union> (I \<union> S))) = {}" "T \<inter> (A \<union> (I \<union> S)) = {}" "A \<inter> (I \<union> S) = {}" "I \<inter> S = {}"
    using heads_disjoint [OF h(1) h(2)] heads_disjoint [OF h(1) h(3)] heads_disjoint [OF h(1) h(4)] heads_disjoint [OF h(1) h(5)] heads_disjoint [OF h(2) h(3)]
      heads_disjoint [OF h(2) h(4)] heads_disjoint [OF h(2) h(5)] heads_disjoint [OF h(3) h(4)] heads_disjoint [OF h(3) h(5)] heads_disjoint [OF h(4) h(5)] by (simp_all add: Int_Un_distrib)
  then have "distinct (map gn_id (concat (map gg_nodes (gd_groups (buildGraph loc a))))) = distinct (ca_ttps a)"
    unfolding nodes map_append distinct_append set_append set_map image_Un t C_def T_def A_def I_def S_def
    by (simp add: numbered_distinct iocs_distinct)
  moreover have "\<exists>h d. ioc_split (of_nat n) = [of_int h, of_int d, of_int (int n - h - d)] \<and> 0 \<le> h \<and> 0 \<le> d \<and> h + d \<le> int n"
    using ioc_split_counts [of "int n"] assms(2) by simp
  moreover have "list_all (\<lambda>g. gg_nodes g \<noteq> []) (gd_groups (buildGraph loc a))"
    by (simp add: buildGraph_def Let_def list_all_iff)
  ultimately show ?thesis using assms(1) by (auto simp del: of_int_diff)
qed

definition sample_actor :: cti_actor where
  "sample_actor = apiActorToPage ''*'' (JObj [(''id'', JStr ''x''), (''name'', JStr ''X''), (''iocCount'', JNum 10),
     (''ttps'', JArr [JStr ''T1566'', JStr ''T1059''])])"

theorem actor_graph_witness: "sum_list (ioc_split (ca_iocCount sample_actor)) = 10"
proof -
  have "ca_iocCount sample_actor = of_nat 10" by (simp add: sample_actor_def apiActorToPage_def num_or_def rule_num_def obj_get_def)
  from actor_graph [OF this] show ?thesis by simp
qed

subsection \<open>The heat of the sectors, exactly\<close>

text \<open>The names of the actors that target a sector, each once.\<close>

definition sector_names :: "cti_actor list \<Rightarrow> string \<Rightarrow> string list" where
  "sector_names actors s = uniq (map ca_name (filter (\<lambda>a. s \<in> set (ca_sectors a)) actors))"

lemma obj_get_sector_add:
  "obj_get (fold (sector_add a) ss m) s = (if s \<in> set ss
     then Some (set_insert (ca_name a) (case obj_get m s of Some ns \<Rightarrow> ns | None \<Rightarrow> [])) else obj_get m s)"
proof (induction ss arbitrary: m)
  case (Cons x ss)
  have i: "set_insert n (set_insert n ns) = set_insert n ns" for n :: string and ns by (simp add: set_insert_def)
  have g: "obj_get (sector_add a y m) t = (if t = y then Some (set_insert (ca_name a) (case obj_get m y of Some ns \<Rightarrow> ns | None \<Rightarrow> []))
      else obj_get m t)" for y t by (simp add: sector_add_def)
  show ?case
    by (cases "x = s"; cases "s \<in> set ss") (simp_all add: Cons.IH g i)
qed simp

lemma obj_get_sectors:
  "obj_get (fold (\<lambda>a. fold (sector_add a) (ca_sectors a)) actors m) s
   = (let as = filter (\<lambda>a. s \<in> set (ca_sectors a)) actors in
      if as = [] then obj_get m s else Some (fold set_insert (map ca_name as) (case obj_get m s of Some ns \<Rightarrow> ns | None \<Rightarrow> [])))"
proof (induction actors arbitrary: m)
  case (Cons a actors)
  show ?case
    by (cases "s \<in> set (ca_sectors a)"; cases "filter (\<lambda>a. s \<in> set (ca_sectors a)) actors = []")
      (simp_all only: fold.simps comp_apply Cons.IH obj_get_sector_add Let_def filter.simps if_True if_False list.map option.case list.distinct not_False_eq_True simp_thms fold_simps id_apply)
qed (simp add: Let_def)

lemma distinct_sectors: "distinct (map fst m) \<Longrightarrow> distinct (map fst (fold (\<lambda>a. fold (sector_add a) (ca_sectors a)) actors m))"
proof (induction actors arbitrary: m)
  case (Cons a actors)
  have "distinct (map fst m) \<Longrightarrow> distinct (map fst (fold (sector_add a) ss m))" for ss m
    by (induction ss arbitrary: m) (simp_all add: sector_add_def distinct_obj_set)
  with Cons show ?case by simp
qed simp

lemma sector_rows: "(s, ns) \<in> set (sector_map actors) \<Longrightarrow> ns = sector_names actors s \<and> ns \<noteq> []"
proof -
  assume "(s, ns) \<in> set (sector_map actors)"
  moreover have d: "distinct (map fst (sector_map actors))" unfolding sector_map_def by (rule distinct_sectors) simp
  ultimately have "obj_get (sector_map actors) s = Some ns" by (simp add: obj_get_def map_of_is_SomeI)
  then have n: "ns = sector_names actors s" "filter (\<lambda>a. s \<in> set (ca_sectors a)) actors \<noteq> []"
    by (auto simp: sector_map_def obj_get_sectors Let_def sector_names_def uniq_def split: if_splits)
  from n(2) have "set ns \<noteq> {}" unfolding n(1) sector_names_def by (auto simp: filter_empty_conv)
  with n show ?thesis by auto
qed

text \<open>C40: the panel shows at most eight sectors, each once, with all actors that target it, most targeted
  first; the scores are percentages and the first row reads 100.\<close>

theorem sector_heat:
  "length (buildSectorTargeting actors) \<le> 8 \<and> distinct (map fst (buildSectorTargeting actors))
   \<and> list_all (\<lambda>(s, score, ns). ns = sector_names actors s \<and> ns \<noteq> [] \<and> 0 \<le> score \<and> score \<le> 100) (buildSectorTargeting actors)
   \<and> sorted_wrt (\<ge>) (map (\<lambda>(s, score, ns). length ns) (buildSectorTargeting actors))
   \<and> (case buildSectorTargeting actors of [] \<Rightarrow> True | (s, score, ns) # rest \<Rightarrow> score = 100)"
proof -
  define rows where "rows = sector_map actors"
  define m where "m = max_of 1 (map (\<lambda>(s, ns). length ns) rows)"
  define srt where "srt = sort_key (\<lambda>(s, ns). - int (length ns)) rows"
  define f where "f = (\<lambda>(s :: string, ns :: string list). (s, js_round (js_mul (js_div (of_nat (length ns)) (of_nat m)) 100), ns))"
  have srt: "js_sort (\<lambda>(s, a) (t, b). of_nat (length b) - of_nat (length a)) rows = srt"
    unfolding srt_def by (rule js_sort_key) auto
  then have b: "buildSectorTargeting actors = map f (take 8 srt)"
    by (simp add: buildSectorTargeting_def rows_def m_def f_def Let_def)
  have in_rows: "x \<in> set rows" if "x \<in> set (take 8 srt)" for x
    using that in_set_takeD [of x 8 srt] by (simp add: srt_def)
  have le: "length ns \<le> m" "0 < m" if "(s, ns) \<in> set rows" for s ns
  proof -
    have "length ns \<in> set (map (\<lambda>(s, ns). length ns) rows)" using that by force
    then show "length ns \<le> m" unfolding m_def by (rule max_of_ge(2))
    show "0 < m" using max_of_ge(1) [of 1 "map (\<lambda>(s, ns). length ns) rows"] by (simp add: m_def)
  qed
  have score: "0 \<le> js_round (js_mul (js_div (of_nat (length ns)) (of_nat m)) 100) \<and> js_round (js_mul (js_div (of_nat (length ns)) (of_nat m)) 100) \<le> 100"
    if "(s, ns) \<in> set rows" for s ns
    using js_percent_bounds [of "of_nat (length ns)" "of_nat m"] le [OF that] by (intro js_round_bounds) simp_all
  have "distinct (map fst rows)" unfolding rows_def sector_map_def by (rule distinct_sectors) simp
  then have "distinct (map fst srt)" unfolding srt [symmetric] by simp
  then have "distinct (map fst (map f (take 8 srt)))" 
    by (simp add: f_def comp_def split_def take_map [symmetric] distinct_take)
  moreover have "list_all (\<lambda>(s, score, ns). ns = sector_names actors s \<and> ns \<noteq> [] \<and> 0 \<le> score \<and> score \<le> 100) (map f (take 8 srt))"
    using in_rows score sector_rows [of _ _ actors] by (force simp: list_all_iff f_def rows_def)
  moreover have "sorted_wrt (\<ge>) (map (\<lambda>(s, score, ns). length ns) (map f (take 8 srt)))"
  proof -
    have "sorted (map (\<lambda>(s, ns). - int (length ns)) srt)" by (simp add: srt_def)
    then have "sorted_wrt (\<lambda>x y. - int (length (snd x)) \<le> - int (length (snd y))) (take 8 srt)"
      by (simp add: sorted_map sorted_wrt_take split_def)
    then show ?thesis by (simp add: sorted_wrt_map f_def split_def)
  qed
  moreover have "case map f (take 8 srt) of [] \<Rightarrow> True | (s, score, ns) # rest \<Rightarrow> score = 100"
  proof (cases srt)
    case (Cons x xs)
    obtain s ns where x: "x = (s, ns)" by (cases x)
    have "\<forall>y \<in> set rows. length (snd y) \<le> length ns"
    proof -
      have "sorted (map (\<lambda>(s, ns). - int (length ns)) srt)" by (simp add: srt_def)
      moreover have "set rows = set srt" by (simp add: srt_def)
      ultimately show ?thesis by (auto simp: Cons x split_def)
    qed
    moreover have r: "(s, ns) \<in> set rows" using Cons x by (metis list.set_intros(1) set_sort srt_def)
    moreover have "ns \<noteq> []" using r sector_rows unfolding rows_def by blast
    moreover have "m = 1 \<or> m \<in> length ` snd ` set rows"
      using max_of_mem [of 1 "map (\<lambda>(s, ns). length ns) rows"] by (force simp: m_def split_def)
    ultimately have "m \<le> length ns" by (auto simp: Suc_le_eq)
    then have "m = length ns" using le(1) [OF r] by simp
    then show ?thesis using le [OF r] Cons x js_round_of_int [of 100] by (simp add: f_def js_div_def js_mul_def)
  qed simp
  ultimately show ?thesis unfolding b by simp
qed

subsection \<open>The brief, the hunts and the page\<close>

text \<open>The brief has the four active actors with the most indicators, ties in the order of the library.
  When neither the actors nor the summary can be loaded it says that nothing has been imported.\<close>

theorem brief_spec:
  "briefs actors = take 4 (sort_key (\<lambda>a. - ca_iocCount a) (filter ca_active actors))
   \<and> (brief_empty loc actors None = HasBriefs) = (filter ca_active actors \<noteq> [])
   \<and> brief_empty loc [] None = NoIndicators"
proof -
  have b: "briefs actors = take 4 (sort_key (\<lambda>a. - ca_iocCount a) (filter ca_active actors))" for actors
    by (simp add: briefs_def js_sort_desc)
  have "length (sort_key (\<lambda>a. - ca_iocCount a) xs) = length xs" for xs by simp
  then have "(briefs actors = []) = (filter ca_active actors = [])"
    unfolding b by (metis length_0_conv take_eq_Nil zero_neq_numeral)
  then show ?thesis by (simp add: brief_empty_def b)
qed

text \<open>Each family of the list leads to the feeds page narrowed to that family, in lower case as the
  store has it, and its loads ask for it.\<close>

theorem brief_family_lands:
  assumes "f \<noteq> []"
  shows "family_of (url_query (brief_family_href f)) = Some (toLowerCase f)
    \<and> fd_calls (feeds_mount (url_query (brief_family_href f))) = load_calls None @ load_calls (Some (toLowerCase f))"
proof -
  have "url_query (brief_family_href f) = ''family='' @ encodeURIComponent f"
    using url_query_path [of "''/dashboard/feeds''" "''family='' @ encodeURIComponent f"] by (simp add: brief_family_href_def)
  moreover have "parse_params (''family='' @ encodeURIComponent f) = [(''family'', f)]"
    using query_pairs [of "[(''family'', f)]"] by (simp add: is_alpha_def is_lower_def code_def)
  ultimately have "family_of (url_query (brief_family_href f)) = Some (toLowerCase f)"
    using assms by (simp add: family_of_def query_param_def obj_get_def)
  then show ?thesis by (simp add: feeds_mount_def)
qed

theorem brief_family_lands_witness: "family_of (url_query (brief_family_href ''Emotet'')) = Some ''emotet''"
proof -
  have "toLowerCase ''Emotet'' = ''emotet''" by code_simp
  then show ?thesis using brief_family_lands [of "''Emotet''"] by simp
qed

lemma hunt_modal_inv: "modal_inv HUNT_FIELDS (hp_modal p) \<Longrightarrow> modal_inv HUNT_FIELDS (hp_modal (fold hunt_step ops p))"
proof (induction ops arbitrary: p)
  case (Cons op ops)
  have "modal_inv HUNT_FIELDS (hp_modal (hunt_step op p))"
    using Cons.prems modal_inv_step [of HUNT_FIELDS "hp_modal p" "MdAnswer _ True"]
    by (cases op) (auto simp: modal_inv_step split: option.split)
  then show ?case using Cons.IH by simp
qed simp

text \<open>Whatever is typed and clicked, a hunt is created under a name that is not blank.\<close>

theorem hunts_named:
  "list_all (\<lambda>vs. case obj_get vs ''name'' of Some t \<Rightarrow> trim t \<noteq> [] | None \<Rightarrow> False) (mh_sent (hp_modal (fold hunt_step ops hunt_init)))
   \<and> hunt_requests (fold hunt_step ops hunt_init)
     = fetchCtiHunts # map (\<lambda>vs. createCtiHunt (hunt_body vs)) (mh_sent (hp_modal (fold hunt_step ops hunt_init)))"
  using hunt_modal_inv [of hunt_init ops] modal_inv_init [of HUNT_FIELDS]
  by (simp add: hunt_init_def modal_inv_def list_all_iff canSubmit_def HUNT_FIELDS_def hunt_requests_def)

definition cti_inv :: "cti_page \<Rightarrow> bool" where
  "cti_inv s \<longleftrightarrow> (case ct_selected s of None \<Rightarrow> True | Some a \<Rightarrow> a \<in> set (ct_actors s)) \<and> (ct_brief s = None \<longleftrightarrow> ct_power s)
     \<and> length (ct_iocTypes s) \<le> 4"

lemma cti_inv_step: "cti_inv s \<Longrightarrow> cti_inv (cti_step globe op s)"
  by (cases op) (auto simp: cti_inv_def ioc_tiles_def Let_def dest: find_Some_set split: option.splits list.splits)

text \<open>The selected actor is always one of the list, the brief is there exactly in the normal mode, and
  four kinds of indicators are counted at most.\<close>

theorem cti_page_invariant: "cti_inv (fold (cti_step globe) ops (cti_mount pw))"
proof -
  have "cti_inv s \<Longrightarrow> cti_inv (fold (cti_step globe) ops s)" for s by (induction ops arbitrary: s) (simp_all add: cti_inv_step)
  then show ?thesis by (simp add: cti_inv_def cti_mount_def)
qed

end
