(* ===== verification/ActorProfiles.thy ===== *)
theory ActorProfiles
  imports CtiPage
begin

text \<open>
  The actor profiles (\<open>app/dashboard/cti/actors/page.tsx\<close>): the library as mapped from the API, its
  filters, the assessment of an attribution, and the drawer with the detail it loads. The globe that
  stands for a missing flag is a parameter.
\<close>

subsection \<open>Actors\<close>

datatype actor_type = NationState | Cybercrime | Hacktivist

fun actor_type_text :: "actor_type \<Rightarrow> string" where
  "actor_type_text NationState = ''Nation-State''"
| "actor_type_text Cybercrime = ''Cybercrime''"
| "actor_type_text Hacktivist = ''Hacktivist''"

text \<open>The origin is passed through as it comes; \<open>None\<close> is a null.\<close>

record threat_actor =
  pa_id :: string
  pa_name :: string
  pa_aliases :: "string list"
  pa_origin :: "string option"
  pa_flag :: string
  pa_type :: actor_type
  pa_motivations :: "string list"
  pa_sophistication :: rat
  pa_threatLevel :: string
  pa_sectors :: "string list"
  pa_campaignCount :: rat
  pa_firstSeen :: string
  pa_lastSeen :: "string option"
  pa_active :: bool
  pa_malware :: "string list"
  pa_ttps :: "string list"
  pa_iocCount :: rat
  pa_description :: string
  pa_campaigns :: "string list"

definition originLabel :: "string \<Rightarrow> string" where
  "originLabel o' = (if trim o' \<noteq> [] then trim o' else ''origin not established'')"

definition originFlag :: "string \<Rightarrow> string \<Rightarrow> string" where
  "originFlag globe f = (if trim f \<noteq> [] then trim f else globe)"

definition type_of :: "string \<Rightarrow> actor_type" where
  "type_of t = (if toLowerCase t = ''nation-state'' then NationState else if toLowerCase t = ''cybercrime'' then Cybercrime else Hacktivist)"

definition capitalised :: "string \<Rightarrow> string" where
  "capitalised m = map to_upper (take 1 m) @ toLowerCase (drop 1 m)"

fun motivations_of :: "json \<Rightarrow> string list" where
  "motivations_of (JArr vs) = concat (map (\<lambda>v. case v of JStr m \<Rightarrow> [capitalised m] | _ \<Rightarrow> []) vs)"
| "motivations_of v = []"

text \<open>\<open>v?.split('-')[0]\<close>.\<close>

definition year_of :: "json \<Rightarrow> string option" where
  "year_of v = (case v of JUndef \<Rightarrow> None | JNull \<Rightarrow> None | _ \<Rightarrow> Some (hd (split_char (CHR ''-'') (js_string v))))"

definition profile_of :: "string \<Rightarrow> json \<Rightarrow> threat_actor" where
  "profile_of globe a =
     \<lparr>pa_id = js_string (json_get ''id'' a), pa_name = js_string (json_get ''name'' a), pa_aliases = texts_of (json_get ''aliases'' a),
      pa_origin = (case json_get ''origin'' a of JUndef \<Rightarrow> None | JNull \<Rightarrow> None | v \<Rightarrow> Some (js_string v)),
      pa_flag = (if truthy (json_get ''flag'' a) then js_string (json_get ''flag'' a) else globe),
      pa_type = type_of (text_or (json_get ''type'' a) []), pa_motivations = motivations_of (json_get ''motivations'' a),
      pa_sophistication = rule_num (json_get ''sophistication'' a), pa_threatLevel = text_or (json_get ''threatLevel'' a) ''high'',
      pa_sectors = texts_of (json_get ''sectors'' a),
      pa_campaignCount = num_or (json_get ''campaignCount'' a)
        (case json_get ''campaigns'' a of JArr cs \<Rightarrow> of_nat (length cs) | _ \<Rightarrow> 0),
      pa_firstSeen = (case year_of (json_get ''firstSeen'' a) of Some y \<Rightarrow> y | None \<Rightarrow> ''Unknown''),
      pa_lastSeen = year_of (json_get ''lastSeen'' a), pa_active = truthy (json_get ''active'' a),
      pa_malware = texts_of (json_get ''malware'' a), pa_ttps = texts_of (json_get ''ttps'' a),
      pa_iocCount = num_or (json_get ''iocCount'' a) 0, pa_description = js_string (json_get ''description'' a),
      pa_campaigns = texts_of (json_get ''campaigns'' a)\<rparr>"

definition MOTIVATION_CFG :: "(string, string) obj" where
  "MOTIVATION_CFG = [(''Espionage'', tk Violet), (''Financial'', tk Safe), (''Hacktivism'', tk Amber),
     (''Destruction'', tk Threat), (''Disruption'', tk Threat)]"

definition motivation_color :: "string \<Rightarrow> string" where
  "motivation_color m = (case obj_get MOTIVATION_CFG m of Some c \<Rightarrow> c | None \<Rightarrow> ''#8A7DA3'')"

definition THREAT_CFG :: "(string, string \<times> string) obj" where
  "THREAT_CFG = [(''critical'', (tk Magenta, ''Critical'')), (''high'', (tk Threat, ''High'')), (''elevated'', (tk Amber, ''Elevated''))]"

definition threatCfg :: "string \<Rightarrow> string \<times> string" where
  "threatCfg lvl = (case obj_get THREAT_CFG lvl of Some c \<Rightarrow> c | None \<Rightarrow> (tk Amber, ''Elevated''))"

definition soph_bars :: "rat \<Rightarrow> string \<Rightarrow> (int \<times> string) list" where
  "soph_bars level color = map (\<lambda>n. (6 + n * 2, if of_int n \<le> level then color else ''rgba(255,255,255,0.10)'')) [1, 2, 3, 4, 5]"

text \<open>The years of an actor: from the first to now, to the last, or the first alone.\<close>

definition active_years :: "threat_actor \<Rightarrow> string \<times> string option" where
  "active_years a = (pa_firstSeen a, if pa_active a then Some ''present''
     else case pa_lastSeen a of Some y \<Rightarrow> if y \<noteq> [] \<and> y \<noteq> pa_firstSeen a then Some y else None | None \<Rightarrow> None)"

definition technique_href :: "string \<Rightarrow> string" where
  "technique_href t = ''https://attack.mitre.org/techniques/'' @ takeWhile (\<lambda>c. c \<noteq> CHR ''.'') t
     @ (case dropWhile (\<lambda>c. c \<noteq> CHR ''.'') t of [] \<Rightarrow> [] | c # r \<Rightarrow> CHR ''/'' # r) @ ''/''"

subsection \<open>The detail and the attribution\<close>

record actor_malware =
  am_family :: string
  am_label :: string
  am_indicators :: rat

record attack_profile =
  at_tracked :: bool
  at_id :: string
  at_techniques :: "nat option"
  at_campaigns :: nat

record actor_detail =
  ad_operated :: "actor_malware list"
  ad_reported :: "actor_malware list"
  ad_attack :: "attack_profile option"

definition campaign_count :: "threat_actor \<Rightarrow> actor_detail option \<Rightarrow> nat" where
  "campaign_count a d = (case d of Some x \<Rightarrow> (case ad_attack x of Some p \<Rightarrow> at_campaigns p | None \<Rightarrow> 0) | None \<Rightarrow> 0)
     + length (pa_campaigns a)"

datatype band = HighBand | ModerateBand | LowBand

definition origin_named :: "threat_actor \<Rightarrow> bool" where
  "origin_named a \<longleftrightarrow> (case pa_origin a of None \<Rightarrow> False | Some o' \<Rightarrow> o' \<noteq> []
     \<and> \<not> str_includes (toLowerCase (trim o')) ''unknown'' \<and> toLowerCase (trim o') \<notin> {''n/a'', ''na''})"

definition attack_ttps :: "threat_actor \<Rightarrow> attack_profile option \<Rightarrow> nat" where
  "attack_ttps a p = (case p of Some x \<Rightarrow> if at_tracked x then (case at_techniques x of Some n \<Rightarrow> n | None \<Rightarrow> 0) else length (pa_ttps a)
     | None \<Rightarrow> length (pa_ttps a))"

definition nat_text :: "nat \<Rightarrow> string" where "nat_text n = int_str (int n)"

definition attribution_reasons :: "threat_actor \<Rightarrow> attack_profile option \<Rightarrow> nat \<Rightarrow> string list" where
  "attribution_reasons a p campaigns =
     (if origin_named a then [''Named origin ('' @ the (pa_origin a) @ '')''] else [])
     @ (if length (pa_aliases a) \<ge> 2 then [nat_text (length (pa_aliases a)) @ '' cross-vendor aliases''] else [])
     @ (if attack_ttps a p \<ge> 3 then [case p of
           Some x \<Rightarrow> if at_tracked x then nat_text (attack_ttps a p) @ '' ATT&CK techniques mapped by MITRE ('' @ at_id x @ '')''
             else nat_text (attack_ttps a p) @ '' mapped ATT&CK techniques''
         | None \<Rightarrow> nat_text (attack_ttps a p) @ '' mapped ATT&CK techniques''] else [])
     @ (if length (pa_malware a) \<ge> 1 then [nat_text (length (pa_malware a)) @ '' attributed tool''
           @ (if length (pa_malware a) = 1 then [] else ''s'')] else [])
     @ (if campaigns \<ge> 1 then [nat_text campaigns @ '' documented campaign'' @ (if campaigns = 1 then [] else ''s'')] else [])"

definition attributionAssessment :: "threat_actor \<Rightarrow> attack_profile option \<Rightarrow> nat \<Rightarrow> band \<times> string list" where
  "attributionAssessment a p campaigns = (let rs = attribution_reasons a p campaigns in
     if length rs \<ge> 4 then (HighBand, rs) else if length rs \<ge> 2 then (ModerateBand, rs)
     else (LowBand, if rs \<noteq> [] then rs else [''Limited corroborating evidence on file'']))"

text \<open>The chips of the malware reported: what is not already a row, by the family's key.\<close>

definition family_key :: "string \<Rightarrow> string" where
  "family_key m = filter (\<lambda>c. \<not> is_space c \<and> c \<noteq> CHR ''-'') (toLowerCase m)"

definition malware_chips :: "threat_actor \<Rightarrow> actor_detail option \<Rightarrow> string list" where
  "malware_chips a d = (let seen = (case d of Some x \<Rightarrow> map am_family (ad_operated x) @ map am_family (ad_reported x) | None \<Rightarrow> []) in
     filter (\<lambda>m. family_key m \<notin> set seen) (pa_malware a))"

definition reported_section :: "threat_actor \<Rightarrow> actor_detail option \<Rightarrow> bool" where
  "reported_section a d \<longleftrightarrow> malware_chips a d \<noteq> [] \<or> (case d of Some x \<Rightarrow> ad_reported x \<noteq> [] | None \<Rightarrow> False)"

definition held_through :: "actor_detail option \<Rightarrow> rat" where
  "held_through d = (case d of Some x \<Rightarrow> js_sum (map am_indicators (ad_operated x)) | None \<Rightarrow> 0)"

definition activity_line :: "(rat \<Rightarrow> string) \<Rightarrow> threat_actor \<Rightarrow> actor_detail option \<Rightarrow> string" where
  "activity_line loc a d = (if pa_iocCount a > 0
     then loc (pa_iocCount a) @ '' indicators in this store are attributed to this group''
       @ (case d of Some x \<Rightarrow> if ad_operated x = [] then [] else '' - all of them through the ''
             @ join '', '' (map am_label (ad_operated x))
             @ (if length (ad_operated x) = 1 then '' family it operates'' else '' families it operates'') | None \<Rightarrow> [])
       @ (case pa_lastSeen a of Some y \<Rightarrow> if y \<noteq> [] then '', most recently asserted in '' @ y else [] | None \<Rightarrow> []) @ ''.''
     else ''Nothing in this store is attributed to this group.'')"

subsection \<open>The figures\<close>

definition PROFILE_KPIS :: "(string \<times> rat) list" where
  "PROFILE_KPIS = [(''Tracked Actors'', 47), (''Active Campaigns'', 12), (''Nation-State'', 23), (''Ransomware Groups'', 16)]"

record actor_summary =
  as_trackedActors :: rat
  as_activeCampaigns :: rat
  as_nationState :: rat
  as_cybercrime :: rat

definition profile_kpis :: "actor_summary option \<Rightarrow> (string \<times> rat) list" where
  "profile_kpis r = (case r of None \<Rightarrow> PROFILE_KPIS | Some s \<Rightarrow>
     let live = [(''Tracked Actors'', as_trackedActors s), (''Active Campaigns'', as_activeCampaigns s),
         (''Nation-State'', as_nationState s), (''Ransomware Groups'', as_cybercrime s)] in
     map (\<lambda>(l, v). (l, case obj_get live l of Some x \<Rightarrow> x | None \<Rightarrow> v)) PROFILE_KPIS)"

subsection \<open>The filters\<close>

record profile_filters =
  fl_search :: string
  fl_origin :: string
  fl_motivation :: string
  fl_type :: string
  fl_sector :: string
  fl_soph :: string

definition no_filters :: profile_filters where
  "no_filters = \<lparr>fl_search = [], fl_origin = ''all'', fl_motivation = ''all'', fl_type = ''all'', fl_sector = ''all'', fl_soph = ''all''\<rparr>"

text \<open>The fields the search looks into; a null origin has no text and breaks the page before.\<close>

definition search_fields :: "threat_actor \<Rightarrow> string list" where
  "search_fields a = [pa_name a] @ pa_aliases a @ [case pa_origin a of Some o' \<Rightarrow> o' | None \<Rightarrow> []] @ pa_malware a @ pa_sectors a"

definition actor_passes :: "profile_filters \<Rightarrow> threat_actor \<Rightarrow> bool" where
  "actor_passes f a \<longleftrightarrow>
     (if fl_origin f \<noteq> ''all'' \<and> pa_origin a \<noteq> Some (fl_origin f) then False
      else if fl_motivation f \<noteq> ''all'' \<and> fl_motivation f \<notin> set (pa_motivations a) then False
      else if fl_type f \<noteq> ''all'' \<and> actor_type_text (pa_type a) \<noteq> fl_type f then False
      else if fl_sector f \<noteq> ''all'' \<and> fl_sector f \<notin> set (pa_sectors a) then False
      else if fl_soph f \<noteq> ''all'' \<and> num_str (pa_sophistication a) \<noteq> fl_soph f then False
      else fl_search f = [] \<or> list_ex (\<lambda>t. str_includes (toLowerCase t) (toLowerCase (fl_search f))) (search_fields a))"

definition actors_filtered :: "profile_filters \<Rightarrow> threat_actor list \<Rightarrow> threat_actor list" where
  "actors_filtered f as = filter (actor_passes f) as"

text \<open>The options of the two lists made from the library, and the fixed ones. \<open>o.trim()\<close> and the search
  fail on a null origin.\<close>

definition origin_options :: "threat_actor list \<Rightarrow> string list" where
  "origin_options as = js_sort text_cmp (uniq (filter (\<lambda>o'. trim o' \<noteq> []) (map (\<lambda>a. case pa_origin a of Some o' \<Rightarrow> o' | None \<Rightarrow> []) as)))"

definition sector_options :: "threat_actor list \<Rightarrow> string list" where
  "sector_options as = js_sort text_cmp (uniq (concat (map pa_sectors as)))"

definition MOTIVATION_OPTIONS :: "string list" where
  "MOTIVATION_OPTIONS = [''all'', ''Espionage'', ''Financial'', ''Hacktivism'', ''Destruction'']"

definition page_breaks :: "threat_actor list \<Rightarrow> bool" where
  "page_breaks as \<longleftrightarrow> list_ex (\<lambda>a. pa_origin a = None) as"

subsection \<open>The page and its drawer\<close>

text \<open>The drawer is there while the selected id is one of the library; when the actor in it changes it
  drops what it shows and asks again, and an answer counts only for the request it belongs to.\<close>

record profiles_page =
  pp_filters :: profile_filters
  pp_selected :: "string option"
  pp_actors :: "threat_actor list"
  pp_summary :: "actor_summary option"
  pp_failed :: bool
  pp_panel :: "(nat \<times> string) option"
  pp_detail :: "(string \<times> actor_detail) option"
  pp_flight :: "(nat \<times> string) list"
  pp_asked :: nat
  pp_calls :: "call list"

definition profile_selected :: "profiles_page \<Rightarrow> threat_actor option" where
  "profile_selected s = (case pp_selected s of None \<Rightarrow> None | Some i \<Rightarrow> find (\<lambda>a. pa_id a = i) (pp_actors s))"

definition sync_panel :: "profiles_page \<Rightarrow> profiles_page" where
  "sync_panel s = (case profile_selected s of
     None \<Rightarrow> s\<lparr>pp_panel := None, pp_detail := None\<rparr>
   | Some a \<Rightarrow> if map_option snd (pp_panel s) = Some (pa_id a) then s
       else s\<lparr>pp_panel := Some (pp_asked s, pa_id a), pp_detail := None, pp_flight := pp_flight s @ [(pp_asked s, pa_id a)],
         pp_asked := Suc (pp_asked s), pp_calls := pp_calls s @ [fetchActor (pa_id a)]\<rparr>)"

definition profiles_mount :: "string \<Rightarrow> profiles_page" where
  "profiles_mount query =
     \<lparr>pp_filters = no_filters\<lparr>fl_search := (case query_param ''q'' query of Some q \<Rightarrow> q | None \<Rightarrow> [])\<rparr>,
      pp_selected = (case query_param ''actor'' query of Some i \<Rightarrow> if i = [] then None else Some i | None \<Rightarrow> None),
      pp_actors = [], pp_summary = None, pp_failed = False, pp_panel = None, pp_detail = None, pp_flight = [], pp_asked = 0,
      pp_calls = [fetchCtiSummary, fetchActors]\<rparr>"

datatype profiles_op = PrFilters profile_filters | PrSelect string | PrClose | PrActors "json list option"
  | PrSummary "actor_summary option" | PrDetail nat "actor_detail option"

fun profiles_step :: "string \<Rightarrow> profiles_op \<Rightarrow> profiles_page \<Rightarrow> profiles_page" where
  "profiles_step globe (PrFilters f) s = s\<lparr>pp_filters := f\<rparr>"
| "profiles_step globe (PrSelect i) s = sync_panel (s\<lparr>pp_selected := Some i\<rparr>)"
| "profiles_step globe PrClose s = sync_panel (s\<lparr>pp_selected := None\<rparr>)"
| "profiles_step globe (PrActors r) s = (case r of
     Some xs \<Rightarrow> sync_panel (s\<lparr>pp_actors := map (profile_of globe) xs\<rparr>) | None \<Rightarrow> s\<lparr>pp_failed := True\<rparr>)"
| "profiles_step globe (PrSummary r) s = (case r of Some x \<Rightarrow> s\<lparr>pp_summary := Some x\<rparr> | None \<Rightarrow> s)"
| "profiles_step globe (PrDetail n r) s = (case obj_get (pp_flight s) n of None \<Rightarrow> s
     | Some i \<Rightarrow> let s' = s\<lparr>pp_flight := filter (\<lambda>(m, j). m \<noteq> n) (pp_flight s)\<rparr> in
         case r of Some d \<Rightarrow> if map_option fst (pp_panel s) = Some n then s'\<lparr>pp_detail := Some (i, d)\<rparr> else s' | None \<Rightarrow> s')"

definition drawer_detail :: "profiles_page \<Rightarrow> actor_detail option" where
  "drawer_detail s = map_option snd (pp_detail s)"

definition profiles_view :: "profiles_page \<Rightarrow> string \<times> threat_actor list" where
  "profiles_view s = (let fs = actors_filtered (pp_filters s) (pp_actors s) in
     (nat_text (length fs) @ '' of '' @ nat_text (length (pp_actors s)) @ '' actors'', if pp_failed s then [] else fs))"

subsection \<open>No option of the lists is a dead end\<close>

text \<open>Every origin and every sector offered as a filter shows at least one actor, and each is offered
  once; the fixed list of motivations leaves out one that the page has a colour for.\<close>

theorem profile_options_live:
  "list_all (\<lambda>x. actors_filtered (no_filters\<lparr>fl_origin := x\<rparr>) as \<noteq> []) (origin_options as)
   \<and> list_all (\<lambda>x. actors_filtered (no_filters\<lparr>fl_sector := x\<rparr>) as \<noteq> []) (sector_options as)
   \<and> distinct (origin_options as) \<and> distinct (sector_options as)
   \<and> list_all (\<lambda>x. trim x \<noteq> []) (origin_options as)
   \<and> obj_get MOTIVATION_CFG ''Disruption'' = Some (tk Threat) \<and> ''Disruption'' \<notin> set MOTIVATION_OPTIONS"
proof -
  have "trim [] = []" by (simp add: trim_def)
  then have "\<exists>a \<in> set as. pa_origin a = Some x" if "x \<in> set (origin_options as)" for x
    using that by (auto simp: origin_options_def split: option.splits)
  then have "actors_filtered (no_filters\<lparr>fl_origin := x\<rparr>) as \<noteq> []" if "x \<in> set (origin_options as)" for x
    using that by (force simp: actors_filtered_def actor_passes_def no_filters_def filter_empty_conv)
  moreover have "actors_filtered (no_filters\<lparr>fl_sector := x\<rparr>) as \<noteq> []" if "x \<in> set (sector_options as)" for x
    using that by (force simp: sector_options_def actors_filtered_def actor_passes_def no_filters_def filter_empty_conv)
  moreover have "distinct (js_sort text_cmp (uniq xs))" for xs
    using distinct_js_sort [of id text_cmp "uniq xs"] by simp
  ultimately show ?thesis
    by (simp add: list_all_iff origin_options_def sector_options_def MOTIVATION_CFG_def MOTIVATION_OPTIONS_def obj_get_def)
qed

subsection \<open>The attribution is its evidence\<close>

fun band_rank :: "band \<Rightarrow> nat" where
  "band_rank LowBand = 0" | "band_rank ModerateBand = 1" | "band_rank HighBand = 2"

text \<open>The assessment always names a reason, at most five, and the band is decided by their number; more
  campaigns or more malware never lower it, nothing on file is Low with the reason that says so.\<close>

theorem attribution_spec:
  "snd (attributionAssessment a p c) \<noteq> [] \<and> length (attribution_reasons a p c) \<le> 5
   \<and> (fst (attributionAssessment a p c) = HighBand) = (length (attribution_reasons a p c) \<ge> 4)
   \<and> (fst (attributionAssessment a p c) = LowBand) = (length (attribution_reasons a p c) < 2)
   \<and> band_rank (fst (attributionAssessment a p c)) \<le> band_rank (fst (attributionAssessment a p (c + k)))
   \<and> band_rank (fst (attributionAssessment a p c)) \<le> band_rank (fst (attributionAssessment (a\<lparr>pa_malware := pa_malware a @ ms\<rparr>) p c))"
proof -
  have l: "length (attribution_reasons a p c) = of_bool (origin_named a) + of_bool (length (pa_aliases a) \<ge> 2)
      + of_bool (attack_ttps a p \<ge> 3) + of_bool (length (pa_malware a) \<ge> 1) + of_bool (c \<ge> 1)" for a c
    by (simp add: attribution_reasons_def)
  have named: "origin_named (a\<lparr>pa_malware := x\<rparr>) = origin_named a" "attack_ttps (a\<lparr>pa_malware := x\<rparr>) p = attack_ttps a p" for x
    by (simp_all add: origin_named_def attack_ttps_def split: option.split)
  have b: "fst (attributionAssessment a p c) = (let n = length (attribution_reasons a p c) in
      if n \<ge> 4 then HighBand else if n \<ge> 2 then ModerateBand else LowBand)" for a c
    by (simp add: attributionAssessment_def Let_def)
  have m: "band_rank (fst (attributionAssessment a p c)) \<le> band_rank (fst (attributionAssessment a' p c'))"
    if "length (attribution_reasons a p c) \<le> length (attribution_reasons a' p c')" for a a' c c'
    unfolding b using that by (simp add: Let_def)
  have "length (attribution_reasons a p c) \<le> length (attribution_reasons a p (c + k))" unfolding l by simp
  moreover have "length (attribution_reasons a p c) \<le> length (attribution_reasons (a\<lparr>pa_malware := pa_malware a @ ms\<rparr>) p c)"
    unfolding l named by simp
  ultimately have "band_rank (fst (attributionAssessment a p c)) \<le> band_rank (fst (attributionAssessment a p (c + k)))"
    "band_rank (fst (attributionAssessment a p c)) \<le> band_rank (fst (attributionAssessment (a\<lparr>pa_malware := pa_malware a @ ms\<rparr>) p c))"
    by (auto intro!: m)
  moreover have "length (attribution_reasons a p c) \<le> 5" unfolding l by simp
  moreover have "snd (attributionAssessment a p c) \<noteq> []" by (auto simp: attributionAssessment_def Let_def)
  ultimately show ?thesis by (simp add: b Let_def)
qed

subsection \<open>The drawer shows the detail of its own actor\<close>

definition flight_ok :: "profiles_page \<Rightarrow> bool" where
  "flight_ok s \<longleftrightarrow> (\<forall>(m, j) \<in> set (pp_flight s). m < pp_asked s) \<and> distinct (map fst (pp_flight s))
     \<and> (case pp_panel s of None \<Rightarrow> pp_detail s = None
        | Some (n, i) \<Rightarrow> n < pp_asked s \<and> (\<forall>j. (n, j) \<in> set (pp_flight s) \<longrightarrow> j = i)
            \<and> (case pp_detail s of None \<Rightarrow> True | Some (j, d) \<Rightarrow> j = i))"

definition profiles_inv :: "profiles_page \<Rightarrow> bool" where
  "profiles_inv s \<longleftrightarrow> flight_ok s \<and> map_option snd (pp_panel s) = map_option pa_id (profile_selected s)"

lemma flight_ok_frame [simp]:
  "flight_ok (s\<lparr>pp_filters := f\<rparr>) = flight_ok s" "flight_ok (s\<lparr>pp_summary := m\<rparr>) = flight_ok s"
  "flight_ok (s\<lparr>pp_failed := b\<rparr>) = flight_ok s" "flight_ok (s\<lparr>pp_selected := i\<rparr>) = flight_ok s"
  "flight_ok (s\<lparr>pp_actors := as\<rparr>) = flight_ok s"
  by (auto simp: flight_ok_def split: option.splits)

lemma profile_selected_frame [simp]:
  "profile_selected (s\<lparr>pp_filters := f\<rparr>) = profile_selected s" "profile_selected (s\<lparr>pp_summary := m\<rparr>) = profile_selected s"
  "profile_selected (s\<lparr>pp_failed := b\<rparr>) = profile_selected s" "profile_selected (s\<lparr>pp_panel := p\<rparr>) = profile_selected s"
  "profile_selected (s\<lparr>pp_detail := d\<rparr>) = profile_selected s" "profile_selected (s\<lparr>pp_flight := q\<rparr>) = profile_selected s"
  "profile_selected (s\<lparr>pp_asked := n\<rparr>) = profile_selected s" "profile_selected (s\<lparr>pp_calls := c\<rparr>) = profile_selected s"
  by (simp_all add: profile_selected_def split: option.split)

lemma sync_inv: "flight_ok s \<Longrightarrow> profiles_inv (sync_panel s)"
proof (cases "profile_selected s")
  case None
  assume "flight_ok s"
  then show ?thesis using None by (auto simp: profiles_inv_def flight_ok_def sync_panel_def)
next
  case (Some a)
  assume ok: "flight_ok s"
  have fresh: "pp_asked s \<notin> fst ` set (pp_flight s)" using ok by (auto simp: flight_ok_def)
  then show ?thesis using ok Some
    by (cases "map_option snd (pp_panel s) = Some (pa_id a)")
      (auto simp: profiles_inv_def flight_ok_def sync_panel_def less_Suc_eq)
qed

lemma profiles_inv_answer:
  assumes "profiles_inv s"
  shows "profiles_inv (profiles_step globe (PrDetail n r) s)"
proof (cases "obj_get (pp_flight s) n")
  case (Some i)
  then have i: "(n, i) \<in> set (pp_flight s)" by (auto simp: obj_get_def dest: map_of_SomeD)
  have d: "distinct (map fst (filter P (pp_flight s)))" for P
    using assms by (simp add: profiles_inv_def flight_ok_def distinct_map_filter)
  show ?thesis
  proof (cases r)
    case None
    then show ?thesis using assms Some d by (auto simp: profiles_inv_def flight_ok_def Let_def split: option.splits)
  next
    case (Some x)
    with \<open>obj_get (pp_flight s) n = Some i\<close> show ?thesis using assms i d
      by (cases "map_option fst (pp_panel s) = Some n") (auto simp: profiles_inv_def flight_ok_def Let_def split: option.splits)
  qed
qed (use assms in simp)

lemma profiles_inv_step: "profiles_inv s \<Longrightarrow> profiles_inv (profiles_step globe op s)"
proof (cases op)
  case (PrDetail n r)
  assume "profiles_inv s"
  then show ?thesis unfolding PrDetail by (rule profiles_inv_answer)
qed (auto simp: profiles_inv_def [of s] intro!: sync_inv split: option.split, auto simp: profiles_inv_def)

lemma profiles_inv_run: "profiles_inv s \<Longrightarrow> profiles_inv (fold (profiles_step globe) ops s)"
  by (induction ops arbitrary: s) (simp_all add: profiles_inv_step)

text \<open>C39: whoever is selected, closed and selected again while answers are under way, the drawer never shows
  the detail of another actor than the one it is open on, and shows none when it is closed.\<close>

theorem drawer_own_detail:
  "case pp_detail (fold (profiles_step globe) ops (profiles_mount query)) of None \<Rightarrow> True
   | Some (i, d) \<Rightarrow> map_option pa_id (profile_selected (fold (profiles_step globe) ops (profiles_mount query))) = Some i"
proof -
  have "profiles_inv (profiles_mount query)"
    by (simp add: profiles_inv_def flight_ok_def profiles_mount_def profile_selected_def split: option.split)
  then have inv: "profiles_inv (fold (profiles_step globe) ops (profiles_mount query))" (is "profiles_inv ?s")
    by (rule profiles_inv_run)
  then have "map_option pa_id (profile_selected ?s) = map_option snd (pp_panel ?s)" by (simp add: profiles_inv_def)
  moreover have "flight_ok ?s" using inv by (simp add: profiles_inv_def)
  ultimately show ?thesis
    unfolding flight_ok_def by (cases "pp_panel ?s"; cases "pp_detail ?s") (simp_all split: prod.splits)
qed

text \<open>The link of a family page opens the drawer of its operator as soon as the library is there.\<close>

theorem profile_link_opens:
  assumes "i \<noteq> []" "find (\<lambda>a. pa_id a = i) (map (profile_of globe) xs) = Some a"
  shows "profile_selected (profiles_step globe (PrActors (Some xs)) (profiles_mount (url_query (''/dashboard/cti/actors?actor='' @ encodeURIComponent i)))) = Some a
    \<and> pp_calls (profiles_step globe (PrActors (Some xs)) (profiles_mount (url_query (''/dashboard/cti/actors?actor='' @ encodeURIComponent i))))
      = [fetchCtiSummary, fetchActors, fetchActor i]"
proof -
  have "url_query (''/dashboard/cti/actors?actor='' @ encodeURIComponent i) = ''actor='' @ encodeURIComponent i"
    using url_query_path [of "''/dashboard/cti/actors''" "''actor='' @ encodeURIComponent i"] by simp
  moreover have "parse_params (''actor='' @ encodeURIComponent i) = [(''actor'', i)]"
    using query_pairs [of "[(''actor'', i)]"] by (simp add: is_alpha_def is_lower_def code_def)
  ultimately have m: "profiles_mount (url_query (''/dashboard/cti/actors?actor='' @ encodeURIComponent i))
      = (profiles_mount [])\<lparr>pp_selected := Some i\<rparr>"
    using assms(1) by (simp add: profiles_mount_def query_param_def obj_get_def parse_params_def)
  have "pa_id a = i" using find_Some_set [OF assms(2)] by simp
  then show ?thesis using assms(2) unfolding m
    by (simp add: sync_panel_def profile_selected_def profiles_mount_def)
qed

theorem profile_link_opens_witness:
  "map_option pa_name (profile_selected (profiles_step ''*'' (PrActors (Some [JObj [(''id'', JStr ''ta542''), (''name'', JStr ''TA542'')]]))
      (profiles_mount (url_query (''/dashboard/cti/actors?actor='' @ encodeURIComponent ''ta542''))))) = Some ''TA542''"
proof -
  let ?j = "JObj [(''id'', JStr ''ta542''), (''name'', JStr ''TA542'')]"
  have "find (\<lambda>a. pa_id a = ''ta542'') (map (profile_of ''*'') [?j]) = Some (profile_of ''*'' ?j)"
    by (simp add: profile_of_def obj_get_def)
  from profile_link_opens [OF _ this] show ?thesis by (simp add: profile_of_def obj_get_def)
qed

text \<open>Before the summary is there, and for good when it cannot be loaded, the figures are constants of the
  page; and the tile for ransomware groups shows the number of cybercrime actors.\<close>

theorem profile_figures:
  "profile_kpis None = [(''Tracked Actors'', 47), (''Active Campaigns'', 12), (''Nation-State'', 23), (''Ransomware Groups'', 16)]
   \<and> profile_kpis (Some s) = [(''Tracked Actors'', as_trackedActors s), (''Active Campaigns'', as_activeCampaigns s),
        (''Nation-State'', as_nationState s), (''Ransomware Groups'', as_cybercrime s)]"
  by (simp add: profile_kpis_def PROFILE_KPIS_def obj_get_def)

end
