(* ===== verification/PlaybookBuilder.thy ===== *)
theory PlaybookBuilder
  imports ApiClient Helpers CreateModal "HOL-Library.Multiset"
begin

text \<open>
  The visual builder of a playbook (\<open>components/dashboard/PlaybookBuilder.tsx\<close>): its palette, the
  steps on the canvas with their order and parameters, the versions it is seeded from, and what it
  saves, dry-runs and reverts. Step ids come from a counter of the module; the request for the
  versions is repeated whenever the page renders anew, because its \<open>playbook\<close> is a new object.
\<close>

subsection \<open>Steps\<close>

record raw_step =
  rs_kind :: "string option"
  rs_name :: string
  rs_params :: "(string, json) obj option"

record edit_step =
  sp_id :: nat
  sp_kind :: string
  sp_name :: string
  sp_params :: "(string, json) obj"

definition mkStep :: "nat \<Rightarrow> string \<Rightarrow> string \<Rightarrow> (string, json) obj \<Rightarrow> edit_step" where
  "mkStep n kind nm ps = \<lparr>sp_id = n, sp_kind = kind, sp_name = nm, sp_params = ps\<rparr>"

definition has_kind :: "raw_step \<Rightarrow> bool" where
  "has_kind s \<longleftrightarrow> (case rs_kind s of None \<Rightarrow> False | Some k \<Rightarrow> k \<noteq> [])"

text \<open>The steps with a kind, with new ids after the counter \<open>u\<close>.\<close>

definition edit_steps :: "nat \<Rightarrow> raw_step list \<Rightarrow> edit_step list" where
  "edit_steps u xs = map (\<lambda>(n, s). mkStep n (the (rs_kind s)) (rs_name s) (case rs_params s of Some ps \<Rightarrow> ps | None \<Rightarrow> []))
     (enumerate (Suc u) (filter has_kind xs))"

definition step_json :: "edit_step \<Rightarrow> json" where
  "step_json s = JObj [(''kind'', JStr (sp_kind s)), (''name'', JStr (sp_name s)), (''params'', JObj (sp_params s))]"

definition payloadSteps :: "edit_step list \<Rightarrow> json" where "payloadSteps xs = JArr (map step_json xs)"

text \<open>\<open>splice\<close> twice: the element is taken out and put in at its new place.\<close>

definition move_item :: "nat \<Rightarrow> nat \<Rightarrow> 'a list \<Rightarrow> 'a list" where
  "move_item from t xs = (let a = take from xs @ drop (Suc from) xs in take t a @ xs ! from # drop t a)"

subsection \<open>The builder\<close>

record step_kind =
  sk_kind :: string
  sk_label :: string
  sk_type :: string
  sk_params :: "string list"

record version =
  vn_version :: int
  vn_steps :: "raw_step list"
  vn_note :: string
  vn_author :: string
  vn_createdAt :: string

datatype builder_action = SaveAction | DryAction

text \<open>\<open>bd_asked\<close> are the requests for the versions under way, each with whether there were steps when it
  was sent; \<open>bd_saved\<close> counts the reloads of the page; \<open>bd_broken\<close> is the place of an
  undefined step on the canvas, on which the next render throws.\<close>

record builder =
  bd_playbook :: "string option"
  bd_name :: string
  bd_steps :: "edit_step list"
  bd_uid :: nat
  bd_palette :: "step_kind list"
  bd_drag :: "nat option"
  bd_action :: "builder_action option"
  bd_asked :: "bool list"
  bd_versions :: "version list"
  bd_showVersions :: bool
  bd_preview :: "json option"
  bd_error :: "string option"
  bd_reverts :: nat
  bd_saved :: nat
  bd_open :: bool
  bd_broken :: "nat option"
  bd_calls :: "call list"

text \<open>\<open>None\<close> creates a playbook; otherwise its id, its name and the steps of the page.\<close>

definition builder_mount :: "nat \<Rightarrow> (string \<times> string \<times> raw_step list) option \<Rightarrow> builder" where
  "builder_mount u pb = (let ss = (case pb of Some (i, nm, ss) \<Rightarrow> ss | None \<Rightarrow> []); es = edit_steps u ss in
     \<lparr>bd_playbook = (case pb of Some (i, nm, ss) \<Rightarrow> if i = [] then None else Some i | None \<Rightarrow> None),
      bd_name = (case pb of Some (i, nm, ss) \<Rightarrow> nm | None \<Rightarrow> []), bd_steps = es, bd_uid = u + length es, bd_palette = [],
      bd_drag = None, bd_action = None,
      bd_asked = (case pb of Some (i, nm, ss) \<Rightarrow> if i = [] then [] else [es \<noteq> []] | None \<Rightarrow> []),
      bd_versions = [], bd_showVersions = False, bd_preview = None, bd_error = None, bd_reverts = 0, bd_saved = 0,
      bd_open = True, bd_broken = None,
      bd_calls = fetchStepKinds # (case pb of Some (i, nm, ss) \<Rightarrow> if i = [] then [] else [fetchPlaybookVersions i] | None \<Rightarrow> [])\<rparr>)"

definition builder_rerender :: "builder \<Rightarrow> builder" where
  "builder_rerender b = (case bd_playbook b of None \<Rightarrow> b
     | Some i \<Rightarrow> b\<lparr>bd_asked := bd_asked b @ [bd_steps b \<noteq> []], bd_calls := bd_calls b @ [fetchPlaybookVersions i]\<rparr>)"

text \<open>An answer shows the versions; if there were no steps when it was asked for, the latest version
  replaces what is on the canvas.\<close>

definition versions_answered :: "nat \<Rightarrow> version list option \<Rightarrow> builder \<Rightarrow> builder" where
  "versions_answered n r b = (if n \<ge> length (bd_asked b) then b else
     let had = bd_asked b ! n; b = b\<lparr>bd_asked := take n (bd_asked b) @ drop (Suc n) (bd_asked b)\<rparr> in
     case r of None \<Rightarrow> b | Some vs \<Rightarrow> let b = b\<lparr>bd_versions := vs\<rparr> in
       case vs of [] \<Rightarrow> b
       | v # _ \<Rightarrow> if had \<or> vn_steps v = [] then b
           else let es = edit_steps (bd_uid b) (vn_steps v) in b\<lparr>bd_steps := es, bd_uid := bd_uid b + length es\<rparr>)"

definition step_meta :: "builder \<Rightarrow> string \<Rightarrow> step_kind option" where
  "step_meta b k = find (\<lambda>p. sk_kind p = k) (bd_palette b)"

definition builder_add :: "string \<Rightarrow> builder \<Rightarrow> builder" where
  "builder_add k b = b\<lparr>bd_uid := Suc (bd_uid b),
     bd_steps := bd_steps b @ [mkStep (Suc (bd_uid b)) k (case step_meta b k of Some m \<Rightarrow> sk_label m | None \<Rightarrow> k) []]\<rparr>"

text \<open>From past the end \<open>splice\<close> takes nothing out, and \<open>undefined\<close> is put in.\<close>

definition builder_move :: "nat \<Rightarrow> int \<Rightarrow> builder \<Rightarrow> builder" where
  "builder_move from t b = (if t < 0 \<or> t \<ge> int (length (bd_steps b)) then b
     else if from \<ge> length (bd_steps b) then b\<lparr>bd_broken := Some (nat t)\<rparr>
     else b\<lparr>bd_steps := move_item from (nat t) (bd_steps b)\<rparr>)"

definition builder_drop :: "nat \<Rightarrow> builder \<Rightarrow> builder" where
  "builder_drop i b = (case bd_drag b of None \<Rightarrow> b | Some from \<Rightarrow> (builder_move from (int i) b)\<lparr>bd_drag := None\<rparr>)"

definition on_step :: "nat \<Rightarrow> (edit_step \<Rightarrow> edit_step) \<Rightarrow> builder \<Rightarrow> builder" where
  "on_step i f b = b\<lparr>bd_steps := map (\<lambda>s. if sp_id s = i then f s else s) (bd_steps b)\<rparr>"

definition setParam :: "nat \<Rightarrow> string \<Rightarrow> string \<Rightarrow> builder \<Rightarrow> builder" where
  "setParam i k v = on_step i (\<lambda>s. s\<lparr>sp_params := obj_set k (JStr v) (sp_params s)\<rparr>)"

definition remove_step :: "nat \<Rightarrow> builder \<Rightarrow> builder" where
  "remove_step i b = b\<lparr>bd_steps := filter (\<lambda>s. sp_id s \<noteq> i) (bd_steps b)\<rparr>"

definition save_call :: "builder \<Rightarrow> call" where
  "save_call b = (case bd_playbook b of
     Some i \<Rightarrow> updatePlaybook i (JObj [(''steps'', payloadSteps (bd_steps b))])
   | None \<Rightarrow> createPlaybook (JObj [(''name'', JStr (trim (bd_name b))), (''steps'', payloadSteps (bd_steps b))]))"

definition builder_save :: "builder \<Rightarrow> builder" where
  "builder_save b = (if trim (bd_name b) = [] \<or> bd_steps b = [] \<or> bd_action b \<noteq> None then b
     else b\<lparr>bd_action := Some SaveAction, bd_error := None, bd_calls := bd_calls b @ [save_call b]\<rparr>)"

definition runDry :: "builder \<Rightarrow> builder" where
  "runDry b = (if bd_action b \<noteq> None then b else case bd_playbook b of
     None \<Rightarrow> b\<lparr>bd_error := Some ''Save the playbook first to dry-run it''\<rparr>
   | Some i \<Rightarrow> b\<lparr>bd_action := Some DryAction, bd_error := None, bd_calls := bd_calls b @ [dryRunPlaybook i None]\<rparr>)"

definition saved_and_closed :: "builder \<Rightarrow> builder" where
  "saved_and_closed b = b\<lparr>bd_saved := Suc (bd_saved b), bd_open := False\<rparr>"

text \<open>The answer to the action under way: the text of an error, or the run of a dry-run.\<close>

definition action_answered :: "string + json \<Rightarrow> builder \<Rightarrow> builder" where
  "action_answered r b = (case bd_action b of None \<Rightarrow> b
     | Some SaveAction \<Rightarrow> (case r of Inr v \<Rightarrow> saved_and_closed b | Inl m \<Rightarrow> b\<lparr>bd_error := Some m\<rparr>)\<lparr>bd_action := None\<rparr>
     | Some DryAction \<Rightarrow> (case r of Inr v \<Rightarrow> b\<lparr>bd_preview := Some v\<rparr> | Inl m \<Rightarrow> b\<lparr>bd_error := Some ''Dry-run failed''\<rparr>)\<lparr>bd_action := None\<rparr>)"

text \<open>A refused restore is swallowed: the builder closes in any case.\<close>

definition builder_revert :: "int \<Rightarrow> builder \<Rightarrow> builder" where
  "builder_revert v b = (case bd_playbook b of None \<Rightarrow> b
     | Some i \<Rightarrow> b\<lparr>bd_reverts := Suc (bd_reverts b), bd_calls := bd_calls b @ [revertPlaybook i (of_int v)]\<rparr>)"

definition revert_answered :: "bool \<Rightarrow> builder \<Rightarrow> builder" where
  "revert_answered ok b = (if bd_reverts b = 0 then b else saved_and_closed (b\<lparr>bd_reverts := bd_reverts b - 1\<rparr>))"

definition builder_version :: "builder \<Rightarrow> int" where
  "builder_version b = (case bd_versions b of v # _ \<Rightarrow> vn_version v | [] \<Rightarrow> 1)"

definition save_label :: "builder \<Rightarrow> string" where
  "save_label b = (if bd_playbook b = None then ''Create playbook'' else ''Save version'')"

subsection \<open>What it shows\<close>

definition TYPE_COLOR :: "(string, string) obj" where
  "TYPE_COLOR = [(''check'', tk Violet), (''decision'', tk Amber), (''action'', tk Threat), (''notify'', tk Safe), (''human'', tk Magenta)]"

definition palette_rows :: "builder \<Rightarrow> (string \<times> string) list" where
  "palette_rows b = map (\<lambda>p. (sk_label p, case obj_get TYPE_COLOR (sk_type p) of Some c \<Rightarrow> c | None \<Rightarrow> tk Violet)) (bd_palette b)"

record canvas_row =
  cv_type :: string
  cv_color :: string
  cv_name :: string
  cv_fields :: "(string \<times> string) list"
  cv_arrow :: bool

definition canvas_rows :: "builder \<Rightarrow> canvas_row list" where
  "canvas_rows b = map (\<lambda>(i, s). let m = step_meta b (sp_kind s); ty = (case m of Some k \<Rightarrow> sk_type k | None \<Rightarrow> ''action'') in
     \<lparr>cv_type = ty, cv_color = (case obj_get TYPE_COLOR ty of Some c \<Rightarrow> c | None \<Rightarrow> tk Threat), cv_name = sp_name s,
      cv_fields = map (\<lambda>p. (p, js_string (nullish (json_get p (JObj (sp_params s))) (JStr [])))) (case m of Some k \<Rightarrow> sk_params k | None \<Rightarrow> []),
      cv_arrow = (i + 1 < length (bd_steps b))\<rparr>) (enumerate 0 (bd_steps b))"

text \<open>The middle: the versions when they are asked for, otherwise the canvas, with a text when it is empty;
  \<open>when\<close> is the date as the reader has it.\<close>

datatype builder_middle = RenderThrows | VersionList "(string \<times> string \<times> string) list" | EmptyCanvas | CanvasRows "canvas_row list"

definition builder_shown :: "(string \<Rightarrow> string) \<Rightarrow> builder \<Rightarrow> builder_middle" where
  "builder_shown when b = (if bd_broken b \<noteq> None then RenderThrows
     else if bd_showVersions b \<and> bd_playbook b \<noteq> None
     then VersionList (map (\<lambda>v. (''v'' @ int_str (vn_version v), vn_note v @ '' - '' @ int_str (int (length (vn_steps v))) @ '' steps'',
            vn_author v @ '' - '' @ when (vn_createdAt v))) (bd_versions b))
     else if bd_steps b = [] then EmptyCanvas else CanvasRows (canvas_rows b))"

text \<open>The buttons of the foot, with whether each is disabled.\<close>

definition builder_foot :: "builder \<Rightarrow> (string \<times> bool) list" where
  "builder_foot b = (if bd_playbook b \<noteq> None then [(''Dry-run'', bd_action b \<noteq> None)] else [])
     @ [(save_label b, bd_action b \<noteq> None \<or> trim (bd_name b) = [] \<or> bd_steps b = [])]"

definition preview_rows :: "json \<Rightarrow> (string \<times> string) list" where
  "preview_rows run = (case json_get ''steps'' run of
     JArr ss \<Rightarrow> map (\<lambda>s. (js_string (json_get ''kind'' s), js_string (json_get ''detail'' s))) ss | _ \<Rightarrow> [])"

subsection \<open>Steps of the builder\<close>

datatype builder_op =
    BdPalette "step_kind list option" | BdRerender | BdVersions nat "version list option" | BdName string | BdAdd string
  | BdUp nat | BdDown nat | BdDrag nat | BdDrop nat | BdParam nat string string | BdRename nat string | BdRemove nat
  | BdSave | BdDry | BdAnswer "string + json" | BdShowVersions | BdRevert int | BdReverted bool | BdClose

fun builder_do :: "builder_op \<Rightarrow> builder \<Rightarrow> builder" where
  "builder_do (BdPalette r) b = (case r of Some ps \<Rightarrow> b\<lparr>bd_palette := ps\<rparr> | None \<Rightarrow> b)"
| "builder_do BdRerender b = builder_rerender b"
| "builder_do (BdVersions n r) b = versions_answered n r b"
| "builder_do (BdName t) b = b\<lparr>bd_name := t\<rparr>"
| "builder_do (BdAdd k) b = builder_add k b"
| "builder_do (BdUp i) b = (if i < length (bd_steps b) then builder_move i (int i - 1) b else b)"
| "builder_do (BdDown i) b = (if i < length (bd_steps b) then builder_move i (int i + 1) b else b)"
| "builder_do (BdDrag i) b = (if i < length (bd_steps b) then b\<lparr>bd_drag := Some i\<rparr> else b)"
| "builder_do (BdDrop i) b = builder_drop i b"
| "builder_do (BdParam i k v) b = setParam i k v b"
| "builder_do (BdRename i t) b = on_step i (\<lambda>s. s\<lparr>sp_name := t\<rparr>) b"
| "builder_do (BdRemove i) b = remove_step i b"
| "builder_do BdSave b = builder_save b"
| "builder_do BdDry b = runDry b"
| "builder_do (BdAnswer r) b = action_answered r b"
| "builder_do BdShowVersions b = b\<lparr>bd_showVersions := \<not> bd_showVersions b\<rparr>"
| "builder_do (BdRevert v) b = builder_revert v b"
| "builder_do (BdReverted ok) b = revert_answered ok b"
| "builder_do BdClose b = b\<lparr>bd_open := False\<rparr>"

text \<open>A render that throws takes the builder away, so that nothing more is done with it.\<close>

definition builder_step :: "builder_op \<Rightarrow> builder \<Rightarrow> builder" where
  "builder_step op b = (if bd_broken b \<noteq> None then b else builder_do op b)"

subsection \<open>Moving a step\<close>

lemma length_move_item [simp]: "from < length xs \<Longrightarrow> length (move_item from t xs) = length xs"
  by (simp add: move_item_def Let_def)

lemma mset_insert_at: "mset (take t xs @ x # drop t xs) = add_mset x (mset xs)"
proof -
  have "mset (take t xs) + mset (drop t xs) = mset xs" by (metis append_take_drop_id mset_append)
  then show ?thesis by simp
qed

lemma insert_at:
  assumes "t \<le> length xs"
  shows "(take t xs @ x # drop t xs) ! t = x"
    and "take t (take t xs @ x # drop t xs) @ drop (Suc t) (take t xs @ x # drop t xs) = xs"
  using assms by (simp_all add: nth_append)

lemma mset_move_item: "from < length xs \<Longrightarrow> mset (move_item from t xs) = mset xs"
  unfolding move_item_def Let_def mset_insert_at by (subst (3) id_take_nth_drop) simp_all

text \<open>A move keeps the steps and the order of all others, puts the moved one exactly at the new place,
  and moving it back undoes the move.\<close>

theorem move_item_spec:
  assumes "from < length xs" "t < length xs"
  shows "mset (move_item from t xs) = mset xs \<and> move_item from t xs ! t = xs ! from
    \<and> take t (move_item from t xs) @ drop (Suc t) (move_item from t xs) = take from xs @ drop (Suc from) xs
    \<and> move_item t from (move_item from t xs) = xs"
proof -
  let ?a = "take from xs @ drop (Suc from) xs"
  have l: "length ?a = length xs - 1" "t \<le> length ?a" using assms by simp_all
  then have at: "move_item from t xs ! t = xs ! from" unfolding move_item_def Let_def by (intro insert_at)
  have rest: "take t (move_item from t xs) @ drop (Suc t) (move_item from t xs) = ?a"
    using l unfolding move_item_def Let_def by (intro insert_at)
  have "move_item t from (move_item from t xs) = take from ?a @ xs ! from # drop from ?a"
    by (subst move_item_def) (simp only: Let_def rest at)
  also have "\<dots> = xs" using id_take_nth_drop [OF assms(1)] assms(1) by simp
  finally show ?thesis using at rest mset_move_item [OF assms(1)] by simp
qed

theorem move_item_spec_witness: "move_item 0 2 (move_item 2 0 [''a'', ''b'', ''c'']) = [''a'', ''b'', ''c'']"
  using move_item_spec [of 2 "[''a'', ''b'', ''c'']" 0] by simp

subsection \<open>What the builder keeps\<close>

definition step_ids :: "builder \<Rightarrow> nat list" where "step_ids b = map sp_id (bd_steps b)"

text \<open>A save names a step at least and, for a new playbook, a name.\<close>

definition save_ok :: "call \<Rightarrow> bool" where
  "save_ok c \<longleftrightarrow> c_method c = ''GET'' \<or> (\<exists>i al. c = dryRunPlaybook i al) \<or> (\<exists>i v. c = revertPlaybook i v)
     \<or> (\<exists>ss. ss \<noteq> [] \<and> ((\<exists>i. c = updatePlaybook i (JObj [(''steps'', payloadSteps ss)]))
          \<or> (\<exists>t. trim t \<noteq> [] \<and> c = createPlaybook (JObj [(''name'', JStr (trim t)), (''steps'', payloadSteps ss)]))))"

definition builder_inv :: "builder \<Rightarrow> bool" where
  "builder_inv b \<longleftrightarrow> distinct (step_ids b) \<and> (\<forall>i \<in> set (step_ids b). i \<le> bd_uid b) \<and> list_all save_ok (bd_calls b)"

lemma edit_steps_ids: "map sp_id (edit_steps u xs) = [Suc u..<Suc u + length (filter has_kind xs)]"
proof -
  have "map sp_id (edit_steps u xs) = map fst (enumerate (Suc u) (filter has_kind xs))"
    by (simp add: edit_steps_def mkStep_def split_def comp_def)
  then show ?thesis by (simp del: upt_Suc)
qed

lemma edit_steps_le: "s \<in> set (edit_steps u xs) \<Longrightarrow> sp_id s \<le> u + length (filter has_kind xs)"
proof -
  assume "s \<in> set (edit_steps u xs)"
  then have "sp_id s \<in> set (map sp_id (edit_steps u xs))" by simp
  then show ?thesis unfolding edit_steps_ids by auto
qed

lemma edit_steps_kinds: "map sp_kind (edit_steps u xs) = map (\<lambda>s. the (rs_kind s)) (filter has_kind xs)"
proof -
  have "map sp_kind (edit_steps u xs) = map (\<lambda>s. the (rs_kind s)) (map snd (enumerate (Suc u) (filter has_kind xs)))"
    by (simp add: edit_steps_def mkStep_def split_def comp_def del: map_snd_enumerate)
  then show ?thesis unfolding map_snd_enumerate .
qed

lemma length_edit_steps: "length (edit_steps u xs) = length (filter has_kind xs)"
  by (simp add: edit_steps_def)

lemma builder_inv_calls:
  "save_ok fetchStepKinds" "save_ok (fetchPlaybookVersions i)" "save_ok (dryRunPlaybook i al)" "save_ok (revertPlaybook i v)"
  by (auto simp: save_ok_def fetchStepKinds_def fetchPlaybookVersions_def)

lemma save_call_ok: "trim (bd_name b) \<noteq> [] \<Longrightarrow> bd_steps b \<noteq> [] \<Longrightarrow> save_ok (save_call b)"
  by (auto simp: save_ok_def save_call_def split: option.split)

lemma ids_on_step: "(\<And>s. sp_id (f s) = sp_id s) \<Longrightarrow> step_ids (on_step i f b) = step_ids b"
  by (simp add: step_ids_def on_step_def)

lemma builder_inv_seed:
  "list_all save_ok cs \<Longrightarrow> bd_calls b = cs \<Longrightarrow> bd_steps b = edit_steps u xs \<Longrightarrow> bd_uid b = u + length (edit_steps u xs) \<Longrightarrow> builder_inv b"
  by (auto simp: builder_inv_def step_ids_def edit_steps_ids length_edit_steps)

lemma builder_inv_versions: "builder_inv b \<Longrightarrow> builder_inv (versions_answered n r b)"
  by (auto simp: versions_answered_def Let_def builder_inv_def step_ids_def edit_steps_ids length_edit_steps dest: edit_steps_le split: option.splits list.splits)

lemma builder_inv_move: "builder_inv b \<Longrightarrow> builder_inv (builder_move from t b)"
proof -
  assume inv: "builder_inv b"
  show ?thesis
  proof (cases "t < 0 \<or> t \<ge> int (length (bd_steps b)) \<or> from \<ge> length (bd_steps b)")
    case False
    have m: "mset (map sp_id (move_item from (nat t) (bd_steps b))) = mset (map sp_id (bd_steps b))"
      using False by (simp add: mset_move_item)
    note mset_eq_imp_distinct_iff [OF m] mset_eq_setD [OF m]
    with inv False show ?thesis by (simp add: builder_inv_def step_ids_def builder_move_def)
  qed (use inv in \<open>auto simp: builder_inv_def step_ids_def builder_move_def\<close>)
qed

lemma builder_inv_frame:
  "builder_inv b \<Longrightarrow> bd_steps b' = bd_steps b \<Longrightarrow> bd_uid b' = bd_uid b
   \<Longrightarrow> bd_calls b' \<in> {bd_calls b} \<union> {bd_calls b @ [c] | c. save_ok c} \<Longrightarrow> builder_inv b'"
  by (auto simp: builder_inv_def step_ids_def)

lemma builder_inv_do: "builder_inv b \<Longrightarrow> builder_inv (builder_do op b)"
proof (cases op)
  case (BdVersions n r)
  assume "builder_inv b" then show ?thesis using BdVersions by (simp add: builder_inv_versions)
next
  case (BdAdd k)
  assume "builder_inv b" then show ?thesis using BdAdd
    by (auto simp: builder_inv_def step_ids_def builder_add_def mkStep_def)
next
  case (BdUp i)
  assume "builder_inv b" then show ?thesis using BdUp by (simp add: builder_inv_move)
next
  case (BdDown i)
  assume "builder_inv b" then show ?thesis using BdDown by (simp add: builder_inv_move)
next
  case (BdDrop i)
  assume inv: "builder_inv b"
  show ?thesis
  proof (cases "bd_drag b")
    case (Some k)
    show ?thesis using BdDrop Some builder_inv_frame [OF builder_inv_move [OF inv, of k "int i"]]
      by (simp add: builder_drop_def)
  qed (use BdDrop inv in \<open>simp add: builder_drop_def\<close>)
next
  case (BdParam i k v)
  assume "builder_inv b" then show ?thesis using BdParam
    by (simp add: builder_inv_def setParam_def ids_on_step) (simp add: on_step_def)
next
  case (BdRename i t)
  assume "builder_inv b" then show ?thesis using BdRename
    by (simp add: builder_inv_def ids_on_step) (simp add: on_step_def)
next
  case (BdRemove i)
  assume "builder_inv b" then show ?thesis using BdRemove
    by (auto simp: builder_inv_def step_ids_def remove_step_def distinct_map_filter)
next
  case BdSave
  assume inv: "builder_inv b" then show ?thesis using BdSave save_call_ok [of b]
    by (auto simp: builder_save_def intro!: builder_inv_frame [OF inv])
next
  case BdDry
  assume inv: "builder_inv b" then show ?thesis using BdDry
    by (auto simp: runDry_def builder_inv_calls intro!: builder_inv_frame [OF inv] split: option.split)
next
  case (BdAnswer r)
  assume inv: "builder_inv b" then show ?thesis using BdAnswer
    by (auto simp: action_answered_def saved_and_closed_def intro!: builder_inv_frame [OF inv] split: option.split builder_action.split sum.split)
next
  case (BdRevert v)
  assume inv: "builder_inv b" then show ?thesis using BdRevert
    by (auto simp: builder_revert_def builder_inv_calls intro!: builder_inv_frame [OF inv] split: option.split)
next
  case (BdReverted ok)
  assume inv: "builder_inv b" then show ?thesis using BdReverted
    by (auto simp: revert_answered_def saved_and_closed_def intro!: builder_inv_frame [OF inv])
next
  case BdRerender
  assume inv: "builder_inv b" then show ?thesis using BdRerender
    by (auto simp: builder_rerender_def builder_inv_calls intro!: builder_inv_frame [OF inv] split: option.split)
next
  case (BdPalette r)
  assume inv: "builder_inv b" then show ?thesis using BdPalette
    by (auto intro!: builder_inv_frame [OF inv] split: option.split)
qed (auto intro: builder_inv_frame)

lemma builder_inv_step: "builder_inv b \<Longrightarrow> builder_inv (builder_step op b)"
  by (simp add: builder_step_def builder_inv_do)

lemma builder_inv_run: "builder_inv b \<Longrightarrow> builder_inv (fold builder_step ops b)"
  by (induction ops arbitrary: b) (simp_all add: builder_inv_step)

text \<open>An edit of a step leaves the others, when no other has its id.\<close>

lemma on_step_one:
  assumes "distinct (step_ids b)" "bd_steps b = us @ s # vs"
  shows "bd_steps (on_step (sp_id s) f b) = us @ f s # vs"
proof -
  have "sp_id s \<notin> sp_id ` (set us \<union> set vs)" using assms by (auto simp: step_ids_def)
  then have "x \<in> set us \<union> set vs \<Longrightarrow> sp_id x \<noteq> sp_id s" for x by (metis imageI)
  then show ?thesis using assms(2) by (simp add: on_step_def map_idI)
qed

lemma move_within: "from < length (bd_steps b) \<Longrightarrow> bd_broken (builder_move from t b) = bd_broken b"
  by (simp add: builder_move_def)

text \<open>Only a drop whose drag began past the end of what is now on the canvas breaks it.\<close>

lemma broken_by_drop:
  assumes "bd_broken b = None" "bd_broken (builder_do op b) \<noteq> None"
  shows "\<exists>i from. op = BdDrop i \<and> bd_drag b = Some from \<and> length (bd_steps b) \<le> from \<and> i < length (bd_steps b)"
proof (cases op)
  case (BdDrop i)
  then show ?thesis using assms by (auto simp: builder_drop_def builder_move_def split: option.splits if_splits)
qed (use assms in \<open>auto simp: move_within builder_rerender_def versions_answered_def Let_def builder_add_def setParam_def on_step_def
    remove_step_def builder_save_def runDry_def action_answered_def saved_and_closed_def builder_revert_def revert_answered_def
    split: option.splits builder_action.splits sum.splits list.splits if_splits\<close>)

text \<open>C24: whatever is added, moved, dropped, edited and answered, every step has an id of its own, so that an
  edit of its parameters or name changes it and no other, and everything sent to be saved has a
  step and, when new, a name; until a drop of something dragged from a place that is gone meanwhile puts an
  undefined step on the canvas, which nothing else does.\<close>

theorem builder_invariant:
  assumes "b = fold builder_step ops (builder_mount u pb)"
  shows "distinct (map sp_id (bd_steps b)) \<and> list_all save_ok (bd_calls b)
    \<and> (\<forall>us s vs. bd_broken b = None \<and> bd_steps b = us @ s # vs \<longrightarrow>
         bd_steps (builder_step (BdParam (sp_id s) k v) b) = us @ s\<lparr>sp_params := obj_set k (JStr v) (sp_params s)\<rparr> # vs
         \<and> bd_steps (builder_step (BdRename (sp_id s) w) b) = us @ s\<lparr>sp_name := w\<rparr> # vs)
    \<and> (\<forall>op. bd_broken b = None \<and> bd_broken (builder_step op b) \<noteq> None \<longrightarrow>
         (\<exists>i from. op = BdDrop i \<and> bd_drag b = Some from \<and> length (bd_steps b) \<le> from))"
proof -
  have "list_all save_ok (bd_calls (builder_mount u pb))"
    by (auto simp: builder_mount_def Let_def builder_inv_calls split: option.split)
  then have "builder_inv (builder_mount u pb)"
    by (rule builder_inv_seed) (simp_all add: builder_mount_def Let_def)
  then have inv: "builder_inv b" unfolding assms by (rule builder_inv_run)
  then have one: "bd_steps b = us @ s # vs \<Longrightarrow> bd_steps (on_step (sp_id s) f b) = us @ f s # vs" for us s vs f
    by (intro on_step_one) (simp_all add: builder_inv_def)
  have drop: "\<exists>i from. op = BdDrop i \<and> bd_drag b = Some from \<and> length (bd_steps b) \<le> from"
    if "bd_broken b = None" "bd_broken (builder_step op b) \<noteq> None" for op
    using broken_by_drop [OF that(1), of op] that by (auto simp: builder_step_def)
  have edit: "bd_steps (builder_step (BdParam (sp_id s) k v) b) = us @ s\<lparr>sp_params := obj_set k (JStr v) (sp_params s)\<rparr> # vs
         \<and> bd_steps (builder_step (BdRename (sp_id s) w) b) = us @ s\<lparr>sp_name := w\<rparr> # vs"
    if "bd_broken b = None" "bd_steps b = us @ s # vs" for us s vs
    using that one [OF that(2)] by (simp add: builder_step_def setParam_def)
  have "distinct (map sp_id (bd_steps b))" "list_all save_ok (bd_calls b)" using inv by (simp_all add: builder_inv_def step_ids_def)
  with drop edit show ?thesis by blast
qed

theorem builder_invariant_witness:
  "distinct (map sp_id (bd_steps (fold builder_step [BdAdd ''notify'', BdAdd ''notify'', BdDrag 0, BdDrop 1] (builder_mount 0 None))))"
  using builder_invariant [OF refl] by blast

text \<open>A drag from the last of two steps that is dropped after one of them was removed: the canvas is gone.\<close>

theorem stale_drag_breaks:
  "builder_shown when (fold builder_step [BdAdd ''notify'', BdAdd ''notify'', BdDrag 1, BdRemove 2, BdDrop 0] (builder_mount 0 None)) = RenderThrows"
  by (simp add: builder_step_def builder_mount_def Let_def builder_add_def step_meta_def mkStep_def remove_step_def builder_drop_def
      builder_move_def builder_shown_def edit_steps_def)

subsection \<open>What an edit can lose\<close>

text \<open>The page opens the builder with steps that have no kind: the canvas is empty until the versions
  come. A step added before that is dropped by their answer; if they cannot be loaded, a save replaces
  the whole playbook by what was added.\<close>

theorem early_step_lost:
  assumes "i \<noteq> []" "list_all (\<lambda>s. \<not> has_kind s) ss" "vn_steps v \<noteq> []" "trim nm \<noteq> []"
  shows "map sp_kind (bd_steps (fold builder_step [BdAdd k, BdVersions 0 (Some (v # vs))] (builder_mount u (Some (i, nm, ss)))))
      = map (\<lambda>s. the (rs_kind s)) (filter has_kind (vn_steps v))
    \<and> last (bd_calls (fold builder_step [BdVersions 0 None, BdAdd k, BdSave] (builder_mount u (Some (i, nm, ss)))))
      = updatePlaybook i (JObj [(''steps'', payloadSteps [mkStep (Suc u) k k []])])"
proof -
  have e: "edit_steps u ss = []" using assms(2) by (simp add: edit_steps_def filter_False list_all_iff)
  show ?thesis using assms(1,3,4)
    by (simp add: builder_step_def builder_mount_def Let_def e builder_add_def step_meta_def versions_answered_def edit_steps_kinds builder_save_def save_call_def)
qed

theorem early_step_lost_witness:
  "map sp_kind (bd_steps (fold builder_step [BdAdd ''notify'',
       BdVersions 0 (Some [\<lparr>vn_version = 3, vn_steps = [\<lparr>rs_kind = Some ''block_ip'', rs_name = ''Block'', rs_params = None\<rparr>],
      vn_note = ''saved'', vn_author = ''ops'', vn_createdAt = ''2026-01-01''\<rparr>])]
     (builder_mount 0 (Some (''PB-1'', ''Contain'', [\<lparr>rs_kind = None, rs_name = ''Block'', rs_params = None\<rparr>]))))) = [''block_ip'']"
  using early_step_lost [of "''PB-1''" "[\<lparr>rs_kind = None, rs_name = ''Block'', rs_params = None\<rparr>]"
      "\<lparr>vn_version = 3, vn_steps = [\<lparr>rs_kind = Some ''block_ip'', rs_name = ''Block'', rs_params = None\<rparr>],
      vn_note = ''saved'', vn_author = ''ops'', vn_createdAt = ''2026-01-01''\<rparr>" "''Contain''" "''notify''" "[]" 0]
  by (simp add: has_kind_def trim_def is_space_def code_def)

text \<open>The name of a stored playbook can be edited, but what is saved does not have it; and a refused
  restore closes the builder and reloads the page like one that worked.\<close>

theorem rename_not_saved:
  assumes "bd_playbook b = Some i" "bd_steps b \<noteq> []" "bd_action b = None" "bd_broken b = None" "trim t \<noteq> []"
  shows "bd_calls (fold builder_step [BdName t, BdSave] b) = bd_calls b @ [updatePlaybook i (JObj [(''steps'', payloadSteps (bd_steps b))])]
    \<and> builder_step (BdReverted False) (builder_step (BdRevert v) b) = builder_step (BdReverted True) (builder_step (BdRevert v) b)"
  using assms by (simp add: builder_step_def builder_revert_def builder_save_def save_call_def revert_answered_def)

theorem rename_not_saved_witness:
  "last (bd_calls (fold builder_step [BdName ''New'', BdSave] (builder_mount 0 (Some (''PB-1'', ''Old'',
      [\<lparr>rs_kind = Some ''notify'', rs_name = ''Tell'', rs_params = None\<rparr>])))))
   = updatePlaybook ''PB-1'' (JObj [(''steps'', payloadSteps [mkStep 1 ''notify'' ''Tell'' []])])"
  using rename_not_saved [of "builder_mount 0 (Some (''PB-1'', ''Old'', [\<lparr>rs_kind = Some ''notify'', rs_name = ''Tell'', rs_params = None\<rparr>]))"
      "''PB-1''" "''New''"]
  by (simp add: builder_mount_def Let_def edit_steps_def has_kind_def trim_def is_space_def code_def)

end
