(* ===== verification/Playbooks.thy ===== *)
theory Playbooks
  imports CtiPage PlaybookBuilder
begin

text \<open>
  The playbooks page (\<open>app/dashboard/soar/playbooks/page.tsx\<close>) and the history of runs under it
  (\<open>components/dashboard/PlaybookRunsPanel.tsx\<close>): the list as mapped from the API, its figures, its
  switches and runs, and the decisions on runs that wait for an approval.
\<close>

subsection \<open>Playbooks\<close>

datatype run_status = RunSuccess | RunFailure | RunRunning | RunScheduled | RunIdle

fun PB_STATUS_DOT :: "run_status \<Rightarrow> string" where
  "PB_STATUS_DOT RunSuccess = ''bg-safe''" | "PB_STATUS_DOT RunFailure = ''bg-threat''" | "PB_STATUS_DOT RunRunning = ''bg-violet animate-pulse''"
| "PB_STATUS_DOT RunScheduled = ''bg-amber''" | "PB_STATUS_DOT RunIdle = ''bg-ink-600''"

fun PB_STATUS_LABEL :: "run_status \<Rightarrow> string" where
  "PB_STATUS_LABEL RunSuccess = ''Success''" | "PB_STATUS_LABEL RunFailure = ''Failed''" | "PB_STATUS_LABEL RunRunning = ''Running''"
| "PB_STATUS_LABEL RunScheduled = ''Scheduled''" | "PB_STATUS_LABEL RunIdle = ''Never run''"

definition PB_STEP_COLOR :: "(string, string) obj" where
  "PB_STEP_COLOR = [(''check'', tk Violet), (''action'', tk Magenta), (''decision'', tk Amber), (''notify'', tk Safe),
     (''human'', ''#FFFFFF''), (''sub-playbook'', ''#3B82F6'')]"

definition PB_CAT_COLOR :: "(string, string) obj" where
  "PB_CAT_COLOR = [(''Network'', ''border-violet/30 bg-violet/10 text-violet''), (''Endpoint'', ''border-threat/30 bg-threat/10 text-threat''),
     (''Cloud'', ''border-safe/30 bg-safe/10 text-safe''), (''Identity'', ''border-amber/30 bg-amber/10 text-amber''),
     (''Compliance'', ''border-magenta/30 bg-magenta/10 text-magenta''), (''Intel'', ''border-teal/30 bg-teal/10 text-teal'')]"

definition FILTER_CATS :: "string list" where
  "FILTER_CATS = [''All'', ''Network'', ''Endpoint'', ''Cloud'', ''Identity'', ''Compliance'']"

record entry_step =
  ey_name :: string
  ey_type :: string
  ey_status :: string
  ey_duration :: string

record pb_entry =
  pe_id :: string
  pe_name :: string
  pe_category :: string
  pe_trigger :: string
  pe_auto :: bool
  pe_runtime :: string
  pe_success :: rat
  pe_lastRun :: string
  pe_status :: run_status
  pe_runs :: rat
  pe_enabled :: bool
  pe_steps :: "entry_step list"

definition entry_step_of :: "json \<Rightarrow> entry_step" where
  "entry_step_of s = \<lparr>ey_name = js_string (json_get ''name'' s), ey_type = text_or (json_get ''type'' s) ''action'',
     ey_status = text_or (json_get ''status'' s) ''idle'', ey_duration = js_string (nullish (json_get ''duration'' s) (JNum 5)) @ ''s''\<rparr>"

definition last_status :: "json \<Rightarrow> run_status" where
  "last_status v = (if v = JStr ''failure'' then RunFailure else if v = JStr ''running'' then RunRunning
     else if v = JStr ''success'' then RunSuccess else RunIdle)"

definition pb_entry_of :: "json \<Rightarrow> pb_entry" where
  "pb_entry_of p =
     \<lparr>pe_id = js_string (json_get ''id'' p), pe_name = js_string (json_get ''name'' p),
      pe_category = (if truthy (json_get ''category'' p) then js_string (json_get ''category'' p) else ''Network''),
      pe_trigger = js_string (json_get ''trigger'' p), pe_auto = (json_get ''triggerType'' p \<noteq> JStr ''manual''),
      pe_runtime = js_string (json_get ''avgTime'' p) @ ''s'', pe_success = rule_num (json_get ''successRate'' p),
      pe_lastRun = text_or (json_get ''lastRun'' p) ''Never'', pe_status = last_status (json_get ''lastRunStatus'' p),
      pe_runs = rule_num (json_get ''runs'' p), pe_enabled = (json_get ''enabled'' p = JNum 1),
      pe_steps = (case json_get ''steps'' p of JArr ss \<Rightarrow> map entry_step_of ss | _ \<Rightarrow> [])\<rparr>"

definition success_class :: "rat \<Rightarrow> string" where
  "success_class r = (if r \<ge> 95 then ''text-safe'' else if r \<ge> 85 then ''text-amber'' else ''text-threat'')"

text \<open>A step of a type without an icon cannot be drawn.\<close>

definition step_drawn :: "entry_step \<Rightarrow> bool" where "step_drawn s \<longleftrightarrow> obj_get PB_STEP_COLOR (ey_type s) \<noteq> None"

definition step_style :: "entry_step \<Rightarrow> string" where
  "step_style s = (if ey_status s = ''completed'' then ''bg-safe/15 border-safe/40''
     else if ey_status s = ''running'' then ''bg-violet/20 border-violet/50 ring-2 ring-violet/20''
     else if ey_status s = ''failed'' then ''bg-threat/15 border-threat/40'' else ''bg-surface-2 border-white/10'')"

definition step_text_class :: "entry_step \<Rightarrow> string" where
  "step_text_class s = (if ey_status s = ''completed'' then ''text-ink-400'' else if ey_status s = ''running'' then ''text-white''
     else if ey_status s = ''failed'' then ''text-threat'' else ''text-ink-600'')"

text \<open>The lines between the steps: one fewer than there are steps, green after one that is done.\<close>

definition step_connectors :: "entry_step list \<Rightarrow> string list" where
  "step_connectors ss = map (\<lambda>s. if ey_status s = ''completed'' then ''bg-safe/25'' else ''bg-white/6'') (butlast ss)"

record pb_card =
  pk_dim :: bool
  pk_shimmer :: bool
  pk_catClass :: string
  pk_lines :: "string list"
  pk_mode :: string
  pk_rate :: "string \<times> string"
  pk_status :: "string \<times> string"
  pk_run :: "string \<times> bool"
  pk_switch :: "string \<times> string"

text \<open>A card; \<open>busy\<close> is whether its own run is under way, \<open>loc\<close> the number format of the reader.\<close>

definition playbookCard :: "(rat \<Rightarrow> string) \<Rightarrow> bool \<Rightarrow> pb_entry \<Rightarrow> pb_card" where
  "playbookCard loc busy p =
     \<lparr>pk_dim = (\<not> pe_enabled p), pk_shimmer = (pe_status p = RunRunning),
      pk_catClass = (case obj_get PB_CAT_COLOR (pe_category p) of Some c \<Rightarrow> c | None \<Rightarrow> ''border-white/10 bg-white/5 text-ink-400''),
      pk_lines = [pe_name p, pe_category p, pe_trigger p, int_str (int (length (pe_steps p))) @ '' steps'', ''~'' @ pe_runtime p,
        pe_lastRun p, loc (pe_runs p) @ '' runs''],
      pk_mode = (if pe_auto p then ''Auto'' else ''Manual''), pk_rate = (num_str (pe_success p) @ ''%'', success_class (pe_success p)),
      pk_status = (PB_STATUS_DOT (pe_status p), PB_STATUS_LABEL (pe_status p)),
      pk_run = (if busy then ''Running...'' else ''Run'', busy \<or> \<not> pe_enabled p),
      pk_switch = (if pe_enabled p then (''Disable playbook'', ''On'') else (''Enable playbook'', ''Off''))\<rparr>"

subsection \<open>Figures and filters\<close>

record pb_kpis =
  bk_enabled :: nat
  bk_running :: nat
  bk_auto :: nat
  bk_failed :: nat
  bk_totalRuns :: rat
  bk_avgSuccess :: "rat option"

definition pb_figures :: "pb_entry list \<Rightarrow> pb_kpis" where
  "pb_figures ps = (let withRuns = filter (\<lambda>p. pe_runs p > 0) ps; total_runs = js_sum (map pe_runs withRuns) in
     \<lparr>bk_enabled = count_of pe_enabled ps, bk_running = count_of (\<lambda>p. pe_status p = RunRunning) ps, bk_auto = count_of pe_auto ps,
      bk_failed = count_of (\<lambda>p. pe_status p = RunFailure) ps, bk_totalRuns = total_runs,
      bk_avgSuccess = (if total_runs > 0
        then Some (js_div (js_sum (map (\<lambda>p. js_mul (pe_success p) (pe_runs p)) withRuns)) total_runs) else None)\<rparr>)"

definition pb_tiles :: "(rat \<Rightarrow> string) \<Rightarrow> pb_entry list \<Rightarrow> (string \<times> string \<times> string) list" where
  "pb_tiles loc ps = (let k = pb_figures ps in
     [(''Total Playbooks'', int_str (int (length ps)), int_str (int (bk_enabled k)) @ '' enabled''),
      (''Running Now'', int_str (int (bk_running k)),
        if bk_failed k > 0 then int_str (int (bk_failed k)) @ '' failed last run'' else ''no recent failures''),
      (''Auto-Triggered'', int_str (int (bk_auto k)), ''fire on detection events''),
      (''Avg Success Rate'', case bk_avgSuccess k of Some x \<Rightarrow> to_fixed 1 x @ ''%'' | None \<Rightarrow> ''-'',
        if bk_totalRuns k > 0 then ''across '' @ loc (bk_totalRuns k) @ '' runs'' else ''no runs yet'')])"

definition pb_filtered :: "string \<Rightarrow> string \<Rightarrow> pb_entry list \<Rightarrow> pb_entry list" where
  "pb_filtered cat search ps = filter (\<lambda>p. (cat = ''All'' \<or> pe_category p = cat)
     \<and> (search = [] \<or> str_includes (toLowerCase (pe_name p)) (toLowerCase search))) ps"

subsection \<open>The page\<close>

record pb_page =
  pg_cat :: string
  pg_search :: string
  pg_selected :: "string option"
  pg_entries :: "pb_entry list"
  pg_pending :: bool
  pg_failed :: bool
  pg_running :: "string option"
  pg_toggles :: "(string \<times> bool) list"
  pg_builder :: "(string \<times> string \<times> raw_step list) option option"
  pg_calls :: "call list"

definition pb_mount :: pb_page where
  "pb_mount = \<lparr>pg_cat = ''All'', pg_search = [], pg_selected = None, pg_entries = [], pg_pending = True, pg_failed = False,
     pg_running = None, pg_toggles = [], pg_builder = None, pg_calls = [fetchPlaybooks_call]\<rparr>"

definition on_entry :: "string \<Rightarrow> (pb_entry \<Rightarrow> pb_entry) \<Rightarrow> pb_page \<Rightarrow> pb_page" where
  "on_entry i f s = s\<lparr>pg_entries := map (\<lambda>p. if pe_id p = i then f p else p) (pg_entries s)\<rparr>"

definition find_entry :: "string \<Rightarrow> pb_page \<Rightarrow> pb_entry option" where
  "find_entry i s = find (\<lambda>p. pe_id p = i) (pg_entries s)"

text \<open>Flipped at once and sent; \<open>pg_toggles\<close> are the calls under way with the value each will put back.\<close>

definition toggleEnabled :: "string \<Rightarrow> pb_page \<Rightarrow> pb_page" where
  "toggleEnabled i s = (let prev = (case find_entry i s of Some p \<Rightarrow> pe_enabled p | None \<Rightarrow> True) in
     (on_entry i (\<lambda>p. p\<lparr>pe_enabled := \<not> prev\<rparr>) s)\<lparr>pg_toggles := pg_toggles s @ [(i, prev)],
       pg_calls := pg_calls s @ [updatePlaybook i (JObj [(''enabled'', JBool (\<not> prev))])]\<rparr>)"

definition toggle_answered :: "nat \<Rightarrow> bool \<Rightarrow> pb_page \<Rightarrow> pb_page" where
  "toggle_answered n ok s = (if n \<ge> length (pg_toggles s) then s else
     let (i, prev) = pg_toggles s ! n; s = s\<lparr>pg_toggles := take n (pg_toggles s) @ drop (Suc n) (pg_toggles s)\<rparr> in
     if ok then s else on_entry i (\<lambda>p. p\<lparr>pe_enabled := prev\<rparr>) s)"

text \<open>Run: one at a time, and not for a playbook that is switched off.\<close>

definition runPlaybookById :: "string \<Rightarrow> pb_page \<Rightarrow> pb_page" where
  "runPlaybookById i s = (if pg_running s \<noteq> None \<or> (case find_entry i s of Some p \<Rightarrow> \<not> pe_enabled p | None \<Rightarrow> True) then s
     else s\<lparr>pg_running := Some i, pg_calls := pg_calls s @ [runPlaybook i None]\<rparr>)"

definition run_outcome :: "json \<Rightarrow> run_status" where
  "run_outcome v = (if v = JStr ''failed'' then RunFailure else if v = JStr ''awaiting-approval'' then RunRunning else RunSuccess)"

definition pb_run_answered :: "json option \<Rightarrow> pb_page \<Rightarrow> pb_page" where
  "pb_run_answered r s = (case pg_running s of None \<Rightarrow> s | Some i \<Rightarrow>
     (case r of
        Some u \<Rightarrow> on_entry i (\<lambda>p. p\<lparr>pe_runs := rule_num (json_get ''runs'' u), pe_lastRun := ''Just now'',
          pe_status := run_outcome (json_get ''status'' (json_get ''run'' u))\<rparr>) s
      | None \<Rightarrow> on_entry i (\<lambda>p. p\<lparr>pe_status := RunFailure\<rparr>) s)\<lparr>pg_running := None\<rparr>)"

text \<open>Edit hands the builder the steps of the page, which have no kind.\<close>

definition open_builder :: "pb_page \<Rightarrow> pb_page" where
  "open_builder s = (case pg_selected s of None \<Rightarrow> s | Some i \<Rightarrow> (case find_entry i s of None \<Rightarrow> s
     | Some p \<Rightarrow> s\<lparr>pg_builder := Some (Some (pe_id p, pe_name p, map (\<lambda>x. \<lparr>rs_kind = None, rs_name = ey_name x, rs_params = None\<rparr>) (pe_steps p))),
         pg_selected := None\<rparr>))"

datatype pb_op = PbLoaded "json list option" | PbReload | PbCat string | PbSearch string | PbSelect string | PbToggle string
  | PbToggled nat bool | PbRun string | PbRan "json option" | PbNew | PbEdit | PbBuilderClosed

fun pbs_step :: "pb_op \<Rightarrow> pb_page \<Rightarrow> pb_page" where
  "pbs_step (PbLoaded r) s = (case r of Some xs \<Rightarrow> s\<lparr>pg_entries := map pb_entry_of xs, pg_pending := False\<rparr>
     | None \<Rightarrow> s\<lparr>pg_failed := True, pg_pending := False\<rparr>)"
| "pbs_step PbReload s = s\<lparr>pg_calls := pg_calls s @ [fetchPlaybooks_call]\<rparr>"
| "pbs_step (PbCat c) s = s\<lparr>pg_cat := c\<rparr>"
| "pbs_step (PbSearch t) s = s\<lparr>pg_search := t\<rparr>"
| "pbs_step (PbSelect i) s = s\<lparr>pg_selected := (if pg_selected s = Some i then None else Some i)\<rparr>"
| "pbs_step (PbToggle i) s = toggleEnabled i s"
| "pbs_step (PbToggled n ok) s = toggle_answered n ok s"
| "pbs_step (PbRun i) s = runPlaybookById i s"
| "pbs_step (PbRan r) s = pb_run_answered r s"
| "pbs_step PbNew s = s\<lparr>pg_builder := Some None\<rparr>"
| "pbs_step PbEdit s = open_builder s"
| "pbs_step PbBuilderClosed s = s\<lparr>pg_builder := None\<rparr>"

datatype pb_tiles_shown = GridEntries "pb_entry list" | GridUnavailable | GridSkeleton | GridNoMatch

definition pb_grid :: "pb_page \<Rightarrow> pb_tiles_shown" where
  "pb_grid s = (let fs = pb_filtered (pg_cat s) (pg_search s) (pg_entries s) in
     if fs = [] \<and> pg_failed s then GridUnavailable else if fs = [] then (if pg_pending s then GridSkeleton else GridNoMatch)
     else GridEntries fs)"

subsection \<open>The history of runs\<close>

record run_row =
  rw_id :: string
  rw_status :: string

definition RUN_STYLE :: "(string, string \<times> string) obj" where
  "RUN_STYLE = [(''success'', (tk Safe, ''Success'')), (''failed'', (tk Threat, ''Failed'')),
     (''awaiting-approval'', (tk Amber, ''Awaiting approval'')), (''rejected'', (''#665B7D'', ''Rejected''))]"

definition run_style :: "run_row \<Rightarrow> string \<times> string" where
  "run_style r = (case obj_get RUN_STYLE (rw_status r) of Some x \<Rightarrow> x | None \<Rightarrow> (tk Safe, ''Success''))"

definition RUN_STEP_COLOR :: "(string, string) obj" where
  "RUN_STEP_COLOR = [(''success'', tk Safe), (''failed'', tk Threat), (''skipped'', ''#665B7D''), (''pending-approval'', tk Amber)]"

definition run_step_color :: "string \<Rightarrow> string" where
  "run_step_color st = (case obj_get RUN_STEP_COLOR st of Some c \<Rightarrow> c | None \<Rightarrow> ''#665B7D'')"

text \<open>The age of a run, from the milliseconds since.\<close>

definition runTime :: "int option \<Rightarrow> string" where
  "runTime d = (case d of None \<Rightarrow> ''-'' | Some ms \<Rightarrow> let s = max 0 (ms div 1000); m = s div 60; h = m div 60 in
     if s < 60 then int_str s @ ''s ago'' else if m < 60 then int_str m @ ''m ago''
     else if h < 24 then int_str h @ ''h ago'' else int_str (h div 24) @ ''d ago'')"

record runs_panel =
  rp_runs :: "run_row list"
  rp_awaiting :: int
  rp_loading :: bool
  rp_open :: "string option"
  rp_deciding :: "string option"
  rp_calls :: "call list"

definition runs_call :: call where "runs_call = fetchSoarRuns None (Some 30)"

definition runs_mount :: runs_panel where
  "runs_mount = \<lparr>rp_runs = [], rp_awaiting = 0, rp_loading = True, rp_open = None, rp_deciding = None, rp_calls = [runs_call]\<rparr>"

text \<open>The buttons are there for a run that waits; the one that decides checks that no decision is under
  way.\<close>

definition decide_run :: "string \<Rightarrow> bool \<Rightarrow> runs_panel \<Rightarrow> runs_panel" where
  "decide_run i approve p = (if rp_deciding p \<noteq> None \<or> \<not> list_ex (\<lambda>r. rw_id r = i \<and> rw_status r = ''awaiting-approval'') (rp_runs p) then p
     else p\<lparr>rp_deciding := Some i, rp_calls := rp_calls p @ [if approve then approvePlaybookRun i else rejectPlaybookRun i]\<rparr>)"

definition decided :: "bool \<Rightarrow> runs_panel \<Rightarrow> runs_panel" where
  "decided ok p = (if rp_deciding p = None then p
     else (if ok then p\<lparr>rp_calls := rp_calls p @ [runs_call]\<rparr> else p)\<lparr>rp_deciding := None\<rparr>)"

datatype runs_op = RnLoaded "(run_row list \<times> int) option" | RnTick | RnOpen string | RnDecide string bool | RnDecided bool

fun runs_step :: "runs_op \<Rightarrow> runs_panel \<Rightarrow> runs_panel" where
  "runs_step (RnLoaded r) p = (case r of Some (xs, n) \<Rightarrow> p\<lparr>rp_runs := xs, rp_awaiting := n, rp_loading := False\<rparr>
     | None \<Rightarrow> p\<lparr>rp_loading := False\<rparr>)"
| "runs_step RnTick p = p\<lparr>rp_calls := rp_calls p @ [runs_call]\<rparr>"
| "runs_step (RnOpen i) p = p\<lparr>rp_open := (if rp_open p = Some i then None else Some i)\<rparr>"
| "runs_step (RnDecide i a) p = decide_run i a p"
| "runs_step (RnDecided ok) p = decided ok p"

text \<open>Nothing is shown under the heading while it loads, and an empty list only after that.\<close>

definition runs_note :: "runs_panel \<Rightarrow> string" where
  "runs_note p = (if rp_loading p then ''Loading runs...'' else if rp_runs p = [] then ''No runs yet'' else [])"

definition runs_badge :: "runs_panel \<Rightarrow> string list" where
  "runs_badge p = (if rp_awaiting p > 0 then [int_str (rp_awaiting p) @ '' awaiting approval''] else [])
     @ [int_str (int (length (rp_runs p))) @ '' recent'']"

definition decide_buttons :: "runs_panel \<Rightarrow> run_row \<Rightarrow> (string \<times> bool) list" where
  "decide_buttons p r = (if rw_status r = ''awaiting-approval''
     then [(''Approve'', rp_deciding p = Some (rw_id r)), (''Reject'', rp_deciding p = Some (rw_id r))] else [])"

subsection \<open>The average success rate\<close>

lemma foldl_js_add_bounds:
  assumes "\<And>x. x \<in> set xs \<Longrightarrow> 0 \<le> f x \<and> f x \<le> of_int (g x)" "\<And>x. x \<in> set xs \<Longrightarrow> 0 \<le> g x"
    and "0 \<le> a" "a \<le> of_int b" "0 \<le> b" "b + sum_list (map g xs) \<le> 2 ^ 53"
  shows "0 \<le> foldl js_add a (map f xs) \<and> foldl js_add a (map f xs) \<le> of_int (b + sum_list (map g xs))"
  using assms
proof (induction xs arbitrary: a b)
  case (Cons x xs)
  have gx: "0 \<le> g x" "0 \<le> sum_list (map g xs)" using Cons.prems(2) by (auto intro!: sum_list_nonneg)
  have "a + f x \<le> of_int (b + g x)" "0 \<le> a + f x" using Cons.prems(1) [of x] Cons.prems(3,4) by simp_all
  then have "js_add a (f x) \<le> of_int (b + g x)" "0 \<le> js_add a (f x)"
    using fl_le_int [of "a + f x" "b + g x"] gx Cons.prems(5,6) by (simp_all add: js_add_def)
  from Cons.IH [OF _ _ this(2,1)] show ?case using gx Cons.prems by (simp add: add.assoc)
qed simp

lemma foldl_js_add_whole:
  "(\<And>x. x \<in> set xs \<Longrightarrow> f x = of_int (g x) \<and> 0 \<le> g x) \<Longrightarrow> 0 \<le> a \<Longrightarrow> a + sum_list (map g xs) \<le> 2 ^ 53
   \<Longrightarrow> foldl js_add (of_int a) (map f xs) = of_int (a + sum_list (map g xs))"
proof (induction xs arbitrary: a)
  case (Cons x xs)
  have gx: "0 \<le> g x" "0 \<le> sum_list (map g xs)" using Cons.prems(1) by (auto intro!: sum_list_nonneg)
  have "js_add (of_int a) (f x) = of_int (a + g x)"
    using Cons.prems gx js_add_int [of a "g x"] by simp
  with Cons.IH [of "a + g x"] Cons.prems gx show ?case by (simp add: add.assoc)
qed simp

text \<open>Rates between 0 and 100 weighted by whole numbers of runs give an average between 0 and 100, in
  the arithmetic of the page with its roundings, as long as no sum leaves the exact integers.\<close>

theorem avg_success_bounds:
  assumes rates: "\<forall>p \<in> set ps. 0 \<le> pe_success p \<and> pe_success p \<le> 100"
    and runs: "\<forall>p \<in> set ps. pe_runs p = of_nat (nr p)"
    and small: "100 * sum_list (map nr ps) \<le> 2 ^ 53"
    and avg: "bk_avgSuccess (pb_figures ps) = Some x"
  shows "0 \<le> x \<and> x \<le> 100"
proof -
  let ?ws = "filter (\<lambda>p. pe_runs p > 0) ps"
  let ?n = "sum_list (map (\<lambda>p. int (nr p)) ?ws)"
  have n0: "0 \<le> ?n" by (auto intro!: sum_list_nonneg)
  have "sum_list (map nr ?ws) \<le> sum_list (map nr ps)" by (rule sum_list_filter_le_nat)
  moreover have "?n = int (sum_list (map nr ?ws))" by (induction ps) simp_all
  moreover have "100 * int (sum_list (map nr ps)) \<le> 2 ^ 53"
    using small unfolding of_nat_le_iff [where 'a = int, symmetric] by simp
  ultimately have n: "100 * ?n \<le> 2 ^ 53" by linarith
  have tot: "js_sum (map pe_runs ?ws) = of_int ?n"
    using foldl_js_add_whole [of ?ws pe_runs "\<lambda>p. int (nr p)" 0] runs n n0 by (simp add: js_sum_def)
  have le: "int (nr p) \<le> ?n" if "p \<in> set ?ws" for p
    using that by (intro member_le_sum_list) (auto simp del: set_filter)
  have each: "0 \<le> js_mul (pe_success p) (pe_runs p) \<and> js_mul (pe_success p) (pe_runs p) \<le> of_int (100 * int (nr p))"
    if p: "p \<in> set ?ws" for p
  proof -
    have "pe_success p * pe_runs p \<le> of_int (100 * int (nr p))" "0 \<le> pe_success p * pe_runs p"
      using rates runs p by (auto intro: mult_right_mono)
    then show ?thesis using fl_le_int [of "pe_success p * pe_runs p" "100 * int (nr p)"] le [OF p] n by (simp add: js_mul_def)
  qed
  have "sum_list (map (\<lambda>p. 100 * int (nr p)) ?ws) = 100 * ?n" by (induction ps) simp_all
  then have num: "0 \<le> js_sum (map (\<lambda>p. js_mul (pe_success p) (pe_runs p)) ?ws)"
      "js_sum (map (\<lambda>p. js_mul (pe_success p) (pe_runs p)) ?ws) \<le> 100 * of_int ?n"
    using foldl_js_add_bounds [of ?ws "\<lambda>p. js_mul (pe_success p) (pe_runs p)" "\<lambda>p. 100 * int (nr p)" 0 0] each n
    by (simp_all add: js_sum_def)
  from avg have x: "x = js_div (js_sum (map (\<lambda>p. js_mul (pe_success p) (pe_runs p)) ?ws)) (of_int ?n)" and pos: "0 < (of_int ?n :: rat)"
    unfolding pb_figures_def Let_def pb_kpis.simps tot by (simp_all split: if_splits)
  then show ?thesis using num fl_le_int [of "js_sum (map (\<lambda>p. js_mul (pe_success p) (pe_runs p)) ?ws) / of_int ?n" 100]
    by (simp add: js_div_def pos_divide_le_eq)
qed

subsection \<open>Switches\<close>

lemma toggleEnabled_entries:
  "pg_entries (toggleEnabled i s) = map (\<lambda>p. if pe_id p = i then p\<lparr>pe_enabled := \<not> (case find_entry i s of Some q \<Rightarrow> pe_enabled q | None \<Rightarrow> True)\<rparr> else p) (pg_entries s)"
  "pg_toggles (toggleEnabled i s) = pg_toggles s @ [(i, case find_entry i s of Some q \<Rightarrow> pe_enabled q | None \<Rightarrow> True)]"
  by (simp_all add: toggleEnabled_def on_entry_def Let_def)

lemma toggle_refused_entries:
  "n < length (pg_toggles s) \<Longrightarrow> pg_toggles s ! n = (i, v)
   \<Longrightarrow> pg_entries (toggle_answered n False s) = map (\<lambda>p. if pe_id p = i then p\<lparr>pe_enabled := v\<rparr> else p) (pg_entries s)
     \<and> pg_toggles (toggle_answered n False s) = take n (pg_toggles s) @ drop (Suc n) (pg_toggles s)"
  by (simp add: toggle_answered_def on_entry_def Let_def)

lemma find_after_set:
  "find (\<lambda>p. pe_id p = i) (map (\<lambda>p. if pe_id p = i then p\<lparr>pe_enabled := v\<rparr> else p) ps)
   = map_option (\<lambda>p. p\<lparr>pe_enabled := v\<rparr>) (find (\<lambda>p. pe_id p = i) ps)"
  by (induction ps) simp_all

lemma find_own:
  "distinct (map pe_id ps) \<Longrightarrow> p \<in> set ps \<Longrightarrow> find (\<lambda>q. pe_id q = pe_id p) ps = Some p"
  by (induction ps) (auto simp: image_iff)

lemma set_to_itself:
  "distinct (map pe_id ps) \<Longrightarrow> p \<in> set ps \<Longrightarrow> map (\<lambda>q. if pe_id q = pe_id p then q\<lparr>pe_enabled := pe_enabled p\<rparr> else q) ps = ps"
  by (rule map_idI) (auto simp: distinct_map inj_on_def)

text \<open>One refused switch is as if it had not been made. Two of the same playbook, refused in the order
  in which they were made, leave the switch on the wrong side; refused in the other order they do not.\<close>

theorem switch_refusals:
  assumes "distinct (map pe_id (pg_entries s))" "p \<in> set (pg_entries s)" "pg_toggles s = []"
  defines "i \<equiv> pe_id p"
  shows "pg_entries (toggle_answered 0 False (toggleEnabled i s)) = pg_entries s
    \<and> pg_entries (toggle_answered 0 False (toggle_answered 0 False (toggleEnabled i (toggleEnabled i s))))
      = map (\<lambda>q. if pe_id q = i then q\<lparr>pe_enabled := \<not> pe_enabled p\<rparr> else q) (pg_entries s)
    \<and> pg_entries (toggle_answered 0 False (toggle_answered 1 False (toggleEnabled i (toggleEnabled i s)))) = pg_entries s"
proof -
  have f: "find (\<lambda>q. pe_id q = i) (pg_entries s) = Some p"
    unfolding i_def by (rule find_own [OF assms(1,2)])
  have same: "map (\<lambda>q. if pe_id q = i then q\<lparr>pe_enabled := pe_enabled p\<rparr> else q) (pg_entries s) = pg_entries s"
    unfolding i_def by (rule set_to_itself [OF assms(1,2)])
  have two: "(\<lambda>q. if pe_id q = i then q\<lparr>pe_enabled := v\<rparr> else q) \<circ> (\<lambda>q. if pe_id q = i then q\<lparr>pe_enabled := w\<rparr> else q)
      = (\<lambda>q. if pe_id q = i then q\<lparr>pe_enabled := v\<rparr> else q)" for v w by auto
  show ?thesis using same assms(3) f
    by (simp add: toggleEnabled_entries toggle_refused_entries find_entry_def find_after_set two)
qed

subsection \<open>Runs\<close>

text \<open>A request that is refused - for whatever reason, so with no run - is shown as a failed run beside
  the time and the count of the last one; a run that was rejected is shown as a success.\<close>

theorem refused_run_shown_failed:
  assumes "pg_running s = None" "find_entry i s = Some p" "pe_enabled p"
  shows "find_entry i (pb_run_answered None (runPlaybookById i s)) = Some (p\<lparr>pe_status := RunFailure\<rparr>)
    \<and> find_entry i (pb_run_answered (Some (JObj [(''runs'', JNum n), (''run'', JObj [(''status'', JStr ''rejected'')])])) (runPlaybookById i s))
      = Some (p\<lparr>pe_runs := n, pe_lastRun := ''Just now'', pe_status := RunSuccess\<rparr>)"
proof -
  have m: "find (\<lambda>p. pe_id p = i) (map (\<lambda>p. if pe_id p = i then f p else p) ps) = map_option f (find (\<lambda>p. pe_id p = i) ps)"
    if "\<And>p. pe_id (f p) = pe_id p" for f and ps :: "pb_entry list" using that by (induction ps) simp_all
  show ?thesis using assms
    by (simp add: runPlaybookById_def pb_run_answered_def on_entry_def find_entry_def m run_outcome_def rule_num_def obj_get_def)
qed

text \<open>The page opens the builder with no step at all, whatever the playbook has: what is on its canvas
  comes from the answer about its versions.\<close>

theorem edit_opens_empty:
  assumes "pg_builder s = None" "pg_builder (open_builder s) = Some (Some pb)"
  shows "bd_steps (builder_mount u (Some pb)) = []"
  using assms by (auto simp: open_builder_def builder_mount_def Let_def edit_steps_def has_kind_def comp_def filter_map split: option.splits)

definition is_decision :: "call \<Rightarrow> bool" where
  "is_decision c \<longleftrightarrow> c_method c = ''POST''"

lemma runs_call_get: "\<not> is_decision runs_call"
  by (simp add: is_decision_def runs_call_def fetchSoarRuns_def Let_def)

text \<open>Decisions never overlap: those sent are at most one more than those answered, and the panel knows
  of that one.\<close>

theorem decisions_one_at_a_time:
  "length (filter is_decision (rp_calls (fold runs_step ops runs_mount)))
   \<le> length (filter (\<lambda>op. \<exists>ok. op = RnDecided ok) ops) + (if rp_deciding (fold runs_step ops runs_mount) = None then 0 else 1)"
proof (induction ops rule: rev_induct)
  case Nil show ?case by (simp add: runs_mount_def runs_call_get)
next
  case (snoc op ops)
  then show ?case
    by (cases op) (auto simp: runs_call_get decide_run_def decided_def split: option.split if_splits)
qed

end
