(* ===== verification/SocMetrics.thy ===== *)
theory SocMetrics
  imports Playbooks "HOL-Library.Product_Lexorder"
begin

text \<open>
  The SOC metrics page (\<open>app/dashboard/soar/metrics/page.tsx\<close>): six loads that succeed or fail on their
  own, and the cards, charts and tables drawn from what has arrived. Counts are integers, rates and
  times are doubles; the number format of the reader and \<open>localeCompare\<close> are arguments.
\<close>

subsection \<open>What the page loads\<close>

record mt_soar =
  ms_openCases :: int
  ms_slaBreached :: "int option"
  ms_mttr :: rat
  ms_automationRate :: rat
  ms_totalRuns :: int
  ms_casesClosedWeek :: int

record mt_siem =
  mk_totalAlerts :: int
  mk_mttd :: "rat option"
  mk_mttr :: "rat option"
  mk_fpRate :: rat

record mt_tactic =
  mc_tactic :: string
  mc_covered :: "bool list"

record analyst =
  an_name :: string
  an_handled :: int
  an_closed :: int
  an_open :: int
  an_critical :: int
  an_avgResolve :: "rat option"

record mt_playbook =
  mp_id :: string
  mp_name :: string
  mp_runs :: int
  mp_successRate :: rat
  mp_avgTime :: rat

record volume_day =
  vd_day :: string
  vd_critical :: int
  vd_high :: int
  vd_medium :: int
  vd_low :: int
  vd_info :: int

record disp_stat =
  ds_key :: string
  ds_label :: string
  ds_count :: int

record metrics_page =
  mt_metrics :: "mt_soar option"
  mt_siemKpis :: "mt_siem option"
  mt_coverage :: "mt_tactic list option"
  mt_analysts :: "analyst list"
  mt_playbooks :: "mt_playbook list"
  mt_analytics :: "(volume_day list \<times> disp_stat list) option"
  mt_calls :: "call list"

definition metrics_mount :: metrics_page where
  "metrics_mount = \<lparr>mt_metrics = None, mt_siemKpis = None, mt_coverage = None, mt_analysts = [], mt_playbooks = [],
     mt_analytics = None, mt_calls = [fetchSoarMetrics, fetchSiemKpis, fetchAttackCoverage, fetchSoarAnalysts, fetchPlaybooks_call,
       fetchAlertAnalytics]\<rparr>"

text \<open>A load that fails leaves nothing behind, not even a message.\<close>

datatype metrics_answer = MtMetrics mt_soar | MtSiem mt_siem | MtCoverage "mt_tactic list" | MtAnalysts "analyst list"
  | MtPlaybooks "mt_playbook list" | MtAnalytics "volume_day list" "disp_stat list" | MtFailed

fun metrics_step :: "metrics_answer \<Rightarrow> metrics_page \<Rightarrow> metrics_page" where
  "metrics_step (MtMetrics m) s = s\<lparr>mt_metrics := Some m\<rparr>"
| "metrics_step (MtSiem k) s = s\<lparr>mt_siemKpis := Some k\<rparr>"
| "metrics_step (MtCoverage c) s = s\<lparr>mt_coverage := Some c\<rparr>"
| "metrics_step (MtAnalysts xs) s = s\<lparr>mt_analysts := xs\<rparr>"
| "metrics_step (MtPlaybooks xs) s = s\<lparr>mt_playbooks := xs\<rparr>"
| "metrics_step (MtAnalytics v d) s = s\<lparr>mt_analytics := Some (v, d)\<rparr>"
| "metrics_step MtFailed s = s"

subsection \<open>Cards\<close>

text \<open>Label, text below the value, and colour.\<close>

definition KPI_DATA :: "(string \<times> string \<times> string) list" where
  "KPI_DATA = [(''MTTD'', ''Mean Time to Detect'', ''text-safe''), (''MTTR'', ''Mean Time to Respond'', ''text-violet''),
     (''Alert Volume'', ''Per day (rolling avg)'', ''text-amber''), (''Automation Rate'', ''Actions automated'', ''text-magenta''),
     (''FP Rate'', ''False positive alerts'', ''text-threat''), (''SLA Compliance'', ''Alerts within SLA'', ''text-safe'')]"

definition fmtMinutes :: "rat option \<Rightarrow> string option" where
  "fmtMinutes m = map_option (\<lambda>x. to_fixed 1 x @ '' min'') m"

definition sla_percent :: "mt_soar \<Rightarrow> int" where
  "sla_percent m = js_round (js_mul (js_sub 1 (js_div (of_int (case ms_slaBreached m of Some b \<Rightarrow> b | None \<Rightarrow> 0)) (of_int (ms_openCases m)))) 100)"

definition liveValue :: "(rat \<Rightarrow> string) \<Rightarrow> metrics_page \<Rightarrow> (string, string option) obj" where
  "liveValue loc s = (let siem = mt_siemKpis s; m = mt_metrics s in
     [(''MTTD'', fmtMinutes (case siem of Some k \<Rightarrow> mk_mttd k | None \<Rightarrow> None)),
      (''MTTR'', fmtMinutes (case (case siem of Some k \<Rightarrow> mk_mttr k | None \<Rightarrow> None) of Some x \<Rightarrow> Some x | None \<Rightarrow> map_option ms_mttr m)),
      (''Alert Volume'', map_option (\<lambda>k. loc (of_int (mk_totalAlerts k))) siem),
      (''Automation Rate'', map_option (\<lambda>m. int_str (js_round (ms_automationRate m)) @ ''%'') m),
      (''FP Rate'', map_option (\<lambda>k. num_str (mk_fpRate k) @ ''%'') siem),
      (''SLA Compliance'', case m of None \<Rightarrow> None
         | Some m \<Rightarrow> Some (if ms_openCases m > 0 then int_str (sla_percent m) @ ''%'' else ''100%''))])"

definition kpi_cards :: "(rat \<Rightarrow> string) \<Rightarrow> metrics_page \<Rightarrow> (string \<times> string \<times> string) list" where
  "kpi_cards loc s = map (\<lambda>(l, sub, c). (case obj_get (liveValue loc s) l of Some (Some v) \<Rightarrow> v | _ \<Rightarrow> ''-'', sub, c)) KPI_DATA"

subsection \<open>Alert volume\<close>

definition day_total :: "volume_day \<Rightarrow> int" where
  "day_total d = vd_critical d + vd_high d + vd_medium d + vd_low d"

definition BAR_W :: rat where "BAR_W = 32"
definition BAR_GAP :: rat where "BAR_GAP = 20"
definition BAR_HEIGHT :: rat where "BAR_HEIGHT = 120"

record bar =
  br_x :: rat
  br_y :: rat
  br_h :: rat
  br_color :: string

text \<open>The four parts of a day from the bottom up; every part moves the upper edge on by its height.\<close>

definition segment_values :: "volume_day \<Rightarrow> (int \<times> string) list" where
  "segment_values d = [(vd_low d, tk Safe), (vd_medium d, tk Amber), (vd_high d, tk Threat), (vd_critical d, tk Magenta)]"

definition bar_height :: "int \<Rightarrow> int \<Rightarrow> rat" where
  "bar_height v mx = js_mul (js_div (of_int v) (of_int mx)) BAR_HEIGHT"

fun stack_bars :: "rat \<Rightarrow> int \<Rightarrow> rat \<Rightarrow> (int \<times> string) list \<Rightarrow> bar list" where
  "stack_bars x mx y [] = []"
| "stack_bars x mx y ((v, c) # vs) = (let h = bar_height v mx; y = js_sub y h in
     \<lparr>br_x = x, br_y = y, br_h = h, br_color = c\<rparr> # stack_bars x mx y vs)"

definition maxTotal :: "volume_day list \<Rightarrow> int" where
  "maxTotal ds = max_of 1 (map day_total ds)"

text \<open>\<open>None\<close> is the text that no alerts were recorded; a day has its bars, its name and its total, with
  the place of the total.\<close>

definition volume_chart :: "volume_day list \<Rightarrow> (bar list \<times> string \<times> int \<times> rat) list option" where
  "volume_chart ds = (if ds = [] \<or> \<not> list_ex (\<lambda>d. day_total d > 0) ds then None
     else Some (map (\<lambda>(i, d). (stack_bars (of_nat i * (BAR_W + BAR_GAP)) (maxTotal ds) BAR_HEIGHT (segment_values d), vd_day d, day_total d,
            js_sub (js_sub BAR_HEIGHT (bar_height (day_total d) (maxTotal ds))) 4)) (enumerate 0 ds)))"

subsection \<open>Analysts\<close>

definition ANALYST_COLORS :: "string list" where
  "ANALYST_COLORS = [tk Magenta, tk Violet, tk Safe, tk Amber, tk Threat]"

definition realAnalysts :: "analyst list \<Rightarrow> analyst list" where
  "realAnalysts xs = filter (\<lambda>a. an_name a \<noteq> ''Unassigned'') xs"

definition throughput :: "analyst list \<Rightarrow> (string \<times> int \<times> string) list" where
  "throughput xs = map (\<lambda>(i, a). (an_name a, an_closed a, ANALYST_COLORS ! (i mod length ANALYST_COLORS)))
     (enumerate 0 (take 6 (js_sort (\<lambda>a b. of_int (an_closed b - an_closed a)) (realAnalysts xs))))"

definition board_cmp :: "analyst \<Rightarrow> analyst \<Rightarrow> rat" where
  "board_cmp a b = (let d = an_closed b - an_closed a in of_int (if d \<noteq> 0 then d else an_handled b - an_handled a))"

definition leaderboard :: "analyst list \<Rightarrow> analyst list" where
  "leaderboard xs = take 6 (js_sort board_cmp (realAnalysts xs))"

definition throughput_total :: "analyst list \<Rightarrow> int" where
  "throughput_total xs = sum_list (map (\<lambda>(_, n, _). n) (throughput xs))"

definition throughput_width :: "analyst list \<Rightarrow> int \<Rightarrow> rat" where
  "throughput_width xs n = js_mul (js_div (of_int n) (of_int (max_of 1 (map (\<lambda>(_, n, _). n) (throughput xs))))) 100"

definition rank_class :: "nat \<Rightarrow> string" where
  "rank_class r = (if r = 1 then ''text-magenta'' else if r = 2 then ''text-amber'' else if r = 3 then ''text-safe'' else ''text-ink-600'')"

definition board_row :: "(rat \<Rightarrow> string) \<Rightarrow> nat \<times> analyst \<Rightarrow> string list" where
  "board_row loc = (\<lambda>(i, a). [int_str (int i + 1), an_name a, loc (of_int (an_closed a)), loc (of_int (an_open a)),
     case an_avgResolve a of Some m \<Rightarrow> num_str m @ ''m'' | None \<Rightarrow> ''-'', int_str (an_critical a)])"

subsection \<open>Shares\<close>

text \<open>A ring: each part with where it begins and ends, in the order given.\<close>

fun conic_parts :: "int \<Rightarrow> (string \<times> int \<times> string) list \<Rightarrow> (string \<times> int \<times> int) list" where
  "conic_parts c [] = []"
| "conic_parts c ((l, v, col) # ss) = (col, c, c + v) # conic_parts (c + v) ss"

definition DISP_COLOR :: "(string, string) obj" where
  "DISP_COLOR = [(''true-positive'', tk Magenta), (''false-positive'', tk Threat), (''benign'', tk Safe), (''duplicate'', tk Amber),
     (''untriaged'', tk Violet)]"

definition dispTotal :: "metrics_page \<Rightarrow> int" where
  "dispTotal s = (case mt_analytics s of Some (v, ds) \<Rightarrow> sum_list (map ds_count ds) | None \<Rightarrow> 0)"

definition disp_percent :: "int \<Rightarrow> int \<Rightarrow> int" where
  "disp_percent n t = (if t \<noteq> 0 then js_round (js_mul (js_div (of_int n) (of_int t)) 100) else 0)"

definition dispSegments :: "metrics_page \<Rightarrow> (string \<times> int \<times> string) list" where
  "dispSegments s = (case mt_analytics s of None \<Rightarrow> []
     | Some (v, ds) \<Rightarrow> map (\<lambda>d. (ds_label d, disp_percent (ds_count d) (dispTotal s),
         case obj_get DISP_COLOR (ds_key d) of Some c \<Rightarrow> c | None \<Rightarrow> tk Violet)) ds)"

definition autoPct :: "metrics_page \<Rightarrow> int" where
  "autoPct s = js_round (case mt_metrics s of Some m \<Rightarrow> ms_automationRate m | None \<Rightarrow> 0)"

definition auto_segments :: "metrics_page \<Rightarrow> (string \<times> int \<times> string) list" where
  "auto_segments s = [(''Automated'', autoPct s, tk Violet), (''Manual'', 100 - autoPct s, tk Amber)]"

subsection \<open>ATT&CK coverage\<close>

definition TACTIC_ID :: "(string, string) obj" where
  "TACTIC_ID = [(''Reconnaissance'', ''TA0043''), (''Resource Development'', ''TA0042''), (''Initial Access'', ''TA0001''),
     (''Execution'', ''TA0002''), (''Persistence'', ''TA0003''), (''Privilege Escalation'', ''TA0004''), (''Defense Evasion'', ''TA0005''),
     (''Credential Access'', ''TA0006''), (''Discovery'', ''TA0007''), (''Lateral Movement'', ''TA0008''), (''Collection'', ''TA0009''),
     (''Command and Control'', ''TA0011''), (''Exfiltration'', ''TA0010''), (''Impact'', ''TA0040'')]"

definition coverageColor :: "int \<Rightarrow> string" where
  "coverageColor p = (if p \<ge> 80 then tk Safe else if p \<ge> 60 then tk Violet else if p \<ge> 40 then tk Amber else tk Threat)"

definition mitreHeatBg :: "int \<Rightarrow> string" where
  "mitreHeatBg p = withAlpha (coverageColor p) (fl (18 / 100))"

definition tactic_coverage :: "mt_tactic \<Rightarrow> int" where
  "tactic_coverage t = (let n = length (mc_covered t) in
     if n \<noteq> 0 then js_round (js_mul (js_div (of_nat (count_of id (mc_covered t))) (of_nat n)) 100) else 0)"

definition mitreTactics :: "(string \<Rightarrow> string \<Rightarrow> rat) \<Rightarrow> metrics_page \<Rightarrow> (string \<times> string \<times> int) list" where
  "mitreTactics lc s = js_sort (\<lambda>(a, _, _) (b, _, _). lc a b)
     (map (\<lambda>t. (case obj_get TACTIC_ID (mc_tactic t) of Some i \<Rightarrow> i | None \<Rightarrow> ''-'', mc_tactic t, tactic_coverage t))
       (case mt_coverage s of Some ts \<Rightarrow> ts | None \<Rightarrow> []))"

text \<open>The line below: the average, the tactics with 80 and more, all of them, and those below 40.\<close>

definition coverage_summary :: "(string \<times> string \<times> int) list \<Rightarrow> int \<times> nat \<times> nat \<times> nat" where
  "coverage_summary ts =
     (if ts \<noteq> [] then js_round (js_div (of_int (sum_list (map (\<lambda>(_, _, c). c) ts))) (of_nat (length ts))) else 0,
      count_of (\<lambda>(_, _, c). c \<ge> 80) ts, length ts, count_of (\<lambda>(_, _, c). c < 40) ts)"

subsection \<open>Playbooks\<close>

definition topPlaybooks :: "mt_playbook list \<Rightarrow> mt_playbook list" where
  "topPlaybooks ps = take 5 (js_sort (\<lambda>a b. of_int (mp_runs b - mp_runs a)) ps)"

definition mt_total_runs :: "mt_playbook list \<Rightarrow> int" where "mt_total_runs ps = sum_list (map mp_runs ps)"

definition avgSuccess :: "mt_playbook list \<Rightarrow> int" where
  "avgSuccess ps = (if ps \<noteq> [] then js_round (js_div (js_sum (map mp_successRate ps)) (of_nat (length ps))) else 0)"

definition avg_time :: "rat \<Rightarrow> string" where
  "avg_time t = (if t < 60 then int_str (js_round t) @ ''s'' else to_fixed 1 (js_div t 60) @ ''m'')"

definition run_share :: "mt_playbook list \<Rightarrow> mt_playbook \<Rightarrow> rat" where
  "run_share ps p = (let mx = (case topPlaybooks ps of q # _ \<Rightarrow> if mp_runs q \<noteq> 0 then mp_runs q else 1 | [] \<Rightarrow> 1) in
     js_mul (js_div (of_int (mp_runs p)) (of_int mx)) 100)"

definition effect_class :: "rat \<Rightarrow> string" where
  "effect_class r = (if r \<ge> 97 then ''text-safe'' else if r \<ge> 90 then ''text-amber'' else ''text-threat'')"

definition effect_row :: "(rat \<Rightarrow> string) \<Rightarrow> mt_playbook list \<Rightarrow> nat \<times> mt_playbook \<Rightarrow> string list \<times> string \<times> rat" where
  "effect_row loc ps = (\<lambda>(i, p). ([int_str (int i + 1), mp_name p, loc (of_int (mp_runs p)), int_str (js_round (mp_successRate p)) @ ''%'',
     avg_time (mp_avgTime p)], effect_class (mp_successRate p), run_share ps p))"

definition effect_foot :: "(rat \<Rightarrow> string) \<Rightarrow> mt_playbook list \<Rightarrow> string list" where
  "effect_foot loc ps = [''Across '' @ int_str (int (length ps)) @ '' playbook'' @ (if length ps = 1 then [] else ''s''),
     loc (of_int (mt_total_runs ps)), int_str (avgSuccess ps) @ ''%'']"

subsection \<open>Orders of the tables\<close>

lemma top_of_sort:
  assumes "x \<in> set (take n (sort_key k xs))" "y \<in> set xs" "y \<notin> set (take n (sort_key k xs))"
  shows "k x \<le> k y"
proof -
  have "y \<in> set (sort_key k xs)" using assms(2) by simp
  then have "y \<in> set (drop n (sort_key k xs))" using assms(3) by (metis Un_iff append_take_drop_id set_append)
  moreover have "sorted (map k (take n (sort_key k xs)) @ map k (drop n (sort_key k xs)))"
    by (simp only: map_append [symmetric] append_take_drop_id sorted_sort_key)
  ultimately show ?thesis using assms(1) by (auto simp: sorted_append)
qed

lemma leaderboard_sorted:
  "leaderboard xs = take 6 (sort_key (\<lambda>a. (- an_closed a, - an_handled a)) (realAnalysts xs))"
  unfolding leaderboard_def
  by (subst js_sort_key [where k = "\<lambda>a. (- an_closed a, - an_handled a)"]) (auto simp: board_cmp_def Let_def less_eq_prod_def)

lemma throughput_sorted:
  "map fst (throughput xs) = map an_name (take 6 (sort_key (\<lambda>a. - an_closed a) (realAnalysts xs)))"
proof -
  have "map fst (throughput xs) = map an_name (map snd (enumerate 0 (take 6 (js_sort (\<lambda>a b. of_int (an_closed b - an_closed a)) (realAnalysts xs)))))"
    by (simp add: throughput_def comp_def split_def del: map_snd_enumerate)
  then show ?thesis unfolding map_snd_enumerate js_sort_int_desc .
qed

text \<open>The board shows at most six analysts, never the bucket of unassigned cases, and nobody who is not
  on it has closed more, or as many and handled more.\<close>

theorem leaderboard_top:
  assumes "a \<in> set (leaderboard xs)" "b \<in> set xs" "b \<notin> set (leaderboard xs)" "an_name b \<noteq> ''Unassigned''"
  shows "length (leaderboard xs) \<le> 6 \<and> an_name a \<noteq> ''Unassigned'' \<and> a \<in> set xs
    \<and> (if an_closed a = an_closed b then an_handled b \<le> an_handled a else an_closed b < an_closed a)"
proof -
  have "(- an_closed a, - an_handled a) \<le> (- an_closed b, - an_handled b)"
    using assms top_of_sort [of a 6 "\<lambda>a. (- an_closed a, - an_handled a)" "realAnalysts xs" b]
    by (simp add: leaderboard_sorted realAnalysts_def)
  moreover have "a \<in> set (realAnalysts xs)" using assms(1) unfolding leaderboard_def by (auto dest: in_set_takeD)
  ultimately show ?thesis by (auto simp: realAnalysts_def leaderboard_def less_eq_prod_def)
qed

subsection \<open>Bounds of what is drawn\<close>

lemma bar_height_bounds: "0 \<le> v \<Longrightarrow> v \<le> mx \<Longrightarrow> 0 < mx \<Longrightarrow> 0 \<le> bar_height v mx \<and> bar_height v mx \<le> BAR_HEIGHT"
proof -
  assume v: "0 \<le> v" "v \<le> mx" "0 < mx"
  then have "0 \<le> (of_int v / of_int mx :: rat)" "(of_int v / of_int mx :: rat) \<le> of_int 1" by simp_all
  then have d: "0 \<le> js_div (of_int v) (of_int mx)" "js_div (of_int v) (of_int mx) \<le> 1"
    using fl_le_int [of "of_int v / of_int mx" 1] by (simp_all add: js_div_def)
  then have "js_div (of_int v) (of_int mx) * 120 \<le> of_int 120" by simp
  then show ?thesis using d fl_le_int [of "js_div (of_int v) (of_int mx) * 120" 120]
    by (simp add: bar_height_def BAR_HEIGHT_def js_mul_def)
qed

lemma day_total_le: "d \<in> set ds \<Longrightarrow> day_total d \<le> maxTotal ds"
  unfolding maxTotal_def by (rule max_of_ge(2)) simp

lemma maxTotal_pos: "0 < maxTotal ds"
  using max_of_ge(1) [of 1 "map day_total ds"] by (simp add: maxTotal_def)

lemma stack_heights: "map br_h (stack_bars x mx y vs) = map (\<lambda>(v, c). bar_height v mx) vs"
  by (induction vs arbitrary: y) (auto simp: Let_def)

text \<open>Every part of every bar has a height within the chart, one part for each severity that counts.\<close>

theorem volume_bars_fit:
  assumes "volume_chart ds = Some rows" "(bars, nm, t, y) \<in> set rows"
    and "\<forall>d \<in> set ds. 0 \<le> vd_critical d \<and> 0 \<le> vd_high d \<and> 0 \<le> vd_medium d \<and> 0 \<le> vd_low d"
  shows "length bars = 4 \<and> (\<forall>b \<in> set bars. 0 \<le> br_h b \<and> br_h b \<le> 120)"
proof -
  obtain i where i: "i < length ds"
      and b: "bars = stack_bars (of_nat i * (BAR_W + BAR_GAP)) (maxTotal ds) BAR_HEIGHT (segment_values (ds ! i))"
    using assms(1,2) by (auto simp: volume_chart_def in_set_enumerate_eq split: if_splits)
  define d where "d = ds ! i"
  have d: "d \<in> set ds" "bars = stack_bars (of_nat i * (BAR_W + BAR_GAP)) (maxTotal ds) BAR_HEIGHT (segment_values d)"
    using i b by (simp_all add: d_def)
  have "0 \<le> v \<and> v \<le> maxTotal ds" if "(v, c) \<in> set (segment_values d)" for v c
    using that assms(3) d(1) day_total_le [OF d(1)] by (auto simp: segment_values_def day_total_def)
  then have "\<forall>h \<in> set (map br_h bars). 0 \<le> h \<and> h \<le> BAR_HEIGHT"
    unfolding d(2) stack_heights using bar_height_bounds maxTotal_pos [of ds] by fastforce
  moreover have "length (map br_h bars) = 4" unfolding d(2) stack_heights by (simp add: segment_values_def)
  ultimately show ?thesis by (simp add: BAR_HEIGHT_def)
qed

text \<open>The chart counts four of the five severities: a week of informational alerts alone is shown as a
  week without alerts.\<close>

theorem info_week_empty:
  "volume_chart [\<lparr>vd_day = ''Mon'', vd_critical = 0, vd_high = 0, vd_medium = 0, vd_low = 0, vd_info = n\<rparr>] = None"
  by (simp add: volume_chart_def day_total_def)

lemma percent_int: "0 \<le> a \<Longrightarrow> a \<le> b \<Longrightarrow> 0 < b \<Longrightarrow> 0 \<le> js_round (js_mul (js_div a b) 100) \<and> js_round (js_mul (js_div a b) 100) \<le> 100"
  using js_percent_bounds [of a b] js_round_bounds [of 0 "js_mul (js_div a b) 100" 100] by simp

lemma tactic_coverage_bounds: "0 \<le> tactic_coverage t \<and> tactic_coverage t \<le> 100"
  using percent_int [of "of_nat (count_of id (mc_covered t))" "of_nat (length (mc_covered t))"] count_of_le [of id "mc_covered t"]
  by (auto simp: tactic_coverage_def Let_def)

text \<open>Every tactic has a coverage between 0 and 100, the average is one too, the tactics are those of the
  answer, and no tactic is counted both as covered and as a gap.\<close>

theorem coverage_bounds:
  assumes "mt_coverage s = Some ts"
  shows "(\<forall>(i, nm, c) \<in> set (mitreTactics lc s). 0 \<le> c \<and> c \<le> 100) \<and> length (mitreTactics lc s) = length ts
    \<and> (case coverage_summary (mitreTactics lc s) of (avg, full, n, gaps) \<Rightarrow> full + gaps \<le> n)"
proof -
  have "count_of (\<lambda>(_, _, c). c \<ge> 80) xs + count_of (\<lambda>(_, _, c). c < 40) xs \<le> length xs" for xs :: "(string \<times> string \<times> int) list"
    by (induction xs) (auto simp: count_of_def)
  note this [of "mitreTactics lc s"]
  moreover have "length (mitreTactics lc s) = length ts" by (simp add: mitreTactics_def assms)
  moreover have "\<forall>(i, nm, c) \<in> set (mitreTactics lc s). 0 \<le> c \<and> c \<le> 100"
    using tactic_coverage_bounds by (auto simp: mitreTactics_def)
  ultimately show ?thesis by (simp add: coverage_summary_def)
qed

text \<open>With no more cases breached than open, the service level shown is between 0 and 100.\<close>

lemma sla_bounds:
  assumes "0 < ms_openCases m" "ms_slaBreached m = Some b" "0 \<le> b" "b \<le> ms_openCases m"
  shows "0 \<le> sla_percent m \<and> sla_percent m \<le> 100"
proof -
  let ?d = "js_div (of_int b) (of_int (ms_openCases m))"
  have "(of_int b / of_int (ms_openCases m) :: rat) \<le> of_int 1" using assms by simp
  then have d: "0 \<le> ?d" "?d \<le> 1" using fl_le_int [of "of_int b / of_int (ms_openCases m)" 1] assms by (simp_all add: js_div_def)
  then have s: "0 \<le> js_sub 1 ?d" "js_sub 1 ?d \<le> of_int 1" using fl_le_int [of "1 - ?d" 1] by (simp_all add: js_sub_def)
  then have "js_sub 1 ?d * 100 \<le> of_int 100" by simp
  then have "0 \<le> js_mul (js_sub 1 ?d) 100" "js_mul (js_sub 1 ?d) 100 \<le> 100"
    using s fl_le_int [of "js_sub 1 ?d * 100" 100] by (simp_all add: js_mul_def)
  then show ?thesis using js_round_bounds [of 0 "js_mul (js_sub 1 ?d) 100" 100] assms(2) by (simp add: sla_percent_def)
qed

lemma conic_parts_end: "conic_parts c ss \<noteq> [] \<Longrightarrow> snd (snd (last (conic_parts c ss))) = c + sum_list (map (\<lambda>(_, v, _). v) ss)"
proof (induction ss arbitrary: c)
  case (Cons x ss)
  then show ?case by (cases x; cases ss) (auto simp: add.assoc)
qed simp

text \<open>The ring of automation is always closed; the ring of dispositions need not be, because its parts
  are rounded one by one: three equal ones end at 99.\<close>

theorem rings_close:
  "snd (snd (last (conic_parts 0 (auto_segments s)))) = 100
   \<and> snd (snd (last (conic_parts 0 (dispSegments (metrics_step (MtAnalytics []
       (map (\<lambda>l. \<lparr>ds_key = l, ds_label = l, ds_count = 1\<rparr>) [''benign'', ''duplicate'', ''untriaged''])) metrics_mount))))) = 99"
proof -
  have "\<bar>js_div 1 3 - 1 / 3\<bar> \<le> 1 / 3 / 2 ^ 53" using fl_error [of "1 / 3"] by (simp add: js_div_def)
  then have d: "33 / 100 < js_div 1 3" "js_div 1 3 < 334 / 1000" by (simp_all add: abs_if split: if_splits)
  then have "\<bar>js_mul (js_div 1 3) 100 - js_div 1 3 * 100\<bar> \<le> js_div 1 3 * 100 / 2 ^ 53"
    using fl_error [of "js_div 1 3 * 100"] by (simp add: js_mul_def abs_if split: if_splits)
  with d have "\<bar>js_mul (js_div 1 3) 100 - of_int 33\<bar> < 1 / 2" by (simp add: abs_if split: if_splits)
  then have "js_round (js_mul (js_div 1 3) 100) = 33" by (rule js_round_near)
  then show ?thesis by (simp add: auto_segments_def dispSegments_def dispTotal_def disp_percent_def metrics_mount_def)
qed

subsection \<open>Two averages\<close>

text \<open>The average of this page gives every playbook the same weight, the one of the playbooks page weighs
  by runs: the same two playbooks are at 50 here and at 99 there.\<close>

theorem averages_differ:
  "avgSuccess [\<lparr>mp_id = ''a'', mp_name = ''a'', mp_runs = 99, mp_successRate = 100, mp_avgTime = 1\<rparr>,
      \<lparr>mp_id = ''b'', mp_name = ''b'', mp_runs = 1, mp_successRate = 0, mp_avgTime = 1\<rparr>] = 50
   \<and> bk_avgSuccess (pb_figures (map (\<lambda>(i, r, n). pb_entry_of (JObj [(''id'', JStr i), (''successRate'', JNum r), (''runs'', JNum n)]))
      [(''a'', 100, 99), (''b'', 0, 1)])) = Some 99"
  by (simp add: avgSuccess_def js_sum_def js_add_def js_div_def js_round_def pb_figures_def Let_def pb_entry_of_def rule_num_def obj_get_def js_mul_def)

end
