(* ===== verification/SocConsole.thy ===== *)
theory SocConsole
  imports Feeds SiemQueue SoarPage "HOL-Library.Product_Lexorder"
begin

text \<open>
  The SOC console (\<open>app/dashboard/soc/page.tsx\<close>): the loads that repeat every twenty seconds, the
  investigation queue with its filters and the workload, assigning and escalating an alert, and the
  figures around it. Several loads can be under way; their answers come in any order. \<open>me\<close> is the name
  of the reader, empty when unknown; the age of an entry is given in minutes.
\<close>

subsection \<open>Ages and labels\<close>

definition STATUS_LABELS :: "(string, string) obj" where
  "STATUS_LABELS = [(''new'', ''New''), (''assigned'', ''Assigned''), (''in-progress'', ''In Progress''), (''pending'', ''Pending'')]"

definition age :: "rat \<Rightarrow> string" where
  "age m = (if m < 60 then int_str (js_round m) @ ''m''
     else if m < 1440 then int_str (js_floor (js_div m 60)) @ ''h '' @ int_str (js_round (js_mod m 60)) @ ''m''
     else int_str (js_floor (js_div m 1440)) @ ''d '' @ int_str (js_floor (js_div (js_mod m 1440) 60)) @ ''h'')"

subsection \<open>What is loaded\<close>

record floor_alert =
  fa_id :: string
  fa_ts :: string
  fa_title :: string
  fa_severity :: string
  fa_status :: string
  fa_owner :: "string option"
  fa_ruleName :: "string option"
  fa_mitreTactic :: "string option"
  fa_srcIp :: "string option"
  fa_hostname :: "string option"
  fa_username :: "string option"
  fa_description :: "string option"

record sla_breach =
  sb_id :: string
  sb_title :: string
  sb_srcIp :: "string option"
  sb_ack :: bool
  sb_ageMinutes :: rat
  sb_thresholdMinutes :: rat

record soc_triage =
  st_total :: int
  st_bySeverity :: "(string, int) obj"
  st_unassigned :: int
  st_byStatus :: "(string, int) obj"
  st_oldest :: rat
  st_breachCount :: int
  st_breaches :: "sla_breach list"

record soc_queue =
  sq_depth :: int
  sq_inFlight :: int
  sq_lag :: rat
  sq_maxBacklog :: int
  sq_shedding :: bool

record soc_engine =
  sg_running :: bool
  sg_enabled :: bool
  sg_tick :: rat
  sg_queue :: "soc_queue option"

text \<open>A port that is null is 0 here: it is shown in neither case.\<close>

record soc_listeners =
  sl_syslogEnabled :: bool
  sl_syslogPort :: int
  sl_watchEnabled :: bool
  sl_watchInterval :: rat

record audit_entry =
  ae_id :: string
  ae_ts :: string
  ae_actor :: "string option"
  ae_action :: string
  ae_target :: "string option"

text \<open>The answers to the calls of one load, each of which may have failed.\<close>

record soc_answers =
  aw_triage :: "soc_triage option"
  aw_kpis :: "(rat \<times> rat \<times> rat) option"
  aw_engine :: "soc_engine option"
  aw_coverage :: "(rat \<times> int \<times> int \<times> int) option"
  aw_listeners :: "soc_listeners option"
  aw_feeds :: "(int \<times> int \<times> int \<times> int \<times> int) option"
  aw_alerts :: "floor_alert list option"
  aw_audit :: "audit_entry list option"

record soc_page =
  sc_triage :: "soc_triage option"
  sc_kpis :: "(rat \<times> rat \<times> rat) option"
  sc_engine :: "soc_engine option"
  sc_coverage :: "(rat \<times> int \<times> int \<times> int) option"
  sc_listeners :: "soc_listeners option"
  sc_feeds :: "(int \<times> int \<times> int \<times> int \<times> int) option"
  sc_alerts :: "floor_alert list"
  sc_search :: string
  sc_sev :: string
  sc_assign :: string
  sc_assigning :: "(string \<times> string) option"
  sc_escalating :: "floor_alert option"
  sc_escalated :: "(string \<times> string) option"
  sc_timers :: "(int \<times> string) list"
  sc_activity :: "audit_entry list"
  sc_loading :: bool
  sc_refreshing :: bool
  sc_flight :: nat
  sc_calls :: "call list"

definition load_soc :: "call list" where
  "load_soc = [fetchTriage, fetchSiemKpis, fetchEngineStatus, fetchAttackCoverage, fetchLogListeners, fetchFeedsSummary,
     fetchSiemAlerts (Some [(''limit'', ''150'')]), fetchAuditLog (Some 60) None]"

definition start_load :: "soc_page \<Rightarrow> soc_page" where
  "start_load s = s\<lparr>sc_refreshing := True, sc_flight := Suc (sc_flight s), sc_calls := sc_calls s @ load_soc\<rparr>"

definition soc_mount :: soc_page where
  "soc_mount = start_load \<lparr>sc_triage = None, sc_kpis = None, sc_engine = None, sc_coverage = None, sc_listeners = None,
     sc_feeds = None, sc_alerts = [], sc_search = [], sc_sev = ''all'', sc_assign = ''all'', sc_assigning = None, sc_escalating = None,
     sc_escalated = None, sc_timers = [], sc_activity = [], sc_loading = True, sc_refreshing = False, sc_flight = 0, sc_calls = []\<rparr>"

definition soc_action :: "string \<Rightarrow> bool" where
  "soc_action a \<longleftrightarrow> (\<exists>p \<in> set [''alert.'', ''case.'', ''suppression.'', ''playbook.'', ''incident.'']. take (length p) a = p)"

definition or_keep :: "'a option \<Rightarrow> 'a option \<Rightarrow> 'a option" where
  "or_keep new old = (case new of Some x \<Rightarrow> Some x | None \<Rightarrow> old)"

definition load_answered :: "soc_answers \<Rightarrow> soc_page \<Rightarrow> soc_page" where
  "load_answered w s = (if sc_flight s = 0 then s else
     s\<lparr>sc_triage := or_keep (aw_triage w) (sc_triage s), sc_kpis := or_keep (aw_kpis w) (sc_kpis s),
       sc_engine := or_keep (aw_engine w) (sc_engine s), sc_coverage := or_keep (aw_coverage w) (sc_coverage s),
       sc_listeners := or_keep (aw_listeners w) (sc_listeners s), sc_feeds := or_keep (aw_feeds w) (sc_feeds s),
       sc_alerts := (case aw_alerts w of Some xs \<Rightarrow> xs | None \<Rightarrow> sc_alerts s),
       sc_activity := (case aw_audit w of Some rs \<Rightarrow> take 12 (filter (\<lambda>r. soc_action (ae_action r)) rs) | None \<Rightarrow> sc_activity s),
       sc_loading := False, sc_refreshing := False, sc_flight := sc_flight s - 1\<rparr>)"

subsection \<open>The investigation queue\<close>

definition SEV_RANK :: "(string, int) obj" where
  "SEV_RANK = [(''critical'', 4), (''high'', 3), (''medium'', 2), (''low'', 1), (''info'', 0)]"

definition OPEN_STATUS :: "string list" where
  "OPEN_STATUS = [''new'', ''assigned'', ''in-progress'', ''pending'']"

definition openAlerts :: "soc_page \<Rightarrow> floor_alert list" where
  "openAlerts s = filter (\<lambda>a. fa_status a \<in> set OPEN_STATUS) (sc_alerts s)"

definition text_of :: "string option \<Rightarrow> string" where "text_of t = (case t of Some x \<Rightarrow> x | None \<Rightarrow> [])"

definition floor_hay :: "floor_alert \<Rightarrow> string" where
  "floor_hay a = toLowerCase (join '' '' (filter (\<lambda>x. x \<noteq> [])
     (fa_title a # map text_of [fa_ruleName a, fa_srcIp a, fa_hostname a, fa_username a, fa_owner a])))"

definition floor_shown :: "string \<Rightarrow> soc_page \<Rightarrow> floor_alert \<Rightarrow> bool" where
  "floor_shown me s a \<longleftrightarrow> (sc_sev s = ''all'' \<or> fa_severity a = sc_sev s) \<and> (sc_assign s = ''mine'' \<longrightarrow> fa_owner a = Some me)
     \<and> (sc_assign s = ''unassigned'' \<longrightarrow> text_of (fa_owner a) = [])
     \<and> (sc_search s = [] \<or> str_includes (floor_hay a) (toLowerCase (sc_search s)))"

text \<open>By rank, then the newest first; a rank or a time that is unknown makes its difference NaN.\<close>

definition floor_cmp :: "int \<Rightarrow> floor_alert \<Rightarrow> floor_alert \<Rightarrow> rat" where
  "floor_cmp tz x y = (case ms_diff (obj_get SEV_RANK (fa_severity y)) (obj_get SEV_RANK (fa_severity x)) of
     Some d \<Rightarrow> if d \<noteq> 0 then of_int d
       else (case ms_diff (date_parse tz (fa_ts y)) (date_parse tz (fa_ts x)) of Some t \<Rightarrow> of_int t | None \<Rightarrow> 0)
   | None \<Rightarrow> (case ms_diff (date_parse tz (fa_ts y)) (date_parse tz (fa_ts x)) of Some t \<Rightarrow> of_int t | None \<Rightarrow> 0))"

definition queueRows :: "int \<Rightarrow> string \<Rightarrow> soc_page \<Rightarrow> floor_alert list" where
  "queueRows tz me s = js_sort (floor_cmp tz) (filter (floor_shown me s) (openAlerts s))"

text \<open>\<open>Object.entries\<close>: the keys that are array indices first, in their order, then the others as they
  were added.\<close>

definition index_val :: "string \<Rightarrow> nat" where
  "index_val k = foldl (\<lambda>n c. 10 * n + (of_char c - 48)) 0 k"

definition is_index :: "string \<Rightarrow> bool" where
  "is_index k \<longleftrightarrow> k \<noteq> [] \<and> list_all is_digit k \<and> (k = ''0'' \<or> hd k \<noteq> CHR ''0'') \<and> index_val k < 2 ^ 32 - 1"

definition obj_entries :: "(string, 'v) obj \<Rightarrow> (string \<times> 'v) list" where
  "obj_entries ob = sort_key (\<lambda>(k, _). index_val k) (filter (\<lambda>(k, _). is_index k) ob) @ filter (\<lambda>(k, _). \<not> is_index k) ob"

definition owner_key :: "floor_alert \<Rightarrow> string" where
  "owner_key a = (if text_of (fa_owner a) = [] then ''unassigned'' else text_of (fa_owner a))"

definition count_owners :: "floor_alert list \<Rightarrow> (string, nat) obj" where
  "count_owners as = foldl (\<lambda>m a. obj_set (owner_key a) (Suc (case obj_get m (owner_key a) of Some n \<Rightarrow> n | None \<Rightarrow> 0)) m) [] as"

definition workload :: "soc_page \<Rightarrow> (string \<times> nat) list" where
  "workload s = js_sort (\<lambda>a b. of_nat (snd b) - of_nat (snd a)) (obj_entries (count_owners (openAlerts s)))"

subsection \<open>Assigning and escalating\<close>

text \<open>The buttons are those of the first sixty rows, the one that assigns only for an alert of somebody
  else.\<close>

definition row_alert :: "int \<Rightarrow> string \<Rightarrow> string \<Rightarrow> soc_page \<Rightarrow> floor_alert option" where
  "row_alert tz me i s = find (\<lambda>a. fa_id a = i) (take 60 (queueRows tz me s))"

definition set_alert :: "string \<Rightarrow> (floor_alert \<Rightarrow> floor_alert) \<Rightarrow> soc_page \<Rightarrow> soc_page" where
  "set_alert i f s = s\<lparr>sc_alerts := map (\<lambda>a. if fa_id a = i then f a else a) (sc_alerts s)\<rparr>"

definition assignToMe :: "int \<Rightarrow> string \<Rightarrow> string \<Rightarrow> soc_page \<Rightarrow> soc_page" where
  "assignToMe tz me i s = (if me = [] \<or> sc_assigning s \<noteq> None then s else case row_alert tz me i s of None \<Rightarrow> s
     | Some a \<Rightarrow> if fa_owner a = Some me then s
         else let next = (if fa_status a = ''new'' then ''assigned'' else fa_status a) in
           s\<lparr>sc_assigning := Some (i, next),
             sc_calls := sc_calls s @ [patchAlert i (JObj [(''owner'', JStr me), (''status'', JStr next)])]\<rparr>)"

definition assign_answered :: "string \<Rightarrow> bool \<Rightarrow> soc_page \<Rightarrow> soc_page" where
  "assign_answered me ok s = (case sc_assigning s of None \<Rightarrow> s
     | Some (i, next) \<Rightarrow> (if ok then set_alert i (\<lambda>a. a\<lparr>fa_owner := Some me, fa_status := next\<rparr>) s else s)\<lparr>sc_assigning := None\<rparr>)"

definition floor_case :: "string \<Rightarrow> floor_alert \<Rightarrow> json" where
  "floor_case me a = JObj [(''title'', JStr (fa_title a)),
     (''severity'', JStr (if fa_severity a \<in> set [''critical'', ''high'', ''medium'', ''low''] then fa_severity a else ''medium'')),
     (''type'', JStr ''Investigation''),
     (''description'', JStr (''Escalated from SIEM alert '' @ fa_id a
        @ (if text_of (fa_ruleName a) = [] then [] else '' ('' @ text_of (fa_ruleName a) @ '')'') @ ''.''
        @ (if text_of (fa_description a) = [] then [] else '' '' @ text_of (fa_description a)))),
     (''owner'', if me = [] then JUndef else JStr me), (''alertCount'', JNum 1),
     (''entities'', JArr (concat (map (\<lambda>(t, v). if text_of v = [] then [] else [JObj [(''type'', JStr t), (''value'', JStr (text_of v))]])
        [(''ip'', fa_srcIp a), (''host'', fa_hostname a), (''user'', fa_username a)])))]"

definition escalateToCase :: "int \<Rightarrow> string \<Rightarrow> string \<Rightarrow> soc_page \<Rightarrow> soc_page" where
  "escalateToCase tz me i s = (if sc_escalating s \<noteq> None then s else case row_alert tz me i s of None \<Rightarrow> s
     | Some a \<Rightarrow> s\<lparr>sc_escalating := Some a, sc_calls := sc_calls s @ [createCase (floor_case me a)]\<rparr>)"

definition case_href :: "string \<Rightarrow> string" where
  "case_href c = ''/dashboard/soar?case='' @ encodeURIComponent c"

text \<open>The answer is the id of the case. The change of the alert is sent, not waited for, and shown at
  once; the note about the case goes away after twelve seconds.\<close>

definition escalate_answered :: "string \<Rightarrow> int \<Rightarrow> string option \<Rightarrow> soc_page \<Rightarrow> soc_page" where
  "escalate_answered me now r s = (case sc_escalating s of None \<Rightarrow> s
     | Some a \<Rightarrow> (case r of None \<Rightarrow> s
         | Some c \<Rightarrow> (set_alert (fa_id a) (\<lambda>x. x\<lparr>fa_owner := (if me = [] then fa_owner x else Some me), fa_status := ''in-progress''\<rparr>) s)
             \<lparr>sc_calls := sc_calls s @ [patchAlert (fa_id a) (JObj
                [(''owner'', if me = [] then (case fa_owner a of Some w \<Rightarrow> JStr w | None \<Rightarrow> JNull) else JStr me), (''status'', JStr ''in-progress'')])],
              sc_escalated := Some (c, fa_title a), sc_timers := sc_timers s @ [(now + 12000, c)]\<rparr>)\<lparr>sc_escalating := None\<rparr>)"

definition close_note :: "string \<Rightarrow> (string \<times> string) option \<Rightarrow> (string \<times> string) option" where
  "close_note c n = (case n of Some (d, t) \<Rightarrow> if d = c then None else Some (d, t) | None \<Rightarrow> None)"

definition soc_time :: "int \<Rightarrow> soc_page \<Rightarrow> soc_page" where
  "soc_time now s = s\<lparr>sc_escalated := fold (\<lambda>(t, c). close_note c) (filter (\<lambda>(t, c). t \<le> now) (sc_timers s)) (sc_escalated s),
     sc_timers := filter (\<lambda>(t, c). \<not> t \<le> now) (sc_timers s)\<rparr>"

datatype soc_op = ScTick | ScRefresh | ScLoaded soc_answers | ScSearch string | ScSev string | ScAssignFilter string
  | ScAssign string | ScAssigned bool | ScEscalate string | ScEscalated int "string option" | ScTime int | ScDismiss

fun soc_step :: "int \<Rightarrow> string \<Rightarrow> soc_op \<Rightarrow> soc_page \<Rightarrow> soc_page" where
  "soc_step tz me ScTick s = start_load s"
| "soc_step tz me ScRefresh s = (if sc_refreshing s then s else start_load s)"
| "soc_step tz me (ScLoaded w) s = load_answered w s"
| "soc_step tz me (ScSearch t) s = s\<lparr>sc_search := t\<rparr>"
| "soc_step tz me (ScSev v) s = s\<lparr>sc_sev := v\<rparr>"
| "soc_step tz me (ScAssignFilter v) s = s\<lparr>sc_assign := v\<rparr>"
| "soc_step tz me (ScAssign i) s = assignToMe tz me i s"
| "soc_step tz me (ScAssigned ok) s = assign_answered me ok s"
| "soc_step tz me (ScEscalate i) s = escalateToCase tz me i s"
| "soc_step tz me (ScEscalated now r) s = escalate_answered me now r s"
| "soc_step tz me (ScTime now) s = soc_time now s"
| "soc_step tz me ScDismiss s = s\<lparr>sc_escalated := None\<rparr>"

subsection \<open>What is shown\<close>

text \<open>Label, value and note of a figure; \<open>-\<close> before it has arrived.\<close>

definition soc_tiles :: "soc_page \<Rightarrow> (string \<times> string \<times> string) list" where
  "soc_tiles s = (let t = sc_triage s; show_open = (\<lambda>f. case t of Some x \<Rightarrow> int_str (f x) | None \<Rightarrow> ''-'') in
     [(''Open queue'', show_open st_total, case t of Some x \<Rightarrow> int_str (st_unassigned x) @ '' unassigned'' | None \<Rightarrow> []),
      (''Critical open'', show_open (\<lambda>x. case obj_get (st_bySeverity x) ''critical'' of Some n \<Rightarrow> n | None \<Rightarrow> 0), []),
      (''SLA breaches'', show_open st_breachCount, []), (''Oldest open'', case t of Some x \<Rightarrow> age (st_oldest x) | None \<Rightarrow> ''-'', []),
      (''MTTA'', case sc_kpis s of Some (a, r, e) \<Rightarrow> num_str a @ ''m'' | None \<Rightarrow> ''-'', []),
      (''MTTR'', case sc_kpis s of Some (a, r, e) \<Rightarrow> num_str r @ ''m'' | None \<Rightarrow> ''-'', []),
      (''Ingest EPS'', case sc_kpis s of Some (a, r, e) \<Rightarrow> num_str e | None \<Rightarrow> ''-'', [])])"

definition queue_note :: "int \<Rightarrow> string \<Rightarrow> soc_page \<Rightarrow> string" where
  "queue_note tz me s = (let n = length (queueRows tz me s) in
     if n = 0 then (if openAlerts s = [] then ''No open alerts'' else ''No alerts match the current filters.'')
     else if n > 60 then ''+'' @ int_str (int n - 60) @ '' more'' else [])"

text \<open>A row: its link, title, state, rule or tactic, address, owner, and whether it can be assigned.\<close>

definition floor_row :: "string \<Rightarrow> floor_alert \<Rightarrow> string list \<times> bool" where
  "floor_row me a = ([''/dashboard/siem?alert='' @ fa_id a, fa_title a,
      case obj_get STATUS_LABELS (fa_status a) of Some l \<Rightarrow> l | None \<Rightarrow> fa_status a,
      if text_of (fa_ruleName a) \<noteq> [] then text_of (fa_ruleName a) else if text_of (fa_mitreTactic a) \<noteq> [] then text_of (fa_mitreTactic a) else ''-'',
      text_of (fa_srcIp a), owner_key a], fa_owner a \<noteq> Some me \<and> me \<noteq> [])"

definition breach_href :: "sla_breach \<Rightarrow> string" where
  "breach_href b = ''/dashboard/siem?q='' @ encodeURIComponent (if text_of (sb_srcIp b) \<noteq> [] then text_of (sb_srcIp b) else sb_title b)"

datatype breach_body = EmptyRoom bool | AllWithin | Breaches "(string \<times> string \<times> string) list" int

definition breach_panel :: "soc_page \<Rightarrow> breach_body" where
  "breach_panel s = (let bs = (case sc_triage s of Some t \<Rightarrow> st_breaches t | None \<Rightarrow> []) in
     if (case sc_triage s of Some t \<Rightarrow> st_total t = 0 | None \<Rightarrow> False)
     then EmptyRoom (case sc_engine s of Some e \<Rightarrow> \<not> sg_enabled e | None \<Rightarrow> False)
     else if bs = [] then AllWithin
     else Breaches (map (\<lambda>b. (if sb_ack b then ''Unacked'' else ''Overdue'', age (sb_ageMinutes b), ''SLA '' @ age (sb_thresholdMinutes b))) bs)
       (case sc_triage s of Some t \<Rightarrow> max 0 (st_breachCount t - int (length bs)) | None \<Rightarrow> 0))"

definition engine_text :: "soc_page \<Rightarrow> string" where
  "engine_text s = (case sc_engine s of None \<Rightarrow> ''Paused''
     | Some e \<Rightarrow> (if sg_running e then ''Running'' else if sg_enabled e then ''Enabled'' else ''Paused'') @ '' - '' @ num_str (sg_tick e) @ ''s'')"

definition backlog_width :: "soc_queue \<Rightarrow> rat" where
  "backlog_width q = min 100 (js_mul (js_div (of_int (sq_depth q)) (of_int (sq_maxBacklog q))) 100)"

definition lag_color :: "soc_queue \<Rightarrow> string" where
  "lag_color q = (if sq_lag q > 60 then tk Threat else tk Safe)"

definition sevOrder :: "string list" where "sevOrder = [''critical'', ''high'', ''medium'', ''low'', ''info'']"

definition severity_bars :: "soc_page \<Rightarrow> (string \<times> int \<times> rat) list" where
  "severity_bars s = (case sc_triage s of None \<Rightarrow> []
     | Some t \<Rightarrow> map (\<lambda>v. let n = (case obj_get (st_bySeverity t) v of Some k \<Rightarrow> k | None \<Rightarrow> 0) in
         (v, n, if st_total t \<noteq> 0 then js_mul (js_div (of_int n) (of_int (st_total t))) 100 else 0)) sevOrder)"

definition triage_states :: "soc_page \<Rightarrow> (string \<times> int) list" where
  "triage_states s = (case sc_triage s of None \<Rightarrow> []
     | Some t \<Rightarrow> map (\<lambda>(k, l). (l, case obj_get (st_byStatus t) k of Some n \<Rightarrow> n | None \<Rightarrow> 0)) STATUS_LABELS)"

definition audit_line :: "(string \<Rightarrow> rat) \<Rightarrow> audit_entry \<Rightarrow> string \<times> string \<times> string \<times> string" where
  "audit_line minutes r = (case ae_actor r of Some a \<Rightarrow> a | None \<Rightarrow> ''system'', ae_action r, text_of (ae_target r), age (minutes (ae_ts r)) @ '' ago'')"

definition listener_texts :: "soc_listeners \<Rightarrow> string list" where
  "listener_texts l = [(if sl_syslogPort l \<noteq> 0 then '':'' @ int_str (sl_syslogPort l) else []), if sl_syslogEnabled l then ''Listening'' else ''Off'',
     if sl_watchEnabled l then ''Every '' @ num_str (sl_watchInterval l) @ ''s'' else ''Off'']"

definition floor_note :: "string \<Rightarrow> string" where
  "floor_note t = take 36 t @ (if length t > 36 then ''...'' else [])"

subsection \<open>The queue and the workload\<close>

definition floor_key :: "int \<Rightarrow> floor_alert \<Rightarrow> int \<times> int" where
  "floor_key tz a = (- the (obj_get SEV_RANK (fa_severity a)), - the (date_parse tz (fa_ts a)))"

lemma floor_cmp_key:
  assumes "obj_get SEV_RANK (fa_severity a) \<noteq> None" "obj_get SEV_RANK (fa_severity b) \<noteq> None"
    "date_parse tz (fa_ts a) \<noteq> None" "date_parse tz (fa_ts b) \<noteq> None"
  shows "(floor_cmp tz a b \<le> 0) = (floor_key tz a \<le> floor_key tz b)"
  using assms by (auto simp: floor_cmp_def floor_key_def less_eq_prod_def split: if_splits)

text \<open>The queue is the open alerts that pass the filters, each as often as it is loaded, the most severe
  first and the newest first among those of a severity.\<close>

theorem soc_queue_exact:
  assumes "\<forall>a \<in> set (sc_alerts s). obj_get SEV_RANK (fa_severity a) \<noteq> None \<and> date_parse tz (fa_ts a) \<noteq> None"
  shows "queueRows tz me s = sort_key (floor_key tz) (filter (\<lambda>a. fa_status a \<in> set OPEN_STATUS \<and> floor_shown me s a) (sc_alerts s))"
proof -
  have "filter (floor_shown me s) (openAlerts s) = filter (\<lambda>a. fa_status a \<in> set OPEN_STATUS \<and> floor_shown me s a) (sc_alerts s)"
    by (simp add: openAlerts_def)
  then show ?thesis unfolding queueRows_def using assms by (simp, intro js_sort_key floor_cmp_key) auto
qed

lemma count_owners_snoc:
  "count_owners (as @ [a]) = obj_set (owner_key a) (Suc (case obj_get (count_owners as) (owner_key a) of Some n \<Rightarrow> n | None \<Rightarrow> 0)) (count_owners as)"
  by (simp add: count_owners_def)

lemma count_owners_get:
  "obj_get (count_owners as) k = (if count_of (\<lambda>a. owner_key a = k) as = 0 then None else Some (count_of (\<lambda>a. owner_key a = k) as))"
proof (induction as arbitrary: k rule: rev_induct)
  case (snoc a as)
  from this [of k] this [of "owner_key a"] show ?case
    by (cases "owner_key a = k") (auto simp: count_owners_snoc count_of_def split: if_splits)
qed (simp add: count_owners_def count_of_def)

lemma count_owners_keys: "distinct (map fst (count_owners as))"
  by (induction as rule: rev_induct) (simp_all add: count_owners_snoc distinct_obj_set count_owners_def [of "[]"])

lemma mset_obj_entries: "mset (obj_entries ob) = mset ob"
proof -
  have "mset (filter P ob) + mset (filter (\<lambda>x. \<not> P x) ob) = mset ob" for P by (induction ob) auto
  from this [of "\<lambda>(k, _). is_index k"] show ?thesis by (simp add: obj_entries_def split_def)
qed

lemma mset_workload: "mset (workload s) = mset (count_owners (openAlerts s))"
  by (simp add: workload_def mset_obj_entries)

lemma set_workload: "(k, n) \<in> set (workload s) \<longleftrightarrow> n = count_of (\<lambda>a. owner_key a = k) (openAlerts s) \<and> 0 < n"
proof -
  have "set (workload s) = set (count_owners (openAlerts s))" using mset_workload [of s] by (rule mset_eq_setD)
  then have "(k, n) \<in> set (workload s) \<longleftrightarrow> obj_get (count_owners (openAlerts s)) k = Some n"
    using count_owners_keys by (simp add: obj_get_def)
  then show ?thesis by (auto simp: count_owners_get)
qed

text \<open>Every open alert is carried by exactly one entry of the workload, and nobody is listed twice.\<close>

theorem workload_partitions:
  "distinct (map fst (workload s))
   \<and> (\<forall>k n. (k, n) \<in> set (workload s) = (n = count_of (\<lambda>a. owner_key a = k) (openAlerts s) \<and> 0 < n))
   \<and> sum_list (map snd (workload s)) = length (openAlerts s) \<and> sorted_wrt (\<ge>) (map snd (workload s))"
proof -
  have "mset (map fst (workload s)) = mset (map fst (count_owners (openAlerts s)))" by (simp add: mset_workload)
  then have d: "distinct (map fst (workload s))" using count_owners_keys mset_eq_imp_distinct_iff by blast
  have add: "sum_list (map snd (obj_set k (Suc (case obj_get m k of Some n \<Rightarrow> n | None \<Rightarrow> 0)) m)) = Suc (sum_list (map snd m))"
    if "distinct (map fst m)" for k and m :: "(string, nat) obj"
    using that by (induction m) (auto simp: obj_get_def)
  have "sum_list (map snd (count_owners as)) = length as" for as
    by (induction as rule: rev_induct) (simp_all add: count_owners_snoc add count_owners_keys count_owners_def [of "[]"])
  moreover have "sum_list (map snd (workload s)) = sum_list (map snd (count_owners (openAlerts s)))"
    using mset_workload [of s] by (metis mset_map sum_mset_sum_list)
  moreover have "sorted_wrt (\<ge>) (map snd (workload s))"
  proof -
    have "workload s = sort_key (\<lambda>e. - int (snd e)) (obj_entries (count_owners (openAlerts s)))"
      unfolding workload_def by (rule js_sort_key) auto
    then have "sorted (map (\<lambda>e. - int (snd e)) (workload s))" by simp
    then show ?thesis by (simp add: sorted_map sorted_wrt_map)
  qed
  ultimately show ?thesis using d by (simp add: set_workload)
qed

subsection \<open>Ages\<close>

text \<open>A whole number of minutes is shown exactly below a day; a fraction can be rounded up to sixty
  minutes, beside the hour it would complete.\<close>

theorem age_exact:
  "(0 \<le> n \<longrightarrow> n < 1440 \<longrightarrow> age (of_int n) = (if n < 60 then int_str n @ ''m'' else int_str (n div 60) @ ''h '' @ int_str (n mod 60) @ ''m''))
   \<and> age (119 / 2) = ''60m''"
proof -
  have "age (of_int n) = (if n < 60 then int_str n @ ''m'' else int_str (n div 60) @ ''h '' @ int_str (n mod 60) @ ''m'')"
    if "0 \<le> n" "n < 1440"
    using that js_mod_int [of n 60] js_div_floor [of n 60] by (simp add: age_def)
  moreover have "int_str 60 = ''60''" by code_simp
  ultimately show ?thesis by (simp add: age_def js_round_def)
qed

subsection \<open>Cases\<close>

definition is_case_call :: "call \<Rightarrow> bool" where "is_case_call c \<longleftrightarrow> c_method c = ''POST''"

definition soc_inv :: "string \<Rightarrow> nat \<Rightarrow> soc_page \<Rightarrow> bool" where
  "soc_inv me n s \<longleftrightarrow> (\<exists>as. filter is_case_call (sc_calls s) = map (\<lambda>a. createCase (floor_case me a)) as
     \<and> length as \<le> n + (if sc_escalating s = None then 0 else 1))"

lemma load_soc_get: "filter is_case_call load_soc = []"
  by (simp add: load_soc_def is_case_call_def fetchTriage_def fetchSiemKpis_def fetchEngineStatus_def fetchAttackCoverage_def
      fetchLogListeners_def fetchFeedsSummary_def fetchSiemAlerts_def fetchAuditLog_def)

lemma case_call_kinds: "is_case_call (createCase b)" "\<not> is_case_call (patchAlert i b)"
  by (simp_all add: is_case_call_def createCase_def patchAlert_def)

lemma set_alert_frame [simp]:
  "sc_calls (set_alert i f s) = sc_calls s" "sc_escalating (set_alert i f s) = sc_escalating s" "sc_timers (set_alert i f s) = sc_timers s"
  by (simp_all add: set_alert_def)

lemma soc_inv_frame:
  "soc_inv me n s \<Longrightarrow> filter is_case_call (sc_calls s') = filter is_case_call (sc_calls s) \<Longrightarrow> sc_escalating s' = sc_escalating s \<Longrightarrow> soc_inv me n s'"
  by (simp add: soc_inv_def)

lemma soc_inv_mono: "soc_inv me n s \<Longrightarrow> n \<le> m \<Longrightarrow> soc_inv me m s"
  by (force simp: soc_inv_def)

lemma soc_inv_escalate: "soc_inv me n s \<Longrightarrow> soc_inv me n (escalateToCase tz me i s)"
proof -
  assume inv: "soc_inv me n s"
  show ?thesis
  proof (cases "sc_escalating s = None \<and> row_alert tz me i s \<noteq> None")
    case True
    then obtain a where a: "row_alert tz me i s = Some a" by blast
    from inv obtain as where as: "filter is_case_call (sc_calls s) = map (\<lambda>a. createCase (floor_case me a)) as" "length as \<le> n"
      using True by (auto simp: soc_inv_def)
    have "filter is_case_call (sc_calls (escalateToCase tz me i s)) = map (\<lambda>a. createCase (floor_case me a)) (as @ [a])"
      "sc_escalating (escalateToCase tz me i s) = Some a"
      using True a as by (simp_all add: escalateToCase_def case_call_kinds)
    then show ?thesis using as(2) unfolding soc_inv_def by (intro exI [of _ "as @ [a]"]) simp
  qed (use inv in \<open>auto simp: escalateToCase_def split: option.split\<close>)
qed

lemma soc_inv_escalated: "soc_inv me n s \<Longrightarrow> soc_inv me (Suc n) (escalate_answered me now r s)"
proof -
  assume inv: "soc_inv me n s"
  have "filter is_case_call (sc_calls (escalate_answered me now r s)) = filter is_case_call (sc_calls s)"
    by (simp add: escalate_answered_def case_call_kinds split: option.split)
  with inv show ?thesis by (auto simp: soc_inv_def split: if_splits)
qed

lemma soc_inv_step:
  "soc_inv me n s \<Longrightarrow> soc_inv me (n + (if \<exists>t r. op = ScEscalated t r then 1 else 0)) (soc_step tz me op s)"
proof (cases op)
  case (ScEscalate i)
  assume "soc_inv me n s" then show ?thesis using ScEscalate by (simp add: soc_inv_escalate)
next
  case (ScEscalated t r)
  assume "soc_inv me n s" then show ?thesis using ScEscalated by (simp add: soc_inv_escalated)
next
  case (ScLoaded w)
  assume "soc_inv me n s" then show ?thesis using ScLoaded by (auto intro: soc_inv_frame simp: load_answered_def)
next
  case (ScAssign i)
  assume inv: "soc_inv me n s"
  then show ?thesis using ScAssign
    by (auto intro!: soc_inv_frame [OF inv] simp: assignToMe_def Let_def case_call_kinds split: option.split)
next
  case (ScAssigned ok)
  assume inv: "soc_inv me n s"
  then show ?thesis using ScAssigned by (auto intro!: soc_inv_frame [OF inv] simp: assign_answered_def split: option.split)
next
  case (ScTime t)
  assume inv: "soc_inv me n s"
  then show ?thesis using ScTime by (auto intro!: soc_inv_frame [OF inv] simp: soc_time_def)
qed (auto intro: soc_inv_frame simp: start_load_def load_soc_get)

text \<open>Whatever is clicked, loaded and answered, cases are opened one at a time: all that were asked for
  but the last have been answered, and each was made from an alert.\<close>

theorem cases_one_at_a_time:
  "\<exists>as. filter is_case_call (sc_calls (fold (soc_step tz me) ops soc_mount)) = map (\<lambda>a. createCase (floor_case me a)) as
     \<and> length as \<le> Suc (count_of (\<lambda>op. \<exists>t r. op = ScEscalated t r) ops)"
proof -
  have "soc_inv me (count_of (\<lambda>op. \<exists>t r. op = ScEscalated t r) ops) (fold (soc_step tz me) ops soc_mount)"
  proof (induction ops rule: rev_induct)
    case Nil
    show ?case by (simp add: soc_inv_def soc_mount_def start_load_def load_soc_get)
  next
    case (snoc op ops)
    from soc_inv_step [OF this, of op tz] show ?case by (auto simp: count_of_def split: if_splits)
  qed
  then show ?thesis by (fastforce simp: soc_inv_def split: if_splits)
qed

text \<open>A case has one of the four severities a case can have, whatever the alert has, and names only
  entities the alert has.\<close>

theorem floor_case_ok:
  "json_get ''severity'' (floor_case me a) \<in> JStr ` {''critical'', ''high'', ''medium'', ''low''}
   \<and> (\<exists>es. json_get ''entities'' (floor_case me a) = JArr es \<and> (\<forall>e \<in> set es. \<exists>v. json_get ''value'' e = JStr v \<and> v \<noteq> []))"
  by (auto simp: floor_case_def obj_get_def)

text \<open>The note about a new case stays for its twelve seconds, whatever timers of other cases run out, and
  is gone after them.\<close>

lemma close_note_simps [simp]: "close_note c None = None" "close_note c (Some (d, t)) = (if d = c then None else Some (d, t))"
  by (simp_all add: close_note_def)

lemma close_others: "\<forall>x \<in> set ts. snd x \<noteq> c \<Longrightarrow> fold (\<lambda>(t, d). close_note d) ts (Some (c, m)) = Some (c, m)"
  by (induction ts) auto

lemma close_none: "fold (\<lambda>(t, d). close_note d) ts None = None"
  by (induction ts) auto

lemma fold_close_append:
  "fold (\<lambda>(t, d). close_note d) (ts @ [(w, c)]) (Some (c, m)) = None"
proof -
  have "fold (\<lambda>(t, d). close_note d) ts (Some (c, m)) \<in> {None, Some (c, m)}"
  proof (induction ts)
    case (Cons x ts)
    then show ?case by (cases x) (auto simp: close_none)
  qed simp
  then show ?thesis by auto
qed

theorem note_stays:
  assumes "sc_escalating s = Some a" "\<forall>x \<in> set (sc_timers s). snd x \<noteq> c"
  shows "sc_escalated (escalate_answered me now (Some c) s) = Some (c, fa_title a)
    \<and> sc_escalated (soc_time t (escalate_answered me now (Some c) s)) = (if t < now + 12000 then Some (c, fa_title a) else None)"
proof -
  have u: "sc_escalated (escalate_answered me now (Some c) s) = Some (c, fa_title a)"
      "sc_timers (escalate_answered me now (Some c) s) = sc_timers s @ [(now + 12000, c)]"
    using assms(1) by (simp_all add: escalate_answered_def)
  then show ?thesis using assms(2) by (simp add: soc_time_def close_others fold_close_append)
qed

subsection \<open>Where the links lead\<close>

lemma includes_self: "str_includes s s"
  by (metis includes_iff append_Nil append_Nil2)

lemma search_link_found:
  assumes "v \<noteq> []" "a \<in> set xs" "v \<in> set (pivot_fields a)"
  shows "a \<in> set (filteredAlerts tz n (siem_run (''q='' @ encodeURIComponent v) n [AlertsAnswer xs k]))"
proof -
  define q where "q = ''q='' @ encodeURIComponent v"
  have p: "parse_params q = [(''q'', v)]"
    using query_pairs [of "[(''q'', v)]"] by (simp add: q_def is_alpha_def is_lower_def code_def)
  have s: "siem_run q n [AlertsAnswer xs k]
      = (siem_mount q)\<lparr>SiemQueue.sp_alerts := xs, sp_total := k, sp_loaded := True, sp_pending := False, sp_linked := True\<rparr>"
    using assms(2) by (auto simp: siem_run_def alerts_answered_def follow_link_def siem_mount_def query_param_def p obj_get_def Let_def)
  show ?thesis
    unfolding q_def [symmetric] s using assms
    by (intro pivot_shown [of _ a v]) (simp_all add: siem_mount_def query_param_def p obj_get_def includes_self)
qed

text \<open>The link of a breach leads to its alert: the queue it opens shows every loaded alert from the same
  address, or with the same title when there is no address; the Normal mode shows its board instead.\<close>

theorem breach_found:
  assumes "a \<in> set xs" "text_of (sb_srcIp b) \<noteq> [] \<and> sa_srcIp a = text_of (sb_srcIp b) \<or> text_of (sb_srcIp b) = [] \<and> sa_title a = sb_title b"
    and "sb_title b \<noteq> []"
  shows "a \<in> set (filteredAlerts tz n (siem_run (url_query (breach_href b)) n [AlertsAnswer xs k]))"
proof -
  let ?v = "if text_of (sb_srcIp b) \<noteq> [] then text_of (sb_srcIp b) else sb_title b"
  have q: "url_query (breach_href b) = ''q='' @ encodeURIComponent ?v"
    using url_query_path [of "''/dashboard/siem''" "''q='' @ encodeURIComponent ?v"] by (simp add: breach_href_def)
  have "?v \<noteq> []" "?v \<in> set (pivot_fields a)" using assms(2,3) by (auto simp: pivot_fields_def)
  from search_link_found [OF this(1) assms(1) this(2)] show ?thesis unfolding q .
qed

text \<open>The link of the note opens the new case as soon as the list of cases has it.\<close>

theorem new_case_opens:
  assumes "c \<noteq> []" "find (\<lambda>x. cr_case_id x = c) cs = Some r"
  shows "so_selectedCase (cases_answered (url_query (case_href c)) (Some cs) soar_init) = Some r"
proof -
  have q: "url_query (case_href c) = ''case='' @ encodeURIComponent c"
    using url_query_path [of "''/dashboard/soar''" "''case='' @ encodeURIComponent c"] by (simp add: case_href_def)
  have "parse_params (''case='' @ encodeURIComponent c) = [(''case'', c)]"
    using query_pairs [of "[(''case'', c)]"] by (simp add: is_alpha_def is_lower_def code_def)
  then show ?thesis using assms by (auto simp: cases_answered_def case_link_def soar_init_def q obj_get_def Let_def)
qed

end
