(* ===== verification/HuntPage.thy ===== *)
theory HuntPage
  imports ApiClient Csv Helpers JsArray
begin

text \<open>
  The hunt page (\<open>app/dashboard/siem/hunt/page.tsx\<close>) and the search over raw events on it
  (\<open>components/dashboard/EventSearchPanel.tsx\<close>): the query with its run, the saved hunts, what is shown of
  a result, the export, and the panel with its own query. The date format of the reader and the age of
  an event are arguments.
\<close>

subsection \<open>Texts\<close>

definition DEFAULT_QUERY :: string where
  "DEFAULT_QUERY = join [newline] [''// Outbound connections to a known-bad destination.'',
     ''// dest_host is the name the traffic was aimed at (DNS query, HTTP Host, SNI).'',
     ''category = '' @ [quote] @ ''network'' @ [quote] @ '' AND dest_host != '' @ [quote, quote]]"

definition TIME_RANGE_LABELS :: "(string, string) obj" where
  "TIME_RANGE_LABELS = [(''1h'', ''Last 1h''), (''6h'', ''Last 6h''), (''24h'', ''Last 24h''), (''7d'', ''Last 7d'')]"

definition hunt_bytes :: "rat \<Rightarrow> string" where
  "hunt_bytes b = (if b < 1024 then num_str b @ '' B'' else to_fixed 1 (js_div b 1024) @ '' KB'')"

definition fmtInterval :: "rat \<Rightarrow> string" where
  "fmtInterval s = (if s < 60 then num_str s @ ''s'' else int_str (js_round (js_div s 60)) @ ''m '' @ num_str (js_mod s 60) @ ''s'')"

definition riskColor :: "rat \<Rightarrow> rat \<Rightarrow> string" where
  "riskColor interval bytes = (if interval < 65 \<and> bytes < 900 then ''text-magenta'' else if interval < 130 then ''text-threat'' else ''text-amber'')"

subsection \<open>Hunts and results\<close>

record saved_hunt =
  sh_id :: string
  sh_name :: string
  sh_description :: string
  sh_query :: string
  sh_technique :: string
  sh_lastRun :: string
  sh_hitCount :: rat
  sh_author :: string

definition mapApiHunt :: "json \<Rightarrow> saved_hunt" where
  "mapApiHunt h =
     \<lparr>sh_id = js_string (json_get ''id'' h), sh_name = js_string (json_get ''name'' h), sh_description = js_string (json_get ''hypothesis'' h),
      sh_query = (if truthy (json_get ''query'' h) then js_string (json_get ''query'' h)
        else ''// '' @ js_string (json_get ''name'' h) @ [newline] @ ''// (no stored query - write one and Save Hunt)''),
      sh_technique = (if truthy (json_get ''technique'' h) then js_string (json_get ''technique'' h) else ''-''),
      sh_lastRun = js_string (nullish (json_get ''lastRun'' h) (JStr ''Never'')),
      sh_hitCount = (case json_get ''artifacts'' h of JNum n \<Rightarrow> n | _ \<Rightarrow> 0), sh_author = js_string (json_get ''analyst'' h)\<rparr>"

record hunt_row =
  hr_ts :: string
  hr_srcIp :: string
  hr_destIp :: string
  hr_destPort :: rat
  hr_protocol :: string
  hr_bytes :: rat
  hr_interval :: rat
  hr_host :: string

record hunt_run =
  hu_query :: string
  hu_range :: string
  hu_scanned :: string
  hu_elapsed :: string
  hu_hits :: rat
  hu_results :: "hunt_row list"

record hunt_answer =
  ha_scanned :: rat
  ha_hits :: rat
  ha_elapsedMs :: rat
  ha_rows :: "(string \<times> string option \<times> string option \<times> rat option \<times> string \<times> rat \<times> rat \<times> string) list"

definition hunt_row_of :: "string \<times> string option \<times> string option \<times> rat option \<times> string \<times> rat \<times> rat \<times> string \<Rightarrow> hunt_row" where
  "hunt_row_of = (\<lambda>(ts, src, dest, port, proto, b, n, host).
     \<lparr>hr_ts = ts, hr_srcIp = (case src of Some x \<Rightarrow> x | None \<Rightarrow> ''-''), hr_destIp = (case dest of Some x \<Rightarrow> x | None \<Rightarrow> ''-''),
      hr_destPort = (case port of Some x \<Rightarrow> x | None \<Rightarrow> 0), hr_protocol = proto, hr_bytes = b, hr_interval = n, hr_host = host\<rparr>)"

definition run_of_answer :: "(rat \<Rightarrow> string) \<Rightarrow> string \<Rightarrow> string \<Rightarrow> hunt_answer \<Rightarrow> hunt_run" where
  "run_of_answer loc q t out =
     \<lparr>hu_query = q, hu_range = t, hu_scanned = loc (ha_scanned out) @ '' alerts'', hu_elapsed = to_fixed 2 (js_div (ha_elapsedMs out) 1000) @ ''s'',
      hu_hits = ha_hits out, hu_results = map hunt_row_of (ha_rows out)\<rparr>"

subsection \<open>The page\<close>

record hunt_page =
  hp_query :: string
  hp_range :: string
  hp_running :: "(string \<times> string) option"
  hp_result :: "hunt_run option"
  hp_error :: bool
  hp_saved :: "saved_hunt list"
  hp_failed :: bool
  hp_selected :: string
  hp_savedOpen :: bool
  hp_msg :: "string option"
  hp_timers :: "int list"
  hp_panelOpen :: bool
  hp_saveName :: string
  hp_saves :: nat
  hp_calls :: "call list"

definition hunt_mount :: hunt_page where
  "hunt_mount = \<lparr>hp_query = DEFAULT_QUERY, hp_range = ''6h'', hp_running = None, hp_result = None, hp_error = False, hp_saved = [],
     hp_failed = False, hp_selected = [], hp_savedOpen = True, hp_msg = None, hp_timers = [], hp_panelOpen = False, hp_saveName = [],
     hp_saves = 0, hp_calls = [fetchSiemHunts]\<rparr>"

definition runQuery :: "hunt_page \<Rightarrow> hunt_page" where
  "runQuery s = (if hp_running s \<noteq> None then s
     else s\<lparr>hp_running := Some (hp_query s, hp_range s), hp_result := None, hp_error := False,
       hp_calls := hp_calls s @ [runHuntQuery (hp_query s) (hp_range s)]\<rparr>)"

definition query_answered :: "(rat \<Rightarrow> string) \<Rightarrow> hunt_answer option \<Rightarrow> hunt_page \<Rightarrow> hunt_page" where
  "query_answered loc r s = (case hp_running s of None \<Rightarrow> s
     | Some (q, t) \<Rightarrow> (case r of Some out \<Rightarrow> s\<lparr>hp_result := Some (run_of_answer loc q t out)\<rparr>
         | None \<Rightarrow> s\<lparr>hp_result := None, hp_error := True\<rparr>)\<lparr>hp_running := None\<rparr>)"

definition loadHunt :: "saved_hunt \<Rightarrow> hunt_page \<Rightarrow> hunt_page" where
  "loadHunt h s = s\<lparr>hp_selected := sh_id h, hp_query := sh_query h, hp_result := None\<rparr>"

definition technique_re :: rx where
  "technique_re = RSeq RWordB (RSeq (rx_str ''T'') (RSeq (rx_times 4 (RSet is_digit))
     (RSeq (RAlt (RSeq (rx_str ''.'') (rx_times 3 (RSet is_digit))) REps) RWordB)))"

definition query_technique :: "string \<Rightarrow> json" where
  "query_technique q = (case rx_search technique_re None q of Some (b, m, st) \<Rightarrow> JStr m | None \<Rightarrow> JUndef)"

text \<open>The message goes away 2.5 seconds after the request is sent, not after it is answered.\<close>

definition saveQuery :: "int \<Rightarrow> hunt_page \<Rightarrow> hunt_page" where
  "saveQuery now s = (let name = trim (hp_saveName s) in
     if name = [] then s\<lparr>hp_panelOpen := True\<rparr>
     else s\<lparr>hp_saves := Suc (hp_saves s), hp_timers := hp_timers s @ [now + 2500],
       hp_calls := hp_calls s @ [createSiemHunt (JObj [(''name'', JStr name), (''query'', JStr (hp_query s)),
         (''technique'', query_technique (hp_query s)), (''description'', JStr ''Saved from the hunt console'')])]\<rparr>)"

definition hunt_saved :: "json option \<Rightarrow> hunt_page \<Rightarrow> hunt_page" where
  "hunt_saved r s = (if hp_saves s = 0 then s else let s = s\<lparr>hp_saves := hp_saves s - 1\<rparr> in case r of
     Some created \<Rightarrow> s\<lparr>hp_saved := mapApiHunt created # hp_saved s, hp_msg := Some ''Hunt saved to your library'', hp_panelOpen := False, hp_saveName := []\<rparr>
   | None \<Rightarrow> s\<lparr>hp_msg := Some ''Could not save - is the dashboard API running?''\<rparr>)"

definition hunt_time :: "int \<Rightarrow> hunt_page \<Rightarrow> hunt_page" where
  "hunt_time now s = s\<lparr>hp_msg := (if list_ex (\<lambda>t. t \<le> now) (hp_timers s) then None else hp_msg s),
     hp_timers := filter (\<lambda>t. \<not> t \<le> now) (hp_timers s)\<rparr>"

datatype query_op = HuHunts "json list option" | HuQuery string | HuRange string | HuRun | HuAnswer "hunt_answer option" | HuLoad saved_hunt
  | HuSavedOpen | HuSaveName string | HuEscape | HuSave int | HuSaved "json option" | HuTime int

fun query_step :: "(rat \<Rightarrow> string) \<Rightarrow> query_op \<Rightarrow> hunt_page \<Rightarrow> hunt_page" where
  "query_step loc (HuHunts r) s = (case r of Some xs \<Rightarrow> s\<lparr>hp_saved := map mapApiHunt xs\<rparr> | None \<Rightarrow> s\<lparr>hp_failed := True\<rparr>)"
| "query_step loc (HuQuery t) s = s\<lparr>hp_query := t\<rparr>"
| "query_step loc (HuRange t) s = s\<lparr>hp_range := t\<rparr>"
| "query_step loc HuRun s = runQuery s"
| "query_step loc (HuAnswer r) s = query_answered loc r s"
| "query_step loc (HuLoad h) s = (if h \<in> set (hp_saved s) then loadHunt h s else s)"
| "query_step loc HuSavedOpen s = s\<lparr>hp_savedOpen := \<not> hp_savedOpen s\<rparr>"
| "query_step loc (HuSaveName t) s = (if hp_panelOpen s then s\<lparr>hp_saveName := t\<rparr> else s)"
| "query_step loc HuEscape s = s\<lparr>hp_panelOpen := False\<rparr>"
| "query_step loc (HuSave now) s = saveQuery now s"
| "query_step loc (HuSaved r) s = hunt_saved r s"
| "query_step loc (HuTime now) s = hunt_time now s"

subsection \<open>What is shown\<close>

definition hunt_metrics :: "hunt_page \<Rightarrow> (string \<times> string \<times> string) list" where
  "hunt_metrics s = [(''Saved Hunts'', int_str (int (length (hp_saved s))), ''in this workspace''),
     (''Findings (saved)'', num_str (foldl (\<lambda>n h. js_add n (sh_hitCount h)) 0 (hp_saved s)), ''across saved hunts''),
     (''Techniques Covered'', int_str (int (length (remdups (filter (\<lambda>t. t \<noteq> [] \<and> t \<noteq> ''-'') (map sh_technique (hp_saved s)))))), ''distinct ATT&CK IDs''),
     (''Last Run Hits'', case hp_result s of Some r \<Rightarrow> num_str (hu_hits r) | None \<Rightarrow> ''-'',
       if hp_result s \<noteq> None then ''from your last query'' else ''run a query'')]"

definition hunt_card :: "hunt_page \<Rightarrow> saved_hunt \<Rightarrow> bool \<times> string list" where
  "hunt_card s h = (hp_selected s = sh_id h, [sh_name h, sh_technique h, sh_description h, sh_lastRun h,
     if sh_hitCount h > 0 then num_str (sh_hitCount h) @ '' hits'' else ''No hits'', sh_author h])"

definition lineCount :: "string \<Rightarrow> nat" where "lineCount q = length (split_char newline q)"

definition hunt_bar :: "hunt_page \<Rightarrow> string \<times> string \<times> string" where
  "hunt_bar s = (''Ln '' @ int_str (int (lineCount (hp_query s))) @ '' - '' @ int_str (int (length (hp_query s))) @ '' chars'',
     ''Index: logs-*'' @ (case hp_result s of Some r \<Rightarrow> '' - scanned '' @ hu_scanned r | None \<Rightarrow> []),
     if hp_running s \<noteq> None then ''Executing'' else ''Ready'')"

text \<open>The head of a result; the technique is that of the hunt that is selected.\<close>

definition result_head :: "hunt_page \<Rightarrow> string list" where
  "result_head s = (case hp_result s of Some r \<Rightarrow> if hp_running s \<noteq> None then []
     else [num_str (hu_hits r) @ '' hits'', ''Scanned '' @ hu_scanned r @ '' events'', hu_elapsed r,
       ''MITRE '' @ (case find (\<lambda>h. sh_id h = hp_selected s) (hp_saved s) of Some h \<Rightarrow> sh_technique h | None \<Rightarrow> ''T1071.001'')]
   | None \<Rightarrow> [])"

definition hunt_line :: "(string \<Rightarrow> string) \<Rightarrow> hunt_row \<Rightarrow> string list" where
  "hunt_line when r = [when (hr_ts r), hr_srcIp r, hr_destIp r, num_str (hr_destPort r), hr_protocol r, hunt_bytes (hr_bytes r),
     fmtInterval (hr_interval r), hr_host r]"

definition beacon_claim :: "rat \<Rightarrow> string" where
  "beacon_claim hits = num_str hits @ '' endpoints exhibit low-jitter periodic outbound connections consistent with C2 beacon heartbeat. ''
     @ ''Average interval: ~77s - Average payload: ~822 B - Confidence: High (87%). Correlate with EDR process tree and DNS logs. ''
     @ ''Consider isolating DESKTOP-FIN-087 (interval 58s - closest match to known Cobalt Strike default).''"

datatype hunt_view = HbRunning string | HbEmpty | HbFailed | HbTable "string list list" string | HbNone

definition hunt_views :: "(string \<Rightarrow> string) \<Rightarrow> hunt_page \<Rightarrow> hunt_view list" where
  "hunt_views when s = (if hp_running s \<noteq> None
     then [HbRunning (case obj_get TIME_RANGE_LABELS (hp_range s) of Some l \<Rightarrow> l | None \<Rightarrow> [])]
     else (if hp_result s = None \<and> \<not> hp_error s then [HbEmpty] else []) @ (if hp_error s then [HbFailed] else [])
       @ (case hp_result s of None \<Rightarrow> []
          | Some r \<Rightarrow> if hu_results r \<noteq> [] then [HbTable (map (hunt_line when) (hu_results r)) (beacon_claim (hu_hits r))] else [HbNone]))"

definition hunt_header :: "string list" where
  "hunt_header = [''ts'', ''src_ip'', ''dest_ip'', ''dest_port'', ''protocol'', ''bytes'', ''interval_sec'', ''host'']"

definition hunt_cells :: "hunt_row \<Rightarrow> string list" where
  "hunt_cells r = [hr_ts r, hr_srcIp r, hr_destIp r, num_str (hr_destPort r), hr_protocol r, num_str (hr_bytes r), num_str (hr_interval r), hr_host r]"

definition exportResults :: "hunt_run \<Rightarrow> string" where
  "exportResults run = join [newline] (join '','' hunt_header # map (\<lambda>r. join '','' (map csv_esc (hunt_cells r))) (hu_results run))"

subsection \<open>The search over events\<close>

definition RANGES :: "string list" where "RANGES = [''1h'', ''6h'', ''24h'', ''7d'']"

definition EXAMPLES :: "string list" where
  "EXAMPLES = [''event_type=failed_login'', ''src_ip=10.0.0.5 bytes_out>=104857600'', ''event_type=beacon | stats count by dest_ip'',
     ''username in svc-backup,svc-deploy'', ''source.ip=10.0.0.5'', ''raw~'' @ [quote] @ ''OR 1=1'' @ [quote],
     ''event_type=login_success | join src_ip event_type=failed_login'']"

record event_result =
  er_scanned :: int
  er_hits :: int
  er_conditions :: "(string \<times> string \<times> string) list"
  er_freetext :: "string list"
  er_statsBy :: "string option"
  er_groups :: "(string \<times> int) list option"
  er_rows :: "(string \<times> string option) list"

record event_panel =
  ev_query :: string
  ev_range :: string
  ev_busy :: bool
  ev_res :: "event_result option"
  ev_error :: "string option"
  ev_calls :: "call list"

definition event_mount :: event_panel where
  "event_mount = \<lparr>ev_query = [], ev_range = ''24h'', ev_busy = False, ev_res = None, ev_error = None, ev_calls = []\<rparr>"

definition run_search :: "string \<Rightarrow> event_panel \<Rightarrow> event_panel" where
  "run_search q p = (if ev_busy p then p
     else p\<lparr>ev_busy := True, ev_error := None, ev_calls := ev_calls p @ [eventSearch q (Some (ev_range p))]\<rparr>)"

text \<open>A refusal brings its message; the result of the search before stays.\<close>

definition search_answered :: "string + event_result \<Rightarrow> event_panel \<Rightarrow> event_panel" where
  "search_answered r p = (if \<not> ev_busy p then p else (case r of Inr x \<Rightarrow> p\<lparr>ev_res := Some x\<rparr>
     | Inl m \<Rightarrow> p\<lparr>ev_error := Some (if m = [] then ''Search failed - is the dashboard API running?'' else m)\<rparr>)\<lparr>ev_busy := False\<rparr>)"

datatype event_op = EvQuery string | EvRange string | EvRun | EvExample string | EvAnswer "string + event_result"

fun event_step :: "event_op \<Rightarrow> event_panel \<Rightarrow> event_panel" where
  "event_step (EvQuery t) p = p\<lparr>ev_query := t\<rparr>"
| "event_step (EvRange t) p = p\<lparr>ev_range := t\<rparr>"
| "event_step EvRun p = run_search (ev_query p) p"
| "event_step (EvExample t) p = (if ev_res p = None \<and> t \<in> set EXAMPLES then run_search t (p\<lparr>ev_query := t\<rparr>) else p)"
| "event_step (EvAnswer r) p = search_answered r p"

text \<open>How the query was read, when there is anything to say.\<close>

definition interpreted :: "event_result \<Rightarrow> string list" where
  "interpreted r = map (\<lambda>(f, op, v). f @ '' '' @ op @ '' '' @ v) (er_conditions r) @ map (\<lambda>t. ''raw~'' @ t) (er_freetext r)
     @ (case er_statsBy r of Some b \<Rightarrow> [''count by '' @ b] | None \<Rightarrow> [])"

definition group_bars :: "event_result \<Rightarrow> (string \<times> int \<times> rat) list" where
  "group_bars r = (case er_groups r of None \<Rightarrow> []
     | Some gs \<Rightarrow> let mx = max_of 1 (map snd gs) in map (\<lambda>(v, n). (v, n, js_mul (js_div (of_int n) (of_int mx)) 100)) gs)"

definition event_age :: "int option \<Rightarrow> string" where
  "event_age d = (case d of None \<Rightarrow> ''-'' | Some ms \<Rightarrow> let s = max 0 (ms div 1000); m = s div 60; h = m div 60 in
     if s < 60 then int_str s @ ''s'' else if m < 60 then int_str m @ ''m'' else if h < 24 then int_str h @ ''h'' else int_str (h div 24) @ ''d'')"

subsection \<open>The export\<close>

text \<open>The exported file, read as CSV, has the cells of the rows shown, whatever they contain.\<close>

theorem hunt_export_roundtrip: "csv_rows [] (exportResults run) = Some (hunt_header # map hunt_cells (hu_results run))"
proof -
  have "exportResults run = join [newline] (join '','' hunt_header # map csv_line_of (map hunt_cells (hu_results run)))"
    by (simp add: exportResults_def csv_line_of_def comp_def)
  moreover have "header_ok hunt_header" by code_simp
  ultimately show ?thesis by (simp only:) (rule csv_file_read, simp_all add: list_all_iff hunt_cells_def)
qed

subsection \<open>Intervals\<close>

lemma minutes_round: "0 \<le> n \<Longrightarrow> n < 2 ^ 40 \<Longrightarrow> js_round (js_div (of_int n) 60) = n div 60 + (if n mod 60 \<ge> 30 then 1 else 0)"
proof -
  assume n: "0 \<le> n" "n < 2 ^ 40"
  define k m where "k = n div 60" and "m = n mod 60"
  have nk: "n = 60 * k + m" "0 \<le> m" "m < 60" by (simp_all add: k_def m_def)
  have q: "(of_int n / 60 :: rat) = of_int k + of_int m / 60" using nk by (simp add: field_simps)
  show ?thesis
  proof (cases "m = 30")
    case True
    have "(of_int n / 60 :: rat) = of_int (2 * k + 1) / 2" using q True by (simp add: field_simps)
    moreover have "\<bar>2 * k + 1\<bar> \<le> 2 ^ 52" using nk n by simp
    ultimately have "js_div (of_int n) 60 = of_int (2 * k + 1) / 2"
      using fl_half [of "2 * k + 1"] by (simp only: js_div_def)
    then have "js_div (of_int n) 60 = of_int k + 1 / 2" by simp
    then show ?thesis using True by (simp add: js_round_def k_def m_def add.assoc)
  next
    case False
    have "\<bar>of_int n / 60 :: rat\<bar> / 2 ^ 53 < 1 / 120" using n by simp
    then have e: "\<bar>js_div (of_int n) 60 - of_int n / 60\<bar> < 1 / 120" using fl_error [of "of_int n / 60"] by (simp add: js_div_def)
    have m60: "(of_int m :: rat) \<le> 29 \<or> 31 \<le> (of_int m :: rat)" "0 \<le> (of_int m :: rat)" "(of_int m :: rat) \<le> 59"
      using nk False by linarith+
    have "\<bar>js_div (of_int n) 60 - of_int (k + (if m \<ge> 30 then 1 else 0))\<bar> < 1 / 2"
      using e m60 unfolding q by (auto simp: abs_if split: if_splits)
    from js_round_near [OF this] show ?thesis by (simp add: k_def m_def)
  qed
qed

text \<open>From a minute on, an interval is shown with its seconds, but the minutes are rounded and not cut:
  whenever thirty seconds or more are left over it is shown a minute too long.\<close>

theorem interval_minute_too_long:
  assumes "60 \<le> n" "n < 2 ^ 40"
  shows "fmtInterval (of_int n) = int_str (n div 60 + (if n mod 60 \<ge> 30 then 1 else 0)) @ ''m '' @ int_str (n mod 60) @ ''s''"
proof -
  have "\<bar>n mod 60\<bar> \<le> 2 ^ 53" using pos_mod_bound [of 60 n] pos_mod_sign [of 60 n] by simp
  then show ?thesis using assms minutes_round [of n] js_mod_int [of n 60] by (simp add: fmtInterval_def)
qed

subsection \<open>Runs\<close>

definition hunt_inv :: "hunt_page \<Rightarrow> bool" where
  "hunt_inv s \<longleftrightarrow> (case hp_running s of None \<Rightarrow> True
       | Some (q, t) \<Rightarrow> runHuntQuery q t \<in> set (hp_calls s) \<and> hp_result s = None \<and> \<not> hp_error s)
     \<and> (case hp_result s of None \<Rightarrow> True | Some r \<Rightarrow> runHuntQuery (hu_query r) (hu_range r) \<in> set (hp_calls s) \<and> \<not> hp_error s)"

lemma query_inv_step: "hunt_inv s \<Longrightarrow> hunt_inv (query_step loc op s)"
proof (cases op)
  case (HuAnswer r)
  assume "hunt_inv s" then show ?thesis using HuAnswer
    by (auto simp: hunt_inv_def query_answered_def run_of_answer_def split: option.splits)
next
  case HuRun
  assume "hunt_inv s" then show ?thesis using HuRun by (auto simp: hunt_inv_def runQuery_def split: option.splits)
next
  case (HuSave t)
  assume "hunt_inv s" then show ?thesis using HuSave by (auto simp: hunt_inv_def saveQuery_def Let_def split: option.splits)
next
  case (HuSaved r)
  assume "hunt_inv s" then show ?thesis using HuSaved by (auto simp: hunt_inv_def hunt_saved_def Let_def split: option.splits)
qed (auto simp: hunt_inv_def loadHunt_def hunt_time_def split: option.splits)

text \<open>Whatever is typed, run, loaded, saved and answered: a result on the page is the answer to a query
  that was sent with its time range, and never stands beside the report of a failure, nor does either
  stand there while a query runs.\<close>

theorem hunt_results_sourced:
  "hunt_inv (fold (query_step loc) ops hunt_mount)"
proof -
  have "hunt_inv hunt_mount" by (simp add: hunt_inv_def hunt_mount_def)
  moreover have "hunt_inv s \<Longrightarrow> hunt_inv (fold (query_step loc) ops s)" for s
    by (induction ops arbitrary: s) (simp_all add: query_inv_step)
  ultimately show ?thesis by blast
qed

text \<open>A hunt loaded while a query runs: the result that arrives is the one of the query before, under the
  technique of the hunt that was loaded.\<close>

theorem loaded_hunt_mislabels:
  assumes "hp_running s = Some (q, t)" "find (\<lambda>x. sh_id x = sh_id h) (hp_saved s) = Some h" "h \<in> set (hp_saved s)"
  shows "map_option hu_query (hp_result (fold (query_step loc) [HuLoad h, HuAnswer (Some out)] s)) = Some q
    \<and> hp_query (fold (query_step loc) [HuLoad h, HuAnswer (Some out)] s) = sh_query h
    \<and> last (result_head (fold (query_step loc) [HuLoad h, HuAnswer (Some out)] s)) = ''MITRE '' @ sh_technique h"
  using assms by (simp add: loadHunt_def query_answered_def run_of_answer_def result_head_def)

text \<open>Every result with a row, whatever it is, is called a beacon with the same averages, the same
  confidence and the same host to isolate.\<close>

theorem every_hit_is_a_beacon:
  assumes "hp_running s = None" "hp_result s = Some r" "hu_results r \<noteq> []"
  shows "\<exists>rows. HbTable rows (beacon_claim (hu_hits r)) \<in> set (hunt_views when s) \<and> length rows = length (hu_results r)"
  using assms by (simp add: hunt_views_def)

text \<open>A message about a save that takes longer than 2.5 seconds stays until the next save.\<close>

theorem late_message_stays:
  assumes "hp_saves s = 1" "hp_timers s = [t0 + 2500]" "t0 + 2500 \<le> t"
  shows "hp_msg (fold (query_step loc) (map HuTime ts) (query_step loc (HuSaved r) (query_step loc (HuTime t) s)))
    = hp_msg (query_step loc (HuSaved r) (query_step loc (HuTime t) s)) \<and> hp_msg (query_step loc (HuSaved r) (query_step loc (HuTime t) s)) \<noteq> None"
proof -
  let ?u = "query_step loc (HuSaved r) (query_step loc (HuTime t) s)"
  have u: "hp_timers ?u = [] \<and> hp_msg ?u \<noteq> None"
    using assms by (cases r) (simp_all add: hunt_time_def hunt_saved_def)
  have "hp_timers v = [] \<Longrightarrow> hp_msg (fold (query_step loc) (map HuTime ts) v) = hp_msg v" for v
    by (induction ts arbitrary: v) (simp_all add: hunt_time_def)
  with u show ?thesis by blast
qed

end
