(* ===== verification/CtiHunts.thy ===== *)
theory CtiHunts
  imports ApiClient Helpers JsArray
begin

text \<open>
  The hunt campaigns of the intelligence section (\<open>app/dashboard/cti/hunt/page.tsx\<close>): the list as
  mapped from the API, runs that may overlap, the coverage matrix of the active hunts, and the figures.
\<close>

subsection \<open>Campaigns\<close>

datatype campaign_status = CgActive | CgPaused | CgCompleted
datatype hypothesis_status = HypConfirmed | HypRefuted | HypInvestigating

record hypothesis =
  hy_id :: string
  hy_statement :: string
  hy_status :: hypothesis_status
  hy_dataSources :: "string list"
  hy_findings :: string
  hy_relatedIOCs :: "string list"

record mitre_tech =
  mh_id :: string
  mh_name :: string
  mh_tactic :: string

record campaign =
  cg_id :: string
  cg_name :: string
  cg_description :: string
  cg_status :: campaign_status
  cg_analyst :: string
  cg_techniques :: "mitre_tech list"
  cg_progress :: rat
  cg_started :: string
  cg_hypotheses :: "hypothesis list"

fun HUNT_STATUS :: "campaign_status \<Rightarrow> string \<times> string" where
  "HUNT_STATUS CgActive = (''Active'', tk Safe)" | "HUNT_STATUS CgPaused = (''Paused'', tk Amber)"
| "HUNT_STATUS CgCompleted = (''Completed'', tk Violet)"

fun HYP_STATUS :: "hypothesis_status \<Rightarrow> string \<times> string" where
  "HYP_STATUS HypConfirmed = (''Confirmed'', tk Threat)" | "HYP_STATUS HypRefuted = (''Refuted'', tk Safe)"
| "HYP_STATUS HypInvestigating = (''Investigating'', tk Amber)"

definition campaign_of :: "json \<Rightarrow> campaign" where
  "campaign_of h =
     \<lparr>cg_id = js_string (json_get ''id'' h), cg_name = js_string (json_get ''name'' h), cg_description = js_string (json_get ''hypothesis'' h),
      cg_status = (if json_get ''status'' h = JStr ''active'' then CgActive else if json_get ''status'' h = JStr ''completed'' then CgCompleted else CgPaused),
      cg_analyst = js_string (json_get ''analyst'' h), cg_techniques = [], cg_progress = (case json_get ''progress'' h of JNum n \<Rightarrow> n | _ \<Rightarrow> 0),
      cg_started = js_string (json_get ''created'' h), cg_hypotheses = []\<rparr>"

subsection \<open>The matrix\<close>

definition MATRIX_TACTICS :: "string list" where
  "MATRIX_TACTICS = [''Initial Access'', ''Execution'', ''Persistence'', ''Credential Access'', ''Defense Evasion'', ''Command and Control'', ''Exfiltration'']"

text \<open>A hunt is entered once under each of its tactics that the matrix has.\<close>

definition enter_hunt :: "campaign \<Rightarrow> (string, campaign list) obj \<Rightarrow> (string, campaign list) obj" where
  "enter_hunt h m = (if cg_status h \<noteq> CgActive then m
     else foldl (\<lambda>m t. case obj_get m t of Some hs \<Rightarrow> obj_set t (hs @ [h]) m | None \<Rightarrow> m) m (uniq (map mh_tactic (cg_techniques h))))"

definition hunt_coverage :: "campaign list \<Rightarrow> (string, campaign list) obj" where
  "hunt_coverage hunts = foldl (\<lambda>m h. enter_hunt h m) (map (\<lambda>t. (t, [])) MATRIX_TACTICS) hunts"

definition cellColor :: "nat \<Rightarrow> string" where
  "cellColor n = (if n \<ge> 2 then tk Magenta else if n = 1 then tk Violet else ''rgba(255,255,255,0.04)'')"

definition matrix_cell :: "campaign list \<Rightarrow> string \<Rightarrow> nat \<times> string \<times> string" where
  "matrix_cell hunts tactic = (let hs = (case obj_get (hunt_coverage hunts) tactic of Some hs \<Rightarrow> hs | None \<Rightarrow> []); n = length hs in
     (n, cellColor n, if n > 0 then tactic @ '': '' @ join '', '' (map cg_name hs) else tactic @ '': no active coverage''))"

subsection \<open>The page\<close>

record campaigns_page =
  cq_expanded :: "string option"
  cq_hunts :: "campaign list"
  cq_failed :: bool
  cq_coverage :: "rat option"
  cq_runs :: "string list"
  cq_calls :: "call list"

definition campaigns_mount :: campaigns_page where
  "campaigns_mount = \<lparr>cq_expanded = None, cq_hunts = [], cq_failed = False, cq_coverage = None, cq_runs = [],
     cq_calls = [fetchCtiHunts, fetchAttackCoverage]\<rparr>"

definition on_campaign :: "string \<Rightarrow> (campaign \<Rightarrow> campaign) \<Rightarrow> campaigns_page \<Rightarrow> campaigns_page" where
  "on_campaign i f s = s\<lparr>cq_hunts := map (\<lambda>h. if cg_id h = i then f h else h) (cq_hunts s)\<rparr>"

definition handleRun :: "string \<Rightarrow> campaigns_page \<Rightarrow> campaigns_page" where
  "handleRun i s = (on_campaign i (\<lambda>h. h\<lparr>cg_status := CgActive\<rparr>) s)\<lparr>cq_runs := cq_runs s @ [i], cq_calls := cq_calls s @ [runCtiHunt i]\<rparr>"

text \<open>The answer to the \<open>n\<close>-th run under way: its progress, or a refusal.\<close>

definition hunt_ran :: "nat \<Rightarrow> rat option \<Rightarrow> campaigns_page \<Rightarrow> campaigns_page" where
  "hunt_ran n r s = (if n \<ge> length (cq_runs s) then s
     else (on_campaign (cq_runs s ! n) (\<lambda>h. h\<lparr>cg_status := CgCompleted, cg_progress := (case r of Some p \<Rightarrow> p | None \<Rightarrow> 100)\<rparr>) s)
       \<lparr>cq_runs := take n (cq_runs s) @ drop (Suc n) (cq_runs s)\<rparr>)"

datatype campaigns_op = CqLoaded "json list option" | CqCoverage rat | CqRun string | CqRan nat "rat option" | CqToggle string

fun campaigns_step :: "campaigns_op \<Rightarrow> campaigns_page \<Rightarrow> campaigns_page" where
  "campaigns_step (CqLoaded r) s = (case r of None \<Rightarrow> s\<lparr>cq_failed := True\<rparr>
     | Some xs \<Rightarrow> s\<lparr>cq_hunts := map campaign_of xs, cq_expanded := (case xs of [] \<Rightarrow> cq_expanded s | x # _ \<Rightarrow> Some (cg_id (campaign_of x)))\<rparr>)"
| "campaigns_step (CqCoverage c) s = s\<lparr>cq_coverage := Some c\<rparr>"
| "campaigns_step (CqRun i) s = handleRun i s"
| "campaigns_step (CqRan n r) s = hunt_ran n r s"
| "campaigns_step (CqToggle i) s = s\<lparr>cq_expanded := (if cq_expanded s = Some i then None else Some i)\<rparr>"

definition campaign_kpis :: "campaigns_page \<Rightarrow> (string \<times> string \<times> string) list" where
  "campaign_kpis s =
     [(''Active Hunts'', int_str (int (count_of (\<lambda>h. cg_status h = CgActive) (cq_hunts s))), ''in progress''),
      (''Saved Hunts'', int_str (int (length (cq_hunts s))), ''hypotheses tracked''),
      (''Completed'', int_str (int (count_of (\<lambda>h. cg_status h = CgCompleted) (cq_hunts s))), ''hunts run''),
      (''ATT&CK Coverage'', case cq_coverage s of None \<Rightarrow> ''-'' | Some c \<Rightarrow> num_str c @ ''%'', ''techniques mapped'')]"

text \<open>The first dot becomes a slash.\<close>

fun dot_slash :: "string \<Rightarrow> string" where
  "dot_slash [] = []"
| "dot_slash (c # s) = (if c = CHR ''.'' then CHR ''/'' # s else c # dot_slash s)"

definition campaign_card :: "campaign \<Rightarrow> string list \<times> string list" where
  "campaign_card h = ([cg_name h, fst (HUNT_STATUS (cg_status h)), cg_description h, cg_analyst h,
      int_str (int (length (cg_hypotheses h))) @ '' hypotheses - '' @ int_str (int (count_of (\<lambda>y. hy_status y = HypInvestigating) (cg_hypotheses h))) @ '' open'',
      ''started '' @ cg_started h, num_str (cg_progress h) @ ''%''],
     map (\<lambda>t. ''https://attack.mitre.org/techniques/'' @ dot_slash (mh_id t) @ ''/'') (cg_techniques h))"

subsection \<open>What the matrix counts\<close>

lemma enter_keys: "map fst (foldl (\<lambda>m t. case obj_get m t of Some hs \<Rightarrow> obj_set t (f hs) m | None \<Rightarrow> m) m ts) = map fst m"
proof (induction ts arbitrary: m)
  case (Cons t ts)
  have "map fst (obj_set t v m) = map fst m" if "obj_get m t \<noteq> None" for v
    using that by (induction m) (auto simp: obj_get_def)
  then show ?case using Cons by (auto split: option.split)
qed simp

lemma enter_get:
  "distinct ts \<Longrightarrow> obj_get (foldl (\<lambda>m t. case obj_get m t of Some hs \<Rightarrow> obj_set t (hs @ [h]) m | None \<Rightarrow> m) m ts) k
   = map_option (\<lambda>hs. if k \<in> set ts then hs @ [h] else hs) (obj_get m k)"
proof (induction ts arbitrary: m)
  case (Cons t ts)
  then show ?case by (cases "obj_get m t"; cases "k = t"; cases "obj_get m k") auto
qed (simp add: option.map_ident)

definition covers :: "string \<Rightarrow> campaign \<Rightarrow> bool" where
  "covers k h \<longleftrightarrow> cg_status h = CgActive \<and> k \<in> mh_tactic ` set (cg_techniques h)"

text \<open>A cell counts the active hunts with a technique of the tactic, each once.\<close>

theorem matrix_counts:
  assumes "k \<in> set MATRIX_TACTICS"
  shows "fst (matrix_cell hunts k) = count_of (covers k) hunts"
proof -
  have step: "obj_get (enter_hunt h m) k = map_option (\<lambda>hs. if covers k h then hs @ [h] else hs) (obj_get m k)" for h m
    by (auto simp: enter_hunt_def enter_get covers_def option.map_ident)
  have "obj_get (foldl (\<lambda>m h. enter_hunt h m) m hunts) k = map_option (\<lambda>hs. hs @ filter (covers k) hunts) (obj_get m k)" for m
  proof (induction hunts arbitrary: m)
    case (Cons h hunts)
    then show ?case by (cases "obj_get m k") (auto simp: step)
  qed (simp add: option.map_ident)
  note all = this [of "map (\<lambda>t. (t, [])) MATRIX_TACTICS"]
  have "obj_get (map (\<lambda>t. (t, [])) MATRIX_TACTICS) k = Some ([] :: campaign list)"
    using assms by (auto simp: obj_get_def MATRIX_TACTICS_def)
  with all have "obj_get (hunt_coverage hunts) k = Some (filter (covers k) hunts)" by (simp only: hunt_coverage_def) simp
  then show ?thesis by (simp add: matrix_cell_def Let_def count_of_def)
qed

text \<open>But the page gives no hunt a technique: whatever the API holds and whatever is run, the matrix of
  the active hunts is empty.\<close>

lemma techniques_empty: "list_all (\<lambda>h. cg_techniques h = []) (cq_hunts (fold campaigns_step ops campaigns_mount))"
proof (induction ops rule: rev_induct)
  case (snoc op ops)
  then show ?case
    by (cases op) (auto simp: list_all_iff handleRun_def on_campaign_def hunt_ran_def campaign_of_def split: option.split list.split)
qed (simp add: campaigns_mount_def)

theorem matrix_always_empty:
  assumes "k \<in> set MATRIX_TACTICS"
  shows "fst (matrix_cell (cq_hunts (fold campaigns_step ops campaigns_mount)) k) = 0"
  using matrix_counts [OF assms] techniques_empty [of ops]
  by (auto simp: count_of_def covers_def list_all_iff filter_empty_conv)

text \<open>A run that is refused is shown as completed, to the full; nothing but its figure tells it from one
  that was carried out.\<close>

theorem refused_hunt_completes:
  assumes "cq_runs s = []"
  shows "hunt_ran 0 None (handleRun i s) = hunt_ran 0 (Some 100) (handleRun i s)
    \<and> (\<forall>h \<in> set (cq_hunts (hunt_ran 0 None (handleRun i s))). cg_id h = i \<longrightarrow> cg_status h = CgCompleted \<and> cg_progress h = 100)"
proof -
  have m: "cq_hunts (hunt_ran 0 None (handleRun i s)) = map (\<lambda>h. if cg_id h = i then h\<lparr>cg_status := CgCompleted, cg_progress := 100\<rparr> else h) (cq_hunts s)"
    using assms by (simp add: hunt_ran_def handleRun_def on_campaign_def)
  show ?thesis
  proof (intro conjI)
    show "hunt_ran 0 None (handleRun i s) = hunt_ran 0 (Some 100) (handleRun i s)" by (simp add: hunt_ran_def)
    show "\<forall>h \<in> set (cq_hunts (hunt_ran 0 None (handleRun i s))). cg_id h = i \<longrightarrow> cg_status h = CgCompleted \<and> cg_progress h = 100"
      unfolding m by (simp add: ball_Un)
  qed
qed

end
