(* ===== verification/VulnPage.thy ===== *)
theory VulnPage
  imports Feeds Scanner
begin

text \<open>
  The vulnerabilities page (\<open>app/dashboard/assets/vulns/page.tsx\<close>): the findings as mapped from the
  scanner's answer, the filters, the distribution of severities, the figures and the panel of one
  finding with its links. The milliseconds since a finding are an argument (\<open>None\<close> for a date that does
  not parse).
\<close>

subsection \<open>Findings\<close>

datatype vuln_severity = VsCritical | VsHigh | VsMedium | VsLow
datatype vuln_status = VtOpen | VtInProgress | VtPatched | VtAccepted
datatype exploit_maturity = XmKev | XmWeaponized | XmPoc | XmNone

fun SEVERITY_META :: "vuln_severity \<Rightarrow> string \<times> string" where
  "SEVERITY_META VsCritical = (''Critical'', tk Magenta)" | "SEVERITY_META VsHigh = (''High'', tk Threat)"
| "SEVERITY_META VsMedium = (''Medium'', tk Amber)" | "SEVERITY_META VsLow = (''Low'', tk Safe)"

fun STATUS_META_vuln :: "vuln_status \<Rightarrow> string \<times> string \<times> string" where
  "STATUS_META_vuln VtOpen = (''Open'', tk Threat, ''bg-threat/10'')" | "STATUS_META_vuln VtInProgress = (''In Progress'', tk Amber, ''bg-amber/10'')"
| "STATUS_META_vuln VtPatched = (''Patched'', tk Safe, ''bg-safe/10'')" | "STATUS_META_vuln VtAccepted = (''Accepted Risk'', tk Violet, ''bg-violet/10'')"

fun EXPLOIT_META :: "exploit_maturity \<Rightarrow> string \<times> string" where
  "EXPLOIT_META XmKev = (''KEV'', tk Magenta)" | "EXPLOIT_META XmWeaponized = (''Weaponized'', tk Threat)"
| "EXPLOIT_META XmPoc = (''PoC'', tk Amber)" | "EXPLOIT_META XmNone = (''None'', ''#665B7D'')"

definition cvssColor :: "rat \<Rightarrow> string" where
  "cvssColor s = (if s \<ge> 9 then tk Magenta else if s \<ge> 7 then tk Threat else if s \<ge> 4 then tk Amber else tk Safe)"

record fleet_finding =
  ff_cve :: string
  ff_cvss :: rat
  ff_severity :: string
  ff_summary :: string
  ff_fixedIn :: "string option"
  ff_kev :: bool
  ff_exploit :: bool
  ff_products :: "string list"
  ff_assets :: "string list"
  ff_owners :: "string list"
  ff_firstFound :: string
  ff_reference :: string

record vuln =
  vu_id :: string
  vu_cvss :: rat
  vu_title :: string
  vu_description :: string
  vu_severity :: vuln_severity
  vu_status :: vuln_status
  vu_exploit :: exploit_maturity
  vu_kev :: bool
  vu_exploitAvailable :: bool
  vu_assets :: "string list"
  vu_ageDays :: "int option"
  vu_assignee :: "string option"
  vu_cvssVector :: string
  vu_remediation :: "string list"
  vu_references :: "string list"

definition ageDays :: "int option \<Rightarrow> int option" where
  "ageDays ms = map_option (\<lambda>m. max 0 (js_round (js_div (of_int m) 86400000))) ms"

definition vuln_sev :: "string \<Rightarrow> vuln_severity" where
  "vuln_sev s = (if s = ''critical'' then VsCritical else if s = ''high'' then VsHigh else if s = ''low'' then VsLow else VsMedium)"

definition is_fixed :: "fleet_finding \<Rightarrow> string" where
  "is_fixed r = (case ff_fixedIn r of Some f \<Rightarrow> f | None \<Rightarrow> [])"

definition vuln_of :: "(string \<Rightarrow> int option) \<Rightarrow> fleet_finding \<Rightarrow> vuln" where
  "vuln_of since r =
     \<lparr>vu_id = ff_cve r, vu_cvss = ff_cvss r, vu_title = (if ff_summary r \<noteq> [] then ff_summary r else ff_cve r),
      vu_description = ff_summary r @ ''. Affects '' @ join '', '' (ff_products r) @ ''.''
        @ (if is_fixed r \<noteq> [] then '' Fixed in '' @ is_fixed r @ ''.'' else []),
      vu_severity = vuln_sev (ff_severity r), vu_status = VtOpen,
      vu_exploit = (if ff_kev r then XmKev else if ff_exploit r then XmWeaponized else XmNone), vu_kev = ff_kev r,
      vu_exploitAvailable = ff_exploit r, vu_assets = ff_assets r, vu_ageDays = ageDays (since (ff_firstFound r)),
      vu_assignee = (case ff_owners r of o1 # _ \<Rightarrow> Some o1 | [] \<Rightarrow> None), vu_cvssVector = [],
      vu_remediation = (if is_fixed r \<noteq> [] then [''Upgrade '' @ join '', '' (ff_products r) @ '' to '' @ is_fixed r @ '' or later.'']
        else [''Apply the vendor patch for this CVE.'']), vu_references = [ff_reference r]\<rparr>"

subsection \<open>The page\<close>

record vuln_summary =
  vq_distinctCves :: int
  vq_critical :: int
  vq_exploited :: int
  vq_avgPatchAge :: rat
  vq_exposureScore :: rat

record vuln_page =
  vp_vulns :: "vuln list"
  vp_pending :: bool
  vp_failed :: bool
  vp_sum :: "vuln_summary option"
  vp_search :: string
  vp_sev :: "vuln_severity option"
  vp_status :: "vuln_status option"
  vp_kevOnly :: bool
  vp_exploitOnly :: bool
  vp_selected :: "string option"
  vp_calls :: "call list"

definition vulns_mount :: vuln_page where
  "vulns_mount = \<lparr>vp_vulns = [], vp_pending = True, vp_failed = False, vp_sum = None, vp_search = [], vp_sev = None, vp_status = None,
     vp_kevOnly = False, vp_exploitOnly = False, vp_selected = None, vp_calls = [fetchVulnSummary, fetchFleetVulnFindings]\<rparr>"

datatype vuln_op = VuSummary vuln_summary | VuLoaded "fleet_finding list option" | VuSearch string | VuSev "vuln_severity option"
  | VuStatus "vuln_status option" | VuKev | VuExploit | VuClear | VuRow string | VuEscape

fun vuln_step :: "(string \<Rightarrow> int option) \<Rightarrow> vuln_op \<Rightarrow> vuln_page \<Rightarrow> vuln_page" where
  "vuln_step since (VuSummary v) s = s\<lparr>vp_sum := Some v\<rparr>"
| "vuln_step since (VuLoaded r) s = (case r of Some rows \<Rightarrow> s\<lparr>vp_vulns := map (vuln_of since) rows, vp_pending := False\<rparr>
     | None \<Rightarrow> s\<lparr>vp_failed := True, vp_pending := False\<rparr>)"
| "vuln_step since (VuSearch t) s = s\<lparr>vp_search := t\<rparr>"
| "vuln_step since (VuSev v) s = s\<lparr>vp_sev := v\<rparr>"
| "vuln_step since (VuStatus v) s = s\<lparr>vp_status := v\<rparr>"
| "vuln_step since VuKev s = s\<lparr>vp_kevOnly := \<not> vp_kevOnly s\<rparr>"
| "vuln_step since VuExploit s = s\<lparr>vp_exploitOnly := \<not> vp_exploitOnly s\<rparr>"
| "vuln_step since VuClear s = s\<lparr>vp_search := [], vp_sev := None, vp_status := None, vp_kevOnly := False, vp_exploitOnly := False\<rparr>"
| "vuln_step since (VuRow i) s = s\<lparr>vp_selected := (if vp_selected s = Some i then None else Some i)\<rparr>"
| "vuln_step since VuEscape s = s\<lparr>vp_selected := None\<rparr>"

definition vuln_shown :: "vuln_page \<Rightarrow> vuln \<Rightarrow> bool" where
  "vuln_shown s v \<longleftrightarrow> (vp_sev s = None \<or> vp_sev s = Some (vu_severity v)) \<and> (vp_status s = None \<or> vp_status s = Some (vu_status v))
     \<and> (vp_kevOnly s \<longrightarrow> vu_kev v) \<and> (vp_exploitOnly s \<longrightarrow> vu_exploitAvailable v)
     \<and> (vp_search s = [] \<or> str_includes (toLowerCase (vu_id v)) (toLowerCase (vp_search s))
         \<or> str_includes (toLowerCase (vu_title v)) (toLowerCase (vp_search s)))"

definition vulns_filtered :: "vuln_page \<Rightarrow> vuln list" where "vulns_filtered s = filter (vuln_shown s) (vp_vulns s)"

definition vuln_selected :: "vuln_page \<Rightarrow> vuln option" where
  "vuln_selected s = (case vp_selected s of None \<Rightarrow> None | Some i \<Rightarrow> find (\<lambda>v. vu_id v = i) (vp_vulns s))"

datatype vuln_body = VbRows | VbSkeleton | VbUnavailable | VbNoMatch

definition vulns_body :: "vuln_page \<Rightarrow> vuln_body" where
  "vulns_body s = (if vulns_filtered s \<noteq> [] then VbRows else if vp_pending s then VbSkeleton
     else if vp_failed s then VbUnavailable else VbNoMatch)"

definition vuln_kpis :: "(rat \<Rightarrow> string) \<Rightarrow> vuln_page \<Rightarrow> (string \<times> string) list" where
  "vuln_kpis loc s = (let show_sum = (\<lambda>f. case vp_sum s of Some v \<Rightarrow> f v | None \<Rightarrow> ''-'') in
     [(''Total CVEs'', show_sum (\<lambda>v. loc (of_int (vq_distinctCves v)))), (''Critical'', show_sum (\<lambda>v. int_str (vq_critical v))),
      (''Actively Exploited'', show_sum (\<lambda>v. int_str (vq_exploited v))), (''Avg Patch Age'', show_sum (\<lambda>v. num_str (vq_avgPatchAge v) @ ''d'')),
      (''Exposure Score'', show_sum (\<lambda>v. int_str (js_round (vq_exposureScore v)) @ ''/100''))])"

definition vuln_order :: "vuln_severity list" where "vuln_order = [VsCritical, VsHigh, VsMedium, VsLow]"

text \<open>The parts of the bar, the empty ones left out, and the legend with all counts.\<close>

definition sev_distribution :: "vuln list \<Rightarrow> (rat \<times> string) list \<times> (string \<times> nat) list" where
  "sev_distribution vs = (let n = (\<lambda>s. count_of (\<lambda>v. vu_severity v = s) vs); t = (if vs = [] then 1 else length vs) in
     (map (\<lambda>s. (js_mul (js_div (of_nat (n s)) (of_nat t)) 100, snd (SEVERITY_META s))) (filter (\<lambda>s. n s > 0) vuln_order),
      map (\<lambda>s. (fst (SEVERITY_META s), n s)) vuln_order))"

definition age_class :: "int option \<Rightarrow> string" where
  "age_class a = (case a of None \<Rightarrow> ''text-safe'' | Some d \<Rightarrow> if d > 30 then ''text-threat'' else if d > 7 then ''text-amber'' else ''text-safe'')"

definition age_text_vuln :: "int option \<Rightarrow> string" where
  "age_text_vuln a = (case a of None \<Rightarrow> ''NaN'' | Some d \<Rightarrow> int_str d)"

definition vuln_row :: "vuln \<Rightarrow> string list" where
  "vuln_row v = [vu_id v, to_fixed 1 (vu_cvss v), vu_title v, int_str (int (length (vu_assets v))), fst (EXPLOIT_META (vu_exploit v)),
     age_text_vuln (vu_ageDays v) @ ''d'', fst (STATUS_META_vuln (vu_status v)),
     case vu_assignee v of Some a \<Rightarrow> if a \<noteq> [] then a else ''Unassigned'' | None \<Rightarrow> ''Unassigned'']"

definition vuln_nvd :: "vuln \<Rightarrow> string" where "vuln_nvd v = ''https://nvd.nist.gov/vuln/detail/'' @ encodeURIComponent (vu_id v)"

definition vuln_lookup :: "vuln \<Rightarrow> string" where
  "vuln_lookup v = ''/dashboard/scanner?value='' @ encodeURIComponent (vu_id v) @ ''&type=cve&run=1''"

definition vuln_panel :: "vuln \<Rightarrow> (string \<times> string) list" where
  "vuln_panel v = [(''Severity'', fst (SEVERITY_META (vu_severity v))), (''CVSS'', to_fixed 1 (vu_cvss v)), (''Finding Age'', age_text_vuln (vu_ageDays v) @ ''d''),
     (''Description'', vu_description v), (''Exploit Maturity'', fst (EXPLOIT_META (vu_exploit v)) @ (if vu_kev v then '' - CISA KEV'' else [])),
     (''Affected Assets'', int_str (int (length (vu_assets v)))),
     (''Assignee'', case vu_assignee v of Some a \<Rightarrow> a | None \<Rightarrow> ''Unassigned''), (''First Detected'', age_text_vuln (vu_ageDays v) @ '' days ago'')]"

definition reference_text :: "string \<Rightarrow> string" where
  "reference_text r = rx_replace (rx_str ''https://'') (\<lambda>_ _. []) r"

subsection \<open>What the filters find\<close>

lemma vulns_open: "list_all (\<lambda>v. vu_status v = VtOpen) (vp_vulns (fold (vuln_step since) ops vulns_mount))"
proof (induction ops rule: rev_induct)
  case (snoc op ops)
  then show ?case by (cases op) (auto simp: list_all_iff vuln_of_def split: option.split)
qed (simp add: vulns_mount_def)

text \<open>Every finding is open, whatever the scanner answers: the filter on the state finds all of them or
  none.\<close>

theorem status_filter_idle:
  "vulns_filtered (vuln_step since (VuStatus (Some VtOpen)) (fold (vuln_step since) ops vulns_mount))
     = vulns_filtered (vuln_step since (VuStatus None) (fold (vuln_step since) ops vulns_mount))
   \<and> (\<forall>t \<in> {VtInProgress, VtPatched, VtAccepted}. vulns_filtered (vuln_step since (VuStatus (Some t)) (fold (vuln_step since) ops vulns_mount)) = [])"
  using vulns_open [of since ops]
  by (auto simp: vulns_filtered_def vuln_shown_def list_all_iff filter_empty_conv intro!: filter_cong)

text \<open>Clearing the filters shows every finding, and the four parts of the distribution count each finding
  once.\<close>

theorem all_counted:
  "vulns_filtered (vuln_step since VuClear s) = vp_vulns s
   \<and> sum_list (map snd (snd (sev_distribution vs))) = length vs
   \<and> (\<forall>(w, c) \<in> set (fst (sev_distribution vs)). 0 \<le> w \<and> w \<le> 100)"
proof -
  have "sum_list (map snd (snd (sev_distribution vs))) = length vs"
  proof (induction vs)
    case (Cons v vs)
    then show ?case by (cases "vu_severity v") (simp_all add: sev_distribution_def vuln_order_def count_of_def Let_def)
  qed (simp add: sev_distribution_def vuln_order_def count_of_def Let_def)
  moreover have "0 \<le> w \<and> w \<le> 100" if w: "(w, c) \<in> set (fst (sev_distribution vs))" for w c
  proof -
    obtain s where s: "w = js_mul (js_div (of_nat (count_of (\<lambda>v. vu_severity v = s) vs)) (of_nat (length vs))) 100" "vs \<noteq> []"
      using w by (auto simp: sev_distribution_def Let_def count_of_def vuln_order_def split: if_splits)
    have "(of_nat (count_of (\<lambda>v. vu_severity v = s) vs) :: rat) \<le> of_nat (length vs)" "0 < (of_nat (length vs) :: rat)"
      using s(2) by (simp_all add: count_of_le)
    then show ?thesis unfolding s(1) using js_percent_bounds [OF of_nat_0_le_iff] by blast
  qed
  ultimately show ?thesis by (auto simp: vulns_filtered_def vuln_shown_def)
qed

text \<open>The link of a finding leads to the scanner, which looks up exactly this CVE at once.\<close>

theorem vuln_looked_up:
  assumes "trim (vu_id v) \<noteq> []"
  shows "sp_flight (deep_link (url_query (vuln_lookup v)) scan_init) = [(trim (vu_id v), ''cve'')]"
proof -
  let ?ps = "[(''value'', vu_id v), (''type'', ''cve''), (''run'', ''1'')]"
  have enc: "encodeURIComponent ''cve'' = ''cve''" "encodeURIComponent ''1'' = ''1''" by code_simp+
  have "vuln_lookup v = ''/dashboard/scanner'' @ CHR ''?'' # join ''&'' (map (\<lambda>(k, v). k @ ''='' @ encodeURIComponent v) ?ps)"
    by (simp add: vuln_lookup_def enc)
  then have u: "url_query (vuln_lookup v) = join ''&'' (map (\<lambda>(k, v). k @ ''='' @ encodeURIComponent v) ?ps)"
    by (simp only:) (rule url_query_path, simp)
  have p: "parse_params (url_query (vuln_lookup v)) = ?ps"
    unfolding u by (rule query_pairs) (auto simp: is_alpha_def is_lower_def code_def)
  have q: "\<not> starts_with (url_query (vuln_lookup v)) ''?''" unfolding u by (simp add: starts_with_def)
  have "toLowerCase (trim ''cve'') = ''cve''" by code_simp
  then show ?thesis using assms by (simp add: deep_link_def p q handleScan_def scan_init_def Let_def SCAN_TYPES_def)
qed

text \<open>The background of the pill is no colour: two digits appended to a variable, where \<open>withAlpha\<close> would
  put the opacity inside.\<close>

theorem pill_background_broken:
  "withAlpha (cvssColor s) a \<noteq> cvssColor s @ ''1a'' \<and> last (cvssColor s @ ''1a'') \<noteq> CHR '')''"
proof -
  have "\<exists>t. cvssColor s = tk t" by (auto simp: cvssColor_def)
  then obtain t where t: "cvssColor s = tk t" by blast
  have "withAlpha (tk t) a = ''rgb(var('' @ VAR t @ '') / '' @ num_str a @ '')''" using withAlpha_spec by blast
  then have l: "last (withAlpha (tk t) a) = CHR '')''" by simp
  have r: "last (tk t @ ''1a'') = CHR ''a''" by simp
  have "withAlpha (tk t) a \<noteq> tk t @ ''1a''"
  proof
    assume "withAlpha (tk t) a = tk t @ ''1a''"
    then have "CHR '')'' = CHR ''a''" using l r by simp
    then show False by simp
  qed
  then show ?thesis unfolding t r by simp
qed

end
