(* ===== verification/UsersPage.thy ===== *)
theory UsersPage
  imports AuthPages SiemRules Optimistic
begin

text \<open>
  The users and roles of an organisation: the roster with its panel and the invitation
  (\<open>app/dashboard/config/users/page.tsx\<close>) and the editor of the roles
  (\<open>components/dashboard/RolesEditor.tsx\<close>). A change of a user is shown at once and taken back when it is
  refused; \<open>up_patches\<close> and \<open>up_deletes\<close> are the calls under way with what each will put back.
\<close>

subsection \<open>Roles and users\<close>

datatype role_name = Admin | SocManager | SeniorAnalyst | Analyst | ReadOnly | Auditor
datatype user_status = UsActive | UsSuspended | UsInvited

fun role_text :: "role_name \<Rightarrow> string" where
  "role_text Admin = ''Admin''" | "role_text SocManager = ''SOC Manager''" | "role_text SeniorAnalyst = ''Senior Analyst''"
| "role_text Analyst = ''Analyst''" | "role_text ReadOnly = ''Read-Only''" | "role_text Auditor = ''Auditor''"

fun ROLE_TO_API :: "role_name \<Rightarrow> string" where
  "ROLE_TO_API Admin = ''admin''" | "ROLE_TO_API SocManager = ''manager''" | "ROLE_TO_API SeniorAnalyst = ''analyst''"
| "ROLE_TO_API Analyst = ''analyst''" | "ROLE_TO_API ReadOnly = ''viewer''" | "ROLE_TO_API Auditor = ''viewer''"

definition USER_PERMISSIONS :: "string list" where
  "USER_PERMISSIONS = [''View Alerts'', ''Manage Playbooks'', ''Configure Sources'', ''Manage Users'', ''Export Data'', ''Run Response Actions'']"

text \<open>Description, number of users and the permissions in the order of \<open>USER_PERMISSIONS\<close>.\<close>

fun ROLES_table :: "role_name \<Rightarrow> string \<times> nat \<times> bool list" where
  "ROLES_table Admin = (''Full platform control'', 1, [True, True, True, True, True, True])"
| "ROLES_table SocManager = (''Team oversight & operations'', 1, [True, True, True, False, True, True])"
| "ROLES_table SeniorAnalyst = (''Investigate & respond'', 2, [True, True, False, False, True, True])"
| "ROLES_table Analyst = (''Triage & enrichment'', 4, [True, False, False, False, False, True])"
| "ROLES_table ReadOnly = (''View dashboards only'', 1, [True, False, False, False, False, False])"
| "ROLES_table Auditor = (''Compliance & export'', 1, [True, False, False, False, True, False])"

fun ROLE_COLORS :: "role_name \<Rightarrow> string" where
  "ROLE_COLORS Admin = tk Magenta" | "ROLE_COLORS SocManager = tk Violet" | "ROLE_COLORS SeniorAnalyst = tk Safe"
| "ROLE_COLORS Analyst = tk Amber" | "ROLE_COLORS ReadOnly = ''#8A7DA3''" | "ROLE_COLORS Auditor = tk Threat"

fun STATUS_CFG_user :: "user_status \<Rightarrow> string \<times> string" where
  "STATUS_CFG_user UsActive = (''Active'', ''text-safe border-safe/20 bg-safe/10'')"
| "STATUS_CFG_user UsSuspended = (''Suspended'', ''text-threat border-threat/20 bg-threat/10'')"
| "STATUS_CFG_user UsInvited = (''Invited'', ''text-amber border-amber/20 bg-amber/10'')"

record api_user =
  aq_id :: string
  aq_email :: string
  aq_name :: string
  aq_role :: string
  aq_status :: string
  aq_mfa :: "int option"
  aq_lastLogin :: "string option"

record team_user =
  tu_id :: string
  tu_name :: string
  tu_email :: string
  tu_role :: role_name
  tu_lastActive :: string
  tu_mfa :: bool
  tu_status :: user_status

definition role_of_api :: "string \<Rightarrow> role_name" where
  "role_of_api r = (if r = ''admin'' then Admin else if r = ''manager'' then SocManager else if r = ''analyst'' then Analyst else ReadOnly)"

definition apiToTeamUser :: "api_user \<Rightarrow> team_user" where
  "apiToTeamUser u =
     \<lparr>tu_id = aq_id u, tu_name = aq_name u, tu_email = aq_email u, tu_role = role_of_api (aq_role u),
      tu_lastActive = (case aq_lastLogin u of Some t \<Rightarrow> t | None \<Rightarrow> ''Never''),
      tu_mfa = (case aq_mfa u of Some m \<Rightarrow> m \<noteq> 0 | None \<Rightarrow> False),
      tu_status = (if aq_status u = ''active'' then UsActive else if aq_status u = ''invited'' then UsInvited else UsSuspended)\<rparr>"

definition user_initials :: "string \<Rightarrow> string" where
  "user_initials name = concat (take 2 (map (take 1) (split_char CHR '' '' name)))"

text \<open>Seconds since an entry of the audit trail; \<open>None\<close> for a time that does not parse.\<close>

definition user_timeAgo :: "int option \<Rightarrow> string" where
  "user_timeAgo ms = (case ms of None \<Rightarrow> ''NaNd ago'' | Some m \<Rightarrow> (let d = js_div (of_int m) 1000 in
     if d < 60 then int_str (js_floor d) @ ''s ago'' else if d < 3600 then int_str (js_floor (js_div d 60)) @ ''m ago''
     else if d < 86400 then int_str (js_floor (js_div d 3600)) @ ''h ago'' else int_str (js_floor (js_div d 86400)) @ ''d ago''))"

definition user_row :: "team_user \<Rightarrow> string list" where
  "user_row u = [user_initials (tu_name u), tu_name u, tu_email u, role_text (tu_role u), tu_lastActive u,
     if tu_mfa u then ''shield-check'' else ''shield-off'', fst (STATUS_CFG_user (tu_status u))]"

subsection \<open>The panel of a user\<close>

record user_audit =
  ae_ts :: string
  ae_actor :: "string option"
  ae_action :: string
  ae_target :: "string option"

record user_panel =
  un_no :: nat
  un_user :: string
  un_email :: string
  un_temp :: "string option"
  un_resetting :: bool
  un_copied :: bool
  un_activity :: "user_audit list option"

definition panel_open :: "nat \<Rightarrow> team_user \<Rightarrow> user_panel" where
  "panel_open n u = \<lparr>un_no = n, un_user = tu_id u, un_email = tu_email u, un_temp = None, un_resetting = False,
     un_copied = False, un_activity = None\<rparr>"

definition audit_call :: call where
  "audit_call = fetchAuditLog (Some 500) None"

definition activity_loaded :: "user_audit list option \<Rightarrow> user_panel \<Rightarrow> user_panel" where
  "activity_loaded r p = p\<lparr>un_activity := Some (case r of
     Some rows \<Rightarrow> take 8 (filter (\<lambda>e. ae_actor e = Some (un_email p)) rows) | None \<Rightarrow> [])\<rparr>"

definition user_activity_line :: "user_audit \<Rightarrow> string" where
  "user_activity_line e = ae_action e @ (case ae_target e of Some t \<Rightarrow> if t \<noteq> [] then [CHR '' '', CHR 0xB7, CHR '' ''] @ t else [] | None \<Rightarrow> [])"

definition resetPw :: "user_panel \<Rightarrow> user_panel \<times> call list" where
  "resetPw p = (if un_resetting p then (p, []) else (p\<lparr>un_resetting := True, un_temp := None\<rparr>, [resetUserPassword (un_user p) None]))"

definition reset_answered :: "exn + json \<Rightarrow> user_panel \<Rightarrow> user_panel" where
  "reset_answered r p = p\<lparr>un_resetting := False, un_temp := Some (case r of
     Inr v \<Rightarrow> js_string (nullish (json_get ''temporary_password'' v) (JStr [])) | Inl e \<Rightarrow> ''error'')\<rparr>"

datatype reset_view = RvNothing | RvRefused | RvPassword string | RvDoneOnly

definition reset_shown :: "user_panel \<Rightarrow> reset_view" where
  "reset_shown p = (case un_temp p of None \<Rightarrow> RvNothing
     | Some t \<Rightarrow> if t = ''error'' then RvRefused else if t \<noteq> [] then RvPassword t else RvDoneOnly)"

text \<open>What the buttons say, and the boxes of the overrides, which are ticked by the role and write nothing.\<close>

definition panel_buttons :: "team_user \<Rightarrow> string list" where
  "panel_buttons u = [if tu_mfa u then ''Reset MFA'' else ''Enable MFA'', ''Reset password'',
     if tu_status u = UsSuspended then ''Reactivate User'' else ''Suspend User'', ''Remove User'']"

definition override_boxes :: "team_user \<Rightarrow> (string \<times> bool) list" where
  "override_boxes u = zip USER_PERMISSIONS (snd (snd (ROLES_table (tu_role u))))"

subsection \<open>The invitation\<close>

record invite_form =
  iv_no :: nat
  iv_name :: string
  iv_email :: string
  iv_role :: role_name
  iv_password :: string
  iv_submitting :: bool
  iv_error :: "string option"

definition invite_open :: "nat \<Rightarrow> invite_form" where
  "invite_open n = \<lparr>iv_no = n, iv_name = [], iv_email = [], iv_role = Analyst, iv_password = [], iv_submitting = False, iv_error = None\<rparr>"

definition invite_ok :: "invite_form \<Rightarrow> bool" where
  "invite_ok f \<longleftrightarrow> trim (iv_name f) \<noteq> [] \<and> emailValid (iv_email f) \<and> 8 \<le> length (iv_password f)"

definition invite_body :: "invite_form \<Rightarrow> json" where
  "invite_body f = JObj [(''name'', JStr (trim (iv_name f))), (''email'', JStr (trim (iv_email f))),
     (''role'', JStr (ROLE_TO_API (iv_role f))), (''password'', JStr (iv_password f))]"

definition invite_error :: "(exn \<Rightarrow> string) \<Rightarrow> exn \<Rightarrow> string" where
  "invite_error eng e = (if str_includes (err_message eng e) ''already exists'' then ''A user with that email already exists.''
     else ''Could not create the user. Check the API is running and you have admin access.'')"

subsection \<open>The page\<close>

datatype undo = UndoRole string role_name | UndoStatus string user_status | UndoMfa string bool

record users_page =
  up_roles :: bool
  up_selected :: "string option"
  up_users :: "team_user list"
  up_failed :: bool
  up_invite :: "invite_form option"
  up_invites :: "nat list"
  up_panel :: "user_panel option"
  up_patches :: "undo list"
  up_deletes :: "team_user list list"
  up_next :: nat
  up_calls :: "call list"

definition users_mount :: users_page where
  "users_mount = \<lparr>up_roles = False, up_selected = None, up_users = [], up_failed = False, up_invite = None, up_invites = [],
     up_panel = None, up_patches = [], up_deletes = [], up_next = 0, up_calls = [fetchUsers]\<rparr>"

definition find_user :: "string \<Rightarrow> users_page \<Rightarrow> team_user option" where
  "find_user i s = find (\<lambda>u. tu_id u = i) (up_users s)"

definition selectedUser :: "users_page \<Rightarrow> team_user option" where
  "selectedUser s = Option.bind (up_selected s) (\<lambda>i. find_user i s)"

text \<open>The panel is there as long as the selected user is in the list; a new one asks for the activity.\<close>

definition panel_sync :: "users_page \<Rightarrow> users_page" where
  "panel_sync s = (case selectedUser s of None \<Rightarrow> s\<lparr>up_panel := None\<rparr>
     | Some u \<Rightarrow> (case up_panel s of
         Some p \<Rightarrow> s
       | None \<Rightarrow> s\<lparr>up_panel := Some (panel_open (up_next s) u), up_next := Suc (up_next s), up_calls := up_calls s @ [audit_call]\<rparr>))"

definition on_user :: "string \<Rightarrow> (team_user \<Rightarrow> team_user) \<Rightarrow> users_page \<Rightarrow> users_page" where
  "on_user i f s = s\<lparr>up_users := map (\<lambda>u. if tu_id u = i then f u else u) (up_users s)\<rparr>"

definition send_patch :: "string \<Rightarrow> json \<Rightarrow> undo \<Rightarrow> users_page \<Rightarrow> users_page" where
  "send_patch i body u s = s\<lparr>up_patches := up_patches s @ [u], up_calls := up_calls s @ [patchUser i body]\<rparr>"

definition changeRole :: "string \<Rightarrow> role_name \<Rightarrow> users_page \<Rightarrow> users_page" where
  "changeRole i r s = (case find_user i s of None \<Rightarrow> s
     | Some u \<Rightarrow> send_patch i (JObj [(''role'', JStr (ROLE_TO_API r))]) (UndoRole i (tu_role u)) (on_user i (\<lambda>x. x\<lparr>tu_role := r\<rparr>) s))"

definition next_user_status :: "user_status \<Rightarrow> user_status" where
  "next_user_status t = (if t = UsSuspended then UsActive else UsSuspended)"

definition toggleSuspend :: "string \<Rightarrow> users_page \<Rightarrow> users_page" where
  "toggleSuspend i s = (case find_user i s of None \<Rightarrow> s
     | Some u \<Rightarrow> send_patch i (JObj [(''status'', JStr (if next_user_status (tu_status u) = UsActive then ''active'' else ''disabled''))])
         (UndoStatus i (tu_status u)) (on_user i (\<lambda>x. x\<lparr>tu_status := next_user_status (tu_status u)\<rparr>) s))"

definition toggleMfa :: "string \<Rightarrow> users_page \<Rightarrow> users_page" where
  "toggleMfa i s = (case find_user i s of None \<Rightarrow> s
     | Some u \<Rightarrow> send_patch i (JObj [(''mfaEnabled'', JBool (\<not> tu_mfa u))]) (UndoMfa i (tu_mfa u)) (on_user i (\<lambda>x. x\<lparr>tu_mfa := \<not> tu_mfa u\<rparr>) s))"

fun take_back :: "undo \<Rightarrow> users_page \<Rightarrow> users_page" where
  "take_back (UndoRole i r) s = on_user i (\<lambda>x. x\<lparr>tu_role := r\<rparr>) s"
| "take_back (UndoStatus i t) s = on_user i (\<lambda>x. x\<lparr>tu_status := t\<rparr>) s"
| "take_back (UndoMfa i m) s = on_user i (\<lambda>x. x\<lparr>tu_mfa := m\<rparr>) s"

definition patch_answered :: "nat \<Rightarrow> bool \<Rightarrow> users_page \<Rightarrow> users_page" where
  "patch_answered n ok s = (if n < length (up_patches s)
     then (if ok then id else take_back (up_patches s ! n)) (s\<lparr>up_patches := take n (up_patches s) @ drop (Suc n) (up_patches s)\<rparr>) else s)"

definition drop_user :: "string \<Rightarrow> users_page \<Rightarrow> users_page" where
  "drop_user i s = s\<lparr>up_users := filter (\<lambda>u. tu_id u \<noteq> i) (up_users s)\<rparr>"

definition put_users :: "team_user list \<Rightarrow> users_page \<Rightarrow> users_page" where "put_users us s = s\<lparr>up_users := us\<rparr>"

definition removeUser :: "string \<Rightarrow> users_page \<Rightarrow> users_page" where
  "removeUser i s = (drop_user i s)\<lparr>up_selected := None, up_deletes := up_deletes s @ [up_users s], up_calls := up_calls s @ [deleteUser i]\<rparr>"

definition delete_answered :: "nat \<Rightarrow> bool \<Rightarrow> users_page \<Rightarrow> users_page" where
  "delete_answered n ok s = (if n < length (up_deletes s)
     then (if ok then id else put_users (up_deletes s ! n)) (s\<lparr>up_deletes := take n (up_deletes s) @ drop (Suc n) (up_deletes s)\<rparr>) else s)"

text \<open>The invitation: sent when the form is complete and no other one of it is under way. The dialog can be
  closed meanwhile; an answer that comes later closes the one shown then.\<close>

definition send_invite :: "users_page \<Rightarrow> users_page" where
  "send_invite s = (case up_invite s of None \<Rightarrow> s | Some f \<Rightarrow>
     if \<not> invite_ok f \<or> iv_submitting f then s
     else s\<lparr>up_invite := Some (f\<lparr>iv_submitting := True, iv_error := None\<rparr>), up_invites := up_invites s @ [iv_no f],
       up_calls := up_calls s @ [createUser (invite_body f)]\<rparr>)"

definition invite_answered :: "(exn \<Rightarrow> string) \<Rightarrow> nat \<Rightarrow> exn + api_user \<Rightarrow> users_page \<Rightarrow> users_page" where
  "invite_answered eng n r s = (if n \<notin> set (up_invites s) then s else (let s = s\<lparr>up_invites := remove1 n (up_invites s)\<rparr> in
     case r of
       Inr u \<Rightarrow> s\<lparr>up_users := up_users s @ [apiToTeamUser u], up_invite := None\<rparr>
     | Inl e \<Rightarrow> (case up_invite s of
         Some f \<Rightarrow> if iv_no f = n then s\<lparr>up_invite := Some (f\<lparr>iv_error := Some (invite_error eng e), iv_submitting := False\<rparr>)\<rparr> else s
       | None \<Rightarrow> s)))"

definition on_invite :: "(invite_form \<Rightarrow> invite_form) \<Rightarrow> users_page \<Rightarrow> users_page" where
  "on_invite f s = s\<lparr>up_invite := map_option f (up_invite s)\<rparr>"

text \<open>An answer for a panel that is no longer shown changes nothing.\<close>

definition on_user_panel :: "nat \<Rightarrow> (user_panel \<Rightarrow> user_panel) \<Rightarrow> users_page \<Rightarrow> users_page" where
  "on_user_panel n f s = s\<lparr>up_panel := map_option (\<lambda>p. if un_no p = n then f p else p) (up_panel s)\<rparr>"

datatype users_op =
    UoLoaded "api_user list option" | UoTab bool | UoSelect string | UoClose
  | UoRole role_name | UoSuspend | UoMfa | UoPatched nat bool | UoRemove bool | UoDeleted nat bool
  | UoReset | UoResetDone nat "exn + json" | UoCopy nat | UoCopyTimer nat | UoActivity nat "user_audit list option"
  | UoInvite | UoInviteClose | UoInvName string | UoInvEmail string | UoInvRole role_name | UoInvPassword string
  | UoInvSubmit | UoInvited nat "exn + api_user"

fun users_handle :: "(exn \<Rightarrow> string) \<Rightarrow> users_op \<Rightarrow> users_page \<Rightarrow> users_page" where
  "users_handle eng (UoLoaded r) s = (case r of Some us \<Rightarrow> s\<lparr>up_users := map apiToTeamUser us\<rparr> | None \<Rightarrow> s\<lparr>up_failed := True\<rparr>)"
| "users_handle eng (UoTab t) s = s\<lparr>up_roles := t\<rparr>"
| "users_handle eng (UoSelect i) s = (if find_user i s = None then s else s\<lparr>up_selected := Some i, up_panel := None\<rparr>)"
| "users_handle eng UoClose s = s\<lparr>up_selected := None\<rparr>"
| "users_handle eng (UoRole r) s = (case selectedUser s of Some u \<Rightarrow> changeRole (tu_id u) r s | None \<Rightarrow> s)"
| "users_handle eng UoSuspend s = (case selectedUser s of Some u \<Rightarrow> toggleSuspend (tu_id u) s | None \<Rightarrow> s)"
| "users_handle eng UoMfa s = (case selectedUser s of Some u \<Rightarrow> toggleMfa (tu_id u) s | None \<Rightarrow> s)"
| "users_handle eng (UoPatched n ok) s = patch_answered n ok s"
| "users_handle eng (UoRemove sure) s = (case selectedUser s of Some u \<Rightarrow> if sure then removeUser (tu_id u) s else s | None \<Rightarrow> s)"
| "users_handle eng (UoDeleted n ok) s = delete_answered n ok s"
| "users_handle eng UoReset s = (case up_panel s of
     Some p \<Rightarrow> s\<lparr>up_panel := Some (fst (resetPw p)), up_calls := up_calls s @ snd (resetPw p)\<rparr> | None \<Rightarrow> s)"
| "users_handle eng (UoResetDone n r) s = on_user_panel n (reset_answered r) s"
| "users_handle eng (UoCopy n) s = on_user_panel n (\<lambda>p. p\<lparr>un_copied := True\<rparr>) s"
| "users_handle eng (UoCopyTimer n) s = on_user_panel n (\<lambda>p. p\<lparr>un_copied := False\<rparr>) s"
| "users_handle eng (UoActivity n r) s = on_user_panel n (activity_loaded r) s"
| "users_handle eng UoInvite s = s\<lparr>up_invite := Some (invite_open (up_next s)), up_next := Suc (up_next s)\<rparr>"
| "users_handle eng UoInviteClose s = s\<lparr>up_invite := None\<rparr>"
| "users_handle eng (UoInvName t) s = on_invite (\<lambda>f. f\<lparr>iv_name := t\<rparr>) s"
| "users_handle eng (UoInvEmail t) s = on_invite (\<lambda>f. f\<lparr>iv_email := t\<rparr>) s"
| "users_handle eng (UoInvRole r) s = on_invite (\<lambda>f. f\<lparr>iv_role := r\<rparr>) s"
| "users_handle eng (UoInvPassword t) s = on_invite (\<lambda>f. f\<lparr>iv_password := t\<rparr>) s"
| "users_handle eng UoInvSubmit s = send_invite s"
| "users_handle eng (UoInvited n r) s = invite_answered eng n r s"

definition users_step :: "(exn \<Rightarrow> string) \<Rightarrow> users_op \<Rightarrow> users_page \<Rightarrow> users_page" where
  "users_step eng op s = panel_sync (users_handle eng op s)"

definition users_unavailable :: "users_page \<Rightarrow> bool" where
  "users_unavailable s \<longleftrightarrow> up_users s = [] \<and> up_failed s"

subsection \<open>What comes of a change\<close>

text \<open>Of the six roles of the page the backend knows four: a senior analyst is an analyst, an auditor a reader
  after the next load.\<close>

theorem role_kept_iff:
  "role_of_api (ROLE_TO_API r) = r \<longleftrightarrow> r \<noteq> SeniorAnalyst \<and> r \<noteq> Auditor"
  "ROLE_TO_API (role_of_api (ROLE_TO_API r)) = ROLE_TO_API r"
  "tu_role (apiToTeamUser (u\<lparr>aq_role := ROLE_TO_API SeniorAnalyst\<rparr>)) = Analyst
     \<and> tu_role (apiToTeamUser (u\<lparr>aq_role := ROLE_TO_API Auditor\<rparr>)) = ReadOnly"
proof -
  show "role_of_api (ROLE_TO_API r) = r \<longleftrightarrow> r \<noteq> SeniorAnalyst \<and> r \<noteq> Auditor"
    "ROLE_TO_API (role_of_api (ROLE_TO_API r)) = ROLE_TO_API r" by (cases r; simp add: role_of_api_def)+
qed (simp add: apiToTeamUser_def role_of_api_def)

lemma undo_user:
  assumes "find (\<lambda>u. tu_id u = i) us = Some u" "distinct (map tu_id us)" "g (f u) = u" "tu_id (f u) = tu_id u"
  shows "map (\<lambda>x. if tu_id x = i then g x else x) (map (\<lambda>x. if tu_id x = i then f x else x) us) = us"
  using assms
proof (induction us)
  case (Cons x us)
  have same: "map (\<lambda>x. if tu_id x = i then g x else x) (map (\<lambda>x. if tu_id x = i then f x else x) us) = us" if "i \<notin> tu_id ` set us"
    using that by (induction us) auto
  show ?case using Cons same by (auto split: if_splits)
qed simp

lemmas user_ops = changeRole_def toggleSuspend_def toggleMfa_def send_patch_def on_user_def patch_answered_def find_user_def

text \<open>A change that is refused before anything else happens leaves the list as it was.\<close>

theorem refused_patch_restores:
  assumes "distinct (map tu_id (up_users s))" "op \<in> {changeRole i r, toggleSuspend i, toggleMfa i}"
  shows "up_users (patch_answered (length (up_patches s)) False (op s)) = up_users s"
proof (cases "find (\<lambda>u. tu_id u = i) (up_users s)")
  case None
  then show ?thesis using assms(2) by (auto simp: user_ops)
next
  case (Some u)
  note kept = undo_user [OF Some assms(1)]
  show ?thesis using assms(2)
    kept [where g = "tu_role_update (\<lambda>_. tu_role u)" and f = "tu_role_update (\<lambda>_. r)"]
    kept [where g = "tu_status_update (\<lambda>_. tu_status u)" and f = "tu_status_update (\<lambda>_. next_user_status (tu_status u))"]
    kept [where g = "tu_mfa_update (\<lambda>_. tu_mfa u)" and f = "tu_mfa_update (\<lambda>_. \<not> tu_mfa u)"]
    by (auto simp: user_ops Some simp del: map_map)
qed

lemma find_mapped: "find (\<lambda>u. tu_id u = i) us = Some u \<Longrightarrow> (\<And>x. tu_id (f x) = tu_id x)
   \<Longrightarrow> find (\<lambda>u. tu_id u = i) (map (\<lambda>x. if tu_id x = i then f x else x) us) = Some (f u)"
  by (induction us) auto

text \<open>An invited user who is suspended and reactivated is active, without having accepted.\<close>

theorem invitation_forgotten:
  assumes "find_user i s = Some u" "tu_status u = UsInvited"
  shows "map_option tu_status (find_user i (toggleSuspend i (toggleSuspend i s))) = Some UsActive
    \<and> last (up_calls (toggleSuspend i (toggleSuspend i s))) = patchUser i (JObj [(''status'', JStr ''active'')])"
proof -
  have u: "find (\<lambda>x. tu_id x = i) (up_users s) = Some u" using assms(1) by (simp add: find_user_def)
  have m: "find (\<lambda>x. tu_id x = i) (map (\<lambda>x. if tu_id x = i then x\<lparr>tu_status := UsSuspended\<rparr> else x) (up_users s))
      = Some (u\<lparr>tu_status := UsSuspended\<rparr>)" by (rule find_mapped [OF u]) simp
  have "find (\<lambda>x. tu_id x = i) (map (\<lambda>x. if tu_id x = i then x\<lparr>tu_status := UsActive\<rparr> else x)
      (map (\<lambda>x. if tu_id x = i then x\<lparr>tu_status := UsSuspended\<rparr> else x) (up_users s)))
      = Some (u\<lparr>tu_status := UsSuspended\<rparr>\<lparr>tu_status := UsActive\<rparr>)" by (rule find_mapped [OF m]) simp
  then show ?thesis using assms(2) by (simp add: user_ops next_user_status_def u m del: map_map)
qed

interpretation user_list: optimistic_list up_users tu_id removeUser put_users
  by unfold_locales (auto simp: removeUser_def drop_user_def put_users_def)

text \<open>Two removals under way: the refusal of the first shows the second user again.\<close>

theorem removed_user_returns:
  "up_users (put_users (up_users s) (removeUser j (removeUser i s))) = up_users s"
  by (rule user_list.overlap_resurrects)

text \<open>The temporary password is never shown: whatever the backend answers, the page says only that the
  password was reset, and nobody knows the new one.\<close>

theorem temporary_password_lost:
  assumes "api fetch base tok (resetUserPassword (un_user p) None) = Inr v"
  shows "reset_shown (reset_answered (Inr v) p) = RvDoneOnly"
  using reset_password_unreadable [OF assms] by (simp add: reset_answered_def reset_shown_def)

subsection \<open>Invitations\<close>

definition invites_inv :: "users_page \<Rightarrow> bool" where
  "invites_inv s \<longleftrightarrow> distinct (up_invites s) \<and> (\<forall>n \<in> set (up_invites s). n < up_next s)
     \<and> (\<forall>f. up_invite s = Some f \<longrightarrow> iv_no f < up_next s \<and> (iv_submitting f \<longleftrightarrow> iv_no f \<in> set (up_invites s)))
     \<and> (\<forall>c \<in> set (up_calls s). c_path c = ''/users'' \<and> c_method c = ''POST''
          \<longrightarrow> (\<exists>f. invite_ok f \<and> c = createUser (invite_body f)))"

lemma other_calls:
  "c_method (patchUser i b) \<noteq> ''POST''" "c_method (deleteUser i) \<noteq> ''POST''" "c_method audit_call \<noteq> ''POST''"
  "c_path (resetUserPassword i pw) \<noteq> ''/users''" "c_method fetchUsers \<noteq> ''POST''"
  by (simp_all add: patchUser_def deleteUser_def audit_call_def fetchAuditLog_def resetUserPassword_def fetchUsers_def)

lemma invites_inv_ops:
  "invites_inv (on_user i f s) = invites_inv s" "invites_inv (put_users us s) = invites_inv s"
  "invites_inv (s\<lparr>up_patches := ps\<rparr>) = invites_inv s" "invites_inv (s\<lparr>up_deletes := ds\<rparr>) = invites_inv s"
  "invites_inv (on_user_panel n h s) = invites_inv s" "invites_inv (s\<lparr>up_selected := sel\<rparr>) = invites_inv s"
  "invites_inv (s\<lparr>up_panel := pn\<rparr>) = invites_inv s"
  by (simp_all add: invites_inv_def on_user_def put_users_def on_user_panel_def)

lemma invites_inv_sync: "invites_inv s \<Longrightarrow> invites_inv (panel_sync s)"
  unfolding panel_sync_def invites_inv_def
  by (auto simp: other_calls less_Suc_eq split: option.splits)

lemma invites_inv_send: "invites_inv s \<Longrightarrow> invites_inv (send_patch i b u s)"
  by (auto simp: send_patch_def invites_inv_def other_calls)

lemma invites_inv_submit: "invites_inv s \<Longrightarrow> invites_inv (send_invite s)"
  unfolding send_invite_def invites_inv_def by (auto split: option.splits)

lemma invites_inv_answer: "invites_inv s \<Longrightarrow> invites_inv (invite_answered eng n r s)"
  unfolding invite_answered_def invites_inv_def Let_def
  by (auto split: option.splits sum.splits dest: notin_set_remove1)

lemma invites_inv_form:
  "invites_inv s \<Longrightarrow> (\<And>f. iv_no (g f) = iv_no f \<and> iv_submitting (g f) = iv_submitting f) \<Longrightarrow> invites_inv (on_invite g s)"
  by (auto simp: on_invite_def invites_inv_def)

lemma invites_inv_handle: "invites_inv s \<Longrightarrow> invites_inv (users_handle eng op s)"
proof (cases op)
  case (UoPatched n ok)
  have "invites_inv (take_back u s) = invites_inv s" for u s by (cases u) (simp_all add: invites_inv_ops)
  moreover assume "invites_inv s"
  ultimately show ?thesis using UoPatched by (simp add: patch_answered_def invites_inv_ops)
qed (auto simp: invites_inv_ops invites_inv_submit invites_inv_answer invites_inv_form changeRole_def toggleSuspend_def toggleMfa_def
       invites_inv_send delete_answered_def split: option.splits;
     auto simp: invites_inv_def removeUser_def drop_user_def resetPw_def other_calls invite_open_def less_Suc_eq split: if_splits)+

text \<open>In every run a form has at most one request under way, and every request to create a user has a name, an
  address of the form a@b.c and a password of eight characters.\<close>

theorem invitations_valid: "invites_inv (fold (users_step eng) ops users_mount)"
proof (induction ops rule: rev_induct)
  case Nil
  then show ?case by (simp add: invites_inv_def users_mount_def other_calls)
next
  case (snoc op ops)
  then show ?case by (simp add: users_step_def invites_inv_sync invites_inv_handle)
qed

text \<open>The address sent is the one typed: a valid one has no space around it to trim.\<close>

theorem invited_address: "invite_ok f \<Longrightarrow> json_get ''email'' (invite_body f) = JStr (iv_email f)"
proof -
  assume "invite_ok f"
  then have e: "emailValid (iv_email f)" by (simp add: invite_ok_def)
  have "trim (iv_email f) = iv_email f"
    using emailValid_iff [of "iv_email f" "\<lparr>su_form = \<lparr>sf_name = ''a'', sf_email = iv_email f, sf_company = [], sf_password = ''12345678''\<rparr>,
      su_agree = True, su_submitting = False, su_error = None, su_pending = None\<rparr>"] e
    by (simp add: signup_can_submit_def signup_body_def obj_get_def trim_none char_classes)
  then show ?thesis by (simp add: invite_body_def obj_get_def)
qed

text \<open>A dialog closed while it submits: the late answer closes the one opened since.\<close>

theorem invite_closed_by_other:
  assumes "n \<in> set (up_invites s)"
  shows "up_invite (invite_answered eng n (Inr u) s) = None"
  using assms by (simp add: invite_answered_def Let_def)

end
