(* ===== verification/RolesEditor.thy ===== *)
theory RolesEditor
  imports SiemRules
begin

text \<open>
  The editor of the roles (\<open>components/dashboard/RolesEditor.tsx\<close>): the list with its catalogue of
  capabilities, a draft that is created, cloned or edited, and the removal with its confirmation.
  \<open>can\<close> is whether the reader may manage users; a note goes away with the timer of its call, and
  \<open>re_timers\<close> counts the timers that run.
\<close>

subsection \<open>The state\<close>

record role_def =
  rf_id :: string
  rf_name :: string
  rf_description :: "string option"
  rf_builtIn :: bool
  rf_caps :: "string list"

record role_draft =
  rq_id :: "string option"
  rq_name :: string
  rq_description :: string
  rq_caps :: "string list"

datatype role_note = NoteCreated string | NoteUpdated string | NoteDeleted string

datatype role_flight = RfSave role_draft | RfDelete role_def

record roles_editor =
  re_roles :: "role_def list option"
  re_catalogue :: "(string, string) obj"
  re_draft :: "role_draft option"
  re_confirm :: "string option"
  re_flight :: "role_flight option"
  re_error :: "string option"
  re_notice :: "role_note option"
  re_timers :: nat
  re_calls :: "call list"

definition re_busy :: "roles_editor \<Rightarrow> bool" where "re_busy s \<longleftrightarrow> re_flight s \<noteq> None"

definition roles_mount :: roles_editor where
  "roles_mount = \<lparr>re_roles = None, re_catalogue = [], re_draft = None, re_confirm = None, re_flight = None,
     re_error = None, re_notice = None, re_timers = 0, re_calls = [fetchRoles]\<rparr>"

definition ROLE_COLOR :: "(string, string) obj" where
  "ROLE_COLOR = [(''admin'', ''#FF2E97''), (''manager'', ''#7A3CFF''), (''analyst'', ''#34F5C5''), (''viewer'', ''#8b8b9a'')]"

subsection \<open>The operations\<close>

definition roles_loaded :: "(role_def list \<times> (string, string) obj) option \<Rightarrow> roles_editor \<Rightarrow> roles_editor" where
  "roles_loaded r s = (case r of Some (rs, cat) \<Rightarrow> s\<lparr>re_roles := Some rs, re_catalogue := cat\<rparr> | None \<Rightarrow> s\<lparr>re_roles := Some []\<rparr>)"

definition startNew :: "roles_editor \<Rightarrow> roles_editor" where
  "startNew s = s\<lparr>re_error := None, re_draft := Some \<lparr>rq_id = None, rq_name = [], rq_description = [], rq_caps = []\<rparr>\<rparr>"

definition description_of :: "role_def \<Rightarrow> string" where
  "description_of r = (case rf_description r of Some d \<Rightarrow> d | None \<Rightarrow> [])"

definition startClone :: "role_def \<Rightarrow> roles_editor \<Rightarrow> roles_editor" where
  "startClone r s = s\<lparr>re_error := None, re_draft := Some \<lparr>rq_id = None, rq_name = rf_name r @ '' copy'',
     rq_description = description_of r, rq_caps = rf_caps r\<rparr>\<rparr>"

definition startEdit :: "role_def \<Rightarrow> roles_editor \<Rightarrow> roles_editor" where
  "startEdit r s = s\<lparr>re_error := None, re_draft := Some \<lparr>rq_id = Some (rf_id r), rq_name = rf_name r,
     rq_description = description_of r, rq_caps = rf_caps r\<rparr>\<rparr>"

definition toggleCap :: "string \<Rightarrow> role_draft \<Rightarrow> role_draft" where
  "toggleCap c d = d\<lparr>rq_caps := (if c \<in> set (rq_caps d) then filter (\<lambda>x. x \<noteq> c) (rq_caps d) else rq_caps d @ [c])\<rparr>"

definition on_draft :: "(role_draft \<Rightarrow> role_draft) \<Rightarrow> roles_editor \<Rightarrow> roles_editor" where
  "on_draft f s = s\<lparr>re_draft := map_option f (re_draft s)\<rparr>"

definition cancelDraft :: "roles_editor \<Rightarrow> roles_editor" where
  "cancelDraft s = (if re_busy s then s else s\<lparr>re_draft := None\<rparr>)"

definition role_body :: "role_draft \<Rightarrow> json" where
  "role_body d = JObj [(''name'', JStr (trim (rq_name d))),
     (''description'', if rq_description d = [] then JUndef else JStr (rq_description d)),
     (''capabilities'', JArr (map JStr (rq_caps d)))]"

definition role_call :: "role_draft \<Rightarrow> call" where
  "role_call d = (case rq_id d of Some i \<Rightarrow> if i \<noteq> [] then updateRole i (role_body d) else createRole (role_body d)
     | None \<Rightarrow> createRole (role_body d))"

definition save_role :: "roles_editor \<Rightarrow> roles_editor" where
  "save_role s = (case re_draft s of None \<Rightarrow> s | Some d \<Rightarrow>
     if re_busy s then s
     else if trim (rq_name d) = [] then s\<lparr>re_error := Some ''A role name is required.''\<rparr>
     else s\<lparr>re_flight := Some (RfSave d), re_error := None, re_calls := re_calls s @ [role_call d]\<rparr>)"

definition reload_after :: "role_note \<Rightarrow> roles_editor \<Rightarrow> roles_editor" where
  "reload_after n s = s\<lparr>re_notice := Some n, re_flight := None, re_calls := re_calls s @ [fetchRoles], re_timers := Suc (re_timers s)\<rparr>"

definition refused :: "(exn \<Rightarrow> string) \<Rightarrow> exn \<Rightarrow> roles_editor \<Rightarrow> roles_editor" where
  "refused eng e s = s\<lparr>re_error := Some (err_message eng e), re_flight := None\<rparr>"

text \<open>The answer to a save names the role as the backend stored it.\<close>

definition role_saved :: "(exn \<Rightarrow> string) \<Rightarrow> exn + string \<Rightarrow> roles_editor \<Rightarrow> roles_editor" where
  "role_saved eng r s = (case re_flight s of
     Some (RfSave d) \<Rightarrow> (case r of
        Inr n \<Rightarrow> (reload_after (if rq_id d \<in> {None, Some []} then NoteCreated n else NoteUpdated (trim (rq_name d))) s)\<lparr>re_draft := None\<rparr>
      | Inl e \<Rightarrow> refused eng e s)
   | _ \<Rightarrow> s)"

definition ask_delete :: "role_def \<Rightarrow> roles_editor \<Rightarrow> roles_editor" where
  "ask_delete r s = s\<lparr>re_error := None, re_confirm := Some (rf_id r)\<rparr>"

definition remove_role :: "role_def \<Rightarrow> roles_editor \<Rightarrow> roles_editor" where
  "remove_role r s = (if re_busy s then s
     else s\<lparr>re_flight := Some (RfDelete r), re_error := None, re_confirm := None, re_calls := re_calls s @ [deleteRole (rf_id r)]\<rparr>)"

definition role_deleted :: "(exn \<Rightarrow> string) \<Rightarrow> exn option \<Rightarrow> roles_editor \<Rightarrow> roles_editor" where
  "role_deleted eng r s = (case re_flight s of
     Some (RfDelete x) \<Rightarrow> (case r of None \<Rightarrow> reload_after (NoteDeleted (rf_name x)) s | Some e \<Rightarrow> refused eng e s)
   | _ \<Rightarrow> s)"

text \<open>The buttons of a card: a built-in role can only be cloned, and nobody without the permission gets any.\<close>

datatype role_op = RoLoaded "(role_def list \<times> (string, string) obj) option" | RoNew | RoClone role_def | RoEdit role_def
  | RoName string | RoDescription string | RoCap string | RoCancel | RoSave | RoSaved "exn + string"
  | RoAsk role_def | RoDelete role_def | RoDeleted "exn option" | RoTimer

definition listed :: "role_def \<Rightarrow> roles_editor \<Rightarrow> bool" where
  "listed r s \<longleftrightarrow> (case re_roles s of Some rs \<Rightarrow> r \<in> set rs | None \<Rightarrow> False)"

fun offered :: "bool \<Rightarrow> role_op \<Rightarrow> roles_editor \<Rightarrow> bool" where
  "offered can RoNew s = (can \<and> re_roles s \<noteq> None)"
| "offered can (RoClone r) s = (can \<and> listed r s)"
| "offered can (RoEdit r) s = (can \<and> listed r s \<and> \<not> rf_builtIn r)"
| "offered can (RoAsk r) s = (can \<and> listed r s \<and> \<not> rf_builtIn r)"
| "offered can (RoDelete r) s = (can \<and> listed r s \<and> \<not> rf_builtIn r \<and> re_confirm s = Some (rf_id r))"
| "offered can (RoCap c) s = (c \<in> fst ` set (re_catalogue s))"
| "offered can _ s = True"

fun role_do :: "(exn \<Rightarrow> string) \<Rightarrow> role_op \<Rightarrow> roles_editor \<Rightarrow> roles_editor" where
  "role_do eng (RoLoaded r) s = roles_loaded r s"
| "role_do eng RoNew s = startNew s"
| "role_do eng (RoClone r) s = startClone r s"
| "role_do eng (RoEdit r) s = startEdit r s"
| "role_do eng (RoName t) s = on_draft (rq_name_update (\<lambda>_. t)) s"
| "role_do eng (RoDescription t) s = on_draft (rq_description_update (\<lambda>_. t)) s"
| "role_do eng (RoCap c) s = on_draft (toggleCap c) s"
| "role_do eng RoCancel s = cancelDraft s"
| "role_do eng RoSave s = save_role s"
| "role_do eng (RoSaved r) s = role_saved eng r s"
| "role_do eng (RoAsk r) s = ask_delete r s"
| "role_do eng (RoDelete r) s = remove_role r s"
| "role_do eng (RoDeleted r) s = role_deleted eng r s"
| "role_do eng RoTimer s = (if re_timers s = 0 then s else s\<lparr>re_timers := re_timers s - 1, re_notice := None\<rparr>)"

definition role_step :: "(exn \<Rightarrow> string) \<Rightarrow> bool \<Rightarrow> role_op \<Rightarrow> roles_editor \<Rightarrow> roles_editor" where
  "role_step eng can p s = (if offered can p s then role_do eng p s else s)"

subsection \<open>What is shown\<close>

definition roles_head :: "role_def list \<Rightarrow> string" where
  "roles_head rs = int_str (int (length rs)) @ '' role'' @ (if length rs = 1 then [] else ''s'')"

definition role_card :: "(string, string) obj \<Rightarrow> role_def \<Rightarrow> string \<times> string \<times> string \<times> string \<times> (string \<times> bool) list" where
  "role_card cat r = ((case obj_get ROLE_COLOR (rf_id r) of Some c \<Rightarrow> c | None \<Rightarrow> ''#4f6bed''), rf_name r,
     if rf_builtIn r then ''Built-in'' else ''Custom'',
     int_str (int (length (rf_caps r))) @ '' cap'' @ (if length (rf_caps r) = 1 then [] else ''s''),
     map (\<lambda>(c, d). (c, c \<in> set (rf_caps r))) cat)"

datatype error_place = InList string | InDialog string | NoError

definition error_shown :: "roles_editor \<Rightarrow> error_place" where
  "error_shown s = (case re_error s of None \<Rightarrow> NoError
     | Some e \<Rightarrow> if e = [] then NoError else if re_draft s = None then InList e else InDialog e)"

subsection \<open>What may be sent\<close>

text \<open>Toggling a capability twice restores the set, and a draft never holds one twice.\<close>

theorem toggle_twice:
  "set (rq_caps (toggleCap c (toggleCap c d))) = set (rq_caps d)"
  "distinct (rq_caps d) \<Longrightarrow> distinct (rq_caps (toggleCap c d))"
  "(c' \<in> set (rq_caps (toggleCap c d))) = (if c' = c then c \<notin> set (rq_caps d) else c' \<in> set (rq_caps d))"
  by (auto simp: toggleCap_def)

definition role_request_ok :: "bool \<Rightarrow> string set \<Rightarrow> call \<Rightarrow> bool" where
  "role_request_ok can C c \<longleftrightarrow> c = fetchRoles \<or> can \<and> ((\<exists>d. trim (rq_name d) \<noteq> [] \<and> c = createRole (role_body d))
     \<or> (\<exists>d. \<exists>i \<in> C. trim (rq_name d) \<noteq> [] \<and> c = updateRole i (role_body d)) \<or> (\<exists>i \<in> C. c = deleteRole i))"

definition roles_inv :: "bool \<Rightarrow> string set \<Rightarrow> roles_editor \<Rightarrow> bool" where
  "roles_inv can C s \<longleftrightarrow> list_all (role_request_ok can C) (re_calls s)
     \<and> (\<forall>rs r. re_roles s = Some rs \<longrightarrow> r \<in> set rs \<longrightarrow> \<not> rf_builtIn r \<longrightarrow> rf_id r \<in> C)
     \<and> (\<forall>d. re_draft s = Some d \<longrightarrow> can \<and> (\<forall>i. rq_id d = Some i \<longrightarrow> i \<in> C))"

text \<open>The custom roles the backend ever lists.\<close>

fun lists_only :: "string set \<Rightarrow> role_op \<Rightarrow> bool" where
  "lists_only C (RoLoaded (Some (rs, cat))) = (\<forall>r \<in> set rs. \<not> rf_builtIn r \<longrightarrow> rf_id r \<in> C)"
| "lists_only C _ = True"

lemma role_call_ok:
  "can \<Longrightarrow> trim (rq_name d) \<noteq> [] \<Longrightarrow> (\<forall>i. rq_id d = Some i \<longrightarrow> i \<in> C) \<Longrightarrow> role_request_ok can C (role_call d)"
  by (auto simp: role_call_def role_request_ok_def split: option.splits)

lemma roles_inv_step:
  assumes "roles_inv can C s" "lists_only C p"
  shows "roles_inv can C (role_step eng can p s)"
proof (cases p)
  case (RoLoaded r)
  then show ?thesis using assms by (cases r) (auto simp: role_step_def roles_loaded_def roles_inv_def)
next
  case RoSave
  then show ?thesis using assms(1)
    by (auto simp: role_step_def save_role_def roles_inv_def role_call_ok split: option.split)
next
  case (RoDelete r)
  have "role_request_ok can C (deleteRole (rf_id r))" if "rf_id r \<in> C" "can" using that by (auto simp: role_request_ok_def)
  then show ?thesis using assms(1) RoDelete
    by (auto simp: role_step_def remove_role_def roles_inv_def listed_def split: option.splits)
qed (use assms(1) in \<open>auto simp: role_step_def roles_inv_def startNew_def startClone_def startEdit_def on_draft_def toggleCap_def
       cancelDraft_def role_saved_def role_deleted_def reload_after_def refused_def ask_delete_def listed_def role_request_ok_def
       split: option.splits role_flight.splits sum.splits\<close>)

text \<open>In every run the editor changes and deletes custom roles only, each named; and without the permission it
  sends nothing but the question for the list.\<close>

theorem roles_requests:
  assumes "list_all (lists_only C) ps"
  shows "list_all (role_request_ok can C) (re_calls (fold (role_step eng can) ps roles_mount))"
proof -
  have "roles_inv can C (fold (role_step eng can) ps roles_mount)" using assms
  proof (induction ps rule: rev_induct)
    case Nil
    then show ?case by (simp add: roles_inv_def roles_mount_def role_request_ok_def)
  next
    case (snoc p ps)
    then show ?case by (simp add: roles_inv_step)
  qed
  then show ?thesis by (simp add: roles_inv_def)
qed

text \<open>A removal needs two clicks, and between them the question stays at the role it was asked for.\<close>

theorem removal_confirmed:
  assumes "re_confirm s \<noteq> Some (rf_id r)"
  shows "role_step eng can (RoDelete r) s = s"
    "offered can (RoAsk r) s \<Longrightarrow> \<not> re_busy s
      \<Longrightarrow> last (re_calls (role_step eng can (RoDelete r) (role_step eng can (RoAsk r) s))) = deleteRole (rf_id r)"
  using assms by (auto simp: role_step_def remove_role_def ask_delete_def listed_def re_busy_def)

text \<open>A description cannot be taken away: an empty one is not sent.\<close>

theorem description_stays:
  "rq_description d = [] \<Longrightarrow> json_send (role_body d) = JObj [(''name'', JStr (trim (rq_name d))), (''capabilities'', json_send (JArr (map JStr (rq_caps d))))]"
  by (simp add: role_body_def)

text \<open>A load that fails, also the one after a save that worked, leaves an empty list.\<close>

theorem failed_load_looks_empty:
  "re_roles (role_step eng can (RoLoaded None) s) = Some [] \<and> re_error (role_step eng can (RoLoaded None) s) = re_error s"
  by (simp add: role_step_def roles_loaded_def)

text \<open>The timer of an earlier note takes the later one away.\<close>

theorem role_note_cut_short:
  assumes "re_flight s = Some (RfDelete x)" "re_timers s > 0"
  shows "re_notice (role_do eng (RoDeleted None) s) = Some (NoteDeleted (rf_name x))
    \<and> re_notice (role_do eng RoTimer (role_do eng (RoDeleted None) s)) = None
    \<and> re_timers (role_do eng RoTimer (role_do eng (RoDeleted None) s)) > 0"
  using assms by (simp add: role_deleted_def reload_after_def)

text \<open>A refusal keeps the draft and says why; an accepted save closes it and loads the list again.\<close>

theorem save_outcome:
  assumes "re_draft s = Some d" "trim (rq_name d) \<noteq> []" "\<not> re_busy s"
  shows "re_draft (role_do eng (RoSaved (Inl e)) (role_do eng RoSave s)) = Some d
    \<and> re_error (role_do eng (RoSaved (Inl e)) (role_do eng RoSave s)) = Some (err_message eng e)
    \<and> re_draft (role_do eng (RoSaved (Inr n)) (role_do eng RoSave s)) = None
    \<and> re_calls (role_do eng (RoSaved (Inr n)) (role_do eng RoSave s)) = re_calls s @ [role_call d, fetchRoles]"
  using assms by (simp add: save_role_def role_saved_def reload_after_def refused_def)

end
