(* ===== verification/SourcePolicy.thy ===== *)
theory SourcePolicy
  imports SiemRules "HOL-Library.Product_Lexorder"
begin

text \<open>
  Two panels of the configuration page on what intelligence is worth: how fast an indicator decays
  (\<open>components/dashboard/DecayRulesPanel.tsx\<close>) and how much each source is trusted
  (\<open>components/dashboard/SourceGradingPanel.tsx\<close>). The calls under way are lists; the binary logarithm and
  the date format of the reader are parameters.
\<close>

subsection \<open>Decay rules\<close>

record decay_rule =
  dk_id :: string
  dk_name :: string
  dk_appliesTo :: "string list"
  dk_halfLifeDays :: rat
  dk_revokeScore :: rat
  dk_reactionPoints :: "rat list"
  dk_enabled :: bool
  dk_builtin :: bool

text \<open>What is typed per rule; \<open>None\<close> is a field that was never set.\<close>

type_synonym decay_draft = "string option \<times> string option"

record decay_panel =
  dp_rules :: "decay_rule list"
  dp_loading :: bool
  dp_saving :: "string option"
  dp_saved :: "string option"
  dp_err :: "string option"
  dp_draft :: "(string, decay_draft) obj"
  dp_flight :: "string list"
  dp_timers :: "string list"
  dp_calls :: "call list"

definition decay_mount :: decay_panel where
  "decay_mount = \<lparr>dp_rules = [], dp_loading = True, dp_saving = None, dp_saved = None, dp_err = None, dp_draft = [],
     dp_flight = [], dp_timers = [], dp_calls = [fetchDecayRules]\<rparr>"

definition decay_load :: "decay_panel \<Rightarrow> decay_panel" where
  "decay_load s = s\<lparr>dp_loading := True, dp_calls := dp_calls s @ [fetchDecayRules]\<rparr>"

definition draft_of_rule :: "decay_rule \<Rightarrow> decay_draft" where
  "draft_of_rule r = (Some (num_str (dk_halfLifeDays r)), Some (num_str (dk_revokeScore r)))"

definition decay_loaded :: "decay_rule list option \<Rightarrow> decay_panel \<Rightarrow> decay_panel" where
  "decay_loaded r s = (case r of
     Some rs \<Rightarrow> s\<lparr>dp_rules := rs, dp_draft := from_entries (map (\<lambda>x. (dk_id x, draft_of_rule x)) rs)\<rparr>
   | None \<Rightarrow> s\<lparr>dp_err := Some ''Could not load decay rules.''\<rparr>)\<lparr>dp_loading := False\<rparr>"

text \<open>\<open>Number\<close> of a field; \<open>None\<close> is not a number.\<close>

definition field_num :: "string option \<Rightarrow> rat option" where
  "field_num t = Option.bind t text_number"

definition num_within :: "rat \<Rightarrow> rat \<Rightarrow> rat option \<Rightarrow> bool" where
  "num_within a b x = (case x of Some v \<Rightarrow> a \<le> v \<and> v \<le> b | None \<Rightarrow> False)"

definition decay_body :: "rat \<Rightarrow> rat \<Rightarrow> json" where
  "decay_body hl rv = JObj [(''half_life_days'', JNum hl), (''revoke_score'', JNum rv)]"

definition save_decay :: "decay_rule \<Rightarrow> decay_panel \<Rightarrow> decay_panel" where
  "save_decay r s = (case obj_get (dp_draft s) (dk_id r) of None \<Rightarrow> s | Some (hl, rv) \<Rightarrow>
     if \<not> num_within 1 3650 (field_num hl) then s\<lparr>dp_err := Some ''Half-life must be between 1 and 3650 days.''\<rparr>
     else if \<not> num_within 1 99 (field_num rv) then s\<lparr>dp_err := Some (''Revoke score must be between 1 and 99 - at 100 every indicator is ''
       @ ''revoked the moment it is imported.'')\<rparr>
     else s\<lparr>dp_err := None, dp_saving := Some (dk_id r), dp_flight := dp_flight s @ [dk_id r],
       dp_calls := dp_calls s @ [updateDecayRule (dk_id r) (decay_body (the (field_num hl)) (the (field_num rv)))]\<rparr>)"

definition decay_saved :: "nat \<Rightarrow> decay_rule option \<Rightarrow> decay_panel \<Rightarrow> decay_panel" where
  "decay_saved n r s = (if n \<ge> length (dp_flight s) then s else
     (let i = dp_flight s ! n; s = s\<lparr>dp_flight := take n (dp_flight s) @ drop (Suc n) (dp_flight s)\<rparr> in
      (case r of
         Some u \<Rightarrow> s\<lparr>dp_rules := map (\<lambda>x. if dk_id x = dk_id u then u else x) (dp_rules s), dp_saved := Some i, dp_timers := dp_timers s @ [i]\<rparr>
       | None \<Rightarrow> s\<lparr>dp_err := Some ''Could not save (needs cti.write).''\<rparr>)\<lparr>dp_saving := None\<rparr>))"

definition saved_timer :: "decay_panel \<Rightarrow> decay_panel" where
  "saved_timer s = (case dp_timers s of [] \<Rightarrow> s
     | i # is \<Rightarrow> s\<lparr>dp_timers := is, dp_saved := (if dp_saved s = Some i then None else dp_saved s)\<rparr>)"

definition type_half :: "string \<Rightarrow> string \<Rightarrow> decay_panel \<Rightarrow> decay_panel" where
  "type_half i t s = s\<lparr>dp_draft := obj_set i (Some t, case obj_get (dp_draft s) i of Some d \<Rightarrow> snd d | None \<Rightarrow> None) (dp_draft s)\<rparr>"

definition type_revoke :: "string \<Rightarrow> string \<Rightarrow> decay_panel \<Rightarrow> decay_panel" where
  "type_revoke i t s = s\<lparr>dp_draft := obj_set i (case obj_get (dp_draft s) i of Some d \<Rightarrow> fst d | None \<Rightarrow> None, Some t) (dp_draft s)\<rparr>"

definition decay_dirty :: "decay_rule \<Rightarrow> decay_panel \<Rightarrow> bool" where
  "decay_dirty r s = (case obj_get (dp_draft s) (dk_id r) of None \<Rightarrow> False
     | Some (hl, rv) \<Rightarrow> field_num hl \<noteq> Some (dk_halfLifeDays r) \<or> field_num rv \<noteq> Some (dk_revokeScore r))"

definition decay_save_enabled :: "decay_rule \<Rightarrow> decay_panel \<Rightarrow> bool" where
  "decay_save_enabled r s \<longleftrightarrow> decay_dirty r s \<and> dp_saving s \<noteq> Some (dk_id r)"

text \<open>What the numbers mean: the days until an indicator asserted at 80 per cent reaches the revoke score;
  \<open>None\<close> is the dash shown when that cannot be said.\<close>

definition reaches_revoke :: "(rat \<Rightarrow> rat) \<Rightarrow> decay_draft \<Rightarrow> string option" where
  "reaches_revoke log2 d = (case (field_num (fst d), field_num (snd d)) of
     (Some hl, Some rv) \<Rightarrow> if hl < 1 \<or> rv < 1 \<or> rv \<ge> 80 then None
       else Some (int_str (js_round (js_mul hl (log2 (js_div 80 rv)))) @ '' days'')
   | _ \<Rightarrow> None)"

datatype decay_op = DcReload | DcLoaded "decay_rule list option" | DcHalf string string | DcRevoke string string
  | DcSave string | DcSaved nat "decay_rule option" | DcTimer

definition decay_rule_at :: "string \<Rightarrow> decay_panel \<Rightarrow> decay_rule option" where
  "decay_rule_at i s = find (\<lambda>r. dk_id r = i) (dp_rules s)"

fun decay_step :: "decay_op \<Rightarrow> decay_panel \<Rightarrow> decay_panel" where
  "decay_step DcReload s = decay_load s"
| "decay_step (DcLoaded r) s = decay_loaded r s"
| "decay_step (DcHalf i t) s = (if decay_rule_at i s = None then s else type_half i t s)"
| "decay_step (DcRevoke i t) s = (if decay_rule_at i s = None then s else type_revoke i t s)"
| "decay_step (DcSave i) s = (case decay_rule_at i s of Some r \<Rightarrow> if decay_save_enabled r s then save_decay r s else s | None \<Rightarrow> s)"
| "decay_step (DcSaved n r) s = decay_saved n r s"
| "decay_step DcTimer s = saved_timer s"

text \<open>The marks of a rule and its list of reaction points.\<close>

definition decay_marks :: "decay_rule \<Rightarrow> string list" where
  "decay_marks r = (if dk_builtin r then [''builtin''] else []) @ (if dk_enabled r then [] else [''disabled'']) @ [join '', '' (dk_appliesTo r)]"

definition reaction_texts :: "decay_rule \<Rightarrow> string list" where
  "reaction_texts r = (if dk_reactionPoints r = [] then [''none''] else map num_str (dk_reactionPoints r))"

definition save_button :: "decay_rule \<Rightarrow> decay_panel \<Rightarrow> string \<times> string" where
  "save_button r s = (if dp_saving s = Some (dk_id r) then ''loader'' else if dp_saved s = Some (dk_id r) then ''check'' else [],
     if dp_saved s = Some (dk_id r) then ''Saved'' else ''Save'')"

subsection \<open>What is sent for a rule\<close>

definition decay_call_ok :: "call \<Rightarrow> bool" where
  "decay_call_ok c \<longleftrightarrow> c = fetchDecayRules \<or> (\<exists>i hl rv. c = updateDecayRule i (decay_body hl rv) \<and> 1 \<le> hl \<and> hl \<le> 3650 \<and> 1 \<le> rv \<and> rv \<le> 99)"

lemma decay_calls_step: "list_all decay_call_ok (dp_calls s) \<Longrightarrow> list_all decay_call_ok (dp_calls (decay_step p s))"
proof (cases p)
  case (DcSave i)
  assume a: "list_all decay_call_ok (dp_calls s)"
  have "decay_call_ok (updateDecayRule (dk_id r) (decay_body (the (field_num hl)) (the (field_num rv))))"
    if "num_within 1 3650 (field_num hl)" "num_within 1 99 (field_num rv)" for hl rv r
    unfolding decay_call_ok_def using that by (auto simp: num_within_def split: option.splits)
  with a show ?thesis using DcSave by (auto simp: save_decay_def split: option.split)
qed (auto simp: decay_load_def decay_loaded_def type_half_def type_revoke_def decay_saved_def saved_timer_def decay_call_ok_def Let_def
       split: option.splits list.splits)

text \<open>Whatever is typed and however the answers come, no half-life outside 1 to 3650 and no score outside 1 to
  99 is ever sent.\<close>

theorem decay_requests_in_bounds: "list_all decay_call_ok (dp_calls (fold decay_step ps decay_mount))"
  by (induction ps rule: rev_induct) (simp_all add: decay_calls_step, simp add: decay_mount_def decay_call_ok_def)

text \<open>Every rule shown has a draft to edit, in every run, also one in which an update answers with a rule that is not
  listed.\<close>

definition decay_drafted :: "decay_panel \<Rightarrow> bool" where
  "decay_drafted s \<longleftrightarrow> (\<forall>r \<in> set (dp_rules s). obj_get (dp_draft s) (dk_id r) \<noteq> None)"

lemma from_entries_has: "k \<in> fst ` set es \<Longrightarrow> obj_get (from_entries es) k \<noteq> None"
proof -
  assume "k \<in> fst ` set es"
  then have "map_of (rev es) k \<noteq> None" by (simp add: map_of_eq_None_iff)
  then show ?thesis by (auto simp: from_entries_def obj_get_spread)
qed

theorem every_rule_drafted: "decay_drafted (fold decay_step ps decay_mount)"
proof (induction ps rule: rev_induct)
  case Nil
  then show ?case by (simp add: decay_drafted_def decay_mount_def)
next
  case (snoc p ps)
  then show ?case
  proof (cases p)
    case (DcLoaded r)
    have "obj_get (from_entries (map (\<lambda>x. (dk_id x, draft_of_rule x)) rs)) (dk_id x) \<noteq> None" if "x \<in> set rs" for x rs
      using that by (intro from_entries_has) force
    then show ?thesis using snoc DcLoaded by (cases r) (auto simp: decay_loaded_def decay_drafted_def)
  qed (auto simp: decay_drafted_def decay_load_def type_half_def type_revoke_def save_decay_def decay_saved_def saved_timer_def Let_def
         split: option.splits list.splits)
qed

text \<open>An emptied field counts as zero and is refused without a call.\<close>

theorem emptied_field_refused:
  assumes "obj_get (dp_draft s) (dk_id r) = Some (Some [], rv)"
  shows "dp_calls (save_decay r s) = dp_calls s \<and> dp_err (save_decay r s) = Some ''Half-life must be between 1 and 3650 days.''"
  using assms by (simp add: save_decay_def field_num_def text_number_def trim_def num_within_def)

text \<open>The answer to one save frees the button of another that is still under way.\<close>

theorem saving_mark_lost:
  assumes "dp_flight s = [a]" "dp_saving s = Some a" "dk_id r \<noteq> a" "obj_get (dp_draft s) (dk_id r) = Some (hl, rv)"
    "num_within 1 3650 (field_num hl)" "num_within 1 99 (field_num rv)"
  shows "dp_flight (decay_saved 0 u (save_decay r s)) = [dk_id r] \<and> dp_saving (decay_saved 0 u (save_decay r s)) = None"
  using assms by (cases u) (simp_all add: save_decay_def decay_saved_def Let_def)

text \<open>A reload that works does not take the message of one that failed away.\<close>

theorem load_error_stays:
  "dp_err (decay_loaded (Some rs) (decay_load (decay_loaded None s))) = Some ''Could not load decay rules.''"
  by (simp add: decay_loaded_def decay_load_def)

text \<open>A reload replaces what was typed into every rule.\<close>

theorem reload_discards_edits:
  "dp_draft (decay_loaded (Some rs) (type_half i t s)) = dp_draft (decay_loaded (Some rs) s)"
  by (simp add: decay_loaded_def type_half_def)

subsection \<open>Sources and their health\<close>

record intel_source =
  ix_id :: string
  ix_name :: string
  ix_reliability :: string
  ix_weight :: rat
  ix_reason :: "string option"
  ix_gradedBy :: string
  ix_isDefault :: bool
  ix_values :: int
  ix_status :: "string option"
  ix_statusDetail :: "string option"
  ix_lastOk :: "string option"
  ix_servedVia :: "string option"

definition HEALTH :: "(string, string \<times> string) obj" where
  "HEALTH = [(''failed'', ''not answering'', tk Magenta), (''mirrored'', ''via mirror'', tk Amber), (''ok'', ''answering'', tk Safe),
     (''unchanged'', ''no change'', tk Safe)]"

definition GRADE_COLOR :: "(string, string) obj" where
  "GRADE_COLOR = [(''A'', tk Safe), (''B'', tk Safe), (''C'', tk Amber), (''D'', tk Violet), (''E'', tk Magenta), (''F'', tk Magenta)]"

text \<open>\<open>ms\<close> is the time since, \<open>date\<close> the date as the reader writes it.\<close>

definition sinceLabel :: "(string \<Rightarrow> int option) \<Rightarrow> (string \<Rightarrow> string) \<Rightarrow> string option \<Rightarrow> string option" where
  "sinceLabel ms date stamp = (case stamp of None \<Rightarrow> None | Some t \<Rightarrow> if t = [] then None else (case ms t of None \<Rightarrow> None
     | Some m \<Rightarrow> (let days = js_floor (js_div (of_int m) 86400000) in
         Some (if days \<le> 0 then ''today'' else if days = 1 then ''yesterday'' else if days < 31 then int_str days @ '' days ago'' else date t))))"

definition trouble_re :: rx where
  "trouble_re = RAlt (rx_stri ''unavailable'') (rx_stri ''unreachable'')"

definition detailOf :: "intel_source \<Rightarrow> string option" where
  "detailOf x = (case ix_statusDetail x of None \<Rightarrow> None | Some t \<Rightarrow>
     if t = [] then None else if ix_status x \<noteq> Some ''failed'' \<and> \<not> rx_test trouble_re t then None else Some t)"

definition source_health_pill :: "(string \<Rightarrow> int option) \<Rightarrow> (string \<Rightarrow> string) \<Rightarrow> intel_source \<Rightarrow> (string \<times> string \<times> string) option" where
  "source_health_pill ms date x = (case ix_status x of None \<Rightarrow> None | Some st \<Rightarrow> if st = [] then None else (case obj_get HEALTH st of None \<Rightarrow> None
     | Some (label, color) \<Rightarrow> Some (label, color, case sinceLabel ms date (ix_lastOk x) of
         Some since \<Rightarrow> if st = ''failed'' then [CHR 0xB7] @ '' last ok '' @ since else [] | None \<Rightarrow> [])))"

definition source_rank :: "intel_source \<Rightarrow> int" where
  "source_rank x = (if ix_status x = Some ''failed'' then 0 else if ix_status x = Some ''mirrored'' then 1 else 2)"

definition source_cmp :: "intel_source \<Rightarrow> intel_source \<Rightarrow> rat" where
  "source_cmp a b = (let d = source_rank a - source_rank b in if d \<noteq> 0 then of_int d else of_int (ix_values b - ix_values a))"

record grading_panel =
  gp_sources :: "intel_source list"
  gp_scale :: "(string \<times> string \<times> rat) list"
  gp_loading :: bool
  gp_saving :: "string option"
  gp_saved :: "string option"
  gp_err :: "string option"
  gp_flight :: "intel_source list"
  gp_timers :: nat
  gp_calls :: "call list"

definition grading_mount :: grading_panel where
  "grading_mount = \<lparr>gp_sources = [], gp_scale = [], gp_loading = True, gp_saving = None, gp_saved = None, gp_err = None,
     gp_flight = [], gp_timers = 0, gp_calls = [fetchIntelSources]\<rparr>"

definition sources_loaded :: "(intel_source list \<times> (string \<times> string \<times> rat) list) option \<Rightarrow> grading_panel \<Rightarrow> grading_panel" where
  "sources_loaded r s = (case r of
     Some (items, scale) \<Rightarrow> s\<lparr>gp_sources := js_sort source_cmp items, gp_scale := scale, gp_err := None\<rparr>
   | None \<Rightarrow> s\<lparr>gp_err := Some ''Could not load intel sources.''\<rparr>)\<lparr>gp_loading := False\<rparr>"

definition grade_source :: "intel_source \<Rightarrow> string \<Rightarrow> grading_panel \<Rightarrow> grading_panel" where
  "grade_source x g s = (if g = ix_reliability x then s
     else s\<lparr>gp_saving := Some (ix_id x), gp_saved := None, gp_err := None, gp_flight := gp_flight s @ [x],
       gp_calls := gp_calls s @ [gradeIntelSource (ix_id x) g None]\<rparr>)"

definition regrade :: "intel_source \<Rightarrow> intel_source \<Rightarrow> intel_source" where
  "regrade u x = x\<lparr>ix_reliability := ix_reliability u, ix_weight := ix_weight u, ix_reason := ix_reason u,
     ix_gradedBy := ix_gradedBy u, ix_isDefault := False\<rparr>"

definition graded :: "nat \<Rightarrow> intel_source option \<Rightarrow> grading_panel \<Rightarrow> grading_panel" where
  "graded n r s = (if n \<ge> length (gp_flight s) then s else
     (let x = gp_flight s ! n; s = s\<lparr>gp_flight := take n (gp_flight s) @ drop (Suc n) (gp_flight s)\<rparr> in
      (case r of
         Some u \<Rightarrow> s\<lparr>gp_sources := map (\<lambda>y. if ix_id y = ix_id x then regrade u y else y) (gp_sources s), gp_saved := Some (ix_id x),
           gp_timers := Suc (gp_timers s)\<rparr>
       | None \<Rightarrow> s\<lparr>gp_err := Some (''Could not re-grade '' @ ix_name x @ ''.'')\<rparr>)\<lparr>gp_saving := None\<rparr>))"

definition graded_timer :: "grading_panel \<Rightarrow> grading_panel" where
  "graded_timer s = (if gp_timers s = 0 then s else s\<lparr>gp_timers := gp_timers s - 1, gp_saved := None\<rparr>)"

definition broken_sources :: "grading_panel \<Rightarrow> intel_source list" where
  "broken_sources s = filter (\<lambda>x. ix_status x = Some ''failed'') (gp_sources s)"

definition broken_text :: "grading_panel \<Rightarrow> (string \<times> string) option" where
  "broken_text s = (let b = broken_sources s in if b = [] then None
     else Some (int_str (int (length b)) @ '' source'' @ (if length b > 1 then ''s are'' else '' is'') @ '' not answering'', join '', '' (map ix_name b)))"

definition source_line :: "(int \<Rightarrow> string) \<Rightarrow> intel_source \<Rightarrow> string list" where
  "source_line loc x = [loc (ix_values x) @ '' values'', if ix_isDefault x then ''shipped default'' else ''graded by '' @ ix_gradedBy x,
     [CHR 0xD7] @ to_fixed 2 (ix_weight x)]"

datatype grading_op = GpLoaded "(intel_source list \<times> (string \<times> string \<times> rat) list) option" | GpGrade string string
  | GpGraded nat "intel_source option" | GpTimer

fun grading_step :: "grading_op \<Rightarrow> grading_panel \<Rightarrow> grading_panel" where
  "grading_step (GpLoaded r) s = sources_loaded r s"
| "grading_step (GpGrade i g) s = (case find (\<lambda>x. ix_id x = i) (gp_sources s) of Some x \<Rightarrow> grade_source x g s | None \<Rightarrow> s)"
| "grading_step (GpGraded n r) s = graded n r s"
| "grading_step GpTimer s = graded_timer s"

subsection \<open>A source that does not answer is seen first\<close>

lemma source_sort: "js_sort source_cmp xs = sort_key (\<lambda>x. (source_rank x, - ix_values x)) xs"
  by (rule js_sort_key) (auto simp: source_cmp_def Let_def less_eq_prod_simp)

definition failing_first :: "intel_source list \<Rightarrow> bool" where
  "failing_first xs \<longleftrightarrow> sorted (map source_rank xs)"

lemma regrade_health [simp]: "ix_status (regrade u x) = ix_status x" "source_rank (regrade u x) = source_rank x"
  "ix_id (regrade u x) = ix_id x" "ix_values (regrade u x) = ix_values x"
  by (simp_all add: regrade_def source_rank_def)

text \<open>Whatever is graded and answered, the failing sources stand before the mirrored ones and these before the
  others, whatever their size; and a grading changes nobody's health.\<close>

theorem failing_sources_first: "failing_first (gp_sources (fold grading_step ps grading_mount))"
proof (induction ps rule: rev_induct)
  case Nil
  then show ?case by (simp add: failing_first_def grading_mount_def)
next
  case (snoc p ps)
  show ?case
  proof (cases p)
    case (GpLoaded r)
    have "sorted (map source_rank (sort_key (\<lambda>x. (source_rank x, - ix_values x)) xs))" for xs
    proof -
      have "sorted (map (\<lambda>x. (source_rank x, - ix_values x)) (sort_key (\<lambda>x. (source_rank x, - ix_values x)) xs))" by (rule sorted_sort_key)
      then show ?thesis unfolding sorted_map by (rule sorted_wrt_mono_rel [rotated]) (auto simp: less_eq_prod_simp)
    qed
    then show ?thesis using snoc GpLoaded by (cases r) (auto simp: sources_loaded_def failing_first_def source_sort)
  next
    case (GpGraded n r)
    have "map source_rank (map (\<lambda>y. if ix_id y = i then regrade u y else y) xs) = map source_rank xs" for i u xs by simp
    then show ?thesis using snoc GpGraded by (auto simp: graded_def failing_first_def Let_def split: option.split simp del: map_map)
  qed (use snoc in \<open>auto simp: failing_first_def grade_source_def graded_timer_def split: option.split\<close>)
qed

text \<open>The warning counts exactly the failing sources of the list, and a click on the grade in force sends
  nothing.\<close>

theorem broken_counted:
  "(broken_text s = None) = (\<forall>x \<in> set (gp_sources s). ix_status x \<noteq> Some ''failed'')"
  "grade_source x (ix_reliability x) s = s"
  by (auto simp: broken_text_def broken_sources_def Let_def filter_empty_conv grade_source_def)

text \<open>A grade that is accepted is shown as the reader's judgement; a refusal keeps the one in force.\<close>

theorem grading_outcome:
  assumes "gp_flight s = [x]" "y \<in> set (gp_sources s)" "ix_id y = ix_id x"
  shows "regrade u y \<in> set (gp_sources (graded 0 (Some u) s)) \<and> \<not> ix_isDefault (regrade u y) \<and> ix_reliability (regrade u y) = ix_reliability u
    \<and> gp_sources (graded 0 None s) = gp_sources s"
proof -
  have "regrade u y \<in> (\<lambda>z. if ix_id z = ix_id x then regrade u z else z) ` set (gp_sources s)"
    using assms(2,3) by (intro image_eqI [of _ _ y]) simp_all
  then show ?thesis using assms(1) by (simp add: graded_def regrade_def)
qed

text \<open>The timer of an earlier grade takes the mark of the later one away.\<close>

theorem graded_mark_cut_short:
  assumes "gp_flight s = [x]" "gp_timers s > 0"
  shows "gp_saved (graded 0 (Some u) s) = Some (ix_id x) \<and> gp_saved (graded_timer (graded 0 (Some u) s)) = None
    \<and> gp_timers (graded_timer (graded 0 (Some u) s)) > 0"
  using assms by (simp add: graded_def graded_timer_def)

text \<open>The detail of a source that answers is shown only when it says that something is missing.\<close>

theorem quiet_when_complete:
  assumes "ix_status x \<noteq> Some ''failed''" "detailOf x = Some t"
  shows "rx_test trouble_re t"
  using assms by (auto simp: detailOf_def split: option.splits if_splits)

end
