(* ===== verification/FeedSources.thy ===== *)
theory FeedSources
  imports Helpers SiemRules CreateModal
begin

text \<open>
  The sources of the threat feeds (\<open>app/dashboard/feeds/sources/page.tsx\<close>): the rows as mapped from the
  API, switches that are shown at once, the dialog that adds a source, filters, tiles and the panel of a
  row. The two panels for connectors and the engine are components of their own.
\<close>

subsection \<open>Rows\<close>

datatype feed_type = FtOsint | FtCommercial | FtGovernment | FtCommunity

fun feed_type_text :: "feed_type \<Rightarrow> string" where
  "feed_type_text FtOsint = ''OSINT''" | "feed_type_text FtCommercial = ''Commercial''"
| "feed_type_text FtGovernment = ''Government''" | "feed_type_text FtCommunity = ''Community''"

fun TYPE_CONFIG_feed :: "feed_type \<Rightarrow> string" where
  "TYPE_CONFIG_feed FtOsint = ''text-safe bg-safe/10 border-safe/20''"
| "TYPE_CONFIG_feed FtCommercial = ''text-magenta bg-magenta/10 border-magenta/20''"
| "TYPE_CONFIG_feed FtGovernment = ''text-amber bg-amber/10 border-amber/20''"
| "TYPE_CONFIG_feed FtCommunity = ''text-violet bg-violet/10 border-violet/20''"

definition RELIABILITY_COLOR :: "(string, string) obj" where
  "RELIABILITY_COLOR = [(''A'', ''text-safe border-safe/30 bg-safe/10''), (''B'', ''text-violet border-violet/30 bg-violet/10''),
     (''C'', ''text-amber border-amber/30 bg-amber/10''), (''D'', ''text-amber border-amber/30 bg-amber/10''),
     (''E'', ''text-threat border-threat/30 bg-threat/10''), (''F'', ''text-threat border-threat/30 bg-threat/10''),
     (''-'', ''text-ink-500 border-white/10 bg-white/5'')]"

record api_feed =
  fd_id :: string
  fd_name :: string
  fd_type :: string
  fd_url :: "string option"
  fd_status :: "string option"
  fd_enabled :: bool
  fd_indicators :: int
  fd_lastSync :: "string option"
  fd_description :: "string option"
  fd_provider :: "string option"
  fd_format :: "string option"
  fd_reliability :: "string option"
  fd_syncInterval :: rat

record feed_source =
  fs_id :: string
  fs_name :: string
  fs_type :: feed_type
  fs_format :: string
  fs_iocsPerDay :: int
  fs_lastPull :: string
  fs_reliability :: string
  fs_enabled :: bool
  fs_url :: string
  fs_pullInterval :: string
  fs_status :: string
  fs_provider :: string
  fs_description :: string

definition text_or_default :: "string option \<Rightarrow> string \<Rightarrow> string" where
  "text_or_default t d = (case t of Some x \<Rightarrow> x | None \<Rightarrow> d)"

definition feed_type_of :: "string \<Rightarrow> feed_type" where
  "feed_type_of t = (if t = ''commercial'' then FtCommercial else if t = ''government'' then FtGovernment
     else if t = ''community'' then FtCommunity else FtOsint)"

definition apiFeedToRow :: "api_feed \<Rightarrow> feed_source" where
  "apiFeedToRow f =
     \<lparr>fs_id = fd_id f, fs_name = fd_name f, fs_type = feed_type_of (fd_type f),
      fs_format = (case fd_format f of Some x \<Rightarrow> if toUpperCase x = ''STIX'' then ''STIX 2.1'' else x | None \<Rightarrow> ''-''),
      fs_iocsPerDay = fd_indicators f, fs_lastPull = text_or_default (fd_lastSync f) ''Never'',
      fs_reliability = (case fd_reliability f of Some x \<Rightarrow> if x \<noteq> [] then toUpperCase x else ''-'' | None \<Rightarrow> ''-''),
      fs_enabled = fd_enabled f, fs_url = text_or_default (fd_url f) [], fs_pullInterval = formatEvery (fd_syncInterval f),
      fs_status = text_or_default (fd_status f) ''unknown'', fs_provider = text_or_default (fd_provider f) (fd_name f),
      fs_description = text_or_default (fd_description f) []\<rparr>"

subsection \<open>The page\<close>

definition FEED_FIELDS :: "create_field list" where
  "FEED_FIELDS =
     [\<lparr>cl_key = ''name'', cl_label = ''Feed name'', cl_kind = TextField, cl_options = [], cl_required = True, cl_default = None\<rparr>,
      \<lparr>cl_key = ''type'', cl_label = ''Type'', cl_kind = SelectField, cl_options = [(''opensource'', ''OSINT / open source''),
        (''commercial'', ''Commercial''), (''community'', ''Community''), (''internal'', ''Internal'')], cl_required = False, cl_default = Some ''opensource''\<rparr>,
      \<lparr>cl_key = ''url'', cl_label = ''Feed URL'', cl_kind = TextField, cl_options = [], cl_required = False, cl_default = None\<rparr>,
      \<lparr>cl_key = ''format'', cl_label = ''Format'', cl_kind = SelectField, cl_options = [(''STIX 2.1'', ''STIX 2.1''), (''TAXII'', ''TAXII''),
        (''JSON'', ''JSON''), (''CSV'', ''CSV''), (''MISP'', ''MISP'')], cl_required = False, cl_default = Some ''STIX 2.1''\<rparr>,
      \<lparr>cl_key = ''reliability'', cl_label = ''Reliability'', cl_kind = SelectField, cl_options = [(''A'', ''A - Reliable''),
        (''B'', ''B - Usually reliable''), (''C'', ''C - Fairly reliable'')], cl_required = False, cl_default = Some ''B''\<rparr>]"

definition form_text :: "field_values \<Rightarrow> string \<Rightarrow> json" where
  "form_text vs k = (case obj_get vs k of Some t \<Rightarrow> JStr t | None \<Rightarrow> JUndef)"

definition or_undef :: "json \<Rightarrow> json" where "or_undef v = (if truthy v then v else JUndef)"

definition feed_body :: "field_values \<Rightarrow> json" where
  "feed_body vs = JObj [(''name'', form_text vs ''name''), (''type'', form_text vs ''type''), (''url'', or_undef (form_text vs ''url'')),
     (''format'', or_undef (form_text vs ''format'')), (''reliability'', form_text vs ''reliability'')]"

record feeds_summary =
  fz_newToday :: int
  fz_totalIndicators :: int
  fz_errored :: int

record feed_sources =
  fp_search :: string
  fp_type :: "feed_type option"
  fp_selected :: "string option"
  fp_feeds :: "feed_source list"
  fp_loaded :: bool
  fp_unreachable :: bool
  fp_modal :: modal_host
  fp_summary :: "feeds_summary option"
  fp_toggles :: "(string \<times> bool) list"
  fp_calls :: "call list"

definition sources_mount :: feed_sources where
  "sources_mount = \<lparr>fp_search = [], fp_type = None, fp_selected = None, fp_feeds = [], fp_loaded = False, fp_unreachable = False,
     fp_modal = host_init, fp_summary = None, fp_toggles = [], fp_calls = [fetchFeeds, fetchFeedsSummary]\<rparr>"

definition set_enabled :: "string \<Rightarrow> (bool \<Rightarrow> bool) \<Rightarrow> feed_sources \<Rightarrow> feed_sources" where
  "set_enabled i f s = s\<lparr>fp_feeds := map (\<lambda>x. if fs_id x = i then x\<lparr>fs_enabled := f (fs_enabled x)\<rparr> else x) (fp_feeds s)\<rparr>"

definition find_feed :: "string \<Rightarrow> feed_sources \<Rightarrow> feed_source option" where
  "find_feed i s = find (\<lambda>x. fs_id x = i) (fp_feeds s)"

text \<open>Switched at once; \<open>fp_toggles\<close> are the calls under way with the value each will put back.\<close>

definition toggle_source :: "string \<Rightarrow> feed_sources \<Rightarrow> feed_sources" where
  "toggle_source i s = (case find_feed i s of None \<Rightarrow> s
     | Some x \<Rightarrow> (set_enabled i Not s)\<lparr>fp_toggles := fp_toggles s @ [(i, fs_enabled x)], fp_calls := fp_calls s @ [toggleFeed i (\<not> fs_enabled x)]\<rparr>)"

definition toggled :: "nat \<Rightarrow> bool \<Rightarrow> feed_sources \<Rightarrow> feed_sources" where
  "toggled n ok s = (if n \<ge> length (fp_toggles s) then s else
     (let (i, prev) = fp_toggles s ! n; s = s\<lparr>fp_toggles := take n (fp_toggles s) @ drop (Suc n) (fp_toggles s)\<rparr> in
      if ok then s else set_enabled i (\<lambda>_. prev) s))"

datatype sources_op = FoFeeds "api_feed list option" | FoSummary feeds_summary | FoSearch string | FoType "feed_type option"
  | FoRow string | FoClose | FoToggle string | FoToggled nat bool | FoDialog modal_op | FoCreated nat api_feed

fun sources_step :: "sources_op \<Rightarrow> feed_sources \<Rightarrow> feed_sources" where
  "sources_step (FoFeeds r) s = (case r of Some fs \<Rightarrow> s\<lparr>fp_feeds := map apiFeedToRow fs, fp_loaded := True\<rparr>
     | None \<Rightarrow> s\<lparr>fp_unreachable := True, fp_loaded := True\<rparr>)"
| "sources_step (FoSummary v) s = s\<lparr>fp_summary := Some v\<rparr>"
| "sources_step (FoSearch t) s = s\<lparr>fp_search := t\<rparr>"
| "sources_step (FoType t) s = s\<lparr>fp_type := t\<rparr>"
| "sources_step (FoRow i) s = s\<lparr>fp_selected := (if fp_selected s = Some i then None else Some i)\<rparr>"
| "sources_step FoClose s = s\<lparr>fp_selected := None\<rparr>"
| "sources_step (FoToggle i) s = toggle_source i s"
| "sources_step (FoToggled n ok) s = toggled n ok s"
| "sources_step (FoDialog p) s = s\<lparr>fp_modal := modal_step FEED_FIELDS p (fp_modal s)\<rparr>"
| "sources_step (FoCreated i f) s = (if i \<notin> set (mh_flight (fp_modal s)) then s
     else s\<lparr>fp_feeds := apiFeedToRow f # fp_feeds s, fp_modal := modal_answered i True (fp_modal s)\<rparr>)"

definition source_requests :: "feed_sources \<Rightarrow> call list" where
  "source_requests s = fp_calls s @ map (\<lambda>vs. createFeed (feed_body vs)) (mh_sent (fp_modal s))"

definition feeds_filtered :: "feed_sources \<Rightarrow> feed_source list" where
  "feeds_filtered s = filter (\<lambda>f. (fp_type s = None \<or> fp_type s = Some (fs_type f))
     \<and> (fp_search s = [] \<or> str_includes (toLowerCase (fs_name f)) (toLowerCase (fp_search s)))) (fp_feeds s)"

definition selected_feed :: "feed_sources \<Rightarrow> feed_source option" where
  "selected_feed s = Option.bind (fp_selected s) (\<lambda>i. find_feed i s)"

definition source_tiles :: "(int \<Rightarrow> string) \<Rightarrow> feed_sources \<Rightarrow> (string \<times> string) list" where
  "source_tiles loc s =
     [(''Active Feeds'', int_str (int (count_of fs_enabled (fp_feeds s)))),
      (''IOCs Today'', case fp_summary s of Some v \<Rightarrow> loc (fz_newToday v) | None \<Rightarrow> ''-''),
      (''Total Indicators'', case fp_summary s of Some v \<Rightarrow> loc (fz_totalIndicators v) | None \<Rightarrow> ''-''),
      (''Feeds Errored'', case fp_summary s of Some v \<Rightarrow> int_str (fz_errored v) | None \<Rightarrow> ''-'')]"

datatype source_note = SnLoading | SnUnreachable | SnNoFeeds

text \<open>The lines above the rows.\<close>

definition table_notes :: "feed_sources \<Rightarrow> source_note list" where
  "table_notes s = (if \<not> fp_loaded s then [SnLoading] else []) @ (if fp_loaded s \<and> fp_unreachable s then [SnUnreachable] else [])
     @ (if fp_loaded s \<and> \<not> fp_unreachable s \<and> feeds_filtered s = [] then [SnNoFeeds] else [])"

definition source_cells :: "(int \<Rightarrow> string) \<Rightarrow> feed_source \<Rightarrow> string list" where
  "source_cells loc f = [fs_name f, feed_type_text (fs_type f), fs_format f, loc (fs_iocsPerDay f), fs_lastPull f, fs_reliability f]"

definition source_row_class :: "feed_sources \<Rightarrow> nat \<Rightarrow> feed_source \<Rightarrow> string list" where
  "source_row_class s n f = [if fp_selected s = Some (fs_id f) then ''bg-magenta/5 border-l-2 border-l-magenta/50'' else ''hover:bg-white/3'',
     if n mod 2 \<noteq> 0 \<and> fp_selected s \<noteq> Some (fs_id f) then ''bg-white/1'' else [], if fs_enabled f then [] else ''opacity-50'']"

definition feed_panel :: "(int \<Rightarrow> string) \<Rightarrow> feed_source \<Rightarrow> (string \<times> string) list" where
  "feed_panel loc f = [(''Feed URL'', if fs_url f = [] then ''-'' else fs_url f), (''Status'', fs_status f), (''Provider'', fs_provider f),
     (''Sync Interval'', fs_pullInterval f), (''Indicators'', loc (fs_iocsPerDay f)), (''Last Pull'', fs_lastPull f),
     (''Button'', if fs_enabled f then ''Disable feed'' else ''Enable feed'')]"

definition status_style :: "string \<Rightarrow> string \<times> string" where
  "status_style t = (if t = ''active'' then (''text-safe bg-safe/10 border-safe/20'', ''bg-safe'')
     else if t = ''error'' then (''text-threat bg-threat/10 border-threat/20'', ''bg-threat'')
     else (''text-ink-400 bg-white/5 border-white/10'', ''bg-ink-500''))"

subsection \<open>Switches\<close>

lemma set_enabled_back:
  assumes "find (\<lambda>x. fs_id x = i) fs = Some x" "distinct (map fs_id fs)"
  shows "map (\<lambda>y. if fs_id y = i then y\<lparr>fs_enabled := fs_enabled x\<rparr> else y) (map (\<lambda>y. if fs_id y = i then y\<lparr>fs_enabled := v y\<rparr> else y) fs) = fs"
  using assms
proof (induction fs)
  case (Cons f fs)
  have "map (\<lambda>y. if fs_id y = i then y\<lparr>fs_enabled := e\<rparr> else y) (map (\<lambda>y. if fs_id y = i then y\<lparr>fs_enabled := v y\<rparr> else y) fs) = fs"
    if "i \<notin> fs_id ` set fs" for e using that by (induction fs) auto
  then show ?case using Cons by (auto split: if_splits)
qed simp

text \<open>A refused switch goes back where it was; an accepted one stays, and its request said what is shown.\<close>

theorem source_switch:
  assumes "find_feed i s = Some x" "distinct (map fs_id (fp_feeds s))" "fp_toggles s = []"
  shows "fp_feeds (toggled 0 False (toggle_source i s)) = fp_feeds s"
    "last (fp_calls (toggle_source i s)) = toggleFeed i (\<not> fs_enabled x)"
  using assms set_enabled_back [of i "fp_feeds s" x "\<lambda>y. \<not> fs_enabled y"]
  by (simp_all add: toggle_source_def toggled_def set_enabled_def find_feed_def del: map_map)

text \<open>Two clicks that are both refused, answered in order, leave the switch on the wrong side.\<close>

theorem source_switch_refusals:
  assumes "find_feed i s = Some x" "fp_toggles s = []"
  shows "map_option fs_enabled (find_feed i (toggled 0 False (toggled 0 False (toggle_source i (toggle_source i s))))) = Some (\<not> fs_enabled x)"
proof -
  have upd: "find (\<lambda>y. fs_id y = i) (map (\<lambda>y. if fs_id y = i then y\<lparr>fs_enabled := f (fs_enabled y)\<rparr> else y) fs)
      = Some (z\<lparr>fs_enabled := f (fs_enabled z)\<rparr>)" if "find (\<lambda>y. fs_id y = i) fs = Some z" for fs z f
    using that by (induction fs) auto
  have u: "find_feed i (set_enabled i f t) = Some (z\<lparr>fs_enabled := f (fs_enabled z)\<rparr>)" if "find_feed i t = Some z" for f t z
    using upd [of "fp_feeds t" z f] that by (simp add: find_feed_def set_enabled_def)
  have k: "find_feed i (t\<lparr>fp_toggles := ts\<rparr>) = find_feed i t" "find_feed i (t\<lparr>fp_calls := cs\<rparr>) = find_feed i t" for t ts cs
    by (simp_all add: find_feed_def)
  let ?s1 = "toggle_source i s" let ?s2 = "toggle_source i ?s1"
  have f1: "find_feed i ?s1 = Some (x\<lparr>fs_enabled := \<not> fs_enabled x\<rparr>)" and t1: "fp_toggles ?s1 = [(i, fs_enabled x)]"
    using assms u [of s x Not] by (simp_all add: toggle_source_def k)
  have f2: "find_feed i ?s2 = Some x" and t2: "fp_toggles ?s2 = [(i, fs_enabled x), (i, \<not> fs_enabled x)]"
    using f1 t1 u [OF f1, of Not] by (simp_all add: toggle_source_def k)
  have f3: "find_feed i (toggled 0 False ?s2) = Some x" "fp_toggles (toggled 0 False ?s2) = [(i, \<not> fs_enabled x)]"
    using f2 t2 u [of "?s2\<lparr>fp_toggles := [(i, \<not> fs_enabled x)]\<rparr>" x "\<lambda>_. fs_enabled x"]
    by (simp_all add: toggled_def k) (simp add: set_enabled_def)
  show ?thesis using f3 u [of "(toggled 0 False ?s2)\<lparr>fp_toggles := []\<rparr>" x "\<lambda>_. \<not> fs_enabled x"]
    by (simp add: toggled_def [of 0 False "toggled 0 False ?s2"] k)
qed

subsection \<open>What the table says\<close>

text \<open>Every source that is added has a name; the requests are the switches and the submissions.\<close>

lemma source_modal_inv: "modal_inv FEED_FIELDS (fp_modal (fold sources_step ps sources_mount))"
proof (induction ps rule: rev_induct)
  case Nil
  then show ?case by (simp add: sources_mount_def modal_inv_init)
next
  case (snoc p ps)
  then show ?case
  proof (cases p)
    case (FoCreated i f)
    then show ?thesis using snoc modal_inv_step [of FEED_FIELDS _ "MdAnswer i True"] by simp
  next
    case (FoToggled n ok)
    have "fp_modal (toggled n ok s) = fp_modal s" for s
      by (cases "fp_toggles s ! n") (simp add: toggled_def set_enabled_def Let_def)
    then show ?thesis using snoc FoToggled by simp
  qed (auto simp: modal_inv_step toggle_source_def set_enabled_def split: option.split)
qed

theorem added_sources_named:
  "list_all (\<lambda>vs. case obj_get vs ''name'' of Some t \<Rightarrow> trim t \<noteq> [] | None \<Rightarrow> False) (mh_sent (fp_modal (fold sources_step ps sources_mount)))"
  using source_modal_inv [of ps] by (simp add: modal_inv_def list_all_iff canSubmit_def FEED_FIELDS_def)

text \<open>A source added as internal is listed as OSINT, and none can be added as one of a government.\<close>

theorem added_types:
  "feed_type_of ''internal'' = FtOsint" "feed_type_of ''opensource'' = FtOsint"
  "list_all (\<lambda>(v, l). feed_type_of v \<noteq> FtGovernment) (cl_options (FEED_FIELDS ! 1))"
  by (simp_all add: feed_type_of_def FEED_FIELDS_def)

text \<open>A search that finds nothing says that no feeds are registered, and a source that was added while the
  list could not be loaded stands under the line that nothing can be shown.\<close>

theorem table_notes_mislead:
  "fp_loaded s \<Longrightarrow> \<not> fp_unreachable s \<Longrightarrow> feeds_filtered s = [] \<Longrightarrow> table_notes s = [SnNoFeeds]"
  "fp_loaded s \<Longrightarrow> fp_unreachable s \<Longrightarrow> i \<in> set (mh_flight (fp_modal s)) \<Longrightarrow> fp_type s = None \<Longrightarrow> fp_search s = []
    \<Longrightarrow> SnUnreachable \<in> set (table_notes (sources_step (FoCreated i f) s))
      \<and> hd (feeds_filtered (sources_step (FoCreated i f) s)) = apiFeedToRow f"
  by (simp_all add: table_notes_def feeds_filtered_def)

text \<open>Without a filter every row is shown, and the rows of the four types are all of them.\<close>

theorem types_partition:
  "fp_type s = None \<Longrightarrow> fp_search s = [] \<Longrightarrow> feeds_filtered s = fp_feeds s"
  "length (fp_feeds s) = (\<Sum>t \<leftarrow> [FtOsint, FtCommercial, FtGovernment, FtCommunity]. length (feeds_filtered (s\<lparr>fp_type := Some t, fp_search := []\<rparr>)))"
proof -
  have "length fs = (\<Sum>t \<leftarrow> [FtOsint, FtCommercial, FtGovernment, FtCommunity]. length (filter (\<lambda>f. t = fs_type f) fs))" for fs
  proof (induction fs)
    case (Cons f fs)
    then show ?case by (cases "fs_type f") simp_all
  qed simp
  then show "length (fp_feeds s) = (\<Sum>t \<leftarrow> [FtOsint, FtCommercial, FtGovernment, FtCommunity]. length (feeds_filtered (s\<lparr>fp_type := Some t, fp_search := []\<rparr>)))"
    by (simp add: feeds_filtered_def)
qed (simp add: feeds_filtered_def)

end
