(* ===== verification/Connectors.thy ===== *)
theory Connectors
  imports Helpers Csv Suppressions
begin

text \<open>
  The manager of the intelligence connectors (\<open>components/dashboard/ConnectorsPanel.tsx\<close>): its list with
  syncs, pauses, resets and removals shown at once, the works that say what is imported, the catalogue, and
  the two dialogs that add and change a connector. The calls under way are a list whose entries may be
  answered in any order.
\<close>

subsection \<open>Connectors, kinds and works\<close>

record connector =
  cx_id :: string
  cx_name :: string
  cx_kind :: string
  cx_url :: "string option"
  cx_enabled :: bool
  cx_intervalMinutes :: rat
  cx_intervalSeconds :: rat
  cx_fieldMap :: "(string, string) obj"
  cx_status :: string
  cx_lastRun :: "string option"
  cx_lastError :: "string option"
  cx_indicatorCount :: int
  cx_builtin :: bool
  cx_hasKey :: bool

text \<open>\<open>needsUrl\<close> and the shortest cadence may be absent.\<close>

record conn_kind =
  ci_kind :: string
  ci_label :: string
  ci_description :: string
  ci_needsKey :: bool
  ci_needsUrl :: "bool option"
  ci_defaultUrl :: string
  ci_defaultInterval :: rat
  ci_minInterval :: "rat option"
  ci_rateNote :: "string option"

record conn_work =
  cw_id :: string
  cw_connectorId :: "string option"
  cw_connector :: string
  cw_status :: string
  cw_expected :: int
  cw_processed :: int
  cw_imported :: int
  cw_duplicates :: int
  cw_skipped :: int
  cw_message :: "string option"
  cw_startedAt :: string
  cw_updatedAt :: string
  cw_percent :: rat
  cw_rate :: "rat option"
  cw_noop :: bool
  cw_collapsed :: "int option"
  cw_collapsedSince :: "string option"

definition STATUS_META_conn :: "(string, string \<times> string \<times> string) obj" where
  "STATUS_META_conn = [(''ok'', ''Synced'', ''text-safe border-safe/25 bg-safe/10'', ''bg-safe''),
     (''idle'', ''Idle'', ''text-ink-400 border-white/10 bg-white/5'', ''bg-ink-500''),
     (''running'', ''Syncing'', ''text-violet border-violet/25 bg-violet/10'', ''bg-violet animate-pulse''),
     (''error'', ''Error'', ''text-threat border-threat/25 bg-threat/10'', ''bg-threat'')]"

definition relTime_conn :: "int \<Rightarrow> int \<Rightarrow> string option \<Rightarrow> string" where
  "relTime_conn now tz t = (case t of None \<Rightarrow> ''never'' | Some ts \<Rightarrow> if ts = [] then ''never''
     else (case ms_diff (Some now) (date_parse tz ts) of None \<Rightarrow> ''NaNd ago'' | Some ms \<Rightarrow> age_text ms))"

text \<open>The cadence in seconds.\<close>

definition conn_secs :: "connector \<Rightarrow> rat" where
  "conn_secs c = (if cx_intervalSeconds c \<noteq> 0 then cx_intervalSeconds c else js_mul (cx_intervalMinutes c) 60)"

subsection \<open>What the dialogs send\<close>

type_synonym conn_values = "(string, string) obj"

definition FM_KEYS :: "string list" where
  "FM_KEYS = [''value'', ''type'', ''threat_type'', ''confidence'', ''severity'', ''tags'']"

definition val_of :: "conn_values \<Rightarrow> string \<Rightarrow> string" where
  "val_of vs k = (case obj_get vs k of Some t \<Rightarrow> t | None \<Rightarrow> [])"

text \<open>The fields of the map that are filled in.\<close>

definition field_map_of :: "conn_values \<Rightarrow> (string, string) obj" where
  "field_map_of vs = map (\<lambda>k. (k, trim (val_of vs (''fm_'' @ k)))) (filter (\<lambda>k. trim (val_of vs (''fm_'' @ k)) \<noteq> []) FM_KEYS)"

definition fm_json :: "(string, string) obj \<Rightarrow> json" where
  "fm_json fm = JObj (map (\<lambda>(k, v). (k, JStr v)) fm)"

definition text_or_none :: "string \<Rightarrow> json" where "text_or_none t = (if t = [] then JUndef else JStr t)"

definition secs_of_field :: "conn_values \<Rightarrow> rat option" where
  "secs_of_field vs = (case obj_get vs ''interval_minutes'' of None \<Rightarrow> None | Some t \<Rightarrow>
     (case text_number t of Some n \<Rightarrow> if n > 0 then Some n else None | None \<Rightarrow> None))"

definition kind_at :: "string \<Rightarrow> conn_kind list \<Rightarrow> conn_kind option" where
  "kind_at k ks = find (\<lambda>x. ci_kind x = k) ks"

definition add_body :: "conn_kind list \<Rightarrow> string \<Rightarrow> conn_values \<Rightarrow> json" where
  "add_body ks kind vs = JObj [(''name'', JStr (val_of vs ''name'')), (''kind'', JStr kind),
     (''url'', if Option.bind (kind_at kind ks) ci_needsUrl = Some False then JUndef else text_or_none (val_of vs ''url'')),
     (''api_key'', text_or_none (val_of vs ''api_key'')),
     (''interval_seconds'', case secs_of_field vs of Some n \<Rightarrow> JNum n | None \<Rightarrow> JUndef),
     (''field_map'', if field_map_of vs = [] then JUndef else fm_json (field_map_of vs))]"

definition custom_kind :: "string \<Rightarrow> bool" where "custom_kind k \<longleftrightarrow> k \<in> {''json'', ''csv'', ''stix''}"

definition add_values :: "conn_kind list \<Rightarrow> string option \<Rightarrow> conn_values" where
  "add_values ks initial = (let p = kind_at (case initial of Some k \<Rightarrow> k | None \<Rightarrow> ''json'') ks in
     [(''name'', []), (''url'', case p of Some x \<Rightarrow> ci_defaultUrl x | None \<Rightarrow> []), (''api_key'', []),
      (''interval_minutes'', case p of Some x \<Rightarrow> num_str (js_mul (ci_defaultInterval x) 60) | None \<Rightarrow> [])])"

definition edit_values :: "connector \<Rightarrow> conn_values" where
  "edit_values c = obj_spread [(''name'', cx_name c), (''url'', case cx_url c of Some u \<Rightarrow> u | None \<Rightarrow> []),
      (''interval_minutes'', if conn_secs c \<noteq> 0 then num_str (conn_secs c) else []), (''api_key'', [])]
     (from_entries (map (\<lambda>(k, v). (''fm_'' @ k, v)) (cx_fieldMap c)))"

text \<open>The changes of a connector: only what differs, a key only when one is typed, the map of a custom kind
  whenever a field of it is filled in.\<close>

definition edit_patch :: "connector \<Rightarrow> conn_values \<Rightarrow> (string \<times> json) list" where
  "edit_patch c vs =
     (if trim (val_of vs ''name'') \<noteq> [] \<and> trim (val_of vs ''name'') \<noteq> cx_name c then [(''name'', JStr (trim (val_of vs ''name'')))] else [])
   @ (if obj_get vs ''url'' \<noteq> None \<and> trim (val_of vs ''url'') \<noteq> (case cx_url c of Some u \<Rightarrow> u | None \<Rightarrow> []) then [(''url'', JStr (trim (val_of vs ''url'')))] else [])
   @ (if trim (val_of vs ''interval_minutes'') = [] then [] else (case secs_of_field vs of
        Some n \<Rightarrow> if n \<noteq> conn_secs c then [(''interval_seconds'', JNum n)] else [] | None \<Rightarrow> []))
   @ (if trim (val_of vs ''api_key'') \<noteq> [] then [(''api_key'', JStr (trim (val_of vs ''api_key'')))] else [])
   @ (if custom_kind (cx_kind c) \<and> field_map_of vs \<noteq> [] then [(''field_map'', fm_json (field_map_of vs))] else [])"

subsection \<open>The panel\<close>

record conn_form =
  cf_no :: nat
  cf_kind :: string
  cf_values :: conn_values
  cf_submitting :: bool
  cf_error :: "string option"

datatype conn_flight = CfSync connector | CfPatch connector | CfReset connector | CfDelete connector | CfAdd nat | CfEdit nat connector

record conn_panel =
  cp_connectors :: "connector list option"
  cp_kinds :: "conn_kind list"
  cp_unavailable :: bool
  cp_busy :: "string option"
  cp_msg :: "string option"
  cp_timers :: nat
  cp_add :: "conn_form option"
  cp_catalog :: bool
  cp_edit :: "(connector \<times> conn_form) option"
  cp_works :: "conn_work list"
  cp_flight :: "conn_flight list"
  cp_next :: nat
  cp_calls :: "call list"

definition conn_load :: "conn_panel \<Rightarrow> conn_panel" where
  "conn_load s = s\<lparr>cp_calls := cp_calls s @ [fetchConnectors, fetchConnectorWorks (Some 20)]\<rparr>"

definition conn_mount :: conn_panel where
  "conn_mount = \<lparr>cp_connectors = None, cp_kinds = [], cp_unavailable = False, cp_busy = None, cp_msg = None, cp_timers = 0,
     cp_add = None, cp_catalog = False, cp_edit = None, cp_works = [], cp_flight = [], cp_next = 0,
     cp_calls = [fetchConnectorKinds, fetchConnectors, fetchConnectorWorks (Some 20)]\<rparr>"

text \<open>The works come with the running ones first: the first of a connector is the one shown.\<close>

definition work_of :: "conn_panel \<Rightarrow> string \<Rightarrow> conn_work option" where
  "work_of s i = (if i = [] then None else find (\<lambda>w. cw_connectorId w = Some i) (cp_works s))"

definition conn_importing :: "conn_panel \<Rightarrow> bool" where
  "conn_importing s \<longleftrightarrow> (\<exists>w \<in> set (cp_works s). cw_status w = ''running'')"

definition conn_poll_ms :: "conn_panel \<Rightarrow> int" where
  "conn_poll_ms s = (if conn_importing s then 2000 else 15000)"

definition conn_flash :: "string \<Rightarrow> conn_panel \<Rightarrow> conn_panel" where
  "conn_flash t s = s\<lparr>cp_msg := Some t, cp_timers := Suc (cp_timers s)\<rparr>"

definition on_conns :: "(connector list \<Rightarrow> connector list) \<Rightarrow> conn_panel \<Rightarrow> conn_panel" where
  "on_conns f s = s\<lparr>cp_connectors := map_option f (cp_connectors s)\<rparr>"

definition put_conn :: "string \<Rightarrow> connector \<Rightarrow> conn_panel \<Rightarrow> conn_panel" where
  "put_conn i c s = on_conns (map (\<lambda>x. if cx_id x = i then c else x)) s"

definition conn_send :: "conn_flight \<Rightarrow> call \<Rightarrow> conn_panel \<Rightarrow> conn_panel" where
  "conn_send f c s = s\<lparr>cp_flight := cp_flight s @ [f], cp_calls := cp_calls s @ [c]\<rparr>"

definition conn_sync :: "connector \<Rightarrow> conn_panel \<Rightarrow> conn_panel" where
  "conn_sync c s = (if cp_busy s \<noteq> None then s
     else conn_send (CfSync c) (runConnector (cx_id c))
       (on_conns (map (\<lambda>x. if cx_id x = cx_id c then x\<lparr>cx_status := ''running''\<rparr> else x)) (s\<lparr>cp_busy := Some (cx_id c)\<rparr>)))"

definition conn_toggle :: "connector \<Rightarrow> conn_panel \<Rightarrow> conn_panel" where
  "conn_toggle c s = conn_send (CfPatch c) (patchConnector (cx_id c) (JObj [(''enabled'', JBool (\<not> cx_enabled c))]))
     (on_conns (map (\<lambda>x. if cx_id x = cx_id c then x\<lparr>cx_enabled := \<not> cx_enabled c\<rparr> else x)) s)"

text \<open>Reset and removal ask first; \<open>sure\<close> is the answer.\<close>

definition conn_reset :: "bool \<Rightarrow> connector \<Rightarrow> conn_panel \<Rightarrow> conn_panel" where
  "conn_reset sure c s = (if \<not> sure then s else conn_send (CfReset c) (resetConnectorState (cx_id c)) (s\<lparr>cp_busy := Some (cx_id c)\<rparr>))"

definition conn_remove :: "bool \<Rightarrow> connector \<Rightarrow> conn_panel \<Rightarrow> conn_panel" where
  "conn_remove sure c s = (if \<not> sure then s else conn_send (CfDelete c) (deleteConnector (cx_id c))
     (on_conns (filter (\<lambda>x. cx_id x \<noteq> cx_id c)) s))"

definition open_add :: "string option \<Rightarrow> conn_panel \<Rightarrow> conn_panel" where
  "open_add initial s = s\<lparr>cp_add := Some \<lparr>cf_no = cp_next s, cf_kind = (case initial of Some k \<Rightarrow> k | None \<Rightarrow> ''json''),
     cf_values = add_values (cp_kinds s) initial, cf_submitting = False, cf_error = None\<rparr>, cp_next := Suc (cp_next s)\<rparr>"

definition open_edit :: "connector \<Rightarrow> conn_panel \<Rightarrow> conn_panel" where
  "open_edit c s = s\<lparr>cp_edit := Some (c, \<lparr>cf_no = cp_next s, cf_kind = cx_kind c, cf_values = edit_values c, cf_submitting = False,
     cf_error = None\<rparr>), cp_next := Suc (cp_next s)\<rparr>"

definition choose_kind :: "conn_kind list \<Rightarrow> string \<Rightarrow> conn_form \<Rightarrow> conn_form" where
  "choose_kind ks k f = (case kind_at k ks of
     Some p \<Rightarrow> f\<lparr>cf_kind := k, cf_values := obj_set ''interval_minutes'' (num_str (js_mul (ci_defaultInterval p) 60))
       (obj_set ''url'' (ci_defaultUrl p) (cf_values f))\<rparr>
   | None \<Rightarrow> f\<lparr>cf_kind := k\<rparr>)"

definition conn_type :: "string \<Rightarrow> string \<Rightarrow> conn_form \<Rightarrow> conn_form" where
  "conn_type k t f = f\<lparr>cf_values := obj_set k t (cf_values f)\<rparr>"

definition key_missing :: "conn_kind list \<Rightarrow> conn_form \<Rightarrow> bool" where
  "key_missing ks f \<longleftrightarrow> (case kind_at (cf_kind f) ks of Some p \<Rightarrow> ci_needsKey p | None \<Rightarrow> False) \<and> trim (val_of (cf_values f) ''api_key'') = []"

definition submit_add :: "conn_panel \<Rightarrow> conn_panel" where
  "submit_add s = (case cp_add s of None \<Rightarrow> s | Some f \<Rightarrow>
     if trim (val_of (cf_values f) ''name'') = [] \<or> cf_submitting f then s
     else if key_missing (cp_kinds s) f then s\<lparr>cp_add := Some (f\<lparr>cf_error := Some ''This source needs an API key.''\<rparr>)\<rparr>
     else conn_send (CfAdd (cf_no f)) (createConnector (add_body (cp_kinds s) (cf_kind f) (cf_values f)))
       (s\<lparr>cp_add := Some (f\<lparr>cf_submitting := True, cf_error := None\<rparr>)\<rparr>))"

definition submit_edit :: "conn_panel \<Rightarrow> conn_panel" where
  "submit_edit s = (case cp_edit s of None \<Rightarrow> s | Some (c, f) \<Rightarrow>
     if trim (val_of (cf_values f) ''name'') = [] \<or> cf_submitting f then s
     else if edit_patch c (cf_values f) = [] then s\<lparr>cp_edit := None\<rparr>
     else conn_send (CfEdit (cf_no f) c) (patchConnector (cx_id c) (JObj (edit_patch c (cf_values f))))
       (s\<lparr>cp_edit := Some (c, f\<lparr>cf_submitting := True, cf_error := None\<rparr>)\<rparr>))"

subsection \<open>Answers\<close>

definition run_text :: "connector \<Rightarrow> json \<Rightarrow> string" where
  "run_text c r = (if truthy (json_get ''error'' r) then cx_name c @ '': '' @ js_string (json_get ''error'' r)
     else cx_name c @ '': imported '' @ js_string (nullish (json_get ''imported'' r) (JNum 0)) @ '' new indicators (''
       @ js_string (nullish (json_get ''duplicates'' r) (JNum 0)) @ '' already known)'')"

text \<open>The longer texts have characters beyond Latin-1; the dash is written as a hyphen.\<close>

definition reset_text :: "connector \<Rightarrow> int \<Rightarrow> string" where
  "reset_text c n = (if n \<noteq> 0 then cx_name c @ '': cleared '' @ int_str n @ '' cached validator'' @ (if n = 1 then [] else ''s'')
       @ '' - next sync re-fetches in full.''
     else cx_name c @ '': had no cached validators; the next sync already re-fetches in full.'')"

definition form_message :: "(exn \<Rightarrow> string) \<Rightarrow> exn \<Rightarrow> string \<Rightarrow> string" where
  "form_message eng e d = (if err_message eng e \<noteq> [] then err_message eng e else d)"

datatype conn_reply = CrRun json connector | CrConn connector | CrCleared int connector | CrDone | CrFail exn

definition form_failed :: "string \<Rightarrow> conn_form \<Rightarrow> conn_form" where
  "form_failed t f = f\<lparr>cf_error := Some t, cf_submitting := False\<rparr>"

fun flight_answered :: "(exn \<Rightarrow> string) \<Rightarrow> conn_flight \<Rightarrow> conn_reply \<Rightarrow> conn_panel \<Rightarrow> conn_panel" where
  "flight_answered eng (CfSync c) (CrRun r x) s = (conn_flash (run_text c r) (put_conn (cx_id c) x s))\<lparr>cp_busy := None\<rparr>"
| "flight_answered eng (CfSync c) _ s = (conn_flash (cx_name c @ '': sync failed - is the dashboard API running?'') s)\<lparr>cp_busy := None\<rparr>"
| "flight_answered eng (CfPatch c) (CrFail e) s = conn_load s"
| "flight_answered eng (CfPatch c) _ s = s"
| "flight_answered eng (CfReset c) (CrCleared n x) s = (conn_flash (reset_text c n) (put_conn (cx_id c) x s))\<lparr>cp_busy := None\<rparr>"
| "flight_answered eng (CfReset c) _ s = (conn_flash (cx_name c @ '': could not reset state (needs connectors.manage).'') s)\<lparr>cp_busy := None\<rparr>"
| "flight_answered eng (CfDelete c) (CrFail e) s = conn_load s"
| "flight_answered eng (CfDelete c) _ s = s"
| "flight_answered eng (CfAdd n) (CrConn x) s = conn_flash (''Connector '' @ quote # cx_name x @ quote # '' added - press Sync to pull data now.'')
     (s\<lparr>cp_connectors := Some ((case cp_connectors s of Some cs \<Rightarrow> cs | None \<Rightarrow> []) @ [x]), cp_add := None\<rparr>)"
| "flight_answered eng (CfAdd n) (CrFail e) s = s\<lparr>cp_add := map_option (\<lambda>f. if cf_no f = n
     then form_failed (form_message eng e ''Could not add the connector.'') f else f) (cp_add s)\<rparr>"
| "flight_answered eng (CfAdd n) _ s = s"
| "flight_answered eng (CfEdit n c) (CrConn x) s = conn_flash (''Connector '' @ quote # cx_name x @ quote # '' updated.'')
     ((put_conn (cx_id c) x s)\<lparr>cp_edit := None\<rparr>)"
| "flight_answered eng (CfEdit n c) (CrFail e) s = s\<lparr>cp_edit := map_option (\<lambda>(d, f). (d, if cf_no f = n
     then form_failed (form_message eng e ''Could not update the connector.'') f else f)) (cp_edit s)\<rparr>"
| "flight_answered eng (CfEdit n c) _ s = s"

definition conn_answered :: "(exn \<Rightarrow> string) \<Rightarrow> nat \<Rightarrow> conn_reply \<Rightarrow> conn_panel \<Rightarrow> conn_panel" where
  "conn_answered eng n r s = (if n \<ge> length (cp_flight s) then s
     else flight_answered eng (cp_flight s ! n) r (s\<lparr>cp_flight := take n (cp_flight s) @ drop (Suc n) (cp_flight s)\<rparr>))"

datatype conn_op = CnConnectors "connector list option" | CnKinds "conn_kind list" | CnWorks "conn_work list" | CnTick
  | CnSync connector | CnToggle connector | CnReset bool connector | CnRemove bool connector | CnEdit connector
  | CnAdd "string option" | CnCatalog | CnCloseAdd | CnCloseEdit | CnKind string | CnTypeAdd string string | CnTypeEdit string string
  | CnSubmitAdd | CnSubmitEdit | CnAnswer nat conn_reply | CnTimer

text \<open>The buttons of a row are there for its connector, need the permission, and two of them wait for the
  connector's own call.\<close>

definition conn_listed :: "connector \<Rightarrow> conn_panel \<Rightarrow> bool" where
  "conn_listed c s \<longleftrightarrow> (case cp_connectors s of Some cs \<Rightarrow> c \<in> set cs | None \<Rightarrow> False)"

fun conn_offered :: "bool \<Rightarrow> conn_op \<Rightarrow> conn_panel \<Rightarrow> bool" where
  "conn_offered can (CnSync c) s = (can \<and> conn_listed c s \<and> cp_busy s \<noteq> Some (cx_id c))"
| "conn_offered can (CnToggle c) s = (can \<and> conn_listed c s)"
| "conn_offered can (CnReset sure c) s = (can \<and> conn_listed c s \<and> cp_busy s \<noteq> Some (cx_id c))"
| "conn_offered can (CnRemove sure c) s = (can \<and> conn_listed c s \<and> \<not> cx_builtin c)"
| "conn_offered can (CnEdit c) s = (can \<and> conn_listed c s)"
| "conn_offered can (CnAdd k) s = can"
| "conn_offered can _ s = True"

fun conn_do :: "(exn \<Rightarrow> string) \<Rightarrow> conn_op \<Rightarrow> conn_panel \<Rightarrow> conn_panel" where
  "conn_do eng (CnConnectors r) s = (case r of Some cs \<Rightarrow> s\<lparr>cp_connectors := Some cs, cp_unavailable := False\<rparr> | None \<Rightarrow> s\<lparr>cp_unavailable := True\<rparr>)"
| "conn_do eng (CnKinds ks) s = s\<lparr>cp_kinds := ks\<rparr>"
| "conn_do eng (CnWorks ws) s = s\<lparr>cp_works := ws\<rparr>"
| "conn_do eng CnTick s = conn_load s"
| "conn_do eng (CnSync c) s = conn_sync c s"
| "conn_do eng (CnToggle c) s = conn_toggle c s"
| "conn_do eng (CnReset sure c) s = conn_reset sure c s"
| "conn_do eng (CnRemove sure c) s = conn_remove sure c s"
| "conn_do eng (CnEdit c) s = open_edit c s"
| "conn_do eng (CnAdd k) s = (open_add k s)\<lparr>cp_catalog := (if k = None then cp_catalog s else False)\<rparr>"
| "conn_do eng CnCatalog s = s\<lparr>cp_catalog := \<not> cp_catalog s\<rparr>"
| "conn_do eng CnCloseAdd s = s\<lparr>cp_add := None\<rparr>"
| "conn_do eng CnCloseEdit s = s\<lparr>cp_edit := None\<rparr>"
| "conn_do eng (CnKind k) s = s\<lparr>cp_add := map_option (choose_kind (cp_kinds s) k) (cp_add s)\<rparr>"
| "conn_do eng (CnTypeAdd k t) s = s\<lparr>cp_add := map_option (conn_type k t) (cp_add s)\<rparr>"
| "conn_do eng (CnTypeEdit k t) s = s\<lparr>cp_edit := map_option (\<lambda>(c, f). (c, conn_type k t f)) (cp_edit s)\<rparr>"
| "conn_do eng CnSubmitAdd s = submit_add s"
| "conn_do eng CnSubmitEdit s = submit_edit s"
| "conn_do eng (CnAnswer n r) s = conn_answered eng n r s"
| "conn_do eng CnTimer s = (if cp_timers s = 0 then s else s\<lparr>cp_timers := cp_timers s - 1, cp_msg := None\<rparr>)"

definition conn_step :: "(exn \<Rightarrow> string) \<Rightarrow> bool \<Rightarrow> conn_op \<Rightarrow> conn_panel \<Rightarrow> conn_panel" where
  "conn_step eng can p s = (if conn_offered can p s then conn_do eng p s else s)"

subsection \<open>What is shown\<close>

definition conn_status_of :: "conn_panel \<Rightarrow> connector \<Rightarrow> string \<times> string \<times> string" where
  "conn_status_of s c = (let st = (case work_of s (cx_id c) of Some w \<Rightarrow> if cw_status w = ''running'' then ''running'' else cx_status c
       | None \<Rightarrow> cx_status c) in
     case obj_get STATUS_META_conn st of Some m \<Rightarrow> m | None \<Rightarrow> the (obj_get STATUS_META_conn ''idle''))"

definition rate_text :: "(rat \<Rightarrow> string) \<Rightarrow> rat option \<Rightarrow> string" where
  "rate_text loc r = (case r of Some x \<Rightarrow> if x \<noteq> 0 then [CHR '' '', CHR 0xB7, CHR '' ''] @ loc x @ ''/s'' else [] | None \<Rightarrow> [])"

definition conn_progress :: "(rat \<Rightarrow> string) \<Rightarrow> conn_panel \<Rightarrow> connector \<Rightarrow> string option" where
  "conn_progress loc s c = (case work_of s (cx_id c) of None \<Rightarrow> None | Some w \<Rightarrow>
     if cw_status w = ''running'' then Some (loc (of_int (cw_processed w)) @ (if cw_expected w \<noteq> 0 then '' / '' @ loc (of_int (cw_expected w)) else [])
       @ '' processed'' @ rate_text loc (cw_rate w))
     else if cw_status w = ''completed'' then Some (''last run: '' @ loc (of_int (cw_imported w)) @ '' new''
       @ (if cw_duplicates w > 0 then [CHR '' '', CHR 0xB7, CHR '' ''] @ loc (of_int (cw_duplicates w)) @ '' already known'' else []) @ rate_text loc (cw_rate w))
     else None)"

definition conn_line :: "(rat \<Rightarrow> string) \<Rightarrow> int \<Rightarrow> int \<Rightarrow> connector \<Rightarrow> string" where
  "conn_line loc now tz c = join [CHR '' '', CHR 0xB7, CHR '' ''] [cx_kind c, loc (of_int (cx_indicatorCount c)) @ '' indicators'',
     ''every '' @ formatEvery (conn_secs c), ''last '' @ relTime_conn now tz (cx_lastRun c)]"

text \<open>The fields of the two dialogs: the address for a kind whose address the operator chooses, the key unless
  the kind never takes one.\<close>

definition managed_kind :: "string \<Rightarrow> bool" where "managed_kind k \<longleftrightarrow> k \<in> {''threatorbit'', ''nvd'', ''otx''}"

definition add_shows_url :: "conn_kind list \<Rightarrow> string \<Rightarrow> bool" where
  "add_shows_url ks k = (case Option.bind (kind_at k ks) ci_needsUrl of Some b \<Rightarrow> b | None \<Rightarrow> \<not> managed_kind k)"

definition shows_key :: "string \<Rightarrow> bool" where "shows_key k \<longleftrightarrow> k \<noteq> ''threatorbit'' \<and> k \<noteq> ''nvd''"

definition edit_shows_url :: "connector \<Rightarrow> bool" where "edit_shows_url c \<longleftrightarrow> \<not> cx_builtin c \<and> \<not> managed_kind (cx_kind c)"

definition conn_floor_note :: "conn_kind option \<Rightarrow> string option" where
  "conn_floor_note p = (case p of None \<Rightarrow> None | Some k \<Rightarrow> (case ci_minInterval k of None \<Rightarrow> None
     | Some m \<Rightarrow> if m > 1 then Some (''Minimum '' @ num_str m @ ''s'' @ (case ci_rateNote k of Some n \<Rightarrow> if n \<noteq> [] then '' - '' @ n else [] | None \<Rightarrow> []))
         else None))"

subsection \<open>Requests\<close>

lemma text_number_int: "0 \<le> n \<Longrightarrow> n \<le> 2 ^ 53 \<Longrightarrow> text_number (int_str n) = Some (of_int n)"
proof -
  assume n: "0 \<le> n" "n \<le> 2 ^ 53"
  have d: "list_all is_digit (int_str n)" "dec_digits (int_str n) = n" using n by (simp_all add: int_str_def digit_chars dec_digits_base)
  have "int_str n \<noteq> []" using n(1) by (simp add: int_str_def base_str_def digits_of.simps [of 10 n])
  then show ?thesis using digits_number [OF d(1)] n by (simp add: d(2))
qed

text \<open>A new connector is sent with a positive cadence or none, with no address for a managed provider, and only
  the filled fields of its map.\<close>

theorem add_request:
  "json_get ''interval_seconds'' (add_body ks k vs) = JUndef \<or> (\<exists>n > 0. json_get ''interval_seconds'' (add_body ks k vs) = JNum n)"
  "kind_at k ks = Some p \<Longrightarrow> ci_needsUrl p = Some False \<Longrightarrow> json_get ''url'' (add_body ks k vs) = JUndef"
  "(f, t) \<in> set (field_map_of vs) \<Longrightarrow> t \<noteq> [] \<and> t = trim (val_of vs (''fm_'' @ f)) \<and> f \<in> set FM_KEYS"
  by (auto simp: add_body_def obj_get_def secs_of_field_def field_map_of_def split: option.split)

lemma val_of_edit:
  assumes "k \<in> {''name'', ''url'', ''interval_minutes'', ''api_key''}"
  shows "obj_get (edit_values c) k = obj_get [(''name'', cx_name c), (''url'', case cx_url c of Some u \<Rightarrow> u | None \<Rightarrow> []),
      (''interval_minutes'', if conn_secs c \<noteq> 0 then num_str (conn_secs c) else []), (''api_key'', [])] k"
proof -
  have "k \<notin> fst ` set (from_entries (map (\<lambda>(k, v). (''fm_'' @ k, v)) (cx_fieldMap c)))"
    using assms by (auto dest!: from_entries_set)
  then have n: "map_of (rev (from_entries (map (\<lambda>(k, v). (''fm_'' @ k, v)) (cx_fieldMap c)))) k = None"
    unfolding map_of_eq_None_iff set_rev .
  show ?thesis unfolding edit_values_def obj_get_spread n by simp
qed

text \<open>Opening a connector that is not of a custom kind and saving it unchanged sends nothing.\<close>

theorem untouched_edit_sends_nothing:
  assumes "\<not> custom_kind (cx_kind c)" "trim (cx_name c) = cx_name c" "\<And>u. cx_url c = Some u \<Longrightarrow> trim u = u"
    "conn_secs c = of_int n" "0 \<le> n" "n \<le> 2 ^ 53"
  shows "edit_patch c (edit_values c) = []"
proof -
  have v: "val_of (edit_values c) ''name'' = cx_name c" "val_of (edit_values c) ''url'' = (case cx_url c of Some u \<Rightarrow> u | None \<Rightarrow> [])"
    "val_of (edit_values c) ''api_key'' = []"
    "val_of (edit_values c) ''interval_minutes'' = (if conn_secs c \<noteq> 0 then num_str (conn_secs c) else [])"
    unfolding val_of_def by (simp_all add: val_of_edit) (simp_all add: obj_get_def)
  have u: "trim (case cx_url c of Some u \<Rightarrow> u | None \<Rightarrow> []) = (case cx_url c of Some u \<Rightarrow> u | None \<Rightarrow> [])"
    using assms(3) by (cases "cx_url c") (simp_all add: trim_def)
  have s: "secs_of_field (edit_values c) \<in> {None, Some (conn_secs c)}" if "trim (val_of (edit_values c) ''interval_minutes'') \<noteq> []"
  proof -
    have z: "conn_secs c \<noteq> 0" using that by (auto simp: v trim_def split: if_splits)
    have "obj_get (edit_values c) ''interval_minutes'' = Some (num_str (conn_secs c))" using z by (simp add: val_of_edit) (simp add: obj_get_def)
    then show ?thesis using text_number_int [OF assms(5,6)] assms(5,6) by (simp add: secs_of_field_def assms(4))
  qed
  have t: "trim [] = []" by (simp add: trim_def)
  have i: "(if trim (val_of (edit_values c) ''interval_minutes'') = [] then [] else (case secs_of_field (edit_values c) of
      Some n \<Rightarrow> if n \<noteq> conn_secs c then [(''interval_seconds'', JNum n)] else [] | None \<Rightarrow> [])) = []"
    using s by (cases "secs_of_field (edit_values c)") auto
  show ?thesis using assms(1,2) unfolding edit_patch_def i by (simp add: v(1,2,3) u t)
qed

text \<open>The field map comes through the client's case mapping, so the dialog does not find the entry for
  \<open>threat_type\<close> again: saving a connector with another field mapped, changed or not, sends a map without
  it.\<close>

theorem edit_drops_threat_type:
  assumes "custom_kind (cx_kind c)" "cx_fieldMap c = map (\<lambda>(k, v). (camel k, v)) [(''value'', t), (''threat_type'', u)]" "trim t \<noteq> []"
  shows "(''field_map'', JObj [(''value'', JStr (trim t))]) \<in> set (edit_patch c (edit_values c))"
proof -
  have t0: "trim [] = []" by (simp add: trim_def)
  have cam: "camel ''value'' = ''value''" "camel ''threat_type'' = ''threatType''" by code_simp+
  have "cx_fieldMap c = [(''value'', t), (''threatType'', u)]" using assms(2) by (simp only: cam list.map prod.case)
  then have "edit_values c = [(''name'', cx_name c), (''url'', case cx_url c of Some u \<Rightarrow> u | None \<Rightarrow> []),
      (''interval_minutes'', if conn_secs c \<noteq> 0 then num_str (conn_secs c) else []), (''api_key'', []), (''fm_value'', t), (''fm_threatType'', u)]"
    by (simp add: edit_values_def obj_spread_def)
  then have "field_map_of (edit_values c) = [(''value'', trim t)]"
    using t0 by (simp add: field_map_of_def FM_KEYS_def val_of_def obj_get_def assms(3))
  then show ?thesis using assms(1) by (simp add: edit_patch_def fm_json_def)
qed

definition conn_reads :: "call list" where
  "conn_reads = [fetchConnectorKinds, fetchConnectors, fetchConnectorWorks (Some 20)]"

definition conn_call_ok :: "bool \<Rightarrow> call \<Rightarrow> bool" where
  "conn_call_ok can c \<longleftrightarrow> can \<or> c \<in> set conn_reads"

definition conn_inv :: "bool \<Rightarrow> conn_panel \<Rightarrow> bool" where
  "conn_inv can s \<longleftrightarrow> list_all (conn_call_ok can) (cp_calls s) \<and> (\<not> can \<longrightarrow> cp_add s = None \<and> cp_edit s = None)"

lemma conn_flight_inv: "conn_inv can s \<Longrightarrow> conn_inv can (flight_answered eng f r s)"
  by (cases "(eng, f, r, s)" rule: flight_answered.cases)
    (auto simp: conn_inv_def conn_flash_def put_conn_def on_conns_def conn_load_def conn_call_ok_def conn_reads_def)

lemma conn_inv_step: "conn_inv can s \<Longrightarrow> conn_inv can (conn_step eng can p s)"
proof (cases p)
  case (CnAnswer n r)
  assume "conn_inv can s"
  then have "conn_inv can (s\<lparr>cp_flight := fs\<rparr>)" for fs by (simp add: conn_inv_def)
  then show ?thesis using CnAnswer \<open>conn_inv can s\<close> by (simp add: conn_step_def conn_answered_def conn_flight_inv)
qed (auto simp: conn_step_def conn_inv_def conn_load_def conn_call_ok_def conn_reads_def conn_sync_def conn_toggle_def conn_reset_def
       conn_remove_def conn_send_def on_conns_def open_edit_def open_add_def submit_add_def submit_edit_def split: option.splits)

text \<open>Without the permission the panel only reads, in every run.\<close>

theorem viewer_only_reads: "list_all (conn_call_ok can) (cp_calls (fold (conn_step eng can) ps conn_mount))"
proof -
  have "conn_inv can (fold (conn_step eng can) ps conn_mount)"
    by (induction ps rule: rev_induct) (simp_all add: conn_inv_step, simp add: conn_inv_def conn_mount_def conn_call_ok_def conn_reads_def)
  then show ?thesis by (simp add: conn_inv_def)
qed

text \<open>A built-in connector is never removed.\<close>

theorem builtin_kept: "cx_builtin c \<Longrightarrow> conn_step eng can (CnRemove sure c) s = s"
  by (simp add: conn_step_def)

text \<open>The mark of the call under way is one for all connectors: a reset of a second one takes it over, and the
  answer to the first frees the second, whose call is still under way.\<close>

theorem busy_mark_shared:
  assumes "cp_flight s = [CfSync a]" "cp_busy s = Some (cx_id a)" "conn_listed b s" "cx_id b \<noteq> cx_id a"
  shows "cp_busy (conn_step eng True (CnAnswer 0 r) (conn_step eng True (CnReset True b) s)) = None
    \<and> cp_flight (conn_step eng True (CnAnswer 0 r) (conn_step eng True (CnReset True b) s)) = [CfReset b]"
  using assms by (cases r) (auto simp: conn_step_def conn_reset_def conn_send_def conn_answered_def conn_flash_def put_conn_def on_conns_def)

text \<open>A sync is one at a time: while any runs, a second click sends nothing.\<close>

theorem sync_exclusive: "cp_busy s \<noteq> None \<Longrightarrow> conn_step eng can (CnSync c) s = s"
  by (simp add: conn_step_def conn_sync_def)

text \<open>A refused removal or pause leaves the list as it is until the reload it asks for is answered.\<close>

theorem refused_change_reloads:
  "flight_answered eng (CfDelete c) (CrFail e) s = conn_load s" "flight_answered eng (CfPatch c) (CrFail e) s = conn_load s"
  "cp_connectors (conn_do eng (CnConnectors (Some cs)) (conn_load s)) = Some cs"
  by (simp_all add: conn_load_def)

text \<open>A source that needs a key is not sent without one.\<close>

theorem needed_key_sent:
  assumes "cp_add s = Some f" "kind_at (cf_kind f) (cp_kinds s) = Some p" "ci_needsKey p" "cp_calls (submit_add s) \<noteq> cp_calls s"
  shows "trim (val_of (cf_values f) ''api_key'') \<noteq> []"
  using assms by (auto simp: submit_add_def key_missing_def split: if_splits)

end
