(* ===== verification/Imports.thy ===== *)
theory Imports
  imports Connectors Scanner Feeds "HOL-Library.Product_Lexorder"
begin

text \<open>
  The page of the running imports (\<open>app/dashboard/feeds/imports/page.tsx\<close>) and the panel of the ingestion
  engine (\<open>components/dashboard/IngestionEnginePanel.tsx\<close>): loads that are asked for by a timer, by an
  event of the live stream or by an action; the merge of a pushed work into the list; the rows and tiles.
  \<open>now\<close> is the clock in milliseconds, \<open>lc\<close> the browser's \<open>localeCompare\<close>.
\<close>

subsection \<open>Times and tables\<close>

definition relTime_import :: "int option option \<Rightarrow> string" where
  "relTime_import ms = (case ms of None \<Rightarrow> ''never'' | Some None \<Rightarrow> ''NaNd ago'' | Some (Some m) \<Rightarrow> age_text m)"

text \<open>The duration of a run; \<open>None\<close> is the dash.\<close>

definition durationOf :: "int option \<Rightarrow> string option" where
  "durationOf ms = (case ms of None \<Rightarrow> None | Some m \<Rightarrow>
     if m < 0 then None else if m < 1000 then Some (int_str m @ ''ms'')
     else if m < 60000 then Some (to_fixed 1 (js_div (of_int m) 1000) @ ''s'')
     else Some (int_str (m div 60000) @ ''m '' @ int_str (js_round (js_div (of_int (m mod 60000)) 1000)) @ ''s''))"

definition CONN_STATUS :: "(string, string \<times> string) obj" where
  "CONN_STATUS = [(''ok'', ''Synced'', ''bg-safe''), (''idle'', ''Idle'', ''bg-ink-500''),
     (''running'', ''Importing'', ''bg-violet animate-pulse''), (''error'', ''Error'', ''bg-threat'')]"

definition WORK_STATUS :: "(string, string \<times> string) obj" where
  "WORK_STATUS = [(''running'', ''Importing'', ''bg-violet animate-pulse''), (''completed'', ''Done'', ''bg-safe''), (''failed'', ''Failed'', ''bg-threat'')]"

definition JOB_STATUS :: "(string, string) obj" where
  "JOB_STATUS = [(''done'', ''text-safe''), (''complete'', ''text-safe''), (''success'', ''text-safe''), (''running'', ''text-violet''),
     (''queued'', ''text-amber''), (''pending'', ''text-amber''), (''error'', ''text-threat''), (''failed'', ''text-threat'')]"

subsection \<open>A source with its cadence\<close>

datatype row_busy = BusySync | BusySave

record cadence_row =
  sy_conn :: connector
  sy_interval :: string
  sy_busy :: "row_busy option"

definition row_mount :: "connector \<Rightarrow> cadence_row" where
  "row_mount c = \<lparr>sy_conn = c, sy_interval = num_str (conn_secs c), sy_busy = None\<rparr>"

text \<open>A new record resets what was typed only when the cadence differs.\<close>

definition row_props :: "connector \<Rightarrow> cadence_row \<Rightarrow> cadence_row" where
  "row_props c r = r\<lparr>sy_conn := c, sy_interval := (if cx_intervalSeconds c \<noteq> cx_intervalSeconds (sy_conn r)
     \<or> cx_intervalMinutes c \<noteq> cx_intervalMinutes (sy_conn r) then num_str (conn_secs c) else sy_interval r)\<rparr>"

definition row_dirty :: "cadence_row \<Rightarrow> bool" where
  "row_dirty r \<longleftrightarrow> sy_interval r \<noteq> num_str (conn_secs (sy_conn r)) \<and> (case text_number (sy_interval r) of Some n \<Rightarrow> n > 0 | None \<Rightarrow> False)"

definition row_sync :: "bool \<Rightarrow> cadence_row \<Rightarrow> cadence_row \<times> call list" where
  "row_sync can r = (if \<not> can \<or> sy_busy r \<noteq> None then (r, []) else (r\<lparr>sy_busy := Some BusySync\<rparr>, [runConnector (cx_id (sy_conn r))]))"

definition row_save :: "bool \<Rightarrow> cadence_row \<Rightarrow> cadence_row \<times> call list" where
  "row_save can r = (if \<not> can \<or> \<not> row_dirty r \<or> sy_busy r \<noteq> None then (r, [])
     else (r\<lparr>sy_busy := Some BusySave\<rparr>, [patchConnector (cx_id (sy_conn r)) (JObj [(''interval_seconds'', JNum (the (text_number (sy_interval r))))])]))"

text \<open>However the call ends, the row is free and the page loads again.\<close>

definition row_done :: "cadence_row \<Rightarrow> cadence_row" where "row_done r = r\<lparr>sy_busy := None\<rparr>"

definition row_line :: "(rat \<Rightarrow> string) \<Rightarrow> int option option \<Rightarrow> connector \<Rightarrow> string" where
  "row_line loc ms c = join [CHR '' '', CHR 0xB7, CHR '' ''] [cx_kind c, loc (of_int (cx_indicatorCount c)) @ '' indicators'', ''last import '' @ relTime_import ms]"

subsection \<open>One run\<close>

datatype work_view = QuietWork string | FullWork string string "string option" string "string list"

definition bar_width :: "conn_work \<Rightarrow> string" where
  "bar_width w = num_str (if cw_status w = ''failed'' then max 3 (cw_percent w) else cw_percent w) @ ''%''"

definition work_counts :: "(rat \<Rightarrow> string) \<Rightarrow> conn_work \<Rightarrow> string list" where
  "work_counts loc w = [loc (of_int (cw_processed w)) @ (if cw_expected w \<noteq> 0 then '' / '' @ loc (of_int (cw_expected w)) else []) @ '' processed'']
     @ (if cw_imported w > 0 then [loc (of_int (cw_imported w)) @ '' new''] else [])
     @ (if cw_duplicates w > 0 then [loc (of_int (cw_duplicates w)) @ '' already known''] else [])
     @ (if cw_skipped w > 0 then [loc (of_int (cw_skipped w)) @ '' unparseable''] else [])"

definition work_row :: "(rat \<Rightarrow> string) \<Rightarrow> int option \<Rightarrow> conn_work \<Rightarrow> work_view" where
  "work_row loc took w = (if cw_noop w then QuietWork (cw_connector w @ '' checked ''
       @ (case cw_collapsed w of Some n \<Rightarrow> if n > 1 then int_str n @ '' times'' else [] | None \<Rightarrow> []) @ '' no new indicators''
       @ (if cw_duplicates w > 0 then '' ('' @ loc (of_int (cw_duplicates w)) @ '' already known)'' else []))
     else FullWork (cw_connector w) (fst (case obj_get WORK_STATUS (cw_status w) of Some m \<Rightarrow> m | None \<Rightarrow> (''Done'', ''bg-safe'')))
       (durationOf took) (bar_width w) (work_counts loc w))"

subsection \<open>The page\<close>

record import_job =
  ij_id :: string
  ij_kind :: string
  ij_status :: string
  ij_progress :: rat
  ij_createdAt :: string
  ij_updatedAt :: string

record recent_ioc =
  rc_id :: string
  rc_value :: string
  rc_type :: string
  rc_source :: "string option"
  rc_severity :: string
  rc_firstSeen :: "string option"

record imports_page =
  im_connectors :: "connector list option"
  im_engine :: "bool option"
  im_jobs :: "import_job list"
  im_recent :: "recent_ioc list option"
  im_works :: "conn_work list option"
  im_lastPush :: "int option"
  im_lastLoad :: int
  im_refetch :: "int option"
  im_calls :: "call list"

definition import_loads :: "call list" where
  "import_loads = [fetchConnectors, fetchEngineStatus, fetchJobs (Some 15), fetchConnectorWorks (Some 12), fetchIocs None]"

definition import_load :: "int \<Rightarrow> imports_page \<Rightarrow> imports_page" where
  "import_load now s = s\<lparr>im_lastLoad := now, im_calls := im_calls s @ import_loads\<rparr>"

definition imports_mount :: "int \<Rightarrow> imports_page" where
  "imports_mount now = \<lparr>im_connectors = None, im_engine = None, im_jobs = [], im_recent = None, im_works = None, im_lastPush = None,
     im_lastLoad = now, im_refetch = None, im_calls = import_loads\<rparr>"

definition works_list :: "imports_page \<Rightarrow> conn_work list" where
  "works_list s = (case im_works s of Some ws \<Rightarrow> ws | None \<Rightarrow> [])"

definition work_runs :: "conn_work \<Rightarrow> bool" where "work_runs w \<longleftrightarrow> cw_status w = ''running''"

definition importing :: "imports_page \<Rightarrow> bool" where "importing s \<longleftrightarrow> (\<exists>w \<in> set (works_list s). work_runs w)"

text \<open>The effect with the timer runs again, and loads, when an import begins or the last one ends.\<close>

definition set_works :: "int \<Rightarrow> conn_work list \<Rightarrow> imports_page \<Rightarrow> imports_page" where
  "set_works now ws s = (let t = s\<lparr>im_works := Some ws\<rparr> in if importing t \<noteq> importing s then import_load now t else t)"

definition work_cmp :: "(string \<Rightarrow> string \<Rightarrow> rat) \<Rightarrow> conn_work \<Rightarrow> conn_work \<Rightarrow> rat" where
  "work_cmp lc a b = (let d = (if work_runs a then 0 else 1) - (if work_runs b then 0 else 1 :: rat) in
     if d \<noteq> 0 then d else lc (cw_startedAt b) (cw_startedAt a))"

fun find_index :: "('a \<Rightarrow> bool) \<Rightarrow> 'a list \<Rightarrow> nat option" where
  "find_index P [] = None"
| "find_index P (x # xs) = (if P x then Some 0 else map_option Suc (find_index P xs))"

definition merge_work :: "(string \<Rightarrow> string \<Rightarrow> rat) \<Rightarrow> conn_work \<Rightarrow> conn_work list \<Rightarrow> conn_work list" where
  "merge_work lc w list = take 12 (js_sort (work_cmp lc) (case find_index (\<lambda>x. cw_id x = cw_id w) list of
     Some i \<Rightarrow> take i list @ w # drop (Suc i) list | None \<Rightarrow> w # list))"

definition known_work :: "conn_work \<Rightarrow> conn_work list \<Rightarrow> bool" where
  "known_work w list = (case find_index (\<lambda>x. cw_id x = cw_id w) list of Some i \<Rightarrow> cw_status (list ! i) = cw_status w | None \<Rightarrow> False)"

text \<open>An event of the stream: merged at once; a run that appears or changes its state also asks for a load
  1.5 seconds later, one for a burst.\<close>

definition work_pushed :: "(string \<Rightarrow> string \<Rightarrow> rat) \<Rightarrow> int \<Rightarrow> string \<Rightarrow> conn_work \<Rightarrow> imports_page \<Rightarrow> imports_page" where
  "work_pushed lc now type w s = (if type \<noteq> ''connector.work'' \<or> cw_id w = [] then s else
     (let t = set_works now (merge_work lc w (works_list s)) (s\<lparr>im_lastPush := Some now\<rparr>) in
      if known_work w (works_list s) then t else t\<lparr>im_refetch := Some (now + 1500)\<rparr>))"

definition refetch_fired :: "int \<Rightarrow> imports_page \<Rightarrow> imports_page" where
  "refetch_fired now s = (case im_refetch s of Some d \<Rightarrow> if d \<le> now then import_load now (s\<lparr>im_refetch := None\<rparr>) else s | None \<Rightarrow> s)"

definition load_every :: "int \<Rightarrow> imports_page \<Rightarrow> int" where
  "load_every now s = (if (case im_lastPush s of Some p \<Rightarrow> now - p < 30000 | None \<Rightarrow> False) then 30000
     else if importing s then 2000 else 15000)"

definition import_tick :: "int \<Rightarrow> imports_page \<Rightarrow> imports_page" where
  "import_tick now s = (if now - im_lastLoad s \<ge> load_every now s then import_load now s else s)"

definition recent_of :: "(string \<Rightarrow> string \<Rightarrow> rat) \<Rightarrow> recent_ioc list \<Rightarrow> recent_ioc list" where
  "recent_of lc xs = take 25 (js_sort (\<lambda>a b. lc (case rc_firstSeen b of Some t \<Rightarrow> t | None \<Rightarrow> []) (case rc_firstSeen a of Some t \<Rightarrow> t | None \<Rightarrow> [])) xs)"

datatype imports_op = ImConnectors "connector list option" | ImEngine "bool option" | ImJobs "import_job list option"
  | ImWorks "conn_work list option" | ImRecent "recent_ioc list option" | ImPush string conn_work | ImTick | ImRefetch | ImChanged

fun imports_step :: "(string \<Rightarrow> string \<Rightarrow> rat) \<Rightarrow> int \<times> imports_op \<Rightarrow> imports_page \<Rightarrow> imports_page" where
  "imports_step lc (now, ImConnectors r) s = s\<lparr>im_connectors := Some (case r of Some cs \<Rightarrow> cs | None \<Rightarrow> [])\<rparr>"
| "imports_step lc (now, ImEngine r) s = s\<lparr>im_engine := r\<rparr>"
| "imports_step lc (now, ImJobs r) s = s\<lparr>im_jobs := (case r of Some js \<Rightarrow> js | None \<Rightarrow> [])\<rparr>"
| "imports_step lc (now, ImWorks r) s = set_works now (case r of Some ws \<Rightarrow> ws | None \<Rightarrow> []) s"
| "imports_step lc (now, ImRecent r) s = s\<lparr>im_recent := Some (case r of Some xs \<Rightarrow> recent_of lc xs | None \<Rightarrow> [])\<rparr>"
| "imports_step lc (now, ImPush t w) s = work_pushed lc now t w s"
| "imports_step lc (now, ImTick) s = import_tick now s"
| "imports_step lc (now, ImRefetch) s = refetch_fired now s"
| "imports_step lc (now, ImChanged) s = import_load now s"

subsection \<open>Tiles\<close>

definition conns :: "imports_page \<Rightarrow> connector list" where "conns s = (case im_connectors s of Some cs \<Rightarrow> cs | None \<Rightarrow> [])"

definition totalIndicators :: "imports_page \<Rightarrow> int" where "totalIndicators s = sum_list (map cx_indicatorCount (conns s))"

definition okSources :: "imports_page \<Rightarrow> nat" where "okSources s = count_of (\<lambda>c. cx_status c = ''ok'') (conns s)"

definition failedSources :: "imports_page \<Rightarrow> nat" where "failedSources s = count_of (\<lambda>c. cx_status c = ''error'') (conns s)"

text \<open>The latest of the times, compared as texts.\<close>

definition lastImportAt :: "imports_page \<Rightarrow> string option" where
  "lastImportAt s = (let ts = js_sort text_cmp (concat (map (\<lambda>c. case cx_lastRun c of Some t \<Rightarrow> if t \<noteq> [] then [t] else [] | None \<Rightarrow> []) (conns s))) in
     if ts = [] then None else Some (last ts))"

text \<open>The seconds to the next sync; \<open>since\<close> gives the milliseconds since a time.\<close>

definition nextSyncIn :: "(string \<Rightarrow> int) \<Rightarrow> imports_page \<Rightarrow> rat option" where
  "nextSyncIn since s = (let due = map (\<lambda>c. case cx_lastRun c of
       Some t \<Rightarrow> if t = [] then 0 else max 0 (js_sub (conn_secs c) (of_int (js_floor (js_div (of_int (since t)) 1000))))
     | None \<Rightarrow> 0) (filter cx_enabled (conns s)) in if due = [] then None else Some (Min (set due)))"

definition lastWork :: "imports_page \<Rightarrow> conn_work option" where
  "lastWork s = find (\<lambda>w. \<not> work_runs w \<and> cw_processed w > 0) (works_list s)"

definition liveRate :: "imports_page \<Rightarrow> rat" where
  "liveRate s = js_sum (map (\<lambda>w. case cw_rate w of Some r \<Rightarrow> r | None \<Rightarrow> 0) (filter work_runs (works_list s)))"

definition importedToday :: "imports_page \<Rightarrow> int" where "importedToday s = sum_list (map cw_imported (works_list s))"

definition queued_work :: "imports_page \<Rightarrow> int" where
  "queued_work s = sum_list (map (\<lambda>w. max 0 (cw_expected w - cw_processed w)) (filter (\<lambda>w. work_runs w \<and> cw_expected w > 0) (works_list s)))"

definition import_tiles :: "(rat \<Rightarrow> string) \<Rightarrow> (string \<Rightarrow> int) \<Rightarrow> (conn_work \<Rightarrow> int option) \<Rightarrow> imports_page \<Rightarrow> (string \<times> string \<times> string) list" where
  "import_tiles loc since took s =
     [(''Sources syncing'', int_str (int (okSources s)) @ ''/'' @ int_str (int (length (conns s))),
        if failedSources s \<noteq> 0 then int_str (int (failedSources s)) @ '' failing'' else ''all healthy''),
      (''Last import'', case lastImportAt s of Some t \<Rightarrow> age_text (since t) | None \<Rightarrow> ''-'',
        case lastWork s of Some w \<Rightarrow> loc (of_int (cw_processed w)) @ '' in '' @ (case durationOf (took w) of Some t \<Rightarrow> t | None \<Rightarrow> ''-'')
          | None \<Rightarrow> if lastImportAt s \<noteq> None then ''most recent sync'' else ''no sync yet''),
      if importing s then (''Import rate'', loc (of_int (js_round (liveRate s))) @ ''/s'',
          if queued_work s > 0 then loc (of_int (queued_work s)) @ '' still queued'' else ''across running syncs'')
        else (''Next sync in'', case nextSyncIn since s of Some n \<Rightarrow> num_str n @ ''s'' | None \<Rightarrow> ''-'', ''soonest connector cadence''),
      (''Total indicators'', loc (of_int (totalIndicators s)),
        if importedToday s > 0 then loc (of_int (importedToday s)) @ '' new in recent syncs'' else int_str (int (length (conns s))) @ '' sources'')]"

datatype import_banner = NoBanner | FailBanner nat nat | AllSyncing nat int

definition import_state :: "imports_page \<Rightarrow> import_banner" where
  "import_state s = (if conns s = [] then NoBanner else if failedSources s > 0 then FailBanner (failedSources s) (length (conns s))
     else AllSyncing (length (conns s)) (totalIndicators s))"

datatype job_mark = JobBar rat | JobAlert | JobCheck

definition job_mark_of :: "import_job \<Rightarrow> job_mark" where
  "job_mark_of j = (if ij_progress j > 0 \<and> ij_progress j < 100 then JobBar (ij_progress j)
     else if str_includes (case obj_get JOB_STATUS (ij_status j) of Some c \<Rightarrow> c | None \<Rightarrow> []) ''threat'' then JobAlert else JobCheck)"

definition recent_link :: "recent_ioc \<Rightarrow> string" where
  "recent_link x = ''/dashboard/scanner?value='' @ encodeURIComponent (rc_value x) @ ''&run=1''"

definition recent_source :: "recent_ioc \<Rightarrow> string \<times> bool" where
  "recent_source x = (case rc_source x of Some t \<Rightarrow> if t = [] then ''unknown source'' else t | None \<Rightarrow> ''unknown source'', isSimulatedSource (rc_source x))"

subsection \<open>The merge of pushed works\<close>

lemma find_index_Some: "find_index P xs = Some i \<Longrightarrow> i < length xs \<and> P (xs ! i) \<and> (\<forall>j < i. \<not> P (xs ! j))"
proof (induction xs arbitrary: i)
  case (Cons x xs)
  then show ?case by (auto simp: nth_Cons' split: if_splits)
qed simp

lemma find_index_None: "find_index P xs = None \<longleftrightarrow> (\<forall>x \<in> set xs. \<not> P x)"
  by (induction xs) auto

definition replaced :: "conn_work \<Rightarrow> conn_work list \<Rightarrow> conn_work list" where
  "replaced w list = (case find_index (\<lambda>x. cw_id x = cw_id w) list of Some i \<Rightarrow> list[i := w] | None \<Rightarrow> w # list)"

lemma merge_work_eq: "merge_work lc w list = take 12 (js_sort (work_cmp lc) (replaced w list))"
  by (auto simp: merge_work_def replaced_def upd_conv_take_nth_drop dest: find_index_Some split: option.split)

lemma ids_replaced: "map cw_id (replaced w list) = (if cw_id w \<in> set (map cw_id list) then map cw_id list else cw_id w # map cw_id list)"
proof (cases "find_index (\<lambda>x. cw_id x = cw_id w) list")
  case None
  then have "cw_id w \<notin> set (map cw_id list)" by (auto simp: find_index_None)
  then show ?thesis using None by (simp add: replaced_def)
next
  case (Some i)
  then have i: "i < length list" "cw_id (list ! i) = cw_id w" using find_index_Some [OF Some] by auto
  then have "cw_id w \<in> set (map cw_id list)" by (metis length_map nth_map nth_mem)
  moreover have "map cw_id (list[i := w]) = map cw_id list" using i by (metis list_update_id map_update)
  ultimately show ?thesis using Some by (simp add: replaced_def)
qed

text \<open>A pushed list is never longer than the one that is asked for, no run is in it twice, and every entry is
  the pushed one or was there.\<close>

theorem merged_works:
  "length (merge_work lc w list) \<le> 12"
  "distinct (map cw_id list) \<Longrightarrow> distinct (map cw_id (merge_work lc w list))"
  "set (merge_work lc w list) \<subseteq> insert w (set list)"
proof -
  show "distinct (map cw_id (merge_work lc w list))" if "distinct (map cw_id list)"
    using that by (simp add: merge_work_eq ids_replaced take_map [symmetric] distinct_take del: take_map)
  have "set (merge_work lc w list) \<subseteq> set (replaced w list)" by (metis merge_work_eq set_js_sort set_take_subset)
  also have "\<dots> \<subseteq> insert w (set list)" by (cases "find_index (\<lambda>x. cw_id x = cw_id w) list") (simp_all add: replaced_def set_update_subset_insert)
  finally show "set (merge_work lc w list) \<subseteq> insert w (set list)" .
qed (simp add: merge_work_eq)

lemma work_sort:
  assumes "\<And>a b. lc a b = rank a - (rank b :: rat)"
  shows "js_sort (work_cmp lc) xs = sort_key (\<lambda>w. (\<not> work_runs w, - rank (cw_startedAt w))) xs"
  by (rule js_sort_key) (auto simp: work_cmp_def Let_def assms less_eq_prod_simp)

lemma running_first_take:
  assumes "sorted (map (\<lambda>w. \<not> work_runs w) ws)" "w \<in> set ws" "work_runs w" "count_of work_runs ws \<le> n"
  shows "w \<in> set (take n ws)"
proof -
  have "takeWhile work_runs ws = filter work_runs ws" using assms(1)
  proof (induction ws)
    case (Cons v ws)
    then show ?case by (cases "work_runs v") (auto simp: filter_empty_conv)
  qed simp
  then have t: "takeWhile work_runs ws = filter work_runs ws" .
  have w: "w \<in> set (takeWhile work_runs ws)" using assms(2,3) t by simp
  have "length (takeWhile work_runs ws) \<le> n" using assms(4) t by (simp add: count_of_def)
  then have "takeWhile work_runs ws = take (length (takeWhile work_runs ws)) (take n ws)"
    by (simp add: min_absorb1 takeWhile_eq_take [symmetric])
  then show ?thesis using w by (metis in_set_takeD)
qed

text \<open>A running import that is pushed is shown, as long as not more than twelve run.\<close>

theorem pushed_run_shown:
  assumes "\<And>a b. lc a b = rank a - (rank b :: rat)" "work_runs w" "count_of work_runs (replaced w list) \<le> 12"
  shows "w \<in> set (merge_work lc w list)"
proof -
  let ?k = "\<lambda>w. (\<not> work_runs w, - rank (cw_startedAt w))"
  let ?ws = "sort_key ?k (replaced w list)"
  have "w \<in> set (replaced w list)"
  proof (cases "find_index (\<lambda>x. cw_id x = cw_id w) list")
    case (Some i)
    then have "i < length list" using find_index_Some [OF Some] by blast
    then show ?thesis by (simp add: replaced_def Some set_update_memI)
  qed (simp add: replaced_def)
  then have m: "w \<in> set ?ws" by simp
  have "sorted (map ?k ?ws)" by (rule sorted_sort_key)
  then have s: "sorted (map (\<lambda>w. \<not> work_runs w) ?ws)" unfolding sorted_map
    by (rule sorted_wrt_mono_rel [rotated]) (auto simp: less_eq_prod_simp)
  have "count_of work_runs ?ws = count_of work_runs (replaced w list)"
    unfolding count_of_def by (metis filter_sort length_sort)
  then have "w \<in> set (take 12 ?ws)" using running_first_take [OF s m assms(2)] assms(3) by simp
  then show ?thesis by (simp add: merge_work_eq work_sort [OF assms(1)])
qed

lemma known_index: "known_work w list \<longleftrightarrow> (\<exists>i. find_index (\<lambda>x. cw_id x = cw_id w) list = Some i \<and> cw_status (list ! i) = cw_status w)"
  by (auto simp: known_work_def split: option.split)

lemma known_runs:
  assumes "known_work w list" "length list \<le> 12"
  shows "(\<exists>x \<in> set (merge_work lc w list). work_runs x) \<longleftrightarrow> (\<exists>x \<in> set list. work_runs x)"
proof -
  from assms(1) obtain i where i: "find_index (\<lambda>x. cw_id x = cw_id w) list = Some i" "cw_status (list ! i) = cw_status w"
    by (auto simp: known_index)
  then have l: "i < length list" using find_index_Some [OF i(1)] by simp
  have "map work_runs (list[i := w]) = map work_runs list"
    using l i(2) by (simp add: map_update work_runs_def list_update_same_conv)
  then have "work_runs ` set (list[i := w]) = work_runs ` set list" by (metis set_map)
  moreover have "set (merge_work lc w list) = set (list[i := w])" using assms(2) i(1) by (simp add: merge_work_eq replaced_def)
  ultimately show ?thesis by (metis (mono_tags, lifting) image_iff)
qed

text \<open>A run that advances is shown without any request, however often it is pushed: neither now nor later.\<close>

theorem progress_is_quiet:
  assumes "known_work w (works_list s)" "length (works_list s) \<le> 12"
  shows "im_calls (work_pushed lc now t w s) = im_calls s \<and> im_refetch (work_pushed lc now t w s) = im_refetch s"
proof -
  have "importing (s\<lparr>im_lastPush := p, im_works := Some (merge_work lc w (works_list s))\<rparr>) = importing s" for p
    using known_runs [OF assms] by (simp add: importing_def works_list_def)
  moreover have "importing (s\<lparr>im_lastPush := p\<rparr>) = importing s" for p by (simp add: importing_def works_list_def)
  ultimately show ?thesis using assms(1) by (simp add: work_pushed_def set_works_def Let_def)
qed

text \<open>A run that appears or ends asks for one load, 1.5 seconds after the last such event.\<close>

theorem burst_reloads_once:
  assumes "cw_id w \<noteq> []" "\<not> known_work w (works_list s)"
  shows "im_refetch (work_pushed lc now ''connector.work'' w s) = Some (now + 1500)"
    "d < now + 1500 \<Longrightarrow> refetch_fired d (work_pushed lc now ''connector.work'' w s) = work_pushed lc now ''connector.work'' w s"
  using assms by (simp_all add: work_pushed_def refetch_fired_def Let_def)

text \<open>The timer never loads before its time: at most every thirty seconds while events come, every two
  seconds while something is imported, else every fifteen.\<close>

theorem timer_loads_when_due:
  "im_calls (import_tick now s) \<noteq> im_calls s \<longleftrightarrow> load_every now s \<le> now - im_lastLoad s"
  "load_every now s \<in> {2000, 15000, 30000}"
  "im_lastPush s = Some p \<Longrightarrow> now - p < 30000 \<Longrightarrow> load_every now s = 30000"
  "importing s \<Longrightarrow> im_lastPush s = None \<Longrightarrow> load_every now s = 2000"
  by (simp_all add: import_tick_def import_load_def import_loads_def load_every_def)

text \<open>A silent stream is noticed: two loads by the timer are never more than half a minute and a tick apart.\<close>

theorem timer_never_starves:
  assumes "im_lastLoad s + 30000 \<le> now"
  shows "im_lastLoad (import_tick now s) = now"
  using assms timer_loads_when_due(2) [of now s] by (auto simp: import_tick_def import_load_def)

subsection \<open>What the page shows\<close>

text \<open>The works keep distinct ids in every run in which the backend answers with such lists.\<close>

fun works_lawful :: "imports_op \<Rightarrow> bool" where
  "works_lawful (ImWorks (Some ws)) = (distinct (map cw_id ws) \<and> length ws \<le> 12)"
| "works_lawful _ = True"

definition works_inv :: "imports_page \<Rightarrow> bool" where
  "works_inv s \<longleftrightarrow> distinct (map cw_id (works_list s)) \<and> length (works_list s) \<le> 12"

lemma works_list_set [simp]: "works_list (set_works now ws s) = ws"
  by (simp add: set_works_def works_list_def import_load_def Let_def)

lemma works_inv_step: "works_inv s \<Longrightarrow> works_lawful p \<Longrightarrow> works_inv (imports_step lc (now, p) s)"
proof (cases p)
  case (ImWorks r)
  assume "works_lawful p"
  then show ?thesis using ImWorks by (cases r) (simp_all add: works_inv_def)
next
  case (ImPush t w)
  assume "works_inv s"
  moreover have "works_list (t\<lparr>im_refetch := r\<rparr>) = works_list t" for t r by (simp add: works_list_def)
  ultimately show ?thesis using ImPush merged_works(1,2) by (simp add: works_inv_def work_pushed_def Let_def)
qed (auto simp: works_inv_def works_list_def import_tick_def import_load_def refetch_fired_def split: option.split)

theorem works_distinct:
  assumes "list_all (\<lambda>(now, p). works_lawful p) ps"
  shows "works_inv (fold (imports_step lc) ps (imports_mount t0))"
  using assms
proof (induction ps rule: rev_induct)
  case Nil
  then show ?case by (simp add: works_inv_def works_list_def imports_mount_def)
next
  case (snoc p ps)
  then show ?case by (cases p) (simp add: works_inv_step)
qed

text \<open>The backlog counts only what runs and is known to be left, and is never negative.\<close>

lemma queued_nonneg: "0 \<le> queued_work s"
  unfolding queued_work_def by (rule sum_list_nonneg) auto

theorem backlog_exact:
  "0 \<le> queued_work s \<and> (\<not> importing s \<longrightarrow> queued_work s = 0)"
proof -
  have "filter (\<lambda>w. work_runs w \<and> cw_expected w > 0) (works_list s) = []" if "\<not> importing s"
    using that by (auto simp: importing_def filter_empty_conv)
  then have "queued_work s = 0" if "\<not> importing s" using that by (simp add: queued_work_def)
  with queued_nonneg show ?thesis by blast
qed

lemma filter_some: "filter P xs \<noteq> [] \<Longrightarrow> \<exists>x \<in> set xs. P x"
  by (induction xs) (auto split: if_splits)

text \<open>The next sync is never in the past, and at once for an enabled source that has never run.\<close>

theorem next_sync_bounds:
  assumes "nextSyncIn since s = Some n"
  shows "0 \<le> n" "\<exists>c \<in> set (conns s). cx_enabled c"
    "c \<in> set (conns s) \<Longrightarrow> cx_enabled c \<Longrightarrow> cx_lastRun c = None \<Longrightarrow> n = 0"
proof -
  let ?due = "map (\<lambda>c. case cx_lastRun c of
       Some t \<Rightarrow> if t = [] then 0 else max 0 (js_sub (conn_secs c) (of_int (js_floor (js_div (of_int (since t)) 1000))))
     | None \<Rightarrow> 0) (filter cx_enabled (conns s))"
  have n: "?due \<noteq> []" "n = Min (set ?due)" using assms by (auto simp: nextSyncIn_def Let_def split: if_splits)
  have pos: "\<forall>x \<in> set ?due. 0 \<le> x" by (auto split: option.split)
  have "set ?due \<noteq> {}" unfolding set_empty by (rule n(1))
  then have "n \<in> set ?due" unfolding n(2) by (rule Min_in [OF finite_set])
  then show z: "0 \<le> n" using pos by blast
  have "filter cx_enabled (conns s) \<noteq> []" using n(1) by simp
  then show "\<exists>c \<in> set (conns s). cx_enabled c" by (rule filter_some)
  show "n = 0" if "c \<in> set (conns s)" "cx_enabled c" "cx_lastRun c = None"
  proof -
    have "0 \<in> set ?due" using that by force
    then have "n \<le> 0" unfolding n(2) by (intro Min_le) auto
    then show ?thesis using z by simp
  qed
qed

text \<open>When the connectors cannot be loaded the tile reads 0/0 and all healthy, and paused or idle sources are
  called syncing.\<close>

theorem outage_reads_healthy:
  "import_tiles loc since took (s\<lparr>im_connectors := Some []\<rparr>) ! 0 = (''Sources syncing'', ''0/0'', ''all healthy'')"
  "cx_status c = ''idle'' \<Longrightarrow> import_state (s\<lparr>im_connectors := Some [c]\<rparr>) = AllSyncing 1 (cx_indicatorCount c)"
proof -
  have "int_str 0 = ''0''" by code_simp
  then show "import_tiles loc since took (s\<lparr>im_connectors := Some []\<rparr>) ! 0 = (''Sources syncing'', ''0/0'', ''all healthy'')"
    by (simp add: import_tiles_def conns_def okSources_def failedSources_def count_of_def)
qed (simp add: import_state_def conns_def failedSources_def count_of_def totalIndicators_def)

text \<open>The seconds of a duration are rounded beside its minutes.\<close>

theorem minute_of_sixty_seconds: "durationOf (Some 119999) = Some ''1m 60s''"
  by code_simp

text \<open>The link of an imported indicator leaves its type out: the scanner looks it up as a URL, whatever it is.\<close>

theorem import_scanned_as_url:
  assumes "trim (rc_value x) \<noteq> []"
  shows "sp_flight (deep_link (url_query (recent_link x)) scan_init) = [(trim (rc_value x), ''url'')]"
proof -
  let ?ps = "[(''value'', rc_value x), (''run'', ''1'')]"
  have enc: "encodeURIComponent ''1'' = ''1''" by code_simp
  have "recent_link x = ''/dashboard/scanner'' @ CHR ''?'' # join ''&'' (map (\<lambda>(k, v). k @ ''='' @ encodeURIComponent v) ?ps)"
    by (simp add: recent_link_def enc)
  then have u: "url_query (recent_link x) = join ''&'' (map (\<lambda>(k, v). k @ ''='' @ encodeURIComponent v) ?ps)"
    by (simp only:) (rule url_query_path, simp)
  have p: "parse_params (url_query (recent_link x)) = ?ps"
    unfolding u by (rule query_pairs) (auto simp: is_alpha_def is_lower_def code_def)
  have q: "\<not> starts_with (url_query (recent_link x)) ''?''" unfolding u by (simp add: starts_with_def)
  have "trim [] = []" "toLowerCase [] = []" by (simp_all add: trim_def toLowerCase_def)
  then show ?thesis using assms by (simp add: deep_link_def p q handleScan_def scan_init_def Let_def SCAN_TYPES_def)
qed

text \<open>A cadence that is saved is the positive number in the field.\<close>

theorem cadence_positive:
  assumes "row_save can r = (r', [c])"
  shows "\<exists>n > 0. text_number (sy_interval r) = Some n \<and> c = patchConnector (cx_id (sy_conn r)) (JObj [(''interval_seconds'', JNum n)])"
  using assms by (auto simp: row_save_def row_dirty_def split: if_splits option.splits)

subsection \<open>The panel of the ingestion engine\<close>

record engine_panel =
  eg_available :: bool
  eg_sources :: "(string \<times> bool \<times> string) list"
  eg_fetching :: bool
  eg_syncing :: bool
  eg_message :: "string option"
  eg_timers :: nat
  eg_calls :: "call list"

definition engine_mount :: engine_panel where
  "engine_mount = \<lparr>eg_available = False, eg_sources = [], eg_fetching = False, eg_syncing = False, eg_message = None, eg_timers = 0,
     eg_calls = [fetchServicesStatus, fetchThreatSourceHealth]\<rparr>"

text \<open>One entry of the health report; \<open>date\<close> writes a time stamp as the browser does.\<close>

definition engine_source :: "(string \<Rightarrow> string) \<Rightarrow> string \<Rightarrow> json \<Rightarrow> string \<times> bool \<times> string" where
  "engine_source date name v =
     (let failures = js_number (nullish (json_get ''consecutiveFailures'' v) (nullish (json_get ''consecutive_failures'' v) (JNum 0)));
          ok = (if truthy (json_get ''status'' v) then js_string (json_get ''status'' v) = ''healthy'' else failures = Some 0);
          final = js_string (nullish (json_get ''lastSuccess'' v) (nullish (json_get ''last_success'' v)
            (nullish (json_get ''lastError'' v) (nullish (json_get ''last_error'' v) (JStr [])))))
      in (name, ok, if final \<noteq> [] then date final else ''-''))"

text \<open>The report is a list or a map; anything else ends in an error that is ignored.\<close>

definition engine_health :: "(string \<Rightarrow> string) \<Rightarrow> json \<Rightarrow> (string \<times> bool \<times> string) list option" where
  "engine_health date raw = (case raw of
     JArr vs \<Rightarrow> if JNull \<in> set vs \<or> JUndef \<in> set vs then None
       else Some (map (\<lambda>v. engine_source date (js_string (nullish (json_get ''source'' v) (JStr ''source''))) v) vs)
   | JObj ms \<Rightarrow> Some (map (\<lambda>(k, v). engine_source date k v) ms) | _ \<Rightarrow> None)"

definition health_answered :: "(string \<Rightarrow> string) \<Rightarrow> json option \<Rightarrow> engine_panel \<Rightarrow> engine_panel" where
  "health_answered date r s = (case r of None \<Rightarrow> s | Some v \<Rightarrow>
     if \<not> truthy (json_get ''available'' v) then s
     else (case engine_health date (json_get ''sources'' v) of Some xs \<Rightarrow> s\<lparr>eg_sources := xs\<rparr> | None \<Rightarrow> s))"

definition source_label :: "string \<Rightarrow> string" where "source_label = map (\<lambda>c. if c = CHR ''_'' then CHR '' '' else c)"

definition engine_flash :: "string \<Rightarrow> engine_panel \<Rightarrow> engine_panel" where
  "engine_flash t s = s\<lparr>eg_message := Some t, eg_timers := Suc (eg_timers s)\<rparr>"

definition run_fetch :: "engine_panel \<Rightarrow> engine_panel" where
  "run_fetch s = (if eg_fetching s then s else s\<lparr>eg_fetching := True, eg_calls := eg_calls s @ [triggerThreatFetch]\<rparr>)"

definition run_sync :: "engine_panel \<Rightarrow> engine_panel" where
  "run_sync s = (if eg_syncing s then s else s\<lparr>eg_syncing := True, eg_calls := eg_calls s @ [syncThreatIocs]\<rparr>)"

definition engine_error :: "(exn \<Rightarrow> string) \<Rightarrow> exn \<Rightarrow> string \<Rightarrow> string \<Rightarrow> string" where
  "engine_error eng e off other = (if str_includes (err_message eng e) ''unreachable'' then off else other)"

definition fetch_answered :: "(exn \<Rightarrow> string) \<Rightarrow> exn + json \<Rightarrow> engine_panel \<Rightarrow> engine_panel" where
  "fetch_answered eng r s = (if \<not> eg_fetching s then s else (engine_flash (case r of
      Inr v \<Rightarrow> ''Ingestion job started ('' @ js_string (nullish (json_get ''jobId'' v) (nullish (json_get ''job_id'' v) (JStr ''queued''))) @ '')''
    | Inl e \<Rightarrow> engine_error eng e ''Threat API is offline - start it on :8000 to ingest feeds.'' ''Could not start ingestion (admin role required).'') s)
    \<lparr>eg_fetching := False\<rparr>)"

definition sync_answered :: "(exn \<Rightarrow> string) \<Rightarrow> exn + json \<Rightarrow> engine_panel \<Rightarrow> engine_panel" where
  "sync_answered eng r s = (if \<not> eg_syncing s then s else (engine_flash (case r of
      Inr v \<Rightarrow> ''Synced '' @ js_string (json_get ''imported'' v) @ '' new indicators into CTI ('' @ js_string (json_get ''duplicates'' v) @ '' already known)''
    | Inl e \<Rightarrow> engine_error eng e ''Threat API is offline - start it on :8000 to sync indicators.'' ''Sync failed (admin role required).'') s)
    \<lparr>eg_syncing := False\<rparr>)"

datatype engine_op = EgStatus "json option" | EgHealth "json option" | EgFetch | EgSync | EgFetched "exn + json" | EgSynced "exn + json" | EgTimer

fun engine_step :: "(exn \<Rightarrow> string) \<Rightarrow> (string \<Rightarrow> string) \<Rightarrow> engine_op \<Rightarrow> engine_panel \<Rightarrow> engine_panel" where
  "engine_step eng date (EgStatus r) s = s\<lparr>eg_available := (case r of Some v \<Rightarrow> truthy (json_get ''available'' (json_get ''threatApi'' v)) | None \<Rightarrow> False)\<rparr>"
| "engine_step eng date (EgHealth r) s = health_answered date r s"
| "engine_step eng date EgFetch s = run_fetch s"
| "engine_step eng date EgSync s = run_sync s"
| "engine_step eng date (EgFetched r) s = fetch_answered eng r s"
| "engine_step eng date (EgSynced r) s = sync_answered eng r s"
| "engine_step eng date EgTimer s = (if eg_timers s = 0 then s else s\<lparr>eg_timers := eg_timers s - 1, eg_message := None\<rparr>)"

datatype engine_body = EngineOff | EngineQuiet | EngineSources "(string \<times> bool \<times> string) list"

definition engine_body_of :: "engine_panel \<Rightarrow> engine_body" where
  "engine_body_of s = (if \<not> eg_available s then EngineOff else if eg_sources s = [] then EngineQuiet
     else EngineSources (map (\<lambda>(n, ok, d). (source_label n, ok, d)) (eg_sources s)))"

text \<open>Each of the two actions has at most one call under way: the calls sent are the answers and the one that
  is pending.\<close>

definition sent :: "call \<Rightarrow> engine_panel \<Rightarrow> nat" where "sent c s = count_of (\<lambda>x. x = c) (eg_calls s)"

lemma engine_paths: "triggerThreatFetch \<noteq> syncThreatIocs" "syncThreatIocs \<noteq> triggerThreatFetch"
  "fetchServicesStatus \<noteq> triggerThreatFetch" "fetchServicesStatus \<noteq> syncThreatIocs" "fetchThreatSourceHealth \<noteq> triggerThreatFetch"
  "fetchThreatSourceHealth \<noteq> syncThreatIocs"
  by (simp_all add: triggerThreatFetch_def syncThreatIocs_def fetchServicesStatus_def fetchThreatSourceHealth_def)

theorem engine_calls_single:
  "sent triggerThreatFetch (fold (engine_step eng date) ps engine_mount)
     \<le> count_of (\<lambda>p. \<exists>r. p = EgFetched r) ps + (if eg_fetching (fold (engine_step eng date) ps engine_mount) then 1 else 0)"
proof (induction ps rule: rev_induct)
  case Nil
  then show ?case by (simp add: sent_def engine_mount_def count_of_def engine_paths)
next
  case (snoc p ps)
  then show ?case
    by (cases p) (auto simp: sent_def count_of_def run_fetch_def run_sync_def fetch_answered_def sync_answered_def engine_flash_def
      health_answered_def engine_paths split: option.split)
qed

text \<open>A source whose only record is an error message is dated by it.\<close>

theorem error_read_as_date:
  assumes "e \<noteq> []"
  shows "engine_source date n (JObj [(''consecutiveFailures'', JNum 3), (''lastError'', JStr e)]) = (n, False, date e)"
  using assms by (simp add: engine_source_def obj_get_def Let_def)

end
