(* ===== verification/Spec2Isabelle.thy ===== *)
theory Spec2Isabelle
  imports ApiClient Preferences ExperienceMode Session AuthPages SharedCache LiveStream Helpers NetworkMap IocImport BulkCheck Scanner SiemDetail
    SoarPage Overview Pricing AssetInventory IocLifecycle ConfigPanels ConfigPage ActorProfiles Playbooks SocMetrics SocConsole HuntPage CtiHunts VulnPage
    UsersPage RolesEditor SourcePolicy FeedSources Imports
begin

text \<open>
  ThreatOrbit: the operator's console of a security operations platform, the Next.js application
  under \<open>src/frontend\<close>. The paths below are relative to it. The console holds no data of its own:
  every page asks the Python services through one API client, keeps what was answered in React
  state, shows the operator's edits at once and corrects them by the answers. What makes it
  correct is therefore mostly what happens between a request and its answer, and what the pages
  compute from what they hold. That is what is modelled.

  \<^bold>\<open>How a page is modelled.\<close> The React state, the module variables and the part of
  \<open>localStorage\<close> a component uses are a record; a handler, an effect and the continuation of a
  call are functions on it; a call under way is data (a counter, a list, a set), so that its answer
  may come at any time, in any order, or fail. A page as a whole is a step function over a datatype
  of operations, or an inductive step relation, and its invariants hold for every sequence of
  steps. Errors are \<open>exn\<close> values in a sum, \<open>null\<close> and \<open>undefined\<close> are options. Markup, style
  sheets and animation are left out; texts, colours and figures that depend on data are kept.

  \<^bold>\<open>The language.\<close> \<open>Prelude\<close>: objects as association lists in insertion order, sets as lists
  without repetition. \<open>JsNumber\<close>: doubles as the rationals they denote with rounding \<open>fl\<close> after
  every operation, the \<open>Math\<close> functions, \<open>toFixed\<close> and number texts. \<open>JsString\<close>, \<open>JsRegex\<close>,
  \<open>JsArray\<close>, \<open>JsDate\<close>: the string functions and URL encoders, regular expressions with their
  backtracking matcher and its soundness and completeness, sorting with a comparator, time stamps.
  \<open>Json\<close>: the values that cross the network and their TypeScript types.

  \<^bold>\<open>The API client\<close> (\<open>lib/api.ts\<close>). \<open>ApiCore\<close>: the request, the treatment of an answer, the case
  mapping \<open>sc2cc\<close>. \<open>ApiTypes\<close>: one schema per interface. \<open>ApiEndpoints\<close>: one definition per
  endpoint function. \<open>ApiClient\<close>: the functions that do more than one call. Shown: an answer is
  data exactly on a 2xx status (\<open>api_outcome\<close>), what a caller reads under a name after the case
  mapping, and which declared fields are never there (\<open>answer_fields_read\<close>), tokens and query
  strings survive.

  \<^bold>\<open>Session.\<close> \<open>Session\<close> (\<open>lib/auth-context.tsx\<close>, \<open>components/dashboard/AuthGuard.tsx\<close>) and
  \<open>AuthPages\<close> (login, signup, verify pages): the token of the storage is that of the state in every
  reachable state, or the one a password change has issued since, which only the storage gets; the
  guard shows the console only to a user, and which overlaps break a session.

  \<^bold>\<open>Shared state in the browser.\<close> \<open>Preferences\<close> (\<open>lib/useDashboardTheme.ts\<close>, half of
  \<open>lib/useExperienceMode.ts\<close>): the contract of a preference that every component and tab shows is
  the locale \<open>synced_preference\<close>, interpreted by the three hooks. \<open>ExperienceMode\<close>: the half that
  talks to the backend. \<open>SharedCache\<close> (\<open>lib/usePermissions.ts\<close>,
  \<open>components/dashboard/EntityHoverCard.tsx\<close>): the locale \<open>shared_fetch\<close>, one call for many
  components, interpreted by both caches; an answer that is not truthy is no hit. \<open>LiveStream\<close> (\<open>lib/useLiveStream.ts\<close>): ticket,
  connection and reconnect as a step relation. \<open>Helpers\<close>: the small libraries under \<open>lib\<close>.

  \<^bold>\<open>Pages.\<close> \<open>NetworkMap\<close> (\<open>app/dashboard/assets/network/page.tsx\<close>): the graph, its merge with live
  assets, breadth-first search. \<open>IocImport\<close> (\<open>feeds/import\<close>): the indicator parser. \<open>BulkCheck\<close>
  (\<open>scanner/bulk\<close>) and \<open>Scanner\<close> (\<open>scanner\<close>): checks against the intel store. \<open>SiemData\<close>,
  \<open>SiemQueue\<close>, \<open>SiemDetail\<close> (\<open>siem\<close>): tables and coverage, the alert queue of the Power mode and the
  triage board of the Normal one (\<open>siem_content\<close>), one alert with its undo.
  \<open>SoarCases\<close>, \<open>SoarPage\<close> (\<open>soar\<close>): cases, playbooks, metrics. \<open>Overview\<close>
  (\<open>app/dashboard/page.tsx\<close>), \<open>AssetInventory\<close> (\<open>assets\<close>) and \<open>Pricing\<close> (\<open>app/pricing/page.tsx\<close>).
  \<open>SiemRules\<close> (\<open>siem/rules\<close>, \<open>components/dashboard/RuleEditor.tsx\<close>) and \<open>Suppressions\<close>
  (\<open>SuppressionsPanel.tsx\<close>): the rules with their editor, and their tuning; both lists delete at once
  and give the list back on a refusal, the contract of the locale \<open>optimistic_list\<close> (\<open>Optimistic\<close>).
  \<open>Feeds\<close> (\<open>feeds\<close>): threat cards, dismissals and the export, whose loop is shown to end against
  any server; \<open>IocLifecycle\<close> (\<open>IocLifecyclePanel.tsx\<close>): the indicator database and its drawer. Where a
  page renders twice before it settles, the state between the two renders is a state of the model
  (\<open>second_render\<close>, which a timer may precede, \<open>statuses_effect\<close>, \<open>address_tab\<close>).
  \<open>ConfigPage\<close> and \<open>ConfigPanels\<close> (\<open>config\<close>): the settings, the draft of the look, and the panels
  that talk to the backend themselves. \<open>CtiPage\<close> (\<open>cti\<close>, \<open>StoreCompositionPanel.tsx\<close>) with
  \<open>EntityGraph\<close> and \<open>CreateModal\<close> (the components of these names): actors, their graph, hunts, the heat
  of the sectors, the brief; \<open>ActorProfiles\<close> (\<open>cti/actors\<close>): the library, its filters and its drawer.
  \<open>Playbooks\<close> (\<open>soar/playbooks\<close>, \<open>PlaybookRunsPanel.tsx\<close>) and \<open>PlaybookBuilder\<close> (the component of
  this name): the list, its switches, runs and approvals, and the builder with its versions, which
  stops rendering when a stale drag has put \<open>undefined\<close> among the steps.
  \<open>SocMetrics\<close> (\<open>soar/metrics\<close>) draws its charts and tables, \<open>SocConsole\<close> (\<open>soc\<close>) is the queue of
  the floor, with the links by which its breaches and new cases are found on the other pages.
  \<open>HuntPage\<close> (\<open>siem/hunt\<close>, \<open>EventSearchPanel.tsx\<close>): queries, their results and the export. \<open>CtiHunts\<close> (\<open>cti/hunt\<close>): the hunt campaigns.
  \<open>VulnPage\<close> (\<open>assets/vulns\<close>): the vulnerabilities of the fleet and their look-up in the scanner.
  \<open>UsersPage\<close> (\<open>config/users\<close>) and \<open>RolesEditor\<close>: the roster with its changes and invitations, the roles.
  \<open>SourcePolicy\<close> (\<open>DecayRulesPanel.tsx\<close>, \<open>SourceGradingPanel.tsx\<close>): decay and trust. \<open>FeedSources\<close>
  (\<open>feeds/sources\<close>), \<open>Connectors\<close> (\<open>ConnectorsPanel.tsx\<close>) and \<open>Imports\<close> (\<open>feeds/imports\<close>,
  \<open>IngestionEnginePanel.tsx\<close>): where intelligence comes from, and the merge of what the live stream pushes.
  \<open>Csv\<close> holds the writer of the exports with a parser (line feeds as line ends) as its specification, \<open>JsonParse\<close> a parser
  of JSON that reads back what \<open>JSON.stringify\<close> writes.
  For each the lemmas give the functional behaviour of what is shown, an invariant of every run,
  what a refused call leaves behind, and, where the code does not do what it means to, a theorem
  that says what it does instead.

  \<^bold>\<open>Parameters.\<close> The answers of the backend, \<open>fetch\<close>, the clock, the zone, the browser's URL
  parser, \<open>localeCompare\<close>, SHA-256 and the texts of the browser's own errors are arguments.

  \<^bold>\<open>Bounds and fuel.\<close> Characters are code units below 256, case conversion is ASCII. Doubles have
  no exponent range. The matcher and the search need no fuel the code does not have: \<open>bfs\<close>
  terminates because a node enters the queue once, \<open>unwind\<close> is given as many steps as there are
  entries, and \<open>shortestPath_correct\<close> shows that this never runs out. Timers are deadlines in
  milliseconds.

  \<^bold>\<open>Not modelled.\<close> The Python services (\<open>dashboard_api\<close>, \<open>threat_api\<close>, \<open>log_api\<close>, \<open>collector\<close>),
  deployment and tests; the marketing and documentation pages, which are static; and, not yet, the
  malware, account and administration pages and the navigation shell, of which only the calls in
  \<open>ApiEndpoints\<close> are modelled.
\<close>

subsection \<open>From a rule to its alerts\<close>

lemma rule_name: "dr_name (normalizeRule r) = rule_str (json_get ''name'' r) ''Unnamed rule''"
  by (simp add: normalizeRule_def Let_def)

text \<open>C26: the link "Related Alerts" of a rule leads to its alerts: whatever the name of the rule, in
  the Power mode the page it opens shows the rows of the alert queue, and among them every loaded
  alert the rule has raised.\<close>

theorem related_alerts_found:
  assumes "a \<in> set xs" "sa_ruleName a = dr_name (normalizeRule j)"
  shows "\<exists>rows. siem_content tz False (siem_run (related_query (normalizeRule j)) False [AlertsAnswer xs k]) = QueueRows rows \<and> a \<in> set rows"
proof -
  let ?q = "related_query (normalizeRule j)"
  have p: "parse_params ?q = [(''q'', dr_name (normalizeRule j))]"
    using query_pairs [of "[(''q'', dr_name (normalizeRule j))]"] by (simp add: related_query_def is_alpha_def is_lower_def code_def)
  have ne: "dr_name (normalizeRule j) \<noteq> []"
    using rule_str_nonempty [of "''Unnamed rule''" "json_get ''name'' j"] by (auto simp: rule_name)
  have s: "siem_run ?q False [AlertsAnswer xs k] = (siem_mount ?q)\<lparr>SiemQueue.sp_alerts := xs, sp_total := k, sp_loaded := True,
      sp_pending := False, sp_linked := True\<rparr>"
    using assms(1) by (auto simp: siem_run_def alerts_answered_def follow_link_def siem_mount_def query_param_def p obj_get_def Let_def)
  have "sa_ruleName a \<in> set (pivot_fields a)" by (simp add: pivot_fields_def)
  then have "a \<in> set (filteredAlerts tz False (siem_run ?q False [AlertsAnswer xs k]))"
    unfolding s using assms ne
    by (intro pivot_shown [of _ a "sa_ruleName a"]) (simp_all add: siem_mount_def query_param_def p obj_get_def includes_self)
  moreover have "sp_tab (siem_run ?q False [AlertsAnswer xs k]) = Queue" unfolding s by (simp add: siem_mount_def)
  ultimately show ?thesis by (simp add: siem_content_def)
qed

theorem related_alerts_found_witness:
  "\<exists>rows. siem_content 0 False (siem_run (related_query (normalizeRule (JObj [(''name'', JStr (sa_ruleName sample_alert))])))
     False [AlertsAnswer [sample_alert] 1]) = QueueRows rows \<and> sample_alert \<in> set rows"
  by (rule related_alerts_found) (simp_all add: rule_name obj_get_def sample_alert_def)

subsection \<open>From an indicator to its scan\<close>

text \<open>C34: the indicators of a threat card lead to the scanner: following the link starts, at once and
  without the check of typed input, the scan of exactly that value, under the kind the card
  recognised, and as a URL when it recognised none.\<close>

theorem chip_looked_up:
  assumes "trim v \<noteq> []"
  shows "sp_flight (deep_link (url_query (lookup_href v)) scan_init)
       = [(trim v, case classifyIoc v of Some t \<Rightarrow> t | None \<Rightarrow> ''url'')]
     \<and> sp_query (deep_link (url_query (lookup_href v)) scan_init) = trim v"
proof -
  let ?ps = "(''value'', v) # (case classifyIoc v of Some t \<Rightarrow> [(''type'', t)] | None \<Rightarrow> []) @ [(''run'', ''1'')]"
  have t: "t \<in> {''ip'', ''cve'', ''hash'', ''url'', ''domain''}" if "classifyIoc v = Some t" for t
    using that by (auto simp: classifyIoc_def split: if_splits)
  have enc: "t \<in> {''ip'', ''cve'', ''hash'', ''url'', ''domain'', ''1''} \<Longrightarrow> encodeURIComponent t = t" for t
    by (elim insertE emptyE; simp only:) code_simp+
  have "lookup_href v = ''/dashboard/scanner'' @ CHR ''?'' # join ''&'' (map (\<lambda>(k, v). k @ ''='' @ encodeURIComponent v) ?ps)"
    using t by (auto simp: lookup_href_def enc split: option.splits)
  then have u: "url_query (lookup_href v) = join ''&'' (map (\<lambda>(k, v). k @ ''='' @ encodeURIComponent v) ?ps)"
    by (simp only:) (rule url_query_path, simp)
  have p: "parse_params (url_query (lookup_href v)) = ?ps"
    unfolding u by (rule query_pairs) (auto simp: is_alpha_def is_lower_def code_def split: option.splits)
  have q: "\<not> starts_with (url_query (lookup_href v)) ''?''" unfolding u by (cases "classifyIoc v") (simp_all add: starts_with_def)
  have e: "toLowerCase (trim []) = []" "[] \<notin> set SCAN_TYPES" by code_simp+
  have low: "toLowerCase (trim t) = t" if "t \<in> {''ip'', ''cve'', ''hash'', ''url'', ''domain''}" for t
    using that by (elim insertE emptyE; simp only:) code_simp+
  show ?thesis
  proof (cases "classifyIoc v")
    case None
    then show ?thesis using assms
      by (simp add: deep_link_def p q handleScan_def scan_init_def Let_def e)
  next
    case (Some k)
    then show ?thesis using assms low [OF t [OF Some]] t [OF Some]
      by (auto simp: deep_link_def p q handleScan_def scan_init_def Let_def)
  qed
qed

theorem chip_looked_up_witness:
  "sp_flight (deep_link (url_query (lookup_href ''203.0.113.7'')) scan_init) = [(''203.0.113.7'', ''ip'')]"
proof -
  have "trim ''203.0.113.7'' = ''203.0.113.7''" "classifyIoc ''203.0.113.7'' = Some ''ip''" by code_simp+
  with chip_looked_up [of "''203.0.113.7''"] show ?thesis by simp
qed

end
